(* ===== verification/Prelude.thy ===== *)
theory Prelude
  imports Main "HOL-Library.Word" "HOL-Library.Multiset"
begin

text \<open>
  What every component of the development shares:
  \<^item> the machine integers of the runtime. A \<open>u128\<close> balance is a natural number and every
    operation writes its width out: \<open>checked_add\<close> and its kin return \<open>None\<close> where the Rust
    method does, \<open>saturating_add\<close> clamps, and \<open>wrapping_add\<close> is Rust's plain \<open>+\<close> as the
    runtime executes it (the workspace's release profile sets no overflow checks, so \<open>+\<close>,
    \<open>-\<close> and \<open>*\<close> wrap modulo \<open>2 ^ 128\<close>). Asset identifiers and counters are words of their
    own width;
  \<^item> Rust's \<open>Result\<close> as a sum (\<open>Inl\<close> is \<open>Err\<close>), alone or paired with the storage after the
    call: at the version of the framework this code uses, a call that returns \<open>Err\<close> keeps
    the storage writes it made before, unless it is marked \<open>#[transactional]\<close>;
  \<^item> sums of balances over a finite set of accounts, for the conservation theorems.
\<close>

section \<open>Collections of rules\<close>

named_theorems checked_simps \<open>characterisations of the checked, saturating and wrapping operations\<close>
named_theorems result_simps \<open>how a chain of fallible calls succeeds\<close>

section \<open>Machine integers\<close>

type_synonym u8 = "8 word"
type_synonym u32 = "32 word"
type_synonym u128 = nat

definition U128_MAX :: nat where
  "U128_MAX = 340282366920938463463374607431768211455"

definition U64_MAX :: nat where
  "U64_MAX = 18446744073709551615"

definition checked_add :: "u128 \<Rightarrow> u128 \<Rightarrow> u128 option" where
  "checked_add a b = (if a + b \<le> U128_MAX then Some (a + b) else None)"

definition checked_sub :: "u128 \<Rightarrow> u128 \<Rightarrow> u128 option" where
  "checked_sub a b = (if b \<le> a then Some (a - b) else None)"

definition checked_mul :: "u128 \<Rightarrow> u128 \<Rightarrow> u128 option" where
  "checked_mul a b = (if a * b \<le> U128_MAX then Some (a * b) else None)"

definition checked_div :: "u128 \<Rightarrow> u128 \<Rightarrow> u128 option" where
  "checked_div a b = (if b = 0 then None else Some (a div b))"

definition saturating_add :: "u128 \<Rightarrow> u128 \<Rightarrow> u128" where
  "saturating_add a b = min (a + b) U128_MAX"

definition saturating_sub :: "u128 \<Rightarrow> u128 \<Rightarrow> u128" where
  "saturating_sub a b = a - b"

definition wrapping_add :: "u128 \<Rightarrow> u128 \<Rightarrow> u128" where
  "wrapping_add a b = (a + b) mod (U128_MAX + 1)"

definition wrapping_sub :: "u128 \<Rightarrow> u128 \<Rightarrow> u128" where
  "wrapping_sub a b = (if b \<le> a then a - b else U128_MAX + 1 - (b - a))"

definition wrapping_mul :: "u128 \<Rightarrow> u128 \<Rightarrow> u128" where
  "wrapping_mul a b = (a * b) mod (U128_MAX + 1)"

section \<open>Results\<close>

definition ok_or :: "'a option \<Rightarrow> 'e \<Rightarrow> 'e + 'a" where
  "ok_or x e = (case x of None \<Rightarrow> Inl e | Some a \<Rightarrow> Inr a)"

definition is_ok :: "'e + 'a \<Rightarrow> bool" where
  "is_ok r = (case r of Inl _ \<Rightarrow> False | Inr _ \<Rightarrow> True)"

text \<open>The \<open>?\<close> operator on a pure result.\<close>

definition try_bind :: "'e + 'a \<Rightarrow> ('a \<Rightarrow> 'e + 'b) \<Rightarrow> 'e + 'b" where
  "try_bind r k = (case r of Inl e \<Rightarrow> Inl e | Inr a \<Rightarrow> k a)"

text \<open>The \<open>?\<close> operator on the result of a call that also changed the storage.\<close>

definition and_then ::
  "('e + 'a) \<times> 's \<Rightarrow> ('a \<Rightarrow> 's \<Rightarrow> ('e + 'b) \<times> 's) \<Rightarrow> ('e + 'b) \<times> 's" where
  "and_then r k = (case r of (Inl e, s) \<Rightarrow> (Inl e, s) | (Inr a, s) \<Rightarrow> k a s)"

text \<open>\<open>#[transactional]\<close>: the storage is restored when the call returns \<open>Err\<close>.\<close>

definition transactional :: "('s \<Rightarrow> ('e + 'a) \<times> 's) \<Rightarrow> 's \<Rightarrow> ('e + 'a) \<times> 's" where
  "transactional f s = (case f s of (Inl e, _) \<Rightarrow> (Inl e, s) | (Inr a, s') \<Rightarrow> (Inr a, s'))"

text \<open>Run a call on a part of the storage: \<open>get\<close> reads the part, \<open>put\<close> writes it back.\<close>

definition zoom ::
  "('s \<Rightarrow> 't) \<Rightarrow> ('t \<Rightarrow> 's \<Rightarrow> 's) \<Rightarrow> ('t \<Rightarrow> 'r \<times> 't) \<Rightarrow> 's \<Rightarrow> 'r \<times> 's" where
  "zoom get put f s = (case f (get s) of (r, t) \<Rightarrow> (r, put t s))"

section \<open>Lemmas on machine integers\<close>

lemma checked_add_eq_Some [checked_simps, simp]:
  "checked_add a b = Some c \<longleftrightarrow> c = a + b \<and> a + b \<le> U128_MAX"
  by (auto simp: checked_add_def)

lemma checked_add_eq_None [checked_simps, simp]:
  "checked_add a b = None \<longleftrightarrow> U128_MAX < a + b"
  by (auto simp: checked_add_def)

lemma checked_sub_eq_Some [checked_simps, simp]:
  "checked_sub a b = Some c \<longleftrightarrow> c = a - b \<and> b \<le> a"
  by (auto simp: checked_sub_def)

lemma checked_sub_eq_None [checked_simps, simp]:
  "checked_sub a b = None \<longleftrightarrow> a < b"
  by (auto simp: checked_sub_def)

lemma checked_mul_eq_Some [checked_simps, simp]:
  "checked_mul a b = Some c \<longleftrightarrow> c = a * b \<and> a * b \<le> U128_MAX"
  by (auto simp: checked_mul_def)

lemma checked_mul_eq_None [checked_simps, simp]:
  "checked_mul a b = None \<longleftrightarrow> U128_MAX < a * b"
  by (auto simp: checked_mul_def)

lemma checked_div_eq_Some [checked_simps, simp]:
  "checked_div a b = Some c \<longleftrightarrow> c = a div b \<and> b \<noteq> 0"
  by (auto simp: checked_div_def)

lemma checked_div_eq_None [checked_simps, simp]:
  "checked_div a b = None \<longleftrightarrow> b = 0"
  by (auto simp: checked_div_def)

declare saturating_sub_def [simp]

lemma saturating_add_le: "saturating_add a b \<le> U128_MAX"
  by (simp add: saturating_add_def)

lemma saturating_add_exact: "a + b \<le> U128_MAX \<Longrightarrow> saturating_add a b = a + b"
  by (simp add: saturating_add_def)

lemma saturating_add_ge: "a \<le> U128_MAX \<Longrightarrow> a \<le> saturating_add a b"
  by (simp add: saturating_add_def)

lemma wrapping_add_exact: "a + b \<le> U128_MAX \<Longrightarrow> wrapping_add a b = a + b"
  by (simp add: wrapping_add_def)

lemma wrapping_add_le: "wrapping_add a b \<le> U128_MAX"
proof -
  have "(a + b) mod Suc U128_MAX < Suc U128_MAX" by (rule mod_less_divisor) simp
  then show ?thesis by (simp add: wrapping_add_def)
qed

lemma wrapping_sub_exact: "b \<le> a \<Longrightarrow> wrapping_sub a b = a - b"
  by (simp add: wrapping_sub_def)

lemma wrapping_mul_exact: "a * b \<le> U128_MAX \<Longrightarrow> wrapping_mul a b = a * b"
  by (simp add: wrapping_mul_def)

text \<open>A wrapped difference of two values that fit is far above both: it has \<open>2 ^ 128\<close> added.\<close>

lemma wrapping_sub_underflow:
  "a < b \<Longrightarrow> b \<le> U128_MAX \<Longrightarrow> wrapping_sub a b = U128_MAX + 1 + a - b"
  by (simp add: wrapping_sub_def)

lemma radix_256:
  fixes u :: nat
  assumes "u < 4294967296"
  shows "u mod 256 + 256 * (u div 256 mod 256 + 256 *
      (u div 65536 mod 256 + 256 * (u div 16777216 mod 256))) = u"
proof -
  have 2: "u div 65536 = u div 256 div 256" and 3: "u div 16777216 = u div 65536 div 256"
    by (simp_all flip: div_mult2_eq)
  have "u div 16777216 < 256" using assms by (simp add: less_mult_imp_div_less)
  then have "u div 16777216 mod 256 = u div 16777216" by simp
  then show ?thesis by (simp only: 2 3 mod_mult_div_eq)
qed

section \<open>Lemmas on results\<close>

lemma ok_or_eq_Inr [result_simps, simp]: "ok_or x e = Inr a \<longleftrightarrow> x = Some a"
  by (auto simp: ok_or_def split: option.splits)

lemma ok_or_eq_Inl [result_simps, simp]: "ok_or x e = Inl e' \<longleftrightarrow> x = None \<and> e' = e"
  by (auto simp: ok_or_def split: option.splits)

lemma ok_or_simps [simp]: "ok_or None e = Inl e" "ok_or (Some a) e = Inr a"
  by (simp_all add: ok_or_def)

lemma is_ok_simps [simp]: "is_ok (Inl e) = False" "is_ok (Inr a) = True"
  by (simp_all add: is_ok_def)

lemma try_bind_simps [simp]: "try_bind (Inl e) k = Inl e" "try_bind (Inr a) k = k a"
  by (simp_all add: try_bind_def)

lemma try_bind_eq_Inr [result_simps]:
  "try_bind r k = Inr b \<longleftrightarrow> (\<exists>a. r = Inr a \<and> k a = Inr b)"
  by (auto simp: try_bind_def split: sum.splits)

lemma try_bind_eq_Inl [result_simps]:
  "try_bind r k = Inl e \<longleftrightarrow> r = Inl e \<or> (\<exists>a. r = Inr a \<and> k a = Inl e)"
  by (auto simp: try_bind_def split: sum.splits)

lemma and_then_simps [simp]:
  "and_then (Inl e, s) k = (Inl e, s)" "and_then (Inr a, s) k = k a s"
  by (simp_all add: and_then_def)

lemma and_then_eq_Inr [result_simps]:
  "and_then r k = (Inr b, s') \<longleftrightarrow> (\<exists>a s. r = (Inr a, s) \<and> k a s = (Inr b, s'))"
  by (auto simp: and_then_def split: prod.splits sum.splits)

lemma and_then_eq_Inl [result_simps]:
  "and_then r k = (Inl e, s') \<longleftrightarrow> r = (Inl e, s') \<or> (\<exists>a s. r = (Inr a, s) \<and> k a s = (Inl e, s'))"
  by (auto simp: and_then_def split: prod.splits sum.splits)

lemma transactional_eq_Inr [result_simps]:
  "transactional f s = (Inr a, s') \<longleftrightarrow> f s = (Inr a, s')"
  by (auto simp: transactional_def split: prod.splits sum.splits)

lemma transactional_eq_Inl [result_simps]:
  "transactional f s = (Inl e, s') \<longleftrightarrow> s' = s \<and> (\<exists>t. f s = (Inl e, t))"
  by (auto simp: transactional_def split: prod.splits sum.splits)

lemma zoom_eq: "zoom get put f s = (r, s') \<longleftrightarrow> (\<exists>t. f (get s) = (r, t) \<and> s' = put t s)"
  by (auto simp: zoom_def split: prod.splits)

section \<open>Sums over accounts\<close>

lemma sum_fun_upd:
  fixes f :: "'a \<Rightarrow> nat"
  assumes "finite A" and "x \<in> A"
  shows "sum (f(x := v)) A + f x = sum f A + v"
proof -
  have "sum (f(x := v)) (A - {x}) = sum f (A - {x})"
    by (rule sum.cong) auto
  moreover have "sum (f(x := v)) A = (f(x := v)) x + sum (f(x := v)) (A - {x})"
    using assms by (rule sum.remove)
  moreover have "sum f A = f x + sum f (A - {x})"
    using assms by (rule sum.remove)
  ultimately show ?thesis by simp
qed

lemma sum_fun_upd_notin: "x \<notin> A \<Longrightarrow> sum (f(x := v)) A = sum f A"
  by (rule sum.cong) auto

lemma sum_move:
  fixes f :: "'a \<Rightarrow> nat"
  assumes "finite A" and "x \<in> A" and "y \<in> A" and "x \<noteq> y" and "n \<le> f x"
  shows "sum (f(x := f x - n, y := f y + n)) A = sum f A"
proof -
  let ?g = "f(x := f x - n)"
  have "sum (?g(y := f y + n)) A + ?g y = sum ?g A + (f y + n)"
    using assms(1,3) by (rule sum_fun_upd)
  moreover have "sum ?g A + f x = sum f A + (f x - n)"
    using assms(1,2) by (rule sum_fun_upd)
  ultimately show ?thesis using assms(4,5) by simp
qed

lemma member_le_sum_nat:
  fixes f :: "'a \<Rightarrow> nat"
  shows "finite A \<Longrightarrow> x \<in> A \<Longrightarrow> f x \<le> sum f A"
  by (rule member_le_sum) auto

end
