(* ===== verification/Runtime_Types.thy ===== *)
theory Runtime_Types
  imports Prelude
begin

text \<open>
  The types the pallets exchange through the framework: the error enumerations the pallets
  declare, the \<open>DispatchError\<close> a call returns (one constructor per pallet for its
  \<open>Module\<close> variant, the framework's own variants beside them), the identifiers and byte
  strings, and the operations of the framework the calls rely on, as a record of functions:
  that code is not part of the repository, so it is an argument of every definition that
  uses it.
\<close>

section \<open>Identifiers and byte strings\<close>

type_synonym asset_id = u32
type_synonym balance = u128
type_synonym bytes = "u8 list"
type_synonym block_number = u32

section \<open>Errors of the pallets\<close>

datatype registry_error = NoIdAvailable

datatype xyk_error =
    CannotCreatePoolWithSameAssets
  | CannotCreatePoolWithZeroLiquidity
  | CannotCreatePoolWithZeroInitialPrice
  | CreatePoolAssetAmountInvalid
  | CannotRemoveLiquidityWithZero
  | CannotAddZeroLiquidity
  | InvalidMintedLiquidity
  | InvalidLiquidityAmount
  | AssetBalanceLimitExceeded
  | InsufficientAssetBalance
  | InsufficientPoolAssetBalance
  | InsufficientNativeCurrencyBalance
  | TokenPoolNotFound
  | TokenPoolAlreadyExists
  | AddAssetAmountInvalid
  | RemoveAssetAmountInvalid
  | SellAssetAmountInvalid
  | BuyAssetAmountInvalid
  | FeeAmountInvalid
  | CannotApplyDiscount
  | MaxOutRatioExceeded
  | MaxInRatioExceeded

datatype exchange_error =
    Exchange_TokenPoolNotFound
  | Exchange_InsufficientAssetBalance
  | Exchange_AssetBalanceLimitExceeded
  | ZeroSpotPrice
  | MinimumTradeLimitNotReached

datatype balances_error =
    VestingBalance
  | LiquidityRestrictions
  | Overflow
  | InsufficientBalance
  | ExistentialDeposit
  | KeepAlive
  | ExistingVestingSchedule
  | DeadAccount

datatype claims_error =
    InvalidEthereumSignature
  | NoClaimOrAlreadyClaimed
  | BalanceOverflow

datatype multi_payment_error =
    UnsupportedCurrency
  | ZeroBalance
  | NotAllowed
  | AlreadyAccepted
  | CoreAssetNotAllowed
  | AlreadyMember
  | NotAMember

datatype faucet_error =
    RampageMintNotAllowed
  | MaximumMintLimitReached

text \<open>
  \<open>sp_runtime::DispatchError\<close>. The framework's variants keep their names; its \<open>Module\<close>
  variant, which carries the index of the pallet and of the error, is one constructor per
  pallet of the repository. \<open>Other\<close> also stands for the errors of pallets outside it.
  \<open>Panic\<close> is no value of that type: it is a trap of the runtime (an \<open>unwrap\<close> or \<open>expect\<close>
  that fails), kept apart so that it can be proved not to happen.
\<close>

datatype dispatch_error =
    Panic string
  | Other string
  | CannotLookup
  | BadOrigin
  | ConsumerRemaining
  | NoProviders
  | AssetRegistry registry_error
  | XYK xyk_error
  | Exchange exchange_error
  | Balances balances_error
  | Claims claims_error
  | MultiTransactionPayment multi_payment_error
  | Faucet faucet_error

section \<open>The framework's operations on origins\<close>

text \<open>
  \<open>frame_system\<close>'s \<open>ensure_signed\<close> and \<open>ensure_root\<close>, and the runtime's account \<open>Lookup\<close>,
  for a type of origins and of lookup sources the model does not fix.
\<close>

record ('o, 'src, 'acc) frame_ops =
  ensure_signed :: "'o \<Rightarrow> dispatch_error + 'acc"
  ensure_root :: "'o \<Rightarrow> dispatch_error + unit"
  lookup_account :: "'src \<Rightarrow> dispatch_error + 'acc"

text \<open>
  What the framework documents of them: an origin is at most one of root and signed, and a
  refused origin is the error \<open>BadOrigin\<close>.
\<close>

definition origin_exclusive :: "('o, 'src, 'acc) frame_ops \<Rightarrow> bool" where
  "origin_exclusive F \<longleftrightarrow>
     (\<forall>orig. (ensure_root F orig = Inl BadOrigin \<or> ensure_root F orig = Inr ()) \<and>
          (ensure_root F orig = Inr () \<longrightarrow> ensure_signed F orig = Inl BadOrigin))"

end
