(* ===== verification/Primitives.thy ===== *)
theory Primitives
  imports Runtime_Types
begin

text \<open>
  \<open>src/primitives/src\<close>: the constants and data of the exchange (\<open>lib.rs\<close>), the asset pair
  with its canonical order and share-token name (\<open>asset.rs\<close>), the fee arithmetic (module
  \<open>fee\<close> of \<open>lib.rs\<close>) and the \<open>AMM\<close> trait with its two default methods (\<open>traits.rs\<close>) as a
  record of operations, which the exchange and the fee payment take as an argument and the
  XYK pallet provides. The lemmas show the bounds of the fees and that a pair's share-token
  name determines its unordered pair.
\<close>

section \<open>Constants\<close>

definition CORE_ASSET_ID :: asset_id where
  "CORE_ASSET_ID = 0"

definition MAX_OUT_RATIO :: u128 where
  "MAX_OUT_RATIO = 3"

definition MAX_IN_RATIO :: u128 where
  "MAX_IN_RATIO = 3"

definition MIN_TRADING_LIMIT :: balance where
  "MIN_TRADING_LIMIT = 1000"

section \<open>Asset pairs\<close>

record asset_pair =
  asset_in :: asset_id
  asset_out :: asset_id

definition asset_pair_new :: "asset_id \<Rightarrow> asset_id \<Rightarrow> asset_pair" where
  "asset_pair_new a b = \<lparr>asset_in = a, asset_out = b\<rparr>"

definition ordered_pair :: "asset_pair \<Rightarrow> asset_id \<times> asset_id" where
  "ordered_pair p = (if asset_in p \<le> asset_out p then (asset_in p, asset_out p)
                     else (asset_out p, asset_in p))"

text \<open>Rust's \<open>u32::to_le_bytes\<close> and its inverse \<open>from_le_bytes\<close>.\<close>

definition to_le_bytes :: "u32 \<Rightarrow> bytes" where
  "to_le_bytes x = [ucast x, ucast (drop_bit 8 x), ucast (drop_bit 16 x), ucast (drop_bit 24 x)]"

definition le_bytes_value :: "bytes \<Rightarrow> nat" where
  "le_bytes_value bs = foldr (\<lambda>b acc. unat b + 256 * acc) bs 0"

definition asset_pair_name :: "asset_pair \<Rightarrow> bytes" where
  "asset_pair_name p =
     (let (asset_a, asset_b) = ordered_pair p
      in to_le_bytes asset_a @ [72, 68, 84] @ to_le_bytes asset_b)"

section \<open>Intentions\<close>

datatype intention_type = SELL | BUY

definition intention_type_default :: intention_type where
  "intention_type_default = SELL"

record 'acc exchange_intention =
  i_who :: 'acc
  i_assets :: asset_pair
  i_amount_in :: balance
  i_amount_out :: balance
  i_trade_limit :: balance
  i_discount :: bool
  i_sell_or_buy :: intention_type
  i_intention_id :: bytes

section \<open>Fees\<close>

record fee =
  numerator :: u32
  denominator :: u32

definition fee_default :: fee where
  "fee_default = \<lparr>numerator = 2, denominator = 1000\<rparr>"

definition with_fee :: "balance \<Rightarrow> fee \<Rightarrow> balance option" where
  "with_fee self f =
     Option.bind (checked_mul self (unat (denominator f) + unat (numerator f)))
       (\<lambda>x. checked_div x (unat (denominator f)))"

definition without_fee :: "balance \<Rightarrow> fee \<Rightarrow> balance option" where
  "without_fee self f =
     Option.bind (checked_mul self (unat (denominator f)))
       (\<lambda>x. checked_div x (unat (denominator f) + unat (numerator f)))"

definition just_fee :: "balance \<Rightarrow> fee \<Rightarrow> balance option" where
  "just_fee self f =
     Option.bind (checked_mul self (unat (numerator f)))
       (\<lambda>x. checked_div x (unat (denominator f)))"

definition discounted_fee :: "balance \<Rightarrow> balance option" where
  "discounted_fee self = just_fee self \<lparr>numerator = 7, denominator = 10000\<rparr>"

section \<open>The AMM interface\<close>

record 'acc amm_transfer =
  t_origin :: 'acc
  t_assets :: asset_pair
  t_amount :: balance
  t_amount_out :: balance
  t_discount :: bool
  t_discount_amount :: balance

record ('acc, 's) amm_ops =
  amm_exists :: "asset_pair \<Rightarrow> 's \<Rightarrow> bool"
  amm_get_pair_id :: "asset_pair \<Rightarrow> 'acc"
  amm_get_pool_assets :: "'acc \<Rightarrow> 's \<Rightarrow> asset_id list option"
  amm_get_spot_price_unchecked :: "asset_id \<Rightarrow> asset_id \<Rightarrow> balance \<Rightarrow> 's \<Rightarrow> balance"
  amm_validate_sell ::
    "'acc \<Rightarrow> asset_pair \<Rightarrow> balance \<Rightarrow> balance \<Rightarrow> bool \<Rightarrow> 's \<Rightarrow> dispatch_error + 'acc amm_transfer"
  amm_execute_sell :: "'acc amm_transfer \<Rightarrow> 's \<Rightarrow> (dispatch_error + unit) \<times> 's"
  amm_validate_buy ::
    "'acc \<Rightarrow> asset_pair \<Rightarrow> balance \<Rightarrow> balance \<Rightarrow> bool \<Rightarrow> 's \<Rightarrow> dispatch_error + 'acc amm_transfer"
  amm_execute_buy :: "'acc amm_transfer \<Rightarrow> 's \<Rightarrow> (dispatch_error + unit) \<times> 's"

text \<open>The two default methods of the trait: validation, then execution.\<close>

definition amm_sell ::
  "('acc, 's) amm_ops \<Rightarrow> 'acc \<Rightarrow> asset_pair \<Rightarrow> balance \<Rightarrow> balance \<Rightarrow> bool \<Rightarrow> 's \<Rightarrow>
   (dispatch_error + unit) \<times> 's" where
  "amm_sell A orig as amount min_bought discount s =
     and_then (amm_validate_sell A orig as amount min_bought discount s, s)
       (\<lambda>t s. amm_execute_sell A t s)"

definition amm_buy ::
  "('acc, 's) amm_ops \<Rightarrow> 'acc \<Rightarrow> asset_pair \<Rightarrow> balance \<Rightarrow> balance \<Rightarrow> bool \<Rightarrow> 's \<Rightarrow>
   (dispatch_error + unit) \<times> 's" where
  "amm_buy A orig as amount max_limit discount s =
     and_then (amm_validate_buy A orig as amount max_limit discount s, s)
       (\<lambda>t s. amm_execute_buy A t s)"

section \<open>Lemmas on asset pairs\<close>

lemma ordered_pair_cases:
  "ordered_pair p = (asset_in p, asset_out p) \<or> ordered_pair p = (asset_out p, asset_in p)"
  by (simp add: ordered_pair_def)

lemma ordered_pair_sorted: "fst (ordered_pair p) \<le> snd (ordered_pair p)"
  by (auto simp: ordered_pair_def)

lemma ordered_pair_commute:
  "ordered_pair \<lparr>asset_in = a, asset_out = b\<rparr> = ordered_pair \<lparr>asset_in = b, asset_out = a\<rparr>"
  by (auto simp: ordered_pair_def)

lemma length_to_le_bytes [simp]: "length (to_le_bytes x) = 4"
  by (simp add: to_le_bytes_def)

lemma le_bytes_value_to_le_bytes: "le_bytes_value (to_le_bytes x) = unat x"
proof -
  have byte: "unat (ucast (drop_bit k x) :: u8) = unat x div 2 ^ k mod 256" for k
    by (simp only: unsigned_ucast_eq unat_drop_bit_eq) (simp add: take_bit_eq_mod drop_bit_eq_div)
  have "unat x < 4294967296"
    using unsigned_less [of x] by simp
  note radix_256 [OF this]
  then show ?thesis
    using byte [of 0] byte [of 8] byte [of 16] byte [of 24]
    by (simp add: le_bytes_value_def to_le_bytes_def)
qed

lemma to_le_bytes_inject [simp]: "to_le_bytes x = to_le_bytes y \<longleftrightarrow> x = y"
  by (metis le_bytes_value_to_le_bytes word_unat_eq_iff)

lemma asset_pair_name_iff: "asset_pair_name p = asset_pair_name q \<longleftrightarrow> ordered_pair p = ordered_pair q"
  by (simp add: asset_pair_name_def split: prod.splits)

section \<open>Lemmas on fees\<close>

lemmas fee_defs = with_fee_def without_fee_def just_fee_def discounted_fee_def

lemma just_fee_eq_Some:
  "just_fee n f = Some x \<longleftrightarrow>
     n * unat (numerator f) \<le> U128_MAX \<and> denominator f \<noteq> 0 \<and>
     x = n * unat (numerator f) div unat (denominator f)"
  by (auto simp: just_fee_def bind_eq_Some_conv unat_eq_0)

lemma just_fee_le:
  assumes "just_fee n f = Some x" and "numerator f \<le> denominator f"
  shows "x \<le> n"
proof -
  let ?u = "unat (numerator f)" and ?d = "unat (denominator f)"
  from assms(1) have x: "x = n * ?u div ?d" and d: "0 < ?d"
    by (auto simp: just_fee_eq_Some unat_gt_0)
  have "?u \<le> ?d" using assms(2) by (simp add: word_le_nat_alt)
  then have "n * ?u div ?d \<le> n * ?d div ?d" by (intro div_le_mono mult_le_mono2)
  with x d show ?thesis by simp
qed

lemma just_fee_default: "n \<le> U128_MAX div 2 \<Longrightarrow> just_fee n fee_default = Some (n * 2 div 1000)"
  by (simp add: just_fee_eq_Some fee_default_def)

end
