(* ===== verification/Balances_Base.thy ===== *)
theory Balances_Base
  imports Primitives
begin

text \<open>
  \<open>src/pallets/balances/src/lib.rs\<close>, first part: the data of the pallet (account data, locks,
  reasons, events, imbalances), its storage, and the functions every operation is built from:
  the queries, \<open>post_mutation\<close>, the consequences of a deposit or withdrawal, and
  \<open>try_mutate_account_with_dust\<close> with its two wrappers.

  The pallet is generic in the map that stores the accounts (\<open>T::AccountStore\<close>, in the
  runtime the framework's \<open>System\<close>) and calls the framework's reference counters. Both are
  the fields of a configuration record, over an abstract state \<open>'st\<close> of that store.
  An \<open>Imbalance\<close> is a value whose destructor changes the total issuance: the model drops it
  explicitly, also where the Rust value goes out of scope on an error path.
\<close>

section \<open>Data\<close>

datatype reasons = Reasons_Fee | Reasons_Misc | Reasons_All

text \<open>The flags of the framework's \<open>WithdrawReasons\<close>.\<close>

datatype withdraw_reason = TRANSACTION_PAYMENT | TRANSFER | RESERVE | FEE | TIP

type_synonym withdraw_reasons = "withdraw_reason set"

definition reasons_from :: "withdraw_reasons \<Rightarrow> reasons" where
  "reasons_from r =
     (if r = {TRANSACTION_PAYMENT} then Reasons_Fee
      else if TRANSACTION_PAYMENT \<in> r then Reasons_All
      else Reasons_Misc)"

definition reasons_bitor :: "reasons \<Rightarrow> reasons \<Rightarrow> reasons" where
  "reasons_bitor a b = (if a = b then a else Reasons_All)"

record balance_lock =
  lock_id :: bytes
  lock_amount :: balance
  lock_reasons :: reasons

record account_data =
  free :: balance
  reserved :: balance
  misc_frozen :: balance
  fee_frozen :: balance

definition account_default :: account_data where
  "account_default = \<lparr>free = 0, reserved = 0, misc_frozen = 0, fee_frozen = 0\<rparr>"

definition frozen :: "account_data \<Rightarrow> reasons \<Rightarrow> balance" where
  "frozen a r =
     (case r of
        Reasons_All \<Rightarrow> max (misc_frozen a) (fee_frozen a)
      | Reasons_Misc \<Rightarrow> misc_frozen a
      | Reasons_Fee \<Rightarrow> fee_frozen a)"

definition usable :: "account_data \<Rightarrow> reasons \<Rightarrow> balance" where
  "usable a r = saturating_sub (free a) (frozen a r)"

definition total :: "account_data \<Rightarrow> balance" where
  "total a = saturating_add (free a) (reserved a)"

datatype releases = V1_0_0 | V2_0_0

definition releases_default :: releases where
  "releases_default = V1_0_0"

text \<open>The framework's \<open>BalanceStatus\<close>, \<open>ExistenceRequirement\<close> and token consequences.\<close>

datatype balance_status = Status_Free | Status_Reserved

datatype existence_requirement = Keep_Alive | Allow_Death

datatype deposit_consequence =
    Deposit_BelowMinimum
  | Deposit_CannotCreate
  | Deposit_UnknownAsset
  | Deposit_Overflow
  | Deposit_Success

datatype withdraw_consequence =
    Withdraw_NoFunds
  | Withdraw_WouldDie
  | Withdraw_UnknownAsset
  | Withdraw_Underflow
  | Withdraw_Overflow
  | Withdraw_Frozen
  | Withdraw_ReducedToZero balance
  | Withdraw_Success

datatype 'acc balances_event =
    Endowed 'acc balance
  | DustLost 'acc balance
  | Transferred 'acc 'acc balance
  | BalanceSet 'acc balance balance
  | Deposit 'acc balance
  | Reserved 'acc balance
  | Unreserved 'acc balance
  | ReserveRepatriated 'acc 'acc balance balance_status

section \<open>Configuration and storage\<close>

record ('acc, 'st) balances_state =
  total_issuance :: balance
  account_store :: 'st
  locks :: "'acc \<rightharpoonup> balance_lock list"
  storage_version :: releases
  balances_events :: "'acc balances_event list"

datatype positive_imbalance = PositiveImbalance balance
datatype negative_imbalance = NegativeImbalance balance

record ('acc, 'st) balances_config =
  existential_deposit :: balance
  max_locks :: nat
  store_get :: "'st \<Rightarrow> 'acc \<Rightarrow> account_data"
  store_query :: "'st \<Rightarrow> 'acc \<Rightarrow> account_data option"
  store_commit :: "'acc \<Rightarrow> account_data option \<Rightarrow> 'st \<Rightarrow> dispatch_error + 'st"
  can_dec_provider :: "'st \<Rightarrow> 'acc \<Rightarrow> bool"
  is_provider_required :: "'st \<Rightarrow> 'acc \<Rightarrow> bool"
  inc_consumers :: "'acc \<Rightarrow> 'st \<Rightarrow> dispatch_error + 'st"
  dec_consumers :: "'acc \<Rightarrow> 'st \<Rightarrow> 'st"
  deposit_into_result :: "deposit_consequence \<Rightarrow> dispatch_error + unit"
  withdraw_into_result :: "withdraw_consequence \<Rightarrow> dispatch_error + balance"
  dust_removal :: "negative_imbalance \<Rightarrow> ('acc, 'st) balances_state \<Rightarrow> ('acc, 'st) balances_state"

type_synonym ('acc, 'st, 'a) balances_result =
  "(dispatch_error + 'a) \<times> ('acc, 'st) balances_state"

definition balances_deposit_event ::
  "'acc balances_event \<Rightarrow> ('acc, 'st) balances_state \<Rightarrow> ('acc, 'st) balances_state" where
  "balances_deposit_event ev s = s\<lparr>balances_events := balances_events s @ [ev]\<rparr>"

section \<open>Imbalances\<close>

text \<open>The framework's \<open>SameOrOther\<close> and \<open>SignedImbalance\<close>.\<close>

datatype ('a, 'b) same_or_other = Same_None | Same 'a | Same_Other 'b

datatype signed_imbalance = Positive positive_imbalance | Negative negative_imbalance

fun positive_peek :: "positive_imbalance \<Rightarrow> balance" where
  "positive_peek (PositiveImbalance n) = n"

fun positive_drop_zero :: "positive_imbalance \<Rightarrow> positive_imbalance + unit" where
  "positive_drop_zero (PositiveImbalance n) = (if n = 0 then Inr () else Inl (PositiveImbalance n))"

fun positive_split :: "positive_imbalance \<Rightarrow> balance \<Rightarrow> positive_imbalance \<times> positive_imbalance" where
  "positive_split (PositiveImbalance n) amount =
     (let first = min n amount; second = wrapping_sub n first
      in (PositiveImbalance first, PositiveImbalance second))"

fun positive_merge :: "positive_imbalance \<Rightarrow> positive_imbalance \<Rightarrow> positive_imbalance" where
  "positive_merge (PositiveImbalance n) (PositiveImbalance m) = PositiveImbalance (saturating_add n m)"

fun positive_offset ::
  "positive_imbalance \<Rightarrow> negative_imbalance \<Rightarrow> (positive_imbalance, negative_imbalance) same_or_other" where
  "positive_offset (PositiveImbalance a) (NegativeImbalance b) =
     (if b < a then Same (PositiveImbalance (wrapping_sub a b))
      else if a < b then Same_Other (NegativeImbalance (wrapping_sub b a))
      else Same_None)"

fun negative_peek :: "negative_imbalance \<Rightarrow> balance" where
  "negative_peek (NegativeImbalance n) = n"

fun negative_drop_zero :: "negative_imbalance \<Rightarrow> negative_imbalance + unit" where
  "negative_drop_zero (NegativeImbalance n) = (if n = 0 then Inr () else Inl (NegativeImbalance n))"

fun negative_split :: "negative_imbalance \<Rightarrow> balance \<Rightarrow> negative_imbalance \<times> negative_imbalance" where
  "negative_split (NegativeImbalance n) amount =
     (let first = min n amount; second = wrapping_sub n first
      in (NegativeImbalance first, NegativeImbalance second))"

fun negative_merge :: "negative_imbalance \<Rightarrow> negative_imbalance \<Rightarrow> negative_imbalance" where
  "negative_merge (NegativeImbalance n) (NegativeImbalance m) = NegativeImbalance (saturating_add n m)"

fun negative_offset ::
  "negative_imbalance \<Rightarrow> positive_imbalance \<Rightarrow> (negative_imbalance, positive_imbalance) same_or_other" where
  "negative_offset (NegativeImbalance a) (PositiveImbalance b) =
     (if b < a then Same (NegativeImbalance (wrapping_sub a b))
      else if a < b then Same_Other (PositiveImbalance (wrapping_sub b a))
      else Same_None)"

text \<open>The destructors: they square up the total issuance.\<close>

fun drop_positive :: "positive_imbalance \<Rightarrow> ('acc, 'st) balances_state \<Rightarrow> ('acc, 'st) balances_state" where
  "drop_positive (PositiveImbalance n) s =
     s\<lparr>total_issuance := saturating_add (total_issuance s) n\<rparr>"

fun drop_negative :: "negative_imbalance \<Rightarrow> ('acc, 'st) balances_state \<Rightarrow> ('acc, 'st) balances_state" where
  "drop_negative (NegativeImbalance n) s =
     s\<lparr>total_issuance := saturating_sub (total_issuance s) n\<rparr>"

section \<open>Queries\<close>

definition account ::
  "('acc, 'st) balances_config \<Rightarrow> ('acc, 'st) balances_state \<Rightarrow> 'acc \<Rightarrow> account_data" where
  "account cfg s a = store_get cfg (account_store s) a"

definition free_balance ::
  "('acc, 'st) balances_config \<Rightarrow> ('acc, 'st) balances_state \<Rightarrow> 'acc \<Rightarrow> balance" where
  "free_balance cfg s a = free (account cfg s a)"

definition usable_balance ::
  "('acc, 'st) balances_config \<Rightarrow> ('acc, 'st) balances_state \<Rightarrow> 'acc \<Rightarrow> balance" where
  "usable_balance cfg s a = usable (account cfg s a) Reasons_Misc"

definition usable_balance_for_fees ::
  "('acc, 'st) balances_config \<Rightarrow> ('acc, 'st) balances_state \<Rightarrow> 'acc \<Rightarrow> balance" where
  "usable_balance_for_fees cfg s a = usable (account cfg s a) Reasons_Fee"

definition reserved_balance ::
  "('acc, 'st) balances_config \<Rightarrow> ('acc, 'st) balances_state \<Rightarrow> 'acc \<Rightarrow> balance" where
  "reserved_balance cfg s a = reserved (account cfg s a)"

definition total_balance ::
  "('acc, 'st) balances_config \<Rightarrow> ('acc, 'st) balances_state \<Rightarrow> 'acc \<Rightarrow> balance" where
  "total_balance cfg s a = total (account cfg s a)"

definition post_mutation ::
  "('acc, 'st) balances_config \<Rightarrow> account_data \<Rightarrow> account_data option \<times> negative_imbalance option" where
  "post_mutation cfg new =
     (if total new < existential_deposit cfg then
        (if total new = 0 then (None, None) else (None, Some (NegativeImbalance (total new))))
      else (Some new, None))"

definition deposit_consequence ::
  "('acc, 'st) balances_config \<Rightarrow> ('acc, 'st) balances_state \<Rightarrow> balance \<Rightarrow> account_data \<Rightarrow> deposit_consequence" where
  "deposit_consequence cfg s amount a =
     (if amount = 0 then Deposit_Success
      else if checked_add (total_issuance s) amount = None then Deposit_Overflow
      else (case checked_add (total a) amount of
              None \<Rightarrow> Deposit_Overflow
            | Some new_total_balance \<Rightarrow>
                if new_total_balance < existential_deposit cfg then Deposit_BelowMinimum
                else Deposit_Success))"

definition withdraw_consequence ::
  "('acc, 'st) balances_config \<Rightarrow> ('acc, 'st) balances_state \<Rightarrow> 'acc \<Rightarrow> balance \<Rightarrow> account_data \<Rightarrow>
   withdraw_consequence" where
  "withdraw_consequence cfg s who amount a =
     (if amount = 0 then Withdraw_Success
      else if checked_sub (total_issuance s) amount = None then Withdraw_Underflow
      else (case checked_sub (total a) amount of
              None \<Rightarrow> Withdraw_NoFunds
            | Some new_total_balance \<Rightarrow>
                if new_total_balance < existential_deposit cfg
                   \<and> \<not> can_dec_provider cfg (account_store s) who then Withdraw_WouldDie
                else (let success =
                        (if new_total_balance < existential_deposit cfg
                         then Withdraw_ReducedToZero new_total_balance else Withdraw_Success)
                      in case checked_sub (free a) amount of
                           None \<Rightarrow> Withdraw_NoFunds
                         | Some new_free_balance \<Rightarrow>
                             if new_free_balance < frozen a Reasons_All then Withdraw_Frozen
                             else success)))"

section \<open>Mutating an account\<close>

text \<open>\<open>DustCleaner\<close>: its destructor reports the dust and hands it to \<open>DustRemoval\<close>, which may call the
  pallet again.\<close>

type_synonym 'acc dust_cleaner = "('acc \<times> negative_imbalance) option"

fun drop_dust_cleaner ::
  "('acc, 'st) balances_config \<Rightarrow> 'acc dust_cleaner \<Rightarrow> ('acc, 'st) balances_state \<Rightarrow> ('acc, 'st) balances_state" where
  "drop_dust_cleaner cfg None s = s"
| "drop_dust_cleaner cfg (Some (who, dust)) s =
     dust_removal cfg dust (balances_deposit_event (DustLost who (negative_peek dust)) s)"

text \<open>
  \<open>try_mutate_account_with_dust cfg drop_result who f\<close>: \<open>f\<close> gets the account and whether it
  is new, and returns its result with the mutated account. The store's \<open>try_mutate_exists\<close>
  is \<open>store_query\<close> before and \<open>store_commit\<close> after the closure. When the commit is refused the
  closure's value goes out of scope, so the dust and the result (by \<open>drop_result\<close>) are dropped.
\<close>

definition try_mutate_account_with_dust ::
  "('acc, 'st) balances_config \<Rightarrow>
   ('r \<Rightarrow> ('acc, 'st) balances_state \<Rightarrow> ('acc, 'st) balances_state) \<Rightarrow> 'acc \<Rightarrow>
   (account_data \<Rightarrow> bool \<Rightarrow> ('acc, 'st) balances_state \<Rightarrow> ('acc, 'st, 'r \<times> account_data) balances_result) \<Rightarrow>
   ('acc, 'st) balances_state \<Rightarrow> ('acc, 'st, 'r \<times> 'acc dust_cleaner) balances_result" where
  "try_mutate_account_with_dust cfg drop_result who f s =
     (let maybe_account = store_query cfg (account_store s) who;
          is_new = (maybe_account = None);
          acct = (case maybe_account of None \<Rightarrow> account_default | Some a \<Rightarrow> a)
      in and_then (f acct is_new s) (\<lambda>(result, acct') s1.
           let (new, maybe_dust) = post_mutation cfg acct'
           in case store_commit cfg who new (account_store s1) of
                Inl e \<Rightarrow>
                  (Inl e, drop_result result
                     (case maybe_dust of None \<Rightarrow> s1 | Some dust \<Rightarrow> drop_negative dust s1))
              | Inr st \<Rightarrow>
                  (let s2 = s1\<lparr>account_store := st\<rparr>;
                       s3 = (if is_new then balances_deposit_event (Endowed who (free acct')) s2 else s2)
                   in (Inr (result, map_option (\<lambda>dust. (who, dust)) maybe_dust), s3))))"

definition try_mutate_account ::
  "('acc, 'st) balances_config \<Rightarrow>
   ('r \<Rightarrow> ('acc, 'st) balances_state \<Rightarrow> ('acc, 'st) balances_state) \<Rightarrow> 'acc \<Rightarrow>
   (account_data \<Rightarrow> bool \<Rightarrow> ('acc, 'st) balances_state \<Rightarrow> ('acc, 'st, 'r \<times> account_data) balances_result) \<Rightarrow>
   ('acc, 'st) balances_state \<Rightarrow> ('acc, 'st, 'r) balances_result" where
  "try_mutate_account cfg drop_result who f s =
     and_then (try_mutate_account_with_dust cfg drop_result who f s)
       (\<lambda>(result, dust_cleaner) s. (Inr result, drop_dust_cleaner cfg dust_cleaner s))"

definition mutate_account ::
  "('acc, 'st) balances_config \<Rightarrow>
   ('r \<Rightarrow> ('acc, 'st) balances_state \<Rightarrow> ('acc, 'st) balances_state) \<Rightarrow> 'acc \<Rightarrow>
   (account_data \<Rightarrow> ('acc, 'st) balances_state \<Rightarrow> ('r \<times> account_data) \<times> ('acc, 'st) balances_state) \<Rightarrow>
   ('acc, 'st) balances_state \<Rightarrow> ('acc, 'st, 'r) balances_result" where
  "mutate_account cfg drop_result who f s =
     try_mutate_account cfg drop_result who
       (\<lambda>acct _ s. (case f acct s of (r, s') \<Rightarrow> (Inr r, s'))) s"

text \<open>A result whose destructor does nothing.\<close>

definition no_drop :: "'r \<Rightarrow> ('acc, 'st) balances_state \<Rightarrow> ('acc, 'st) balances_state" where
  "no_drop r s = s"

definition ensure_can_withdraw ::
  "('acc, 'st) balances_config \<Rightarrow> 'acc \<Rightarrow> balance \<Rightarrow> withdraw_reasons \<Rightarrow> balance \<Rightarrow>
   ('acc, 'st) balances_state \<Rightarrow> dispatch_error + unit" where
  "ensure_can_withdraw cfg who amount rs new_balance s =
     (if amount = 0 then Inr ()
      else let min_balance = frozen (account cfg s who) (reasons_from rs)
           in if min_balance \<le> new_balance then Inr () else Inl (Balances LiquidityRestrictions))"

end
