(* ===== verification/Balances_Ops.thy ===== *)
theory Balances_Ops
  imports Balances_Base
begin

text \<open>
  \<open>src/pallets/balances/src/lib.rs\<close>, second part: the operations of the pallet. The
  implementations of \<open>Currency\<close> (transfer, slash, deposits, withdrawals, issue and burn),
  \<open>ReservableCurrency\<close>, \<open>LockableCurrency\<close> and the \<open>fungible\<close> traits, the four calls and the
  genesis build, in the storage-passing style of the first part. Each closure given to
  \<open>try_mutate_account\<close> is the Rust closure; \<open>no_drop\<close> marks results without a destructor.
\<close>

section \<open>Currency\<close>

definition can_slash ::
  "('acc, 'st) balances_config \<Rightarrow> ('acc, 'st) balances_state \<Rightarrow> 'acc \<Rightarrow> balance \<Rightarrow> bool" where
  "can_slash cfg s who amount = (if amount = 0 then True else amount \<le> free_balance cfg s who)"

definition burn ::
  "balance \<Rightarrow> ('acc, 'st) balances_state \<Rightarrow> positive_imbalance \<times> ('acc, 'st) balances_state" where
  "burn amount s =
     (if amount = 0 then (PositiveImbalance 0, s)
      else (case checked_sub (total_issuance s) amount of
              Some issued \<Rightarrow> (PositiveImbalance amount, s\<lparr>total_issuance := issued\<rparr>)
            | None \<Rightarrow> (PositiveImbalance (total_issuance s), s\<lparr>total_issuance := 0\<rparr>)))"

definition issue ::
  "balance \<Rightarrow> ('acc, 'st) balances_state \<Rightarrow> negative_imbalance \<times> ('acc, 'st) balances_state" where
  "issue amount s =
     (if amount = 0 then (NegativeImbalance 0, s)
      else (case checked_add (total_issuance s) amount of
              Some issued \<Rightarrow> (NegativeImbalance amount, s\<lparr>total_issuance := issued\<rparr>)
            | None \<Rightarrow>
                (NegativeImbalance (wrapping_sub U128_MAX (total_issuance s)),
                 s\<lparr>total_issuance := U128_MAX\<rparr>)))"

text \<open>
  \<open>Currency::transfer\<close>: the closure on the sender runs inside the closure on the receiver; it
  returns the receiver's new data beside the sender's, and the sender's dust cleaner is the
  outer closure's result.
\<close>

definition transfer_accounts ::
  "('acc, 'st) balances_config \<Rightarrow> 'acc \<Rightarrow> balance \<Rightarrow> existence_requirement \<Rightarrow>
   ('acc, 'st) balances_state \<Rightarrow> account_data \<Rightarrow> account_data \<Rightarrow>
   dispatch_error + account_data \<times> account_data" where
  "transfer_accounts cfg transactor amount existence_requirement s to_account from_account =
     try_bind (ok_or (checked_sub (free from_account) amount) (Balances InsufficientBalance)) (\<lambda>from_free.
     try_bind (ok_or (checked_add (free to_account) amount) (Balances Overflow)) (\<lambda>to_free.
       let from_account = from_account\<lparr>free := from_free\<rparr>;
           to_account = to_account\<lparr>free := to_free\<rparr>;
           ed = existential_deposit cfg
       in if total to_account < ed then Inl (Balances ExistentialDeposit)
          else if \<not> is_ok (ensure_can_withdraw cfg transactor amount {TRANSFER} from_free s)
          then Inl (Balances LiquidityRestrictions)
          else let allow_death = (existence_requirement = Allow_Death)
                     \<and> \<not> is_provider_required cfg (account_store s) transactor
               in if allow_death \<or> ed \<le> total from_account
                  then Inr (to_account, from_account)
                  else Inl (Balances KeepAlive)))"

definition currency_transfer ::
  "('acc, 'st) balances_config \<Rightarrow> 'acc \<Rightarrow> 'acc \<Rightarrow> balance \<Rightarrow> existence_requirement \<Rightarrow>
   ('acc, 'st) balances_state \<Rightarrow> ('acc, 'st, unit) balances_result" where
  "currency_transfer cfg transactor dest amount existence_requirement s =
     (if amount = 0 \<or> transactor = dest then (Inr (), s)
      else and_then
        (try_mutate_account_with_dust cfg (drop_dust_cleaner cfg) dest
          (\<lambda>to_account _ s.
             and_then
               (try_mutate_account_with_dust cfg no_drop transactor
                 (\<lambda>from_account _ s.
                    (transfer_accounts cfg transactor amount existence_requirement s
                       to_account from_account, s)) s)
               (\<lambda>(to_account, maybe_dust_cleaner) s. (Inr (maybe_dust_cleaner, to_account), s)))
          s)
        (\<lambda>(from_dust, to_dust) s.
           (Inr (), balances_deposit_event (Transferred transactor dest amount)
                      (drop_dust_cleaner cfg to_dust (drop_dust_cleaner cfg from_dust s)))))"

text \<open>\<open>slash\<close>: two attempts, the second of which leaves the existential deposit.\<close>

definition slash_account ::
  "('acc, 'st) balances_config \<Rightarrow> bool \<Rightarrow> balance \<Rightarrow> account_data \<Rightarrow>
   (negative_imbalance \<times> balance) \<times> account_data" where
  "slash_account cfg first_attempt amount a =
     (let best_value =
            (if first_attempt then amount
             else min amount (saturating_sub (wrapping_add (free a) (reserved a)) (existential_deposit cfg)));
          free_slash = min (free a) best_value;
          a = a\<lparr>free := free a - free_slash\<rparr>;
          remaining_slash = best_value - free_slash
      in if remaining_slash \<noteq> 0 then
           (let reserved_slash = min (reserved a) remaining_slash;
                a = a\<lparr>reserved := reserved a - reserved_slash\<rparr>
            in ((NegativeImbalance (wrapping_add free_slash reserved_slash),
                 wrapping_sub (wrapping_sub amount free_slash) reserved_slash), a))
         else ((NegativeImbalance free_slash, wrapping_sub amount free_slash), a))"

definition drop_slash_result ::
  "negative_imbalance \<times> balance \<Rightarrow> ('acc, 'st) balances_state \<Rightarrow> ('acc, 'st) balances_state" where
  "drop_slash_result r s = drop_negative (fst r) s"

definition slash ::
  "('acc, 'st) balances_config \<Rightarrow> 'acc \<Rightarrow> balance \<Rightarrow> ('acc, 'st) balances_state \<Rightarrow>
   (negative_imbalance \<times> balance) \<times> ('acc, 'st) balances_state" where
  "slash cfg who amount s =
     (if amount = 0 then ((NegativeImbalance 0, 0), s)
      else if total_balance cfg s who = 0 then ((NegativeImbalance 0, amount), s)
      else (case try_mutate_account cfg drop_slash_result who
                   (\<lambda>acct _ s. (Inr (slash_account cfg True amount acct), s)) s of
              (Inr r, s1) \<Rightarrow> (r, s1)
            | (Inl _, s1) \<Rightarrow>
                (case try_mutate_account cfg drop_slash_result who
                        (\<lambda>acct _ s. (Inr (slash_account cfg False amount acct), s)) s1 of
                   (Inr r, s2) \<Rightarrow> (r, s2)
                 | (Inl _, s2) \<Rightarrow> ((NegativeImbalance 0, amount), s2))))"

definition deposit_into_existing ::
  "('acc, 'st) balances_config \<Rightarrow> 'acc \<Rightarrow> balance \<Rightarrow> ('acc, 'st) balances_state \<Rightarrow>
   ('acc, 'st, positive_imbalance) balances_result" where
  "deposit_into_existing cfg who amount s =
     (if amount = 0 then (Inr (PositiveImbalance 0), s)
      else try_mutate_account cfg drop_positive who
        (\<lambda>acct is_new s.
           (if is_new then Inl (Balances DeadAccount)
            else try_bind (ok_or (checked_add (free acct) amount) (Balances Overflow))
              (\<lambda>f. Inr (PositiveImbalance amount, acct\<lparr>free := f\<rparr>)), s)) s)"

definition deposit_creating ::
  "('acc, 'st) balances_config \<Rightarrow> 'acc \<Rightarrow> balance \<Rightarrow> ('acc, 'st) balances_state \<Rightarrow>
   positive_imbalance \<times> ('acc, 'st) balances_state" where
  "deposit_creating cfg who amount s =
     (if amount = 0 then (PositiveImbalance 0, s)
      else (case try_mutate_account cfg drop_positive who
                   (\<lambda>acct is_new s.
                      (if \<not> (existential_deposit cfg \<le> amount \<or> \<not> is_new)
                       then Inl (Balances ExistentialDeposit)
                       else case checked_add (free acct) amount of
                              Some x \<Rightarrow> Inr (PositiveImbalance amount, acct\<lparr>free := x\<rparr>)
                            | None \<Rightarrow> Inr (PositiveImbalance 0, acct), s)) s of
              (Inr r, s1) \<Rightarrow> (r, s1)
            | (Inl _, s1) \<Rightarrow> (PositiveImbalance 0, s1)))"

definition withdraw ::
  "('acc, 'st) balances_config \<Rightarrow> 'acc \<Rightarrow> balance \<Rightarrow> withdraw_reasons \<Rightarrow> existence_requirement \<Rightarrow>
   ('acc, 'st) balances_state \<Rightarrow> ('acc, 'st, negative_imbalance) balances_result" where
  "withdraw cfg who amount rs liveness s =
     (if amount = 0 then (Inr (NegativeImbalance 0), s)
      else try_mutate_account cfg drop_negative who
        (\<lambda>acct _ s.
           (try_bind (ok_or (checked_sub (free acct) amount) (Balances InsufficientBalance)) (\<lambda>new_free.
              let ed = existential_deposit cfg;
                  would_be_dead = wrapping_add new_free (reserved acct) < ed;
                  would_kill = would_be_dead \<and> ed \<le> wrapping_add (free acct) (reserved acct)
              in if \<not> (liveness = Allow_Death \<or> \<not> would_kill) then Inl (Balances KeepAlive)
                 else try_bind (ensure_can_withdraw cfg who amount rs new_free s)
                   (\<lambda>_. Inr (NegativeImbalance amount, acct\<lparr>free := new_free\<rparr>))), s)) s)"

fun drop_signed :: "signed_imbalance \<Rightarrow> ('acc, 'st) balances_state \<Rightarrow> ('acc, 'st) balances_state" where
  "drop_signed (Positive p) s = drop_positive p s"
| "drop_signed (Negative n) s = drop_negative n s"

definition make_free_balance_be ::
  "('acc, 'st) balances_config \<Rightarrow> 'acc \<Rightarrow> balance \<Rightarrow> ('acc, 'st) balances_state \<Rightarrow>
   signed_imbalance \<times> ('acc, 'st) balances_state" where
  "make_free_balance_be cfg who amount s =
     (case try_mutate_account cfg drop_signed who
             (\<lambda>acct is_new s.
                (let total_after = saturating_add amount (reserved acct)
                 in if \<not> (existential_deposit cfg \<le> total_after \<or> \<not> is_new)
                    then Inl (Balances ExistentialDeposit)
                    else let imbalance =
                           (if free acct \<le> amount
                            then Positive (PositiveImbalance (wrapping_sub amount (free acct)))
                            else Negative (NegativeImbalance (wrapping_sub (free acct) amount)))
                         in Inr (imbalance, acct\<lparr>free := amount\<rparr>), s)) s of
        (Inr r, s1) \<Rightarrow> (r, s1)
      | (Inl _, s1) \<Rightarrow> (Positive (PositiveImbalance 0), s1))"

section \<open>ReservableCurrency\<close>

definition can_reserve ::
  "('acc, 'st) balances_config \<Rightarrow> ('acc, 'st) balances_state \<Rightarrow> 'acc \<Rightarrow> balance \<Rightarrow> bool" where
  "can_reserve cfg s who amount =
     (if amount = 0 then True
      else (case checked_sub (free (account cfg s who)) amount of
              None \<Rightarrow> False
            | Some new_balance \<Rightarrow> is_ok (ensure_can_withdraw cfg who amount {RESERVE} new_balance s)))"

definition reserve ::
  "('acc, 'st) balances_config \<Rightarrow> 'acc \<Rightarrow> balance \<Rightarrow> ('acc, 'st) balances_state \<Rightarrow>
   ('acc, 'st, unit) balances_result" where
  "reserve cfg who amount s =
     (if amount = 0 then (Inr (), s)
      else and_then
        (try_mutate_account cfg no_drop who
          (\<lambda>acct _ s.
             (try_bind (ok_or (checked_sub (free acct) amount) (Balances InsufficientBalance)) (\<lambda>new_free.
              try_bind (ok_or (checked_add (reserved acct) amount) (Balances Overflow)) (\<lambda>new_reserved.
              try_bind (ensure_can_withdraw cfg who amount {RESERVE} new_free s) (\<lambda>_.
                Inr ((), acct\<lparr>free := new_free, reserved := new_reserved\<rparr>)))), s)) s)
        (\<lambda>_ s. (Inr (), balances_deposit_event (Reserved who amount) s)))"

definition unreserve ::
  "('acc, 'st) balances_config \<Rightarrow> 'acc \<Rightarrow> balance \<Rightarrow> ('acc, 'st) balances_state \<Rightarrow>
   balance \<times> ('acc, 'st) balances_state" where
  "unreserve cfg who amount s =
     (if amount = 0 then (0, s)
      else if total_balance cfg s who = 0 then (amount, s)
      else (case mutate_account cfg no_drop who
                   (\<lambda>acct s.
                      let actual = min (reserved acct) amount
                      in ((actual, acct\<lparr>reserved := reserved acct - actual,
                                        free := saturating_add (free acct) actual\<rparr>), s)) s of
              (Inr actual, s1) \<Rightarrow>
                (wrapping_sub amount actual, balances_deposit_event (Unreserved who actual) s1)
            | (Inl _, s1) \<Rightarrow> (amount, s1)))"

definition slash_reserved ::
  "('acc, 'st) balances_config \<Rightarrow> 'acc \<Rightarrow> balance \<Rightarrow> ('acc, 'st) balances_state \<Rightarrow>
   (negative_imbalance \<times> balance) \<times> ('acc, 'st) balances_state" where
  "slash_reserved cfg who amount s =
     (let attempt = (\<lambda>first_attempt acct s.
            let best_value =
                  (if first_attempt then amount
                   else min amount (saturating_sub (wrapping_add (free acct) (reserved acct))
                                      (existential_deposit cfg)));
                actual = min (reserved acct) best_value
            in (((NegativeImbalance actual, wrapping_sub amount actual),
                 acct\<lparr>reserved := reserved acct - actual\<rparr>), s))
      in if amount = 0 then ((NegativeImbalance 0, 0), s)
         else if total_balance cfg s who = 0 then ((NegativeImbalance 0, amount), s)
         else (case mutate_account cfg drop_slash_result who (attempt True) s of
                 (Inr r, s1) \<Rightarrow> (r, s1)
               | (Inl _, s1) \<Rightarrow>
                   (case mutate_account cfg drop_slash_result who (attempt False) s1 of
                      (Inr r, s2) \<Rightarrow> (r, s2)
                    | (Inl _, s2) \<Rightarrow> ((NegativeImbalance 0, amount), s2))))"

text \<open>
  \<open>do_transfer_reserved\<close>: nested like \<open>transfer\<close>; the inner closure returns the amount moved
  and the receiver's new data. The two dust cleaners are bindings of the caller and are
  dropped when it returns, the receiver's first.
\<close>

definition do_transfer_reserved ::
  "('acc, 'st) balances_config \<Rightarrow> 'acc \<Rightarrow> 'acc \<Rightarrow> balance \<Rightarrow> bool \<Rightarrow> balance_status \<Rightarrow>
   ('acc, 'st) balances_state \<Rightarrow> ('acc, 'st, balance) balances_result" where
  "do_transfer_reserved cfg slashed beneficiary amount best_effort status s =
     (if amount = 0 then (Inr 0, s)
      else if slashed = beneficiary then
        (case status of
           Status_Free \<Rightarrow> (case unreserve cfg slashed amount s of (r, s') \<Rightarrow> (Inr r, s'))
         | Status_Reserved \<Rightarrow> (Inr (saturating_sub amount (reserved_balance cfg s slashed)), s))
      else and_then
        (try_mutate_account_with_dust cfg (\<lambda>(_, dust). drop_dust_cleaner cfg dust) beneficiary
          (\<lambda>to_account is_new s.
             if is_new then (Inl (Balances DeadAccount), s)
             else and_then
               (try_mutate_account_with_dust cfg no_drop slashed
                 (\<lambda>from_account _ s.
                    (let actual = min (reserved from_account) amount
                     in if \<not> (best_effort \<or> actual = amount) then Inl (Balances InsufficientBalance)
                        else try_bind
                          (case status of
                             Status_Free \<Rightarrow>
                               try_bind (ok_or (checked_add (free to_account) actual) (Balances Overflow))
                                 (\<lambda>f. Inr (to_account\<lparr>free := f\<rparr>))
                           | Status_Reserved \<Rightarrow>
                               try_bind (ok_or (checked_add (reserved to_account) actual) (Balances Overflow))
                                 (\<lambda>r. Inr (to_account\<lparr>reserved := r\<rparr>)))
                          (\<lambda>to_account.
                             Inr ((actual, to_account),
                                  from_account\<lparr>reserved := reserved from_account - actual\<rparr>)), s)) s)
               (\<lambda>((actual, to_account), from_dust) s. (Inr ((actual, from_dust), to_account), s)))
          s)
        (\<lambda>((actual, from_dust), to_dust) s.
           (Inr actual,
            drop_dust_cleaner cfg from_dust (drop_dust_cleaner cfg to_dust
              (balances_deposit_event (ReserveRepatriated slashed beneficiary actual status) s)))))"

definition repatriate_reserved ::
  "('acc, 'st) balances_config \<Rightarrow> 'acc \<Rightarrow> 'acc \<Rightarrow> balance \<Rightarrow> balance_status \<Rightarrow>
   ('acc, 'st) balances_state \<Rightarrow> ('acc, 'st, balance) balances_result" where
  "repatriate_reserved cfg slashed beneficiary amount status s =
     and_then (do_transfer_reserved cfg slashed beneficiary amount True status s)
       (\<lambda>actual s. (Inr (saturating_sub amount actual), s))"

section \<open>LockableCurrency\<close>

text \<open>The amounts the locks freeze, as the loop of \<open>update_locks\<close> accumulates them.\<close>

fun apply_locks :: "balance_lock list \<Rightarrow> account_data \<Rightarrow> account_data" where
  "apply_locks [] b = b"
| "apply_locks (l # ls) b =
     (let b = (if lock_reasons l = Reasons_All \<or> lock_reasons l = Reasons_Misc
               then b\<lparr>misc_frozen := max (misc_frozen b) (lock_amount l)\<rparr> else b);
          b = (if lock_reasons l = Reasons_All \<or> lock_reasons l = Reasons_Fee
               then b\<lparr>fee_frozen := max (fee_frozen b) (lock_amount l)\<rparr> else b)
      in apply_locks ls b)"

definition locks_of :: "('acc, 'st) balances_state \<Rightarrow> 'acc \<Rightarrow> balance_lock list" where
  "locks_of s who = (case locks s who of None \<Rightarrow> [] | Some ls \<Rightarrow> ls)"

definition update_locks ::
  "('acc, 'st) balances_config \<Rightarrow> 'acc \<Rightarrow> balance_lock list \<Rightarrow>
   ('acc, 'st) balances_state \<Rightarrow> ('acc, 'st) balances_state" where
  "update_locks cfg who ls s =
     (let s1 = snd (mutate_account cfg no_drop who
                      (\<lambda>b s. (((), apply_locks ls (b\<lparr>misc_frozen := 0, fee_frozen := 0\<rparr>)), s)) s);
          existed = (locks s1 who \<noteq> None)
      in if ls = [] then
           (let s2 = s1\<lparr>locks := (locks s1)(who := None)\<rparr>
            in if existed then s2\<lparr>account_store := dec_consumers cfg who (account_store s2)\<rparr> else s2)
         else
           (let s2 = s1\<lparr>locks := (locks s1)(who \<mapsto> ls)\<rparr>
            in if existed then s2
               else (case inc_consumers cfg who (account_store s2) of
                       Inl _ \<Rightarrow> s2
                     | Inr st \<Rightarrow> s2\<lparr>account_store := st\<rparr>)))"

text \<open>
  The \<open>filter_map\<close> over the locks in \<open>set_lock\<close> and \<open>extend_lock\<close>: the first lock with the
  identifier takes the new lock, later ones with it are dropped, and a new lock that was not
  taken is pushed at the end.
\<close>

fun place_lock ::
  "bytes \<Rightarrow> (balance_lock \<Rightarrow> balance_lock) \<Rightarrow> balance_lock option \<Rightarrow> balance_lock list \<Rightarrow> balance_lock list" where
  "place_lock lid merge new_lock [] = (case new_lock of None \<Rightarrow> [] | Some nl \<Rightarrow> [nl])"
| "place_lock lid merge new_lock (l # ls) =
     (if lock_id l = lid
      then (case new_lock of
              None \<Rightarrow> place_lock lid merge None ls
            | Some nl \<Rightarrow> merge l # place_lock lid merge None ls)
      else l # place_lock lid merge new_lock ls)"

definition set_lock ::
  "('acc, 'st) balances_config \<Rightarrow> bytes \<Rightarrow> 'acc \<Rightarrow> balance \<Rightarrow> withdraw_reasons \<Rightarrow>
   ('acc, 'st) balances_state \<Rightarrow> ('acc, 'st) balances_state" where
  "set_lock cfg lid who amount rs s =
     (if amount = 0 \<or> rs = {} then s
      else let new_lock = \<lparr>lock_id = lid, lock_amount = amount, lock_reasons = reasons_from rs\<rparr>
           in update_locks cfg who (place_lock lid (\<lambda>_. new_lock) (Some new_lock) (locks_of s who)) s)"

definition extend_lock ::
  "('acc, 'st) balances_config \<Rightarrow> bytes \<Rightarrow> 'acc \<Rightarrow> balance \<Rightarrow> withdraw_reasons \<Rightarrow>
   ('acc, 'st) balances_state \<Rightarrow> ('acc, 'st) balances_state" where
  "extend_lock cfg lid who amount rs s =
     (if amount = 0 \<or> rs = {} then s
      else let new_lock = \<lparr>lock_id = lid, lock_amount = amount, lock_reasons = reasons_from rs\<rparr>;
               merge = (\<lambda>l. \<lparr>lock_id = lock_id l,
                             lock_amount = max (lock_amount l) (lock_amount new_lock),
                             lock_reasons = reasons_bitor (lock_reasons l) (lock_reasons new_lock)\<rparr>)
           in update_locks cfg who (place_lock lid merge (Some new_lock) (locks_of s who)) s)"

definition remove_lock ::
  "('acc, 'st) balances_config \<Rightarrow> bytes \<Rightarrow> 'acc \<Rightarrow> ('acc, 'st) balances_state \<Rightarrow> ('acc, 'st) balances_state" where
  "remove_lock cfg lid who s =
     update_locks cfg who (filter (\<lambda>l. lock_id l \<noteq> lid) (locks_of s who)) s"

section \<open>The fungible traits\<close>

definition reducible_balance ::
  "('acc, 'st) balances_config \<Rightarrow> ('acc, 'st) balances_state \<Rightarrow> 'acc \<Rightarrow> bool \<Rightarrow> balance" where
  "reducible_balance cfg s who keep_alive =
     (let a = account cfg s who;
          liquid = saturating_sub (free a) (max (fee_frozen a) (misc_frozen a))
      in if can_dec_provider cfg (account_store s) who \<and> \<not> keep_alive then liquid
         else let must_remain_to_exist =
                    saturating_sub (existential_deposit cfg) (wrapping_sub (total a) liquid)
              in saturating_sub liquid must_remain_to_exist)"

definition can_deposit ::
  "('acc, 'st) balances_config \<Rightarrow> ('acc, 'st) balances_state \<Rightarrow> 'acc \<Rightarrow> balance \<Rightarrow> deposit_consequence" where
  "can_deposit cfg s who amount = deposit_consequence cfg s amount (account cfg s who)"

definition can_withdraw ::
  "('acc, 'st) balances_config \<Rightarrow> ('acc, 'st) balances_state \<Rightarrow> 'acc \<Rightarrow> balance \<Rightarrow> withdraw_consequence" where
  "can_withdraw cfg s who amount = withdraw_consequence cfg s who amount (account cfg s who)"

definition mint_into ::
  "('acc, 'st) balances_config \<Rightarrow> 'acc \<Rightarrow> balance \<Rightarrow> ('acc, 'st) balances_state \<Rightarrow>
   ('acc, 'st, unit) balances_result" where
  "mint_into cfg who amount s =
     (if amount = 0 then (Inr (), s)
      else and_then
        (try_mutate_account cfg no_drop who
          (\<lambda>acct _ s.
             (try_bind (deposit_into_result cfg (deposit_consequence cfg s amount acct))
                (\<lambda>_. Inr ((), acct\<lparr>free := wrapping_add (free acct) amount\<rparr>)), s)) s)
        (\<lambda>_ s. (Inr (), s\<lparr>total_issuance := wrapping_add (total_issuance s) amount\<rparr>)))"

definition burn_from ::
  "('acc, 'st) balances_config \<Rightarrow> 'acc \<Rightarrow> balance \<Rightarrow> ('acc, 'st) balances_state \<Rightarrow>
   ('acc, 'st, balance) balances_result" where
  "burn_from cfg who amount s =
     (if amount = 0 then (Inr 0, s)
      else and_then
        (try_mutate_account cfg no_drop who
          (\<lambda>acct _ s.
             (try_bind (withdraw_into_result cfg (withdraw_consequence cfg s who amount acct))
                (\<lambda>extra. let actual = wrapping_add amount extra
                         in Inr (actual, acct\<lparr>free := wrapping_sub (free acct) actual\<rparr>)), s)) s)
        (\<lambda>actual s. (Inr actual, s\<lparr>total_issuance := wrapping_sub (total_issuance s) actual\<rparr>)))"

definition fungible_transfer ::
  "('acc, 'st) balances_config \<Rightarrow> 'acc \<Rightarrow> 'acc \<Rightarrow> balance \<Rightarrow> bool \<Rightarrow>
   ('acc, 'st) balances_state \<Rightarrow> ('acc, 'st, balance) balances_result" where
  "fungible_transfer cfg source dest amount keep_alive s =
     and_then (currency_transfer cfg source dest amount (if keep_alive then Keep_Alive else Allow_Death) s)
       (\<lambda>_ s. (Inr amount, s))"

definition fungible_set_balance ::
  "('acc, 'st) balances_config \<Rightarrow> 'acc \<Rightarrow> balance \<Rightarrow> ('acc, 'st) balances_state \<Rightarrow>
   ('acc, 'st, unit) balances_result" where
  "fungible_set_balance cfg who amount s =
     mutate_account cfg no_drop who (\<lambda>acct s. (((), acct\<lparr>free := amount\<rparr>), s)) s"

definition set_total_issuance ::
  "balance \<Rightarrow> ('acc, 'st) balances_state \<Rightarrow> ('acc, 'st) balances_state" where
  "set_total_issuance amount s = s\<lparr>total_issuance := amount\<rparr>"

definition can_hold ::
  "('acc, 'st) balances_config \<Rightarrow> ('acc, 'st) balances_state \<Rightarrow> 'acc \<Rightarrow> balance \<Rightarrow> bool" where
  "can_hold cfg s who amount =
     (let a = account cfg s who;
          min_balance = max (existential_deposit cfg) (frozen a Reasons_All)
      in if checked_add (reserved a) amount = None then False
         else (case checked_add min_balance amount of
                 None \<Rightarrow> False
               | Some required_free \<Rightarrow> required_free \<le> free a))"

definition hold ::
  "('acc, 'st) balances_config \<Rightarrow> 'acc \<Rightarrow> balance \<Rightarrow> ('acc, 'st) balances_state \<Rightarrow>
   ('acc, 'st, unit) balances_result" where
  "hold cfg who amount s =
     (if amount = 0 then (Inr (), s)
      else if \<not> can_reserve cfg s who amount then (Inl (Balances InsufficientBalance), s)
      else mutate_account cfg no_drop who
        (\<lambda>a s. (((), a\<lparr>free := wrapping_sub (free a) amount,
                       reserved := wrapping_add (reserved a) amount\<rparr>), s)) s)"

definition release ::
  "('acc, 'st) balances_config \<Rightarrow> 'acc \<Rightarrow> balance \<Rightarrow> bool \<Rightarrow> ('acc, 'st) balances_state \<Rightarrow>
   ('acc, 'st, balance) balances_result" where
  "release cfg who amount best_effort s =
     (if amount = 0 then (Inr amount, s)
      else try_mutate_account cfg no_drop who
        (\<lambda>a _ s.
           (let new_free = saturating_add (free a) (min amount (reserved a));
                actual = wrapping_sub new_free (free a)
            in if \<not> (best_effort \<or> actual = amount) then Inl (Balances InsufficientBalance)
               else Inr (actual, a\<lparr>free := new_free,
                                   reserved := saturating_sub (reserved a) actual\<rparr>), s)) s)"

definition transfer_held ::
  "('acc, 'st) balances_config \<Rightarrow> 'acc \<Rightarrow> 'acc \<Rightarrow> balance \<Rightarrow> bool \<Rightarrow> bool \<Rightarrow>
   ('acc, 'st) balances_state \<Rightarrow> ('acc, 'st, balance) balances_result" where
  "transfer_held cfg source dest amount best_effort on_hold s =
     do_transfer_reserved cfg source dest amount best_effort
       (if on_hold then Status_Reserved else Status_Free) s"

section \<open>Calls\<close>

definition balances_call_transfer ::
  "('o, 'src, 'acc) frame_ops \<Rightarrow> ('acc, 'st) balances_config \<Rightarrow> 'o \<Rightarrow> 'src \<Rightarrow> balance \<Rightarrow>
   ('acc, 'st) balances_state \<Rightarrow> ('acc, 'st, unit) balances_result" where
  "balances_call_transfer F cfg orig dest amount s =
     and_then (ensure_root F orig, s) (\<lambda>_ s.
     and_then (ensure_signed F orig, s) (\<lambda>transactor s.
     and_then (lookup_account F dest, s) (\<lambda>dest s.
       currency_transfer cfg transactor dest amount Allow_Death s)))"

text \<open>The imbalance \<open>set_balance\<close> creates and drops at once for a balance that goes from \<open>old\<close> to \<open>new\<close>.\<close>

definition settle_balance ::
  "balance \<Rightarrow> balance \<Rightarrow> ('acc, 'st) balances_state \<Rightarrow> ('acc, 'st) balances_state" where
  "settle_balance old new s =
     (if old < new then drop_positive (PositiveImbalance (new - old)) s
      else if new < old then drop_negative (NegativeImbalance (old - new)) s
      else s)"

definition balances_call_set_balance ::
  "('o, 'src, 'acc) frame_ops \<Rightarrow> ('acc, 'st) balances_config \<Rightarrow> 'o \<Rightarrow> 'src \<Rightarrow> balance \<Rightarrow> balance \<Rightarrow>
   ('acc, 'st) balances_state \<Rightarrow> ('acc, 'st, unit) balances_result" where
  "balances_call_set_balance F cfg orig who new_free new_reserved s =
     and_then (ensure_root F orig, s) (\<lambda>_ s.
     and_then (lookup_account F who, s) (\<lambda>who s.
       let wipeout = wrapping_add new_free new_reserved < existential_deposit cfg;
           new_free = (if wipeout then 0 else new_free);
           new_reserved = (if wipeout then 0 else new_reserved)
       in and_then
            (mutate_account cfg no_drop who
              (\<lambda>acct s.
                 (((new_free, new_reserved), acct\<lparr>free := new_free, reserved := new_reserved\<rparr>),
                  settle_balance (reserved acct) new_reserved (settle_balance (free acct) new_free s)))
              s)
            (\<lambda>(f, r) s. (Inr (), balances_deposit_event (BalanceSet who f r) s))))"

definition balances_call_force_transfer ::
  "('o, 'src, 'acc) frame_ops \<Rightarrow> ('acc, 'st) balances_config \<Rightarrow> 'o \<Rightarrow> 'src \<Rightarrow> 'src \<Rightarrow> balance \<Rightarrow>
   ('acc, 'st) balances_state \<Rightarrow> ('acc, 'st, unit) balances_result" where
  "balances_call_force_transfer F cfg orig source dest amount s =
     and_then (ensure_root F orig, s) (\<lambda>_ s.
     and_then (lookup_account F source, s) (\<lambda>source s.
     and_then (lookup_account F dest, s) (\<lambda>dest s.
       currency_transfer cfg source dest amount Allow_Death s)))"

definition balances_call_transfer_keep_alive ::
  "('o, 'src, 'acc) frame_ops \<Rightarrow> ('acc, 'st) balances_config \<Rightarrow> 'o \<Rightarrow> 'src \<Rightarrow> balance \<Rightarrow>
   ('acc, 'st) balances_state \<Rightarrow> ('acc, 'st, unit) balances_result" where
  "balances_call_transfer_keep_alive F cfg orig dest amount s =
     and_then (ensure_root F orig, s) (\<lambda>_ s.
     and_then (ensure_signed F orig, s) (\<lambda>transactor s.
     and_then (lookup_account F dest, s) (\<lambda>dest s.
       currency_transfer cfg transactor dest amount Keep_Alive s)))"

section \<open>Genesis\<close>

fun genesis_insert ::
  "('acc, 'st) balances_config \<Rightarrow> ('acc \<times> balance) list \<Rightarrow>
   ('acc, 'st) balances_state \<Rightarrow> ('acc, 'st, unit) balances_result" where
  "genesis_insert cfg [] s = (Inr (), s)"
| "genesis_insert cfg ((who, f) # bs) s =
     (case store_commit cfg who (Some (account_default\<lparr>free := f\<rparr>)) (account_store s) of
        Inl _ \<Rightarrow> (Inl (Panic ''insert failed''), s)
      | Inr st \<Rightarrow> genesis_insert cfg bs (s\<lparr>account_store := st\<rparr>))"

definition balances_genesis_build ::
  "('acc, 'st) balances_config \<Rightarrow> ('acc \<times> balance) list \<Rightarrow>
   ('acc, 'st) balances_state \<Rightarrow> ('acc, 'st, unit) balances_result" where
  "balances_genesis_build cfg bs s =
     (let s = s\<lparr>total_issuance := foldl (\<lambda>acc (_, n). wrapping_add acc n) 0 bs,
                storage_version := V2_0_0\<rparr>
      in if \<not> list_all (\<lambda>(_, n). existential_deposit cfg \<le> n) bs
         then (Inl (Panic ''the balance of any account should always be at least the existential deposit.''), s)
         else if \<not> distinct (map fst bs)
         then (Inl (Panic ''duplicate balances in genesis.''), s)
         else genesis_insert cfg bs s)"

end
