(* ===== verification/Balances_Laws.thy ===== *)
theory Balances_Laws
  imports Balances_Ops
begin

text \<open>
  The laws of the balances pallet, for every account store that keeps the contract of the
  framework's \<open>StoredMap\<close> (locales \<open>stored_map\<close>, \<open>stored_accounts\<close>): what \<open>try_mutate_account\<close> does to the
  accounts and to the total issuance on each outcome, and from it the effect of every
  operation on the sum of all holdings. The contract is interpreted on the pallet's own
  \<open>Account\<close> map, the store it declares for chains that do not keep the balances in \<open>System\<close>.
\<close>

section \<open>Holdings\<close>

definition holding :: "account_data \<Rightarrow> nat" where
  "holding a = free a + reserved a"

definition kept :: "('acc, 'st) balances_config \<Rightarrow> account_data \<Rightarrow> account_data" where
  "kept cfg a = (if total a < existential_deposit cfg then account_default else a)"

definition dust_of :: "('acc, 'st) balances_config \<Rightarrow> account_data \<Rightarrow> nat" where
  "dust_of cfg a = (if total a < existential_deposit cfg then total a else 0)"

text \<open>The accounts that hold something, and what they hold together.\<close>

definition holders :: "('acc \<Rightarrow> account_data) \<Rightarrow> 'acc set" where
  "holders m = {a. holding (m a) \<noteq> 0}"

definition circulation :: "('acc \<Rightarrow> account_data) \<Rightarrow> nat" where
  "circulation m = (\<Sum>a\<in>holders m. holding (m a))"

text \<open>
  The invariant of the pallet: finitely many accounts hold something, all they hold is the
  total issuance, which fits its type, and an account exists with at least the existential
  deposit or holds nothing.
\<close>

definition balances_inv :: "('acc, 'st) balances_config \<Rightarrow> ('acc, 'st) balances_state \<Rightarrow> bool" where
  "balances_inv cfg s \<longleftrightarrow>
     finite (holders (account cfg s)) \<and>
     circulation (account cfg s) = total_issuance s \<and>
     total_issuance s \<le> U128_MAX \<and>
     (\<forall>a. holding (account cfg s a) = 0 \<or> existential_deposit cfg \<le> holding (account cfg s a))"

lemma holding_simps [simp]:
  "holding account_default = 0"
  "holding (a\<lparr>free := f\<rparr>) = f + reserved a"
  "holding (a\<lparr>reserved := r\<rparr>) = free a + r"
  "holding (a\<lparr>misc_frozen := x\<rparr>) = holding a"
  "holding (a\<lparr>fee_frozen := x\<rparr>) = holding a"
  by (simp_all add: holding_def account_default_def)

lemma total_exact: "holding a \<le> U128_MAX \<Longrightarrow> total a = holding a"
  by (simp add: total_def holding_def saturating_add_def)

lemma circulation_superset:
  assumes "finite A" and "holders m \<subseteq> A"
  shows "circulation m = (\<Sum>a\<in>A. holding (m a))"
  unfolding circulation_def
  by (rule sum.mono_neutral_left) (use assms in \<open>auto simp: holders_def\<close>)

lemma finite_holders_upd: "finite (holders m) \<Longrightarrow> finite (holders (m(x := d)))"
  by (rule finite_subset [of _ "insert x (holders m)"]) (auto simp: holders_def split: if_splits)

lemma circulation_upd:
  assumes "finite (holders m)"
  shows "circulation (m(x := d)) + holding (m x) = circulation m + holding d"
proof -
  let ?A = "insert x (holders m)"
  have A: "finite ?A" "holders m \<subseteq> ?A" "holders (m(x := d)) \<subseteq> ?A"
    using assms by (auto simp: holders_def split: if_splits)
  have "sum ((\<lambda>a. holding (m a))(x := holding d)) ?A + holding (m x) =
      sum (\<lambda>a. holding (m a)) ?A + holding d"
    by (rule sum_fun_upd) (use A(1) in auto)
  moreover have "(\<lambda>a. holding (m a))(x := holding d) = (\<lambda>a. holding ((m(x := d)) a))"
    by auto
  ultimately show ?thesis
    using circulation_superset [OF A(1,2)] circulation_superset [OF A(1,3)] by simp
qed

lemma holding_le_circulation:
  assumes "finite (holders m)"
  shows "holding (m x) \<le> circulation m"
proof (cases "x \<in> holders m")
  case True
  with assms show ?thesis
    unfolding circulation_def by (intro member_le_sum_nat [of _ x "\<lambda>a. holding (m a)"])
qed (simp add: holders_def)

lemma circulation_upd2:
  assumes "finite (holders m)" and "x \<noteq> y"
  shows "circulation (m(x := d, y := d')) + holding (m x) + holding (m y) =
    circulation m + holding d + holding d'"
  using circulation_upd [OF assms(1), of x d] assms(2)
    circulation_upd [OF finite_holders_upd [OF assms(1)], of x d y d']
  by simp

lemma holding_pair_le_circulation:
  assumes "finite (holders m)" and "x \<noteq> y"
  shows "holding (m x) + holding (m y) \<le> circulation m"
  using circulation_upd2 [OF assms, of account_default account_default] by simp

lemma balances_invD:
  assumes "balances_inv cfg s"
  shows "finite (holders (account cfg s))" and "circulation (account cfg s) = total_issuance s"
    and "total_issuance s \<le> U128_MAX" and "holding (account cfg s a) \<le> total_issuance s"
    and "total (account cfg s a) = holding (account cfg s a)"
    and "holding (account cfg s a) = 0 \<or> existential_deposit cfg \<le> holding (account cfg s a)"
  using assms holding_le_circulation [of "account cfg s" a] total_exact [of "account cfg s a"]
  by (auto simp: balances_inv_def)

text \<open>One account changes: the invariant holds again when the issuance moves by the same amount.\<close>

lemma balances_inv_upd:
  assumes inv: "balances_inv cfg s"
    and acc: "account cfg s' = (account cfg s)(x := d)"
    and iss: "total_issuance s' + holding (account cfg s x) = total_issuance s + holding d"
    and bound: "total_issuance s' \<le> U128_MAX"
    and ed: "holding d = 0 \<or> existential_deposit cfg \<le> holding d"
  shows "balances_inv cfg s'"
  using balances_invD [OF inv] circulation_upd [of "account cfg s" x d] iss bound ed
  by (auto simp: balances_inv_def acc intro: finite_holders_upd)

lemma balances_inv_same:
  "balances_inv cfg s \<Longrightarrow> account cfg s' = account cfg s \<Longrightarrow> total_issuance s' = total_issuance s \<Longrightarrow>
   balances_inv cfg s'"
  by (simp add: balances_inv_def)

lemma kept_cases:
  obtains "total a < existential_deposit cfg" and "kept cfg a = account_default" and "dust_of cfg a = total a"
  | "existential_deposit cfg \<le> total a" and "kept cfg a = a" and "dust_of cfg a = 0"
  by (cases "total a < existential_deposit cfg") (simp_all add: kept_def dust_of_def)

lemma holding_kept: "holding a \<le> U128_MAX \<Longrightarrow> holding (kept cfg a) + dust_of cfg a = holding a"
  by (cases rule: kept_cases [of a cfg]) (simp_all add: total_exact)

lemma kept_ed:
  "holding a \<le> U128_MAX \<Longrightarrow>
   holding (kept cfg a) = 0 \<or> existential_deposit cfg \<le> holding (kept cfg a)"
  by (cases rule: kept_cases [of a cfg]) (simp_all add: total_exact)

lemma kept_zero_ed [simp]:
  "existential_deposit cfg = 0 \<Longrightarrow> kept cfg a = a" "existential_deposit cfg = 0 \<Longrightarrow> dust_of cfg a = 0"
  by (simp_all add: kept_def dust_of_def)

lemma post_mutation_eq:
  "post_mutation cfg a =
     (if total a < existential_deposit cfg then None else Some a,
      if total a < existential_deposit cfg \<and> total a \<noteq> 0
      then Some (NegativeImbalance (total a)) else None)"
  by (simp add: post_mutation_def)

lemma drop_negative_simps [simp]:
  "account cfg (drop_negative n s) = account cfg s"
  "total_issuance (drop_negative n s) = total_issuance s - negative_peek n"
  "locks (drop_negative n s) = locks s"
  by (cases n; simp add: account_def [abs_def] saturating_sub_def)+

lemma drop_positive_simps [simp]:
  "account cfg (drop_positive n s) = account cfg s"
  "total_issuance (drop_positive n s) = saturating_add (total_issuance s) (positive_peek n)"
  "locks (drop_positive n s) = locks s"
  by (cases n; simp add: account_def [abs_def])+

lemma event_simps [simp]:
  "account cfg (balances_deposit_event ev s) = account cfg s"
  "total_issuance (balances_deposit_event ev s) = total_issuance s"
  "locks (balances_deposit_event ev s) = locks s"
  "account_store (balances_deposit_event ev s) = account_store s"
  by (simp_all add: account_def [abs_def] balances_deposit_event_def)

lemma account_issuance_upd [simp]: "account cfg (s\<lparr>total_issuance := n\<rparr>) = account cfg s"
  by (simp add: account_def [abs_def])

section \<open>The contract of the account store\<close>

text \<open>
  What the framework documents of \<open>StoredMap\<close> and the reference counters: \<open>get\<close> is the stored
  data or the default; a commit changes the data of one account only and cannot be refused
  when it stores data; the consumer counters do not touch the data.
\<close>

locale stored_map =
  fixes cfg :: "('acc, 'st) balances_config"
  assumes query_get: "store_query cfg st a = Some d \<Longrightarrow> store_get cfg st a = d"
    and query_none: "store_query cfg st a = None \<Longrightarrow> store_get cfg st a = account_default"
    and commit_get: "store_commit cfg a v st = Inr st' \<Longrightarrow>
      store_get cfg st' = (store_get cfg st)(a := (case v of None \<Rightarrow> account_default | Some d \<Rightarrow> d))"
    and commit_some: "\<exists>st'. store_commit cfg a (Some d) st = Inr st'"
    and inc_get: "inc_consumers cfg a st = Inr st' \<Longrightarrow> store_get cfg st' = store_get cfg st"
    and dec_get: "store_get cfg (dec_consumers cfg a st) = store_get cfg st"
begin

lemma queried_account:
  "(case store_query cfg (account_store s) who of None \<Rightarrow> account_default | Some a \<Rightarrow> a) = account cfg s who"
  by (auto simp: account_def query_get query_none split: option.split)

lemma account_commit:
  assumes "store_commit cfg who (fst (post_mutation cfg d)) (account_store s) = Inr st"
    and "account_store s' = st"
  shows "account cfg s' = (account cfg s)(who := kept cfg d)"
  using commit_get [OF assms(1)] assms(2)
  by (auto simp: account_def [abs_def] post_mutation_eq kept_def)

text \<open>The outcome of \<open>try_mutate_account_with_dust\<close> when it succeeds.\<close>

lemma with_dust_Inr:
  assumes "try_mutate_account_with_dust cfg dr who f s = (Inr (r, dust), s')"
  obtains d s1 where "f (account cfg s who) (store_query cfg (account_store s) who = None) s = (Inr (r, d), s1)"
    and "account cfg s' = (account cfg s1)(who := kept cfg d)"
    and "total_issuance s' = total_issuance s1" and "locks s' = locks s1"
    and "dust = map_option (\<lambda>n. (who, n)) (snd (post_mutation cfg d))"
proof -
  let ?new = "store_query cfg (account_store s) who = None"
  from assms obtain d s1 where f: "f (account cfg s who) ?new s = (Inr (r, d), s1)"
    by (auto simp: try_mutate_account_with_dust_def queried_account Let_def and_then_eq_Inr
        case_prod_beta split: sum.splits)
      (metis obj_sumE)
  from assms f obtain st where c: "store_commit cfg who (fst (post_mutation cfg d)) (account_store s1) = Inr st"
    and "dust = map_option (\<lambda>n. (who, n)) (snd (post_mutation cfg d))"
    and s': "s' = (if ?new then balances_deposit_event (Endowed who (free d)) (s1\<lparr>account_store := st\<rparr>)
          else s1\<lparr>account_store := st\<rparr>)"
    by (cases "store_commit cfg who (fst (post_mutation cfg d)) (account_store s1)")
      (auto simp: try_mutate_account_with_dust_def queried_account Let_def case_prod_beta)
  moreover have "account_store s' = st" "total_issuance s' = total_issuance s1" "locks s' = locks s1"
    using s' by (simp_all add: balances_deposit_event_def)
  ultimately show ?thesis using that f account_commit [OF c] by blast
qed

text \<open>When it fails, the closure failed, or removing the account was refused.\<close>

lemma with_dust_Inl:
  assumes "try_mutate_account_with_dust cfg dr who f s = (Inl e, s')"
  obtains "f (account cfg s who) (store_query cfg (account_store s) who = None) s = (Inl e, s')"
  | r d s1 where "f (account cfg s who) (store_query cfg (account_store s) who = None) s = (Inr (r, d), s1)"
    and "total d < existential_deposit cfg"
    and "s' = dr r (s1\<lparr>total_issuance := total_issuance s1 - total d\<rparr>)"
proof (cases "f (account cfg s who) (store_query cfg (account_store s) who = None) s")
  case (Pair x s1)
  show ?thesis
  proof (cases x)
    case (Inl e')
    with Pair assms that(1) show ?thesis
      by (simp add: try_mutate_account_with_dust_def queried_account Let_def)
  next
    case (Inr rd)
    obtain r d where rd: "rd = (r, d)" by force
    with Inr Pair assms
    have s': "s' = dr r (case snd (post_mutation cfg d) of None \<Rightarrow> s1 | Some x \<Rightarrow> drop_negative x s1)"
      and c: "store_commit cfg who (fst (post_mutation cfg d)) (account_store s1) = Inl e"
      by (auto simp: try_mutate_account_with_dust_def queried_account Let_def case_prod_beta split: sum.splits)
    have ed: "total d < existential_deposit cfg"
      using c commit_some [of who d "account_store s1"] by (force simp: post_mutation_eq split: if_splits)
    then have "s' = dr r (s1\<lparr>total_issuance := total_issuance s1 - total d\<rparr>)"
      using s' by (auto simp: post_mutation_eq saturating_sub_def)
    with that(2) Inr Pair rd ed show ?thesis by blast
  qed
qed

subsection \<open>Transfers\<close>

lemma transfer_accounts_Inr:
  assumes "transfer_accounts cfg who n req s to_acc from_acc = Inr (to', from')"
  shows "n \<le> free from_acc" and "free to_acc + n \<le> U128_MAX"
    and "from' = from_acc\<lparr>free := free from_acc - n\<rparr>" and "to' = to_acc\<lparr>free := free to_acc + n\<rparr>"
    and "existential_deposit cfg \<le> total to'"
    and "n \<noteq> 0 \<Longrightarrow> misc_frozen (account cfg s who) \<le> free from_acc - n"
    and "req = Keep_Alive \<Longrightarrow> existential_deposit cfg \<le> total from'"
  using assms
  by (auto simp: transfer_accounts_def try_bind_eq_Inr Let_def ensure_can_withdraw_def is_ok_def
      reasons_from_def frozen_def split: if_splits)

text \<open>A transfer up to the point where the dust of the sender is handed over.\<close>

lemma transfer_before_dust:
  assumes "currency_transfer cfg x y n req s = (Inr (), s')" and "n \<noteq> 0" and "x \<noteq> y"
  obtains dx dy s2 where "dx = (account cfg s x)\<lparr>free := free (account cfg s x) - n\<rparr>"
    and "dy = (account cfg s y)\<lparr>free := free (account cfg s y) + n\<rparr>"
    and "n \<le> free (account cfg s x)" and "free (account cfg s y) + n \<le> U128_MAX"
    and "misc_frozen (account cfg s x) \<le> free (account cfg s x) - n"
    and "existential_deposit cfg \<le> total dy"
    and "req = Keep_Alive \<Longrightarrow> existential_deposit cfg \<le> total dx"
    and "account cfg s2 = (account cfg s)(x := kept cfg dx, y := dy)"
    and "total_issuance s2 = total_issuance s" and "locks s2 = locks s"
    and "s' = balances_deposit_event (Transferred x y n)
      (drop_dust_cleaner cfg (map_option (\<lambda>n. (x, n)) (snd (post_mutation cfg dx))) s2)"
proof -
  from assms obtain dust_x dust_y s2 where s2: "s' = balances_deposit_event (Transferred x y n)
      (drop_dust_cleaner cfg dust_y (drop_dust_cleaner cfg dust_x s2))"
    and outer: "try_mutate_account_with_dust cfg (drop_dust_cleaner cfg) y
      (\<lambda>to_account _ s. and_then (try_mutate_account_with_dust cfg no_drop x
         (\<lambda>from_account _ s. (transfer_accounts cfg x n req s to_account from_account, s)) s)
         (\<lambda>(to_account, maybe_dust_cleaner) s. (Inr (maybe_dust_cleaner, to_account), s))) s
      = (Inr (dust_x, dust_y), s2)"
    by (auto simp: currency_transfer_def and_then_eq_Inr)
  from outer obtain dy s1 where inner: "try_mutate_account_with_dust cfg no_drop x
         (\<lambda>from_account _ s. (transfer_accounts cfg x n req s (account cfg s y) from_account, s)) s
         = (Inr (dy, dust_x), s1)"
    and a2: "account cfg s2 = (account cfg s1)(y := kept cfg dy)"
    and i2: "total_issuance s2 = total_issuance s1" "locks s2 = locks s1"
    and dust_y: "dust_y = map_option (\<lambda>n. (y, n)) (snd (post_mutation cfg dy))"
    by (elim with_dust_Inr)
      (auto simp: and_then_eq_Inr try_mutate_account_with_dust_def queried_account)
  from inner obtain dx where ta: "transfer_accounts cfg x n req s (account cfg s y) (account cfg s x) = Inr (dy, dx)"
    and a1: "account cfg s1 = (account cfg s)(x := kept cfg dx)"
    and i1: "total_issuance s1 = total_issuance s" "locks s1 = locks s"
    and dust_x: "dust_x = map_option (\<lambda>n. (x, n)) (snd (post_mutation cfg dx))"
    by (elim with_dust_Inr) auto
  note ta = transfer_accounts_Inr [OF ta]
  have "kept cfg dy = dy" and "dust_y = None"
    using ta(5) by (simp_all add: kept_def dust_y post_mutation_eq)
  with s2 a1 a2 have "account cfg s2 = (account cfg s)(x := kept cfg dx, y := dy)"
    and "s' = balances_deposit_event (Transferred x y n) (drop_dust_cleaner cfg dust_x s2)" by simp_all
  with that ta i1 i2 dust_x assms(2) show ?thesis by auto
qed

lemma transfer_reserved_before_dust:
  assumes "do_transfer_reserved cfg x y n best st s = (Inr m, s')" and "n \<noteq> 0" and "x \<noteq> y"
  obtains dx dy s2 where "m = min (reserved (account cfg s x)) n"
    and "dx = (account cfg s x)\<lparr>reserved := reserved (account cfg s x) - m\<rparr>"
    and "dy = (case st of Status_Free \<Rightarrow> (account cfg s y)\<lparr>free := free (account cfg s y) + m\<rparr>
      | Status_Reserved \<Rightarrow> (account cfg s y)\<lparr>reserved := reserved (account cfg s y) + m\<rparr>)"
    and "store_query cfg (account_store s) y \<noteq> None"
    and "account cfg s2 = (account cfg s)(x := kept cfg dx, y := kept cfg dy)"
    and "total_issuance s2 = total_issuance s" and "locks s2 = locks s"
    and "s' = drop_dust_cleaner cfg (map_option (\<lambda>n. (x, n)) (snd (post_mutation cfg dx)))
      (drop_dust_cleaner cfg (map_option (\<lambda>n. (y, n)) (snd (post_mutation cfg dy)))
        (balances_deposit_event (ReserveRepatriated x y m st) s2))"
    and "best \<or> m = n"
proof -
  let ?inner = "\<lambda>to_account from_account (_::bool) s.
    (let actual = min (reserved from_account) n
     in if \<not> (best \<or> actual = n) then Inl (Balances InsufficientBalance)
        else try_bind
          (case st of
             Status_Free \<Rightarrow> try_bind (ok_or (checked_add (free to_account) actual) (Balances Overflow))
                 (\<lambda>f. Inr (to_account\<lparr>free := f\<rparr>))
           | Status_Reserved \<Rightarrow> try_bind (ok_or (checked_add (reserved to_account) actual) (Balances Overflow))
                 (\<lambda>r. Inr (to_account\<lparr>reserved := r\<rparr>)))
          (\<lambda>to_account. Inr ((actual, to_account), from_account\<lparr>reserved := reserved from_account - actual\<rparr>)), s)"
  from assms obtain dust_x dust_y s2 where
    outer: "try_mutate_account_with_dust cfg (\<lambda>(_, dust). drop_dust_cleaner cfg dust) y
      (\<lambda>to_account is_new s. if is_new then (Inl (Balances DeadAccount), s)
         else and_then (try_mutate_account_with_dust cfg no_drop x (?inner to_account) s)
           (\<lambda>((actual, to_account), from_dust) s. (Inr ((actual, from_dust), to_account), s))) s
      = (Inr ((m, dust_x), dust_y), s2)"
    and s': "s' = drop_dust_cleaner cfg dust_x (drop_dust_cleaner cfg dust_y
        (balances_deposit_event (ReserveRepatriated x y m st) s2))"
    by (auto simp: do_transfer_reserved_def and_then_eq_Inr)
  from outer obtain dy s1 where nn: "store_query cfg (account_store s) y \<noteq> None"
    and inner: "try_mutate_account_with_dust cfg no_drop x (?inner (account cfg s y)) s =
      (Inr ((m, dy), dust_x), s1)"
    and 2: "account cfg s2 = (account cfg s1)(y := kept cfg dy)"
      "total_issuance s2 = total_issuance s1" "locks s2 = locks s1"
      "dust_y = map_option (\<lambda>n. (y, n)) (snd (post_mutation cfg dy))"
    by (elim with_dust_Inr) (auto simp: and_then_eq_Inr split: if_splits)
  from inner obtain dx where f: "?inner (account cfg s y) (account cfg s x) undefined s = (Inr ((m, dy), dx), s)"
    and 1: "account cfg s1 = (account cfg s)(x := kept cfg dx)"
      "total_issuance s1 = total_issuance s" "locks s1 = locks s"
      "dust_x = map_option (\<lambda>n. (x, n)) (snd (post_mutation cfg dx))"
    by (elim with_dust_Inr) auto
  with 2 have "account cfg s2 = (account cfg s)(x := kept cfg dx, y := kept cfg dy)"
    and "total_issuance s2 = total_issuance s" and "locks s2 = locks s" by simp_all
  with that f nn s' [unfolded 1(4) 2(4)] show ?thesis
    by (auto simp: try_bind_eq_Inr Let_def split: if_splits balance_status.splits)
qed

end

text \<open>The runtime sets \<open>DustRemoval\<close> to \<open>()\<close>: dust is dropped.\<close>

locale stored_accounts = stored_map +
  assumes dust_dropped: "dust_removal cfg = drop_negative"
begin

lemma drop_dust_simps [simp]:
  "account cfg (drop_dust_cleaner cfg c s) = account cfg s"
  "locks (drop_dust_cleaner cfg c s) = locks s"
  by (cases "(cfg, c, s)" rule: drop_dust_cleaner.cases; simp add: dust_dropped)+

lemma drop_dust_issuance:
  "total_issuance (drop_dust_cleaner cfg (map_option (\<lambda>n. (who, n)) (snd (post_mutation cfg d))) s) =
   total_issuance s - dust_of cfg d"
  by (simp add: post_mutation_eq dust_of_def saturating_sub_def dust_dropped)

lemma try_mutate_Inr:
  assumes "try_mutate_account cfg dr who f s = (Inr r, s')"
  obtains d s1 where "f (account cfg s who) (store_query cfg (account_store s) who = None) s = (Inr (r, d), s1)"
    and "account cfg s' = (account cfg s1)(who := kept cfg d)"
    and "total_issuance s' = total_issuance s1 - dust_of cfg d" and "locks s' = locks s1"
  using assms
  by (auto simp: try_mutate_account_def and_then_eq_Inr drop_dust_issuance elim!: with_dust_Inr)

lemma try_mutate_Inl:
  assumes "try_mutate_account cfg dr who f s = (Inl e, s')"
  obtains "f (account cfg s who) (store_query cfg (account_store s) who = None) s = (Inl e, s')"
  | r d s1 where "f (account cfg s who) (store_query cfg (account_store s) who = None) s = (Inr (r, d), s1)"
    and "total d < existential_deposit cfg"
    and "s' = dr r (s1\<lparr>total_issuance := total_issuance s1 - total d\<rparr>)"
  using assms
  by (auto simp: try_mutate_account_def and_then_eq_Inl elim!: with_dust_Inl)

lemma currency_transfer_Inr:
  assumes "currency_transfer cfg x y n req s = (Inr (), s')" and "n \<noteq> 0" and "x \<noteq> y"
  obtains dx dy where "dx = (account cfg s x)\<lparr>free := free (account cfg s x) - n\<rparr>"
    and "dy = (account cfg s y)\<lparr>free := free (account cfg s y) + n\<rparr>"
    and "n \<le> free (account cfg s x)" and "free (account cfg s y) + n \<le> U128_MAX"
    and "misc_frozen (account cfg s x) \<le> free (account cfg s x) - n"
    and "existential_deposit cfg \<le> total dy"
    and "req = Keep_Alive \<Longrightarrow> existential_deposit cfg \<le> total dx"
    and "account cfg s' = (account cfg s)(x := kept cfg dx, y := dy)"
    and "total_issuance s' = total_issuance s - dust_of cfg dx" and "locks s' = locks s"
  by (rule transfer_before_dust [OF assms]) (simp add: that drop_dust_issuance)

lemma mutate_inv:
  assumes inv: "balances_inv cfg s"
    and acc: "account cfg s' = (account cfg s)(who := kept cfg d)"
    and d: "holding d \<le> U128_MAX"
    and iss: "total_issuance s' + dust_of cfg d + holding (account cfg s who) = total_issuance s + holding d"
    and bound: "total_issuance s' \<le> U128_MAX"
  shows "balances_inv cfg s'"
  by (rule balances_inv_upd [OF inv acc]) (use iss bound holding_kept [OF d, of cfg] kept_ed [OF d] in auto)

text \<open>The two shapes most operations have: \<open>k\<close> leaves the account as an imbalance, or nothing does.\<close>

lemma burned_inv:
  assumes inv: "balances_inv cfg s"
    and acc: "account cfg s' = (account cfg s)(who := kept cfg d)"
    and iss: "total_issuance s' = total_issuance s - dust_of cfg d"
    and h: "holding d + k = holding (account cfg s who)"
  shows "balances_inv cfg (drop_negative (NegativeImbalance k) s')"
proof -
  note D = balances_invD [OF inv]
  have m: "holding d \<le> U128_MAX" using h D(3) D(4) [of who] by simp
  show ?thesis
    by (rule mutate_inv [OF inv _ m])
      (use acc iss h D(3) D(4) [of who] holding_kept [OF m, of cfg] in auto)
qed

lemma conserved_inv:
  assumes "balances_inv cfg s" and "account cfg s' = (account cfg s)(who := kept cfg d)"
    and "total_issuance s' = total_issuance s - dust_of cfg d"
    and "holding d = holding (account cfg s who)"
  shows "balances_inv cfg s'"
  using burned_inv [where k = 0, OF assms(1-3)] assms(4) by (auto intro: balances_inv_same)

lemma currency_transfer_inv:
  assumes inv: "balances_inv cfg s" and tr: "currency_transfer cfg x y n req s = (Inr (), s')"
  shows "balances_inv cfg s'"
proof (cases "n = 0 \<or> x = y")
  case True
  with tr inv show ?thesis by (simp add: currency_transfer_def)
next
  case False
  then have xy: "n \<noteq> 0" "x \<noteq> y" by auto
  note D = balances_invD [OF inv]
  from tr xy obtain dx dy where dx: "dx = (account cfg s x)\<lparr>free := free (account cfg s x) - n\<rparr>"
    and dy: "dy = (account cfg s y)\<lparr>free := free (account cfg s y) + n\<rparr>"
    and n: "n \<le> free (account cfg s x)" and ed: "existential_deposit cfg \<le> total dy"
    and acc: "account cfg s' = (account cfg s)(x := kept cfg dx, y := dy)"
    and iss: "total_issuance s' = total_issuance s - dust_of cfg dx"
    by (elim currency_transfer_Inr)
  have le: "holding (account cfg s x) + holding (account cfg s y) \<le> total_issuance s"
    using holding_pair_le_circulation [OF D(1) xy(2)] D(2) by simp
  have hx: "holding dx + n = holding (account cfg s x)" and hy: "holding dy = holding (account cfg s y) + n"
    using dx dy n by (simp_all add: holding_def)
  then have m: "holding dx \<le> U128_MAX" "holding dy \<le> U128_MAX" using le D(3) by simp_all
  have "circulation (account cfg s') + holding (account cfg s x) + holding (account cfg s y) =
      circulation (account cfg s) + holding (kept cfg dx) + holding dy"
    unfolding acc by (rule circulation_upd2 [OF D(1) xy(2)])
  with hx hy holding_kept [OF m(1), of cfg] iss D(2) le have "circulation (account cfg s') = total_issuance s'"
    by simp
  moreover have "finite (holders (account cfg s'))"
    unfolding acc using D(1) by (intro finite_holders_upd)
  moreover have "holding (account cfg s' a) = 0 \<or> existential_deposit cfg \<le> holding (account cfg s' a)" for a
    using kept_ed [OF m(1), of cfg] D(6) [of a] ed total_exact [OF m(2)] by (simp add: acc)
  ultimately show ?thesis using iss D(3) by (simp add: balances_inv_def)
qed

subsection \<open>Withdrawals and deposits\<close>

lemma withdraw_Inr:
  assumes "withdraw cfg who n rs req s = (Inr imb, s')" and "n \<noteq> 0"
  obtains d where "d = (account cfg s who)\<lparr>free := free (account cfg s who) - n\<rparr>"
    and "imb = NegativeImbalance n" and "n \<le> free (account cfg s who)"
    and "frozen (account cfg s who) (reasons_from rs) \<le> free (account cfg s who) - n"
    and "account cfg s' = (account cfg s)(who := kept cfg d)"
    and "total_issuance s' = total_issuance s - dust_of cfg d" and "locks s' = locks s"
  using assms
  by (auto simp: withdraw_def try_bind_eq_Inr Let_def ensure_can_withdraw_def
      elim!: try_mutate_Inr split: if_splits)

lemma withdraw_inv:
  assumes inv: "balances_inv cfg s" and wd: "withdraw cfg who n rs req s = (Inr imb, s')"
  shows "balances_inv cfg (drop_negative imb s')"
proof (cases "n = 0")
  case True
  with wd inv show ?thesis by (auto simp: withdraw_def saturating_sub_def)
next
  case False
  note D = balances_invD [OF inv]
  from wd False obtain d where d: "d = (account cfg s who)\<lparr>free := free (account cfg s who) - n\<rparr>"
    and n: "imb = NegativeImbalance n" "n \<le> free (account cfg s who)"
    and acc: "account cfg s' = (account cfg s)(who := kept cfg d)"
    and iss: "total_issuance s' = total_issuance s - dust_of cfg d"
    by (elim withdraw_Inr)
  have "holding d + n = holding (account cfg s who)" using d n by (simp add: holding_def)
  with burned_inv [OF inv acc iss] n show ?thesis by simp
qed

text \<open>
  A deposit of \<open>n\<close>: the closure returned \<open>n\<close> more free balance. The invariant needs the issuance
  to have room for it, since \<open>PositiveImbalance\<close>'s destructor saturates.
\<close>

lemma deposit_inv:
  assumes inv: "balances_inv cfg s"
    and acc: "account cfg s' = (account cfg s)(who := kept cfg d)"
    and d: "d = (account cfg s who)\<lparr>free := free (account cfg s who) + n\<rparr>"
    and iss: "total_issuance s' = total_issuance s - dust_of cfg d"
    and ed: "existential_deposit cfg \<le> total d"
    and room: "total_issuance s + n \<le> U128_MAX"
  shows "balances_inv cfg (drop_positive (PositiveImbalance n) s')"
proof -
  note D = balances_invD [OF inv]
  have h: "holding d = holding (account cfg s who) + n" using d by (simp add: holding_def)
  then have m: "holding d \<le> U128_MAX" using D(4) [of who] room by simp
  have "dust_of cfg d = 0" using ed by (simp add: dust_of_def)
  then show ?thesis
    by (intro mutate_inv [OF inv _ m]) (use acc iss h room in \<open>auto simp: saturating_add_def\<close>)
qed

subsection \<open>Reserves\<close>

lemma reserve_Inr:
  assumes "reserve cfg who n s = (Inr (), s')" and "n \<noteq> 0"
  obtains d where "d = (account cfg s who)\<lparr>free := free (account cfg s who) - n,
      reserved := reserved (account cfg s who) + n\<rparr>"
    and "n \<le> free (account cfg s who)" and "reserved (account cfg s who) + n \<le> U128_MAX"
    and "misc_frozen (account cfg s who) \<le> free (account cfg s who) - n"
    and "account cfg s' = (account cfg s)(who := kept cfg d)"
    and "total_issuance s' = total_issuance s - dust_of cfg d" and "locks s' = locks s"
  using assms
  by (auto simp: reserve_def and_then_eq_Inr try_bind_eq_Inr ensure_can_withdraw_def reasons_from_def
      frozen_def Let_def elim!: try_mutate_Inr split: if_splits)

lemma reserve_inv:
  assumes inv: "balances_inv cfg s" and res: "reserve cfg who n s = (Inr (), s')"
  shows "balances_inv cfg s'"
proof (cases "n = 0")
  case True
  with res inv show ?thesis by (simp add: reserve_def)
next
  case False
  note D = balances_invD [OF inv]
  from res False obtain d where d: "d = (account cfg s who)\<lparr>free := free (account cfg s who) - n,
      reserved := reserved (account cfg s who) + n\<rparr>" and n: "n \<le> free (account cfg s who)"
    and acc: "account cfg s' = (account cfg s)(who := kept cfg d)"
    and iss: "total_issuance s' = total_issuance s - dust_of cfg d"
    by (elim reserve_Inr)
  show ?thesis by (rule conserved_inv [OF inv acc iss]) (use d n in \<open>simp add: holding_def\<close>)
qed

end

section \<open>Stores that never refuse\<close>

text \<open>
  With an existential deposit of zero, the runtime's setting, every account is kept, and a
  commit that stores data is never refused; the same holds of any store that does not count
  references. Then a failed operation leaves the storage as it was, and the operations that
  swallow a failure keep the invariant.
\<close>

locale accepting_accounts = stored_accounts +
  assumes accepting: "existential_deposit cfg = 0 \<or> (\<forall>a v st. \<exists>st'. store_commit cfg a v st = Inr st')"
begin

lemma with_dust_accepted:
  assumes "f (account cfg s who) (store_query cfg (account_store s) who = None) s = (Inr (r, d), s1)"
  shows "\<exists>dust s'. try_mutate_account_with_dust cfg dr who f s = (Inr (r, dust), s')"
proof -
  have "\<exists>st. store_commit cfg who (fst (post_mutation cfg d)) (account_store s1) = Inr st"
    using accepting commit_some by (auto simp: post_mutation_eq)
  with assms show ?thesis
    by (auto simp: try_mutate_account_with_dust_def queried_account Let_def case_prod_beta)
qed

lemma try_mutate_accepted:
  assumes "f (account cfg s who) (store_query cfg (account_store s) who = None) s = (Inr (r, d), s1)"
  obtains s' where "try_mutate_account cfg dr who f s = (Inr r, s')"
  using with_dust_accepted [where f = f and s = s and who = who and dr = dr, OF assms] by (force simp: try_mutate_account_def)

lemma try_mutate_failed:
  assumes "try_mutate_account cfg dr who f s = (Inl e, s')"
  shows "f (account cfg s who) (store_query cfg (account_store s) who = None) s = (Inl e, s')"
  using assms
proof (cases rule: try_mutate_Inl)
  case (2 r d s1)
  from 2(1) obtain s'' where "try_mutate_account cfg dr who f s = (Inr r, s'')"
    by (rule try_mutate_accepted [where f = f])
  with assms show ?thesis by simp
qed

lemma mutate_account_accepted:
  assumes "f (account cfg s who) s = ((r, d), s1)"
  obtains s' where "mutate_account cfg dr who f s = (Inr r, s')"
    and "account cfg s' = (account cfg s1)(who := kept cfg d)"
    and "total_issuance s' = total_issuance s1 - dust_of cfg d" and "locks s' = locks s1"
proof -
  let ?f = "\<lambda>acct (_::bool) s. (case f acct s of (r, s') \<Rightarrow> (Inr r, s'))"
  have "?f (account cfg s who) (store_query cfg (account_store s) who = None) s = (Inr (r, d), s1)"
    using assms by simp
  then obtain s' where s': "try_mutate_account cfg dr who ?f s = (Inr r, s')"
    by (rule try_mutate_accepted [where f = ?f])
  from s' assms that show ?thesis
    by (auto simp: mutate_account_def elim!: try_mutate_Inr)
qed

lemma withdraw_Inl: "withdraw cfg who n rs req s = (Inl e, s') \<Longrightarrow> s' = s"
  by (auto simp: withdraw_def split: if_splits dest!: try_mutate_failed)

lemma reserve_Inl: "reserve cfg who n s = (Inl e, s') \<Longrightarrow> s' = s"
  by (auto simp: reserve_def and_then_eq_Inl split: if_splits dest!: try_mutate_failed)

lemma deposit_into_existing_Inl: "deposit_into_existing cfg who n s = (Inl e, s') \<Longrightarrow> s' = s"
  by (auto simp: deposit_into_existing_def split: if_splits dest!: try_mutate_failed)

lemma mint_into_Inl: "mint_into cfg who n s = (Inl e, s') \<Longrightarrow> s' = s"
  by (auto simp: mint_into_def and_then_eq_Inl split: if_splits dest!: try_mutate_failed)

lemma burn_from_Inl: "burn_from cfg who n s = (Inl e, s') \<Longrightarrow> s' = s"
  by (auto simp: burn_from_def and_then_eq_Inl split: if_splits dest!: try_mutate_failed)

lemma with_dust_failed:
  assumes "try_mutate_account_with_dust cfg dr who f s = (Inl e, s')"
  shows "f (account cfg s who) (store_query cfg (account_store s) who = None) s = (Inl e, s')"
  using assms
proof (cases rule: with_dust_Inl)
  case (2 r d s1)
  from with_dust_accepted [where f = f and s = s and who = who and dr = dr, OF 2(1)] assms show ?thesis by auto
qed

lemma currency_transfer_Inl: "currency_transfer cfg x y n req s = (Inl e, s') \<Longrightarrow> s' = s"
  by (auto simp: currency_transfer_def and_then_eq_Inl split: if_splits dest!: with_dust_failed)

lemma unreserve_accepted:
  assumes inv: "balances_inv cfg s" and "n \<noteq> 0" and "total_balance cfg s who \<noteq> 0"
  obtains m d s' where "unreserve cfg who n s = (n - m, s')"
    and "m = min (reserved (account cfg s who)) n"
    and "d = (account cfg s who)\<lparr>reserved := reserved (account cfg s who) - m,
      free := free (account cfg s who) + m\<rparr>"
    and "account cfg s' = (account cfg s)(who := kept cfg d)"
    and "total_issuance s' = total_issuance s - dust_of cfg d" and "locks s' = locks s"
proof -
  let ?a = "account cfg s who" and ?m = "min (reserved (account cfg s who)) n"
  let ?d = "?a\<lparr>reserved := reserved ?a - ?m, free := free ?a + ?m\<rparr>"
  have sat: "saturating_add (free ?a) ?m = free ?a + ?m"
    using balances_invD(3) [OF inv] balances_invD(4) [OF inv, of who] by (intro saturating_add_exact) (auto simp: holding_def)
  let ?f = "\<lambda>acct s. let actual = min (reserved acct) n
      in ((actual, acct\<lparr>reserved := reserved acct - actual, free := saturating_add (free acct) actual\<rparr>), s)"
  have "?f ?a s = ((?m, ?d), s)" using sat by (simp add: Let_def)
  then obtain s1 where s1: "mutate_account cfg no_drop who ?f s = (Inr ?m, s1)"
    and "account cfg s1 = (account cfg s)(who := kept cfg ?d)"
    and "total_issuance s1 = total_issuance s - dust_of cfg ?d" and "locks s1 = locks s"
    by (rule mutate_account_accepted)
  moreover have u: "unreserve cfg who n s = (n - ?m, balances_deposit_event (Unreserved who ?m) s1)"
    using s1 assms(2,3) by (simp add: unreserve_def wrapping_sub_exact)
  ultimately show ?thesis by (intro that [OF u refl refl]) simp_all
qed

lemma unreserve_inv:
  assumes inv: "balances_inv cfg s" and un: "unreserve cfg who n s = (r, s')"
  shows "balances_inv cfg s'"
proof (cases "n = 0 \<or> total_balance cfg s who = 0")
  case True
  with un inv show ?thesis by (auto simp: unreserve_def split: if_splits)
next
  case False
  note D = balances_invD [OF inv]
  from False inv obtain m d s'' where u: "unreserve cfg who n s = (n - m, s'')"
    and m: "m = min (reserved (account cfg s who)) n"
    and d: "d = (account cfg s who)\<lparr>reserved := reserved (account cfg s who) - m,
      free := free (account cfg s who) + m\<rparr>"
    and acc: "account cfg s'' = (account cfg s)(who := kept cfg d)"
    and iss: "total_issuance s'' = total_issuance s - dust_of cfg d"
    by (auto elim: unreserve_accepted)
  have "balances_inv cfg s''"
    by (rule conserved_inv [OF inv acc iss]) (use d m in \<open>simp add: holding_def\<close>)
  with u un show ?thesis by simp
qed

lemma slash_account_first:
  assumes "holding a \<le> U128_MAX"
  shows "slash_account cfg True n a =
    ((NegativeImbalance (min (holding a) n), n - min (holding a) n),
     a\<lparr>free := free a - n, reserved := reserved a - (n - free a)\<rparr>)"
  using assms
  by (cases "n \<le> free a")
    (auto simp: slash_account_def Let_def holding_def wrapping_add_exact wrapping_sub_exact min_def)

lemma slash_accepted:
  assumes inv: "balances_inv cfg s"
  obtains d s' where "slash cfg who n s =
      ((NegativeImbalance (min (holding (account cfg s who)) n), n - min (holding (account cfg s who)) n), s')"
    and "d = (account cfg s who)\<lparr>free := free (account cfg s who) - n,
      reserved := reserved (account cfg s who) - (n - free (account cfg s who))\<rparr>"
    and "account cfg s' = (account cfg s)(who := kept cfg d) \<and>
      total_issuance s' = total_issuance s - dust_of cfg d \<or>
      s' = s \<and> min (holding (account cfg s who)) n = 0"
    and "locks s' = locks s"
proof (cases "n = 0 \<or> total_balance cfg s who = 0")
  case True
  then have sl: "slash cfg who n s = ((NegativeImbalance (min (holding (account cfg s who)) n),
      n - min (holding (account cfg s who)) n), s)" and z: "min (holding (account cfg s who)) n = 0"
    using balances_invD(5) [OF inv, of who] by (auto simp: slash_def total_balance_def)
  show ?thesis by (rule that [OF sl refl]) (use z in simp_all)
next
  case False
  let ?a = "account cfg s who"
  let ?d = "?a\<lparr>free := free ?a - n, reserved := reserved ?a - (n - free ?a)\<rparr>"
  let ?r = "(NegativeImbalance (min (holding ?a) n), n - min (holding ?a) n)"
  let ?f = "\<lambda>acct (_::bool) s. (Inr (slash_account cfg True n acct), s)"
  have "holding ?a \<le> U128_MAX" using balances_invD(3) [OF inv] balances_invD(4) [OF inv, of who] by simp
  then have f: "?f ?a (store_query cfg (account_store s) who = None) s = (Inr (?r, ?d), s)"
    by (simp add: slash_account_first)
  then obtain s' where s': "try_mutate_account cfg drop_slash_result who ?f s = (Inr ?r, s')"
    by (rule try_mutate_accepted [where f = ?f])
  then have sl: "slash cfg who n s = (?r, s')"
    using False by (simp add: slash_def)
  from s' f show ?thesis
    by (elim try_mutate_Inr) (rule that [OF sl refl], auto)
qed

lemma slash_inv:
  assumes inv: "balances_inv cfg s" and sl: "slash cfg who n s = ((imb, rest), s')"
  shows "balances_inv cfg (drop_negative imb s')"
proof -
  let ?a = "account cfg s who"
  from inv obtain d s'' where r: "slash cfg who n s =
      ((NegativeImbalance (min (holding ?a) n), n - min (holding ?a) n), s'')"
    and d: "d = ?a\<lparr>free := free ?a - n, reserved := reserved ?a - (n - free ?a)\<rparr>"
    and acc: "account cfg s'' = (account cfg s)(who := kept cfg d) \<and>
        total_issuance s'' = total_issuance s - dust_of cfg d \<or>
      s'' = s \<and> min (holding ?a) n = 0"
    by (rule slash_accepted)
  have h: "holding d + min (holding ?a) n = holding ?a" using d by (auto simp: holding_def)
  from acc show ?thesis
  proof
    assume "s'' = s \<and> min (holding ?a) n = 0"
    with r sl inv show ?thesis by (auto intro: balances_inv_same)
  next
    assume "account cfg s'' = (account cfg s)(who := kept cfg d) \<and>
        total_issuance s'' = total_issuance s - dust_of cfg d"
    with burned_inv [OF inv _ _ h] r sl show ?thesis by auto
  qed
qed

end

end
