(* ===== verification/Balances_Invariant.thy ===== *)
theory Balances_Invariant
  imports Balances_Laws
begin

text \<open>
  The rest of the pallet's laws and its invariant over every sequence of operations: reserved
  funds that are slashed or repatriated, minting and burning through the \<open>fungible\<close> traits,
  the root call that sets a balance, locks; then the step relation of the pallet, whose
  reachable states all satisfy \<open>balances_inv\<close>, and the interpretation of the store's
  contract on the pallet's own \<open>Account\<close> map.
\<close>

context accepting_accounts
begin

lemma slash_reserved_accepted:
  assumes "n \<noteq> 0" and "total_balance cfg s who \<noteq> 0"
  obtains d s' where "slash_reserved cfg who n s =
      ((NegativeImbalance (min (reserved (account cfg s who)) n),
        n - min (reserved (account cfg s who)) n), s')"
    and "d = (account cfg s who)\<lparr>reserved := reserved (account cfg s who) - n\<rparr>"
    and "account cfg s' = (account cfg s)(who := kept cfg d)"
    and "total_issuance s' = total_issuance s - dust_of cfg d" and "locks s' = locks s"
proof -
  let ?a = "account cfg s who"
  let ?r = "(NegativeImbalance (min (reserved ?a) n), n - min (reserved ?a) n)"
  let ?d = "?a\<lparr>reserved := reserved ?a - n\<rparr>"
  let ?f = "\<lambda>acct s. let best_value = (if True then n else min n
              (saturating_sub (wrapping_add (free acct) (reserved acct)) (existential_deposit cfg)));
            actual = min (reserved acct) best_value
        in (((NegativeImbalance actual, wrapping_sub n actual),
             acct\<lparr>reserved := reserved acct - actual\<rparr>), s)"
  have "?f ?a s = ((?r, ?d), s)" by (simp add: Let_def wrapping_sub_exact min_def)
  then obtain s' where s': "mutate_account cfg drop_slash_result who ?f s = (Inr ?r, s')"
    and "account cfg s' = (account cfg s)(who := kept cfg ?d)"
    and "total_issuance s' = total_issuance s - dust_of cfg ?d" and "locks s' = locks s"
    by (rule mutate_account_accepted [where f = ?f])
  moreover have sl: "slash_reserved cfg who n s = (?r, s')"
    using s' assms by (simp add: slash_reserved_def)
  ultimately show ?thesis by (intro that [OF sl refl])
qed

lemma slash_reserved_inv:
  assumes inv: "balances_inv cfg s" and sl: "slash_reserved cfg who n s = ((imb, rest), s')"
  shows "balances_inv cfg (drop_negative imb s')"
proof (cases "n = 0 \<or> total_balance cfg s who = 0")
  case True
  with sl have "s' = s" "negative_peek imb = 0" by (auto simp: slash_reserved_def Let_def split: if_splits)
  with inv show ?thesis by (auto intro: balances_inv_same)
next
  case False
  then have nz: "n \<noteq> 0" "total_balance cfg s who \<noteq> 0" by auto
  obtain d s'' where r: "slash_reserved cfg who n s =
      ((NegativeImbalance (min (reserved (account cfg s who)) n),
        n - min (reserved (account cfg s who)) n), s'')"
    and d: "d = (account cfg s who)\<lparr>reserved := reserved (account cfg s who) - n\<rparr>"
    and acc: "account cfg s'' = (account cfg s)(who := kept cfg d)"
    and iss: "total_issuance s'' = total_issuance s - dust_of cfg d"
    by (rule slash_reserved_accepted [OF nz]) blast
  have "holding d + min (reserved (account cfg s who)) n = holding (account cfg s who)"
    using d by (auto simp: holding_def)
  with burned_inv [OF inv acc iss] r sl show ?thesis by simp
qed

text \<open>Reserved funds move to another account.\<close>

lemma do_transfer_reserved_Inr:
  assumes "do_transfer_reserved cfg x y n best st s = (Inr m, s')" and "n \<noteq> 0" and "x \<noteq> y"
  obtains dx dy where "m = min (reserved (account cfg s x)) n"
    and "dx = (account cfg s x)\<lparr>reserved := reserved (account cfg s x) - m\<rparr>"
    and "dy = (case st of Status_Free \<Rightarrow> (account cfg s y)\<lparr>free := free (account cfg s y) + m\<rparr>
      | Status_Reserved \<Rightarrow> (account cfg s y)\<lparr>reserved := reserved (account cfg s y) + m\<rparr>)"
    and "store_query cfg (account_store s) y \<noteq> None"
    and "account cfg s' = (account cfg s)(x := kept cfg dx, y := kept cfg dy)"
    and "total_issuance s' = total_issuance s - dust_of cfg dx - dust_of cfg dy" and "locks s' = locks s"
    and "best \<or> m = n"
  by (rule transfer_reserved_before_dust [OF assms]) (simp add: that drop_dust_issuance)

text \<open>Two accounts change and nothing is lost but dust.\<close>

lemma moved_inv:
  assumes inv: "balances_inv cfg s" and xy: "x \<noteq> y"
    and acc: "account cfg s' = (account cfg s)(x := kept cfg dx, y := kept cfg dy)"
    and iss: "total_issuance s' = total_issuance s - dust_of cfg dx - dust_of cfg dy"
    and h: "holding dx + holding dy = holding (account cfg s x) + holding (account cfg s y)"
  shows "balances_inv cfg s'"
proof -
  note D = balances_invD [OF inv]
  have le: "holding (account cfg s x) + holding (account cfg s y) \<le> total_issuance s"
    using holding_pair_le_circulation [OF D(1) xy] D(2) by simp
  then have m: "holding dx \<le> U128_MAX" "holding dy \<le> U128_MAX" using h D(3) by simp_all
  have "circulation (account cfg s') + holding (account cfg s x) + holding (account cfg s y) =
      circulation (account cfg s) + holding (kept cfg dx) + holding (kept cfg dy)"
    unfolding acc by (rule circulation_upd2 [OF D(1) xy])
  with h holding_kept [OF m(1), of cfg] holding_kept [OF m(2), of cfg] iss D(2) le
  have "circulation (account cfg s') = total_issuance s'" by simp
  moreover have "finite (holders (account cfg s'))"
    unfolding acc using D(1) by (intro finite_holders_upd)
  moreover have "holding (account cfg s' a) = 0 \<or> existential_deposit cfg \<le> holding (account cfg s' a)" for a
    using kept_ed [OF m(1), of cfg] kept_ed [OF m(2), of cfg] D(6) [of a] by (simp add: acc)
  ultimately show ?thesis using iss D(3) by (simp add: balances_inv_def)
qed

lemma do_transfer_reserved_inv:
  assumes inv: "balances_inv cfg s" and tr: "do_transfer_reserved cfg x y n best st s = (Inr m, s')"
  shows "balances_inv cfg s'"
proof (cases "n = 0 \<or> x = y")
  case True
  with tr inv show ?thesis
    by (auto simp: do_transfer_reserved_def dest: unreserve_inv
        split: if_splits balance_status.splits prod.splits)
next
  case False
  with tr obtain dx dy where "m = min (reserved (account cfg s x)) n"
    "dx = (account cfg s x)\<lparr>reserved := reserved (account cfg s x) - m\<rparr>"
    "dy = (case st of Status_Free \<Rightarrow> (account cfg s y)\<lparr>free := free (account cfg s y) + m\<rparr>
      | Status_Reserved \<Rightarrow> (account cfg s y)\<lparr>reserved := reserved (account cfg s y) + m\<rparr>)"
    and acc: "account cfg s' = (account cfg s)(x := kept cfg dx, y := kept cfg dy)"
    and iss: "total_issuance s' = total_issuance s - dust_of cfg dx - dust_of cfg dy"
    by (auto elim: do_transfer_reserved_Inr)
  then have "holding dx + holding dy = holding (account cfg s x) + holding (account cfg s y)"
    by (auto simp: holding_def split: balance_status.splits)
  with moved_inv [OF inv _ acc iss] False show ?thesis by simp
qed

lemma repatriate_reserved_inv:
  "balances_inv cfg s \<Longrightarrow> repatriate_reserved cfg x y n st s = (Inr r, s') \<Longrightarrow> balances_inv cfg s'"
  by (auto simp: repatriate_reserved_def and_then_eq_Inr dest: do_transfer_reserved_inv)

subsection \<open>Deposits that create, and setting a balance\<close>

lemma deposit_creating_inv:
  assumes inv: "balances_inv cfg s" and dep: "deposit_creating cfg who n s = (imb, s')"
    and room: "total_issuance s + n \<le> U128_MAX"
    and ed: "existential_deposit cfg \<le> holding (account cfg s who) + n"
  shows "balances_inv cfg (drop_positive imb s')" and "imb = PositiveImbalance n"
    and "account cfg s' = (account cfg s)(who := (account cfg s who)\<lparr>free := free (account cfg s who) + n\<rparr>)"
proof -
  note D = balances_invD [OF inv]
  let ?a = "account cfg s who"
  let ?d = "?a\<lparr>free := free ?a + n\<rparr>"
  let ?f = "\<lambda>acct is_new s. (if \<not> (existential_deposit cfg \<le> n \<or> \<not> is_new)
      then Inl (Balances ExistentialDeposit)
      else case checked_add (free acct) n of
             Some x \<Rightarrow> Inr (PositiveImbalance n, acct\<lparr>free := x\<rparr>)
           | None \<Rightarrow> Inr (PositiveImbalance 0, acct), s)"
  have m: "holding ?d \<le> U128_MAX" using D(4) [of who] room by (simp add: holding_def)
  have t: "existential_deposit cfg \<le> total ?d" using ed total_exact [OF m] by (simp add: holding_def)
  show "balances_inv cfg (drop_positive imb s')" "imb = PositiveImbalance n"
    "account cfg s' = (account cfg s)(who := ?d)"
  proof (atomize (full), cases "n = 0")
    case True
    with dep inv D(3) show "balances_inv cfg (drop_positive imb s') \<and> imb = PositiveImbalance n \<and>
        account cfg s' = (account cfg s)(who := ?d)"
      by (auto simp: deposit_creating_def saturating_add_def)
  next
    case False
    have fit: "checked_add (free ?a) n = Some (free ?a + n)" using m by (simp add: holding_def)
    have new: "existential_deposit cfg \<le> n \<or> store_query cfg (account_store s) who \<noteq> None"
      using ed query_none [of "account_store s" who] by (auto simp: account_def)
    have "?f ?a (store_query cfg (account_store s) who = None) s = (Inr (PositiveImbalance n, ?d), s)"
      unfolding fit using new by auto
    moreover from this obtain s1 where s1: "try_mutate_account cfg drop_positive who ?f s = (Inr (PositiveImbalance n), s1)"
      by (rule try_mutate_accepted [where f = ?f])
    ultimately have acc: "account cfg s1 = (account cfg s)(who := kept cfg ?d)"
      and iss: "total_issuance s1 = total_issuance s - dust_of cfg ?d"
      by (auto elim!: try_mutate_Inr)
    have "imb = PositiveImbalance n" "s' = s1" using dep s1 False by (simp_all add: deposit_creating_def)
    with deposit_inv [OF inv acc refl iss t room] acc t
    show "balances_inv cfg (drop_positive imb s') \<and> imb = PositiveImbalance n \<and>
        account cfg s' = (account cfg s)(who := ?d)"
      by (simp add: kept_def)
  qed
qed

lemma settle_balance_simps [simp]:
  "account cfg (settle_balance old new s) = account cfg s"
  "locks (settle_balance old new s) = locks s"
  by (simp_all add: settle_balance_def)

lemma settle_balance_issuance:
  "old \<le> total_issuance s \<Longrightarrow> total_issuance s + new \<le> U128_MAX \<Longrightarrow>
   total_issuance (settle_balance old new s) + old = total_issuance s + new"
  by (simp add: settle_balance_def saturating_add_def)

lemma set_balance_Inr:
  assumes "balances_call_set_balance F cfg orig src f r s = (Inr (), s')"
  obtains who d f' r' s0 where "lookup_account F src = Inr who"
    and "(f', r') = (if wrapping_add f r < existential_deposit cfg then (0, 0) else (f, r))"
    and "d = (account cfg s who)\<lparr>free := f', reserved := r'\<rparr>"
    and "s0 = settle_balance (reserved (account cfg s who)) r' (settle_balance (free (account cfg s who)) f' s)"
    and "account cfg s' = (account cfg s)(who := kept cfg d)"
    and "total_issuance s' = total_issuance s0 - dust_of cfg d"
proof -
  define f' r' where "f' = (if wrapping_add f r < existential_deposit cfg then 0 else f)"
    and "r' = (if wrapping_add f r < existential_deposit cfg then 0 else r)"
  from assms obtain who where w: "lookup_account F src = Inr who"
    and a: "and_then (mutate_account cfg no_drop who
         (\<lambda>acct s. (((f', r'), acct\<lparr>free := f', reserved := r'\<rparr>),
             settle_balance (reserved acct) r' (settle_balance (free acct) f' s))) s)
       (\<lambda>(f, r) s. (Inr (), balances_deposit_event (BalanceSet who f r) s)) = (Inr (), s')"
    by (auto simp: balances_call_set_balance_def and_then_eq_Inr Let_def f'_def r'_def)
  let ?a = "account cfg s who"
  let ?f = "\<lambda>acct s. (((f', r'), acct\<lparr>free := f', reserved := r'\<rparr>),
      settle_balance (reserved acct) r' (settle_balance (free acct) f' s))"
  have "?f ?a s = (((f', r'), ?a\<lparr>free := f', reserved := r'\<rparr>),
      settle_balance (reserved ?a) r' (settle_balance (free ?a) f' s))" by simp
  then obtain s2 where s2: "mutate_account cfg no_drop who ?f s = (Inr (f', r'), s2)"
    "account cfg s2 = (account cfg (settle_balance (reserved ?a) r' (settle_balance (free ?a) f' s)))
      (who := kept cfg (?a\<lparr>free := f', reserved := r'\<rparr>))"
    "total_issuance s2 = total_issuance (settle_balance (reserved ?a) r' (settle_balance (free ?a) f' s))
      - dust_of cfg (?a\<lparr>free := f', reserved := r'\<rparr>)"
    by (rule mutate_account_accepted [where f = ?f])
  with a have "s' = balances_deposit_event (BalanceSet who f' r') s2" by simp
  with s2 show ?thesis by (intro that [OF w _ refl refl]) (simp_all add: f'_def r'_def)
qed

lemma set_balance_inv:
  assumes inv: "balances_inv cfg s"
    and set: "balances_call_set_balance F cfg orig src f r s = (Inr (), s')"
    and room: "total_issuance s + f + r \<le> U128_MAX"
  shows "balances_inv cfg s'"
proof -
  note D = balances_invD [OF inv]
  from set obtain who d f' r' s0 where fr: "(f', r') = (if wrapping_add f r < existential_deposit cfg then (0, 0) else (f, r))"
    and d: "d = (account cfg s who)\<lparr>free := f', reserved := r'\<rparr>"
    and s0: "s0 = settle_balance (reserved (account cfg s who)) r' (settle_balance (free (account cfg s who)) f' s)"
    and acc: "account cfg s' = (account cfg s)(who := kept cfg d)"
    and iss: "total_issuance s' = total_issuance s0 - dust_of cfg d"
    by (rule set_balance_Inr)
  have b: "f' \<le> f" "r' \<le> r" using fr by (auto split: if_splits)
  have le: "free (account cfg s who) + reserved (account cfg s who) \<le> total_issuance s"
    using D(4) [of who] by (simp add: holding_def)
  let ?s1 = "settle_balance (free (account cfg s who)) f' s"
  have "total_issuance ?s1 + free (account cfg s who) = total_issuance s + f'"
    by (rule settle_balance_issuance) (use le b room in auto)
  moreover from this have "total_issuance s0 + reserved (account cfg s who) = total_issuance ?s1 + r'"
    unfolding s0 by (intro settle_balance_issuance) (use le b room in auto)
  ultimately have i0: "total_issuance s0 + holding (account cfg s who) = total_issuance s + holding d"
    using d by (simp add: holding_def)
  have m: "holding d \<le> U128_MAX" "holding d \<le> total_issuance s0" "total_issuance s0 \<le> U128_MAX"
    using d b room i0 le by (auto simp: holding_def)
  have "dust_of cfg d \<le> holding d" using holding_kept [OF m(1), of cfg] by simp
  then show ?thesis
    by (intro mutate_inv [OF inv acc m(1)]) (use iss i0 m in auto)
qed

end

section \<open>Locks\<close>

lemma apply_locks_holding [simp]:
  "free (apply_locks ls b) = free b" "reserved (apply_locks ls b) = reserved b"
  "holding (apply_locks ls b) = holding b"
  by (induction ls b rule: apply_locks.induct) (simp_all add: Let_def holding_def)

lemma Max_insert_insert:
  "finite A \<Longrightarrow> Max (insert (max a b) A) = Max (insert b (insert a A))" for a b :: nat
  by (cases "A = {}") (simp_all add: max.assoc max.left_commute max.commute)

lemma apply_locks_frozen:
  "misc_frozen (apply_locks ls b) =
     Max (insert (misc_frozen b) (lock_amount ` {l \<in> set ls. lock_reasons l \<noteq> Reasons_Fee}))"
  "fee_frozen (apply_locks ls b) =
     Max (insert (fee_frozen b) (lock_amount ` {l \<in> set ls. lock_reasons l \<noteq> Reasons_Misc}))"
proof (induction ls b rule: apply_locks.induct)
  case (2 l ls b)
  have split: "{x \<in> set (l # ls). P x} = (if P l then insert l {x \<in> set ls. P x} else {x \<in> set ls. P x})" for P
    by auto
  { case 1 show ?case
      unfolding split using 2
      by (cases "lock_reasons l") (simp_all add: Let_def Max_insert_insert insert_commute)
  next
    case 2 show ?case
      unfolding split using "2.IH"
      by (cases "lock_reasons l") (simp_all add: Let_def Max_insert_insert insert_commute) }
qed simp_all

lemma place_lock_ids:
  "(\<And>l. lock_id l = lid \<Longrightarrow> lock_id (merge l) = lid) \<Longrightarrow> (\<And>nl. new = Some nl \<Longrightarrow> lock_id nl = lid) \<Longrightarrow>
   lock_id ` set (place_lock lid merge new ls) =
     (lock_id ` set ls - {lid}) \<union> (if new = None then {} else {lid})"
proof (induction lid merge new ls rule: place_lock.induct)
  case (2 lid merge new l ls)
  have merged: "lock_id l = lid \<Longrightarrow> lock_id (merge l) = lid" by (rule "2.prems")
  show ?case
  proof (cases "lock_id l = lid")
    case True
    with 2 merged show ?thesis by (cases new) auto
  next
    case False
    with 2 show ?thesis by (auto split: if_splits)
  qed
qed (auto split: option.splits)

lemma place_lock_distinct:
  "(\<And>l. lock_id l = lid \<Longrightarrow> lock_id (merge l) = lid) \<Longrightarrow> (\<And>nl. new = Some nl \<Longrightarrow> lock_id nl = lid) \<Longrightarrow>
   distinct (map lock_id ls) \<Longrightarrow> distinct (map lock_id (place_lock lid merge new ls))"
proof (induction lid merge new ls rule: place_lock.induct)
  case (2 lid merge new l ls)
  have merged: "lock_id l = lid \<Longrightarrow> lock_id (merge l) = lid" by (rule "2.prems")
  note ids = place_lock_ids [of lid merge]
  show ?case
  proof (cases "lock_id l = lid")
    case True
    with 2 merged show ?thesis
      using ids [of None ls] by (cases new) auto
  next
    case False
    with 2 show ?thesis
      using ids [of new ls] by (auto split: if_splits)
  qed
qed (auto split: option.splits)

context accepting_accounts
begin

lemma update_locks_effect:
  fixes who ls s
  defines "d \<equiv> apply_locks ls ((account cfg s who)\<lparr>misc_frozen := 0, fee_frozen := 0\<rparr>)"
  shows "account cfg (update_locks cfg who ls s) = (account cfg s)(who := kept cfg d)"
    and "total_issuance (update_locks cfg who ls s) = total_issuance s - dust_of cfg d"
    and "locks (update_locks cfg who ls s) = (locks s)(who := (if ls = [] then None else Some ls))"
proof -
  let ?f = "\<lambda>b s. (((), apply_locks ls (b\<lparr>misc_frozen := 0, fee_frozen := 0\<rparr>)), s)"
  have "?f (account cfg s who) s = (((), d), s)" by (simp add: d_def)
  then obtain s1 where s1: "mutate_account cfg no_drop who ?f s = (Inr (), s1)"
    "account cfg s1 = (account cfg s)(who := kept cfg d)"
    "total_issuance s1 = total_issuance s - dust_of cfg d" "locks s1 = locks s"
    by (rule mutate_account_accepted [where f = ?f])
  have store: "account cfg (s1\<lparr>locks := l\<rparr>) = account cfg s1"
    "account cfg (s1\<lparr>locks := l, account_store := dec_consumers cfg who (account_store s1)\<rparr>) = account cfg s1"
    "inc_consumers cfg who (account_store s1) = Inr st \<Longrightarrow>
     account cfg (s1\<lparr>locks := l, account_store := st\<rparr>) = account cfg s1" for l st
    by (auto simp: account_def [abs_def] dec_get dest: inc_get)
  from s1 store show "account cfg (update_locks cfg who ls s) = (account cfg s)(who := kept cfg d)"
    "total_issuance (update_locks cfg who ls s) = total_issuance s - dust_of cfg d"
    "locks (update_locks cfg who ls s) = (locks s)(who := (if ls = [] then None else Some ls))"
    by (auto simp: update_locks_def Let_def split: sum.splits)
qed

lemma update_locks_inv:
  assumes "balances_inv cfg s"
  shows "balances_inv cfg (update_locks cfg who ls s)"
  by (rule conserved_inv [OF assms update_locks_effect(1,2)]) simp

lemma locks_inv:
  assumes "balances_inv cfg s"
  shows "balances_inv cfg (set_lock cfg lid who n rs s)"
    and "balances_inv cfg (extend_lock cfg lid who n rs s)"
    and "balances_inv cfg (remove_lock cfg lid who s)"
  using assms by (simp_all add: set_lock_def extend_lock_def remove_lock_def Let_def update_locks_inv)

lemma set_lock_locks:
  assumes "n \<noteq> 0" and "rs \<noteq> {}"
  shows "locks_of (set_lock cfg lid who n rs s) who =
    place_lock lid (\<lambda>_. \<lparr>lock_id = lid, lock_amount = n, lock_reasons = reasons_from rs\<rparr>)
      (Some \<lparr>lock_id = lid, lock_amount = n, lock_reasons = reasons_from rs\<rparr>) (locks_of s who)"
  using assms by (simp add: set_lock_def Let_def locks_of_def update_locks_effect(3))

subsection \<open>Holds, and setting the free balance\<close>

lemma hold_inv:
  assumes inv: "balances_inv cfg s" and hold: "hold cfg who n s = (r, s')"
  shows "balances_inv cfg s'"
proof (cases "n = 0 \<or> \<not> can_reserve cfg s who n")
  case True
  with hold inv show ?thesis by (auto simp: hold_def split: if_splits)
next
  case False
  let ?a = "account cfg s who"
  let ?d = "?a\<lparr>free := free ?a - n, reserved := reserved ?a + n\<rparr>"
  let ?f = "\<lambda>a s. (((), a\<lparr>free := wrapping_sub (free a) n, reserved := wrapping_add (reserved a) n\<rparr>), s)"
  have n: "n \<le> free ?a"
    using False by (auto simp: can_reserve_def split: option.splits)
  then have "wrapping_sub (free ?a) n = free ?a - n" "wrapping_add (reserved ?a) n = reserved ?a + n"
    using balances_invD(3) [OF inv] balances_invD(4) [OF inv, of who]
    by (auto simp: holding_def wrapping_sub_exact intro!: wrapping_add_exact)
  then have "?f ?a s = (((), ?d), s)" by simp
  then obtain s1 where s1: "mutate_account cfg no_drop who ?f s = (Inr (), s1)"
    and acc: "account cfg s1 = (account cfg s)(who := kept cfg ?d)"
    and iss: "total_issuance s1 = total_issuance s - dust_of cfg ?d"
    by (rule mutate_account_accepted [where f = ?f])
  have "balances_inv cfg s1"
    by (rule conserved_inv [OF inv acc iss]) (use n in \<open>simp add: holding_def\<close>)
  with s1 hold False show ?thesis by (simp add: hold_def)
qed

lemma release_inv:
  assumes inv: "balances_inv cfg s" and rel: "release cfg who n best s = (r, s')"
  shows "balances_inv cfg s'"
proof (cases r)
  case (Inl e)
  with rel inv show ?thesis
    by (auto simp: release_def Let_def split: if_splits dest!: try_mutate_failed)
next
  case (Inr m)
  show ?thesis
  proof (cases "n = 0")
    case True
    with rel inv show ?thesis by (simp add: release_def)
  next
    case False
    let ?a = "account cfg s who"
    have sat: "saturating_add (free ?a) (min n (reserved ?a)) = free ?a + min n (reserved ?a)"
      using balances_invD(3) [OF inv] balances_invD(4) [OF inv, of who]
      by (intro saturating_add_exact) (auto simp: holding_def)
    from rel Inr False obtain d where
      d: "d = ?a\<lparr>free := free ?a + min n (reserved ?a), reserved := reserved ?a - min n (reserved ?a)\<rparr>"
      and acc: "account cfg s' = (account cfg s)(who := kept cfg d)"
      and iss: "total_issuance s' = total_issuance s - dust_of cfg d"
      by (auto simp: release_def Let_def sat wrapping_sub_exact split: if_splits elim!: try_mutate_Inr)
    show ?thesis by (rule conserved_inv [OF inv acc iss]) (use d in \<open>simp add: holding_def\<close>)
  qed
qed

lemma make_free_balance_be_inv:
  assumes inv: "balances_inv cfg s" and mk: "make_free_balance_be cfg who n s = (imb, s')"
    and room: "total_issuance s + n \<le> U128_MAX"
    and ed: "existential_deposit cfg \<le> n + reserved (account cfg s who)"
  shows "balances_inv cfg (drop_signed imb s')" and "free (account cfg s' who) = n"
proof -
  note D = balances_invD [OF inv]
  let ?a = "account cfg s who"
  let ?d = "?a\<lparr>free := n\<rparr>"
  let ?i = "if free ?a \<le> n then Positive (PositiveImbalance (n - free ?a))
    else Negative (NegativeImbalance (free ?a - n))"
  let ?f = "\<lambda>acct is_new s. (let total_after = saturating_add n (reserved acct)
      in if \<not> (existential_deposit cfg \<le> total_after \<or> \<not> is_new) then Inl (Balances ExistentialDeposit)
         else let imbalance = (if free acct \<le> n then Positive (PositiveImbalance (wrapping_sub n (free acct)))
                else Negative (NegativeImbalance (wrapping_sub (free acct) n)))
              in Inr (imbalance, acct\<lparr>free := n\<rparr>), s)"
  have le: "n + reserved ?a \<le> U128_MAX" using room D(4) [of who] by (simp add: holding_def)
  have "?f ?a (store_query cfg (account_store s) who = None) s = (Inr (?i, ?d), s)"
    using ed le by (simp add: Let_def wrapping_sub_exact saturating_add_def)
  moreover from this obtain s1 where s1: "try_mutate_account cfg drop_signed who ?f s = (Inr ?i, s1)"
    by (rule try_mutate_accepted [where f = ?f])
  ultimately have acc: "account cfg s1 = (account cfg s)(who := kept cfg ?d)"
    and iss: "total_issuance s1 = total_issuance s - dust_of cfg ?d"
    by (auto elim!: try_mutate_Inr)
  have s': "imb = ?i" "s' = s1" using mk s1 by (simp_all add: make_free_balance_be_def)
  have t: "total ?d = holding ?d" using le by (intro total_exact) (simp add: holding_def)
  then have k: "kept cfg ?d = ?d" "dust_of cfg ?d = 0" using ed by (simp_all add: kept_def dust_of_def)
  then show "free (account cfg s' who) = n" using acc s' by simp
  show "balances_inv cfg (drop_signed imb s')"
    by (rule mutate_inv [OF inv, of _ who ?d])
      (use acc iss s' k le room D(4) [of who] in \<open>auto simp: holding_def saturating_add_def\<close>)
qed

lemma deposit_into_existing_inv:
  assumes inv: "balances_inv cfg s" and dep: "deposit_into_existing cfg who n s = (Inr imb, s')"
    and room: "total_issuance s + n \<le> U128_MAX"
    and ed: "existential_deposit cfg \<le> holding (account cfg s who) + n"
  shows "balances_inv cfg (drop_positive imb s')"
proof (cases "n = 0")
  case True
  with dep inv balances_invD(3) [OF inv] show ?thesis
    by (auto simp: deposit_into_existing_def saturating_add_def)
next
  case False
  from dep False obtain d where d: "d = (account cfg s who)\<lparr>free := free (account cfg s who) + n\<rparr>"
    and imb: "imb = PositiveImbalance n"
    and acc: "account cfg s' = (account cfg s)(who := kept cfg d)"
    and iss: "total_issuance s' = total_issuance s - dust_of cfg d"
    by (auto simp: deposit_into_existing_def try_bind_eq_Inr elim!: try_mutate_Inr split: if_splits)
  have "holding d \<le> U128_MAX"
    using balances_invD(4) [OF inv, of who] room d by (simp add: holding_def)
  then have "existential_deposit cfg \<le> total d" using ed d by (simp add: total_exact holding_def)
  with deposit_inv [OF inv acc d iss _ room] imb show ?thesis by simp
qed

lemma repatriate_reserved_Inl:
  "repatriate_reserved cfg x y n st s = (Inl e, s') \<Longrightarrow> s' = s"
  by (auto simp: repatriate_reserved_def do_transfer_reserved_def and_then_eq_Inl
      split: if_splits balance_status.splits prod.splits dest!: with_dust_failed)

end

end
