(* ===== verification/Balances_Props.thy ===== *)
theory Balances_Props
  imports Balances_Invariant
begin

text \<open>
  Minting and burning through the \<open>fungible\<close> traits, the contracts interpreted on the pallet's
  own \<open>Account\<close> map, and the properties of single operations of the pallet.
\<close>

section \<open>Minting and burning\<close>

text \<open>What the framework documents of the conversion of a consequence into a result.\<close>

locale fungible_accounts = accepting_accounts +
  assumes deposit_result: "deposit_into_result cfg c = Inr u \<longleftrightarrow> c = Deposit_Success"
    and withdraw_result: "withdraw_into_result cfg w = Inr k \<longleftrightarrow>
      w = Withdraw_Success \<and> k = 0 \<or> w = Withdraw_ReducedToZero k"
begin

lemma mint_into_Inr:
  assumes "mint_into cfg who n s = (Inr (), s')" and "n \<noteq> 0" and inv: "balances_inv cfg s"
  obtains d where "d = (account cfg s who)\<lparr>free := free (account cfg s who) + n\<rparr>"
    and "total_issuance s + n \<le> U128_MAX" and "existential_deposit cfg \<le> holding d"
    and "account cfg s' = (account cfg s)(who := d)"
    and "total_issuance s' = total_issuance s + n" and "locks s' = locks s"
proof -
  let ?a = "account cfg s who"
  note D = balances_invD [OF inv]
  from assms(1,2) obtain d s1 where c: "deposit_consequence cfg s n ?a = Deposit_Success"
    and d: "d = ?a\<lparr>free := wrapping_add (free ?a) n\<rparr>"
    and s1: "account cfg s1 = (account cfg s)(who := kept cfg d)"
      "total_issuance s1 = total_issuance s - dust_of cfg d" "locks s1 = locks s"
    and s': "s' = s1\<lparr>total_issuance := wrapping_add (total_issuance s1) n\<rparr>"
    by (auto simp: mint_into_def and_then_eq_Inr try_bind_eq_Inr deposit_result elim!: try_mutate_Inr)
  from c assms(2) D(5) [of who] have room: "total_issuance s + n \<le> U128_MAX"
    and fit: "holding ?a + n \<le> U128_MAX" and ed: "existential_deposit cfg \<le> holding ?a + n"
    by (auto simp: deposit_consequence_def split: if_splits option.splits)
  then have d': "d = ?a\<lparr>free := free ?a + n\<rparr>"
    using d by (simp add: holding_def wrapping_add_exact)
  then have h: "holding d = holding ?a + n" by (simp add: holding_def)
  then have "kept cfg d = d" "dust_of cfg d = 0"
    using fit ed by (simp_all add: kept_def dust_of_def total_exact)
  with s1 s' room have "account cfg s' = (account cfg s)(who := d)"
    "total_issuance s' = total_issuance s + n" "locks s' = locks s"
    by (simp_all add: wrapping_add_exact)
  with that [OF d' room] ed h show ?thesis by simp
qed

text \<open>With an existential deposit of zero nothing is reduced to zero as dust.\<close>

lemma burn_from_Inr:
  assumes "burn_from cfg who n s = (Inr k, s')" and "n \<noteq> 0" and inv: "balances_inv cfg s"
    and zero: "existential_deposit cfg = 0"
  obtains d where "d = (account cfg s who)\<lparr>free := free (account cfg s who) - n\<rparr>"
    and "k = n" and "n \<le> free (account cfg s who)"
    and "frozen (account cfg s who) Reasons_All \<le> free (account cfg s who) - n"
    and "account cfg s' = (account cfg s)(who := d)"
    and "total_issuance s' = total_issuance s - n" and "locks s' = locks s"
proof -
  let ?a = "account cfg s who"
  note D = balances_invD [OF inv]
  from assms(1,2) obtain d s1 extra where w: "withdraw_into_result cfg (withdraw_consequence cfg s who n ?a) = Inr extra"
    and k: "k = wrapping_add n extra" and d: "d = ?a\<lparr>free := wrapping_sub (free ?a) k\<rparr>"
    and s1: "account cfg s1 = (account cfg s)(who := kept cfg d)"
      "total_issuance s1 = total_issuance s - dust_of cfg d" "locks s1 = locks s"
    and s': "s' = s1\<lparr>total_issuance := wrapping_sub (total_issuance s1) k\<rparr>"
    by (auto simp: burn_from_def and_then_eq_Inr try_bind_eq_Inr Let_def elim!: try_mutate_Inr)
  from w have "extra = 0" and n: "n \<le> free ?a" "frozen ?a Reasons_All \<le> free ?a - n" "n \<le> total_issuance s"
    using assms(2) zero
    by (auto simp: withdraw_result withdraw_consequence_def Let_def split: if_splits option.splits)
  moreover have k': "k = n" using k n(3) D(3) \<open>extra = 0\<close> by (simp add: wrapping_add_exact)
  ultimately show ?thesis
    using d s1 s' zero by (intro that [OF refl k' n(1,2)]) (simp_all add: wrapping_sub_exact)
qed

lemma mint_into_inv:
  assumes "balances_inv cfg s" and "mint_into cfg who n s = (Inr (), s')"
  shows "balances_inv cfg s'"
proof (cases "n = 0")
  case True
  with assms show ?thesis by (simp add: mint_into_def)
next
  case False
  from assms(2) False assms(1) obtain d where d: "d = (account cfg s who)\<lparr>free := free (account cfg s who) + n\<rparr>"
    "total_issuance s + n \<le> U128_MAX" "existential_deposit cfg \<le> holding d"
    "account cfg s' = (account cfg s)(who := d)" "total_issuance s' = total_issuance s + n"
    by (rule mint_into_Inr)
  from assms(1) d(4) show ?thesis
    by (rule balances_inv_upd) (use d in \<open>simp_all add: holding_def\<close>)
qed

lemma burn_from_inv:
  assumes "balances_inv cfg s" and "burn_from cfg who n s = (Inr k, s')" and "existential_deposit cfg = 0"
  shows "balances_inv cfg s'"
proof (cases "n = 0")
  case True
  with assms show ?thesis by (simp add: burn_from_def)
next
  case False
  from assms(2) False assms(1,3) obtain d where d: "d = (account cfg s who)\<lparr>free := free (account cfg s who) - n\<rparr>"
    "n \<le> free (account cfg s who)" "account cfg s' = (account cfg s)(who := d)"
    "total_issuance s' = total_issuance s - n"
    by (rule burn_from_Inr)
  from assms(1) d(3) show ?thesis
    by (rule balances_inv_upd)
      (use d assms(3) balances_invD(3) [OF assms(1)] balances_invD(4) [OF assms(1), of who]
        in \<open>simp_all add: holding_def\<close>)
qed

end

section \<open>The pallet's own account map\<close>

text \<open>
  The storage map \<open>Account\<close> the pallet declares, as the account store: a lookup is the stored
  data or the default, a commit inserts or removes the entry. It counts no references, and
  the conversions of the consequences are as the framework documents them.
\<close>

definition account_map_config :: "balance \<Rightarrow> nat \<Rightarrow> ('acc, 'acc \<Rightarrow> account_data option) balances_config" where
  "account_map_config ed locks_limit =
     \<lparr>existential_deposit = ed,
      max_locks = locks_limit,
      store_get = (\<lambda>m a. case m a of None \<Rightarrow> account_default | Some d \<Rightarrow> d),
      store_query = (\<lambda>m a. m a),
      store_commit = (\<lambda>a v m. Inr (m(a := v))),
      can_dec_provider = (\<lambda>m a. True),
      is_provider_required = (\<lambda>m a. False),
      inc_consumers = (\<lambda>a m. Inr m),
      dec_consumers = (\<lambda>a m. m),
      deposit_into_result = (\<lambda>c. if c = Deposit_Success then Inr () else Inl (Other ''deposit'')),
      withdraw_into_result =
        (\<lambda>c. case c of Withdraw_Success \<Rightarrow> Inr 0 | Withdraw_ReducedToZero k \<Rightarrow> Inr k
              | _ \<Rightarrow> Inl (Other ''withdraw'')),
      dust_removal = drop_negative\<rparr>"

interpretation account_map: fungible_accounts "account_map_config ed locks_limit"
  by unfold_locales
    (auto simp: account_map_config_def intro!: ext split: option.splits withdraw_consequence.splits)

text \<open>A state over the account map, from the accounts that hold something.\<close>

definition balances_start :: "('acc \<times> account_data) list \<Rightarrow> ('acc, 'acc \<Rightarrow> account_data option) balances_state" where
  "balances_start xs =
     \<lparr>total_issuance = sum_list (map (holding \<circ> snd) xs),
      account_store = map_of xs,
      locks = Map.empty,
      storage_version = V2_0_0,
      balances_events = []\<rparr>"

lemma account_map_config_simps [simp]:
  "existential_deposit (account_map_config ed k) = ed"
  "store_query (account_map_config ed k) m a = m a"
  "store_commit (account_map_config ed k) a v m = Inr (m(a := v))"
  "is_provider_required (account_map_config ed k) m a = False"
  "dust_removal (account_map_config ed k) = drop_negative"
  by (simp_all add: account_map_config_def)

lemma account_map_account:
  "account (account_map_config ed k) s a = (case account_store s a of None \<Rightarrow> account_default | Some d \<Rightarrow> d)"
  by (simp add: account_map_config_def account_def)

lemma balances_start_account:
  "account (account_map_config ed k) (balances_start xs) =
     (\<lambda>a. case map_of xs a of None \<Rightarrow> account_default | Some d \<Rightarrow> d)"
  by (auto simp: balances_start_def account_map_account)

lemma circulation_map_of:
  assumes "distinct (map fst xs)"
  defines "m \<equiv> \<lambda>a. case map_of xs a of None \<Rightarrow> account_default | Some d \<Rightarrow> d"
  shows "finite (holders m)" and "circulation m = sum_list (map (holding \<circ> snd) xs)"
    and "\<And>a. list_all (\<lambda>(_, d). ed \<le> holding d) xs \<Longrightarrow> holding (m a) = 0 \<or> ed \<le> holding (m a)"
proof -
  have sub: "holders m \<subseteq> fst ` set xs"
    by (auto simp: m_def holders_def split: option.splits dest!: map_of_SomeD intro: rev_image_eqI)
  then show "finite (holders m)" by (rule finite_subset) simp
  have "circulation m = (\<Sum>a\<in>set (map fst xs). holding (m a))"
    using sub by (intro circulation_superset) auto
  also have "\<dots> = sum_list (map (\<lambda>a. holding (m a)) (map fst xs))"
    using assms(1) by (simp only: sum_list_distinct_conv_sum_set)
  also have "map (\<lambda>a. holding (m a)) (map fst xs) = map (holding \<circ> snd) xs"
    using assms(1) unfolding m_def
    by (auto simp: map_of_eq_Some_iff split: option.splits dest: eq_key_imp_eq_value)
  finally show "circulation m = sum_list (map (holding \<circ> snd) xs)" .
  show "holding (m a) = 0 \<or> ed \<le> holding (m a)" if "list_all (\<lambda>(_, d). ed \<le> holding d) xs" for a
    using that by (auto simp: m_def list_all_iff split: option.splits dest!: map_of_SomeD)
qed

lemma balances_start_inv:
  assumes "distinct (map fst xs)" and "sum_list (map (holding \<circ> snd) xs) \<le> U128_MAX"
    and "list_all (\<lambda>(_, d). ed \<le> holding d) xs"
  shows "balances_inv (account_map_config ed k) (balances_start xs)"
  using circulation_map_of(1,2) [OF assms(1)] circulation_map_of(3) [OF assms(1,3)] assms(2)
  unfolding balances_inv_def balances_start_account by (simp add: balances_start_def)

context stored_accounts
begin

lemma genesis_insert_Inr:
  "genesis_insert cfg bs s = (Inr (), s') \<Longrightarrow> distinct (map fst bs) \<Longrightarrow>
   account cfg s' = (\<lambda>a. case map_of bs a of None \<Rightarrow> account cfg s a | Some n \<Rightarrow> account_default\<lparr>free := n\<rparr>) \<and>
   total_issuance s' = total_issuance s \<and> locks s' = locks s"
proof (induction bs arbitrary: s)
  case (Cons b bs)
  obtain who f where b: "b = (who, f)" by force
  let ?d = "account_default\<lparr>free := f\<rparr>"
  obtain st where c: "store_commit cfg who (Some ?d) (account_store s) = Inr st"
    using commit_some by blast
  have "account cfg (s\<lparr>account_store := st\<rparr>) = (account cfg s)(who := ?d)"
    using commit_get [OF c] by (simp add: account_def [abs_def])
  moreover have "map_of bs who = None" using Cons.prems(2) b by (simp add: map_of_eq_None_iff)
  ultimately show ?case
    using Cons.IH [of "s\<lparr>account_store := st\<rparr>"] Cons.prems b c
    by (auto split: option.splits if_splits)
qed auto

end

section \<open>Lemmas for the properties\<close>

context accepting_accounts
begin

text \<open>With no existential deposit, a transfer between two accounts fails only for want of funds.\<close>

lemma transfer_succeeds:
  assumes inv: "balances_inv cfg s" and zero: "existential_deposit cfg = 0"
    and n: "n \<le> free (account cfg s x)" "misc_frozen (account cfg s x) \<le> free (account cfg s x) - n"
    and xy: "x \<noteq> y"
  shows "\<exists>s'. currency_transfer cfg x y n req s = (Inr (), s')"
proof (cases "n = 0")
  case True
  then show ?thesis by (simp add: currency_transfer_def)
next
  case False
  note D = balances_invD [OF inv]
  let ?ax = "account cfg s x" and ?ay = "account cfg s y"
  have "free ?ay + n \<le> U128_MAX"
    using holding_pair_le_circulation [OF D(1) xy] D(2,3) n by (simp add: holding_def)
  then have ta: "transfer_accounts cfg x n req s ?ay ?ax =
      Inr (?ay\<lparr>free := free ?ay + n\<rparr>, ?ax\<lparr>free := free ?ax - n\<rparr>)"
    using n zero
    by (simp add: transfer_accounts_def Let_def checked_add_def checked_sub_def ensure_can_withdraw_def
        is_ok_def reasons_from_def frozen_def)
  let ?inner = "\<lambda>to_acc from_acc (_::bool) s. (transfer_accounts cfg x n req s to_acc from_acc, s)"
  have "?inner ?ay ?ax (store_query cfg (account_store s) x = None) s =
      (Inr (?ay\<lparr>free := free ?ay + n\<rparr>, ?ax\<lparr>free := free ?ax - n\<rparr>), s)" using ta by simp
  from with_dust_accepted [where f = "?inner ?ay" and dr = no_drop, OF this]
  obtain dust s1 where in1: "try_mutate_account_with_dust cfg no_drop x (?inner ?ay) s =
      (Inr (?ay\<lparr>free := free ?ay + n\<rparr>, dust), s1)" by blast
  let ?outer = "\<lambda>to_account (_::bool) s. and_then (try_mutate_account_with_dust cfg no_drop x (?inner to_account) s)
      (\<lambda>(to_account, maybe_dust_cleaner) s. (Inr (maybe_dust_cleaner, to_account), s))"
  have "?outer ?ay (store_query cfg (account_store s) y = None) s = (Inr (dust, ?ay\<lparr>free := free ?ay + n\<rparr>), s1)"
    using in1 by simp
  from with_dust_accepted [where f = ?outer and dr = "drop_dust_cleaner cfg", OF this]
  obtain dust2 s2 where "try_mutate_account_with_dust cfg (drop_dust_cleaner cfg) y ?outer s = (Inr (dust, dust2), s2)"
    by blast
  then show ?thesis using False xy by (simp add: currency_transfer_def)
qed

lemma transfer_fails:
  assumes "\<not> (n \<le> free (account cfg s x) \<and> misc_frozen (account cfg s x) \<le> free (account cfg s x) - n)"
    and "x \<noteq> y" and "n \<noteq> 0"
  shows "\<exists>e. currency_transfer cfg x y n req s = (Inl e, s)"
proof (cases "currency_transfer cfg x y n req s")
  case (Pair r s')
  show ?thesis
  proof (cases r)
    case (Inl e)
    with Pair currency_transfer_Inl show ?thesis by blast
  next
    case (Inr u)
    with Pair assms show ?thesis by (auto elim: currency_transfer_Inr)
  qed
qed

lemma reserve_succeeds:
  assumes inv: "balances_inv cfg s"
    and n: "n \<le> free (account cfg s x)" "misc_frozen (account cfg s x) \<le> free (account cfg s x) - n"
  shows "\<exists>s'. reserve cfg x n s = (Inr (), s')"
proof (cases "n = 0")
  case True
  then show ?thesis by (simp add: reserve_def)
next
  case False
  let ?a = "account cfg s x"
  let ?f = "\<lambda>acct (_::bool) s. (try_bind (ok_or (checked_sub (free acct) n) (Balances InsufficientBalance)) (\<lambda>new_free.
      try_bind (ok_or (checked_add (reserved acct) n) (Balances Overflow)) (\<lambda>new_reserved.
      try_bind (ensure_can_withdraw cfg x n {RESERVE} new_free s) (\<lambda>_.
        Inr ((), acct\<lparr>free := new_free, reserved := new_reserved\<rparr>)))), s)"
  have "reserved ?a + n \<le> U128_MAX"
    using balances_invD(3) [OF inv] balances_invD(4) [OF inv, of x] n by (simp add: holding_def)
  then have "?f ?a (store_query cfg (account_store s) x = None) s =
      (Inr ((), ?a\<lparr>free := free ?a - n, reserved := reserved ?a + n\<rparr>), s)"
    using n by (simp add: checked_add_def checked_sub_def ensure_can_withdraw_def reasons_from_def frozen_def)
  then obtain s' where "try_mutate_account cfg no_drop x ?f s = (Inr (), s')"
    by (rule try_mutate_accepted [where f = ?f])
  with False show ?thesis by (simp add: reserve_def)
qed

lemma reserve_fails:
  assumes "\<not> (n \<le> free (account cfg s x) \<and> misc_frozen (account cfg s x) \<le> free (account cfg s x) - n)"
    and "n \<noteq> 0"
  shows "\<exists>e. reserve cfg x n s = (Inl e, s)"
proof (cases "reserve cfg x n s")
  case (Pair r s')
  show ?thesis
  proof (cases r)
    case (Inl e)
    with Pair reserve_Inl show ?thesis by blast
  next
    case (Inr u)
    with Pair assms show ?thesis by (auto elim: reserve_Inr)
  qed
qed

lemma reserve_unreserve_effect:
  assumes inv: "balances_inv cfg s" and res: "reserve cfg x n s = (Inr (), s1)"
  shows "\<exists>s2. unreserve cfg x n s1 = (0, s2) \<and> account cfg s2 = account cfg s \<and>
    total_issuance s2 = total_issuance s \<and> locks s2 = locks s"
proof (cases "n = 0")
  case True
  with res show ?thesis by (simp add: reserve_def unreserve_def)
next
  case False
  note D = balances_invD [OF inv]
  let ?a = "account cfg s x"
  from res False obtain d where d: "d = ?a\<lparr>free := free ?a - n, reserved := reserved ?a + n\<rparr>"
    and n: "n \<le> free ?a" and acc: "account cfg s1 = (account cfg s)(x := kept cfg d)"
    and iss: "total_issuance s1 = total_issuance s - dust_of cfg d" and l: "locks s1 = locks s"
    by (rule reserve_Inr)
  have h: "holding d = holding ?a" "holding ?a \<noteq> 0" using d n False by (auto simp: holding_def)
  have t: "total d = holding ?a" "total ?a = holding ?a"
    using h D(3) D(4) [of x] total_exact [of d] D(5) [of x] by simp_all
  have k: "kept cfg d = d" "dust_of cfg d = 0" "kept cfg ?a = ?a" "dust_of cfg ?a = 0"
    using D(6) [of x] h t by (simp_all add: kept_def dust_of_def)
  have inv1: "balances_inv cfg s1" by (rule reserve_inv [OF inv res])
  have a1: "account cfg s1 x = d" using acc k by simp
  have nz: "total_balance cfg s1 x \<noteq> 0" using a1 t h by (simp add: total_balance_def)
  from inv1 False nz obtain m d' s2 where u: "unreserve cfg x n s1 = (n - m, s2)"
    and m: "m = min (reserved d) n"
    and d': "d' = d\<lparr>reserved := reserved d - m, free := free d + m\<rparr>"
    and acc2: "account cfg s2 = (account cfg s1)(x := kept cfg d')"
    and iss2: "total_issuance s2 = total_issuance s1 - dust_of cfg d'" "locks s2 = locks s1"
    unfolding a1 [symmetric] by (rule unreserve_accepted)
  have "m = n" "d' = ?a" using m d' d n by simp_all
  with u acc2 iss2 acc iss l k show ?thesis by (simp add: fun_upd_idem)
qed

end

section \<open>Properties\<close>

definition example_frame :: "(nat option, nat, nat) frame_ops" where
  "example_frame =
     \<lparr>ensure_signed = (\<lambda>orig. case orig of None \<Rightarrow> Inl BadOrigin | Some a \<Rightarrow> Inr a),
      ensure_root = (\<lambda>orig. if orig = None then Inr () else Inl BadOrigin),
      lookup_account = (\<lambda>a. Inr a)\<rparr>"

definition example_balances :: "(nat, nat \<Rightarrow> account_data option) balances_state" where
  "example_balances =
     balances_start [(1, \<lparr>free = 90, reserved = 10, misc_frozen = 20, fee_frozen = 0\<rparr>),
                     (2, \<lparr>free = 50, reserved = 0, misc_frozen = 0, fee_frozen = 0\<rparr>)]"

lemma example_balances_inv: "ed \<le> 50 \<Longrightarrow> balances_inv (account_map_config ed k) example_balances"
  unfolding example_balances_def
  by (rule balances_start_inv) (simp_all add: holding_def U128_MAX_def)

lemma example_origins: "origin_exclusive example_frame"
  by (auto simp: origin_exclusive_def example_frame_def)

text \<open>What evaluates the pallet's functions on a concrete state.\<close>

lemmas balances_eval =
  try_mutate_account_with_dust_def try_mutate_account_def mutate_account_def transfer_accounts_def
  post_mutation_def ensure_can_withdraw_def balances_deposit_event_def no_drop_def
  total_def usable_def frozen_def reasons_from_def total_balance_def free_balance_def reserved_balance_def
  account_default_def holding_def checked_add_def checked_sub_def saturating_add_def
  wrapping_add_def wrapping_sub_def U128_MAX_def Let_def account_map_account

text \<open>With the runtime's existential deposit of zero, a transfer of \<open>n\<close> between two accounts
  succeeds exactly when the sender has \<open>n\<close> free and keeps its locked amount; it then moves
  exactly \<open>n\<close> of free balance and nothing else, and otherwise leaves the storage unchanged.\<close>

theorem transfer_total:
  assumes "accepting_accounts cfg" and "existential_deposit cfg = 0" and "balances_inv cfg s"
    and "x \<noteq> y" and "n \<noteq> 0"
  shows "if n \<le> free (account cfg s x) \<and> misc_frozen (account cfg s x) \<le> free (account cfg s x) - n
    then \<exists>s'. currency_transfer cfg x y n req s = (Inr (), s') \<and>
      account cfg s' = (account cfg s)(
        x := (account cfg s x)\<lparr>free := free (account cfg s x) - n\<rparr>,
        y := (account cfg s y)\<lparr>free := free (account cfg s y) + n\<rparr>) \<and>
      total_issuance s' = total_issuance s \<and> locks s' = locks s
    else \<exists>e. currency_transfer cfg x y n req s = (Inl e, s)"
proof (cases "n \<le> free (account cfg s x) \<and> misc_frozen (account cfg s x) \<le> free (account cfg s x) - n")
  case True
  with accepting_accounts.transfer_succeeds [OF assms(1,3,2) _ _ assms(4)]
  obtain s' where s': "currency_transfer cfg x y n req s = (Inr (), s')" by blast
  have "stored_accounts cfg" using assms(1) by (rule accepting_accounts.axioms)
  then have "account cfg s' = (account cfg s)(
        x := (account cfg s x)\<lparr>free := free (account cfg s x) - n\<rparr>,
        y := (account cfg s y)\<lparr>free := free (account cfg s y) + n\<rparr>) \<and>
      total_issuance s' = total_issuance s \<and> locks s' = locks s"
    by (rule stored_accounts.currency_transfer_Inr [OF _ s' assms(5,4)]) (use assms(2) in simp)
  with True s' show ?thesis by simp
next
  case False
  show ?thesis
    by (subst if_not_P [OF False]) (rule accepting_accounts.transfer_fails [OF assms(1) False assms(4,5)])
qed

lemma example_account:
  "account (account_map_config ed k) example_balances 1 =
     \<lparr>free = 90, reserved = 10, misc_frozen = 20, fee_frozen = 0\<rparr>"
  by (simp add: example_balances_def balances_start_def account_map_account)

theorem transfer_total_witness:
  "\<exists>s'. currency_transfer (account_map_config 0 50) 1 2 30 Allow_Death example_balances = (Inr (), s') \<and>
     account (account_map_config 0 50) s' 1 = \<lparr>free = 60, reserved = 10, misc_frozen = 20, fee_frozen = 0\<rparr>"
proof -
  let ?c = "account_map_config 0 50 :: (nat, nat \<Rightarrow> account_data option) balances_config"
  have "balances_inv ?c example_balances" by (rule example_balances_inv) simp
  from transfer_total [OF account_map.accepting_accounts_axioms _ this, of 1 2 30 Allow_Death]
  obtain s' where "currency_transfer ?c 1 2 30 Allow_Death example_balances = (Inr (), s')"
    and "account ?c s' = (account ?c example_balances)(
        1 := (account ?c example_balances 1)\<lparr>free := free (account ?c example_balances 1) - 30\<rparr>,
        2 := (account ?c example_balances 2)\<lparr>free := free (account ?c example_balances 2) + 30\<rparr>)"
    unfolding example_account by auto
  then show ?thesis unfolding example_account by simp
qed

text \<open>The two transfer calls of the pallet, documented as requiring a signed origin, demand
  the root origin first and a signed one next: they are refused for every origin, and change
  nothing.\<close>

theorem transfer_calls_refused:
  assumes "origin_exclusive F"
  shows "balances_call_transfer F cfg orig dest n s = (Inl BadOrigin, s) \<and>
    balances_call_transfer_keep_alive F cfg orig dest n s = (Inl BadOrigin, s)"
proof -
  from assms have "ensure_root F orig = Inl BadOrigin \<or>
      ensure_root F orig = Inr () \<and> ensure_signed F orig = Inl BadOrigin"
    by (auto simp: origin_exclusive_def)
  then show ?thesis
    by (auto simp: balances_call_transfer_def balances_call_transfer_keep_alive_def)
qed

theorem transfer_calls_refused_witness:
  "balances_call_transfer example_frame (account_map_config 0 50) (Some 1) 2 30 example_balances =
     (Inl BadOrigin, example_balances)"
  using transfer_calls_refused [OF example_origins] by blast

text \<open>Reserving and then unreserving the same amount restores every account, the issuance and
  the locks, and nothing is left to unreserve.\<close>

theorem reserve_unreserve:
  assumes "accepting_accounts cfg" and "balances_inv cfg s" and "reserve cfg x n s = (Inr (), s1)"
  shows "\<exists>s2. unreserve cfg x n s1 = (0, s2) \<and> account cfg s2 = account cfg s \<and>
    total_issuance s2 = total_issuance s \<and> locks s2 = locks s"
  using assms by (rule accepting_accounts.reserve_unreserve_effect)

theorem reserve_unreserve_witness:
  "\<exists>s1 s2. reserve (account_map_config 5 50) 1 30 example_balances = (Inr (), s1) \<and>
     unreserve (account_map_config 5 50) 1 30 s1 = (0, s2) \<and> total_issuance s2 = 150"
proof -
  let ?c = "account_map_config 5 50 :: (nat, nat \<Rightarrow> account_data option) balances_config"
  have "\<exists>s1. reserve ?c 1 30 example_balances = (Inr (), s1)"
    by (rule account_map.reserve_succeeds)
      (simp_all add: example_balances_inv example_account [unfolded One_nat_def])
  then obtain s1 where s1: "reserve ?c 1 30 example_balances = (Inr (), s1)" ..
  from reserve_unreserve [OF account_map.accepting_accounts_axioms _ s1] s1
  show ?thesis by (auto simp: example_balances_inv) (simp add: example_balances_def balances_start_def holding_def)
qed

text \<open>Slashing \<open>n\<close> takes the free balance first and the reserved balance after it, never more
  than the account holds, and reports exactly what it could not take; dropping the returned
  imbalance removes exactly the slashed amount from the issuance.\<close>

theorem slash_exact:
  assumes "accepting_accounts cfg" and "existential_deposit cfg = 0" and "balances_inv cfg s"
    and "slash cfg x n s = ((imb, rest), s')"
  shows "negative_peek imb = min (holding (account cfg s x)) n \<and> rest = n - negative_peek imb \<and>
    account cfg s' = (account cfg s)(x := (account cfg s x)
      \<lparr>free := free (account cfg s x) - n,
       reserved := reserved (account cfg s x) - (n - free (account cfg s x))\<rparr>) \<and>
    total_issuance (drop_negative imb s') = total_issuance s - negative_peek imb"
proof -
  let ?a = "account cfg s x"
  obtain d s'' where r: "slash cfg x n s = ((NegativeImbalance (min (holding ?a) n), n - min (holding ?a) n), s'')"
    and d: "d = ?a\<lparr>free := free ?a - n, reserved := reserved ?a - (n - free ?a)\<rparr>"
    and acc: "account cfg s'' = (account cfg s)(x := kept cfg d) \<and>
      total_issuance s'' = total_issuance s - dust_of cfg d \<or> s'' = s \<and> min (holding ?a) n = 0"
    by (rule accepting_accounts.slash_accepted [OF assms(1,3)])
  have "min (holding ?a) n = 0 \<Longrightarrow> d = ?a" using d by (auto simp: holding_def min_def split: if_splits)
  with acc assms(2) have "account cfg s'' = (account cfg s)(x := d)" "total_issuance s'' = total_issuance s"
    by auto
  with r d assms(4) show ?thesis by simp
qed

theorem slash_exact_witness:
  "\<exists>s'. slash (account_map_config 0 50) 1 120 example_balances = ((NegativeImbalance 100, 20), s') \<and>
     holding (account (account_map_config 0 50) s' 1) = 0"
proof -
  let ?c = "account_map_config 0 50 :: (nat, nat \<Rightarrow> account_data option) balances_config"
  obtain imb rest s' where s': "slash ?c 1 120 example_balances = ((imb, rest), s')"
    by (metis surj_pair)
  from slash_exact [OF account_map.accepting_accounts_axioms _ example_balances_inv s'] s'
  show ?thesis
    unfolding example_account by (cases imb) (simp add: holding_def)
qed

text \<open>After \<open>set_lock\<close> on an account that holds something, the account's locks have distinct
  identifiers, the new one among them; what is frozen for fees and for everything else is
  the largest amount of the locks with those reasons; and no balance has moved.\<close>

theorem set_lock_freezes:
  assumes "accepting_accounts cfg" and "balances_inv cfg s" and "holding (account cfg s x) \<noteq> 0"
    and "n \<noteq> 0" and "rs \<noteq> {}" and "distinct (map lock_id (locks_of s x))"
  shows "let s' = set_lock cfg lid x n rs s; ls = locks_of s' x in
    distinct (map lock_id ls) \<and> lid \<in> lock_id ` set ls \<and>
    account cfg s' = (account cfg s)(x := (account cfg s x)
      \<lparr>misc_frozen := Max (insert 0 (lock_amount ` {l \<in> set ls. lock_reasons l \<noteq> Reasons_Fee})),
       fee_frozen := Max (insert 0 (lock_amount ` {l \<in> set ls. lock_reasons l \<noteq> Reasons_Misc}))\<rparr>) \<and>
    total_issuance s' = total_issuance s"
proof -
  let ?nl = "\<lparr>lock_id = lid, lock_amount = n, lock_reasons = reasons_from rs\<rparr>"
  define ls where "ls = place_lock lid (\<lambda>_. ?nl) (Some ?nl) (locks_of s x)"
  let ?a = "account cfg s x"
  define d where "d = apply_locks ls (?a\<lparr>misc_frozen := 0, fee_frozen := 0\<rparr>)"
  have upd: "set_lock cfg lid x n rs s = update_locks cfg x ls s"
    using assms(4,5) by (simp add: set_lock_def Let_def ls_def)
  note effect = accepting_accounts.update_locks_effect [OF assms(1), of x ls s, folded d_def upd]
  have lo: "locks_of (set_lock cfg lid x n rs s) x = ls"
    using accepting_accounts.set_lock_locks [OF assms(1,4,5), of lid x s] by (simp add: ls_def)
  have "holding d = holding ?a" by (simp add: d_def holding_def)
  then have "existential_deposit cfg \<le> total d"
    using balances_invD(3) [OF assms(2)] balances_invD(4,6) [OF assms(2), of x] assms(3)
      total_exact [of d] by simp
  then have k: "kept cfg d = d" "dust_of cfg d = 0" by (simp_all add: kept_def dust_of_def)
  have d': "d = ?a\<lparr>misc_frozen := Max (insert 0 (lock_amount ` {l \<in> set ls. lock_reasons l \<noteq> Reasons_Fee})),
       fee_frozen := Max (insert 0 (lock_amount ` {l \<in> set ls. lock_reasons l \<noteq> Reasons_Misc}))\<rparr>"
    by (rule account_data.equality) (simp_all add: d_def apply_locks_frozen)
  have "lock_id ` set ls = (lock_id ` set (locks_of s x) - {lid}) \<union> {lid}"
    unfolding ls_def by (subst place_lock_ids) auto
  moreover have "distinct (map lock_id ls)"
    unfolding ls_def by (rule place_lock_distinct) (use assms(6) in auto)
  ultimately show ?thesis
    unfolding Let_def lo using effect k d' by simp
qed

theorem set_lock_freezes_witness:
  "misc_frozen (account (account_map_config 5 50)
     (set_lock (account_map_config 5 50) [1] 1 40 {TRANSFER, RESERVE} example_balances) 1) = 40"
proof -
  let ?c = "account_map_config 5 50 :: (nat, nat \<Rightarrow> account_data option) balances_config"
  let ?s = "set_lock ?c [1] 1 40 {TRANSFER, RESERVE} example_balances"
  have empty: "locks_of example_balances 1 = []"
    by (simp add: locks_of_def example_balances_def balances_start_def)
  have ls: "locks_of ?s 1 = [\<lparr>lock_id = [1], lock_amount = 40, lock_reasons = Reasons_Misc\<rparr>]"
    by (subst account_map.set_lock_locks) (simp_all add: empty [unfolded One_nat_def] reasons_from_def)
  have "balances_inv ?c example_balances" by (rule example_balances_inv) simp
  from set_lock_freezes [OF account_map.accepting_accounts_axioms this, of 1 40 "{TRANSFER, RESERVE}" "[1]"]
  have "account ?c ?s = (account ?c example_balances)(1 := (account ?c example_balances 1)
      \<lparr>misc_frozen := Max (insert 0 (lock_amount ` {l \<in> set (locks_of ?s 1). lock_reasons l \<noteq> Reasons_Fee})),
       fee_frozen := Max (insert 0 (lock_amount ` {l \<in> set (locks_of ?s 1). lock_reasons l \<noteq> Reasons_Misc}))\<rparr>)"
    unfolding example_account empty Let_def by (simp add: holding_def)
  then have "misc_frozen (account ?c ?s 1) =
      Max (insert 0 (lock_amount ` {l \<in> set (locks_of ?s 1). lock_reasons l \<noteq> Reasons_Fee}))" by simp
  also have "\<dots> = 40" unfolding ls by simp
  finally show ?thesis .
qed

lemma genesis_build_balances:
  assumes "stored_accounts cfg" and "\<And>a. account cfg s a = account_default"
    and "sum_list (map snd bs) \<le> U128_MAX" and "balances_genesis_build cfg bs s = (Inr (), s')"
  shows "balances_inv cfg s' \<and> total_issuance s' = sum_list (map snd bs) \<and>
    list_all (\<lambda>(a, n). free_balance cfg s' a = n) bs"
proof -
  let ?s0 = "s\<lparr>total_issuance := foldl (\<lambda>acc (_, n). wrapping_add acc n) 0 bs, storage_version := V2_0_0\<rparr>"
  let ?xs = "map (\<lambda>(a, n). (a, account_default\<lparr>free := n\<rparr>)) bs"
  have fold: "foldl (\<lambda>acc (_, n). wrapping_add acc n) k bs = k + sum_list (map snd bs)"
    if "k + sum_list (map snd bs) \<le> U128_MAX" for k and bs :: "('acc \<times> nat) list"
    using that by (induction bs arbitrary: k) (auto simp: wrapping_add_exact)
  from assms(4) have dist: "distinct (map fst bs)" and ed: "list_all (\<lambda>(_, n). existential_deposit cfg \<le> n) bs"
    and ins: "genesis_insert cfg bs ?s0 = (Inr (), s')"
    by (auto simp: balances_genesis_build_def Let_def split: if_splits)
  have "account cfg ?s0 = (\<lambda>_. account_default)" using assms(2) by (auto simp: account_def)
  with stored_accounts.genesis_insert_Inr [OF assms(1) ins dist] fold [of 0 bs] assms(3)
  have acc: "account cfg s' = (\<lambda>a. case map_of ?xs a of None \<Rightarrow> account_default | Some d \<Rightarrow> d)"
    and iss: "total_issuance s' = sum_list (map snd bs)"
    by (auto simp: map_of_map [where f = "\<lambda>n. account_default\<lparr>free := n\<rparr>"] split: option.splits)
  have keys: "distinct (map fst ?xs)" using dist by (simp add: case_prod_beta comp_def)
  have hold: "map (holding \<circ> snd) ?xs = map snd bs" by (simp add: case_prod_beta comp_def holding_def account_default_def)
  have "list_all (\<lambda>(_, d). existential_deposit cfg \<le> holding d) ?xs"
    using ed by (auto simp: list_all_iff holding_def account_default_def)
  then have "holding (account cfg s' a) = 0 \<or> existential_deposit cfg \<le> holding (account cfg s' a)" for a
    unfolding acc by (rule circulation_map_of(3) [OF keys])
  moreover note circulation_map_of(1,2) [OF keys, folded acc, unfolded hold]
  moreover have "free_balance cfg s' a = n" if "(a, n) \<in> set bs" for a n
    using map_of_is_SomeI [OF keys, of a "account_default\<lparr>free := n\<rparr>"] that
    by (force simp: free_balance_def acc)
  ultimately show ?thesis
    using iss assms(3) by (auto simp: balances_inv_def list_all_iff)
qed

lemma genesis_build_accepted:
  assumes "stored_accounts cfg" and "list_all (\<lambda>(_, n). existential_deposit cfg \<le> n) bs" and "distinct (map fst bs)"
  obtains s' where "balances_genesis_build cfg bs s = (Inr (), s')"
proof -
  have "\<exists>s'. genesis_insert cfg bs t = (Inr (), s')" for t
  proof (induction bs arbitrary: t)
    case (Cons b bs)
    obtain st where "store_commit cfg (fst b) (Some (account_default\<lparr>free := snd b\<rparr>)) (account_store t) = Inr st"
      using stored_map.commit_some [OF stored_accounts.axioms(1) [OF assms(1)]] by blast
    with Cons.IH [of "t\<lparr>account_store := st\<rparr>"] show ?case by (cases b) simp
  qed simp
  with assms(2,3) that show ?thesis by (auto simp: balances_genesis_build_def Let_def)
qed

text \<open>A genesis configuration the build accepts, whose balances fit together in the balance
  type, produces a state that satisfies the invariant, with exactly the configured balances.\<close>

theorem genesis_balances_inv:
  assumes "stored_accounts cfg" and "\<And>a. account cfg s a = account_default"
    and "sum_list (map snd bs) \<le> U128_MAX" and "balances_genesis_build cfg bs s = (Inr (), s')"
  shows "balances_inv cfg s' \<and> total_issuance s' = sum_list (map snd bs) \<and>
    list_all (\<lambda>(a, n). free_balance cfg s' a = n) bs"
  by (rule genesis_build_balances [OF assms])

theorem genesis_balances_inv_witness:
  "\<exists>s'. balances_genesis_build (account_map_config 5 50) [(1::nat, 90), (2, 50)] (balances_start []) = (Inr (), s') \<and>
     balances_inv (account_map_config 5 50) s' \<and> total_issuance s' = 140"
proof -
  let ?c = "account_map_config 5 50 :: (nat, nat \<Rightarrow> account_data option) balances_config"
  obtain s' where s': "balances_genesis_build ?c [(1, 90), (2, 50)] (balances_start []) = (Inr (), s')"
    by (simp add: balances_genesis_build_def)
  have "account ?c (balances_start []) a = account_default" for a
    by (simp add: balances_start_def account_map_account)
  from genesis_balances_inv [OF account_map.stored_accounts_axioms this _ s'] s'
  show ?thesis by (auto simp: U128_MAX_def)
qed

end
