(* ===== verification/Balances_Dust.thy ===== *)
theory Balances_Dust
  imports Balances_Props
begin

text \<open>
  Dust handlers that call the pallet again (\<open>T::DustRemoval\<close> of \<open>src/pallets/balances/src/lib.rs\<close>).
  An account that falls below the existential deposit is removed, and its rest is handed to the
  handler as an imbalance: only after every account of the operation is written, so that what
  the handler writes is not overwritten. For every handler that settles the imbalance it is
  given (locale \<open>dust_handler\<close>) the operations keep the invariant of the pallet; with the handler
  of \<open>src/pallets/balances/src/tests_reentrancy.rs\<close>, which pays the dust into an account, nothing
  is lost at all.
\<close>

section \<open>The contract of a handler\<close>

text \<open>The invariant with \<open>k\<close> units taken from the accounts and still in the issuance.\<close>

definition outstanding :: "('acc, 'st) balances_config \<Rightarrow> nat \<Rightarrow> ('acc, 'st) balances_state \<Rightarrow> bool" where
  "outstanding cfg k s \<longleftrightarrow>
     finite (holders (account cfg s)) \<and>
     circulation (account cfg s) + k = total_issuance s \<and>
     total_issuance s \<le> U128_MAX \<and>
     (\<forall>a. holding (account cfg s a) = 0 \<or> existential_deposit cfg \<le> holding (account cfg s a))"

lemma outstanding_0: "outstanding cfg 0 s \<longleftrightarrow> balances_inv cfg s"
  by (simp add: outstanding_def balances_inv_def)

lemma outstanding_event [simp]: "outstanding cfg k (balances_deposit_event ev s) \<longleftrightarrow> outstanding cfg k s"
  by (simp add: outstanding_def)

lemma outstanding_drop: "outstanding cfg (k + n) s \<Longrightarrow> outstanding cfg k (drop_negative (NegativeImbalance n) s)"
  by (auto simp: outstanding_def saturating_sub_def)

lemma outstandingD:
  assumes "outstanding cfg k s"
  shows "finite (holders (account cfg s))" and "circulation (account cfg s) + k = total_issuance s"
    and "total_issuance s \<le> U128_MAX" and "holding (account cfg s a) + k \<le> total_issuance s"
    and "holding (account cfg s a) = 0 \<or> existential_deposit cfg \<le> holding (account cfg s a)"
  using assms holding_le_circulation [of "account cfg s" a] by (auto simp: outstanding_def)

text \<open>One account changes: \<open>j\<close> units are taken out of it, or \<open>i\<close> outstanding units paid in.\<close>

lemma outstanding_upd:
  assumes out: "outstanding cfg (k + i) s"
    and acc: "account cfg s' = (account cfg s)(x := kept cfg d)" and iss: "total_issuance s' = total_issuance s"
    and h: "holding d + j = holding (account cfg s x) + i"
  shows "outstanding cfg (k + j + dust_of cfg d) s'"
proof -
  note D = outstandingD [OF out]
  have m: "holding d \<le> U128_MAX" using h D(3) D(4) [of x] by simp
  have "circulation (account cfg s') + holding (account cfg s x) = circulation (account cfg s) + holding (kept cfg d)"
    unfolding acc by (rule circulation_upd [OF D(1)])
  with h D(2) holding_kept [OF m, of cfg] have "circulation (account cfg s') + (k + j + dust_of cfg d) = total_issuance s'"
    by (simp add: iss)
  with D iss kept_ed [OF m, of cfg] show ?thesis
    by (auto simp: outstanding_def acc intro: finite_holders_upd)
qed

lemma outstanding_upd2:
  assumes inv: "balances_inv cfg s" and xy: "x \<noteq> y"
    and acc: "account cfg s' = (account cfg s)(x := kept cfg dx, y := kept cfg dy)"
    and iss: "total_issuance s' = total_issuance s"
    and h: "holding dx + holding dy = holding (account cfg s x) + holding (account cfg s y)"
  shows "outstanding cfg (dust_of cfg dx + dust_of cfg dy) s'"
proof -
  note D = balances_invD [OF inv]
  have le: "holding (account cfg s x) + holding (account cfg s y) \<le> total_issuance s"
    using holding_pair_le_circulation [OF D(1) xy] D(2) by simp
  then have m: "holding dx \<le> U128_MAX" "holding dy \<le> U128_MAX" using h D(3) by simp_all
  have "circulation (account cfg s') + holding (account cfg s x) + holding (account cfg s y) =
      circulation (account cfg s) + holding (kept cfg dx) + holding (kept cfg dy)"
    unfolding acc by (rule circulation_upd2 [OF D(1) xy])
  with h holding_kept [OF m(1), of cfg] holding_kept [OF m(2), of cfg] iss D(2)
  have "circulation (account cfg s') + (dust_of cfg dx + dust_of cfg dy) = total_issuance s'" by simp
  moreover have "holding (account cfg s' a) = 0 \<or> existential_deposit cfg \<le> holding (account cfg s' a)" for a
    using kept_ed [OF m(1), of cfg] kept_ed [OF m(2), of cfg] D(6) [of a] by (simp add: acc)
  ultimately show ?thesis using iss D(1,3) by (simp add: outstanding_def acc finite_holders_upd)
qed

text \<open>A handler settles what it is given, whatever else is outstanding: it may drop it, pay it to
  accounts, or do a part of each, through any operation of the pallet.\<close>

locale dust_handler = stored_map +
  assumes settles: "outstanding cfg (k + n) s \<Longrightarrow> n \<noteq> 0 \<Longrightarrow> outstanding cfg k (dust_removal cfg (NegativeImbalance n) s)"
begin

lemma drop_dust_settles:
  assumes "outstanding cfg (k + dust_of cfg d) s"
  shows "outstanding cfg k (drop_dust_cleaner cfg (map_option (\<lambda>n. (who, n)) (snd (post_mutation cfg d))) s)"
  using assms settles [of k "total d"]
  by (cases "total d < existential_deposit cfg \<and> total d \<noteq> 0") (auto simp: post_mutation_eq dust_of_def split: if_splits)

lemma transfer_settles:
  assumes inv: "balances_inv cfg s" and tr: "currency_transfer cfg x y n req s = (Inr (), s')"
  shows "balances_inv cfg s'"
proof (cases "n = 0 \<or> x = y")
  case True
  with tr inv show ?thesis by (simp add: currency_transfer_def)
next
  case False
  then have xy: "n \<noteq> 0" "x \<noteq> y" by auto
  obtain dx dy s2 where d: "dx = (account cfg s x)\<lparr>free := free (account cfg s x) - n\<rparr>"
    "dy = (account cfg s y)\<lparr>free := free (account cfg s y) + n\<rparr>" "n \<le> free (account cfg s x)"
    and ed: "existential_deposit cfg \<le> total dy"
    and acc: "account cfg s2 = (account cfg s)(x := kept cfg dx, y := dy)" and iss: "total_issuance s2 = total_issuance s"
    and s': "s' = balances_deposit_event (Transferred x y n)
      (drop_dust_cleaner cfg (map_option (\<lambda>n. (x, n)) (snd (post_mutation cfg dx))) s2)"
    by (rule transfer_before_dust [OF tr xy])
  have "kept cfg dy = dy" "dust_of cfg dy = 0" using ed by (simp_all add: kept_def dust_of_def)
  then have "outstanding cfg (0 + dust_of cfg dx) s2"
    using outstanding_upd2 [OF inv xy(2), where s' = s2 and dx = dx and dy = dy] acc iss d by (simp add: holding_def)
  from drop_dust_settles [OF this] show ?thesis by (simp add: s' outstanding_0 [symmetric])
qed

lemma transfer_reserved_settles:
  assumes inv: "balances_inv cfg s" and xy: "x \<noteq> y"
    and tr: "do_transfer_reserved cfg x y n best st s = (Inr m, s')"
  shows "balances_inv cfg s'"
proof (cases "n = 0")
  case True
  with tr inv show ?thesis by (simp add: do_transfer_reserved_def)
next
  case False
  obtain dx dy s2 where d: "m = min (reserved (account cfg s x)) n"
    "dx = (account cfg s x)\<lparr>reserved := reserved (account cfg s x) - m\<rparr>"
    "dy = (case st of Status_Free \<Rightarrow> (account cfg s y)\<lparr>free := free (account cfg s y) + m\<rparr>
      | Status_Reserved \<Rightarrow> (account cfg s y)\<lparr>reserved := reserved (account cfg s y) + m\<rparr>)"
    and acc: "account cfg s2 = (account cfg s)(x := kept cfg dx, y := kept cfg dy)"
    and iss: "total_issuance s2 = total_issuance s"
    and s': "s' = drop_dust_cleaner cfg (map_option (\<lambda>n. (x, n)) (snd (post_mutation cfg dx)))
      (drop_dust_cleaner cfg (map_option (\<lambda>n. (y, n)) (snd (post_mutation cfg dy)))
        (balances_deposit_event (ReserveRepatriated x y m st) s2))"
    by (rule transfer_reserved_before_dust [OF tr False xy])
  have "holding dx + holding dy = holding (account cfg s x) + holding (account cfg s y)"
    using d by (auto simp: holding_def split: balance_status.splits)
  from outstanding_upd2 [OF inv xy acc iss this]
  have "outstanding cfg (0 + dust_of cfg dx + dust_of cfg dy) (balances_deposit_event (ReserveRepatriated x y m st) s2)"
    by simp
  from drop_dust_settles [OF drop_dust_settles [OF this]] show ?thesis by (simp add: s' outstanding_0)
qed

text \<open>Operations on one account: what the closure takes out of it is outstanding afterwards.\<close>

lemma try_mutate_settles:
  assumes out: "outstanding cfg (k + i) s" and run: "try_mutate_account cfg dr who f s = (Inr r, s')"
    and f: "\<And>new d s1. f (account cfg s who) new s = (Inr (r, d), s1) \<Longrightarrow>
      s1 = s \<and> holding d + j = holding (account cfg s who) + i"
  shows "outstanding cfg (k + j) s'"
proof -
  from run obtain d s1 s2 where 1: "f (account cfg s who) (store_query cfg (account_store s) who = None) s = (Inr (r, d), s1)"
    and 2: "account cfg s2 = (account cfg s1)(who := kept cfg d)" "total_issuance s2 = total_issuance s1"
    and s': "s' = drop_dust_cleaner cfg (map_option (\<lambda>n. (who, n)) (snd (post_mutation cfg d))) s2"
    by (auto simp: try_mutate_account_def and_then_eq_Inr elim!: with_dust_Inr)
  from f [OF 1] 2 have "outstanding cfg (k + j + dust_of cfg d) s2"
    using outstanding_upd [OF out, of s2 who d j] by simp
  from drop_dust_settles [OF this] show ?thesis by (simp add: s')
qed

lemma reserve_settles:
  assumes "balances_inv cfg s" and "reserve cfg who n s = (Inr (), s')"
  shows "balances_inv cfg s'"
proof -
  let ?f = "\<lambda>acct (_::bool) s.
    (try_bind (ok_or (checked_sub (free acct) n) (Balances InsufficientBalance)) (\<lambda>new_free.
     try_bind (ok_or (checked_add (reserved acct) n) (Balances Overflow)) (\<lambda>new_reserved.
     try_bind (ensure_can_withdraw cfg who n {RESERVE} new_free s) (\<lambda>_.
       Inr ((), acct\<lparr>free := new_free, reserved := new_reserved\<rparr>)))), s)"
  from assms show ?thesis
    using try_mutate_settles [of 0 0 s no_drop who ?f "()" _ 0]
    by (auto simp: reserve_def and_then_eq_Inr outstanding_0 [symmetric] try_bind_eq_Inr holding_def split: if_splits)
qed

lemma withdraw_settles:
  assumes "balances_inv cfg s" and "withdraw cfg who n rs req s = (Inr imb, s')"
  shows "outstanding cfg (negative_peek imb) s'"
proof (cases "n = 0")
  case True
  with assms show ?thesis by (auto simp: withdraw_def outstanding_0)
next
  case False
  let ?f = "\<lambda>acct (_::bool) s.
    (try_bind (ok_or (checked_sub (free acct) n) (Balances InsufficientBalance)) (\<lambda>new_free.
       let ed = existential_deposit cfg;
           would_be_dead = wrapping_add new_free (reserved acct) < ed;
           would_kill = would_be_dead \<and> ed \<le> wrapping_add (free acct) (reserved acct)
       in if \<not> (req = Allow_Death \<or> \<not> would_kill) then Inl (Balances KeepAlive)
          else try_bind (ensure_can_withdraw cfg who n rs new_free s)
            (\<lambda>_. Inr (NegativeImbalance n, acct\<lparr>free := new_free\<rparr>))), s)"
  from assms(2) False have run: "try_mutate_account cfg drop_negative who ?f s = (Inr imb, s')" by (simp add: withdraw_def)
  have "holding d + negative_peek imb = holding (account cfg s who) + 0 \<and> s1 = s"
    if "?f (account cfg s who) new s = (Inr (imb, d), s1)" for new d s1
    using that by (auto simp: try_bind_eq_Inr holding_def Let_def split: if_splits)
  then show ?thesis
    using try_mutate_settles [OF _ run, of 0 0 "negative_peek imb"] assms(1) by (auto simp: outstanding_0)
qed

lemma deposit_settles:
  assumes "outstanding cfg (k + n) s" and "deposit_into_existing cfg who n s = (Inr imb, s')"
  shows "outstanding cfg k s' \<and> imb = PositiveImbalance n"
proof (cases "n = 0")
  case True
  with assms show ?thesis by (simp add: deposit_into_existing_def)
next
  case False
  let ?f = "\<lambda>acct is_new s.
    (if is_new then Inl (Balances DeadAccount)
     else try_bind (ok_or (checked_add (free acct) n) (Balances Overflow))
       (\<lambda>f. Inr (PositiveImbalance n, acct\<lparr>free := f\<rparr>)), s)"
  from assms(2) False have run: "try_mutate_account cfg drop_positive who ?f s = (Inr imb, s')"
    by (simp add: deposit_into_existing_def)
  then have "imb = PositiveImbalance n"
    by (auto simp: try_mutate_account_def and_then_eq_Inr try_bind_eq_Inr split: if_splits elim!: with_dust_Inr)
  moreover have "s1 = s \<and> holding d + 0 = holding (account cfg s who) + n"
    if "?f (account cfg s who) new s = (Inr (imb, d), s1)" for new d s1
    using that by (auto simp: try_bind_eq_Inr holding_def split: if_splits)
  ultimately show ?thesis using try_mutate_settles [OF assms(1) run, of 0] by simp
qed

end

text \<open>Dropping the dust, as the runtime does, keeps the contract.\<close>

sublocale stored_accounts \<subseteq> dust_handler
  by unfold_locales (simp add: dust_dropped outstanding_drop del: drop_negative.simps)

section \<open>Paying the dust to an account\<close>

text \<open>
  The handler of the tests: \<open>resolve_into_existing\<close> deposits the imbalance into an account, and the
  result is ignored, so that a refused imbalance is dropped.
\<close>

definition on_dust_removal ::
  "('acc, 'st) balances_config \<Rightarrow> 'acc \<Rightarrow> negative_imbalance \<Rightarrow> ('acc, 'st) balances_state \<Rightarrow> ('acc, 'st) balances_state" where
  "on_dust_removal cfg b amount s =
     (case deposit_into_existing cfg b (negative_peek amount) s of
        (Inr opposite, s1) \<Rightarrow>
          (case negative_offset amount opposite of
             Same_None \<Rightarrow> s1
           | Same n \<Rightarrow> drop_negative n s1
           | Same_Other p \<Rightarrow> drop_positive p s1)
      | (Inl _, s1) \<Rightarrow> drop_negative amount s1)"

text \<open>What such a handler does while the account exists, for any store.\<close>

definition pays_dust_to :: "('acc, 'st) balances_config \<Rightarrow> 'acc \<Rightarrow> bool" where
  "pays_dust_to cfg b \<longleftrightarrow>
     (\<forall>s n. holding (account cfg s b) \<noteq> 0 \<longrightarrow> existential_deposit cfg \<le> holding (account cfg s b) \<longrightarrow>
        holding (account cfg s b) + n \<le> U128_MAX \<longrightarrow>
        account cfg (dust_removal cfg (NegativeImbalance n) s) =
          (account cfg s)(b := (account cfg s b)\<lparr>free := free (account cfg s b) + n\<rparr>) \<and>
        total_issuance (dust_removal cfg (NegativeImbalance n) s) = total_issuance s)"

text \<open>
  The pallet over its own account map with this handler. A deposit into an existing account leaves
  no dust, so that it does not matter which handler the inner call of the pallet has: the handler
  is a call of the pallet it belongs to.
\<close>

definition dust_to :: "'acc \<Rightarrow> balance \<Rightarrow> nat \<Rightarrow> ('acc, 'acc \<Rightarrow> account_data option) balances_config" where
  "dust_to b ed l = (account_map_config ed l)\<lparr>dust_removal := on_dust_removal (account_map_config ed l) b\<rparr>"

lemma dust_to_simps [simp]:
  "account (dust_to b ed l) = account (account_map_config ed l)"
  "existential_deposit (dust_to b ed l) = ed"
  "store_query (dust_to b ed l) m a = m a"
  "store_commit (dust_to b ed l) a v m = Inr (m(a := v))"
  "is_provider_required (dust_to b ed l) m a = False"
  "dust_removal (dust_to b ed l) = on_dust_removal (account_map_config ed l) b"
  by (simp_all add: dust_to_def account_def [abs_def] account_map_config_def)

lemma dust_to_outstanding: "outstanding (dust_to b ed l) = outstanding (account_map_config ed l)"
  by (simp add: outstanding_def [abs_def])

interpretation reentrant: dust_handler "dust_to b ed l"
proof
  fix k n and s :: "('a, 'a \<Rightarrow> account_data option) balances_state"
  assume out: "outstanding (dust_to b ed l) (k + n) s"
  let ?cfg = "account_map_config ed l"
  obtain r s1 where r: "deposit_into_existing ?cfg b n s = (r, s1)" by fastforce
  show "outstanding (dust_to b ed l) k (dust_removal (dust_to b ed l) (NegativeImbalance n) s)"
  proof (cases r)
    case (Inl e)
    with r have "s1 = s" by (simp add: account_map.deposit_into_existing_Inl)
    with out r Inl show ?thesis
      by (simp add: on_dust_removal_def dust_to_outstanding outstanding_drop del: drop_negative.simps)
  next
    case (Inr imb)
    with account_map.deposit_settles [of ed l k n s b imb s1] out r show ?thesis
      by (simp add: on_dust_removal_def dust_to_outstanding)
  qed
qed (auto simp: dust_to_def account_map_config_def split: option.splits)

lemma deposit_existing:
  assumes "account_store s b = Some d" and "holding d + n \<le> U128_MAX" and "ed \<le> holding d"
    and "existential_deposit cfg = ed" and "\<And>m a. store_query cfg m a = m a" and "\<And>a v m. store_commit cfg a v m = Inr (m(a := v))"
  shows "deposit_into_existing cfg b n s =
    (Inr (PositiveImbalance n), if n = 0 then s else s\<lparr>account_store := (account_store s)(b \<mapsto> d\<lparr>free := free d + n\<rparr>)\<rparr>)"
  using assms
  by (simp add: deposit_into_existing_def try_mutate_account_def try_mutate_account_with_dust_def post_mutation_def
      holding_def total_def saturating_add_def checked_add_def)

lemma handler_reenters:
  assumes "account_store s b = Some d" and "holding d + n \<le> U128_MAX" and "ed \<le> holding d"
  shows "dust_removal (dust_to b ed l) (NegativeImbalance n) s = on_dust_removal (dust_to b ed l) b (NegativeImbalance n) s"
  using assms by (simp add: on_dust_removal_def deposit_existing)

lemma dust_to_pays: "pays_dust_to (dust_to b ed l) b"
proof -
  let ?cfg = "account_map_config ed l"
  have "account ?cfg (on_dust_removal ?cfg b (NegativeImbalance n) s) =
      (account ?cfg s)(b := (account ?cfg s b)\<lparr>free := free (account ?cfg s b) + n\<rparr>) \<and>
    total_issuance (on_dust_removal ?cfg b (NegativeImbalance n) s) = total_issuance s"
    if h: "holding (account ?cfg s b) \<noteq> 0" "ed \<le> holding (account ?cfg s b)" "holding (account ?cfg s b) + n \<le> U128_MAX" for s n
  proof -
    obtain d where d: "account_store s b = Some d" using h(1) by (cases "account_store s b") (auto simp: account_map_account)
    then have a: "account ?cfg s b = d" by (simp add: account_map_account)
    show ?thesis using d h(2,3) unfolding a
      by (auto simp: on_dust_removal_def deposit_existing account_map_account fun_eq_iff)
  qed
  then show ?thesis by (simp add: pays_dust_to_def)
qed

section \<open>Properties\<close>

text \<open>C8: whatever the dust handler does with the imbalance it is given, calls of the pallet included,
  as long as it settles it, a transfer, a repatriation between two accounts and a reservation
  leave a state in which the accounts hold together exactly the total issuance, every account
  that exists holds the existential deposit, and a withdrawal leaves exactly its imbalance
  outstanding: no update of the handler is lost.\<close>

theorem dust_handler_conserves:
  assumes "dust_handler cfg" and "balances_inv cfg s"
  shows "(currency_transfer cfg x y n req s = (Inr (), s') \<longrightarrow> balances_inv cfg s') \<and>
    (x \<noteq> y \<longrightarrow> repatriate_reserved cfg x y n st s = (Inr m, s') \<longrightarrow> balances_inv cfg s') \<and>
    (reserve cfg x n s = (Inr (), s') \<longrightarrow> balances_inv cfg s') \<and>
    (withdraw cfg x n rs req s = (Inr imb, s') \<longrightarrow> balances_inv cfg (drop_negative imb s'))"
proof -
  have "balances_inv cfg (drop_negative imb s')" if "withdraw cfg x n rs req s = (Inr imb, s')"
    using dust_handler.withdraw_settles [OF assms that] outstanding_drop [of cfg 0 "negative_peek imb" s']
    by (cases imb) (simp add: outstanding_0 del: drop_negative.simps)
  then show ?thesis
    using dust_handler.transfer_settles [OF assms] dust_handler.transfer_reserved_settles [OF assms]
      dust_handler.reserve_settles [OF assms]
    by (auto simp: repatriate_reserved_def and_then_eq_Inr)
qed

text \<open>The state the tests start from: account 1 holds 1000, account 2 holds 500, and 100 are the
  existential deposit.\<close>

definition dusty_state :: "(nat, nat \<Rightarrow> account_data option) balances_state" where
  "dusty_state = balances_start [(1, account_default\<lparr>free := 1000\<rparr>), (2, account_default\<lparr>free := 500\<rparr>)]"

lemma dusty_state_inv: "balances_inv (dust_to 1 100 50) dusty_state"
proof -
  have "balances_inv (account_map_config 100 50) dusty_state"
    unfolding dusty_state_def by (rule balances_start_inv) (simp_all add: U128_MAX_def account_default_def holding_def)
  then show ?thesis by (simp add: balances_inv_def)
qed

lemma dusty_state_account:
  "account (account_map_config 100 50) dusty_state 1 = account_default\<lparr>free := 1000\<rparr>"
  "account (account_map_config 100 50) dusty_state 2 = account_default\<lparr>free := 500\<rparr>"
  "account (account_map_config 100 50) dusty_state 3 = account_default"
  by (simp_all add: dusty_state_def balances_start_account)

lemma dusty_transfer:
  assumes "y \<in> {1, 3}"
  shows "\<exists>s'. currency_transfer (dust_to 1 100 50) 2 y 450 Allow_Death dusty_state = (Inr (), s')"
proof -
  have "account_store dusty_state 2 = Some (account_default\<lparr>free := 500\<rparr>)"
    "account_store dusty_state 1 = Some (account_default\<lparr>free := 1000\<rparr>)" "account_store dusty_state 3 = None"
    by (simp_all add: dusty_state_def balances_start_def)
  with assms show ?thesis
    using dusty_state_account
    by (auto simp: currency_transfer_def try_mutate_account_with_dust_def transfer_accounts_def checked_sub_def
        checked_add_def total_def saturating_add_def account_default_def U128_MAX_def ensure_can_withdraw_def
        frozen_def reasons_from_def is_ok_def post_mutation_def)
qed

theorem dust_handler_conserves_witness:
  "\<exists>s'. currency_transfer (dust_to 1 100 50) 2 3 450 Allow_Death dusty_state = (Inr (), s') \<and>
     balances_inv (dust_to 1 100 50) s'"
proof -
  obtain s' where s': "currency_transfer (dust_to 1 100 50) 2 3 450 Allow_Death dusty_state = (Inr (), s')"
    using dusty_transfer [of 3] by auto
  with dust_handler_conserves [OF reentrant.dust_handler_axioms dusty_state_inv, of 2 3 450 Allow_Death s']
  show ?thesis by blast
qed

text \<open>C10: with a handler that pays dust into an account, a transfer that leaves its sender below the
  existential deposit loses nothing. The sender is removed, the receiver gets the amount, the
  account gets the dust, also when it is the receiver, no other account changes, and the total
  issuance is the same.\<close>

theorem dust_reaches_account:
  assumes "stored_map cfg" and "pays_dust_to cfg b" and "balances_inv cfg s"
    and "currency_transfer cfg x y n req s = (Inr (), s')" and "n \<noteq> 0" and "x \<noteq> y" and "b \<noteq> x"
    and "holding (account cfg s b) \<noteq> 0" and "holding (account cfg s x) < n + existential_deposit cfg"
  shows "account cfg s' x = account_default \<and>
    free_balance cfg s' y = free_balance cfg s y + n + (if b = y then holding (account cfg s x) - n else 0) \<and>
    (b \<noteq> y \<longrightarrow> free_balance cfg s' b = free_balance cfg s b + (holding (account cfg s x) - n)) \<and>
    (\<forall>a. a \<notin> {x, y, b} \<longrightarrow> account cfg s' a = account cfg s a) \<and>
    total_issuance s' = total_issuance s"
proof -
  note D = balances_invD [OF assms(3)]
  obtain dx dy s2 where d: "dx = (account cfg s x)\<lparr>free := free (account cfg s x) - n\<rparr>"
    "dy = (account cfg s y)\<lparr>free := free (account cfg s y) + n\<rparr>" "n \<le> free (account cfg s x)"
    and ed: "existential_deposit cfg \<le> total dy"
    and acc: "account cfg s2 = (account cfg s)(x := kept cfg dx, y := dy)" and iss: "total_issuance s2 = total_issuance s"
    and s': "s' = balances_deposit_event (Transferred x y n)
      (drop_dust_cleaner cfg (map_option (\<lambda>n. (x, n)) (snd (post_mutation cfg dx))) s2)"
    by (rule stored_map.transfer_before_dust [OF assms(1,4-6)])
  have le: "holding (account cfg s x) + holding (account cfg s z) \<le> U128_MAX" if "z \<noteq> x" for z
    using holding_pair_le_circulation [OF D(1) that [symmetric]] D(2,3) by simp
  have rest: "holding dx = holding (account cfg s x) - n" "holding dx + n = holding (account cfg s x)"
    and dy: "holding dy = holding (account cfg s y) + n"
    using d by (simp_all add: holding_def)
  have dust: "total dx = holding dx" "total dy = holding dy" "kept cfg dx = account_default"
    using le [of y] assms(6,9) rest dy by (auto simp: kept_def total_exact)
  have b: "holding (account cfg s2 b) \<noteq> 0" "existential_deposit cfg \<le> holding (account cfg s2 b)"
    "holding (account cfg s2 b) + holding dx \<le> U128_MAX"
    using assms(6-8) D(6) [of b] ed dust dy le [of b] le [of y] rest assms(5) by (auto simp: acc)
  let ?h = "drop_dust_cleaner cfg (map_option (\<lambda>n. (x, n)) (snd (post_mutation cfg dx))) s2"
  have "account cfg ?h = (account cfg s2)(b := (account cfg s2 b)\<lparr>free := free (account cfg s2 b) + holding dx\<rparr>) \<and>
      total_issuance ?h = total_issuance s2"
    using assms(2) [unfolded pays_dust_to_def, rule_format, of "balances_deposit_event (DustLost x (holding dx)) s2" "holding dx"]
      b dust rest assms(9)
    by (cases "holding dx = 0") (auto simp: post_mutation_eq)
  then show ?thesis
    using assms(6,7) d(2) dust(3) rest(1) iss by (auto simp: s' acc free_balance_def)
qed

theorem dust_reaches_account_witness:
  "\<exists>s' s''. currency_transfer (dust_to 1 100 50) 2 3 450 Allow_Death dusty_state = (Inr (), s') \<and>
     free_balance (dust_to 1 100 50) s' 2 = 0 \<and> free_balance (dust_to 1 100 50) s' 3 = 450 \<and>
     free_balance (dust_to 1 100 50) s' 1 = 1050 \<and>
     currency_transfer (dust_to 1 100 50) 2 1 450 Allow_Death dusty_state = (Inr (), s'') \<and>
     free_balance (dust_to 1 100 50) s'' 2 = 0 \<and> free_balance (dust_to 1 100 50) s'' 1 = 1500"
proof -
  obtain s' s'' where
    1: "currency_transfer (dust_to 1 100 50) 2 3 450 Allow_Death dusty_state = (Inr (), s')" and
    2: "currency_transfer (dust_to 1 100 50) 2 1 450 Allow_Death dusty_state = (Inr (), s'')"
    using dusty_transfer [of 3] dusty_transfer [of 1] by auto
  note reaches = dust_reaches_account [OF reentrant.stored_map_axioms dust_to_pays dusty_state_inv]
  have "free_balance (dust_to 1 100 50) s' 2 = 0 \<and> free_balance (dust_to 1 100 50) s' 3 = 450 \<and>
     free_balance (dust_to 1 100 50) s' 1 = 1050"
    using reaches [OF 1] dusty_state_account by (simp add: free_balance_def account_default_def holding_def)
  moreover have "free_balance (dust_to 1 100 50) s'' 2 = 0 \<and> free_balance (dust_to 1 100 50) s'' 1 = 1500"
    using reaches [OF 2] dusty_state_account by (simp add: free_balance_def account_default_def holding_def)
  ultimately show ?thesis using 1 2 by blast
qed

text \<open>The third test: the dust left by a repatriation reaches the receiver of the repatriated amount.\<close>

lemma repatriation_dust:
  defines "c \<equiv> dust_to (1::nat) 100 50"
  defines "s1 \<equiv> snd (reserve c 2 450 dusty_state)"
  defines "s2 \<equiv> snd (repatriate_reserved c 2 1 450 Status_Free s1)"
  shows "fst (reserve c 2 450 dusty_state) = Inr ()" and "fst (repatriate_reserved c 2 1 450 Status_Free s1) = Inr 0"
    and "reserved_balance c s2 2 = 0" and "free_balance c s2 2 = 0"
    and "reserved_balance c s2 1 = 0" and "free_balance c s2 1 = 1500"
    and "last (balances_events s2) = DustLost 2 50"
  by (simp_all add: s2_def s1_def c_def reserve_def repatriate_reserved_def do_transfer_reserved_def on_dust_removal_def
      deposit_into_existing_def dusty_state_def balances_start_def balances_eval)

end
