(* ===== verification/Balances_Runs.thy ===== *)
theory Balances_Runs
  imports Balances_Props
begin

text \<open>
  Runs of the balances pallet: every operation of \<open>src/pallets/balances/src/lib.rs\<close> that changes
  the accounts, the locks or the issuance and accounts for what it changes, as a datatype, with
  its effect whether it succeeds or fails. Every run whose operations satisfy the explicit
  condition \<open>sound_op\<close> keeps \<open>balances_inv\<close>; where \<open>burn_from\<close> does not, it underflows.
\<close>

section \<open>Operations\<close>

datatype ('o, 'src, 'acc) balances_op =
    Do_transfer 'acc 'acc balance existence_requirement
  | Do_slash 'acc balance
  | Do_deposit_into_existing 'acc balance
  | Do_deposit_creating 'acc balance
  | Do_withdraw 'acc balance withdraw_reasons existence_requirement
  | Do_make_free_balance_be 'acc balance
  | Do_issue balance
  | Do_burn balance
  | Do_reserve 'acc balance
  | Do_unreserve 'acc balance
  | Do_slash_reserved 'acc balance
  | Do_repatriate_reserved 'acc 'acc balance balance_status
  | Do_set_lock bytes 'acc balance withdraw_reasons
  | Do_extend_lock bytes 'acc balance withdraw_reasons
  | Do_remove_lock bytes 'acc
  | Do_mint_into 'acc balance
  | Do_burn_from 'acc balance
  | Do_fungible_transfer 'acc 'acc balance bool
  | Do_hold 'acc balance
  | Do_release 'acc balance bool
  | Do_transfer_held 'acc 'acc balance bool bool
  | Call_transfer 'o 'src balance
  | Call_set_balance 'o 'src balance balance
  | Call_force_transfer 'o 'src 'src balance
  | Call_transfer_keep_alive 'o 'src balance

text \<open>What becomes of the storage, the caller dropping the imbalance it gets back.\<close>

fun balances_do ::
  "('o, 'src, 'acc) frame_ops \<Rightarrow> ('acc, 'st) balances_config \<Rightarrow> ('o, 'src, 'acc) balances_op \<Rightarrow>
   ('acc, 'st) balances_state \<Rightarrow> ('acc, 'st) balances_state" where
  "balances_do F cfg (Do_transfer x y n req) s = snd (currency_transfer cfg x y n req s)"
| "balances_do F cfg (Do_slash x n) s = (case slash cfg x n s of ((imb, _), s') \<Rightarrow> drop_negative imb s')"
| "balances_do F cfg (Do_deposit_into_existing x n) s =
     (case deposit_into_existing cfg x n s of (Inr imb, s') \<Rightarrow> drop_positive imb s' | (Inl _, s') \<Rightarrow> s')"
| "balances_do F cfg (Do_deposit_creating x n) s = (case deposit_creating cfg x n s of (imb, s') \<Rightarrow> drop_positive imb s')"
| "balances_do F cfg (Do_withdraw x n rs req) s =
     (case withdraw cfg x n rs req s of (Inr imb, s') \<Rightarrow> drop_negative imb s' | (Inl _, s') \<Rightarrow> s')"
| "balances_do F cfg (Do_make_free_balance_be x n) s =
     (case make_free_balance_be cfg x n s of (imb, s') \<Rightarrow> drop_signed imb s')"
| "balances_do F cfg (Do_issue n) s = (case issue n s of (imb, s') \<Rightarrow> drop_negative imb s')"
| "balances_do F cfg (Do_burn n) s = (case burn n s of (imb, s') \<Rightarrow> drop_positive imb s')"
| "balances_do F cfg (Do_reserve x n) s = snd (reserve cfg x n s)"
| "balances_do F cfg (Do_unreserve x n) s = snd (unreserve cfg x n s)"
| "balances_do F cfg (Do_slash_reserved x n) s =
     (case slash_reserved cfg x n s of ((imb, _), s') \<Rightarrow> drop_negative imb s')"
| "balances_do F cfg (Do_repatriate_reserved x y n st) s = snd (repatriate_reserved cfg x y n st s)"
| "balances_do F cfg (Do_set_lock lid x n rs) s = set_lock cfg lid x n rs s"
| "balances_do F cfg (Do_extend_lock lid x n rs) s = extend_lock cfg lid x n rs s"
| "balances_do F cfg (Do_remove_lock lid x) s = remove_lock cfg lid x s"
| "balances_do F cfg (Do_mint_into x n) s = snd (mint_into cfg x n s)"
| "balances_do F cfg (Do_burn_from x n) s = snd (burn_from cfg x n s)"
| "balances_do F cfg (Do_fungible_transfer x y n keep) s = snd (fungible_transfer cfg x y n keep s)"
| "balances_do F cfg (Do_hold x n) s = snd (hold cfg x n s)"
| "balances_do F cfg (Do_release x n best) s = snd (release cfg x n best s)"
| "balances_do F cfg (Do_transfer_held x y n best on_hold) s = snd (transfer_held cfg x y n best on_hold s)"
| "balances_do F cfg (Call_transfer orig dest n) s = snd (balances_call_transfer F cfg orig dest n s)"
| "balances_do F cfg (Call_set_balance orig who f r) s = snd (balances_call_set_balance F cfg orig who f r s)"
| "balances_do F cfg (Call_force_transfer orig src dest n) s =
     snd (balances_call_force_transfer F cfg orig src dest n s)"
| "balances_do F cfg (Call_transfer_keep_alive orig dest n) s =
     snd (balances_call_transfer_keep_alive F cfg orig dest n s)"

text \<open>
  The condition of a run. What an imbalance or the root call creates fits in the issuance, whose
  addition saturates (\<open>mint_into\<close> checks it itself). With an existential deposit, an account that
  exists is not set to less than it, and \<open>burn_from\<close> does not bring an account that has reserved
  funds below it. Without an existential deposit only the room in the issuance is asked for.
\<close>

definition alive_with ::
  "('acc, 'st) balances_config \<Rightarrow> ('acc, 'st) balances_state \<Rightarrow> 'acc \<Rightarrow> nat \<Rightarrow> bool" where
  "alive_with cfg s x n \<longleftrightarrow> store_query cfg (account_store s) x = None \<or> existential_deposit cfg \<le> n"

fun sound_op ::
  "('acc, 'st) balances_config \<Rightarrow> ('o, 'src, 'acc) balances_op \<Rightarrow> ('acc, 'st) balances_state \<Rightarrow> bool" where
  "sound_op cfg (Do_deposit_into_existing x n) s =
     (total_issuance s + n \<le> U128_MAX \<and> alive_with cfg s x (holding (account cfg s x) + n))"
| "sound_op cfg (Do_deposit_creating x n) s =
     (total_issuance s + n \<le> U128_MAX \<and> alive_with cfg s x (holding (account cfg s x) + n))"
| "sound_op cfg (Do_make_free_balance_be x n) s =
     (total_issuance s + n \<le> U128_MAX \<and> alive_with cfg s x (n + reserved (account cfg s x)))"
| "sound_op cfg (Call_set_balance orig who f r) s = (total_issuance s + f + r \<le> U128_MAX)"
| "sound_op cfg (Do_burn_from x n) s =
     (reserved (account cfg s x) = 0 \<or> existential_deposit cfg \<le> holding (account cfg s x) - n)"
| "sound_op cfg _ s = True"

fun sound_run ::
  "('o, 'src, 'acc) frame_ops \<Rightarrow> ('acc, 'st) balances_config \<Rightarrow> ('o, 'src, 'acc) balances_op list \<Rightarrow>
   ('acc, 'st) balances_state \<Rightarrow> bool" where
  "sound_run F cfg [] s = True"
| "sound_run F cfg (x # xs) s = (sound_op cfg x s \<and> sound_run F cfg xs (balances_do F cfg x s))"

section \<open>The invariant\<close>

text \<open>An imbalance issued or burnt against nothing cancels when it is dropped.\<close>

lemma issue_dropped: "total_issuance s \<le> U128_MAX \<Longrightarrow> issue n s = (imb, s') \<Longrightarrow> drop_negative imb s' = s"
  by (auto simp: issue_def checked_add_def wrapping_sub_exact split: if_splits)

lemma burn_dropped: "total_issuance s \<le> U128_MAX \<Longrightarrow> burn n s = (imb, s') \<Longrightarrow> drop_positive imb s' = s"
  by (auto simp: burn_def checked_sub_def saturating_add_def split: if_splits)

context fungible_accounts
begin

lemma do_transfer_reserved_Inl: "do_transfer_reserved cfg x y n best st s = (Inl e, s') \<Longrightarrow> s' = s"
  by (auto simp: do_transfer_reserved_def and_then_eq_Inl
      split: if_splits balance_status.splits prod.splits dest!: with_dust_failed)

lemma transfer_result_inv:
  "balances_inv cfg s \<Longrightarrow> currency_transfer cfg x y n req s = (r, s') \<Longrightarrow> balances_inv cfg s'"
  by (cases r) (auto dest: currency_transfer_inv currency_transfer_Inl)

lemma reserved_result_inv:
  "balances_inv cfg s \<Longrightarrow> do_transfer_reserved cfg x y n best st s = (r, s') \<Longrightarrow> balances_inv cfg s'"
  by (cases r) (auto dest: do_transfer_reserved_inv do_transfer_reserved_Inl)

lemma set_balance_Inl:
  assumes "balances_call_set_balance F cfg orig src f r s = (Inl e, s')"
  shows "s' = s"
proof (cases "\<exists>u who. ensure_root F orig = Inr u \<and> lookup_account F src = Inr who")
  case True
  then obtain u who where ok: "ensure_root F orig = Inr u" "lookup_account F src = Inr who" by blast
  define f' r' where fr: "f' = (if wrapping_add f r < existential_deposit cfg then 0 else f)"
    "r' = (if wrapping_add f r < existential_deposit cfg then 0 else r)"
  let ?f = "\<lambda>acct s. (((f', r'), acct\<lparr>free := f', reserved := r'\<rparr>),
      settle_balance (reserved acct) r' (settle_balance (free acct) f' s))"
  obtain d s1 where "?f (account cfg s who) s = (((f', r'), d), s1)" by simp
  then obtain s2 where "mutate_account cfg no_drop who ?f s = (Inr (f', r'), s2)"
    by (rule mutate_account_accepted [where f = ?f])
  with ok assms show ?thesis by (simp add: balances_call_set_balance_def Let_def fr)
next
  case False
  then have "(\<exists>e. ensure_root F orig = Inl e) \<or> (\<exists>e. lookup_account F src = Inl e)"
    by (metis obj_sumE)
  with assms show ?thesis
    by (cases "ensure_root F orig") (auto simp: balances_call_set_balance_def)
qed

lemma burn_from_keeps:
  assumes inv: "balances_inv cfg s" and burn: "burn_from cfg who n s = (Inr k, s')"
    and sound: "reserved (account cfg s who) = 0 \<or> existential_deposit cfg \<le> holding (account cfg s who) - n"
  shows "balances_inv cfg s'"
proof (cases "n = 0")
  case True
  with burn inv show ?thesis by (simp add: burn_from_def)
next
  case False
  let ?a = "account cfg s who"
  note D = balances_invD [OF inv]
  from burn False obtain d s1 extra where w: "withdraw_into_result cfg (withdraw_consequence cfg s who n ?a) = Inr extra"
    and k: "k = wrapping_add n extra" and d: "d = ?a\<lparr>free := wrapping_sub (free ?a) k\<rparr>"
    and s1: "account cfg s1 = (account cfg s)(who := kept cfg d)"
      "total_issuance s1 = total_issuance s - dust_of cfg d"
    and s': "s' = s1\<lparr>total_issuance := wrapping_sub (total_issuance s1) k\<rparr>"
    by (auto simp: burn_from_def and_then_eq_Inr try_bind_eq_Inr Let_def elim!: try_mutate_Inr)
  from w have n: "n \<le> free ?a" and e: "extra = (if holding ?a - n < existential_deposit cfg then holding ?a - n else 0)"
    using False D(5) [of who]
    by (auto simp: withdraw_result withdraw_consequence_def Let_def split: if_splits option.splits)
  have "n + extra \<le> free ?a" using n e sound by (auto simp: holding_def split: if_splits)
  moreover have le: "free ?a \<le> total_issuance s" using D(4) [of who] by (simp add: holding_def)
  ultimately have k': "k = n + extra" "k \<le> free ?a" using k D(3) by (simp_all add: wrapping_add_exact)
  then have d': "d = ?a\<lparr>free := free ?a - k\<rparr>" using d by (simp add: wrapping_sub_exact)
  then have h: "holding d + k = holding ?a" using k'(2) by (simp add: holding_def)
  then have m: "holding d \<le> U128_MAX" using D(3) D(4) [of who] by simp
  have "dust_of cfg d = 0"
    using e h k'(1) total_exact [OF m] by (auto simp: dust_of_def split: if_splits)
  with s1 s' h k'(2) le show ?thesis
    by (intro mutate_inv [OF inv _ m]) (use D(3) in \<open>auto simp: wrapping_sub_exact\<close>)
qed

lemma deposit_creating_sound:
  assumes inv: "balances_inv cfg s" and dep: "deposit_creating cfg x n s = (imb, s')"
    and room: "total_issuance s + n \<le> U128_MAX" and al: "alive_with cfg s x (holding (account cfg s x) + n)"
  shows "balances_inv cfg (drop_positive imb s')"
proof (cases "existential_deposit cfg \<le> holding (account cfg s x) + n")
  case True
  from deposit_creating_inv(1) [OF inv dep room this] show ?thesis .
next
  case False
  let ?f = "\<lambda>acct is_new s. (if \<not> (existential_deposit cfg \<le> n \<or> \<not> is_new)
      then Inl (Balances ExistentialDeposit)
      else case checked_add (free acct) n of
             Some x \<Rightarrow> Inr (PositiveImbalance n, acct\<lparr>free := x\<rparr>)
           | None \<Rightarrow> Inr (PositiveImbalance 0, acct), s)"
  have new: "store_query cfg (account_store s) x = None" using al False by (simp add: alive_with_def)
  have "try_mutate_account cfg drop_positive x ?f s = (Inl (Balances ExistentialDeposit), s)"
    using False by (simp add: try_mutate_account_def try_mutate_account_with_dust_def new)
  with dep inv balances_invD(3) [OF inv] show ?thesis
    by (auto simp: deposit_creating_def saturating_add_def split: if_splits)
qed

lemma deposit_existing_sound:
  assumes inv: "balances_inv cfg s" and dep: "deposit_into_existing cfg x n s = (Inr imb, s')"
    and room: "total_issuance s + n \<le> U128_MAX" and al: "alive_with cfg s x (holding (account cfg s x) + n)"
  shows "balances_inv cfg (drop_positive imb s')"
proof (cases "n = 0")
  case True
  with dep inv balances_invD(3) [OF inv] show ?thesis by (auto simp: deposit_into_existing_def saturating_add_def)
next
  case False
  with dep have "store_query cfg (account_store s) x \<noteq> None"
    by (auto simp: deposit_into_existing_def elim!: try_mutate_Inr split: if_splits)
  with al have "existential_deposit cfg \<le> holding (account cfg s x) + n" by (simp add: alive_with_def)
  from deposit_into_existing_inv [OF inv dep room this] show ?thesis .
qed

lemma make_free_sound:
  assumes inv: "balances_inv cfg s" and mk: "make_free_balance_be cfg x n s = (imb, s')"
    and room: "total_issuance s + n \<le> U128_MAX" and al: "alive_with cfg s x (n + reserved (account cfg s x))"
  shows "balances_inv cfg (drop_signed imb s')"
proof (cases "existential_deposit cfg \<le> n + reserved (account cfg s x)")
  case True
  from make_free_balance_be_inv(1) [OF inv mk room this] show ?thesis .
next
  case False
  have new: "store_query cfg (account_store s) x = None" using al False by (simp add: alive_with_def)
  then have "reserved (account cfg s x) = 0" using query_none [OF new] by (simp add: account_def account_default_def)
  with False new room mk have "imb = Positive (PositiveImbalance 0)" "s' = s"
    by (auto simp: make_free_balance_be_def try_mutate_account_def try_mutate_account_with_dust_def
        account_default_def saturating_add_def Let_def)
  with inv balances_invD(3) [OF inv] show ?thesis by (simp add: saturating_add_def)
qed

lemma calls_inv:
  assumes "balances_inv cfg s"
  shows "balances_call_transfer F cfg orig dest n s = (r, s') \<Longrightarrow> balances_inv cfg s'"
    and "balances_call_transfer_keep_alive F cfg orig dest n s = (r, s') \<Longrightarrow> balances_inv cfg s'"
    and "balances_call_force_transfer F cfg orig src dest n s = (r, s') \<Longrightarrow> balances_inv cfg s'"
    and "fungible_transfer cfg x y n keep s = (r', s') \<Longrightarrow> balances_inv cfg s'"
  using assms
  by (auto simp: balances_call_transfer_def balances_call_transfer_keep_alive_def balances_call_force_transfer_def
      fungible_transfer_def and_then_def split: sum.splits prod.splits dest: transfer_result_inv)

lemma balances_do_inv:
  assumes inv: "balances_inv cfg s" and sound: "sound_op cfg x s"
  shows "balances_inv cfg (balances_do F cfg x s)"
proof (cases x)
  case (Do_transfer a b n req)
  show ?thesis using transfer_result_inv [OF inv prod.collapse [symmetric]] by (simp add: Do_transfer)
next
  case (Do_slash a n)
  with slash_inv [OF inv] show ?thesis by (auto split: prod.splits)
next
  case (Do_deposit_into_existing a n)
  with sound deposit_existing_sound [OF inv, of a n] deposit_into_existing_Inl [of a n s] inv show ?thesis
    by (cases "deposit_into_existing cfg a n s"; cases "fst (deposit_into_existing cfg a n s)") auto
next
  case (Do_deposit_creating a n)
  with sound deposit_creating_sound [OF inv] show ?thesis by (auto split: prod.splits)
next
  case (Do_withdraw a n rs req)
  with withdraw_inv [OF inv, of a n rs req] withdraw_Inl [of a n rs req s] inv show ?thesis
    by (cases "withdraw cfg a n rs req s"; cases "fst (withdraw cfg a n rs req s)") auto
next
  case (Do_make_free_balance_be a n)
  with sound make_free_sound [OF inv] show ?thesis by (auto split: prod.splits)
next
  case (Do_issue n)
  with issue_dropped [of s n] balances_invD(3) [OF inv] inv show ?thesis by (auto split: prod.splits)
next
  case (Do_burn n)
  with burn_dropped [of s n] balances_invD(3) [OF inv] inv show ?thesis by (auto split: prod.splits)
next
  case (Do_reserve a n)
  show ?thesis
    using reserve_inv [OF inv, of a n] reserve_Inl [of a n s] inv
    by (cases "reserve cfg a n s"; cases "fst (reserve cfg a n s)") (auto simp: Do_reserve)
next
  case (Do_slash_reserved a n)
  with slash_reserved_inv [OF inv] show ?thesis by (auto split: prod.splits)
next
  case (Do_repatriate_reserved a b n st)
  show ?thesis
    using reserved_result_inv [OF inv, of a b n True st]
    by (auto simp: Do_repatriate_reserved repatriate_reserved_def and_then_def split: prod.splits sum.splits)
next
  case (Do_mint_into a n)
  show ?thesis
    using mint_into_inv [OF inv, of a n] mint_into_Inl [of a n s] inv
    by (cases "mint_into cfg a n s"; cases "fst (mint_into cfg a n s)") (auto simp: Do_mint_into)
next
  case (Do_burn_from a n)
  show ?thesis
    using burn_from_keeps [OF inv, of a n] burn_from_Inl [of a n s] inv sound
    by (cases "burn_from cfg a n s"; cases "fst (burn_from cfg a n s)") (auto simp: Do_burn_from)
next
  case (Do_transfer_held a b n best on_hold)
  show ?thesis using reserved_result_inv [OF inv prod.collapse [symmetric]] by (simp add: Do_transfer_held transfer_held_def)
next
  case (Call_set_balance orig who f r)
  show ?thesis
    using set_balance_inv [OF inv, of F orig who f r] set_balance_Inl [of F orig who f r s] inv sound
    by (cases "balances_call_set_balance F cfg orig who f r s"; cases "fst (balances_call_set_balance F cfg orig who f r s)")
      (auto simp: Call_set_balance)
next
  case (Do_unreserve a n)
  show ?thesis using unreserve_inv [OF inv prod.collapse [symmetric]] by (simp add: Do_unreserve)
next
  case (Do_hold a n)
  show ?thesis using hold_inv [OF inv prod.collapse [symmetric]] by (simp add: Do_hold)
next
  case (Do_release a n best)
  show ?thesis using release_inv [OF inv prod.collapse [symmetric]] by (simp add: Do_release)
next
  case (Do_fungible_transfer a b n keep)
  show ?thesis using calls_inv(4) [OF inv prod.collapse [symmetric]] by (simp add: Do_fungible_transfer)
next
  case (Call_transfer orig dest n)
  show ?thesis using calls_inv(1) [OF inv prod.collapse [symmetric]] by (simp add: Call_transfer)
next
  case (Call_transfer_keep_alive orig dest n)
  show ?thesis using calls_inv(2) [OF inv prod.collapse [symmetric]] by (simp add: Call_transfer_keep_alive)
next
  case (Call_force_transfer orig src dest n)
  show ?thesis using calls_inv(3) [OF inv prod.collapse [symmetric]] by (simp add: Call_force_transfer)
qed (use locks_inv [OF inv] in simp_all)

lemma balances_run_inv:
  "balances_inv cfg s \<Longrightarrow> sound_run F cfg xs s \<Longrightarrow> balances_inv cfg (fold (balances_do F cfg) xs s)"
  by (induction xs arbitrary: s) (auto dest: balances_do_inv)

end

section \<open>Properties\<close>

text \<open>C7: every run of operations of the pallet keeps the holdings of all accounts, free and reserved,
  equal to the total issuance, within \<open>u128\<close>, and leaves no account with a non-zero amount below
  the existential deposit. The run satisfies \<open>sound_run\<close>: what an imbalance or the root call
  creates has room in the issuance; and, with an existential deposit, no existing account is set
  below it by a deposit or by \<open>make_free_balance_be\<close>, nor an account with reserved funds by
  \<open>burn_from\<close>. The existential deposit is zero, or the store never refuses to remove an account.
  (Left out are \<open>set_balance\<close> and \<open>set_total_issuance\<close> of \<open>fungible::Unbalanced\<close>, which by their
  contract change one side of the account books only.)\<close>

theorem balances_run_keeps_inv:
  assumes "fungible_accounts cfg" and "balances_inv cfg s" and "sound_run F cfg ops s"
  shows "balances_inv cfg (fold (balances_do F cfg) ops s)"
  using fungible_accounts.balances_run_inv [OF assms] .

theorem balances_run_keeps_inv_witness:
  "sound_run example_frame (account_map_config 5 50)
     [Do_deposit_creating 3 7, Do_burn_from 2 46, Do_transfer 1 3 30 Keep_Alive] example_balances \<and>
   balances_inv (account_map_config 5 50) (fold (balances_do example_frame (account_map_config 5 50))
     [Do_deposit_creating 3 7, Do_burn_from 2 46, Do_transfer 1 3 30 Keep_Alive] example_balances)"
  (is "sound_run ?F ?c ?ops ?s \<and> ?inv")
proof -
  have "total_issuance (balances_do ?F ?c (Do_deposit_creating 3 7) ?s) = 157 \<and>
      account ?c (balances_do ?F ?c (Do_deposit_creating 3 7) ?s) 2 = account ?c ?s 2"
    by (simp add: deposit_creating_def balances_eval example_balances_def balances_start_def)
  then have sound: "sound_run ?F ?c ?ops ?s"
    by (simp add: alive_with_def example_balances_def balances_start_def account_map_account account_default_def
        holding_def U128_MAX_def)
  from balances_run_keeps_inv [OF account_map.fungible_accounts_axioms example_balances_inv this] sound
  show ?thesis by simp
qed

text \<open>C9: with an existential deposit, burning through the \<open>fungible\<close> trait underflows. When what \<open>burn_from\<close>
  leaves on an account that also has reserved funds is below the existential deposit, it burns
  the whole account, reserved funds included, but subtracts all of it from the free balance: the
  free balance wraps to almost \<open>2 ^ 128\<close>, the account stays, and the holdings no longer add up to the
  issuance.\<close>

theorem burn_from_underflows:
  assumes "fungible_accounts cfg" and "balances_inv cfg s" and "a = account cfg s who"
    and "n \<noteq> 0" and "n \<le> free a" and "frozen a Reasons_All \<le> free a - n" and "reserved a \<noteq> 0"
    and "holding a - n < existential_deposit cfg" and "can_dec_provider cfg (account_store s) who"
  shows "\<exists>s'. burn_from cfg who n s = (Inr (holding a), s') \<and>
    free_balance cfg s' who = 2 ^ 128 - reserved a \<and> reserved_balance cfg s' who = reserved a \<and>
    total_issuance s' + holding a = total_issuance s \<and> \<not> balances_inv cfg s'"
proof -
  note D = balances_invD [OF assms(2)]
  have max: "U128_MAX = 2 ^ 128 - 1" by (simp add: U128_MAX_def)
  have h: "holding a \<le> total_issuance s" "existential_deposit cfg \<le> holding a" "total a = holding a"
    using D(4-6) [of who] assms(3,5,7) by (auto simp: holding_def)
  let ?d = "a\<lparr>free := 2 ^ 128 - reserved a\<rparr>"
  have a: "holding a = free a + reserved a" by (simp add: holding_def)
  have "withdraw_consequence cfg s who n a = Withdraw_ReducedToZero (holding a - n)"
    using assms(4-9) h a by (simp add: withdraw_consequence_def Let_def checked_sub_def)
  then have w: "withdraw_into_result cfg (withdraw_consequence cfg s who n a) = Inr (holding a - n)"
    by (simp add: fungible_accounts.withdraw_result [OF assms(1)])
  have fit: "wrapping_add n (holding a - n) = holding a"
    using assms(5) a h(1) D(3) by (simp add: wrapping_add_exact)
  have sub: "wrapping_sub (free a) (holding a) = 2 ^ 128 - reserved a"
    using a h(1) D(3) assms(7) max by (simp add: wrapping_sub_def)
  let ?f = "\<lambda>acct (_::bool) s. (try_bind (withdraw_into_result cfg (withdraw_consequence cfg s who n acct))
      (\<lambda>extra. let actual = wrapping_add n extra in Inr (actual, acct\<lparr>free := wrapping_sub (free acct) actual\<rparr>)), s)"
  have f: "?f (account cfg s who) (store_query cfg (account_store s) who = None) s = (Inr (holding a, ?d), s)"
    using w fit sub unfolding assms(3) [symmetric] by simp
  have acc_loc: "accepting_accounts cfg" "stored_accounts cfg"
    using assms(1) by (simp_all add: fungible_accounts_def accepting_accounts_def)
  from accepting_accounts.try_mutate_accepted [OF acc_loc(1), where f = ?f, OF f] obtain s1
    where s1: "try_mutate_account cfg no_drop who ?f s = (Inr (holding a), s1)" by blast
  have "total ?d = U128_MAX" using assms(7) a h(1) D(3) max by (simp add: total_def saturating_add_def)
  then have "kept cfg ?d = ?d" "dust_of cfg ?d = 0" using h(1,2) D(3) by (simp_all add: kept_def dust_of_def)
  with stored_accounts.try_mutate_Inr [OF acc_loc(2) s1] f have S: "account cfg s1 = (account cfg s)(who := ?d)"
    "total_issuance s1 = total_issuance s" by auto
  let ?s' = "s1\<lparr>total_issuance := wrapping_sub (total_issuance s1) (holding a)\<rparr>"
  have b: "burn_from cfg who n s = (Inr (holding a), ?s')" using s1 assms(4) by (simp add: burn_from_def)
  have i: "total_issuance ?s' + holding a = total_issuance s" using S h(1) by (simp add: wrapping_sub_exact)
  have x: "account cfg ?s' who = ?d" using S by simp
  have "\<not> balances_inv cfg ?s'"
  proof
    assume "balances_inv cfg ?s'"
    from balances_invD(4) [OF this, of who] have "holding ?d \<le> total_issuance ?s'" unfolding x .
    moreover have "reserved a \<le> U128_MAX" using a h(1) D(3) by simp
    ultimately show False using i D(3) max by (simp add: holding_def)
  qed
  with b i x show ?thesis by (auto simp: free_balance_def reserved_balance_def)
qed

definition reserving_balances :: "(nat, nat \<Rightarrow> account_data option) balances_state" where
  "reserving_balances = balances_start [(1, \<lparr>free = 10, reserved = 3, misc_frozen = 0, fee_frozen = 0\<rparr>)]"

theorem burn_from_underflows_witness:
  "\<exists>s'. burn_from (account_map_config 5 50) 1 9 reserving_balances = (Inr 13, s') \<and>
     free_balance (account_map_config 5 50) s' 1 = 2 ^ 128 - 3"
proof -
  let ?c = "account_map_config 5 50 :: (nat, nat \<Rightarrow> account_data option) balances_config"
  have inv: "balances_inv ?c reserving_balances"
    unfolding reserving_balances_def by (rule balances_start_inv) (simp_all add: holding_def U128_MAX_def)
  have acc: "\<lparr>free = 10, reserved = 3, misc_frozen = 0, fee_frozen = 0\<rparr> = account ?c reserving_balances 1"
    by (simp add: reserving_balances_def account_map_account balances_start_def)
  from burn_from_underflows [OF account_map.fungible_accounts_axioms inv acc, of 9] show ?thesis
    by (auto simp: holding_def frozen_def account_map_config_def)
qed

end
