(* ===== verification/Asset_Registry.thy ===== *)
theory Asset_Registry
  imports Primitives
begin

text \<open>
  \<open>src/pallets/asset-registry/src/lib.rs\<close>: the map from asset names to asset identifiers and
  the counter of the next identifier. The XYK pallet asks it for the share token of a pool.
  The lemmas show that names and identifiers stay in one-to-one correspondence, that no new
  identifier clashes with the core asset, and that the \<open>unwrap\<close> of the lookup cannot fail.
\<close>

section \<open>Storage and operations\<close>

record registry_state =
  core_asset_id :: asset_id
  next_asset_id :: asset_id
  asset_ids :: "bytes \<rightharpoonup> asset_id option"

record registry_genesis =
  gen_core_asset_id :: asset_id
  gen_next_asset_id :: asset_id
  gen_asset_ids :: "(bytes \<times> asset_id) list"

definition registry_genesis_default :: registry_genesis where
  "registry_genesis_default =
     \<lparr>gen_core_asset_id = 0, gen_next_asset_id = 0, gen_asset_ids = []\<rparr>"

definition registry_genesis_build :: "registry_genesis \<Rightarrow> registry_state" where
  "registry_genesis_build g =
     \<lparr>core_asset_id = gen_core_asset_id g,
      next_asset_id = gen_next_asset_id g,
      asset_ids = fold (\<lambda>(name, aid) m. m(name \<mapsto> Some aid)) (gen_asset_ids g) Map.empty\<rparr>"

text \<open>\<open>checked_add\<close> on the identifier type, which the runtime fixes to \<open>u32\<close>.\<close>

definition checked_add_u32 :: "u32 \<Rightarrow> u32 \<Rightarrow> u32 option" where
  "checked_add_u32 a b = (if unat a + unat b < 2 ^ 32 then Some (a + b) else None)"

definition get_or_create_asset ::
  "bytes \<Rightarrow> registry_state \<Rightarrow> (dispatch_error + asset_id) \<times> registry_state" where
  "get_or_create_asset name s =
     (case asset_ids s name of
        Some stored \<Rightarrow>
          (case stored of Some aid \<Rightarrow> (Inr aid, s) | None \<Rightarrow> (Inl (Panic ''unwrap''), s))
      | None \<Rightarrow>
          (let asset_id = next_asset_id s in
           case checked_add_u32 asset_id 1 of
             None \<Rightarrow> (Inl (AssetRegistry NoIdAvailable), s)
           | Some next_id \<Rightarrow>
               (Inr asset_id,
                s\<lparr>next_asset_id := next_id, asset_ids := (asset_ids s)(name \<mapsto> Some asset_id)\<rparr>)))"

section \<open>Invariant\<close>

definition registry_inv :: "registry_state \<Rightarrow> bool" where
  "registry_inv s \<longleftrightarrow>
     core_asset_id s < next_asset_id s \<and>
     (\<forall>name v. asset_ids s name = Some v \<longrightarrow>
        (\<exists>aid. v = Some aid \<and> aid < next_asset_id s \<and> aid \<noteq> core_asset_id s)) \<and>
     (\<forall>name name' v. asset_ids s name = Some v \<longrightarrow> asset_ids s name' = Some v \<longrightarrow> name = name')"

section \<open>Lemmas\<close>

lemma checked_add_u32_one_Some:
  assumes "checked_add_u32 x 1 = Some y"
  shows "unat y = unat x + 1"
  using assms unat_word_ariths(1) [of x 1]
  by (simp add: checked_add_u32_def split: if_splits)

lemma registry_invD:
  assumes "registry_inv s" and "asset_ids s name = Some v"
  obtains aid where "v = Some aid" and "aid < next_asset_id s" and "aid \<noteq> core_asset_id s"
  using assms by (auto simp: registry_inv_def)

lemma registry_inv_inj:
  "registry_inv s \<Longrightarrow> asset_ids s name = Some v \<Longrightarrow> asset_ids s name' = Some v \<Longrightarrow> name = name'"
  by (auto simp: registry_inv_def)

lemma get_or_create_asset_Inr:
  assumes "get_or_create_asset name s = (Inr aid, s')"
  shows "asset_ids s name = Some (Some aid) \<and> s' = s \<or>
    asset_ids s name = None \<and> aid = next_asset_id s \<and>
    unat (next_asset_id s') = unat (next_asset_id s) + 1 \<and>
    asset_ids s' = (asset_ids s)(name \<mapsto> Some aid) \<and> core_asset_id s' = core_asset_id s"
  using assms
  by (auto simp: get_or_create_asset_def Let_def dest: checked_add_u32_one_Some
      split: option.splits)

lemma get_or_create_asset_lookup:
  "get_or_create_asset name s = (Inr aid, s') \<Longrightarrow> asset_ids s' name = Some (Some aid)"
  by (auto dest: get_or_create_asset_Inr)

lemma get_or_create_asset_Inl:
  assumes "get_or_create_asset name s = (Inl e, s')"
  shows "s' = s" and "registry_inv s \<Longrightarrow> e = AssetRegistry NoIdAvailable \<and> asset_ids s name = None"
  using assms by (auto simp: get_or_create_asset_def Let_def registry_inv_def split: option.splits)

lemma registry_inv_fresh:
  assumes inv: "registry_inv s"
    and fresh: "asset_ids s name = None"
    and next_id: "unat (next_asset_id s') = unat (next_asset_id s) + 1"
    and ids: "asset_ids s' = (asset_ids s)(name \<mapsto> Some (next_asset_id s))"
    and core: "core_asset_id s' = core_asset_id s"
  shows "registry_inv s'"
proof -
  have up: "a < next_asset_id s'" if "a \<le> next_asset_id s" for a
    using that next_id by (simp add: word_less_nat_alt word_le_nat_alt)
  have old: "v \<noteq> Some (next_asset_id s)" if "asset_ids s n = Some v" for n v
    using inv that by (elim registry_invD) auto
  show ?thesis
    unfolding registry_inv_def
  proof (intro conjI allI impI)
    show "core_asset_id s' < next_asset_id s'"
      using inv core by (auto simp: registry_inv_def intro!: up)
  next
    fix n v assume n: "asset_ids s' n = Some v"
    show "\<exists>aid. v = Some aid \<and> aid < next_asset_id s' \<and> aid \<noteq> core_asset_id s'"
    proof (cases "n = name")
      case True
      with n ids have "v = Some (next_asset_id s)" by simp
      with up [of "next_asset_id s"] inv core show ?thesis by (auto simp: registry_inv_def)
    next
      case False
      with n ids have "asset_ids s n = Some v" by simp
      with inv obtain aid where "v = Some aid" "aid < next_asset_id s" "aid \<noteq> core_asset_id s"
        by (elim registry_invD)
      with up [of aid] core show ?thesis by auto
    qed
  next
    fix n n' v assume "asset_ids s' n = Some v" and "asset_ids s' n' = Some v"
    with ids old show "n = n'"
      by (auto split: if_splits dest: registry_inv_inj [OF inv])
  qed
qed

lemma get_or_create_asset_inv:
  assumes "registry_inv s" and "get_or_create_asset name s = (Inr aid, s')"
  shows "registry_inv s'"
  using get_or_create_asset_Inr [OF assms(2)] assms(1)
  by (auto intro: registry_inv_fresh)

lemma get_or_create_asset_id:
  assumes "registry_inv s" and "get_or_create_asset name s = (Inr aid, s')"
  shows "aid \<noteq> core_asset_id s'" and "aid < next_asset_id s'"
  using get_or_create_asset_inv [OF assms] get_or_create_asset_lookup [OF assms(2)]
  by (auto elim: registry_invD)

lemma get_or_create_asset_mono:
  "get_or_create_asset name s = (Inr aid, s') \<Longrightarrow> asset_ids s n = Some v \<Longrightarrow> asset_ids s' n = Some v"
  by (auto dest!: get_or_create_asset_Inr)

lemma get_or_create_asset_other:
  "get_or_create_asset name s = (Inr aid, s') \<Longrightarrow> n \<noteq> name \<Longrightarrow> asset_ids s' n = asset_ids s n"
  by (auto dest!: get_or_create_asset_Inr)

section \<open>Properties\<close>

end
