(* ===== verification/Multi_Currency.thy ===== *)
theory Multi_Currency
  imports Balances_Props
begin

text \<open>
  The multi-currency the trading pallets call (\<open>T::Currency\<close>, \<open>MultiCurrencyExtended\<close> and
  \<open>MultiReservableCurrency\<close> of the ORML traits): its operations as a record, its contract as
  the locale \<open>multi_currency\<close> (for currencies without an existential deposit, as the runtime
  configures both the native currency and the tokens), and a realisation of the contract by
  one instance of the balances pallet per asset.
\<close>

section \<open>Interface\<close>

record ('acc, 's) currency_ops =
  cur_free :: "'s \<Rightarrow> asset_id \<Rightarrow> 'acc \<Rightarrow> balance"
  cur_reserved :: "'s \<Rightarrow> asset_id \<Rightarrow> 'acc \<Rightarrow> balance"
  cur_issuance :: "'s \<Rightarrow> asset_id \<Rightarrow> balance"
  cur_transfer :: "asset_id \<Rightarrow> 'acc \<Rightarrow> 'acc \<Rightarrow> balance \<Rightarrow> 's \<Rightarrow> (dispatch_error + unit) \<times> 's"
  cur_deposit :: "asset_id \<Rightarrow> 'acc \<Rightarrow> balance \<Rightarrow> 's \<Rightarrow> (dispatch_error + unit) \<times> 's"
  cur_withdraw :: "asset_id \<Rightarrow> 'acc \<Rightarrow> balance \<Rightarrow> 's \<Rightarrow> (dispatch_error + unit) \<times> 's"
  cur_reserve :: "asset_id \<Rightarrow> 'acc \<Rightarrow> balance \<Rightarrow> 's \<Rightarrow> (dispatch_error + unit) \<times> 's"
  cur_unreserve :: "asset_id \<Rightarrow> 'acc \<Rightarrow> balance \<Rightarrow> 's \<Rightarrow> balance \<times> 's"
  cur_repatriate :: "asset_id \<Rightarrow> 'acc \<Rightarrow> 'acc \<Rightarrow> balance \<Rightarrow> balance_status \<Rightarrow> 's \<Rightarrow>
    (dispatch_error + balance) \<times> 's"

text \<open>Ledgers: what an account holds of an asset, with one entry raised or lowered.\<close>

type_synonym 'acc ledger = "asset_id \<Rightarrow> 'acc \<Rightarrow> nat"

definition credit :: "'acc ledger \<Rightarrow> asset_id \<Rightarrow> 'acc \<Rightarrow> nat \<Rightarrow> 'acc ledger" where
  "credit f c a n = f(c := (f c)(a := f c a + n))"

definition debit :: "'acc ledger \<Rightarrow> asset_id \<Rightarrow> 'acc \<Rightarrow> nat \<Rightarrow> 'acc ledger" where
  "debit f c a n = f(c := (f c)(a := f c a - n))"

definition moved :: "'acc ledger \<Rightarrow> asset_id \<Rightarrow> 'acc \<Rightarrow> 'acc \<Rightarrow> nat \<Rightarrow> 'acc ledger" where
  "moved f c a b n = (if a = b then f else credit (debit f c a n) c b n)"

lemma credit_apply: "credit f c a n c' a' = (if c' = c \<and> a' = a then f c a + n else f c' a')"
  by (simp add: credit_def)

lemma debit_apply: "debit f c a n c' a' = (if c' = c \<and> a' = a then f c a - n else f c' a')"
  by (simp add: debit_def)

lemma moved_apply:
  "moved f c a b n c' a' =
     (if c' = c \<and> a \<noteq> b \<and> a' = a then f c a - n
      else if c' = c \<and> a \<noteq> b \<and> a' = b then f c b + n
      else f c' a')"
  by (simp add: moved_def credit_apply debit_apply)

lemmas ledger_apply = credit_apply debit_apply moved_apply

lemma ledger_zero [simp]: "credit f c a 0 = f" "debit f c a 0 = f" "moved f c a b 0 = f"
  by (simp_all add: credit_def debit_def moved_def)

section \<open>Contract\<close>

locale multi_currency =
  fixes C :: "('acc, 's) currency_ops"
    and cur_inv :: "'s \<Rightarrow> bool"
  assumes fits: "cur_inv s \<Longrightarrow> cur_free C s c a + cur_reserved C s c a \<le> cur_issuance C s c \<and>
      cur_issuance C s c \<le> U128_MAX"
    and fits_pair: "cur_inv s \<Longrightarrow> a \<noteq> b \<Longrightarrow> cur_free C s c a + cur_reserved C s c a +
      (cur_free C s c b + cur_reserved C s c b) \<le> cur_issuance C s c"
    and transfer_ok: "cur_inv s \<Longrightarrow> cur_transfer C c a b n s = (Inr (), s') \<Longrightarrow>
      (a = b \<or> n \<le> cur_free C s c a) \<and> cur_free C s' = moved (cur_free C s) c a b n \<and>
      cur_reserved C s' = cur_reserved C s \<and> cur_issuance C s' = cur_issuance C s \<and> cur_inv s'"
    and transfer_err: "cur_inv s \<Longrightarrow> cur_transfer C c a b n s = (Inl e, s') \<Longrightarrow> s' = s"
    and deposit_ok: "cur_inv s \<Longrightarrow> cur_deposit C c a n s = (Inr (), s') \<Longrightarrow>
      cur_issuance C s c + n \<le> U128_MAX \<and> cur_free C s' = credit (cur_free C s) c a n \<and>
      cur_reserved C s' = cur_reserved C s \<and>
      cur_issuance C s' = (cur_issuance C s)(c := cur_issuance C s c + n) \<and> cur_inv s'"
    and deposit_err: "cur_inv s \<Longrightarrow> cur_deposit C c a n s = (Inl e, s') \<Longrightarrow> s' = s"
    and withdraw_ok: "cur_inv s \<Longrightarrow> cur_withdraw C c a n s = (Inr (), s') \<Longrightarrow>
      n \<le> cur_free C s c a \<and> cur_free C s' = debit (cur_free C s) c a n \<and>
      cur_reserved C s' = cur_reserved C s \<and>
      cur_issuance C s' = (cur_issuance C s)(c := cur_issuance C s c - n) \<and> cur_inv s'"
    and withdraw_err: "cur_inv s \<Longrightarrow> cur_withdraw C c a n s = (Inl e, s') \<Longrightarrow> s' = s"
    and reserve_ok: "cur_inv s \<Longrightarrow> cur_reserve C c a n s = (Inr (), s') \<Longrightarrow>
      n \<le> cur_free C s c a \<and> cur_free C s' = debit (cur_free C s) c a n \<and>
      cur_reserved C s' = credit (cur_reserved C s) c a n \<and>
      cur_issuance C s' = cur_issuance C s \<and> cur_inv s'"
    and reserve_err: "cur_inv s \<Longrightarrow> cur_reserve C c a n s = (Inl e, s') \<Longrightarrow> s' = s"
    and unreserve_ok: "cur_inv s \<Longrightarrow> cur_unreserve C c a n s = (r, s') \<Longrightarrow>
      r = n - min n (cur_reserved C s c a) \<and>
      cur_free C s' = credit (cur_free C s) c a (min n (cur_reserved C s c a)) \<and>
      cur_reserved C s' = debit (cur_reserved C s) c a (min n (cur_reserved C s c a)) \<and>
      cur_issuance C s' = cur_issuance C s \<and> cur_inv s'"
    and repatriate_ok: "cur_inv s \<Longrightarrow> a \<noteq> b \<Longrightarrow> cur_repatriate C c a b n Status_Free s = (Inr r, s') \<Longrightarrow>
      r = n - min n (cur_reserved C s c a) \<and>
      cur_free C s' = credit (cur_free C s) c b (min n (cur_reserved C s c a)) \<and>
      cur_reserved C s' = debit (cur_reserved C s) c a (min n (cur_reserved C s c a)) \<and>
      cur_issuance C s' = cur_issuance C s \<and> cur_inv s'"
    and repatriate_err: "cur_inv s \<Longrightarrow> a \<noteq> b \<Longrightarrow>
      cur_repatriate C c a b n Status_Free s = (Inl e, s') \<Longrightarrow> s' = s"
    and repatriate_self: "cur_inv s \<Longrightarrow> cur_repatriate C c a a n Status_Free s = (x, s') \<Longrightarrow>
      is_ok x \<and> cur_free C s' = credit (cur_free C s) c a (min n (cur_reserved C s c a)) \<and>
      cur_reserved C s' = debit (cur_reserved C s) c a (min n (cur_reserved C s c a)) \<and>
      cur_issuance C s' = cur_issuance C s \<and> cur_inv s'"

text \<open>
  A currency with locks: part of what an account has free may be locked, against transfers and
  reservations (\<open>locked\<close>) and against withdrawals (\<open>locked_all\<close>). An operation of the holder is
  accepted exactly when it leaves the locked part, and none of the operations changes a lock.
\<close>

definition spendable :: "nat \<Rightarrow> nat \<Rightarrow> nat \<Rightarrow> bool" where
  "spendable f l n \<longleftrightarrow> n = 0 \<or> n + l \<le> f"

lemma spendable_unlocked [simp]: "spendable f 0 n \<longleftrightarrow> n \<le> f"
  by (auto simp: spendable_def)

lemma spendable_zero [simp]: "spendable f l 0"
  by (simp add: spendable_def)

lemma spendable_le: "spendable f l n \<Longrightarrow> n \<le> f"
  by (auto simp: spendable_def)

locale lockable_currency = multi_currency +
  fixes locked locked_all :: "'b \<Rightarrow> asset_id \<Rightarrow> 'a \<Rightarrow> nat"
  assumes transfer_iff: "cur_inv s \<Longrightarrow> a \<noteq> b \<Longrightarrow>
      (\<exists>s'. cur_transfer C c a b n s = (Inr (), s')) \<longleftrightarrow> spendable (cur_free C s c a) (locked s c a) n"
    and transfer_own: "cur_inv s \<Longrightarrow> n \<le> cur_free C s c a \<Longrightarrow> \<exists>s'. cur_transfer C c a a n s = (Inr (), s')"
    and reserve_iff: "cur_inv s \<Longrightarrow>
      (\<exists>s'. cur_reserve C c a n s = (Inr (), s')) \<longleftrightarrow> spendable (cur_free C s c a) (locked s c a) n"
    and withdraw_iff: "cur_inv s \<Longrightarrow>
      (\<exists>s'. cur_withdraw C c a n s = (Inr (), s')) \<longleftrightarrow> spendable (cur_free C s c a) (locked_all s c a) n"
    and deposit_iff: "cur_inv s \<Longrightarrow>
      (\<exists>s'. cur_deposit C c a n s = (Inr (), s')) \<longleftrightarrow> cur_issuance C s c + n \<le> U128_MAX"
    and receive_live: "cur_inv s \<Longrightarrow> a \<noteq> b \<Longrightarrow> cur_free C s c b + cur_reserved C s c b \<noteq> 0 \<Longrightarrow>
      \<exists>r s'. cur_repatriate C c a b n Status_Free s = (Inr r, s')"
    and locks_kept: "cur_inv s \<Longrightarrow> cur_transfer C c a b n s = (Inr (), s') \<or> cur_deposit C c a n s = (Inr (), s') \<or>
      cur_withdraw C c a n s = (Inr (), s') \<or> cur_reserve C c a n s = (Inr (), s') \<or>
      cur_unreserve C c a n s = (r, s') \<or> cur_repatriate C c a b n Status_Free s = (Inr r, s') \<Longrightarrow>
      locked s' = locked s \<and> locked_all s' = locked_all s"

text \<open>
  A currency in which nothing is locked: what an account has free it can move.
\<close>

locale liquid_currency = multi_currency +
  assumes transfer_live: "cur_inv s \<Longrightarrow> n \<le> cur_free C s c a \<Longrightarrow>
      \<exists>s'. cur_transfer C c a b n s = (Inr (), s')"
    and reserve_live: "cur_inv s \<Longrightarrow> n \<le> cur_free C s c a \<Longrightarrow> \<exists>s'. cur_reserve C c a n s = (Inr (), s')"
    and withdraw_live: "cur_inv s \<Longrightarrow> n \<le> cur_free C s c a \<Longrightarrow> \<exists>s'. cur_withdraw C c a n s = (Inr (), s')"
    and repatriate_live: "cur_inv s \<Longrightarrow> a \<noteq> b \<Longrightarrow> cur_free C s c b + cur_reserved C s c b \<noteq> 0 \<Longrightarrow>
      \<exists>r s'. cur_repatriate C c a b n Status_Free s = (Inr r, s')"
    and deposit_live: "cur_inv s \<Longrightarrow> cur_issuance C s c + n \<le> U128_MAX \<Longrightarrow>
      \<exists>s'. cur_deposit C c a n s = (Inr (), s')"
begin

lemma without_locks: "lockable_currency C cur_inv (\<lambda>_ _ _. 0) (\<lambda>_ _ _. 0)"
proof (unfold_locales, goal_cases)
  case (1 s a b c n)
  then show ?case using transfer_ok [of s c a b n] transfer_live [of s n c a b] by auto
next
  case (3 s c a n)
  then show ?case using reserve_ok [of s c a n] reserve_live [of s n c a] by auto
next
  case (4 s c a n)
  then show ?case using withdraw_ok [of s c a n] withdraw_live [of s n c a] by auto
next
  case (5 s c a n)
  then show ?case using deposit_ok [of s c a n] deposit_live [of s c n a] by auto
qed (simp_all add: transfer_live repatriate_live)

end

sublocale liquid_currency \<subseteq> unlocked: lockable_currency C cur_inv "\<lambda>_ _ _. 0" "\<lambda>_ _ _. 0"
  by (rule without_locks)

context lockable_currency
begin

text \<open>Where nothing happens to be locked, the currency is a liquid one, and stays so.\<close>

lemma liquid_states:
  "liquid_currency C (\<lambda>s. cur_inv s \<and> (\<forall>c a. locked s c a = 0 \<and> locked_all s c a = 0))"
proof (unfold_locales, goal_cases)
  case (3 s c a b n s')
  then show ?case using transfer_ok [of s c a b n s'] locks_kept [of s c a b n s'] by auto
next
  case (5 s c a n s')
  then show ?case using deposit_ok [of s c a n s'] locks_kept [of s c a undefined n s'] by auto
next
  case (7 s c a n s')
  then show ?case using withdraw_ok [of s c a n s'] locks_kept [of s c a undefined n s'] by auto
next
  case (9 s c a n s')
  then show ?case using reserve_ok [of s c a n s'] locks_kept [of s c a undefined n s'] by auto
next
  case (11 s c a n r s')
  then show ?case using unreserve_ok [of s c a n r s'] locks_kept [of s c a undefined n s' r] by auto
next
  case (12 s a b c n r s')
  then show ?case using repatriate_ok [of s a b c n r s'] locks_kept [of s c a b n s' r] by auto
next
  case (14 s c a n x s')
  then show ?case
    using repatriate_self [of s c a n x s'] locks_kept [of s c a a n s' "projr x"] by (cases x) auto
next
  case (15 s n c a b)
  then show ?case using transfer_iff [of s a b c n] transfer_own [of s n c a] by (cases "a = b") auto
next
  case (16 s n c a)
  then show ?case using reserve_iff [of s c a n] by auto
next
  case (17 s n c a)
  then show ?case using withdraw_iff [of s c a n] by auto
next
  case (18 s a b c n)
  then show ?case using receive_live [of s a b c n] by auto
next
  case (19 s c n a)
  then show ?case using deposit_iff [of s c a n] by auto
qed (auto simp: fits fits_pair dest: transfer_err deposit_err withdraw_err reserve_err repatriate_err)

end

section \<open>One balances pallet per asset\<close>

definition at_asset ::
  "asset_id \<Rightarrow> ('b \<Rightarrow> 'r \<times> 'b) \<Rightarrow> (asset_id \<Rightarrow> 'b) \<Rightarrow> 'r \<times> (asset_id \<Rightarrow> 'b)" where
  "at_asset c = zoom (\<lambda>s. s c) (\<lambda>t s. s(c := t))"

definition burn_unit ::
  "('acc, 'st) balances_config \<Rightarrow> 'acc \<Rightarrow> balance \<Rightarrow> ('acc, 'st) balances_state \<Rightarrow>
   ('acc, 'st, unit) balances_result" where
  "burn_unit cfg a n s = and_then (burn_from cfg a n s) (\<lambda>_ s. (Inr (), s))"

definition balances_currency ::
  "('acc, 'st) balances_config \<Rightarrow> ('acc, asset_id \<Rightarrow> ('acc, 'st) balances_state) currency_ops" where
  "balances_currency cfg =
     \<lparr>cur_free = (\<lambda>s c a. free_balance cfg (s c) a),
      cur_reserved = (\<lambda>s c a. reserved_balance cfg (s c) a),
      cur_issuance = (\<lambda>s c. total_issuance (s c)),
      cur_transfer = (\<lambda>c a b n. at_asset c (currency_transfer cfg a b n Allow_Death)),
      cur_deposit = (\<lambda>c a n. at_asset c (mint_into cfg a n)),
      cur_withdraw = (\<lambda>c a n. at_asset c (burn_unit cfg a n)),
      cur_reserve = (\<lambda>c a n. at_asset c (reserve cfg a n)),
      cur_unreserve = (\<lambda>c a n. at_asset c (unreserve cfg a n)),
      cur_repatriate = (\<lambda>c a b n st. at_asset c (repatriate_reserved cfg a b n st))\<rparr>"

definition balances_currency_inv ::
  "('acc, 'st) balances_config \<Rightarrow> (asset_id \<Rightarrow> ('acc, 'st) balances_state) \<Rightarrow> bool" where
  "balances_currency_inv cfg s \<longleftrightarrow> (\<forall>c. balances_inv cfg (s c))"

lemma at_asset_eq: "at_asset c f s = (r, s') \<longleftrightarrow> (\<exists>t. f (s c) = (r, t) \<and> s' = s(c := t))"
  by (simp add: at_asset_def zoom_eq)

lemma balances_currency_inv_upd:
  "balances_currency_inv cfg s \<Longrightarrow> balances_inv cfg t \<Longrightarrow> balances_currency_inv cfg (s(c := t))"
  by (simp add: balances_currency_inv_def)

lemma balance_upd:
  assumes "account cfg t = (account cfg s)(a := d)"
  shows "free_balance cfg t = (free_balance cfg s)(a := free d)"
    and "reserved_balance cfg t = (reserved_balance cfg s)(a := reserved d)"
  by (auto simp: free_balance_def reserved_balance_def assms intro!: ext)

locale zero_ed_accounts = fungible_accounts +
  assumes zero_ed: "existential_deposit cfg = 0"
begin

lemma transfer_effect:
  assumes "balances_inv cfg s" and "currency_transfer cfg a b n req s = (Inr (), t)"
  shows "(a = b \<or> n \<le> free_balance cfg s a) \<and>
    free_balance cfg t = (if a = b then free_balance cfg s
      else (free_balance cfg s)(a := free_balance cfg s a - n, b := free_balance cfg s b + n)) \<and>
    reserved_balance cfg t = reserved_balance cfg s \<and> total_issuance t = total_issuance s \<and> balances_inv cfg t"
proof (cases "n = 0 \<or> a = b")
  case True
  with assms show ?thesis by (auto simp: currency_transfer_def)
next
  case False
  then have ab: "n \<noteq> 0" "a \<noteq> b" by auto
  show ?thesis
    by (rule currency_transfer_Inr [OF assms(2) ab])
      (use currency_transfer_inv [OF assms] zero_ed ab in
        \<open>auto simp: free_balance_def reserved_balance_def intro!: ext\<close>)
qed

lemma mint_effect:
  assumes "balances_inv cfg s" and "mint_into cfg a n s = (Inr (), t)"
  shows "total_issuance s + n \<le> U128_MAX \<and>
    free_balance cfg t = (free_balance cfg s)(a := free_balance cfg s a + n) \<and>
    reserved_balance cfg t = reserved_balance cfg s \<and>
    total_issuance t = total_issuance s + n \<and> balances_inv cfg t"
proof (cases "n = 0")
  case True
  with assms balances_invD(3) [OF assms(1)] show ?thesis by (auto simp: mint_into_def)
next
  case False
  show ?thesis
    by (rule mint_into_Inr [OF assms(2) False assms(1)])
      (use mint_into_inv [OF assms] in \<open>auto simp: free_balance_def reserved_balance_def intro!: ext\<close>)
qed

lemma burn_effect:
  assumes "balances_inv cfg s" and "burn_from cfg a n s = (Inr k, t)"
  shows "n \<le> free_balance cfg s a \<and>
    free_balance cfg t = (free_balance cfg s)(a := free_balance cfg s a - n) \<and>
    reserved_balance cfg t = reserved_balance cfg s \<and>
    total_issuance t = total_issuance s - n \<and> balances_inv cfg t"
proof (cases "n = 0")
  case True
  with assms show ?thesis by (auto simp: burn_from_def)
next
  case False
  show ?thesis
    by (rule burn_from_Inr [OF assms(2) False assms(1) zero_ed])
      (use burn_from_inv [OF assms zero_ed] in \<open>auto simp: free_balance_def reserved_balance_def intro!: ext\<close>)
qed

lemma reserve_effect:
  assumes "balances_inv cfg s" and "reserve cfg a n s = (Inr (), t)"
  shows "n \<le> free_balance cfg s a \<and>
    free_balance cfg t = (free_balance cfg s)(a := free_balance cfg s a - n) \<and>
    reserved_balance cfg t = (reserved_balance cfg s)(a := reserved_balance cfg s a + n) \<and>
    total_issuance t = total_issuance s \<and> balances_inv cfg t"
proof (cases "n = 0")
  case True
  with assms show ?thesis by (auto simp: reserve_def)
next
  case False
  show ?thesis
    by (rule reserve_Inr [OF assms(2) False])
      (use reserve_inv [OF assms] zero_ed in \<open>auto simp: free_balance_def reserved_balance_def intro!: ext\<close>)
qed

lemma unreserve_effect:
  assumes "balances_inv cfg s" and "unreserve cfg a n s = (r, t)"
  shows "r = n - min n (reserved_balance cfg s a) \<and>
    free_balance cfg t = (free_balance cfg s)(a := free_balance cfg s a + min n (reserved_balance cfg s a)) \<and>
    reserved_balance cfg t = (reserved_balance cfg s)(a := reserved_balance cfg s a - min n (reserved_balance cfg s a)) \<and>
    total_issuance t = total_issuance s \<and> balances_inv cfg t"
proof (cases "n = 0 \<or> total_balance cfg s a = 0")
  case True
  have "total_balance cfg s a = 0 \<Longrightarrow> reserved_balance cfg s a = 0"
    using balances_invD(5) [OF assms(1), of a]
    by (simp add: total_balance_def reserved_balance_def holding_def)
  with True assms show ?thesis by (auto simp: unreserve_def split: if_splits)
next
  case False
  then have nz: "n \<noteq> 0" "total_balance cfg s a \<noteq> 0" by auto
  show ?thesis
    by (rule unreserve_accepted [OF assms(1) nz])
      (use assms(2) unreserve_inv [OF assms] zero_ed in
        \<open>auto simp: free_balance_def reserved_balance_def min.commute intro!: ext\<close>)
qed

lemma repatriate_effect:
  assumes "balances_inv cfg s" and "a \<noteq> b" and "repatriate_reserved cfg a b n Status_Free s = (Inr r, t)"
  shows "r = n - min n (reserved_balance cfg s a) \<and>
    free_balance cfg t = (free_balance cfg s)(b := free_balance cfg s b + min n (reserved_balance cfg s a)) \<and>
    reserved_balance cfg t = (reserved_balance cfg s)(a := reserved_balance cfg s a - min n (reserved_balance cfg s a)) \<and>
    total_issuance t = total_issuance s \<and> balances_inv cfg t"
proof (cases "n = 0")
  case True
  with assms show ?thesis by (auto simp: repatriate_reserved_def do_transfer_reserved_def)
next
  case False
  from assms(3) obtain m where m: "do_transfer_reserved cfg a b n True Status_Free s = (Inr m, t)" "r = n - m"
    by (auto simp: repatriate_reserved_def and_then_eq_Inr)
  show ?thesis
    by (rule do_transfer_reserved_Inr [OF m(1) False assms(2)])
      (use m do_transfer_reserved_inv [OF assms(1) m(1)] zero_ed assms(2) in
        \<open>auto simp: free_balance_def reserved_balance_def min.commute intro!: ext\<close>)
qed

lemma pair_fits:
  assumes "balances_inv cfg s" and "a \<noteq> b"
  shows "free_balance cfg s a + reserved_balance cfg s a + (free_balance cfg s b + reserved_balance cfg s b)
    \<le> total_issuance s"
  using holding_pair_le_circulation [OF balances_invD(1) [OF assms(1)] assms(2)] balances_invD(2) [OF assms(1)]
  by (simp add: holding_def free_balance_def reserved_balance_def)

lemma holding_fits:
  assumes "balances_inv cfg s"
  shows "free_balance cfg s a + reserved_balance cfg s a \<le> total_issuance s \<and> total_issuance s \<le> U128_MAX"
  using balances_invD(3) [OF assms] balances_invD(4) [OF assms, of a]
  by (simp add: holding_def free_balance_def reserved_balance_def)

end

lemma balances_currency_simps [simp]:
  "cur_free (balances_currency cfg) s c = free_balance cfg (s c)"
  "cur_reserved (balances_currency cfg) s c = reserved_balance cfg (s c)"
  "cur_issuance (balances_currency cfg) s c = total_issuance (s c)"
  "cur_transfer (balances_currency cfg) c a b n = at_asset c (currency_transfer cfg a b n Allow_Death)"
  "cur_deposit (balances_currency cfg) c a n = at_asset c (mint_into cfg a n)"
  "cur_withdraw (balances_currency cfg) c a n = at_asset c (burn_unit cfg a n)"
  "cur_reserve (balances_currency cfg) c a n = at_asset c (reserve cfg a n)"
  "cur_unreserve (balances_currency cfg) c a n = at_asset c (unreserve cfg a n)"
  "cur_repatriate (balances_currency cfg) c a b n st = at_asset c (repatriate_reserved cfg a b n st)"
  by (auto simp: balances_currency_def)

lemma burn_unit_eq:
  "burn_unit cfg a n s = (Inr (), t) \<longleftrightarrow> (\<exists>k. burn_from cfg a n s = (Inr k, t))"
  "burn_unit cfg a n s = (Inl e, t) \<longleftrightarrow> burn_from cfg a n s = (Inl e, t)"
  by (auto simp: burn_unit_def and_then_eq_Inr and_then_eq_Inl)

lemma balances_currency_upd:
  "cur_free (balances_currency cfg) (s(c := t)) = (cur_free (balances_currency cfg) s)(c := free_balance cfg t)"
  "cur_reserved (balances_currency cfg) (s(c := t)) =
     (cur_reserved (balances_currency cfg) s)(c := reserved_balance cfg t)"
  "cur_issuance (balances_currency cfg) (s(c := t)) = (cur_issuance (balances_currency cfg) s)(c := total_issuance t)"
  by (auto simp: fun_eq_iff)

lemmas balances_currency_laws = balances_currency_upd moved_def credit_def debit_def fun_upd_idem

context zero_ed_accounts
begin

lemma currency_contract: "multi_currency (balances_currency cfg) (balances_currency_inv cfg)"
proof (unfold_locales, goal_cases)
  case (1 s c a)
  then show ?case by (simp add: balances_currency_inv_def holding_fits)
next
  case (2 s a b c)
  then show ?case by (simp add: balances_currency_inv_def pair_fits)
next
  case (3 s c a b n s')
  from 3(2) obtain t where t: "currency_transfer cfg a b n Allow_Death (s c) = (Inr (), t)" "s' = s(c := t)"
    by (auto simp: at_asset_eq)
  have "balances_inv cfg (s c)" using 3(1) by (simp add: balances_currency_inv_def)
  from transfer_effect [OF this t(1)] 3(1) t(2) show ?case
    by (simp add: balances_currency_laws balances_currency_inv_upd)
next
  case (4 s c a b n e s')
  then show ?case by (auto simp: at_asset_eq dest!: currency_transfer_Inl)
next
  case (5 s c a n s')
  from 5(2) obtain t where t: "mint_into cfg a n (s c) = (Inr (), t)" "s' = s(c := t)"
    by (auto simp: at_asset_eq)
  have "balances_inv cfg (s c)" using 5(1) by (simp add: balances_currency_inv_def)
  from mint_effect [OF this t(1)] 5(1) t(2) show ?case
    by (simp add: balances_currency_laws balances_currency_inv_upd)
next
  case (6 s c a n e s')
  then show ?case by (auto simp: at_asset_eq dest!: mint_into_Inl)
next
  case (7 s c a n s')
  from 7(2) obtain t k where t: "burn_from cfg a n (s c) = (Inr k, t)" "s' = s(c := t)"
    by (auto simp: at_asset_eq burn_unit_eq)
  have "balances_inv cfg (s c)" using 7(1) by (simp add: balances_currency_inv_def)
  from burn_effect [OF this t(1)] 7(1) t(2) show ?case
    by (simp add: balances_currency_laws balances_currency_inv_upd)
next
  case (8 s c a n e s')
  then show ?case by (auto simp: at_asset_eq burn_unit_eq dest!: burn_from_Inl)
next
  case (9 s c a n s')
  from 9(2) obtain t where t: "reserve cfg a n (s c) = (Inr (), t)" "s' = s(c := t)"
    by (auto simp: at_asset_eq)
  have "balances_inv cfg (s c)" using 9(1) by (simp add: balances_currency_inv_def)
  from reserve_effect [OF this t(1)] 9(1) t(2) show ?case
    by (simp add: balances_currency_laws balances_currency_inv_upd)
next
  case (10 s c a n e s')
  then show ?case by (auto simp: at_asset_eq dest!: reserve_Inl)
next
  case (11 s c a n r s')
  from 11(2) obtain t where t: "unreserve cfg a n (s c) = (r, t)" "s' = s(c := t)"
    by (auto simp: at_asset_eq)
  have "balances_inv cfg (s c)" using 11(1) by (simp add: balances_currency_inv_def)
  from unreserve_effect [OF this t(1)] 11(1) t(2) show ?case
    by (simp add: balances_currency_laws balances_currency_inv_upd)
next
  case (12 s a b c n r s')
  from 12(3) obtain t where t: "repatriate_reserved cfg a b n Status_Free (s c) = (Inr r, t)" "s' = s(c := t)"
    by (auto simp: at_asset_eq)
  have "balances_inv cfg (s c)" using 12(1) by (simp add: balances_currency_inv_def)
  from repatriate_effect [OF this 12(2) t(1)] 12(1) t(2) show ?case
    by (simp add: balances_currency_laws balances_currency_inv_upd)
next
  case (13 s a b c n e s')
  then show ?case by (auto simp: at_asset_eq dest!: repatriate_reserved_Inl)
next
  case (14 s c a n x s')
  from 14(2) obtain t where t: "repatriate_reserved cfg a a n Status_Free (s c) = (x, t)" "s' = s(c := t)"
    by (auto simp: at_asset_eq)
  have inv: "balances_inv cfg (s c)" using 14(1) by (simp add: balances_currency_inv_def)
  obtain k where "unreserve cfg a n (s c) = (k, t)" and "is_ok x"
    using t(1) by (cases "n = 0")
      (auto simp: repatriate_reserved_def do_transfer_reserved_def unreserve_def split: prod.splits)
  from unreserve_effect [OF inv this(1)] 14(1) t(2) \<open>is_ok x\<close> show ?case
    by (simp add: balances_currency_laws balances_currency_inv_upd)
qed

end

sublocale zero_ed_accounts \<subseteq> per_asset: multi_currency "balances_currency cfg" "balances_currency_inv cfg"
  by (rule currency_contract)

interpretation zero_map: zero_ed_accounts "account_map_config 0 locks_limit"
  by unfold_locales simp

section \<open>Locks\<close>

definition balances_locked ::
  "('acc, 'st) balances_config \<Rightarrow> (asset_id \<Rightarrow> ('acc, 'st) balances_state) \<Rightarrow> 'acc ledger" where
  "balances_locked cfg s c a = misc_frozen (account cfg (s c) a)"

definition balances_locked_all ::
  "('acc, 'st) balances_config \<Rightarrow> (asset_id \<Rightarrow> ('acc, 'st) balances_state) \<Rightarrow> 'acc ledger" where
  "balances_locked_all cfg s c a = frozen (account cfg (s c) a) Reasons_All"

definition same_locks ::
  "('acc, 'st) balances_config \<Rightarrow> ('acc, 'st) balances_state \<Rightarrow> ('acc, 'st) balances_state \<Rightarrow> bool" where
  "same_locks cfg s t \<longleftrightarrow> (\<forall>a. misc_frozen (account cfg t a) = misc_frozen (account cfg s a) \<and>
     fee_frozen (account cfg t a) = fee_frozen (account cfg s a))"

lemma same_locks_refl [simp]: "same_locks cfg s s"
  by (simp add: same_locks_def)

lemma same_locks_at:
  "same_locks cfg (s c) t \<Longrightarrow> balances_locked cfg (s(c := t)) = balances_locked cfg s \<and>
     balances_locked_all cfg (s(c := t)) = balances_locked_all cfg s"
  by (auto simp: same_locks_def balances_locked_def balances_locked_all_def frozen_def fun_eq_iff)

definition unlocked :: "('acc, 'st) balances_config \<Rightarrow> ('acc, 'st) balances_state \<Rightarrow> bool" where
  "unlocked cfg s \<longleftrightarrow> (\<forall>a. misc_frozen (account cfg s a) = 0 \<and> fee_frozen (account cfg s a) = 0)"

definition balances_liquid_inv ::
  "('acc, 'st) balances_config \<Rightarrow> (asset_id \<Rightarrow> ('acc, 'st) balances_state) \<Rightarrow> bool" where
  "balances_liquid_inv cfg s \<longleftrightarrow> (\<forall>c. balances_inv cfg (s c) \<and> unlocked cfg (s c))"

lemma balances_liquid_inv_alt:
  "balances_liquid_inv cfg s \<longleftrightarrow> balances_currency_inv cfg s \<and>
     (\<forall>c a. balances_locked cfg s c a = 0 \<and> balances_locked_all cfg s c a = 0)"
  by (auto simp: balances_liquid_inv_def balances_currency_inv_def unlocked_def balances_locked_def
      balances_locked_all_def frozen_def)

context zero_ed_accounts
begin

lemma transfer_same_locks: "currency_transfer cfg a b n req s = (Inr (), t) \<Longrightarrow> same_locks cfg s t"
  by (cases "n = 0 \<or> a = b")
    (simp add: currency_transfer_def,
     elim currency_transfer_Inr, use zero_ed in \<open>auto simp: same_locks_def\<close>)

lemma reserve_same_locks: "reserve cfg a n s = (Inr (), t) \<Longrightarrow> same_locks cfg s t"
  by (cases "n = 0")
    (simp add: reserve_def, elim reserve_Inr, use zero_ed in \<open>auto simp: same_locks_def\<close>)

lemma mint_same_locks: "balances_inv cfg s \<Longrightarrow> mint_into cfg a n s = (Inr (), t) \<Longrightarrow> same_locks cfg s t"
  by (cases "n = 0") (simp add: mint_into_def, elim mint_into_Inr, auto simp: same_locks_def)

lemma burn_same_locks: "balances_inv cfg s \<Longrightarrow> burn_from cfg a n s = (Inr k, t) \<Longrightarrow> same_locks cfg s t"
  by (cases "n = 0")
    (simp add: burn_from_def, elim burn_from_Inr, use zero_ed in \<open>auto simp: same_locks_def\<close>)

lemma unreserve_same_locks:
  assumes "balances_inv cfg s" and "unreserve cfg a n s = (r, t)"
  shows "same_locks cfg s t"
proof (cases "n = 0 \<or> total_balance cfg s a = 0")
  case True
  with assms show ?thesis by (auto simp: unreserve_def split: if_splits)
next
  case False
  then have nz: "n \<noteq> 0" "total_balance cfg s a \<noteq> 0" by auto
  show ?thesis
    by (rule unreserve_accepted [OF assms(1) nz]) (use assms zero_ed in \<open>auto simp: same_locks_def\<close>)
qed

lemma repatriate_same_locks:
  assumes inv: "balances_inv cfg s" and rep: "repatriate_reserved cfg a b n Status_Free s = (Inr r, t)"
  shows "same_locks cfg s t"
proof -
  from rep obtain m where m: "do_transfer_reserved cfg a b n True Status_Free s = (Inr m, t)"
    by (auto simp: repatriate_reserved_def and_then_eq_Inr)
  show ?thesis
  proof (cases "n = 0 \<or> a = b")
    case True
    with m unreserve_same_locks [OF inv, of a n] show ?thesis
      by (auto simp: do_transfer_reserved_def split: if_splits prod.splits)
  next
    case False
    then have ne: "n \<noteq> 0" "a \<noteq> b" by auto
    show ?thesis
      by (rule do_transfer_reserved_Inr [OF m ne]) (use zero_ed in \<open>auto simp: same_locks_def\<close>)
  qed
qed

lemma burn_succeeds:
  assumes inv: "balances_inv cfg s" and n: "n \<le> free_balance cfg s a"
    and l: "frozen (account cfg s a) Reasons_All \<le> free_balance cfg s a - n"
  shows "\<exists>t. burn_unit cfg a n s = (Inr (), t)"
proof (cases "n = 0")
  case True
  then show ?thesis by (simp add: burn_unit_def burn_from_def)
next
  case False
  let ?a = "account cfg s a"
  let ?f = "\<lambda>acct (_::bool) s. (try_bind (withdraw_into_result cfg (withdraw_consequence cfg s a n acct))
      (\<lambda>extra. let actual = wrapping_add n extra in Inr (actual, acct\<lparr>free := wrapping_sub (free acct) actual\<rparr>)), s)"
  have "n \<le> total_issuance s" "n \<le> total ?a"
    using n balances_invD(4,5) [OF inv, of a] by (simp_all add: holding_def free_balance_def)
  then have "withdraw_consequence cfg s a n ?a = Withdraw_Success"
    using n l zero_ed False
    by (simp add: withdraw_consequence_def Let_def checked_sub_def free_balance_def)
  then have "withdraw_into_result cfg (withdraw_consequence cfg s a n ?a) = Inr 0"
    by (simp add: withdraw_result)
  then have "?f ?a (store_query cfg (account_store s) a = None) s =
      (Inr (wrapping_add n 0, ?a\<lparr>free := wrapping_sub (free ?a) (wrapping_add n 0)\<rparr>), s)"
    by (simp add: Let_def)
  then obtain s' where "try_mutate_account cfg no_drop a ?f s = (Inr (wrapping_add n 0), s')"
    by (rule try_mutate_accepted [where f = ?f])
  with False show ?thesis by (simp add: burn_unit_def burn_from_def)
qed

lemma mint_succeeds:
  assumes inv: "balances_inv cfg s" and room: "total_issuance s + n \<le> U128_MAX"
  shows "\<exists>t. mint_into cfg a n s = (Inr (), t)"
proof (cases "n = 0")
  case True
  then show ?thesis by (simp add: mint_into_def)
next
  case False
  let ?a = "account cfg s a"
  let ?f = "\<lambda>acct (_::bool) s. (try_bind (deposit_into_result cfg (deposit_consequence cfg s n acct))
      (\<lambda>_. Inr ((), acct\<lparr>free := wrapping_add (free acct) n\<rparr>)), s)"
  have "total ?a + n \<le> U128_MAX" using balances_invD(4,5) [OF inv, of a] room by simp
  then have "deposit_consequence cfg s n ?a = Deposit_Success"
    using room zero_ed by (simp add: deposit_consequence_def checked_add_def)
  then have "deposit_into_result cfg (deposit_consequence cfg s n ?a) = Inr ()" by (simp add: deposit_result)
  then have "?f ?a (store_query cfg (account_store s) a = None) s =
      (Inr ((), ?a\<lparr>free := wrapping_add (free ?a) n\<rparr>), s)" by simp
  then obtain s' where "try_mutate_account cfg no_drop a ?f s = (Inr (), s')"
    by (rule try_mutate_accepted [where f = ?f])
  with False show ?thesis by (simp add: mint_into_def)
qed

lemma repatriate_succeeds:
  assumes inv: "balances_inv cfg s" and ab: "a \<noteq> b"
    and b: "free_balance cfg s b + reserved_balance cfg s b \<noteq> 0"
  shows "\<exists>r t. repatriate_reserved cfg a b n Status_Free s = (Inr r, t)"
proof (cases "n = 0")
  case True
  then show ?thesis by (simp add: repatriate_reserved_def do_transfer_reserved_def)
next
  case False
  let ?aa = "account cfg s a" and ?ab = "account cfg s b"
  let ?m = "min (reserved ?aa) n"
  let ?to = "?ab\<lparr>free := free ?ab + ?m\<rparr>" and ?src = "?aa\<lparr>reserved := reserved ?aa - ?m\<rparr>"
  have q: "store_query cfg (account_store s) b \<noteq> None"
  proof
    assume "store_query cfg (account_store s) b = None"
    from query_none [OF this] b show False
      by (simp add: free_balance_def reserved_balance_def account_def account_default_def)
  qed
  have "free ?ab + ?m \<le> U128_MAX"
    using pair_fits [OF inv ab] balances_invD(3) [OF inv] by (simp add: free_balance_def reserved_balance_def)
  then have fit: "checked_add (free ?ab) ?m = Some (free ?ab + ?m)" by (simp add: checked_add_def)
  let ?inner = "\<lambda>to_account from_account (_::bool) s.
    (let actual = min (reserved from_account) n
     in if \<not> (True \<or> actual = n) then Inl (Balances InsufficientBalance)
        else try_bind
          (case Status_Free of
             Status_Free \<Rightarrow> try_bind (ok_or (checked_add (free to_account) actual) (Balances Overflow))
                 (\<lambda>f. Inr (to_account\<lparr>free := f\<rparr>))
           | Status_Reserved \<Rightarrow> try_bind (ok_or (checked_add (reserved to_account) actual) (Balances Overflow))
                 (\<lambda>r. Inr (to_account\<lparr>reserved := r\<rparr>)))
          (\<lambda>to_account. Inr ((actual, to_account), from_account\<lparr>reserved := reserved from_account - actual\<rparr>)), s)"
  have "?inner ?ab ?aa (store_query cfg (account_store s) a = None) s = (Inr ((?m, ?to), ?src), s)"
    unfolding Let_def fit by simp
  from with_dust_accepted [where f = "?inner ?ab" and dr = no_drop, OF this]
  obtain dust s1 where in1: "try_mutate_account_with_dust cfg no_drop a (?inner ?ab) s = (Inr ((?m, ?to), dust), s1)"
    by blast
  let ?outer = "\<lambda>to_account is_new s. if is_new then (Inl (Balances DeadAccount), s)
         else and_then (try_mutate_account_with_dust cfg no_drop a (?inner to_account) s)
           (\<lambda>((actual, to_account), from_dust) s. (Inr ((actual, from_dust), to_account), s))"
  have "?outer ?ab (store_query cfg (account_store s) b = None) s = (Inr ((?m, dust), ?to), s1)"
    using in1 q by simp
  from with_dust_accepted [where f = ?outer and dr = "\<lambda>(_, dust). drop_dust_cleaner cfg dust", OF this]
  obtain dust2 s2 where "try_mutate_account_with_dust cfg (\<lambda>(_, dust). drop_dust_cleaner cfg dust) b ?outer s =
      (Inr ((?m, dust), dust2), s2)" by blast
  with False ab show ?thesis by (simp add: repatriate_reserved_def do_transfer_reserved_def)
qed

text \<open>The conditions of the holder's operations, exactly.\<close>

lemma transfer_accepted_iff:
  assumes "balances_inv cfg s" and "a \<noteq> b"
  shows "(\<exists>t. currency_transfer cfg a b n req s = (Inr (), t)) \<longleftrightarrow>
    spendable (free_balance cfg s a) (misc_frozen (account cfg s a)) n"
proof (cases "n = 0")
  case False
  then show ?thesis
    using transfer_succeeds [OF assms(1) zero_ed _ _ assms(2), of n req] transfer_fails [of n s a b req, OF _ assms(2) False]
    by (fastforce simp: spendable_def free_balance_def)
qed (simp add: currency_transfer_def)

lemma reserve_accepted_iff:
  assumes "balances_inv cfg s"
  shows "(\<exists>t. reserve cfg a n s = (Inr (), t)) \<longleftrightarrow>
    spendable (free_balance cfg s a) (misc_frozen (account cfg s a)) n"
proof (cases "n = 0")
  case False
  then show ?thesis
    using reserve_succeeds [OF assms, of n a] reserve_fails [of n s a, OF _ False]
    by (fastforce simp: spendable_def free_balance_def)
qed (simp add: reserve_def)

lemma burn_accepted_iff:
  assumes "balances_inv cfg s"
  shows "(\<exists>t. burn_unit cfg a n s = (Inr (), t)) \<longleftrightarrow>
    spendable (free_balance cfg s a) (frozen (account cfg s a) Reasons_All) n"
proof (cases "n = 0")
  case False
  then show ?thesis
    using burn_succeeds [OF assms, of n a]
    by (auto simp: burn_unit_eq spendable_def free_balance_def elim!: burn_from_Inr [OF _ False assms zero_ed])
qed (simp add: burn_unit_def burn_from_def)

lemma mint_accepted_iff:
  "balances_inv cfg s \<Longrightarrow> (\<exists>t. mint_into cfg a n s = (Inr (), t)) \<longleftrightarrow> total_issuance s + n \<le> U128_MAX"
  using mint_succeeds mint_effect by blast

lemma lockable_contract:
  "lockable_currency (balances_currency cfg) (balances_currency_inv cfg) (balances_locked cfg) (balances_locked_all cfg)"
proof (intro lockable_currency.intro currency_contract, unfold_locales, goal_cases)
  case (1 s a b c n)
  then show ?case
    using transfer_accepted_iff [of "s c" a b n Allow_Death]
    by (auto simp: at_asset_eq balances_currency_inv_def balances_locked_def)
next
  case (2 s n c a)
  then show ?case by (simp add: at_asset_eq currency_transfer_def)
next
  case (3 s c a n)
  then show ?case
    using reserve_accepted_iff [of "s c" a n]
    by (auto simp: at_asset_eq balances_currency_inv_def balances_locked_def)
next
  case (4 s c a n)
  then show ?case
    using burn_accepted_iff [of "s c" a n]
    by (auto simp: at_asset_eq balances_currency_inv_def balances_locked_all_def)
next
  case (5 s c a n)
  then show ?case
    using mint_accepted_iff [of "s c" a n] by (auto simp: at_asset_eq balances_currency_inv_def)
next
  case (6 s a b c n)
  then show ?case
    using repatriate_succeeds [of "s c" a b n] by (auto simp: at_asset_eq balances_currency_inv_def)
next
  case (7 s c a b n s' r)
  then have inv: "balances_inv cfg (s c)" by (simp add: balances_currency_inv_def)
  from 7(2) show ?case
    by (auto simp: at_asset_eq burn_unit_eq intro!: same_locks_at dest: transfer_same_locks mint_same_locks [OF inv]
        burn_same_locks [OF inv] reserve_same_locks unreserve_same_locks [OF inv] repatriate_same_locks [OF inv])
qed

lemma liquid_contract: "liquid_currency (balances_currency cfg) (balances_liquid_inv cfg)"
  using lockable_currency.liquid_states [OF lockable_contract]
  by (simp add: balances_liquid_inv_alt [abs_def])

end

sublocale zero_ed_accounts \<subseteq> lockable: lockable_currency "balances_currency cfg" "balances_currency_inv cfg"
  "balances_locked cfg" "balances_locked_all cfg"
  by (rule lockable_contract)

sublocale zero_ed_accounts \<subseteq> liquid: liquid_currency "balances_currency cfg" "balances_liquid_inv cfg"
  by (rule liquid_contract)

end
