(* ===== verification/XYK.thy ===== *)
theory XYK
  imports Asset_Registry Multi_Currency
begin

text \<open>
  \<open>src/pallets/xyk/src/lib.rs\<close>: the automated market maker. A pool holds two assets in an
  account derived from the pair; its shares are a token of the asset registry. The five
  calls, the queries, and the \<open>AMM\<close> implementation (validation and execution of a sell and of
  a buy) are translated one by one; \<open>xyk_amm\<close> packs the latter for the exchange pallet.
  Outside the repository, and so fields of the configuration: the multi-currency, the hash
  that derives the account of a pool, the fixed-point multiplication of the initial price,
  and the five formulas of the \<open>hydra_dx_math\<close> crate (\<open>None\<close> stands for its error).
\<close>

section \<open>Configuration and storage\<close>

record ('acc, 's) xyk_config =
  xyk_currency :: "('acc, 's) currency_ops"
  xyk_hash :: "bytes \<Rightarrow> 'acc"
  native_asset_id :: asset_id
  exchange_fee :: fee
  price_mul_int :: "u128 \<Rightarrow> balance \<Rightarrow> balance option"
  calculate_liquidity_in :: "balance \<Rightarrow> balance \<Rightarrow> balance \<Rightarrow> balance option"
  calculate_liquidity_out :: "balance \<Rightarrow> balance \<Rightarrow> balance \<Rightarrow> balance \<Rightarrow> (balance \<times> balance) option"
  calculate_spot_price :: "balance \<Rightarrow> balance \<Rightarrow> balance \<Rightarrow> balance option"
  calculate_out_given_in :: "balance \<Rightarrow> balance \<Rightarrow> balance \<Rightarrow> balance option"
  calculate_in_given_out :: "balance \<Rightarrow> balance \<Rightarrow> balance \<Rightarrow> balance option"

datatype 'acc xyk_event =
    LiquidityAdded 'acc asset_id asset_id balance balance
  | LiquidityRemoved 'acc asset_id asset_id balance
  | PoolCreated 'acc asset_id asset_id balance
  | PoolDestroyed 'acc asset_id asset_id
  | SellExecuted 'acc asset_id asset_id balance balance
  | BuyExecuted 'acc asset_id asset_id balance balance

record ('acc, 's) xyk_state =
  currencies :: 's
  registry :: registry_state
  share_token :: "'acc \<Rightarrow> asset_id option"
  total_liquidity :: "'acc \<Rightarrow> balance option"
  pool_assets :: "'acc \<Rightarrow> (asset_id \<times> asset_id) option"
  xyk_events :: "'acc xyk_event list"

type_synonym ('acc, 's, 'a) xyk_result = "(dispatch_error + 'a) \<times> ('acc, 's) xyk_state"

text \<open>The getters of maps with a default value.\<close>

definition get_share_token :: "('acc, 's) xyk_state \<Rightarrow> 'acc \<Rightarrow> asset_id" where
  "get_share_token s p = (case share_token s p of None \<Rightarrow> 0 | Some t \<Rightarrow> t)"

definition get_total_liquidity :: "('acc, 's) xyk_state \<Rightarrow> 'acc \<Rightarrow> balance" where
  "get_total_liquidity s p = (case total_liquidity s p of None \<Rightarrow> 0 | Some n \<Rightarrow> n)"

definition get_pool_assets_pair :: "('acc, 's) xyk_state \<Rightarrow> 'acc \<Rightarrow> asset_id \<times> asset_id" where
  "get_pool_assets_pair s p = (case pool_assets s p of None \<Rightarrow> (0, 0) | Some ab \<Rightarrow> ab)"

definition xyk_deposit_event :: "'acc xyk_event \<Rightarrow> ('acc, 's) xyk_state \<Rightarrow> ('acc, 's) xyk_state" where
  "xyk_deposit_event ev s = s\<lparr>xyk_events := xyk_events s @ [ev]\<rparr>"

text \<open>A call of the multi-currency, and one of the asset registry, from the pallet.\<close>

definition on_currency :: "('s \<Rightarrow> 'r \<times> 's) \<Rightarrow> ('acc, 's) xyk_state \<Rightarrow> 'r \<times> ('acc, 's) xyk_state" where
  "on_currency = zoom currencies (\<lambda>t s. s\<lparr>currencies := t\<rparr>)"

definition on_registry ::
  "(registry_state \<Rightarrow> 'r \<times> registry_state) \<Rightarrow> ('acc, 's) xyk_state \<Rightarrow> 'r \<times> ('acc, 's) xyk_state" where
  "on_registry = zoom registry (\<lambda>t s. s\<lparr>registry := t\<rparr>)"

definition xyk_free :: "('acc, 's) xyk_config \<Rightarrow> ('acc, 's) xyk_state \<Rightarrow> asset_id \<Rightarrow> 'acc \<Rightarrow> balance" where
  "xyk_free cfg s c a = cur_free (xyk_currency cfg) (currencies s) c a"

definition xyk_transfer ::
  "('acc, 's) xyk_config \<Rightarrow> asset_id \<Rightarrow> 'acc \<Rightarrow> 'acc \<Rightarrow> balance \<Rightarrow>
   ('acc, 's) xyk_state \<Rightarrow> ('acc, 's, unit) xyk_result" where
  "xyk_transfer cfg c a b n = on_currency (cur_transfer (xyk_currency cfg) c a b n)"

definition xyk_deposit ::
  "('acc, 's) xyk_config \<Rightarrow> asset_id \<Rightarrow> 'acc \<Rightarrow> balance \<Rightarrow> ('acc, 's) xyk_state \<Rightarrow> ('acc, 's, unit) xyk_result" where
  "xyk_deposit cfg c a n = on_currency (cur_deposit (xyk_currency cfg) c a n)"

definition xyk_withdraw ::
  "('acc, 's) xyk_config \<Rightarrow> asset_id \<Rightarrow> 'acc \<Rightarrow> balance \<Rightarrow> ('acc, 's) xyk_state \<Rightarrow> ('acc, 's, unit) xyk_result" where
  "xyk_withdraw cfg c a n = on_currency (cur_withdraw (xyk_currency cfg) c a n)"

section \<open>Accounts of pools and queries\<close>

definition from_assets :: "('acc, 's) xyk_config \<Rightarrow> asset_id \<Rightarrow> asset_id \<Rightarrow> 'acc" where
  "from_assets cfg asset_a asset_b =
     (let buf = [104, 121, 100, 114, 97, 100, 120];
          buf = (if asset_a < asset_b
                 then buf @ to_le_bytes asset_a @ to_le_bytes asset_b
                 else buf @ to_le_bytes asset_b @ to_le_bytes asset_a)
      in xyk_hash cfg buf)"

definition get_pair_id :: "('acc, 's) xyk_config \<Rightarrow> asset_pair \<Rightarrow> 'acc" where
  "get_pair_id cfg as = from_assets cfg (asset_in as) (asset_out as)"

definition xyk_exists :: "('acc, 's) xyk_config \<Rightarrow> asset_pair \<Rightarrow> ('acc, 's) xyk_state \<Rightarrow> bool" where
  "xyk_exists cfg as s = (share_token s (from_assets cfg (asset_in as) (asset_out as)) \<noteq> None)"

definition get_pool_assets :: "'acc \<Rightarrow> ('acc, 's) xyk_state \<Rightarrow> asset_id list option" where
  "get_pool_assets p s =
     (if pool_assets s p \<noteq> None
      then (let (a, b) = get_pool_assets_pair s p in Some [a, b])
      else None)"

definition get_pool_balances ::
  "('acc, 's) xyk_config \<Rightarrow> 'acc \<Rightarrow> ('acc, 's) xyk_state \<Rightarrow> (asset_id \<times> balance) list option" where
  "get_pool_balances cfg pool s =
     (case get_pool_assets pool s of
        None \<Rightarrow> Some []
      | Some assets \<Rightarrow> Some (map (\<lambda>item. (item, xyk_free cfg s item pool)) assets))"

definition calculate_discounted_fee :: "balance \<Rightarrow> dispatch_error + balance" where
  "calculate_discounted_fee amount = ok_or (discounted_fee amount) (XYK FeeAmountInvalid)"

definition calculate_fee :: "('acc, 's) xyk_config \<Rightarrow> balance \<Rightarrow> dispatch_error + balance" where
  "calculate_fee cfg amount = ok_or (just_fee amount (exchange_fee cfg)) (XYK FeeAmountInvalid)"

definition get_spot_price_unchecked ::
  "('acc, 's) xyk_config \<Rightarrow> asset_id \<Rightarrow> asset_id \<Rightarrow> balance \<Rightarrow> ('acc, 's) xyk_state \<Rightarrow> balance" where
  "get_spot_price_unchecked cfg asset_a asset_b amount s =
     (let pair_account = get_pair_id cfg \<lparr>asset_in = asset_b, asset_out = asset_a\<rparr>;
          asset_a_reserve = xyk_free cfg s asset_a pair_account;
          asset_b_reserve = xyk_free cfg s asset_b pair_account
      in case calculate_spot_price cfg asset_a_reserve asset_b_reserve amount of
           None \<Rightarrow> 0 | Some p \<Rightarrow> p)"

section \<open>Liquidity\<close>

definition create_pool ::
  "('o, 'src, 'acc) frame_ops \<Rightarrow> ('acc, 's) xyk_config \<Rightarrow> 'o \<Rightarrow> asset_id \<Rightarrow> asset_id \<Rightarrow> balance \<Rightarrow> u128 \<Rightarrow>
   ('acc, 's) xyk_state \<Rightarrow> ('acc, 's, unit) xyk_result" where
  "create_pool F cfg orig asset_a asset_b amount initial_price = transactional (\<lambda>s.
     and_then (ensure_signed F orig, s) (\<lambda>who s.
     if amount = 0 then (Inl (XYK CannotCreatePoolWithZeroLiquidity), s)
     else if initial_price = 0 then (Inl (XYK CannotCreatePoolWithZeroInitialPrice), s)
     else if asset_a = asset_b then (Inl (XYK CannotCreatePoolWithSameAssets), s)
     else let asset_pair = \<lparr>asset_in = asset_a, asset_out = asset_b\<rparr> in
     if xyk_exists cfg asset_pair s then (Inl (XYK TokenPoolAlreadyExists), s)
     else and_then (ok_or (price_mul_int cfg initial_price amount) (XYK CreatePoolAssetAmountInvalid), s)
       (\<lambda>asset_b_amount s.
     let shares_added = (if asset_a < asset_b then amount else asset_b_amount) in
     if \<not> amount \<le> xyk_free cfg s asset_a who then (Inl (XYK InsufficientAssetBalance), s)
     else if \<not> asset_b_amount \<le> xyk_free cfg s asset_b who then (Inl (XYK InsufficientAssetBalance), s)
     else let pair_account = get_pair_id cfg asset_pair;
              token_name = asset_pair_name asset_pair in
     and_then (on_registry (get_or_create_asset token_name) s) (\<lambda>share s.
     let s = s\<lparr>share_token := (share_token s)(pair_account \<mapsto> share),
               pool_assets := (pool_assets s)(pair_account \<mapsto> (asset_a, asset_b))\<rparr> in
     and_then (xyk_transfer cfg asset_a who pair_account amount s) (\<lambda>_ s.
     and_then (xyk_transfer cfg asset_b who pair_account asset_b_amount s) (\<lambda>_ s.
     and_then (xyk_deposit cfg share who shares_added s) (\<lambda>_ s.
     let s = s\<lparr>total_liquidity := (total_liquidity s)(pair_account \<mapsto> shares_added)\<rparr>
     in (Inr (), xyk_deposit_event (PoolCreated who asset_a asset_b shares_added) s))))))))"

definition add_liquidity ::
  "('o, 'src, 'acc) frame_ops \<Rightarrow> ('acc, 's) xyk_config \<Rightarrow> 'o \<Rightarrow> asset_id \<Rightarrow> asset_id \<Rightarrow> balance \<Rightarrow> balance \<Rightarrow>
   ('acc, 's) xyk_state \<Rightarrow> ('acc, 's, unit) xyk_result" where
  "add_liquidity F cfg orig asset_a asset_b amount_a amount_b_max_limit = transactional (\<lambda>s.
     and_then (ensure_signed F orig, s) (\<lambda>who s.
     let asset_pair = \<lparr>asset_in = asset_a, asset_out = asset_b\<rparr> in
     if \<not> xyk_exists cfg asset_pair s then (Inl (XYK TokenPoolNotFound), s)
     else if amount_a = 0 then (Inl (XYK CannotAddZeroLiquidity), s)
     else if amount_b_max_limit = 0 then (Inl (XYK CannotAddZeroLiquidity), s)
     else if \<not> amount_a \<le> xyk_free cfg s asset_a who then (Inl (XYK InsufficientAssetBalance), s)
     else if \<not> amount_b_max_limit \<le> xyk_free cfg s asset_b who then (Inl (XYK InsufficientAssetBalance), s)
     else let pair_account = get_pair_id cfg asset_pair;
              share = get_share_token s pair_account;
              asset_a_reserve = xyk_free cfg s asset_a pair_account;
              asset_b_reserve = xyk_free cfg s asset_b pair_account;
              total = get_total_liquidity s pair_account in
     and_then (ok_or (calculate_liquidity_in cfg asset_a_reserve asset_b_reserve amount_a)
                 (XYK AddAssetAmountInvalid), s) (\<lambda>amount_b_required s.
     let shares_added = (if asset_a < asset_b then amount_a else amount_b_required) in
     if \<not> amount_b_required \<le> amount_b_max_limit then (Inl (XYK AssetBalanceLimitExceeded), s)
     else if \<not> 0 < shares_added then (Inl (XYK InvalidMintedLiquidity), s)
     else and_then (ok_or (checked_add total shares_added) (XYK InvalidLiquidityAmount), s)
       (\<lambda>liquidity_amount s.
     let asset_b_balance = xyk_free cfg s asset_b who in
     if \<not> amount_b_required \<le> asset_b_balance then (Inl (XYK InsufficientAssetBalance), s)
     else and_then (xyk_transfer cfg asset_a who pair_account amount_a s) (\<lambda>_ s.
     and_then (xyk_transfer cfg asset_b who pair_account amount_b_required s) (\<lambda>_ s.
     and_then (xyk_deposit cfg share who shares_added s) (\<lambda>_ s.
     let s = s\<lparr>total_liquidity := (total_liquidity s)(pair_account \<mapsto> liquidity_amount)\<rparr>
     in (Inr (), xyk_deposit_event
           (LiquidityAdded who asset_a asset_b amount_a amount_b_required) s))))))))"

definition remove_liquidity ::
  "('o, 'src, 'acc) frame_ops \<Rightarrow> ('acc, 's) xyk_config \<Rightarrow> 'o \<Rightarrow> asset_id \<Rightarrow> asset_id \<Rightarrow> balance \<Rightarrow>
   ('acc, 's) xyk_state \<Rightarrow> ('acc, 's, unit) xyk_result" where
  "remove_liquidity F cfg orig asset_a asset_b liquidity_amount = transactional (\<lambda>s.
     and_then (ensure_signed F orig, s) (\<lambda>who s.
     let asset_pair = \<lparr>asset_in = asset_a, asset_out = asset_b\<rparr> in
     if liquidity_amount = 0 then (Inl (XYK CannotRemoveLiquidityWithZero), s)
     else if \<not> xyk_exists cfg asset_pair s then (Inl (XYK TokenPoolNotFound), s)
     else let pair_account = get_pair_id cfg asset_pair;
              share = get_share_token s pair_account;
              total_shares = get_total_liquidity s pair_account in
     if \<not> liquidity_amount \<le> total_shares then (Inl (XYK InsufficientAssetBalance), s)
     else if \<not> liquidity_amount \<le> xyk_free cfg s share who then (Inl (XYK InsufficientAssetBalance), s)
     else if total_shares = 0 then (Inl (XYK CannotRemoveLiquidityWithZero), s)
     else let asset_a_reserve = xyk_free cfg s asset_a pair_account;
              asset_b_reserve = xyk_free cfg s asset_b pair_account in
     and_then (ok_or (calculate_liquidity_out cfg asset_a_reserve asset_b_reserve liquidity_amount total_shares)
                 (XYK RemoveAssetAmountInvalid), s) (\<lambda>(remove_amount_a, remove_amount_b) s.
     if \<not> remove_amount_a \<le> xyk_free cfg s asset_a pair_account
     then (Inl (XYK InsufficientPoolAssetBalance), s)
     else if \<not> remove_amount_b \<le> xyk_free cfg s asset_b pair_account
     then (Inl (XYK InsufficientPoolAssetBalance), s)
     else and_then (ok_or (checked_sub total_shares liquidity_amount) (XYK InvalidLiquidityAmount), s)
       (\<lambda>liquidity_left s.
     and_then (xyk_transfer cfg asset_a pair_account who remove_amount_a s) (\<lambda>_ s.
     and_then (xyk_transfer cfg asset_b pair_account who remove_amount_b s) (\<lambda>_ s.
     and_then (xyk_withdraw cfg share who liquidity_amount s) (\<lambda>_ s.
     let s = s\<lparr>total_liquidity := (total_liquidity s)(pair_account \<mapsto> liquidity_left)\<rparr>;
         s = xyk_deposit_event (LiquidityRemoved who asset_a asset_b liquidity_amount) s
     in if liquidity_left = 0 then
          (let s = s\<lparr>share_token := (share_token s)(pair_account := None),
                     pool_assets := (pool_assets s)(pair_account := None)\<rparr>
           in (Inr (), xyk_deposit_event (PoolDestroyed who asset_a asset_b) s))
        else (Inr (), s))))))))"

section \<open>Trades\<close>

text \<open>The fee in the native asset of a discounted trade; \<open>fee_asset\<close> is the other asset of its pool.\<close>

definition discount_fee_amount ::
  "('acc, 's) xyk_config \<Rightarrow> 'acc \<Rightarrow> asset_id \<Rightarrow> balance \<Rightarrow> ('acc, 's) xyk_state \<Rightarrow> dispatch_error + balance" where
  "discount_fee_amount cfg who fee_asset transfer_fee s =
     (let native_asset = native_asset_id cfg;
          native_pair_account = get_pair_id cfg \<lparr>asset_in = fee_asset, asset_out = native_asset\<rparr>;
          native_reserve = xyk_free cfg s native_asset native_pair_account;
          asset_reserve = xyk_free cfg s fee_asset native_pair_account
      in try_bind (ok_or (calculate_spot_price cfg asset_reserve native_reserve transfer_fee)
                     (XYK CannotApplyDiscount)) (\<lambda>native_fee_spot_price.
         if native_fee_spot_price \<le> xyk_free cfg s native_asset who then Inr native_fee_spot_price
         else Inl (XYK InsufficientNativeCurrencyBalance)))"

definition validate_sell ::
  "('acc, 's) xyk_config \<Rightarrow> 'acc \<Rightarrow> asset_pair \<Rightarrow> balance \<Rightarrow> balance \<Rightarrow> bool \<Rightarrow>
   ('acc, 's) xyk_state \<Rightarrow> dispatch_error + 'acc amm_transfer" where
  "validate_sell cfg who as amount min_bought discount s =
     (if \<not> xyk_exists cfg as s then Inl (XYK TokenPoolNotFound)
      else if \<not> amount \<le> xyk_free cfg s (asset_in as) who then Inl (XYK InsufficientAssetBalance)
      else if discount \<and> \<not> xyk_exists cfg \<lparr>asset_in = asset_in as, asset_out = native_asset_id cfg\<rparr> s
      then Inl (XYK CannotApplyDiscount)
      else let pair_account = get_pair_id cfg as;
               asset_in_reserve = xyk_free cfg s (asset_in as) pair_account;
               asset_out_reserve = xyk_free cfg s (asset_out as) pair_account in
      if \<not> amount \<le> asset_in_reserve div MAX_IN_RATIO then Inl (XYK MaxInRatioExceeded)
      else try_bind (if discount then calculate_discounted_fee amount else calculate_fee cfg amount)
        (\<lambda>transfer_fee.
      try_bind (ok_or (checked_sub amount transfer_fee) (XYK SellAssetAmountInvalid)) (\<lambda>amount_without_fee.
      try_bind (ok_or (calculate_out_given_in cfg asset_in_reserve asset_out_reserve amount_without_fee)
                  (XYK SellAssetAmountInvalid)) (\<lambda>sale_price.
      if \<not> sale_price < asset_out_reserve then Inl (XYK InsufficientAssetBalance)
      else if \<not> min_bought \<le> sale_price then Inl (XYK AssetBalanceLimitExceeded)
      else try_bind (if discount then discount_fee_amount cfg who (asset_in as) transfer_fee s else Inr 0)
        (\<lambda>discount_fee.
        Inr \<lparr>t_origin = who, t_assets = as, t_amount = amount, t_amount_out = sale_price,
             t_discount = discount, t_discount_amount = discount_fee\<rparr>)))))"

definition execute_sell ::
  "('acc, 's) xyk_config \<Rightarrow> 'acc amm_transfer \<Rightarrow> ('acc, 's) xyk_state \<Rightarrow> ('acc, 's, unit) xyk_result" where
  "execute_sell cfg t = transactional (\<lambda>s.
     let pair_account = get_pair_id cfg (t_assets t) in
     and_then (if t_discount t \<and> 0 < t_discount_amount t
               then xyk_withdraw cfg (native_asset_id cfg) (t_origin t) (t_discount_amount t) s
               else (Inr (), s)) (\<lambda>_ s.
     and_then (xyk_transfer cfg (asset_in (t_assets t)) (t_origin t) pair_account (t_amount t) s) (\<lambda>_ s.
     and_then (xyk_transfer cfg (asset_out (t_assets t)) pair_account (t_origin t) (t_amount_out t) s) (\<lambda>_ s.
     (Inr (), xyk_deposit_event
        (SellExecuted (t_origin t) (asset_in (t_assets t)) (asset_out (t_assets t))
           (t_amount t) (t_amount_out t)) s)))))"

definition validate_buy ::
  "('acc, 's) xyk_config \<Rightarrow> 'acc \<Rightarrow> asset_pair \<Rightarrow> balance \<Rightarrow> balance \<Rightarrow> bool \<Rightarrow>
   ('acc, 's) xyk_state \<Rightarrow> dispatch_error + 'acc amm_transfer" where
  "validate_buy cfg who as amount max_limit discount s =
     (if \<not> xyk_exists cfg as s then Inl (XYK TokenPoolNotFound)
      else let pair_account = get_pair_id cfg as;
               asset_out_reserve = xyk_free cfg s (asset_out as) pair_account;
               asset_in_reserve = xyk_free cfg s (asset_in as) pair_account in
      if \<not> amount < asset_out_reserve then Inl (XYK InsufficientPoolAssetBalance)
      else if \<not> amount \<le> asset_out_reserve div MAX_OUT_RATIO then Inl (XYK MaxOutRatioExceeded)
      else if discount \<and> \<not> xyk_exists cfg \<lparr>asset_in = asset_out as, asset_out = native_asset_id cfg\<rparr> s
      then Inl (XYK CannotApplyDiscount)
      else try_bind (ok_or (calculate_in_given_out cfg asset_out_reserve asset_in_reserve amount)
                       (XYK BuyAssetAmountInvalid)) (\<lambda>buy_price.
      try_bind (if discount then calculate_discounted_fee buy_price else calculate_fee cfg buy_price)
        (\<lambda>transfer_fee.
      try_bind (ok_or (checked_add buy_price transfer_fee) (XYK BuyAssetAmountInvalid)) (\<lambda>buy_price_with_fee.
      if \<not> buy_price_with_fee \<le> max_limit then Inl (XYK AssetBalanceLimitExceeded)
      else if \<not> buy_price_with_fee \<le> xyk_free cfg s (asset_in as) who
      then Inl (XYK InsufficientAssetBalance)
      else try_bind (if discount then discount_fee_amount cfg who (asset_out as) transfer_fee s else Inr 0)
        (\<lambda>discount_fee.
        Inr \<lparr>t_origin = who, t_assets = as, t_amount = amount, t_amount_out = buy_price_with_fee,
             t_discount = discount, t_discount_amount = discount_fee\<rparr>)))))"

definition execute_buy ::
  "('acc, 's) xyk_config \<Rightarrow> 'acc amm_transfer \<Rightarrow> ('acc, 's) xyk_state \<Rightarrow> ('acc, 's, unit) xyk_result" where
  "execute_buy cfg t = transactional (\<lambda>s.
     let pair_account = get_pair_id cfg (t_assets t) in
     and_then (if t_discount t \<and> 0 < t_discount_amount t
               then xyk_withdraw cfg (native_asset_id cfg) (t_origin t) (t_discount_amount t) s
               else (Inr (), s)) (\<lambda>_ s.
     and_then (xyk_transfer cfg (asset_out (t_assets t)) pair_account (t_origin t) (t_amount t) s) (\<lambda>_ s.
     and_then (xyk_transfer cfg (asset_in (t_assets t)) (t_origin t) pair_account (t_amount_out t) s) (\<lambda>_ s.
     (Inr (), xyk_deposit_event
        (BuyExecuted (t_origin t) (asset_out (t_assets t)) (asset_in (t_assets t))
           (t_amount t) (t_amount_out t)) s)))))"

text \<open>The pallet as an \<open>AMM\<close>.\<close>

definition xyk_amm :: "('acc, 's) xyk_config \<Rightarrow> ('acc, ('acc, 's) xyk_state) amm_ops" where
  "xyk_amm cfg =
     \<lparr>amm_exists = xyk_exists cfg,
      amm_get_pair_id = get_pair_id cfg,
      amm_get_pool_assets = get_pool_assets,
      amm_get_spot_price_unchecked = get_spot_price_unchecked cfg,
      amm_validate_sell = validate_sell cfg,
      amm_execute_sell = execute_sell cfg,
      amm_validate_buy = validate_buy cfg,
      amm_execute_buy = execute_buy cfg\<rparr>"

definition xyk_sell ::
  "('o, 'src, 'acc) frame_ops \<Rightarrow> ('acc, 's) xyk_config \<Rightarrow> 'o \<Rightarrow> asset_id \<Rightarrow> asset_id \<Rightarrow> balance \<Rightarrow> balance \<Rightarrow> bool \<Rightarrow>
   ('acc, 's) xyk_state \<Rightarrow> ('acc, 's, unit) xyk_result" where
  "xyk_sell F cfg orig a_in a_out amount max_limit discount s =
     and_then (ensure_signed F orig, s) (\<lambda>who s.
       amm_sell (xyk_amm cfg) who \<lparr>asset_in = a_in, asset_out = a_out\<rparr> amount max_limit discount s)"

definition xyk_buy ::
  "('o, 'src, 'acc) frame_ops \<Rightarrow> ('acc, 's) xyk_config \<Rightarrow> 'o \<Rightarrow> asset_id \<Rightarrow> asset_id \<Rightarrow> balance \<Rightarrow> balance \<Rightarrow> bool \<Rightarrow>
   ('acc, 's) xyk_state \<Rightarrow> ('acc, 's, unit) xyk_result" where
  "xyk_buy F cfg orig a_out a_in amount max_limit discount s =
     and_then (ensure_signed F orig, s) (\<lambda>who s.
       amm_buy (xyk_amm cfg) who \<lparr>asset_in = a_in, asset_out = a_out\<rparr> amount max_limit discount s)"

end
