(* ===== verification/XYK_Laws.thy ===== *)
theory XYK_Laws
  imports XYK
begin

text \<open>
  The laws of the XYK pallet over any multi-currency that keeps its contract (locale
  \<open>xyk_pallet\<close>): the effect of every call on the balances, the issuances and the pool
  storage, and, given what the formulas of the mathematics crate promise (locale
  \<open>xyk_market\<close>), that no trade lowers the product of a pool's reserves.
\<close>

section \<open>Accounts of pools\<close>

lemma from_assets_commute: "from_assets cfg a b = from_assets cfg b a"
  by (auto simp: from_assets_def Let_def not_less dest: antisym)

lemma get_pair_id_swap:
  "get_pair_id cfg \<lparr>asset_in = a, asset_out = b\<rparr> = get_pair_id cfg \<lparr>asset_in = b, asset_out = a\<rparr>"
  by (simp add: get_pair_id_def from_assets_commute [of cfg a b])

lemma xyk_exists_pair: "xyk_exists cfg as s \<longleftrightarrow> share_token s (get_pair_id cfg as) \<noteq> None"
  by (simp add: xyk_exists_def get_pair_id_def)

text \<open>The hash does not collide on the keys of pools, which are 15 bytes long.\<close>

definition collision_free :: "('acc, 's) xyk_config \<Rightarrow> bool" where
  "collision_free cfg \<longleftrightarrow>
     (\<forall>x y. length x = 15 \<longrightarrow> length y = 15 \<longrightarrow> xyk_hash cfg x = xyk_hash cfg y \<longrightarrow> x = y)"

lemma pool_key:
  "from_assets cfg a b = xyk_hash cfg ([104, 121, 100, 114, 97, 100, 120] @
     to_le_bytes (fst (ordered_pair \<lparr>asset_in = a, asset_out = b\<rparr>)) @
     to_le_bytes (snd (ordered_pair \<lparr>asset_in = a, asset_out = b\<rparr>)))"
  by (auto simp: from_assets_def Let_def ordered_pair_def not_less less_le dest: antisym)

lemma from_assets_inject:
  assumes "collision_free cfg"
  shows "from_assets cfg a b = from_assets cfg c d \<longleftrightarrow>
    ordered_pair \<lparr>asset_in = a, asset_out = b\<rparr> = ordered_pair \<lparr>asset_in = c, asset_out = d\<rparr>"
proof
  assume "from_assets cfg a b = from_assets cfg c d"
  with assms show "ordered_pair \<lparr>asset_in = a, asset_out = b\<rparr> = ordered_pair \<lparr>asset_in = c, asset_out = d\<rparr>"
    unfolding pool_key collision_free_def
    by (auto simp: prod_eq_iff dest!: spec)
qed (simp add: pool_key)

lemma get_pair_id_inject:
  "collision_free cfg \<Longrightarrow> get_pair_id cfg p = get_pair_id cfg q \<longleftrightarrow> ordered_pair p = ordered_pair q"
  using from_assets_inject [of cfg "asset_in p" "asset_out p" "asset_in q" "asset_out q"]
  by (cases p; cases q) (simp add: get_pair_id_def)

lemma get_pair_id_name:
  "collision_free cfg \<Longrightarrow> get_pair_id cfg p = get_pair_id cfg q \<longleftrightarrow> asset_pair_name p = asset_pair_name q"
  by (simp add: get_pair_id_inject asset_pair_name_iff)

section \<open>Calls of the multi-currency\<close>

lemma on_currency_eq: "on_currency f s = (r, s') \<longleftrightarrow> (\<exists>t. f (currencies s) = (r, t) \<and> s' = s\<lparr>currencies := t\<rparr>)"
  by (simp add: on_currency_def zoom_eq)

lemma on_registry_eq: "on_registry f s = (r, s') \<longleftrightarrow> (\<exists>t. f (registry s) = (r, t) \<and> s' = s\<lparr>registry := t\<rparr>)"
  by (simp add: on_registry_def zoom_eq)

lemma xyk_deposit_event_simps [simp]:
  "currencies (xyk_deposit_event ev s) = currencies s"
  "registry (xyk_deposit_event ev s) = registry s"
  "share_token (xyk_deposit_event ev s) = share_token s"
  "total_liquidity (xyk_deposit_event ev s) = total_liquidity s"
  "pool_assets (xyk_deposit_event ev s) = pool_assets s"
  by (simp_all add: xyk_deposit_event_def)

locale xyk_pallet = multi_currency "xyk_currency cfg" cur_inv
  for cfg :: "('acc, 's) xyk_config" and cur_inv
begin

lemma xyk_transfer_ok:
  assumes "cur_inv (currencies s)" and "xyk_transfer cfg c a b n s = (Inr (), s')"
  obtains t where "s' = s\<lparr>currencies := t\<rparr>" and "cur_inv t" and "a = b \<or> n \<le> xyk_free cfg s c a"
    and "cur_free (xyk_currency cfg) t = moved (cur_free (xyk_currency cfg) (currencies s)) c a b n"
    and "cur_issuance (xyk_currency cfg) t = cur_issuance (xyk_currency cfg) (currencies s)"
proof -
  from assms(2) obtain t where t: "cur_transfer (xyk_currency cfg) c a b n (currencies s) = (Inr (), t)"
    "s' = s\<lparr>currencies := t\<rparr>"
    by (auto simp: xyk_transfer_def on_currency_eq)
  from transfer_ok [OF assms(1) t(1)] show ?thesis
    by (intro that [OF t(2)]) (simp_all add: xyk_free_def)
qed

lemma xyk_deposit_ok:
  assumes "cur_inv (currencies s)" and "xyk_deposit cfg c a n s = (Inr (), s')"
  obtains t where "s' = s\<lparr>currencies := t\<rparr>" and "cur_inv t"
    and "cur_free (xyk_currency cfg) t = credit (cur_free (xyk_currency cfg) (currencies s)) c a n"
    and "cur_issuance (xyk_currency cfg) t = (cur_issuance (xyk_currency cfg) (currencies s))
      (c := cur_issuance (xyk_currency cfg) (currencies s) c + n)"
    and "cur_issuance (xyk_currency cfg) (currencies s) c + n \<le> U128_MAX"
proof -
  from assms(2) obtain t where t: "cur_deposit (xyk_currency cfg) c a n (currencies s) = (Inr (), t)"
    "s' = s\<lparr>currencies := t\<rparr>"
    by (auto simp: xyk_deposit_def on_currency_eq)
  from deposit_ok [OF assms(1) t(1)] show ?thesis by (intro that [OF t(2)]) simp_all
qed

lemma xyk_withdraw_ok:
  assumes "cur_inv (currencies s)" and "xyk_withdraw cfg c a n s = (Inr (), s')"
  obtains t where "s' = s\<lparr>currencies := t\<rparr>" and "cur_inv t" and "n \<le> xyk_free cfg s c a"
    and "cur_free (xyk_currency cfg) t = debit (cur_free (xyk_currency cfg) (currencies s)) c a n"
    and "cur_issuance (xyk_currency cfg) t = (cur_issuance (xyk_currency cfg) (currencies s))
      (c := cur_issuance (xyk_currency cfg) (currencies s) c - n)"
proof -
  from assms(2) obtain t where t: "cur_withdraw (xyk_currency cfg) c a n (currencies s) = (Inr (), t)"
    "s' = s\<lparr>currencies := t\<rparr>"
    by (auto simp: xyk_withdraw_def on_currency_eq)
  from withdraw_ok [OF assms(1) t(1)] show ?thesis
    by (intro that [OF t(2)]) (simp_all add: xyk_free_def)
qed

text \<open>Two transfers in a row.\<close>

lemma two_transfers_ok:
  assumes inv: "cur_inv (currencies s)"
    and 1: "xyk_transfer cfg c a b n s = (Inr (), s1)" and 2: "xyk_transfer cfg c' a' b' n' s1 = (Inr (), s2)"
  obtains u where "s2 = s\<lparr>currencies := u\<rparr>" and "cur_inv u"
    and "cur_free (xyk_currency cfg) u =
      moved (moved (cur_free (xyk_currency cfg) (currencies s)) c a b n) c' a' b' n'"
    and "cur_issuance (xyk_currency cfg) u = cur_issuance (xyk_currency cfg) (currencies s)"
    and "a = b \<or> n \<le> cur_free (xyk_currency cfg) (currencies s) c a"
    and "a' = b' \<or> n' \<le> moved (cur_free (xyk_currency cfg) (currencies s)) c a b n c' a'"
proof -
  obtain u1 where u1: "s1 = s\<lparr>currencies := u1\<rparr>" "cur_inv u1" "a = b \<or> n \<le> xyk_free cfg s c a"
    "cur_free (xyk_currency cfg) u1 = moved (cur_free (xyk_currency cfg) (currencies s)) c a b n"
    "cur_issuance (xyk_currency cfg) u1 = cur_issuance (xyk_currency cfg) (currencies s)"
    by (rule xyk_transfer_ok [OF inv 1])
  have i1: "cur_inv (currencies s1)" using u1 by simp
  obtain u2 where u2: "s2 = s1\<lparr>currencies := u2\<rparr>" "cur_inv u2" "a' = b' \<or> n' \<le> xyk_free cfg s1 c' a'"
    "cur_free (xyk_currency cfg) u2 = moved (cur_free (xyk_currency cfg) (currencies s1)) c' a' b' n'"
    "cur_issuance (xyk_currency cfg) u2 = cur_issuance (xyk_currency cfg) (currencies s1)"
    by (rule xyk_transfer_ok [OF i1 2])
  show ?thesis by (rule that [of u2]) (use u1 u2 in \<open>simp_all add: xyk_free_def\<close>)
qed

section \<open>Execution of trades\<close>

text \<open>What a discounted trade burns of the native asset.\<close>

abbreviation burned_fee :: "'acc amm_transfer \<Rightarrow> nat" where
  "burned_fee t \<equiv> (if t_discount t then t_discount_amount t else 0)"

lemma trade_transfers_ok:
  assumes inv: "cur_inv (currencies s)"
    and 1: "(if t_discount t \<and> 0 < t_discount_amount t
      then xyk_withdraw cfg (native_asset_id cfg) w (t_discount_amount t) s else (Inr (), s)) = (Inr (), s1)"
    and 2: "xyk_transfer cfg c a b n s1 = (Inr (), s2)"
    and 3: "xyk_transfer cfg d b a m s2 = (Inr (), s3)"
  obtains u where "s3 = s\<lparr>currencies := u\<rparr>" and "cur_inv u"
    and "burned_fee t \<le> xyk_free cfg s (native_asset_id cfg) w"
    and "cur_free (xyk_currency cfg) u =
      moved (moved (debit (cur_free (xyk_currency cfg) (currencies s)) (native_asset_id cfg) w (burned_fee t))
        c a b n) d b a m"
    and "cur_issuance (xyk_currency cfg) u = (cur_issuance (xyk_currency cfg) (currencies s))
      (native_asset_id cfg := cur_issuance (xyk_currency cfg) (currencies s) (native_asset_id cfg) - burned_fee t)"
    and "a = b \<or> n \<le> debit (cur_free (xyk_currency cfg) (currencies s)) (native_asset_id cfg) w (burned_fee t) c a" and "b = a \<or> m \<le> moved (debit (cur_free (xyk_currency cfg) (currencies s)) (native_asset_id cfg) w (burned_fee t)) c a b n d b"
proof -
  obtain u1 where u1: "s1 = s\<lparr>currencies := u1\<rparr>" "cur_inv u1"
    "burned_fee t \<le> xyk_free cfg s (native_asset_id cfg) w"
    "cur_free (xyk_currency cfg) u1 = debit (cur_free (xyk_currency cfg) (currencies s)) (native_asset_id cfg) w (burned_fee t)"
    "cur_issuance (xyk_currency cfg) u1 = (cur_issuance (xyk_currency cfg) (currencies s))
      (native_asset_id cfg := cur_issuance (xyk_currency cfg) (currencies s) (native_asset_id cfg) - burned_fee t)"
  proof (cases "t_discount t \<and> 0 < t_discount_amount t")
    case True
    with 1 have w: "xyk_withdraw cfg (native_asset_id cfg) w (t_discount_amount t) s = (Inr (), s1)" by simp
    show ?thesis by (rule xyk_withdraw_ok [OF inv w]) (rule that, use True in simp_all)
  next
    case False
    then have "burned_fee t = 0" by auto
    with 1 False inv show ?thesis by (intro that [of "currencies s"]) auto
  qed
  have i1: "cur_inv (currencies s1)" using u1 by simp
  obtain u where "s3 = s1\<lparr>currencies := u\<rparr>" "cur_inv u"
    "cur_free (xyk_currency cfg) u = moved (moved (cur_free (xyk_currency cfg) (currencies s1)) c a b n) d b a m"
    "cur_issuance (xyk_currency cfg) u = cur_issuance (xyk_currency cfg) (currencies s1)"
    "a = b \<or> n \<le> cur_free (xyk_currency cfg) (currencies s1) c a"
    "b = a \<or> m \<le> moved (cur_free (xyk_currency cfg) (currencies s1)) c a b n d b"
    by (rule two_transfers_ok [OF i1 2 3])
  with u1 show ?thesis by (intro that [of u]) simp_all
qed

lemma execute_sell_ok:
  assumes inv: "cur_inv (currencies s)" and ex: "execute_sell cfg t s = (Inr (), s')"
  obtains u where "s' = xyk_deposit_event (SellExecuted (t_origin t) (asset_in (t_assets t)) (asset_out (t_assets t))
      (t_amount t) (t_amount_out t)) (s\<lparr>currencies := u\<rparr>)"
    and "cur_inv u" and "burned_fee t \<le> xyk_free cfg s (native_asset_id cfg) (t_origin t)"
    and "cur_free (xyk_currency cfg) u =
      moved (moved (debit (cur_free (xyk_currency cfg) (currencies s)) (native_asset_id cfg) (t_origin t) (burned_fee t))
        (asset_in (t_assets t)) (t_origin t) (get_pair_id cfg (t_assets t)) (t_amount t))
        (asset_out (t_assets t)) (get_pair_id cfg (t_assets t)) (t_origin t) (t_amount_out t)"
    and "cur_issuance (xyk_currency cfg) u = (cur_issuance (xyk_currency cfg) (currencies s))
      (native_asset_id cfg := cur_issuance (xyk_currency cfg) (currencies s) (native_asset_id cfg) - burned_fee t)"
    and "t_origin t = get_pair_id cfg (t_assets t) \<or> t_amount t \<le>
      debit (cur_free (xyk_currency cfg) (currencies s)) (native_asset_id cfg) (t_origin t) (burned_fee t) (asset_in (t_assets t)) (t_origin t)"
proof -
  from ex obtain s1 s2 s3 where 1: "(if t_discount t \<and> 0 < t_discount_amount t
      then xyk_withdraw cfg (native_asset_id cfg) (t_origin t) (t_discount_amount t) s else (Inr (), s)) = (Inr (), s1)"
    and 2: "xyk_transfer cfg (asset_in (t_assets t)) (t_origin t) (get_pair_id cfg (t_assets t)) (t_amount t) s1 = (Inr (), s2)"
    and 3: "xyk_transfer cfg (asset_out (t_assets t)) (get_pair_id cfg (t_assets t)) (t_origin t) (t_amount_out t) s2 = (Inr (), s3)"
    and s': "s' = xyk_deposit_event (SellExecuted (t_origin t) (asset_in (t_assets t)) (asset_out (t_assets t))
      (t_amount t) (t_amount_out t)) s3"
    by (auto simp: execute_sell_def Let_def transactional_eq_Inr and_then_eq_Inr)
  show ?thesis by (rule trade_transfers_ok [OF inv 1 2 3]) (rule that, use s' in simp_all)
qed

lemma execute_buy_ok:
  assumes inv: "cur_inv (currencies s)" and ex: "execute_buy cfg t s = (Inr (), s')"
  obtains u where "s' = xyk_deposit_event (BuyExecuted (t_origin t) (asset_out (t_assets t)) (asset_in (t_assets t))
      (t_amount t) (t_amount_out t)) (s\<lparr>currencies := u\<rparr>)"
    and "cur_inv u" and "burned_fee t \<le> xyk_free cfg s (native_asset_id cfg) (t_origin t)"
    and "cur_free (xyk_currency cfg) u =
      moved (moved (debit (cur_free (xyk_currency cfg) (currencies s)) (native_asset_id cfg) (t_origin t) (burned_fee t))
        (asset_out (t_assets t)) (get_pair_id cfg (t_assets t)) (t_origin t) (t_amount t))
        (asset_in (t_assets t)) (t_origin t) (get_pair_id cfg (t_assets t)) (t_amount_out t)"
    and "cur_issuance (xyk_currency cfg) u = (cur_issuance (xyk_currency cfg) (currencies s))
      (native_asset_id cfg := cur_issuance (xyk_currency cfg) (currencies s) (native_asset_id cfg) - burned_fee t)"
    and "t_origin t = get_pair_id cfg (t_assets t) \<or> t_amount_out t \<le>
      moved (debit (cur_free (xyk_currency cfg) (currencies s)) (native_asset_id cfg) (t_origin t) (burned_fee t))
        (asset_out (t_assets t)) (get_pair_id cfg (t_assets t)) (t_origin t) (t_amount t) (asset_in (t_assets t)) (t_origin t)"
proof -
  from ex obtain s1 s2 s3 where 1: "(if t_discount t \<and> 0 < t_discount_amount t
      then xyk_withdraw cfg (native_asset_id cfg) (t_origin t) (t_discount_amount t) s else (Inr (), s)) = (Inr (), s1)"
    and 2: "xyk_transfer cfg (asset_out (t_assets t)) (get_pair_id cfg (t_assets t)) (t_origin t) (t_amount t) s1 = (Inr (), s2)"
    and 3: "xyk_transfer cfg (asset_in (t_assets t)) (t_origin t) (get_pair_id cfg (t_assets t)) (t_amount_out t) s2 = (Inr (), s3)"
    and s': "s' = xyk_deposit_event (BuyExecuted (t_origin t) (asset_out (t_assets t)) (asset_in (t_assets t))
      (t_amount t) (t_amount_out t)) s3"
    by (auto simp: execute_buy_def Let_def transactional_eq_Inr and_then_eq_Inr)
  show ?thesis by (rule trade_transfers_ok [OF inv 1 2 3]) (rule that, use s' in simp_all)
qed

section \<open>Validation of trades\<close>

lemma validate_sell_Inr:
  assumes "validate_sell cfg who as n min_bought disc s = Inr t"
  obtains fee where "t_origin t = who" and "t_assets t = as" and "t_amount t = n" and "t_discount t = disc"
    and "xyk_exists cfg as s" and "n \<le> xyk_free cfg s (asset_in as) who"
    and "n \<le> xyk_free cfg s (asset_in as) (get_pair_id cfg as) div MAX_IN_RATIO"
    and "fee \<le> n" and "(if disc then discounted_fee n else just_fee n (exchange_fee cfg)) = Some fee"
    and "calculate_out_given_in cfg (xyk_free cfg s (asset_in as) (get_pair_id cfg as))
      (xyk_free cfg s (asset_out as) (get_pair_id cfg as)) (n - fee) = Some (t_amount_out t)"
    and "t_amount_out t < xyk_free cfg s (asset_out as) (get_pair_id cfg as)"
    and "min_bought \<le> t_amount_out t"
    and "burned_fee t \<le> xyk_free cfg s (native_asset_id cfg) who"
  using assms
  by (auto simp: validate_sell_def Let_def try_bind_eq_Inr calculate_discounted_fee_def calculate_fee_def
      discount_fee_amount_def split: if_splits)

lemma validate_buy_Inr:
  assumes "validate_buy cfg who as n max_limit disc s = Inr t"
  obtains price fee where "t_origin t = who" and "t_assets t = as" and "t_amount t = n" and "t_discount t = disc"
    and "xyk_exists cfg as s" and "n < xyk_free cfg s (asset_out as) (get_pair_id cfg as)"
    and "n \<le> xyk_free cfg s (asset_out as) (get_pair_id cfg as) div MAX_OUT_RATIO"
    and "calculate_in_given_out cfg (xyk_free cfg s (asset_out as) (get_pair_id cfg as))
      (xyk_free cfg s (asset_in as) (get_pair_id cfg as)) n = Some price"
    and "(if disc then discounted_fee price else just_fee price (exchange_fee cfg)) = Some fee"
    and "t_amount_out t = price + fee" and "price + fee \<le> max_limit"
    and "price + fee \<le> xyk_free cfg s (asset_in as) who"
    and "burned_fee t \<le> xyk_free cfg s (native_asset_id cfg) who"
  using assms
  by (auto simp: validate_buy_def Let_def try_bind_eq_Inr calculate_discounted_fee_def calculate_fee_def
      discount_fee_amount_def split: if_splits)

section \<open>Liquidity calls\<close>

lemma create_pool_ok:
  assumes inv: "cur_inv (currencies s)" and ok: "create_pool F cfg orig a b n price s = (Inr (), s')"
  obtains who bm share r u where "ensure_signed F orig = Inr who" and "n \<noteq> 0" and "price \<noteq> 0" and "a \<noteq> b"
    and "\<not> xyk_exists cfg \<lparr>asset_in = a, asset_out = b\<rparr> s"
    and "price_mul_int cfg price n = Some bm"
    and "n \<le> xyk_free cfg s a who" and "bm \<le> xyk_free cfg s b who"
    and "get_or_create_asset (asset_pair_name \<lparr>asset_in = a, asset_out = b\<rparr>) (registry s) = (Inr share, r)"
    and "registry s' = r" and "currencies s' = u" and "cur_inv u"
    and "share_token s' = (share_token s)(get_pair_id cfg \<lparr>asset_in = a, asset_out = b\<rparr> \<mapsto> share)"
    and "pool_assets s' = (pool_assets s)(get_pair_id cfg \<lparr>asset_in = a, asset_out = b\<rparr> \<mapsto> (a, b))"
    and "total_liquidity s' = (total_liquidity s)(get_pair_id cfg \<lparr>asset_in = a, asset_out = b\<rparr> \<mapsto>
      (if a < b then n else bm))"
    and "cur_free (xyk_currency cfg) u =
      credit (moved (moved (cur_free (xyk_currency cfg) (currencies s))
        a who (get_pair_id cfg \<lparr>asset_in = a, asset_out = b\<rparr>) n)
        b who (get_pair_id cfg \<lparr>asset_in = a, asset_out = b\<rparr>) bm) share who (if a < b then n else bm)"
    and "cur_issuance (xyk_currency cfg) u = (cur_issuance (xyk_currency cfg) (currencies s))
      (share := cur_issuance (xyk_currency cfg) (currencies s) share + (if a < b then n else bm))"
proof -
  let ?p = "get_pair_id cfg \<lparr>asset_in = a, asset_out = b\<rparr>"
  from ok obtain who bm share r s1 s2 s3 where G: "ensure_signed F orig = Inr who" "n \<noteq> 0" "price \<noteq> 0" "a \<noteq> b"
      "\<not> xyk_exists cfg \<lparr>asset_in = a, asset_out = b\<rparr> s" "price_mul_int cfg price n = Some bm"
      "n \<le> xyk_free cfg s a who" "bm \<le> xyk_free cfg s b who"
      "get_or_create_asset (asset_pair_name \<lparr>asset_in = a, asset_out = b\<rparr>) (registry s) = (Inr share, r)"
    and 1: "xyk_transfer cfg a who ?p n (s\<lparr>registry := r, share_token := (share_token s)(?p \<mapsto> share),
        pool_assets := (pool_assets s)(?p \<mapsto> (a, b))\<rparr>) = (Inr (), s1)"
    and 2: "xyk_transfer cfg b who ?p bm s1 = (Inr (), s2)"
    and 3: "xyk_deposit cfg share who (if a < b then n else bm) s2 = (Inr (), s3)"
    and s': "s' = xyk_deposit_event (PoolCreated who a b (if a < b then n else bm))
        (s3\<lparr>total_liquidity := (total_liquidity s3)(?p \<mapsto> (if a < b then n else bm))\<rparr>)"
    by (auto simp: create_pool_def Let_def transactional_eq_Inr and_then_eq_Inr on_registry_eq
        split: if_splits)
  let ?s0 = "s\<lparr>registry := r, share_token := (share_token s)(?p \<mapsto> share),
        pool_assets := (pool_assets s)(?p \<mapsto> (a, b))\<rparr>"
  have i0: "cur_inv (currencies ?s0)" using inv by simp
  obtain u2 where u2: "s2 = ?s0\<lparr>currencies := u2\<rparr>" "cur_inv u2"
    "cur_free (xyk_currency cfg) u2 = moved (moved (cur_free (xyk_currency cfg) (currencies ?s0)) a who ?p n) b who ?p bm"
    "cur_issuance (xyk_currency cfg) u2 = cur_issuance (xyk_currency cfg) (currencies ?s0)"
    by (rule two_transfers_ok [OF i0 1 2])
  have i2: "cur_inv (currencies s2)" using u2 by simp
  obtain u3 where u3: "s3 = s2\<lparr>currencies := u3\<rparr>" "cur_inv u3"
    "cur_free (xyk_currency cfg) u3 = credit (cur_free (xyk_currency cfg) (currencies s2)) share who (if a < b then n else bm)"
    "cur_issuance (xyk_currency cfg) u3 = (cur_issuance (xyk_currency cfg) (currencies s2))
      (share := cur_issuance (xyk_currency cfg) (currencies s2) share + (if a < b then n else bm))"
    by (rule xyk_deposit_ok [OF i2 3])
  show ?thesis by (rule that [OF G]) (use s' u2 u3 in simp_all)
qed

lemma add_liquidity_ok:
  fixes a b
  defines "p \<equiv> get_pair_id cfg \<lparr>asset_in = a, asset_out = b\<rparr>"
  assumes inv: "cur_inv (currencies s)" and ok: "add_liquidity F cfg orig a b n b_max s = (Inr (), s')"
  obtains who bm sh share u where "ensure_signed F orig = Inr who" and "n \<noteq> 0"
    and "xyk_exists cfg \<lparr>asset_in = a, asset_out = b\<rparr> s" and "n \<le> xyk_free cfg s a who"
    and "calculate_liquidity_in cfg (xyk_free cfg s a p) (xyk_free cfg s b p) n = Some bm"
    and "bm \<le> b_max" and "b_max \<le> xyk_free cfg s b who"
    and "sh = (if a < b then n else bm)" and "0 < sh"
    and "get_total_liquidity s p + sh \<le> U128_MAX" and "share = get_share_token s p"
    and "s' = xyk_deposit_event (LiquidityAdded who a b n bm)
      (s\<lparr>currencies := u, total_liquidity := (total_liquidity s)(p \<mapsto> get_total_liquidity s p + sh)\<rparr>)"
    and "cur_inv u"
    and "cur_free (xyk_currency cfg) u = credit (moved (moved (cur_free (xyk_currency cfg) (currencies s))
        a who p n) b who p bm) share who sh"
    and "cur_issuance (xyk_currency cfg) u = (cur_issuance (xyk_currency cfg) (currencies s))
      (share := cur_issuance (xyk_currency cfg) (currencies s) share + sh)"
proof -
  from ok obtain who bm sh s1 s2 s3 where G: "ensure_signed F orig = Inr who" "n \<noteq> 0"
      "xyk_exists cfg \<lparr>asset_in = a, asset_out = b\<rparr> s" "n \<le> xyk_free cfg s a who"
      "calculate_liquidity_in cfg (xyk_free cfg s a p) (xyk_free cfg s b p) n = Some bm"
      "bm \<le> b_max" "b_max \<le> xyk_free cfg s b who"
      "sh = (if a < b then n else bm)" "0 < sh" "get_total_liquidity s p + sh \<le> U128_MAX"
    and 1: "xyk_transfer cfg a who p n s = (Inr (), s1)"
    and 2: "xyk_transfer cfg b who p bm s1 = (Inr (), s2)"
    and 3: "xyk_deposit cfg (get_share_token s p) who sh s2 = (Inr (), s3)"
    and s': "s' = xyk_deposit_event (LiquidityAdded who a b n bm)
        (s3\<lparr>total_liquidity := (total_liquidity s3)(p \<mapsto> get_total_liquidity s p + sh)\<rparr>)"
    unfolding p_def
    by (auto simp: add_liquidity_def Let_def transactional_eq_Inr and_then_eq_Inr split: if_splits)
  obtain u2 where u2: "s2 = s\<lparr>currencies := u2\<rparr>" "cur_inv u2"
    "cur_free (xyk_currency cfg) u2 = moved (moved (cur_free (xyk_currency cfg) (currencies s)) a who p n) b who p bm"
    "cur_issuance (xyk_currency cfg) u2 = cur_issuance (xyk_currency cfg) (currencies s)"
    by (rule two_transfers_ok [OF inv 1 2])
  have i2: "cur_inv (currencies s2)" using u2 by simp
  obtain u3 where u3: "s3 = s2\<lparr>currencies := u3\<rparr>" "cur_inv u3"
    "cur_free (xyk_currency cfg) u3 = credit (cur_free (xyk_currency cfg) (currencies s2)) (get_share_token s p) who sh"
    "cur_issuance (xyk_currency cfg) u3 = (cur_issuance (xyk_currency cfg) (currencies s2))
      (get_share_token s p := cur_issuance (xyk_currency cfg) (currencies s2) (get_share_token s p) + sh)"
    by (rule xyk_deposit_ok [OF i2 3])
  show ?thesis by (rule that [OF G refl]) (use s' u2 u3 in simp_all)
qed

lemma remove_liquidity_ok:
  fixes a b
  defines "p \<equiv> get_pair_id cfg \<lparr>asset_in = a, asset_out = b\<rparr>"
  assumes inv: "cur_inv (currencies s)" and ok: "remove_liquidity F cfg orig a b l s = (Inr (), s')"
  obtains who am bm share u where "ensure_signed F orig = Inr who" and "l \<noteq> 0"
    and "xyk_exists cfg \<lparr>asset_in = a, asset_out = b\<rparr> s" and "share = get_share_token s p"
    and "l \<le> get_total_liquidity s p" and "l \<le> xyk_free cfg s share who"
    and "calculate_liquidity_out cfg (xyk_free cfg s a p) (xyk_free cfg s b p) l (get_total_liquidity s p) = Some (am, bm)"
    and "am \<le> xyk_free cfg s a p" and "bm \<le> xyk_free cfg s b p"
    and "currencies s' = u" and "cur_inv u" and "registry s' = registry s"
    and "total_liquidity s' = (total_liquidity s)(p \<mapsto> get_total_liquidity s p - l)"
    and "share_token s' = (if l = get_total_liquidity s p then (share_token s)(p := None) else share_token s)"
    and "pool_assets s' = (if l = get_total_liquidity s p then (pool_assets s)(p := None) else pool_assets s)"
    and "cur_free (xyk_currency cfg) u = debit (moved (moved (cur_free (xyk_currency cfg) (currencies s))
        a p who am) b p who bm) share who l"
    and "cur_issuance (xyk_currency cfg) u = (cur_issuance (xyk_currency cfg) (currencies s))
      (share := cur_issuance (xyk_currency cfg) (currencies s) share - l)"
proof -
  let ?share = "get_share_token s p" and ?left = "get_total_liquidity s p - l"
  from ok obtain who am bm s1 s2 s3 s4 where G: "ensure_signed F orig = Inr who" "l \<noteq> 0"
      "xyk_exists cfg \<lparr>asset_in = a, asset_out = b\<rparr> s"
    and G2: "l \<le> get_total_liquidity s p" "l \<le> xyk_free cfg s ?share who"
      "calculate_liquidity_out cfg (xyk_free cfg s a p) (xyk_free cfg s b p) l (get_total_liquidity s p) = Some (am, bm)"
      "am \<le> xyk_free cfg s a p" "bm \<le> xyk_free cfg s b p"
    and 1: "xyk_transfer cfg a p who am s = (Inr (), s1)"
    and 2: "xyk_transfer cfg b p who bm s1 = (Inr (), s2)"
    and 3: "xyk_withdraw cfg ?share who l s2 = (Inr (), s3)"
    and s4: "s4 = xyk_deposit_event (LiquidityRemoved who a b l)
        (s3\<lparr>total_liquidity := (total_liquidity s3)(p \<mapsto> ?left)\<rparr>)"
    and s': "s' = (if ?left = 0 then xyk_deposit_event (PoolDestroyed who a b)
        (s4\<lparr>share_token := (share_token s4)(p := None), pool_assets := (pool_assets s4)(p := None)\<rparr>) else s4)"
    unfolding p_def
    by (auto simp: remove_liquidity_def Let_def transactional_eq_Inr and_then_eq_Inr split: if_splits)
  obtain u2 where u2: "s2 = s\<lparr>currencies := u2\<rparr>" "cur_inv u2"
    "cur_free (xyk_currency cfg) u2 = moved (moved (cur_free (xyk_currency cfg) (currencies s)) a p who am) b p who bm"
    "cur_issuance (xyk_currency cfg) u2 = cur_issuance (xyk_currency cfg) (currencies s)"
    by (rule two_transfers_ok [OF inv 1 2])
  have i2: "cur_inv (currencies s2)" using u2 by simp
  obtain u3 where u3: "s3 = s2\<lparr>currencies := u3\<rparr>" "cur_inv u3"
    "cur_free (xyk_currency cfg) u3 = debit (cur_free (xyk_currency cfg) (currencies s2)) ?share who l"
    "cur_issuance (xyk_currency cfg) u3 = (cur_issuance (xyk_currency cfg) (currencies s2))
      (?share := cur_issuance (xyk_currency cfg) (currencies s2) ?share - l)"
    by (rule xyk_withdraw_ok [OF i2 3])
  have "?left = 0 \<longleftrightarrow> l = get_total_liquidity s p" using G2(1) by auto
  with s' s4 u2 u3 show ?thesis by (intro that [OF G refl G2]) simp_all
qed

text \<open>The calls are transactional: a failed one leaves everything as it was.\<close>

lemma liquidity_Inl:
  "create_pool F cfg orig a b n price s = (Inl e, s') \<Longrightarrow> s' = s"
  "add_liquidity F cfg orig a b n m s = (Inl e, s') \<Longrightarrow> s' = s"
  "remove_liquidity F cfg orig a b n s = (Inl e, s') \<Longrightarrow> s' = s"
  by (simp_all add: create_pool_def add_liquidity_def remove_liquidity_def transactional_eq_Inl)

lemma execute_Inl:
  "execute_sell cfg t s = (Inl e, s') \<Longrightarrow> s' = s" "execute_buy cfg t s = (Inl e, s') \<Longrightarrow> s' = s"
  by (simp_all add: execute_sell_def execute_buy_def transactional_eq_Inl)

lemma trade_Inl:
  "amm_sell (xyk_amm cfg) who as n lim disc s = (Inl e, s') \<Longrightarrow> s' = s"
  "amm_buy (xyk_amm cfg) who as n lim disc s = (Inl e, s') \<Longrightarrow> s' = s"
  by (auto simp: amm_sell_def amm_buy_def xyk_amm_def and_then_eq_Inl dest: execute_Inl)

end

end
