(* ===== verification/XYK_Invariant.thy ===== *)
theory XYK_Invariant
  imports XYK_Laws
begin

text \<open>
  The invariant of the XYK pallet, for pools whose accounts do not collide: every pool has
  the share token the registry gave its pair, the shares in circulation are its total
  liquidity, a token of the registry without a pool has no shares, and neither has an
  identifier not yet given out. Every call keeps it, and so does every transfer.
\<close>

section \<open>Invariant\<close>

definition xyk_inv :: "('acc, 's) xyk_config \<Rightarrow> ('acc, 's) xyk_state \<Rightarrow> bool" where
  "xyk_inv cfg s \<longleftrightarrow>
     registry_inv (registry s) \<and> core_asset_id (registry s) = native_asset_id cfg \<and>
     (\<forall>p t. share_token s p = Some t \<longrightarrow>
        (\<exists>pr. p = get_pair_id cfg pr \<and> asset_ids (registry s) (asset_pair_name pr) = Some (Some t) \<and>
           asset_in pr \<noteq> asset_out pr \<and> pool_assets s p = Some (asset_in pr, asset_out pr)) \<and>
        cur_issuance (xyk_currency cfg) (currencies s) t = get_total_liquidity s p) \<and>
     (\<forall>p. share_token s p = None \<longrightarrow> pool_assets s p = None) \<and>
     (\<forall>pr t. asset_ids (registry s) (asset_pair_name pr) = Some (Some t) \<longrightarrow>
        share_token s (get_pair_id cfg pr) = None \<longrightarrow>
        cur_issuance (xyk_currency cfg) (currencies s) t = 0) \<and>
     (\<forall>c. next_asset_id (registry s) \<le> c \<longrightarrow> cur_issuance (xyk_currency cfg) (currencies s) c = 0)"

lemma xyk_inv_registry: "xyk_inv cfg s \<Longrightarrow> registry_inv (registry s)"
  by (simp add: xyk_inv_def)

lemma xyk_inv_core: "xyk_inv cfg s \<Longrightarrow> core_asset_id (registry s) = native_asset_id cfg"
  by (simp add: xyk_inv_def)

lemma xyk_inv_pool:
  assumes "xyk_inv cfg s" and "share_token s p = Some t"
  obtains pr where "p = get_pair_id cfg pr" and "asset_ids (registry s) (asset_pair_name pr) = Some (Some t)"
    and "asset_in pr \<noteq> asset_out pr" and "pool_assets s p = Some (asset_in pr, asset_out pr)"
    and "cur_issuance (xyk_currency cfg) (currencies s) t = get_total_liquidity s p"
  using assms unfolding xyk_inv_def by blast

lemma xyk_inv_unused:
  "xyk_inv cfg s \<Longrightarrow> asset_ids (registry s) (asset_pair_name pr) = Some (Some t) \<Longrightarrow>
   share_token s (get_pair_id cfg pr) = None \<Longrightarrow> cur_issuance (xyk_currency cfg) (currencies s) t = 0"
  by (simp add: xyk_inv_def)

lemma xyk_inv_future:
  "xyk_inv cfg s \<Longrightarrow> next_asset_id (registry s) \<le> c \<Longrightarrow> cur_issuance (xyk_currency cfg) (currencies s) c = 0"
  by (simp add: xyk_inv_def)

text \<open>Share tokens are below the counter and are not the native asset.\<close>

lemma registered_token:
  assumes "xyk_inv cfg s" and "asset_ids (registry s) name = Some (Some t)"
  shows "t < next_asset_id (registry s)" and "t \<noteq> native_asset_id cfg"
  using assms xyk_inv_core [OF assms(1)] by (auto elim: registry_invD [OF xyk_inv_registry])

text \<open>Two pools, or a pool and an unused name, never share a token.\<close>

lemma token_determines_pool:
  assumes "collision_free cfg" and "xyk_inv cfg s" and "share_token s p = Some t"
    and "asset_ids (registry s) (asset_pair_name pr) = Some (Some t)"
  shows "get_pair_id cfg pr = p"
proof -
  from assms(2,3) obtain pr' where "p = get_pair_id cfg pr'"
    and "asset_ids (registry s) (asset_pair_name pr') = Some (Some t)"
    by (rule xyk_inv_pool)
  with registry_inv_inj [OF xyk_inv_registry [OF assms(2)] assms(4)] get_pair_id_name [OF assms(1)]
  show ?thesis by metis
qed

text \<open>
  The invariant after a change of the supply of one share token: the general step of the
  proofs below. \<open>p\<close> is the pool whose shares change, \<open>t\<close> its token.
\<close>

lemma xyk_inv_step:
  assumes cf: "collision_free cfg" and inv: "xyk_inv cfg s"
    and reg: "registry_inv (registry s')" "core_asset_id (registry s') = core_asset_id (registry s)"
    and ids: "\<And>n v. asset_ids (registry s) n = Some v \<Longrightarrow> asset_ids (registry s') n = Some v"
    and new: "\<And>n v. asset_ids (registry s') n = Some v \<Longrightarrow> asset_ids (registry s) n = Some v \<or> n = asset_pair_name pr"
    and nxt: "next_asset_id (registry s) \<le> next_asset_id (registry s')"
    and tok: "asset_ids (registry s') (asset_pair_name pr) = Some (Some t)"
    and p: "p = get_pair_id cfg pr" "asset_in pr \<noteq> asset_out pr"
    and shares: "share_token s' = (share_token s)(p := (if alive then Some t else None))"
    and pools: "pool_assets s' = (pool_assets s)(p := (if alive then Some (asset_in pr, asset_out pr) else None))"
    and tl: "\<And>q. q \<noteq> p \<Longrightarrow> total_liquidity s' q = total_liquidity s q"
    and iss: "\<And>c. c \<noteq> t \<Longrightarrow> c \<noteq> native_asset_id cfg \<Longrightarrow>
      cur_issuance (xyk_currency cfg) (currencies s') c = cur_issuance (xyk_currency cfg) (currencies s) c"
    and minted: "cur_issuance (xyk_currency cfg) (currencies s') t = (if alive then get_total_liquidity s' p else 0)"
  shows "xyk_inv cfg s'"
proof -
  have core: "core_asset_id (registry s') = native_asset_id cfg" using xyk_inv_core [OF inv] reg(2) by simp
  have t: "t < next_asset_id (registry s')" "t \<noteq> native_asset_id cfg"
    using tok core by (auto elim: registry_invD [OF reg(1)])
  have below: "native_asset_id cfg < next_asset_id (registry s')" using reg(1) core by (simp add: registry_inv_def)
  have other: "u \<noteq> t" if "asset_ids (registry s') (asset_pair_name qr) = Some (Some u)" "get_pair_id cfg qr \<noteq> p" for qr u
    using that registry_inv_inj [OF reg(1) tok] get_pair_id_name [OF cf] p(1) by metis
  have notcore: "u \<noteq> native_asset_id cfg" if "asset_ids (registry s') n = Some (Some u)" for n u
    using that core by (auto elim: registry_invD [OF reg(1)])
  have same: "cur_issuance (xyk_currency cfg) (currencies s') u = cur_issuance (xyk_currency cfg) (currencies s) u"
    if "asset_ids (registry s') (asset_pair_name qr) = Some (Some u)" "get_pair_id cfg qr \<noteq> p" for qr u
    using iss other [OF that] notcore [OF that(1)] by simp
  show ?thesis
    unfolding xyk_inv_def
  proof (intro conjI allI impI)
    fix q u assume u: "share_token s' q = Some u"
    show "\<exists>qr. q = get_pair_id cfg qr \<and> asset_ids (registry s') (asset_pair_name qr) = Some (Some u) \<and>
        asset_in qr \<noteq> asset_out qr \<and> pool_assets s' q = Some (asset_in qr, asset_out qr)"
    proof (cases "q = p")
      case True
      with u shares have "alive" "u = t" by (auto split: if_splits)
      with True p tok pools show ?thesis by auto
    next
      case False
      with u shares have "share_token s q = Some u" by simp
      with inv False show ?thesis by (elim xyk_inv_pool) (auto simp: pools intro!: exI ids)
    qed
    show "cur_issuance (xyk_currency cfg) (currencies s') u = get_total_liquidity s' q"
    proof (cases "q = p")
      case True
      with u shares minted show ?thesis by (auto split: if_splits)
    next
      case False
      with u shares have q: "share_token s q = Some u" by simp
      with inv obtain qr where qr: "q = get_pair_id cfg qr"
        "asset_ids (registry s) (asset_pair_name qr) = Some (Some u)"
        "cur_issuance (xyk_currency cfg) (currencies s) u = get_total_liquidity s q" by (rule xyk_inv_pool)
      with same [OF ids [OF qr(2)]] False tl [OF False] show ?thesis by (simp add: get_total_liquidity_def)
    qed
  next
    fix q assume "share_token s' q = None"
    then show "pool_assets s' q = None"
      using inv shares pools by (auto simp: xyk_inv_def split: if_splits)
  next
    fix qr u assume u: "asset_ids (registry s') (asset_pair_name qr) = Some (Some u)"
      and none: "share_token s' (get_pair_id cfg qr) = None"
    show "cur_issuance (xyk_currency cfg) (currencies s') u = 0"
    proof (cases "get_pair_id cfg qr = p")
      case True
      then have "asset_pair_name qr = asset_pair_name pr" using p(1) get_pair_id_name [OF cf] by metis
      with u tok True none shares minted show ?thesis by (auto split: if_splits)
    next
      case False
      then have "asset_pair_name qr \<noteq> asset_pair_name pr" using p(1) get_pair_id_name [OF cf] by metis
      with new [OF u] have "asset_ids (registry s) (asset_pair_name qr) = Some (Some u)" by simp
      from xyk_inv_unused [OF inv this] none False shares same [OF u False] show ?thesis by simp
    qed
  next
    fix c assume c: "next_asset_id (registry s') \<le> c"
    with t below have "c \<noteq> t" "c \<noteq> native_asset_id cfg" by auto
    with iss xyk_inv_future [OF inv, of c] c nxt show "cur_issuance (xyk_currency cfg) (currencies s') c = 0"
      by simp
  qed (use reg core in auto)
qed

section \<open>Every call keeps it\<close>

locale xyk_pools = xyk_pallet +
  assumes no_collision: "collision_free cfg"
begin

lemma create_pool_inv:
  assumes cur: "cur_inv (currencies s)" and inv: "xyk_inv cfg s"
    and ok: "create_pool F cfg orig a b n price s = (Inr (), s')"
  shows "xyk_inv cfg s' \<and> cur_inv (currencies s')"
proof -
  let ?pr = "\<lparr>asset_in = a, asset_out = b\<rparr>"
  let ?p = "get_pair_id cfg ?pr"
  from cur ok obtain bm share r u where ab: "a \<noteq> b" and fresh: "\<not> xyk_exists cfg ?pr s"
    and reg: "get_or_create_asset (asset_pair_name ?pr) (registry s) = (Inr share, r)"
    and s': "registry s' = r" "currencies s' = u" "cur_inv u"
      "share_token s' = (share_token s)(?p \<mapsto> share)" "pool_assets s' = (pool_assets s)(?p \<mapsto> (a, b))"
      "total_liquidity s' = (total_liquidity s)(?p \<mapsto> (if a < b then n else bm))"
    and iss: "cur_issuance (xyk_currency cfg) u = (cur_issuance (xyk_currency cfg) (currencies s))
      (share := cur_issuance (xyk_currency cfg) (currencies s) share + (if a < b then n else bm))"
    by (rule create_pool_ok)
  have none: "share_token s ?p = None" using fresh by (simp add: xyk_exists_pair)
  have zero: "cur_issuance (xyk_currency cfg) (currencies s) share = 0"
    using get_or_create_asset_Inr [OF reg] none xyk_inv_unused [OF inv, of ?pr share]
      xyk_inv_future [OF inv, of share] by auto
  have "xyk_inv cfg s'"
  proof (rule xyk_inv_step [OF no_collision inv, where pr = ?pr and t = share and p = ?p and alive = True])
    show "registry_inv (registry s')"
      using get_or_create_asset_inv [OF xyk_inv_registry [OF inv] reg] s' by simp
    show "core_asset_id (registry s') = core_asset_id (registry s)"
      "next_asset_id (registry s) \<le> next_asset_id (registry s')"
      using get_or_create_asset_Inr [OF reg] s' by (auto simp: word_le_nat_alt)
    show "asset_ids (registry s) nm = Some v \<Longrightarrow> asset_ids (registry s') nm = Some v" for nm v
      using get_or_create_asset_mono [OF reg] s' by simp
    show "asset_ids (registry s') nm = Some v \<Longrightarrow> asset_ids (registry s) nm = Some v \<or> nm = asset_pair_name ?pr" for nm v
      using get_or_create_asset_other [OF reg] s' by metis
    show "asset_ids (registry s') (asset_pair_name ?pr) = Some (Some share)"
      using get_or_create_asset_lookup [OF reg] s' by simp
  qed (use s' iss zero ab in \<open>simp_all add: get_total_liquidity_def\<close>)
  with s' show ?thesis by simp
qed

lemma existing_pool:
  assumes inv: "xyk_inv cfg s" and ex: "xyk_exists cfg pr s"
  obtains t qr where "share_token s (get_pair_id cfg pr) = Some t"
    and "get_share_token s (get_pair_id cfg pr) = t" and "get_pair_id cfg qr = get_pair_id cfg pr"
    and "asset_ids (registry s) (asset_pair_name qr) = Some (Some t)"
    and "asset_in qr \<noteq> asset_out qr"
    and "pool_assets s (get_pair_id cfg pr) = Some (asset_in qr, asset_out qr)"
    and "cur_issuance (xyk_currency cfg) (currencies s) t = get_total_liquidity s (get_pair_id cfg pr)"
proof -
  from ex obtain t where t: "share_token s (get_pair_id cfg pr) = Some t" by (auto simp: xyk_exists_pair)
  from inv t obtain qr where "get_pair_id cfg pr = get_pair_id cfg qr"
    "asset_ids (registry s) (asset_pair_name qr) = Some (Some t)" "asset_in qr \<noteq> asset_out qr"
    "pool_assets s (get_pair_id cfg pr) = Some (asset_in qr, asset_out qr)"
    "cur_issuance (xyk_currency cfg) (currencies s) t = get_total_liquidity s (get_pair_id cfg pr)"
    by (rule xyk_inv_pool)
  with t that show ?thesis by (simp add: get_share_token_def)
qed

lemma add_liquidity_inv:
  assumes cur: "cur_inv (currencies s)" and inv: "xyk_inv cfg s"
    and ok: "add_liquidity F cfg orig a b n m s = (Inr (), s')"
  shows "xyk_inv cfg s' \<and> cur_inv (currencies s')"
proof -
  let ?pr = "\<lparr>asset_in = a, asset_out = b\<rparr>"
  let ?p = "get_pair_id cfg ?pr"
  from cur ok obtain who bm sh share u where ex: "xyk_exists cfg ?pr s" and share: "share = get_share_token s ?p"
    and s': "s' = xyk_deposit_event (LiquidityAdded who a b n bm)
      (s\<lparr>currencies := u, total_liquidity := (total_liquidity s)(?p \<mapsto> get_total_liquidity s ?p + sh)\<rparr>)"
    and u: "cur_inv u" and iss: "cur_issuance (xyk_currency cfg) u = (cur_issuance (xyk_currency cfg) (currencies s))
      (share := cur_issuance (xyk_currency cfg) (currencies s) share + sh)"
    by (rule add_liquidity_ok)
  from inv ex obtain t qr where t: "share_token s ?p = Some t" "get_share_token s ?p = t"
    and qr: "get_pair_id cfg qr = ?p" "asset_ids (registry s) (asset_pair_name qr) = Some (Some t)"
      "asset_in qr \<noteq> asset_out qr" "pool_assets s ?p = Some (asset_in qr, asset_out qr)"
    and sup: "cur_issuance (xyk_currency cfg) (currencies s) t = get_total_liquidity s ?p"
    by (rule existing_pool)
  have "xyk_inv cfg s'"
    by (rule xyk_inv_step [OF no_collision inv, where pr = qr and t = t and p = ?p and alive = True])
      (use s' u iss share t qr sup xyk_inv_registry [OF inv] in
        \<open>simp_all add: get_total_liquidity_def fun_upd_idem\<close>)
  with s' u show ?thesis by simp
qed

lemma remove_liquidity_inv:
  assumes cur: "cur_inv (currencies s)" and inv: "xyk_inv cfg s"
    and ok: "remove_liquidity F cfg orig a b l s = (Inr (), s')"
  shows "xyk_inv cfg s' \<and> cur_inv (currencies s')"
proof -
  let ?pr = "\<lparr>asset_in = a, asset_out = b\<rparr>"
  let ?p = "get_pair_id cfg ?pr"
  from cur ok obtain share u where ex: "xyk_exists cfg ?pr s" and share: "share = get_share_token s ?p"
    and l: "l \<le> get_total_liquidity s ?p"
    and s': "currencies s' = u" "cur_inv u" "registry s' = registry s"
      "total_liquidity s' = (total_liquidity s)(?p \<mapsto> get_total_liquidity s ?p - l)"
      "share_token s' = (if l = get_total_liquidity s ?p then (share_token s)(?p := None) else share_token s)"
      "pool_assets s' = (if l = get_total_liquidity s ?p then (pool_assets s)(?p := None) else pool_assets s)"
    and iss: "cur_issuance (xyk_currency cfg) u = (cur_issuance (xyk_currency cfg) (currencies s))
      (share := cur_issuance (xyk_currency cfg) (currencies s) share - l)"
    by (rule remove_liquidity_ok)
  from inv ex obtain t qr where t: "share_token s ?p = Some t" "get_share_token s ?p = t"
    and qr: "get_pair_id cfg qr = ?p" "asset_ids (registry s) (asset_pair_name qr) = Some (Some t)"
      "asset_in qr \<noteq> asset_out qr" "pool_assets s ?p = Some (asset_in qr, asset_out qr)"
    and sup: "cur_issuance (xyk_currency cfg) (currencies s) t = get_total_liquidity s ?p"
    by (rule existing_pool)
  have "xyk_inv cfg s'"
    by (rule xyk_inv_step [OF no_collision inv, where pr = qr and t = t and p = ?p
          and alive = "l \<noteq> get_total_liquidity s ?p"])
      (use s' iss share t qr sup xyk_inv_registry [OF inv] in
        \<open>simp_all add: get_total_liquidity_def fun_upd_idem\<close>)
  with s' show ?thesis by simp
qed

text \<open>Only the supply of the native asset changes, if any.\<close>

lemma xyk_inv_native:
  assumes inv: "xyk_inv cfg s"
    and same: "registry s' = registry s" "share_token s' = share_token s"
      "total_liquidity s' = total_liquidity s" "pool_assets s' = pool_assets s"
    and iss: "\<And>c. c \<noteq> native_asset_id cfg \<Longrightarrow>
      cur_issuance (xyk_currency cfg) (currencies s') c = cur_issuance (xyk_currency cfg) (currencies s) c"
  shows "xyk_inv cfg s'"
proof -
  have below: "native_asset_id cfg < next_asset_id (registry s)"
    using xyk_inv_registry [OF inv] xyk_inv_core [OF inv] by (auto simp: registry_inv_def)
  have tok: "cur_issuance (xyk_currency cfg) (currencies s') t = cur_issuance (xyk_currency cfg) (currencies s) t"
    if "asset_ids (registry s) n = Some (Some t)" for n t
    using iss registered_token(2) [OF inv that] .
  have tl: "get_total_liquidity s' = get_total_liquidity s"
    by (simp add: get_total_liquidity_def [abs_def] same)
  show ?thesis
    unfolding xyk_inv_def same
  proof (intro conjI allI impI)
    fix p t assume st: "share_token s p = Some t"
    from inv st obtain pr where pr: "p = get_pair_id cfg pr" "asset_ids (registry s) (asset_pair_name pr) = Some (Some t)"
      "asset_in pr \<noteq> asset_out pr" "pool_assets s p = Some (asset_in pr, asset_out pr)"
      and iss': "cur_issuance (xyk_currency cfg) (currencies s) t = get_total_liquidity s p"
      by (rule xyk_inv_pool)
    from pr show "\<exists>pr. p = get_pair_id cfg pr \<and> asset_ids (registry s) (asset_pair_name pr) = Some (Some t) \<and>
        asset_in pr \<noteq> asset_out pr \<and> pool_assets s p = Some (asset_in pr, asset_out pr)" by blast
    show "cur_issuance (xyk_currency cfg) (currencies s') t = get_total_liquidity s' p"
      using tok [OF pr(2)] iss' tl by simp
  next
    fix c assume "next_asset_id (registry s) \<le> c"
    with iss [of c] xyk_inv_future [OF inv, of c] below
    show "cur_issuance (xyk_currency cfg) (currencies s') c = 0" by auto
  next
    fix pr t assume "asset_ids (registry s) (asset_pair_name pr) = Some (Some t)"
      and "share_token s (get_pair_id cfg pr) = None"
    with xyk_inv_unused [OF inv] tok show "cur_issuance (xyk_currency cfg) (currencies s') t = 0" by simp
  next
    fix p assume "share_token s p = None"
    with inv show "pool_assets s p = None" by (simp add: xyk_inv_def)
  qed (use xyk_inv_registry [OF inv] xyk_inv_core [OF inv] in simp_all)
qed

lemma execute_inv:
  assumes cur: "cur_inv (currencies s)" and inv: "xyk_inv cfg s"
    and ok: "execute_sell cfg t s = (Inr (), s') \<or> execute_buy cfg t s = (Inr (), s')"
  shows "xyk_inv cfg s' \<and> cur_inv (currencies s')"
  using ok
proof
  assume "execute_sell cfg t s = (Inr (), s')"
  with cur show ?thesis
    by (rule execute_sell_ok) (use inv in \<open>auto intro: xyk_inv_native\<close>)
next
  assume "execute_buy cfg t s = (Inr (), s')"
  with cur show ?thesis
    by (rule execute_buy_ok) (use inv in \<open>auto intro: xyk_inv_native\<close>)
qed

lemma trade_inv:
  assumes cur: "cur_inv (currencies s)" and inv: "xyk_inv cfg s"
    and "amm_sell (xyk_amm cfg) who as n lim disc s = (r, s') \<or> amm_buy (xyk_amm cfg) who as n lim disc s = (r, s')"
  shows "xyk_inv cfg s' \<and> cur_inv (currencies s')"
proof (cases r)
  case (Inl e)
  with assms show ?thesis using trade_Inl by blast
next
  case (Inr u)
  with assms(3) obtain t where "execute_sell cfg t s = (Inr (), s') \<or> execute_buy cfg t s = (Inr (), s')"
    by (auto simp: amm_sell_def amm_buy_def xyk_amm_def and_then_eq_Inr)
  with execute_inv [OF cur inv] show ?thesis by blast
qed

end

section \<open>The pallet as a transition system\<close>

text \<open>The calls of the pallet, and transfers of any asset between any two accounts.\<close>

inductive xyk_step ::
  "('o, 'src, 'acc) frame_ops \<Rightarrow> ('acc, 's) xyk_config \<Rightarrow> ('acc, 's) xyk_state \<Rightarrow> ('acc, 's) xyk_state \<Rightarrow> bool"
  for F cfg where
  step_create: "create_pool F cfg orig a b n price s = (r, s') \<Longrightarrow> xyk_step F cfg s s'"
| step_add: "add_liquidity F cfg orig a b n m s = (r, s') \<Longrightarrow> xyk_step F cfg s s'"
| step_remove: "remove_liquidity F cfg orig a b l s = (r, s') \<Longrightarrow> xyk_step F cfg s s'"
| step_sell: "xyk_sell F cfg orig a b n lim disc s = (r, s') \<Longrightarrow> xyk_step F cfg s s'"
| step_buy: "xyk_buy F cfg orig a b n lim disc s = (r, s') \<Longrightarrow> xyk_step F cfg s s'"
| step_move: "xyk_transfer cfg c x y n s = (r, s') \<Longrightarrow> xyk_step F cfg s s'"

inductive_cases xyk_stepE: "xyk_step F cfg s s'"

definition xyk_reaches ::
  "('o, 'src, 'acc) frame_ops \<Rightarrow> ('acc, 's) xyk_config \<Rightarrow> ('acc, 's) xyk_state \<Rightarrow> ('acc, 's) xyk_state \<Rightarrow> bool" where
  "xyk_reaches F cfg = (xyk_step F cfg)\<^sup>*\<^sup>*"

lemma xyk_reaches_step: "xyk_step F cfg s s' \<Longrightarrow> xyk_reaches F cfg s s'"
  unfolding xyk_reaches_def by (rule r_into_rtranclp)

subsection \<open>The life of a pool\<close>

lemma xyk_move_pools [simp]:
  "xyk_transfer cfg c x y n s = (r, s') \<Longrightarrow> share_token s' = share_token s"
  "xyk_withdraw cfg c x n s = (r, s') \<Longrightarrow> share_token s' = share_token s"
  "xyk_deposit cfg c x n s = (r, s') \<Longrightarrow> share_token s' = share_token s"
  by (auto simp: xyk_transfer_def xyk_withdraw_def xyk_deposit_def on_currency_eq)

lemma trades_pools:
  "execute_sell cfg t s = (r, s') \<Longrightarrow> share_token s' = share_token s"
  "execute_buy cfg t s = (r, s') \<Longrightarrow> share_token s' = share_token s"
  by (cases r; auto simp: execute_sell_def execute_buy_def transactional_eq_Inl transactional_eq_Inr Let_def
      and_then_eq_Inr xyk_deposit_event_def split: if_splits)+

lemma calls_pools:
  "xyk_sell F cfg orig a b n lim disc s = (r, s') \<Longrightarrow> share_token s' = share_token s"
  "xyk_buy F cfg orig a b n lim disc s = (r, s') \<Longrightarrow> share_token s' = share_token s"
  by (auto simp: xyk_sell_def xyk_buy_def amm_sell_def amm_buy_def xyk_amm_def and_then_def
      split: sum.splits prod.splits dest: trades_pools)

lemma add_liquidity_pools:
  "add_liquidity F cfg orig a b n m s = (r, s') \<Longrightarrow> share_token s' = share_token s"
  by (cases r) (auto simp: add_liquidity_def transactional_eq_Inl transactional_eq_Inr Let_def and_then_eq_Inr
      xyk_deposit_event_def split: if_splits)

lemma create_pool_pools:
  "create_pool F cfg orig a b n price s = (r, s') \<Longrightarrow> share_token s q \<noteq> None \<Longrightarrow> share_token s' q \<noteq> None"
  by (cases r) (auto simp: create_pool_def transactional_eq_Inl transactional_eq_Inr Let_def and_then_eq_Inr
      on_registry_eq xyk_deposit_event_def split: if_splits)

text \<open>Only redeeming the whole recorded liquidity removes a pool.\<close>

lemma remove_liquidity_pools:
  assumes "remove_liquidity F cfg orig a b l s = (r, s')"
  shows "share_token s' = share_token s \<or>
    share_token s' = (share_token s)(get_pair_id cfg \<lparr>asset_in = a, asset_out = b\<rparr> := None) \<and>
      r = Inr () \<and> l = get_total_liquidity s (get_pair_id cfg \<lparr>asset_in = a, asset_out = b\<rparr>)"
  using assms
  by (cases r) (auto simp: remove_liquidity_def transactional_eq_Inl transactional_eq_Inr Let_def and_then_eq_Inr
      xyk_deposit_event_def split: if_splits)

text \<open>A call that redeems the whole recorded liquidity of the pool \<open>q\<close>.\<close>

definition empties ::
  "('o, 'src, 'acc) frame_ops \<Rightarrow> ('acc, 's) xyk_config \<Rightarrow> 'acc \<Rightarrow> ('acc, 's) xyk_state \<Rightarrow> ('acc, 's) xyk_state \<Rightarrow> bool" where
  "empties F cfg q s s' \<longleftrightarrow> (\<exists>orig a b. get_pair_id cfg \<lparr>asset_in = a, asset_out = b\<rparr> = q \<and>
     remove_liquidity F cfg orig a b (get_total_liquidity s q) s = (Inr (), s'))"

lemma empties_pool: "empties F cfg q s s' \<Longrightarrow> share_token s' q = None"
  by (auto simp: empties_def remove_liquidity_def transactional_eq_Inr Let_def and_then_eq_Inr
      xyk_deposit_event_def split: if_splits)

lemma step_pools:
  assumes "xyk_step F cfg s s'" and "share_token s q \<noteq> None" and "\<not> empties F cfg q s s'"
  shows "share_token s' q \<noteq> None"
  using assms(1)
proof (cases rule: xyk_step.cases)
  case (step_create orig a b n price r)
  from create_pool_pools [OF step_create assms(2)] show ?thesis .
next
  case (step_remove orig a b l r)
  with remove_liquidity_pools [OF step_remove] assms(2,3) show ?thesis
    by (cases "q = get_pair_id cfg \<lparr>asset_in = a, asset_out = b\<rparr>") (auto simp: empties_def)
qed (use assms(2) in \<open>auto dest: add_liquidity_pools calls_pools\<close>)

lemma reaches_pools:
  "(\<lambda>t t'. xyk_step F cfg t t' \<and> \<not> empties F cfg q t t')\<^sup>*\<^sup>* s s' \<Longrightarrow> share_token s q \<noteq> None \<Longrightarrow> share_token s' q \<noteq> None"
  by (induction rule: rtranclp_induct) (auto dest: step_pools)

context xyk_pools
begin

lemma transfer_inv:
  assumes "cur_inv (currencies s)" and "xyk_inv cfg s" and "xyk_transfer cfg c x y n s = (r, s')"
  shows "xyk_inv cfg s' \<and> cur_inv (currencies s')"
proof (cases r)
  case (Inl e)
  with assms(3) obtain t where "cur_transfer (xyk_currency cfg) c x y n (currencies s) = (Inl e, t)"
    "s' = s\<lparr>currencies := t\<rparr>"
    by (auto simp: xyk_transfer_def on_currency_eq)
  with transfer_err [OF assms(1), of c x y n e t] assms show ?thesis by simp
next
  case (Inr v)
  with assms(3) have tr: "xyk_transfer cfg c x y n s = (Inr (), s')" by simp
  show ?thesis
    by (rule xyk_transfer_ok [OF assms(1) tr]) (use assms(2) in \<open>auto intro: xyk_inv_native\<close>)
qed

lemma call_trade_inv:
  assumes "cur_inv (currencies s)" and "xyk_inv cfg s"
    and "xyk_sell F cfg orig a b n lim disc s = (r, s') \<or> xyk_buy F cfg orig a b n lim disc s = (r, s')"
  shows "xyk_inv cfg s' \<and> cur_inv (currencies s')"
proof (cases "ensure_signed F orig")
  case (Inl e)
  with assms show ?thesis by (auto simp: xyk_sell_def xyk_buy_def)
next
  case (Inr who)
  with assms(3) have "amm_sell (xyk_amm cfg) who \<lparr>asset_in = a, asset_out = b\<rparr> n lim disc s = (r, s') \<or>
      amm_buy (xyk_amm cfg) who \<lparr>asset_in = b, asset_out = a\<rparr> n lim disc s = (r, s')"
    by (auto simp: xyk_sell_def xyk_buy_def)
  with trade_inv [OF assms(1,2)] show ?thesis by blast
qed

lemma xyk_step_inv:
  "xyk_step F cfg s s' \<Longrightarrow> xyk_inv cfg s \<and> cur_inv (currencies s) \<Longrightarrow> xyk_inv cfg s' \<and> cur_inv (currencies s')"
proof (induction rule: xyk_step.induct)
  case (step_create orig a b n price s r s')
  then show ?case by (cases r) (auto dest: create_pool_inv liquidity_Inl)
next
  case (step_add orig a b n m s r s')
  then show ?case by (cases r) (auto dest: add_liquidity_inv liquidity_Inl)
next
  case (step_remove orig a b l s r s')
  then show ?case by (cases r) (auto dest: remove_liquidity_inv liquidity_Inl)
next
  case (step_sell orig a b n lim disc s r s')
  then show ?case using call_trade_inv [of s F orig a b n lim disc r s'] by blast
next
  case (step_buy orig a b n lim disc s r s')
  then show ?case using call_trade_inv [of s F orig a b n lim disc r s'] by blast
next
  case (step_move c x y n s r s')
  then show ?case using transfer_inv by blast
qed

lemma xyk_reaches_inv:
  "xyk_reaches F cfg s s' \<Longrightarrow> xyk_inv cfg s \<and> cur_inv (currencies s) \<Longrightarrow> xyk_inv cfg s' \<and> cur_inv (currencies s')"
  unfolding xyk_reaches_def by (induction rule: rtranclp_induct) (auto dest: xyk_step_inv)

end

section \<open>What the formulas promise\<close>

text \<open>
  The constant-product formulas of the mathematics crate. Both prices are rounded up, as the
  tests of the pallet fix them: the amount paid out of a sell exceeds the exact one by at most one
  unit, the amount asked for a buy is at least the exact one. A share redeems at most its part of
  each reserve.
\<close>

definition constant_product :: "('acc, 's) xyk_config \<Rightarrow> bool" where
  "constant_product cfg \<longleftrightarrow>
     (\<forall>x y a out. calculate_out_given_in cfg x y a = Some out \<longrightarrow> out * (x + a) \<le> y * a + (x + a)) \<and>
     (\<forall>x y out inn. calculate_in_given_out cfg y x out = Some inn \<longrightarrow> x * out \<le> inn * (y - out)) \<and>
     (\<forall>x y l t am bm. calculate_liquidity_out cfg x y l t = Some (am, bm) \<longrightarrow> am * t \<le> x * l \<and> bm * t \<le> y * l)"

text \<open>The rounding of the price of a sell, which the seller gains from.\<close>

definition sale_rounded_up :: "('acc, 's) xyk_config \<Rightarrow> bool" where
  "sale_rounded_up cfg \<longleftrightarrow>
     (\<forall>x y a out. calculate_out_given_in cfg x y a = Some out \<longrightarrow> y * a \<le> out * (x + a))"

lemma product_after_sell:
  fixes x y a fee out :: nat
  assumes "out * (x + a) \<le> y * a + (x + a)" and "out \<le> y"
  shows "x * y + fee * (y - out + 1) \<le> (x + (a + fee)) * (y - out + 1)"
proof -
  have "x * y + out * (x + a) \<le> (x + a) * (y + 1)" using assms(1) by (simp add: algebra_simps)
  also have "(x + a) * (y + 1) = (x + a) * (y - out + 1) + out * (x + a)"
    using assms(2) by (metis add.commute add_diff_assoc add_mult_distrib2 le_add_diff_inverse2 mult.commute trans_le_add1)
  finally have "x * y \<le> (x + a) * (y - out + 1)" by simp
  then show ?thesis by (simp add: algebra_simps)
qed

text \<open>The fee makes up for the rounding as soon as it is worth one unit of the bought asset.\<close>

lemma fee_covers_rounding:
  fixes u v w fee :: nat
  assumes "u + fee * (w + 1) \<le> v * (w + 1)" and "v \<le> fee * (w + 1)"
  shows "u \<le> v * w"
  using assms by (simp add: algebra_simps)

lemma product_falls:
  fixes x y a out :: nat
  assumes "y * a \<le> out * (x + a)" and "\<not> (x + a) dvd y * a" and "out \<le> y"
  shows "(x + a) * (y - out) < x * y"
proof -
  have "y * a \<noteq> out * (x + a)" using assms(2) by auto
  then have "y * a < out * (x + a)" using assms(1) by simp
  moreover have "(x + a) * y = (x + a) * (y - out) + out * (x + a)"
    using assms(3) by (metis add_mult_distrib2 le_add_diff_inverse2 mult.commute)
  ultimately show ?thesis by (simp add: algebra_simps)
qed

lemma product_after_buy:
  fixes x y inn paid out :: nat
  assumes "x * out \<le> inn * (y - out)" and "inn \<le> paid" and "out \<le> y"
  shows "x * y \<le> (x + paid) * (y - out)"
proof -
  have "x * y = x * (y - out) + x * out" using assms(3) by (metis add_mult_distrib2 le_add_diff_inverse2)
  also have "\<dots> \<le> x * (y - out) + paid * (y - out)"
    using assms(1,2) by (meson add_left_mono le_trans mult_le_mono1)
  finally show ?thesis by (simp add: add_mult_distrib)
qed

end
