(* ===== verification/XYK_Props.thy ===== *)
theory XYK_Props
  imports XYK_Invariant
begin

text \<open>
  Properties of the XYK pallet, with a concrete market for their witnesses: the contracts of
  \<open>xyk_pools\<close> interpreted on one balances pallet per asset, with the constant-product
  formulas and an injective account derivation.
\<close>

section \<open>Lemmas\<close>

context xyk_pallet
begin

lemma sell_effect:
  assumes cur: "cur_inv (currencies s)" and ok: "amm_sell (xyk_amm cfg) who as n lim disc s = (Inr (), s')"
  obtains t u fee where "validate_sell cfg who as n lim disc s = Inr t"
    and "fee \<le> n" and "(if disc then discounted_fee n else just_fee n (exchange_fee cfg)) = Some fee"
    and "calculate_out_given_in cfg (xyk_free cfg s (asset_in as) (get_pair_id cfg as))
      (xyk_free cfg s (asset_out as) (get_pair_id cfg as)) (n - fee) = Some (t_amount_out t)"
    and "lim \<le> t_amount_out t" and "t_amount_out t < xyk_free cfg s (asset_out as) (get_pair_id cfg as)"
    and "n \<le> xyk_free cfg s (asset_in as) who"
    and "currencies s' = u" and "cur_inv u"
    and "cur_free (xyk_currency cfg) u =
      moved (moved (debit (cur_free (xyk_currency cfg) (currencies s)) (native_asset_id cfg) who (burned_fee t))
        (asset_in as) who (get_pair_id cfg as) n) (asset_out as) (get_pair_id cfg as) who (t_amount_out t)"
proof -
  from ok obtain t where v: "validate_sell cfg who as n lim disc s = Inr t" and ex: "execute_sell cfg t s = (Inr (), s')"
    by (auto simp: amm_sell_def xyk_amm_def and_then_eq_Inr)
  from v obtain fee where t: "t_origin t = who" "t_assets t = as" "t_amount t = n"
    and F: "n \<le> xyk_free cfg s (asset_in as) who" "fee \<le> n"
      "(if disc then discounted_fee n else just_fee n (exchange_fee cfg)) = Some fee" "calculate_out_given_in cfg (xyk_free cfg s (asset_in as) (get_pair_id cfg as))
      (xyk_free cfg s (asset_out as) (get_pair_id cfg as)) (n - fee) = Some (t_amount_out t)"
      "t_amount_out t < xyk_free cfg s (asset_out as) (get_pair_id cfg as)" "lim \<le> t_amount_out t"
    by (rule validate_sell_Inr)
  show ?thesis
    by (rule execute_sell_ok [OF cur ex]) (rule that [OF v F(2,3,4,6,5,1)], use t in simp_all)
qed

lemma buy_effect:
  assumes cur: "cur_inv (currencies s)" and ok: "amm_buy (xyk_amm cfg) who as n lim disc s = (Inr (), s')"
  obtains t u price where "validate_buy cfg who as n lim disc s = Inr t"
    and "calculate_in_given_out cfg (xyk_free cfg s (asset_out as) (get_pair_id cfg as))
      (xyk_free cfg s (asset_in as) (get_pair_id cfg as)) n = Some price"
    and "price \<le> t_amount_out t" and "t_amount_out t \<le> lim"
    and "n < xyk_free cfg s (asset_out as) (get_pair_id cfg as)"
    and "t_amount_out t \<le> xyk_free cfg s (asset_in as) who"
    and "currencies s' = u" and "cur_inv u"
    and "cur_free (xyk_currency cfg) u =
      moved (moved (debit (cur_free (xyk_currency cfg) (currencies s)) (native_asset_id cfg) who (burned_fee t))
        (asset_out as) (get_pair_id cfg as) who n) (asset_in as) who (get_pair_id cfg as) (t_amount_out t)"
proof -
  from ok obtain t where v: "validate_buy cfg who as n lim disc s = Inr t" and ex: "execute_buy cfg t s = (Inr (), s')"
    by (auto simp: amm_buy_def xyk_amm_def and_then_eq_Inr)
  from v obtain price fee where t: "t_origin t = who" "t_assets t = as" "t_amount t = n"
    and F: "n < xyk_free cfg s (asset_out as) (get_pair_id cfg as)"
      "calculate_in_given_out cfg (xyk_free cfg s (asset_out as) (get_pair_id cfg as))
      (xyk_free cfg s (asset_in as) (get_pair_id cfg as)) n = Some price"
      "t_amount_out t = price + fee" "price + fee \<le> lim" "price + fee \<le> xyk_free cfg s (asset_in as) who"
    by (rule validate_buy_Inr)
  show ?thesis
    by (rule execute_buy_ok [OF cur ex]) (rule that [OF v F(2)], use t F in simp_all)
qed

end

lemma pool_reserves_after:
  assumes "who \<noteq> p" and "a \<noteq> b"
  shows "moved (moved (debit f c who m) a who p n) b p who k a p = f a p + n"
    and "moved (moved (debit f c who m) a who p n) b p who k b p = f b p - k"
    and "moved (moved (debit f c who m) b p who k) a who p n a p = f a p + n"
    and "moved (moved (debit f c who m) b p who k) a who p n b p = f b p - k"
  using assms by (auto simp: ledger_apply)

context xyk_pallet
begin

lemma sell_reserves:
  assumes cur: "cur_inv (currencies s)"
    and who: "who \<noteq> get_pair_id cfg as" and ab: "asset_in as \<noteq> asset_out as"
    and ok: "amm_sell (xyk_amm cfg) who as n lim disc s = (Inr (), s')"
  defines "p \<equiv> get_pair_id cfg as" and "a \<equiv> asset_in as" and "b \<equiv> asset_out as"
  obtains out fee where "(if disc then discounted_fee n else just_fee n (exchange_fee cfg)) = Some fee"
    and "fee \<le> n" and "calculate_out_given_in cfg (xyk_free cfg s a p) (xyk_free cfg s b p) (n - fee) = Some out"
    and "lim \<le> out" and "out < xyk_free cfg s b p"
    and "xyk_free cfg s' a p = xyk_free cfg s a p + n" and "xyk_free cfg s' b p = xyk_free cfg s b p - out"
proof -
  from cur ok obtain t u fee where fee: "fee \<le> n"
    "(if disc then discounted_fee n else just_fee n (exchange_fee cfg)) = Some fee"
    and out: "calculate_out_given_in cfg (xyk_free cfg s a p) (xyk_free cfg s b p) (n - fee) = Some (t_amount_out t)"
    and lim: "lim \<le> t_amount_out t" "t_amount_out t < xyk_free cfg s b p"
    and u: "currencies s' = u" and free: "cur_free (xyk_currency cfg) u =
      moved (moved (debit (cur_free (xyk_currency cfg) (currencies s)) (native_asset_id cfg) who (burned_fee t))
        a who p n) b p who (t_amount_out t)"
    unfolding p_def a_def b_def by (rule sell_effect)
  have "xyk_free cfg s' a p = xyk_free cfg s a p + n" "xyk_free cfg s' b p = xyk_free cfg s b p - t_amount_out t"
    using pool_reserves_after(1,2) [OF who ab] by (simp_all add: xyk_free_def u free p_def a_def b_def)
  then show ?thesis by (rule that [OF fee(2,1) out lim])
qed

lemma buy_product:
  assumes cp: "constant_product cfg" and cur: "cur_inv (currencies s)"
    and who: "who \<noteq> get_pair_id cfg as" and ab: "asset_in as \<noteq> asset_out as"
    and ok: "amm_buy (xyk_amm cfg) who as n lim disc s = (Inr (), s')"
  defines "p \<equiv> get_pair_id cfg as" and "a \<equiv> asset_in as" and "b \<equiv> asset_out as"
  shows "\<exists>paid. paid \<le> lim \<and> n < xyk_free cfg s b p \<and>
      xyk_free cfg s' a p = xyk_free cfg s a p + paid \<and> xyk_free cfg s' b p = xyk_free cfg s b p - n \<and>
      xyk_free cfg s a p * xyk_free cfg s b p \<le> xyk_free cfg s' a p * xyk_free cfg s' b p"
proof -
  from cur ok obtain t u price where
    price: "calculate_in_given_out cfg (xyk_free cfg s b p) (xyk_free cfg s a p) n = Some price" "price \<le> t_amount_out t"
    and lim: "t_amount_out t \<le> lim" "n < xyk_free cfg s b p"
    and u: "currencies s' = u" and free: "cur_free (xyk_currency cfg) u =
      moved (moved (debit (cur_free (xyk_currency cfg) (currencies s)) (native_asset_id cfg) who (burned_fee t))
        b p who n) a who p (t_amount_out t)"
    unfolding p_def a_def b_def by (rule buy_effect)
  have r: "xyk_free cfg s' a p = xyk_free cfg s a p + t_amount_out t" "xyk_free cfg s' b p = xyk_free cfg s b p - n"
    using pool_reserves_after(3,4) [OF who ab] by (simp_all add: xyk_free_def u free p_def a_def b_def)
  have "xyk_free cfg s a p * n \<le> price * (xyk_free cfg s b p - n)"
    using cp price(1) by (simp add: constant_product_def)
  then have "xyk_free cfg s a p * xyk_free cfg s b p \<le> (xyk_free cfg s a p + t_amount_out t) * (xyk_free cfg s b p - n)"
    by (rule product_after_buy) (use price lim in auto)
  with r lim show ?thesis by auto
qed

text \<open>Redeeming shares leaves every other share with at least its part of the reserves.\<close>

lemma remove_fair:
  assumes cp: "constant_product cfg" and cur: "cur_inv (currencies s)"
    and who: "ensure_signed F orig = Inr who" "who \<noteq> get_pair_id cfg \<lparr>asset_in = a, asset_out = b\<rparr>" and ab: "a \<noteq> b"
    and sh: "get_share_token s (get_pair_id cfg \<lparr>asset_in = a, asset_out = b\<rparr>) \<notin> {a, b}"
    and ok: "remove_liquidity F cfg orig a b l s = (Inr (), s')"
  defines "p \<equiv> get_pair_id cfg \<lparr>asset_in = a, asset_out = b\<rparr>"
  shows "get_total_liquidity s' p + l = get_total_liquidity s p \<and>
    xyk_free cfg s' (get_share_token s p) who + l = xyk_free cfg s (get_share_token s p) who \<and>
    (\<forall>c\<in>{a, b}. xyk_free cfg s' c p + xyk_free cfg s' c who = xyk_free cfg s c p + xyk_free cfg s c who \<and>
       xyk_free cfg s c p * get_total_liquidity s' p \<le> xyk_free cfg s' c p * get_total_liquidity s p)"
proof -
  from cur ok obtain who' am bm share u where who': "ensure_signed F orig = Inr who'"
    and share: "share = get_share_token s p" and l: "l \<le> get_total_liquidity s p" "l \<le> xyk_free cfg s share who'"
    and out: "calculate_liquidity_out cfg (xyk_free cfg s a p) (xyk_free cfg s b p) l (get_total_liquidity s p) = Some (am, bm)"
    and le: "am \<le> xyk_free cfg s a p" "bm \<le> xyk_free cfg s b p"
    and s': "currencies s' = u" "total_liquidity s' = (total_liquidity s)(p \<mapsto> get_total_liquidity s p - l)"
    and free: "cur_free (xyk_currency cfg) u = debit (moved (moved (cur_free (xyk_currency cfg) (currencies s))
        a p who' am) b p who' bm) share who' l"
    unfolding p_def by (rule remove_liquidity_ok)
  have w: "who' = who" using who' who(1) by simp
  have tl: "get_total_liquidity s' p = get_total_liquidity s p - l" by (simp add: get_total_liquidity_def s')
  have wp: "who \<noteq> p" using who(2) by (simp add: p_def)
  have shab: "share \<noteq> a" "share \<noteq> b" using sh share by (auto simp: p_def)
  have f: "xyk_free cfg s' a p = xyk_free cfg s a p - am" "xyk_free cfg s' a who = xyk_free cfg s a who + am"
    "xyk_free cfg s' b p = xyk_free cfg s b p - bm" "xyk_free cfg s' b who = xyk_free cfg s b who + bm"
    "xyk_free cfg s' share who = xyk_free cfg s share who - l"
    using wp ab shab by (auto simp: xyk_free_def s' free w ledger_apply)
  have "am * get_total_liquidity s p \<le> xyk_free cfg s a p * l" "bm * get_total_liquidity s p \<le> xyk_free cfg s b p * l"
    using cp out by (auto simp: constant_product_def)
  then have "xyk_free cfg s a p * (get_total_liquidity s p - l) \<le> (xyk_free cfg s a p - am) * get_total_liquidity s p"
    "xyk_free cfg s b p * (get_total_liquidity s p - l) \<le> (xyk_free cfg s b p - bm) * get_total_liquidity s p"
    by (simp_all add: diff_mult_distrib diff_mult_distrib2 diff_le_mono2)
  with f tl l le share w show ?thesis by auto
qed

end

section \<open>A concrete market\<close>

definition market_currency :: "(bytes, asset_id \<Rightarrow> (bytes, bytes \<Rightarrow> account_data option) balances_state) currency_ops" where
  "market_currency = balances_currency (account_map_config 0 50)"

definition market_config ::
  "(bytes, asset_id \<Rightarrow> (bytes, bytes \<Rightarrow> account_data option) balances_state) xyk_config" where
  "market_config =
     \<lparr>xyk_currency = market_currency,
      xyk_hash = (\<lambda>bs. bs),
      native_asset_id = 0,
      exchange_fee = fee_default,
      price_mul_int = (\<lambda>price n. if price * n div 10 ^ 18 \<le> U128_MAX then Some (price * n div 10 ^ 18) else None),
      calculate_liquidity_in = (\<lambda>x y a. if x = 0 then None else Some (y * a div x)),
      calculate_liquidity_out = (\<lambda>x y l t. if t = 0 then None else Some (x * l div t, y * l div t)),
      calculate_spot_price = (\<lambda>x y n. if x = 0 then None else Some (y * n div x)),
      calculate_out_given_in = (\<lambda>x y a. if x + a = 0 then None else Some (y * a div (x + a) + 1)),
      calculate_in_given_out = (\<lambda>y x out. if out < y then Some (x * out div (y - out) + 1) else None)\<rparr>"

lemma market_config_simps [simp]:
  "xyk_currency market_config = balances_currency (account_map_config 0 50)"
  "xyk_hash market_config bs = bs" "native_asset_id market_config = 0"
  "exchange_fee market_config = fee_default"
  by (simp_all add: market_config_def market_currency_def)

interpretation market: xyk_pools market_config "balances_currency_inv (account_map_config 0 50)"
  unfolding xyk_pools_def xyk_pools_axioms_def xyk_pallet_def
  by (auto simp: zero_map.currency_contract collision_free_def)

lemma market_constant_product: "constant_product market_config"
proof -
  have round: "x * n \<le> (x * n div (y - n) + 1) * (y - n)" if "n < y" for x y n :: nat
    using that dividend_less_div_times [of "y - n" "x * n"] by simp
  then show ?thesis
    by (auto simp: constant_product_def market_config_def split: if_splits)
qed

text \<open>A pool of the assets 1 and 2, and one trader.\<close>

definition trader :: bytes where
  "trader = [1]"

definition trade_pair :: asset_pair where
  "trade_pair = \<lparr>asset_in = 1, asset_out = 2\<rparr>"

definition pool_account :: bytes where
  "pool_account = get_pair_id market_config trade_pair"

definition purse :: "balance \<Rightarrow> account_data" where
  "purse n = \<lparr>free = n, reserved = 0, misc_frozen = 0, fee_frozen = 0\<rparr>"

definition market_funds :: "asset_id \<Rightarrow> (bytes, bytes \<Rightarrow> account_data option) balances_state" where
  "market_funds c =
     (if c = 0 then balances_start [(trader, purse 1000000)]
      else if c = 1 then balances_start [(trader, purse 1000000), (pool_account, purse 1000000)]
      else if c = 2 then balances_start [(trader, purse 1000000), (pool_account, purse 2000000)]
      else if c = 10 then balances_start [(trader, purse 1000000)]
      else balances_start [])"

definition market_state :: "(bytes, asset_id \<Rightarrow> (bytes, bytes \<Rightarrow> account_data option) balances_state) xyk_state" where
  "market_state =
     \<lparr>currencies = market_funds,
      registry = \<lparr>core_asset_id = 0, next_asset_id = 11, asset_ids = [asset_pair_name trade_pair \<mapsto> Some 10]\<rparr>,
      share_token = [pool_account \<mapsto> 10],
      total_liquidity = [pool_account \<mapsto> 1000000],
      pool_assets = [pool_account \<mapsto> (1, 2)],
      xyk_events = []\<rparr>"

lemma trader_not_pool: "trader \<noteq> pool_account" "pool_account \<noteq> trader"
  by (auto simp: trader_def pool_account_def get_pair_id_def from_assets_def Let_def)

lemma holding_purse [simp]: "holding (purse n) = n"
  by (simp add: purse_def holding_def)

lemma market_funds_inv: "balances_currency_inv (account_map_config 0 50) market_funds"
  unfolding balances_currency_inv_def market_funds_def
  by (auto simp: U128_MAX_def trader_not_pool intro!: balances_start_inv)

lemma market_funds_unlocked: "balances_liquid_inv (account_map_config 0 50) market_funds"
  using market_funds_inv
  by (auto simp: balances_liquid_inv_def balances_currency_inv_def unlocked_def market_funds_def
      balances_start_account purse_def account_default_def split: if_splits)

lemma market_state_inv: "xyk_inv market_config market_state"
proof -
  have reg: "registry_inv (registry market_state)"
    by (simp add: registry_inv_def market_state_def)
  have iss: "cur_issuance (xyk_currency market_config) (currencies market_state) c =
      (if c = 0 then 1000000 else if c = 1 then 2000000 else if c = 2 then 3000000
       else if c = 10 then 1000000 else 0)" for c
    by (simp add: market_state_def market_funds_def balances_start_def)
  have name: "asset_pair_name pr = asset_pair_name trade_pair \<Longrightarrow> get_pair_id market_config pr = pool_account" for pr
    using get_pair_id_name [OF market.no_collision] by (simp add: pool_account_def)
  show ?thesis
    unfolding xyk_inv_def iss
  proof (intro conjI allI impI)
    fix p t assume "share_token market_state p = Some t"
    then have "p = pool_account" "t = 10" by (auto simp: market_state_def split: if_splits)
    then show "\<exists>pr. p = get_pair_id market_config pr \<and>
        asset_ids (registry market_state) (asset_pair_name pr) = Some (Some t) \<and>
        asset_in pr \<noteq> asset_out pr \<and> pool_assets market_state p = Some (asset_in pr, asset_out pr)"
      by (intro exI [of _ trade_pair])
        (simp add: market_state_def pool_account_def [symmetric], simp add: trade_pair_def)
    show "(if t = 0 then 1000000 else if t = 1 then 2000000 else if t = 2 then 3000000
       else if t = 10 then 1000000 else 0) = get_total_liquidity market_state p"
      using \<open>p = pool_account\<close> \<open>t = 10\<close> by (simp add: get_total_liquidity_def market_state_def)
  next
    fix pr t assume "asset_ids (registry market_state) (asset_pair_name pr) = Some (Some t)"
      and "share_token market_state (get_pair_id market_config pr) = None"
    then show "(if t = 0 then 1000000 else if t = 1 then 2000000 else if t = 2 then 3000000
       else if t = 10 then 1000000 else 0) = (0::nat)"
      using name [of pr] by (auto simp: market_state_def split: if_splits)
  next
    fix c assume "next_asset_id (registry market_state) \<le> c"
    then have "11 \<le> unat c" by (simp add: market_state_def word_le_nat_alt)
    then have "c \<noteq> 0" "c \<noteq> 1" "c \<noteq> 2" "c \<noteq> 10" by auto
    then show "(if c = 0 then 1000000 else if c = 1 then 2000000 else if c = 2 then 3000000
       else if c = 10 then 1000000 else 0) = (0::nat)"
      by simp
  next
    fix p assume "share_token market_state p = None"
    then show "pool_assets market_state p = None" by (simp add: market_state_def split: if_splits)
  next
    show "registry_inv (registry market_state)" by (rule reg)
    show "core_asset_id (registry market_state) = native_asset_id market_config" by (simp add: market_state_def)
  qed
qed

lemma market_free:
  "xyk_free market_config market_state c a = free_balance (account_map_config 0 50) (market_funds c) a"
  by (simp add: xyk_free_def market_state_def)

lemma market_frees:
  "free_balance (account_map_config 0 50) (market_funds 0) trader = 1000000"
  "free_balance (account_map_config 0 50) (market_funds 1) trader = 1000000"
  "free_balance (account_map_config 0 50) (market_funds 2) trader = 1000000"
  "free_balance (account_map_config 0 50) (market_funds 1) pool_account = 1000000"
  "free_balance (account_map_config 0 50) (market_funds 2) pool_account = 2000000"
  "free_balance (account_map_config 0 50) (market_funds 10) trader = 1000000"
  by (simp_all add: market_funds_def free_balance_def account_map_account balances_start_def trader_not_pool purse_def)

lemma market_exists: "xyk_exists market_config trade_pair market_state"
  by (simp add: xyk_exists_pair pool_account_def [symmetric] market_state_def)

locale xyk_lockable = lockable_currency "xyk_currency cfg" cur_inv locked locked_all
  for cfg :: "('acc, 's) xyk_config" and cur_inv locked locked_all

sublocale xyk_lockable \<subseteq> xyk_pallet cfg cur_inv
  by unfold_locales

context xyk_lockable
begin

lemma xyk_transfer_iff:
  "cur_inv (currencies s) \<Longrightarrow> a \<noteq> b \<Longrightarrow> (\<exists>s'. xyk_transfer cfg c a b n s = (Inr (), s')) \<longleftrightarrow>
     spendable (xyk_free cfg s c a) (locked (currencies s) c a) n"
  using transfer_iff [of "currencies s" a b c n] by (auto simp: xyk_transfer_def xyk_free_def on_currency_eq)

lemma xyk_transfer_moves:
  assumes "cur_inv (currencies s)" and "xyk_transfer cfg c a b n s = (Inr (), s')"
  shows "cur_inv (currencies s') \<and> cur_free (xyk_currency cfg) (currencies s') =
      moved (cur_free (xyk_currency cfg) (currencies s)) c a b n \<and> locked (currencies s') = locked (currencies s)"
  using transfer_ok [OF assms(1), of c a b n] locks_kept [OF assms(1), of c a b n] assms(2)
  by (auto simp: xyk_transfer_def on_currency_eq)

text \<open>The first step of a trade, which burns the fee of a discounted one.\<close>

lemma discount_step:
  fixes t w
  assumes cur: "cur_inv (currencies s)"
  defines "step \<equiv> if t_discount t \<and> 0 < t_discount_amount t
    then xyk_withdraw cfg (native_asset_id cfg) w (t_discount_amount t) s else (Inr (), s)"
  shows "(\<exists>s1. step = (Inr (), s1)) \<longleftrightarrow>
      spendable (xyk_free cfg s (native_asset_id cfg) w) (locked_all (currencies s) (native_asset_id cfg) w) (burned_fee t)"
    and "step = (Inr (), s1) \<Longrightarrow> cur_inv (currencies s1) \<and> cur_free (xyk_currency cfg) (currencies s1) =
      debit (cur_free (xyk_currency cfg) (currencies s)) (native_asset_id cfg) w (burned_fee t) \<and>
      locked (currencies s1) = locked (currencies s)"
proof -
  let ?c = "native_asset_id cfg" and ?n = "t_discount_amount t"
  show "(\<exists>s1. step = (Inr (), s1)) \<longleftrightarrow>
      spendable (xyk_free cfg s ?c w) (locked_all (currencies s) ?c w) (burned_fee t)"
    using withdraw_iff [OF cur, of ?c w ?n]
    by (auto simp: step_def xyk_withdraw_def xyk_free_def on_currency_eq)
  show "cur_inv (currencies s1) \<and> cur_free (xyk_currency cfg) (currencies s1) =
      debit (cur_free (xyk_currency cfg) (currencies s)) ?c w (burned_fee t) \<and> locked (currencies s1) = locked (currencies s)"
    if "step = (Inr (), s1)"
    using that withdraw_ok [OF cur, of ?c w ?n] locks_kept [OF cur, of ?c w _ ?n] cur
    by (auto simp: step_def xyk_withdraw_def on_currency_eq split: if_splits)
qed

text \<open>The fee and the two transfers of a trade: each payment must leave what is locked.\<close>

lemma payments_iff:
  fixes t w
  assumes cur: "cur_inv (currencies s)" and ne: "x \<noteq> y" "x' \<noteq> y'" "c \<noteq> c'"
  defines "step \<equiv> if t_discount t \<and> 0 < t_discount_amount t
      then xyk_withdraw cfg (native_asset_id cfg) w (t_discount_amount t) s else (Inr (), s)"
    and "left \<equiv> debit (cur_free (xyk_currency cfg) (currencies s)) (native_asset_id cfg) w (burned_fee t)"
  shows "(\<exists>s1 s2 s3. step = (Inr (), s1) \<and> xyk_transfer cfg c x y n s1 = (Inr (), s2) \<and>
      xyk_transfer cfg c' x' y' n' s2 = (Inr (), s3)) \<longleftrightarrow>
    spendable (xyk_free cfg s (native_asset_id cfg) w) (locked_all (currencies s) (native_asset_id cfg) w) (burned_fee t) \<and>
    spendable (left c x) (locked (currencies s) c x) n \<and> spendable (left c' x') (locked (currencies s) c' x') n'"
    (is "?run \<longleftrightarrow> ?fee \<and> ?first \<and> ?second")
proof -
  note S = discount_step [OF cur, of t w, folded step_def left_def]
  have first: "(\<exists>s2. xyk_transfer cfg c x y n s1 = (Inr (), s2)) \<longleftrightarrow> ?first" if "step = (Inr (), s1)" for s1
    using S(2) [OF that] xyk_transfer_iff [of s1 x y c n] ne by (auto simp: xyk_free_def)
  have second: "(\<exists>s3. xyk_transfer cfg c' x' y' n' s2 = (Inr (), s3)) \<longleftrightarrow> ?second"
    if "step = (Inr (), s1)" "xyk_transfer cfg c x y n s1 = (Inr (), s2)" for s1 s2
    using S(2) [OF that(1)] xyk_transfer_moves [OF _ that(2)] xyk_transfer_iff [of s2 x' y' c' n'] ne
    by (auto simp: xyk_free_def moved_apply)
  show ?thesis using S(1) first second by blast
qed

lemma sell_executes_iff:
  assumes cur: "cur_inv (currencies s)" and t: "t_origin t = who" "t_assets t = as"
    and who: "who \<noteq> get_pair_id cfg as" and ab: "asset_in as \<noteq> asset_out as"
  shows "(\<exists>s'. execute_sell cfg t s = (Inr (), s')) \<longleftrightarrow>
    spendable (xyk_free cfg s (native_asset_id cfg) who) (locked_all (currencies s) (native_asset_id cfg) who) (burned_fee t) \<and>
    spendable (xyk_free cfg s (asset_in as) who - (if asset_in as = native_asset_id cfg then burned_fee t else 0))
      (locked (currencies s) (asset_in as) who) (t_amount t) \<and>
    spendable (xyk_free cfg s (asset_out as) (get_pair_id cfg as)) (locked (currencies s) (asset_out as) (get_pair_id cfg as))
      (t_amount_out t)"
proof -
  have run: "(\<exists>s'. execute_sell cfg t s = (Inr (), s')) \<longleftrightarrow> (\<exists>s1 s2 s3. (if t_discount t \<and> 0 < t_discount_amount t
      then xyk_withdraw cfg (native_asset_id cfg) who (t_discount_amount t) s else (Inr (), s)) = (Inr (), s1) \<and>
      xyk_transfer cfg (asset_in as) who (get_pair_id cfg as) (t_amount t) s1 = (Inr (), s2) \<and>
      xyk_transfer cfg (asset_out as) (get_pair_id cfg as) who (t_amount_out t) s2 = (Inr (), s3))"
    by (auto simp: execute_sell_def transactional_eq_Inr Let_def and_then_eq_Inr t)
  show ?thesis
    unfolding run payments_iff [OF cur who not_sym [OF who] ab] using who by (simp add: debit_apply xyk_free_def)
qed

lemma buy_executes_iff:
  assumes cur: "cur_inv (currencies s)" and t: "t_origin t = who" "t_assets t = as"
    and who: "who \<noteq> get_pair_id cfg as" and ab: "asset_in as \<noteq> asset_out as"
  shows "(\<exists>s'. execute_buy cfg t s = (Inr (), s')) \<longleftrightarrow>
    spendable (xyk_free cfg s (native_asset_id cfg) who) (locked_all (currencies s) (native_asset_id cfg) who) (burned_fee t) \<and>
    spendable (xyk_free cfg s (asset_out as) (get_pair_id cfg as)) (locked (currencies s) (asset_out as) (get_pair_id cfg as))
      (t_amount t) \<and>
    spendable (xyk_free cfg s (asset_in as) who - (if asset_in as = native_asset_id cfg then burned_fee t else 0))
      (locked (currencies s) (asset_in as) who) (t_amount_out t)"
proof -
  have run: "(\<exists>s'. execute_buy cfg t s = (Inr (), s')) \<longleftrightarrow> (\<exists>s1 s2 s3. (if t_discount t \<and> 0 < t_discount_amount t
      then xyk_withdraw cfg (native_asset_id cfg) who (t_discount_amount t) s else (Inr (), s)) = (Inr (), s1) \<and>
      xyk_transfer cfg (asset_out as) (get_pair_id cfg as) who (t_amount t) s1 = (Inr (), s2) \<and>
      xyk_transfer cfg (asset_in as) who (get_pair_id cfg as) (t_amount_out t) s2 = (Inr (), s3))"
    by (auto simp: execute_buy_def transactional_eq_Inr Let_def and_then_eq_Inr t)
  show ?thesis
    unfolding run payments_iff [OF cur not_sym [OF who] who not_sym [OF ab]] using who
    by (simp add: debit_apply xyk_free_def)
qed

end

locale xyk_liquid = liquid_currency "xyk_currency cfg" cur_inv
  for cfg :: "('acc, 's) xyk_config" and cur_inv
begin

lemma xyk_transfer_live:
  "cur_inv (currencies s) \<Longrightarrow> n \<le> xyk_free cfg s c a \<Longrightarrow> \<exists>s'. xyk_transfer cfg c a b n s = (Inr (), s')"
  using transfer_live [of "currencies s" n c a b] by (auto simp: xyk_transfer_def xyk_free_def on_currency_eq)

lemma xyk_withdraw_live:
  "cur_inv (currencies s) \<Longrightarrow> n \<le> xyk_free cfg s c a \<Longrightarrow> \<exists>s'. xyk_withdraw cfg c a n s = (Inr (), s')"
  using withdraw_live [of "currencies s" n c a] by (auto simp: xyk_withdraw_def xyk_free_def on_currency_eq)

lemma xyk_deposit_live:
  "cur_inv (currencies s) \<Longrightarrow> cur_issuance (xyk_currency cfg) (currencies s) c + n \<le> U128_MAX \<Longrightarrow>
   \<exists>s'. xyk_deposit cfg c a n s = (Inr (), s')"
  using deposit_live [of "currencies s" c n a] by (auto simp: xyk_deposit_def on_currency_eq)

end

sublocale xyk_liquid \<subseteq> xyk_pallet cfg cur_inv
  by unfold_locales

interpretation liquid_market: xyk_liquid market_config "balances_liquid_inv (account_map_config 0 50)"
  unfolding xyk_liquid_def by (simp add: zero_map.liquid_contract)

context xyk_liquid
begin

text \<open>The discount fee and the trade do not compete for the same funds: both can be paid.\<close>

lemma discount_live:
  assumes cur: "cur_inv (currencies s)" and "burned_fee t \<le> xyk_free cfg s (native_asset_id cfg) w"
  obtains s1 where "(if t_discount t \<and> 0 < t_discount_amount t
      then xyk_withdraw cfg (native_asset_id cfg) w (t_discount_amount t) s else (Inr (), s)) = (Inr (), s1)"
    and "cur_inv (currencies s1)"
    and "\<forall>c a. a \<noteq> w \<or> c \<noteq> native_asset_id cfg \<or> \<not> t_discount t \<longrightarrow> xyk_free cfg s1 c a = xyk_free cfg s c a"
proof (cases "t_discount t \<and> 0 < t_discount_amount t")
  case True
  with xyk_withdraw_live [OF cur, of "t_discount_amount t"] assms(2)
  obtain s1 where s1: "xyk_withdraw cfg (native_asset_id cfg) w (t_discount_amount t) s = (Inr (), s1)" by auto
  show ?thesis
    by (rule xyk_withdraw_ok [OF cur s1]) (rule that [of s1], use True s1 in \<open>auto simp: xyk_free_def debit_apply\<close>)
next
  case False
  with that [of s] cur show ?thesis by auto
qed

lemma sell_live:
  assumes cur: "cur_inv (currencies s)" and v: "validate_sell cfg who as n lim disc s = Inr t"
    and who: "who \<noteq> get_pair_id cfg as" and native: "disc \<longrightarrow> asset_in as \<noteq> native_asset_id cfg"
  shows "\<exists>s'. execute_sell cfg t s = (Inr (), s')"
proof -
  let ?p = "get_pair_id cfg as"
  from v obtain fee where t: "t_origin t = who" "t_assets t = as" "t_amount t = n" "t_discount t = disc"
    and F: "n \<le> xyk_free cfg s (asset_in as) who" "t_amount_out t < xyk_free cfg s (asset_out as) ?p"
      "burned_fee t \<le> xyk_free cfg s (native_asset_id cfg) who"
    by (rule validate_sell_Inr)
  from cur F(3) obtain s1 where 1: "(if t_discount t \<and> 0 < t_discount_amount t
      then xyk_withdraw cfg (native_asset_id cfg) who (t_discount_amount t) s else (Inr (), s)) = (Inr (), s1)"
    and i1: "cur_inv (currencies s1)"
    and same: "\<forall>c a. a \<noteq> who \<or> c \<noteq> native_asset_id cfg \<or> \<not> t_discount t \<longrightarrow> xyk_free cfg s1 c a = xyk_free cfg s c a"
    by (rule discount_live)
  have "n \<le> xyk_free cfg s1 (asset_in as) who" using F(1) same native t(4) by auto
  then obtain s2 where 2: "xyk_transfer cfg (asset_in as) who ?p n s1 = (Inr (), s2)"
    using xyk_transfer_live [OF i1] by blast
  have i2: "cur_inv (currencies s2)" and le: "t_amount_out t \<le> xyk_free cfg s2 (asset_out as) ?p"
    by (rule xyk_transfer_ok [OF i1 2], use F(2) same who in \<open>auto simp: xyk_free_def moved_apply\<close>)+
  from xyk_transfer_live [OF i2 le, of who] 1 2 t show ?thesis
    by (auto simp: execute_sell_def transactional_def Let_def)
qed

lemma buy_live:
  assumes cur: "cur_inv (currencies s)" and v: "validate_buy cfg who as n lim disc s = Inr t"
    and who: "who \<noteq> get_pair_id cfg as" and native: "disc \<longrightarrow> asset_in as \<noteq> native_asset_id cfg"
  shows "\<exists>s'. execute_buy cfg t s = (Inr (), s')"
proof -
  let ?p = "get_pair_id cfg as"
  from v obtain price fee where t: "t_origin t = who" "t_assets t = as" "t_amount t = n" "t_discount t = disc"
    and F: "n < xyk_free cfg s (asset_out as) ?p" "t_amount_out t = price + fee"
      "price + fee \<le> xyk_free cfg s (asset_in as) who"
      "burned_fee t \<le> xyk_free cfg s (native_asset_id cfg) who"
    by (rule validate_buy_Inr)
  from cur F(4) obtain s1 where 1: "(if t_discount t \<and> 0 < t_discount_amount t
      then xyk_withdraw cfg (native_asset_id cfg) who (t_discount_amount t) s else (Inr (), s)) = (Inr (), s1)"
    and i1: "cur_inv (currencies s1)"
    and same: "\<forall>c a. a \<noteq> who \<or> c \<noteq> native_asset_id cfg \<or> \<not> t_discount t \<longrightarrow> xyk_free cfg s1 c a = xyk_free cfg s c a"
    by (rule discount_live)
  have "n \<le> xyk_free cfg s1 (asset_out as) ?p" using F(1) same who by simp
  then obtain s2 where 2: "xyk_transfer cfg (asset_out as) ?p who n s1 = (Inr (), s2)"
    using xyk_transfer_live [OF i1] by blast
  have i2: "cur_inv (currencies s2)" and le: "t_amount_out t \<le> xyk_free cfg s2 (asset_in as) who"
    by (rule xyk_transfer_ok [OF i1 2], use F(2,3) same who native t(4) in \<open>auto simp: xyk_free_def moved_apply\<close>)+
  from xyk_transfer_live [OF i2 le, of ?p] 1 2 t show ?thesis
    by (auto simp: execute_buy_def transactional_def Let_def)
qed

end

section \<open>Properties\<close>

text \<open>C2: a sell keeps the product of the pool's reserves up to the rounding of its price. The pool
  takes in exactly the amount sold and pays out an amount below its reserve that the seller
  accepted. The fee stays in the pool: without it, the reserves would still be worth the old product
  if the pool had one unit more of the bought asset, so the product falls by less than one such
  unit, and it does not fall at all where the fee is worth that unit.\<close>

theorem sell_keeps_product:
  assumes "multi_currency (xyk_currency cfg) cur_inv" and "constant_product cfg" and "cur_inv (currencies s)"
    and "ensure_signed F orig = Inr who" and "who \<noteq> get_pair_id cfg \<lparr>asset_in = a, asset_out = b\<rparr>" and "a \<noteq> b"
    and "xyk_sell F cfg orig a b n lim disc s = (Inr (), s')"
  shows "let p = get_pair_id cfg \<lparr>asset_in = a, asset_out = b\<rparr>;
             x = xyk_free cfg s a p; y = xyk_free cfg s b p; x' = xyk_free cfg s' a p; y' = xyk_free cfg s' b p in
    \<exists>out fee. (if disc then discounted_fee n else just_fee n (exchange_fee cfg)) = Some fee \<and>
      lim \<le> out \<and> out < y \<and> x' = x + n \<and> y' = y - out \<and>
      x * y + fee * (y' + 1) \<le> x' * (y' + 1) \<and> (x' \<le> fee * (y' + 1) \<longrightarrow> x * y \<le> x' * y')"
proof -
  let ?pr = "\<lparr>asset_in = a, asset_out = b\<rparr>"
  let ?x = "xyk_free cfg s a (get_pair_id cfg ?pr)" and ?y = "xyk_free cfg s b (get_pair_id cfg ?pr)"
  have pal: "xyk_pallet cfg cur_inv" using assms(1) by (simp add: xyk_pallet_def)
  have ab: "asset_in ?pr \<noteq> asset_out ?pr" using assms(6) by simp
  have ok: "amm_sell (xyk_amm cfg) who ?pr n lim disc s = (Inr (), s')" using assms(4,7) by (simp add: xyk_sell_def)
  obtain out fee
    where fee: "(if disc then discounted_fee n else just_fee n (exchange_fee cfg)) = Some fee" "fee \<le> n"
      and out: "calculate_out_given_in cfg ?x ?y (n - fee) = Some out" and lim: "lim \<le> out" "out < ?y"
      and r: "xyk_free cfg s' a (get_pair_id cfg ?pr) = ?x + n" "xyk_free cfg s' b (get_pair_id cfg ?pr) = ?y - out"
    by (rule xyk_pallet.sell_reserves [OF pal assms(3,5) ab ok, unfolded asset_pair.select_convs])
  have price: "out * (?x + (n - fee)) \<le> ?y * (n - fee) + (?x + (n - fee))"
    using assms(2) out unfolding constant_product_def by blast
  have le: "?x * ?y + fee * (?y - out + 1) \<le> (?x + n) * (?y - out + 1)"
    using product_after_sell [of out ?x "n - fee" ?y fee, OF price] lim fee(2) by (simp only: le_add_diff_inverse2 less_imp_le)
  show ?thesis
    unfolding Let_def r using fee lim le fee_covers_rounding [OF le] by blast
qed

definition market_frame :: "(bytes option, bytes, bytes) frame_ops" where
  "market_frame =
     \<lparr>ensure_signed = (\<lambda>orig. case orig of None \<Rightarrow> Inl BadOrigin | Some a \<Rightarrow> Inr a),
      ensure_root = (\<lambda>orig. if orig = None then Inr () else Inl BadOrigin),
      lookup_account = (\<lambda>a. Inr a)\<rparr>"

lemma market_signed: "ensure_signed market_frame (Some a) = Inr a"
  by (simp add: market_frame_def)

text \<open>A small sell on the example market is validated, so it goes through.\<close>

lemma market_validate_sell:
  "validate_sell market_config trader trade_pair 1000 1 False market_state =
     Inr \<lparr>t_origin = trader, t_assets = trade_pair, t_amount = 1000, t_amount_out = 1995,
          t_discount = False, t_discount_amount = 0\<rparr>"
proof -
  have "get_pair_id market_config trade_pair = pool_account" by (simp add: pool_account_def)
  moreover have "asset_in trade_pair = 1" "asset_out trade_pair = 2" by (simp_all add: trade_pair_def)
  moreover have "calculate_fee market_config 1000 = Inr 2"
    by (simp add: calculate_fee_def just_fee_default U128_MAX_def)
  moreover have "calculate_out_given_in market_config 1000000 2000000 998 = Some 1995"
    by (simp add: market_config_def)
  ultimately show ?thesis
    using market_exists
    by (simp add: validate_sell_def Let_def market_free market_frees MAX_IN_RATIO_def checked_sub_def)
qed

lemma market_validated_sell:
  assumes "validate_sell market_config trader trade_pair n lim False market_state = Inr t"
  shows "\<exists>s'. xyk_sell market_frame market_config (Some trader) 1 2 n lim False market_state = (Inr (), s')"
proof -
  have "\<exists>s'. execute_sell market_config t market_state = (Inr (), s')"
    by (rule liquid_market.sell_live [OF _ assms])
      (use market_funds_unlocked trader_not_pool in \<open>simp_all add: market_state_def pool_account_def\<close>)
  then show ?thesis
    using assms by (auto simp: xyk_sell_def market_signed amm_sell_def xyk_amm_def trade_pair_def [symmetric])
qed

lemma market_sell:
  obtains s' where "xyk_sell market_frame market_config (Some trader) 1 2 1000 1 False market_state = (Inr (), s')"
  using market_validated_sell [OF market_validate_sell] by blast

theorem sell_keeps_product_witness:
  "\<exists>s'. xyk_sell market_frame market_config (Some trader) 1 2 1000 1 False market_state = (Inr (), s') \<and>
     1000000 * 2000000 \<le> xyk_free market_config s' 1 pool_account * xyk_free market_config s' 2 pool_account"
proof -
  obtain s' where s': "xyk_sell market_frame market_config (Some trader) 1 2 1000 1 False market_state = (Inr (), s')"
    by (rule market_sell)
  have p: "get_pair_id market_config \<lparr>asset_in = 1, asset_out = 2\<rparr> = pool_account"
    by (simp add: pool_account_def trade_pair_def)
  have "multi_currency (xyk_currency market_config) (balances_currency_inv (account_map_config 0 50))"
    by (simp add: zero_map.currency_contract)
  from sell_keeps_product [OF this market_constant_product _ market_signed [of trader] _ _ s'] s' show ?thesis
    using trader_not_pool market_funds_inv unfolding p
    by (auto simp: Let_def market_free market_frees just_fee_default U128_MAX_def
        market_state_def [THEN arg_cong, of currencies])
qed

text \<open>C4: the other side of the rounding: where the price of a sell is rounded up, a sell too small to
  bear a fee lowers the product of the reserves, unless its exact price happens to be a whole
  number of units.\<close>

theorem free_sell_lowers_product:
  assumes "multi_currency (xyk_currency cfg) cur_inv" and "sale_rounded_up cfg" and "cur_inv (currencies s)"
    and "ensure_signed F orig = Inr who" and "who \<noteq> get_pair_id cfg \<lparr>asset_in = a, asset_out = b\<rparr>" and "a \<noteq> b"
    and "just_fee n (exchange_fee cfg) = Some 0"
    and "\<not> (xyk_free cfg s a (get_pair_id cfg \<lparr>asset_in = a, asset_out = b\<rparr>) + n) dvd
           xyk_free cfg s b (get_pair_id cfg \<lparr>asset_in = a, asset_out = b\<rparr>) * n"
    and "xyk_sell F cfg orig a b n lim False s = (Inr (), s')"
  shows "let p = get_pair_id cfg \<lparr>asset_in = a, asset_out = b\<rparr> in
    xyk_free cfg s' a p * xyk_free cfg s' b p < xyk_free cfg s a p * xyk_free cfg s b p"
proof -
  let ?pr = "\<lparr>asset_in = a, asset_out = b\<rparr>"
  let ?x = "xyk_free cfg s a (get_pair_id cfg ?pr)" and ?y = "xyk_free cfg s b (get_pair_id cfg ?pr)"
  have pal: "xyk_pallet cfg cur_inv" using assms(1) by (simp add: xyk_pallet_def)
  have ab: "asset_in ?pr \<noteq> asset_out ?pr" using assms(6) by simp
  have ok: "amm_sell (xyk_amm cfg) who ?pr n lim False s = (Inr (), s')" using assms(4,9) by (simp add: xyk_sell_def)
  obtain out fee
    where fee: "just_fee n (exchange_fee cfg) = Some fee"
      and out: "calculate_out_given_in cfg ?x ?y (n - fee) = Some out" "out < ?y"
      and r: "xyk_free cfg s' a (get_pair_id cfg ?pr) = ?x + n" "xyk_free cfg s' b (get_pair_id cfg ?pr) = ?y - out"
    by (rule xyk_pallet.sell_reserves [OF pal assms(3,5) ab ok, unfolded asset_pair.select_convs if_False])
  have "?y * n \<le> out * (?x + n)" using assms(2,7) fee out(1) by (simp add: sale_rounded_up_def)
  from product_falls [OF this assms(8)] out(2) show ?thesis by (simp add: r)
qed

lemma market_sale_rounded_up: "sale_rounded_up market_config"
proof -
  have "y * a \<le> (y * a div (x + a) + 1) * (x + a)" if "0 < x + a" for x y a :: nat
    using that dividend_less_div_times [of "x + a" "y * a"] by simp
  then show ?thesis by (auto simp: sale_rounded_up_def market_config_def split: if_splits)
qed

text \<open>On the example market the sale of a single unit bears no fee.\<close>

lemma market_validate_unit:
  "validate_sell market_config trader trade_pair 1 1 False market_state =
     Inr \<lparr>t_origin = trader, t_assets = trade_pair, t_amount = 1, t_amount_out = 2,
          t_discount = False, t_discount_amount = 0\<rparr>"
proof -
  have "get_pair_id market_config trade_pair = pool_account" by (simp add: pool_account_def)
  moreover have "asset_in trade_pair = 1" "asset_out trade_pair = 2" by (simp_all add: trade_pair_def)
  moreover have "calculate_fee market_config 1 = Inr 0"
    by (simp add: calculate_fee_def just_fee_default U128_MAX_def)
  moreover have "calculate_out_given_in market_config 1000000 2000000 1 = Some 2"
    by (simp add: market_config_def)
  ultimately show ?thesis
    using market_exists
    by (simp add: validate_sell_def Let_def market_free market_frees MAX_IN_RATIO_def checked_sub_def)
qed

theorem free_sell_lowers_product_witness:
  "\<exists>s'. xyk_sell market_frame market_config (Some trader) 1 2 1 1 False market_state = (Inr (), s') \<and>
     xyk_free market_config s' 1 pool_account * xyk_free market_config s' 2 pool_account < 1000000 * 2000000"
proof -
  have "\<exists>s'. xyk_sell market_frame market_config (Some trader) 1 2 1 1 False market_state = (Inr (), s')"
    by (rule market_validated_sell [OF market_validate_unit])
  then obtain s' where s': "xyk_sell market_frame market_config (Some trader) 1 2 1 1 False market_state = (Inr (), s')" ..
  have p: "get_pair_id market_config \<lparr>asset_in = 1, asset_out = 2\<rparr> = pool_account"
    by (simp add: pool_account_def trade_pair_def)
  have "multi_currency (xyk_currency market_config) (balances_currency_inv (account_map_config 0 50))"
    by (simp add: zero_map.currency_contract)
  from free_sell_lowers_product [OF this market_sale_rounded_up _ market_signed [of trader] _ _ _ _ s'] s' show ?thesis
    using trader_not_pool market_funds_inv unfolding p
    by (auto simp: Let_def market_free market_frees just_fee_default U128_MAX_def
        market_state_def [THEN arg_cong, of currencies])
qed

text \<open>C3: a buy never lowers the product of the pool's reserves: the pool pays out exactly the
  amount bought and takes in at most the buyer's limit.\<close>

theorem buy_keeps_product:
  assumes "multi_currency (xyk_currency cfg) cur_inv" and "constant_product cfg" and "cur_inv (currencies s)"
    and "ensure_signed F orig = Inr who" and "who \<noteq> get_pair_id cfg \<lparr>asset_in = a, asset_out = b\<rparr>" and "a \<noteq> b"
    and "xyk_buy F cfg orig b a n lim disc s = (Inr (), s')"
  shows "let p = get_pair_id cfg \<lparr>asset_in = a, asset_out = b\<rparr> in
    \<exists>paid. paid \<le> lim \<and> n < xyk_free cfg s b p \<and>
      xyk_free cfg s' a p = xyk_free cfg s a p + paid \<and> xyk_free cfg s' b p = xyk_free cfg s b p - n \<and>
      xyk_free cfg s a p * xyk_free cfg s b p \<le> xyk_free cfg s' a p * xyk_free cfg s' b p"
proof -
  let ?pr = "\<lparr>asset_in = a, asset_out = b\<rparr>"
  have pal: "xyk_pallet cfg cur_inv" using assms(1) by (simp add: xyk_pallet_def)
  have "amm_buy (xyk_amm cfg) who ?pr n lim disc s = (Inr (), s')" using assms(4,7) by (simp add: xyk_buy_def)
  from xyk_pallet.buy_product [OF pal assms(2,3,5) _ this] assms(6) show ?thesis by (simp add: Let_def)
qed

lemma market_validate_buy:
  "validate_buy market_config trader trade_pair 2000 5000 False market_state =
     Inr \<lparr>t_origin = trader, t_assets = trade_pair, t_amount = 2000, t_amount_out = 1004,
          t_discount = False, t_discount_amount = 0\<rparr>"
proof -
  have "get_pair_id market_config trade_pair = pool_account" by (simp add: pool_account_def)
  moreover have "asset_in trade_pair = 1" "asset_out trade_pair = 2" by (simp_all add: trade_pair_def)
  moreover have "calculate_fee market_config 1002 = Inr 2"
    by (simp add: calculate_fee_def just_fee_default U128_MAX_def)
  moreover have "calculate_in_given_out market_config 2000000 1000000 2000 = Some 1002"
    by (simp add: market_config_def)
  ultimately show ?thesis
    using market_exists
    by (simp add: validate_buy_def Let_def market_free market_frees MAX_OUT_RATIO_def checked_add_def U128_MAX_def)
qed

lemma market_buy:
  obtains s' where "xyk_buy market_frame market_config (Some trader) 2 1 2000 5000 False market_state = (Inr (), s')"
proof -
  have "\<exists>s'. execute_buy market_config \<lparr>t_origin = trader, t_assets = trade_pair, t_amount = 2000,
      t_amount_out = 1004, t_discount = False, t_discount_amount = 0\<rparr> market_state = (Inr (), s')"
    by (rule liquid_market.buy_live [OF _ market_validate_buy])
      (use market_funds_unlocked trader_not_pool in \<open>simp_all add: market_state_def pool_account_def\<close>)
  then show ?thesis
    using that market_validate_buy
    by (auto simp: xyk_buy_def market_signed amm_buy_def xyk_amm_def trade_pair_def [symmetric])
qed

theorem buy_keeps_product_witness:
  "\<exists>s'. xyk_buy market_frame market_config (Some trader) 2 1 2000 5000 False market_state = (Inr (), s') \<and>
     1000000 * 2000000 \<le> xyk_free market_config s' 1 pool_account * xyk_free market_config s' 2 pool_account"
proof -
  obtain s' where s': "xyk_buy market_frame market_config (Some trader) 2 1 2000 5000 False market_state = (Inr (), s')"
    by (rule market_buy)
  have p: "get_pair_id market_config \<lparr>asset_in = 1, asset_out = 2\<rparr> = pool_account"
    by (simp add: pool_account_def trade_pair_def)
  have "multi_currency (xyk_currency market_config) (balances_currency_inv (account_map_config 0 50))"
    by (simp add: zero_map.currency_contract)
  from buy_keeps_product [OF this market_constant_product _ market_signed [of trader] _ _ s'] s' show ?thesis
    using trader_not_pool market_funds_inv unfolding p
    by (auto simp: Let_def market_free market_frees market_state_def [THEN arg_cong, of currencies])
qed

text \<open>C6: whatever sequence of calls and transfers runs, the shares of a pool in circulation are
  its recorded total liquidity, each pool has the share token the registry gave its pair, and
  a pair without a pool has no shares in circulation.\<close>

theorem share_supply_is_liquidity:
  assumes "multi_currency (xyk_currency cfg) cur_inv" and "collision_free cfg"
    and "xyk_inv cfg s" and "cur_inv (currencies s)" and "xyk_reaches F cfg s s'"
  shows "xyk_inv cfg s' \<and>
    (xyk_exists cfg pr s' \<longrightarrow> cur_issuance (xyk_currency cfg) (currencies s')
       (get_share_token s' (get_pair_id cfg pr)) = get_total_liquidity s' (get_pair_id cfg pr))"
proof -
  have pools: "xyk_pools cfg cur_inv"
    using assms(1,2) by (simp add: xyk_pools_def xyk_pools_axioms_def xyk_pallet_def)
  have inv: "xyk_inv cfg s'" using xyk_pools.xyk_reaches_inv [OF pools assms(5)] assms(3,4) by blast
  moreover have "cur_issuance (xyk_currency cfg) (currencies s') (get_share_token s' (get_pair_id cfg pr)) =
      get_total_liquidity s' (get_pair_id cfg pr)" if "xyk_exists cfg pr s'"
    by (rule xyk_pools.existing_pool [OF pools inv that]) simp
  ultimately show ?thesis by blast
qed

theorem share_supply_is_liquidity_witness:
  "\<exists>s'. xyk_sell market_frame market_config (Some trader) 1 2 1000 1 False market_state = (Inr (), s') \<and>
     xyk_inv market_config s'"
proof -
  obtain s' where s': "xyk_sell market_frame market_config (Some trader) 1 2 1000 1 False market_state = (Inr (), s')"
    by (rule market_sell)
  have cur: "multi_currency (xyk_currency market_config) (balances_currency_inv (account_map_config 0 50))"
    "balances_currency_inv (account_map_config 0 50) (currencies market_state)"
    using market_funds_inv by (simp_all add: zero_map.currency_contract market_state_def)
  from share_supply_is_liquidity [OF cur(1) market.no_collision market_state_inv cur(2)
      xyk_reaches_step [OF step_sell [OF s']]] s'
  show ?thesis by blast
qed

text \<open>C11: redeeming \<open>l\<close> shares lowers the pool's liquidity and the holder's shares by exactly \<open>l\<close>,
  moves pool assets only to the holder, and leaves every remaining share with at least the
  part of each reserve it had.\<close>

theorem remove_liquidity_fair:
  assumes "multi_currency (xyk_currency cfg) cur_inv" and "constant_product cfg" and "cur_inv (currencies s)"
    and "ensure_signed F orig = Inr who" and "who \<noteq> get_pair_id cfg \<lparr>asset_in = a, asset_out = b\<rparr>" and "a \<noteq> b"
    and "get_share_token s (get_pair_id cfg \<lparr>asset_in = a, asset_out = b\<rparr>) \<notin> {a, b}"
    and "remove_liquidity F cfg orig a b l s = (Inr (), s')"
  shows "let p = get_pair_id cfg \<lparr>asset_in = a, asset_out = b\<rparr> in
    get_total_liquidity s' p + l = get_total_liquidity s p \<and>
    xyk_free cfg s' (get_share_token s p) who + l = xyk_free cfg s (get_share_token s p) who \<and>
    (\<forall>c\<in>{a, b}. xyk_free cfg s' c p + xyk_free cfg s' c who = xyk_free cfg s c p + xyk_free cfg s c who \<and>
       xyk_free cfg s c p * get_total_liquidity s' p \<le> xyk_free cfg s' c p * get_total_liquidity s p)"
proof -
  have pal: "xyk_pallet cfg cur_inv" using assms(1) by (simp add: xyk_pallet_def)
  from xyk_pallet.remove_fair [OF pal assms(2-8)] show ?thesis by (simp add: Let_def)
qed

lemma market_remove:
  obtains s' where "remove_liquidity market_frame market_config (Some trader) 1 2 500000 market_state = (Inr (), s')"
proof -
  let ?I = "balances_liquid_inv (account_map_config 0 50 :: (bytes, bytes \<Rightarrow> account_data option) balances_config)"
  have p: "get_pair_id market_config \<lparr>asset_in = 1, asset_out = 2\<rparr> = pool_account"
    by (simp add: pool_account_def trade_pair_def)
  have i0: "?I (currencies market_state)" using market_funds_unlocked by (simp add: market_state_def)
  have "500000 \<le> xyk_free market_config market_state 1 pool_account" by (simp add: market_free market_frees)
  then obtain s1 where 1: "xyk_transfer market_config 1 pool_account trader 500000 market_state = (Inr (), s1)"
    using liquid_market.xyk_transfer_live [OF i0] by blast
  have i1: "?I (currencies s1)" and f1: "1000000 \<le> xyk_free market_config s1 2 pool_account"
    "500000 \<le> xyk_free market_config s1 10 trader"
    by (rule liquid_market.xyk_transfer_ok [OF i0 1], use market_frees in
        \<open>simp add: xyk_free_def moved_apply market_state_def\<close>)+
  obtain s2 where 2: "xyk_transfer market_config 2 pool_account trader 1000000 s1 = (Inr (), s2)"
    using liquid_market.xyk_transfer_live [OF i1 f1(1)] by blast
  have i2: "?I (currencies s2)" and f2: "500000 \<le> xyk_free market_config s2 10 trader"
    by (rule liquid_market.xyk_transfer_ok [OF i1 2], use f1 in \<open>simp add: xyk_free_def moved_apply\<close>)+
  obtain s3 where 3: "xyk_withdraw market_config 10 trader 500000 s2 = (Inr (), s3)"
    using liquid_market.xyk_withdraw_live [OF i2 f2] by blast
  have q: "get_share_token market_state pool_account = 10" "get_total_liquidity market_state pool_account = 1000000"
    by (simp_all add: get_share_token_def get_total_liquidity_def market_state_def)
  have o: "calculate_liquidity_out market_config 1000000 2000000 500000 1000000 = Some (500000, 1000000)"
    by (simp add: market_config_def)
  have "\<exists>s'. remove_liquidity market_frame market_config (Some trader) 1 2 500000 market_state = (Inr (), s')"
    using 1 2 3 market_exists
    by (simp add: remove_liquidity_def transactional_def Let_def market_signed p q o trade_pair_def
        market_free market_frees checked_sub_def)
  then show ?thesis using that by blast
qed

theorem remove_liquidity_fair_witness:
  "\<exists>s'. remove_liquidity market_frame market_config (Some trader) 1 2 500000 market_state = (Inr (), s') \<and>
     get_total_liquidity s' pool_account = 500000"
proof -
  obtain s' where s': "remove_liquidity market_frame market_config (Some trader) 1 2 500000 market_state = (Inr (), s')"
    by (rule market_remove)
  have p: "get_pair_id market_config \<lparr>asset_in = 1, asset_out = 2\<rparr> = pool_account"
    by (simp add: pool_account_def trade_pair_def)
  have q: "get_share_token market_state pool_account = 10" "get_total_liquidity market_state pool_account = 1000000"
    by (simp_all add: get_share_token_def get_total_liquidity_def market_state_def)
  have cur: "multi_currency (xyk_currency market_config) (balances_currency_inv (account_map_config 0 50))"
    "balances_currency_inv (account_map_config 0 50) (currencies market_state)"
    using market_funds_inv by (simp_all add: zero_map.currency_contract market_state_def)
  from remove_liquidity_fair [OF cur(1) market_constant_product cur(2) market_signed [of trader] _ _ _ s'] s'
  show ?thesis using trader_not_pool unfolding p q Let_def by auto
qed

text \<open>C12: when the execution of a validated sell succeeds. \<open>execute_sell\<close> carries out a sell that
  \<open>validate_sell\<close> accepted exactly if three payments leave the locked part of the payer's balance
  untouched: the discount fee burnt from the seller's native asset, the amount sold (from what
  the fee left, where the sold asset is the native one) and the payment of the pool. In
  particular it always does where nothing is locked and a discounted sell does not sell the
  native asset; \<open>validate_sell\<close> itself looks at free balances only.\<close>

theorem validated_sell_executes:
  assumes "lockable_currency (xyk_currency cfg) cur_inv locked locked_all" and "cur_inv (currencies s)"
    and "validate_sell cfg who as n min_bought disc s = Inr t"
    and "pool = get_pair_id cfg as" and "who \<noteq> pool" and "asset_in as \<noteq> asset_out as"
    and "native = native_asset_id cfg" and "fee = (if disc then t_discount_amount t else 0)"
  shows "((\<exists>s'. execute_sell cfg t s = (Inr (), s')) \<longleftrightarrow>
      spendable (xyk_free cfg s native who) (locked_all (currencies s) native who) fee \<and>
      spendable (xyk_free cfg s (asset_in as) who - (if asset_in as = native then fee else 0))
        (locked (currencies s) (asset_in as) who) n \<and>
      spendable (xyk_free cfg s (asset_out as) pool) (locked (currencies s) (asset_out as) pool) (t_amount_out t)) \<and>
    ((\<forall>c a. locked (currencies s) c a = 0 \<and> locked_all (currencies s) c a = 0) \<and> (disc \<longrightarrow> asset_in as \<noteq> native) \<longrightarrow>
      (\<exists>s'. execute_sell cfg t s = (Inr (), s')))"
proof -
  have xl: "xyk_lockable cfg cur_inv locked locked_all" and pal: "xyk_pallet cfg cur_inv"
    using assms(1) by (simp_all add: xyk_lockable_def xyk_pallet_def lockable_currency_def)
  from assms(3) obtain fee' where t: "t_origin t = who" "t_assets t = as" "t_amount t = n" "t_discount t = disc"
    and F: "n \<le> xyk_free cfg s (asset_in as) who" "t_amount_out t < xyk_free cfg s (asset_out as) (get_pair_id cfg as)"
      "(if t_discount t then t_discount_amount t else 0) \<le> xyk_free cfg s (native_asset_id cfg) who"
    by (rule xyk_pallet.validate_sell_Inr [OF pal])
  have fee: "(if t_discount t then t_discount_amount t else 0) = fee" using t(4) assms(8) by simp
  note iff = xyk_lockable.sell_executes_iff [OF xl assms(2) t(1,2) assms(5) [unfolded assms(4)] assms(6),
      unfolded fee t(3), folded assms(4,7)]
  show ?thesis
    unfolding iff using F fee assms(4,7,8) by auto
qed

text \<open>A sale on the example market fails for a trader whose funds are locked.\<close>

definition locked_market :: "(bytes, asset_id \<Rightarrow> (bytes, bytes \<Rightarrow> account_data option) balances_state) xyk_state" where
  "locked_market = market_state\<lparr>currencies := market_funds(1 :=
     balances_start [(trader, \<lparr>free = 1000000, reserved = 0, misc_frozen = 999500, fee_frozen = 0\<rparr>),
                     (pool_account, purse 1000000)])\<rparr>"

lemma validate_sell_cong:
  assumes "xyk_free cfg s' = xyk_free cfg s" and "share_token s' = share_token s"
  shows "validate_sell cfg who as n lim disc s' = validate_sell cfg who as n lim disc s"
proof -
  have "discount_fee_amount cfg who c f s' = discount_fee_amount cfg who c f s"
    and "xyk_exists cfg pr s' = xyk_exists cfg pr s" for c f pr
    using assms by (simp_all add: discount_fee_amount_def xyk_exists_def Let_def)
  with assms(1) show ?thesis by (simp only: validate_sell_def)
qed

theorem validated_sell_executes_witness:
  "\<exists>t. validate_sell market_config trader trade_pair 1000 1 False market_state = Inr t \<and>
     validate_sell market_config trader trade_pair 1000 1 False locked_market = Inr t \<and>
     (\<exists>s'. execute_sell market_config t market_state = (Inr (), s')) \<and>
     (\<nexists>s'. execute_sell market_config t locked_market = (Inr (), s'))"
proof -
  let ?bal = "account_map_config 0 50 :: (bytes, bytes \<Rightarrow> account_data option) balances_config"
  let ?t = "\<lparr>t_origin = trader, t_assets = trade_pair, t_amount = 1000, t_amount_out = 1995,
      t_discount = False, t_discount_amount = 0\<rparr>"
  have lock: "lockable_currency (xyk_currency market_config) (balances_currency_inv ?bal) (balances_locked ?bal)
      (balances_locked_all ?bal)" by (simp add: zero_map.lockable_contract)
  have funds: "currencies locked_market = market_funds(1 :=
     balances_start [(trader, \<lparr>free = 1000000, reserved = 0, misc_frozen = 999500, fee_frozen = 0\<rparr>),
                     (pool_account, purse 1000000)])" by (simp add: locked_market_def)
  have inv: "balances_currency_inv ?bal (currencies locked_market)"
    "balances_currency_inv ?bal (currencies market_state)"
    using market_funds_inv trader_not_pool
    by (auto simp: funds market_state_def holding_def purse_def U128_MAX_def
        intro!: balances_currency_inv_upd balances_start_inv)
  have free: "xyk_free market_config locked_market = xyk_free market_config market_state"
    using trader_not_pool
    by (auto simp: xyk_free_def market_state_def funds market_funds_def fun_eq_iff free_balance_def
        balances_start_account purse_def)
  have v: "validate_sell market_config trader trade_pair 1000 1 False locked_market = Inr ?t"
    unfolding market_validate_sell [symmetric] by (rule validate_sell_cong [OF free]) (simp add: locked_market_def)
  have p: "pool_account = get_pair_id market_config trade_pair" by (simp add: pool_account_def)
  have ne: "asset_in trade_pair \<noteq> asset_out trade_pair" by (simp add: trade_pair_def)
  have "balances_locked ?bal (currencies locked_market) 1 trader = 999500"
    by (simp add: funds balances_locked_def balances_start_account)
  then have "\<nexists>s'. execute_sell market_config ?t locked_market = (Inr (), s')"
    using validated_sell_executes [OF lock inv(1) v p trader_not_pool(1) ne refl refl] market_frees(2)
    by (simp add: free market_free spendable_def trade_pair_def)
  moreover have "balances_locked ?bal (currencies market_state) c a = 0"
    "balances_locked_all ?bal (currencies market_state) c a = 0" for c a
    using market_funds_unlocked by (simp_all add: balances_liquid_inv_alt market_state_def)
  then have "\<exists>s'. execute_sell market_config ?t market_state = (Inr (), s')"
    using conjunct2 [OF validated_sell_executes [OF lock inv(2) market_validate_sell p trader_not_pool(1) ne refl refl]]
    by simp
  ultimately show ?thesis using v market_validate_sell by blast
qed

text \<open>C13: creating a pool puts exactly the two amounts into the pool's account and makes the pool
  exist for the pair in either order. Over every sequence of calls and transfers in which no call
  redeems the whole recorded liquidity of the pool, it keeps existing, and nobody can create it
  again in either order: each such call is refused and changes nothing. A call that does redeem
  the whole recorded liquidity removes the pool (it may then be created anew).\<close>

theorem pool_lives_until_emptied:
  assumes "multi_currency (xyk_currency cfg) cur_inv" and "cur_inv (currencies s)"
    and "ensure_signed F orig = Inr who" and "p = get_pair_id cfg \<lparr>asset_in = a, asset_out = b\<rparr>" and "who \<noteq> p"
    and "create_pool F cfg orig a b n price s = (Inr (), s')" and "get_share_token s' p \<notin> {a, b}"
    and "(\<lambda>t t'. xyk_step F cfg t t' \<and> \<not> empties F cfg p t t')\<^sup>*\<^sup>* s' s''"
  shows "get_pool_assets p s' = Some [a, b] \<and>
    xyk_free cfg s' a p = xyk_free cfg s a p + n \<and>
    (\<exists>m. price_mul_int cfg price n = Some m \<and> xyk_free cfg s' b p = xyk_free cfg s b p + m) \<and>
    (\<forall>c d. {c, d} = {a, b} \<longrightarrow> xyk_exists cfg \<lparr>asset_in = c, asset_out = d\<rparr> s'' \<and>
      (\<forall>orig' k q. \<exists>e. create_pool F cfg orig' c d k q s'' = (Inl e, s'')) \<and>
      (\<forall>t. empties F cfg p s'' t \<longrightarrow> \<not> xyk_exists cfg \<lparr>asset_in = c, asset_out = d\<rparr> t))"
proof -
  have pal: "xyk_pallet cfg cur_inv" using assms(1) by (simp add: xyk_pallet_def)
  from assms(2,6) obtain who' bm share r u where w: "ensure_signed F orig = Inr who'" and ab: "a \<noteq> b"
    and bm: "price_mul_int cfg price n = Some bm" and u: "currencies s' = u"
    and st: "share_token s' = (share_token s)(p \<mapsto> share)" "pool_assets s' = (pool_assets s)(p \<mapsto> (a, b))"
    and free: "cur_free (xyk_currency cfg) u = credit (moved (moved (cur_free (xyk_currency cfg) (currencies s))
        a who' p n) b who' p bm) share who' (if a < b then n else bm)"
    unfolding assms(4) by (rule xyk_pallet.create_pool_ok [OF pal])
  have sh: "share \<noteq> a" "share \<noteq> b" using assms(7) st by (auto simp: get_share_token_def)
  have pair: "get_pair_id cfg \<lparr>asset_in = c, asset_out = d\<rparr> = p" if "{c, d} = {a, b}" for c d
    using that get_pair_id_swap [of cfg b a] assms(4) by (auto simp: doubleton_eq_iff)
  have "share_token s' p \<noteq> None" using st by simp
  with reaches_pools [OF assms(8)] have last: "share_token s'' p \<noteq> None" by blast
  have ex: "xyk_exists cfg \<lparr>asset_in = c, asset_out = d\<rparr> s''"
    "empties F cfg p s'' t \<Longrightarrow> \<not> xyk_exists cfg \<lparr>asset_in = c, asset_out = d\<rparr> t"
    if "{c, d} = {a, b}" for c d t
    using last pair [OF that] empties_pool [of F cfg p s'' t] by (simp_all add: xyk_exists_pair)
  have "xyk_free cfg s' a p = xyk_free cfg s a p + n" "xyk_free cfg s' b p = xyk_free cfg s b p + bm"
    using assms(3,5) w ab sh by (auto simp: xyk_free_def u free ledger_apply)
  moreover have "\<exists>e. create_pool F cfg orig' c d k q s'' = (Inl e, s'')"
    if "xyk_exists cfg \<lparr>asset_in = c, asset_out = d\<rparr> s''" for orig' c d k q
    using that by (cases "ensure_signed F orig'") (simp_all add: create_pool_def transactional_def Let_def)
  ultimately show ?thesis
    using ex bm st by (auto simp: get_pool_assets_def get_pool_assets_pair_def)
qed

text \<open>A first pool for the assets 0 and 1, and one that mints no shares for 2 and 0.\<close>

lemma market_create:
  assumes "a \<noteq> b" and "\<not> xyk_exists market_config \<lparr>asset_in = a, asset_out = b\<rparr> market_state"
    and "n \<noteq> 0" and "price \<noteq> 0" and "price_mul_int market_config price n = Some m"
    and "n \<le> xyk_free market_config market_state a trader" and "m \<le> xyk_free market_config market_state b trader"
    and "n \<le> U128_MAX" and "m \<le> U128_MAX"
    and "asset_pair_name \<lparr>asset_in = a, asset_out = b\<rparr> \<noteq> asset_pair_name trade_pair"
  obtains s' where "create_pool market_frame market_config (Some trader) a b n price market_state = (Inr (), s')"
    and "get_share_token s' (get_pair_id market_config \<lparr>asset_in = a, asset_out = b\<rparr>) = 11"
    and "share_token s' (get_pair_id market_config \<lparr>asset_in = a, asset_out = b\<rparr>) \<noteq> None"
proof -
  let ?I = "balances_liquid_inv (account_map_config 0 50 :: (bytes, bytes \<Rightarrow> account_data option) balances_config)"
  let ?pr = "\<lparr>asset_in = a, asset_out = b\<rparr>"
  let ?p = "get_pair_id market_config ?pr"
  let ?r = "\<lparr>core_asset_id = 0, next_asset_id = 12, asset_ids = (asset_ids (registry market_state))(asset_pair_name ?pr \<mapsto> Some 11)\<rparr>"
  let ?sh = "if a < b then n else m"
  have reg: "on_registry (get_or_create_asset (asset_pair_name ?pr)) market_state = (Inr 11, market_state\<lparr>registry := ?r\<rparr>)"
    using assms(10)
    by (auto simp: on_registry_eq get_or_create_asset_def market_state_def checked_add_u32_def Let_def)
  let ?s0 = "market_state\<lparr>registry := ?r, share_token := (share_token market_state)(?p \<mapsto> 11),
      pool_assets := (pool_assets market_state)(?p \<mapsto> (a, b))\<rparr>"
  have i0: "?I (currencies ?s0)" using market_funds_unlocked by (simp add: market_state_def)
  have "n \<le> xyk_free market_config ?s0 a trader" using assms(6) by (simp add: xyk_free_def)
  then obtain s1 where 1: "xyk_transfer market_config a trader ?p n ?s0 = (Inr (), s1)"
    using liquid_market.xyk_transfer_live [OF i0] by blast
  have i1: "?I (currencies s1)" and f1: "m \<le> xyk_free market_config s1 b trader"
    and z1: "cur_issuance (xyk_currency market_config) (currencies s1) 11 = 0"
    by (rule liquid_market.xyk_transfer_ok [OF i0 1], use assms(1,7) in
        \<open>simp add: xyk_free_def moved_apply market_state_def market_funds_def balances_start_def\<close>)+
  obtain s2 where 2: "xyk_transfer market_config b trader ?p m s1 = (Inr (), s2)"
    using liquid_market.xyk_transfer_live [OF i1 f1] by blast
  have i2: "?I (currencies s2)" and z2: "cur_issuance (xyk_currency market_config) (currencies s2) 11 = 0"
    by (rule liquid_market.xyk_transfer_ok [OF i1 2], use z1 in simp)+
  have "cur_issuance (xyk_currency market_config) (currencies s2) 11 + ?sh \<le> U128_MAX"
    using z2 assms(8,9) by simp
  then obtain s3 where 3: "xyk_deposit market_config 11 trader ?sh s2 = (Inr (), s3)"
    using liquid_market.xyk_deposit_live [OF i2] by blast
  have s3: "share_token s3 = (share_token market_state)(?p \<mapsto> 11)"
    using 1 2 3 by (auto simp: xyk_transfer_def xyk_deposit_def on_currency_eq)
  have "create_pool market_frame market_config (Some trader) a b n price market_state =
      (Inr (), xyk_deposit_event (PoolCreated trader a b ?sh)
        (s3\<lparr>total_liquidity := (total_liquidity s3)(?p \<mapsto> ?sh)\<rparr>))"
    using 1 2 3 reg assms by (simp add: create_pool_def transactional_def Let_def market_signed)
  with s3 that show ?thesis by (simp add: get_share_token_def)
qed

lemma market_price_mul: "price * n div 10 ^ 18 \<le> U128_MAX \<Longrightarrow>
  price_mul_int market_config price n = Some (price * n div 10 ^ 18)"
  by (simp add: market_config_def)

theorem pool_lives_until_emptied_witness:
  "\<exists>s' s''. create_pool market_frame market_config (Some trader) 0 1 500 2000000000000000000 market_state = (Inr (), s') \<and>
     s'' = snd (xyk_sell market_frame market_config (Some trader) 1 2 1000 1 False s') \<and>
     (\<exists>e. create_pool market_frame market_config (Some trader) 1 0 7 7 s'' = (Inl e, s''))"
proof -
  let ?p = "get_pair_id market_config \<lparr>asset_in = 0, asset_out = 1\<rparr>"
  have p: "?p \<noteq> pool_account" "trader \<noteq> ?p"
    unfolding pool_account_def get_pair_id_inject [OF market.no_collision]
    by (simp_all add: ordered_pair_def trade_pair_def trader_def get_pair_id_def from_assets_def Let_def)
  obtain s' where s': "create_pool market_frame market_config (Some trader) 0 1 500 2000000000000000000 market_state = (Inr (), s')"
    and sh: "get_share_token s' ?p = 11" "share_token s' ?p \<noteq> None"
  proof (rule market_create [of 0 1 500 2000000000000000000 1000])
    show "\<not> xyk_exists market_config \<lparr>asset_in = 0, asset_out = 1\<rparr> market_state"
      using p by (simp add: xyk_exists_pair market_state_def)
  qed (simp_all add: market_price_mul market_free market_frees U128_MAX_def
      asset_pair_name_iff ordered_pair_def trade_pair_def)
  let ?s'' = "snd (xyk_sell market_frame market_config (Some trader) 1 2 1000 1 False s')"
  have step: "xyk_step market_frame market_config s' ?s''" by (rule step_sell) (rule surjective_pairing)
  have "share_token ?s'' = share_token s'" by (rule calls_pools(1)) (rule surjective_pairing)
  then have "\<not> empties market_frame market_config ?p s' ?s''" using empties_pool sh(2) by fastforce
  with step have run: "(\<lambda>t t'. xyk_step market_frame market_config t t' \<and>
      \<not> empties market_frame market_config ?p t t')\<^sup>*\<^sup>* s' ?s''" by (intro r_into_rtranclp) simp
  have cur: "multi_currency (xyk_currency market_config) (balances_currency_inv (account_map_config 0 50))"
    "balances_currency_inv (account_map_config 0 50) (currencies market_state)"
    using market_funds_inv by (simp_all add: zero_map.currency_contract market_state_def)
  have "get_share_token s' ?p \<notin> {0, 1}" using sh by simp
  note all = pool_lives_until_emptied [OF cur market_signed [of trader] refl p(2) s' this run]
  have "{1, 0} = {0, 1::asset_id}" by auto
  with all have "\<exists>e. create_pool market_frame market_config (Some trader) 1 0 7 7 ?s'' = (Inl e, ?s'')"
    by (elim conjE allE [of _ 1] allE [of _ 0] impE) (assumption, simp only: simp_thms)
  with s' show ?thesis by (intro exI [of _ s'] exI [of _ ?s''] conjI refl)
qed

text \<open>C14: a pool can be created that issues no shares for its deposit. Nothing checks the amount of the
  second asset, and when the first asset has the larger identifier that amount is also the number
  of shares: with a price that rounds it to zero, \<open>create_pool\<close> takes the creator's deposit of the
  first asset and issues no share to anybody. In the state it leaves, the pool has no recorded
  liquidity, and nobody, its creator included, can redeem anything of it.\<close>

theorem pool_without_shares:
  assumes "multi_currency (xyk_currency cfg) cur_inv" and "cur_inv (currencies s)"
    and "ensure_signed F orig = Inr who" and "p = get_pair_id cfg \<lparr>asset_in = a, asset_out = b\<rparr>" and "who \<noteq> p"
    and "create_pool F cfg orig a b n price s = (Inr (), s')" and "get_share_token s' p \<notin> {a, b}"
    and "b < a" and "price_mul_int cfg price n = Some 0"
  shows "xyk_free cfg s' a p = xyk_free cfg s a p + n \<and> xyk_free cfg s' a who + n = xyk_free cfg s a who \<and>
    xyk_free cfg s' (get_share_token s' p) = xyk_free cfg s (get_share_token s' p) \<and>
    get_total_liquidity s' p = 0 \<and>
    (\<forall>orig' l c d. {c, d} = {a, b} \<longrightarrow> (\<exists>e. remove_liquidity F cfg orig' c d l s' = (Inl e, s')))"
proof -
  have pal: "xyk_pallet cfg cur_inv" using assms(1) by (simp add: xyk_pallet_def)
  have ab: "\<not> a < b" "a \<noteq> b" using assms(8) by auto
  from assms(2,6) obtain who' bm share u where w: "ensure_signed F orig = Inr who'"
    and bm: "price_mul_int cfg price n = Some bm" and u: "currencies s' = u"
    and funds: "n \<le> xyk_free cfg s a who'"
    and tl: "total_liquidity s' = (total_liquidity s)(p \<mapsto> (if a < b then n else bm))"
    and st: "share_token s' = (share_token s)(p \<mapsto> share)"
    and free: "cur_free (xyk_currency cfg) u = credit (moved (moved (cur_free (xyk_currency cfg) (currencies s))
        a who' p n) b who' p bm) share who' (if a < b then n else bm)"
    unfolding assms(4) by (rule xyk_pallet.create_pool_ok [OF pal])
  have eqs: "bm = 0" "who' = who" "get_share_token s' p = share"
    using bm assms(9) w assms(3) st by (simp_all add: get_share_token_def)
  then have sh: "share \<noteq> a" "share \<noteq> b" using assms(7) by simp_all
  have tl0: "get_total_liquidity s' p = 0" by (simp add: get_total_liquidity_def tl eqs ab)
  have pair: "get_pair_id cfg \<lparr>asset_in = c, asset_out = d\<rparr> = p" if "{c, d} = {a, b}" for c d
    using that get_pair_id_swap [of cfg b a] assms(4) by (auto simp: doubleton_eq_iff)
  have "\<exists>e. remove_liquidity F cfg orig' c d l s' = (Inl e, s')" if "{c, d} = {a, b}" for orig' l c d
    using tl0 pair [OF that] by (cases "ensure_signed F orig'")
      (simp_all add: remove_liquidity_def transactional_def Let_def)
  moreover have "xyk_free cfg s' a p = xyk_free cfg s a p + n" "xyk_free cfg s' a who + n = xyk_free cfg s a who"
    "xyk_free cfg s' share = xyk_free cfg s share"
    using assms(5) ab sh funds eqs by (auto simp: xyk_free_def u free ledger_apply fun_eq_iff)
  ultimately show ?thesis using tl0 eqs by blast
qed

theorem pool_without_shares_witness:
  "\<exists>s'. create_pool market_frame market_config (Some trader) 2 0 100 1 market_state = (Inr (), s') \<and>
     xyk_free market_config s' 2 trader = 999900 \<and>
     (\<forall>l. \<exists>e. remove_liquidity market_frame market_config (Some trader) 2 0 l s' = (Inl e, s'))"
proof -
  let ?p = "get_pair_id market_config \<lparr>asset_in = 2, asset_out = 0\<rparr>"
  have p: "?p \<noteq> pool_account" "trader \<noteq> ?p"
    unfolding pool_account_def get_pair_id_inject [OF market.no_collision]
    by (simp_all add: ordered_pair_def trade_pair_def trader_def get_pair_id_def from_assets_def Let_def)
  obtain s' where s': "create_pool market_frame market_config (Some trader) 2 0 100 1 market_state = (Inr (), s')"
    and sh: "get_share_token s' ?p = 11"
  proof (rule market_create [of 2 0 100 1 0])
    show "\<not> xyk_exists market_config \<lparr>asset_in = 2, asset_out = 0\<rparr> market_state"
      using p by (simp add: xyk_exists_pair market_state_def)
  qed (simp_all add: market_price_mul market_free market_frees U128_MAX_def
      asset_pair_name_iff ordered_pair_def trade_pair_def)
  have cur: "multi_currency (xyk_currency market_config) (balances_currency_inv (account_map_config 0 50))"
    "balances_currency_inv (account_map_config 0 50) (currencies market_state)"
    using market_funds_inv by (simp_all add: zero_map.currency_contract market_state_def)
  have "get_share_token s' ?p \<notin> {2, 0}" "(0::asset_id) < 2" "price_mul_int market_config 1 100 = Some 0"
    using sh by (simp_all add: word_less_nat_alt market_price_mul U128_MAX_def)
  from pool_without_shares [OF cur market_signed [of trader] refl p(2) s' this] s' show ?thesis
    by (auto simp: market_free market_frees)
qed

text \<open>C17: two pairs have the same pool account exactly when they are the same pair up to order, and
  exactly then they have the same share-token name.\<close>

theorem pool_identity:
  assumes "collision_free cfg"
  shows "(get_pair_id cfg p = get_pair_id cfg q \<longleftrightarrow> {asset_in p, asset_out p} = {asset_in q, asset_out q}) \<and>
    (asset_pair_name p = asset_pair_name q \<longleftrightarrow> {asset_in p, asset_out p} = {asset_in q, asset_out q})"
proof -
  have "ordered_pair p = ordered_pair q \<longleftrightarrow> {asset_in p, asset_out p} = {asset_in q, asset_out q}"
    by (auto simp: ordered_pair_def doubleton_eq_iff split: if_splits)
  then show ?thesis by (simp add: get_pair_id_inject [OF assms] asset_pair_name_iff)
qed

theorem pool_identity_witness:
  "get_pair_id market_config \<lparr>asset_in = 2, asset_out = 1\<rparr> = pool_account"
  using pool_identity [OF market.no_collision, of "\<lparr>asset_in = 2, asset_out = 1\<rparr>" trade_pair]
  by (auto simp: pool_account_def trade_pair_def)

end
