(* ===== verification/XYK_Discount.thy ===== *)
theory XYK_Discount
  imports XYK_Props
begin

text \<open>
  Discounted trades of the XYK pallet that pay in the native asset: the discounted fee is burnt in
  that asset on top of the price, and the limit of the trade does not cover it.
\<close>

context xyk_pallet
begin

lemma validate_discounted_buy:
  assumes "validate_buy cfg who as n lim True s = Inr t"
  obtains price fee where "t_origin t = who" and "t_assets t = as" and "t_amount t = n" and "t_discount t"
    and "calculate_in_given_out cfg (xyk_free cfg s (asset_out as) (get_pair_id cfg as))
      (xyk_free cfg s (asset_in as) (get_pair_id cfg as)) n = Some price"
    and "discounted_fee price = Some fee" and "t_amount_out t = price + fee" and "price + fee \<le> lim"
    and "calculate_spot_price cfg
      (xyk_free cfg s (asset_out as) (get_pair_id cfg \<lparr>asset_in = asset_out as, asset_out = native_asset_id cfg\<rparr>))
      (xyk_free cfg s (native_asset_id cfg) (get_pair_id cfg \<lparr>asset_in = asset_out as, asset_out = native_asset_id cfg\<rparr>))
      fee = Some (t_discount_amount t)"
  using assms
  by (auto simp: validate_buy_def Let_def try_bind_eq_Inr calculate_discounted_fee_def discount_fee_amount_def
      split: if_splits)

lemma discounted_native_buy:
  assumes inv: "cur_inv (currencies s)" and v: "validate_buy cfg who as n lim True s = Inr t"
    and ex: "execute_buy cfg t s = (Inr (), s')" and native: "asset_in as = native_asset_id cfg"
    and ne: "who \<noteq> get_pair_id cfg as" "asset_in as \<noteq> asset_out as"
  shows "xyk_free cfg s' (asset_out as) who = xyk_free cfg s (asset_out as) who + n \<and>
    xyk_free cfg s (asset_in as) who = xyk_free cfg s' (asset_in as) who + t_amount_out t + t_discount_amount t"
proof -
  from v have t: "t_origin t = who" "t_assets t = as" "t_amount t = n" "t_discount t"
    by (rule validate_discounted_buy, simp)+
  obtain u where u: "currencies s' = u" and free: "cur_free (xyk_currency cfg) u =
      moved (moved (debit (cur_free (xyk_currency cfg) (currencies s)) (native_asset_id cfg) who (t_discount_amount t))
        (asset_out as) (get_pair_id cfg as) who n) (asset_in as) who (get_pair_id cfg as) (t_amount_out t)"
    and le: "t_discount_amount t \<le> xyk_free cfg s (native_asset_id cfg) who"
    and paid: "t_amount_out t \<le> moved (debit (cur_free (xyk_currency cfg) (currencies s)) (native_asset_id cfg) who
        (t_discount_amount t)) (asset_out as) (get_pair_id cfg as) who n (asset_in as) who"
    by (rule execute_buy_ok [OF inv ex]) (use t ne in simp)
  show ?thesis using le paid ne unfolding native [symmetric] xyk_free_def u free by (auto simp: ledger_apply)
qed

end

text \<open>C15: the limit of a discounted buy that pays in the native asset does not bound what it costs. The
  buyer gives the price with its discounted fee, which the limit covers, and on top of it the
  worth of that fee in the native asset, which is burnt from the same balance and compared with
  nothing but what the buyer has.\<close>

theorem discounted_buy_exceeds_limit:
  assumes "multi_currency (xyk_currency cfg) cur_inv" and "cur_inv (currencies s)"
    and "ensure_signed F orig = Inr who" and "native = native_asset_id cfg"
    and "p = get_pair_id cfg \<lparr>asset_in = native, asset_out = b\<rparr>" and "who \<noteq> p" and "native \<noteq> b"
    and "xyk_buy F cfg orig b native n lim True s = (Inr (), s')"
  shows "\<exists>price fee burnt.
    calculate_in_given_out cfg (xyk_free cfg s b p) (xyk_free cfg s native p) n = Some price \<and>
    discounted_fee price = Some fee \<and> price + fee \<le> lim \<and>
    calculate_spot_price cfg (xyk_free cfg s b p) (xyk_free cfg s native p) fee = Some burnt \<and>
    xyk_free cfg s' b who = xyk_free cfg s b who + n \<and>
    xyk_free cfg s native who = xyk_free cfg s' native who + (price + fee) + burnt"
proof -
  let ?pr = "\<lparr>asset_in = native, asset_out = b\<rparr>"
  have pal: "xyk_pallet cfg cur_inv" using assms(1) by (simp add: xyk_pallet_def)
  have "amm_buy (xyk_amm cfg) who ?pr n lim True s = (Inr (), s')" using assms(3,8) by (simp add: xyk_buy_def)
  then obtain t where v: "validate_buy cfg who ?pr n lim True s = Inr t" and ex: "execute_buy cfg t s = (Inr (), s')"
    by (auto simp: amm_buy_def xyk_amm_def and_then_eq_Inr)
  have "xyk_free cfg s' b who = xyk_free cfg s b who + n \<and>
      xyk_free cfg s native who = xyk_free cfg s' native who + t_amount_out t + t_discount_amount t"
    using xyk_pallet.discounted_native_buy [OF pal assms(2) v ex] assms(4-7) by simp
  moreover have "get_pair_id cfg \<lparr>asset_in = b, asset_out = native\<rparr> = p"
    using get_pair_id_swap [of cfg b native] assms(5) by simp
  moreover obtain price fee where
    "calculate_in_given_out cfg (xyk_free cfg s b p) (xyk_free cfg s native p) n = Some price"
    "discounted_fee price = Some fee" "t_amount_out t = price + fee" "price + fee \<le> lim"
    "calculate_spot_price cfg (xyk_free cfg s b (get_pair_id cfg \<lparr>asset_in = b, asset_out = native\<rparr>))
      (xyk_free cfg s native (get_pair_id cfg \<lparr>asset_in = b, asset_out = native\<rparr>)) fee = Some (t_discount_amount t)"
    by (rule xyk_pallet.validate_discounted_buy [OF pal v, unfolded asset_pair.select_convs, folded assms(4,5)])
  ultimately show ?thesis by (intro exI [of _ price] exI [of _ fee] exI [of _ "t_discount_amount t"]) simp
qed

text \<open>A market whose pool trades the native asset, on which such a buy costs 38 units more than its limit.\<close>

definition native_pool :: bytes where
  "native_pool = get_pair_id market_config \<lparr>asset_in = 0, asset_out = 1\<rparr>"

definition native_market :: "(bytes, asset_id \<Rightarrow> (bytes, bytes \<Rightarrow> account_data option) balances_state) xyk_state" where
  "native_market = market_state\<lparr>
     currencies := (\<lambda>c. if c = 0 then balances_start [(trader, purse 1000000), (native_pool, purse 1000000)]
       else if c = 1 then balances_start [(trader, purse 1000000), (native_pool, purse 2000000)]
       else balances_start []),
     share_token := [native_pool \<mapsto> 10]\<rparr>"

lemma native_pool_not_trader: "trader \<noteq> native_pool" "native_pool \<noteq> trader"
  by (auto simp: trader_def native_pool_def get_pair_id_def from_assets_def Let_def)

lemma native_market_free:
  "xyk_free market_config native_market 0 trader = 1000000" "xyk_free market_config native_market 1 trader = 1000000"
  "xyk_free market_config native_market 0 native_pool = 1000000" "xyk_free market_config native_market 1 native_pool = 2000000"
  using native_pool_not_trader
  by (simp_all add: xyk_free_def native_market_def free_balance_def balances_start_account purse_def)

lemma native_market_inv: "balances_liquid_inv (account_map_config 0 50) (currencies native_market)"
proof -
  have "balances_inv (account_map_config 0 50) (currencies native_market c)" for c
    using native_pool_not_trader by (auto simp: native_market_def U128_MAX_def intro!: balances_start_inv)
  then show ?thesis
    by (auto simp: balances_liquid_inv_def unlocked_def native_market_def balances_start_account purse_def
        account_default_def)
qed

lemma native_market_validate:
  "validate_buy market_config trader \<lparr>asset_in = 0, asset_out = 1\<rparr> 200000 111189 True native_market =
     Inr \<lparr>t_origin = trader, t_assets = \<lparr>asset_in = 0, asset_out = 1\<rparr>, t_amount = 200000, t_amount_out = 111189,
          t_discount = True, t_discount_amount = 38\<rparr>"
proof -
  have p: "get_pair_id market_config \<lparr>asset_in = 0, asset_out = 1\<rparr> = native_pool"
    "get_pair_id market_config \<lparr>asset_in = 1, asset_out = 0\<rparr> = native_pool"
    using get_pair_id_swap [of market_config 1 0] by (simp_all add: native_pool_def)
  then have "xyk_exists market_config \<lparr>asset_in = 0, asset_out = 1\<rparr> native_market"
    "xyk_exists market_config \<lparr>asset_in = 1, asset_out = 0\<rparr> native_market"
    by (simp_all add: xyk_exists_pair native_market_def)
  moreover have "calculate_in_given_out market_config 2000000 1000000 200000 = Some 111112"
    "calculate_spot_price market_config 2000000 1000000 77 = Some 38"
    by (simp_all add: market_config_def)
  moreover have "calculate_discounted_fee 111112 = Inr 77"
    by (simp add: calculate_discounted_fee_def discounted_fee_def just_fee_eq_Some U128_MAX_def)
  ultimately show ?thesis
    by (simp add: validate_buy_def Let_def p native_market_free MAX_OUT_RATIO_def checked_add_def U128_MAX_def
        discount_fee_amount_def)
qed

theorem discounted_buy_exceeds_limit_witness:
  "\<exists>s'. xyk_buy market_frame market_config (Some trader) 1 0 200000 111189 True native_market = (Inr (), s') \<and>
     xyk_free market_config native_market 0 trader = xyk_free market_config s' 0 trader + 111227"
proof -
  let ?bal = "account_map_config 0 50 :: (bytes, bytes \<Rightarrow> account_data option) balances_config"
  let ?pr = "\<lparr>asset_in = 0, asset_out = 1\<rparr> :: asset_pair"
  let ?t = "\<lparr>t_origin = trader, t_assets = ?pr, t_amount = 200000, t_amount_out = 111189,
          t_discount = True, t_discount_amount = 38\<rparr>"
  have p: "get_pair_id market_config ?pr = native_pool" by (simp add: native_pool_def)
  have lock: "xyk_lockable market_config (balances_currency_inv ?bal) (balances_locked ?bal) (balances_locked_all ?bal)"
    by (simp add: xyk_lockable_def zero_map.lockable_contract)
  have inv: "balances_currency_inv ?bal (currencies native_market)"
    and free: "balances_locked ?bal (currencies native_market) c a = 0"
      "balances_locked_all ?bal (currencies native_market) c a = 0" for c a
    using native_market_inv by (simp_all add: balances_liquid_inv_alt)
  have "\<exists>s'. execute_buy market_config ?t native_market = (Inr (), s')"
    using xyk_lockable.buy_executes_iff [OF lock, OF inv, of ?t trader ?pr] native_pool_not_trader
    by (simp add: p free native_market_free)
  then obtain s' where "execute_buy market_config ?t native_market = (Inr (), s')" ..
  then have s': "xyk_buy market_frame market_config (Some trader) 1 0 200000 111189 True native_market = (Inr (), s')"
    by (simp add: xyk_buy_def market_signed amm_buy_def xyk_amm_def native_market_validate)
  have cur: "multi_currency (xyk_currency market_config) (balances_currency_inv ?bal)"
    by (simp add: zero_map.currency_contract)
  have native: "0 = native_asset_id market_config" by simp
  have in_price: "calculate_in_given_out market_config 2000000 1000000 200000 = Some 111112"
    and spot: "calculate_spot_price market_config 2000000 1000000 77 = Some 38" by (simp_all add: market_config_def)
  from discounted_buy_exceeds_limit [OF cur inv market_signed [of trader] native p [symmetric] native_pool_not_trader(1) _ s'] s'
  show ?thesis
    by (auto simp: native_market_free discounted_fee_def just_fee_eq_Some in_price spot)
qed

end
