(* ===== verification/Exchange.thy ===== *)
theory Exchange
  imports Primitives Multi_Currency
begin

text \<open>
  \<open>src/pallets/exchange/src\<close>: trade intentions are collected during a block and resolved when
  the block is finalised, first against each other (\<open>direct.rs\<close>) and the rest through the
  automated market maker. The pallet is generic in the market maker (\<open>amm_ops\<close>) and in the
  multi-currency, both on one shared state \<open>'s\<close> of the chain, and in the hash that names an
  intention. The order in which the framework iterates over a storage map is an argument of
  \<open>on_finalize\<close>. A failing \<open>expect\<close> is the error \<open>Panic\<close>, which stops the block.
\<close>

section \<open>Data\<close>

datatype 'acc exchange_event =
    IntentionRegistered 'acc asset_id asset_id balance intention_type bytes
  | IntentionResolvedAMMTrade 'acc intention_type bytes balance balance
  | IntentionResolvedDirectTrade 'acc 'acc bytes bytes balance balance
  | IntentionResolvedDirectTradeFees 'acc bytes 'acc asset_id balance
  | InsufficientAssetBalanceEvent 'acc asset_id intention_type bytes dispatch_error
  | IntentionResolveErrorEvent 'acc asset_pair intention_type bytes dispatch_error

record ('acc, 's) exchange_config =
  ex_amm :: "('acc, 's) amm_ops"
  ex_currency :: "('acc, 's) currency_ops"
  intention_hash :: "u32 \<Rightarrow> 'acc \<Rightarrow> block_number \<Rightarrow> asset_id \<Rightarrow> asset_id \<Rightarrow> bytes"

record ('acc, 's) exchange_state =
  chain :: 's
  intention_count :: "asset_id \<times> asset_id \<Rightarrow> u32 option"
  intentions :: "asset_id \<times> asset_id \<Rightarrow> 'acc exchange_intention list option"
  current_block :: block_number
  exchange_events :: "'acc exchange_event list"

type_synonym ('acc, 's, 'a) exchange_result = "(dispatch_error + 'a) \<times> ('acc, 's) exchange_state"

definition get_intentions_count :: "('acc, 's) exchange_state \<Rightarrow> asset_id \<times> asset_id \<Rightarrow> u32" where
  "get_intentions_count s k = (case intention_count s k of None \<Rightarrow> 0 | Some n \<Rightarrow> n)"

definition get_intentions ::
  "('acc, 's) exchange_state \<Rightarrow> asset_id \<times> asset_id \<Rightarrow> 'acc exchange_intention list" where
  "get_intentions s k = (case intentions s k of None \<Rightarrow> [] | Some xs \<Rightarrow> xs)"

definition exchange_deposit_event ::
  "'acc exchange_event \<Rightarrow> ('acc, 's) exchange_state \<Rightarrow> ('acc, 's) exchange_state" where
  "exchange_deposit_event ev s = s\<lparr>exchange_events := exchange_events s @ [ev]\<rparr>"

definition on_chain :: "('s \<Rightarrow> 'r \<times> 's) \<Rightarrow> ('acc, 's) exchange_state \<Rightarrow> 'r \<times> ('acc, 's) exchange_state" where
  "on_chain = zoom chain (\<lambda>t s. s\<lparr>chain := t\<rparr>)"

section \<open>Direct trades\<close>

record 'acc transfer =
  tr_from :: 'acc
  tr_to :: 'acc
  tr_asset :: asset_id
  tr_amount :: balance
  tr_fee_transfer :: bool

record 'acc direct_trade_data =
  intention_a :: "'acc exchange_intention"
  intention_b :: "'acc exchange_intention"
  amount_from_a :: balance
  amount_from_b :: balance
  transfers :: "'acc transfer list"

definition send_insufficient_balance_event ::
  "'acc exchange_intention \<Rightarrow> asset_id \<Rightarrow> ('acc, 's) exchange_state \<Rightarrow> ('acc, 's) exchange_state" where
  "send_insufficient_balance_event i asset =
     exchange_deposit_event (InsufficientAssetBalanceEvent (i_who i) asset (i_sell_or_buy i)
       (i_intention_id i) (Exchange Exchange_InsufficientAssetBalance))"

definition send_trade_fee_event ::
  "'acc \<Rightarrow> 'acc exchange_intention \<Rightarrow> 'acc \<Rightarrow> asset_id \<Rightarrow> balance \<Rightarrow>
   ('acc, 's) exchange_state \<Rightarrow> ('acc, 's) exchange_state" where
  "send_trade_fee_event src i dst asset amount =
     exchange_deposit_event (IntentionResolvedDirectTradeFees src (i_intention_id i) dst asset amount)"

definition send_direct_trade_resolve_event ::
  "'acc direct_trade_data \<Rightarrow> ('acc, 's) exchange_state \<Rightarrow> ('acc, 's) exchange_state" where
  "send_direct_trade_resolve_event dt =
     exchange_deposit_event (IntentionResolvedDirectTrade (i_who (intention_a dt)) (i_who (intention_b dt))
       (i_intention_id (intention_a dt)) (i_intention_id (intention_b dt))
       (amount_from_a dt) (amount_from_b dt))"

definition reserve_if_can ::
  "('acc, 's) exchange_config \<Rightarrow> asset_id \<Rightarrow> 'acc \<Rightarrow> balance \<Rightarrow>
   ('acc, 's) exchange_state \<Rightarrow> bool \<times> ('acc, 's) exchange_state" where
  "reserve_if_can cfg asset who amount s =
     (case on_chain (cur_reserve (ex_currency cfg) asset who amount) s of (r, s') \<Rightarrow> (is_ok r, s'))"

text \<open>Where the two fees are taken: the asset and the amount for each side.\<close>

definition trade_fees ::
  "'acc direct_trade_data \<Rightarrow> balance \<Rightarrow> balance \<Rightarrow> (asset_id \<times> balance) \<times> (asset_id \<times> balance)" where
  "trade_fees dt transfer_a_fee transfer_b_fee =
     (let a = i_assets (intention_a dt); b = i_assets (intention_b dt) in
      case (i_sell_or_buy (intention_a dt), i_sell_or_buy (intention_b dt)) of
        (SELL, SELL) \<Rightarrow> ((asset_out a, transfer_b_fee), (asset_out b, transfer_a_fee))
      | (BUY, BUY) \<Rightarrow> ((asset_in a, transfer_a_fee), (asset_in b, transfer_b_fee))
      | (BUY, SELL) \<Rightarrow> ((asset_in a, transfer_a_fee), (asset_out b, transfer_b_fee))
      | (SELL, BUY) \<Rightarrow> ((asset_out a, transfer_a_fee), (asset_in b, transfer_b_fee)))"

definition prepare ::
  "('acc, 's) exchange_config \<Rightarrow> 'acc \<Rightarrow> 'acc direct_trade_data \<Rightarrow>
   ('acc, 's) exchange_state \<Rightarrow> (bool \<times> 'acc direct_trade_data) \<times> ('acc, 's) exchange_state" where
  "prepare cfg pool_account dt s =
     (let ia = intention_a dt; ib = intention_b dt;
          a_in = asset_in (i_assets ia); a_out = asset_out (i_assets ia) in
      if cur_free (ex_currency cfg) (chain s) a_in (i_who ia) < amount_from_a dt
      then ((False, dt), send_insufficient_balance_event ia a_in s)
      else if cur_free (ex_currency cfg) (chain s) a_out (i_who ib) < amount_from_b dt
      then ((False, dt), send_insufficient_balance_event ib a_out s)
      else case reserve_if_can cfg a_in (i_who ia) (amount_from_a dt) s of (ok1, s1) \<Rightarrow>
      if \<not> ok1 then ((False, dt), s1)
      else case reserve_if_can cfg a_out (i_who ib) (amount_from_b dt) s1 of (ok2, s2) \<Rightarrow>
      if \<not> ok2 then ((False, dt), s2)
      else let dt = dt\<lparr>transfers := transfers dt @
             [\<lparr>tr_from = i_who ia, tr_to = i_who ib, tr_asset = a_in, tr_amount = amount_from_a dt,
               tr_fee_transfer = False\<rparr>,
              \<lparr>tr_from = i_who ib, tr_to = i_who ia, tr_asset = a_out, tr_amount = amount_from_b dt,
               tr_fee_transfer = False\<rparr>]\<rparr> in
      case (just_fee (amount_from_a dt) fee_default, just_fee (amount_from_b dt) fee_default) of
        (Some transfer_a_fee, Some transfer_b_fee) \<Rightarrow>
          (let ((asset_fa, fee_a), (asset_fb, fee_b)) = trade_fees dt transfer_a_fee transfer_b_fee in
           case reserve_if_can cfg asset_fa (i_who ia) fee_a s2 of (ok3, s3) \<Rightarrow>
           if \<not> ok3 then ((False, dt), s3)
           else case reserve_if_can cfg asset_fb (i_who ib) fee_b s3 of (ok4, s4) \<Rightarrow>
           if \<not> ok4 then ((False, dt), s4)
           else ((True, dt\<lparr>transfers := transfers dt @
             [\<lparr>tr_from = i_who ia, tr_to = pool_account, tr_asset = asset_fa, tr_amount = fee_a,
               tr_fee_transfer = True\<rparr>,
              \<lparr>tr_from = i_who ib, tr_to = pool_account, tr_asset = asset_fb, tr_amount = fee_b,
               tr_fee_transfer = True\<rparr>]\<rparr>), s4))
      | _ \<Rightarrow> ((False, dt), s2))"

fun execute_transfers ::
  "('acc, 's) exchange_config \<Rightarrow> 'acc direct_trade_data \<Rightarrow> 'acc transfer list \<Rightarrow>
   ('acc, 's) exchange_state \<Rightarrow> ('acc, 's, bool) exchange_result" where
  "execute_transfers cfg dt [] s = (Inr True, s)"
| "execute_transfers cfg dt (t # ts) s =
     (case on_chain (cur_repatriate (ex_currency cfg) (tr_asset t) (tr_from t) (tr_to t) (tr_amount t)
                       Status_Free) s of
        (Inl _, s') \<Rightarrow> (Inl (Panic ''Cannot fail. Checks should have been done prior to this.''), s')
      | (Inr _, s') \<Rightarrow>
          (let s'' = (if tr_fee_transfer t then
                        (let intention = (if tr_from t = i_who (intention_a dt)
                                          then intention_a dt else intention_b dt)
                         in send_trade_fee_event (tr_from t) intention (tr_to t) (tr_asset t) (tr_amount t) s')
                      else s')
           in execute_transfers cfg dt ts s''))"

definition direct_execute ::
  "('acc, 's) exchange_config \<Rightarrow> 'acc direct_trade_data \<Rightarrow>
   ('acc, 's) exchange_state \<Rightarrow> ('acc, 's, bool) exchange_result" where
  "direct_execute cfg dt s =
     execute_transfers cfg dt (transfers dt) (send_direct_trade_resolve_event dt s)"

definition revert ::
  "('acc, 's) exchange_config \<Rightarrow> 'acc direct_trade_data \<Rightarrow>
   ('acc, 's) exchange_state \<Rightarrow> ('acc, 's) exchange_state" where
  "revert cfg dt s =
     fold (\<lambda>t s. snd (on_chain (cur_unreserve (ex_currency cfg) (tr_asset t) (tr_from t) (tr_amount t)) s))
       (transfers dt) s"

section \<open>Registering intentions\<close>

definition generate_intention_id ::
  "('acc, 's) exchange_config \<Rightarrow> 'acc \<Rightarrow> u32 \<Rightarrow> asset_pair \<Rightarrow> ('acc, 's) exchange_state \<Rightarrow> bytes" where
  "generate_intention_id cfg who c as s =
     intention_hash cfg c who (current_block s) (fst (ordered_pair as)) (snd (ordered_pair as))"

definition register_intention ::
  "('acc, 's) exchange_config \<Rightarrow> 'acc \<Rightarrow> intention_type \<Rightarrow> asset_pair \<Rightarrow> balance \<Rightarrow> balance \<Rightarrow> balance \<Rightarrow> bool \<Rightarrow>
   ('acc, 's) exchange_state \<Rightarrow> ('acc, 's, unit) exchange_result" where
  "register_intention cfg who intention_type as amount_in amount_out limit discount s =
     (let count = get_intentions_count s (ordered_pair as);
          intention_id = generate_intention_id cfg who count as s;
          intention = \<lparr>i_who = who, i_assets = as, i_amount_in = amount_in, i_amount_out = amount_out,
                       i_trade_limit = limit, i_discount = discount, i_sell_or_buy = intention_type,
                       i_intention_id = intention_id\<rparr>;
          key = (asset_in as, asset_out as);
          s = s\<lparr>intentions := (intentions s)(key \<mapsto> get_intentions s key @ [intention])\<rparr>;
          s = s\<lparr>intention_count := (intention_count s)
                 (ordered_pair as \<mapsto> get_intentions_count s (ordered_pair as) + 1)\<rparr>;
          ev = (case intention_type of
                  SELL \<Rightarrow> IntentionRegistered who (asset_in as) (asset_out as) amount_in intention_type intention_id
                | BUY \<Rightarrow> IntentionRegistered who (asset_out as) (asset_in as) amount_out intention_type intention_id)
      in (Inr (), exchange_deposit_event ev s))"

definition exchange_sell ::
  "('o, 'src, 'acc) frame_ops \<Rightarrow> ('acc, 's) exchange_config \<Rightarrow> 'o \<Rightarrow> asset_id \<Rightarrow> asset_id \<Rightarrow> balance \<Rightarrow> balance \<Rightarrow> bool \<Rightarrow>
   ('acc, 's) exchange_state \<Rightarrow> ('acc, 's, unit) exchange_result" where
  "exchange_sell F cfg orig asset_sell asset_buy amount_sell min_bought discount s =
     and_then (ensure_signed F orig, s) (\<lambda>who s.
     if \<not> MIN_TRADING_LIMIT \<le> amount_sell then (Inl (Exchange MinimumTradeLimitNotReached), s)
     else let as = \<lparr>asset_in = asset_sell, asset_out = asset_buy\<rparr> in
     if \<not> amm_exists (ex_amm cfg) as (chain s) then (Inl (Exchange Exchange_TokenPoolNotFound), s)
     else if \<not> amount_sell \<le> cur_free (ex_currency cfg) (chain s) asset_sell who
     then (Inl (Exchange Exchange_InsufficientAssetBalance), s)
     else let amount_buy = amm_get_spot_price_unchecked (ex_amm cfg) asset_sell asset_buy amount_sell (chain s) in
     if amount_buy = 0 then (Inl (Exchange ZeroSpotPrice), s)
     else register_intention cfg who SELL as amount_sell amount_buy min_bought discount s)"

definition exchange_buy ::
  "('o, 'src, 'acc) frame_ops \<Rightarrow> ('acc, 's) exchange_config \<Rightarrow> 'o \<Rightarrow> asset_id \<Rightarrow> asset_id \<Rightarrow> balance \<Rightarrow> balance \<Rightarrow> bool \<Rightarrow>
   ('acc, 's) exchange_state \<Rightarrow> ('acc, 's, unit) exchange_result" where
  "exchange_buy F cfg orig asset_buy asset_sell amount_buy max_sold discount s =
     and_then (ensure_signed F orig, s) (\<lambda>who s.
     if \<not> MIN_TRADING_LIMIT \<le> amount_buy then (Inl (Exchange MinimumTradeLimitNotReached), s)
     else let as = \<lparr>asset_in = asset_sell, asset_out = asset_buy\<rparr> in
     if \<not> amm_exists (ex_amm cfg) as (chain s) then (Inl (Exchange Exchange_TokenPoolNotFound), s)
     else let amount_sell = amm_get_spot_price_unchecked (ex_amm cfg) asset_buy asset_sell amount_buy (chain s) in
     if amount_sell = 0 then (Inl (Exchange ZeroSpotPrice), s)
     else if \<not> amount_sell \<le> cur_free (ex_currency cfg) (chain s) asset_sell who
     then (Inl (Exchange Exchange_InsufficientAssetBalance), s)
     else register_intention cfg who BUY as amount_sell amount_buy max_sold discount s)"

section \<open>Resolving intentions\<close>

definition execute_amm_transfer ::
  "('acc, 's) exchange_config \<Rightarrow> intention_type \<Rightarrow> bytes \<Rightarrow> 'acc amm_transfer \<Rightarrow>
   ('acc, 's) exchange_state \<Rightarrow> ('acc, 's, unit) exchange_result" where
  "execute_amm_transfer cfg kind intention_id t s =
     (case kind of
        SELL \<Rightarrow>
          and_then (on_chain (amm_execute_sell (ex_amm cfg) t) s) (\<lambda>_ s.
            (Inr (), exchange_deposit_event
               (IntentionResolvedAMMTrade (t_origin t) SELL intention_id (t_amount t) (t_amount_out t)) s))
      | BUY \<Rightarrow>
          and_then (on_chain (amm_execute_buy (ex_amm cfg) t) s) (\<lambda>_ s.
            (Inr (), exchange_deposit_event
               (IntentionResolvedAMMTrade (t_origin t) BUY intention_id (t_amount t) (t_amount_out t)) s)))"

definition send_intention_error_event ::
  "'acc exchange_intention \<Rightarrow> dispatch_error \<Rightarrow> ('acc, 's) exchange_state \<Rightarrow> ('acc, 's) exchange_state" where
  "send_intention_error_event i error =
     exchange_deposit_event (IntentionResolveErrorEvent (i_who i) (i_assets i) (i_sell_or_buy i)
       (i_intention_id i) error)"

text \<open>The AMM validation of an intention, with a given amount and limit.\<close>

definition validate_intention ::
  "('acc, 's) exchange_config \<Rightarrow> 'acc exchange_intention \<Rightarrow> balance \<Rightarrow> balance \<Rightarrow> balance \<Rightarrow>
   ('acc, 's) exchange_state \<Rightarrow> dispatch_error + 'acc amm_transfer" where
  "validate_intention cfg i amount_in amount_out limit s =
     (case i_sell_or_buy i of
        SELL \<Rightarrow> amm_validate_sell (ex_amm cfg) (i_who i) (i_assets i) amount_in limit (i_discount i) (chain s)
      | BUY \<Rightarrow> amm_validate_buy (ex_amm cfg) (i_who i) (i_assets i) amount_out limit (i_discount i) (chain s))"

definition verify_intention ::
  "('acc, 's) exchange_config \<Rightarrow> 'acc exchange_intention \<Rightarrow>
   ('acc, 's) exchange_state \<Rightarrow> bool \<times> ('acc, 's) exchange_state" where
  "verify_intention cfg i s =
     (case validate_intention cfg i (i_amount_in i) (i_amount_out i) (i_trade_limit i) s of
        Inl error \<Rightarrow> (False, send_intention_error_event i error s)
      | Inr _ \<Rightarrow> (True, s))"

definition resolve_single_intention ::
  "('acc, 's) exchange_config \<Rightarrow> 'acc exchange_intention \<Rightarrow>
   ('acc, 's) exchange_state \<Rightarrow> ('acc, 's) exchange_state" where
  "resolve_single_intention cfg i s =
     (case validate_intention cfg i (i_amount_in i) (i_amount_out i) (i_trade_limit i) s of
        Inr x \<Rightarrow>
          (case execute_amm_transfer cfg (i_sell_or_buy i) (i_intention_id i) x s of
             (Inr _, s') \<Rightarrow> s'
           | (Inl error, s') \<Rightarrow> send_intention_error_event i error s')
      | Inl error \<Rightarrow> send_intention_error_event i error s)"

text \<open>Whether an amount misses the limit of an intention: too little for a sell, too much for a buy.\<close>

definition misses_limit :: "intention_type \<Rightarrow> balance \<Rightarrow> balance \<Rightarrow> bool" where
  "misses_limit kind amount limit = (case kind of SELL \<Rightarrow> amount < limit | BUY \<Rightarrow> limit < amount)"

text \<open>Prepare a direct trade, and execute it or revert it.\<close>

definition trade_or_revert ::
  "('acc, 's) exchange_config \<Rightarrow> 'acc \<Rightarrow> 'acc direct_trade_data \<Rightarrow>
   ('acc, 's) exchange_state \<Rightarrow> ('acc, 's, bool) exchange_result" where
  "trade_or_revert cfg pair_account dt s =
     (case prepare cfg pair_account dt s of
        ((True, dt), s) \<Rightarrow> and_then (direct_execute cfg dt s) (\<lambda>_ s. (Inr True, s))
      | ((False, dt), s) \<Rightarrow> (Inr False, revert cfg dt s))"

text \<open>
  One turn of the loop of \<open>resolve_matched_intentions\<close>: \<open>main\<close> is the intention as registered,
  \<open>copy\<close> what is left of it, and the result is what is left afterwards.
\<close>

definition resolve_larger ::
  "('acc, 's) exchange_config \<Rightarrow> 'acc \<Rightarrow> 'acc exchange_intention \<Rightarrow> 'acc exchange_intention \<Rightarrow>
   ('acc, 's) exchange_state \<Rightarrow> ('acc, 's, 'acc exchange_intention) exchange_result" where
  "resolve_larger cfg pair_account copy m s =
     (let amount_a_in = i_amount_in copy; amount_a_out = i_amount_out copy;
          amount_b_in = i_amount_in m; amount_b_out = i_amount_out m;
          dt = \<lparr>intention_a = copy, intention_b = m, amount_from_a = amount_b_out,
                amount_from_b = amount_b_in, transfers = []\<rparr> in
      if misses_limit (i_sell_or_buy m) (amount_from_a dt) (i_trade_limit m)
      then (Inr copy, send_intention_error_event m (Exchange Exchange_AssetBalanceLimitExceeded) s)
      else and_then (trade_or_revert cfg pair_account dt s) (\<lambda>traded s.
        if traded
        then (Inr (copy\<lparr>i_amount_in := wrapping_sub amount_a_in amount_b_out,
                        i_amount_out := wrapping_sub amount_a_out amount_b_in,
                        i_trade_limit :=
                          (case i_sell_or_buy copy of
                             SELL \<Rightarrow> saturating_sub (i_trade_limit copy) amount_b_in
                           | BUY \<Rightarrow> wrapping_sub (i_trade_limit copy) amount_b_in)\<rparr>), s)
        else (Inr copy, s)))"

definition resolve_smaller ::
  "('acc, 's) exchange_config \<Rightarrow> 'acc \<Rightarrow> 'acc exchange_intention \<Rightarrow> 'acc exchange_intention \<Rightarrow>
   ('acc, 's) exchange_state \<Rightarrow> ('acc, 's, 'acc exchange_intention) exchange_result" where
  "resolve_smaller cfg pair_account copy m s =
     (let amount_a_in = i_amount_in copy; amount_a_out = i_amount_out copy;
          amount_b_in = i_amount_in m; amount_b_out = i_amount_out m in
      case (checked_sub amount_b_in amount_a_out, checked_sub amount_b_out amount_a_in) of
        (Some rest_in_amount, Some rest_out_amount) \<Rightarrow>
          (let rest_limit = saturating_sub (i_trade_limit m) amount_a_in;
               dt = \<lparr>intention_a = copy, intention_b = m, amount_from_a = amount_a_in,
                     amount_from_b = wrapping_sub amount_b_in rest_in_amount, transfers = []\<rparr> in
           case validate_intention cfg m rest_in_amount rest_out_amount rest_limit s of
             Inl error \<Rightarrow> (Inr copy, send_intention_error_event m error s)
           | Inr amm_transfer \<Rightarrow>
               if misses_limit (i_sell_or_buy m) (amount_from_b dt)
                    (wrapping_sub (i_trade_limit m) (t_amount_out amm_transfer))
               then (Inr copy, send_intention_error_event m (Exchange Exchange_AssetBalanceLimitExceeded) s)
               else (case prepare cfg pair_account dt s of
                       ((False, dt), s) \<Rightarrow> (Inr copy, revert cfg dt s)
                     | ((True, dt), s) \<Rightarrow>
                         (case execute_amm_transfer cfg (i_sell_or_buy m) (i_intention_id m) amm_transfer s of
                            (Inr _, s) \<Rightarrow>
                              and_then (direct_execute cfg dt s) (\<lambda>_ s. (Inr (copy\<lparr>i_amount_in := 0\<rparr>), s))
                          | (Inl error, s) \<Rightarrow>
                              (Inr copy, revert cfg dt (send_intention_error_event m error s)))))
      | _ \<Rightarrow> (Inr copy, send_intention_error_event m (Exchange Exchange_AssetBalanceLimitExceeded) s))"

definition resolve_equal ::
  "('acc, 's) exchange_config \<Rightarrow> 'acc \<Rightarrow> 'acc exchange_intention \<Rightarrow> 'acc exchange_intention \<Rightarrow>
   'acc exchange_intention \<Rightarrow>
   ('acc, 's) exchange_state \<Rightarrow> ('acc, 's, 'acc exchange_intention) exchange_result" where
  "resolve_equal cfg pair_account main copy m s =
     (let dt = \<lparr>intention_a = copy, intention_b = m, amount_from_a = i_amount_in copy,
                amount_from_b = i_amount_in m, transfers = []\<rparr> in
      if misses_limit (i_sell_or_buy main) (amount_from_b dt) (i_trade_limit main)
      then (Inr copy, send_intention_error_event main (Exchange Exchange_AssetBalanceLimitExceeded) s)
      else if misses_limit (i_sell_or_buy m) (amount_from_a dt) (i_trade_limit m)
      then (Inr copy, send_intention_error_event m (Exchange Exchange_AssetBalanceLimitExceeded) s)
      else and_then (trade_or_revert cfg pair_account dt s) (\<lambda>traded s.
        (Inr (if traded then copy\<lparr>i_amount_in := 0\<rparr> else copy), s)))"

fun resolve_loop ::
  "('acc, 's) exchange_config \<Rightarrow> 'acc \<Rightarrow> 'acc exchange_intention \<Rightarrow> 'acc exchange_intention \<Rightarrow>
   'acc exchange_intention list \<Rightarrow>
   ('acc, 's) exchange_state \<Rightarrow> ('acc, 's, 'acc exchange_intention) exchange_result" where
  "resolve_loop cfg pair_account main copy [] s = (Inr copy, s)"
| "resolve_loop cfg pair_account main copy (m # ms) s =
     and_then
       (if i_amount_out m < i_amount_in copy then resolve_larger cfg pair_account copy m s
        else if i_amount_in copy < i_amount_out m then resolve_smaller cfg pair_account copy m s
        else resolve_equal cfg pair_account main copy m s)
       (\<lambda>copy s. resolve_loop cfg pair_account main copy ms s)"

definition resolve_matched_intentions ::
  "('acc, 's) exchange_config \<Rightarrow> 'acc \<Rightarrow> 'acc exchange_intention \<Rightarrow> 'acc exchange_intention list \<Rightarrow>
   ('acc, 's) exchange_state \<Rightarrow> ('acc, 's, unit) exchange_result" where
  "resolve_matched_intentions cfg pair_account intention matched s =
     and_then (resolve_loop cfg pair_account intention intention matched s) (\<lambda>copy s.
       (Inr (), if 0 < i_amount_in copy then resolve_single_intention cfg copy s else s))"

section \<open>Matching\<close>

definition sort_descending :: "'acc exchange_intention list \<Rightarrow> 'acc exchange_intention list" where
  "sort_descending = sort_key (\<lambda>i. - int (i_amount_in i))"

text \<open>The inner loop: pop from the end of \<open>b_copy\<close> until the popped amounts reach the target.\<close>

function take_matching ::
  "'acc exchange_intention list \<Rightarrow> balance \<Rightarrow> balance \<Rightarrow> 'acc exchange_intention list \<Rightarrow>
   'acc exchange_intention list \<times> 'acc exchange_intention list" where
  "take_matching b_copy target sum_in bvec =
     (if b_copy = [] then (bvec, b_copy)
      else let matched = last b_copy;
               b_copy = butlast b_copy;
               bvec = bvec @ [matched];
               sum_in = wrapping_add sum_in (i_amount_in matched)
           in if target \<le> sum_in then (bvec, b_copy) else take_matching b_copy target sum_in bvec)"
  by pat_completeness auto

termination
  by (relation "measure (\<lambda>(b_copy, _). length b_copy)") auto

declare take_matching.simps [simp del]

fun process_main ::
  "('acc, 's) exchange_config \<Rightarrow> 'acc \<Rightarrow> 'acc exchange_intention list \<Rightarrow> 'acc exchange_intention list \<Rightarrow>
   ('acc, 's) exchange_state \<Rightarrow> ('acc, 's, 'acc exchange_intention list) exchange_result" where
  "process_main cfg pair_account [] b_copy s = (Inr b_copy, s)"
| "process_main cfg pair_account (intention # a_copy) b_copy s =
     (case verify_intention cfg intention s of
        (False, s) \<Rightarrow> process_main cfg pair_account a_copy b_copy s
      | (True, s) \<Rightarrow>
          (let (bvec, b_copy) = take_matching b_copy (i_amount_in intention) 0 []
           in and_then (resolve_matched_intentions cfg pair_account intention bvec s) (\<lambda>_ s.
                process_main cfg pair_account a_copy b_copy s)))"

definition process_exchange_intentions ::
  "('acc, 's) exchange_config \<Rightarrow> 'acc \<Rightarrow> 'acc exchange_intention list \<Rightarrow> 'acc exchange_intention list \<Rightarrow>
   ('acc, 's) exchange_state \<Rightarrow> ('acc, 's, unit) exchange_result" where
  "process_exchange_intentions cfg pair_account a_in_intentions b_in_intentions s =
     (let b_copy = rev (sort_descending b_in_intentions);
          a_copy = sort_descending a_in_intentions
      in and_then (process_main cfg pair_account a_copy b_copy s) (\<lambda>b_copy s.
           (Inr (), fold (resolve_single_intention cfg) (rev b_copy) s)))"

fun process_pairs ::
  "('acc, 's) exchange_config \<Rightarrow> (asset_id \<times> asset_id) list \<Rightarrow>
   ('acc, 's) exchange_state \<Rightarrow> ('acc, 's, unit) exchange_result" where
  "process_pairs cfg [] s = (Inr (), s)"
| "process_pairs cfg ((asset_1, asset_2) # ks) s =
     (if get_intentions_count s (asset_1, asset_2) = 0 then process_pairs cfg ks s
      else let pair_account = amm_get_pair_id (ex_amm cfg) \<lparr>asset_in = asset_1, asset_out = asset_2\<rparr>;
               asset_a_ins = get_intentions s (asset_2, asset_1);
               asset_b_ins = get_intentions s (asset_1, asset_2)
           in and_then (process_exchange_intentions cfg pair_account asset_a_ins asset_b_ins s)
                (\<lambda>_ s. process_pairs cfg ks s))"

text \<open>\<open>keys\<close> are the keys of the counter map in the order the framework iterates over them.\<close>

definition on_finalize ::
  "('acc, 's) exchange_config \<Rightarrow> (asset_id \<times> asset_id) list \<Rightarrow>
   ('acc, 's) exchange_state \<Rightarrow> ('acc, 's, unit) exchange_result" where
  "on_finalize cfg keys s =
     and_then (process_pairs cfg keys s) (\<lambda>_ s.
       (Inr (), s\<lparr>intention_count := Map.empty, intentions := Map.empty\<rparr>))"

end
