(* ===== verification/Exchange_Laws.thy ===== *)
theory Exchange_Laws
  imports Exchange "HOL-Library.Sublist"
begin

text \<open>
  The laws of the exchange pallet over any multi-currency and any automated market maker that
  keep their contracts (locale \<open>exchange_pallet\<close>): finalising a block keeps the currency
  invariant and creates no asset; a prepared direct trade that executes is exactly the
  transfers it lists; and the matching loop splits the opposite intentions without losing or
  repeating any.
\<close>

section \<open>Matching\<close>

lemma take_matching_split:
  "take_matching b t acc bvec = (bvec', rest) \<Longrightarrow> \<exists>ms. bvec' = bvec @ ms \<and> b = rest @ rev ms"
proof (induction b t acc bvec arbitrary: bvec' rest rule: take_matching.induct)
  case (1 b t acc bvec)
  show ?case
  proof (cases "b = []")
    case True
    with "1.prems" show ?thesis by (auto simp: take_matching.simps [of "[]"])
  next
    case False
    let ?m = "last b" and ?b = "butlast b" and ?v = "bvec @ [last b]" and ?acc = "wrapping_add acc (i_amount_in (last b))"
    have b: "b = ?b @ [?m]" using False by simp
    show ?thesis
    proof (cases "t \<le> ?acc")
      case True
      with "1.prems" False have "bvec' = ?v" "rest = ?b" by (auto simp: take_matching.simps [of b] Let_def)
      with b show ?thesis by (intro exI [of _ "[?m]"]) auto
    next
      case f: False
      with "1.prems" False have "take_matching ?b t ?acc ?v = (bvec', rest)"
        by (simp add: take_matching.simps [of b] Let_def)
      from "1.IH" [OF False refl refl refl refl f this] obtain ms where "bvec' = ?v @ ms" "?b = rest @ rev ms" by blast
      with b show ?thesis by (intro exI [of _ "?m # ms"]) (metis append_Cons append_assoc append_Nil rev.simps(2))
    qed
  qed
qed

lemma take_matching_partition:
  assumes "take_matching b t 0 [] = (bvec, rest)"
  shows "b = rest @ rev bvec"
  using take_matching_split [OF assms] by auto

text \<open>Without overflow, everything popped but the last stays below the target.\<close>

lemma take_matching_bound:
  assumes "take_matching b t acc bvec = (bvec @ ms, rest)" and "acc < t"
    and "acc + sum_list (map i_amount_in b) \<le> U128_MAX"
  shows "ms \<noteq> [] \<longrightarrow> acc + sum_list (map i_amount_in (butlast ms)) < t"
    and "rest \<noteq> [] \<longrightarrow> t \<le> acc + sum_list (map i_amount_in ms)"
proof -
  have "(ms \<noteq> [] \<longrightarrow> acc + sum_list (map i_amount_in (butlast ms)) < t) \<and>
      (rest \<noteq> [] \<longrightarrow> t \<le> acc + sum_list (map i_amount_in ms))"
    using assms
  proof (induction b t acc bvec arbitrary: ms rest rule: take_matching.induct)
    case (1 b t acc bvec)
    show ?case
    proof (cases "b = []")
      case True
      with "1.prems" show ?thesis by (auto simp: take_matching.simps [of "[]"])
    next
      case False
      let ?m = "last b" and ?b = "butlast b"
      have "sum_list (map i_amount_in (?b @ [?m])) = sum_list (map i_amount_in ?b) + i_amount_in ?m"
        by simp
      then have "sum_list (map i_amount_in b) = sum_list (map i_amount_in ?b) + i_amount_in ?m"
        unfolding append_butlast_last_id [OF False] .
      with "1.prems"(3) have w: "wrapping_add acc (i_amount_in ?m) = acc + i_amount_in ?m"
        and le: "acc + i_amount_in ?m + sum_list (map i_amount_in ?b) \<le> U128_MAX"
        by (simp_all add: wrapping_add_exact)
      show ?thesis
      proof (cases "t \<le> acc + i_amount_in ?m")
        case True
        with "1.prems"(1) False w have "ms = [?m]" by (simp add: take_matching.simps [of b] Let_def)
        with True "1.prems"(2) show ?thesis by simp
      next
        case f: False
        with "1.prems"(1) False w have r: "take_matching ?b t (acc + i_amount_in ?m) (bvec @ [?m]) = (bvec @ ms, rest)"
          by (simp add: take_matching.simps [of b] Let_def)
        from take_matching_split [OF this] obtain ms' where ms: "ms = ?m # ms'" by auto
        have "take_matching ?b t (wrapping_add acc (i_amount_in ?m)) (bvec @ [?m]) = ((bvec @ [?m]) @ ms', rest)"
          using r ms w by simp
        from "1.IH" [OF False refl refl refl refl _ this] f w le
        have "(ms' \<noteq> [] \<longrightarrow> acc + i_amount_in ?m + sum_list (map i_amount_in (butlast ms')) < t) \<and>
            (rest \<noteq> [] \<longrightarrow> t \<le> acc + i_amount_in ?m + sum_list (map i_amount_in ms'))"
          by (simp add: w)
        with ms f "1.prems"(2) show ?thesis by (cases ms') (simp_all add: add.assoc)
      qed
    qed
  qed
  then show "ms \<noteq> [] \<longrightarrow> acc + sum_list (map i_amount_in (butlast ms)) < t"
    and "rest \<noteq> [] \<longrightarrow> t \<le> acc + sum_list (map i_amount_in ms)" by auto
qed

lemma mset_sort_descending [simp]: "mset (sort_descending xs) = mset xs"
  by (simp add: sort_descending_def)

lemma sorted_sort_descending: "sorted_wrt (\<lambda>x y. i_amount_in y \<le> i_amount_in x) (sort_descending xs)"
proof -
  have "sorted (map (\<lambda>i. - int (i_amount_in i)) (sort_descending xs))"
    unfolding sort_descending_def by (rule sorted_sort_key)
  then show ?thesis by (simp add: sorted_map)
qed

section \<open>Settlement\<close>

lemma on_chain_eq: "on_chain f s = (r, s') \<longleftrightarrow> (\<exists>t. f (chain s) = (r, t) \<and> s' = s\<lparr>chain := t\<rparr>)"
  by (simp add: on_chain_def zoom_eq)

lemma exchange_deposit_event_simps [simp]:
  "chain (exchange_deposit_event ev s) = chain s"
  "intention_count (exchange_deposit_event ev s) = intention_count s"
  "intentions (exchange_deposit_event ev s) = intentions s"
  "current_block (exchange_deposit_event ev s) = current_block s"
  "exchange_events (exchange_deposit_event ev s) = exchange_events s @ [ev]"
  by (simp_all add: exchange_deposit_event_def)

lemmas exchange_event_defs =
  send_insufficient_balance_event_def send_trade_fee_event_def send_direct_trade_resolve_event_def
  send_intention_error_event_def

text \<open>
  What may happen to the state while intentions are resolved: the queues stay as they are,
  events are only added, and the funds of the chain go from one good state to another without
  new units of any asset; only the native asset may be burned (as the fee of a discount).
\<close>

definition settles ::
  "('s \<Rightarrow> bool) \<Rightarrow> asset_id \<Rightarrow> ('acc, 's) currency_ops \<Rightarrow>
   ('acc, 's) exchange_state \<Rightarrow> ('acc, 's) exchange_state \<Rightarrow> bool" where
  "settles good native C s s' \<longleftrightarrow>
     intentions s' = intentions s \<and> intention_count s' = intention_count s \<and>
     current_block s' = current_block s \<and> prefix (exchange_events s) (exchange_events s') \<and>
     (good (chain s) \<longrightarrow> good (chain s') \<and>
        (\<forall>c. c \<noteq> native \<longrightarrow> cur_issuance C (chain s') c = cur_issuance C (chain s) c) \<and>
        cur_issuance C (chain s') native \<le> cur_issuance C (chain s) native)"

lemma settles_refl [simp, intro]: "settles good native C s s"
  by (simp add: settles_def)

lemma settles_trans [trans]: "settles good native C s s' \<Longrightarrow> settles good native C s' s'' \<Longrightarrow> settles good native C s s''"
  unfolding settles_def by (auto intro: prefix_order.trans)

lemma settles_event [simp, intro]: "settles good native C s (exchange_deposit_event ev s)"
  by (simp add: settles_def)

lemma settles_chain:
  assumes "good (chain s) \<Longrightarrow> good t \<and> (\<forall>c. c \<noteq> native \<longrightarrow> cur_issuance C t c = cur_issuance C (chain s) c) \<and>
      cur_issuance C t native \<le> cur_issuance C (chain s) native"
  shows "settles good native C s (s\<lparr>chain := t\<rparr>)"
  using assms by (simp add: settles_def)

locale direct_trades = multi_currency "ex_currency cfg" cur_inv
  for cfg :: "('acc, 's) exchange_config" and cur_inv
begin

text \<open>Repatriation to the free balance, whoever receives it.\<close>

lemma repatriate_any:
  assumes "cur_inv s" and "cur_repatriate (ex_currency cfg) c a b n Status_Free s = (Inr r, s')"
  shows "cur_free (ex_currency cfg) s' =
      credit (cur_free (ex_currency cfg) s) c b (min n (cur_reserved (ex_currency cfg) s c a)) \<and>
    cur_reserved (ex_currency cfg) s' =
      debit (cur_reserved (ex_currency cfg) s) c a (min n (cur_reserved (ex_currency cfg) s c a)) \<and>
    cur_issuance (ex_currency cfg) s' = cur_issuance (ex_currency cfg) s \<and> cur_inv s'"
  using repatriate_ok [OF assms(1) _ assms(2)] repatriate_self [OF assms(1), of c a n "Inr r" s'] assms(2)
  by (cases "a = b") auto

end

text \<open>
  The market maker the pallet calls keeps the currency's invariant and creates nothing; it may
  burn the native asset.
\<close>

locale exchange_pallet = direct_trades cfg cur_inv
  for cfg :: "('acc, 's) exchange_config" and cur_inv +
  fixes native :: asset_id
  assumes execute_sell_settles: "cur_inv s \<Longrightarrow> amm_execute_sell (ex_amm cfg) t s = (r, s') \<Longrightarrow>
      cur_inv s' \<and> (\<forall>c. c \<noteq> native \<longrightarrow> cur_issuance (ex_currency cfg) s' c = cur_issuance (ex_currency cfg) s c) \<and>
      cur_issuance (ex_currency cfg) s' native \<le> cur_issuance (ex_currency cfg) s native"
    and execute_buy_settles: "cur_inv s \<Longrightarrow> amm_execute_buy (ex_amm cfg) t s = (r, s') \<Longrightarrow>
      cur_inv s' \<and> (\<forall>c. c \<noteq> native \<longrightarrow> cur_issuance (ex_currency cfg) s' c = cur_issuance (ex_currency cfg) s c) \<and>
      cur_issuance (ex_currency cfg) s' native \<le> cur_issuance (ex_currency cfg) s native"
begin

abbreviation settled :: "('acc, 's) exchange_state \<Rightarrow> ('acc, 's) exchange_state \<Rightarrow> bool" where
  "settled \<equiv> settles cur_inv native (ex_currency cfg)"

lemma reserve_settled:
  assumes "reserve_if_can cfg c a n s = (ok, s')"
  shows "settled s s'"
proof -
  from assms obtain r t where t: "cur_reserve (ex_currency cfg) c a n (chain s) = (r, t)" "s' = s\<lparr>chain := t\<rparr>"
    by (auto simp: reserve_if_can_def on_chain_eq split: prod.splits)
  then show ?thesis
    by (cases r) (auto intro!: settles_chain dest: reserve_ok reserve_err)
qed

lemma repatriate_settled:
  assumes "on_chain (cur_repatriate (ex_currency cfg) c a b n Status_Free) s = (r, s')"
  shows "settled s s'"
proof -
  from assms obtain t where t: "cur_repatriate (ex_currency cfg) c a b n Status_Free (chain s) = (r, t)"
    "s' = s\<lparr>chain := t\<rparr>" by (auto simp: on_chain_eq)
  show ?thesis
  proof (cases r)
    case (Inr k)
    with t show ?thesis by (auto intro!: settles_chain dest: repatriate_any)
  next
    case (Inl e)
    with t show ?thesis
      using repatriate_err [of "chain s" a b c n e t] repatriate_self [of "chain s" c a n r t]
      by (cases "a = b") (auto intro!: settles_chain)
  qed
qed

lemma execute_transfers_settled: "execute_transfers cfg dt ts s = (r, s') \<Longrightarrow> settled s s'"
proof (induction ts arbitrary: s)
  case Nil
  then show ?case by simp
next
  case (Cons t ts)
  obtain x u where u: "on_chain (cur_repatriate (ex_currency cfg) (tr_asset t) (tr_from t) (tr_to t) (tr_amount t)
      Status_Free) s = (x, u)" by fastforce
  have su: "settled s u" by (rule repatriate_settled [OF u])
  show ?case
  proof (cases x)
    case (Inl e)
    with Cons.prems u su show ?thesis by simp
  next
    case (Inr k)
    with Cons.prems u have "\<exists>v. settled u v \<and> execute_transfers cfg dt ts v = (r, s')"
      by (auto simp: Let_def exchange_event_defs split: if_splits)
    with Cons.IH su show ?thesis by (blast intro: settles_trans)
  qed
qed

lemma direct_execute_settled: "direct_execute cfg dt s = (r, s') \<Longrightarrow> settled s s'"
  unfolding direct_execute_def send_direct_trade_resolve_event_def
  by (rule settles_trans [OF settles_event execute_transfers_settled])

lemma revert_settled: "settled s (revert cfg dt s)"
proof -
  have "settled s (fold (\<lambda>t s. snd (on_chain (cur_unreserve (ex_currency cfg) (tr_asset t) (tr_from t) (tr_amount t)) s))
      ts s)" for ts
  proof (induction ts arbitrary: s)
    case (Cons t ts)
    obtain r u where u: "cur_unreserve (ex_currency cfg) (tr_asset t) (tr_from t) (tr_amount t) (chain s) = (r, u)"
      by fastforce
    then have "on_chain (cur_unreserve (ex_currency cfg) (tr_asset t) (tr_from t) (tr_amount t)) s = (r, s\<lparr>chain := u\<rparr>)"
      by (simp add: on_chain_eq)
    moreover have "settled s (s\<lparr>chain := u\<rparr>)"
      using unreserve_ok [OF _ u] by (auto intro!: settles_chain)
    ultimately show ?case using Cons.IH by (auto intro: settles_trans)
  qed simp
  then show ?thesis by (simp add: revert_def)
qed

lemma prepare_settled: "prepare cfg p dt s = ((ok, dt'), s') \<Longrightarrow> settled s s'"
  by (auto simp: prepare_def Let_def exchange_event_defs split: if_splits prod.splits option.splits
      dest!: reserve_settled intro: settles_trans)

lemma trade_or_revert_settled:
  assumes "trade_or_revert cfg p dt s = (r, s')"
  shows "settled s s'"
proof -
  obtain ok dt' u where u: "prepare cfg p dt s = ((ok, dt'), u)" by (metis surj_pair)
  note su = prepare_settled [OF u]
  show ?thesis
  proof (cases ok)
    case True
    obtain x v where v: "direct_execute cfg dt' u = (x, v)" by fastforce
    with True assms u have "s' = v" by (cases x) (auto simp: trade_or_revert_def)
    with direct_execute_settled [OF v] su show ?thesis by (blast intro: settles_trans)
  next
    case False
    with assms u su revert_settled [of u dt'] show ?thesis
      by (auto simp: trade_or_revert_def intro: settles_trans)
  qed
qed

lemma execute_amm_settled:
  assumes "execute_amm_transfer cfg kind i t s = (r, s')"
  shows "settled s s'"
proof (cases kind)
  case SELL
  obtain x u where u: "amm_execute_sell (ex_amm cfg) t (chain s) = (x, u)" by fastforce
  have "settled s (s\<lparr>chain := u\<rparr>)" using execute_sell_settles [OF _ u] by (auto intro!: settles_chain)
  moreover have "on_chain (amm_execute_sell (ex_amm cfg) t) s = (x, s\<lparr>chain := u\<rparr>)" using u by (simp add: on_chain_eq)
  ultimately show ?thesis using assms SELL
    by (cases x) (auto simp: execute_amm_transfer_def intro: settles_trans)
next
  case BUY
  obtain x u where u: "amm_execute_buy (ex_amm cfg) t (chain s) = (x, u)" by fastforce
  have "settled s (s\<lparr>chain := u\<rparr>)" using execute_buy_settles [OF _ u] by (auto intro!: settles_chain)
  moreover have "on_chain (amm_execute_buy (ex_amm cfg) t) s = (x, s\<lparr>chain := u\<rparr>)" using u by (simp add: on_chain_eq)
  ultimately show ?thesis using assms BUY
    by (cases x) (auto simp: execute_amm_transfer_def intro: settles_trans)
qed

lemma resolve_single_settled: "settled s (resolve_single_intention cfg i s)"
  by (auto simp: resolve_single_intention_def exchange_event_defs split: sum.splits prod.splits
      dest!: execute_amm_settled intro: settles_trans)

lemma resolve_larger_settled: "resolve_larger cfg p copy m s = (r, s') \<Longrightarrow> settled s s'"
  by (cases r)
    (auto simp: resolve_larger_def Let_def exchange_event_defs and_then_eq_Inr and_then_eq_Inl split: if_splits
      dest: trade_or_revert_settled)

lemma resolve_equal_settled: "resolve_equal cfg p main copy m s = (r, s') \<Longrightarrow> settled s s'"
  by (cases r)
    (auto simp: resolve_equal_def Let_def exchange_event_defs and_then_eq_Inr and_then_eq_Inl split: if_splits
      dest: trade_or_revert_settled)

lemma resolve_smaller_settled: "resolve_smaller cfg p copy m s = (r, s') \<Longrightarrow> settled s s'"
  by (cases r)
    (auto simp: resolve_smaller_def Let_def exchange_event_defs and_then_eq_Inr and_then_eq_Inl
      split: if_splits option.splits sum.splits prod.splits bool.splits
      dest!: prepare_settled execute_amm_settled direct_execute_settled
      intro: settles_trans revert_settled settles_trans [OF settles_event revert_settled])

lemma resolve_loop_settled: "resolve_loop cfg p main copy ms s = (r, s') \<Longrightarrow> settled s s'"
proof (induction ms arbitrary: copy s)
  case (Cons m ms)
  let ?step = "if i_amount_out m < i_amount_in copy then resolve_larger cfg p copy m s
        else if i_amount_in copy < i_amount_out m then resolve_smaller cfg p copy m s
        else resolve_equal cfg p main copy m s"
  obtain x u where u: "?step = (x, u)" by fastforce
  then have su: "settled s u"
    by (auto split: if_splits dest: resolve_larger_settled resolve_smaller_settled resolve_equal_settled)
  show ?case
  proof (cases x)
    case (Inl e)
    with Cons.prems u have "s' = u" by (auto simp: and_then_eq_Inl split: if_splits)
    with su show ?thesis by simp
  next
    case (Inr copy')
    with Cons.prems u have "resolve_loop cfg p main copy' ms u = (r, s')" by (auto split: if_splits)
    with Cons.IH su show ?thesis by (blast intro: settles_trans)
  qed
qed simp

lemma resolve_matched_settled:
  assumes "resolve_matched_intentions cfg p i ms s = (r, s')"
  shows "settled s s'"
proof -
  obtain x u where u: "resolve_loop cfg p i i ms s = (x, u)" by fastforce
  note su = resolve_loop_settled [OF u]
  show ?thesis
  proof (cases x)
    case (Inl e)
    with assms u su show ?thesis by (simp add: resolve_matched_intentions_def)
  next
    case (Inr copy)
    with assms u su resolve_single_settled [of u copy] show ?thesis
      by (auto simp: resolve_matched_intentions_def split: if_splits intro: settles_trans)
  qed
qed

lemma verify_settled: "verify_intention cfg i s = (ok, s') \<Longrightarrow> settled s s'"
  by (auto simp: verify_intention_def exchange_event_defs split: sum.splits)

lemma process_main_settled: "process_main cfg p as bs s = (r, s') \<Longrightarrow> settled s s'"
proof (induction as arbitrary: bs s)
  case (Cons i as)
  obtain ok u where u: "verify_intention cfg i s = (ok, u)" by fastforce
  obtain bvec rest where m: "take_matching bs (i_amount_in i) 0 [] = (bvec, rest)" by fastforce
  obtain x v where v: "resolve_matched_intentions cfg p i bvec u = (x, v)" by fastforce
  note su = verify_settled [OF u]
  show ?case
  proof (cases ok)
    case False
    with Cons u su show ?thesis by (fastforce intro: settles_trans)
  next
    case True
    note sv = settles_trans [OF su resolve_matched_settled [OF v]]
    show ?thesis
    proof (cases x)
      case (Inl e)
      with Cons.prems u m v True sv show ?thesis by simp
    next
      case (Inr _)
      with Cons.prems u m v True have "process_main cfg p as rest v = (r, s')" by simp
      with Cons.IH sv show ?thesis by (blast intro: settles_trans)
    qed
  qed
qed simp

lemma resolve_singles_settled: "settled s (fold (resolve_single_intention cfg) is s)"
  by (induction "is" arbitrary: s) (auto intro: settles_trans resolve_single_settled)

lemma process_intentions_settled:
  assumes "process_exchange_intentions cfg p as bs s = (r, s')"
  shows "settled s s'"
proof -
  obtain x u where u: "process_main cfg p (sort_descending as) (rev (sort_descending bs)) s = (x, u)" by fastforce
  note su = process_main_settled [OF u]
  with assms u show ?thesis
    by (cases x) (auto simp: process_exchange_intentions_def Let_def intro: settles_trans resolve_singles_settled)
qed

lemma process_pairs_settled: "process_pairs cfg ks s = (r, s') \<Longrightarrow> settled s s'"
proof (induction ks arbitrary: s)
  case (Cons k ks)
  obtain a b where k: "k = (a, b)" by fastforce
  show ?case
  proof (cases "get_intentions_count s (a, b) = 0")
    case True
    with Cons k show ?thesis by simp
  next
    case False
    obtain x u where u: "process_exchange_intentions cfg (amm_get_pair_id (ex_amm cfg) \<lparr>asset_in = a, asset_out = b\<rparr>)
        (get_intentions s (b, a)) (get_intentions s (a, b)) s = (x, u)" by fastforce
    note su = process_intentions_settled [OF u]
    show ?thesis
    proof (cases x)
      case (Inl e)
      with Cons.prems k False u su show ?thesis by simp
    next
      case (Inr _)
      with Cons.prems k False u have "process_pairs cfg ks u = (r, s')" by simp
      with Cons.IH su show ?thesis by (blast intro: settles_trans)
    qed
  qed
qed simp

end

section \<open>Panics\<close>

text \<open>The only way finalisation can stop is the failing \<open>expect\<close> of a direct trade.\<close>

definition unexpected :: dispatch_error where
  "unexpected = Panic ''Cannot fail. Checks should have been done prior to this.''"

lemma execute_transfers_panic: "execute_transfers cfg dt ts s = (Inl e, s') \<Longrightarrow> e = unexpected"
proof (induction ts arbitrary: s)
  case (Cons t ts)
  then show ?case by (auto simp: unexpected_def Let_def split: prod.splits sum.splits)
qed simp

lemma trade_or_revert_panic: "trade_or_revert cfg p dt s = (Inl e, s') \<Longrightarrow> e = unexpected"
  by (auto simp: trade_or_revert_def direct_execute_def and_then_eq_Inl split: prod.splits bool.splits
      dest: execute_transfers_panic)

lemma resolve_step_panic:
  "resolve_larger cfg p copy m s = (Inl e, s') \<Longrightarrow> e = unexpected"
  "resolve_smaller cfg p copy m s = (Inl e, s') \<Longrightarrow> e = unexpected"
  "resolve_equal cfg p main copy m s = (Inl e, s') \<Longrightarrow> e = unexpected"
  by (auto simp: resolve_larger_def resolve_smaller_def resolve_equal_def Let_def and_then_eq_Inl direct_execute_def
      split: if_splits option.splits sum.splits prod.splits bool.splits
      dest: trade_or_revert_panic execute_transfers_panic)

lemma resolve_loop_panic: "resolve_loop cfg p main copy ms s = (Inl e, s') \<Longrightarrow> e = unexpected"
  by (induction ms arbitrary: copy s)
    (auto simp: and_then_eq_Inl split: if_splits dest: resolve_step_panic)

lemma process_main_panic: "process_main cfg p as bs s = (Inl e, s') \<Longrightarrow> e = unexpected"
  by (induction as arbitrary: bs s)
    (auto simp: and_then_eq_Inl resolve_matched_intentions_def Let_def split: prod.splits bool.splits
      dest: resolve_loop_panic)

lemma process_pairs_panic: "process_pairs cfg ks s = (Inl e, s') \<Longrightarrow> e = unexpected"
  by (induction cfg ks s rule: process_pairs.induct)
    (auto simp: and_then_eq_Inl process_exchange_intentions_def Let_def split: if_splits dest: process_main_panic)

end
