(* ===== verification/Exchange_Direct.thy ===== *)
theory Exchange_Direct
  imports Exchange_Laws
begin

text \<open>
  Direct trades against the multi-currency's contract: preparing a trade reserves exactly what
  its transfers will take, executing it moves exactly that, and what a failed preparation
  leaves behind.
\<close>

section \<open>Flows of a list of transfers\<close>

definition outgoing :: "'acc transfer list \<Rightarrow> asset_id \<Rightarrow> 'acc \<Rightarrow> nat" where
  "outgoing ts c x = sum_list (map (\<lambda>t. if tr_asset t = c \<and> tr_from t = x then tr_amount t else 0) ts)"

definition incoming :: "'acc transfer list \<Rightarrow> asset_id \<Rightarrow> 'acc \<Rightarrow> nat" where
  "incoming ts c x = sum_list (map (\<lambda>t. if tr_asset t = c \<and> tr_to t = x then tr_amount t else 0) ts)"

lemma flow_simps [simp]:
  "outgoing [] c x = 0" "incoming [] c x = 0"
  "outgoing (t # ts) c x = (if tr_asset t = c \<and> tr_from t = x then tr_amount t else 0) + outgoing ts c x"
  "incoming (t # ts) c x = (if tr_asset t = c \<and> tr_to t = x then tr_amount t else 0) + incoming ts c x"
  "outgoing (ts @ us) c x = outgoing ts c x + outgoing us c x"
  "incoming (ts @ us) c x = incoming ts c x + incoming us c x"
  by (simp_all add: outgoing_def incoming_def)

text \<open>The transfers of a direct trade: the two amounts, then the two fees to the pool.\<close>

definition principal_transfers :: "'acc direct_trade_data \<Rightarrow> 'acc transfer list" where
  "principal_transfers dt =
     (let a = i_who (intention_a dt); b = i_who (intention_b dt); as = i_assets (intention_a dt) in
      [\<lparr>tr_from = a, tr_to = b, tr_asset = asset_in as, tr_amount = amount_from_a dt, tr_fee_transfer = False\<rparr>,
       \<lparr>tr_from = b, tr_to = a, tr_asset = asset_out as, tr_amount = amount_from_b dt, tr_fee_transfer = False\<rparr>])"

definition fee_transfers ::
  "'acc \<Rightarrow> 'acc direct_trade_data \<Rightarrow> balance \<Rightarrow> balance \<Rightarrow> 'acc transfer list" where
  "fee_transfers pool dt fa fb =
     (let ((c, m), (d, n)) = trade_fees dt fa fb in
      [\<lparr>tr_from = i_who (intention_a dt), tr_to = pool, tr_asset = c, tr_amount = m, tr_fee_transfer = True\<rparr>,
       \<lparr>tr_from = i_who (intention_b dt), tr_to = pool, tr_asset = d, tr_amount = n, tr_fee_transfer = True\<rparr>])"

lemma trade_fees_upd [simp]: "trade_fees (dt\<lparr>transfers := ts\<rparr>) = trade_fees dt"
  by (simp add: trade_fees_def fun_eq_iff)

lemma chain_upd: "chain (s\<lparr>chain := u\<rparr>) = u"
  by simp

section \<open>Preparation and execution\<close>

context direct_trades
begin

text \<open>\<open>s'\<close> is \<open>s\<close> with everything reserved that the transfers will take.\<close>

definition set_aside ::
  "'acc transfer list \<Rightarrow> ('acc, 's) exchange_state \<Rightarrow> ('acc, 's) exchange_state \<Rightarrow> bool" where
  "set_aside ts s s' \<longleftrightarrow> cur_inv (chain s') \<and>
     cur_issuance (ex_currency cfg) (chain s') = cur_issuance (ex_currency cfg) (chain s) \<and>
     (\<forall>c x. outgoing ts c x \<le> cur_free (ex_currency cfg) (chain s) c x \<and>
        cur_free (ex_currency cfg) (chain s') c x = cur_free (ex_currency cfg) (chain s) c x - outgoing ts c x \<and>
        cur_reserved (ex_currency cfg) (chain s') c x = cur_reserved (ex_currency cfg) (chain s) c x + outgoing ts c x)"

lemma set_aside_Nil: "cur_inv (chain s) \<Longrightarrow> set_aside [] s s"
  by (simp add: set_aside_def)

lemma reserve_if_can_true:
  assumes "cur_inv (chain s)" and "reserve_if_can cfg c a n s = (True, s')"
  shows "n \<le> cur_free (ex_currency cfg) (chain s) c a \<and>
    cur_free (ex_currency cfg) (chain s') = debit (cur_free (ex_currency cfg) (chain s)) c a n \<and>
    cur_reserved (ex_currency cfg) (chain s') = credit (cur_reserved (ex_currency cfg) (chain s)) c a n \<and>
    cur_issuance (ex_currency cfg) (chain s') = cur_issuance (ex_currency cfg) (chain s) \<and> cur_inv (chain s')"
proof -
  from assms(2) obtain r t where t: "cur_reserve (ex_currency cfg) c a n (chain s) = (r, t)" "s' = s\<lparr>chain := t\<rparr>" "is_ok r"
    by (auto simp: reserve_if_can_def on_chain_eq split: prod.splits)
  then obtain k :: unit where "r = Inr k" by (cases r) auto
  with t reserve_ok [OF assms(1), of c a n t] show ?thesis by simp
qed

lemma reserve_if_can_false:
  "cur_inv (chain s) \<Longrightarrow> reserve_if_can cfg c a n s = (False, s') \<Longrightarrow> s' = s"
  by (auto simp: reserve_if_can_def on_chain_eq is_ok_def split: prod.splits sum.splits dest: reserve_err)

lemma set_aside_snoc:
  assumes "set_aside ts s u" and "reserve_if_can cfg (tr_asset t) (tr_from t) (tr_amount t) u = (True, s')"
  shows "set_aside (ts @ [t]) s s'"
proof -
  have u: "cur_inv (chain u)" using assms(1) by (simp add: set_aside_def)
  note R = reserve_if_can_true [OF u assms(2)]
  have "outgoing ts (tr_asset t) (tr_from t) + tr_amount t \<le> cur_free (ex_currency cfg) (chain s) (tr_asset t) (tr_from t)"
    using R assms(1) [unfolded set_aside_def, THEN conjunct2, THEN conjunct2, rule_format, of "tr_asset t" "tr_from t"]
    by (elim conjE) linarith
  with R assms(1) show ?thesis
    unfolding set_aside_def by (auto simp: ledger_apply)
qed

lemma prepare_true:
  assumes "cur_inv (chain s)" and "prepare cfg p dt s = ((True, dt'), s')" and "transfers dt = []"
  obtains fa fb where "just_fee (amount_from_a dt) fee_default = Some fa"
    and "just_fee (amount_from_b dt) fee_default = Some fb"
    and "dt' = dt\<lparr>transfers := principal_transfers dt @ fee_transfers p dt fa fb\<rparr>"
    and "set_aside (transfers dt') s s'"
proof -
  let ?ia = "intention_a dt" and ?ib = "intention_b dt"
  let ?a = "asset_in (i_assets ?ia)" and ?b = "asset_out (i_assets ?ia)"
  from assms(2) obtain s1 s2 s3 fa fb c m d n where
    1: "reserve_if_can cfg ?a (i_who ?ia) (amount_from_a dt) s = (True, s1)" and
    2: "reserve_if_can cfg ?b (i_who ?ib) (amount_from_b dt) s1 = (True, s2)" and
    f: "just_fee (amount_from_a dt) fee_default = Some fa" "just_fee (amount_from_b dt) fee_default = Some fb"
      "trade_fees dt fa fb = ((c, m), (d, n))" and
    3: "reserve_if_can cfg c (i_who ?ia) m s2 = (True, s3)" and
    4: "reserve_if_can cfg d (i_who ?ib) n s3 = (True, s')" and
    dt': "dt' = dt\<lparr>transfers := principal_transfers dt @ fee_transfers p dt fa fb\<rparr>"
    using assms(3)
    by (auto simp: prepare_def Let_def principal_transfers_def fee_transfers_def
        split: if_splits prod.splits option.splits)
  have "set_aside (transfers dt') s s'"
    using set_aside_snoc [OF set_aside_snoc [OF set_aside_snoc [OF set_aside_snoc [OF set_aside_Nil [OF assms(1)]]]],
        of "principal_transfers dt ! 0" s1 "principal_transfers dt ! 1" s2 "fee_transfers p dt fa fb ! 0" s3
           "fee_transfers p dt fa fb ! 1" s'] 1 2 3 4 f dt'
    by (simp add: principal_transfers_def fee_transfers_def Let_def)
  with f dt' show ?thesis by (intro that)
qed

lemma execute_transfers_exact:
  assumes "cur_inv (chain s)" and "execute_transfers cfg dt ts s = (Inr ok, s')"
    and "\<forall>c x. outgoing ts c x \<le> cur_reserved (ex_currency cfg) (chain s) c x"
  shows "cur_inv (chain s') \<and> cur_issuance (ex_currency cfg) (chain s') = cur_issuance (ex_currency cfg) (chain s) \<and>
    (\<forall>c x. cur_free (ex_currency cfg) (chain s') c x = cur_free (ex_currency cfg) (chain s) c x + incoming ts c x \<and>
      cur_reserved (ex_currency cfg) (chain s') c x = cur_reserved (ex_currency cfg) (chain s) c x - outgoing ts c x)"
  using assms
proof (induction ts arbitrary: s)
  case (Cons t ts)
  let ?f = "cur_free (ex_currency cfg)" and ?r = "cur_reserved (ex_currency cfg)"
  obtain x u where u: "cur_repatriate (ex_currency cfg) (tr_asset t) (tr_from t) (tr_to t)
      (tr_amount t) Status_Free (chain s) = (x, u)" by fastforce
  then have "on_chain (cur_repatriate (ex_currency cfg) (tr_asset t) (tr_from t) (tr_to t) (tr_amount t)
      Status_Free) s = (x, s\<lparr>chain := u\<rparr>)" by (simp add: on_chain_eq)
  with Cons.prems(2) have "\<exists>k v. x = Inr k \<and> chain v = u \<and> execute_transfers cfg dt ts v = (Inr ok, s')"
    by (cases x; cases "tr_fee_transfer t")
      (simp_all add: Let_def send_trade_fee_event_def, (metis exchange_deposit_event_simps(1) chain_upd)+)
  then obtain k v where x: "x = Inr k" and v: "chain v = u" "execute_transfers cfg dt ts v = (Inr ok, s')" by blast
  have enough: "tr_amount t \<le> ?r (chain s) (tr_asset t) (tr_from t)"
    using Cons.prems(3) [rule_format, of "tr_asset t" "tr_from t"] by simp
  from repatriate_any [OF Cons.prems(1) u [unfolded x]] enough
  have U: "?f u = credit (?f (chain s)) (tr_asset t) (tr_to t) (tr_amount t)"
    "?r u = debit (?r (chain s)) (tr_asset t) (tr_from t) (tr_amount t)"
    "cur_issuance (ex_currency cfg) u = cur_issuance (ex_currency cfg) (chain s)" "cur_inv u"
    by (simp_all add: min_absorb1)
  have left: "outgoing ts c x \<le> ?r u c x" for c x
    using Cons.prems(3) [rule_format, of c x] by (auto simp: U debit_apply split: if_splits)
  have "cur_inv (chain v)" using U v by simp
  from Cons.IH [OF this v(2)] left v(1) U show ?case
    by (auto simp: ledger_apply)
qed simp

lemma direct_trade_exact:
  assumes "cur_inv (chain s)" and "transfers dt = []"
    and "prepare cfg p dt s = ((True, dt'), u)" and "direct_execute cfg dt' u = (Inr ok, s')"
  shows "cur_inv (chain s') \<and> cur_issuance (ex_currency cfg) (chain s') = cur_issuance (ex_currency cfg) (chain s) \<and>
    (\<forall>c x. outgoing (transfers dt') c x \<le> cur_free (ex_currency cfg) (chain s) c x \<and>
      cur_free (ex_currency cfg) (chain s') c x =
        cur_free (ex_currency cfg) (chain s) c x - outgoing (transfers dt') c x + incoming (transfers dt') c x \<and>
      cur_reserved (ex_currency cfg) (chain s') c x = cur_reserved (ex_currency cfg) (chain s) c x)"
proof -
  from assms(1,3,2) have aside: "set_aside (transfers dt') s u" by (rule prepare_true)
  have "execute_transfers cfg dt' (transfers dt') (send_direct_trade_resolve_event dt' u) = (Inr ok, s')"
    using assms(4) by (simp add: direct_execute_def)
  from execute_transfers_exact [OF _ this] aside show ?thesis
    by (simp add: set_aside_def exchange_event_defs)
qed

lemma unreserve_chain:
  assumes "cur_inv (chain s)" and "n \<le> cur_reserved (ex_currency cfg) (chain s) c a"
  obtains u where "snd (on_chain (cur_unreserve (ex_currency cfg) c a n) s) = s\<lparr>chain := u\<rparr>" and "cur_inv u"
    and "cur_free (ex_currency cfg) u = credit (cur_free (ex_currency cfg) (chain s)) c a n"
    and "cur_reserved (ex_currency cfg) u = debit (cur_reserved (ex_currency cfg) (chain s)) c a n"
    and "cur_issuance (ex_currency cfg) u = cur_issuance (ex_currency cfg) (chain s)"
proof -
  obtain r u where u: "cur_unreserve (ex_currency cfg) c a n (chain s) = (r, u)" by fastforce
  then have "on_chain (cur_unreserve (ex_currency cfg) c a n) s = (r, s\<lparr>chain := u\<rparr>)" by (simp add: on_chain_eq)
  with unreserve_ok [OF assms(1) u] assms(2) that [of u] show ?thesis by (simp add: min_absorb1)
qed

lemma revert_exact:
  assumes "cur_inv (chain s)"
    and "\<forall>c x. outgoing (transfers dt) c x \<le> cur_reserved (ex_currency cfg) (chain s) c x"
  shows "cur_inv (chain (revert cfg dt s)) \<and>
    cur_issuance (ex_currency cfg) (chain (revert cfg dt s)) = cur_issuance (ex_currency cfg) (chain s) \<and>
    (\<forall>c x. cur_free (ex_currency cfg) (chain (revert cfg dt s)) c x =
        cur_free (ex_currency cfg) (chain s) c x + outgoing (transfers dt) c x \<and>
      cur_reserved (ex_currency cfg) (chain (revert cfg dt s)) c x =
        cur_reserved (ex_currency cfg) (chain s) c x - outgoing (transfers dt) c x)"
  using assms unfolding revert_def
proof (induction "transfers dt" arbitrary: dt s)
  case (Cons t ts)
  let ?r = "cur_reserved (ex_currency cfg)"
  have ts: "transfers dt = t # ts" using Cons.hyps(2) by simp
  have enough: "tr_amount t \<le> ?r (chain s) (tr_asset t) (tr_from t)"
    using Cons.prems(2) [rule_format, of "tr_asset t" "tr_from t"] by (simp add: ts)
  from Cons.prems(1) enough obtain u where
    u: "snd (on_chain (cur_unreserve (ex_currency cfg) (tr_asset t) (tr_from t) (tr_amount t)) s) = s\<lparr>chain := u\<rparr>"
      "cur_inv u" "cur_free (ex_currency cfg) u = credit (cur_free (ex_currency cfg) (chain s)) (tr_asset t) (tr_from t) (tr_amount t)"
      "?r u = debit (?r (chain s)) (tr_asset t) (tr_from t) (tr_amount t)"
      "cur_issuance (ex_currency cfg) u = cur_issuance (ex_currency cfg) (chain s)"
    by (rule unreserve_chain)
  have left: "outgoing ts c x \<le> ?r u c x" for c x
    using Cons.prems(2) [rule_format, of c x] by (auto simp: u ts debit_apply split: if_splits)
  from Cons.hyps(1) [of "dt\<lparr>transfers := ts\<rparr>" "s\<lparr>chain := u\<rparr>"] left u show ?case
    by (auto simp: ts ledger_apply)
qed simp

text \<open>
  A preparation that is refused at the second reservation, and one refused at the fourth: what
  the revert does not give back.
\<close>

lemma refused_principal:
  assumes cur: "cur_inv (chain s)" and ts: "transfers dt = []"
  defines "ia \<equiv> intention_a dt" and "ib \<equiv> intention_b dt"
  assumes funds: "amount_from_a dt \<le> cur_free (ex_currency cfg) (chain s) (asset_in (i_assets ia)) (i_who ia)"
      "amount_from_b dt \<le> cur_free (ex_currency cfg) (chain s) (asset_out (i_assets ia)) (i_who ib)"
    and 1: "reserve_if_can cfg (asset_in (i_assets ia)) (i_who ia) (amount_from_a dt) s = (True, s1)"
    and 2: "reserve_if_can cfg (asset_out (i_assets ia)) (i_who ib) (amount_from_b dt) s1 = (False, s2)"
  shows "trade_or_revert cfg p dt s = (Inr False, s1)"
proof -
  have "cur_inv (chain s1)" using reserve_if_can_true [OF cur 1] by simp
  from reserve_if_can_false [OF this 2] have "s2 = s1" .
  with funds 1 2 ts show ?thesis
    by (simp add: trade_or_revert_def prepare_def Let_def ia_def ib_def revert_def)
qed

lemma refused_fee:
  assumes cur: "cur_inv (chain s)" and ts: "transfers dt = []"
  defines "ia \<equiv> intention_a dt" and "ib \<equiv> intention_b dt"
  assumes funds: "amount_from_a dt \<le> cur_free (ex_currency cfg) (chain s) (asset_in (i_assets ia)) (i_who ia)"
      "amount_from_b dt \<le> cur_free (ex_currency cfg) (chain s) (asset_out (i_assets ia)) (i_who ib)"
    and 1: "reserve_if_can cfg (asset_in (i_assets ia)) (i_who ia) (amount_from_a dt) s = (True, s1)"
    and 2: "reserve_if_can cfg (asset_out (i_assets ia)) (i_who ib) (amount_from_b dt) s1 = (True, s2)"
    and f: "just_fee (amount_from_a dt) fee_default = Some fa" "just_fee (amount_from_b dt) fee_default = Some fb"
      "trade_fees dt fa fb = ((c, m), (d, n))"
    and 3: "reserve_if_can cfg c (i_who ia) m s2 = (True, s3)"
    and 4: "reserve_if_can cfg d (i_who ib) n s3 = (False, s4)"
  obtains s' where "trade_or_revert cfg p dt s = (Inr False, s')" and "cur_inv (chain s')"
    and "cur_free (ex_currency cfg) (chain s') = debit (cur_free (ex_currency cfg) (chain s)) c (i_who ia) m"
    and "cur_reserved (ex_currency cfg) (chain s') = credit (cur_reserved (ex_currency cfg) (chain s)) c (i_who ia) m"
proof -
  let ?fee = "\<lparr>tr_from = i_who ia, tr_to = p, tr_asset = c, tr_amount = m, tr_fee_transfer = True\<rparr>"
    and ?dt = "dt\<lparr>transfers := principal_transfers dt\<rparr>"
  have aside: "set_aside (principal_transfers dt @ [?fee]) s s3"
    using set_aside_snoc [OF set_aside_snoc [OF set_aside_snoc [OF set_aside_Nil [OF cur]]],
        of "principal_transfers dt ! 0" s1 "principal_transfers dt ! 1" s2 ?fee s3] 1 2 3
    by (simp add: principal_transfers_def Let_def ia_def ib_def)
  then have s4: "s4 = s3" using reserve_if_can_false [OF _ 4] by (simp add: set_aside_def)
  have tr: "trade_or_revert cfg p dt s = (Inr False, revert cfg ?dt s3)"
    using funds 1 2 3 4 f ts
    by (simp add: trade_or_revert_def prepare_def Let_def ia_def ib_def principal_transfers_def s4)
  have "\<forall>c' x. outgoing (transfers ?dt) c' x \<le> cur_reserved (ex_currency cfg) (chain s3) c' x"
    "cur_inv (chain s3)" using aside by (simp_all add: set_aside_def)
  from revert_exact [OF this(2,1)] have rev: "cur_inv (chain (revert cfg ?dt s3))"
    "cur_free (ex_currency cfg) (chain (revert cfg ?dt s3)) c' x =
       cur_free (ex_currency cfg) (chain s3) c' x + outgoing (principal_transfers dt) c' x"
    "cur_reserved (ex_currency cfg) (chain (revert cfg ?dt s3)) c' x =
       cur_reserved (ex_currency cfg) (chain s3) c' x - outgoing (principal_transfers dt) c' x" for c' x
    by simp_all
  have "outgoing (principal_transfers dt) c' x + outgoing [?fee] c' x \<le> cur_free (ex_currency cfg) (chain s) c' x"
    "cur_free (ex_currency cfg) (chain s3) c' x = cur_free (ex_currency cfg) (chain s) c' x -
       (outgoing (principal_transfers dt) c' x + outgoing [?fee] c' x)"
    "cur_reserved (ex_currency cfg) (chain s3) c' x = cur_reserved (ex_currency cfg) (chain s) c' x +
       (outgoing (principal_transfers dt) c' x + outgoing [?fee] c' x)" for c' x
    using aside by (simp_all add: set_aside_def)
  then have "cur_free (ex_currency cfg) (chain (revert cfg ?dt s3)) c' x =
       debit (cur_free (ex_currency cfg) (chain s)) c (i_who ia) m c' x"
    "cur_reserved (ex_currency cfg) (chain (revert cfg ?dt s3)) c' x =
       credit (cur_reserved (ex_currency cfg) (chain s)) c (i_who ia) m c' x" for c' x
    by (simp_all add: rev ledger_apply)
  with tr rev(1) show ?thesis by (intro that [of "revert cfg ?dt s3"] ext) simp_all
qed

end

text \<open>Who has the amounts and the fees free, beyond what is locked, can trade.\<close>

locale lockable_trades = lockable_currency "ex_currency cfg" cur_inv locked locked_all
  for cfg :: "('acc, 's) exchange_config" and cur_inv locked locked_all

sublocale lockable_trades \<subseteq> direct_trades cfg cur_inv
  by unfold_locales

context lockable_trades
begin

lemma reserve_if_can_live:
  assumes "cur_inv (chain s)" and "spendable (cur_free (ex_currency cfg) (chain s) c a) (locked (chain s) c a) n"
  obtains s' where "reserve_if_can cfg c a n s = (True, s')" and "locked (chain s') = locked (chain s)"
proof -
  from reserve_iff [OF assms(1)] assms(2) obtain t where t: "cur_reserve (ex_currency cfg) c a n (chain s) = (Inr (), t)"
    by blast
  then have "on_chain (cur_reserve (ex_currency cfg) c a n) s = (Inr (), s\<lparr>chain := t\<rparr>)" by (simp add: on_chain_eq)
  then show ?thesis using that locks_kept [OF assms(1), of c a _ n t] t by (simp add: reserve_if_can_def)
qed

text \<open>Everything the transfers take can be spent, so each reservation in turn succeeds.\<close>

lemma set_aside_live:
  assumes "set_aside ts s u" and "locked (chain u) = locked (chain s)"
    and "\<forall>c x. spendable (cur_free (ex_currency cfg) (chain s) c x) (locked (chain s) c x) (outgoing (ts @ t # us) c x)"
  obtains s' where "reserve_if_can cfg (tr_asset t) (tr_from t) (tr_amount t) u = (True, s')"
    and "set_aside (ts @ [t]) s s'" and "locked (chain s') = locked (chain s)"
proof -
  have "spendable (cur_free (ex_currency cfg) (chain u) (tr_asset t) (tr_from t))
      (locked (chain u) (tr_asset t) (tr_from t)) (tr_amount t)" "cur_inv (chain u)"
    using assms(1,2) assms(3) [rule_format, of "tr_asset t" "tr_from t"] by (auto simp: set_aside_def spendable_def)
  then obtain s' where s': "reserve_if_can cfg (tr_asset t) (tr_from t) (tr_amount t) u = (True, s')"
    and l: "locked (chain s') = locked (chain u)"
    by (metis reserve_if_can_live)
  from that [OF s' set_aside_snoc [OF assms(1) s']] l assms(2) show ?thesis by simp
qed

lemma prepare_live:
  assumes cur: "cur_inv (chain s)" and ts: "transfers dt = []"
    and f: "just_fee (amount_from_a dt) fee_default = Some fa" "just_fee (amount_from_b dt) fee_default = Some fb"
    and funds: "\<forall>c x. spendable (cur_free (ex_currency cfg) (chain s) c x) (locked (chain s) c x)
      (outgoing (principal_transfers dt @ fee_transfers p dt fa fb) c x)"
  obtains u where "prepare cfg p dt s = ((True, dt\<lparr>transfers := principal_transfers dt @ fee_transfers p dt fa fb\<rparr>), u)"
    and "set_aside (principal_transfers dt @ fee_transfers p dt fa fb) s u"
proof -
  let ?a = "i_who (intention_a dt)" and ?b = "i_who (intention_b dt)"
  let ?c = "asset_in (i_assets (intention_a dt))" and ?d = "asset_out (i_assets (intention_a dt))"
  obtain fc m fd n where fees: "trade_fees dt fa fb = ((fc, m), (fd, n))" by (metis surj_pair)
  let ?t1 = "\<lparr>tr_from = ?a, tr_to = ?b, tr_asset = ?c, tr_amount = amount_from_a dt, tr_fee_transfer = False\<rparr>"
    and ?t2 = "\<lparr>tr_from = ?b, tr_to = ?a, tr_asset = ?d, tr_amount = amount_from_b dt, tr_fee_transfer = False\<rparr>"
    and ?t3 = "\<lparr>tr_from = ?a, tr_to = p, tr_asset = fc, tr_amount = m, tr_fee_transfer = True\<rparr>"
    and ?t4 = "\<lparr>tr_from = ?b, tr_to = p, tr_asset = fd, tr_amount = n, tr_fee_transfer = True\<rparr>"
  have all: "principal_transfers dt = [?t1, ?t2]" "fee_transfers p dt fa fb = [?t3, ?t4]"
    by (simp_all add: principal_transfers_def fee_transfers_def fees Let_def)
  have le: "\<forall>c x. spendable (cur_free (ex_currency cfg) (chain s) c x) (locked (chain s) c x)
      (outgoing [?t1, ?t2, ?t3, ?t4] c x)"
    using funds unfolding all by simp
  obtain s1 where 1: "reserve_if_can cfg ?c ?a (amount_from_a dt) s = (True, s1)" "set_aside [?t1] s s1"
    "locked (chain s1) = locked (chain s)"
    by (rule set_aside_live [OF set_aside_Nil [OF cur] refl, of ?t1 "[?t2, ?t3, ?t4]"]) (use le in simp_all)
  obtain s2 where 2: "reserve_if_can cfg ?d ?b (amount_from_b dt) s1 = (True, s2)" "set_aside [?t1, ?t2] s s2"
    "locked (chain s2) = locked (chain s)"
    by (rule set_aside_live [OF 1(2,3), of ?t2 "[?t3, ?t4]"]) (use le in simp_all)
  obtain s3 where 3: "reserve_if_can cfg fc ?a m s2 = (True, s3)" "set_aside [?t1, ?t2, ?t3] s s3"
    "locked (chain s3) = locked (chain s)"
    by (rule set_aside_live [OF 2(2,3), of ?t3 "[?t4]"]) (use le in simp_all)
  obtain s4 where 4: "reserve_if_can cfg fd ?b n s3 = (True, s4)" "set_aside [?t1, ?t2, ?t3, ?t4] s s4"
    by (rule set_aside_live [OF 3(2,3), of ?t4 "[]"]) (use le in simp_all)
  have "amount_from_a dt \<le> cur_free (ex_currency cfg) (chain s) ?c ?a"
    "amount_from_b dt \<le> cur_free (ex_currency cfg) (chain s) ?d ?b"
    using spendable_le [OF le [rule_format, of ?c ?a]] spendable_le [OF le [rule_format, of ?d ?b]] by simp_all
  then have "prepare cfg p dt s = ((True, dt\<lparr>transfers := [?t1, ?t2, ?t3, ?t4]\<rparr>), s4)"
    using 1(1) 2(1) 3(1) 4(1) f fees ts by (simp add: prepare_def Let_def not_less)
  with 4(2) show ?thesis by (intro that [of s4]) (simp_all add: all)
qed

text \<open>A receiver that keeps something of the asset has an account, so nothing is refused.\<close>

lemma execute_transfers_live:
  assumes "cur_inv (chain s)"
    and "\<forall>c x. outgoing ts c x \<le> cur_reserved (ex_currency cfg) (chain s) c x"
    and "\<forall>t\<in>set ts. outgoing ts (tr_asset t) (tr_to t) <
      cur_free (ex_currency cfg) (chain s) (tr_asset t) (tr_to t) +
      cur_reserved (ex_currency cfg) (chain s) (tr_asset t) (tr_to t)"
  shows "\<exists>s'. execute_transfers cfg dt ts s = (Inr True, s')"
  using assms
proof (induction ts arbitrary: s)
  case (Cons t ts)
  let ?f = "cur_free (ex_currency cfg)" and ?r = "cur_reserved (ex_currency cfg)"
  let ?rep = "cur_repatriate (ex_currency cfg) (tr_asset t) (tr_from t) (tr_to t) (tr_amount t) Status_Free (chain s)"
  have "?f (chain s) (tr_asset t) (tr_to t) + ?r (chain s) (tr_asset t) (tr_to t) \<noteq> 0"
    using Cons.prems(3) by auto
  moreover obtain x u where xu: "?rep = (x, u)" by fastforce
  ultimately have "is_ok x"
    using receive_live [OF Cons.prems(1), of "tr_from t" "tr_to t" "tr_asset t" "tr_amount t"]
      repatriate_self [OF Cons.prems(1), of "tr_asset t" "tr_from t" "tr_amount t" x u]
    by (cases "tr_from t = tr_to t") auto
  then obtain k where x: "x = Inr k" by (cases x) auto
  have enough: "tr_amount t \<le> ?r (chain s) (tr_asset t) (tr_from t)"
    using Cons.prems(2) [rule_format, of "tr_asset t" "tr_from t"] by simp
  from repatriate_any [OF Cons.prems(1) xu [unfolded x]] enough
  have U: "?f u = credit (?f (chain s)) (tr_asset t) (tr_to t) (tr_amount t)"
    "?r u = debit (?r (chain s)) (tr_asset t) (tr_from t) (tr_amount t)" "cur_inv u"
    by (simp_all add: min_absorb1)
  have left: "outgoing ts c y \<le> ?r u c y" for c y
    using Cons.prems(2) [rule_format, of c y] by (auto simp: U debit_apply split: if_splits)
  have alive: "outgoing ts c y < ?f u c y + ?r u c y"
    if "outgoing (t # ts) c y < ?f (chain s) c y + ?r (chain s) c y" for c y
  proof (cases "c = tr_asset t \<and> y = tr_from t")
    case True
    with that enough show ?thesis by (cases "tr_from t = tr_to t") (simp_all add: U ledger_apply)
  next
    case False
    then have "\<not> (tr_asset t = c \<and> tr_from t = y)" by blast
    with that have "outgoing ts c y < ?f (chain s) c y + ?r (chain s) c y" by simp
    moreover have "?r u c y = ?r (chain s) c y" using False by (auto simp: U debit_apply)
    moreover have "?f (chain s) c y \<le> ?f u c y" by (simp add: U credit_apply)
    ultimately show ?thesis by linarith
  qed
  let ?v = "if tr_fee_transfer t then send_trade_fee_event (tr_from t)
      (if tr_from t = i_who (intention_a dt) then intention_a dt else intention_b dt)
      (tr_to t) (tr_asset t) (tr_amount t) (s\<lparr>chain := u\<rparr>) else s\<lparr>chain := u\<rparr>"
  have "chain ?v = u" by (simp add: send_trade_fee_event_def)
  then have "\<exists>s'. execute_transfers cfg dt ts ?v = (Inr True, s')"
    by (intro Cons.IH) (use left alive U(3) Cons.prems(3) in \<open>simp_all del: flow_simps\<close>)
  then obtain s' where "execute_transfers cfg dt ts ?v = (Inr True, s')" ..
  moreover have "on_chain (cur_repatriate (ex_currency cfg) (tr_asset t) (tr_from t) (tr_to t) (tr_amount t)
      Status_Free) s = (Inr k, s\<lparr>chain := u\<rparr>)" using xu x by (simp add: on_chain_eq)
  ultimately have "execute_transfers cfg dt (t # ts) s = (Inr True, s')" 
    by (cases "tr_fee_transfer t") (simp_all add: Let_def split del: if_split)
  then show ?case ..
qed simp

lemma direct_trade_live:
  fixes p
  assumes cur: "cur_inv (chain s)" and ts: "transfers dt = []"
    and f: "just_fee (amount_from_a dt) fee_default = Some fa" "just_fee (amount_from_b dt) fee_default = Some fb"
  defines "moves \<equiv> principal_transfers dt @ fee_transfers p dt fa fb"
  assumes funds: "\<forall>c x. spendable (cur_free (ex_currency cfg) (chain s) c x) (locked (chain s) c x) (outgoing moves c x)"
    and alive: "\<forall>t\<in>set moves. outgoing moves (tr_asset t) (tr_to t) <
      cur_free (ex_currency cfg) (chain s) (tr_asset t) (tr_to t) +
      cur_reserved (ex_currency cfg) (chain s) (tr_asset t) (tr_to t)"
  obtains s' where "trade_or_revert cfg p dt s = (Inr True, s')" and "cur_inv (chain s')"
    and "cur_issuance (ex_currency cfg) (chain s') = cur_issuance (ex_currency cfg) (chain s)"
    and "\<And>c x. cur_free (ex_currency cfg) (chain s') c x =
      cur_free (ex_currency cfg) (chain s) c x - outgoing moves c x + incoming moves c x"
    and "\<And>c x. cur_reserved (ex_currency cfg) (chain s') c x = cur_reserved (ex_currency cfg) (chain s) c x"
proof -
  let ?dt = "dt\<lparr>transfers := moves\<rparr>"
  from cur ts f funds obtain u where u: "prepare cfg p dt s = ((True, ?dt), u)" "set_aside moves s u"
    unfolding moves_def by (rule prepare_live)
  have "\<exists>s'. execute_transfers cfg ?dt moves (send_direct_trade_resolve_event ?dt u) = (Inr True, s')"
    by (rule execute_transfers_live)
      (use u(2) alive in \<open>auto simp: set_aside_def send_direct_trade_resolve_event_def\<close>)
  then obtain s' where s': "direct_execute cfg ?dt u = (Inr True, s')" by (auto simp: direct_execute_def)
  from direct_trade_exact [OF cur ts u(1) s'] u(1) s' show ?thesis
    by (intro that [of s']) (simp_all add: trade_or_revert_def)
qed

end

text \<open>A currency without locks: who has the amounts free can trade.\<close>

locale liquid_trades = liquid_currency "ex_currency cfg" cur_inv
  for cfg :: "('acc, 's) exchange_config" and cur_inv

sublocale liquid_trades \<subseteq> direct_trades cfg cur_inv
  by unfold_locales

sublocale liquid_trades \<subseteq> free: lockable_trades cfg cur_inv "\<lambda>_ _ _. 0" "\<lambda>_ _ _. 0"
  by unfold_locales

context liquid_trades
begin

lemma reserve_if_can_live:
  assumes "cur_inv (chain s)" and "n \<le> cur_free (ex_currency cfg) (chain s) c a"
  obtains s' where "reserve_if_can cfg c a n s = (True, s')"
  by (rule free.reserve_if_can_live [OF assms(1), of c a n]) (use assms(2) that in simp_all)

lemma reserve_if_can_refused:
  assumes "cur_inv (chain s)" and "cur_free (ex_currency cfg) (chain s) c a < n"
  shows "reserve_if_can cfg c a n s = (False, s)"
proof -
  obtain ok s' where s': "reserve_if_can cfg c a n s = (ok, s')" by fastforce
  have "\<not> ok" using reserve_if_can_true [OF assms(1), of c a n s'] s' assms(2) by auto
  with s' reserve_if_can_false [OF assms(1), of c a n s'] show ?thesis by simp
qed

lemmas prepare_live = free.prepare_live [unfolded spendable_unlocked]
lemmas execute_transfers_live = free.execute_transfers_live
lemmas direct_trade_live = free.direct_trade_live [unfolded spendable_unlocked]

end

end
