(* ===== verification/Exchange_Market.thy ===== *)
theory Exchange_Market
  imports Exchange_Direct XYK_Props
begin

text \<open>
  The exchange on top of the XYK pallet, as the runtime composes them: both use one
  multi-currency, and the exchange's market maker is the XYK pallet. The contracts of the
  exchange follow from those of the currency, and an example market with two traders serves
  the witnesses.
\<close>

section \<open>Composition\<close>

text \<open>The multi-currency seen from the state that holds the XYK pallet's storage.\<close>

definition pallet_currency :: "('acc, 's) currency_ops \<Rightarrow> ('acc, ('acc, 's) xyk_state) currency_ops" where
  "pallet_currency C =
     \<lparr>cur_free = (\<lambda>s. cur_free C (currencies s)),
      cur_reserved = (\<lambda>s. cur_reserved C (currencies s)),
      cur_issuance = (\<lambda>s. cur_issuance C (currencies s)),
      cur_transfer = (\<lambda>c a b n. on_currency (cur_transfer C c a b n)),
      cur_deposit = (\<lambda>c a n. on_currency (cur_deposit C c a n)),
      cur_withdraw = (\<lambda>c a n. on_currency (cur_withdraw C c a n)),
      cur_reserve = (\<lambda>c a n. on_currency (cur_reserve C c a n)),
      cur_unreserve = (\<lambda>c a n. on_currency (cur_unreserve C c a n)),
      cur_repatriate = (\<lambda>c a b n st. on_currency (cur_repatriate C c a b n st))\<rparr>"

definition xyk_exchange ::
  "('acc, 's) xyk_config \<Rightarrow> (u32 \<Rightarrow> 'acc \<Rightarrow> block_number \<Rightarrow> asset_id \<Rightarrow> asset_id \<Rightarrow> bytes) \<Rightarrow>
   ('acc, ('acc, 's) xyk_state) exchange_config" where
  "xyk_exchange cfg h =
     \<lparr>ex_amm = xyk_amm cfg, ex_currency = pallet_currency (xyk_currency cfg), intention_hash = h\<rparr>"

lemma pallet_currency_simps [simp]:
  "cur_free (pallet_currency C) s = cur_free C (currencies s)"
  "cur_reserved (pallet_currency C) s = cur_reserved C (currencies s)"
  "cur_issuance (pallet_currency C) s = cur_issuance C (currencies s)"
  "cur_transfer (pallet_currency C) c a b n = on_currency (cur_transfer C c a b n)"
  "cur_deposit (pallet_currency C) c a n = on_currency (cur_deposit C c a n)"
  "cur_withdraw (pallet_currency C) c a n = on_currency (cur_withdraw C c a n)"
  "cur_reserve (pallet_currency C) c a n = on_currency (cur_reserve C c a n)"
  "cur_unreserve (pallet_currency C) c a n = on_currency (cur_unreserve C c a n)"
  "cur_repatriate (pallet_currency C) c a b n st = on_currency (cur_repatriate C c a b n st)"
  by (simp_all add: pallet_currency_def)

lemma xyk_exchange_simps [simp]:
  "ex_amm (xyk_exchange cfg h) = xyk_amm cfg"
  "ex_currency (xyk_exchange cfg h) = pallet_currency (xyk_currency cfg)"
  by (simp_all add: xyk_exchange_def)

context multi_currency
begin

lemma lifted_contract: "multi_currency (pallet_currency C) (\<lambda>s. cur_inv (currencies s))"
proof (unfold_locales, goal_cases)
  case 1
  then show ?case by (simp add: fits)
next
  case 2
  then show ?case by (simp add: fits_pair)
next
  case 3
  then show ?case by (clarsimp simp: on_currency_eq) (drule (1) transfer_ok, simp)
next
  case 4
  then show ?case by (clarsimp simp: on_currency_eq) (drule (1) transfer_err, simp)
next
  case 5
  then show ?case by (clarsimp simp: on_currency_eq) (drule (1) deposit_ok, simp)
next
  case 6
  then show ?case by (clarsimp simp: on_currency_eq) (drule (1) deposit_err, simp)
next
  case 7
  then show ?case by (clarsimp simp: on_currency_eq) (drule (1) withdraw_ok, simp)
next
  case 8
  then show ?case by (clarsimp simp: on_currency_eq) (drule (1) withdraw_err, simp)
next
  case 9
  then show ?case by (clarsimp simp: on_currency_eq) (drule (1) reserve_ok, simp)
next
  case 10
  then show ?case by (clarsimp simp: on_currency_eq) (drule (1) reserve_err, simp)
next
  case 11
  then show ?case by (clarsimp simp: on_currency_eq) (drule (1) unreserve_ok, simp)
next
  case 12
  then show ?case by (clarsimp simp: on_currency_eq) (drule (2) repatriate_ok, simp)
next
  case 13
  then show ?case by (clarsimp simp: on_currency_eq) (drule (2) repatriate_err, simp)
next
  case 14
  then show ?case by (clarsimp simp: on_currency_eq) (drule (1) repatriate_self, simp)
qed

end

context lockable_currency
begin

lemma lifted_lockable:
  "lockable_currency (pallet_currency C) (\<lambda>s. cur_inv (currencies s)) (\<lambda>s. locked (currencies s))
     (\<lambda>s. locked_all (currencies s))"
proof (intro lockable_currency.intro lifted_contract lockable_currency_axioms.intro, goal_cases)
  case (1 s a b c n)
  then show ?case using transfer_iff [of "currencies s" a b c n] by (simp add: on_currency_eq)
next
  case (2 s n c a)
  then show ?case using transfer_own [of "currencies s" n c a] by (simp add: on_currency_eq)
next
  case (3 s c a n)
  then show ?case using reserve_iff [of "currencies s" c a n] by (simp add: on_currency_eq)
next
  case (4 s c a n)
  then show ?case using withdraw_iff [of "currencies s" c a n] by (simp add: on_currency_eq)
next
  case (5 s c a n)
  then show ?case using deposit_iff [of "currencies s" c a n] by (simp add: on_currency_eq)
next
  case (6 s a b c n)
  then show ?case using receive_live [of "currencies s" a b c n] by (simp add: on_currency_eq)
next
  case (7 s c a b n s' r)
  then show ?case using locks_kept [of "currencies s" c a b n "currencies s'" r] by (auto simp: on_currency_eq)
qed

end

context liquid_currency
begin

lemma lifted_liquid: "liquid_currency (pallet_currency C) (\<lambda>s. cur_inv (currencies s))"
  using lifted_contract unfolding liquid_currency_def
  by (auto simp: liquid_currency_axioms_def on_currency_eq transfer_live reserve_live withdraw_live
      repatriate_live deposit_live)

end

context xyk_pallet
begin

lemma execute_settles:
  assumes inv: "cur_inv (currencies s)" and "execute_sell cfg t s = (r, s') \<or> execute_buy cfg t s = (r, s')"
  shows "cur_inv (currencies s') \<and>
    (\<forall>c. c \<noteq> native_asset_id cfg \<longrightarrow> cur_issuance (xyk_currency cfg) (currencies s') c =
       cur_issuance (xyk_currency cfg) (currencies s) c) \<and>
    cur_issuance (xyk_currency cfg) (currencies s') (native_asset_id cfg) \<le>
      cur_issuance (xyk_currency cfg) (currencies s) (native_asset_id cfg)"
proof (cases r)
  case (Inl e)
  with assms have "s' = s" by (auto dest: execute_Inl)
  with inv show ?thesis by simp
next
  case (Inr x)
  then have "execute_sell cfg t s = (Inr (), s') \<or> execute_buy cfg t s = (Inr (), s')" using assms(2) by simp
  then obtain u where "currencies s' = u" "cur_inv u"
    "cur_issuance (xyk_currency cfg) u = (cur_issuance (xyk_currency cfg) (currencies s))
      (native_asset_id cfg := cur_issuance (xyk_currency cfg) (currencies s) (native_asset_id cfg) - burned_fee t)"
    by (elim disjE) (erule execute_sell_ok [OF inv], simp, erule execute_buy_ok [OF inv], simp)
  then show ?thesis by simp
qed

lemma exchange_contract:
  "exchange_pallet (xyk_exchange cfg h) (\<lambda>s. cur_inv (currencies s)) (native_asset_id cfg)"
  unfolding exchange_pallet_def direct_trades_def exchange_pallet_axioms_def
  using lifted_contract execute_settles by (simp add: xyk_amm_def) blast

end

interpretation bazaar: exchange_pallet "xyk_exchange market_config h"
  "\<lambda>s. balances_currency_inv (account_map_config 0 50) (currencies s)" 0
  using market.exchange_contract [of h] by simp

interpretation liquid_bazaar: liquid_trades "xyk_exchange market_config h"
  "\<lambda>s. balances_liquid_inv (account_map_config 0 50) (currencies s)"
  unfolding liquid_trades_def using liquid_market.lifted_liquid by simp

section \<open>An example\<close>

text \<open>A second trader, who holds nothing of the native asset 0.\<close>

definition dealer :: bytes where
  "dealer = [2]"

definition bazaar_funds :: "asset_id \<Rightarrow> (bytes, bytes \<Rightarrow> account_data option) balances_state" where
  "bazaar_funds c =
     (if c = 0 then balances_start [(trader, purse 1000000), (pool_account, purse 1000)]
      else if c = 1 then balances_start [(trader, purse 1000000), (dealer, purse 1000000), (pool_account, purse 1000000)]
      else if c = 2 then balances_start [(trader, purse 1000000), (dealer, purse 1000000), (pool_account, purse 2000000)]
      else if c = 10 then balances_start [(trader, purse 1000000)]
      else balances_start [])"

definition bazaar_state ::
  "(bytes, (bytes, asset_id \<Rightarrow> (bytes, bytes \<Rightarrow> account_data option) balances_state) xyk_state) exchange_state" where
  "bazaar_state =
     \<lparr>chain = market_state\<lparr>currencies := bazaar_funds\<rparr>, intention_count = Map.empty, intentions = Map.empty,
      current_block = 1, exchange_events = []\<rparr>"

lemma dealer_distinct [simp]:
  "dealer \<noteq> trader" "trader \<noteq> dealer" "dealer \<noteq> pool_account" "pool_account \<noteq> dealer"
  by (auto simp: dealer_def trader_def pool_account_def get_pair_id_def from_assets_def Let_def)

lemmas parties_distinct [simp] = trader_not_pool

lemma bazaar_funds_inv: "balances_currency_inv (account_map_config 0 50) bazaar_funds"
  unfolding balances_currency_inv_def bazaar_funds_def
  by (auto simp: U128_MAX_def intro!: balances_start_inv)

lemma bazaar_funds_unlocked: "balances_liquid_inv (account_map_config 0 50) bazaar_funds"
  using bazaar_funds_inv
  by (auto simp: balances_liquid_inv_def balances_currency_inv_def unlocked_def bazaar_funds_def
      balances_start_account purse_def account_default_def split: if_splits)

lemma bazaar_chain [simp]: "currencies (chain bazaar_state) = bazaar_funds"
  by (simp add: bazaar_state_def)

lemma bazaar_free:
  "free_balance (account_map_config 0 50) (bazaar_funds 0) a =
     (if a = trader then 1000000 else if a = pool_account then 1000 else 0)"
  "free_balance (account_map_config 0 50) (bazaar_funds 1) a =
     (if a \<in> {trader, dealer, pool_account} then 1000000 else 0)"
  "free_balance (account_map_config 0 50) (bazaar_funds 2) a =
     (if a \<in> {trader, dealer} then 1000000 else if a = pool_account then 2000000 else 0)"
  by (auto simp: bazaar_funds_def free_balance_def balances_start_account account_default_def purse_def)

lemma bazaar_reserved: "reserved_balance (account_map_config 0 50) (bazaar_funds c) a = 0"
  by (auto simp: bazaar_funds_def reserved_balance_def balances_start_account account_default_def purse_def)

end
