(* ===== verification/Exchange_Props.thy ===== *)
theory Exchange_Props
  imports Exchange_Market
begin

text \<open>
  Properties of the exchange pallet, from registering an intention to the finalisation of a
  block, and the cases in which resolving intentions does not do what it means to.
\<close>

section \<open>Finalisation\<close>

text \<open>C18: whatever intentions were registered, finalising a block over the XYK pallet keeps the
  multi-currency's invariant and creates no asset: the issuance of every asset but the native
  one is unchanged, and the native one can only fall (by the fees of discounted trades). The
  events of the block so far stay in place. It either ends with both queues empty, or stops with
  the panic of a direct trade whose transfer was refused, and no other error.\<close>

theorem finalize_conserves:
  assumes "multi_currency (xyk_currency cfg) cur_inv" and "cur_inv (currencies (chain s))"
    and "on_finalize (xyk_exchange cfg h) ks s = (r, s')"
  shows "cur_inv (currencies (chain s')) \<and>
    (\<forall>c. c = native_asset_id cfg \<or> cur_issuance (xyk_currency cfg) (currencies (chain s')) c =
       cur_issuance (xyk_currency cfg) (currencies (chain s)) c) \<and>
    cur_issuance (xyk_currency cfg) (currencies (chain s')) (native_asset_id cfg) \<le>
      cur_issuance (xyk_currency cfg) (currencies (chain s)) (native_asset_id cfg) \<and>
    prefix (exchange_events s) (exchange_events s') \<and>
    (case r of Inr _ \<Rightarrow> intentions s' = Map.empty \<and> intention_count s' = Map.empty
     | Inl e \<Rightarrow> e = unexpected)"
proof -
  have pal: "xyk_pallet cfg cur_inv" using assms(1) by (simp add: xyk_pallet_def)
  let ?ex = "xyk_exchange cfg h"
  note contract = xyk_pallet.exchange_contract [OF pal, of h]
  obtain x u where u: "process_pairs ?ex ks s = (x, u)" by fastforce
  from exchange_pallet.process_pairs_settled [OF contract u]
  have S: "settles (\<lambda>s. cur_inv (currencies s)) (native_asset_id cfg) (ex_currency ?ex) s u" .
  show ?thesis
    using S assms(2,3) u process_pairs_panic [of ?ex ks s _ u]
    by (cases x) (auto simp: on_finalize_def settles_def)
qed

text \<open>Intentions with nothing to match are all resolved through the market maker.\<close>

lemma take_matching_Nil [simp]: "take_matching [] t n bvec = (bvec, [])"
  by (simp add: take_matching.simps [of "[]"])

lemma process_main_unmatched: "\<exists>s'. process_main cfg p as [] s = (Inr [], s')"
proof (induction as arbitrary: s)
  case (Cons i as)
  obtain ok u where u: "verify_intention cfg i s = (ok, u)" by fastforce
  obtain v where v: "resolve_matched_intentions cfg p i [] u = (Inr (), v)"
    by (simp add: resolve_matched_intentions_def)
  from Cons.IH [of u] Cons.IH [of v] u v show ?case by (cases ok) simp_all
qed simp

lemma process_unmatched: "\<exists>u. process_exchange_intentions cfg p as [] s = (Inr (), u)"
proof -
  obtain u where "process_main cfg p (sort_descending as) [] s = (Inr [], u)"
    using process_main_unmatched [of cfg p "sort_descending as" s] ..
  then show ?thesis by (simp add: process_exchange_intentions_def Let_def sort_descending_def)
qed

definition sell_order :: "bytes \<Rightarrow> asset_id \<Rightarrow> asset_id \<Rightarrow> balance \<Rightarrow> balance \<Rightarrow> bytes exchange_intention" where
  "sell_order who a b n m =
     \<lparr>i_who = who, i_assets = \<lparr>asset_in = a, asset_out = b\<rparr>, i_amount_in = n, i_amount_out = m,
      i_trade_limit = 1, i_discount = False, i_sell_or_buy = SELL, i_intention_id = who\<rparr>"

theorem finalize_conserves_witness:
  "\<exists>s'. on_finalize (xyk_exchange market_config (\<lambda>_ _ _ _ _. [])) [(1, 2)]
       (bazaar_state\<lparr>intention_count := [(1, 2) \<mapsto> 1], intentions := [(2, 1) \<mapsto> [sell_order trader 2 1 2000 1000]]\<rparr>)
     = (Inr (), s') \<and>
     balances_currency_inv (account_map_config 0 50) (currencies (chain s')) \<and>
     total_issuance (currencies (chain s') 1) = 3000000 \<and> intentions s' = Map.empty"
proof -
  let ?ex = "xyk_exchange market_config (\<lambda>_ _ _ _ _. [])"
  let ?s = "bazaar_state\<lparr>intention_count := [(1, 2) \<mapsto> 1], intentions := [(2, 1) \<mapsto> [sell_order trader 2 1 2000 1000]]\<rparr>"
  obtain u where "process_exchange_intentions ?ex (amm_get_pair_id (ex_amm ?ex) \<lparr>asset_in = 1, asset_out = 2\<rparr>)
      [sell_order trader 2 1 2000 1000] [] ?s = (Inr (), u)"
    by (rule exE [OF process_unmatched])
  then obtain s' where s': "on_finalize ?ex [(1, 2)] ?s = (Inr (), s')"
    by (auto simp: on_finalize_def get_intentions_count_def get_intentions_def)
  have iss: "total_issuance (bazaar_funds 1) = 3000000" by (simp add: bazaar_funds_def balances_start_def)
  have "multi_currency (xyk_currency market_config) (balances_currency_inv (account_map_config 0 50))"
    by (simp add: zero_map.currency_contract)
  from finalize_conserves [OF this _ s'] bazaar_funds_inv
  have "balances_currency_inv (account_map_config 0 50) (currencies (chain s'))"
    and all: "\<forall>c. c = 0 \<or> total_issuance (currencies (chain s') c) = total_issuance (bazaar_funds c)"
    and "intentions s' = Map.empty"
    by (simp_all add: bazaar_state_def)
  with s' iss all [rule_format, of 1] show ?thesis by simp
qed

section \<open>Matching\<close>

text \<open>C23: the intentions matched against a main intention. They are taken off the opposite queue
  in descending order of amount; together with the ones left over they are the whole queue, with
  no intention lost or repeated; none of those left is larger than one taken; without the last
  one taken their amounts stay below the main amount, and unless the queue is exhausted they
  reach it.\<close>

theorem matching_greedy:
  assumes "take_matching (rev (sort_descending bs)) target 0 [] = (bvec, rest)" and "0 < target"
    and "sum_list (map i_amount_in bs) \<le> U128_MAX"
  shows "mset bvec + mset rest = mset bs \<and>
    sorted_wrt (\<lambda>x y. i_amount_in y \<le> i_amount_in x) bvec \<and>
    (\<forall>x y. x \<in> set bvec \<longrightarrow> y \<in> set rest \<longrightarrow> i_amount_in y \<le> i_amount_in x) \<and>
    (bvec = [] \<or> sum_list (map i_amount_in (butlast bvec)) < target) \<and>
    (rest = [] \<or> target \<le> sum_list (map i_amount_in bvec))"
proof -
  have "rev (sort_descending bs) = rest @ rev bvec" using take_matching_partition [OF assms(1)] .
  then have sd: "sort_descending bs = bvec @ rev rest" by (metis rev_append rev_rev_ident)
  have sorted: "sorted_wrt (\<lambda>x y. i_amount_in y \<le> i_amount_in x) (bvec @ rev rest)"
    using sorted_sort_descending [of bs] by (simp add: sd)
  have m: "mset bs = mset (bvec @ rev rest)" by (metis mset_sort_descending sd)
  have "sum_list (map i_amount_in (rev (sort_descending bs))) = sum_list (map i_amount_in bs)"
    by (metis mset_map mset_rev mset_sort_descending sum_mset_sum_list)
  with take_matching_bound [of "rev (sort_descending bs)" target 0 "[]" bvec rest] assms
  have "bvec \<noteq> [] \<longrightarrow> sum_list (map i_amount_in (butlast bvec)) < target"
    "rest \<noteq> [] \<longrightarrow> target \<le> sum_list (map i_amount_in bvec)" by auto
  with sorted m show ?thesis by (auto simp: sorted_wrt_append)
qed

theorem matching_greedy_witness:
  "take_matching (rev (sort_descending [sell_order dealer 1 2 600 1200, sell_order dealer 1 2 900 1800,
       sell_order dealer 1 2 500 1000])) 1000 0 [] =
     ([sell_order dealer 1 2 900 1800, sell_order dealer 1 2 600 1200], [sell_order dealer 1 2 500 1000]) \<and>
   sum_list (map i_amount_in (butlast [sell_order dealer 1 2 900 1800, sell_order dealer 1 2 600 1200])) < 1000"
proof -
  have e: "take_matching (rev (sort_descending [sell_order dealer 1 2 600 1200, sell_order dealer 1 2 900 1800,
       sell_order dealer 1 2 500 1000])) 1000 0 [] =
     ([sell_order dealer 1 2 900 1800, sell_order dealer 1 2 600 1200], [sell_order dealer 1 2 500 1000])"
    by (simp add: sort_descending_def sell_order_def take_matching.simps Let_def wrapping_add_def U128_MAX_def)
  from matching_greedy [OF e] e show ?thesis by (simp add: sell_order_def U128_MAX_def)
qed

section \<open>Registering intentions\<close>

text \<open>Exactly one intention is new, at the end of the queue of its pair, and nothing else but the counter changed.\<close>

definition registered_one ::
  "('acc, 's) exchange_config \<Rightarrow> 'acc \<Rightarrow> asset_pair \<Rightarrow> balance \<Rightarrow> balance \<Rightarrow> balance \<Rightarrow> bool \<Rightarrow> intention_type \<Rightarrow>
   ('acc, 's) exchange_state \<Rightarrow> ('acc, 's) exchange_state \<Rightarrow> bool" where
  "registered_one cfg who as n_in n_out lim disc kind s s' \<longleftrightarrow>
     chain s' = chain s \<and>
     get_intentions s' = (get_intentions s)((asset_in as, asset_out as) :=
       get_intentions s (asset_in as, asset_out as) @
         [\<lparr>i_who = who, i_assets = as, i_amount_in = n_in, i_amount_out = n_out,
           i_trade_limit = lim, i_discount = disc, i_sell_or_buy = kind,
           i_intention_id = generate_intention_id cfg who (get_intentions_count s (ordered_pair as)) as s\<rparr>]) \<and>
     intention_count s' = (intention_count s)(ordered_pair as \<mapsto> get_intentions_count s (ordered_pair as) + 1)"

lemma register_intention_one:
  obtains s' where "register_intention cfg who kind as n_in n_out lim disc s = (Inr (), s')"
    and "registered_one cfg who as n_in n_out lim disc kind s s'"
proof -
  obtain s' where s': "register_intention cfg who kind as n_in n_out lim disc s = (Inr (), s')"
    by (simp add: register_intention_def Let_def)
  then have "registered_one cfg who as n_in n_out lim disc kind s s'"
    by (auto simp: registered_one_def register_intention_def Let_def get_intentions_def get_intentions_count_def
        exchange_deposit_event_def fun_eq_iff)
  with s' show ?thesis by (rule that)
qed

text \<open>C24: a sell or a buy either is refused and changes nothing at all, or registers exactly one
  intention: at the end of the queue of its (in, out) pair, with an amount in that the caller
  holds, the price quoted by the market maker for the other side, and the next counter in its
  identifier. The counter of the ordered pair grows by one and no funds move.\<close>

theorem intentions_registered:
  "(case exchange_sell F cfg orig a b n lim disc s of
      (Inl e, s') \<Rightarrow> s' = s
    | (Inr _, s') \<Rightarrow>
        \<exists>who price. ensure_signed F orig = Inr who \<and> MIN_TRADING_LIMIT \<le> n \<and>
          n \<le> cur_free (ex_currency cfg) (chain s) a who \<and>
          amm_exists (ex_amm cfg) \<lparr>asset_in = a, asset_out = b\<rparr> (chain s) \<and>
          price = amm_get_spot_price_unchecked (ex_amm cfg) a b n (chain s) \<and> price \<noteq> 0 \<and>
          registered_one cfg who \<lparr>asset_in = a, asset_out = b\<rparr> n price lim disc SELL s s') \<and>
   (case exchange_buy F cfg orig b a n lim disc s of
      (Inl e, s') \<Rightarrow> s' = s
    | (Inr _, s') \<Rightarrow>
        \<exists>who price. ensure_signed F orig = Inr who \<and> MIN_TRADING_LIMIT \<le> n \<and>
          price = amm_get_spot_price_unchecked (ex_amm cfg) b a n (chain s) \<and> price \<noteq> 0 \<and>
          price \<le> cur_free (ex_currency cfg) (chain s) a who \<and>
          amm_exists (ex_amm cfg) \<lparr>asset_in = a, asset_out = b\<rparr> (chain s) \<and>
          registered_one cfg who \<lparr>asset_in = a, asset_out = b\<rparr> price n lim disc BUY s s')"
proof (cases "ensure_signed F orig")
  case (Inr who)
  let ?as = "\<lparr>asset_in = a, asset_out = b\<rparr>"
  let ?sold = "amm_get_spot_price_unchecked (ex_amm cfg) a b n (chain s)"
  let ?paid = "amm_get_spot_price_unchecked (ex_amm cfg) b a n (chain s)"
  obtain s1 where "register_intention cfg who SELL ?as n ?sold lim disc s = (Inr (), s1)"
    "registered_one cfg who ?as n ?sold lim disc SELL s s1" by (rule register_intention_one)
  moreover obtain s2 where "register_intention cfg who BUY ?as ?paid n lim disc s = (Inr (), s2)"
    "registered_one cfg who ?as ?paid n lim disc BUY s s2" by (rule register_intention_one)
  ultimately show ?thesis using Inr by (simp add: exchange_sell_def exchange_buy_def Let_def)
qed (simp add: exchange_sell_def exchange_buy_def)

section \<open>Direct trades\<close>

text \<open>C21: a direct trade is carried out when each party can spend what it sends, the amounts and the
  fees added up, beyond what is locked of its free balance, and each receiver keeps something of
  the asset it receives: it moves exactly the two amounts and the two fees to the pool, leaves
  nothing reserved that was not before, and changes no issuance. (\<open>outgoing\<close> and \<open>incoming\<close> add
  up what an account sends and receives of an asset in the four transfers.)\<close>

theorem direct_trade_completes:
  assumes "lockable_currency (ex_currency cfg) cur_inv locked locked_all" and "cur_inv (chain s)" and "transfers dt = []"
    and "just_fee (amount_from_a dt) fee_default = Some fa" and "just_fee (amount_from_b dt) fee_default = Some fb"
    and "moves = principal_transfers dt @ fee_transfers pool dt fa fb"
    and "\<forall>c x. spendable (cur_free (ex_currency cfg) (chain s) c x) (locked (chain s) c x) (outgoing moves c x)"
    and "\<forall>t\<in>set moves. outgoing moves (tr_asset t) (tr_to t) <
      cur_free (ex_currency cfg) (chain s) (tr_asset t) (tr_to t) +
      cur_reserved (ex_currency cfg) (chain s) (tr_asset t) (tr_to t)"
  shows "\<exists>s'. trade_or_revert cfg pool dt s = (Inr True, s') \<and> cur_inv (chain s') \<and>
    cur_issuance (ex_currency cfg) (chain s') = cur_issuance (ex_currency cfg) (chain s) \<and>
    (\<forall>c x. cur_free (ex_currency cfg) (chain s') c x =
        cur_free (ex_currency cfg) (chain s) c x - outgoing moves c x + incoming moves c x \<and>
      cur_reserved (ex_currency cfg) (chain s') c x = cur_reserved (ex_currency cfg) (chain s) c x)"
proof -
  have "lockable_trades cfg cur_inv locked locked_all" using assms(1) by (simp add: lockable_trades_def)
  from this assms(2-5,7,8) show ?thesis
    unfolding assms(6) by (rule lockable_trades.direct_trade_live) blast
qed

definition sell_trade :: "bytes direct_trade_data" where
  "sell_trade =
     \<lparr>intention_a = sell_order trader 1 2 1000 2000, intention_b = sell_order dealer 2 1 2000 1000,
      amount_from_a = 1000, amount_from_b = 2000, transfers = []\<rparr>"

theorem direct_trade_completes_witness:
  "\<exists>s'. trade_or_revert (xyk_exchange market_config (\<lambda>_ _ _ _ _. [])) pool_account sell_trade bazaar_state =
       (Inr True, s') \<and>
     free_balance (account_map_config 0 50) (currencies (chain s') 1) dealer = 1000998 \<and>
     free_balance (account_map_config 0 50) (currencies (chain s') 2) trader = 1001996"
proof -
  let ?cfg = "xyk_exchange market_config (\<lambda>_ _ _ _ _. [])"
  let ?moves = "principal_transfers sell_trade @ fee_transfers pool_account sell_trade 2 4"
  have moves: "?moves =
    [\<lparr>tr_from = trader, tr_to = dealer, tr_asset = 1, tr_amount = 1000, tr_fee_transfer = False\<rparr>,
     \<lparr>tr_from = dealer, tr_to = trader, tr_asset = 2, tr_amount = 2000, tr_fee_transfer = False\<rparr>,
     \<lparr>tr_from = trader, tr_to = pool_account, tr_asset = 2, tr_amount = 4, tr_fee_transfer = True\<rparr>,
     \<lparr>tr_from = dealer, tr_to = pool_account, tr_asset = 1, tr_amount = 2, tr_fee_transfer = True\<rparr>]"
    by (simp add: principal_transfers_def fee_transfers_def trade_fees_def sell_trade_def sell_order_def Let_def)
  let ?bal = "account_map_config 0 50 :: (bytes, bytes \<Rightarrow> account_data option) balances_config"
  have lock: "lockable_currency (ex_currency ?cfg) (\<lambda>s. balances_currency_inv ?bal (currencies s))
      (\<lambda>s. balances_locked ?bal (currencies s)) (\<lambda>s. balances_locked_all ?bal (currencies s))"
    using lockable_currency.lifted_lockable [OF zero_map.lockable_contract] by simp
  have "balances_locked ?bal (currencies (chain bazaar_state)) c x = 0" for c x
    using bazaar_funds_unlocked by (simp add: balances_liquid_inv_alt)
  then have funds: "\<forall>c x. spendable (cur_free (ex_currency ?cfg) (chain bazaar_state) c x)
      (balances_locked ?bal (currencies (chain bazaar_state)) c x) (outgoing ?moves c x)"
    unfolding moves by (auto simp: bazaar_free)
  have alive: "\<forall>t\<in>set ?moves. outgoing ?moves (tr_asset t) (tr_to t) <
      cur_free (ex_currency ?cfg) (chain bazaar_state) (tr_asset t) (tr_to t) +
      cur_reserved (ex_currency ?cfg) (chain bazaar_state) (tr_asset t) (tr_to t)"
    unfolding moves by (simp add: bazaar_free)
  have fees: "transfers sell_trade = []" "just_fee (amount_from_a sell_trade) fee_default = Some 2"
    "just_fee (amount_from_b sell_trade) fee_default = Some 4"
    by (simp_all add: sell_trade_def just_fee_default U128_MAX_def)
  have inv: "balances_currency_inv ?bal (currencies (chain bazaar_state))" by (simp add: bazaar_funds_inv)
  from direct_trade_completes [OF lock inv fees refl funds alive]
  obtain s' where s': "trade_or_revert ?cfg pool_account sell_trade bazaar_state = (Inr True, s')"
    and free: "\<forall>c x. cur_free (ex_currency ?cfg) (chain s') c x =
      cur_free (ex_currency ?cfg) (chain bazaar_state) c x - outgoing ?moves c x + incoming ?moves c x"
    by (elim exE conjE) (rule that, assumption, simp only: simp_thms)
  have "cur_free (ex_currency ?cfg) (chain s') 1 dealer = 1000998" "cur_free (ex_currency ?cfg) (chain s') 2 trader = 1001996"
    unfolding free [rule_format] moves by (simp_all add: bazaar_free)
  with s' show ?thesis by (intro exI [of _ s'] conjI) simp_all
qed

end
