(* ===== verification/Exchange_Faults.thy ===== *)
theory Exchange_Faults
  imports Exchange_Props
begin

text \<open>
  Cases in which resolving matched intentions goes wrong: a direct trade that panics while the
  block is finalised, and preparations whose revert does not give everything back.
\<close>

section \<open>A receiver without an account\<close>

lemma repatriate_dead:
  assumes "store_query cfg (account_store s) b = None" and "a \<noteq> b" and "n \<noteq> 0"
  shows "repatriate_reserved cfg a b n st s = (Inl (Balances DeadAccount), s)"
  using assms by (simp add: repatriate_reserved_def do_transfer_reserved_def try_mutate_account_with_dust_def Let_def)

lemma account_store_drop: "account_store (drop_negative d s) = account_store s"
  by (cases d) simp

lemma balances_deposit_event_store: "account_store (balances_deposit_event ev s) = account_store s"
  by (simp add: balances_deposit_event_def)

lemma drop_dust_store [simp]: "account_store (drop_dust_cleaner (account_map_config ed l) d s) = account_store s"
  by (cases d) (auto simp: account_store_drop balances_deposit_event_store)

lemma reserve_store:
  assumes "reserve (account_map_config ed l) a n s = (Inr (), t)" and "b \<noteq> a \<or> n = 0"
  shows "account_store t b = account_store s b"
  using assms
  by (auto simp: reserve_def try_mutate_account_def try_mutate_account_with_dust_def Let_def and_then_eq_Inr
      try_bind_eq_Inr balances_deposit_event_def split: if_splits prod.splits)

lemma reserve_if_can_store:
  assumes "xyk_currency cfg = balances_currency (account_map_config 0 l)"
    and "reserve_if_can (xyk_exchange cfg h) c a n s = (True, s')" and "b \<noteq> a \<or> c' \<noteq> c \<or> n = 0"
  shows "account_store (currencies (chain s') c') b = account_store (currencies (chain s) c') b"
proof -
  from assms(1,2) obtain t where t: "reserve (account_map_config 0 l) a n (currencies (chain s) c) = (Inr (), t)"
    "currencies (chain s') = (currencies (chain s))(c := t)"
    by (auto simp: reserve_if_can_def on_chain_eq on_currency_eq at_asset_eq is_ok_def split: prod.splits sum.splits)
  from assms(3) t(2) reserve_store [OF t(1), of b] show ?thesis by (cases "c' = c") auto
qed

text \<open>A preparation does not open an account for a party that has none.\<close>

lemma prepare_store:
  assumes bal: "xyk_currency cfg = balances_currency (account_map_config 0 l)"
    and liq: "balances_liquid_inv (account_map_config 0 l) (currencies (chain s))"
    and p: "prepare (xyk_exchange cfg h) pool dt s = ((True, dt'), u)" and ts: "transfers dt = []"
    and ab: "i_who (intention_a dt) \<noteq> i_who (intention_b dt)"
  defines "c \<equiv> asset_in (i_assets (intention_a dt))" and "b \<equiv> i_who (intention_b dt)"
  assumes ne: "asset_in (i_assets (intention_a dt)) \<noteq> asset_out (i_assets (intention_a dt))"
    and dead: "account_store (currencies (chain s) c) b = None"
  shows "account_store (currencies (chain u) c) b = None"
proof -
  let ?ex = "xyk_exchange cfg h" and ?a = "i_who (intention_a dt)"
  from p obtain s1 s2 s3 fc m fd n where
    1: "reserve_if_can ?ex c ?a (amount_from_a dt) s = (True, s1)" and
    2: "reserve_if_can ?ex (asset_out (i_assets (intention_a dt))) b (amount_from_b dt) s1 = (True, s2)" and
    3: "reserve_if_can ?ex fc ?a m s2 = (True, s3)" and
    4: "reserve_if_can ?ex fd b n s3 = (True, u)"
    using ts unfolding c_def b_def
    by (auto simp: prepare_def Let_def split: if_splits prod.splits option.splits)
  have d3: "account_store (currencies (chain s3) c) b = None"
    using reserve_if_can_store [OF bal 1, of b c] reserve_if_can_store [OF bal 2, of b c]
      reserve_if_can_store [OF bal 3, of b c] ab ne dead by (simp add: b_def c_def)
  have "n = 0" if "fd = c"
  proof -
    have "multi_currency (xyk_currency cfg) (balances_liquid_inv (account_map_config 0 l))"
      unfolding bal by (rule liquid_currency.axioms(1) [OF zero_map.liquid_contract])
    then have con: "direct_trades ?ex (\<lambda>s. balances_liquid_inv (account_map_config 0 l) (currencies s))"
      using multi_currency.lifted_contract by (simp add: direct_trades_def)
    note R = direct_trades.reserve_if_can_true [OF con]
    have "balances_liquid_inv (account_map_config 0 l) (currencies (chain s3))"
      using R [OF _ 1] R [OF _ 2] R [OF _ 3] liq by simp
    from R [OF this 4] that d3 show ?thesis
      by (simp add: bal free_balance_def account_map_account account_default_def)
  qed
  with reserve_if_can_store [OF bal 4, of b c] d3 show ?thesis by auto
qed

text \<open>C25: a direct trade whose second party has no account yet in the asset it is to receive passes
  the preparation (in a buy against a buy that party needs none of it, not even for the fee)
  and then panics: the balances pallet refuses to repatriate to a dead account, and the
  \<open>expect\<close> in \<open>execute\<close> turns this into a panic of the block's finalisation. The asset must be
  one kept by the balances pallet, which in the runtime is the native one.\<close>

theorem direct_trade_panics:
  assumes "xyk_currency cfg = balances_currency (account_map_config 0 l)"
    and "balances_liquid_inv (account_map_config 0 l) (currencies (chain s))" and "transfers dt = []"
    and "just_fee (amount_from_a dt) fee_default = Some fa" and "just_fee (amount_from_b dt) fee_default = Some fb"
    and "\<forall>c x. outgoing (principal_transfers dt @ fee_transfers pool dt fa fb) c x
      \<le> xyk_free cfg (chain s) c x"
    and "i_who (intention_a dt) \<noteq> i_who (intention_b dt)" and "amount_from_a dt \<noteq> 0"
    and "asset_in (i_assets (intention_a dt)) \<noteq> asset_out (i_assets (intention_a dt))"
    and "account_store (currencies (chain s) (asset_in (i_assets (intention_a dt)))) (i_who (intention_b dt)) = None"
  shows "\<exists>s'. trade_or_revert (xyk_exchange cfg h) pool dt s = (Inl unexpected, s')"
proof -
  let ?ex = "xyk_exchange cfg h" and ?moves = "principal_transfers dt @ fee_transfers pool dt fa fb"
  let ?dt = "dt\<lparr>transfers := ?moves\<rparr>" and ?c = "asset_in (i_assets (intention_a dt))"
  have liquid: "liquid_trades ?ex (\<lambda>s. balances_liquid_inv (account_map_config 0 l) (currencies s))"
    unfolding liquid_trades_def xyk_exchange_simps assms(1)
    by (rule liquid_currency.lifted_liquid [OF zero_map.liquid_contract])
  have funds: "\<forall>c x. outgoing ?moves c x \<le> cur_free (ex_currency ?ex) (chain s) c x"
    using assms(6) by (simp add: xyk_free_def)
  from liquid assms(2-5) funds obtain u where u: "prepare ?ex pool dt s = ((True, ?dt), u)"
    by (rule liquid_trades.prepare_live)
  have "account_store (currencies (chain u) ?c) (i_who (intention_b dt)) = None"
    by (rule prepare_store [OF assms(1,2) u assms(3,7,9,10)])
  then have "repatriate_reserved (account_map_config 0 l) (i_who (intention_a dt)) (i_who (intention_b dt))
      (amount_from_a dt) Status_Free (currencies (chain u) ?c) =
      (Inl (Balances DeadAccount), currencies (chain u) ?c)"
    using assms(7,8) by (intro repatriate_dead) simp_all
  then have "\<exists>v. on_chain (cur_repatriate (ex_currency ?ex) ?c (i_who (intention_a dt)) (i_who (intention_b dt))
      (amount_from_a dt) Status_Free) (send_direct_trade_resolve_event ?dt u) = (Inl (Balances DeadAccount), v)"
    using assms(1) by (simp add: on_chain_eq on_currency_eq at_asset_eq send_direct_trade_resolve_event_def)
  then obtain v where "execute_transfers ?ex ?dt ?moves (send_direct_trade_resolve_event ?dt u) = (Inl unexpected, v)"
    by (auto simp: principal_transfers_def Let_def unexpected_def)
  with u show ?thesis by (auto simp: trade_or_revert_def direct_execute_def)
qed

definition buy_order :: "bytes \<Rightarrow> asset_id \<Rightarrow> asset_id \<Rightarrow> balance \<Rightarrow> balance \<Rightarrow> bytes exchange_intention" where
  "buy_order who a b n m =
     \<lparr>i_who = who, i_assets = \<lparr>asset_in = a, asset_out = b\<rparr>, i_amount_in = n, i_amount_out = m,
      i_trade_limit = 10000, i_discount = False, i_sell_or_buy = BUY, i_intention_id = who\<rparr>"

text \<open>The trader pays in the native asset, of which the dealer has nothing yet.\<close>

definition buy_trade :: "bytes direct_trade_data" where
  "buy_trade =
     \<lparr>intention_a = buy_order trader 0 1 1000 1000, intention_b = buy_order dealer 1 0 1000 1000,
      amount_from_a = 1000, amount_from_b = 1000, transfers = []\<rparr>"

theorem direct_trade_panics_witness:
  "\<exists>s'. trade_or_revert (xyk_exchange market_config (\<lambda>_ _ _ _ _. [])) pool_account buy_trade bazaar_state =
     (Inl unexpected, s')"
proof (rule direct_trade_panics)
  show "xyk_currency market_config = balances_currency (account_map_config 0 50)" by simp
  show "balances_liquid_inv (account_map_config 0 50) (currencies (chain bazaar_state))"
    by (simp add: bazaar_funds_unlocked)
  show "transfers buy_trade = []" "i_who (intention_a buy_trade) \<noteq> i_who (intention_b buy_trade)"
    "amount_from_a buy_trade \<noteq> 0"
    "asset_in (i_assets (intention_a buy_trade)) \<noteq> asset_out (i_assets (intention_a buy_trade))"
    by (simp_all add: buy_trade_def buy_order_def)
  show "just_fee (amount_from_a buy_trade) fee_default = Some 2"
    "just_fee (amount_from_b buy_trade) fee_default = Some 2"
    by (simp_all add: buy_trade_def just_fee_default U128_MAX_def)
  show "\<forall>c x. outgoing (principal_transfers buy_trade @ fee_transfers pool_account buy_trade 2 2) c x
      \<le> xyk_free market_config (chain bazaar_state) c x"
    by (auto simp: principal_transfers_def fee_transfers_def trade_fees_def buy_trade_def buy_order_def xyk_free_def
        bazaar_free)
  show "account_store (currencies (chain bazaar_state) (asset_in (i_assets (intention_a buy_trade))))
      (i_who (intention_b buy_trade)) = None"
    by (simp add: buy_trade_def buy_order_def bazaar_funds_def balances_start_def)
qed

section \<open>What a revert does not give back\<close>

text \<open>A sell against a sell in which the second party cannot pay its fee, because it holds too
  little of the asset it is about to receive: the trade is reverted, but the fee already
  reserved from the first party stays reserved. Only transfers already listed are released, and
  the fee transfers are listed after both fees have been reserved.\<close>

theorem unpaid_fee_stays_reserved:
  assumes "liquid_currency (ex_currency cfg) cur_inv" and "cur_inv (chain s)" and "transfers dt = []"
    and "i_sell_or_buy (intention_a dt) = SELL" and "i_sell_or_buy (intention_b dt) = SELL"
    and "i_assets (intention_a dt) = \<lparr>asset_in = c, asset_out = d\<rparr>"
    and "i_assets (intention_b dt) = \<lparr>asset_in = d, asset_out = c\<rparr>" and "c \<noteq> d"
    and "i_who (intention_a dt) = a" and "i_who (intention_b dt) = b" and "a \<noteq> b"
    and "just_fee (amount_from_a dt) fee_default = Some fa" and "just_fee (amount_from_b dt) fee_default = Some fb"
    and "amount_from_a dt \<le> cur_free (ex_currency cfg) (chain s) c a"
    and "amount_from_b dt \<le> cur_free (ex_currency cfg) (chain s) d b"
    and "fb \<le> cur_free (ex_currency cfg) (chain s) d a" and "cur_free (ex_currency cfg) (chain s) c b < fa"
  shows "\<exists>s'. trade_or_revert cfg pool dt s = (Inr False, s') \<and> cur_inv (chain s') \<and>
    cur_free (ex_currency cfg) (chain s') = debit (cur_free (ex_currency cfg) (chain s)) d a fb \<and>
    cur_reserved (ex_currency cfg) (chain s') = credit (cur_reserved (ex_currency cfg) (chain s)) d a fb"
proof -
  have liq: "liquid_trades cfg cur_inv" using assms(1) by (simp add: liquid_trades_def)
  then have dir: "direct_trades cfg cur_inv"
    using assms(1) by (simp add: direct_trades_def liquid_currency_def)
  note live = liquid_trades.reserve_if_can_live [OF liq] and true = direct_trades.reserve_if_can_true [OF dir]
  from live [OF assms(2,14)] obtain s1 where 1: "reserve_if_can cfg c a (amount_from_a dt) s = (True, s1)" .
  note R1 = true [OF assms(2) 1]
  have "amount_from_b dt \<le> cur_free (ex_currency cfg) (chain s1) d b" using R1 assms(8,15) by (simp add: debit_apply)
  with R1 obtain s2 where 2: "reserve_if_can cfg d b (amount_from_b dt) s1 = (True, s2)" by (metis live)
  note R2 = true [OF R1 [THEN conjunct2, THEN conjunct2, THEN conjunct2, THEN conjunct2] 2]
  have "fb \<le> cur_free (ex_currency cfg) (chain s2) d a" using R1 R2 assms(8,11,16) by (simp add: debit_apply)
  with R2 obtain s3 where 3: "reserve_if_can cfg d a fb s2 = (True, s3)" by (metis live)
  note R3 = true [OF R2 [THEN conjunct2, THEN conjunct2, THEN conjunct2, THEN conjunct2] 3]
  have "cur_free (ex_currency cfg) (chain s3) c b < fa" using R1 R2 R3 assms(8,11,17) by (auto simp: debit_apply)
  with R3 have 4: "reserve_if_can cfg c b fa s3 = (False, s3)"
    by (intro liquid_trades.reserve_if_can_refused [OF liq]) simp_all
  have "trade_fees dt fa fb = ((d, fb), (c, fa))" using assms(4-7) by (simp add: trade_fees_def Let_def)
  with direct_trades.refused_fee [OF dir assms(2,3), of s1 s2 fa fb d fb c fa s3 s3 pool] 1 2 3 4 assms
  show ?thesis by auto
qed

definition native_sell_trade :: "bytes direct_trade_data" where
  "native_sell_trade =
     \<lparr>intention_a = sell_order trader 0 1 1000 1000, intention_b = sell_order dealer 1 0 1000 1000,
      amount_from_a = 1000, amount_from_b = 1000, transfers = []\<rparr>"

theorem unpaid_fee_stays_reserved_witness:
  "\<exists>s'. trade_or_revert (xyk_exchange market_config (\<lambda>_ _ _ _ _. [])) pool_account native_sell_trade bazaar_state =
     (Inr False, s') \<and>
     reserved_balance (account_map_config 0 50) (currencies (chain s') 1) trader = 2"
proof -
  let ?cfg = "xyk_exchange market_config (\<lambda>_ _ _ _ _. [])"
  have liquid: "liquid_currency (ex_currency ?cfg) (\<lambda>s. balances_liquid_inv (account_map_config 0 50) (currencies s))"
    using liquid_market.lifted_liquid by simp
  have inv: "balances_liquid_inv (account_map_config 0 50) (currencies (chain bazaar_state))"
    by (simp add: bazaar_funds_unlocked)
  have "\<exists>s'. trade_or_revert ?cfg pool_account native_sell_trade bazaar_state = (Inr False, s') \<and>
      balances_liquid_inv (account_map_config 0 50) (currencies (chain s')) \<and>
      cur_free (ex_currency ?cfg) (chain s') = debit (cur_free (ex_currency ?cfg) (chain bazaar_state)) 1 trader 2 \<and>
      cur_reserved (ex_currency ?cfg) (chain s') =
        credit (cur_reserved (ex_currency ?cfg) (chain bazaar_state)) 1 trader 2"
    by (rule unpaid_fee_stays_reserved [OF liquid inv, where c = 0 and b = dealer and fa = 2])
      (simp_all add: native_sell_trade_def sell_order_def just_fee_default U128_MAX_def bazaar_free)
  then obtain s' where s': "trade_or_revert ?cfg pool_account native_sell_trade bazaar_state = (Inr False, s')"
    and r: "cur_reserved (ex_currency ?cfg) (chain s') =
        credit (cur_reserved (ex_currency ?cfg) (chain bazaar_state)) 1 trader 2" by blast
  from r [THEN fun_cong, THEN fun_cong, of 1 trader] s' show ?thesis
    by (simp add: credit_apply bazaar_reserved)
qed

text \<open>C26: a counterparty whose funds are free but locked passes the balance check and refuses the
  reservation, and the whole amount reserved from the first party stays reserved: at that point
  no transfer is listed yet, so the revert releases nothing.\<close>

theorem locked_counterparty_strands_funds:
  assumes "multi_currency (ex_currency cfg) cur_inv" and "cur_inv (chain s)" and "transfers dt = []"
    and "i_assets (intention_a dt) = \<lparr>asset_in = c, asset_out = d\<rparr>"
    and "i_who (intention_a dt) = a" and "i_who (intention_b dt) = b"
    and "amount_from_a dt \<le> cur_free (ex_currency cfg) (chain s) c a"
    and "amount_from_b dt \<le> cur_free (ex_currency cfg) (chain s) d b"
    and "cur_reserve (ex_currency cfg) c a (amount_from_a dt) (chain s) = (Inr (), t)"
    and "cur_reserve (ex_currency cfg) d b (amount_from_b dt) t = (Inl e, t')"
  shows "\<exists>s'. trade_or_revert cfg pool dt s = (Inr False, s') \<and>
    cur_free (ex_currency cfg) (chain s') = debit (cur_free (ex_currency cfg) (chain s)) c a (amount_from_a dt) \<and>
    cur_reserved (ex_currency cfg) (chain s') =
      credit (cur_reserved (ex_currency cfg) (chain s)) c a (amount_from_a dt)"
proof -
  have dir: "direct_trades cfg cur_inv" using assms(1) by (simp add: direct_trades_def)
  have 1: "reserve_if_can cfg c a (amount_from_a dt) s = (True, s\<lparr>chain := t\<rparr>)"
    using assms(9) by (simp add: reserve_if_can_def on_chain_def zoom_def)
  have 2: "reserve_if_can cfg d b (amount_from_b dt) (s\<lparr>chain := t\<rparr>) = (False, s\<lparr>chain := t'\<rparr>)"
    using assms(10) by (simp add: reserve_if_can_def on_chain_def zoom_def)
  have "trade_or_revert cfg pool dt s = (Inr False, s\<lparr>chain := t\<rparr>)"
    by (rule direct_trades.refused_principal [OF dir assms(2,3)]) (use assms(4-8) 1 2 in simp_all)
  with direct_trades.reserve_if_can_true [OF dir assms(2) 1] show ?thesis by simp
qed

text \<open>The dealer's funds of asset 2 are locked.\<close>

definition locked_funds :: "asset_id \<Rightarrow> (bytes, bytes \<Rightarrow> account_data option) balances_state" where
  "locked_funds =
     bazaar_funds(2 := balances_start [(trader, purse 1000000),
       (dealer, \<lparr>free = 1000000, reserved = 0, misc_frozen = 1000000, fee_frozen = 1000000\<rparr>)])"

lemma locked_funds_inv: "balances_currency_inv (account_map_config 0 50) locked_funds"
  unfolding locked_funds_def
  by (rule balances_currency_inv_upd [OF bazaar_funds_inv], rule balances_start_inv)
    (simp_all add: holding_def purse_def U128_MAX_def)

lemma locked_reserve:
  "reserve (account_map_config 0 50) dealer 2000 (locked_funds 2) =
     (Inl (Balances LiquidityRestrictions), locked_funds 2)"
  by (simp add: locked_funds_def reserve_def balances_start_def balances_eval)

lemma trader_reserve: "\<exists>t. reserve (account_map_config 0 50) trader 1000 (locked_funds 1) = (Inr (), t)"
  by (simp add: locked_funds_def bazaar_funds_def reserve_def balances_start_def purse_def balances_eval)

theorem locked_counterparty_strands_funds_witness:
  "\<exists>s'. trade_or_revert (xyk_exchange market_config (\<lambda>_ _ _ _ _. [])) pool_account sell_trade
       (bazaar_state\<lparr>chain := market_state\<lparr>currencies := locked_funds\<rparr>\<rparr>) = (Inr False, s') \<and>
     reserved_balance (account_map_config 0 50) (currencies (chain s') 1) trader = 1000"
proof -
  let ?cfg = "xyk_exchange market_config (\<lambda>_ _ _ _ _. [])" and ?chain = "market_state\<lparr>currencies := locked_funds\<rparr>"
  let ?s = "bazaar_state\<lparr>chain := ?chain\<rparr>"
  obtain t where t: "reserve (account_map_config 0 50) trader 1000 (locked_funds 1) = (Inr (), t)"
    using trader_reserve ..
  let ?t = "?chain\<lparr>currencies := locked_funds(1 := t)\<rparr>"
  have con: "multi_currency (ex_currency ?cfg) (\<lambda>s. balances_currency_inv (account_map_config 0 50) (currencies s))"
    using market.lifted_contract by simp
  have 1: "cur_reserve (ex_currency ?cfg) 1 trader 1000 ?chain = (Inr (), ?t)"
    using t by (simp add: on_currency_eq at_asset_eq)
  have 2: "cur_reserve (ex_currency ?cfg) 2 dealer 2000 ?t = (Inl (Balances LiquidityRestrictions), ?t)"
    using locked_reserve fun_upd_triv [of "locked_funds(1 := t)" 2] by (simp add: on_currency_eq at_asset_eq)
  have f: "free_balance (account_map_config 0 50) (locked_funds 1) trader = 1000000"
    "free_balance (account_map_config 0 50) (locked_funds 2) dealer = 1000000"
    "reserved_balance (account_map_config 0 50) (locked_funds 1) trader = 0"
    by (simp_all add: locked_funds_def bazaar_free bazaar_reserved free_balance_def balances_start_account)
      (simp_all add: bazaar_free [unfolded free_balance_def])
  have "\<exists>s'. trade_or_revert ?cfg pool_account sell_trade ?s = (Inr False, s') \<and>
      cur_free (ex_currency ?cfg) (chain s') = debit (cur_free (ex_currency ?cfg) (chain ?s)) 1 trader (amount_from_a sell_trade) \<and>
      cur_reserved (ex_currency ?cfg) (chain s') =
        credit (cur_reserved (ex_currency ?cfg) (chain ?s)) 1 trader (amount_from_a sell_trade)"
    by (rule locked_counterparty_strands_funds [OF con, where d = 2 and b = dealer and t = ?t and t' = ?t and
        e = "Balances LiquidityRestrictions"])
      (use 1 2 f locked_funds_inv in \<open>simp_all add: sell_trade_def sell_order_def\<close>)
  then obtain s' where s': "trade_or_revert ?cfg pool_account sell_trade ?s = (Inr False, s')"
    and r: "cur_reserved (ex_currency ?cfg) (chain s') =
        credit (cur_reserved (ex_currency ?cfg) (chain ?s)) 1 trader (amount_from_a sell_trade)" by blast
  from r [THEN fun_cong, THEN fun_cong, of 1 trader] s' f(3) show ?thesis
    by (simp add: credit_apply sell_trade_def)
qed

end
