(* ===== verification/Exchange_Overpay.thy ===== *)
theory Exchange_Overpay
  imports Exchange_Faults
begin

text \<open>
  What the loop over the matched intentions does once the main intention is exhausted: its
  remaining \<open>amount_in\<close> is set to zero but its \<open>amount_out\<close> stays, and the loop goes on.
\<close>

section \<open>A pool trade beside reserved funds\<close>

context xyk_liquid
begin

text \<open>A validated buy without discount runs on every state that has the funds, and moves them exactly.\<close>

lemma funded_buy:
  fixes t :: "'acc amm_transfer"
  defines "p \<equiv> get_pair_id cfg (t_assets t)" and "c \<equiv> asset_out (t_assets t)" and "d \<equiv> asset_in (t_assets t)"
  assumes cur: "cur_inv (currencies s)" and disc: "\<not> t_discount t" and who: "t_origin t \<noteq> p"
    and out: "t_amount t \<le> xyk_free cfg s c p" and inn: "t_amount_out t \<le> xyk_free cfg s d (t_origin t)"
    and cd: "c \<noteq> d"
  obtains u where "execute_buy cfg t s = (Inr (), u)" and "cur_inv (currencies u)"
    and "cur_free (xyk_currency cfg) (currencies u) =
      moved (moved (cur_free (xyk_currency cfg) (currencies s)) c p (t_origin t) (t_amount t)) d (t_origin t) p (t_amount_out t)"
    and "cur_reserved (xyk_currency cfg) (currencies u) = cur_reserved (xyk_currency cfg) (currencies s)"
proof -
  let ?C = "xyk_currency cfg" and ?w = "t_origin t"
  obtain t1 where 1: "cur_transfer ?C c p ?w (t_amount t) (currencies s) = (Inr (), t1)"
    using transfer_live [OF cur, of "t_amount t" c p ?w] out by (auto simp: xyk_free_def)
  note T1 = transfer_ok [OF cur 1]
  have "t_amount_out t \<le> cur_free ?C t1 d ?w" using T1 inn cd by (auto simp: xyk_free_def moved_apply)
  then obtain t2 where 2: "cur_transfer ?C d ?w p (t_amount_out t) t1 = (Inr (), t2)"
    using transfer_live [of t1 "t_amount_out t" d ?w p] T1 by auto
  have i1: "cur_inv t1" using T1 by blast
  note T2 = transfer_ok [OF i1 2]
  have run: "execute_buy cfg t s = (Inr (), xyk_deposit_event
      (BuyExecuted ?w c d (t_amount t) (t_amount_out t)) (s\<lparr>currencies := t2\<rparr>))"
    using 1 2 disc
    by (simp add: execute_buy_def transactional_def Let_def xyk_transfer_def on_currency_def zoom_def p_def c_def d_def)
  show ?thesis by (rule that [OF run]) (use T1 T2 in \<open>simp_all add: xyk_deposit_event_def\<close>)
qed

end

section \<open>An exhausted intention\<close>

text \<open>The direct trade the loop arranges for what is left of the main intention: nothing against all.\<close>

definition overpayment :: "'acc exchange_intention \<Rightarrow> 'acc exchange_intention \<Rightarrow> 'acc direct_trade_data" where
  "overpayment copy m =
     \<lparr>intention_a = copy, intention_b = m, amount_from_a = 0, amount_from_b = i_amount_out copy, transfers = []\<rparr>"

lemma exhausted_turn:
  assumes "i_amount_in copy = 0" and "0 < i_amount_out m" and "i_amount_out copy \<le> i_amount_in m"
    and "i_amount_in m \<le> U128_MAX" and "i_trade_limit m \<le> U128_MAX"
    and "i_sell_or_buy m = BUY" and "\<not> i_discount m"
    and "amm_validate_buy (ex_amm cfg) (i_who m) (i_assets m) (i_amount_out m) (i_trade_limit m) False (chain s) = Inr t"
    and "t_amount_out t + i_amount_out copy \<le> i_trade_limit m"
    and "prepare cfg pool (overpayment copy m) s = ((True, dt), s1)"
    and "amm_execute_buy (ex_amm cfg) t (chain s1) = (Inr (), u)"
    and "direct_execute cfg dt (exchange_deposit_event
      (IntentionResolvedAMMTrade (t_origin t) BUY (i_intention_id m) (t_amount t) (t_amount_out t)) (s1\<lparr>chain := u\<rparr>)) =
      (Inr ok, s2)"
  shows "resolve_loop cfg pool main copy [m] s = (Inr copy, s2)"
proof -
  have "wrapping_sub (i_amount_in m) (i_amount_in m - i_amount_out copy) = i_amount_out copy"
    "wrapping_sub (i_trade_limit m) (t_amount_out t) = i_trade_limit m - t_amount_out t"
    using assms(3-5,9) by (simp_all add: wrapping_sub_exact)
  moreover have "copy\<lparr>i_amount_in := 0\<rparr> = copy" using assms(1) by (cases copy) simp
  ultimately show ?thesis
    using assms
    by (simp add: resolve_smaller_def validate_intention_def misses_limit_def checked_sub_def saturating_sub_def
        execute_amm_transfer_def on_chain_def zoom_def overpayment_def Let_def)
qed

definition overpay_moves :: "'acc \<Rightarrow> 'acc \<Rightarrow> 'acc \<Rightarrow> asset_id \<Rightarrow> asset_id \<Rightarrow> balance \<Rightarrow> balance \<Rightarrow> 'acc transfer list" where
  "overpay_moves a b pool c d n f =
     [\<lparr>tr_from = a, tr_to = b, tr_asset = c, tr_amount = 0, tr_fee_transfer = False\<rparr>,
      \<lparr>tr_from = b, tr_to = a, tr_asset = d, tr_amount = n, tr_fee_transfer = False\<rparr>,
      \<lparr>tr_from = a, tr_to = pool, tr_asset = d, tr_amount = 0, tr_fee_transfer = True\<rparr>,
      \<lparr>tr_from = b, tr_to = pool, tr_asset = d, tr_amount = f, tr_fee_transfer = True\<rparr>]"

lemma overpay_flows:
  assumes "a \<noteq> b" and "a \<noteq> pool"
  shows "outgoing (overpay_moves a b pool c d n f) x y = (if x = d \<and> y = b then n + f else 0)"
    and "incoming (overpay_moves a b pool c d n f) x y =
      (if x = d \<and> y = a then n else if x = d \<and> y = pool then f else 0)"
  using assms by (auto simp: overpay_moves_def)

lemma overpayment_moves:
  assumes "i_assets copy = \<lparr>asset_in = c, asset_out = d\<rparr>" and "i_assets m = \<lparr>asset_in = d, asset_out = c\<rparr>"
    and "i_sell_or_buy copy = SELL" and "i_sell_or_buy m = BUY"
  shows "principal_transfers (overpayment copy m) @ fee_transfers pool (overpayment copy m) 0 f =
    overpay_moves (i_who copy) (i_who m) pool c d (i_amount_out copy) f"
  using assms
  by (simp add: overpayment_def overpay_moves_def principal_transfers_def fee_transfers_def trade_fees_def Let_def)

lemma overpayment_prepared:
  fixes cfg :: "('acc, 's) xyk_config"
  assumes liq: "liquid_trades (xyk_exchange cfg h) (\<lambda>s. cur_inv (currencies s))"
    and inv: "cur_inv (currencies (chain s))"
    and m: "i_assets copy = \<lparr>asset_in = c, asset_out = d\<rparr>" "i_assets m = \<lparr>asset_in = d, asset_out = c\<rparr>"
      "i_sell_or_buy copy = SELL" "i_sell_or_buy m = BUY" "i_who copy \<noteq> i_who m" "i_who copy \<noteq> pool"
    and fee: "just_fee (i_amount_out copy) fee_default = Some f"
    and funds: "i_amount_out copy + f \<le> xyk_free cfg (chain s) d (i_who m)"
  defines "moves \<equiv> overpay_moves (i_who copy) (i_who m) pool c d (i_amount_out copy) f"
  obtains u where "prepare (xyk_exchange cfg h) pool (overpayment copy m) s =
      ((True, (overpayment copy m)\<lparr>transfers := moves\<rparr>), u)"
    and "cur_inv (currencies (chain u))"
    and "\<And>x y. cur_free (xyk_currency cfg) (currencies (chain u)) x y =
      cur_free (xyk_currency cfg) (currencies (chain s)) x y - outgoing moves x y"
    and "\<And>x y. cur_reserved (xyk_currency cfg) (currencies (chain u)) x y =
      cur_reserved (xyk_currency cfg) (currencies (chain s)) x y + outgoing moves x y"
proof -
  let ?ex = "xyk_exchange cfg h" and ?dt = "overpayment copy m"
  have dir: "direct_trades ?ex (\<lambda>s. cur_inv (currencies s))"
    using liquid_trades.axioms(1) [OF liq] by (simp add: direct_trades_def liquid_currency_def)
  have moves: "principal_transfers ?dt @ fee_transfers pool ?dt 0 f = moves"
    unfolding moves_def by (rule overpayment_moves [OF m(1-4)])
  have fees: "transfers ?dt = []" "just_fee (amount_from_a ?dt) fee_default = Some 0"
    "just_fee (amount_from_b ?dt) fee_default = Some f"
    using fee just_fee_default [of 0] by (simp_all add: overpayment_def)
  have le: "\<forall>x y. outgoing (principal_transfers ?dt @ fee_transfers pool ?dt 0 f) x y \<le> cur_free (ex_currency ?ex) (chain s) x y"
    unfolding moves moves_def overpay_flows(1) [OF m(5,6)] using funds by (simp add: xyk_free_def)
  obtain u where prep: "prepare ?ex pool ?dt s = ((True, ?dt\<lparr>transfers := moves\<rparr>), u)"
    and aside: "direct_trades.set_aside ?ex (\<lambda>s. cur_inv (currencies s)) moves s u"
    by (rule liquid_trades.prepare_live [OF liq inv fees le, unfolded moves])
  from aside show ?thesis unfolding direct_trades.set_aside_def [OF dir] by (intro that [OF prep]) simp_all
qed

text \<open>C5: an exhausted intention is paid again. After an exact or a smaller match the loop sets what is
  left of the main intention's amount to zero but keeps the amount it asks for and goes on. A
  buyer matched next with enough slack in its limit buys its whole amount from the pool, at its
  full price, and then pays the main trader the amount asked for a second time, with a fee on
  top, and gets nothing for it: the main trader's balance of the other asset does not change.\<close>

theorem exhausted_intention_paid_again:
  fixes cfg :: "('acc, 's) xyk_config"
  assumes "liquid_currency (xyk_currency cfg) cur_inv" and "cur_inv (currencies (chain s))"
    and "i_assets copy = \<lparr>asset_in = c, asset_out = d\<rparr>" and "i_assets m = \<lparr>asset_in = d, asset_out = c\<rparr>" and "c \<noteq> d"
    and "i_sell_or_buy copy = SELL" and "i_sell_or_buy m = BUY" and "\<not> i_discount m"
    and "i_amount_in copy = 0" and "0 < i_amount_out m" and "i_amount_out copy \<le> i_amount_in m"
    and "i_amount_in m \<le> U128_MAX" and "i_trade_limit m \<le> U128_MAX"
    and "pool = get_pair_id cfg (i_assets m)"
    and "i_who copy \<noteq> i_who m" and "i_who copy \<noteq> pool" and "i_who m \<noteq> pool"
    and "validate_buy cfg (i_who m) (i_assets m) (i_amount_out m) (i_trade_limit m) False (chain s) = Inr t"
    and "t_amount_out t + i_amount_out copy \<le> i_trade_limit m"
    and "just_fee (i_amount_out copy) fee_default = Some f"
    and "t_amount_out t + i_amount_out copy + f \<le> xyk_free cfg (chain s) d (i_who m)"
    and "0 < xyk_free cfg (chain s) d (i_who copy)" and "0 < xyk_free cfg (chain s) d pool"
  shows "\<exists>s'. resolve_loop (xyk_exchange cfg h) pool main copy [m] s = (Inr copy, s') \<and>
    xyk_free cfg (chain s') c (i_who copy) = xyk_free cfg (chain s) c (i_who copy) \<and>
    xyk_free cfg (chain s') d (i_who copy) = xyk_free cfg (chain s) d (i_who copy) + i_amount_out copy \<and>
    xyk_free cfg (chain s') c (i_who m) = xyk_free cfg (chain s) c (i_who m) + i_amount_out m \<and>
    xyk_free cfg (chain s') d (i_who m) + (t_amount_out t + i_amount_out copy + f) = xyk_free cfg (chain s) d (i_who m)"
proof -
  let ?ex = "xyk_exchange cfg h" and ?a = "i_who copy" and ?b = "i_who m" and ?n = "i_amount_out copy"
  let ?dt = "overpayment copy m" and ?F = "cur_free (xyk_currency cfg)" and ?R = "cur_reserved (xyk_currency cfg)"
  let ?moves = "overpay_moves ?a ?b pool c d ?n f"
  note flows = overpay_flows [OF assms(15,16)]
  have xyk: "xyk_liquid cfg cur_inv" "xyk_pallet cfg cur_inv"
    using assms(1) by (simp_all add: xyk_liquid_def xyk_pallet_def liquid_currency_def)
  have liq: "liquid_trades ?ex (\<lambda>s. cur_inv (currencies s))"
    using liquid_currency.lifted_liquid [OF assms(1)] by (simp add: liquid_trades_def)
  have dir: "direct_trades ?ex (\<lambda>s. cur_inv (currencies s))"
    using liquid_trades.axioms(1) [OF liq] by (simp add: direct_trades_def liquid_currency_def)
  have funds: "?n + f \<le> xyk_free cfg (chain s) d ?b" using assms(21) by simp
  obtain u where prep: "prepare ?ex pool ?dt s = ((True, ?dt\<lparr>transfers := ?moves\<rparr>), u)"
    and U: "cur_inv (currencies (chain u))"
      "\<And>x y. ?F (currencies (chain u)) x y = ?F (currencies (chain s)) x y - outgoing ?moves x y"
      "\<And>x y. ?R (currencies (chain u)) x y = ?R (currencies (chain s)) x y + outgoing ?moves x y"
    by (rule overpayment_prepared [OF liq assms(2-4,6,7,15,16,20) funds]) (rule that)
  from assms(18) have t: "t_origin t = ?b" "t_assets t = i_assets m" "t_amount t = i_amount_out m" "\<not> t_discount t"
    "i_amount_out m < xyk_free cfg (chain s) c pool"
    by (rule xyk_pallet.validate_buy_Inr [OF xyk(2)], use assms(4,14) in simp)+
  have pool: "get_pair_id cfg (t_assets t) = pool" "asset_out (t_assets t) = c" "asset_in (t_assets t) = d"
    using t(2) assms(4,14) by simp_all
  have "t_amount t \<le> xyk_free cfg (chain u) c pool" "t_amount_out t \<le> xyk_free cfg (chain u) d ?b"
    using t assms(5,21) unfolding xyk_free_def U(2) flows by auto
  then obtain v where run: "execute_buy cfg t (chain u) = (Inr (), v)" and V: "cur_inv (currencies v)"
    "?F (currencies v) = moved (moved (?F (currencies (chain u))) c pool ?b (i_amount_out m)) d ?b pool (t_amount_out t)"
    "?R (currencies v) = ?R (currencies (chain u))"
    using xyk_liquid.funded_buy [OF xyk(1) U(1), of t] t(1,3,4) assms(5,17) unfolding pool by metis
  let ?dt' = "?dt\<lparr>transfers := ?moves\<rparr>"
  let ?w = "send_direct_trade_resolve_event ?dt' (exchange_deposit_event
    (IntentionResolvedAMMTrade (t_origin t) BUY (i_intention_id m) (t_amount t) (t_amount_out t)) (u\<lparr>chain := v\<rparr>))"
  have w: "chain ?w = v" and inv: "cur_inv (currencies (chain ?w))"
    using V(1) by (simp_all add: send_direct_trade_resolve_event_def)
  have reserved: "\<forall>x y. outgoing ?moves x y \<le> cur_reserved (ex_currency ?ex) (chain ?w) x y"
    unfolding w by (simp add: V(3) U(3))
  have alive: "\<forall>t\<in>set ?moves. outgoing ?moves (tr_asset t) (tr_to t) <
      cur_free (ex_currency ?ex) (chain ?w) (tr_asset t) (tr_to t) + cur_reserved (ex_currency ?ex) (chain ?w) (tr_asset t) (tr_to t)"
    unfolding w flows(1) using assms(5,10,15-17,22,23)
    by (simp add: overpay_moves_def V U(2,3) moved_apply xyk_free_def flows [unfolded overpay_moves_def] del: flow_simps)
  obtain s' where fin: "execute_transfers ?ex ?dt' ?moves ?w = (Inr True, s')"
    using liquid_trades.execute_transfers_live [OF liq inv reserved alive] by blast
  have "resolve_loop ?ex pool main copy [m] s = (Inr copy, s')"
    by (rule exhausted_turn [OF assms(9-13,7,8) _ assms(19) prep])
      (use assms(18) run fin in \<open>simp_all add: xyk_amm_def direct_execute_def\<close>)
  moreover have "?F (currencies (chain s')) x y = ?F (currencies v) x y + incoming ?moves x y" for x y
    using direct_trades.execute_transfers_exact [OF dir inv fin reserved] unfolding w by simp
  ultimately show ?thesis
    using assms(5,15-17,21) by (simp add: xyk_free_def V U(2) flows moved_apply)
qed

text \<open>The dealer wants 2000 of asset 2 for at most 5000 of asset 1; the trader's order is already filled.\<close>

definition late_buy :: "bytes exchange_intention" where
  "late_buy =
     \<lparr>i_who = dealer, i_assets = trade_pair, i_amount_in = 1000, i_amount_out = 2000, i_trade_limit = 5000,
      i_discount = False, i_sell_or_buy = BUY, i_intention_id = []\<rparr>"

definition filled_sell :: "bytes exchange_intention" where
  "filled_sell = (sell_order trader 2 1 2000 1000)\<lparr>i_amount_in := 0\<rparr>"

lemma bazaar_validate_buy:
  "validate_buy market_config dealer trade_pair 2000 5000 False (chain bazaar_state) =
     Inr \<lparr>t_origin = dealer, t_assets = trade_pair, t_amount = 2000, t_amount_out = 1004,
          t_discount = False, t_discount_amount = 0\<rparr>"
proof -
  have "get_pair_id market_config trade_pair = pool_account" by (simp add: pool_account_def)
  moreover have "asset_in trade_pair = 1" "asset_out trade_pair = 2" by (simp_all add: trade_pair_def)
  moreover have "calculate_fee market_config 1002 = Inr 2"
    by (simp add: calculate_fee_def just_fee_default U128_MAX_def)
  moreover have "calculate_in_given_out market_config 2000000 1000000 2000 = Some 1002"
    by (simp add: market_config_def)
  moreover have "xyk_exists market_config trade_pair (chain bazaar_state)"
    using market_exists by (simp add: bazaar_state_def xyk_exists_def)
  ultimately show ?thesis
    by (simp add: validate_buy_def Let_def xyk_free_def bazaar_free MAX_OUT_RATIO_def checked_add_def U128_MAX_def)
qed

theorem exhausted_intention_paid_again_witness:
  "\<exists>s'. resolve_loop (xyk_exchange market_config (\<lambda>_ _ _ _ _. [])) pool_account
       (sell_order trader 2 1 2000 1000) filled_sell [late_buy] bazaar_state = (Inr filled_sell, s') \<and>
     xyk_free market_config (chain s') 1 trader = 1001000 \<and> xyk_free market_config (chain s') 2 trader = 1000000 \<and>
     xyk_free market_config (chain s') 1 dealer = 997994"
proof -
  let ?t = "\<lparr>t_origin = dealer, t_assets = trade_pair, t_amount = 2000, t_amount_out = 1004,
      t_discount = False, t_discount_amount = 0\<rparr>"
  have free: "xyk_free market_config (chain bazaar_state) 1 a = (if a \<in> {trader, dealer, pool_account} then 1000000 else 0)"
    "xyk_free market_config (chain bazaar_state) 2 trader = 1000000" for a
    by (simp_all add: xyk_free_def bazaar_free)
  have liquid: "liquid_currency (xyk_currency market_config) (balances_liquid_inv (account_map_config 0 50))"
    by (simp add: zero_map.liquid_contract)
  have inv: "balances_liquid_inv (account_map_config 0 50) (currencies (chain bazaar_state))"
    by (simp add: bazaar_funds_unlocked)
  have fee: "just_fee (i_amount_out filled_sell) fee_default = Some 2"
    by (simp add: filled_sell_def sell_order_def just_fee_default U128_MAX_def)
  have pool: "pool_account = get_pair_id market_config (i_assets late_buy)"
    by (simp add: late_buy_def pool_account_def)
  have valid: "validate_buy market_config (i_who late_buy) (i_assets late_buy) (i_amount_out late_buy)
      (i_trade_limit late_buy) False (chain bazaar_state) = Inr ?t"
    using bazaar_validate_buy by (simp add: late_buy_def)
  note paid = exhausted_intention_paid_again [OF liquid, OF inv, where copy = filled_sell and m = late_buy and c = 2 and d = 1
      and main = "sell_order trader 2 1 2000 1000" and h = "\<lambda>_ _ _ _ _. []", OF _ _ _ _ _ _ _ _ _ _ _ pool _ _ _ valid _ fee]
  show ?thesis
    using paid by (simp add: late_buy_def filled_sell_def sell_order_def trade_pair_def U128_MAX_def free)
      (elim exE conjE, intro exI conjI, assumption, simp_all)
qed

end
