(* ===== verification/Exchange_Limits.thy ===== *)
theory Exchange_Limits
  imports Exchange_Props
begin

text \<open>
  What the limit of an intention is worth: kept by a trade with the market maker, but not net of
  the fee by a direct trade.
\<close>

section \<open>Trades with the market maker\<close>








section \<open>Direct trades\<close>

abbreviation exact_trade :: "'acc exchange_intention \<Rightarrow> 'acc exchange_intention \<Rightarrow> 'acc direct_trade_data" where
  "exact_trade copy m \<equiv> \<lparr>intention_a = copy, intention_b = m, amount_from_a = i_amount_in copy,
     amount_from_b = i_amount_in m, transfers = []\<rparr>"

lemma exact_match_runs:
  fixes pool
  assumes "liquid_currency (ex_currency cfg) cur_inv" and "cur_inv (chain s)"
    and "\<not> misses_limit (i_sell_or_buy copy) (i_amount_in m) (i_trade_limit copy)"
    and "\<not> misses_limit (i_sell_or_buy m) (i_amount_in copy) (i_trade_limit m)"
    and "just_fee (i_amount_in copy) fee_default = Some fa" and "just_fee (i_amount_in m) fee_default = Some fb"
  defines "moves \<equiv> principal_transfers (exact_trade copy m) @ fee_transfers pool (exact_trade copy m) fa fb"
  assumes "\<forall>x y. outgoing moves x y \<le> cur_free (ex_currency cfg) (chain s) x y"
    and "\<forall>t\<in>set moves. outgoing moves (tr_asset t) (tr_to t) <
      cur_free (ex_currency cfg) (chain s) (tr_asset t) (tr_to t) + cur_reserved (ex_currency cfg) (chain s) (tr_asset t) (tr_to t)"
  obtains s' where "resolve_equal cfg pool copy copy m s = (Inr (copy\<lparr>i_amount_in := 0\<rparr>), s')"
    and "\<And>x y. cur_free (ex_currency cfg) (chain s') x y =
      cur_free (ex_currency cfg) (chain s) x y - outgoing moves x y + incoming moves x y"
proof -
  have liq: "liquid_trades cfg cur_inv" using assms(1) by (simp add: liquid_trades_def)
  obtain s' where run: "trade_or_revert cfg pool (exact_trade copy m) s = (Inr True, s')"
    and free: "\<And>x y. cur_free (ex_currency cfg) (chain s') x y =
      cur_free (ex_currency cfg) (chain s) x y - outgoing moves x y + incoming moves x y"
    by (rule liquid_trades.direct_trade_live [OF liq assms(2) _ _ _ assms(8,9) [unfolded moves_def], folded moves_def])
      (use assms(5,6) in simp_all)
  have "resolve_equal cfg pool copy copy m s = (Inr (copy\<lparr>i_amount_in := 0\<rparr>), s')"
    using run assms(3,4) by (simp add: resolve_equal_def Let_def)
  then show ?thesis using free by (rule that)
qed

text \<open>The four transfers, where the fees of the first and the second party are taken in assets \<open>x\<close> and \<open>y\<close>.\<close>

lemma exact_match_transfers:
  assumes "i_assets copy = \<lparr>asset_in = c, asset_out = d\<rparr>"
    and "trade_fees (exact_trade copy m) fa fb = ((x, f), (y, g))"
  shows "principal_transfers (exact_trade copy m) @ fee_transfers pool (exact_trade copy m) fa fb =
    [\<lparr>tr_from = i_who copy, tr_to = i_who m, tr_asset = c, tr_amount = i_amount_in copy, tr_fee_transfer = False\<rparr>,
     \<lparr>tr_from = i_who m, tr_to = i_who copy, tr_asset = d, tr_amount = i_amount_in m, tr_fee_transfer = False\<rparr>,
     \<lparr>tr_from = i_who copy, tr_to = pool, tr_asset = x, tr_amount = f, tr_fee_transfer = True\<rparr>,
     \<lparr>tr_from = i_who m, tr_to = pool, tr_asset = y, tr_amount = g, tr_fee_transfer = True\<rparr>]"
  using assms by (simp add: principal_transfers_def fee_transfers_def Let_def)

text \<open>Two sellers who match exactly trade exactly their amounts and each pays the fee on what it
  receives. The limits are compared with the amounts before the fee: a seller whose limit is the
  amount it gets from the other is served, and ends up with less than its limit.\<close>

theorem exact_match_nets_fee:
  assumes "liquid_currency (ex_currency cfg) cur_inv" and "cur_inv (chain s)"
    and "i_assets copy = \<lparr>asset_in = c, asset_out = d\<rparr>" and "i_assets m = \<lparr>asset_in = d, asset_out = c\<rparr>" and "c \<noteq> d"
    and "i_sell_or_buy copy = SELL" and "i_sell_or_buy m = SELL"
    and "i_trade_limit copy \<le> i_amount_in m" and "i_trade_limit m \<le> i_amount_in copy"
    and "i_who copy \<noteq> i_who m" and "i_who copy \<noteq> pool" and "i_who m \<noteq> pool"
    and "just_fee (i_amount_in copy) fee_default = Some fa" and "just_fee (i_amount_in m) fee_default = Some fb"
    and "i_amount_in copy \<le> cur_free (ex_currency cfg) (chain s) c (i_who copy)"
    and "i_amount_in m \<le> cur_free (ex_currency cfg) (chain s) d (i_who m)"
    and "fb < cur_free (ex_currency cfg) (chain s) d (i_who copy)" and "fa < cur_free (ex_currency cfg) (chain s) c (i_who m)"
    and "0 < cur_free (ex_currency cfg) (chain s) c pool" and "0 < cur_free (ex_currency cfg) (chain s) d pool"
  shows "\<exists>s'. resolve_equal cfg pool copy copy m s = (Inr (copy\<lparr>i_amount_in := 0\<rparr>), s') \<and>
    cur_free (ex_currency cfg) (chain s') c (i_who copy) + i_amount_in copy = cur_free (ex_currency cfg) (chain s) c (i_who copy) \<and>
    cur_free (ex_currency cfg) (chain s') d (i_who copy) + fb = cur_free (ex_currency cfg) (chain s) d (i_who copy) + i_amount_in m \<and>
    cur_free (ex_currency cfg) (chain s') d (i_who m) + i_amount_in m = cur_free (ex_currency cfg) (chain s) d (i_who m) \<and>
    cur_free (ex_currency cfg) (chain s') c (i_who m) + fa = cur_free (ex_currency cfg) (chain s) c (i_who m) + i_amount_in copy \<and>
    (i_amount_in m < i_trade_limit copy + fb \<longrightarrow>
      cur_free (ex_currency cfg) (chain s') d (i_who copy) < cur_free (ex_currency cfg) (chain s) d (i_who copy) + i_trade_limit copy)"
proof -
  have "trade_fees (exact_trade copy m) fa fb = ((d, fb), (c, fa))"
    using assms(3,4,6,7) by (simp add: trade_fees_def Let_def)
  note moves = exact_match_transfers [OF assms(3) this, of pool]
  have limits: "\<not> misses_limit (i_sell_or_buy copy) (i_amount_in m) (i_trade_limit copy)"
    "\<not> misses_limit (i_sell_or_buy m) (i_amount_in copy) (i_trade_limit m)"
    using assms(6-9) by (simp_all add: misses_limit_def)
  note runs = exact_match_runs [where pool = pool, OF assms(1,2) limits assms(13,14), unfolded moves]
  show ?thesis
  proof (rule runs, goal_cases)
    case (3 s')
    then show ?case using assms(5,10-12,15-20) by simp linarith
  qed (use assms(5,10-12,15-20) in auto)
qed

text \<open>The trader sells 1000 of asset 1 for at least 2000 of asset 2, and gets 1996.\<close>

definition strict_sell :: "bytes exchange_intention" where
  "strict_sell = (sell_order trader 1 2 1000 2000)\<lparr>i_trade_limit := 2000\<rparr>"

theorem exact_match_nets_fee_witness:
  "\<exists>s'. resolve_equal (xyk_exchange market_config (\<lambda>_ _ _ _ _. [])) pool_account strict_sell strict_sell
       (sell_order dealer 2 1 2000 1000) bazaar_state = (Inr (strict_sell\<lparr>i_amount_in := 0\<rparr>), s') \<and>
     free_balance (account_map_config 0 50) (currencies (chain s') 2) trader + 4 = 1000000 + i_trade_limit strict_sell"
proof -
  let ?cfg = "xyk_exchange market_config (\<lambda>_ _ _ _ _. [])" and ?m = "sell_order dealer 2 1 2000 1000"
  have liquid: "liquid_currency (ex_currency ?cfg) (\<lambda>s. balances_liquid_inv (account_map_config 0 50) (currencies s))"
    using liquid_market.lifted_liquid by simp
  have inv: "balances_liquid_inv (account_map_config 0 50) (currencies (chain bazaar_state))"
    by (simp add: bazaar_funds_unlocked)
  have fees: "just_fee (i_amount_in strict_sell) fee_default = Some 2" "just_fee (i_amount_in ?m) fee_default = Some 4"
    by (simp_all add: strict_sell_def sell_order_def just_fee_default U128_MAX_def)
  note net = exact_match_nets_fee [OF liquid, OF inv, where copy = strict_sell and m = ?m and c = 1 and d = 2
      and pool = pool_account, OF _ _ _ _ _ _ _ _ _ _ fees]
  show ?thesis
    using net by (simp add: strict_sell_def sell_order_def bazaar_free) (elim exE conjE, intro exI conjI, assumption, simp)
qed

text \<open>C22: a matched buyer can be made to pay more than its limit. In an exact match with a seller the
  limit of the buyer, the most it will sell of the one asset, is compared with what it receives
  of the other; when the asset it gives is worth less, the trade goes through and takes more
  than the limit from it. The seller's fee is computed from what it gives and charged in what
  it receives, in units of the wrong asset.\<close>

theorem matched_buy_exceeds_limit:
  assumes "liquid_currency (ex_currency cfg) cur_inv" and "cur_inv (chain s)"
    and "i_assets copy = \<lparr>asset_in = c, asset_out = d\<rparr>" and "i_assets m = \<lparr>asset_in = d, asset_out = c\<rparr>" and "c \<noteq> d"
    and "i_sell_or_buy copy = SELL" and "i_sell_or_buy m = BUY"
    and "i_trade_limit copy \<le> i_amount_in m" and "i_amount_in copy \<le> i_trade_limit m"
    and "i_who copy \<noteq> i_who m" and "i_who copy \<noteq> pool" and "i_who m \<noteq> pool"
    and "just_fee (i_amount_in copy) fee_default = Some fa" and "just_fee (i_amount_in m) fee_default = Some fb"
    and "i_amount_in copy \<le> cur_free (ex_currency cfg) (chain s) c (i_who copy)"
    and "i_amount_in m + fb \<le> cur_free (ex_currency cfg) (chain s) d (i_who m)"
    and "fa < cur_free (ex_currency cfg) (chain s) d (i_who copy)" and "0 < cur_free (ex_currency cfg) (chain s) c (i_who m)"
    and "0 < cur_free (ex_currency cfg) (chain s) d pool" and "i_trade_limit m < i_amount_in m"
  shows "\<exists>s'. resolve_equal cfg pool copy copy m s = (Inr (copy\<lparr>i_amount_in := 0\<rparr>), s') \<and>
    cur_free (ex_currency cfg) (chain s') d (i_who m) + (i_amount_in m + fb) = cur_free (ex_currency cfg) (chain s) d (i_who m) \<and>
    cur_free (ex_currency cfg) (chain s') d (i_who m) + i_trade_limit m < cur_free (ex_currency cfg) (chain s) d (i_who m) \<and>
    cur_free (ex_currency cfg) (chain s') c (i_who m) = cur_free (ex_currency cfg) (chain s) c (i_who m) + i_amount_in copy \<and>
    cur_free (ex_currency cfg) (chain s') d (i_who copy) + fa = cur_free (ex_currency cfg) (chain s) d (i_who copy) + i_amount_in m"
proof -
  have "trade_fees (exact_trade copy m) fa fb = ((d, fa), (d, fb))"
    using assms(3,4,6,7) by (simp add: trade_fees_def Let_def)
  note moves = exact_match_transfers [OF assms(3) this, of pool]
  have limits: "\<not> misses_limit (i_sell_or_buy copy) (i_amount_in m) (i_trade_limit copy)"
    "\<not> misses_limit (i_sell_or_buy m) (i_amount_in copy) (i_trade_limit m)"
    using assms(6-9) by (simp_all add: misses_limit_def)
  note runs = exact_match_runs [where pool = pool, OF assms(1,2) limits assms(13,14), unfolded moves]
  show ?thesis
  proof (rule runs, goal_cases)
    case (3 s')
    then show ?case using assms(5,10-12,15-20) by simp
  qed (use assms(5,10-12,15-20) in auto)
qed

text \<open>The dealer buys 1000 of asset 1 for at most 1500 of asset 2, and pays 2004.\<close>

definition capped_buy :: "bytes exchange_intention" where
  "capped_buy = (sell_order dealer 2 1 2000 1000)\<lparr>i_trade_limit := 1500, i_sell_or_buy := BUY\<rparr>"

theorem matched_buy_exceeds_limit_witness:
  "\<exists>s'. resolve_equal (xyk_exchange market_config (\<lambda>_ _ _ _ _. [])) pool_account (sell_order trader 1 2 1000 2000)
       (sell_order trader 1 2 1000 2000) capped_buy bazaar_state = (Inr ((sell_order trader 1 2 1000 2000)\<lparr>i_amount_in := 0\<rparr>), s') \<and>
     free_balance (account_map_config 0 50) (currencies (chain s') 2) dealer = 1000000 - 2004 \<and> i_trade_limit capped_buy = 1500"
proof -
  let ?cfg = "xyk_exchange market_config (\<lambda>_ _ _ _ _. [])" and ?i = "sell_order trader 1 2 1000 2000"
  have liquid: "liquid_currency (ex_currency ?cfg) (\<lambda>s. balances_liquid_inv (account_map_config 0 50) (currencies s))"
    using liquid_market.lifted_liquid by simp
  have inv: "balances_liquid_inv (account_map_config 0 50) (currencies (chain bazaar_state))"
    by (simp add: bazaar_funds_unlocked)
  have fees: "just_fee (i_amount_in ?i) fee_default = Some 2" "just_fee (i_amount_in capped_buy) fee_default = Some 4"
    by (simp_all add: capped_buy_def sell_order_def just_fee_default U128_MAX_def)
  note over = matched_buy_exceeds_limit [OF liquid, OF inv, where copy = ?i and m = capped_buy and c = 1 and d = 2
      and pool = pool_account, OF _ _ _ _ _ _ _ _ _ _ fees]
  show ?thesis
    using over by (simp add: capped_buy_def sell_order_def bazaar_free) (elim exE conjE, intro exI conjI, assumption, simp)
qed

end
