(* ===== verification/Exchange_Queues.thy ===== *)
theory Exchange_Queues
  imports Exchange_Props
begin

text \<open>
  The queues of the exchange pallet over the life of the chain, as a step relation: intentions are
  registered, other pallets change the rest of the state, and blocks are finalised. The counter
  of a pair counts the intentions of both its queues, and every intention waits in the queue of
  its own assets, so that finalisation leaves out no intention; and it ends when the assets it
  moves can be paid to any account.
\<close>

section \<open>Steps of the pallet\<close>

text \<open>\<open>step_other\<close> stands for everything other pallets do to the state they share, and for a new block.\<close>

inductive exchange_step ::
  "('o, 'src, 'acc) frame_ops \<Rightarrow> ('acc, 's) exchange_config \<Rightarrow>
   ('acc, 's) exchange_state \<Rightarrow> ('acc, 's) exchange_state \<Rightarrow> bool"
  for F cfg where
  step_sell: "exchange_sell F cfg orig a b n lim disc s = (r, s') \<Longrightarrow> exchange_step F cfg s s'"
| step_buy: "exchange_buy F cfg orig a b n lim disc s = (r, s') \<Longrightarrow> exchange_step F cfg s s'"
| step_finalize: "set ks = dom (intention_count s) \<Longrightarrow> on_finalize cfg ks s = (Inr (), s') \<Longrightarrow> exchange_step F cfg s s'"
| step_other: "exchange_step F cfg s (s\<lparr>chain := t, current_block := bn\<rparr>)"

definition exchange_reaches ::
  "('o, 'src, 'acc) frame_ops \<Rightarrow> ('acc, 's) exchange_config \<Rightarrow>
   ('acc, 's) exchange_state \<Rightarrow> ('acc, 's) exchange_state \<Rightarrow> bool" where
  "exchange_reaches F cfg = (exchange_step F cfg)\<^sup>*\<^sup>*"

text \<open>The invariant: intentions wait in the queue of their assets, and the counter of an ordered pair
  counts, modulo the width of the counter, the intentions of both directions. Only ordered pairs
  have a counter.\<close>

definition queue_lengths :: "('acc, 's) exchange_state \<Rightarrow> asset_id \<times> asset_id \<Rightarrow> nat" where
  "queue_lengths s k =
     (if fst k < snd k then length (get_intentions s k) + length (get_intentions s (snd k, fst k))
      else if fst k = snd k then length (get_intentions s k) else 0)"

definition queues_ok :: "('acc, 's) exchange_state \<Rightarrow> bool" where
  "queues_ok s \<longleftrightarrow>
     (\<forall>k. \<forall>i \<in> set (get_intentions s k). (asset_in (i_assets i), asset_out (i_assets i)) = k) \<and>
     (\<forall>k. get_intentions_count s k = of_nat (queue_lengths s k)) \<and>
     (\<forall>k \<in> dom (intention_count s). fst k \<le> snd k)"

lemma queue_lengths_registered:
  assumes "registered_one cfg who as n_in n_out lim disc kind s s'"
  shows "queue_lengths s' k = queue_lengths s k + (if k = ordered_pair as then 1 else 0)"
  using assms by (cases k) (auto simp: registered_one_def queue_lengths_def ordered_pair_def not_le)

lemma queues_ok_registered:
  assumes "queues_ok s" and "registered_one cfg who as n_in n_out lim disc kind s s'"
  shows "queues_ok s'"
proof -
  have "get_intentions_count s' = (get_intentions_count s)(ordered_pair as := get_intentions_count s (ordered_pair as) + 1)"
    using assms(2) by (auto simp: registered_one_def get_intentions_count_def)
  then show ?thesis
    using assms(1) queue_lengths_registered [OF assms(2)] assms(2) ordered_pair_sorted [of as]
    by (cases "ordered_pair as") (auto simp: queues_ok_def registered_one_def)
qed

lemma queues_ok_empty: "intentions s = Map.empty \<Longrightarrow> intention_count s = Map.empty \<Longrightarrow> queues_ok s"
  by (simp add: queues_ok_def queue_lengths_def get_intentions_def get_intentions_count_def)

text \<open>A call registers one intention or changes nothing.\<close>

lemma sell_registers:
  assumes "exchange_sell F cfg orig a b n lim disc s = (r, s')"
  shows "s' = s \<or> (\<exists>who as n_in n_out kind. registered_one cfg who as n_in n_out lim disc kind s s')"
proof (cases "ensure_signed F orig")
  case (Inr who)
  obtain s1 where R: "register_intention cfg who SELL \<lparr>asset_in = a, asset_out = b\<rparr> n
      (amm_get_spot_price_unchecked (ex_amm cfg) a b n (chain s)) lim disc s = (Inr (), s1)"
    "registered_one cfg who \<lparr>asset_in = a, asset_out = b\<rparr> n
      (amm_get_spot_price_unchecked (ex_amm cfg) a b n (chain s)) lim disc SELL s s1"
    by (rule register_intention_one)
  from assms Inr R(1) have "s' = s \<or> s' = s1" by (simp add: exchange_sell_def Let_def split: if_splits)
  with R(2) show ?thesis by blast
qed (use assms in \<open>simp add: exchange_sell_def\<close>)

lemma buy_registers:
  assumes "exchange_buy F cfg orig a b n lim disc s = (r, s')"
  shows "s' = s \<or> (\<exists>who as n_in n_out kind. registered_one cfg who as n_in n_out lim disc kind s s')"
proof (cases "ensure_signed F orig")
  case (Inr who)
  obtain s1 where R: "register_intention cfg who BUY \<lparr>asset_in = b, asset_out = a\<rparr>
      (amm_get_spot_price_unchecked (ex_amm cfg) a b n (chain s)) n lim disc s = (Inr (), s1)"
    "registered_one cfg who \<lparr>asset_in = b, asset_out = a\<rparr>
      (amm_get_spot_price_unchecked (ex_amm cfg) a b n (chain s)) n lim disc BUY s s1"
    by (rule register_intention_one)
  from assms Inr R(1) have "s' = s \<or> s' = s1" by (simp add: exchange_buy_def Let_def split: if_splits)
  with R(2) show ?thesis by blast
qed (use assms in \<open>simp add: exchange_buy_def\<close>)

lemma exchange_step_queues:
  assumes "exchange_step F cfg s s'" and "queues_ok s"
  shows "queues_ok s'"
  using assms
proof (cases rule: exchange_step.cases)
  case (step_sell orig a b n lim disc r)
  from sell_registers [OF step_sell] assms(2) show ?thesis by (auto intro: queues_ok_registered)
next
  case (step_buy orig a b n lim disc r)
  from buy_registers [OF step_buy] assms(2) show ?thesis by (auto intro: queues_ok_registered)
next
  case (step_finalize ks)
  then show ?thesis by (auto simp: on_finalize_def and_then_eq_Inr intro!: queues_ok_empty)
next
  case (step_other t bn)
  with assms(2) show ?thesis
    by (simp add: queues_ok_def queue_lengths_def get_intentions_def get_intentions_count_def)
qed

lemma reachable_queues:
  "exchange_reaches F cfg s s' \<Longrightarrow> queues_ok s \<Longrightarrow> queues_ok s'"
  unfolding exchange_reaches_def by (induction rule: rtranclp_induct) (auto intro: exchange_step_queues)

section \<open>No panic where receivers cannot be refused\<close>

definition trades_in :: "asset_id set \<Rightarrow> 'acc exchange_intention \<Rightarrow> bool" where
  "trades_in A i \<longleftrightarrow> asset_in (i_assets i) \<in> A \<and> asset_out (i_assets i) \<in> A"

lemma trades_in_upd [simp]:
  "trades_in A (i\<lparr>i_amount_in := n\<rparr>) = trades_in A i" "trades_in A (i\<lparr>i_amount_out := n\<rparr>) = trades_in A i"
  "trades_in A (i\<lparr>i_trade_limit := n\<rparr>) = trades_in A i"
  by (simp_all add: trades_in_def)

text \<open>The assets of \<open>A\<close> can be paid out of a reserve to every account, as the framework's tokens can:
  their accounts come into being by receiving.\<close>

locale paying_exchange =
  fixes cfg :: "('acc, 's) exchange_config" and A :: "asset_id set"
  assumes pays: "c \<in> A \<Longrightarrow> is_ok (fst (cur_repatriate (ex_currency cfg) c a b n Status_Free s))"
begin

lemma execute_transfers_ends:
  "\<forall>t \<in> set ts. tr_asset t \<in> A \<Longrightarrow> \<exists>s'. execute_transfers cfg dt ts s = (Inr True, s')"
proof (induction ts arbitrary: s)
  case (Cons t ts)
  obtain x u where u: "cur_repatriate (ex_currency cfg) (tr_asset t) (tr_from t) (tr_to t) (tr_amount t)
      Status_Free (chain s) = (x, u)" by fastforce
  with pays [of "tr_asset t" "tr_from t" "tr_to t" "tr_amount t" "chain s"] Cons.prems
  obtain k where x: "x = Inr k" by (cases x) auto
  from u have "on_chain (cur_repatriate (ex_currency cfg) (tr_asset t) (tr_from t) (tr_to t) (tr_amount t)
      Status_Free) s = (x, s\<lparr>chain := u\<rparr>)" by (simp add: on_chain_eq)
  with x Cons show ?case by (simp add: Let_def)
qed simp

lemma prepared_transfers:
  assumes "prepare cfg p dt s = ((True, dt'), s')" and "transfers dt = []"
    and "trades_in A (intention_a dt)" and "trades_in A (intention_b dt)"
  shows "\<forall>t \<in> set (transfers dt'). tr_asset t \<in> A"
  using assms
  by (auto simp: prepare_def Let_def trades_in_def trade_fees_def
      split: if_splits prod.splits option.splits intention_type.splits)

lemma execute_prepared:
  assumes "prepare cfg p dt s = ((True, dt'), s')" and "transfers dt = []"
    and "trades_in A (intention_a dt)" and "trades_in A (intention_b dt)"
  shows "\<exists>v. direct_execute cfg dt' u = (Inr True, v)"
  unfolding direct_execute_def by (rule execute_transfers_ends [OF prepared_transfers [OF assms]])

lemma trade_or_revert_ends:
  assumes "transfers dt = []" and "trades_in A (intention_a dt)" and "trades_in A (intention_b dt)"
  shows "\<exists>ok s'. trade_or_revert cfg p dt s = (Inr ok, s')"
proof -
  obtain ok dt' u where u: "prepare cfg p dt s = ((ok, dt'), u)" by (metis surj_pair)
  show ?thesis
  proof (cases ok)
    case True
    with u execute_prepared [OF _ assms, of p s dt' u u] show ?thesis by (auto simp: trade_or_revert_def)
  qed (use u in \<open>auto simp: trade_or_revert_def\<close>)
qed

lemma resolve_larger_ends:
  assumes "trades_in A copy" and "trades_in A m"
  shows "\<exists>copy' s'. resolve_larger cfg p copy m s = (Inr copy', s') \<and> trades_in A copy'"
  using assms trade_or_revert_ends [of "\<lparr>intention_a = copy, intention_b = m, amount_from_a = i_amount_out m,
      amount_from_b = i_amount_in m, transfers = []\<rparr>" p s]
  by (auto simp: resolve_larger_def Let_def)

lemma resolve_equal_ends:
  assumes "trades_in A copy" and "trades_in A m"
  shows "\<exists>copy' s'. resolve_equal cfg p main copy m s = (Inr copy', s') \<and> trades_in A copy'"
  using assms trade_or_revert_ends [of "\<lparr>intention_a = copy, intention_b = m, amount_from_a = i_amount_in copy,
      amount_from_b = i_amount_in m, transfers = []\<rparr>" p s]
  by (auto simp: resolve_equal_def Let_def)

lemma resolve_smaller_ends:
  assumes "trades_in A copy" and "trades_in A m"
  shows "\<exists>copy' s'. resolve_smaller cfg p copy m s = (Inr copy', s') \<and> trades_in A copy'"
proof -
  have ends: "\<exists>v. direct_execute cfg dt' u = (Inr True, v)"
    if "prepare cfg p \<lparr>intention_a = copy, intention_b = m, amount_from_a = x, amount_from_b = y, transfers = []\<rparr> s =
      ((True, dt'), s')" for x y dt' s' u
    by (rule execute_prepared [OF that]) (use assms in simp_all)
  show ?thesis
    unfolding resolve_smaller_def Let_def
    using assms(1) ends
    by (auto split: option.splits sum.splits prod.splits bool.splits) (metis and_then_simps(2) trades_in_upd(1))+
qed

lemma resolve_loop_ends:
  "trades_in A copy \<Longrightarrow> list_all (trades_in A) ms \<Longrightarrow>
   \<exists>copy' s'. resolve_loop cfg p main copy ms s = (Inr copy', s')"
proof (induction ms arbitrary: copy s)
  case (Cons m ms)
  let ?step = "if i_amount_out m < i_amount_in copy then resolve_larger cfg p copy m s
        else if i_amount_in copy < i_amount_out m then resolve_smaller cfg p copy m s
        else resolve_equal cfg p main copy m s"
  have "\<exists>copy' u. ?step = (Inr copy', u) \<and> trades_in A copy'"
    using Cons.prems resolve_larger_ends [of copy m p s] resolve_smaller_ends [of copy m p s]
      resolve_equal_ends [of copy m p main s] by simp
  then obtain copy' u where "?step = (Inr copy', u)" "trades_in A copy'" by blast
  with Cons show ?case by auto
qed simp

lemma resolve_matched_ends:
  "trades_in A i \<Longrightarrow> list_all (trades_in A) ms \<Longrightarrow> \<exists>s'. resolve_matched_intentions cfg p i ms s = (Inr (), s')"
  using resolve_loop_ends [of i ms p i s] by (auto simp: resolve_matched_intentions_def)

lemma process_main_ends:
  "list_all (trades_in A) as \<Longrightarrow> list_all (trades_in A) bs \<Longrightarrow> \<exists>rest s'. process_main cfg p as bs s = (Inr rest, s')"
proof (induction as arbitrary: bs s)
  case (Cons i as)
  obtain ok u where u: "verify_intention cfg i s = (ok, u)" by fastforce
  obtain bvec rest where m: "take_matching bs (i_amount_in i) 0 [] = (bvec, rest)" by fastforce
  have "bs = rest @ rev bvec" by (rule take_matching_partition [OF m])
  with Cons.prems have parts: "list_all (trades_in A) bvec" "list_all (trades_in A) rest"
    by (simp_all add: list_all_append)
  obtain v where v: "resolve_matched_intentions cfg p i bvec u = (Inr (), v)"
    using resolve_matched_ends [of i bvec p u] Cons.prems parts by auto
  from Cons.IH [of bs u] Cons.IH [of rest v] Cons.prems parts u m v show ?case by (cases ok) simp_all
qed simp

lemma process_intentions_ends:
  assumes "list_all (trades_in A) as" and "list_all (trades_in A) bs"
  shows "\<exists>s'. process_exchange_intentions cfg p as bs s = (Inr (), s')"
proof -
  have "list_all (trades_in A) (sort_descending as)" "list_all (trades_in A) (rev (sort_descending bs))"
    using assms by (simp_all add: list_all_iff sort_descending_def)
  from process_main_ends [OF this, of p s] show ?thesis
    by (auto simp: process_exchange_intentions_def Let_def)
qed

end

section \<open>Finalisation leaves out no intention\<close>

text \<open>The specification finalisation is measured against, without the counter: the two queues of every
  listed pair are processed.\<close>

fun process_all ::
  "('acc, 's) exchange_config \<Rightarrow> (asset_id \<times> asset_id) list \<Rightarrow>
   ('acc, 's) exchange_state \<Rightarrow> ('acc, 's, unit) exchange_result" where
  "process_all cfg [] s = (Inr (), s)"
| "process_all cfg ((a, b) # ks) s =
     and_then (process_exchange_intentions cfg (amm_get_pair_id (ex_amm cfg) \<lparr>asset_in = a, asset_out = b\<rparr>)
         (get_intentions s (b, a)) (get_intentions s (a, b)) s)
       (\<lambda>_ s. process_all cfg ks s)"

text \<open>No law of the currency is needed to see that resolving intentions leaves the queues alone.\<close>

interpretation frame: exchange_pallet cfg "\<lambda>_. False" native
  by unfold_locales simp_all

lemma process_intentions_queues:
  assumes "process_exchange_intentions cfg p as bs s = (r, s')"
  shows "intentions s' = intentions s" and "intention_count s' = intention_count s"
  using frame.process_intentions_settled [OF assms] by (simp_all add: settles_def)

lemma process_nothing [simp]: "process_exchange_intentions cfg p [] [] s = (Inr (), s)"
  by (simp add: process_exchange_intentions_def sort_descending_def)

text \<open>Few enough intentions for the counter not to wrap.\<close>

definition few_intentions :: "('acc, 's) exchange_state \<Rightarrow> bool" where
  "few_intentions s \<longleftrightarrow> (\<forall>k. queue_lengths s k < 2 ^ 32)"

lemma counted:
  assumes "queues_ok s" and "few_intentions s"
  shows "get_intentions_count s k = 0 \<longleftrightarrow> queue_lengths s k = 0"
proof -
  have "get_intentions_count s k = of_nat (queue_lengths s k)" "queue_lengths s k < 2 ^ LENGTH(32)"
    using assms by (cases k; simp add: queues_ok_def few_intentions_def)+
  then show ?thesis by (simp add: word_of_nat_eq_0_iff nat_dvd_not_less dvd_imp_le) (metis dvd_imp_le gr0I linorder_not_less dvd_0_right)
qed

lemma queues_ok_cong:
  "intentions s' = intentions s \<Longrightarrow> intention_count s' = intention_count s \<Longrightarrow>
   get_intentions s' = get_intentions s \<and> (queues_ok s' \<longleftrightarrow> queues_ok s) \<and> (few_intentions s' \<longleftrightarrow> few_intentions s)"
  by (auto simp: queues_ok_def few_intentions_def queue_lengths_def get_intentions_count_def get_intentions_def [abs_def])

lemma process_pairs_all:
  assumes "queues_ok s" and "few_intentions s" and "\<forall>k \<in> set ks. fst k \<le> snd k"
  shows "process_pairs cfg ks s = process_all cfg ks s"
  using assms
proof (induction ks arbitrary: s)
  case (Cons k ks)
  obtain a b where k: "k = (a, b)" by fastforce
  let ?p = "amm_get_pair_id (ex_amm cfg) \<lparr>asset_in = a, asset_out = b\<rparr>"
  obtain x u where u: "process_exchange_intentions cfg ?p (get_intentions s (b, a)) (get_intentions s (a, b)) s = (x, u)"
    by fastforce
  note same = queues_ok_cong [OF process_intentions_queues [OF u]]
  have IH: "process_pairs cfg ks u = process_all cfg ks u" 
    using Cons.IH [of u] same Cons.prems by simp
  show ?case
  proof (cases "get_intentions_count s (a, b) = 0")
    case True
    then have "queue_lengths s (a, b) = 0" using counted [OF Cons.prems(1,2)] by simp
    with Cons.prems(3) k have "get_intentions s (a, b) = []" "get_intentions s (b, a) = []"
      by (auto simp: queue_lengths_def split: if_splits)
    with u IH True show ?thesis by (auto simp: k)
  next
    case False
    with u IH show ?thesis by (cases x) (simp_all add: k)
  qed
qed simp

lemma queued_pairs:
  assumes "queues_ok s" and "few_intentions s" and "get_intentions s (a, b) \<noteq> []"
  shows "ordered_pair \<lparr>asset_in = a, asset_out = b\<rparr> \<in> dom (intention_count s)"
proof -
  let ?k = "ordered_pair \<lparr>asset_in = a, asset_out = b\<rparr>"
  have "queue_lengths s ?k \<noteq> 0" using assms(3) by (auto simp: queue_lengths_def ordered_pair_def)
  then have "get_intentions_count s ?k \<noteq> 0" by (simp add: counted [OF assms(1,2)])
  then show ?thesis by (auto simp: get_intentions_count_def split: option.splits)
qed

lemma process_all_ends:
  assumes "paying_exchange cfg A" and "queues_ok s" and "few_intentions s" and "\<forall>(a, b) \<in> set ks. a \<in> A \<and> b \<in> A"
  shows "\<exists>s'. process_all cfg ks s = (Inr (), s')"
  using assms(2-4)
proof (induction ks arbitrary: s)
  case (Cons k ks)
  obtain a b where k: "k = (a, b)" by fastforce
  have "list_all (trades_in A) (get_intentions s (b, a))" "list_all (trades_in A) (get_intentions s (a, b))"
    using Cons.prems k by (fastforce simp: queues_ok_def list_all_iff trades_in_def)+
  from paying_exchange.process_intentions_ends [OF assms(1) this]
  obtain u where u: "process_exchange_intentions cfg (amm_get_pair_id (ex_amm cfg) \<lparr>asset_in = a, asset_out = b\<rparr>)
      (get_intentions s (b, a)) (get_intentions s (a, b)) s = (Inr (), u)" by blast
  with Cons.IH [of u] Cons.prems queues_ok_cong [OF process_intentions_queues [OF u]] show ?case by (simp add: k)
qed simp

section \<open>Properties\<close>

text \<open>C19: finalisation leaves out no intention. Take a state the chain can reach from empty queues by
  registering intentions, finalising blocks and whatever other pallets do, with fewer than
  \<open>2 ^ 32\<close> intentions waiting for a pair, so that the 32-bit counter has not wrapped. Then every
  queue that holds an intention belongs to a pair that is iterated over, and skipping the pairs
  with a zero counter changes nothing: finalisation ends as the processing of both queues of
  every pair in turn ends, with the same panic in the same state if that panics, and otherwise
  with the queues and counters emptied. If moreover the currency can repatriate the
  assets of all these pairs to every account, which for the native asset it cannot, no panic
  occurs.\<close>

theorem finalisation_complete:
  assumes "exchange_reaches F cfg s0 s" and "intentions s0 = Map.empty" and "intention_count s0 = Map.empty"
    and "few_intentions s" and "set ks = dom (intention_count s)"
  shows "(\<forall>a b. get_intentions s (a, b) \<noteq> [] \<longrightarrow> ordered_pair \<lparr>asset_in = a, asset_out = b\<rparr> \<in> set ks) \<and>
    on_finalize cfg ks s =
      (case process_all cfg ks s of
         (Inl panic, u) \<Rightarrow> (Inl panic, u)
       | (Inr _, u) \<Rightarrow> (Inr (), u\<lparr>intention_count := Map.empty, intentions := Map.empty\<rparr>)) \<and>
    (\<forall>A. paying_exchange cfg A \<and> (\<forall>(a, b) \<in> set ks. a \<in> A \<and> b \<in> A) \<longrightarrow>
      (\<exists>u. on_finalize cfg ks s = (Inr (), u\<lparr>intention_count := Map.empty, intentions := Map.empty\<rparr>)))"
proof -
  have ok: "queues_ok s" by (rule reachable_queues [OF assms(1) queues_ok_empty [OF assms(2,3)]])
  then have "\<forall>k \<in> set ks. fst k \<le> snd k" using assms(5) by (simp add: queues_ok_def)
  note all = process_pairs_all [OF ok assms(4) this, of cfg]
  have "\<exists>u. process_all cfg ks s = (Inr (), u)" if "paying_exchange cfg A" "\<forall>(a, b) \<in> set ks. a \<in> A \<and> b \<in> A" for A
    by (rule process_all_ends [OF that(1) ok assms(4) that(2)])
  moreover have fin: "on_finalize cfg ks s =
      (case process_all cfg ks s of
         (Inl panic, u) \<Rightarrow> (Inl panic, u)
       | (Inr _, u) \<Rightarrow> (Inr (), u\<lparr>intention_count := Map.empty, intentions := Map.empty\<rparr>))"
    by (simp add: on_finalize_def all and_then_def split: prod.splits sum.splits)
  moreover have "\<forall>a b. get_intentions s (a, b) \<noteq> [] \<longrightarrow> ordered_pair \<lparr>asset_in = a, asset_out = b\<rparr> \<in> set ks"
    using queued_pairs [OF ok assms(4)] assms(5) by simp
  ultimately show ?thesis unfolding fin by fastforce
qed

text \<open>A market whose currency pays every account: what is reserved is released and transferred.\<close>

definition token_market :: "(bytes, (bytes, asset_id \<Rightarrow> (bytes, bytes \<Rightarrow> account_data option) balances_state) xyk_state) exchange_config" where
  "token_market =
     (let ex = xyk_exchange market_config (\<lambda>_ _ _ _ _. []); C = ex_currency ex
      in ex\<lparr>ex_currency := C\<lparr>cur_repatriate := (\<lambda>c a b n _ s.
           case cur_unreserve C c a n s of (r, s1) \<Rightarrow> (Inr r, snd (cur_transfer C c a b (n - r) s1)))\<rparr>\<rparr>)"

interpretation token_market: paying_exchange token_market A
  by unfold_locales (simp add: token_market_def Let_def split: prod.splits)

lemma token_market_simps:
  "amm_exists (ex_amm token_market) = xyk_exists market_config"
  "amm_get_spot_price_unchecked (ex_amm token_market) = get_spot_price_unchecked market_config"
  "cur_free (ex_currency token_market) s = cur_free (balances_currency (account_map_config 0 50)) (currencies s)"
  by (simp_all add: token_market_def Let_def xyk_exchange_def xyk_amm_def)

text \<open>Two opposite sells, by the trader and by the dealer.\<close>

definition crossed_state :: "(bytes, (bytes, asset_id \<Rightarrow> (bytes, bytes \<Rightarrow> account_data option) balances_state) xyk_state) exchange_state" where
  "crossed_state = snd (exchange_sell market_frame token_market (Some dealer) 2 1 2000 1 False
     (snd (exchange_sell market_frame token_market (Some trader) 1 2 1000 1 False bazaar_state)))"

lemma bazaar_pool:
  "from_assets market_config 1 2 = pool_account" "from_assets market_config 2 1 = pool_account"
  "get_pair_id market_config \<lparr>asset_in = 1, asset_out = 2\<rparr> = pool_account"
  "get_pair_id market_config \<lparr>asset_in = 2, asset_out = 1\<rparr> = pool_account"
  by (simp_all add: pool_account_def trade_pair_def get_pair_id_def from_assets_def Let_def)

lemma bazaar_sells:
  assumes "chain s = chain bazaar_state"
  shows "exchange_sell market_frame token_market (Some trader) 1 2 1000 lim False s =
      register_intention token_market trader SELL \<lparr>asset_in = 1, asset_out = 2\<rparr> 1000 2000 lim False s"
    and "exchange_sell market_frame token_market (Some dealer) 2 1 2000 lim False s =
      register_intention token_market dealer SELL \<lparr>asset_in = 2, asset_out = 1\<rparr> 2000 1000 lim False s"
proof -
  have price: "get_spot_price_unchecked market_config 1 2 1000 (chain bazaar_state) = 2000"
    "get_spot_price_unchecked market_config 2 1 2000 (chain bazaar_state) = 1000"
    by (simp_all add: get_spot_price_unchecked_def bazaar_pool xyk_free_def bazaar_free)
      (simp_all add: market_config_def)
  have pool: "xyk_exists market_config \<lparr>asset_in = 1, asset_out = 2\<rparr> (chain bazaar_state)"
    "xyk_exists market_config \<lparr>asset_in = 2, asset_out = 1\<rparr> (chain bazaar_state)"
    by (simp_all add: xyk_exists_def bazaar_pool bazaar_state_def market_state_def)
  show "exchange_sell market_frame token_market (Some trader) 1 2 1000 lim False s =
      register_intention token_market trader SELL \<lparr>asset_in = 1, asset_out = 2\<rparr> 1000 2000 lim False s"
    "exchange_sell market_frame token_market (Some dealer) 2 1 2000 lim False s =
      register_intention token_market dealer SELL \<lparr>asset_in = 2, asset_out = 1\<rparr> 2000 1000 lim False s"
    using price pool
    by (simp_all add: exchange_sell_def market_signed token_market_simps assms bazaar_free MIN_TRADING_LIMIT_def)
qed

lemma crossed_registered:
  shows "get_intentions crossed_state = (\<lambda>_. [])((1, 2) := [(sell_order trader 1 2 1000 2000)\<lparr>i_intention_id := []\<rparr>],
      (2, 1) := [(sell_order dealer 2 1 2000 1000)\<lparr>i_intention_id := []\<rparr>])"
    and "intention_count crossed_state = [(1, 2) \<mapsto> 2]" and "exchange_reaches market_frame token_market bazaar_state crossed_state"
proof -
  let ?s1 = "snd (exchange_sell market_frame token_market (Some trader) 1 2 1000 1 False bazaar_state)"
  have hash: "intention_hash token_market c w bn a b = []" for c w bn a b
    by (simp add: token_market_def Let_def xyk_exchange_def)
  have start: "intentions bazaar_state = Map.empty" "intention_count bazaar_state = Map.empty"
    by (simp_all add: bazaar_state_def)
  have s1: "chain ?s1 = chain bazaar_state" "intention_count ?s1 = [(1, 2) \<mapsto> 1]"
    "intentions ?s1 = [(1, 2) \<mapsto> [(sell_order trader 1 2 1000 2000)\<lparr>i_intention_id := []\<rparr>]]"
    unfolding bazaar_sells(1) [OF refl]
    by (simp_all add: register_intention_def Let_def get_intentions_def get_intentions_count_def ordered_pair_def
        sell_order_def generate_intention_id_def hash start)
  have "intentions crossed_state = [(1, 2) \<mapsto> [(sell_order trader 1 2 1000 2000)\<lparr>i_intention_id := []\<rparr>],
      (2, 1) \<mapsto> [(sell_order dealer 2 1 2000 1000)\<lparr>i_intention_id := []\<rparr>]]"
    "intention_count crossed_state = [(1, 2) \<mapsto> 2]"
    unfolding crossed_state_def bazaar_sells(2) [OF s1(1)]
    by (simp_all add: register_intention_def Let_def get_intentions_def get_intentions_count_def ordered_pair_def
        generate_intention_id_def hash s1(2,3) [simplified]) (simp_all add: sell_order_def word_le_nat_alt)
  then show "get_intentions crossed_state = (\<lambda>_. [])((1, 2) := [(sell_order trader 1 2 1000 2000)\<lparr>i_intention_id := []\<rparr>],
      (2, 1) := [(sell_order dealer 2 1 2000 1000)\<lparr>i_intention_id := []\<rparr>])"
    "intention_count crossed_state = [(1, 2) \<mapsto> 2]"
    by (auto simp: get_intentions_def)
  have "exchange_step market_frame token_market bazaar_state ?s1" "exchange_step market_frame token_market ?s1 crossed_state"
    unfolding crossed_state_def by (rule step_sell, rule surjective_pairing)+
  then show "exchange_reaches market_frame token_market bazaar_state crossed_state"
    unfolding exchange_reaches_def by (meson rtranclp.simps)
qed

theorem finalisation_complete_witness:
  "get_intentions crossed_state (2, 1) = [(sell_order dealer 2 1 2000 1000)\<lparr>i_intention_id := []\<rparr>] \<and>
   (\<exists>u. process_all token_market [(1, 2)] crossed_state = (Inr (), u) \<and>
     on_finalize token_market [(1, 2)] crossed_state = (Inr (), u\<lparr>intention_count := Map.empty, intentions := Map.empty\<rparr>))"
proof -
  have start: "intentions bazaar_state = Map.empty" "intention_count bazaar_state = Map.empty"
    by (simp_all add: bazaar_state_def)
  have "few_intentions crossed_state" by (simp add: few_intentions_def queue_lengths_def crossed_registered(1))
  note fin = finalisation_complete [OF crossed_registered(3) start this, of "[(1, 2)]"]
  have dom: "set [(1, 2)] = dom (intention_count crossed_state)" by (simp add: crossed_registered(2))
  have ends: "\<exists>u. on_finalize token_market [(1, 2)] crossed_state =
      (Inr (), u\<lparr>intention_count := Map.empty, intentions := Map.empty\<rparr>)"
    using fin [OF dom] token_market.paying_exchange_axioms [of UNIV] by blast
  obtain r u where u: "process_all token_market [(1, 2)] crossed_state = (r, u)" by fastforce
  with fin [OF dom] ends have "r = Inr ()" by (cases r) (simp_all del: process_all.simps)
  with fin [OF dom] u show ?thesis by (simp add: crossed_registered(1) del: process_all.simps)
qed

end
