(* ===== verification/Claims.thy ===== *)
theory Claims
  imports Balances_Props
begin

text \<open>
  \<open>src/pallets/claims/src\<close>: balances of Ethereum holders that they claim with a signature over
  their account on this chain. The pallet pays through the balances pallet. Outside the
  repository, and so fields of the configuration: the hash and the signature recovery of the
  cryptographic library, the encoding of an account, the hexadecimal codec, and the weights of
  a database access. An Ethereum address is the list of its 20 bytes, a signature of its 65.
\<close>

section \<open>Data\<close>

type_synonym ethereum_address = bytes
type_synonym ecdsa_signature = bytes

datatype 'acc claims_event = Claim 'acc ethereum_address balance

record ('acc, 'st) claims_config =
  claims_balances :: "('acc, 'st) balances_config"
  claim_prefix :: bytes
  encode_account :: "'acc \<Rightarrow> bytes"
  keccak_256 :: "bytes \<Rightarrow> bytes"
  secp256k1_ecdsa_recover :: "ecdsa_signature \<Rightarrow> bytes \<Rightarrow> bytes option"
  to_hex :: "bytes \<Rightarrow> bytes"
  from_hex :: "bytes \<Rightarrow> bytes option"
  db_read_weight :: nat
  db_write_weight :: nat

record ('acc, 'st) claims_state =
  claims_funds :: "('acc, 'st) balances_state"
  claims :: "ethereum_address \<Rightarrow> balance option"
  claims_version :: "nat option"
  claims_events :: "'acc claims_event list"

type_synonym ('acc, 'st, 'a) claims_result = "(dispatch_error + 'a) \<times> ('acc, 'st) claims_state"

definition get_claim :: "('acc, 'st) claims_state \<Rightarrow> ethereum_address \<Rightarrow> balance" where
  "get_claim s a = (case claims s a of None \<Rightarrow> 0 | Some n \<Rightarrow> n)"

section \<open>Signed messages\<close>

text \<open>The decimal digits of a length, least significant first.\<close>

function decimal_rev :: "nat \<Rightarrow> bytes" where
  "decimal_rev l = (if 0 < l then (48 + of_nat (l mod 10)) # decimal_rev (l div 10) else [])"
  by pat_completeness auto

termination
  by (relation "measure id") auto

declare decimal_rev.simps [simp del]

text \<open>The bytes of the header are those of \<open>"\x19Ethereum Signed Message:\n"\<close>.\<close>

definition message_header :: bytes where
  "message_header =
     [25, 69, 116, 104, 101, 114, 101, 117, 109, 32, 83, 105, 103, 110, 101, 100, 32,
      77, 101, 115, 115, 97, 103, 101, 58, 10]"

definition ethereum_signable_message :: "bytes \<Rightarrow> bytes \<Rightarrow> bytes" where
  "ethereum_signable_message what prefix =
     (let l = length prefix + length what;
          rv = decimal_rev l
      in message_header @ rev rv @ prefix @ what)"

definition recover ::
  "('acc, 'st) claims_config \<Rightarrow> ecdsa_signature \<Rightarrow> bytes \<Rightarrow> bytes \<Rightarrow> ethereum_address option" where
  "recover cfg sig what prefix =
     (let msg = keccak_256 cfg (ethereum_signable_message what prefix)
      in case secp256k1_ecdsa_recover cfg sig msg of
           None \<Rightarrow> None
         | Some key \<Rightarrow> Some (drop 12 (keccak_256 cfg key)))"

definition hex_nibble :: "u8 \<Rightarrow> u8" where
  "hex_nibble n = (if n < 10 then 48 + n else 97 - 10 + n)"

fun to_ascii_hex :: "bytes \<Rightarrow> bytes" where
  "to_ascii_hex [] = []"
| "to_ascii_hex (b # bs) = hex_nibble (b div 16) # hex_nibble (b mod 16) # to_ascii_hex bs"

section \<open>Serialised addresses\<close>

definition serialize_address :: "('acc, 'st) claims_config \<Rightarrow> ethereum_address \<Rightarrow> bytes" where
  "serialize_address cfg a = [48, 120] @ to_hex cfg a"

definition deserialize_address :: "('acc, 'st) claims_config \<Rightarrow> bytes \<Rightarrow> string + ethereum_address" where
  "deserialize_address cfg base_string =
     (let offset = (if take 2 base_string = [48, 120] then 2 else 0);
          s = drop offset base_string
      in if length s \<noteq> 40 then Inl ''Bad length of Ethereum address (should be 42 including '0x')''
         else case from_hex cfg s of None \<Rightarrow> Inl ''invalid hex''
         | Some raw \<Rightarrow> if length raw = 20 then Inr raw else Inl ''panic: copy_from_slice'')"

section \<open>Claiming\<close>

definition validate_claim ::
  "('acc, 'st) claims_config \<Rightarrow> 'acc \<Rightarrow> ecdsa_signature \<Rightarrow> ('acc, 'st) claims_state \<Rightarrow>
   claims_error + balance \<times> ethereum_address" where
  "validate_claim cfg who signature s =
     (let sender_hex = to_ascii_hex (encode_account cfg who)
      in case recover cfg signature sender_hex (claim_prefix cfg) of
           Some address \<Rightarrow>
             (let balance_due = get_claim s address
              in if balance_due = 0 then Inl NoClaimOrAlreadyClaimed else Inr (balance_due, address))
         | None \<Rightarrow> Inl InvalidEthereumSignature)"

text \<open>The imbalance of the deposit is dropped when the function returns, on both paths.\<close>

definition process_claim ::
  "('acc, 'st) claims_config \<Rightarrow> 'acc \<Rightarrow> balance \<Rightarrow> ethereum_address \<Rightarrow>
   ('acc, 'st) claims_state \<Rightarrow> ('acc, 'st, unit) claims_result" where
  "process_claim cfg dest balance_due address s =
     (case deposit_creating (claims_balances cfg) dest balance_due (claims_funds s) of (imbalance, f) \<Rightarrow>
      if positive_peek imbalance = 0
      then (Inl (Claims BalanceOverflow), s\<lparr>claims_funds := drop_positive imbalance f\<rparr>)
      else let s = s\<lparr>claims_funds := f, claims := (claims s)(address \<mapsto> 0)\<rparr>;
               s = s\<lparr>claims_events := claims_events s @ [Claim dest address balance_due]\<rparr>
           in (Inr (), s\<lparr>claims_funds := drop_positive imbalance (claims_funds s)\<rparr>))"

definition claim ::
  "('o, 'src, 'acc) frame_ops \<Rightarrow> ('acc, 'st) claims_config \<Rightarrow> 'o \<Rightarrow> ecdsa_signature \<Rightarrow>
   ('acc, 'st) claims_state \<Rightarrow> ('acc, 'st, unit) claims_result" where
  "claim F cfg orig ethereum_signature s =
     and_then (ensure_signed F orig, s) (\<lambda>sender s.
       case validate_claim cfg sender ethereum_signature s of
         Inl e \<Rightarrow> (Inl (Claims e), s)
       | Inr (balance_due, address) \<Rightarrow> process_claim cfg sender balance_due address s)"

text \<open>
  The signed extension: it looks at the \<open>claim\<close> call only (\<open>Some\<close> its signature; \<open>None\<close> stands
  for every other call) and rejects with the index of the error.
\<close>

definition as_u8 :: "claims_error \<Rightarrow> u8" where
  "as_u8 e = (case e of InvalidEthereumSignature \<Rightarrow> 0 | NoClaimOrAlreadyClaimed \<Rightarrow> 1 | BalanceOverflow \<Rightarrow> 2)"

definition validate_claim_extension ::
  "('acc, 'st) claims_config \<Rightarrow> 'acc \<Rightarrow> ecdsa_signature option \<Rightarrow> ('acc, 'st) claims_state \<Rightarrow> u8 + unit" where
  "validate_claim_extension cfg who call s =
     (case call of
        Some signature \<Rightarrow>
          (case validate_claim cfg who signature s of Inr _ \<Rightarrow> Inr () | Inl error \<Rightarrow> Inl (as_u8 error))
      | None \<Rightarrow> Inr ())"

section \<open>Genesis and migration\<close>

definition claims_genesis_default :: "(ethereum_address \<times> balance) list" where
  "claims_genesis_default = []"

definition claims_genesis_build ::
  "(ethereum_address \<times> balance) list \<Rightarrow> ('acc, 'st) claims_state \<Rightarrow> ('acc, 'st) claims_state" where
  "claims_genesis_build cs s =
     fold (\<lambda>(eth_address, initial_balance) s.
       s\<lparr>claims := (claims s)(eth_address \<mapsto> wrapping_add (get_claim s eth_address) initial_balance)\<rparr>) cs s"

fun insert_claims ::
  "('acc, 'st) claims_config \<Rightarrow> (bytes \<times> balance) list \<Rightarrow>
   ('acc, 'st) claims_state \<Rightarrow> ('acc, 'st, unit) claims_result" where
  "insert_claims cfg [] s = (Inr (), s)"
| "insert_claims cfg ((addr, amount) # cs) s =
     (if length addr < 2 then (Inl (Panic ''range start index out of range''), s)
      else let key = (case from_hex cfg (drop 2 addr) of
                        Some a \<Rightarrow> (if length a = 20 then a else replicate 20 0)
                      | None \<Rightarrow> replicate 20 0)
           in insert_claims cfg cs (s\<lparr>claims := (claims s)(key \<mapsto> amount)\<rparr>))"

definition import_initial_claims ::
  "('acc, 'st) claims_config \<Rightarrow> (bytes \<times> balance) list \<Rightarrow>
   ('acc, 'st) claims_state \<Rightarrow> ('acc, 'st, nat) claims_result" where
  "import_initial_claims cfg claims_data s =
     (if claims_version s = None
      then and_then (insert_claims cfg claims_data s)
             (\<lambda>_ s. (Inr (2 * db_read_weight cfg + 3 * db_write_weight cfg), s))
      else (Inr 0, s))"

definition claims_on_runtime_upgrade ::
  "('acc, 'st) claims_config \<Rightarrow> (bytes \<times> balance) list \<Rightarrow>
   ('acc, 'st) claims_state \<Rightarrow> ('acc, 'st, nat) claims_result" where
  "claims_on_runtime_upgrade cfg claims_data s = import_initial_claims cfg claims_data s"

end
