(* ===== verification/Claims_Props.thy ===== *)
theory Claims_Props
  imports Claims
begin

text \<open>
  Properties of the claims pallet: the signed message determines the claiming account, each
  claim is paid once and exactly, and the signed extension admits what the call will accept.
\<close>

section \<open>Signed messages\<close>

lemma unat_hex_nibble:
  assumes "n < 16"
  shows "unat (hex_nibble n) = (if unat n < 10 then 48 + unat n else 87 + unat n)"
proof -
  have "unat n < 16" using assms by (simp add: word_less_nat_alt)
  then show ?thesis by (simp add: hex_nibble_def word_less_nat_alt unat_word_ariths)
qed

lemma hex_nibble_inject:
  assumes "n < 16" and "m < 16"
  shows "hex_nibble n = hex_nibble m \<longleftrightarrow> n = m"
proof
  assume "hex_nibble n = hex_nibble m"
  then have "unat (hex_nibble n) = unat (hex_nibble m)" by simp
  then have "unat n = unat m" unfolding unat_hex_nibble [OF assms(1)] unat_hex_nibble [OF assms(2)]
    by (auto split: if_splits)
  then show "n = m" by (rule injD [OF inj_unsigned])
qed simp

lemma byte_nibbles: "b div 16 < (16 :: u8)" "b mod 16 < (16 :: u8)" "b = 16 * (b div 16) + b mod 16" for b :: u8
proof -
  have "unat b < 256" using unsigned_less [of b] by simp
  then have "unat (b div 16) < 16" by (simp add: unat_div)
  then show "b div 16 < 16" by (simp add: word_less_nat_alt)
  show "b mod 16 < 16" by (simp add: word_mod_less_divisor)
  show "b = 16 * (b div 16) + b mod 16" by (simp only: mult_div_mod_eq)
qed

lemma to_ascii_hex_inject: "to_ascii_hex xs = to_ascii_hex ys \<longleftrightarrow> xs = ys"
proof (induction xs arbitrary: ys)
  case Nil
  then show ?case by (cases ys) simp_all
next
  case (Cons x xs)
  show ?case
  proof (cases ys)
    case (Cons y ys')
    have "hex_nibble (x div 16) = hex_nibble (y div 16) \<and> hex_nibble (x mod 16) = hex_nibble (y mod 16) \<longleftrightarrow> x = y"
      using byte_nibbles [of x] byte_nibbles [of y] by (metis hex_nibble_inject)
    with Cons Cons.IH show ?thesis by auto
  qed simp
qed

lemma length_to_ascii_hex [simp]: "length (to_ascii_hex bs) = 2 * length bs"
  by (induction bs) simp_all

lemma decimal_rev_mono: "l \<le> l' \<Longrightarrow> length (decimal_rev l) \<le> length (decimal_rev l')"
proof (induction l' arbitrary: l rule: decimal_rev.induct)
  case (1 l')
  show ?case
  proof (cases "0 < l")
    case True
    with 1 have "length (decimal_rev (l div 10)) \<le> length (decimal_rev (l' div 10))"
      by (auto intro: div_le_mono)
    with True 1 show ?thesis by (simp add: decimal_rev.simps [of l] decimal_rev.simps [of l'])
  qed (simp add: decimal_rev.simps [of 0])
qed

lemma message_inject:
  "ethereum_signable_message what prefix = ethereum_signable_message what' prefix \<longleftrightarrow> what = what'"
proof
  let ?l = "length prefix + length what" and ?l' = "length prefix + length what'"
  assume eq: "ethereum_signable_message what prefix = ethereum_signable_message what' prefix"
  then have len: "length (decimal_rev ?l) + ?l = length (decimal_rev ?l') + ?l'"
    by (auto simp: ethereum_signable_message_def Let_def dest: arg_cong [of _ _ length])
  have "?l = ?l'"
    using len decimal_rev_mono [of ?l ?l'] decimal_rev_mono [of ?l' ?l] by linarith
  with eq show "what = what'" by (simp add: ethereum_signable_message_def Let_def)
qed simp

text \<open>C29: the message a claimant signs determines the account that may claim with it: two accounts
  with different encodings never share a message, whatever the prefix. The hexadecimal encoding
  is injective and twice as long, and the length in the header is the true length in decimal.\<close>

theorem claim_message_identifies_account:
  "ethereum_signable_message (to_ascii_hex (encode_account cfg a)) prefix =
     ethereum_signable_message (to_ascii_hex (encode_account cfg b)) prefix \<longleftrightarrow>
   encode_account cfg a = encode_account cfg b"
  by (simp add: message_inject to_ascii_hex_inject)

section \<open>Paying a claim\<close>

lemma claim_signed:
  assumes "ensure_signed F orig = Inr who"
  shows "claim F cfg orig sig s =
    (case validate_claim cfg who sig s of
       Inl e \<Rightarrow> (Inl (Claims e), s) | Inr (due, addr) \<Rightarrow> process_claim cfg who due addr s)"
  using assms by (simp add: claim_def)

lemma validate_claim_Inr:
  "validate_claim cfg who sig s = Inr (due, addr) \<longleftrightarrow>
     recover cfg sig (to_ascii_hex (encode_account cfg who)) (claim_prefix cfg) = Some addr \<and>
     due = get_claim s addr \<and> due \<noteq> 0"
  by (auto simp: validate_claim_def Let_def split: option.splits if_splits)

lemma drop_positive_issuance:
  "total_issuance s + n \<le> U128_MAX \<Longrightarrow> total_issuance (drop_positive (PositiveImbalance n) s) = total_issuance s + n"
  by (simp add: saturating_add_exact)

context accepting_accounts
begin

lemma deposit_creating_issuance:
  assumes "balances_inv cfg s" and "deposit_creating cfg who n s = (imb, s')"
    and "total_issuance s + n \<le> U128_MAX" and "existential_deposit cfg \<le> holding (account cfg s who) + n"
  shows "total_issuance (drop_positive imb s') = total_issuance s + n"
proof -
  note D = deposit_creating_inv [OF assms]
  let ?t = "drop_positive imb s'"
  have a: "account cfg ?t = (account cfg s)(who := (account cfg s who)\<lparr>free := free (account cfg s who) + n\<rparr>)"
    using D(2,3) by (simp add: account_def)
  have "circulation (account cfg ?t) + holding (account cfg s who) =
      circulation (account cfg s) + (holding (account cfg s who) + n)"
    unfolding a using circulation_upd [OF balances_invD(1) [OF assms(1)]] by (simp add: holding_def)
  with balances_invD(2) [OF assms(1)] balances_invD(2) [OF D(1)] show ?thesis by simp
qed

end

lemma process_claim_pays:
  fixes cfg :: "('acc, 'st) claims_config"
  defines "bal \<equiv> claims_balances cfg"
  assumes store: "accepting_accounts bal" and inv: "balances_inv bal (claims_funds s)"
    and due: "due \<noteq> 0" and room: "total_issuance (claims_funds s) + due \<le> U128_MAX"
    and ed: "existential_deposit bal \<le> holding (account bal (claims_funds s) who) + due"
  obtains s' where "process_claim cfg who due addr s = (Inr (), s')"
    and "claims s' = (claims s)(addr \<mapsto> 0)" and "balances_inv bal (claims_funds s')"
    and "total_issuance (claims_funds s') = total_issuance (claims_funds s) + due"
    and "account bal (claims_funds s') = (account bal (claims_funds s))
      (who := (account bal (claims_funds s) who)\<lparr>free := free (account bal (claims_funds s) who) + due\<rparr>)"
proof -
  obtain imb f where f: "deposit_creating bal who due (claims_funds s) = (imb, f)" by fastforce
  note D = accepting_accounts.deposit_creating_inv [OF store inv f room ed]
  note I = accepting_accounts.deposit_creating_issuance [OF store inv f room ed]
  let ?s = "s\<lparr>claims_funds := drop_positive imb f, claims := (claims s)(addr \<mapsto> 0),
      claims_events := claims_events s @ [Claim who addr due]\<rparr>"
  have "process_claim cfg who due addr s = (Inr (), ?s)"
    using f D(2) due by (simp add: process_claim_def bal_def Let_def)
  moreover have "account bal (drop_positive imb f) = account bal f"
    using D(2) by (simp add: account_def)
  ultimately show ?thesis using D(1,3) I by (intro that [of ?s]) simp_all
qed

text \<open>C27: an accepted claim is paid exactly once. The claimant receives exactly the recorded
  balance, the issuance grows by it, no other account and no other claim changes; afterwards
  every claim that recovers the same Ethereum address, by whoever and with whatever signature,
  fails without effect.\<close>

theorem claim_paid_once:
  assumes "accepting_accounts (claims_balances cfg)" and "balances_inv (claims_balances cfg) (claims_funds s)"
    and "ensure_signed F orig = Inr who" and "validate_claim cfg who sig s = Inr (due, addr)"
    and "total_issuance (claims_funds s) + due \<le> U128_MAX"
    and "existential_deposit (claims_balances cfg) \<le> holding (account (claims_balances cfg) (claims_funds s) who) + due"
  shows "\<exists>s'. claim F cfg orig sig s = (Inr (), s') \<and>
    due = get_claim s addr \<and> get_claim s' = (get_claim s)(addr := 0) \<and>
    total_issuance (claims_funds s') = total_issuance (claims_funds s) + due \<and>
    balances_inv (claims_balances cfg) (claims_funds s') \<and>
    free_balance (claims_balances cfg) (claims_funds s') = (free_balance (claims_balances cfg) (claims_funds s))
      (who := free_balance (claims_balances cfg) (claims_funds s) who + due) \<and>
    (\<forall>orig' who' sig'. ensure_signed F orig' = Inr who' \<longrightarrow>
       recover cfg sig' (to_ascii_hex (encode_account cfg who')) (claim_prefix cfg) = Some addr \<longrightarrow>
       claim F cfg orig' sig' s' = (Inl (Claims NoClaimOrAlreadyClaimed), s'))"
proof -
  have due: "due = get_claim s addr" "due \<noteq> 0" using assms(4) by (auto simp: validate_claim_Inr)
  obtain s' where s': "process_claim cfg who due addr s = (Inr (), s')" "claims s' = (claims s)(addr \<mapsto> 0)"
    "balances_inv (claims_balances cfg) (claims_funds s')"
    "total_issuance (claims_funds s') = total_issuance (claims_funds s) + due"
    "account (claims_balances cfg) (claims_funds s') = (account (claims_balances cfg) (claims_funds s))
      (who := (account (claims_balances cfg) (claims_funds s) who)
        \<lparr>free := free (account (claims_balances cfg) (claims_funds s) who) + due\<rparr>)"
    by (rule process_claim_pays [OF assms(1,2) due(2) assms(5,6)])
  have zero: "get_claim s' addr = 0" using s'(2) by (simp add: get_claim_def)
  have "claim F cfg orig' sig' s' = (Inl (Claims NoClaimOrAlreadyClaimed), s')"
    if "ensure_signed F orig' = Inr who'"
      "recover cfg sig' (to_ascii_hex (encode_account cfg who')) (claim_prefix cfg) = Some addr" for orig' who' sig'
    using that zero by (simp add: claim_signed validate_claim_def)
  moreover have "claim F cfg orig sig s = (Inr (), s')" using s'(1) assms(3,4) by (simp add: claim_signed)
  moreover have "get_claim s' = (get_claim s)(addr := 0)" using s'(2) by (auto simp: get_claim_def)
  ultimately show ?thesis using s' due by (auto simp: free_balance_def)
qed

section \<open>Sequences of claims\<close>

inductive claims_step ::
  "('o, 'src, 'acc) frame_ops \<Rightarrow> ('acc, 'st) claims_config \<Rightarrow>
   ('acc, 'st) claims_state \<Rightarrow> ('acc, 'st) claims_state \<Rightarrow> bool"
  for F cfg where
  step_claim: "claim F cfg orig sig s = (r, s') \<Longrightarrow> claims_step F cfg s s'"

inductive_cases claims_stepE: "claims_step F cfg s s'"

definition claims_reaches ::
  "('o, 'src, 'acc) frame_ops \<Rightarrow> ('acc, 'st) claims_config \<Rightarrow>
   ('acc, 'st) claims_state \<Rightarrow> ('acc, 'st) claims_state \<Rightarrow> bool" where
  "claims_reaches F cfg = (claims_step F cfg)\<^sup>*\<^sup>*"

text \<open>What is still owed to all Ethereum addresses, and the invariant that it can be paid.\<close>

definition owed :: "('acc, 'st) claims_state \<Rightarrow> nat" where
  "owed s = (\<Sum>a\<in>dom (claims s). get_claim s a)"

definition claims_inv :: "('acc, 'st) claims_config \<Rightarrow> ('acc, 'st) claims_state \<Rightarrow> bool" where
  "claims_inv cfg s \<longleftrightarrow>
     finite (dom (claims s)) \<and> balances_inv (claims_balances cfg) (claims_funds s) \<and>
     total_issuance (claims_funds s) + owed s \<le> U128_MAX"

lemma get_claim_le_owed: "finite (dom (claims s)) \<Longrightarrow> get_claim s a \<le> owed s"
  unfolding owed_def
  by (cases "a \<in> dom (claims s)") (rule member_le_sum_nat, assumption+, simp add: get_claim_def domIff)

lemma owed_paid:
  assumes "finite (dom (claims s))" and "claims s' = (claims s)(addr \<mapsto> 0)" and "get_claim s addr \<noteq> 0"
  shows "owed s' + get_claim s addr = owed s"
proof -
  have addr: "addr \<in> dom (claims s)" using assms(3) by (auto simp: get_claim_def split: option.splits)
  then have d: "dom (claims s') = dom (claims s)" using assms(2) by auto
  have g: "get_claim s' = (get_claim s)(addr := 0)" using assms(2) by (auto simp: get_claim_def)
  show ?thesis unfolding owed_def d g using sum_fun_upd [OF assms(1) addr, of "get_claim s" 0] by simp
qed

lemma claims_step_conserves:
  assumes store: "accepting_accounts (claims_balances cfg)" and ed: "existential_deposit (claims_balances cfg) = 0"
    and step: "claims_step F cfg s s'" and inv: "claims_inv cfg s"
  shows "claims_inv cfg s' \<and> total_issuance (claims_funds s') + owed s' = total_issuance (claims_funds s) + owed s"
proof -
  from step obtain orig sig r where 1: "claim F cfg orig sig s = (r, s')" by (rule claims_stepE)
  consider (refused) "s' = s"
    | (paid) who due addr where "validate_claim cfg who sig s = Inr (due, addr)"
      "process_claim cfg who due addr s = (r, s')"
    using 1 by (cases "ensure_signed F orig") (auto simp: claim_def split: sum.splits)
  then show ?thesis
  proof cases
    case refused
    with inv show ?thesis by simp
  next
    case paid
    then have due: "due = get_claim s addr" "due \<noteq> 0" by (auto simp: validate_claim_Inr)
    have fin: "finite (dom (claims s))" and bal: "balances_inv (claims_balances cfg) (claims_funds s)"
      and room: "total_issuance (claims_funds s) + owed s \<le> U128_MAX"
      using inv by (simp_all add: claims_inv_def)
    have le: "total_issuance (claims_funds s) + due \<le> U128_MAX"
      using room get_claim_le_owed [OF fin, of addr] due by simp
    obtain t where t: "process_claim cfg who due addr s = (Inr (), t)" "claims t = (claims s)(addr \<mapsto> 0)"
      "balances_inv (claims_balances cfg) (claims_funds t)"
      "total_issuance (claims_funds t) = total_issuance (claims_funds s) + due"
      by (rule process_claim_pays [OF store bal due(2) le, of who]) (simp_all add: ed)
    have "s' = t" using t(1) paid(2) by simp
    moreover have "owed t + due = owed s" using owed_paid [OF fin t(2)] due by simp
    moreover have "finite (dom (claims t))" using fin t(2) by simp
    ultimately show ?thesis using t room by (simp add: claims_inv_def)
  qed
qed

lemma claims_reaches_conserves:
  assumes "accepting_accounts (claims_balances cfg)" and "existential_deposit (claims_balances cfg) = 0"
    and "claims_inv cfg s" and "claims_reaches F cfg s s'"
  shows "claims_inv cfg s' \<and>
    total_issuance (claims_funds s') + owed s' = total_issuance (claims_funds s) + owed s"
  using assms(4) unfolding claims_reaches_def
proof (induction rule: rtranclp_induct)
  case (step t u)
  with claims_step_conserves [OF assms(1,2) step.hyps(2)] show ?case by simp
qed (simp add: assms(3))

text \<open>C28: over every sequence of claims, by any accounts and with any signatures, what has been
  paid out plus what is still owed stays the same: the total issuance grows by exactly what
  leaves the claims, no address is ever paid more than recorded for it, and no claim overflows.\<close>

theorem claims_conserve:
  assumes "accepting_accounts (claims_balances cfg)" and "existential_deposit (claims_balances cfg) = 0"
    and "claims_inv cfg s" and "claims_reaches F cfg s s'"
  shows "claims_inv cfg s' \<and>
    total_issuance (claims_funds s') + owed s' = total_issuance (claims_funds s) + owed s"
  by (rule claims_reaches_conserves [OF assms])

section \<open>The signed extension\<close>

text \<open>C30: the signed extension predicts the call exactly: it rejects a \<open>claim\<close> with the code of the
  error the call would return, lets through what the call accepts (up to an overflow of the
  claimant's balance, which it does not check) and lets every other call through.\<close>

theorem extension_predicts_claim:
  "validate_claim_extension cfg who None s = Inr () \<and>
   (case ensure_signed F orig of
      Inl _ \<Rightarrow> fst (claim F cfg orig sig s) = Inl (projl (ensure_signed F orig))
    | Inr sender \<Rightarrow>
        validate_claim_extension cfg sender (Some sig) s =
          (case fst (claim F cfg orig sig s) of
             Inr _ \<Rightarrow> Inr ()
           | Inl e \<Rightarrow> if e = Claims BalanceOverflow then Inr ()
                     else if e = Claims NoClaimOrAlreadyClaimed then Inl 1 else Inl 0))"
  by (cases "ensure_signed F orig")
    (auto simp: validate_claim_extension_def claim_signed validate_claim_def process_claim_def Let_def as_u8_def
      claim_def split: option.splits prod.splits)

section \<open>Addresses as text\<close>

text \<open>An address survives its textual form, given that the hexadecimal codec decodes what it
  encodes with two digits per byte; a text of any other length than 40 digits (with or without
  the \<open>0x\<close>) is refused.\<close>

theorem address_roundtrip:
  assumes "\<And>bs. from_hex cfg (to_hex cfg bs) = Some bs" and "\<And>bs. length (to_hex cfg bs) = 2 * length bs"
    and "length a = 20"
  shows "deserialize_address cfg (serialize_address cfg a) = Inr a \<and>
    (\<forall>t. length t \<notin> {40, 42} \<longrightarrow> \<not> is_ok (deserialize_address cfg t))"
  using assms by (auto simp: deserialize_address_def serialize_address_def Let_def)

section \<open>Genesis and migration\<close>

definition decoded :: "('acc, 'st) claims_config \<Rightarrow> (bytes \<times> balance) list \<Rightarrow> (ethereum_address \<times> balance) list" where
  "decoded cfg = map (\<lambda>(addr, n). (case from_hex cfg (drop 2 addr) of Some a \<Rightarrow> a | None \<Rightarrow> [], n))"

lemma insert_claims_decoded:
  assumes "\<forall>(addr, n)\<in>set cs. 2 \<le> length addr \<and> (\<exists>a. from_hex cfg (drop 2 addr) = Some a \<and> length a = 20)"
  shows "insert_claims cfg cs s = (Inr (), s\<lparr>claims := claims s ++ map_of (rev (decoded cfg cs))\<rparr>)"
  using assms
  by (induction cs arbitrary: s) (auto simp: decoded_def map_add_assoc)

text \<open>The migration imports every well-formed entry of the table, the last one for an address
  counting, and runs once: with a stored version it changes nothing and costs nothing.\<close>

theorem import_claims_once:
  assumes "\<forall>(addr, n)\<in>set cs. 2 \<le> length addr \<and> (\<exists>a. from_hex cfg (drop 2 addr) = Some a \<and> length a = 20)"
    and "distinct (map fst (decoded cfg cs))"
  shows "(if claims_version s = None
     then \<exists>w s'. claims_on_runtime_upgrade cfg cs s = (Inr w, s') \<and>
       (\<forall>(a, n)\<in>set (decoded cfg cs). get_claim s' a = n) \<and>
       (\<forall>a. a \<in> fst ` set (decoded cfg cs) \<or> get_claim s' a = get_claim s a) \<and> claims_funds s' = claims_funds s
     else claims_on_runtime_upgrade cfg cs s = (Inr 0, s))"
proof -
  let ?m = "map_of (rev (decoded cfg cs))" and ?s = "s\<lparr>claims := claims s ++ map_of (rev (decoded cfg cs))\<rparr>"
  have "distinct (map fst (rev (decoded cfg cs)))" using assms(2) by (simp flip: rev_map)
  then have some: "?m a = Some n" if "(a, n) \<in> set (decoded cfg cs)" for a n
    using that by (simp add: map_of_eq_Some_iff)
  have none: "?m a = None" if "a \<notin> fst ` set (decoded cfg cs)" for a
    using that by (simp add: map_of_eq_None_iff)
  have "\<forall>(a, n)\<in>set (decoded cfg cs). get_claim ?s a = n" using some by (auto simp: get_claim_def map_add_def)
  moreover have "\<forall>a. a \<in> fst ` set (decoded cfg cs) \<or> get_claim ?s a = get_claim s a"
  proof
    show "a \<in> fst ` set (decoded cfg cs) \<or> get_claim ?s a = get_claim s a" for a
      using none [of a] by (cases "a \<in> fst ` set (decoded cfg cs)") (simp_all add: get_claim_def map_add_def)
  qed
  ultimately show ?thesis
    using insert_claims_decoded [OF assms(1), of s]
    by (simp add: claims_on_runtime_upgrade_def import_initial_claims_def)
qed

section \<open>An example\<close>

text \<open>A hexadecimal decoder, an account encoding and toy cryptography for the witnesses.\<close>

definition hex_value :: "u8 \<Rightarrow> u8" where
  "hex_value c = (if c < 58 then c - 48 else c - 87)"

fun unhex :: "bytes \<Rightarrow> bytes option" where
  "unhex [] = Some []"
| "unhex [c] = None"
| "unhex (c # d # cs) = map_option ((#) (16 * hex_value c + hex_value d)) (unhex cs)"

lemma hex_value_nibble: "n < 16 \<Longrightarrow> hex_value (hex_nibble n) = n"
proof -
  assume "n < 16"
  then have n: "unat n < 16" by (simp add: word_less_nat_alt)
  have "hex_nibble n < 58 \<longleftrightarrow> n < 10"
    using unat_hex_nibble [OF \<open>n < 16\<close>] n by (auto simp: word_less_nat_alt)
  then show ?thesis by (auto simp: hex_value_def hex_nibble_def)
qed

lemma unhex_to_ascii_hex: "unhex (to_ascii_hex bs) = Some bs"
  by (induction bs) (simp_all add: hex_value_nibble byte_nibbles(1,2) mult_div_mod_eq)

definition claims_example :: "(nat, nat \<Rightarrow> account_data option) claims_config" where
  "claims_example =
     \<lparr>claims_balances = account_map_config 0 50, claim_prefix = [72, 68, 88],
      encode_account = (\<lambda>n. [of_nat n]), keccak_256 = (\<lambda>bs. take 32 (bs @ replicate 32 0)),
      secp256k1_ecdsa_recover = (\<lambda>sig msg. Some sig), to_hex = to_ascii_hex, from_hex = unhex,
      db_read_weight = 25, db_write_weight = 100\<rparr>"

definition claims_start :: "(nat, nat \<Rightarrow> account_data option) claims_state" where
  "claims_start =
     \<lparr>claims_funds = balances_start [(1, \<lparr>free = 100, reserved = 0, misc_frozen = 0, fee_frozen = 0\<rparr>)],
      claims = [replicate 20 7 \<mapsto> 500], claims_version = None, claims_events = []\<rparr>"

lemma claims_start_inv: "claims_inv claims_example claims_start"
proof -
  have "balances_inv (account_map_config 0 50) (claims_funds claims_start)"
    unfolding claims_start_def by (simp, rule balances_start_inv) (simp_all add: holding_def U128_MAX_def)
  moreover have "owed claims_start = 500" by (simp add: owed_def claims_start_def get_claim_def)
  ultimately show ?thesis
    by (simp add: claims_inv_def claims_example_def) (simp add: claims_start_def balances_start_def holding_def U128_MAX_def)
qed

lemma claims_start_validate:
  "validate_claim claims_example 1 (replicate 65 7) claims_start = Inr (500, replicate 20 7)"
proof -
  have "drop 12 (take 32 (replicate 65 (7 :: u8) @ replicate 32 0)) = replicate 20 7" by (simp add: drop_replicate)
  then show ?thesis
    by (simp add: validate_claim_def recover_def claims_example_def get_claim_def claims_start_def Let_def)
qed

lemma claims_example_store: "accepting_accounts (claims_balances claims_example)"
  unfolding claims_example_def by (simp, rule account_map.accepting_accounts_axioms)

theorem claim_paid_once_witness:
  "\<exists>s'. claim example_frame claims_example (Some 1) (replicate 65 7) claims_start = (Inr (), s') \<and>
     total_issuance (claims_funds s') = 600 \<and> get_claim s' (replicate 20 7) = 0"
proof -
  have i: "total_issuance (claims_funds claims_start) = 100"
    by (simp add: claims_start_def balances_start_def holding_def)
  have "balances_inv (claims_balances claims_example) (claims_funds claims_start)"
    using claims_start_inv by (simp add: claims_inv_def)
  from claim_paid_once [OF claims_example_store this _ claims_start_validate, of example_frame "Some 1"] i show ?thesis
    by (auto simp: example_frame_def claims_example_def U128_MAX_def)
qed

theorem claims_conserve_witness:
  "\<exists>s'. claims_reaches example_frame claims_example claims_start s' \<and>
     total_issuance (claims_funds s') + owed s' = 600"
proof -
  obtain r s' where "claim example_frame claims_example (Some 1) (replicate 65 7) claims_start = (r, s')" by fastforce
  then have run: "claims_reaches example_frame claims_example claims_start s'"
    unfolding claims_reaches_def by (intro r_into_rtranclp step_claim)
  have "existential_deposit (claims_balances claims_example) = 0" by (simp add: claims_example_def)
  from claims_conserve [OF claims_example_store this claims_start_inv run] run show ?thesis
    by (intro exI [of _ s'])
      (simp add: claims_start_def owed_def get_claim_def balances_start_def holding_def)
qed

theorem address_roundtrip_witness:
  "deserialize_address claims_example (serialize_address claims_example (replicate 20 171)) = Inr (replicate 20 171)"
  using address_roundtrip [of claims_example "replicate 20 171"]
  by (simp add: claims_example_def unhex_to_ascii_hex)

theorem import_claims_once_witness:
  "\<exists>w s'. claims_on_runtime_upgrade claims_example [(serialize_address claims_example (replicate 20 9), 77)] claims_start =
     (Inr w, s') \<and> get_claim s' (replicate 20 9) = 77"
proof -
  let ?cs = "[(serialize_address claims_example (replicate 20 9), 77)]"
  have d: "decoded claims_example ?cs = [(replicate 20 9, 77)]"
    by (simp add: decoded_def serialize_address_def claims_example_def unhex_to_ascii_hex)
  have "\<forall>(addr, n)\<in>set ?cs. 2 \<le> length addr \<and>
      (\<exists>a. from_hex claims_example (drop 2 addr) = Some a \<and> length a = 20)"
    by (simp add: serialize_address_def claims_example_def unhex_to_ascii_hex)
  from import_claims_once [OF this, of claims_start] d show ?thesis
    by (auto simp: claims_start_def)
qed

end
