(* ===== verification/Claims_Table_A.thy ===== *)
theory Claims_Table_A
  imports Runtime_Types
begin

text \<open>
  The rows 1 to 1500 of \<open>src/pallets/claims/src/claims_data.rs\<close>, in blocks of 150; \<open>Claims_Table\<close>
  puts the blocks together and says how a row stands for a line of the source.
\<close>

definition claims_data_00 :: "(nat \<times> balance) list" where
  "claims_data_00 =
   [
    (0x0000000484f2217f1a64eb6d24b5cee446faeae5, 228411278824),
    (0x9760a49499470c9538b9a754c167e8a204ed7cbf, 359454329927636421),
    (0x4bb62f75328b096d9cbdecfdfa158a6e03ed1666, 37270841493938493),
    (0xb57cae748c618ab8685a8143890c61c62fcd0f8b, 4998236228359111),
    (0xf6e454836daf89466dd9aa98dc550b7afa183e4d, 7041811746698349),
    (0xc52dc5d3511bb6e4f16ac55f055a2bc8e97b14fa, 16925768534137674),
    (0xbf1f4dbbc3ce58179ad839bcdd784bfdafe4126d, 4751101489754626),
    (0xf4ed8aafc9bcae35db4ca9705c950f190b7d1e92, 24521796264838673),
    (0xd11eb5db7cfbb9ecae4b62e71ec0a461f6baf669, 104974731368241508),
    (0x526fe4f6f03cbd9e580537af29d01295da707f4b, 217879788441727600),
    (0x6165fd87c1bc73a4c44b23934e9136fd92df5b01, 3535233849213440049),
    (0xec87a3f293123c0a4b5e158ebade8c849d197339, 121749676519933854),
    (0x92ebb63e76972944c5d9ff19ee8fe035a6ed2150, 117005325540342062),
    (0xd3474bd2f558b12e83810ec7d8af14f2d1d08137, 317066067847271783),
    (0xfce0413bad4e59f55946669e678eccfe87777777, 107762991480259341),
    (0x84098271fd08223af4f15154d33dcc51fb717f53, 66032217991949584),
    (0xf6168297046ca6fa514834c30168e63a47256af4, 155518391198233224),
    (0x502bb5979a85d2721d5025569164516f45c6c01d, 2712321403220093),
    (0x2ca3a2b525e75b2f20f59deccae3ffa4bdf3eaa2, 3680834996051646570),
    (0xd17615f52820abe624c387b497d3ff322f9c692e, 10930273758979734),
    (0x4af4f95603f1b14f78bb5e73606965cfe5e0b322, 91887333068642308),
    (0x63acb57b970af5bc4b5b23ecf5da4f60cd93ee00, 16368452001092704),
    (0x6c8a70bae601e97f2c885f640d5c35b2a1e805e3, 99033806332180769),
    (0x36cf7f9c05a686935ef6208d362ae3cb0746f7af, 39707033075305250),
    (0xca0eeb0cfa3435e819fae63a7a8f420a2906f6ec, 68103224933553336),
    (0x6a9ee69b6781c18164ee9f7c58f1763bcffc7c51, 131387245623683436),
    (0xa143d719a4236204e09f69c3c25e221242abe570, 105404800354468286),
    (0x1bf8ba061664339baf1e1d016d8f6cea9455f404, 29440847969808156),
    (0x7fbd935c9972b6a4c0b6f7c6f650996677bf6e0a, 46642930049616358),
    (0xc1d43fa553b9fbaa95637d28d39862dc339db0ea, 52025919389824257),
    (0x560cd6b5772c69efe8c36ec3e1f8af3b95c66b44, 82089748506121832),
    (0x8b5a490f6c17449d44994b403df5ddac1e0b1294, 72196822837711619),
    (0xe5ef008a6ed9beab51e6a23bd0eeb2a27f38a74b, 45208604175354064),
    (0x17807d5c8024aff6b1bd7516f230a77ecf63e89b, 19361232079722546),
    (0x004c01bf15cac0f93b1ea7a24f416b0daf3cdcef, 87760988101214163),
    (0x9617292336b588b5bb174c5e845455400d907471, 91870209091921564),
    (0x7a1483dd96f48d292fa61afbd279fafcc63d7c56, 114951987362727312),
    (0x1bb6e0eb3cc94d321789237bb267fd15f44930e9, 33480838457171032),
    (0x6f4e3e11cc67dc66ea3108f0ab50fd3c1b8722a9, 16360764741112286),
    (0xbd28d5136ce33fb3fb1fad3b37510a025e90a892, 4555668926491171),
    (0xb6b90acd30b33ec6737003abc2b4aa4206ef05e7, 38916695280260908),
    (0x91aa505769bcea5dca318e2a2f3a1095a804e865, 11270995497432013),
    (0xe64c25478f0ebd9b62f8e73cd0ed20d0ad54131f, 75064787365997523),
    (0xd7fde832ddb98357e899ef0a27fb2631ce775026, 30484914883004026),
    (0x8bc6b3fd67be8d0ad383b71e6f6b1fbafe0716e8, 17065076075259180),
    (0x616b0b2d92dc4140390af3f6336445ca96ff6424, 658781540158961869),
    (0xd2d9c47eb5a5089bbcc16540f829fcc42c4d50f0, 26262254249262394),
    (0x150d4f19e2f26e067fbb3e3fd6f56fc6bcb9d5b6, 77525399550106411),
    (0x0cb12233a9b7f0b7d20ea803165934fe9190631e, 31409150384650794),
    (0x1f6e925125bc90d812afb0b17b5cb48f040c112d, 163985391992521263),
    (0x083b751a531df05228cbbd419113f8892a39d8f5, 199100900717178716),
    (0xeb959caad3bb6e28ba3d9312a8a7ce745767249d, 134935577988806485),
    (0x9965ed3f7397cfa36efe78f6bf0547ae59dc673e, 152870306256781425),
    (0x3b7e93200d37d838ea466e8ced97752a6dff994e, 21356963850535615),
    (0x941c9b91165f3deced2d9b29cc96fc3dbb809879, 1091383386141065982),
    (0x9777daabf322d38af7a49a66dc55f3086127baea, 155057810099160250),
    (0x80a20e73bb079299215d2da5482636070ef9dfe7, 42147664747197622),
    (0xc47bca726471967b06105873f03c9e1261321664, 107805137713063985),
    (0x26c16d75345e10f663c10b7b5808480164ffd64d, 2889636144454871),
    (0x69d2bc658490c7ddda797d398e862ed4eed2eb80, 178286093814461021),
    (0x38c848ab1c28f503d2a7bed108419fd60a47c292, 21639824967095972),
    (0x78d79b027e11b21e13a1887fde77347790b8bca6, 20254439650588456),
    (0xf1c425105bc866227004f53aecf28c77db48625f, 7567282584762895),
    (0x29dcf70568785401574c8cd06c07b39e26618bb7, 5941406902079832),
    (0xecc072714365ee2fbd2e90c752c07a95641a5fe6, 34107847343785588),
    (0xdaa80a4f8237f6728feb901c04e7ab29c48e9e1d, 28648405821491227),
    (0x64ec24675d7bbc80f954ff15edd57d381f5b3e1a, 260717770735167850),
    (0xb78fd9e442eef5f34c939ac9209319146654a361, 18404926669212856),
    (0xf2670ebdd32ead8c41bc627cbb95f3e9c4a68393, 6990157593526726),
    (0x973b79656f9a2b6d3f9b04e93f3c340c9f7b4c6c, 4277673099916606),
    (0x5d56a3e85c52b8d3ac595a3922ea7e1a3ea948a0, 7693882040107652),
    (0x79fa12e26e5d7c93dcb3d759cf62d7b6067a9444, 32760563353021669),
    (0x835a4044291c94e60f71ba6bacc437dd0d080d1a, 22802645179866969),
    (0xbbe167e5c3379de355430dc168d098d7fdcbd2d3, 34687926494468151),
    (0x6d553fb941ec883fa2484e80bde1ad50231e42ff, 91589554246442394),
    (0x51679136e1a3407912f8fa131bc5f611c52d9fee, 18881594132229980),
    (0xdb41171af6c39ad4785cad0e683f9a61a2129e8c, 95424890887842893),
    (0xd879ca8459d31cc512542bf6d0b64467de97ab59, 23287151909998997),
    (0x4b37af112c62232280c87a5e71fb0ce21b7ef407, 226885399381508561),
    (0x81178b143737677629d61d47199d76a32b537d96, 159572097536994946),
    (0x2debdf4427ccbcfdbc7f29d63964499a0ec184f6, 2509948499234911825),
    (0x381c57356b68fa4ccfb9804003034b0477cf56dc, 31035989594069527),
    (0x4f70533a500f0d9dcc3bc92a2e74e5a998f4f3a3, 46262595583055957),
    (0x5e1dd88ffb9a3e7abd2e92998f6e9e13bc266ac8, 94276602703574448),
    (0xa4802ffc08dc8cba1643c69829cabd705e1891d2, 21508920450288684),
    (0x72d0d9c1026494e07189589e1b531462f4deeff0, 69302803099789375),
    (0xd9116827b463ab5886262a6b705c858dcb75a32a, 20760560321319291),
    (0xeda39af25b25f179bed410ecc6d33060952b7db3, 210428483946741339),
    (0xedc2fdcc98b72e6e0406e795e485f1665ec8cfc6, 63060606476750735),
    (0xfd432fde40256cf0afad2a9353431c62f0c0f8cc, 80443506715303408),
    (0x68a335b5ebdcb62567ef548dc08c8e61ac07b153, 21593851060738908),
    (0xb7f6227f09cf8bd2c8897c71d3b980f42ac95544, 26833860533681509),
    (0xbdc4d451dcab410dca2699fce2f25cf20f7ab61d, 32632911260174133),
    (0x9b73f904995230750f92c8a4d26a6cf42c0aad51, 8860018521461507),
    (0xf2adad1e054f788412af20b18f3a0cdf8b2e208e, 11348404194811187),
    (0xc96206fb6e4f75734148577dcf137186bed2fb2d, 89568113895287736),
    (0xdcf81f0b32984c32433cb5f58365543244bd134c, 39736403462905963),
    (0x19c1500e74f915333bd249e613ee2fadc6348845, 19687905994013235),
    (0x7e21d40ba5ed1a483cb02a8ef4066c81a1cd6937, 118513852098420089),
    (0xe99609abe4594b94f6c4cd85aee2c5f14f420eab, 21069708222193539),
    (0x5cc688704bd00fac6e9081cbc011810adfcced02, 103715710656254498),
    (0xba46868f49182b521b71bf9894d24da7e969e286, 109450307070182623),
    (0xf8b51712b236b53c458429e9642743956f11b98b, 199167384443477205),
    (0x5b71746b96e9d2986f8a4305b20e1ca6f9247d69, 40753879889491413),
    (0x22cab81e0fee2bad5b015dbbeb6a374a1b8738de, 10659111056097415),
    (0x1ea0d4d1f38700ff7102dee483d6ca3279be441a, 41240337723481369),
    (0xbe888884c76d0e5d30ed0651fd45483203d550b2, 5006477183134666905),
    (0x336d4afd4c1e0b82a2bb38859c234c54edf0a983, 130971885068412528),
    (0x636310779abdd82fd261d442df1a4865cfb20f88, 6662036496552376),
    (0x16f1760ed9321eac4788514b1e5cce598ab3c43a, 109655946274469943),
    (0xc16042528e780c05b23c722fe787b30b83300d95, 234403827219352672),
    (0x963d071201275fd5fa3dc9bb34fd3d0275ba97a7, 108143725034498470),
    (0x4085e9fb679dd2f60c2e64afe9533107fa1c18f2, 103755609232930275),
    (0xfaf6feffee93ef663583c140a4f44f08faf07609, 4754701715903831),
    (0x9954c7a44b705366f0347c36ffe692e65c3accfd, 36633247972841996),
    (0x1f458a9be58e2f8585baa4b4fa07c5b2ae255752, 95799293303935091),
    (0x058a021861fad3c57a389e89b52b8734c0d9685a, 18989919942423388),
    (0xd71a83e47d5eead6dfecf0d1b479f5787d6e00ee, 40229132922420436),
    (0x9f64d53981e317c102b3c591d75aa1ab28baf599, 304970371060085666),
    (0xa47c0b73ec45a428ab6902c027481082d6db1132, 28399746428023419),
    (0x35c3ccbbfcd78f2b3581260c5464a74e58d27049, 4349505059037663),
    (0x156a0ea9035bfe5a712d4fd88a39a5d1ff64f472, 2624282157116711),
    (0x4d801db56cfa5eaba84f6bc79e5cc6d8f2b5c4d3, 19037502151498221),
    (0x6b0e004266b722d05b3f79a573efe9c44bb909cd, 28515642115445127),
    (0x86f0f2c5500420cc751af409b3a8a24bc5ddfe45, 133136602283913622),
    (0x93123e0394ca6323611c910957553876a9629571, 9711058991993891),
    (0xba87af3ae788b0e97536592f49d8e2824c011553, 12984040405566923),
    (0xe3a656b2d84b391f4c1a8d8ab53f05c9c98c76a8, 11917663954701673),
    (0x72ea125dae279a481afd0af45afb1c6209224b4a, 358053915261725769),
    (0xa80a99987b81d4e2090f9b4a2a789ee13f2d2a8e, 23005334184925313),
    (0x2792453292fdd1d52594a783f131462f12bde7e5, 183501449505474566),
    (0x872a95acc5fdddd76c444dedec1effb131afda7f, 6739484349944142),
    (0x652022b1f234aa39f5dd7a5ff1162574fd4a9646, 13289578960013101),
    (0x5f071f2ce06084811be5b2ef2e9d2773f53d32cb, 43444817805626840),
    (0xb9888dd3fa1069220ed53089230cb543d13526e6, 35586414263624233),
    (0xe764cbbd0cf7fe67095bf13a118fa4b577945d6b, 8162296307886648),
    (0x5d8b5ecc36c110420fb7dd1a6695d65c7cc4d807, 6724380031522506),
    (0x8d36e1c11acc474a8f852ab3e931e7db82c93a5b, 19812099594541743),
    (0xb27ad28f060acd52b01a8d16f379c698459d89ce, 16492816819867553),
    (0x301481d22a64e7dea6c44c68ad3030a4132c81c3, 11959116025774279),
    (0x213f6b2680dce3e4d0924acff3e4e34520ef9ba1, 78632366193480755),
    (0x0c40a880ab0c51f17b62405bc0c6173e9f11d3cd, 32361974462359612),
    (0x9d2beea6625c1991c796c498b93842d9e09cb6d6, 74581486118034373),
    (0x5b9e49d85aafe77c192d4f03b58d7c3e40ffc08b, 28607734476230330),
    (0xd2be76743fe4ddc1bf8caed6b122969e31529e25, 41162287263434331),
    (0xa6f8f43b44011e5ff0ba15d8a4b678a8a81cce23, 11365261087421583),
    (0x8a089e873a99aa35846b5136724799c24f8e5887, 6437578710949753),
    (0x86a529f970a530c22392c8e920a745030838737f, 5792265477104779),
    (0x34eff58803541d210a7694137d5b9717b73b68ac, 27939599182512870),
    (0x4468dca9fce9f4c5b39851de46af225b7e24e11c, 65342905395838442)]"

definition claims_data_01 :: "(nat \<times> balance) list" where
  "claims_data_01 =
   [
    (0xead17040b9a9c489cfa8357b02923e7bc551b4ce, 3313319498859664),
    (0x03d6968f256d052e9e7777361c3ae4bd266088af, 4971383008542787),
    (0x42a1c589f45089650119a1c24a763b668e7219c6, 7285099791128846),
    (0xeb73058499ed6ec323c4da4ac6769844c30bd9a8, 161891635708641998),
    (0x518d59f99e4c21901e0f0d9f3b00d93bb0058d69, 15655285422094474),
    (0xf8ef378fd1a213c0a54a271a153cbc32424485e7, 319442444039711332),
    (0xa97704ea492e379aa443f2109cf322fa0146ddf9, 22245312566956851),
    (0xd2a67a1b56d9e2a60548960359bf525a252c1780, 36082747980415921),
    (0x7d4c4d5380ca2f9c7a091bb622b80613da7eae8c, 152331371329876175),
    (0x125eae40d9898610c926bb5fcee9529d9ac885af, 10725029316038233),
    (0xe3bdda386209ca1a1d615e917e1284b995a832a9, 6652913714147531),
    (0xc277513999546d44b08413381c01c094e56ec053, 103935595799047968),
    (0x1fc79953d547394f90ca739f178ef79fbd46423b, 11306696314156015),
    (0xd8d1bcdb29fb7f87db3e14c488588171a27db2be, 31245200756136983),
    (0x91376a70557829ba5d5c85360f786452b5886329, 12988316408883526),
    (0x27f33f92b16b88d7e9730d325f5eae8920c75ac6, 31488503956971217),
    (0xacf63ef8e8aea1228bf5f59d0bd9869bd3bc3a67, 31387104124377579),
    (0x74f6573bef82a6e8791f43a1a16e19345b144bfa, 10603955209749511),
    (0x8f978e7278da5576166b8588a4ded540d41af64a, 56922728775391700),
    (0xda3715f7f82e0769ca118680f79bb48dc312d40d, 8356942242777788),
    (0x9b362014da9e2d24e7d744de791faa00e6a8f9a1, 12557481491538813),
    (0x672926d500e20ffc44ec712aa86277a85f72f4c6, 7700720955515807),
    (0xea225fd04ab56e89f8c993064e6979fd9527441d, 24150429510874109),
    (0x1b906f26c0d33d9c08aead2ac4d0c1c79e807b18, 124693765495760658),
    (0x88317874cfbfc01771cad6d10789029ce8ec9e2e, 55047444840869165),
    (0x192f6a7e05e51a5b6167f799fc22f7b9c5dccaf9, 4920012405849142),
    (0x00a61d30ad2c5cc3d5ada38734c980540b404184, 38883203481306720),
    (0xb59d676f5971d86eb1ca8573b0b0102c8deb6851, 20919973021702977),
    (0x3c37c0738c273756d508ebef1010a77f9a1bd181, 11263500267079953),
    (0x49a08f0981939669767301838566de5b1fe67633, 10338739294652248),
    (0x0c80b51912c089bea4c5dc8accba11cb0e8aaf41, 12746630648576131),
    (0xe6cd9e35bacf53e81cc1c9ac272c4e5a02cafd7a, 5344918726101586),
    (0x56db2160eafc73050fad08fdb8159c08d11634ea, 21588007464508685),
    (0xd9d5437eabee0cac2f4f28c993316016d745377d, 2457173930076202),
    (0xd04c527562a68943eec8766e159341005c830fa9, 34912517628989025),
    (0x01e99b277d529bd08675294560abf604c301f278, 56947911276245997),
    (0xfd68e3ef807230c2b7859a47c8a33e81a439bbc6, 100011640613864992),
    (0x6cdbc995a956beae9fc950490ac106f9e00476d2, 24418014500013700),
    (0x1a9ac2fd00e6ec96094549807fb96fd26ae84e2c, 22269586539650934),
    (0xe72f5f91e693e36684270299b73575540141dd2a, 69693482764533843),
    (0x5d38594a188ee4cd60371a33fea4da82ef9b342d, 7638086043549655),
    (0xfab5fd0a6df3f2777bb78a3e775e9d00609a1711, 103547153266184331),
    (0xad4489f64a8be791294116d3e99d2721c7f0a72a, 69171124559700326),
    (0xc6d947c08ba8a703c15dcc8692ddd105ca43ff27, 892656112002795198),
    (0x6aca5d4890ccc8a2d153bf16a9a5b0c5560a62ff, 23068767441592161),
    (0x8fb66b276481ad68928056c1ed18c6e37f1bdb66, 33884977919792139),
    (0xe15d89aa40ee740ab5f708d80691ea03ab1028c8, 47243088957068566),
    (0xa186727fdaf90cd7d9972572e32c618ce04206f8, 299325364443488203),
    (0x9c0af141661a24e2c53cb5919ef897d934b800f9, 1152075948674093),
    (0x80e199bc1b92c44e015307949db4cfa4b65873d8, 59454558184634949),
    (0x7923d1ba6e7776d5e096bdab45223eb4dae0c114, 13279339616289394),
    (0x81c3715eeb07f41ade441c2158feb98fdc138c2e, 61988097312754095),
    (0x056c23c029da306b0f73f3e005f7a31bfad7af4f, 117424780485795237),
    (0x2d15dd63adcabc12100707b62ecbf43b136074a3, 147672716243859532),
    (0xd91b73c3594d36c0e68677478270901fe8ec35c4, 8229340500787028),
    (0xc6f9b2b619811a7a5b00162066b2e3f9e9a4aacd, 65679301235138613),
    (0xbb5d838ddcc55b287e290622d229a360bc3130ee, 2509090038840980954),
    (0x6c4cd639a31c658549824559ecc2d04bed1a9ab9, 42072212561048193),
    (0x9b4f3de5ecffd6b9ecebd20001400a9e194113bb, 8500000000000000),
    (0x2851857a4a55db6d462016f8787fab9d9e710b60, 88191249144028211),
    (0xb52d3213e93383b0ddaca721388885a662866f2c, 76213704374505469),
    (0x3cadd2d8984768490cb54ae11750383207160455, 13969920796889411),
    (0x25abdaf98e95b8da3b43d0b19920bff7a5301195, 277083507352180702),
    (0x43f824adfac29a2bd611545540965efc8ec2e4ac, 115527098318558182),
    (0x843d261b740f97bf31d09846f9d96dcc5fd2a0d0, 24521906790904691),
    (0xde5d8bb61f7088e84bfd5844315da684f7a4052b, 36068557878795484),
    (0x9e895cfa8d7cee3e77191b81a0ac76a6932c8e28, 24387424396769862),
    (0xaadfefe64f5aff4d27a5191eccb74009ae0d4b83, 10177321641552786),
    (0x8df5d18f91333f5591e9331b460d5e501c43b4b3, 10330522394628536),
    (0x6d330800687ee1b85d4af30bff6bc41638f21524, 504331590574529831),
    (0xffe026112ff700f2c3d1e47423c22288cf85ac16, 90186217592144014),
    (0x1946102fa977780a0c265b6073f206c2d6d3bfa3, 869740425702733684),
    (0x58507cd924340530cbea0883786396e1e9b2c0e3, 71272703552491836),
    (0x0c593dd4642da8e7500abfe868a064b7d220d69e, 128964762316391024),
    (0x790bd34732b6c820f9ae9fa3837546045133095a, 183029392148227467),
    (0x2f5fbfade4b0de5a4df6d9661b077a7faff54120, 22002154178121734),
    (0x3054f483ea0746c497c44bf4ab2468f133ee4190, 403537362562024216),
    (0xb97a69ac4f71c5d025a38fa5b6d640c68a685699, 12519383690933433),
    (0x82a1d1bae02fce7f5d311bb74767282b5830c0a7, 12631000000000000),
    (0xde92b4eb8cb2c1e76d6ce9a14e9235f133327878, 48750431539670002),
    (0x2e3b5867065352203a5f8d90f60cf43a41722447, 92256953236230512),
    (0x7cd92676ec1a98a50530dfc2f9ecfd522c9c288e, 24500391764448314),
    (0x1296d4a9fa924a289c270c4fa09e5332484c489c, 11237623054664821),
    (0x1415240783a2c2467b0df1e6be63c14220891f6d, 11292153059564173),
    (0xbc5a2786142f884f2c42be1499473d078c0cff02, 183341822166996651),
    (0x97d439665012177b7502100dd4100c68c017f507, 11371937848346170),
    (0x2675a71b1ca94f10b4bc5838ecf887de7593a28a, 2932372318743051486),
    (0xfd4520753366d35e5dc2f76d52dc58a5261ed263, 2300819367705775),
    (0x39c42c33d506d94a8996d1c2d0c7a6457f5502a7, 23691644158326389),
    (0xb87d11540b4d7575ad940b9ad5c99c7ad9c1340b, 12407092006580637),
    (0x07986b0366a2672a87c924823e648a3665bc595e, 73613182390364470),
    (0x15b61f9a30e27d0e236613d1fcc83f9aba9cda64, 11894741451687148),
    (0x42670df323739b9ade7ace6bcd8e1110b2579d22, 18933006357868997),
    (0x6f75869687be7376c4fd99077bc7c3c7d73e6a67, 266889066404140904),
    (0x82029eb50096a301bc7d3d16d32442739298e147, 13379405535120159),
    (0x68c8e1ebac4b602ac41436050e2f5bb09728d458, 25424556654394344),
    (0xad254603ee2710d2c6906fedfb9bc3717a246b87, 76984945377706760),
    (0x826568e11040e52770d0c05611bc463184c8525f, 88327250280237343),
    (0xd79a3323119dfe910c6ac7c506036be6ebd44417, 222743604401829960),
    (0x35593f99f9e8b7bad37319129954ac155288710a, 13452525505424671),
    (0x6dc0489ccb74975ac64a344aae21a8a89be6c9c5, 19496055990058540),
    (0x1a76bbb3cdaaaa675e97e99d95851829eb3e661d, 8872548411650264),
    (0x6007837ce3d2a76781faf6893cdc256372b5250e, 96022493432329721),
    (0x804ab9423083a80ba5e8bdad1cbf2c9f2c6adb80, 130055230072684613),
    (0xc25b5099fa45cfe09109d7fe82e3598ea09c9930, 13473979059221295),
    (0x88efdec6d2663c48952f537e0ca46419a6896a6a, 162415561865701452),
    (0x62f22afb5a4deb1a47bb6c81667a9e1fce6639d5, 4462485363289967),
    (0x99433e31de712efaa0ba64cc9411fbbdb9434c5e, 13724282412308232),
    (0xee5093fe0bb1cff37ca4b51f151f7d609ade9867, 20848409047130666),
    (0x619822aece3c440d6990408af27cca4118c10ed3, 202483194285939941),
    (0x2c5b8d5897cba509f1e0b0e184423194c5ff5f79, 31330628824325428),
    (0x3bc5773a5b79971102797b16e23b3eafc3c32f78, 12869115001351169),
    (0x8cd3bec93d81f900f4faef7f40259d392b616a7e, 86996299965707256),
    (0xcb1703717e125d4db28f6e95afec2d8d3c2d9ff2, 458887249360144405),
    (0xd4001093f8be54248dca00bf5bb7a4ec1f5d61e6, 1181706320001515005),
    (0xa508654ea91a30a68274387376804ddf33ba8fae, 11501759392928392),
    (0x307cd984562561ff9b4f8bb91453522c94d40dd6, 10218020949152965),
    (0xba181deb98afc2202202c9aebf26b18f46d70497, 23229850522152654),
    (0xccd05dd44c4c3425c4fcd174a88a2da7aa3f5a37, 136638423756140530),
    (0x6fcc02c3fd00d9e90295f4b0e60562fc2bba6a0d, 38993522005258719),
    (0x244fe02fbcf4db4ad96063b161f00e444fc54011, 55081066544223359),
    (0x2173948d935857564805a48b9c878da29fae380d, 17542301416940649),
    (0x49192a0111911792896fb7351686faddafdd75da, 113246942413550539),
    (0xf581cd874a1bfc0536a90c456ce44621cf500309, 17278996990882806),
    (0x29fb08a81867d8f61bce689d2dc366687291e747, 18640640768660886),
    (0xd8fcfcdc37ac8f381c46f491732be4b31dc5d0e3, 42542048191561969),
    (0x0337dcbc6f5f2c2ca665fdd487f7d8f23c305b08, 48598374862843331),
    (0xa911ccf5f6c7bd5fb25188d41a536890c3c8fae5, 1190764950745032568),
    (0x8bc50222b6f497017d41f9157571beee825b0b84, 10011795542855215809),
    (0xb707bbb632d01a6901fc8fb66d076b9453570bdf, 4546894781087123),
    (0x062ecd1694b747c82ecf93ad285cc084b384d9e8, 58774234940193870),
    (0x7708da81382aee4e535c16fbb87154c3b80ed1ea, 11200502019312843),
    (0x3fe444f6007d02fa8b6d8526f9cf1d300b7f43ed, 40473820465749678),
    (0x4cc9e35bb7355f7b07e2bbe6c1af7780763d1b9b, 67131030570009008),
    (0xb9952be3dc8c62de8a9da206de5b2c63aa43653f, 25107312575229707),
    (0x335c0552eb130f3dfbe6efcb4d2895aed1e9938b, 488062498388625176),
    (0x320ce8452e013d3c74c1fd31ef8d61748a9d2e6c, 38177994148411401),
    (0x9d3724a89423b9d6931a349817a81c7bba463ed4, 174960839773568656),
    (0xf9107317b0ff77ed5b7adea15e50514a3564002b, 28763909160826995),
    (0x40998d3cd7b03216b3a0d473926a9d634b66c7a4, 2166152956560895),
    (0x843dda384784e9b243e2867f8be40e22b583ff40, 21175426535793538),
    (0x075019ba7ed50f0f7dc37f49f6c7b204ec9106cb, 1954832916609886),
    (0x7df6378d01ebad5d41f76ced301d913d443f2c7f, 17288668157281152),
    (0x63a7401bd39218d4f00500c63acd562fc94dceec, 423684128747036060),
    (0x6537315610bcd9bb343d163b148301d88c8d6ae5, 24680433527565851),
    (0xbcde8cc87a500d087cd44efafb70490572d1bace, 160),
    (0x9c15f6f362f4da6b192adb5f1d54aae0a4748c28, 23214342788323321),
    (0xd36d6dae59bc99516b14eedd4710fe8452d3c409, 48628052872588870),
    (0x4a9c8cf5e21ec072c0a390bf0117aa0702039621, 492600504440480742),
    (0x83ea79b9f4cf4860862eabd858a9f82c571ea551, 747441342439128639)]"

definition claims_data_02 :: "(nat \<times> balance) list" where
  "claims_data_02 =
   [
    (0xa4c206f4aea1d0bbf1ac4eead8eaee66f97c081f, 25067196038048628),
    (0x679820c8efae41962f1697999f824a8b5ed3d3ff, 148081283727752237),
    (0x35bbf75e3a9dcd8ae9af485740697d289c6f643c, 54636759711981500),
    (0x128b1dec802ddf81681e3d6f113bd83dd852311e, 120001762278105273),
    (0x4e14171a451884c44edbe412b03a128d7e473e55, 13717832609374757),
    (0x0f6d31e844b168c0a433e22f553893c3d4d4a587, 21481775419144753),
    (0x29aff93c997bd45da5bc5eb6d95476be80e35fcd, 29189526501986681),
    (0x92c7e1a9a8d73cca2214d2fc291b6f6818a342bc, 2544649579556080),
    (0x635c5169468e652dfa1949b5244b79f722bf6fb7, 10166322338682431),
    (0x1bbb8bb26e71f414a98d9dc43e20acc7d1dbb481, 19446833756120504),
    (0xaa51ff4997ce7ed36e311b54486bd940a60f814b, 18768972437896231),
    (0xc65b01e0e2ba49eed974dfa31daa003eea8e4c16, 49142506733031427),
    (0x52a38af7d4000a763da8e6164286b59aaf11c51d, 11379899358409359),
    (0x1f82d2d48e69e2d46c547c0ceff646797ecaf6dc, 269544381561565131),
    (0x6be79f4203ad40772000375b4ab3fefdc608be6a, 5746859736591568),
    (0x344f89f76e9c8b09f409cdb6c6b42256c8b7c160, 77918656264853609),
    (0xe5a8654631b3729f73ca3503ba09a5d3e11b46da, 34306231245134584),
    (0x8ee63cbd6c20235f49fbf08c430d5ba1d889584e, 5582826367133019),
    (0xb29fe00cef00bcc11412ff605408eac835d93bce, 27047783781045301),
    (0x57d4d5e1b75d4b855adb0701b35b4182846024f2, 77286587449163162),
    (0xf486d56cce70c481b3455af901fcc4f03fee8107, 369732894146223645),
    (0xb52c1fc731089aa81e9b63df97815fc59a430c06, 25326726652676388),
    (0x7225c84e37474738ccfb094093fada5fd5c5f29c, 10854172665106320),
    (0x494f556f9b18e4f3f016ba809fb4e5483e1a0155, 18746055534263010),
    (0xeea36ad4123db561f4023099c237d20d69febb3f, 51379083153006451),
    (0x8b14d68927ccb4e079496ed1afdb1c23e6eabc7b, 13372820463648934),
    (0xe3d2283e983d9ec973d1e773358981a7e9c62409, 24929075590575153),
    (0xbae060f91a2152a4d2da3a7ca453ebc415934498, 34732802409066526),
    (0x880f8df4d7e3ce23db1cd4882684d110337c42f3, 1320994726509607),
    (0x5298ae7fff85fd522a5d2a96f41ab83487761eb6, 19058021203905096),
    (0xcf5e65df7abd58ed95703d7158afeda42477e8ec, 28947643839095203),
    (0xfa31f12bfe9a283bdc4e79e3695a397088da4050, 47394525850185802),
    (0xfe5c81b51c7b05bb6aff9965974b2e18177743ee, 13992648757050783),
    (0x4fab345549c6c184b8b867a31a122c1bfb2d085a, 23382901467543979),
    (0x9fbd26e2006e1d9efad3c222cb9d1ef73209716e, 12752159942140238),
    (0x655d259a8db1bcfc17d863c03bcb6d81710b4372, 74285541529530807),
    (0x31e75753f353abcf2f083f2a5c31891f51509ba0, 15798175477042741),
    (0x0d1bc890b355823943b7be8d73e3df39999fbe4f, 482872132493438),
    (0x23257dbb57c69b9334a2f26615dd0e086637964a, 80897892920690387),
    (0x289c1a136eeab35fb96fd1a5823ee350ee15cd55, 84308242743507328),
    (0x0fcf62edec5e1de0572dd10c2e6ca17a5037f6db, 16769179867207412),
    (0x1465b21e4233de13f634387b7330ab76392ebaca, 13333418875595810),
    (0xd111077f5b19ce9df42b92b8960a4b145117d43c, 80506763243865133),
    (0xe1c688427a6133a051dfd3835e80c8e8dc6d9baa, 2204228322199400286),
    (0xa298d4d2c1aa820667ed07dc4520e2cb09326de0, 3097887598438010),
    (0xb2551fe9ebec15ce44bb2e73ca0daa585ebeb40e, 25073929956954246),
    (0xda898dbfa486eb1223d5ef61b37f5f1424c5a6e8, 500000000000000),
    (0xa5b361d167c4f9927b1cc282065228388df45b19, 49032011636785698), (0x0000000000007f150bd6f54c40a34d7c3d5e9f56, 1),
    (0x0ee4e6d826e94d92a24cc4ca2e481773aa724b25, 44201020312454193),
    (0x40d80168b6663700b6ae55d71a8c2cf61d0c1225, 237664599411882481),
    (0x8065a40f0594285168e51535b4156b02523bfd8e, 9247239991629709),
    (0x38988bcff556b5fe5aafcad4f6298b4fa7b89475, 12656482274697895),
    (0xb90781ceb500f80a9c101225ed5451449a3aa5bc, 546858952157742),
    (0x187676c869ff7b7c72d48a22b469e37e6ccd0250, 59531009888650625),
    (0x63ed43dba5c2d9a1d1ffe30ac6b6f6b94e414ca4, 100004035688271397),
    (0x5545b118f689ab47da683112bfeb740a93ecce8d, 139334085171621062),
    (0x31cb7095a4af5824dbabd7871b95afdc657e16a2, 30759374863690051),
    (0x2f3670747f374e4fc0e9de5769a7167937496e19, 16822380797195739),
    (0x8705b8f1602d5a0de0790fce1b5a371aaa888826, 22798153274436356),
    (0xd073a15d57f958f8098ac87e421a2c9983885ac8, 5939018108663506),
    (0x5022f13ee9d464362a7abb083634174933db566f, 416251811526489659),
    (0xedd40c76c6cda091395fba06134c1b70f6309a36, 27593426115011002),
    (0xcf5f5e11960b2ff16a6af06397596e5fc2bfc89a, 102298330246870449),
    (0x7fdd760907a96aebfc7fb2633845cec228509ef2, 35745746846803532),
    (0x000006eee6e39015cb523aebdd4d0b1855aba682, 201623902628040733),
    (0xd0dd40aa51479b832381fb8403da28be753d4fab, 40719060089193344),
    (0xcee1b5df292f5ea23798271f8e1374d911fb4de0, 87254442276122804),
    (0x76b2a1c922b9739da4251ebc98d540a40ff8e05e, 327053563057910201),
    (0x61b0880f1fe67da38e5fb0817afcb991a27ef450, 46362567824),
    (0x6a2e363b31d5fd9556765c8f37c1ddd2cd480fa3, 15039213025221840),
    (0x70892d799f350b97106ae8b9ae603bcaf650a943, 80118129976170826),
    (0x514d51e4b6c01d56f02458d4d3ca008c4618bf8c, 87199564285844045),
    (0x3a35c9d30157b1c18fe72cd44815d639c1b37366, 10877933057239736),
    (0x6662a2c6a019aede9ea6046b5fc0b03887fc5e7f, 50166557125130655),
    (0x7345e98d015b2f56435080d4158aead8c992b4c7, 10868995372688854),
    (0xf714dc96969dc60eb6a74739d9d607294df2b70b, 27361054036828567),
    (0xae667ed58c0d9198fc0b9261156d48296c1bb3da, 102648336326560603),
    (0x6a21c7cdff24ee5b3e4063f80cb59a78d6945d42, 913820471944436434),
    (0x915fdc7b58155c95477e98d1271357242ede7538, 28850265020705425),
    (0x2281bb8de864ee1afefc026fb022c8bc2fc9ff3d, 9221395249694972),
    (0xd3b1e84a2fa4c9c9cc02cf3538c30fcb71d55e98, 11785201898357842),
    (0x9c63e6a4380b2681821cc58e0d5c4a090d082747, 225736853334779930),
    (0x39936bb7e8ca24b0edc2cc45a08656e3391eb548, 12453745247436031),
    (0x31243dfd425f118dbd32bad4103993edfbe521f4, 43618482481150491),
    (0xbd8152fc7f060c6555809f6eada3ce64cba4d723, 144204152075008763),
    (0x43e403ab4d1f9d0d6e61c44e9c389c6c5e7a8e29, 38389396392081351),
    (0x07b847a9148cb84537fb69800ec1c5ee682373cc, 7355763623946806),
    (0x324caeb861f9734572a2c7bc48022d1c57742fce, 71011281998687823),
    (0x37aa15e99aaa83107d8c912fd29699c60da5bf82, 6829834538501292),
    (0xa992375dc77f77886b028bfadd45c2945f353da9, 31971521985739660),
    (0x6965f17d620ef37f603a89f18bb32e8ac85e47ca, 28804278270810759),
    (0xb67794f4b0e001ee8341744ae96595e997ada9dc, 8003201466021336880),
    (0x37343fcdb16cae9eba2ac0017a60b653983653b4, 30762737840675208),
    (0x59e45131e64bf57e71fe8c86421664337f28e9ab, 28843399006991062),
    (0x941c7609b8e1cd890c970070bace790f97721be2, 6313050701195886),
    (0xa7c865d8dc45f67eebea6d994cd95a765cdd802d, 755273125119629008),
    (0x6ef2f8d260ee634e1176782006127230e841ea64, 17571203741531039),
    (0x32c909157c5889ed6890da21055e4cea8ea91a1c, 90531911826300825),
    (0x5d2ecf419cc2bb3875ed4a1da69fa597469eabc3, 31252463627151597),
    (0x4e695843b8057987f2d432a7a89bb1b0570beb79, 40699130038258907),
    (0xf6145ffabc0c9474b84ed4fbc5f5f0b0e4022d59, 642958647860726118),
    (0x394c82976a57c4309138c072149ee57aea16560b, 55240572129686579),
    (0xa5fe4b4c9bd04ce7d79fc3cd5dc0d2f9b6b9c9a6, 12221022552519625),
    (0x5dca5555bcc2b57df97ee9368e001c3e7cdd2959, 14498962590293628),
    (0x32fef0524259f332c216c461e4ee4067bdac11d8, 140011316057715110),
    (0x0bf8e20be9313469fd41be142596e015c363b36d, 142823190222658145),
    (0x68da60f556c325586d31a1c8f5ff67e8e38a9900, 204865236890469560),
    (0xf06a4cbe42362a55b535bf14a129f96fff087ae5, 81202768596298300),
    (0xcaf43b095c2ad696f1a460edc6b63ccba213b890, 38824430115915735),
    (0x7e70db89d673f6cdc8a3810fe9bd851fd6b7652c, 5949640899926620),
    (0x8767c5124e80d6528bd3d46067f0b68ab8e2dcb3, 11729078524888308),
    (0xbafea82eb6886b43b3b4fc0d162902dcf944ed09, 8784073067272701),
    (0x2dee20e1c217da40086fc2427567307ea9353b45, 13716284223522872),
    (0xe50e18e7310e7dbf46c4ad924be6a03b3ccb034a, 10420592545075109),
    (0xd70a0b9e5f1717d2bb09a4aacea03fe4630133e9, 13994832132361712),
    (0x85ce0755f672fea5f67b8157e446d106f6f92465, 7426861641051575),
    (0x668d82fefd4aebf29ceccb8161a138a259f18696, 81324368271940240),
    (0x832cdf3c7fb0c38f95c8119b2b887d2db65daa9e, 41049229365936804),
    (0xafaf810821d9dde8baf2a2e504b0e6e5e0a3d2f1, 187563200473986353),
    (0x3addd5a240c77f7556f407de03e52c33ff4c4304, 11122375689830502),
    (0xc80abbc38c1deb2ed7ce2ae2b58400878e88f9ac, 43078478600553389),
    (0x02272654ca4fc2d4915d4ea63e04b9253a9ca6a2, 27557161790725973),
    (0x8f7b84ccbb4ac207a0063365b019d16c8dd2797b, 27000099862178396),
    (0xe79235caff6930244a09e0fd9b2fbfdf9781dbaa, 8371923340991465),
    (0xb8851ccce2a9e2e1b31336a32d67a7e694b92e03, 47261915775321184),
    (0x8f36258b7a8da6cf23eb6ff3f73f8216b6614d3c, 53320745286651059),
    (0x0ec0ac8696ad75943f9b51c49553ed3d8c786a3f, 10548163399631585),
    (0x64c0f51a9755a4638e1e890d1aafb04bb8e3cee7, 5903655920469096),
    (0x6cf3c0bb276292ebd829ffac229fe350821eaac6, 26968901421832949),
    (0xf74e28289476a5ac5cfe2885d367fdb1fcb7a7bd, 74616168384650956),
    (0xa670ebdaaa258311a7c33a5bf795f07b97c83430, 6350143879924276),
    (0x5e35fd90ae2978334b6672536e751f30aff2f4d9, 66824085494166741),
    (0x071e72900cb375114288dee22a23169950901bf4, 9968004790925594),
    (0x8ca8d2cbc07edf6512cada0d2573c8f4802a1989, 2005827959579953247),
    (0x09be9ab0eb61327d26904bae69efdc6633d5eec8, 26796283729890939),
    (0x72e3c536bd62ba9544c4f26218232aa2706058ae, 19145124988098644),
    (0x34ecfca1dd05f10bdfb2a6ea4678388a00791aef, 20787711204515188),
    (0x8be2828b1094fd6b9a4f90223046acad28e86e55, 2002095112217791277),
    (0x7c5abfe9aaee17094983e925ef8f5a26b2fa2afe, 11842150454473937),
    (0x7546ff64cc71df6dac61c865bea298da152eed87, 46876239453433534),
    (0x5c780a9b51d8358b230c4c92342cb57b1bcf1900, 40367457994061438),
    (0x4df10bf356e151142b4a9e08d6b5860c5a01044f, 28483920702508498),
    (0x04ba5167c8738ab997c991e195a2403977e3679a, 7307288703552995),
    (0xa902f0dd640ce8d96d5d6bdbee249b6969539c97, 4658537450385289),
    (0x6046d412b45dace6c963c7c3c892ad951ec97e57, 18712095212918941),
    (0xeb716f1aa892d5a849c5eb3b5f3fb82b747c865c, 11282585860730722),
    (0x1c9f32ea53f26da70e5936709a09c2d6b01bcebd, 3237363249954527132),
    (0xea8765488eeb718f44234cce744d277a98a96dc5, 506051540236781574),
    (0xc17caad48069eabfc58b89bb62d94913bc532e65, 315605082704976973)]"

definition claims_data_03 :: "(nat \<times> balance) list" where
  "claims_data_03 =
   [
    (0xec578146b22d7ef5f6e5c69fdde00bdaa5f0b33b, 272515418070382225),
    (0x5f3e1bf780ca86a7ffa3428ce571d4a6d531575d, 30802828608053856),
    (0xe179b1f58705f218f739e118079907a07a6072c8, 132366843788936221),
    (0xb48f8022dd9f3fc4c7db40d379a3241167853741, 80882449491822072),
    (0x4ddd87d956375aad8f239d955d5580fa6aa1f8b3, 31793414480044565),
    (0x586f1eb9a2007f4abea12398b8854bcdf897ca59, 67636365802375126),
    (0x93682caf7148a7bc8911437122265ceb2832ca1e, 126486285672099041),
    (0xf5a6e01a681aac715653fb64c7a3d6113768d816, 45083380400824872),
    (0x86515e78e4300f46af86d9b204170d51aee6ad91, 32080909072996084),
    (0xae8b31e6236bec753d01922bd7b6773287490c79, 52830785822433182),
    (0x49155bdaf5e05bf79b3338fce488f84a466d424e, 766343152861685336),
    (0x1c3ac1eff28301c1490d329292c01dcf9082576a, 540845727548278680),
    (0x847215ec9cf9b2b74bd0b430a556da7eb25f6307, 27050066504831503),
    (0x6d9c3ed804fafc846bd00e3c0c30648029ebd80d, 21683575960445740),
    (0x74fc308e9d275c589d5537dec29c9949fed8093b, 5717001476341393950),
    (0x960322065518ef4e43fa53d3b9735a677071c8b7, 23721201720346277),
    (0x0ddbb2076a2f79b349b2692e2abade0d08b8cf67, 34586863179843978),
    (0x7450b5314370e420c770d61c00a462cea805dfc4, 7772061496783377),
    (0xe59bda0fb4856a0bb81c15f20e48e362aaa6a9ff, 27275270046552404),
    (0xecb83a4432ed3b6e1412e7681673dfe12facab45, 16634037298732846),
    (0x6b40ada4c4937758d3117076a4220d940b2b4745, 395215251622544800),
    (0x1cbd45ba9d6efbea238ffdc265b701dd1a4d52e5, 24723089926483391),
    (0x059839b5a2727776cc8f94d659dab1bf3a2f6081, 65020086146629513),
    (0x55040be8471b5dab774dfb6911a5e38ee085ae34, 5856500887909929),
    (0x1dd57e5db5a756003039ff41e79334df22168d4a, 187691231492582342),
    (0x6b87d62cb77e8eb4f0531619356bbc68550063a5, 11781172953567738),
    (0x192be5dd81b8bfdc253ea10e4f51bf9c8ea2c08b, 27349370094672474),
    (0xdbbe3b0943bc52a6e9093d95887108df2de71588, 14642451145367834),
    (0xa451fd5fcc0d389e0c27ff22845c0e17153f7dc8, 102051482177179332),
    (0xdfd2a4ac3c206836244d6f43b69c8231b99d7275, 28014625838456007),
    (0x2ee66b4d036376e86cef87f450f87f37781fab88, 26428368977368023),
    (0x237ec64cc27196f6a4c16abdbb558b4c518400c2, 40430443087792483),
    (0x9186ddcf3b5243984a9a94e4dfa44f70e087048c, 9318583979536844),
    (0x0c7bf0f39e32105359e2b6bed91d7c3538c39f3c, 7099559070991867),
    (0x26f43e511ac2045cddf15332081f297ac539641c, 12166843759932426),
    (0xe489098f4fab641f09f48debe90321ec5a8567ff, 31354855667294010),
    (0x89b8992aec28d34ed8579fde2b10b872dd26e617, 1749345688347203),
    (0xac2cff4eb116a4d492c3bcfc1c629c4f1a24909f, 61030000554848184),
    (0x4fb7d1ebad509ddf63fe88ef6e0509950a1c7cae, 25693935643844069),
    (0x7f36fdb4cd6114bad86941dade3e38a46bebcbbe, 10422670578048856),
    (0x564fdb453d4a07fa61356f6bf4bccefcd6497bda, 12331897066729622),
    (0x3ea4c7dc4aabb87267073729ff4d1b529469931c, 139027834623869857),
    (0x798df22c5b481562d6104c38e2e62aac631f159a, 9207697207390703),
    (0x5d31a87df3d096be2f2b397f475d077b55a71d93, 30589868398592140),
    (0x3a60db96add6e41864b23afed27a050ff44cdf60, 52155394083362862),
    (0xe87faa61f500a65366e71aaeb2688e414ff2b427, 78754847944838432),
    (0x9bb2b10e005d3f319caffa898c56b27c455fee38, 636716554751756221),
    (0x725147c2bfa26fca5984b5ac1f7abf8719dc795d, 24880027990855716),
    (0xa48bda48cdcbdd257fa55b7b7985a1ba61d9e1f3, 32240369230480385),
    (0xce103add66435dd59f4e04645d2ffc663d874d5d, 14134543479530313),
    (0x65ab6bb9e3c14d6ac221a17fe66f01e3ce6566d4, 101471454072789076),
    (0x7de140657de51196257db7d296bb5005ef114d73, 168109733966672082),
    (0x3b21b13b99a903c37b62001d63864cb405f103bf, 69011122681435094),
    (0x5972bf72ace697e6ada7f8a80e9ba1dab4ba3b77, 75673015902108881),
    (0x3f66153d19e126da59ff24ee0ba238ef202e9eb1, 25890291707663477),
    (0x1e5d6cfb3eeac9c21065296927bf4d155b3d64c8, 97188173352286893),
    (0xad03ba0db46620f77489393a7e62e598cd7ea988, 248035786279656180),
    (0xcbadcc027d80d68771b915e557bf4b6ed67da678, 53398515899419519),
    (0xe88f42474046183f2367066cd940e74ded8085fe, 25824852381094905),
    (0x9721a3bb565a30e58aa06147d4450e28406f17f5, 74642137334109094),
    (0x68a6139688d905c3d24950cb8ba5adbd9c61eff3, 14510829865576355),
    (0x07cabf2e060d29dc56e570c6eaf1290eef36bf8a, 26652034481238355),
    (0xeb27ddd144bcd1e1f6e8eea3046d4cc7ef0e31e1, 28044096998444783),
    (0xb7c7f4c74d34c73e910c702bf68f3b9c887483ec, 76132565412451564),
    (0x55804f4c986c8198a0808adf90dfcce1910ba7bc, 183484248425108957),
    (0x89967857dd60633cd4e34c597a5e2ccc6da58b7d, 98726446534045507),
    (0xd79a1d430d4546ac2f0d9cd4169a560e3cc35c3b, 70657903929920664),
    (0x7f3d1a9da43233f889b62e312c66cec367a80583, 5672105363668692),
    (0x2bcb9b6927333d6c078500a7c6e546b209eca3ff, 33840644813826657),
    (0x830862f98399520f351273b12fd3c622a226bdfe, 10686204670315605),
    (0x5fc8daba8401cb6cc3ba3703beb3ea37c1e72522, 5325162025328535),
    (0xd878a0a545dcc7751caf6d796c0267c202a957db, 27777868085445496),
    (0x2d42213d8e6328cff4644921b54f121ec6b5ec62, 13374354800917877),
    (0x236c2b432044da8c93d366462fb140239dc17d25, 13962292265531632),
    (0x9fa301bbf7f397740a225cf49541b32217210b89, 11174815330779631),
    (0x5888b4f0a087a32182ce1a726102a830617338e9, 2553438548922858),
    (0xd49daa7d2837b395b4d346f6378d9e9c18206c1c, 27256299352087748),
    (0x1b75c72d84898b37ade13fcb403cc7984a3d7aa2, 8278533131783840),
    (0xdcbc6db42a9e897e4ed1940ce055ddf450f4ae09, 6701610958562218),
    (0x8fb13a76c33f6bb51c076146e6777dc364ddee30, 299242242810754577),
    (0xb7787193c514b3c6f54da6a40b71b063477d10b4, 33037292725233204),
    (0x7770ac31eb402899abe0c93e3e5acd66bef8a1a6, 33627615377954465),
    (0x835f2d0f509737a10f56a4ccd6169d406840774c, 2648523942697456),
    (0x86656de4018f5c0734bb375aaee65cded76fefcf, 185133237557352297),
    (0x3ef09778eb097d6a48c62c7262d040d5eebbbc6d, 26366225920517704),
    (0x7ab29ddf2c2493e02457ad1049c77f1cfdb275b6, 26846309617212261),
    (0x329c997ee2d34dbce26923b9e4d5f79433fecec2, 13128346941213926),
    (0x666751d89543da35c97403cefbb7abb51fcb8005, 53234755440049821),
    (0x024df1eec6991ed17a6ee4d860531b06c6d70759, 71808622136290749),
    (0x41442c49219910ab09fe96e76fca852f6be3a802, 26703135934708434),
    (0xcc30099a57decbfc55a9d19336c762b7744c2c1f, 8943530037104767),
    (0x708f998f460ef527514456565860dd5de3155472, 26891111515481746),
    (0xb86b7e3cd923c9d27673ac61c1c7faebc4378e45, 5862102447981140),
    (0xf86325ff271cd3ad9020404bf9fe176b1bed95f7, 510579866137813391),
    (0xf5fa6278242b4a5410e032ca44476b37702f3bd8, 27091637655935288),
    (0xeee847b5e3a0a9f96a136fce48002eec996e1480, 116260522723714727),
    (0x38a4d889a1979133fbc1d58f970f0953e3715c26, 27631821442081774),
    (0xe126d2d8b6ad713cc6e29254110f6b6af394758e, 14417369108892955),
    (0x7ba7ba1133a060b18c59775c8ec9a8b9e9fe4aa8, 8334200242527519),
    (0x4c795bd3bed9d6e747e73fc41fe97db49198d717, 21650914367397560),
    (0x577ee133e45ad2a2cdab82f55f38cbfd8c0f6b53, 98170126917768526),
    (0x3b8cb6de8a4692ad81de9c5f102fa27a14d5291e, 27861628078774612),
    (0x6c40a42b24c82d10bf0fc65decb9ae6d73346d9f, 8494984502424950),
    (0x7ba4ba2b7a930e487e3f0a1d66339d56aadd311b, 7355439335115419),
    (0x55dc2cde9388102c7c3dd58884cfa67540f7465c, 67643376842319746),
    (0xba58a414211d2230e3c17e562dfef43d1dbedebe, 37758021698744956),
    (0x5bc8aa2f6f8ef423e56dbb4cc617f5931bfdbb7e, 529133904844822718),
    (0x93e76e36b311faf57f34ce14a71b61a9ee35562d, 70103155220736395),
    (0xb3fd692d4843f23392f309bde17e2b1c4ee87fda, 16829327515940805),
    (0x105f6e9136c6851991300c546a36c4678fdbac53, 8394070120919048),
    (0x6c570e193a86b1f8dbc5b03d382233f134f30c11, 66040198362995125),
    (0xfc11ff3052d1cd0db3f0fbaea71e631a2527c830, 117006840513484292),
    (0xed97361f590186881e9f415435d22dbcc2be173a, 131004903966578642),
    (0x05eaf3564c72506ac18981890f1b1e9873a43a4e, 759203991440156),
    (0x5fed415386f0fcf91bc021711f7b42f942413261, 21254759199026471),
    (0xf9605d8c4c987d7cb32d0d11fbcb8eeeb1b22d5d, 208594518843358225),
    (0xef58868d460c4d5784406960e1ef8aae1512be55, 25062975552088270),
    (0x726176dc6877744e9bd9e7707e458ac8c35eef46, 8337865890396028),
    (0xcdfa6ce596caa0c6714b48bf88a732443f247955, 134822780259698018),
    (0x0975c2e82af9eb16c68f682fe50e864ae557de72, 27679159089872986),
    (0x3e73b363036bddfedb2e026fbbf9bc77f76994b2, 13098275120310919),
    (0xb9b237e7d96c6135e3df3ca4804945a8e56ff46c, 26353559155661141),
    (0xc5eeb9ce22c76738dd3f13a75e92ca663ffd436c, 41351281312161904),
    (0x23cb1d6a25d68205f6a3e3639b9b4f7abab365e7, 18986877798338285),
    (0x8358fc2dd62c00c1a9cd0fcb577309a4cead2471, 137240167165417478),
    (0xb150c9958f9e6bf5897d08f5872363c9499565db, 2984899803221506),
    (0xd3b0c47ef1e750650d7182424a7e0b7c443fe36c, 30667558815128877),
    (0xb4b96c97141f8ec69b510ab00a8ab0f93a95f16c, 26004150219332952),
    (0x03fbebc9545bfda1850380654b6488ca6a6b01e8, 38326531381262310),
    (0xaad62dca2dd1be6d0a66308c22a480de659d614f, 27330201716027906),
    (0xff142ef8826b4e683d32ae6a40cb82051bbc07d5, 91987000000000000),
    (0x91cb962347171c4459a1d6a1e87074da9da417a4, 34838700079808577),
    (0xa2fa6144168751d116336b58c5288feaf8bb12c1, 24026340138369149),
    (0x007e363726dfe9491bb48a2c0b91aa1f1d9b43a9, 62261531397978635),
    (0x0485a925b92f64d195b5f65d0b4c3b72004e98a4, 749380831732276974),
    (0x6fa3659a15e9264e43ec67fe4bb5d31d38109a42, 42937331630154165),
    (0xdf15ffcedeb8595395e5af55088c70d69a002158, 19472814053927818),
    (0x0cc5a223e1cf7b11e5c2eecc92bfd6120904d235, 8899268736921326),
    (0x475abc90c3cab0d1e0be8411e5df5ab5cef76017, 1715673855254910),
    (0x73e459aa16acddfbc7cb9c4992973129dd12318f, 198808798573813594),
    (0x7ab417afd459335213601f160dda165b789b0193, 80180909485517670),
    (0xf43c75b8af6cbe076918069ba5d5fc9d1afac954, 61156824783824443),
    (0x87d6bdf56d2a247829559d008826e1073e68201f, 25532827406236965),
    (0x3f2986549e4a6d8486b64bee434a3978c3e5a1bc, 4099477711956579520),
    (0xff61818ddb008b4f63a48c3ab393b9e2066e343d, 24976391510056387),
    (0x6d3cd864271864f2f32a9a58631f22b384bf9a17, 44157795025706712),
    (0x6c92ff3b02dc8b67576000b7cad5949075781d59, 186431733333977338),
    (0x5b191f5a2b4a867c4ed71858daccc51fc59c69c0, 91989784043138584),
    (0xd9944f2200ef4fddcf78b6ce3156f2bce5d11935, 34070224936963239),
    (0xa0d802ef2c5dd652fa3f14e950887317e35c87a2, 88133875036243498)]"

definition claims_data_04 :: "(nat \<times> balance) list" where
  "claims_data_04 =
   [
    (0x53eca40c8e24009ec3f9b1cd6249dd8568235f08, 51308421025294371),
    (0x5dfc833b3e853f3e0d8d7b5bb2d2a66dd2b9d061, 26270608160578082),
    (0x0e3bfe2a138a55a49a4cc7e0a956b747a46cba43, 10522844869173567),
    (0x16d15aad232573f1a8239e85101245f6b7fefca6, 25610526328682559),
    (0xca241c81f27161c753fd11dded3b8738e3d1b62e, 51116724241223790),
    (0xe18b44104a984ddbf9a71fb67be9d27c5281d359, 629188826638649709),
    (0x4b11f86a69ed65e8e2266d936c55dc66f43da055, 4840237744132888150),
    (0x8b6c42ce7b17839c101a49b66d2b3248033fabaf, 11415766560863658),
    (0xb965d68052b849b29fe25497c51659bf9678bc9b, 14698385698699004),
    (0xa93c50f5b351d5c961fc7b147a01f8068b272712, 31720199336676432),
    (0x08628bd9330185d93fc4215eaf8320bcf52d3a80, 23480000000000000),
    (0x089a180a1fdf7bef50d1ba45b5456e14f6e44255, 53134690304007609),
    (0x7c3c0a890fd34f6ab5cfaa98a4a698b0ff1e26f0, 9108305538646985),
    (0xc240ab324139d8083dab74d4394702995cc04317, 10663252792308359),
    (0xbc159b71c296c21a1895a8ddf0aa45969c5f17c2, 35481498089045248),
    (0x64e5624790084f8fb0e0cdf3e400828f2b68eae3, 10850031189661099),
    (0xfeedfa911d4940b0bd117b4b1d8b3e5508a9355a, 52715011151780107),
    (0x1ef8a0024942433871ba035bf14e4015e7583a77, 95440804804758579),
    (0x28ed88c5f72c4e6dfc704f4cc71a4b7756bc4dbc, 374726137954977602),
    (0x3985f46e0c518f5de26938c073280e6b37307054, 251412782252834772),
    (0xb57b13b4fe511c27ea5a658e938bff7dd43f6c53, 28927417716914293),
    (0x0345d0b280338bcfcff55ea5ddfee5c2949e5e7e, 11967349019978592),
    (0xc8326db2f1f0a6b53f81d60885f65ef39bc10a0e, 13920506138940059),
    (0xb0899bd165e5c15a69226a7aa6d7556dabc3f8f4, 48410503579427929),
    (0xd0b936e2a1f4cd31677cd1e2c20253e7de655777, 136035626157964587),
    (0x8b36637032cfc4e7e4b43eff37f1cbe13452199c, 20175647141743058),
    (0x4a28eda2b125525d0d6addc06852d94da6c35103, 7397478952712495),
    (0xa41451a4073cdeca52a656fa49c56ef924e33f6b, 113262930897040686),
    (0xa79e9ed62c4f68d9401519d5bc8bdd015b2f570d, 46092656761523642),
    (0xe9bd415d5d543b5d4fe12ac2baa52cd9ca026f46, 35919955208720497),
    (0x9c8fb1027c3ea0f9e818e532473c8b51329b632d, 7957592895200251),
    (0xb1275e42f8620a07ca2196fc153fedf764b6b673, 20191497774902144),
    (0xd9dc877ca121a9a67a4bb62959204d575975fce3, 27062964509443317),
    (0x3b23a09f73519daf6b8ffe7c8f429079e46ee27b, 45512181562510505),
    (0x6a0a139f4962b33359a7867f40a8e29244aaac29, 179732047491268551),
    (0x79a71b809a5211e5d54380a484241b9e37375f71, 159295372012014222),
    (0x67e83a5fadc963e78b82ef342358a02d089aaea0, 23573413480125193),
    (0xf99e753144afdce048e33f50395dbb43dd84aeca, 19517270414457926),
    (0xb0823fffac86c709c658db3f8765e9da8c7d9647, 279884450493836296),
    (0xd93caa2eddd5e7a671da4083ccdba066cfa69442, 43270341300692316),
    (0x809cecdac1d8992ccdc237803a400e6c688e57c5, 14911284436080893),
    (0x2030f32bc08f51c91f5c0f6b3a906fc188da520c, 26334542903103135),
    (0x999560e0ab80adee192f0e34c1a91dc7d4b06e79, 24149025971444817),
    (0x058674f2586d3edb05db65a7b85da67aeb83ce39, 53370118631155150),
    (0x3fc8199df24224d1b14f30e036c4f866d0bfc9fa, 22551424823427812),
    (0xe0fff9c0c1a54c9e606ad5366e8f00048c5b6257, 224120878813073115),
    (0x182fdb27d6aae88388ad38a2d7f0d1ac87a981dd, 12285948811790495),
    (0xb41167f0729aa2b8adb237474a134659e8f279e7, 16334883425390169),
    (0xbfdcaa7a7ba3962a9b31923819f2c6f5e324bfe0, 388383439398893078),
    (0x6d994a9199c1400263472ae6515119b4ccb2a3c2, 31427961401231299),
    (0xa4377495c7cf9e8772a4dec1b905b822028c641e, 8989549201403533),
    (0x9428e55418755b2f902d3b1f898a871ab5634182, 242215437364998642),
    (0x3e7f3db02662bfad0b9b09044488c5154b8f08aa, 272129070988112806),
    (0xd29e339fedd05c5d373db0e01ac6833d38bc1c29, 11330154068198578),
    (0x75815cbdf74be8d5117b33f655434366340a6f93, 19951829224251313),
    (0x380e1c91c7d7e205e51ba305e7d45a3ea92d1f5e, 210271386316250460),
    (0x056c957c5875c3badc4a73526806a644a35ce50d, 65608979082311266),
    (0x119bf9938f3b64af351d347aec57aa0c2592de5a, 22510383559647648),
    (0x38c6b7386abf1dc913322defcc9807cbecfa80c6, 44300423283306305),
    (0xeaad37adf83ac571556553e4a2a401ea93cfdb52, 119458646886966328),
    (0x8ac511db64b6cc839718ecd3a6c3ef4acd8afb03, 131305471378659259),
    (0x44c59fe5b163232974e07cca5a488a7d323a1200, 67283250701445333),
    (0x6c88ad01aef7088ec0f8b2217c63dadc8f136749, 25562360259215549),
    (0x30a9925705190e5b298f94b3f3bad4589e241a4e, 139134692131408756),
    (0x15e5297f5c77753bade219848ccbedf0f7b69060, 53893795067767281),
    (0xdc802badcdbc63dd535dc0c210942a7f7c73fa87, 27285908727195379),
    (0xbd76b49ba3f3a9cc9aa419b0225624ee4c4d18f2, 6494826544442926),
    (0xa8162e67b831a06df36943ff0221b4dc52ddbca0, 21610851530996925),
    (0x94327b1b3d37fcce057bf332ae791f41a0fa3f2e, 10363968084932601),
    (0x89d11c7c7bd8699ac6e089c79b2faac66509ccbf, 32367702007653861),
    (0xdf4da6201a64410268590067333d51faf515448d, 5135381772371295),
    (0x49c3feafddaefc3bed06f4ff87ce86610c2c1076, 100824085805074715),
    (0x4d36a8e5e11a1338ebe2935df5dd07e07615cb3d, 270660163590179263),
    (0x0e9da1e09e5521604b758cec95e42d8468968bc9, 18450970156362614),
    (0x29f777cf8a97895d20098c250cadb8270cc12355, 14255630634178395),
    (0x368d16e5b0df0b33312541ba2c6b3f0a453b6fbf, 13278453634936795),
    (0x290789aed2d6fae51191bce9cce498d0c336dd89, 35620948558390411),
    (0x0855ac154a804effe24b7ba4cabe5dd369425a89, 44146031332567697),
    (0x45486718baa0d0e59832b996477201ce75168220, 20543468144165608),
    (0x25ee148c4243af994a1ea0efa1948c4e0489a957, 7077482849392914),
    (0x10395903bfbf4ef877e43f8e6a56591d9cd1a201, 536651414661751185),
    (0x7d83a1dce7065ff788ae889ba37fd9727accf65a, 8541122586402230),
    (0xab8f6dfb422b3272e0cecbae391a56339883be8b, 19353918367932190),
    (0x6e01c987ad157ff0e2ae0a31e4eecb3a16535dec, 35775007785173773),
    (0x62cfb1876755f124813efdd6f4f43b12236179c3, 10660091651073491),
    (0xd8765750a0297a213776d18be28c666fb0fc4b31, 20913434934281328),
    (0x58a7c99b91b4402b6ddb6229caaa097cb4aed93e, 5939750841240171),
    (0xc7c99f4a3008021aa5af1ef79f8110cc9b6a1bf3, 94466690088923368),
    (0xfd97b288ddd0012bd95ffed61b16d1c80ef4e6c3, 7861162659459123),
    (0x43b64d5f06101ba3d039774637f5c370572672f7, 11541602712795447),
    (0x0465b0e661200362a1130de7f9e1256bc61cf5a5, 23829428257027697),
    (0x32b332be60a3dd69387329890467e5703f9bb50b, 64354613763563888),
    (0xb5eddff4b730b6a266fa4ca869277a02a6d73ffe, 11399878315851686),
    (0x0f02253f52dcc313d77b0e78c44e4d9a3503b50c, 24542612981728947),
    (0x89323c85b57f9b008656ee7cf6fb5ad74e9e03c7, 14401338095407110),
    (0x6d11937490234176e6229c4b80b27fedf237465f, 263912599832212266),
    (0xb4264e181207e2e701f72331e0998c38e04c8512, 23611801961980388),
    (0xc69e8275592f10a7ebef418f8743a12e645953f0, 10237276075955902),
    (0x712e43ed13844a634a21018ae4e41512ce392ec7, 16429363150212696),
    (0x9982af3ba98a6e178c6a2ccf2ca464df39a3d4d1, 17832586184627203),
    (0xd415b349226cbf2905ec596695f5a6907a308b54, 5240329453099341),
    (0xaaa3f05f25eed87ee3a268f4582ec914e6245577, 81680507565947435),
    (0xfbc21ad837deb3cb0ab888f8e20bdbba14f87a1a, 8750017415592194),
    (0x6be0030a28630c8f39c751189a066cc2495214cc, 18942215285353905),
    (0xbee03cb4c0bda1724ac7ea52ea34fc60fb8a5543, 72099157767172868),
    (0x3b2b37b7ee790e30c5ae014ea607bd7e64e825d4, 28928708470915546),
    (0xa66522d79f572fd5c4245b5f18d994027b9994fa, 31114654128226621),
    (0x73073a915f8a582b061091368486feca640552ba, 22836828963251447),
    (0x9ba28e4ef3c6aa7eb3adcc0f205d336f977eb823, 1068531937381417980),
    (0x08bf056c728966c8d6d3f2acb0ad4be521ed0631, 34976687408575740),
    (0xc85f1ae611343ea0e19ca191adbd387204aea321, 695843211377341571),
    (0x521319fc66afb0959cd53e62e4c945b710a7bfb2, 34139452815523456),
    (0xf84cc4ed45f00c98e1739fd31f7533cafc249544, 26174816276488537),
    (0x9a6b6462ab6f70e5a3c87c71c7f7922e24b04654, 5591819235842485),
    (0x8912701389daebf890c95d26e475595cd4bc7814, 117805272335828967),
    (0xc62785b58724d744b843e479d76d47897e61ca7e, 100098502560093632),
    (0x50b56579482f42f4625cf68b46f91444498caaaa, 4963226154952160),
    (0xd4588f95fdf89e5c2d5e83d89ecc5c1aa5309c3c, 154005684011996419),
    (0x084ba866e2a6c97ae494ead8fee755c41e325c01, 47918090478361453),
    (0xabe06a6724deab150b98980476b7a4dde020df61, 24398288558405565),
    (0xab4382aadae5bf4b37b90b9dc07fc72d52e2a28a, 19168888649255998),
    (0x2f74262c865f5cf6bd83d6f4d3f5034529f6dcd2, 19075946896610451),
    (0xc8281f082f6b18d3daf7c4940f126b60a19f138d, 22903733066370197),
    (0x66ddba49fd43f1ede7f4ebeaedbbeba180a58629, 18214835434498151),
    (0xa5c708da07d1d8e2fdb3378a776ad050639228bc, 5798426569482062),
    (0x1c973c0ce5783ada52ed856af83f0436cfb8b89d, 462879971849335603),
    (0xd7fcd7c92d184c2c3d84721df201f9bc95b32f4e, 12554813387796945),
    (0x355c3ffc1714e29a6ac56cbda2f2ae932c9d4652, 57453837194995709),
    (0x9b1e37be2659fcf010cadf27cc0592daf60f2b86, 16732432382489098),
    (0x3df5e4da4b80c6b24aa3575d3a6ede5dc13ffd38, 47066146850867061),
    (0xf927807021280a74c1c0a3e40b31db26fb022742, 3259608701532860),
    (0xaa9170486ec1b1a27ad4c82a5d50f7b9c7c3086f, 1128679767377040227),
    (0x41339d9825963515e5705df8d3b0ea98105ebb1c, 11140066433122839589),
    (0x41dc360daa78c6677cf90b35fcbcf5cd559cafce, 3293157518832396),
    (0xdad1923909b639ea7a44102956c7358b134cdbda, 21183976265947626),
    (0x2c2f3d8e6ec64ec0d0c60d2c3a91a32f05f6e04d, 21800181658327310),
    (0x71ac145c930c28daa73cbb9d99171b1191ad947d, 78592928148341450),
    (0xacc0d4dd91d1d472ffb7942dbb93f34809c6f482, 6882901060038775),
    (0x190746c3c80d5f9f161cd6ea355e7a3aff8c8e10, 12266822988169867),
    (0x4b927edd059d99f9ef103ad93b50dde4421d27a2, 20321300748758305),
    (0xdd4bc51496dc93a0c47008e820e0d80745476f22, 853104587437328416),
    (0x511f69944b4e249ed8929aec23376b904764b157, 48118065372389106),
    (0x99dcfb0e41bef20dc9661905d4abbd92267095ee, 5087772875631834),
    (0x332d726b98f69cf41aa487951915d8110edad86c, 11605186990674462),
    (0x2a28f5b0b063d1da41e8b3d0e0ab3b5cbb3e7c63, 87824763807573826),
    (0x984c5d268b220784e87fbe8edbb5c6b9f7ba9fc4, 44170394085456328),
    (0x31852784d2066618d35d2bb2a021b334a9d7f002, 71709490597995066),
    (0x438ecea947dee485feb3144df2a1ade22ca73325, 10865525980159593),
    (0x31e99699bccde902afc7c4b6b23bb322b8459d22, 44318420926357162),
    (0x691a28c3dbbd21b488140cfb047151b4b6b51a9b, 554215336934862)]"

definition claims_data_05 :: "(nat \<times> balance) list" where
  "claims_data_05 =
   [
    (0xe12cc54441e96ab74815d72724ac8b9c5306e6fc, 42534975232115807),
    (0x9106c0a3be4cd41ef840843bf01a1a7ae8190adb, 8223628969604898),
    (0xc4bc22e0800ec508c610e40c3724882dda01282d, 2259453588616679),
    (0x8af1d8a65628bab0c0e30a4e76931a9755d01b09, 119019964107448033),
    (0x62dbf7cd748015bd762e04edc0941c00a77cca3e, 21580580260370909),
    (0x160f713d638f7c849f807b97c6b71a3581b01dc3, 39315855869091773),
    (0x8abb7f3754d576869906c033b20df1864811e2b4, 46010510723374528),
    (0x4072dfd96af1a544527a27ab5dcb534c825f11de, 86941126800409287),
    (0x1bb0e6d293c5b29dc4986a2b80cc22865e5e68f8, 7482475373469644),
    (0x125377dbdb4ed6b49f57a569a3d9282f8e3f5366, 21938290465155141),
    (0x7e7984f355be36c3bcc18ebd1ac6de3b8de34913, 19939367445291992),
    (0x42d02f4cd48bdac116b7e3a4895f586777948fae, 286100535157369371),
    (0xe10aa5fb316417250fb856988da47fe0442666b3, 8276169664401871),
    (0xde01a8e2f3b5f24c4c907acab50b5bad5363be07, 100626051758301320),
    (0x60d3513f6dafa7117f2560e4032727e6d829db9e, 73803385338724645),
    (0x9186bb7053bc9ff73d1647712309dfc2c8699049, 451125986946847836),
    (0xea45e6db26504c6506d0800ac7fef5d84fe2941b, 2208174270831609),
    (0x8c93b313eaa22c8cddcd1ba634591f5c5eca53d4, 109270391133076642),
    (0xbdf88809e65329aba22531ba68901edbd060517c, 21902207060032248),
    (0x09612f0a743f75ef592f4d3f5e6c224035246ec2, 7242694763638938),
    (0x966d3eea0d60aabb240d98515f2ff1f913248466, 1996079208766324),
    (0x1462f46477cdc2ffbfac6b2295e9760d776da93f, 4857564526997517),
    (0xdedb02b1a0e2c302536e3fb1e19a581727035ee1, 7246193207376448),
    (0x2b49ce21ad2004cfb3d0b51b2e8ec0406d632513, 104091706455613420),
    (0x2a6145a40b07fbfdd8b2333b50f82f3aefd593f6, 35955001201370934),
    (0x3a6e0b0855d1e5342ac9e0d83d30f8dc5e1b55f9, 52120178140925851),
    (0x4cd939dd8563cbbee5a8ff47f911c127a2f20176, 18782565235617662),
    (0x9e747fc985bedda32211b7a93e347cef8dd22805, 43937501374128608),
    (0x09b561ee1e38d03ee596ec562e23483b7940a273, 37968631783315951),
    (0x038b2c71c5fa92e46e6c7317806906a206e05176, 159702364941155435),
    (0xa3811153ed49e676fd34ac295dcf59cfa2824dde, 4420483817659076),
    (0x773338f432a608d09f7099045509a7c9be34edb0, 23390229283347160),
    (0x47a0a7653a39643240d7b11854e68b2daea9002b, 22070327957119433),
    (0xe7da15e968a04b6639d3e7a28ecd6d56d0de3112, 72232258804298980),
    (0xd4762e5e4033b44a227eba428c6fd02dd2c2dae4, 1196493198558818),
    (0xef88b3257bdd439d7cb81aa9d04c05b90d68197a, 21325306539425335),
    (0x971ef1f39352abd927f900750ee2231c47d65e88, 47307470440695255),
    (0xc418fd33ef4e3e1937b053f927d23bf650cdf368, 20892448276591170),
    (0x9cb6388f1fc5bb4727eb1f18b1a90a4d636d2b78, 63923795165959039),
    (0x040012d26d55de959da4228d4f29de599e863b28, 22958684532133200),
    (0x9c9411ec47a85dea243fb605e1743ccd702d408a, 11808056633922498),
    (0x3eb9f5d1194756aa9e490f2b78ad2bc1c3726ed3, 160667993945692783),
    (0x14dc0e60338281feb4788b72e5735f812672c3c0, 22128758960711925),
    (0x1283eadd3307f0e66938fff4e13c48fdaa91505c, 44887249776565288),
    (0xb601180c14fb752d873d5afe33836bb155bc0f0d, 44280841315612918),
    (0xb26da2730f0ae66e9d33d5c819e8d6a4d8d4918c, 24840561249411236),
    (0xbfe9b3715f474275eae7ff28e32e1fbb7231bd24, 40930712837470580),
    (0x40f789590872fed258a1553cbbb84c183ed571f5, 7134046934168064),
    (0x0a6883aca247aedbac6428302da876642b13476f, 13492499498572874),
    (0xc13f6892f2536f027529747d9fbd9214a528db64, 5509564297006353),
    (0x761a282f313933e19561a0f64999ce6e340a1deb, 444628548732841179),
    (0x685658529cd88dc9f5c55aeaa905297e5d78becb, 153664982242730149),
    (0xa49a894bf16d748f021698c24dfa3810ee5e91af, 1427611991374184932),
    (0xd113a6a043c7c284de9a570171859d12c43a4f83, 7878734911242370),
    (0x9af906c01f75154dd3402dfa441c7a4251c3201f, 29064485101334494),
    (0x4b581deda2f2c0650c3dfc506c86a8c140d9f699, 1792287687330391688),
    (0x1e5aebcfdc780da4fb506e93a0b398490fd94864, 2556720412005526482),
    (0x51fbc8ab8cb2fdc38e1757ccd1e19eecb1bef487, 13234965243325461),
    (0xb8d9bec8cd69ac1b9c8e56735f07fc5b6392689a, 99237295673021622),
    (0x8aa3d2cffdcab54c52bb8857fa54c00c33847c3e, 13489476747081424),
    (0xa5ad84a47d1564cd333f1556381759666e201252, 47085344934370194),
    (0xd69517e958ecc2ae83077341cd829849962241cc, 22745687504376082),
    (0x714b868d043615e4b5c304375d1835630fb8d30b, 11121121556467074),
    (0x6e92f8b308f57e148084c82c5c0b41671272a678, 2372103910023693),
    (0x2132ac2ad4ab01c177deb6724ec82537a0ab97e3, 27611621264787002),
    (0x0ec1daea7f40bce5c522c7458596abb3092ff9e2, 10774040427265588),
    (0x51be63a19bc2911d0f396546896f5524e9b57cc5, 10665407786528180),
    (0x3363399f60619ab954f590ba80db5d4757718fec, 22667210084032715),
    (0xa9b0c16b23f036e5a5caa249c301f1ff431e2a60, 25487150482715251),
    (0x8b3881dc136eea8794e798e1916a1cc3c0b88a3a, 127557671953953064),
    (0x42b3202b505e29000bbbd6409085c9a8334d7e47, 44515306340639578),
    (0x351065c66ff0119c270ed2735959e8d88cd7c05b, 62906521865642736),
    (0x3f09f472cb70d38076120164d9310176851e6535, 44048007270005347),
    (0x5ddd6438aa2791240b55a568e5841833532e66d6, 80795981428318199),
    (0x579ff2f526dbdf9fb4f14bb555c0e427fd9b5d8d, 22493204043980402),
    (0xbf6d989ad2ac8ff6ac21875611e205401bb57bc7, 122944450361642458),
    (0xb78faab3fc6ab3691aaddf94847ca53481e6410e, 19680256241127594),
    (0x31a719cce260964ce5d749949255ee69be349f33, 12366839739580036),
    (0xfdbf6bf47190ad975c721f16263a10479f63bb81, 8973920225073605),
    (0x58e4123e785099b5710c1f245050f40adfca9b33, 915754373134504),
    (0x39fb5c9b7e300b1f5e6c6fea9248b99c8d1bcdee, 34834649446526258),
    (0xfee7ae7942b748332e7d66154af5627b2c9d07ef, 22792429998413090),
    (0xf286e07ed6889658a3285c05c4f736963cf41456, 10521755323685047),
    (0x1579deaf5488a135d4bf23ef6e2f465b779867d1, 106103713426653521),
    (0x727a135496153cd990d0ffa7c5524067b571b109, 24949540517668035),
    (0xe90ceb04250d08830ead0e75075ac5ca888eac11, 12551986260547028),
    (0x26bc042e5b75727e175139cd5da47660cb9dcbfd, 23212043458048316),
    (0x33df87108537d4d45f814aae11a408908302cc92, 2067875364879818),
    (0x5a886057a5eb3c526b0315dba17c107209ea9574, 12071791490967896),
    (0x3b335c5901de233f06c8263da33dfa367b83e329, 14309337346626766),
    (0x5e35994dfb6b2494428d1919b15b7fd3a7de0c3a, 25211560819110565),
    (0xfc264830450005e7a99e95bd0e539fa12f3b9eee, 5544907057166124),
    (0x3d088b87c048e5fd4e3a6f9cc04490501b1dbae1, 2296654080779278),
    (0x2b0666f128374ce8f30d7560bdaf2bc14e079da8, 22531955208284088),
    (0x876b648c734835bb4f9e912504b7fbb90f1369a0, 13125312602283987),
    (0x809676df9f7ef012b1201e767575bc9b5aebd108, 109748043622747116),
    (0xcd07ace06bcf08350fb66313395f731b53925232, 81853225295601365),
    (0x20997325098692337a03961317ebf912bf913b65, 55924813717955074),
    (0x3585a728d6e4223fe83541a56ce8cbe334ba3118, 8408370473107486),
    (0x3f9517ac3ccc311c84826fb000bc8df1e45c4b72, 112018089460900408),
    (0xcf43e9a2f9ed4810de89ae08d88445d8ccf63ab1, 39934430698271089),
    (0xa6a55a61e201792334a7ea8613c521d7ffb173c9, 9896131145604309),
    (0x274fb5e71b1824fce44827d0aea33a9cd53b8a63, 4976308229909037),
    (0xcbc3906efe25ed7cf06265f6b02e83db67ef41ac, 222988709062564951),
    (0xf7a489bbd270e60c8c53df31c36aeffa14a9260b, 57068336736670609),
    (0x3745188506f94e0089e4205e9eaa89832f6ca51e, 35903323627110439),
    (0x25954b95ea02df586e07688de9543eea5bae31d7, 31629859307651228),
    (0x17c1cf2eefda3f339996c67cd18d4389d132d033, 453371785669961030),
    (0xe5ebaa73d9982fac65d85dc732f75a921e5badd9, 18338165904894927),
    (0x201b5abfd44a8f9b75f0fe1bae74cdac7675e54b, 558374865262414296),
    (0x4e68b6ae775962b60e153beca671d16e60cb2ee7, 20315068166365086),
    (0x0d0ea68195b46a43f6fc2c1bd96ccaecd55fb569, 5634333500415296),
    (0x1da75fb0da32653fdab9ddecdb42f2ed61f8a28b, 67461610736467858),
    (0x391fed3582e2cbb40a3c6eb45a8cd34e3b01c360, 56437035712430931),
    (0xec83e4768e314cdd88f910e397affcde78a52f92, 20993000258630073),
    (0x96a1500bac47b278f19e122cf674204986bada69, 112117319486840099),
    (0xeeb35037e00dbe0291790b1b1bd5315150be5812, 23660252574589307),
    (0x13fefdd563a930f07b1ac8a2227acc27c3c12946, 1785724577298426833),
    (0x392027fdc620d397ca27f0c1c3dcb592f27a4dc3, 101859086388584990),
    (0xa37d20cd446898508ab961c6be8d3fe1c15413fa, 67865820422785011),
    (0x2d0c3044bf148a1897424ca23449bd68e49ee239, 91048954340536073),
    (0x748a6a09380e9086c357e9634b205411b88881c4, 5001913294123303),
    (0x26d1e86560b3196d40cb6e4b2eb52e1e87b4066f, 3005399943440480),
    (0x02483ab8b7eb1804db8da2b734a15f5813615f85, 66213138250193905),
    (0x618bd84ccc24e386fc95a349c1815381a793feb0, 81686064385671237),
    (0x22a1f944f412c3ea51ad108275c9979f0b02a739, 23827293006422007),
    (0xee3cf8612456e5289f98e649453d279e88817d18, 28360105188538660),
    (0xdaf780714ce4931f98129060445fc6eb4ab73bb1, 7453152456367973),
    (0x540d97eebf6d787eeab1ac2928103296e3a543c1, 4633945812178248),
    (0xfbd4e1d0d89632c279f06a1d9bb9438647d99a29, 36972700505739779),
    (0xb38cbf22881253a04ffbcdc1f566c3379018ac06, 16865186535397882),
    (0x9071ea83845ecff60b3f17fc5afca9a4b361e7f3, 5477257988705566),
    (0xc1169b51f43ff93e5b40e941c83e026ae774daa6, 113329820327371071),
    (0x96b1122c54f2a550e2931f065f09499ca1bfbe24, 57057629906335867),
    (0x9708eee9be8722a5069c58369edd69ca0e4635e7, 19780553407133994),
    (0x2ca40605844f48c60431e2820ffa84526e795f9f, 61307241158459422),
    (0xd3e84cfe50fba4697728ed573e13e42feb74fb5e, 8354198966415659),
    (0x2386b340d46d85057e2a6ec7b93f39b10f44cbe9, 160802363185317712),
    (0x3c0d50dd7688d23f30dcd7333069bef8f5787d86, 8684957712741159),
    (0x33fdcfbe28b05e64d0c2e1b378400e61f2bc68c9, 11889988686791234),
    (0x4fee40110623ad02ba4d76c76157d01e22dfba72, 10783687266073832),
    (0x4ddce06e259a2e583a3b2425e0a135f45b323e75, 1072896087229089227),
    (0xa53a13a80d72a855481de5211e7654fabdfe3526, 371807258912903471),
    (0xec948d9eef6f1dac95b590048d0ed8d99e5fdda6, 32671162524726860),
    (0x478f25e0856aa133f7f9f68f1dab2505b6ef9bd1, 304687340768698589),
    (0xe3de117345f832f8c9c4a1fb070ee91234dff91f, 59618674387634199),
    (0xb785f2676e8b56044fe69e4fa23af037c387cec7, 11555987128055793),
    (0x37a59493980295eec5c495b62367cd005bb9eb9a, 25291724905499387),
    (0x1eec60f7bf9894ca9973f26c27e0f544b8f4729a, 52751870213108289),
    (0xe421f41e3bba9fa595e6256847c1910edb3a5b72, 15300000000000000)]"

definition claims_data_06 :: "(nat \<times> balance) list" where
  "claims_data_06 =
   [
    (0xc44d7fd052634a4fed213938d1c0fa3c0f46cce5, 59687033415269548),
    (0xbbf08c90c76996777eadfa2d220b136d91b43fa4, 13863099949401956),
    (0xca5a712d84004491b9f9e7492dfbb7ad206f49c8, 9751514301759418),
    (0x9ad4196e45ca230d69c0f3433d340f1dd5f9b828, 42898022816617954),
    (0x0e2c7260327e3609d65690779ad077b9b967612a, 2500000000000000),
    (0x4cae72709a265720e979e05ae70e6d5a0631b834, 8216362417023992),
    (0xe6129d4f0c659880a66a6bb7ebcc578cf81f051d, 215352690303823512),
    (0xbef716e7fbc844020925dc372879becd2f932bf9, 96867579242788180),
    (0x2784ab7cf677dd88adbf0cf8e7062fc9dbff5d25, 11278186356133779),
    (0x71a094175ba3f5d638510e2d6fccaaa9f30b18f0, 22240348251258096),
    (0x998aaec3728e8562f5a7bafbd5e870a8ba4767cb, 44044860316332430),
    (0xa2cd20a592f26c907df72e23653f28cba2b5c5f8, 3600791339080911363),
    (0x18fc0099cc649f53825f60fdda5f10f68965ed0f, 11671846823028446),
    (0xc7bfcfb1a531917855e7d1bab80cf855b7c12da9, 22365267253546111),
    (0x5eb366650afc512bf8b8b4ecc0e012e93651a34e, 4758462187635609),
    (0x63968e995e962375d3bc514bef7fd9b78aaa550b, 19112490501735815),
    (0xd73cc8b36cd84252711beff17faf8f9797642920, 11480259809448465),
    (0x12c5118d468c20a117e8ef7e229a9c7b56e1df46, 29829254498704975),
    (0x2a8600bbdaab254a2f8a8e00912799295c3dd601, 451922322912189808),
    (0x74488ac2ea37096e9f85668f6b66e9cae1f5c696, 146024358869324331),
    (0x73d550883eb6938898f93f94b0d55e1a010ced75, 16230050029286367),
    (0x1600770e70097d24346f08bbbbcd9b7c9cdf3e9f, 4989542046904818),
    (0x869cf77f0c9fcaabbea2f6d4626cb970a109c42f, 6825057517945481),
    (0x5ec2e5aa1d208e7ddc6d44e2ea7ac3e3aeac29df, 111893993217288190),
    (0x447218712fb6472ea43e1d7d280a3aa4c43f754e, 470414615843863461),
    (0x53b3f9ce1c4cb22502b9cec9673742d5b2cb4052, 89666574397936049),
    (0xcc65f0ca6e5bc87cf4e383e5684ad8226825e332, 700726435818385137),
    (0x91d1db2bc8fd8f6bed72b160aeddb22019560223, 215217324133046547),
    (0x2c8e10eac50cff25e2f71b671dd9a0c4324ada0c, 19650862315645350),
    (0x7ce0a598d22c24eecd03a9b545883760d6266c9e, 17473573615393384),
    (0x6fc14ae9374eaec0f621d6fbf8724bd5d8613ef0, 25732995511616886),
    (0x1b163704d48bf578339ad8e66cbc29bb34d0f92b, 22695236162885491),
    (0x9611ec39d8b9beb8ab4d0ccc2b7f923180ad61f3, 11352821906133811),
    (0xb309207c54432b96a97e6bf58d89fdfb493dcfd9, 3404404793404840),
    (0x5f64676b7b96d2836b5d88cdc729d9f1703f0a0e, 23672940232202348),
    (0xcc6c5b999738a74305d60030b250cd35d66eeec6, 9803637623892406),
    (0x1cb7f2c79248be2ca9518a585a4c45e8480621d1, 13604673283980692),
    (0x984d0ae13dd78611f918b43de33f957e4f79b146, 20093240546981281),
    (0xdb534bab6b7d0690f412395b18bd3df078ecfe2d, 11577582499397809),
    (0x9f3e6825d3677f0228153f01da1da9f9a856d688, 11144306842393286),
    (0x9055afe5cf229c8e4987168ad53148bc58a6a44b, 11662499044030677),
    (0x0db1911f0d2c9d5a2234111c30b41925e97d4de3, 30774398047696031),
    (0x0f9cd17395efd5472dc37aaafe5bdd3c9c15d066, 43769208465131967),
    (0xeac603e8f037d92c9da618b7368e01509e0b54ea, 21724670115804136),
    (0xcdb1503d987f0a5b0b230eab34cafab68e1b5bb5, 11185745408334245),
    (0xed90ec2f4da580fff816ddab812865d759855138, 3903513289463247),
    (0xbbe8a1421d8583194bd959a640cb82225650c748, 38534365987977166),
    (0xc95af0482ecf32e993f0d9355e38e4a652984390, 1342042849098688),
    (0xbe9c53c6b26ddcc6213ec744fddc5015531ced72, 22619036695424715),
    (0x7f21f9aece800cfaefe7e44135be6f88d3a4c4e5, 38780392453339658),
    (0xbd25bb3cf74ab26a0ec863150f3a0e1110608896, 27427621172046403),
    (0x71b4bd1d6c0fe3ae5466a775396f7529f1d3e17f, 105381726412725533),
    (0x3d1fa9923ee63c97a0f867e98b3892d7319ed6fb, 9906231132501561),
    (0xd06f3a515409637e6c2808f393af3e0c3ba698bd, 23847395101046025),
    (0x58ff099b5624a8ebf9b6d27f9fcad4fd88a6b9f1, 63974509255698932),
    (0xd3b1f76fd25c679f441d4686adaefdaabd070e3b, 5057180471178332),
    (0xb8bd72ed01e102a9d00446a159f747b5d44c5a1f, 57991764774727890),
    (0x731773eb516e29d9fa37710d9e5dcdc25411d5af, 7509169910832194),
    (0x393a285deecfadd50bc94110f37eb5887c353521, 5000000000000000),
    (0xfe6fc5f5d89693d02dc938ec5be5f5b1f8b955e7, 32632991715013264),
    (0x386ba84a592571bd5d376aa7cccd53db8b45eea3, 1081756976225720425),
    (0x6b00136cc313edef40c04414eed10490f56f708f, 24362421663262099),
    (0xae3ee144e2c7ae4336919ca199f1a3b9dc9e0bb6, 16747870238707300),
    (0xe0e7dd6c59855b6e852cd17de00143ebd6f71ea2, 11334947101350327),
    (0xb97a85e57aec469a48deecbdb0dd71d7b7898401, 24991684751552207),
    (0x46f75a3e9702d89e3e269361d9c1e4d2a9779044, 25424812840041669),
    (0x3922315057742ee040e3c64987ea90c9cf9df7b5, 58402743506311466),
    (0x7c298217323d17aacbd134a3ff378a71786a9915, 8330447027032581),
    (0x272b48a578075d3b63d7a2ce8d9f6fd55fc84bb5, 14810736764779058),
    (0x69c4f490345d30f9b08c1ced4ee30eecbceeb5b9, 33316948704164664),
    (0x8bd431fff72b55231d562482e7661997a16e0a3b, 76809167330644611),
    (0x8ff40906884c34fb9d20b1b38841795aa0cdbf21, 206204476872619647),
    (0x889afd58eb83ad4ded14c72652db884db57bde66, 11500297224566752),
    (0x38e56f8ee578ac927d809cb4fb0495006648cf0d, 112936411610356118),
    (0x29dd604a8c8c484ad7da59968cd9000cab660d02, 57028390730467035),
    (0x5cd9af1813489b83bf2d97471d8d2ad26b1a9450, 21365656173443406),
    (0x6037c58aa448d2d8387b16aa835113a27a790966, 15881271703524945),
    (0x47bcb86e42e0365d96f164d49d828d06ec99d41d, 794426987256196827),
    (0x83e5041baa8308531fda413d8d313a39071b4bc3, 2118640919819686),
    (0x8c40ddb93163446e105009aa47e9a5bc18cfb0e5, 95232105127733820),
    (0x75e2b7c53ce773a25f2d0ab99a44130b219c6990, 5150064350649391),
    (0x82b393e5e20fc5ce9d22ee1406bd71370f95de00, 294930924964375993),
    (0xbd9ab4828f677ffe34f90c08b304911253bbd3cb, 28660672202406713),
    (0xc23ef3adf050f4ca50b30998d37eb6464e387577, 3670450145000000000),
    (0xab48070ea1375f90e80b1f26b2fbb9520da62dc5, 27954853396711604),
    (0xd4b1d917c6cc979488b962ac25e2d671722f4acb, 9669069100477319),
    (0xa267f3a4a92531f47811e05e890e977a0fe375b4, 119152452869733401),
    (0x675b3b5525df6dcbec7e92204bb4b882a1dc1419, 1837346359538397),
    (0xe6ce9038bb811dde465639ef9a86b5462433b61b, 24438786720039081),
    (0x2ad7df126372fc2648df7876a9ae5065c9bd2118, 40970470725898293),
    (0x2bb417abdbf3bed6de3151a72a44d8444242323c, 37332272597087907),
    (0x136aea6a78d2014e1e5263b98dcfbbcb49f2b012, 50911979623421990),
    (0x8664e763266054f57faa8e62f7fbda16722178a6, 5619995232901243),
    (0xfbb3b7d03e93f4987317eae03ed70ae32ff12237, 7524905508876968),
    (0x37f5bd02927e00e9bd96ed0531d2748db221aa34, 4717806165582065),
    (0x3e81ea3a8a2d0b71a85468b02be83d09bfffe476, 137666209293911187),
    (0x5f05f2a9a0e48316649cf2f94161f0eaf4ee9f20, 26833604239491823),
    (0xab8c50c672fe44a5068589db2f197b006f9424da, 132409427216281373),
    (0x37336db0c5a91fbb9acbec28017690f59413ddf5, 91903689579192066),
    (0xb329748ed21105b08fbfddcdbf7d1751e78f3950, 5003712109722948),
    (0x24ca41860adad0371213e14c0a8c74e22180ff3d, 7471064037297804),
    (0x19ba3eeda313577888c145a5d7053df05471b460, 12193405537995818),
    (0xa38cdb63c943e9481c9b87db5c80f5ac333d16ed, 371329073764388003),
    (0xaf90d5221d7deac84b57e984b5908e329e4fd70b, 14255165897095086),
    (0xdf334440141b711c78c41263245989cd10982505, 18585516694714259),
    (0xda65363561bf0fdae1a2c53abaae3528b080d23d, 755404704078949077),
    (0x26cabc7528854005635a7f29c6929a691bbd07ef, 3859564347236711),
    (0xfe97b38192cb30add0bbe5e01e6a617562cc8318, 366588985512239793),
    (0x978cd538ca53d143c91ff335f4ee73b3fc312f3c, 21100000000000000),
    (0x85624c7959fae5580337ea7afcdfaeff42a6a66e, 21726970830564683),
    (0xc4a00668136e174f79939220997097512b23066d, 23648646774459777),
    (0x52d3750fa7e9ad7af929921dfe4ced11dd402f5c, 15160565532975677),
    (0x72c3b58fa0f3de58a105b47c1bae3afc954a8262, 12106241114792657),
    (0xc0b51b1bde57e670077ab0e0a68c0d47f54e15bd, 3095729101062841),
    (0x17f93fa267c156e73c2e9e10e89e3deaca1d198d, 6009922974282907),
    (0x72c7fbcf83fa22f6f588ea04c7d6919722fc395a, 21624900252998733),
    (0x3f6df9f528db4cda10c369561b8525b86bafc89c, 5827824395233556),
    (0x9fb465df844bbee88631bebfc8b51a4ce4b41607, 206465135841278112),
    (0xd88e9d71ea4feab866cd33a69177b9729cf403de, 62863668209783391),
    (0x43c00ee1fe922f1426f38fb023b4bd76dc84a872, 12705965672519002),
    (0xd0ac061dceec076a1f80c6f1c0b9a09cce44df70, 46847794983430210),
    (0xb3f11416cc560bbb69eddeeca904a2630deb60aa, 22014537824619423),
    (0xa114c3d89b3251ba7e4558c2cbc73664d8d4cd30, 12077403586894465),
    (0x5ff1cd65d1fd63c19b84293d0611ac452b6c3995, 52778122323583973),
    (0xba4321fa8fa8b2ac960eb9d4e59e0e286e2d3c6d, 7586979153294068),
    (0x939c2105933bf9e01a570b74fffedb9fb9b0fbe3, 340454278524126169),
    (0x60d65b6ec265058f6aac497461bbacdec8fb00f8, 104706836017252149),
    (0xc2b5a349d26a42a8949ab2c3f9415fd01a90db7a, 46927401571015383),
    (0x8195a2e548e81e33f59638636100f8b36cc33071, 52880011570171121),
    (0x6d43c7629195876a78cfe7bcc97ac45b879087e3, 7368196562490343),
    (0xae02280bde4fd36b1ff2ffbc42d1f69ea3710c17, 16836052267864013),
    (0xc6d37e6f2ca53fd636142ba4127865b98842034e, 1701673716239282898),
    (0xbe54f9b8b10e39ccdc4c434b2fdaf4bc0d175345, 6230851666037864),
    (0xea6bc9033d86c1af32a615917d46ca1e8910586f, 114921573780757388),
    (0x5f5db2947ef11212dc36e28d1ac57d9e6da88c11, 5320111349776286),
    (0x37f3c26d25ec7d4ad5f03508cd8433b6971d4f77, 39230073396405806),
    (0x01928f5eaae0032b5e2836336ffd97fb82b8cc0a, 40627611690947537),
    (0xdf847beba76c77481cc4062ba1ee87caa9f40f8a, 8432914846066116),
    (0xb0e2a79aefb1a6281d8d81915f2a826ef96391dc, 37747105931701710),
    (0x296897c5b419c2217719dc699d244e595d675d07, 11592739558269284),
    (0xc22d2a90be89264a6a71963e577b9286f7966688, 108948984259512144),
    (0xac2ef04e02b132543836d950c3d6caa3548172c9, 45249411426807187),
    (0x2bc52d804490fabc71e49a2eb9da37c6516b97fc, 50282081199366304),
    (0x6f6b420f0eff16a89302d1bd7999fed8d57c6b1a, 235040889624445562),
    (0x1726eb2500518f25b740c4ec7a13a11873f5ab86, 10746460285262677),
    (0x41141041a119975a462c8a6d84eb75af4b31c51d, 36612454718079991),
    (0xdf879669b3eb2192b1289b08fb8dc8602993ea52, 1018848803115860385),
    (0x8163260bee568950866eb1df931eb1726ca300aa, 24595400420596542),
    (0x30cf8aa72c4e69e35e0e48e785176704d6d70c7d, 88917303626090123),
    (0xb5d876b4ea4c8a921ab25936584c6813642e51b4, 15943127224108074)]"

definition claims_data_07 :: "(nat \<times> balance) list" where
  "claims_data_07 =
   [
    (0x82484000ffb1fee86588c531e4a9fb9ec739c02c, 7000000000000000),
    (0xeaf7d511a1956c9d297efbb2d81b528b37d1d8d7, 41104372092787394),
    (0x58654f05384e90004ec571ce732598c0f0b0ed79, 51297691245588403),
    (0x0577207634a90e6f48d7a279f398653b74128540, 11683790179565814),
    (0xfcfe4380a6592abb74ab7a3d270f87acaafe118d, 193858855423336605),
    (0x1b62dc1fd4e5bf526bea4a8d8eba106e7c79d87f, 24338405800614979),
    (0x293d9eab4a6b6dcd263d71e74c1bd7d83fef5063, 20139047692449781),
    (0x2b611ea087700cf2582be54bd36f29b17a71e937, 22588856830341090),
    (0x9241f27daffd0bb1df4f2a022584dd6c77843e64, 4086500483232613),
    (0xc7f78348738fe1e745079319aa98974afbcf154b, 43796568179380426),
    (0xfbe442a95dfb7a583b77247cbcfc3a7e1429fa94, 6097245570330558),
    (0x2769dcf7b37bf6ee5149b4860968b14328e9c831, 7958165437214184),
    (0xef576ca32ede5e117a9f8dc6b60654a10072fffd, 2137680693658921238),
    (0x6db0a48eab1b4330c1b76a4e9af62f26325daec4, 479304369973011049),
    (0x7e05382a7463bffd77fd09b44ed261dd72d74aa1, 2742714931510686),
    (0xaa27188afcc314a75a2bd7109d3095f0d6ae7a4a, 8984368513436906),
    (0x744280bd523229b7bb0d4af66749e74eae300934, 3052536252257095),
    (0x03aec62437e9f1485410654e5daf4f5ad707f395, 6709251869024934),
    (0xdb18f514f52595f7710d9cc16e3fac64592be772, 2402965961438915),
    (0xdb687064091b8d2df1a02273411a03b707e20003, 31929571720255456),
    (0x29546e006d49b07351bca26701e473facdcfc087, 38570040113683006),
    (0x62bf34035fb9623c528df44b82e8ae1c631d98ff, 43499103562450677),
    (0xe07226315b223032ef745781870c9a155ae0c88a, 57555022494152472),
    (0xa3d57ffa8d44d3bba3addae8f3e84953d21d57c9, 27552538348152400),
    (0xd9d24d5b8b6e649d696297bdef3bffb5be90ff49, 27418611547852037),
    (0x799ebc63ef253b8e805a3bdc7a9c7a2b1ffe23a5, 37626151787164509),
    (0x5e3b085623206da05df75c32be10bba162a9c379, 329242033341391414),
    (0x286ac6c8237a719d1c7117e1ef8c7cd8719e7412, 76692539534091580),
    (0xe3e0145de4bd4cb72597e66163ca8283aaf8387b, 188680300809033789),
    (0x34a8fbfdd1257c62a2d3dcd87d5f2ff57bb35bd8, 113318998957410502),
    (0x07f1456c836380adcb4ee16e3519c6bfea0da35a, 76350383244060180),
    (0x6abd9631407fd8757d9d596c4601286fde491847, 8762474283296162),
    (0x41810ac81d7f628b3aece8ede0571922e14b066b, 25089037395050546),
    (0xdb67c935ab8ff936a5c4dc548e7094a9d458eac7, 9489604788217828),
    (0xf2717a4817b87cf41335e8393bc97ca2781ccdbf, 23619454989165095),
    (0x72eec5c04fdf4e1a2dcb1b0e5d828ded15dc629f, 14307020023993376),
    (0xc51fbd4b259b3a9b7121e928927e99638a4065b4, 30173235408780746),
    (0xd579c971b4147686aabbdc42b8537add298e6451, 77771293335503525),
    (0x937b3050c8384f65ae4b26c70b75bea549411255, 131609451865422936),
    (0x852d674dcb87ce02dbe8a93e81cd04f976b1beac, 18028336775606232),
    (0xe75a7ee6f84d47ec22e11a667af051504e471f68, 12426227013211768),
    (0x5c586d4593b7cabfe74d80b979ccb9c49410ff54, 15117184466062743),
    (0x08547c1530a5fcb31b40e76a3de5ab3610e548cc, 103774161692725627),
    (0x99a5e13e307867c809183fce9d56162825358678, 23922750961950577),
    (0x2118b4d853d7e5c031a7bb9b0f92d499bddf48e1, 54854556709209024),
    (0xc80005ab8ea04ce48c535272a5f60476d3ba3475, 406861800054086365),
    (0x2821581fe39a58177a0533f7ae378f7c56ebaaa7, 45881494065596669),
    (0xf4ae2b95b22750d29aeac083dd7ad4e1fea5a995, 291692714542454602),
    (0x8b4d239104e5f571dd8d792c7de2a8e1d53b28a2, 23930139195588860),
    (0xb5f8ead6ff9bcd104b950664ecab2810e30541de, 2171929054486131205),
    (0xb92989fc5d472be76a46b242120dc3da6f7ad1a7, 11835724384244956),
    (0x86dc89df3823616d04a415e274a33017fd76318d, 46472482633715556),
    (0xed962353733322898e4fe8a90540784c75237d2c, 56380784972857266),
    (0x630623549b9f2cf5c79da412547f98189dfc6c0b, 51411024804988132),
    (0x0821c9f1c0e902f7ee24798391a61acc01081dd2, 3077588726229710840),
    (0xf620db5523d486bcb03f8c4afecefad61f11dc03, 17153357852641715),
    (0xedc535907d20fa080c76dea3f0be2db050dde074, 221301841510753174),
    (0xabe01da1e93cfae0a9098154ac9cac3ebe3a3e5c, 296161057408368446),
    (0x162284452b81d2dd73d35223507c9d01b2fb5fb7, 38054530121703618),
    (0x792882e0fcd3949e931a5a03531c627baddb2e28, 26939404732300642),
    (0xfb961aca9c575c53e02895f995efe3ef26605e14, 21689579560407559),
    (0x52a92a6c111629e2020ccecafba5547f884b332c, 2358416174777558),
    (0xc43fc9106e6940e123bffdeb82963a0734c10b16, 20917519912164914),
    (0x9a5650371bee1cba75b47b2e995e16e946653f10, 15692010757245315),
    (0x95d1da3b73be6e1d19c4ce7f8f460f3194f047b0, 7994896844434447),
    (0x225711a28e0543a48417245c0b502e75d8de4eaf, 9360608261742017),
    (0x6f063e8eb78db2ce88d68148710997cb884e5db8, 43475357438262235),
    (0xc509d36fa17bae3417f2e85aa5ff1a20ff91f945, 29784392293059015),
    (0x350f2383aee8c607df7bc10b94fd064d1bfb3904, 37651111606429539),
    (0x0f6143783b2891bfb0330239e823e24cd30dbe0e, 17638962157582594),
    (0x6e50b763a45bb0583ee73f3104907df31e2d65a3, 27413211369401973),
    (0x71c1a6723964b5db1a193b3bec100aaeea389170, 82114336566564510),
    (0xb3c2b715eb6c7f45d51ed937a55ef3e9ed213e07, 8312228375626520),
    (0x49deaba124de991b47fd7709f380a99cecdece1b, 11852158664248648),
    (0x72e0c3d996fae3bcb2107f7dc0363f0681ae0f7f, 22255334628470937),
    (0xc367066d357b85a7c4aa4bafc0834f0079f09f35, 210376311287783778),
    (0xe277759d9dd2113490674aab0601319a65444d1a, 17196714930971685),
    (0x953c5424be51b9816be2de94834e8d1a81e3b869, 36629294164865256),
    (0x13dabad6a1a25e3ca2f08f01a86a5ec39f1c1a8f, 16283318834521606),
    (0x979f575ef9b26b80179cbb223288f3ccc0212d89, 26468616445765057),
    (0x9bc50ca7ccb9193f3f1c7853446c9588265e79b4, 13527116728436940),
    (0xfdc03c88f4cb228b10cf3a53ba05da9dea6858c7, 14593873158561089),
    (0x74b5e2e0814c4f5df291f9c43acebea407d4e45d, 8410237162983845),
    (0x04e2184b22fec9fa16c7bfab78eee250ed5234c6, 22607264764162833),
    (0x00baf9c1942a1da57e5918915ef19363af7c3831, 45246380981493951),
    (0xba9fcb4ea0172ccc4643009b53900ac0179f481a, 11777415911389670),
    (0x9e2af98600193f60307d298cc9eea1755052de9b, 540612653172551967),
    (0xddaa179115831b5c835bad1443a6882668f01cae, 15593191050448146),
    (0x79b8ee625dbd7e052d8e4c888f377cd843dc3cbc, 49536315015190414),
    (0xea927fc6ce46152a6dc9d09c7fb04ec024922901, 15035069191138439),
    (0x970879751d9053f6c0c3168b853df5fde2870ba5, 5110750826070405),
    (0x2ae9c12d8356f11d1be6c4e91fe64c10783d42e5, 34559911887289355),
    (0x48e715bcaaf729e8aa37a85e9ce3fe9a6ccc8092, 11258878537898841),
    (0x44f6d4b38e3c9bbd74d6d1fce79a54c58bd1d282, 70898005803251907),
    (0xebc93e20a53dae815e69a7a94bc5e49094c441bc, 15531537516813295),
    (0xab797dac842ec13f3bee576b7bf4817591b72c52, 26629294164865256),
    (0x96dabd277c9533249fe3f175c9f02ca63ad7eae2, 96112721730523975),
    (0x74b2efa5f40782cfc7b51f4d88102187e2ac7f72, 16904196746132307),
    (0xa4a1b9d7c31584ec45f68606fa3390a324da28e7, 18543435344078771),
    (0x12f0d2cd01b4ceaf295956174339b6238697c42d, 14630790875965946),
    (0xf7a6365d342f6794ea2773a533995556ade0cc1e, 28641366775344070),
    (0x69dc076352d459b680ea51f65d28d516dd9a3f74, 121054579585589170),
    (0x3ab39a28043d53b92ef6746b2479acb178d56b53, 10567726761304503),
    (0x2ea02c3971e8a04577939832a88d4c9c4ec2e98d, 16984298862808162),
    (0xf2a2d9e07a818528af5778a8cc37708f51740514, 24977295685874112),
    (0x9ba8c659a42fb7e33a1392fdde11c364649bdadc, 15353269643306860),
    (0x274d23dc91996cfaf8f14082d0b9692c312cd30f, 13913139870732714),
    (0xfbf712df1d81578117e0fc83bc75785831def6f5, 30159492608333421),
    (0xc34867498bd2d6366e67e1b02c405a1859a4a10a, 8620906368119769),
    (0xe83becb1929d1ab57e75686ff4bb498a90fad2f8, 60858847932151341),
    (0xa397eb4360826e175314923b97d67e9075b8d2fc, 16957514664986325),
    (0x25738f692c9a743c431fe7cdf5021a6d3beead95, 81074905715197683),
    (0x008ab049959cf875bea7165da3e1f74b5c2dae77, 76400132384250567),
    (0xab78c1cb60c9180d24a1fc717ff0782a1978cd88, 20181808937850508),
    (0x90f3c74571289a540f496215a2ee4dccd32686e1, 8634955839975112),
    (0x302c04313da15b46cd8b5109a29b8230760151c5, 59311892770161532),
    (0xe5dcbbd07e814c7751ad5c10ff540fb8fb79a543, 46644719491174502),
    (0xab29b0fa76166235f7e280b5f4b3920dfc99b2f5, 24456508633205494),
    (0x5715c82fdf7c6125f08afc9d15919d5a91dccc8a, 12737413846469382),
    (0x757e90d986c72f136f0c7364d11d089ca68a3d20, 26654044371319628),
    (0xba55eeb10a46707077fffb1b0d918b4f59964f14, 19811429480123337),
    (0x81b88bc4a45242e9cc61c147b02f63c9559623d5, 35948121431713597),
    (0xcb6ea5f79a6ad76c9bb6ddd99af6e6d2f086e8e7, 2379313632955113),
    (0x39f6e1a9d0c0bfddf54334401650973d4f2a5382, 82793087926351033),
    (0xa54323352884a6316b8ecc439806c2f7cecdb5a3, 36174101721245387),
    (0xea6c7e4bf604bc7b362b556575923e0c5e1c6f1f, 53779400569005528),
    (0xb15f228e4e1d626ed9f4d7acd7dc6798fd4542c9, 34484641065764162),
    (0x5a181b418407cde1adacb05a412f45632c3406c2, 19136470374975703),
    (0x2de92f42391e9d26a6bffbddbeaf1ccc7e492237, 8776697225340790),
    (0x5e033b628c584cacee248cdd55874930852c9c08, 11899815652344036),
    (0x302f39155f77ce9d765699bfc2bb73a012fcc8ff, 109605342983014006),
    (0x1b1d0b5417190c1243e9092a63669aaeae7ee24c, 21240489350646351),
    (0x6cb0ae57acc68eb8806beb943e164854239ed8e0, 16597647200366824),
    (0xe23aa57055fa831b4220aad87a3ad7a0a51adddc, 1727750678384688),
    (0x42d5708b40c50664cac301a65131003479f24232, 12717864479914643),
    (0xc012a13f5b189386100693e6384910a09bdc5d05, 68445317805503665),
    (0x4dd4e01fa3319f7ba8e3c914815ae34949357d49, 121865295757410078),
    (0xa949eeedfd08ad9c91ccf579080f59ec4cb25315, 24723856565811337),
    (0xaadddf5ea033bd2fc83945d24419e2f1a3d24e1e, 14463612099321780),
    (0xc5a73956a122b5e133dfa7a9632501d3af58f6cd, 51248971660675970),
    (0xc886e5e6b8cb6e8e3bcc973126b5caf571eb5c4d, 15201259040472186),
    (0x304953afedf3b133c51dfe50e74f4bcce1496ee2, 28172811955149180),
    (0x3b8b740bec683847c6850094160e479e8e205ce6, 11445924211692314),
    (0xd7b72ead65bfefc0f97a9058cdbf32ae13dfe9ef, 93529697576419855),
    (0x8942b8a239e374b3ca9664c37448604a7fb3cea8, 192121826056770676),
    (0xb4ef73cfc39a6c5e7caae2a895058c0977d2c919, 22192449314520961),
    (0xa9ae8ac50d28cd697d1a817e76c81245855f6999, 10831096908884255),
    (0xefaf05b3382298a2047b17f5f09572eaf6477247, 11587501795740593),
    (0x737d1be798efa2278fb46807b2ea3ec36397f5da, 11591279665846123),
    (0xd429fb20bbfa3c37e347a74a061f4568c721bb56, 82330503406227819)]"

definition claims_data_08 :: "(nat \<times> balance) list" where
  "claims_data_08 =
   [
    (0x7e1612cb14a2d89badec09defb2bd463935b57e4, 12629882490572301),
    (0x979ddb08d484a6bfcbc227b56e23d05ab3565e92, 4542322546628064),
    (0x8eeb040d57a53131677e3875cf7c648709b12108, 4542161368637907),
    (0x01cf9da36bdb01a3fcaf2a09927d43137b7ea860, 13640167132828193),
    (0x8f334fade3a461dae41b34c98a0cdca0d879f0c7, 13870604870355940),
    (0xe32fd8fc212fc8440b6034fd61d709b06d910735, 16046669898516550),
    (0x44b3e0d239dee0120ebac141408c449a475515e4, 333341169153579241),
    (0x3c53816c3bf75d641430bc689f7a90c107379e36, 368830750404464095),
    (0x75d0daf086a64b4e6870c7e5eaef79d858a29565, 12346012229596965),
    (0x9226b173ffa353cac6ee7faa0b9dbbba375247e4, 19969624128081989),
    (0xf84b9e57628da8a8167c0f84c266f70ec0863510, 22858081253554170),
    (0x29d78f315b4f612a500cc3bf4d7d6d1d64218e58, 17385119277986893),
    (0xc0ffee37964a6e044863f3fc0ec0ae4907a0fc7a, 104246777756744733),
    (0x3cb372d164bfd744905451daaf25a6bacf3fa962, 9833301089443089),
    (0xb72733a034cb3ecf3db33106c8a2136b6f33958a, 7073281494920382),
    (0x2980cdaa6df94ed9ac630784a68a86477a4480cb, 8372318860278238),
    (0x03069d347d647922b9acb3a73642118ffbdff42f, 31506104083271452),
    (0x11f40780cf849d0fd77d70add51acb36665d998b, 25714617561464027),
    (0xeccf36330123dee521e39dc1cd600c1750497824, 28086477641471229),
    (0xc754bceb13d663cd7911028daa7d4efec2b76d9d, 12917661331231172),
    (0x870937c3fd7e2c86f1783a087886f3d0fe5aaf31, 232235216613592189),
    (0x569feaa77cd01782a93d8533ace4400efd746d4a, 39512590606066183),
    (0x5818976d8629f02c440a28d3ed41bb662dc3b614, 23182050575245710),
    (0x1173a4a3258817006e2508adcae32279a0436954, 208967574900193610),
    (0xd89187da9c93f238002534faec2043ea028077d7, 3929665081445961),
    (0xe1bbe96adf13d338d2cd84133c1e43017330dcc4, 190670976475144078),
    (0x493c8525b7b0604ec681a919b5b1dd96e5949769, 8484779308604486),
    (0x482f17a8e12eb90967918833c053ba8e97d869d9, 39076929033598006),
    (0x0d02efba1e54b4f4557be17603b140fb7d2f9c7b, 23937174007426807),
    (0x1b66e63bc0ae466ab06e56c2346050ab9e45ce8a, 15065103535031935),
    (0xb17d7054246e6ad7cc8c18dfb1648ce5a7e1741b, 12000012197036360),
    (0x3b9dc60663d746bcffbfd35aa88953269c84f68b, 19835367928914456),
    (0x8708ec40c759a6b5cf8b211fb87a762ab84ef4b5, 192174285456450908),
    (0xf1690d005edd1646686a09f7e9a27acc00e424cc, 42504290503828927),
    (0x17966af411c70b572a058917300ad5bd92de0e72, 8792636025012332),
    (0xe0c9fdd4355d0a154b162ef4bac645fdc0213b0b, 17165276231957201),
    (0xf2c54e247492de97bed250525e2880e48506b01e, 13858047766921938),
    (0x5ffaace27e191c2c91709ee4495eb8bd7462ee98, 11620730435802965),
    (0x666be76ffcf607b75a2d98669198873b19561777, 6615541941348200),
    (0x6fae4ffd319b672bb8445c5a9a357f6034868e21, 15036387502546558),
    (0x2ecd36fad6d4e68a384e1928c252b03c6370cd90, 12243348831578006),
    (0xf14a04d18cb5ba0fe293f6157cd4593404c12ece, 150937429005725881),
    (0xd041f2dc17323b6e6ab32e3887dc36b94e4c03fc, 1672087284424),
    (0x162c9aff9286217702fcb683541b68b00e6aa2a9, 20581900911953333),
    (0x16ecb7ca4445b28211631d5b5eaf088c4c3a1045, 15360041282365213),
    (0x979c45b32d9d97793a8b65944485dec85a2ecbe2, 19866615531172727),
    (0x0b96e093d3c94ba3396ffe86158bb9cdfea4ddd5, 18387132279187566),
    (0x4c2a9d689d257c3519db824a2539c94165783ac3, 268064867473360831),
    (0xcddf6378ebae46396269b85eb58ff26fd1f6b6ac, 304038921902401146),
    (0x1c144dec3e6a22709d62f9783cfdd5d40d108be4, 23826748952473234),
    (0x0cdc67a39d4f0951f414cb508801e54e019d5171, 104376995747821769),
    (0x2fb965447d395cd6dd9ac004e997099a7697b0bd, 42118156266743030),
    (0x44e1a0c4550caad358657174f84be8c6bb303fd7, 33929646247964259),
    (0x902c5c1ea4374a3996ea35896a9129f16ba1e26b, 3250904313922696),
    (0x2401f38b7258e8cc75ea0cf6e23d9a632cb96cbe, 108603440211467794),
    (0x28278e1dfff99f8afc86abd9dd86899a16d09839, 19761192457968829),
    (0xe1fc65f3dae174188475ad866ae5bda3b8bd2d0f, 35666826450974426),
    (0xdd1160ae1ae6cdf0263b68d295bbeb36caef2bc9, 95710624827336989),
    (0xff07aa7b012ab214bfa287f8c679a00b2b6101df, 14001505812287855),
    (0xb1c5a159ab88600f29ff99d69f19cfb4bf2515b2, 11921683829735846),
    (0x68c57f637b92db1f3c323b1fb4651091c4f0d229, 30849440673888747),
    (0x4aa0f9dd1dc25aaf193e9e06532816143e1adf96, 42019670096285028),
    (0x299ace548ef2885f8e38ec10c55b052d1cdc121e, 19708784762836426),
    (0xae8ed9db9337da2484784399031c7daa26e6b84e, 98855099672181502),
    (0xc7cbc2b8b6ead19bde69590b0cd06d7ccc602736, 39857810635767521),
    (0xa180f92e941f317952466e2b932f4386beb48c59, 112671489475553981),
    (0x9d3e7c85e1594492215770942df30e7a93fe9e6c, 71983522029753554),
    (0x804604f55fe79ad0237696465c57d3de997c14c1, 39905651385703816),
    (0xc3a873a39d2a382e5fb4cd34ecc20792b03be6d6, 31725898023040936),
    (0x9c6856657ad6df9815efb2fe6f4d95263b69fb9b, 36292573163511239),
    (0xa5657b1aac2cfe5ad811a6eb06c6f2d05f555f17, 77544166481972407),
    (0xcc95c2e1b98842bfbefdcebe3430087dd3edc9f4, 81422950847610758),
    (0x71a8c7e97683227a82443bb94481fe8d5cc5db61, 53111915910399604),
    (0xf06e77fd9289763c1efda7b6901f388f47656102, 11953816496958245),
    (0xe569d2e298ca4ac8228954a985949436cd65259b, 20639818823589821),
    (0xa9c9e19d0776c94ea17e33a9fba524f65ed9dc3b, 7498023775815824),
    (0x0b2bc27be4e2be46acaee245383f7fdd0402a874, 507076674176868210),
    (0x05f830473795f214ed77005777374d6e9e4191d7, 27581375401537774),
    (0x30f484e2e7b5d37e3dca0aec19ff07892dfc2610, 13326856309359084),
    (0xf5d78d81ad72d585492186f5164bbf9449429c2f, 31659408496828853),
    (0x1cea244a27655ab086da77e9b2b15859f133ebde, 43151722323964002),
    (0xcb61958fa37a1a22eee572d8ba721e8496403bad, 108733167138678411),
    (0xa5f7b6ed26de95f1a2c18d6760c8df9996daa0a5, 2852614120543337),
    (0x26026fec6af3404a2d00918891966330bc2f36c8, 254810167223927339),
    (0x8737a79388ed91f87f1f4fe252b5617afe74b348, 15513071860677593),
    (0x9a1332a6e6905b2f0791565e30785e0ecb7bf2b7, 210198485749802559),
    (0x12d618852c82e30805615b28c89cfc39d9faaffc, 20904726335645274),
    (0x48b58f0317956e24253d8a4e9121b686ba559eed, 39355514408753479),
    (0xad8c1018f1313e0f18d8cb63ef95cb6a5764b674, 24860887294601015),
    (0xff1b9e075ba9f3a32c5af4836923897f7f473875, 135369146880630684),
    (0x384b079dc97824a9a130b9fdffa13c3ed2b863b1, 11025183911193224),
    (0xd3319441e09101fa48debd7ef95df768aafb9794, 20660013626189587),
    (0x0b58680e185e65f8742ec91bf53e1a6d23027ab3, 34603508441783271),
    (0x1800956b77ac0d7fdea46cbb5d375a172ce7bcc1, 32116957834173172),
    (0x9558702bd1b2d047988fafdb84bff0ddebdf942d, 55244389666625789),
    (0x6ab6cab82bc5e620c4134b616c80615653827364, 374788458038416022),
    (0x006a5c0bbc6ff6344a37c5ea5c979c57bd3912a7, 11332335915120488),
    (0x9b0060427e271f8fa67ab5a63e9b7fbfc3f16612, 134864515199719266),
    (0x2f8899a45af336f38f795097c8d61f65bfdceed6, 11409585449767096),
    (0xb7fe065d3289765b6d54cfec1f6c191425365d01, 75619613923581353),
    (0xe69c796be34ac496c744bfa79d442ba64ba85676, 69378739790380060),
    (0xd62d31234b947bd7c68e5cbe1ff4f8f65e958a1c, 13742223054816554),
    (0x56881e662560db7e58fd9cfefa13bf8359b6c7d0, 38361114642144378),
    (0x24e0faabf11b75c53528b613bbd07bf8955b6e58, 33039485371306546),
    (0xa7494548faba8ee06cedbb61c3fa5f77b15a0517, 22699897153428980),
    (0x1ecef218af3a246fc32875b53c90dc919f853872, 154529460503309462),
    (0x41ceebaeb36e7c4755de8c0aec18ece2aa25b1b0, 67370529507334529),
    (0xde00c80b99e09dd3c0978fa2a850c0ab560b3ef7, 10486375768410948),
    (0xba81988adeb9761e51dd6a3bc8aa773561a5d7c5, 429714794254807804),
    (0xd8b705adaefb16b6cb3b62f4faa0836086f2298f, 457469083304731543),
    (0xead2f27a0363efea7b417790dcdcf1c935ba15f4, 11562331402182185),
    (0xa24a213a42ada487fcd429678cfda7b6f7419ddc, 11006706363676530),
    (0x69a35492113d8dece5de61835402f92de39f6753, 9259887551201188),
    (0xf5eaf9a0086067933b056946cb768d3d78033d8f, 55793076045233678),
    (0x58b625399cf5f4ee2a734a258e115b856a0e415a, 106981080931940579),
    (0xe93dc9641ab0d5f6d28d5719620e4aa9fa5c17b5, 84839603770573272),
    (0xe4914b8cd5a24b1e2b6d42ba887bbfdbd5439705, 16195448359243217),
    (0x2d3ff726873341ebc87095dd9c9660f5df3ecdd6, 9020774888865535),
    (0x7bbae228f2aa321ee03b33ebf67c7782c3d9cd0a, 20000421500734755),
    (0xde8d5ab8312b45012a5a54dd47cfda0676b83f86, 66170231601643121),
    (0xce9a64d8fd62f515befea0dfb58376c03b111f73, 21489178035715102),
    (0xa511ef4147866663b25b957256aad11a6e979c57, 44280625091999394),
    (0xd245230d44d943f64efcb9877af605c732e28844, 10791642935222979),
    (0x38cf2669667b75b9fc2e58c1b9bbd4b342f60935, 27628902791154559),
    (0xbf7c104eb664111f570500a1f69d1df19ca17e00, 24336361463326786),
    (0x5f98fb3bfa6d49c87c88be9ad646d03992578243, 17319609708559575),
    (0x31454ad3b6478c3af6a8e4ee78c373a1acfc569f, 11802755101860864),
    (0xa8c569dc9f99170c1fde93242f2a86fa1d0c9047, 28975361000349815),
    (0xbf234ce9f90b22ac6d328b876cfee0af02de762d, 25117894269936635),
    (0x2b96e690177e4ada38318e281defd048b1d59f78, 74727854999269054),
    (0xfd0b62d39878bd9966883db6d4e984d7e35233a7, 7404911803929937),
    (0x0aa83783360de0d9e9339b06ab78632dca36dbf2, 141201648124763962),
    (0x4ba2d23d5f04c90ccd424afd32bed0ed721b6cf8, 96266246692626673),
    (0xd85ae55864bb2f4079b0e2ebd8ea0a8cd1e6db1c, 68916949404808124),
    (0x2722f4be5dcb735752c8b2c5c7dba16b36972e76, 32612444112577271),
    (0x80459d9feb2b1ca5ba0814f3abde503296e8bc66, 14751524867845363),
    (0xbd3244fe20e6a4897f3454287da7ec125e9e9abf, 12297222579567245),
    (0x5b75841b2240a49a48c1bf5afd9eb9047b716216, 235260440824923469),
    (0x4cd4f1d77641e5cee823032fcf83aae591e790ee, 19743932446930133),
    (0xf03abdc9039400ed2434218415895ee2b7da8b7b, 26946204472567624),
    (0x2504a804502afbf28245e02dc93fd36639a9f3fc, 15000000000000000),
    (0xc47c4c896afe31e0c37ecdb54df7836313b6504c, 13580599569198246),
    (0xc0f9797f8887fd6c1d153f78bcbd7dd558499e38, 5659123336291794),
    (0x1c2d247445588a8d4bf6c238c2a4131d4199f6a7, 75912787162677961),
    (0x896db7c827e6dc3635f659dae77cd04b8d6cd5e3, 17984887598665791),
    (0x1b494fd2e63f7a2e959f80905ec15cbc1813c3a5, 11377952397902773),
    (0xf8236d7e881d273047b0f53bc6998f18171991a2, 215667000901727051),
    (0x9376b71f8327ebed33d46c2722d213eeb67b635f, 2004436863197947),
    (0x0c40db5638389c726924ae5c24089b5fcb1b7a14, 54863504964418666),
    (0x54ab009ccce6cc1c093acc0570cb12d9dd6a3688, 51495071788831735)]"

definition claims_data_09 :: "(nat \<times> balance) list" where
  "claims_data_09 =
   [
    (0x0e3843a33072db8f97ed2ea32fb9122a0b0b17e9, 106557540801006315),
    (0xfba48807e041791950489be9dd7b884723fce2a1, 8066994212964826),
    (0xdbaf073a508411e652d23e655b473191a0d3356d, 11874470137232247),
    (0xdd701212f6fe99e550ae650a13990de34816ed7f, 11163466577827840),
    (0x343a19a57399e3b9fd5a0793c1b35514fa8460ca, 40966719920723345),
    (0x618d57d0ae73c32c01906ce9c7a30e0cb4a0909c, 6419152733304202),
    (0x2e6e21188cda157bbaf6f86b63a18be204a346ad, 11824099841082695),
    (0x140bb589a0906c6c0d623f5715c6da8772186bb1, 21788176796699199),
    (0x1ed61368f6d1402acf2d3ac59f1c64136e6b9070, 123596321920881947),
    (0xe72fafd6859b6e496e3c380be3ab99472086ce17, 12110427483641211),
    (0x80822460737a424ed96f18ee95e75d8bf99514ae, 11182328918930523),
    (0x500144b9948f68f6efb7451ebb58ea2b833ffa60, 19684320553251835),
    (0x484f4defdaed9404ca7e53756c75b0b2335032eb, 10397957062887810),
    (0xcf8a2a1f291bf2fbb656389e62a616621cda48ac, 31667299904263546),
    (0xfae069be0bf6bf0a82cbf3b472ee77373aaba2ca, 21672237051663187),
    (0x22310275a38f0c403177772ab8e53347942eb623, 26427179283699299),
    (0x1316202007eabd3a7497af6aa8a432aef93c0388, 222892832090791647),
    (0x540389b43efcca02853120d62012c2a8ba962c4c, 76113316887907319),
    (0xe1d79b0faa2de1b1a4de6202e10965585ed69cb2, 8854209354320778),
    (0x73f72cb9f5ac80fa6a763823998956e734dff980, 54583818350217928),
    (0x0d6b1c75deed4a973e26882d4dd34a76c25518d8, 63948283442341498),
    (0xb5d2e4d4d1f10791188fc32255ffa42dcc3c216e, 12921914224674523),
    (0x94076dabe197081b1a981be19b0b55cb456a71d6, 15820009420887627),
    (0x6ca2c5c95208d82749bdcd265533dc7893c6203b, 12092305192947057),
    (0x8b76657931d04e34749a82dfedab60a7f9606ff2, 103290372878458893),
    (0xe8cdc180c47069ca4adff90c9a9a0caec1dcc7a1, 765138460812567435),
    (0x3b6011e49a629edbfdc5e9708861ff4d5979507c, 15790318607481324),
    (0x6bf7550bf182b8428e2cf4fc640ed884ff8c7a57, 31109055462182732),
    (0x8577421a783ecdb4fb7b3d182f5c09e8d25d3e4a, 183590056916935920),
    (0xd082013989e81b8fb058c8cff5981f006d590d71, 19261128254701673),
    (0x8b926963260c0b0c563214f097b2837d175860c8, 100149748515891544),
    (0xb617e8396484da041911aca60511279c9babae22, 25049423878917557),
    (0xd12140fd712cb5638549b10f77e97fc4ad3ebb17, 49241337199856392),
    (0xbfd24f1db15bf6d7e86c2fe984208f07cc538d80, 37669376825969952),
    (0x150d539ab35803f5cd755fb5a1b3a760d014344e, 23478879431597370),
    (0xf83691ae70f81ad41742bb2f36f00d1f2ca17985, 43550289535404244),
    (0x51ffca733b69c8b6497169add36feec36545acbf, 21779056092629452),
    (0xc3207fd7a7d4188eed57a89eacb93c59e2b84083, 40667060138139926),
    (0x9f85065905823ce12ab51da16b6dadf47c8c9be6, 5619346867536000),
    (0x3f96c16c31fce6999baf0f910c820cb4276d233a, 37616030444503428),
    (0x041bd8cc03c47c024d5ba917e26f3ad325546459, 14595265314777396),
    (0x1c2875bb7564ed2c77c39e5528a3825879dce4c5, 5418268709236110),
    (0x6a4f199ad1f2f61f96ac371700eed0ca58415a7d, 59164022882691673),
    (0xbad2ab52a70a7735efe69050bf8f5def097997e2, 21745537536504698),
    (0xd4924261323dac5faad8524864d35d43d7190f92, 44093202367941998),
    (0xe9051d5f510e97186f8580bab799a138bd974772, 30617996397422783),
    (0x26b7eb97b9be22e96cdeabe53e6a6be8d5ed4a6d, 42476807976360284),
    (0x9daad031005a1d664e8555f53ef406b32c729bf0, 40202220509343669),
    (0xd62591f4e6a6bffa4e5256524f2659d2ea0e9b6e, 92365062863584347),
    (0x3f7865b5ec3e4e6f22650816e8aa39d5f625893d, 22182595594701712),
    (0x8d3ab912ded3c92de60dbe1c785462e79b5d1b15, 73936929128942363),
    (0x79fb9867e8be703585a12ac819f79f6479619369, 17311169845681512),
    (0xf05015ad192744ce3d42f835e5c92c6103ebfaa8, 11966359656658751),
    (0xc093ec9735d470948778f2f334f5099f49a97242, 21373730725344643),
    (0xb0c34a221dcc38f6ce112b7cdbb39e8c4e9e5a08, 4228554629287522),
    (0x6b35c6e653b4ce3db40e9547fc4a1882e5be98bd, 17212587669101358),
    (0x7af46522bb66db6eb4e38af4574020ec6e05c10b, 16349096153495958),
    (0xc84f3a2543087545b02ec44a9282cc6b7ae10887, 12427944332213351),
    (0xa62fd86a4e1f8691736489dd648ad735461f4282, 73782908229900676),
    (0xd1b81213599f5ea2b1ba53738425e80da7b57b53, 56802577767204326),
    (0xbb9038d927c2918ac21a9891bc4c9808341c1a41, 24939793200612178),
    (0x90545595635f14a5034f953b5e1e983f6049b77d, 1534034299705293543),
    (0x0afd570ac9db7d75122c39daa453c104cea9d53c, 34428303758209377),
    (0xfe42f815a772a257917a11eaf6b86adfd9f9543c, 35124690949754506),
    (0xb289806a6e99cca9b190e5a9bc7d5729928237f6, 109784739417184595),
    (0x4dd35a41a33c84f6b9f7cf26a94143ea993ecf1d, 36629894206780373),
    (0xe25d56df6edbcc226b611cb95fddeff9cd6d88b6, 1048831837146783718),
    (0xee9fff4e526b869e864945c77e946a6d629cf1bd, 28131555561410053),
    (0x32a8fe9f3c41a60a5f7e872853f799cef5d81639, 182021779477306700),
    (0xee0c15548c22ef9ba84059b6e746b412845a1c84, 21091610426143676),
    (0xf2a81c91897fd63d60e46ca141fe37c281330324, 22534696555570710),
    (0xc91fd88bacb7f6d128217ab7a6aba55f56bdd7db, 36908206371424625),
    (0xaf65337eadcbc60a94cccab61f187c2025339ec5, 11189251716581661),
    (0x662e7e450e3d1d2c7dafb8d8ff37b53da327df97, 258317769261606975),
    (0xc9c4327ee7793c9f98bc36ae976d9b78c5650c2a, 20563909098365537),
    (0x66dddea496f63104fb3adeff07198273af831363, 11584686130715933),
    (0xaebf28abe2725ecd4d0222e4a8359ee7500978e2, 10918195979198561),
    (0xdb998fb07518815828200f6c8d79eb40b2f982cb, 21915739074459191),
    (0x5e53f5539803b633fb77f3b476cb88e1225b3418, 37463320414097609),
    (0xf14c579ccd5a476cb6fb2388c88841ad7f0971e3, 13272815817018730),
    (0x41b72ebc7d6c9f54f8405964897184b0ec9b9814, 33645342959838707),
    (0x839cbbaea05af3c350ee8f727d202257abff9160, 36640604025465162),
    (0x6f101b799d9eb41e7f03fe3f193b65f592a11ad6, 11560098264697400),
    (0x7c0f8a8b90320a2e42758dd5acb08ee97f9d4f14, 20904983534051460),
    (0x0e566891fd3da715c4e6d43f7a079973bf126995, 17515724069466992),
    (0x3eb3e087520238d1b8d5bd8720fd352db18b541d, 42129032338631963),
    (0x7fe17709dd77a41eb90ace61903bb1dda7e8642c, 50538131312031357),
    (0xa48751430218c41f42504b8dc5d4f47ef4a9ddb7, 25579691782249644),
    (0xae7bc056ebadb7dacb71ca5897776e4be1045044, 14063894834749080),
    (0xb3fb6e847338fa5690d0c601094d7804986f5c72, 21648385412918785),
    (0xfd64a097f72382e6d32a0712cdfdd45cc72b1a03, 17259421910787886),
    (0xcd6922ed12a53ade89c3a853c0da3be00959dab2, 19191648414184104),
    (0xb27789c3bfda95c9013a3d0d4fa7593c6f8ddb53, 13860649462187560),
    (0x6895755e525a6c3c1270479bc958bc17bbd18aff, 17130768377960084),
    (0x3643962417da87156836052af92647810dc65d49, 43447120447164477),
    (0x529406133350897f241aa73d81119ffa0b88a368, 10769649032858552),
    (0x5ecb233fc65dc2d0e1312d3b25da112130f793bc, 37515649138274641),
    (0xe4e52c6a0e560397412e0cf995044ac2377a480d, 13193950093432264),
    (0xda23a6a62fb951140d7f4e58b1140fddb6d41ca9, 2302470922375996),
    (0x902e1e580e0869705f94d638fc9d5df7ad011d45, 35443513282490353),
    (0x478323fb45ff494700d22493ad8a1b29de6606cc, 12035618701749771),
    (0xc74e5768437290da47ea99757526af7eb445301c, 36017274823518751),
    (0xfc874d67b624f93086e64cb55e806c96a8b25a92, 45246006927932544),
    (0x03d0836e75e913b9d01e2d096aed6d83d52107b0, 1551629887019167),
    (0x5cc69fcee4e4166c46c9da786b91d0628b4a6381, 26079836313878002),
    (0x4f9a772c5f934d9656d6263a2f556031279b9925, 54506106856619820),
    (0xe7f47716974382f9ab86303a4af6d4b2986df017, 15797038753659081),
    (0x255984e224942259140f722e745e611ca3701861, 13522349005826073),
    (0xe9cdc93af10dab2a19a64095fddeda19d05d90c5, 30019657991051368),
    (0x760fd8bc09188d801d446d85c9e619e5e794c1d6, 64732340073131093),
    (0xcc83ca391a0fb68fa1283dec71a94d875e8a770e, 63218238120993384),
    (0x53bac8e44cfea780545057c2bcd6cb86619131b2, 10006857807987266),
    (0xcf3ea2759b667a9e11e25dbab5761b367bf9268a, 8285663684568238),
    (0x124a3889d67b3c852afa155c583d7c02448ef325, 26317459013875793),
    (0xfcb1ac7f1ad0a9cb4385ba88c700aacccd02610c, 12787891634920112),
    (0x9970566f52a71f5ae8882931a4d5b05e71d2c62f, 205923012136107783),
    (0x09ecf3f9423d2c60869eece947ec8199f788d1f8, 18125248703432742),
    (0xa181108a7d90035639c83ee73c377cde39565186, 58756840427636440),
    (0x73de9385b9209f0759918406cdb0d52a5a73b6b9, 50980856730226995),
    (0x2fefb597aebfee18ab9e7905044cb98fee4f5f12, 8567345025769128),
    (0x22cd620226ea46ff812e21e4b213581c6c17c3ce, 55472272234087150),
    (0x8f63277257a7eead6de9cf22f809be1de12a5e12, 19062021437970466),
    (0xd0f6cb50266f433db5e5b1f079c804011185b4d3, 20883758386842662),
    (0xe32b87283e44c75fa19a256bf1c20abcd44465c8, 20671558194625038),
    (0x87c40bba9cc586463d416561edc0c02dcc5c3d47, 13396752585934858),
    (0xb81200d313ca552b237fb8fd2419ffdd6e3f0b36, 19089780587514098),
    (0x3ce40df24f8d80d892b44932f5b84dc1a885f934, 8735724839327460),
    (0x858a1c033936980aa002a0e09ec9d770f8ec0cda, 163552352728291947),
    (0x94c88ba7f530a65b32619a9110d6f0fbaf344a14, 15218704508892063),
    (0x8a3145eb3c794597115d2ccff0f0908e73a01d2b, 11058557587653366),
    (0x01c2ad8753aff72257029399fee3e975fc112021, 71521500710510076),
    (0x85d56d68e516760529a6a35a0a39c9448f3643fc, 16285825235850034),
    (0x59a0823e48d88cca26cf831b1dadd3dfedc0b29e, 11161210281982429),
    (0x4803d7c3db77ceedd192975c3c422c0260fad0dc, 6168699993274654),
    (0x497d32a3f4e9a4aced0a485c905a167b0517fe0d, 22614559609461365),
    (0x5ea469ef7e41315c7505163c16bd9ce77db5e704, 6167396805659136),
    (0x99c2f0e5e1acd9b15b1319b3cc0c9d4cd0c6b572, 15166819347050658),
    (0xff78faa55f34cbf373184f8fbe8fb85ce272ca43, 103054350104065398),
    (0xc58f7b43569b70a9b638ff05b7bffaf515394b0f, 11095647316535479),
    (0xf1cf8c7ac4350ed9c8755462521369d7efc52c7d, 8107479236066948),
    (0xbc3285dd06284b28c19351f7c0635fc5e0f74d36, 102255618074401430),
    (0x371756e957e1982c984eabfe8b0554c449f38bbd, 3572085814470057),
    (0xeaa098cebb1964d677e0032b64749ddd3280b6ce, 14960397597813870),
    (0xa760420793da1a539198ef2617990d67a213ff0e, 43526018075501880),
    (0xb2534c40a25951d4719a1a30f52c3c55910c2570, 4144463249507827),
    (0xa3e28f22e145a7b672bd76e99e8ecbb8239ebd09, 101594906563228145),
    (0x4a3a00645e2cf4752f927ed41c0df8e7827518e4, 11476046599080811),
    (0xf389f8a2cb2dd4786c94d6bdb860b613c1f1e6c1, 9350643149439504),
    (0x34126805f6d99c6117181a5e0b0a2dca5a49a4ae, 211063604057424683),
    (0x02c52d0ad9be7181dfb12cd2e8f5f7d33e48787a, 7806093056368505)]"

end
