(* ===== verification/Claims_Table_B.thy ===== *)
theory Claims_Table_B
  imports Runtime_Types
begin

text \<open>
  The rows 1501 to 2850 of \<open>src/pallets/claims/src/claims_data.rs\<close>, in blocks of 150; \<open>Claims_Table\<close>
  puts the blocks together and says how a row stands for a line of the source.
\<close>

definition claims_data_10 :: "(nat \<times> balance) list" where
  "claims_data_10 =
   [
    (0xd75bed21658508275ba7ea78956788859d80d238, 21352347962440848),
    (0x0356f06f0a7c77bf7c1dc546c706a7483f931b65, 20199123649261108),
    (0xafecd7e4724932971f877ecdacc1b1de9959c56f, 19488761691920820),
    (0x6a644fe0f5f2391f41c2107b74a03a3262bff83c, 9699720556801682),
    (0xe080b9043c6b736c9d34e5f30dbdac9a0efdf9d8, 35372942711223883),
    (0x61a0f7f075b7f305068229b1946d268a78a215be, 21029677258130735),
    (0x06fff6dee76735f8a45ef942198e914b370ee2b1, 17146339047848514),
    (0x1a338f821180e8cde231ef4b394a6a58e8e7706e, 57609684040506288),
    (0x119bf6564786bf3546e65b96173621a9e422c31d, 18409306813381530),
    (0x2c8a3d21c197797197cd590eb8ab2a0676dc648e, 19194341517301926),
    (0x9251c4abb67502d53d7e5341ecfe9c7e81ffb622, 8635214335548306),
    (0x12b10d19683a1f60d2bd7ee74280ec3a98defd17, 36028755708205801),
    (0xf72784fbe9fac9e1a7f7332ec0e5359ea5f0d0d6, 11347760501726111),
    (0xbb64002bede22d46ac9697cc398c289abae45ea2, 57146351265529825),
    (0xbe2d0ec6603b50a1a6ce4f8826cd4c62a389b9f7, 21904553157798456),
    (0x68a177d872b68ea99482503a5b3a58a9ffdb51c7, 21048835303617621),
    (0x26ce8f32260f05e91faaf4f26569703cf5c52373, 87066121128473939),
    (0x8acc8715f50092387413dc78173ec21dbb3d9c7d, 11394688415084320),
    (0x0b4e1eb73b5ba177ad0af45f97bd19f9925aef65, 72489050579184061),
    (0xf77a35541e12aaea6bd5c51f266b742d403bc149, 37903196341400277),
    (0x806a01f32333f55c8e4061b7d4ddc02b02f525c7, 79726515221659446),
    (0x69fab6a69f63577338d44d58af7d7b5889a26100, 37539460837860862),
    (0xf2a4518c1f71ca1f7cbf4a1c597f5718fdb34426, 11563044245443055),
    (0x9754c855415f9f8af3de65280aa2e0111ac9f904, 47050463128793159),
    (0x505ad011b47efa28993cd0e6a11fe4508f5c8e7e, 18818236759602870),
    (0x8e09f821a8cb0af0cb95fbe1324ff1ca81fc660f, 106549164214321500),
    (0xa5978536738e4f02bec619619cb1ea99d92df6dc, 11824586252255629),
    (0x8f47c4ac59b78a73b48b543404054b4cadf9f92b, 23814178491972676),
    (0x12cdb276dfbf563cd97ddf754d588d61838623fa, 8403633773990161),
    (0x94469eb832a83b6acca5879099041116a6ba860e, 199195399547313638),
    (0x1df1e9f19f4f030f5ccb0687833edb69ee6128c1, 35901999354002790),
    (0x0e8c6df27a29de2066e0ca6d7b6797a9f173d1d7, 20113273198032664),
    (0x54c98dc42d9b6f62ad325b14170ea64dfc2837f8, 14467777600585912),
    (0x4c21db46131d1aa493b71ce1a681a745736ee67c, 29722961653627026),
    (0xf7a3658b0c2e492e896f203a98fcc4a493afae4f, 10563890391130061),
    (0x3fce2619ddeb35d18ab1c1b4172d86401b6a8e24, 106044761804916133),
    (0x9c1702184e9cb88afcf0e3732a45bf354d6fae14, 33670009129462814), (0x0000000094acb89a43eac2fbb3a07973efc2435c, 1),
    (0xa54f21bef10dd027e739f9e66dd69459047c7ae9, 3770546073165325),
    (0x4b14d2c0d6aaaca81947839b8293f626c16d0863, 21763726422009199),
    (0xb9f10a0d1c23b29cb35b83ce7d526c00ab8775ff, 10468834460492152),
    (0x473c3552e15ca2d7ebbb6ba0af9bcc478c8a2b72, 41543047510893594),
    (0xa8175034d62fb624842549e9bd281869ba8c672a, 5001282821306132),
    (0xa4c92f833936b3313056652eb8ece4b76f88d600, 62883736718217949),
    (0x29f32adef3626b42494fa3cd1cd7cdfc3e9cce61, 37679875055172359),
    (0x9ed80eda7f55054db9fb5282451688f26bb374c1, 30180964768360210),
    (0x9a1768f92c57e7b0f609364185c92404049f4f3b, 41536805923797411),
    (0x47620e7c82f065fcd949517df52044ec4997c439, 89949687106310523),
    (0x98c045dcc378e578a40d9c9f000aa60a2bd12942, 15505548581806716),
    (0xc73fe4a11a1d0f6f8a326c9f214f196928e495de, 194918422980399811),
    (0xfc467b94d7142ce05b4777f145ec96963c0eac19, 68107094702292635),
    (0x58d0b741122267ec49af9f068b3b2f115e844d98, 58719014091974213),
    (0x53687fd7defcd7daacd50151ad9e221b623188ae, 25409286455000842),
    (0x449e56bd89bd12fae88515501a6e0cd50d8a0cbf, 35049929049939681),
    (0x5445d8f1d05b94578a1c32eafa3a80db59a42358, 36203818515039545),
    (0x1a347db3d372a5514a9f2cb7dda60267ea2cf922, 13017006871701870),
    (0xf9a86f06504162f8922ab4397081f5288374823b, 5281138040000000),
    (0x4c3f8bd7613e0b4ff0c27cc0dfdc812577859796, 9020401951721672),
    (0x232f62bbcbb6a8622b4b7ae286ed1152d40b514c, 35270239985431492),
    (0xe07eb4d0f4b617f7f3cfbf2bddc23739f43e5a5e, 9655817522158811),
    (0xcca8d641bfd2b4f3816d9374bc097f494f04ce64, 20798401298240004),
    (0xe221e551a8291300791f2993bd2da99a9a7b4a85, 892218637132529978),
    (0x499bef111e38a4914fa79564c3677935e0fcfcf7, 20107683141405549),
    (0x53bdffd6dec1049514a18332de3a1b9cddbd73d4, 89825988583122653),
    (0x4c3ac06e10c7aebd4daa17832f724fcc7b19b850, 14608778414854858),
    (0xaca91e79d98240d85f6ae566227effb085d9aded, 20459245013602002),
    (0x79e254f70854b204996266bf42cca24f258d1805, 16519314950533641),
    (0xe1403327e133ba40619c4ec045b71eac9f2a5582, 7604869426323826),
    (0x5b0261a4c63dfc571f287649907ef1256ad03370, 14911659043407779),
    (0xcce8c6e169bfad163c29952fab1cf4fef71744b1, 57762746307554887),
    (0xd65799d418905b5eb00463be54539a10f0275512, 34812450934806630),
    (0x67204f5c627a617887ad623892e120432add17cf, 27183013803622828),
    (0x16bb19c0e8d46c0512f6ed8f29e317f4291dc0dd, 102601158047961710),
    (0xe851bc9ed361cabc4a3a64a96f30d2747ffa7914, 35910687151941554),
    (0x6a7cb078f0f0d70bd348300ad6a6a735ca8c96f1, 27915736736153936),
    (0x47ee020fb32e0ae0ef36a429d36ad3c495a80928, 10483306455104846),
    (0x5a996162064559e226adb652fd3024207cfaea14, 230983872660096664),
    (0x9ae603328957c7e94faa0e271383dae536565b89, 15961461900192152),
    (0xc5822ba39771c774759ee4cf9010a6084ccc2134, 6978225153410915),
    (0x44096e9e76dcd3d4bb0261d1a92651f4f7811d40, 10431813738465037),
    (0x5c7ca6a93a46ae786d99d91ed423a91d6fa13879, 25340894748641129),
    (0xe8633d3c4723f1ff05cc3fe497789b5a05d90f28, 8051962619218103),
    (0x523e2ce4851b9b352e149fcfadc5195dc1511c87, 64796103764782594),
    (0x20f765df18e77422a9f10ab5aa26876cb9028103, 21790400037336743),
    (0xb293641a9d1e5129c9a9d4f701b6c47f28a4f26f, 7348429832291877),
    (0xc5d4b9b678e558c0e536a29fe8adc1f622448e17, 4626828170532003),
    (0x3ebc0136fbfc281a8f8dd5e7b9d235175fa02951, 33583500551369872),
    (0x42f653a1849b05bb6390e7aeb6bc15ff1a926760, 10868553184457692),
    (0xc4f6196acfdbd510f37fe3859141053f9633ffa3, 9235874609307958),
    (0xa17a1eb1a022fec732367cea9c66eaa98617e9a1, 7569530440104970),
    (0xba12fd150b97e25426c4952952465bd2d9547cd7, 105117164199561963),
    (0x2c38adfd7a3726769f6754e511c6ac561f1af1c6, 174483958903650922),
    (0x0ca05dd0b885b785854ae5db1236988da6f7259f, 26009634700048829),
    (0xca4b599a1deac69df773d11a9fbb697e53cb0328, 27201191610224835),
    (0x31ac4e706b8a13e65ba94ff9509ca7e1a62b0c8e, 103504479868403736),
    (0x40977234caf7c7278d552a6ab3861c271591733e, 49186890749718951),
    (0x5b1292fd99929d43443ce17547013b74074bde06, 28484700462726188),
    (0x36f28379fab2f5fbc0ea4255556eecbc7c9ee0af, 66669909986422013),
    (0xd9bd8b5e612a0d99ab0df32c1a24e7e0193f02f7, 33756360084913060),
    (0x3117fee8078c470a40d3f092ddcf364ba27c3ceb, 104782398394529270),
    (0x405a5dbbedc677e25414c90a65216f16256c1391, 14706491427394943),
    (0x7ee19bebcb2203f5b42de6f2637ebde2e39a213c, 29421741547655575),
    (0xe35342502b6662454fe242e15141465a369e8470, 103807062069268372),
    (0xf249b54d9bdc58906516e3094caf9ac3daaa9999, 49719522477356284),
    (0xc4973f786e644989f32a741e699b5fb720befa19, 19709646314706212),
    (0xe1191342e673ba423639ad095f9d079b398f65cc, 24057450329757036),
    (0x29aa0df2556c851c7de9a2634718c3b313d6df88, 1290756959820756651),
    (0xf5e681ca3d8ee9d5cf58756127d65559bd02ee80, 103102613050635209),
    (0xdc192aa785edc64e1256efc1736f0e348b9c0022, 5180600000751929),
    (0x0e66814abab2148017eb57e9359c847255b832f0, 274799612680985597),
    (0xc0b1fa36da647caf44be44a011bf8b3e2386fc8b, 43434615022543620),
    (0x8d2c24592aa58ec10b97d08cb56900030c950599, 17798834719011791),
    (0xd31e8ff785168d5a010f43887350edd38eeccd1d, 31236672795544165),
    (0x46f1667b7b452a91c9d77a1a67c6bc0f2d4db427, 17183271298479309),
    (0xbac7fe1787906e7f8eb3302779cc78c2201ca5af, 172319867455395692),
    (0x1169a6c4357b47c60fe158e0b2347fc251bc0985, 13788598910948995),
    (0xd1c585b40b2d97c97d9aa02e30efa8992fb989bf, 7471508525767461),
    (0x4890ae58845cee70b04f7b54dd2d4bbfd8b697d4, 21093667422207423),
    (0xeaf3d1cf11144d12ca36e1af344e6af13dd84429, 10090350411444946),
    (0xeb9d7174317679e7c49c4c7c1b0ad08033c43997, 1594385457653142607),
    (0xdd41abb3974b78bbc80c34c27833d667ae938459, 18760435665762889),
    (0x8ae6fd8eb06b3a02e3688196cac66de3f4edfe9e, 21647899902853237),
    (0xb8480c956d1ea1ba57e0f32f93be688f766e53b7, 305877969614141502),
    (0x5f56227e2b593c7495b574899a1e3d9618cb84a2, 34547833602794019),
    (0xb165d71858f949ad7272e69de5424de704c4ea56, 9328671340186077),
    (0x4c7758c21d442df571585f4920707202dd5ed029, 24796718956804806),
    (0x63207e3dcd6cc9da6648b2ded0ea074f160eccaf, 9996255765598795),
    (0xcf41cd6c06bb1e78e6d0dec4c696b9a483d41561, 45383001285261280),
    (0x2544f859827a03b044b772b02d63f42ac2c1f096, 486915370626721588),
    (0xa824fd41b10c08d4fdf88bf7d6e87b0847faacff, 33561699405739283),
    (0xd7000148d46c0b4e05dcc20f45d0b5d8de74e147, 95309209176939707),
    (0x497a5746765651c98fbb67d0e96292b3f0880ce1, 68318906858866285),
    (0x1fab34460301e1d2055a4aba818dcd623e5537a7, 84772196982383136),
    (0x1a8fd71ecf90e70e2fc6d9d85324eb9098689774, 7113911943642976),
    (0x6397188270455bf88fe7b7573a4f7bd6d8c37e06, 28239703486113490),
    (0xbf597d849fd8778c4568d0948c2317106445c835, 29198268183450871),
    (0xbce0aa70871ee887a34d099cf3d1ec6e732dcae1, 10571761294084477),
    (0xc493ad18075bbfd6aef1d82407b57b8feb269fb8, 17794714509749151),
    (0xcb363b95e8ab321c57e34f732cecd67300f20bed, 29131037515244184),
    (0x56ecb0ecb1117a73ee086bbaedbbb921e572a506, 8173077818471011),
    (0xa978f493e0bd8bdef6810d65c1c695762e1e709f, 11759088444722869),
    (0x70da71a956bf90ad7b844d6998eb89e31f98a416, 20872154833580035),
    (0x4776b8f09dd315c830ac73f60b0826b34cc39b96, 29803565400892074),
    (0xfd0c52eadd4d4c575bc190a670191dc358842661, 11171363028221219),
    (0x2543f5a371fa9aedc33741519641b1bb9a7e94ff, 22798790468924574),
    (0xad061a1a5e741527963324da37cbaf7fe1aee308, 95758398877844980),
    (0x3c2acf5040506dcb385cbcee0c7017e3d33d8f14, 14484142281658379),
    (0x17d884198ed7005b8c48469871082d20bef9de7f, 2044781015679296),
    (0x209a2f251eb0fa2548cd59c53a06ee3a1b1d4d26, 31411481155376955),
    (0x6b94ae71b6ca3ebff2cb1707f9c9f8de0eb64b6b, 8406701240229495)]"

definition claims_data_11 :: "(nat \<times> balance) list" where
  "claims_data_11 =
   [
    (0x5e561a4ad5bb8d0c20a979272c5a75286688ac47, 100829266758174809),
    (0x68bb39fb176e92bbeabec5e4a3dc70058e7842d1, 233059697387912388),
    (0x04192127c5483a86cd7a1624d9ee3b2a53de3a1e, 122761062484892560),
    (0x22a3df7e6b7d3cc1a022e213698ed20f91d9f73b, 10155893205855215),
    (0x74a10918c189b229dca183a58fec99eda54a72c3, 96921881957321997),
    (0x45bdb819da0e18faa95674390ce6505d43f9190e, 5068573250567941),
    (0x4f0defbfe3130e4ae4f8674ba3e4d2fea01c3c97, 79259012683013692),
    (0xbb91fb2c6d7f77282901ceb355403c8e91dfcdae, 15926427590224562),
    (0x4f15fec6d26fe0b9f8baa0648892344f261999d9, 12925050520046125),
    (0x01c03cfbf086583672afb774f6939e352bbfc4e6, 106355905200955366),
    (0x19543a13d8f5706c245b758de4a07dd760c2796e, 4462411476876270),
    (0x188cc7286af105be6f7a11585e2f3ae2f23d27ca, 64438377151102612),
    (0x93d556a9fa3b8f4453fa0ce4c4ee250475cbbbf2, 82651226440923851),
    (0x8dba03f9b5018effc8d7620ef235760383c17f8f, 20400000771950951),
    (0x8dcbb8c082f2bdf1a9befc3bbd482e10a4adbdf4, 435655182174772018),
    (0x41782e1ca81b485e222e2dfdec0f08e0b5078b19, 8227736882868581),
    (0xe85b8703ec8961b95a8ebe34e4bad2bc2a8427a9, 21167755923841188),
    (0x341af87095055919234e5a872c75c77872cc7be5, 135980898831008005),
    (0x0906f0bfc523bcd447c709821b3da3b60d692369, 17996469832867275),
    (0x34543aa177d10f4507014409126e499e28ac122d, 21138651010789544),
    (0x48c19aa66cf220d26308632896685e72ab5ed645, 17893579335372078),
    (0x69cfa5c20dc5f3f6fca1e40db15cf9bf7cef9209, 5987548108415170),
    (0x143f431a5b32f271807c11e7166c225a9837c0c9, 24556581027894412),
    (0xdd2742648aeafe75a1a9b76041935ad72d02cd16, 39722275356587139),
    (0x22b79c38bfd98a304e94f282e1331d515d61d73d, 14539244999762997),
    (0xcac0c54d116599d75146cd0ecc8afa717455e5d2, 7883048978762280),
    (0x82e6bcb9ba88113248255a69b4bde101ad8b821e, 13276917963393459),
    (0xff3f44c581264fcdaf2db0732d50a893df3bde44, 30765786369872357),
    (0x06527f9b1836cefb88ecaa31ff9854220e2173cd, 7883134411374877),
    (0x9f8c3fa0b0f64ee1f20fd14cc8b490111dc74422, 33271051540184729),
    (0xda02bd76bf4eef83fdb90c424dfa8cd6c1717538, 19007551660845612),
    (0xb6269ce4ede8d9b098d17bef3c16c285bbdf61c4, 7780568393482517),
    (0x679db7d89e3c6c5873a6272c58a26f98229b3a38, 11125039762449639),
    (0x8cbc715b40605e4334204430d1b7e95c251f8e23, 12122987298951655),
    (0xb45ed32b01a9f73d8330eee6c74e29269a667ae0, 19346188869853701),
    (0xfb79742da1ce5f73b3e0a1a7f81f70a4e0379f7a, 13629052447850678),
    (0x47d9b44d09a7b4c9dac547be7139f65653d7ea65, 60135488790988446),
    (0xb0b793ec27dc2a2bb2889559f912dede4cb7fa01, 67618740130508874),
    (0xd99a71e68b961cbbbb4050bfac148dee9ecdf619, 10052579826396610),
    (0x2e8c338a40c5dd1ca75271a586e45205bc562641, 4340431754826006),
    (0x4f1e9675aaf8eff4c98b59ee2b757e200ff7fb09, 10182331180464646),
    (0x49391f8ed8b6cefa8680966496ef0eb8675f38c6, 8674800496292391),
    (0xe649ff6029ec3f930d99dde15d73f8f08f0d21e2, 9261980841485594),
    (0xc9ceab0a03df4d682f8c547d5607e552e0a5acb0, 27840992518732805),
    (0x76965cebc3476a28d5b2f8bc3004c2bfe13cbd61, 11384920042229773),
    (0x693475e0fd3a94fd80cb457d13435b25c0c935c0, 7626637554977216),
    (0x11f10f87e180f5dfeb4a05be1143d8b500654b31, 12049389813657502),
    (0x706ff9d2e4f2976b7e3b1b961e95776b489bde6a, 162983324659417502),
    (0x285cc68666e052c2475bcadc1d8ccadf56c5b351, 73408433503173370),
    (0xbc10e89c51281ce497241661bc7c0b9ae94ed93b, 10036716941283959),
    (0x75f993552a3d9c3d79829a088a4c8de1c065e9ef, 100803250863380408),
    (0x00ec14aff4218fbc2403fea859243b3793a2abbf, 2599952488474641),
    (0xaf606a25895469a77931df91c9918a1c34f3d449, 35798914935258477),
    (0xb3006ca913360432881496ae1389850a32416ccd, 9560660022856385),
    (0xb0ced8a3e8fb8d674f7e3fc3b7afdefd07c7f90f, 68712290980127469),
    (0x084356d705bdfad6c8dfcd0bedf0102fc86d27af, 58217657827408956),
    (0xa651b10a9547d86e86f86c0b8cb2e0d1e408aef0, 66409436221413369),
    (0xdb6726d482cb8af672398ef238cce8591980a9e9, 220392994346386611),
    (0x8b8af1ebe52ec13afa88c16a0f6159291b7e87c8, 4162763129126674),
    (0xdf2503116a1dc9af476e1efd099b432b35331d25, 32683708235119548),
    (0x74383089f0e0e8e6267bf9793cfb10b7cbb76093, 15418299987290876),
    (0x0e34f7f36fdf80a612a5709839605463f59d7e83, 21221928086711867),
    (0x3d99021cc2480dc1288338696538786c45ce3af6, 20702116785431309),
    (0x92e1ca88f16b0e72bd7283b760bfa8b1aeb0a417, 47490515628473791),
    (0xba8de405851463c49cb4e371da847969d5495cf4, 211530267794372928),
    (0xa0844eb0b1817440b2c3e619857ed410b9e6e220, 16848494309681605),
    (0xa108e766c1fee92d213b1a9e62ff9f5708a348e4, 25128500342412816),
    (0x5d9f21357f5a7accc9abc13d8932c8bb1ba0d900, 37433732960226200),
    (0xa63201370e791695c75af88ba2ae4221fefa78a5, 16000000000000000),
    (0xb508af07a8e2d880ede266e796f7041217165495, 71055052831543883),
    (0x49282990c7da84e14354c6dfed258b8d00d6f4d2, 2902183564744690),
    (0x63051bc0e37c2d12dfd5d597c8086413c23f6650, 50190424109594567),
    (0x13e1138b46c822d8268ff37022bd073384df4ec3, 10961184679387133),
    (0x82df46c9047f3218b4df0589e44f71e21f7800cb, 238744535418117802),
    (0xd1cb63835ee46439b9c9047123d691e5a1f258c3, 11334991485815848),
    (0x2cc99afaf23aa95f03c4aa2989881aa1bf5f6ba9, 7262654786206039),
    (0x4bafea7c1452a3a8568d96d99d66b2228b8f7604, 40040764926011114),
    (0xa7174d4a8d81c7dd9a7ea65d5f6b87df3c50e37f, 56946725343175914),
    (0x34273309416278b22eee207cb9ff24bfd298e2f9, 29311414874215556),
    (0xf956f3712c123f4bc4691c856284a2cc03d938f5, 32109669619929943),
    (0xcc9f4b88d14bc1add1464ef414a681e35e2aca2f, 27544963488590316),
    (0x40697b5367e417b97c9853622644fb8aa023c539, 20627763695488505),
    (0x7f0413995ecf9e921cd9c0658afeca39d59289b3, 27128637928406841),
    (0x9ac70d88758de35d290c85a9f5b183bfc4df6898, 10581762634891931),
    (0xd96bcd5c00d4b1fabe17c78be94e5763f7ebf8ba, 398165308879188558),
    (0x847259af2b696d4a7b90091b80e580ceb76a67b1, 24440974109754944),
    (0x5f55a040603af3b4dcc9a205375dce325d61a559, 8237414791358210),
    (0x04ca8c94e03a35f68f8333a60833a1bb0254b5a7, 19480709319429151),
    (0xe459ae0dc31194fa0fd626020a25d9a1cef0047d, 9793390098922832),
    (0x0d936250edd40f83b80d49c3799c591f7130e4c9, 20391143019233542),
    (0x5f8ab6b20ce7f2bbca05ad2bfe81e42dcb13327b, 13425087566348365),
    (0xd622e4cb95548704b82b2b0e600d154a5c308666, 23285643489557055),
    (0x0e6dfef62194ebc7906700c936e5c6a4be94e4b4, 10313474838059730),
    (0xbe7d5106d80d114d4da3d64895339e06ce434332, 67907120236495602),
    (0x198002db529f868d1c21b4e29ca0dc3002cf1347, 27488737687888987),
    (0x277b704cf008b1aa036c1b3a98bb3895eb185016, 5652125309163817),
    (0x6edda30de5f93ab182d6dc0da900cb6e72b0f33c, 55311458920803931),
    (0xb96e6a1fe5962646d82a94c28714d3176c0054a8, 16240540509681719),
    (0x3e7393c1717b59544517579d224317197b71346b, 78600423424955310),
    (0x248a973d64978c3501176ffd7fe62249bd83e877, 8790878904706709),
    (0x58e1fd367a2e11b174c68ffc79fdbe78a7ba74cf, 68397720664653304),
    (0x83bb3992bdf488ac7ea194a63918852a40547fcc, 152883885110068947),
    (0xbd235d7aaa1171b25c52b097f1daa36cd527c550, 336095363269486649),
    (0xb221c223a6071fd601c87c8a84d0a0e0b094be32, 3742386009185159),
    (0xda145155e9d4c0df216c299f4c40b02b88df153c, 68177075218753679),
    (0xbb4d7848382715673d485b5a623be83d94a93880, 17549716473383616),
    (0xf6ef0aba93c5c98915b5adf705a2226307f3f072, 48006380255141817),
    (0xafa0fa3d6c39cfd425c8a854504f68c012e72452, 16241224596155445),
    (0xed70784c94a48a3d7adac39d57bc13ad0f365f63, 4685634764575497),
    (0x55921ad5cf93a5fac40284f61cc901b2fd36b4e2, 5009760488881512),
    (0xeac613c2750167e3ce64fee5aa07150203af519d, 14284628423898968),
    (0xbb34894d6e4001518594de7ee5edf80512df2076, 17509810962584307),
    (0x815d769145128fa0cbbccd681b3e23edd0db7ef9, 47632653626001465),
    (0x2a61d792b2f164c2a9e258a2f0b8407d130baaa9, 18175494425402535),
    (0x443010f27f924b127ff2d320001a8fb0bca38f4a, 35757308517564932),
    (0x33be9ac9aa42b07c8ab5652a9d1b3ae5bcca493a, 23694368498483814),
    (0x8c9aa28b014b2023b5aa5dab90d20dccc974ddf8, 20560501679999020),
    (0x7f495702b1e60826bc19297b4753c1cff972f46f, 54393066663898288),
    (0x131e464a5002963cb46c135f21785e639cc193f7, 151745075086916674),
    (0x82e5363bb0e04643cb58a1dbce067eae07b90829, 28659125651380574),
    (0xb4d4ece62ef15e4081c2ea7494cd95bce2667e9c, 99343902202017607),
    (0x84ce4e128372df63ded17dadacb0f12894ea9cf3, 27679904798068591),
    (0x702e76d3d38f81673ed6a199a104a954fb755d59, 48123443319977844),
    (0xac9356ea58183e32b9c8d6f8f4407843b1c8fe78, 9420997557495730),
    (0xb69426422dcbad9aec2007787aa88463621d27f5, 12571106810122596),
    (0x2bdfed98443908cb9c261f11819681f3cb65c45a, 102815997113796402),
    (0xfebe7d6783544dd82a32dbabfe08b80003716bd2, 104096669444328561),
    (0xfe0cd830ea61941a417bef3df4d50759e2cf828a, 32921022376624872),
    (0xa139fcba4ad3d26266710c0904dbdbe930c9d739, 150604484972787374),
    (0x7b772c2e367607c6a9f21c3e792b63be1dbc0eb6, 9541785837015648),
    (0x915af533bfc63d46ffd38a0589af6d2f5ac86b23, 51388199379791634),
    (0xb10653b6c5d870efa418fd018d32f5b6b53aeb15, 8134493302754140),
    (0x64309df36f926613492e3677f6ae8548031553e0, 10943272884687413),
    (0xa1f15db6c8e630e8f39e0fa276c3d76345703679, 78196531494483217),
    (0xf31696f8ed0b7748d898423ce61685d7800c1982, 10075322257008828),
    (0xe3dcc51de6b75d8945302fc4b6e328d9a65ae0c1, 11053188415763599),
    (0xdbc993ae3c8b71d230852c9b9e5d30d474e0c912, 19771429738727710),
    (0xedab73200e6118a7e92b8c7300b4d6ea9e6c22f5, 377529047817774327),
    (0x7464ba1c2b16b9ec28ca36afc2828425817520ab, 11916028577348340),
    (0x63905d4e92dfa5a0828e8388a4a7e07ae7583690, 34056463789914603),
    (0x8950fa87a542ee0c0c3c81ceb76b0c65ceb74a62, 13123419026009581),
    (0x1124f5885d55fca49a8b5d1bb67d40f14560844f, 12163320553085648),
    (0x02795d3c58e337e5febdee820bfa81149d33d529, 35392300989489491),
    (0xaee2ebf88b961952765d6be92dff4e10f42b2fbb, 36566049568228259),
    (0x9b2b4f9b09fd435dc5400bc3bd26f915eb8ee592, 2932790670449581),
    (0x15ef7042dca5a226b0adde57cf43664b55041d0e, 24378360877434142),
    (0xef750879322c175b75c9d9d15a3e51d4fbe4bff1, 14611646093637480),
    (0x9c2ca06953b478c772d52cd31d1335d996e6c3fb, 61350155095147112),
    (0x826c16170456d68ae5b75689a19f5cb7d4c621b7, 189046931948238548),
    (0x63c341daf9529585820c1573ecec52d87e820a24, 10172476468979997)]"

definition claims_data_12 :: "(nat \<times> balance) list" where
  "claims_data_12 =
   [
    (0xef93b3fe19749650f933e75e3dc07ef3c657cd16, 9891202587670439),
    (0x1523a2b71b6a0ddebfe9491c0112503b64658032, 30352104776378586),
    (0x0cb628f70e5d7ff75420c7335d3052bc74be844d, 11025621995123190),
    (0x910bf2d50fa5e014fd06666f456182d4ab7c8bd2, 7900562278836023),
    (0x772f2b04835b4d0386df74cd56ea27e4ada8393d, 188664115693911282),
    (0x4250e7eac803168891ed8a00b6a5d60963c934da, 27737020940190284),
    (0x3b2efa291d29b84c3b7f39ec52df19e748448643, 6193502882533664),
    (0x6f618e4fe055b77eb75fee30df2348e9657e2ab6, 77190517926063272),
    (0xfb4967f60effda0cbbd84c62a209967fc8188a52, 91455673382345929),
    (0xa4ce98f321db3ad8d69dfd726fbcdda2e98a0f10, 7905336298568002),
    (0x3b1ffa0b9c7e6c5b2804ed144e47aa7ce100abad, 14306419461836470),
    (0xf02549595e8444aceb4dd662ba715c1df7b1cc2b, 14762907523076866),
    (0xfba40f3d6877878df2126777250109f4f05f72b2, 6237411651103617),
    (0xe4e7a0b0334cd97f04af40fdce6dfe58c92dc2e4, 18566550313130521),
    (0xcb07091c0870c0fa2c9918de56d5b30e9d1f12ee, 24818474857994618),
    (0x747f304e9c98808f88c88997b5a0541a9751917c, 34916096097216213),
    (0x63dd8223916d5a9c039073fc1539e8d7a0c6b16f, 23157338258650990),
    (0x2dde95472535c603b8e825e90c93d8eb2c846f79, 27619660283282734),
    (0x6c329f46b616f799ec4fff6021bd101d80053a5e, 9990485160401988),
    (0xd71bd3ef02d68bc4f0b7ba38f6d1120a05d96d58, 2875231501948934),
    (0x2b2d4a049eac8adf22d4f6a24ab44906669df904, 54596087198588961),
    (0x3dbffbe1a485c1655d3917e25f6faad687715859, 55404906191507400),
    (0x468a1b0b585bafe48bd9980245bb114520798584, 10827116770443894),
    (0xb6252f3686814d965bb20191922d006e64b7fd2a, 264441942806723406),
    (0xc120882668346c48ebe3fc5b4245e068d6c23648, 26869558614858137),
    (0x11c4ae63ddcd8b494aa7ee36670800e3db0011eb, 12129793941281347),
    (0x843bb80f1e5f07a2d82455d1f93a7db9a80af2c3, 197836636989591020),
    (0x07de6d295098d4ba07a1b32dc0643573abab58f2, 33232152238532304),
    (0x396a942301b345984c60f288d0c7c6b9fbf06ec2, 1196155279507254901),
    (0x0da1863867b986bd44230d47aa328bcce59aa6a4, 10395976242632917),
    (0xc0fc7dc21c29bf718c94af83ffc6f41c2b3aa5b6, 33891449194934901),
    (0x22871be5a81f8bba0e231015931019e79b6d67a0, 9592979596369062),
    (0x3741b82cf6ee90cc06b2aa6bc1115a6ff9177e6d, 34090217368044248),
    (0xe160fe85a96b4739b1566d66ac44bfa559da3d19, 11011910349776836),
    (0xc712b68473449f16fe3af6d680d52be937963cba, 19324204560413963),
    (0xa140ab1c85423099308378748666b975ea7b4272, 7289920183966166),
    (0xafd2870c519ab634990c2f8ecea427e1e0349aae, 98420627568036828),
    (0x7f932eb5194104716377cbd4a1b335210c4f9fac, 113007724745318035),
    (0x98019323f3bc0bcf81a7eb507e43e5045b455dbd, 38826624408056919),
    (0x5c542743222a492e45b159b4d39086449a29e55d, 22540853247826130),
    (0x1828bd8a22ffbcc7a030f09a5a21b621148ab8a2, 166474274791890620),
    (0x9bb6f9cb51d6b2ffa445be8d2e0c41c07d5bb354, 6332685593828754),
    (0xba7ed11ae26defc54f5edbb84c8cca46e46d4875, 14498193551133225),
    (0xfef9a89bf224b707010bcec21fc07f672990e8c5, 26022715224036791),
    (0xb99b50630dd7d6e7630811d9cab67be75fcba268, 22372831194469799),
    (0x2e62174c79b893b4cfd12b9a3f9c1cca463297c5, 9177656767762347),
    (0x45db0c27530f1b7570c5f1be303b7d8ab3a1a9df, 6747369307652746),
    (0x91c9015def6f20849788f5d9a3d734c2792b3d72, 12784322420813105),
    (0x46239ceb94ebb46f8c800f89b0d817eabb207309, 111964856970470415),
    (0x0fe6983801a44b45a7dafcdb2a974a43f5208c95, 15490229486932241),
    (0x025db86eb6e1537a935f338244e22ea2d9967693, 17386431734807649),
    (0xde7ce2b51b409a986ff3ff9b13b8b74bf5d2e9c0, 138261917182174651),
    (0xdc61fda7bd33971990d80cfc81ee761a8746dfe9, 13241830234014380),
    (0x4bb8820da92b44ff1a90916d3c56310e2c95c639, 42952507436268097),
    (0x74fae191f05867b4bd240741f33edd606241e16a, 13082290700604784),
    (0x8a7b731fa2d0081e91bb214fba53199fb425eca7, 115267495717229105),
    (0xbcd5eb62c3d08926c315484139175d7c4fad5918, 36440970503837123),
    (0x2d4f3e1862fbb635d8c9d1976eefa522dea5b26a, 19303192673623653),
    (0x5b5dcc58786a3fed3441b073864379bb4af51190, 18213956198263669),
    (0xf1d4ca7bcad09889ecdeae340a703a4ee21dd983, 2481252561588707),
    (0x11c488d433fd9998e9f3f564c6e65bcb07a874b4, 21579566330287477),
    (0x7b5259b0423674ce18a41b8efc3b310cefcf12e7, 43420528938328825),
    (0x162a46145b88ceb91ac1b4f44a10176f2a311889, 6512365619840591),
    (0x8506fd93b2beb3a16b9c1c2020ea3642e39a5228, 5895463839866685),
    (0x15db53cf2cd2a09a24428cbc978aad54e2421324, 16437667102692624),
    (0x4870282dc61e2ff8cd393fdc87da0298177b9abb, 5333759970854069),
    (0x133490f767bd5ae1b7860b8e413ecaa7af9ade0f, 50600150282619016),
    (0x24449d3d8aaa16a33af1a00977a55f762d6c1a34, 26060882620943142),
    (0xeb689a53a10fd0755e9f019fd53f48eec16ddc63, 97702080977070763),
    (0x1205050022d8aaeff0dfa79c607b7fb20087cf85, 29080360756322980),
    (0x2ed6cbbea79ad1c2cf9fe8c2b7935e354940dd9b, 5646019133853831),
    (0x47bbfee60fd0bfb1a78d1e069cd167836732d0ba, 27211823902968822),
    (0x09f44fe6ad938bae7495e0b4939f83b4bff0feb8, 42941223098787189),
    (0xb5e19ac191ba4fd120d92b9495ea6cc07adff37b, 95430786017945084),
    (0x182e796304a1cb7df3c0d829dd70b92cf2a5ee84, 11730473562136195),
    (0x6cdd304626076c9c2db0af5e71a110ad372c0083, 17940245050431048),
    (0x6ea365ad57b404e54826a786fa98c2e5323004b6, 18235689058229220),
    (0x92e619d4198d31b2be1c352760904b30a6985dee, 18230838993734462),
    (0xf189c48b6a862697b85500da0e4f1036e596f029, 21308208453112538),
    (0x35913d596082e46d60aec2bd3d02d27569b7ce6b, 19702481244197766),
    (0x62558d5882ff75177da4054c43662824a1267621, 40944476346732187),
    (0x6049c0e5c4ef4463dba8b80b6515195f7462c65e, 2640456973448028),
    (0x044c90b70c9b70e7597d3af830f456b9a00ab37f, 454561824466452736),
    (0x86ffbbb6426a8a574a3630b0fd3230a067dcc005, 6749575025648074),
    (0xe915bcc9bd87d92d442bde0d2390bff23485dde4, 295464813479155364),
    (0x3e26cd62a1e4b49f78c27fe15065f30b3eb1e63d, 96618552620998878),
    (0xb691a1bc1f72ce376295990643040fb1d2188990, 7989100943558099),
    (0xea247327dab36d5ffa423e83852ecbc419325e8a, 52839981550907068),
    (0x786f63b089616f9175e0ebe58065dbeee7d3ae2f, 20463660986099140),
    (0xd0e59bb3d6c786a3bce8e1f1294ba06c05bd13d3, 17388878084969703),
    (0xbe4dafc2d31ccdcd6fec93156503d09cd5a1cef6, 9771903345132977),
    (0x8a859955ea6a2bdbe71648070b2aca8e8b0c6db1, 32333765598725997),
    (0x26ce6d0b20a1d86fda78a7c6a3b00b04b51d1270, 33104576425953893),
    (0x978d32b5dc21836a58a3aa17e7b0aae5f3daaceb, 25109934418967256),
    (0x74b569dc37108e7736a5629d9c0d5feed3d49de4, 39139148455144235),
    (0x0586a8dcef20275b6025091af63c4536c7d5ae9b, 9738224211046483),
    (0x5f0a073de9a46accd59d60a0c640df098791ada1, 192837963642331543),
    (0xb95c0f5263858a18c69065391a4484fd93571e4b, 8351983880000000),
    (0x79c325c034cbae09e58251d1d4217215594d5e46, 11169370312681932),
    (0xc83788564f1325b3aa26bfa0feab6bc1ef12ca0d, 11320792959124316),
    (0xbc43c99a76bb0fa6b420e39d78af50f8d5912975, 73824355108306081),
    (0x2aa8899a4502ccc63a75f48eef06327e6a64ff19, 5914943026552284),
    (0x2929d73388332c92e2cf93b894a32b0a07bd5586, 648672972832),
    (0xd4b757a9914031fe08c9063b5fa22f66d78ce487, 11448696050627416),
    (0x85f5b414aaf84ec70cb54cc84682cfe9e69d3c29, 293635686095569556),
    (0x001edf4c5e8e5cd8a187260730ec9b97e4e84491, 42910961017625858),
    (0x8e0a2e20756af937c9eed136708a77d13982b5ff, 14829596463299814),
    (0x5d2c5d061c64c9d2639b4f8e316129b98a7d39a1, 74034614604710774),
    (0x086979ecc52ba52e4f7389fa863609f162239947, 57617096101911191),
    (0x2a050db5ef975dbea2c2c15e4bcdb3541f6d56cb, 54622737100318455),
    (0xcc0a94e4a04e34fa987ba059df9c8cae704633d7, 31459743286892427),
    (0x4d7e1efbca2d8f54937d86afe82700594b047432, 29293256110787043),
    (0x8e7e0eae566ca47f7ddb1dd32559f35bcbe08260, 19777110590526077),
    (0x065e7f4fe6042364968d08cdc5abff88caa3b009, 3776547049138346),
    (0xd79ec46fa2162ecba658150f714875144bcb9188, 10750284677719667),
    (0x47c7901b7eb9db736da98b957ca3a7f8e6c984e1, 40472899766816430),
    (0x8b4d171883f2840300bd95858dea5b373c19a8d9, 204324490537378190),
    (0x99cb0d2306c0f787676f32087a1cba49a27286c4, 16157180697938425),
    (0x5a94b5b73f552aeff2e84f5cbe40ce9e34a55ee2, 18806803366563475),
    (0x7708c60cc22f13bc73a4cb748bc6802d8dcef9de, 15230691059403161),
    (0x252bfe043ea513ad3c8bcfe6f6eb096e0d942c6a, 24592012005459893),
    (0x41060ba86ede33e35a5eaa2f2c6ec52eaeb925b7, 21282270202095022),
    (0x204bc0dce80addfa5ed3a701cadf9c6086e363a0, 22549290441048093),
    (0x26996b2929970d0ab5d65b5d4004f9a9958c9b84, 96675589790395211),
    (0xb1f6a12c76bb4071e7fc0ca0941f45d65ad0f78d, 195269293535588450),
    (0x8b04cfad26ceb0431ab19544a025bf625f3a5879, 55712874253461931),
    (0x4870ef7d08c59b472f124f87b16f623f05911848, 21195019081377483),
    (0x6e1cbd0f8e05d8036e140f90d60b115917c96e01, 10596477020750626),
    (0xba37cdc1d2755382479826692073fc1bfcba2af4, 71486324777615559),
    (0xccd862fc46cfabc489e472c6f6a2c5c9b7dd972f, 13113874420893421),
    (0x9207253342aa7727c7a96b2b1ac7ec6172bcd368, 10787399308266671),
    (0x87951b9e6f89ea4d7d86139252a31e2efc309b29, 36228145565610431),
    (0xe9f2df33e051771fa5d23595f11dc3125241ffcb, 10097239639167825),
    (0xe41984cdd5c83c088615c8e4f4f55576b985ec64, 19680401356025858),
    (0xafabae9d0b75d9ec31cfc1016b8085ace18399ac, 21959833046625914),
    (0x259d211921491f89bfd46b9e8869a6fd4835ae52, 7817234512006357),
    (0xb9302f58415a5a8dba9678570cd8150407b7f644, 31871022638457935),
    (0x3a2aa0a4c869dee808675d86d5f58d34f3fc2377, 6369744298966419),
    (0xee22ee448a3a2b6b8f01a45da1476e2d01e24f3a, 10332188117327451),
    (0xf4547dfb27793e56c803faff916a7b6093373717, 10381015928605094),
    (0xb9ec26e087507334127781b64b0657ea9f6525a9, 8588065895719560),
    (0x858b865e098e2fe0ffd33a589ad1d190e95a313b, 10047639649412937),
    (0x38f1485ad0edfc779b5d47a320f9ef647f597f64, 38054934453106387),
    (0x777c7db4f995a5c3f5da352860346dba815d8c89, 8032137433277877),
    (0xbe2b5d4a8d68ac8eb2113a34c0da7258785ece69, 3198978679557660),
    (0x71e161dbadd43fa296dbf644f98a433dbdca1a62, 43030647058303767),
    (0xbd62bd5c7be571209d86ac00257ceb199ae7cc33, 6314583584534419),
    (0x785ec68fc030189a15f2b7fb4aecb19da70367f9, 13037140613089576),
    (0x2ce736f4b143997b4c307799dbf426265ccfb533, 11729878669724178),
    (0x88d7e4a0fba5890101e8bd226f53daa1075fdddc, 11485249215975751)]"

definition claims_data_13 :: "(nat \<times> balance) list" where
  "claims_data_13 =
   [
    (0x86a53a1c54cd2bea4f6cd5537e4555d4b05139c3, 20061834881877827),
    (0x4663c1c1bd8eb215e980f82288dad3695434f1ca, 22205722816162644),
    (0x9bd6d82162f9481c2172ca002bac68bdf26bc861, 88323768667438414),
    (0x2c3545ceaed6d3cb326486ce01f156282fc7f9a5, 28778521281471773),
    (0x478b6dbb373023336c3626718c0bd89c4f80b51b, 25154921601741620),
    (0xdf40e1e5f44fec30ec7bb6cab16c273c05a3abfe, 17416359392903260),
    (0xb509bc6d29cd2a994026205a4ad806de7bb74f72, 25357630988291022),
    (0x78613bcf8351cc3da2ee23bc1e22087ce9afae04, 7939269360303238),
    (0xc6c1729a25792690b1d034f46ac0ccf5d3cff69b, 301974952588012053),
    (0xc8186846760f2a8d9d4d9b723bc3d62447958e55, 11548553056950449),
    (0x2eb32ed7781218af5fe0baf669201cfdfbfbb1c5, 6449830176257435),
    (0xf359a5405f3749938895162d33cb9b35325f51b0, 14909876461406222),
    (0x452b9b008bd6baf8b69eef37a4113785d3bf4301, 30900650405739008),
    (0xcf9dc66251ca1c680969156c4c31762ab3e49193, 23053260197541655),
    (0xcd48cee1145d1776a66875985f5e48a5a30d1d29, 70358655092758739),
    (0x852de13d82179aff91a52a214735a6b7298eafad, 11174462522176847),
    (0x6dcabe5167ba508b0fb8f5e25a6d514ed04d72dd, 28488791884916240),
    (0x384ce9fae617a8d8e801d2478d276b2949c1b092, 31532068186541591),
    (0x2be6792414d997a9f3fe66e813ff2f30c9334715, 83301872773664883),
    (0x4b2131165de0c322ae0c73e20043555f9d786edd, 94909889121880653),
    (0xf40d7040d194cca48b96e593a21d2dd6afac3d5a, 238342832286885928),
    (0x46ff9ca21f26750e6e80633aa9d390ed12aabc28, 3541676992169161),
    (0x454351377afb489b28ed5cc6140c72413ad3c502, 54434248097500817),
    (0xdc05bec504a35aad28bbd2a8d6f8990d9cb00645, 87605621619105379),
    (0x231b99c6caf1cb753941d174ea4423788502f24e, 46029233768177194),
    (0xeea06434f8aba78b2cc8d461ccb87a873145099f, 2282273394931881),
    (0x978af9e91e4a4ae36c53e2cdc903870fec070d27, 48579131575317799),
    (0x933161b8ceed9e50a84e612a2a2137666d80f4a2, 11435154203111996),
    (0x078edd760ff5b5b4604fb338d3cf7b6d5355c7ec, 16952835282864352),
    (0x2b077f7730f7a77d4e91013c5f54b0f925210c55, 347208525973880834),
    (0xbcace70fd93a8637d99961e9e2e254c8e8e48d97, 19070159808649424),
    (0xd02f4950522ae0c23005ae25b689d7a8e683175d, 48205221282187213),
    (0x93b723f140bf4316c0b92d15e7032eb46af62f8d, 28299275347802234),
    (0x4164825bf954e6c6401dab8d01741885f1ca28d8, 36566116290319786),
    (0xfe26b0812ede6c2c9d4a80a6a1a43680a71cd275, 11521829812823141),
    (0xf02046076ac91ca5dfd702b04755200f2bc9b8fb, 2404706793814550),
    (0xfcce91dc5ce28eedd7b5ac61dfa52d4327b4624a, 21741846758710063),
    (0x89f4e70c9113a4432eb09fec2fa1ac3439d58854, 24918483860815074),
    (0x64fadb1ea33963ffdccc6b99466f1033e1379cc6, 20904190440517780),
    (0x4b63c44f66f8775cf8991f05c808c73c6caf1f54, 30948474557870002),
    (0x83df3346d6e20307285798f76df15065e5a7a951, 6106532265557451),
    (0x0ad813c743426a5912de80c0b0e1e3409b4de97b, 17945992544732372),
    (0xd58c5363335458f66b732b1f6bfed924822d2e21, 18783565193371300),
    (0x284b999d7de8026873dbf537b8e37d0f18f6bcc0, 6712103432746442),
    (0x688b5f10e56e9c9a5f86fb7b5915120bdddccbcc, 52497678769915235),
    (0x8a14d7e2f705ddf57e4fa1e7b5e2e47189eeef51, 9333295441518546),
    (0xb59c65084a2914345ef4aea727611b1ff84e7ff2, 5371422696723293),
    (0x387db7390c1ec0507620780d574cf485b28dde32, 9205386803760874),
    (0x9615ae81182b950348188531bcb798e86deb4d60, 25607985518732654),
    (0x1b8046cdc199c1897f13306ccf180e58a64f749e, 282908212668738977),
    (0xe992a2c76b43978303be7cde9a72ed24c7e09b24, 3420288235284235),
    (0x28124cb7b896ea1ff9250c1576f08312446f702d, 10153507270050223),
    (0x42999defb9eeae8cc547b186ebaf6ca9cd62138b, 21403416938537610),
    (0xad001052d0435e06ba64602da4c97268780fdc52, 17937731206006880),
    (0x46ce39f7850f7dbb15df7fc48d0ebf0e3657a6f2, 24938272243332555),
    (0x2049ea2d1dce1f75299fbb9b20aa730d771ec0aa, 9286025537020629),
    (0xc8a2b6ee9d360bc96414da8877d7194e96a29652, 11887174425105714),
    (0xfc0ac081405ad9b335d6a2d5a0812a4959ad4372, 100599642337543760),
    (0x0b6f213bb1dd9f7378100d5021101e3dd0a02df6, 90315371322334462),
    (0x14f13f150a810e70a168bf377a452b9c741a0641, 7345165425607418),
    (0xc7dc921871b84ea0589501f6b08a0567ccc3c83f, 5103644601450932),
    (0xb25c37ae96f9e859d3252b153a98527a2e584991, 36719644071092978),
    (0x9318af62a5ba1a3eddd8e771293d8c8d2cef6df3, 34918904284568902),
    (0x559e28d324a7b4db0d7a7da24fabc96c6a786cfd, 50609431843557045),
    (0x72befca9b248b4848fc710f5975e2799e2d065d7, 72021135485540270),
    (0x2c0189a83fd5aaf947e19a3d0c2906004ef0a8f7, 10903802508395618),
    (0xdfe23b95764ccdfde8e716e449347cfbb6947c2b, 52609991801891409),
    (0x818cd7a661e824a251714910497d7d1ed703356b, 79424875683424583),
    (0x5edf93917e7c501f6a2a0e262f5466793720f92d, 17107810668921215),
    (0xe361e42e40495ed25d6e09552ecd58f3482fbe88, 10202212731772380),
    (0x12c5cd1b464acd9c4f05934ddd7ebd8bd00056b4, 59165213813603852),
    (0x5d0231925c873929e53efcea37d95eab4e9fffb4, 350437762543015758),
    (0xdf38b5d252dfe44b898273eb97af91babac53836, 1499236263629085),
    (0xf4570c2e0035f3d696afe6c26ed3292efbdd3874, 15808435309973692),
    (0x7fe69ddb729de8bc41e2f35028efce4fe3ec7b93, 5867774543954706),
    (0x299cd1c791464827ddfb147612244a2c59da91a0, 321818413873245862),
    (0x969182761838bb1d9c125db23548994c3f717e78, 14371463385073154),
    (0xfbf5342fb08243da3e3255b93bd40e6fc489016a, 19033953691232176),
    (0xe2bf2995e30f72e5635605825dc94fe88ad64a17, 97094973447064073),
    (0x92f3203c1b2d4d077bc3729b85979bb403279905, 6610204429061938),
    (0x9081e7ad50188df1589b8b9fb7ad0f26e3b3028a, 45384178013074027),
    (0x6df12deb0a85f17bcae0fb2e46276eaf5bf526f9, 9067058914900479),
    (0xd02672e829f073198bee8b56a33d4af2308616c1, 11187541129532707),
    (0xe7221e56dca35f4e5f7badc3ad81aa03cdcbde14, 26138470779283412),
    (0x320280e54bd13c585e7ef2bd07990ab635c76868, 10037542971733802),
    (0x4019b01cd9445ced9bb304589f0a7ca08622fa02, 3812798436814221),
    (0x64210cde8eb0c175c1e222c130a01b9ca07575cd, 6865476287351936),
    (0xa9a850232de24b44184192fc2b3c63f7f1aa6049, 36732194006780332),
    (0xb0fd96c9537ce06b94681a8bc44ff3c5816cc992, 9263547518885218),
    (0xc4bd0d7346219b12c3dcd290e5d37013a0708929, 11469500477914921),
    (0x62f976feefb3f9f5f9efc15cadf37bc1ad5667b6, 107316331592472733),
    (0x10bb62e1cb807ae6dc20293ac27c15521775fbdf, 10128428539530183),
    (0x3305658f7f06c5cb2f272846a6fc562b2c0a5a94, 54122724244215062),
    (0xc0702d75d19ed1d2a614d033c1d4a0e8c4f52634, 268739278484994105),
    (0x2493dfaaab8e8dda71696b351c3669c473f8658c, 32042694140635432),
    (0xededeae6d249d6f26195fef5d3ef25d1d8a4c5f7, 29003781269549349),
    (0x642fe4e8834a3dd1934a5a2b0ceb97a97f69e0ea, 20553283685567796),
    (0xdb68c62244cad827bac44ea174305d98f4c24eda, 40124509573232990),
    (0x645b28857b19c0046b10caa3bd93fcd31ce15905, 105241210653433870),
    (0xb0e1bd3a262dfb2dd87eab7cc86ec65c56376861, 36330700290119220),
    (0xa0d555ecdb35eaf69331c200954b00d394d2189d, 21206842543148256),
    (0x4fced9b9474fbe94d4fc3d9a5e3af5b31f655982, 11541365013945059),
    (0x2c8a0f341ccdccfe36b5be8fe9bbfa2fdd4330c9, 12075178818611698),
    (0x4dd30367cab7eaaa8c6b54f0de8ca8b0e2c0d874, 178814761781427683),
    (0xde08263ca23b49a9d76a27faf9896b1d454b0213, 72169107735640013),
    (0xfc8fe993d667f5e29257e73a9e44be836a81162a, 15150744796817820),
    (0xc3c95a7a6996fc62d3abb143b6758d4f9bb5def9, 20643649190935663),
    (0xc00499e389ca2d2c1e6999b217d796e483405480, 99199047676450303),
    (0xd8b896b3f6cb4edfa3353efc5ac59443ab50c596, 291445374837809875),
    (0x461db82e70d96d0a3d30a75b80538645bd94b55d, 8039753216098717),
    (0xf666ce96fa7f79bd224bd852973b57e807430277, 2063374596386329),
    (0x676a5f9c0d0d8bab378ae3bac47cc4e2d8026e1f, 47552008135575491),
    (0x483ef8853c2b126aa3c0f86183e7f32a198ea992, 47088740873853688),
    (0x25b9219cab83d382a1b42667ca3497f3c44d634c, 13445134315760935),
    (0x7c2c33f3bfbc61b3557ecafea1a3d3b3a5cf2829, 103340058978499601),
    (0x097eb9ccfbfa46c3f90c66ac32b010fa6e7f046d, 71308513433315432),
    (0xf0b85cf62eeb95985f76d115fd22c107623f10c2, 33303415237822131),
    (0x468e4eb62eec82b51aea08439db9c2618d2bfab8, 73369585796573527),
    (0x75efb8143e9f5f48382784dc5b2ce58e9b7a8604, 398348816538686575),
    (0x4375184563f64211a67b21958fa3a7f35a9376d1, 19051428729783449),
    (0xe02b4fb40f9467559f19419735e0b85241f7ee3e, 36553863462142518),
    (0xbf42da864f9c248fd963e197f00b07a1e572addd, 19058511864410422),
    (0x8ee4219378c25ca2023690a71f2d337a29d67a89, 10420106821364329),
    (0x6dd121d67ac13467d8cf594bbcaa9f126293b1a0, 7890170529312514),
    (0x2c4d7643c54200031c1bde554633b033a456d842, 80773626369067336),
    (0xc07c7a221f9e26f3fd77deb2a5255d7dd1a63ec0, 108361054962000858),
    (0x5687f2e4055088cd2bfcc535e2fd849589a31c1e, 8628238644813617),
    (0x7a6588392d843eaa69373d85b3314d3ecb3fe9f3, 22575001613305304),
    (0x06f13088002ccd840d37a6ed051a4c82d73538df, 96498194234058516),
    (0x3cb533e0eaa9ab49a966dfbb70b854737466f696, 64844612156450495),
    (0x8ef04330c8111956451f80ae1d452c14ccd29c74, 36836436768218801),
    (0xdea5037f5a5090b83845964062a3105441e5da34, 33770535562735750),
    (0x20872b4966dcbb7de161de3f001841fe0c175ce7, 10731607393888014),
    (0xc04abbc9ff0e6630c22a349915ae37e2b8a3753d, 100730340916286505),
    (0xb01e4f6042590061c511d422b1f8e38302778b4d, 5053786276736160),
    (0x0a5e30883c62d82ecce7e8aef9a7c3f26d5a2d1a, 4775855839492978),
    (0x4590b09026cd4b59f9c4608f734c7f40a6b7c618, 10271726091734506),
    (0xcab27aa8fca982f3dd811a624867a75375318ba3, 10803934724181809),
    (0x513fda7f8cfcbfe84f6ad5f591a49b06e65836a1, 19004568871287010),
    (0xd145b4dd6419ce5d3e65027faa3097bc739f341e, 114642626875288285),
    (0xa23cf56b1b32279ebecb74eb8cd513e0457a83cc, 10752468892480260),
    (0xcccd81ea8eaa52743dd629f828824dcec20dd645, 205549214075267154),
    (0x907eeb32ed6b47c063778a68faf0aa9f59221ab1, 29550678679502308),
    (0x7c710933562e6ecb6e1d9c2e4bdc7fc0f33ca442, 12738149357739277),
    (0x8bf45a62c8d9d957495bb44a6b802741139e68ce, 98385366423847960),
    (0x9d4bda6ff8f4779d0cb6a428ce70888a126ee322, 20700116896054112),
    (0x9065a8b8527646e6897a34ae58cee679dcdad255, 36303961330138977),
    (0xf3be6b865ac66d4f0f21916f28595d4a6d0f3dd5, 45060913589103929),
    (0x775d84d09356f998264734d8813b85432fdfcc16, 22747340814529026),
    (0x616a41a6646789aac20aa15eac3cb31071367252, 5650436440235572)]"

definition claims_data_14 :: "(nat \<times> balance) list" where
  "claims_data_14 =
   [
    (0xe89890fd12adda305300b7a46be354e1d1e4da92, 159403741895024779),
    (0x98ebc93c913057965a2b277f71f946f3a08363de, 118450866588833469),
    (0xc6345ef60b5a1da0fad8d5f1a2380a9c22522b88, 28136593482604787),
    (0xd71c71899ef98ba3c95a831f08fa153ebf7d6e4f, 20380064099323925),
    (0xf50ab4dd05fa9c3db363a450adf46b8ac4e4f59a, 22415340302863120),
    (0x2a03bbb620b0f0d6d2df692b5ee450c69a0dcee5, 4568557972172142),
    (0x15b30fb3da30a538ed6d09de890e870193eac12b, 17640810722695053),
    (0xbf99644397d9d124eaf62fc4ea29002a86b2df79, 14729111458864375),
    (0xcb47e581cfd9c7e7503b2e757c675807fa398801, 40066633779263546),
    (0xf01701518c20b79b0f1816093b14e24a7f286684, 101702377008161674),
    (0x22e3201bf5717920487605a76ba5e3250106dc65, 23221269655016095),
    (0xf2fa059494a74b21d0b658d1f387af334107f65e, 12469343613934932),
    (0xda86a12698234e05da7d8975893a98de72e15b16, 2394944830537083),
    (0x6af4604ae45b153caff582e23cb1aa8c1ccab3f5, 51830981660290785),
    (0x3d3f22770fe570ccab63c280c2e6702087735675, 351897267028996428),
    (0x8669d2a4a5c5ef2c1cb3a0f44c527f9ad73e5d00, 40955196901079323),
    (0xe9404dc46cb03e1ce11252e2b3e6c0efb98a34d6, 14811085283855502),
    (0x04d3931d909af1a1bb62d1dfad8fe933dab374ec, 36462541278307969),
    (0x9ba621207dd8ee34a8a798216f0448fc2c35bba0, 28626891835523563),
    (0x4809e83d0ddee9d53dcee1cf9e32c2df7420790a, 9682949670258602),
    (0x86eda5e8c685a949199317b7903542d80e1c8aec, 130303634395032852),
    (0x9d4902c1c5dea821426ad757fd963f71c62a96a2, 38394108052503965),
    (0x230bf2331bb0929d74459d5b05608fdfbd77fed9, 16228400510019365),
    (0x282103a7c6611f6c8fdf38deb1ec91c13f52a892, 36786551461207013),
    (0x49224a1183d33ce6ba83bfd6540f8ac90055d81a, 89091926442530287),
    (0x71d8609c91f662e02d8dcddc20ca59e005b2ba29, 9101462388362616),
    (0x467d629a836d50abecec436a615030a845fed378, 24257282088382235),
    (0x11d66dcc826c4d7167525157bd6b1fea8c613a07, 70953308225088715),
    (0xce44681331000ee8f9576e3a5cdd191be2b8b63d, 39616523823487363),
    (0xb965107cbbf38817e834f74b09be2049145d6b68, 18214007146437363),
    (0xcca178a04d83af193330c7927fb9a42212fb1c25, 202112121532474548),
    (0x85e9a235f911cd1593cc1f3e837ca5b005d5891f, 17984053808110220),
    (0xb4a07fa213812bc04fc44387b4eab85fa8cfd0ff, 10176798706141842),
    (0x120609da75cf68f9aacf4d7e8b627eb9186ba27b, 136436599120801136),
    (0xfb3ddf0cdb97bebae2d6f7b162c6485b296be5d2, 10952859457545905),
    (0x078e88e465f2a430399e319d57543a7a76e97668, 4007462076840854052),
    (0x9a94e6737ba8f6a5c28ae5dc0f71e312a05fd1e2, 19868880518017569),
    (0x1ae99691336b1862499fd5cc8f1476efbc6f3970, 21885730832214249),
    (0x892a287da3ebc5978d4ef203967e23f415f1690f, 11223773633903789),
    (0xc83baf16e446bc68fd78b01bdb3c806d5fca5df7, 17867448282219928),
    (0x5d9aba64ee73abfc03455732e2a8bcec5b2819a0, 10434914495467702),
    (0xb4cbc89475c4bcf6ab6a2e735c5c913c9b4ff671, 37915011146918238),
    (0x8a14416efab582c8482f7fe4efe47a3791f6d0f5, 20778485263993615),
    (0xb1bb091b1a115d95aaa856a54706ea14289e546d, 4027711996396407),
    (0x1457d2a377e7866951db5ade83e5e3cf9f9fd1b9, 10213908021132216),
    (0xc7c0213c686236e49717f59e4c7f876ca9398357, 5216943865067844),
    (0x6c316a0a7a72783557ace9e22479715392dbe050, 11640063495499056),
    (0xb39cc120ac8943ff101752ad148bd4cb1173a819, 58706352812435639),
    (0x43f427c4f983bda13358ad44739cb6622a576fe6, 31938908907115046),
    (0xfd6ed8b66c5831e9e2e932404caf04cd288fc988, 211902784994836610),
    (0xb0d600a23558562cdbd55886f682ac64f88e395c, 40504337419935667),
    (0xdc1edc1d264e7e36a995649d7d0e213eafaa9d2c, 197519093750550908),
    (0x819970381f9cfb73b14365099cfb8275a6b6bfa9, 15947645189253183),
    (0x0c113f3362f591a18e7e9e17ae9a7aee20a975b0, 77400685415735420),
    (0x62ae6147ba1721675e25b22197ee9faab3e9478c, 107071171342668986),
    (0x99e2a6b3aa40bd79f18e7e7e525292649e39b033, 39905004225647264),
    (0x61c203ced2c1e10728b1ab5d6ab315384541ad61, 21470188702579322),
    (0x921df14cc5705ca278397fef4a84474d060cd071, 10180673506958428),
    (0x52121056d26205277a31cc6909f5418b75e76797, 11012388294528989),
    (0x763174935371c7feb14e2a1696eea3bcb5c8cf05, 9970110868778910),
    (0x506b7512d1f90daf7ef1981a7e3903cd28e949b9, 22626271467228830),
    (0xc674c53df7272c80834adc9452c0193d897c5de1, 14522843027785858),
    (0x1d015fcc3128237ecd10b0627f8a383eef976ccc, 10368165782163809),
    (0x57985e22ae7906cc693b44cc16473643f294ff07, 28749492868989475),
    (0xc51f4126ccf4e83b199589b6f15989f285f47221, 29985683980565938),
    (0xefeae10e3744b9a66d449628d60ff3c2ca26ab15, 8524880164407524),
    (0xd79f45f3c7e315d36fc2d3215326968cfbb47cb5, 5276866971180468),
    (0x2ccd94e5b78d667c0f4f16c62d257932fee79443, 81391889387658297),
    (0xbd9a8d629f7545f4ea1b35c1856244ac51fedcd0, 11331057950145496),
    (0x78a17cb849df04fd2750471c9d5edc3793eb96e3, 140850463400971856),
    (0xfa80b0966e17f9722dce50c30aeaf780e3745aaf, 18163702835403039),
    (0x87b6c1e90087d6a0fc392e5250a6203eb09e1b54, 70670033912236736),
    (0xddbf205ee9a6d294fc4b3a4ad6d3ab413da7970b, 10153971044619464),
    (0x53e00ce5b36330ab12e011dee091bc7e6522fbf5, 86250820487411301),
    (0x0d8a4e52ae25251eaf831edf453ea8137b6dbc87, 19353094487045498),
    (0x0758f5c1c8ee2e007e21c33b78643a7c5d882e13, 7104930694003414),
    (0x2481e9c8091033f216f5c5cbc0a56c8c03e316de, 11710936944073184),
    (0x2b5756b921a3b273d7324b94899e7631f39eb65f, 13197838361187870),
    (0x617a84590b3a8553df43ee223d5794a06e521b0c, 13212599470492669),
    (0x18c162f83a3a8a4bee9d735abd35b105700dde34, 27794984519234815),
    (0xe7a740ae8282b3bbb8391bd1b511978d06384dc6, 49501388046523596),
    (0x5795dc26a4f4ac25084eb721c9f32812e2038294, 10537050735644285),
    (0xdb8d9a4fc8368dba0a527cf7c7c6d795c3e40971, 51434751824921211),
    (0xde72301aa4ac85b1c4002ce1e383d6a369a0d570, 1805910753836904),
    (0x6fcb6408499a7c0f242e32d77eb51ffa1dd28a7e, 1000000000000000),
    (0x6c850be85c455c4190a5100cc8d8d5fb72722468, 40636837193406299),
    (0x256620e41f5ff1fd39a57a1a450bef5182611fdf, 20776210179008951),
    (0x891d4f0d6f5232dec42af5266bc4f9becbead690, 16255707403239992),
    (0xad4838395b18619b19b9a8a592c082a074220c8c, 28419661212663761),
    (0x8a69c1977fdf9fb6f44579fa1381e0fea6f4315d, 3356658478054757),
    (0x6f5bd5ddf2103198028716cf0071ae08f47a72cd, 70579027406339446),
    (0x11e9b064a6d482c76b770baa12d144eec438234c, 44488853783640568),
    (0x24122ec185b3309563bcfd2e0c219039ed43808a, 12574698097941605),
    (0x9de9df7940aba38be6e57dd026ebb5bec75f4292, 11160866763916792),
    (0x6a1a4b4b4a791b21e2a4654d760a057ac153927b, 7864027077797891),
    (0x232ed3065e03b3ff35a029641ed80bf3a015d1ca, 15825993906337815),
    (0x0d64e1082be85f7e9c39d7da8e3efd4c1204acd5, 26806942067184313),
    (0x08e89248c86fbfddc30ab8130e136d2d66600a12, 200000000000000),
    (0xb8decb403a6a57f211c607fc818548de41eee5c5, 200000000000000),
    (0x6dff64676cbf88ba26f1b5b2c5fcccb0c638e3d1, 200000000000000),
    (0xc48e388c48b110570e5034e112b176039bce7eb2, 200000000000000),
    (0x908a697774b5cf33a7e7fc8f67bebcedc7b3544a, 200000000000000),
    (0x07f82cea5770723207f8544a00023deb8968755e, 200000000000000),
    (0xe60350b53303d90c52e088e060bcb00ec7464bcc, 200000000000000),
    (0x0f44c0df3455047c1896db7a564e5338943a51ae, 200000000000000),
    (0x4288449c0eef073d42c780769fe7f616c1af7e1d, 15510732088508965),
    (0x085fe2d13a9284828a721111612a2b69ea4db4d5, 193041411332130793),
    (0x1f490858b99624dfe29227805c134bf5e0a0a997, 1088926964444990),
    (0x311373e8f6ea53ec73f57ca2efacefe072159b74, 9974325404252805),
    (0x2b9b53ec31b253cc9a6c42b81139f4f4f1cef2d9, 1478434067711924),
    (0x46a929e95c585e23d411b452ca14568da143901b, 23223117909029656),
    (0xdefd8be983a95d24e7b4eee210249b0a53ecec83, 18008518845101205),
    (0x5315a1c257fd6266f9608f31ac9b6501c98c5750, 200688687003644299),
    (0x272fcde0475981d2ae5fa60ff23df30c4602b2af, 174764278662613079),
    (0xc39ec3448021452e1ed47e3e3265c0a047b53be1, 23312727907576152),
    (0xec4723dd088789b75f0f91b203c52164c2f6e224, 60564937988086666),
    (0x077ad784f85620a63d67509884d255f4af1f6f37, 35133579982024788),
    (0x464d19bb970ff3a27d2f5404656c4915564dfa41, 16939617095404910),
    (0x1d864d1a4221f8591fdde2a7c72cc12399802ddf, 20496110234799686),
    (0x7d6dd0bb8e705cb48d26f1658e44e18ca2d75157, 11060496000825231),
    (0xa6ab9088094b074a6b1075d04676ca53a82c95ca, 11052931742233183),
    (0xcb45adccd82d5379124702ba72904a43a5b6f584, 176691013048429038),
    (0x404df15b36a2ee78112def9c19dc350ec0c00dfa, 21157801740485318),
    (0x3f67b94312cab5238e18696f84c33fe466f49fb2, 33212606051854973),
    (0x2a0cf104c29c1b5141f92f500d2a0cf77e2dcff3, 40469382031151185),
    (0xf7ba8e391cf7b99e875c6afb3fce60378411b7f9, 18562876710503027),
    (0x9ccafa5f35d98c808698c3ca4df0247fce106ee5, 3832029797920861),
    (0xb1ead214506d0cd73785dd09b3efc2307133bf69, 3223588657303955),
    (0x4b270d91d1ea679e632ae7dbe99b430723eed9a5, 12197651958934498),
    (0x06a296bdeca9b1a1eca290cd4f319a4a7e4461be, 26406252633890613),
    (0x7bc01d2a051374e731bf03e7e7a88a4d3a738b39, 3643752907738827),
    (0xf898a30648c917d99d039654687e2bbb3c1a4ca1, 5489811082104067),
    (0x357da76bbb3e8207e5ee5703fc90a8c56c9c65a8, 39251151172861821),
    (0x331addef94ab0232c02f1fe89969e667fea7dae6, 82430635777027843),
    (0x7c7f413050470bf25caa257128f81a18b0a62fec, 25406042975374423),
    (0x7a9f87b7f10b12d05160a7a2add4b022934d843a, 8125332935581069),
    (0x1f194c6a5b535393d28ddf8025f7f2d87dc68467, 93682286100235305),
    (0xc4fed92c5aa879efa764c2a322f04f9c803c2655, 18803767378862045),
    (0xec0b9eb8e1377d7038332dd9dbc0f3f763c7a675, 49803182794583881),
    (0x1b4825d66d58a8128a1716022d8ab5262e9b146b, 30253476454379749),
    (0x12469146cfaf7990363840cc8161c8dfa9f76275, 28482048955816661),
    (0xd47fb4cec876afc4bbdda6965c006a30a4bb447f, 16650997181032785),
    (0xac96aed784ec6c2fd83b159ab0a5f4ba1dc890bb, 254418688772628452),
    (0x5412bdc2ad6bcd3535bf1ece5aed3a9c7c8f9529, 11221298131100469),
    (0x1b57342572932e153022240c65792eb085abe6b5, 21176671479569550),
    (0x1d40222c2af979449adcfc42c3f7d3ee9d4ade7d, 40474283093108676),
    (0xb05b5f3297bbb0ba05483147eaf107e513fb2094, 200000000000000),
    (0xc70de4959718c79bf6bb24e24401b697f5abaace, 10427601128733725),
    (0x1f56b9d1b9e1745f69510ac87a5f7686bc014876, 5909088737756789),
    (0xbaff35e77e6230374c4e6120a2045ae10fe30731, 11052543055905336)]"

definition claims_data_15 :: "(nat \<times> balance) list" where
  "claims_data_15 =
   [
    (0xad0677b7c46de5ea176b4b56fc79bb0329412ecf, 10745286548127417),
    (0x630cfd0ed2c34cc84c96ab5721c9b28ac56c3e7b, 19522297222715276),
    (0xf3b808f2cf65a9822d8c70b0c870f527fd1e202c, 40461833943880770),
    (0xd985741ec68b7d085d416f63e4362550eecb56fc, 5368716858196049),
    (0xfe007c619ef1e21eb1c967ebcffeade71a7ec02f, 37295993009419771),
    (0x17a6eb329fee2a10d5e6fe1d5dc39c531af8bc5a, 62090190631614944),
    (0x37717e559aedee92b7b5ed40a26e28212bc2cc17, 264289823441995499),
    (0x48f2881f8a92cd135de981d0fb60a8b7c67619e9, 6368509539724051),
    (0x9d7dbd4416faaca8db256b852ed65228dc6e0a5a, 18596985533513108),
    (0xf03c33473291e9a0247cd1a70de048554986a707, 4061169973096641),
    (0x336efbf4063f9d4e3d14aec58123e252bc1e2186, 12009062385003147),
    (0x2e963314b87163bcd906788ac13465a30f89c7a9, 57308729663963099),
    (0x5fde93cb4d71d67adae945f78f59d5049fd1d8f0, 10409316167196357),
    (0xa30c27bcc7a75045385941c7cf9415893ff45b1a, 3000000000000000),
    (0x35d3125c6dd324ed796fa91b53ad328a9f41190a, 15369283403052529),
    (0x239af1fe6a90f304ab666e411e56292ba876a802, 22259360691313293),
    (0xb8dce84955c95d55cca56a0ce2d14eab0774a22a, 14848889999119141),
    (0x55f3be904e3742018515498e42a74c71bb94f4bc, 11053319508348313),
    (0x0264727fcb63f2cc6f3e92e5688a946959dcdfb3, 31312808555502315),
    (0x625da4feb31ea7619c80cc69ed0f548d5ec5cf47, 180000000000000000),
    (0x54c92e19063768454d6443db671e4ef6cfe7a7c7, 16244113462515969),
    (0x39172a1291e13b882b0f1d79d5eb160333720177, 31128054074555212),
    (0xb71d05cf5cdf7a9b15b20b9aab5e91332c271c96, 99105164972765642),
    (0x6fc873549977314d204a1e35c181f4b9392246a3, 37158441063487435),
    (0xd891769ecec9dc911441a15b1a090cc9af1d9eee, 102027213549635069),
    (0x2028411ad3056b220e3552b1817e24da54b48f6a, 7542824507146043),
    (0x358ab77888e536e6426e4ee27a7120ed17425172, 7317852248311905),
    (0x75884f27910b3c640f913963187f3c1b0c33f4d1, 36236390165718392),
    (0xaa504202187c620eeb0b1434695b32a2ee24e043, 20533394910122870),
    (0xde47ba11c50efcfea2d4bdadbfb2cc7830fbe767, 2083219139872169),
    (0x982dd304cf5d140b5c1673999ccb4e69dc1e7e53, 11879946926559414),
    (0x38caf2d24a26a7f14000860198642e6cae834764, 1753431608452255256),
    (0x31c5b0e0f4437a04e4e1e35db99dc6ce65046f9d, 14058592404477815),
    (0x8e5f61f656747202fb7f8fbb784cd7dcaf0f79ed, 11807228673314032),
    (0x35642de97d6376dd55240ffd35fafd2619515e54, 15847005202767891),
    (0xaca4bd77e459b9898a0de9ad7c1cac34ff540d0b, 21889576857448564),
    (0x7508ce9b74c4e5e18c0e0140f8be52b5fb2d7071, 13612775137122657),
    (0xd970bb0fdd90a3cb0e72b1424ecc82b7f45c8b6b, 55785480707937959),
    (0x29ed191612485ed6c73144dd14dbfab5bf96e4ff, 16412408903614899),
    (0xa61f32f921f35c22eb74696b14e97cd1ff2adffa, 38846915298202569),
    (0xb25523151e1da082f4b1b243a95025090ed1d16f, 13243744141560936),
    (0x903435bb40a3955aba055488321d0016525f1c2b, 35051462098700847),
    (0x7bb1a08bf07caefc532d6a7c969d649dca58c8db, 37763347260036071),
    (0x4427263872cda3c53a0509381583164144810223, 3258590879011585),
    (0x8490f401d295591df944bd85aaa904fd0ef572af, 20448773321626238),
    (0xa362a6b387a80180286ef40d8e6ec6ca2657a9fa, 368221089245202067),
    (0xee39c70efb6af381c15e949c53a2025e0303340d, 1314040848016927),
    (0x7ccc7d2d5a660288c3ba5bfb4237d86227e9887a, 18818523243283617),
    (0x0aed1878803e2f86b6ddb83f5523f0a793e973fc, 116709733798035317),
    (0xd5527f4d4408e17c90fa22126fbbe6719e703c0a, 70620360279011402),
    (0xd2033db9c5370ac76abd80823b5c5adc097e2fbf, 41066437116174626),
    (0x0d624133af67e78ea4fd520c480a4ed5caa3184e, 14667288369604515),
    (0x296276068fdf7b92eb62e18362de33dfd8383c3d, 125240382625556264),
    (0x453aaa1aa89bb1039bcfdcc09981ccf3e87edf33, 16443457708107196),
    (0x818bd34ad2912fac9082f2d51718327d5a45991a, 11575160547574361),
    (0x519497f8b29f0fb27eb720a6ae4fdeca4016bcff, 436845189310214143),
    (0x47f80f8e3deb6d006628661035397d4f3533653b, 201423044451646706),
    (0x23a70957d494d02c93b4bf497e486636c43850e8, 7582870539843615),
    (0x32a98304f0d4d80f01d63acda40a5c38795cc118, 40151710658280761),
    (0xa357cb3ce710a4f90fb9d56979c2c3634e3965ba, 203177559978128044),
    (0xc910c7c425bbad5e733eb7a8ad4b9c4848321131, 11428451290157241),
    (0xe05b184607746bea3eb73ff16a7e307fec7b7dba, 110390754342716520),
    (0x05552468898ba593963454560b845ab4fb70ad58, 11029069098113758),
    (0xccb3957c3a63f114f3bf2b4e3358da8032b433f3, 62370864853599629),
    (0x8f2f3afc713a2399f1872470fb52bc7f0bdccb89, 43488460303996638),
    (0x57d98609d623b9885721a58b896d40c7871e1573, 34192764565204135),
    (0x7519c7ac335731f4679be27cdcb8e4b3e2b253d7, 31525340653378704),
    (0x49f9307536739580deb16f2dae82ba0d25a23b47, 41391459081575123),
    (0x08bba49acda81fbdf2ea7f1903860ac83988c75e, 30414223567174664),
    (0x9d6a3b9871fc03536467ea1b77dce142065a102f, 10360742649525804),
    (0x981944c99a7ebe9f741f28ff5cfe2a7008a5bae7, 734469762211163964),
    (0xb6acc90462d79105d6b9011e8f70370bb91afce5, 30176184513062664),
    (0x2a92a7edf8bf75b3aa9c9832b3b3eeafe34ba095, 40790550545000881),
    (0x84e889f59e135ff5d0f29b94447d191450f5f029, 30621634891143114),
    (0xa885bb15908b2bb3b8405baa840c6d19af3b3b32, 13877308394586443),
    (0x54fd8237dafac2ad6d8a84fc44b882a109f8cca9, 72926839952979492),
    (0x88c3b6f2682c43cff0a1050abd504a1b8671a649, 11138266474178467),
    (0xf1d3098c6eb79f9bb07949076457b5bbd05b29c1, 1082286620890880691),
    (0x4868839cd58241825be7681314d66c9432e9d6c5, 5804667783905246),
    (0xf9b2ed98435db651b7fd6675fba8151defe7f397, 15732480151631559),
    (0xe60d9c72c5ec15136b942525407d07527f2df2b7, 186553233495338245),
    (0xb2d1446ecd6cd538114aa7be476c53fa53aff0f9, 30919934646553960),
    (0x0bbdd27e2da45d2cf8bcbb43487a19ad08b393c1, 223475135035541245),
    (0x2003e1732fa4b08bc0c7fc6ccda78a85a6528184, 47300934091370880),
    (0xaa8b2788d816bfd11066642f34636972e0d464cb, 22852048933547251),
    (0x9ca9930dd7c7f5ff459a657157450a43a413fa91, 6310767958876167),
    (0x9448f21ab7f9839e537c2f91283f7744bc5a4db6, 35000000000000000),
    (0xf8894e21fc7155b9d474383386261a41afa9beb8, 12430264573427761),
    (0xe6c0a5b185909296d185c0bbca65fd3d3825a4aa, 20551978380823736),
    (0x827f089b99accd2458029201f56f0ce24822e0ec, 8604574045362119),
    (0x43cc54d120580bae7574fb38a8a2891def383d3f, 10652593216296865),
    (0xeaccf1b9d6c2076705020f813bb65fc0dcdf5474, 51002032061370139),
    (0xc92968a3dd7a46212b1455fcbeb382905e441722, 40958956587629278),
    (0xff4c1a97f79b55df26c7c349f2915946f7913dcd, 20541862413512172),
    (0x0a251df99a88a20a93876205fb7f5faf2e85a481, 59550763),
    (0xfc6bc96f0715596c61f2e6165f726b0d2f5a3c05, 437934486198861980),
    (0x2c5acd0d7ed19a54d27787600ba6aa3797e10201, 6204194401925421),
    (0xa5b0171529d5fcece0218b2f9fcd8b9afd6c89ad, 20355514547936822),
    (0x9e31fc445c984e4af7338ab92c3d98dae7f2c3be, 1000000000000000),
    (0x485064b874428be1f82e47f8cc9b1122631a2051, 8544049589557127),
    (0xbdfe089acbf73464b3c1153166b59a341614e7be, 60472359339757394),
    (0xc9aadb8759f908accc574cefdd031425254e4af1, 28569632780915758),
    (0x4285ac31c65fa8c64655151de9403bdd148f50bb, 216453346986445732),
    (0x35a3971701ea5f9f5e1a1c10c479416d529c238e, 4081223907328140),
    (0xd7db6d5d6269943b65381d832edb6e1e015424bb, 9223410631505530),
    (0x9637dad460effd258788d6d0b4e4fb1a6272b18f, 143585610233059258),
    (0xd5338045a25f4cd42a7af427e55e52dcb03624f1, 36687238907613940),
    (0x5002479748805ce20a44de8d4d08386d6f7085cf, 12745415286062090),
    (0xa72e7aa0cbd676b925f6b9bdd174293250f43894, 72586555760534861),
    (0x36c7d586efd531fb964c9c0d7affacace3b08d37, 53573676527608289),
    (0xd092a3bc551ca61f48107e902ec70641574140a6, 40335960839741875),
    (0x54f7997189344ab15dde79844b65e91e138eb324, 19451057123131725),
    (0x85ed65e145812167f4bf27c8d84416e691a7270c, 9261583462016685),
    (0x1de66924def43b5a02ba2501bc36c18a728ee641, 8049827353740625),
    (0xe54ffdf9f137e0bcfc9cf1f3ab8cd3d31c46eeeb, 10608460347598252),
    (0x17c63868e3ab7da20adcf8c27d4ee46fdec1c325, 33357697861041789),
    (0xcc5bcd3ff0465eb22d4b6d06149d964abcef434b, 5490072253756806),
    (0x9b7bed561f48ad8d08b56b40a7addfb6be6b377b, 21909415570944393),
    (0xdf6ba544370a949a831de1e8401d45920f0cd6ff, 105285270699420356),
    (0x8b47e0a9d8a8cbbe5d382874f43d5bd198ba52f7, 4775064659006335),
    (0x4cd4bc363458b52380d695b5c923b8994a245281, 177651543284834104),
    (0x38c1a42ec8564eb3a62966a831a5fa45e42b5455, 20196582479410887),
    (0xb87175bccf3667f2db84ea6891a53cbcd7627695, 16651761511176614),
    (0x10ab86371f80a462d7d905e9a1eeed6a3ab3a02c, 8328585597680913),
    (0x48a61bdfb3c5b21a64408b823aa1c8295584f58e, 9141956415719334),
    (0x27c2943985d0beeaa850a5bc13b1fc34b797b8d2, 40102449258922877),
    (0xb120f496a1012ae8ad8dda5a44b5a911b59a38d1, 9257050220605354),
    (0x86ff96435f69637ff15db5382788bcf680858327, 99020582732926846),
    (0x937cd537aa1cf944a936d4378852218ce6ce525b, 19269530853215605),
    (0xff8b0749dc744f8087f16c874c7fb3b662d435bd, 10314583584534419),
    (0x38400b6bbd2b19d7b4a4c3559bcbb0fe1ef45ec3, 39976560094190493),
    (0x6f41611e5518bd83840a766e67aaed2cce309e73, 15574508926394898),
    (0x8889be149bb4b04d89a2cdc6e69abd0816a74b0a, 15637335082815959),
    (0x28fad3430eca42e3f89ed585eb10ceb9be35f7b9, 78016963500161884),
    (0xdeaa9ca0a9c652b9f88bc4921fdddfce5478d860, 36070068327163021),
    (0x4994779612165862d7936c6351def8bcc1c6ccec, 19478125244152948),
    (0x3298492ee2689911866ebb01a1774db060ad6a7c, 112827777925773345),
    (0x6c384326070900fcdcee18b0161a0f8b631146a2, 35891375966482542),
    (0x87b26868d1042cbc2e8f998503b5d4c7416f713f, 5617974234162199),
    (0x0fb45cbc730fc51740830938cbb5bb8a4c0076aa, 11948603762201808),
    (0x3b3bb85ad43ff155db8b1271db3f4f442bfebafb, 20658722149979872),
    (0x3f2ae751d704a3600b24002481ec6aa49b3260bd, 21071746976194336),
    (0x88cea61067a56a967f0e0c671b5690648899341f, 17109040323583254),
    (0xe718bb18d8176659606b3d7d3f705906a9d3e1bd, 89960883747427423),
    (0x7d95d724c44675526383ef0c69b2745e251fd58b, 30824247168865963),
    (0xf85743720a20ad9870bbaf8cb3e5cca46d1351f8, 12204432510855078),
    (0xc0f1ed58c0ff0813c1d9071170cab1057bb51359, 268810704923659529),
    (0x72edb05f4e78255446eb4b6a89830d0ba4dfa09d, 40339507963056118),
    (0x7e52a00554bfc3ca7845a271e769065ab0de86b2, 48118060408358273),
    (0x92c7a381dfe5c4d533bb3f2a35e8380c97d3188a, 34526714117470620)]"

definition claims_data_16 :: "(nat \<times> balance) list" where
  "claims_data_16 =
   [
    (0x33ebb62dc9ddbf6b8f3c0efdf5bccc2e7ac60211, 315157010393160571),
    (0x6dd1ab21d458ef79c7889909bc5aacd10d46df7a, 142122750933611797),
    (0xc8f36f1e28735064d8e6b2509a9562f7de18a4c8, 3669243119773594),
    (0xcb8f7421fcc99c7975f165305c7ad375016eb071, 6897128159620084),
    (0xdecc3c83acf01158310619b0d6f7bfc8743d474f, 51484482688857287),
    (0x8c94b11f460481f86363563e7eeb447225fdb61e, 2930391152331142371),
    (0x440abb8d7f82c8e5f7d98f828dd890d06fbcd09c, 10357803199349619),
    (0x904ef42db3d19dc45a4c73bc313615a6baa4dd41, 27203054119832438),
    (0xcdf940dc2d4bccb1fec64a6e45f377fc8666ebd5, 61851214006020992),
    (0x20d709fd3dee24c743fe00e906f958f7beffea54, 2164139797787175800),
    (0x5027310081e318d4521abd4967be4515ad8a023d, 30971584869483684),
    (0x7723a759db7738e2ce5ce4c96428ae87fc4ef058, 26207621601512207),
    (0x5ba17aa52a822834936b268be8148a76fcd16884, 80469294549001781),
    (0x31184394273fbfd3e1b96dd18658b574327d386d, 33158478642526575),
    (0x71b77606190d9162f7fc671dcb92820b1b4bf7c5, 20729418486107259),
    (0x717493adafec83d434fd27118ce49bb3a01b4258, 8659167930492278),
    (0xcf703ff0fa3c4ed2606d9b5f2258a28931be9879, 14977639745295034),
    (0x8efea56c2a4512c3e6c5e64cea718aa3a1153a87, 19694193115109200),
    (0x2b8d21f3493de4f46f458126441ffec22a17235e, 433995433999011907),
    (0x361aba3cf622bd8e972204a7943edc1d693ca8eb, 37810729254185315),
    (0x16fb0384d76855457bc72c95cdcdd984c0b8976c, 53950193437794591),
    (0x7a3054d31fe2b8809899ffa5f3fa84cd8a98a60c, 101695508093864369),
    (0x5801f0b3288765fb6aa8b29e57bec86e561b0bb3, 41339908125227275),
    (0xe2d9d6a92bdf631d47c0717d0fea32ea28773f88, 21103164005367689),
    (0x18d2bdfe9616229e1d7b62f5c7fdf5c611fe87d7, 9575100000000000),
    (0x663a779574ee63b80ee4dd70f4b557dfa0644bdd, 26722700545028231),
    (0x9c9851b3423883f71e7d8b5948605f34b24aee49, 56402121072586798),
    (0x223ff7cdda3c230a28b684dd51c15ef250086e53, 53365762152017575),
    (0xed5584681bafa7533f34076899936406f7d01fbd, 11622075920966765),
    (0x6a8cafd89ebf4a77a19960d34073b1145613769c, 90538709575739220),
    (0xcb592ea1b7b01a8a91229d5dabfbc5408b5cc39b, 20092492378795995),
    (0x98cb737101c377eef5abd43f940c988cf9e503b5, 12295944081315901),
    (0xf1d95b16ad45114e2703e79269835888b58ac6c9, 21583980837882087),
    (0x41bb596edc8a2f7c3261b67e0535010f44fc6982, 2809528482666978),
    (0x60360c35bb3ae091c45479d52e84fc7209cb8f11, 71052070346673981),
    (0x5f6d14fe014ea28a3d0bcdf5014b3a274fa8b571, 14242689347049709),
    (0xf486dc6f93eed2ea686372c9b8bfeefa267f5118, 89589221024882286),
    (0xb0e1505d9c8eff6936b927816a819b1ebaabd67e, 188062509092252400),
    (0xa7a44563a8eadf668644cec5b214f5940cdc36bb, 2800000000000000),
    (0xd71a432725a5d7382b644f9c6746d76686b6c3c5, 10638352733605650),
    (0xc2e7d100f29d8a0dd2af67cffa51407e0433d28b, 3249570891382149),
    (0xb835a1a303a15389019023f813df5507f710534c, 9442889769102760),
    (0xf1e72e83cae27f59eac891a8572141e266bc83c6, 21693807606618316),
    (0x7f71bd175c9b0cba92c9759fdfedd375be10cf3c, 40428382760452784),
    (0xc25dd14ed329f366760cd6676ce0528472d6f57d, 13622411617209469),
    (0x14d1f69952f0939c16f00d68ea2c3f040c4217a6, 111087954016698557),
    (0x9dd6204bd060b3195cbc16c45589447ca09b4f40, 20310619427181600),
    (0x5466fcc303e35b9b667f05f6b3e0e992414166b8, 10084230142570172),
    (0x4ff754674cbd75b2d4f36a785511cc4193b21f85, 6383700223175802),
    (0x823382048fd922743beb7fa6a6fc235e5f27cfae, 142972739020128486),
    (0xa5062b4938f054d9b4143193310b1a5d438f6dd9, 76585260947708669),
    (0xd5b9c80b734806b986e66af8ab277e1c443b1a2d, 40821714494158147),
    (0xe2b98e20872347fdcf6c18bc07b01e15b81132bc, 48830340134940542),
    (0x443b29e221b54f7be8c0805859f57028cff0a1ca, 213101993234519053),
    (0x72a5c6cbd753149b728b47156ce633a87e352e1d, 600000000000000),
    (0x8ccf9e6b59866aca7528deaafeac41895aa294a6, 23535445772394653),
    (0x63fdb65cca5a9e66b7f8d925758cb935281b0ad2, 31476516467515108),
    (0x726ad4bdaf04ed2eb26c43881f8d8648f7abc047, 15153662687495978),
    (0xa40959c40aa65c530d510cc8fb3204d1ba13997a, 20625977010612158),
    (0x0d8c44854055f4becdfee63d2f6286548ace0c34, 9903507899930243),
    (0x35f382d9daa602a23ad988d5bf837b8e6a01d002, 31125374760696249),
    (0x8b7bdb4db9072902873556d60534a05a1a551c65, 11665025054691130),
    (0x36cc35145dbea5a020ddde8c37818996c0f3480c, 20871157697789795),
    (0x0065ec01a6284a1656b9de586884d8180babe622, 229582019500569968),
    (0x0354459e8bbfede144d4dde1b549278c8631cead, 13673047547530494),
    (0x6db296a6721212b43474fcbb5cbce4736299acfb, 40656036894509028),
    (0x04d03da530d45038a4dcfbcb104084ebff1d2052, 116057528355546834),
    (0x7c79759edbae856c0eb329ef930321938bbe32a6, 3096297602715970107),
    (0xbc1fb080bc94d08ecdfd856efe89ab99dda46c4d, 10799179378704639),
    (0xf6179303a642bf7656f597f10848968f6c8bb9ca, 40677680503231319),
    (0x14bd7ca23817d50faecbd0cc09701a1246cbce8a, 21065178774065230),
    (0x2d97b313f6a506f6c58279bb67a214459bfeca2d, 61711210185602102),
    (0xbf49b454818783d12bf4f3375ff17c59015e66cb, 203983848517520442),
    (0x6b7b67db255d52b58ebfdc149363a113ed00832b, 20023553472669834),
    (0xa6b0fd6c6809b71376bdf450c529501e41d30f43, 54693599185922007),
    (0xda281ff5f86d3700784519e9835d58f98f193c12, 2757404993391898),
    (0x439ee72e9f85ec484cc60aa5f68d40aa7bbbd6a0, 21478382115356614),
    (0x998ca2be6cbb678bedaab295f323ed223d0f0516, 20435881171798532),
    (0x9f572ac4a20eb83b067cf9fb8d4452041a302acb, 27558053173493719),
    (0x600a6b9a82e5d304918b77cf6ba6b1048699ded7, 25607879457705219),
    (0xc35448d7f12483385aa7bb2a41f8c4e8c73c1bd3, 78515674896842992),
    (0x30155c458c794be826f63b4ba56718409d282673, 32818675970544670),
    (0x14647973d093256920ce9c6c8a6646b3a4e43869, 247414924562901652),
    (0xc471b2791cbc9f28a3f4deab119fba766139e4b2, 20155775864874314),
    (0x72f73d7a57cee8c9c2dacfc12aa9c26f9056404c, 21066457197416791),
    (0x4b674f0e2faad464291fbecffe1923215761dc89, 5269993882949764),
    (0x645155c20d74d8c641b4584cb100d5cc14609711, 1163191372358959125),
    (0x00933dc8f06a7473d0e7f348e84f204a456e9d70, 20402799355123294),
    (0xfed66e69b454062d9e56f49e8ffc5e8f2b1f4500, 14852097915344608),
    (0x3fe25fb31f9e33938f2a530a298e995499879c5e, 34362265684623147),
    (0x14430084a1033f4366aafd9e7be3fd95fd4c71c1, 20254677181457939),
    (0x3ea1f2181be5f8c1c6a2e26c7d19a51eb8f6966e, 99031596445691274),
    (0x5de94c6bc5c0b3ccecd19837018d86b30736ad7f, 44257417010130609),
    (0x403c3dd64e86ddb5916a8b01998ae3026e34b30a, 29098728150325827),
    (0x8d1cbc225f0f2e0d149a7adb2a4a109094afea36, 15722892211390577),
    (0x71fb314cb44d43dc2ae4be1fc9ebeff787da001d, 11603072979208945),
    (0x5a04d42a55e7ac81fb6e0919de1108a2075589f0, 21013538735758500),
    (0xbdf7699a76a04e22eb8a7db866e7d0771e0281c9, 7954212717954748),
    (0xbf9bf6f7bd3c90059c3bf105bdc3575f7eb2b4b4, 33000000000000000),
    (0x0ea3db6d182d1ca573808b9d45d04f04227f2167, 13614098335608425),
    (0x04659d48685fce6fd2814d703c5a56d31d29acc9, 398168418819279264),
    (0xa5418ae01259ee1fde78b274f889912f19396d19, 8753310279139599),
    (0xf34c60c0a1062eb812fcfad8555bf85bd89260c5, 4071854692806977),
    (0x8ba8d28bd424d9febafdb65f7ad06c6f820703ad, 21110289442479864),
    (0xd6f82c5b7af5a6ba2a60421d304c93abd2a98bb6, 39693444710510052),
    (0x09ec11c143f39eaa86506b4085df9b94f9b3e0d7, 2596121524092997),
    (0x57b0be0fedb99029a80e6cd1e79ea53b957983dd, 14601486723942534),
    (0x68930044a37b17a14c76f7401da72820c0af5066, 10214696572622831),
    (0x5c940136f1a30dd9caca529b865ffc6990a9dddf, 16664468952008713),
    (0x5af5b2622c1213198411dcb34e8ffef51db3a857, 19799204737038331),
    (0xcb87186061c7afbdc45141f43f24c736f861641e, 25411560087193450),
    (0xb3a00c3ca08a1bd29341519a4f1eaedbba82ca39, 39646743356669562),
    (0x98adeb3f5f6aa1c9a74046a29e5231f007a0f12c, 21365919798066365),
    (0xef8e32768ce58891d2ab7aa7ca2c87ac4f5dab56, 14142500540335780),
    (0x54cdd27399ecb738e670b3fe078f3419e1ffc7f7, 8536771119062366),
    (0x658056a1b198395b3d254e2f80e7d160bca58f5f, 5241725057386062),
    (0x72e1ad02195a93442c33c56702a53325ee749e9d, 101808398910205775),
    (0xab2442a75ce2afe7b069fd457ccd22e51f472079, 6761313347337981),
    (0x5d968381598badaf55b1337d389f2ec92a0cc519, 7937651856485406),
    (0x43cc26add823f6703ac06b3f5247fe6be813166e, 211147549831417379),
    (0x00a6acada6fce2905c3dc3142ce96d68d8ab35ce, 18057461404490166),
    (0x727d79108b6c104ef5ceb5afd63f80e9c0dd442a, 35147820170479540),
    (0x96b215ceb2c5118141bc0c94c1401e377c6f2bfd, 106192192441955813),
    (0x56035e871439dc50c95cc0fa88b3b3971bec2814, 8589603005736288),
    (0xe97a60200d259a919240cee697443090b74fb455, 3261534925280022),
    (0x8853c3147c7487a0c09349db8ec4d2dc53f6cd4e, 29582069325216996),
    (0x859eb35a7b64257eb9ccc72e90e48fa1b0cee4ef, 15846051084932729),
    (0x7511b5381f6d06725709f416ea97f9cf7c8fceb2, 6161622313859734),
    (0x07801e4425369afc04a62052ada18e890af0db36, 5883792181780577),
    (0x51241798cee0ff6f4d25bbc36426e88e42a82840, 40055276877293773),
    (0x927a03b6606380147e38e88b1b491c7d29a62eea, 79987557707251329),
    (0xfb3950b8247518c745affad59b9ec9c9b485dcfe, 30406160194541536),
    (0xd7f721c220a4ecaca26f8eb14ee161d380d871ce, 3849735075748158),
    (0x33b576fe5bdefb8affb846d48ea68b9636a109af, 20745246710586903),
    (0xa9dbcf27af5eed865425352709a5a84d64d2d9ed, 51012407654453615),
    (0x4d8465c701e9b3873abeb5ff2fde6bf7f55fb242, 164046173234010826),
    (0xe15aa7f7de1f1bb51aed5d7c28bdcb59987f020a, 28976623607888049),
    (0x846f1b46354b4e1e5dc90c83d5139571ab1ca8ab, 59965943358729487),
    (0x07022938e17988d2df8fac3bc3bb44422a8afafe, 16531730830716963),
    (0x57b31dad7a6788513c1a6731bd08e1f6a6f49839, 40534709439641322),
    (0x409b9ea62a0831f26d09ed3cf40f1fd37510afdc, 25311598275698591),
    (0xd9d208471b5d2ce51570788db2d5ad09f96e1771, 101162854216575493),
    (0xd4e5a39a1d85dbe86998daeb7e4a8bfb5b4d9212, 802261571980156280),
    (0x1e135f50e9d1d424d6de4def147f71a59c8260af, 29851587810456966),
    (0x29460e16c5f7bbfabb37ec0428a4cca3337064ee, 124611250134565667),
    (0x9953181ce2901c1fb946c29c3e1f66d70395963f, 638600763375693708),
    (0x7c1c3c0d538736128e1ec9de82e4da9e7dc94a75, 39574546685840200),
    (0x624d6405b61db6491042461e609981f253b23caa, 23175694837422846),
    (0x4561b169326e24f9e9ac0f5fd2867afb782cadb1, 16079330831431376),
    (0xf205a765fbd80fdc1c7901e1550e51a42827f932, 6476267114863389)]"

definition claims_data_17 :: "(nat \<times> balance) list" where
  "claims_data_17 =
   [
    (0xbc63d38648cff8e8e4e47cd56f8352759c416c61, 3277660843199616),
    (0x4740f1136283fee975028dbcec0ed8154f48f3ab, 21372613658043769),
    (0x280a2aeefe83c54989708c268d1993ad966f6a9b, 292838091765308897),
    (0xdf19adeb97a91e74cf4893c6909d93d2331c291b, 18798224751506900),
    (0xd6cb382f220691a537c760900486f4dd99cdf712, 381408046981083248),
    (0x8bbf77d75749528258ea322588704a79dc30a8d1, 105359090071855806),
    (0xa81a6dfbcf161b419c8488907dac6d1cd11d15f6, 85743916013243567),
    (0x955ebb45951c3baf2d39c253cd9a828c21767a2e, 216704282681155805),
    (0xb9ea83a143dc15e0f7b70cfbc634e827da65482d, 115556830778505566),
    (0xcc8e7cd2bcda858ba4b8d352b06f9b85d239513a, 32367054629611353),
    (0x09a1a849974d021a0f74366e5020884ff73e3abb, 16078745607142740),
    (0x882f7afcb53e5c19530d65d19f73fb21d3868c0f, 19187160749418106),
    (0x008c6c629ab34de42f364cc782c42179b24788f2, 9827374103471767),
    (0x32cd06a20b528bced096945d6d165a61e75ccd2a, 198217194745388237),
    (0x27d205c70be488f983299bdf2574d862eb6fe136, 21128896187516651),
    (0x416e4198485f7944fe149f1b244d801217a57dc2, 10583055877446958),
    (0x92ff579190246f7f7325d5fffdb09a67c1b58278, 6317249557288503),
    (0x6ad97071e9a7652dae92cb5c77c2d024e50f7d68, 11857734279263303),
    (0xb120edcf3a168154ad78e9e73de45b87364276cd, 4112963657647939),
    (0x41cbb683390da764c50743a61673f7f1e8381744, 37917757803650333),
    (0x89e6ef193a28b6181a7c4cf0c16164e173df19f2, 138687566457857478),
    (0xd09e4db82efc5d35afdd1af248a9533ca1fe58e1, 35403915626667862),
    (0x82f32ca6004c0e163f471241ec27d6893516f054, 8825426118255222),
    (0x00917c372fa5e0c7fe8ecc04ceea2670e18d3786, 343885045286408654),
    (0x486ecfca4d234881847b7e6777ece72e7d188ca9, 28792951142755033),
    (0x8ec387c7fa534f99e1132472a7be5061d7cd9bdd, 10272099608085101),
    (0xb23272c5c16ab2908438be2effc4bbde132d85c4, 52341365092243907),
    (0xfe75b3f6a83faab707f0775f59e4be5f01550643, 14461285433867307),
    (0xe4a5938b1a5dbcf4d48c6bad09a90c25145478c0, 4854392818384476),
    (0x3c736983e5f473f41690abe6432ab34288587e0d, 34864098286183120),
    (0x9cf4229518ae517a2c743215e15f9072b48898ab, 5619860946899085),
    (0xc45369f53672578d8b52cba6e8d0f2b7c5f31e67, 13435896412399908),
    (0x24e8b6aaa7596392f097e2d9454904e1a7ae0425, 97323657692442240),
    (0x949f4c27e32f694f743b050856aa5771f38f1287, 40439374606009750),
    (0x6fdee8f1fb8f8e7a2d58b9b11261693fa946fa8f, 3462825051146987),
    (0x94d9936aaceda478a0b5d2374a29f0d61a584791, 15583621436331485),
    (0x51ff8f7307124765872d5cc36a2239610931c3cf, 10733607024080502),
    (0x5989ed76aa0ffc2d6b554d3867ae503e1e83f980, 10323645983867510),
    (0xfab7fccb5c14dc6c06cc4db2ada804e178b7aa94, 11843804155688594),
    (0x0cc1abec2316ec10b2d3c4be22724ba46dc0656f, 48429339282777504),
    (0x503d2966cd4a26040c111824dbdd1537a34e9fa2, 10397970738869057),
    (0x9f48e089e0c9a89813eecf1b001d4510f44e7aad, 2628831957313392),
    (0x6199e5fa5f627ffe703291418df9683c3608ab8b, 19702084313623977),
    (0x51f411027421215838445796aa6911578bebbf94, 10553382160730083),
    (0x1fd0a0403fea1c33da2d236049b5335864d35139, 137325635713970076),
    (0x1c4a7dd98529290ca7fca5d676f075e994b7bdd3, 14677809262569671),
    (0xf7f4368c57f94e9133337a9f35da203e2be10925, 15238315053419143),
    (0xefb4415c905a7ef8b6bfdad16f43be3a358ef869, 23006215135339876),
    (0xc4f8959933bcc4860f82792982be0c8b2940aed5, 3355233893697554),
    (0x30dc141bddf641c1276a9ec3d59d9c610923649d, 928058306060801603),
    (0x84b6abc668858beb5cd85c1983e211e968185040, 4922266689690892),
    (0x9ad2fdc0c515c2fe5358acd8b641f799e64e0c5c, 55925277751574650),
    (0x0066023b24edd70b7def47effbf2fd7617f9c66b, 38757684981656997),
    (0x0cfed926f5712243e0c57bc9e38a4811b9ff73a6, 464788783334291852),
    (0x540cc6c1b84d9c1a1936e1e24610920fcec4121f, 1960022179876522),
    (0xf41605d3a9062b868b6637b910b6f61a6b9b8527, 15781877734382081),
    (0xd72708e95577f80056fd6a44ec30d644b5a86486, 1239349008569351558),
    (0xb75e33e2ebecca0bc7972c5b32c2b39ffb473fdf, 9711972055599302),
    (0x462d9bb4710b29431394c04467ac345c7c55c1be, 101777806531912857),
    (0x5fcef2ec11beb7cfd7a9faa61143892894ba446b, 35000000000000000),
    (0x31e4d5b11dc06ba506a849db15974f5a7eb36676, 43057738925385201),
    (0xfe55cd6fd0bdcdd53fe36727d240f88c428deb73, 12335915464769130),
    (0x64763309212982a769df4d3966b4ddff5e1b219e, 58876663126232848),
    (0x4281eb38f66be4cdbc43030af01bb722b787a2a6, 100757612252251891),
    (0x8f41af62d3121f07713ce1a5b19f9b55ff4b748a, 22414534413407148),
    (0x497a2566f804e36eec34c3dfff79d66761d9b330, 26308343107893200),
    (0x8a08554b00de89c268d0fd0271091e294c65bf3b, 74398678888865507),
    (0x11822eaa9cabc0c851e4bc2882c1324dfb5f0b15, 11935767279662692),
    (0xfd43dd630d0d9f335bd24d4ba636f9c4ad411d02, 421476384011238191),
    (0xe32b8238bca33a3cd019c69e27942f2e78b46bcc, 34762081932768979),
    (0x6d8ecb612c9836a9b274f27f7dc5e2834c241c7a, 6139023498494364),
    (0xcdb2c18eaa364b0d1be092925582653a766d4fce, 27579107465773899),
    (0x759b232e7e77e355486d366fdc312be5aa3f21b2, 2845000000000000),
    (0xe56a192ab8571628ab1ade27dfc2f0cf47221eae, 951088802790530223),
    (0x8fc1dcbddac44ab29bbb7a015b6c8991c3d264a7, 48246385657882643),
    (0xfeb42f070efbb8f87a88a0eb1e47ede3bf0f19ff, 10498392480026649),
    (0x57bd6eca6619f19cb486e696f0dd0b4d1d56a12f, 132572715970730494),
    (0xe512c8a11acd3487cf69b8f5bf0de7e8759e203a, 8361273824908270),
    (0xa3f43fdc47598e2dd1cc6795eb24fd67e69a35ba, 15047716684424175),
    (0xadcbed7afc57ebe10015a893a8ea04ddcb014990, 1000000000000000),
    (0xb99d45612548a9ddd4ed063bd1638ccb28957a6c, 107485985282217273),
    (0xe1561fa8445d7c9d625d8c2fd8efbe3ba571b7a8, 12956587257115110),
    (0x014de91eba3911d1fad189149fb3e567bbd9446b, 58236585046737831),
    (0x6920c73e6edc6851d55f16a6b3f6d3e2b961ceb5, 9265139388254319),
    (0xd87df765113510e72199e5764f27ba32cf3c2a27, 8666548839860347),
    (0x22645019e947d04ca9101185b03987d39a7bb49e, 95988441796257303),
    (0xa9d04a12587d177f53d65064490ae39475b75b53, 6989529512465383),
    (0xd4ca986136bae9b436a532e096fed7fae00909d0, 27016345334957244),
    (0xf54277596f4bca662e11415a84740678dffd5a4c, 51544891225459412),
    (0x59a472362e4b8289b369bc370940e1fc78532226, 19831521773639102),
    (0x4df21b25e252cb44a701c8519280cce73237d3f8, 33789523447141296),
    (0xb3254852d34f1137da306f177bec7c4d8b5db7e2, 94934235868537098),
    (0x7520a0e732e1b01cc789a4ac41d7200d8495a1c7, 4163960668870371),
    (0x1ac5ac44b5ddc7ae9a0d4db12c3d257446e8d4e0, 140315211217070596),
    (0x9d6d254287922f9a96b23b2b9f74c735c9f655cf, 33523319180193292),
    (0xc3c29d099207380e2a2fcffe0de30111fe16b6d9, 23682172937111912),
    (0x62d589bcaccaa636827c5e0209468080ff4577b1, 51207449031286850),
    (0x652151c8521a46bea762624726214fadd2e666cc, 916217668692255190),
    (0x2bcd087576cb955113418ced0a8c2be1b7a3dac5, 20044387063454536),
    (0x829f2997e8103ee14ff6e69e0bc2c4ef4092c178, 44327314970214142),
    (0xc14b3e49dff0886b07a9c316d0755a8e159cdc7d, 84464300436273136),
    (0x24cdf11059ebc2162ebe103a8d3d4d52eb86ec2b, 16364620177285639),
    (0x307b074ab368ba4331ecdea9ce3cdc91d1c30c60, 182252485871612345),
    (0x3d44391b47eacae8bc01fa00b3ee3cf2e48348be, 10454986808459442),
    (0xa3222b8b56e003ae89757f55bf760d49f042dbac, 33409465646520845),
    (0x57ca52b8be3b25b5092d498a3b0e55a0c5bc4012, 7072350420604001),
    (0x220c95b191ecb4652824865e6c12f4957c8d2083, 15755167219811141),
    (0x4f9ebc78810951317625736c9783635c343d2f82, 37609137664153147),
    (0x6ee88e9a2104c468e4aef42d456c87d28198d277, 10145933949289741),
    (0xd8ceadf85ea3d7e6f423d3e6c6231e5839049945, 19969567240535048),
    (0x2f1264dca7397b768ff567db2d4bf6f409594286, 17985758428652335),
    (0x6de9153f5192b30a1e3a85e41c60739e111a027b, 28734421639048524),
    (0xd10405914d1feb8b0307955d0d83da8c9a8a95f0, 31728888250223449),
    (0xa665cfb63edfd85a8d0dfa4275b873132f2c4f57, 97073668510283595),
    (0xa5d9af40f920465febb9d86ba6b2ac92f44d52e3, 21915594911501279),
    (0x0ce2d5a67389a2d0adefb20806a5c0843b1aa761, 90645749570656548),
    (0xa0f133e08ee00a197af7b40b9497424df768790f, 181535322700555123),
    (0x4ac4ab29f4a87150d89d3fdd5cbc46112606e5e8, 32816890727007487),
    (0x1532bdca7b913d8bddc6450647f75d268fe75c4f, 7367432625049683),
    (0x0642542633441195934743796335194433861803, 2608481454610805),
    (0xaf86899ba3730700b4c8a4e87da6358202b98aea, 1200000000000000),
    (0xdc4d0d92ae598ae497a7fa824bff7f9492df691b, 90549672596073631),
    (0x041fa6a56cc203b210dbad9ee45dc08c1f88aba3, 21741083687194669),
    (0xa39a2073cd0ce7c027d6766bd00a09699d08b412, 18293711437350657),
    (0x583d6bb8b40600e5d2c41ded9bde1d4aa81f0f04, 91031370709487571),
    (0xd29c57985a71cee8fd6f8550688b4e8e576f0a99, 179782985492066909),
    (0x1a1a64ac35ea174cda812bc9e6b65ac846c59236, 34505124139852054),
    (0x227ae1d320b68ef0228f67178c9ec6a6b263bf57, 23157613505281399),
    (0x695858ea057f3d12c37ae77deb8c77f07845380e, 37563586485084822),
    (0x89fbade3f8805c4460e4fb33409fbd04223d02cc, 9275177927882738),
    (0x768dd15df8f0c35346740bffc036567e60c8cb92, 76396570537061352),
    (0xecfb495f95364110f4992663d8280ad7c8cd2d26, 7930287623587744),
    (0x6d7918b2a461808c89e6b9462de42c3df01c8998, 89767711415439305),
    (0x54974b6ff1cc1ba97172e4a4f679efb5cf5e51e2, 71741235669029744),
    (0x4e220beddc16c1df88d58664cffcde9d2e482971, 178968652991347887),
    (0x7f326331f51cc51743aa7831aefd910f79b34aa5, 21129851182070674),
    (0xae1b3eb4e8b5f5c9e8213b87e4da844b61faa48d, 25163398092135900),
    (0x406cbfc2d391bed42078138165465128b4e0cb06, 14257837954463156),
    (0xe8c81d66fe442ddba38ad17d6e1cfae45697819c, 179137434314465276),
    (0x510b10c11ef6092b422664194585740093f83317, 17376286273221963),
    (0x16efa79798245378aa50ec23020a638a96439372, 182338611653116619),
    (0x0c4debe5a1f2fd0a5e36bac289eefcefe0758d36, 258697847845684779),
    (0xd9677209f97a31899bd00430a6da7a97fda38047, 11588260029872670),
    (0x8c44c2aa39c82b75f2f5945f36a2bf6784db109b, 9046237929038349),
    (0x79ce2b8d43c424d6cb9eaca1913d2482c6d81ab8, 24720923162508592),
    (0xb6f8d10f1bfff3631c5a617ed2fefa42e4f5aa12, 20564985589319959),
    (0x17fb74e16c179d9e2c545f21e168d0eb8e5c1c1f, 30110653476066895),
    (0x2f1454a5bd2d9a2a7d9d9bfa21619cfbb1c5afbd, 12237634660348022),
    (0x5cd60fac774e5d1092ea54c235b20fbab7b68498, 159658181371036148),
    (0x319140a0e916168bfb11a3609ef7195e7e650586, 10099855884900314)]"

definition claims_data_18 :: "(nat \<times> balance) list" where
  "claims_data_18 =
   [
    (0x105badbbd9fe1ea1039dcaf217b5537c7bd53c20, 102724132450162796),
    (0x5db0dad880b20bc65e1f0d1ac92a78ca5dee1963, 29731739250272863),
    (0x94ebc0177c6519863ad6dee35cb4945771fc0267, 51734936836882680),
    (0xfe934e659f63c6ff4d3332c82729eb88c41e7ac5, 17155711953396373),
    (0xff4d5b7c3751dc9a1933a35e36db71913afaeb16, 21726917839351551),
    (0x64088f44c5109b9a2117cfd16a19adae678d5b35, 18376290095952868),
    (0x0077f2c8452eb223d573bc9931f341fb1711bdd5, 34244820999838113),
    (0x3f8ebeba36c87a95a3861649e79d9778a9dd04ab, 6815128025425283),
    (0xc68ffd478f285949c86d521ed6222a40c10a7327, 45383197530688126),
    (0x1c75ce69e7fdea31bd412bd1f64d948bf24de2a9, 21126958290630529),
    (0xcb16459aa736ac3a361b7bcf64ede4104987827f, 613781665577794805),
    (0x8214e4ab4fd9212b7e14d97cc0bba6b9f4c37feb, 9655478545588563),
    (0x419a8a51f0affe2cfd5f939704faa3e10361c373, 7472793502866753),
    (0xca8eec7090c38ff7c73f81615eba32a39814bd3d, 5982558157461722),
    (0x1546f09161bbd49bf1deecba1b0d2be8795d0d81, 31000000000000000),
    (0x70e259a3cb4768f741d22368b825dd15c136ef49, 22275615699152491),
    (0xd0176a6a5a9956f9a5d2d891faf3bb215b68bdef, 68438825313348960),
    (0xe9e3af00d12ecfcd79c4dcc1cf7d780a6c9fe87d, 5894183683575221),
    (0x8e82c898355da069d63a7d77a39e781ccc8d5ee6, 19972992403232511),
    (0x5337ec13bf8b8b0b323b92f83793b47e6778645d, 89471997821549144),
    (0x919ab2fac961d88660750a93475add1901786782, 9132690162316642),
    (0xe224e41b8d07f99fd880dfad8ea8bb822125a92c, 8943200223378724),
    (0x070169f83218ee243950aacbd35a9b85dc2be05e, 25225374277129903),
    (0xed3217fee5b128682b022323724d1239f286645b, 5604935420764617),
    (0x78d12d815816675584017271e1cbed00af32ba54, 32495860076544513),
    (0x63d1690bfabb3998094fc9c3b01392d8b7f21705, 9613275129533183),
    (0xb26032054707502a8236eacaa1e8726d03985a0c, 20409934940228644),
    (0xe43873ed698085d92fefab766dee5262ad98b2e3, 5370845716421954),
    (0x5ae5e5278ce81a34b1fdfb737f7a6adaf8d110c4, 36403019470033599),
    (0xab48272303c177e18d63605cb78aeecf38aae93d, 175076245854404824),
    (0x1df40a73156738aa168e5aed8247f90c50571a7b, 2770100448059432),
    (0x2aaed0d1bf9714def1cbfec07289f6e69a18ba36, 2002063199925937480),
    (0x2b148b105e984ae6aee2d13f30fc1445e6e8a3f7, 31836635218453183),
    (0x41d61fe85967ec538106b20a7757a1e405f5c1f6, 34319903513452884),
    (0xe42adf8ba8582d274fec614834803ad176a3b2e5, 10807288053952601),
    (0x64ef7acc775238e72c37b87bdd8f8469e00796d1, 7100220708452544),
    (0x1ffb2bc45d28fadfdc2dd569c5f5b6e506047829, 178057017938095432),
    (0xbf39bb5a9d64a78de42eb1525579fc00063f9fa2, 60377075781411043),
    (0xd14f5e4cff771d0e5625a7dd0bbe2ef312659315, 9910663507384136),
    (0xe2c551017dc8ad0f63c51cbb98d30de2276c8c33, 3430900174369283),
    (0xd871aa49ed68e021219cba4eca065122fe8e307c, 32891431281605563),
    (0x977ba1e5de9210bcd5e9a20fcc5b5e634fa8b860, 157255036761309405),
    (0xad75bfcaae5302a7c4c6fbc28927a274a2bb7d5d, 32169966819179466),
    (0xbef102292ef88c20ad61f26a858ade25bb06407d, 121387932680268763),
    (0x0428f36cd04d709a5815bf33c1022af06277ba17, 15709754639139671),
    (0x4a5f392d13ce168276d3f8b8f32f4d6b584bb20a, 68743698185096857),
    (0xb32e5803e0964f392b648f1538e92efd0f25c083, 19163644434501542),
    (0x3935b8d9183192127ea42de420f8e771043b3764, 34743663036086685),
    (0x4c73ec69ca6851cc489450363cdc9a88529dfd29, 16746295212976593),
    (0x504007dab7db1e526e040714e5ef1f6e4d5f4c1d, 11203295984746490),
    (0x2eb63fa9b23558e57a031dcccc7408a04fee23e1, 16810560143275903),
    (0x810cbff555cd28a250b53886df35a14ff2ae7f2a, 3135731787977842),
    (0xeebaff9c8dd6576bfe01e35a804746c486803cd9, 22376535366392988),
    (0x984a01f59da6f60ee21c2342b82b6247d9a5c314, 40050000000000000),
    (0x0c655d8b5e3e70248366a8f22cb7f28ad5ee3070, 17800737175003653),
    (0x4148a6c1d1f4b4db2fa3179f2df7f70e3a3d1d3f, 56363433995535278),
    (0x6a821dfbf538d75c0aa16c6516b0a00f1a74ff1b, 33000000000000000),
    (0xdb33e85224b11765eb1f1dd81c3af181ae975962, 88821975187416494),
    (0xdf5d7312c229dd782bc1311cd98b57749e343c48, 86053319996565317),
    (0x0e76a6d7093aad90c4bcf71935d7ea65f867a4d9, 37295062194724625),
    (0xc18912ebada22936bc2bae4e056e0aef8f718807, 28621983171060672),
    (0x901bc1add7cecae1c353e25e1b5eb91a2ff3c4c9, 89364846499214048),
    (0x9c51b2f620850ecfb0e3886b004c45f4202a33ba, 35274823625132375),
    (0x11c2c8ccce21b07274917880b67bf6f6a797a905, 35953844358483700),
    (0x66b8c2f780710874fb21d2795404102010d7a034, 16295777917403892),
    (0x3fef61237ff56c8b66fe8cf90146be4ff771f7b8, 35578844254638420),
    (0xaffdaade128017daca8bbc793ed54bd05faf18df, 38053409781454622),
    (0x24e4d0ee23e6fea7c298ed366677f1b7ffa5cbfb, 18043393201908257),
    (0x53702e971f89f537a68c2a0476ac184ecd7f79e9, 18837022891308867),
    (0x2a1049062c6cfd69bd38fbaf3b0559df1dbbc92c, 35325134162203165),
    (0x426984d3be8d6236e49b69ec716bd9b83347250c, 14566775105483072),
    (0xa11c4abe9cc1c4dee10d2f4093d68c0dfb1dc42a, 15303700755926251),
    (0xa9e4fe5a26c0974ef5bf6976110146788acd23e8, 23523016102950150),
    (0x5ed04523dfa5ae4b00852c6f34f462d485e47e08, 21899902942561198),
    (0xe57b5538ed089e9376851c639598859aae3bc9fe, 62469512397279573),
    (0xfffc1f3a01eb622c5ca226c99c7710926ecff2cd, 9463350975258648),
    (0xd2d20eca03c09ee761e9e7a5cbf81d0781f71640, 10853476078192784),
    (0x5062b397d2c7cab55581b38c554ad00d772d8f83, 18794926198617097),
    (0x7008b1234b13920c3d37ecd735364995174cecec, 14680658657744487),
    (0x979408835b4971557f2eb9d53f33cf899e5229b8, 44061925927665191),
    (0xac55adfd480642e314433c0ac6eba3c6cdded735, 10447816402673103),
    (0x5ca47f7f2e7eaf1cc353e56e180363e5360491b7, 15959923899413782),
    (0x158275965837d6f85ac7a1758e08d2eccb64459f, 11138007019766605),
    (0x919b7bc25b60b98111e4604b8529dc06944ad416, 10236320690740478),
    (0xf84c118b7d4c6e5dbe4b2a877a18edca0170a4a3, 4960143287557985),
    (0xb8d865d9c168d7e6eb28becebdd33447d0fe5e42, 8329029347352909),
    (0xa22560faf6e405717bc39e9d9439eeaa637ca092, 123512838590427040),
    (0x045a24d7942b3789e0dc5efaaf69a6b60c0de14a, 16253416733209745),
    (0x96011db5f2b5e06fc1a8668b9a202bd07a91be2a, 22631738512840409),
    (0x68e9496f98652a2fcfca5a81b44a03d177567844, 6150328049034953),
    (0xb435871b0959561226b4d903b1abf79528177e81, 126306237111341871),
    (0x8042ec74b174535dcc7b7694f2fa6ed88bb54a30, 16150709242925561),
    (0xada7673b48d656a87cad01bcbafe6b1ee6d621ed, 100137150622097106),
    (0xd095632dbfd7f33ac747ef5c482bb7868e0d94c7, 19153583842599506),
    (0xf39a704549ed88e38b13ab45e2c483fe45d0de3c, 53664839268993127),
    (0x16abcb006fab3071069578a39ba65189012516e1, 101796511298124707),
    (0xeb7aebe858c64450e3144512189a0ffebb838d59, 35601788153340197),
    (0x562d1588ba0a59f8a54cbd69728e7593333ac875, 61801402671340977),
    (0x717d52e84ef30875de52834603c112675cedb7ca, 53555075671333288),
    (0x18b29b260be911a36201a09ba2ae366b662cadcf, 10580757736565048),
    (0x4623eb52499dd278218a20a23706857c0e269387, 16033372730277314),
    (0x064494a175db9b860b47e0e4ba0f89d62b31758f, 52769504466590148),
    (0x9ede008165cb094c530043e087a5ae03a6596472, 21372286430395599),
    (0x455753ba3eebee8224c7e947f7cfc64a9ec1aa7d, 55367436420553492),
    (0xbc6839ff35cef154866e044ce798239c04cdc810, 10840319262147560),
    (0x7ab19ab563ec3e0aa8f2e283513286a58d3a4ae0, 53131220558967201),
    (0x78447c11ec2f093ad0fe0a66f163500c2b04cc0c, 3819399340842604),
    (0x2e039299209de1419280127d6823a3db1e7e1ee6, 33146811473674682),
    (0x07b7ecf56f99d33079f8a88fe20b36bc103ce130, 137235057388442509),
    (0xf9555e8a3e93f67b7ae02d1fe17ed4088b3fac2a, 21032017300033319),
    (0xc9704f8dd1e76de9d1456cd0bbb54c922d7a5682, 5201607416920085),
    (0x3909899a6eb22a59890de400241fb74389a680bd, 52005797074264740),
    (0x127563d0b37872e4956bf9b033e3cc03c6bf7e45, 19948694940703000),
    (0x542ba498011a50bb5581d2890eedb72786f13318, 35442186980171132),
    (0xc964135c65779e56a45d6ede6653334776e51d7b, 4312792655206187),
    (0x7933999290bab20a483f58683654266648af4e97, 4048920823303533),
    (0xcbf6a8f242a9afe58b015ddfaeed25a2eae950d8, 50084520335799133),
    (0x0e617074d18517611f03716c467e06df2c1cbfff, 11533580502801052),
    (0x06f9558dec45515d8e656b863404ce3ee8728d5a, 70721840831836999),
    (0x6c578fa174070cb8f5786b2e82458b63040c8429, 11928283253187235),
    (0xf8e61bad7fca9310fd978733ca66587b3c66f165, 7801424437238672),
    (0x8a68a8e1d1f6dc55e20fe8210859a215cb350301, 6234528334441113),
    (0x440fceb26295efa64d1a091c70432c6a61199e3d, 201176821713291043),
    (0x4d4f70942c4d526ad800c0bd4b9c61250418bc09, 12873298056007310),
    (0x48dbdbb7e78465b15a6f3a92286eda8bd77410af, 16499571657983325),
    (0x30fe0d8d2d81ea568ff60b6e28ab74eb7e548cb0, 38850115158204539),
    (0xe3ff98f12d80aa7474997510a32c1bbf76f8b7fb, 30971382246419614),
    (0xa4666f79c688a3de94951232d00e428bf7f24ec3, 7583453598725898),
    (0xee85ae5daab560731243403f56c51654def8bc6e, 25936255758854456),
    (0xd92b07359df63d8b9d2e4ee9c87ca453c6a1237f, 13020935638029596),
    (0x4fe880ae3a4be68be8695fd836b03ebb49ac6cf9, 4957980045645446),
    (0xd3ae31b669ab51391f9ba970773a414c0ae152af, 9659868655090390),
    (0x126343cc89b71e14e9cd7319ab48058846675f0b, 10969244117082569),
    (0x5c5abb7047b27c70abec5a840f3d0c4c7759ce8f, 1046557351297973883),
    (0xcaa37d61240a9627bd0ac503cb5fa55bab8e3df2, 46104115409962877),
    (0x805abdbefce62e6bb68e427b6209d2434512ec26, 9923895230018932),
    (0xb25a5657838004321b3cf7676a34954979415dd6, 90373773510616946),
    (0x765ce21d34164b4ef7b362c3835f60a711b5f554, 11391611404220712),
    (0x5a9d37291d786e6f292975b431574c2e9d05cefa, 10747708065419228),
    (0x695d52f2e0bdfbd1415a6e0bec3b0900c9d4b7c5, 8430550024609431),
    (0xf9ec15aa5af95a0620a0480bb4f70bc501b790d9, 37053969052449455),
    (0x869ebafacee7a88e9d912e14a4b5dcfc055d2e65, 211245032047270015),
    (0x1218cf3fad0c4ae07e285016586c72f31edfbbe1, 7851393928147065),
    (0xb14d56ce29dade0316ea5df06d491636a7c4f3c8, 181925698427889519),
    (0x70bc96fd8b1e4264b138dcf2265dcdf749579590, 30337023682254784),
    (0xd962a9cf49710197ff8b02cec45ad80ba80c05c4, 42729093910301212),
    (0x9fc34d7aafa38c58689cca6060c4e178eda4940b, 17575099162324227),
    (0xc29c6f38ac761fbb2ac65f42aa911b48838e6afb, 42974683102040678),
    (0x5d5119df5db720fd12bff0d14096db5762f523f8, 31571821916349646),
    (0x113885d77d03f60693bc511b5b31f80b90b09fc9, 9974545005939122)]"

end
