(* ===== verification/Claims_Table_C.thy ===== *)
theory Claims_Table_C
  imports Runtime_Types
begin

text \<open>
  The rows 2851 to 4200 of \<open>src/pallets/claims/src/claims_data.rs\<close>, in blocks of 150; \<open>Claims_Table\<close>
  puts the blocks together and says how a row stands for a line of the source.
\<close>

definition claims_data_19 :: "(nat \<times> balance) list" where
  "claims_data_19 =
   [
    (0xa81e7e084edd2d1e5b425ea922b730a0c4210e4f, 12107278504242137),
    (0xa0126ced77451368aec1c8fe84066f5f22d1d2d0, 115351671743788856),
    (0x60d90a2fd9afcf1eda3ecad19adfd8332dc0198d, 19531956538767378),
    (0x9ed0e98e94ff81b7011fb2aeba8518e867c7093b, 16194696119429286),
    (0xd8f3b47030dc6f13c651f77d39b8c5593f6af5d8, 26169237274172922),
    (0xe6b532e63f228087e26a5897131f2e1d043e27f2, 4641432876913810),
    (0xc86e15edf575c511a0d7af9552003edd31a03ac9, 84804890118336041),
    (0x5652f20344c1657a5475890c4da3cdb94e580509, 9792681877946811),
    (0x6455c07be90f40d51b041e128b2c4b00c56de508, 69098414689284840),
    (0x79ce08961d3f775cee5c8556513ee8fbfc7ad553, 10987137545291982),
    (0x4c7367c3f88616606bc7b1c98d7788caa32a39ed, 36136756297626546),
    (0x07e22dc8c102c764ee1677176beb77592bc31bd1, 30708024977314785),
    (0x716df75f158c83ec36753e38a76ac6417c0aae2a, 31182358123593957),
    (0x0321e89a7b9484f47e8ccd4daf97ee8066783c04, 17814405385876487),
    (0x9631733931b9990a74675f456b94cfd7daad0c0e, 2995133202945664),
    (0x3f98fe29a7788a87fe3effa2b3985b20c6129e1e, 30268084929200964),
    (0x3641f2bcc1db81321173859b57596b47ee902e6a, 18952237868616839),
    (0xbe3fb7d46d7abd3c3863204552c7da7e6f173c32, 121293507886942026),
    (0x6f603d408b7d76e57cf88f9fc612ba33e30a0458, 10636649799945514),
    (0x0d277979cba73e3233d239b7a44740ec84d1c2cf, 4855019920846930),
    (0x82173afeefe3e0b09cf3f00e7b1979a2c8776921, 10181872315259383),
    (0xa73e5597e7df0c7300f4657165c0a67e0b8dcf9e, 18821173363253705),
    (0xae1c4fc7fc876571e99a655a97f9ce3f0134cc46, 18179363240012002),
    (0x3666396a83fca511cb6eccc9730fa440b32187e0, 21493554320446829),
    (0xff0acd67df8c4b0958da0ef4b82ea3e10e591c38, 10974642526233818),
    (0x86cb4e31e8ce5e7b4d3d5c0046fadc41524c1ee4, 20204009454344088),
    (0xb97a9fecd3c1cebe364b57dc396474101dd89d4c, 89606932147820890),
    (0xcb9a4d56dd661a8944c3c58419479c7398e16c58, 17020057627539373),
    (0x52011e4546b9fe412157e15be074d33f371dd04d, 4525844523949404),
    (0x3742284add5706ae90caff01f84dcaa76633e9da, 40373032050052235),
    (0xcede95943ff490c3688bab61ec383abea711067c, 18609501140203588),
    (0x8ca85a1552dd26c01869f2db46403dc0477e71cd, 20234331666182213),
    (0x904bba7ad34f41dd04c1b0404e914556b385b310, 5361963581806307),
    (0x1e7127c81c8a58661a0811f026b6be66533934be, 101709382927404648),
    (0x98c4ac17edb537d2e50056205fd9cad00b8f7d70, 13568002593085298),
    (0xe968e4101269ea219e5b9004123431d7fb7837e4, 15722862364937519),
    (0x878d4139ad77ca3927259c9deb2c7de3079e287a, 30310901941507365),
    (0x5a3e569c54dcdec76cacbcf3a01790f9095fb1f2, 88870029837437253),
    (0xeef39f3ef4b26c2044384a82fc7227b61f2d6700, 210193231190861822),
    (0x9e4d6a6d107201f3b771268ffbb2e41455371181, 14045908650645080),
    (0xff32bb605e92b3fa6f97b3104d61056787fa584d, 40569266736129824),
    (0x8cf03556ece605a978e2b2d3648fed551260a60c, 12974033203575373),
    (0x0407f9f0d0c07cf7cf3d6cb13bec9b49be354f22, 16576240092812907),
    (0x089cf64671ebb9cb5fee04b52335c9c2b67f222b, 17283931913071630),
    (0x7c740fc38e03b6016c8217ace3f4b91f48644224, 346252440691353735),
    (0xbab529eb7b11ed64fdf812e5a61f15f77b101988, 67524207514828497),
    (0x8de5ed6f959c476a731afb3394dc694dc4ad4f55, 51442445833718330),
    (0xac37aa4ad53fd4e9b7621d690991bc9609eab45e, 4085182746958721),
    (0x553ba5af3aaeec896b309786decf50b1552d5858, 4281930811811518),
    (0x2485499b80788e8f8d4dadb8a53c78583c6767a8, 8557470407456728),
    (0xec3a10214b80a79b89092eafb7b2b32ab84bb3ae, 17297851217519919),
    (0x88088b4ba792bf8505f34cc0506e77701a4eadcd, 2121957536236501),
    (0xfc85c878120e34668061852e3eebb1a7ca415347, 52045395894377585),
    (0xa203b0fd254e08d7369cddcc61be5ade37a32728, 158405579883266761),
    (0x6db8960e76ffea327f0cd2281d530dc19fa8b4ac, 24666842371730507),
    (0x6f5473bf6f4518037784206000f4d5347c48e98b, 135365599833543117),
    (0xfd7b9c42166d3bb2243eeb6e699b47cfc17c69fa, 11297608481908493),
    (0x36cac74a5a3ef38cf66e672b1cd54099b218fd9e, 245413172281056458),
    (0x12f7309789427577eddb088c7f36098d57a50074, 10095727724609423),
    (0x9ee8a90af16115622f1eff930f20b66964f35bbd, 21811123205739588),
    (0xfd22e70cb42a0fa315c82e0aa95a6dc19f8b4934, 7877379409467159),
    (0x7975d8d23511254dc0cfd87e75f93d7c5bb6880a, 53660561690900928),
    (0xaa2b10dae9f0fe82499b90dcfe431266270baa36, 7353304478675747),
    (0xa719c0e3c2623dd2aa3f18635b0b9114b7243a56, 55128588378694814),
    (0xb805deddc4d0b57757e74b3429b778cf695adf6a, 21982686060672864),
    (0x8adf85b30949a90f0974cc5ebd2dc6d27a4d6cd4, 375903866615437443),
    (0xf9e80d6e7ce5b2b575617416cdb70bda7eb32650, 53628694791575282),
    (0xdf90a56fede1dd8c2f89060dc8d649cae1a026fc, 25808917132270178),
    (0xfe7da7572b29c2dafe38c3425ad1582058a70a92, 51787739262353023),
    (0x1d5b7eaab0805edf5178ce8cfdae7cd20c8fa5ba, 5464516243203192),
    (0x79e332667bac24cf14e5a28d4cc120a30a325903, 9339295132489663),
    (0x426f98f22faa9670a81d7ad055417d6e102692da, 109848209940772402),
    (0x8ff815fc9abadc1f39a186cd365f1584514425d0, 16839989757585319),
    (0x5919d15110feb1e89f3017cacd3cb969894f47e6, 3993785140670972),
    (0x6c406f2256729b973f3487157a53fec9de80add8, 4012679720623609),
    (0x9a6701ed143f43db1f0305eda28be169f8c12618, 11428534461506553),
    (0x4025b31f99171ae3fac2fca3c032e0a6a82f235b, 102659074010336131),
    (0x0f4873301a80dd6323431cda9d8f8506866a7d7f, 123467005705323937),
    (0xbe04eb9e9b9f5ddecdce6e95b686a6e59f27a4e4, 17397038520528221),
    (0x337324a0d19c98f20e86fc235bd0c9d22d803986, 9986620524871413),
    (0x0c4139a8ca162812bb4f305d4b571d05fba17754, 49656189258345731),
    (0x6eb0ebf8b940adaacf65e7b4424f1587ba30d77d, 7566095886251308),
    (0xb7718e1729bf8c88f3bffc05d19cc11647959966, 19503662712049512),
    (0x343330b576023a48f8523b5169c424e5ec50c8cd, 372527478902273813),
    (0x9a3f16061c62f7946e60cb973df2882e66ceeee8, 14229338967330064),
    (0x29cd7b923a23fa37ec23fbff05d3ee22163c5dfa, 29799479233069237),
    (0x0b27702713ad1bba192a26e756d5b1018b173b50, 16930468144057560),
    (0x86722028e1e778cfdfaed0767bd9816a7bc67f76, 203298610733214419),
    (0x350a4b5ac6216902e095ef47f3bd5fdc9d387e23, 84700272308357619),
    (0xd61414451be387ef52a34bcdfe4e6684e2e8b438, 17995737853957762),
    (0x6be7a95ba705c90d67623f506920052c73824437, 19066050083895781),
    (0x3a23a1912cfaa42def606dd6b0a67521af64aed6, 6677026390468797),
    (0x67c18fcceaa22f45419684caadbecd583067a03b, 19965592298746301),
    (0xd2fb7a9b9d1ecb201033346ed757bc43e8d9bf96, 8497202594448955),
    (0x8de518f04038a7b3e5873252358045f9151ac0e2, 2257570206069385),
    (0x97f857dbe12c4524c21efa5a5e166beb8ff196de, 74405452667875306),
    (0xcfadd6da5d5ab3251e1457bbfeea49ba15e52bbc, 4338901709961811),
    (0xc6d22a5e82b0e86a24b995587ec9406af66938a9, 6822955567379291),
    (0xde9f069da454a6b8e6c0ff712bb5779bb57a6f47, 6537105074871842),
    (0x9787b954b09668faf1da74977855f97adff1406c, 8919389702587972),
    (0x00290ffc9e9d19bda7b25c6e44d8adf55dfbf2dd, 358732288668423135),
    (0xc94d831b5354029170aab211476af6556c815d74, 3803378088718621),
    (0x44b6937e438aed72cf4a154ecd25ac7498a04ed6, 15993298662202295),
    (0x8888888888e9997e64793849389a8faf5e8e547c, 314905588194480201),
    (0x179fc4e708ad63e2217046f6e7b25b5b69f0ab46, 18444556041226820),
    (0x70a43c9d001b8ee05d58bf2eacbcf832b1f11ec0, 48878312466037709),
    (0xd4d6fdd7260b2aaf36b3211bde0573ded0fea92b, 15134239143280073),
    (0x8363d88d7b81d4f85d5c2a646e45491aed0223be, 22510000000000000),
    (0x9700c58e1c6a1e5fca5db5f62e477eb182fe3da4, 8110808855088096),
    (0xe94e25544c8d476f1bdbc8b1ff29a6e6921a00bd, 17456939300692458),
    (0xc0819e1e01204bcb9cb5a0a3be826afedad6edef, 14873070868034043598),
    (0x395a45ebb22e929beb64c60a15a6dbc49e7291e0, 21080652621488439),
    (0x6d89c9851970ba4e9eb987f66058e5b1a975b2a2, 3463913642961692),
    (0x4f0896aadd5b52c4e268d0224b9ed8dc61a68cea, 2018079221322775),
    (0xb44e2d5a20e775a024a82c7c7900da0831f43cf8, 22405782247427249),
    (0x548f4f9a3715e4e5ef86460d5431ab7ca8aa301e, 140476476312845330),
    (0xd5f63f09e675ffa9d78700c30818cd5842c69e7c, 50236574500665894),
    (0x07cd53cac6326ee8c00405bccca20bd6ec99b026, 30068027175643667),
    (0xace9c83441712359402d0eac940343826310784f, 29171291346097706),
    (0x62a3bb6f763d54a7f4b4fc24270550a895feede9, 82409776793735539),
    (0x922655bd043ace3d2ee2a54e3d192eaa2bbe240c, 165469491398246243),
    (0x39006629f195e64ca70dc30cd67c0c43e5cf99a9, 11544700859778072),
    (0x1525f2062ed88eb0e700b7f11fc791fda0ddc80d, 301774494246862344),
    (0xa8b29c2131c42c998510f20b3640ca83648d2639, 23407347680421113),
    (0x51f80c672f2f5105a8d4c09c484f9891749a0b2e, 4817299342586606),
    (0x68035e1cb742b76509cb8fe2acdf022ccb33e97f, 6967974747531137),
    (0x999599f33f56bbe6e2cd64db47ae19e4abbe2b63, 728932838378672770),
    (0xba21901bcb858258d52708e43f6233d4e4f7bf3e, 10306315408103558),
    (0xf796eadd92f1cf19807c43cad4a76b3c994a049f, 34147742534619745),
    (0xe3b7c86d2eba48400987216c5fd420890eeaee89, 85547227646828430),
    (0x9600997cd68b4ae0f5b9683ff6f1dfa8bc4b7070, 5914697522726700),
    (0x7448ed184303b8e341cbee69db6f85c418ebbdff, 23637630788905525),
    (0xafc42f329fc51827dbc1724c6bed8cf332d6f73d, 9870624357451769),
    (0xe6f1f2f9201f2460d188435992ab5349868b6c71, 162611688279177481),
    (0x135740c85e807d32bb012ab16a204913ddda103b, 16794165286526373),
    (0x8ceb3c71fbf22f53f85903f986ae2fac8824a779, 5423202469766718),
    (0x8a218aaf5ba1ee9a745e84cf8f363782d9b885e9, 11398703781726924),
    (0x62225924d4239311f2a8983dc3ecaa9f6ee11a90, 64411635477560794),
    (0x55fcb0e499e763fa53ae26cd053d76c828ef4c9f, 35401696389940905),
    (0xb7d96351f2b0416c5f679eb4adce85605558d42e, 2773900259913288),
    (0x6a9db1be0c0f3df506bd3833a1f8706873b8a6e7, 7924258142360908),
    (0xeb74c60b1e50becf7e1de8af7839a13381ba8af3, 17194413813890202),
    (0x683df35bad32336453007bc3dd5d27e30051ce9b, 1949320261056273),
    (0x7f709bc5be1c1721a50ac1867bfef62679986f5c, 9389870034150570),
    (0x8b3944b4f14a49f499ab1bdec51f209201e8f51d, 39333922911272007),
    (0x720630637f632c553beb610a2bbb3542ac35c741, 13610618201047876),
    (0xa5e810565b45d526a33a3666c61fef4a263b2277, 68542020321419910),
    (0x1d945e9ea2da9cb9a36b3e53e78b5e22bea1e3d9, 161291475018664232),
    (0xac10e326fb497f22be3bceefbd050e74cbc2e394, 17526917568596109),
    (0xff0d9b4b6653e8e18f2a20e46908d7f34c862d4e, 27900783616398639)]"

definition claims_data_20 :: "(nat \<times> balance) list" where
  "claims_data_20 =
   [
    (0x09eeb474e90c00e5ba1c9e1581749ccb40fb8c77, 59520351096650419),
    (0x012ad6b36e16db7d337fd553de535aea1e5c7a6a, 30457660079727714),
    (0x9c0f7716acd31be82fad0791eeed40e45f770438, 37376967601506582),
    (0x8a47198c9aa339414992b59abe04d4e7c8178b13, 9604484911514803),
    (0x7f2dd012aeabf577f6f6daebd2947c97139a12de, 170537620079317338),
    (0x46ffba88b5fb7e38203a8cb330535a0b42ec5731, 26888803889318000),
    (0x449a574d5a60ea6f907e586ce4cc64537b7b620d, 15495118468748561),
    (0xed3d9638b4e0967274061ee22320c96ca72aa49b, 16519858511755541),
    (0xf9d5c9a7200e1ac4a0fd41b2a3d28ff5cf3f2284, 18959544755730654),
    (0x89a0681a8bd9e38af1c21f76bfe04a0a4ad6d2fb, 37243020025150203),
    (0x9dc256b82ecd89c164ddf3017f77d252e341e9f1, 18253179991402126),
    (0x21dd395a1357cfe813caa8b6bb59462813960058, 47293515870860635),
    (0x1ded82e6b6bd7fde8ae31fc73f1ee6c267af19cc, 135138200894127611),
    (0xd8cf405be5d300bb3579445ecbe74a9fa76a8044, 8716169941118993),
    (0x3b3f80287eea061f43989cd9f7a3e0712c584564, 39125668856230991),
    (0x0013827e0ef1b7418660138d29e515485b2a98da, 50755240298903898),
    (0x0414d0a3b55042ed7de07fd503a0f1a935aae45e, 16249348788787301),
    (0xdee72af419ec5d7d0a93b5bdf89968ba11e3cfb6, 48636981432656748),
    (0x0013aa2fb5ec916660b38f1d53d4fc9bf8ef8a84, 32055484328755343),
    (0xd7dedcf8ffddceed9ad20a41a5f88dc1268b3ad4, 81529909925063667),
    (0x5f99a5f1ecca66e3e319cc792e54ee8422701d44, 10734749729454088),
    (0x631ebb12f94b4e0f8759e09cc4dbf26484de64d7, 16046776620411349),
    (0x941486a59e8f52032ab623b6453594c8f800c835, 31971819059569188),
    (0xc2adf8a5259cc912909c7a3373f1eedbf441898d, 8533105865978804),
    (0x6f3b62c5fe9ab06b321ab23488e18fa02ea79594, 761645750116040915),
    (0x8b1f2d19651f1aef610dacf48004e6fa15a95763, 13624667391368823),
    (0x8f3b566f10db11b682942dbda74f90279104d0a1, 10609590584246353),
    (0x395065ac023a29f72756f11b952e43efa1045d80, 17161540966861428),
    (0x2c2e225dc5f8e1b694648f79d689cc4b13369b2c, 24075059843006954),
    (0x1cf2e42e3c1edbf35b370e55cc75158f6f73626b, 9576981198088925),
    (0x61ef560b6e2f09b9319445ffaf300504985bd7bc, 27262711106491615),
    (0xa952f5e4a722cdfb962cf6e2e917eff51b973aac, 77619709023526056),
    (0xd3260d4442d466f147f6e663cde4f43e8a4ee463, 7245755535885536),
    (0x59b7dbbdcc1ed1f48f18e9a5cb76f96f6fe00ffe, 37699087006868771),
    (0xb7647e14a1a2f5977f1b19aeceade99e4ea0124b, 19426315486998376),
    (0x823399e032e22688a948ce1ba42f49a52d96e288, 20623000000000000),
    (0xf4d27d54ce2bb7fd2c248cef58247da6e1d3c0b4, 9566920934769674),
    (0x3c4a75ba84757e25d59a00419365058d85738ab2, 133287889675836154),
    (0x4d722063a658bbba81c3fc62645c384e6b343c65, 5626368593590172),
    (0x1161c3f3ef0ca754a9cb5a990e2895dddf9a14eb, 27598381258919964),
    (0x1d3747629160e8e7a69dee1efa3d89a7828d4d08, 9023248701594620),
    (0x81dc6a66a458e1f49b2705b803724aab877f0427, 68389000000000000),
    (0x77edce1fccbcff14d32998539b635a58bd03eafc, 8933129932075694),
    (0xa8509bb3883094ff7e208f21149bbc5b0d743df3, 106287408141116027),
    (0xb6f7f41cc317412a40e8992ae1d815ef93a1a132, 3591675520408656),
    (0xb7625a34dd4b0c0d10615825500ea928ac8ce841, 12011433948454751),
    (0x2dba976150079f2461cb5745f85f4cf1a4b61042, 13525583236061173),
    (0x9f058f9cb67dd035f66b7a0a7d9f28dc4fdd24a7, 15006134011968170),
    (0x90c53b769df4b89141f37d345e895117996949a1, 121698685520000000),
    (0x766bd57dc08214c0505c5a5a406b38790d14f617, 15753226216549396),
    (0x30bbc5ba79afbe8f63af111ae9ce2f00b4da246c, 26200000000000000),
    (0x34774d1b0872d0be82f0940bf1e1705f5cdb1ed5, 10756555341294207),
    (0x11ced69ef922e9f8ab36e9655b5a654ef53b3409, 8916515271990673),
    (0x27c1ceeecd1cbce7c45e472f5cfeec6525a7d754, 37936904757498613),
    (0x53e492215d73ec612aecca3d64397ef4b1c063ba, 91412596983633690),
    (0x46f8b8d97aa29ed884cc3e51b5878e8f8d15ac07, 16886133846123468),
    (0xa9a19194490083459cc1134a9d1c179bde9e983f, 5462473557390530),
    (0xf078059c0d54f1ed03c77d9f8a42a70950831f07, 11277923387477963),
    (0x013aa278d0624c0e87d60184cdcfdfb9c6b38ab4, 36001320259152313),
    (0xf41bde88c4769d4e308a7aec87c9d565866057cd, 8813968734912466), (0x0000e9ef000000a15f1f02c1008d21eb66001534, 1),
    (0x20438c2f91d2bdfc3aa224f1a00e4111b297a392, 7104594225676230),
    (0xb6ac889ac44dd2f65a1835de9983eee33462c198, 67929790863248464),
    (0xabd955cf5c20d9add46c7308d5c22c207f55b20b, 23869393334741649),
    (0x7471c75c081463349defadf7ae038308a951b554, 12940000000000000),
    (0x34f8d4614102ee1619f3e2a1626e4dcec13f6e55, 140633515528586528),
    (0x5f93d3d64e416c3e3e63db631072bcfa8321a0ad, 19204263978846467),
    (0xffb3ad2b555da15eb45cfdc76c43932262f18e68, 13809570190010278),
    (0xc70562b8bbfeba06db91f8def44e95d9702f0bb2, 6924000000000000),
    (0x9e5363b0440cdaedc906f237368328f87522bcd3, 156651985350065411),
    (0x7469872d2d4346c9b7b40c3aef2060cadb36a6e4, 88167644233301122),
    (0x74c312f005e13f897fdd2ff2806a662135bce7fc, 8027159535173886),
    (0xcf24e649261b0d2ea3b5882f092e006185c579ae, 8589069274887929),
    (0x30363bcc31b5ad74f5cf4a523c3640eb25433289, 16319267895201165),
    (0xf0363e31d8cb57b1effea73779617a1c36ed9218, 27484053814231296),
    (0x832137705dc30f061d8775696687a42f2400ef8e, 4000000000000000),
    (0xf12367718c6b63679148bcf6371e01a7dfd13ad9, 29520912034902887),
    (0xfcff532345e2790bdcd18be6efada5ac7d6a90c0, 10905288567663700),
    (0x25d421dc4d1144247bfaabeb744ab1a7ec6ae7e7, 10356803815243046),
    (0x244c050d0f82e55419db3b08475c4360983c5ed0, 9509536371391769),
    (0x8a914a3ca73d5adf682841715a3f24942f35f955, 16259970054631169),
    (0x3c10b90e5e3d109a4e5468d6f378d0c80a4aeb9f, 17645045228461041),
    (0x183ac48d1a19bb9368e50f6e7a8750b4724a865a, 51735448897077936),
    (0xb5ff368b64647055dbc268f9293c29e7778527c3, 43931811771113037),
    (0x6c1b6df0525fe2bd068f7a451f05fff856745b7b, 13707083805572907),
    (0xa737a9e68ef3a773c8aa69f58b34b01ef8eeb227, 22463474060410671),
    (0x6426c9145b566315328bebdab42040d0c70c67a1, 5396777801814812),
    (0x0f89f37a0bb0bdfd6796a5247fd2152da755f81e, 9174795550459776),
    (0x7c7c63070372f67b49a269940aa6853e1dccf295, 9251939625336462),
    (0xd94c11fc208901d512c5d238bbcb967eef60e8f1, 26536303947472568),
    (0x887a1e648c11f727b60559662fcb0ad460868eb3, 16479028442074655),
    (0xa5fc3b41a1b4b2d6a9e02cbb2d7578797022f164, 1232248748132504),
    (0x010c8cd59f189ea773f65809f498eeee78beabee, 34368325016946760),
    (0x3967edc66b6a7cfd3661b7416cfe0fdb706e5225, 8719370014367072),
    (0x1eb97c580dac58219cdbc5497aa861dba6f31ab5, 16484506656057299),
    (0x14032c5510f488674355a82d7ecd3694ae56193a, 26367667669260741),
    (0xf6fe7616200e2f1561be71a6030c34457a40c72e, 272026005515394608),
    (0x36c913b9bba5163d9c4b26ac70f75c735bf4f249, 6900884224200771),
    (0x4ced8ed8cca4306e04e445a8648e7d8e6244b826, 28257100150072676),
    (0xfb368c7962f08ca5b32c23bbdd648669c98c0cdf, 154754083273415602),
    (0xefe9cdca25c2d4851ebf9c2b103fa7b6769033b7, 460036329772272785),
    (0xca7f92bbf65e6a30706a036f4211cde31a51fd40, 16655816318591789),
    (0x953287b8b0636d6a1d87ec5829aa5708ec6073c2, 8514543420896334),
    (0x990b94b3fcece351a4d02a509a90556965556e9f, 85505391247174090),
    (0x4e8d86e49c6efb1d47607efe7a2362d092b10a1f, 41770254808864521),
    (0x8bd80394747d95ef60dbb92b53aa35b6c3a9b425, 7313130410930698),
    (0x67fadc72ad91843f00eb8b027669552c799b9128, 108643054645875698),
    (0x3f67371f904cd237f6defb0762d5ac608f7bffed, 28808084891461985),
    (0x80ffebfc84ff49e4631180b29e1125c4e42b6733, 27997791121363403),
    (0x9c1aa1bee92cd2dac44c69b79a958372f83c492d, 32035154697758208),
    (0xcb72ffd77431824f37d1cfb6022fd926afc08344, 8651153249256664),
    (0x651e7b9b250986a7749db5dca5ee4152422ef88f, 15721443419315876),
    (0xa519b1a7d7cde5a762070126bcfb74fef0230be7, 138203961297579030),
    (0xc863629aa9c11b5dd83b753fa88ce17e0df89ce0, 8029143123424524),
    (0x356b5025470cc8ee135c519dbad4a5369da0b4a8, 27811044917490926),
    (0xfcb564d48c8d3a9416f1a8109af5a4ed8ca96fc7, 4571688393781579),
    (0xe5b218700e71f05acea6a0eac74f5d2a221839da, 8313563036577174),
    (0x3ece622ad8861c946e7aa0708a78a9cc30a9ccb0, 2690042044909885),
    (0x5514bd5c2968efed717c413175f965f5e2c74d3e, 28134711396240316),
    (0xd220df609462ed0e9ce688fc31e8253348a1e5e5, 31777103520449141),
    (0x7e3a64e015dd08130a17afc9aea8b85e7aeff178, 56244902064916236),
    (0x3818919ceb284e0ef790b739b63d35ec824eeda1, 4084270657973989),
    (0x66a0c36f7d9e1b7578e2b30b95bdcdc2fd39de89, 2409158675201629),
    (0x5c3e0c43a13544a81730a2cf5ae94cbc282f2ec2, 509722541626123588),
    (0x91e244da7f66009245719439f84bf4fc4be9d38e, 17736942278311118),
    (0xd1d0899de0481fbf988373c40eec9171c50a0e09, 8229921644929302),
    (0xd216fc5a81df3ac014e61bad5176f757fbac356d, 14510438837288985),
    (0x2705ca8601ac809d34e4dc07c34dc54bf1a94e3e, 9226651462970714),
    (0x6711fbc3405b47f97e759716e1dea1e1cc4a111f, 5303626242330353),
    (0x41f436ab1af12fbeb7786b346e57b07c5a6d405f, 13104185212882526),
    (0xebb036de2e26aa0e4a6411c8e0bd98df2a113b48, 18360153946230222),
    (0x5a42368110ef991e7efbe9a0b82d5a766690bed4, 12339861756427032),
    (0x067b6c86137088e6d063b789a7ea2f5218a57875, 27745024206270167),
    (0x84f39a200f71d63a3524e75f655193af4f702a63, 15980888831983920),
    (0x2251da7a62102191d126c933d0a7d42d94fdc359, 115925290995353610),
    (0xfad534797744bfe8afff4d679cbf3e771884acf2, 35777819816456660),
    (0x3d416ac49948422d53c9ae6ca5e7dfda08c1ac4b, 16191580932052750),
    (0xe276bf86799419b8b372e29ed3411d2ab8371a63, 32764331736830890),
    (0xc0d2713b3cff8df167684e2624e7c50badb7438e, 3367606109070578),
    (0x548f227e4a316e3b2d2e7b6a9c6c69a60aa34ffb, 15588101807616260),
    (0x9c6deda95110208576146b0662d82365269bfba8, 10193747335437496),
    (0x4f52d4cf3b9cb4e2f2502a036da3fc0ef2e42e7b, 57858397542268073),
    (0xc9a75ce3a1254f796e91915a7ac97e8ccab82ea9, 30347079754891502),
    (0x794a34ae1755acebb064500f0745a391592fbfac, 9855552637160249),
    (0x8d2c28822f8160ff5b635faa39c9b7db74ffef9d, 12449065688334259),
    (0x35fad8ef938cbcd5ea3414b38602e9dd489b5c8a, 14578991096089271),
    (0x5f0e619d09f01892e08fb11abd37b69cb2d9c219, 36514861172860955),
    (0x706a4a80bc30a98117deb30c3906490dc72c0d01, 111125581170538587),
    (0x34ae6b485ae1a085f09d3c24ab913afc550b1291, 9182995646609465),
    (0xaa37095938df3eed0a9dfa2da5625bd0b3364254, 8269754634543698)]"

definition claims_data_21 :: "(nat \<times> balance) list" where
  "claims_data_21 =
   [
    (0x053bfdad9216092f1d40d2e4f37c3746878fb2b3, 19156802778383705),
    (0xfeb041dec59236203606973b679248b0e4d3f91c, 28491663556495087),
    (0xab00f9dca7e8cc8b9cecf69f1af77d45cb4718d4, 5064105056309105),
    (0x9741e4290b9458a186ab1aa277d83648f570f2b4, 6165664387316177),
    (0x7b650798e05e5ee4d9df844d79bfc55a63e48130, 59746964405215223),
    (0xafb51b2ce9d5a34011e958011831ceebb10cdd11, 3118606342203012),
    (0x0fc727c2a8086b74f8af025194d7ee241ea71b3f, 2982611080855542),
    (0x1bfb871708c83ef373141ed75dea8ea4b738bc17, 13869408739933548),
    (0x6be117ece5219b475c400e9d63f2116c578ce8b3, 12422858444649850),
    (0xf2cf5e638ae5133aef7ad668177dcb97503e5384, 10048578168460970),
    (0x87f73bb5150e13d34cd457a054b3cb11166a88eb, 56283231589113722),
    (0x3c997e9bb75dc1bd952f8c8100205c7169701da5, 29109062990364014),
    (0x69eef3e0f28881385d8d376c5686d10b84e2f21f, 17321394826805785),
    (0xabd58a63b049fd659c0e2a5578d1e56de1a78b82, 17028695183160397),
    (0x2ca23462ae82fe257b605c67f6ecb1cebb62ecbd, 147134143820024838),
    (0xa8989ea4954fdd6bffff70bea88e1e09452c338e, 41808056815416717),
    (0x4c571c28f24e5df873887c29b2494fb5ee78a739, 41400713689128486),
    (0x0a78c6cce26b32f60c81e473b2953955b7a6c9eb, 9760827325741680),
    (0x83539c51899366bbe7eb4dc3085dcc091c5e062d, 28235912523293606),
    (0x81de7a877e9c4a8496240fe83db2eda9f6f42585, 6952860799648659),
    (0xca23ffcba70127e62c186c66f834c6c25e30e211, 125810447113408707),
    (0xd3b8b9959ff0720334f34dc0497ab90c6e9350d8, 83832108953964596),
    (0xb7280a46a4709e1389b8df6130bce9f2ee97f626, 95799478003543645),
    (0x7bbc3381dbdc772d971dce682829620794897414, 36413745284199226),
    (0xff6d70a4a6c54c251c1446ec750913cf09dc1c10, 7849580452515462),
    (0x523559d588d40932310b60efe1fd2389e7f586e9, 10588507919529474),
    (0x20b83fa0e46f0d3560c2446ffad166dde292a786, 9432482861153094),
    (0xfe93e2712f5a282467eb59cb6559225adbe2454b, 17399159390049179),
    (0x8f190e90fa701f64f84c026562f98d9b2e9a0ba0, 26775486032274335),
    (0xbc481abdb3f999a6670824b45ba97037f7623fab, 17296579934679161),
    (0x064de04b37366de9ed0dba72d212bad8d9dcc651, 41994859250461393),
    (0xa7459690835a82a1054789152a15e57af867280b, 26674466554863721),
    (0x7477b936f81301ba9c738336d7daed6cca3c2086, 4355894704387205),
    (0x5cbbb4bab3bf135a795ccdf9387d9bc233bfc4c2, 34607469320426845),
    (0xe8846c8154197e5987581a2155ef09b1e86af053, 1637052204228800926),
    (0x9a7055504a77b0d2f3b6a346e9e026b14386877c, 20100491529893216),
    (0x7c879abaf5dd8f6a78e3b693b485809d6842ada0, 32476364059043370),
    (0xe2f51f5303be049cd8149e0146fada77397b9893, 8890367186175857),
    (0x97dffc512a8825189c5f63613bdbf96d10279ceb, 84737178507630856),
    (0x81d1119732de065b65903b38ffc1a69d40d523ad, 18036207502410332),
    (0x53a30c7058f4a40b67e75779dee431c1f5791f41, 86569003635078066),
    (0x8bd3e188b66cc17d9170127c694858f5ab13bb87, 21961244853381046),
    (0xaa6b40de3356036b5b3e19472ba128041cfe8481, 13782837648630069),
    (0xe78c330c8fa1cdb71647daaa1e1547ba2f865e42, 17161316444020339),
    (0x0fc96663592e92e25832d6f5485eb63866cc020a, 57910454700925268),
    (0x3d083e62e7265897180be94c5402b4b3196d564a, 6306141848803327),
    (0xfc2b54c56721c689ebe221fba9cf3bf38070009e, 259725914777254050),
    (0x1c815c6e5430ac20cd52b787237265bab56d0783, 14912682032562435),
    (0x1c94157a6b6aa827ca7d8e0f50f09c9497f13616, 36016496039951700),
    (0x321935f47738e11b84c1a561c476da1a9e20fb3d, 33327836517320427),
    (0x9b28c54cbd44d9ac4c37a34880af0f2cf266f073, 12149845262373530),
    (0xa8ebe6dcda66bb74a8db994554d2ad277cb54ada, 29079043564588697),
    (0x70b9e55c16a1e659fefac6f6ad526d47d03adaf9, 16650588659354200),
    (0x9d20974d6835ec6112153e2b9cafa5717ecc565d, 6898524303172574),
    (0xe87fd1985bcd1fbc114c8cf5ff3f53246e34d4a2, 6972742641944778),
    (0x451796c464957518cb0baa3457c05d9da79466ca, 12042782012366148),
    (0x0820ca934e4ead413f5181fed24a57382f37d915, 23594271700000000),
    (0x80b3e8c29f671dfdf91894cec2818ee0a0cf38d0, 9946608210233027),
    (0x2d9131a6ef0793f8fb633337c0cad784a1a0d525, 19418832823741169),
    (0xb55047207ae50e9642346cfc249a9b62e5a3a16c, 8977456496595446),
    (0x20c34894ef4ecbb1d0e1caa52095ca98971739c1, 6043579424753386),
    (0x93973b0dc20beff165c087cb2a319640c210f30e, 3739295359180968),
    (0xf72eabe83129719b5bd535eea24edb1ac71b5c48, 8260504500977787),
    (0xb6292a5eb77f646ff28d8bf007fa2c75094f7443, 10775962746080577),
    (0xe14016d61f1e784f49c2bfd27f5f1a0155d0d4d5, 8804472348990189),
    (0x8c826b392a06080ffba654b2f99237edc8a29038, 8707901014913991),
    (0xd47d93cfd7e2b7b89b3792d73722a9ca522f69e5, 3142871719596603),
    (0x858215bfac0689d211a4ad4f1d14827057a452f0, 8399805730618059),
    (0x3c6f38c48636f4d5f8c3ef85d64534d183264477, 13606125822136577),
    (0xb87d9edb23e88bc7c1e6f2cd3aa65fae6397670f, 21099647452306740),
    (0x952f2c4b1a9c0938b71b9db486211fe90fa89c0d, 57773255806092234),
    (0x7fa7d4dfd24e0b2e133a8bbdd1e6539b6a9b9c9b, 5705403656925131),
    (0x0b940a8a41bd954c55342ac7a9e9821d0a43e095, 62394809243408673),
    (0x1302019844845518329cb59b3aba6c03925908f3, 162664223430889396),
    (0x33f170717b9f75e4ebfc7c3e52f97af4645ea731, 3650270812210675),
    (0x68ee3f5b87b1fe3aa562f46820855b1354d019a7, 29808994264660007),
    (0x158e8b9ac7b1ba2373e250f9b321f8dc395d9d56, 9423267895113156),
    (0x38b99c888510c411cb5ef0a74c0dcfec0664d724, 27690942160279118),
    (0x31f02e88bd6110723e767af9e7186e61fc9e88f8, 29308139133312353),
    (0x233715254461f5dd4d5bb8df6ef5a52d461cc463, 24610525903135146),
    (0x1c1fd2461c14d4e25de4c66aa8f41bc3284984dd, 21669558903396421),
    (0x41647a74673c90f4a13884bee4f8a89034fb85e8, 33565315404726847),
    (0x0a035c7fcbfa48b407c7e7071d3e5c13f64cb121, 27181268032950221),
    (0x32527ca6ec2b85abaca0fb2dd3878e5b7bb5b370, 11794675815818647),
    (0xb8f657161bc707a5d9a6aa2412346e1fa608936c, 9825911670368759),
    (0x44bdb19db1cd29d546597af7dc0549e7f6f9e480, 228462273788437558),
    (0xeb986d1ef6a4acc231380885f1771802251dc6b8, 36352776066077243),
    (0xae25aead3d49ecb0ab2eeaf61e6a7421825a341b, 11116828890084546),
    (0xb61413550628ee5349268bac9b2015ef7395efe8, 34725839290911436),
    (0x74b08f24b8af08309aaf8cdcff69069101dac3ad, 8671353134551381),
    (0xbfd5699bf0c57e6201146fd33f057364f9e1a17c, 11453108804985112),
    (0xa43d9d2cc1245e797c4afafd81278502b557b3aa, 12563690302189732),
    (0xf70ab830a43c90c5f30e86f3da472d9fe83978fc, 27874318877687368),
    (0xfc7a8db5b4726691717b928cdb762abf89893b92, 16932865189361486),
    (0x21c45b96f9d19d74f36ae368ec49ce5bb517366e, 1801721286709226),
    (0xab0d6f45cb4e74910830cf9ffe3ee3eefd87498c, 58584891767866210),
    (0x304610af5e7b105c28c8aa8a72235c1f86f657a1, 82622366372900779),
    (0x52588bc0fa6bb2d68f0489d5b0ff82fb2232e553, 5970539599684680),
    (0x0a53e28f2f7b27971e18a6305c2c74a449badd2e, 328149622949143506),
    (0xfd94fb2f07a4a0cb5c8b88c7a4346dded36f2b1d, 36170260644269845),
    (0xb0b975ac6a2a8c8d6829880be6a9f2b209311827, 33091531418176908),
    (0x4cbcdefeccd99db8f1d185e626042cb25fe8f1ff, 58984796035052844),
    (0x8775dfdfa97836057419e2af6af855f3bb30495f, 9652987963991778),
    (0x845e55cc09ab3339420fe5d72e495f1af84d1790, 13989096069473151),
    (0xee113b5073b088d53a4931842834d77c4aacc365, 64723776425224254),
    (0x17ca8a69f5c604b503a87aa9e84794104966b067, 31620215712802089),
    (0x65cea85d38a8f0f127e61f6212a033e6be75d8e3, 9486318583004036),
    (0x773ab693779c7b57052efcb1e9489fea82448b87, 8413851976137113),
    (0x2b7f81348bb86fbaac0b53cd333504f248a52b25, 8890819907852476),
    (0x422b828fbd619e731680d0d4c3e0feb02138fc16, 105220491197371001),
    (0x7ba58f14a4c8598875f34356aef07df01707d6c4, 34205174855676030),
    (0x46d6b8271ee4e254d595315f99920c617e13940d, 10652053671996544),
    (0x10c0458faddb77c9c6fb35595666cf5f9c055036, 6061691544170368),
    (0x7ba9df65be2ce2aa7a4747033c1897ccdf842b32, 9524452497694603),
    (0xfaba9ec172a5f2cffe3df65adab55a102b1e107d, 3123628304083484),
    (0x3ba3345e5657854a67331c091efef8c26b7833f0, 8561806893889843),
    (0xe9313298a00375aece990e394d7716bfd40a1981, 12460096115484336),
    (0xa3d0ea1877cbd2d2354abd790298b47955b0f16a, 56035742412255969),
    (0xfec2536992c76ea35fe8703497394c1799ccff1b, 26086336689422842),
    (0x2bf1e788ea7599df0e62826c2a718f5a12f1c1fe, 11278009226025425),
    (0x787a0ac7d0d5eb5900aa9a9a44780b98f833604b, 1426268402868035),
    (0x550e511c6b3892cc18bf5a035705508d48696cf0, 30070456289548182),
    (0x0c00865590c0c9fe986bededf365688b5190c86e, 59318855392159697),
    (0xc9ddd5bd26f9a1260e6f24d0644c140c390c8a08, 21208212084165868),
    (0x307140f0ebbbdee739faa25da1a831c5602585b8, 22550392129382092),
    (0x426cc58de74ff5df335651198e2ef939f73b0aee, 2389887766771323),
    (0x6f3132060581c01eed77fb03ca3191d64280d173, 6725748949867869),
    (0xe63435672687cbbf1caf3c767c45ac5248bfde16, 1423129077793368),
    (0x37d5402204f47dc40d2102126bac74eb6d89a919, 5154148651747829),
    (0xf16d8d189b9066ffe94ba9df555c8dcc852b2dcb, 52969301492641014),
    (0xbc419b42e80403e0f3af04c4b4dfc581e18a3be3, 10943245451477527),
    (0x45e37f6c32df82e128565f24ef2ab9cd27d065ef, 1930588123216154137),
    (0xeb32051ff4cfcf7ff0ba950f456f72b18ef69dc4, 5856589583621184),
    (0xe05ea7988feac96c440aadb81bc30ddc73091a5a, 21693806212487811),
    (0xf75c01b91ac5c896eb096408d7d1ce387179cdcd, 148886289320539345),
    (0xe2591d5f60bb9c2fd1cd927b4c6ea960c4382405, 39251780730240641),
    (0xb333d970caeaed692645776a640521b012f43432, 117961614497095349),
    (0x396784fc1ca3bc221b0444bc6613db0d640f6ac2, 17264450202870359),
    (0xde77b585a85a0e10710b2a3362b326cae329035d, 335484541748870603),
    (0x69a2041ab26bb7fd6e1f9019994d46c6434d2467, 8204482765565762),
    (0x237638300c12efd9ac1aed2f4369977acb051caa, 334504896359631242),
    (0x9b921fad875b06183d3992a125026c89915d71f6, 60270725165938577),
    (0xc36b456736c465ff0d56a929101728c56f8f78e7, 49128149767308921),
    (0x0b35c2cf852942ca847948100210687a3470c1f1, 22189659551783867),
    (0x620bdd183ec570e4de54001a6e3cbf4215d6d326, 5722742523835470),
    (0x1d5b052eedaf5087fda6af266743e722ba62421d, 43296204185588906),
    (0x9ffb7ee36a73c3948bca9aa5440ecd71c9419bfc, 21166588605215374),
    (0xf5281a193fed7231d85e93bcace3b28a6d56af19, 93046179748463225),
    (0x2bd1d4ff3edf4215b0a0e3f6d20d202ce5b93252, 10970901577748357),
    (0xa9f678b4f7c18b0b69fe61fa4f046beea4e72153, 27794022469974983)]"

definition claims_data_22 :: "(nat \<times> balance) list" where
  "claims_data_22 =
   [
    (0x00622116402f303f22d38f3ec202774f183f6468, 26354808521291383),
    (0xe3950cd4d791fc4a8cfe1339c2f87b9b721f85da, 6456143229596070),
    (0xdab10e250bf4582f65e865cba294274405e5c87c, 60646614219809798),
    (0x58c37e3e10ac7537b4eda221a41ac2a4378ead74, 12979538548867867),
    (0x34fae068e62ada8161a05b26096c425bbf771319, 30658277358849555),
    (0x8f9966ea7fa0adca825dcc3688f67d54f1e2f06d, 16521519528028532),
    (0xd9746987ea5ff02ff90467ea454f5c001010c069, 26236597926479446),
    (0xa06e43de929779682dcac06f22e78ad536b04b52, 60911367569638709),
    (0x4d38c1d5f66ea0307be14017dec6a572017acfe4, 9247270808316618),
    (0x82fabeb88312f3c56c4ea7e7cf7a8550ac94f8a3, 150000000000000),
    (0xa89afee838324d0cf629ac3586b30a065a487fe2, 6585713844752214),
    (0xbc4c299b611a296349f054a35344fb40938649d7, 13298100459109505),
    (0x21b91d9e00ce88cdc189569ee189e8c52e64a670, 37943202775646921),
    (0x11a9e5803077e73249825faddc14db0d5a3fe50e, 16140199385757005),
    (0x479c215cc59a1b7fdf534b2d4f1187ee67291cad, 75692327877406324),
    (0xccebb0a712da43ed062086d2215cab8f4c6dcaeb, 2456545948959592),
    (0x79ac66a9f6952d7e659813f2f1d4aed1dbe59a91, 14779444188417959),
    (0x8acb2d4afcca1540c69a32224ba5f2d7795e1e6a, 63492555264626429),
    (0x40304dca2fc7b173dc1591a66d8036d0b694a3e9, 6317416164105117),
    (0x7839b196a6922c612775b97a9977545cd634f89d, 18453923346948388),
    (0x43d6f9e082104a18a2e46a815770ae8617180188, 8962982033323066),
    (0x6893593c695d23f002f9278fa75ae1367ce78d96, 84739833361565304),
    (0xac700cf90bc8c650614afb3bf0e6a1762cfe7a87, 36425594464013672),
    (0x725043b2c1c7a6ff873db35091d80f9aec899158, 88992379749790316),
    (0x046337bd78a22c3fcfa318cf3e21a37d69954fe8, 8496687708080973),
    (0x65200a8dabf72e5838ca102615a52de9a0253aa6, 27287818719447882),
    (0xc5037d2f907a50472bd014bbc65635c0137dd9fe, 16776720937792952),
    (0x861c743a56ad723aab405230da1a8c454002b5fe, 8420608021528783),
    (0x8091587f4dd6019196e89fe82a5ee40400fa8bf9, 5383290866990342),
    (0x42ff3066bb3a92da3218bf888110a91213ac1b4e, 9217046598317320),
    (0x538a49aebf0a026b887e4ce1d34b879f1f5a15f5, 4653952903832119),
    (0xbffd292517032885fe8906c07ed5132f8a18eed2, 17519288140896832),
    (0x732b691398ac09f7f5cdff58a45e3e1082b043ec, 8531847195650475),
    (0x4f9eab0394e41fc5d43f3bf99e92148399da77a3, 341293643693627765),
    (0x58ae6bdd79ed6de5c3ff389ec90ad57367f3a025, 29868784054178828),
    (0xce5d647821447cf3ae3b15fc8f90933094e4d57f, 4812810507819844),
    (0x50373d3f83e93bb34e1d4ad5b02c1160848434d3, 18944701726239096),
    (0xdd91dcbee971ad05b7f186def0933b68f338f8d1, 2455348943350761),
    (0x217361d53221fbbaf78494a1f874711f5c70eb01, 116948192043482930),
    (0xad6362f152bae8f1634bc9cb2fb777675190b652, 169920143507820534),
    (0xdffb517a06650442421fc097944f8c066b6f3445, 3681326135743710),
    (0xe7090c2155ceeeae391b61e1693d50ff8e131c31, 39819536232568530),
    (0x257313f82843a4fb2905e7a51416451269dad97c, 8795845623260766),
    (0x9de1d5972786466f2426802134562b1fb10bf750, 2063535574547722),
    (0x3ed2c5277dbfc6213c773bddf91456c27ef2414d, 6148289829624183),
    (0xebf3cfc8de5c55474d9a0db69de1d3a74e1a95e4, 16755724087260789),
    (0x78c27f96898b0586b2fd33e67d4416df4fe4df45, 5930273546149384),
    (0xb47df78dd4905785c124c5098620041dc5a67c7d, 18265861320135397),
    (0x8849f520ba63251fe21a7dc0fafab28e4ba5fee8, 11573000820514617),
    (0x367c8507367d6e786592619289080913569fb1dc, 25437237071059119),
    (0x0afb182ac65b53e45fe217bf335ef582f70e2b1a, 89334699484505358),
    (0x4385a2ae536c4709723a584710b19241ef0ac653, 104000481990763356),
    (0x5e7bfd93a2f01facf5f9c44fc3130e2fbdfe186d, 10859401570625302),
    (0x6544850d9ea94f00893b8ea5b8c9d22e250a86b8, 10451807980535356),
    (0xee338a4307544f7ac4e8569311dccb7fcc59a00d, 205790533146469061),
    (0xce172fa8175afabf69dc8a0c8853747de9b71498, 10951418911799096),
    (0xab3f32822bab44c3eb0af93fba09f4e3705d0273, 6380506956036469),
    (0xd5bcf82f912b87859731a2222453dae69695014d, 35326455562510527),
    (0x6f707d9f213667800f0fab1f2927cfaa9368e9d7, 1574247500000000),
    (0xe6d49571728f49284cc2ccaaf3659515a20bb679, 88897952102867679),
    (0xd75a7e60e3866d0fb1e0876016795c77e73ea801, 6857707598646973),
    (0x2cc0b05b1c4f2578550bdf5eb6ea170d1bea2ba8, 17738910650559347),
    (0x7f3f0dabbcc190d3994c6d8c0a9fe94205ad779e, 3495600621139549),
    (0x356657e2a892452e9568918f3c663fdf4578ef0f, 10483660369163591),
    (0xcfd304af61576f06ed8a89ed40d3905ff77b7d64, 8421065475074221),
    (0x948c9eb384c8a003e85117969911599fe16eb1b9, 18760787776685718),
    (0xc44fb46de84353344d337b7cb32ac11bbb759d45, 16058529401014315),
    (0x6ab36837417f488da17f3c937643aa96cd0c0e04, 9696012158747238),
    (0x624dd909c8aedf260cd62a27b0e284e4d832f686, 8041229506591665),
    (0x4cd3af5663866ae9cf98047b24a8f94b14f4860a, 25406227087930229),
    (0xbe3992063b7f4c4c2b70fd59ae1609bd1c147ef5, 27262667530486758),
    (0x0a1c360dbb23dbcc9280f6b8827bdc3544f41f05, 98428126148898868),
    (0x475ca140be1d3181472df27928dbccd5f9bb5840, 31540392121776932),
    (0xdc308f2d2f00889041e74b9c3d6e6b8ad57d81de, 34440103537564904),
    (0x155a95e5723b338e4ed46a08214d2df69e75b984, 7369579985323975),
    (0x7cc3b0a311f5226ab0c55dda58795af730b75969, 9076237174406700),
    (0x2cc3ccc5fe83830290756c66199d6a2e25577708, 9967575206236062),
    (0xa2384fece956a0906b5a514ca142250c4f2ff922, 423233957827155245),
    (0x5fd4fa07178f49b2a4d599a0c82d2d73c3433a3d, 168872243689098212),
    (0x9b93b36a861f261a2a296dd642b6d89057007a81, 103393726248015502),
    (0x1d8f9f4974b44da477c5216c45362187c34780cd, 33696963393114631),
    (0x0fd24de881b0e85996327d5fb1e9dcedfe4e84dd, 35834140247810834),
    (0x9fe0a07bfc3356ec35c9a940dc3ba8831937c076, 10463932865109554),
    (0x48f4c04aade368c0ac517e46d6b3c51a8ee2ddb9, 43594680083556419),
    (0x76c9646cea7e16be5ff6cba4bf3d59df8f3ea018, 60170175534396758),
    (0x4d5af8cb8fb232ebb2cd051f147fde2af00327b0, 79024781589911997),
    (0x163b8b888aa9816c3701eac6229975960994ad83, 175153072538407971),
    (0x0fc84e15aeb7907a76a221169d80d3eb06cdb44b, 165647060461417840),
    (0x414b55e346426072a42eb8c440098323632151e1, 161893656042665250),
    (0x7d4326b581615643d70a68f2d2ba0cfdf381c81f, 9750474240250756),
    (0x45e905963352357a8fb4b0421e40a31907bcb814, 10595325562951223),
    (0x3ad9b71882e1661e8ebdc5a37ebf3a7617d1a09a, 13737348060134059),
    (0x249bbb4d948b9243a2408f135276b9f7bf306002, 12462371903753661),
    (0x63aad656449dab29b8b771b7528072f415eb0975, 12042966329414697),
    (0xc3a58beefed55cedc2ec869ef17c790b1c5575f0, 10552807509429352),
    (0x4b6fae58214766089b24ec379d314daa7c1d5d7b, 19971785017198898),
    (0x6c124faca797c5d46c3f393e1c973f44b6f1de5e, 3787176206466373),
    (0x806aa3fd6704fd5b802e469d48b3707d5f3b4bed, 2720186764907898),
    (0x1359669ddc1b3e23275c4542ce82680527c02f71, 420568511626122859),
    (0xc35bc6069b3785e72183b9ec75d78da0c959c05d, 18947146387709040),
    (0x24de61c0642db049c2e544add68fdc6dba7de2c7, 3857309141072008),
    (0x0ad560242a69b7e4adfef96bfebc01c3d12228bb, 7191021631815239),
    (0xd6e1b5e5985c5c0762e6cca1e3eb90040d51acf0, 107178509047196058),
    (0x1f5c041724f2d05bbc31418e7e7f2aa455bffe60, 11166179405663153),
    (0x59fb62bc94ef3592949898c948c199abc3990ac6, 8649185541530720),
    (0x2ecd1864ccd99ad8a0afc93538b052c9674a95c9, 8676793752543933),
    (0xdfd7f96ac23161bf6f384596e99d22f10f645dfe, 2131637509631277),
    (0x9140b49a75eeac4a1da2f9617502b87eadff89a5, 9846824272756091),
    (0x0f31c6013e3e123bf0a0c4df6ff1fcfa55d2197c, 84624625774913282),
    (0x16547e1b675d5927900920ab08fcb65e9592cc24, 43857923175964910),
    (0x41b33f795db2a51d00c29b2944ed67e91090744c, 17455494029506004),
    (0xdc816dfb1f29b2330608dd67ebef35a4d1128514, 22822116349097308),
    (0xd9215a154cb0148451fd418da07d8842f3cd7e59, 2974423732692705),
    (0x060b0b766b18e1543f02ad90e125e841709f94e3, 32877577191037042),
    (0x658d777dadc32b2385655913dacccf70e687ccf8, 13548907863477412),
    (0x926f18f792b4360f25b770b28265f92d8e93654e, 19264872452614636),
    (0xf2ff48b08ce5a73bf2c54d54a733154b274496cb, 40902835937569288),
    (0x8570ea89b47fb12675e8e8fff9642ee3cea467b1, 24827676774534255),
    (0xc9a7a7c7065e61eedb1a6d4360bbf622e818fcc2, 5610149366542615),
    (0x1e0b4e82bd847dae91d2e0bf6255522b24622485, 14853702712815427),
    (0x9a858f8763d2b4eb9846be8ad7fab2e958ab777e, 19440646832253976),
    (0x7ebbe8c7a628849f4305780177a0a6cf69b6362c, 34178783174650977),
    (0x64fd8b49016ed55d61c4f131faae820acf711d8b, 8659899583894088),
    (0x4ab9b759a5653577643fbeb4ed81b2f423c9da5c, 17922964590040662),
    (0x48f49f4892f603a4a2fd99abe734cd4da5eaafff, 4020309357992663149),
    (0xb10d1e24ea7b92fc7eb305813c5197b373c364fd, 39717244763257156),
    (0x88363cae13357492d3749badc35797ab195a019f, 31324148333351871),
    (0x9cbbc8fd4fd68a1b642888e754f65c257378ebd9, 45935336600283969),
    (0xb018943bcb4bc3be0dc0284fc0180aa79e167f56, 3000083239601747),
    (0xd97ebc5186ec9ce84b3c3f1f97401f63d3867df4, 101208653677968978),
    (0xb31ffe96f07338206e22eb3601e6671342dbb452, 18497316229206460),
    (0x3e4f5be6d007d4d6d1f6a12d72f994bca3cd9c46, 8667089051488966),
    (0x3ab7fcd5798713a03887661dc495b5f82092feab, 3861608910097631),
    (0x9e14353162badce0f1155472820c44075bbe48cf, 17094930571732693),
    (0x8384fc66e89641a2e71b5ea1fb9ca556743b0bf0, 8639627583801950),
    (0x089f879f1647cc213d517444b7c21ac4aac9980c, 4801247450806628),
    (0xe31790666fa6de7e28c31af224eaea36590e38e5, 5060795151039646),
    (0xe03491a8fdbf1f9f59db8243a04c8a6c55171c75, 7899092058241196),
    (0x6c19ab69bf2ad90391b3e81cfc769c04722f0389, 12819087005371025),
    (0x0586a6ab81904094b0db05c70eb1a91e1ca42542, 26957800835427104),
    (0xeb423dcc9b346ee4ddd3a9273854d22599566a3f, 84263043172335374),
    (0x273701aec3581a1e9c18f49c9ea12145440b2a4d, 7617153554487057),
    (0x093075758e21e406a24440cb034555a92cb0f6c9, 16877849656590133),
    (0xadd413d8459cf457683f894e55cf4d02b0068818, 2507927211374102),
    (0x269c5fe7b460ae612620c65dd0d4e33e8493cc0d, 30348353926498566),
    (0x86f016cf484ceab34fb2be743df06e2c963e05de, 107044999785466485),
    (0xb1ce052ddf46b77215a87a1f67895faf780f7d81, 17187581555122185),
    (0xea821d29a719a73af89a94d7f7c91dbc07aaf70f, 10830805568402495),
    (0x0b7a18cae874ecefaa6ca112ff34fa4b0cc015e5, 7671347180517888),
    (0x9c3bacade6bbe81a6238110a28628512abf4ec4a, 11509221176193476)]"

definition claims_data_23 :: "(nat \<times> balance) list" where
  "claims_data_23 =
   [
    (0x47edc47fb259cde3573ed5c7f772d5b77f569df8, 2195774682964705),
    (0x9ac4ec2a1a3df3fb570fb4de74430c1552f3dfbb, 6289608668255776),
    (0x9fb559e12ed71c072e0c639b70298b9e726f1e75, 8596589418624321),
    (0xc048da5a32fc8300f8cb8ac0ea209e10703f05c2, 1445899825988784),
    (0x44c60ba8f3b68509d63d5f941fc34f2c35d14e69, 35074854432554609),
    (0x346fd38c2a76d4ad5b8623401e358cde097dd198, 53896561015689779),
    (0xfd1efe4686caa38e56ba6d7f2dca9422d4466a13, 16469722478878909),
    (0xfc5e3c80fbfd13b70c690ae82c45138e0c02720d, 136427203217618079),
    (0x3af9b992ea26c43f4f3b019a3c5c7fe4e059af25, 18948786095015627),
    (0x92a8477347ce40383301d879f130d81fed62235c, 8641540209996786),
    (0x95733f5abb8b295098067b2a4e897f9abc2ba7cd, 79925882535345456),
    (0xfc055b45215309742739951ad1b2b38ac9aa8574, 38970323867450030),
    (0x83f625cbfa75394e2fe9c563861b463c79dd931e, 29645361974021566),
    (0x9f4aaba7c11859c16a672cd22a21440ff30f66f2, 25297207482951885),
    (0xb1d8f34bdd7d6e05d58e8438b6a43901c563f0e1, 115439246725378383),
    (0x679e21a0ed6a30ee97a33e04d8009654f1d763e2, 25978085686807886),
    (0x61e40201fb5cdb1488f7c94c6c3191b30bcb743a, 7586517560461614),
    (0x7b4da7389e86db1061476ce8dcd6972529279beb, 15699422616131461),
    (0x072df52f5895098ddcded915d3e8c83bff61104a, 8778107390776456),
    (0xe0cdb30bba9eb7fb0ad09d7bc8f7d32e72a93b22, 2589130654148336575),
    (0xe2313ab106ffb9196b29f5b8880ab474355deb90, 42615612453102066),
    (0x3793c1337604610b68c0a1ffbdeda4d71adb4016, 10455859749046762),
    (0x93bc6c0cf6a7411eff6febdf99647877a8249aa3, 17803480934817993),
    (0x200489778ac87196e7bcd812b1c62ce22df39afc, 8097183853491223),
    (0x14007449b25ff24e7b386b2ee7ddd38847cbb7a2, 39443721134313881),
    (0x600998631dda5ed54ae481a9fface8a6e65b1582, 18038293167286456),
    (0x232b8b3f94042d7495a6de2affb25a29a868615b, 33234010974624068),
    (0x84bb8f4998527aaf4cf5633bb2743533310600bb, 20875011622079960),
    (0xd415d2f890bff9b238aa4fc893f6a254f06cb4d9, 20037008798132460),
    (0x5d22db0ddc365dbdc0983441e2906d51855a142d, 102202109102715730),
    (0x67770b782cfab1da42a0079c35ee47e49d89c584, 4946882846646973),
    (0xa69d0729fabb345158a639b879f65e35222f7fcd, 19761530757109393),
    (0x5279502d192b97c684ad32d283a9b5d1b1200049, 10628658814542823),
    (0xf1a1602c90d8e510bc583eabb53667e3afae4b52, 2873083298227020),
    (0x113a235c688a5d3f6e69181eae18f7c1891c618b, 341399709018553095),
    (0x4cd83636301c5afd96efc0eee091fb1b71bf36d2, 298502751989479),
    (0xd0aa42c8a55a333f2ac046ebc30c308f679836ea, 10935622780584217),
    (0x427142e1a08d2713806c59c9b4ae9c8611f9add5, 16542894686904929),
    (0xdaae7d5038e98a26d4762cc35b1a726a5f6b375f, 8236470746881022),
    (0x1ae3d567efa78eb59a24e05ec3391c701d5a17eb, 83030343841086222),
    (0x1b36d22786fa4a9524c31c11aeb082086c041fbc, 3169456981179658),
    (0x67b2b70ef66bd65dec29557390d2ba2ba6b4a36f, 239969343464761095),
    (0x48562010e075dd5156b5264d87d2cc2cf7b6e3be, 8494722544811750),
    (0xecdd3eea32f491f7d28120e70459da8a000f3e4b, 9350573856510968),
    (0x4e13015ceafb442fa90dc62c1314447711ec7758, 13975468752024266),
    (0x856f7b07ca7085e29c55d01fe3325f1a07d3af6c, 2751103808118089),
    (0xb4a1ef27d224b88725134d743d16354d1885b090, 4205256921605020),
    (0x318c66e50f193988f586b2c41b6c6a17df42c6ac, 5053356695599924),
    (0xd312de48b6f555405727498c15f00c00d46a5ecd, 389580342856589853),
    (0xacc1df99d1b1d6a894e72ab25455508cef1cc3f8, 9829865913356059),
    (0xe3b3459e491a855ba16089cdb3d3c7603d467238, 5248222297393039),
    (0x9a585c10f5e8d39ada781fac488a3c17a609cfdc, 11241478133124499),
    (0x1094acecf44b72d4f54cdf0665689e86d6c9ab54, 14191408786051654),
    (0x4e57de2be83249720e3b0cf8594c9056290aaf30, 97810865550103308),
    (0xae55c8b8387af435f86b1deda10d6e757b48486f, 931735567570110),
    (0x6457be605bedac02e8cbb9b9ff7da5f176cccd2b, 11627767745173242),
    (0x95530ed77fa83acfcc0e40e4c1545767e60b7099, 8249537732869565),
    (0x3b297a81da764b459276ef185fa8a8b4d2d27b59, 2838934322529263),
    (0xa27d91d1e21dc9edafce626f9498627703bd2e6c, 27852447741695152),
    (0x741b401fea98d2704c94ce2f73b3728dc715038c, 67087652554325997),
    (0xc36e5a80823f74c12ee4a2eb588d25dde220ee73, 3398011431338144),
    (0x58fcd1b293c68d6cf1050f2f907bcb326cf06f43, 9966929686350601),
    (0x7690c95d94c4e54881b30ebd06acfa315c005692, 24531525283304553),
    (0xe5cf1b2120da9ca9e18d97389b14676129d042c0, 18714119133882549),
    (0x005dc47789293f06c2ca8891d19a656a390a8abf, 77682058159162285),
    (0x735c29f1cf438f6b84cce8e206de0498e3f49131, 18654277537554473),
    (0xaf82a37fa0febd276c378c92524675d3f91be8a4, 8574804884799038),
    (0x67eeae0a8946f5456002a7ea1a2d0547975336d8, 56888503970199590),
    (0x542e35ac7fbe2e04f8758b243e042a072eaca12a, 83915321030224200),
    (0x3d6d20e10d5b09641ab2d9aad2d8cbc19239bba9, 2318090740789874),
    (0x600f97186a9dbda9878d4c4806286f3695749012, 11306130749899239),
    (0x9831f55adc5c8e0322f295b817219a5500425afe, 32990414397369942),
    (0x493374100e511b1b091fa5bace1929dc154fee80, 16744053323367132),
    (0x750f4ce2b30fe266f34e2baffd4dce880dfaae91, 33537064210286980),
    (0xf82c6df64656170413b3ab585c21ed2bffe4d93a, 7640910157676432),
    (0x8b40447193bb7ad289b86e66b7c4d51da81a7215, 19046349148414532),
    (0x81ac7441353f59c386be36cbaef5f0c2c9b4ddba, 17296117277095897),
    (0x83a3dbe0ffb6cc74222f6e51c296cba6b9787f33, 18427846353053351),
    (0x475e53adfd1ca7eaa710aaab573a8f8d385af8b4, 16819640675415345),
    (0x97ec9fdc60123eed0924950b47b3747c686454ed, 10036598642332820),
    (0x9da89e29ab90c95efb8b4aa30825c7bfdbab80b8, 8436840783340954),
    (0x96dd8d0f5da211f90cdcc2d9ea04d66dc15225b3, 26599847105411444),
    (0x1f411a5f0e1aaad5221803fe9159ce09a17af772, 38710729842467778),
    (0x8dbcbd5a3936091bd881d3c52edb14fe689633a1, 202059314806507280),
    (0x442f4d7fc4e2a7ac390584cfda566e7e29fe20e0, 20660124708913209),
    (0xb688642a93548d96d54098f95fe8aa620efccede, 16239524656358558),
    (0x8d03d6d1c6a546d899e241a2c4c44b8c8c3f29c6, 12885067139176698),
    (0xc2c10e2a3bf5991b4d2efaf409501e2f38284d3f, 2388897980814927),
    (0xa0a78665ba0dbfe3afa30ea27f311435109d0bb3, 26737789945567704),
    (0x10328bb8e388095a1026f465bc75f709f6a1170c, 10291365573836228),
    (0x3a958651f43031e400fb5991fdbec2d9c36bc0cb, 22985425472025145),
    (0xdb09c9c5a8985aa85ae6c09135897ec7a2f67d07, 105892991373790284),
    (0x298f403b7737baf08157c547f7e6f708fd21f538, 8541846212995221),
    (0xf7d79a460a70af1d8f674b28ce44163ae51ef1de, 19479838552588986),
    (0xce3421a3624ff9986a2d0ae0f7a5f88c79ccda61, 16692368194967493),
    (0x5ad09914ce092a737e4a97416714854c99118c7a, 15876422517710839),
    (0x6f9bb7e454f5b3eb2310343f0e99269dc2bb8a1d, 22471500763613401),
    (0xceb8fa8652a2b3de9f0caf9209ca5e28b24cd249, 33907370731385287),
    (0xaa3e6e22073e4bd19f57ddaf1d498756b96fbd8d, 13133236007885887),
    (0x70afdf391be9444dd3e91a24463ec6828eded9e6, 12478591577362423),
    (0x736f0776b3eac253fd9034ce507f6ef529e4baf8, 16483391410682655),
    (0xe3bbe1e6b81ee96200f10fc0433d933f0012a506, 3794896517308321),
    (0x62dc03174e8cc3388fd1c731323eb5a787696d72, 15586033720062280),
    (0x097740d9607b15474f0b184b34425afc2777c4eb, 9110235392875326),
    (0x74b7f843b4218e0b5325d292e1cd668079e496eb, 6038203943201660),
    (0xd461b51e655379eb205f411a949c8bc56f2ff92e, 16390186480771578),
    (0x6b51121cbea3ab7b7f1d5465afa98200b8e88364, 5442046419895443),
    (0x090dfb1e431d5ab67ffcdc8954a8129ba66ed44c, 5389103302187561),
    (0xf7554b7b0b3797e3a02eb3a563227857336f7e81, 8006053819000000),
    (0x299fe93caa4bcf2dd0e7adc46a72a92c0faaeff6, 19112233532442627),
    (0x8b299920eba7576f34c8a9df49aa3c2126e08d2c, 1955774334101351),
    (0x442eb80be7d2a5e6d3c48cd6692529a61c20f6ef, 15127762713058911),
    (0xf1a66f3b09ce56891263161045daa695508268c0, 6249270500139424),
    (0xffc02940b6f297bb3aaca6d790f65c1d28e891f7, 16841434746700950),
    (0xdcd89f21f26d6d07fb9df95ef66935338b7224cc, 17097425229180867),
    (0xad2beb4e6e3b0221434c8364d7cd718e1f3bcd87, 15845803867778483),
    (0x30e28648e903f077f120e48330b005822760ddbb, 107379770647901224),
    (0x44d57efad3f64b1e5d0be2bfeb8b251c65032cc6, 19725756784167434),
    (0x8acd5adf38d97f0c29a8374b3c3cf8a184de4976, 67917627231476924),
    (0x00d26d56252d7770e7d101f63af32dd5f27f7c06, 11970608735706925),
    (0xfdd1fda5ca4e77ac4668192bfcac74885fabed65, 3866813807977543),
    (0x98992e1dc67b8a640f1c1045fbfb6fc766374847, 79713484867282521),
    (0x5205ef2516cf8b8c3da55d8853f49d56db9ff903, 11370886641699260),
    (0x5669f5d60fbc27b4296618415ee54dc710ebbb7c, 175573466533016247),
    (0x3d8d23b84d9670e571afffad947eba9056e77a21, 10155309029531489),
    (0x21ea0a2c6e4cd678f58fffa8198c0dea93a16df1, 7727181079078853),
    (0x262d93271e64bb424e9a1c7da652faccdbd230fd, 12697669680622238),
    (0xc6d01bdd2d238cb3fce9197f3b4b9c5539647f40, 1865504426748639),
    (0xf6a9e0d4a0ec8b3ea63da016eb595d751a62a55e, 14908467657359793),
    (0x11b94e299012175280b39631c0b506cf66e9efb5, 15636139245798652),
    (0x571061b1bff2bc8f0967f5edbafefff36c932cdb, 16465344544476052),
    (0xf9d3785f76b6801993df8588bf258cadaedfa643, 9034188222350660),
    (0x521e5e0044ca0eb6440667243ab01dc016e40db2, 47038323291024047),
    (0x22ef0ca0ae7542df5f7705e192879be71cfeed37, 14589727460009029),
    (0xdae6ca75bb2afd213e5887513d8b1789122eaaea, 28343244433314062),
    (0xe28f9bbf9694205a6a6001f3083d90fbc0e9c090, 62265140021013987),
    (0x84a02ffdc597ac85fad97ff3305fd7d1febffc33, 162385711617651361),
    (0xfc017360272a4cdf33691f584e9e0b07d049a97c, 5712162125665730),
    (0xf7e220fbce58aa70e27c022904fa78fa07f887cd, 10904884220666694),
    (0xcab5ae64218bb57c7ff37d74d2f77f87f70259e4, 40641796707244088),
    (0xb66999b1f7006d95a92f9e44bf64cb1c8bba20b9, 3808247941548030),
    (0x7b68e8d6a0755c684293241c0e60ae92e519784e, 8565141463332950),
    (0x44f4f44b91a050f0d5002089ac44998c4a24722f, 85558488048468215),
    (0x332f49f3758352d56934a23dcfecb763db9b103f, 141982005843787674),
    (0xf464a33a180411b8224b81f6e32258c2a216c35f, 9022221012675644),
    (0xbdf2051a4d56b857ed1dd0fc881041899d378835, 8617994535456595),
    (0x36fcd9f92d79b45bdcef267e834e276f45f0d27d, 6726081833402801),
    (0x6cf18ee8701414b21a62913f44d19444f88ffd5b, 8264808864945302),
    (0xd16bc6288b330956b2a600f370f35f02b8b1c654, 13922385167696539),
    (0x60ad4efb93078558ed662d42a21c96f77db4c5bb, 29159848334707400)]"

definition claims_data_24 :: "(nat \<times> balance) list" where
  "claims_data_24 =
   [
    (0x6c7e7fbfa69f4b5a5ade1c27bc74fa4290a3b8a3, 126276333009666384),
    (0x8e1758f8113380739a796384db3bf73ce0196654, 3377503161949222),
    (0xdc27f935c2f011aaa1671181a2609309c28af989, 84294671947675652),
    (0x4f0275b9de3c5bc15bee68f0557e98b2ffefe602, 95871169495291448),
    (0xbc1e08f72f204d9f7769b8041e84c88f76479458, 5642827861853040),
    (0xe50b4f3c528f0cf8c4143813a9f41d98adc17332, 5866263965980124),
    (0xea1a20cdfc3e7bced30574030e37b0724d529a81, 29181047481994745),
    (0xb90b0f323c960617dff7fa025e715c712ddc5383, 3726083571744540),
    (0x1e2c8fd4164a11cf36c5cbd70aecf41c2195596e, 100131309018538603),
    (0x6b336e0a5266cc4778a86e6a8e0ac3d4c0e760e5, 71611301185903024),
    (0x002365d282b01f6ca682bda1ec0f6139dddc3100, 12908287340811897),
    (0x37eb7a34b802672bc1bcbc401545d0b46b0310f8, 4586186673284387),
    (0x50b60501b7ffe66e49460f7b5c54c4dab26ae233, 8383336727106898),
    (0x5f5d9acc799034242b8bf6dd58297a6c2c3eac5b, 7830876246414148),
    (0xe880f9abac3b6293ef0107ecd04b83d9766716e2, 10629129666969533),
    (0xccd55bd2fec878dcd749c166e55e42bf41a17d1b, 8736421877865576),
    (0x8161f99b408a9a6a2a6a3563747dddc141ba209e, 7488361133213582),
    (0x52a2cafd943eb5fd6555efb6c57c66ccc9951cf3, 20963148636853353),
    (0x5db48d76d6179cced1cfc7ef79145c5681c46dfe, 19347942785097041),
    (0xdd386b40042cd6cbf19ea98bff485a5dd2ced988, 13636168623975004),
    (0xb97f24b6e58ea8cc2be1dd2a96595733cf6baea5, 82212995335774608),
    (0xb2c63b9e16c3c319124a1be4cf9f9f60ae26a3df, 6671065147757583),
    (0x89baa268e6c7bbc83b8651bc63890ae92e14d579, 3705814183630163),
    (0xd03990b42724e5cf54cebe41c37b48973e71c31f, 16233715581366343),
    (0xc52e63830e6528b5d77cc1f58b02f15208af8d3a, 31548577375179804),
    (0xc9ad252fddc0aa4407484d14e547664d4eb57522, 4527633558179713),
    (0xfa4dbd193a8970cb04cfe7f169a1429b6946db30, 29630554204528990),
    (0x253c5d65dcd792f6c46dbc78dfa676de940180ef, 155566203420780635),
    (0x4427df42db1233d6b0a73e8b176423fb6a61e008, 7535160550824154),
    (0x7d2cc906fec523bb64c4a03c106203732251e891, 6408242726281345),
    (0xb2d528caf5d70855087ce1bfca99230da338e722, 32196800946597753),
    (0x8b416b031fcdb9cb0c7ac43787c899c370ea3197, 3664436769353743),
    (0x57385709366c0db059a9eb25f32c0bf948a250f9, 7137312333047217),
    (0x69455d305e52bc0174476a791835f20372403dab, 10006282180857644),
    (0x228d5cb43d060c36ffc18f17ee1048edbadaa0ba, 42962784507807921),
    (0x85b409d90fa0af677adb6baf2cc3eec2614fa7b3, 43345517754136851),
    (0xf8a4492666284dfa7ac4c08b1e36e012fc8964f4, 6297005765793081),
    (0x216c6eb164b4af7bb292279c6886258722b7f2fb, 38380661224770435),
    (0x5314b117053076a43962c82b654c2f89d35a0a6d, 8637388117103281),
    (0x58aabf03c79cc4f81933aae863d1222f3391c153, 3850629928210787),
    (0x5ac0cb943477c5d40ff755987640218fe97cc18d, 1246855645860736),
    (0x665a659941e33bb7e7e5d876fa0dc07b180f9e4a, 61292982202949378),
    (0x60fef54feee3aa08c71e8d0d33b7a4e0f3f0c8f9, 31481210892675920),
    (0x743c9d620d2b1943d3347e2120ff9998637042ac, 50184978845052249),
    (0x60b4bd313fb7466c79eee7c3c2f8c5d168922070, 1684357164068760383),
    (0xe3803f7010b5581bbed1dc50ce09b7e14a05bed9, 11001357007558835),
    (0x05551234603b315d6cf089d041f170179e1d34ca, 15279239015339667),
    (0xdeebe1d5f4eb971145e7fb2a5b85a681f354c314, 8035453869875579),
    (0x4cd67cc4aede471e20bbfeab92eff2b88141a48f, 66576163429780741),
    (0xf5a38e7152bb16c5a8241139c16ba5f069003cb7, 9907239482296617),
    (0x0c5223e45a168d8dbd4a320638bbd1d4a682e9c0, 3388322213907714),
    (0x537037c5ae805b9d4cecab5ee07f12a8e59a15b2, 885176009698765678),
    (0xb4e9ffbf8a5ba5bb4e9ed67c3aa240521fc608c0, 8413312382248732),
    (0x4a604be86c7b5f2b62b2bad6d9f8b2ea25e6e34f, 29008680839650411),
    (0x886fc43f1329c456bb6b5809877fbc03198c5580, 9965208476369526),
    (0xb28c411b5d7ebc61b4200fdad770425da15b0158, 18320466861953092),
    (0xdd38620521c66d9c9ed1c37ee7af7344b2b15f5e, 9175625958861913),
    (0xbe2c7bcc8e91ff7252561b5cedd72094df5a9a29, 16722209175836952),
    (0x346fbc0273f9bde41002f1e5a6c6ace827473e62, 8389856968064264),
    (0x7a2f78809f8f1b18f355502209f04bddc03c84b2, 24198566013989518),
    (0x87c373ff701ee0d8dbe624be49b73e6781758d62, 6159506023951517),
    (0x814dcd4f54a8f2e5ec50fe4de860fb3274632572, 2105161012917475),
    (0xad206599e4f928d3de073aeb90841c901c943f37, 31285241462187267),
    (0x5af7140c215c85408db1ecd969793c1e958930ae, 8478461676888694),
    (0xc19e51a53fd2457aa4d3e3e811b5823750c9429b, 64881485625205183),
    (0x06ea4eb457345d15a34445b863ed64cf0093ebf2, 7913125209167979),
    (0x1dacb657ddb3d571f70187cae585b59df1709998, 90980219721667202),
    (0x492059918a8d8c9435768b56ec848062e6a27bc9, 9125955928608072),
    (0x907a331f31daa91def1e673b25f4c1ab10e22e8e, 32597080577147061),
    (0x1b9d3966b4546df32639df911c781795e7ae0c8e, 12816890396594894),
    (0xe2e2b41f44b72b601fa2a5467edb661a2ac27906, 23290557158983492),
    (0x3b6a66017b75f04e55c73664dd6a9cf2c8027e0e, 8517302444694599),
    (0x8de02b898091a2401f2d89f6cf3c50307c329492, 14604299954614938),
    (0x71381763dca433eb2e3221f3afdf09d9aeb3342b, 33044236164939663),
    (0xfd624dd83aabb1bcf8022e991a1932a20cb7347f, 16600681712442202),
    (0x6174759d8a0376652f783cb45026b902482211ca, 13530763690958973),
    (0x73e7966aa9d2948d095b5ad18fc4e4078440bac6, 128483086113811759),
    (0xe4c140a67a3a95913a6e2fcfc6d6434d94c07641, 8594899578910407),
    (0xbdc5edc5177742595883be51996b8d791e6ff8e4, 159097862833974688),
    (0xd73aeb9a7383a251cb3a811258926a866c7f672e, 6280257988066597),
    (0xae4cc02eef25f4144809e824bf5eeb89d40a24df, 2171227899597245),
    (0x3b0fde6628c1533780df4fa2852448f28522c73d, 168308880629036213),
    (0x30bc71fe82cb20382d9f8fbf3d28b3018ab48c9c, 2474267218557349),
    (0x81b3a83026535e380afdbc8f1756fad60f0efcc6, 30945213882879249),
    (0xf6739a814f143ee7dd62a7eccbe3c6ac7dd3ce38, 66749119772510201),
    (0xa16e3aadd14dc380d3f8e3c32b6314d08df8e989, 16904383424771091),
    (0xbe4fab496d0f40873c9b771fe1612b3a3e1011fd, 6881369952412386),
    (0x1b8f6ffd178080117a866e8535df6f3fe50738f4, 1000000000000000),
    (0x7f480a5b95b26a31c7306e8532ea765735f56874, 13068020802702165),
    (0x87a2e8be3c259d9eedbcf9def5e226725649b7a9, 1000000000000),
    (0x855c6543502569b52d39580a1a84cc5b0e7bda42, 18856707241161145),
    (0x05765c2d7c07595f317fbd20f03e4f2b1eff0c24, 2556982100458208),
    (0x596572fb0e85ed15c2e5fc0f126878cf6b6b95f4, 167458293153680960),
    (0xfbb21f601c66030f3337fa8c1875702ff82846f2, 2870331339926301),
    (0x77a39186c8f08761035c3205b66df2f8a504e84c, 20302287814675733),
    (0x4e9553ca9a28cfee3af081c9d6834ecef537fb2c, 17960261706634145),
    (0x2401a082360623da074784ae9f361668935a690b, 1001284132834248987),
    (0x1020fab919fc9fc1b8f4a366d319fed65ff21259, 16895681707721040),
    (0x029cb21098ac4cbd93b0fb41f592af72c6e18744, 15350755735776798),
    (0xf436f85a9c26fc71afff2e9dd36c0eee66b8e1de, 56908629476423799),
    (0x7052922ddbd21fecb9fa21f8689a4b7f13c8729c, 63033600663231079),
    (0xbac462c8d7473a01f11378b65e395dc7ea57c9e9, 11918890747532638),
    (0x0a603823fa80f8dca641827bc7ccfe425251725a, 3933336910159300),
    (0xd7a053c90a98df6252f358d5e2267306b96366d3, 497181919007391775),
    (0xb8b7fbd673700f46215d2bf60baf20621b4412f4, 9109987381995021),
    (0xfb9413b035def99901f0e438ea297a9032896851, 13980335459090191),
    (0x046536c29d82eeb87899bc577f3a85fd8a2ce527, 3268254247597779),
    (0xe104364d4088239ddb46d59a7c04c237dd26639d, 8594855775208227),
    (0xfeb2f2f0a111a95bac689023daa8d886ad413fbb, 164762863576109389),
    (0x2ef0782745b9890c2d1047cbd33be98e22ec35a2, 95164469643816191),
    (0x4ad6f5fb3acfc7366fa0c45cede54c399558fc20, 10630572919942209),
    (0xe4957d0691f3aaeb414c693c1e8acde0bf4a22c3, 50781134150264186),
    (0x478ae5823e1d4a52eaa4460252b678350100d88d, 335370267243148968),
    (0x02d619a940c1e9a705e7a21bda7a535379e66122, 20559884787013322),
    (0xafc325e3126697cd028211d6670791ccd8b8c441, 1997167983455705),
    (0x8cc5e32865f7b2ee79e3facdfb2df0b3e542ea9e, 16212005821132994),
    (0xf2828b2b9a3348fa5eccd7d2ab4031e7c12d9527, 12654272166025905),
    (0xf23b73e857f607979934b64f38192582ad4e2818, 2684239296436998),
    (0x2976a1719e2fcbc69caef98da238e45c50e09b18, 22814290314973717),
    (0x66b007d71e9d8868887deef22982ae5ba164b63d, 13448883489015320),
    (0xa98b254d9e2b9e2c11f20780d5e021ef3c45c23d, 139516887607773489),
    (0x64569f857512c63268f67c914df351d30d1d6322, 17094582358965086),
    (0x6269a1771b3f4cde115eb59b9383d3645cbdd217, 5985822249436758),
    (0x9871ca7b337a8f4da5c836d60b15baa3315e71b1, 39770743602450595),
    (0x1e898058a3404b9cb4a1ebe0190c45bf84226ce6, 32799871600306783),
    (0xd89b10327ab558416e8a8657872c0608aab84c8c, 2981121336489941),
    (0x4c1fd2c73662de4615bad4ecd55bab161395aaba, 3967132554823895),
    (0xe01cbf933e01bd9c162ba5d4f6bf593da542f3eb, 30782311396300928),
    (0x6220b3344a1763bdc9ba9a7f71db810cdfdd98ec, 1688560877239115),
    (0xa366a0362ba5cd68962097fc6c1b84ac42fe5d60, 16457635167795720),
    (0xc34f53f232dac3ecb4216601182f2e4f88d18dc8, 83553322988057185),
    (0x47cf7c5154374eb8c5d84db958b704f66f168f5f, 129203436124881857),
    (0x4e49cc7460a1224bd21ce3fce540025f2abc4e05, 5507869961247117),
    (0x96c96e695f1ecfd6b932a0b81a223b59d48e2c36, 12537329920949501),
    (0x62139b7b68181c954e9cc87df7cd0a3eec4c5887, 16433015659829003),
    (0xce8f13fba191cda04aec84416e00ad2b346b7f7d, 160241859894865909),
    (0x0559a40c957e288f3fbd49deafe6ee96453b2079, 28578411905134881),
    (0xaa6010476cec7658da06bac24d937b073845e92e, 141238894088055318),
    (0xa4b0a77c312535b8a5863732acc42cfa7b6af9da, 40645311982118530),
    (0x745f2e894ceb45a0f41bd7e2fcb9cf868671b30c, 8812329102569575),
    (0x401460b90748b2d571c094a46feebf5990dd8e43, 62075269989966987),
    (0x3be7fe9be7a924a51564715a1c00d141eeb045f1, 8408147455786574),
    (0x93ca9be109defbfe5f6ef66f4eccd7f838c8c3dd, 136808561589756548),
    (0xb6e34a8a93031a24c264be59d0bac00bcaef9051, 603276226638361),
    (0x5740f1bf2cedc2aa060a5ab8e7a61fe451426572, 3896787456838149),
    (0xd1d80c4a0861d2f3aad234a3bd80c5b333e9f58b, 32130530087907271),
    (0xa61813c05a45cafac19e466df345ba6017d0b117, 10562561618230576),
    (0x1ac7bab956e22da4abc4054db13e5fa5b9d04d0b, 15910607687322441),
    (0xfdad95e005ef053248e88778eb62b8828dff3040, 65517385013077988),
    (0x8f786ff75a5da2ee8a7ee2549db464a5cbcdf718, 15924734276312004)]"

definition claims_data_25 :: "(nat \<times> balance) list" where
  "claims_data_25 =
   [
    (0xbffd3edf9839d52b216e7c43ba40713ad7723a8b, 10064444739329895),
    (0x6ba90280852b8bf746e2390f727d6aef9247a163, 24534597785162124),
    (0x9407a95adf5e9481c3321126afb72241b89de296, 31977313718097197),
    (0xfa8fe2881804b1ae1962d64f6a05afc02b630ebe, 53983639928491431),
    (0x2f53a6d820d72fd3e90ac624ef3585c0dfe4d8d8, 102801748559522971),
    (0xda5d1a436f2af26ed478051b3b987e7e225e541e, 9728139507530160),
    (0x6f0d99bdd929591f70565134e99100994836a98c, 2273660273638593),
    (0xbd7cf3da6d19ce4ee136a0da6d3caec73f73971f, 21093726103366566),
    (0x90649b737fcd77331ec4e114777bd1c6fca852af, 16812869510077764),
    (0x5688cb639684736ed9da1ea0757896fbbf528a5b, 14955888993002413),
    (0x8d839361fd59c8895efaa202073db0acb25318a5, 97334878813073838),
    (0x82a7071884c2eaeca464d9b8394119f83d48c7bf, 16551967400090495),
    (0xf13081c2fd2b9fece2e084174ef35dac9a05267c, 17450379214148591),
    (0x17b4a2b8d77e8237dbc3a7e2dbc9de7c35d97b86, 11666545943429352),
    (0x4f7fd02c9ba416f1f8fb90d438ba5cfefcdde70e, 36998356750727361),
    (0x3892f90a681192ff8b5f11f247e1b3870b5f4087, 8752829382003517),
    (0x83eb5adcbd809d732e443078a2311be77f765040, 15445859425992699),
    (0x6648b61f5032c10722e3c5dd15bbbd8166be311b, 29913126624648077),
    (0x501af03225e0d74cb722a296e0e8e0eae90f11d8, 96280555558878206),
    (0x217109687feda2fb543c9fda73adda825a1a55f1, 16038943694712900),
    (0x39b243becc1ee504fe4296f7ee91a46739ec6ac6, 16835217255142604),
    (0x328c2cb042fe460e73cb1c0e5565db0c548bb0a9, 7057960888049105),
    (0x7b8e1768fb8caf73237d04aa33bb97589370b520, 24212828527483759),
    (0x035520af7f8062574d694e71e7507a365087710b, 6095509220494839),
    (0xf7071cb6385d7122452789311980d47c43b5dbe1, 80229182644395508),
    (0x24ea5f00bbebdc39130915c19bfba05be7333e59, 7920112407177198),
    (0xab3ac8814b228b8e465d85555a64ef5e973f1fb9, 13945942491829136),
    (0xe4083f1e4ecde085bf7cfa1ac4f1f9a02905698c, 48699940464372911),
    (0xc0dcd17c474b21f3f59bec03a06cd30735551957, 6837332217077839),
    (0x5f6cbc5a243338a65dde1df78a47cd415f771a6c, 26676171831642540),
    (0x02c529d7f5b5b10d497e2f6b4b69a754500544a8, 11278540276145627),
    (0x43638006802776f6c86c34a892688cc58cdfaefd, 49422607845519952),
    (0xdb5a776d0c8a6ca481fd7c8ca933b5fb0820a923, 3639627631626994),
    (0xc106905443d60547546e9913055c297b7bb9c481, 361487860449578176),
    (0x4702a6b1969590a77efd39c55a8297c5421d5839, 14187467911431671),
    (0x08a30fe5cde74f0c5f255c48df0a67400e7c5ac9, 16541915767135240),
    (0x35fa605869870e4bd433db49fe0817292a7c8740, 127706342533791040),
    (0x6c7bdc3ee8ef7b9e1db29e5a9c9cef919376e37d, 26695987142893379),
    (0x606d65cfc0631a637827afbd2fd90b80f2a58bcf, 20066172271916304),
    (0x056f2f34ae9f48c1622eab9cf12a0b156e34acc1, 42156194310102528),
    (0x76eda1b7cf325365feeb18f750e7f7ff63a23cab, 13260942101820519),
    (0x6caa5c6b9b690879bb229e6b19cb2b755c4efe5b, 122589918777486582),
    (0xb14ce82f37a6108691c7f659174fbe4572f3e757, 20809749147270847),
    (0xfe782139cb2c634c0aa8ccfba71046bc225dac0f, 8096600775775907),
    (0x153e5893d24be28ac3b37875732afae3308614fe, 76559696729956446),
    (0x4ceccb1061557cbbde9917a3bb582dafa3802a20, 22876995966451228),
    (0xa91bee535867cd3e2ba3b5fa363067e1ef22b9d6, 24011453158570254),
    (0xc14d4aadea832e8ae4720ce5c6adf25ffa16d942, 32388856155116980),
    (0xfb19fe38ebceea95d2a8cc1a44bc032150fb17b0, 6234850447601557),
    (0xa314921b83db11d8139eb977880809b96bb09d1e, 27480143816290028),
    (0x16e51abdccfe7a8418e3394ad13b6373c683286f, 22325177824795008),
    (0xf41649bfca3a215c19372d5886a176cc83a6349e, 1703283511243498),
    (0x5110d388a252fabddf5feec1718164308607700c, 1777000000000000),
    (0xca1fe4a17600da42d26a68c30bd4618e5e3918e5, 15999090549269074),
    (0x474a487c49fb21ea0f6e6b1120a60f15a6d2ae8d, 12169300356271932),
    (0xc03f6a53dfc434dbd78ffed528fcdd3f406576a0, 16095787867372124),
    (0x33c5356067d62423090d252307c2c81b06499c07, 12416118051172657),
    (0x4141ec9f8acfd636e7b037eb3171f4452656da35, 43501528132316899),
    (0xc88dfc8b5df7d3f65778701f33078271f40375d3, 15037220457783767),
    (0xb04c9d6d966bf6ba63318563b67201332945080a, 20694487536196565),
    (0x67c255734b182336bed8a31bc2a8ef3cffa8354c, 11978250590848631),
    (0x0c1fbe26476e34476eefe018e8dff7d8d5080fc1, 80653996458732425),
    (0xf289ad2fcc8d6f56fc4560503ec787c17320e372, 144389335403308955),
    (0x5e1bf75f03e4d87d82398db889554ba0e75f3879, 5924813264838496),
    (0xc7677a84f84354c5560a7fccd538593b46a6ce4d, 54268346628498659),
    (0x3630a2d8d0fbd269133ab77632f88eb4665476cb, 199816827081479480),
    (0xbc4919d3789e14467cd6e019a5dd394b109c1bf7, 2350000000000000),
    (0x84ebe18107847916da0babe1c8672e40c2c8a161, 288401855054892021),
    (0x356ad8e7824c7b16b5e1903e6edf02e89138dc5c, 3592992831145038),
    (0x9e21f829ff2cdc729d762eab6799bff50e96510b, 3777000000000000),
    (0xd9cf02d35ddb52f4bebd3c3a16f4e5d840cd2022, 8554207741254171),
    (0x29fcf46b4bec93d582be01b3ecc573daacbffc0e, 16409876003244294),
    (0x04bd258e2a94f65d49d6a7ff0b39ac02acfd3826, 16406841381291097),
    (0x69107f2651dd73e85ad4f9020e91776d9610f627, 8935781268011664),
    (0xcedd0bbda24292d7cd0e1141e2522a1d392b90ab, 1977000000000000),
    (0xa70f3b2e33e2bd7bca669083774b41b448e128f0, 16899063894043057),
    (0xa52d77de921b6b2f317aa2d806a656bf52458bb0, 16867386715558556),
    (0xf312364bde6fbbfbf1a410d460d7ce290e271d8e, 14072965662180338),
    (0x6960591aafc760f2a30e37dcd0704639dffa8776, 29113978381919713),
    (0xb760bf9679cba3e495cf2c21cc09a972f75d690d, 26348004331184687),
    (0x787ce2124730dbb6e02b964068efafa5df404d72, 11337916579584960),
    (0xaf0b8cd47c640776f7e0debeb422511a451fd447, 7457777506243470),
    (0xb719ba7c98bb42d89402470a351acaeb97e00657, 43279006409902743),
    (0x0f62b147dc4962f05454611566215e58071335de, 48616238408351326),
    (0x4bca758a3aa9e025f30e8810140866d6fa64b03c, 6859388809131740),
    (0x966c2c55a2ce8265e862a63e98f44599f3688923, 10115133906744773),
    (0xc58bcad7f918b1fabd0e6dfc5707eaa042d5fefd, 1384859680097545),
    (0xc377fca91b340c5609a7d269500369ce436abdac, 28920643822136538),
    (0x986339a7b01d3ef79b35d10d0517c5b776b33666, 56733951652069914),
    (0x196e0975c5da295e6d15610788901af9d36c00bf, 2720370623460245),
    (0x38567f34e6154f923a96f1eca2cf42be9db1ef4d, 12873805144788721),
    (0x3b8af3a14da9ce22303554a9fad0456011592222, 16941625831483410),
    (0x9d6986e19a5d50fa8700c8310dd2329a8e2874c1, 8857120687873573),
    (0xb620c73f87f4c1ca9a9f984c840c2de94ef9d54a, 28980568711229782),
    (0x321957a7cb6e391c4d5f15de33db1030ebcb8254, 13171830658171746),
    (0x11619d7d52b35980e2a6c40e76e13cc06b6858d1, 93954917764260913),
    (0xf22aa7f5b00c738749c3ff100cd3c1f6ba42c0b4, 4699896934535108),
    (0x07df7775902c31c24eddac2c462b30cf988d7e19, 3283948256318752),
    (0xa87ac1db389fad6a88f9369f9050b523889daef8, 137937026249305973),
    (0x0b8a7d2ea081845275f5978dacd3375c3f5ca3ea, 3645520820751410),
    (0x4dd1af0bdc8c8b49ca133392aed73f7250ca4030, 136189896021745466),
    (0x604dc5f6a4af5be909db787ab56c5562fb22bbe7, 47128231071511776),
    (0x020d19fc01e9abaf7d392a42878a435ef2095487, 16016709761431257),
    (0xbbb8829ff88de74a100c22ee4a2d1810ed6eceaf, 23848255762258467),
    (0xfb1e328949157e94e49a4f6e357eaf2fc4801cc8, 32407182968944031),
    (0x61c738a9e149a28039255c34c68df06634916055, 80023241172172986),
    (0x717c05bb13b3b50c0996ca3067c7bf93528353a4, 18378219539524917),
    (0x90bb65524063892651d1e437248bd5f7cefb9276, 6157197574924389),
    (0x9d3cc7a278404e302bdee90c9ed9cd71c69dae86, 28680884203788581),
    (0x63499b49e22ffb48d77618d5865b6b8179600bc1, 1999729837438217),
    (0xbdb4ff66a1f1cb4c8b114f1c986dfb58df27dafb, 27785735426843026),
    (0x2dcf32cc4a1486d4d8a686ce92a367e1856b55df, 2354177482115650),
    (0x6f514b61ab030907bd19eb92d2edcd7f68bb38bd, 151016735594828879),
    (0x3445f1d68f55cc30679c35c62350fb43b701765f, 4545036171205251),
    (0xd9ff99d7d37cc95014c12f1eeb54cd935c14e369, 68390737339887229),
    (0x87d7e2bfa58e9e45074f06348b5a09687d2b680a, 3570251395117688),
    (0x8842ae488a93436977c027ed84e357e073b96f90, 66984724664923282),
    (0x76e80b2f3ad2f85966c2a7b94adf1a2a6363f5f8, 20712398245587301),
    (0x5b2b4b59276217400469916fceefc89acab7548f, 16121701172802414),
    (0xd71da3bdf3442b65243cbf29aa026a5221fbae4f, 29411326801785029),
    (0x769aa34c5266da82662f2b5d5ccd6ecd064b6f37, 6262678226480377),
    (0x556a28abf1d087c491deda6aa41880668d6f63f4, 41235121696341081),
    (0x19deffb99210e6d02b15ea3bd0845ea41f7ad4a7, 6915073478538954),
    (0x714ae506405ba00a97038f1fd02f935288ac1be4, 13021708813193127),
    (0x8820066a0d1058626148140edd147eb279ad815e, 15176967771648256),
    (0x7e9bdec49168230e6b5055784d9b74cbd9f3242f, 31744724695218029),
    (0xa2fd76d3a5a7f556ca94a196f4b573e9a108e0e4, 8720805158570420),
    (0x9f205dc3cfbd2cef860c0ed3f5dea5de76b11e28, 138626427104839836),
    (0x8e8125bfa265a9dd7599040f83582b17f181993e, 27347503077943002),
    (0x3919c29bcf6e454133389929c65c2351cbf77524, 60095385934934883),
    (0x8a2096a678e16d879f3e32c335af937a70c69217, 20841604883936102),
    (0x9b8afb5f6cbd0cb9f61a2d3765acbd5a8f1b911a, 157028251607583801),
    (0xd0e912ae5099b3a1038e95d97b9e2c282a65860c, 15875301758765875),
    (0x49f29c0f423480deca9b663abdf509694f795298, 14410743851387295),
    (0x558829c93a2d1bb708033e236b328b8adb0fa5ab, 6344531612942704),
    (0xc4aa91a6c3d517f162fe2b01154d4e512707505e, 14018284386962485),
    (0x662d6983695b3ab93e5de5652f57c4e817fd4e6d, 7225652735662574),
    (0xf1b867bbc9a36320866d51cd020cd356d2cfb767, 38830590316618162),
    (0xce626ffb91e87a76671b61d2eaa0d7a889bf2ce1, 5991966155686620),
    (0x9a6c353abd6236ceec791092035b36e5fe6ead63, 20754166750604043),
    (0x1e20dd2f2be5144e6be5f1b6cdb4c2fe132ab216, 11969979888541508),
    (0x062aae68080e2426b169b7ab990567855b5e3d52, 191961861753512938),
    (0xb51f3bda12b818399e8ba48d5034daf20d8bede9, 4666880552283591),
    (0x9afdc22702a1407afb4ea76257a677ce1295c786, 27355275974587104),
    (0x8dcbd606f2648bb60b6735da95ecd2c854c0b26d, 15477541793929686),
    (0x3dccd3bd797061cadffab6f195123e590628d560, 13938613624892738),
    (0x00f00853ec4bc2b8793557c8d0c4ebf9bcf62a64, 11165670327711481),
    (0x2e9713df5abe13885fa99423b0a8d39c0796d07d, 71669369087035904),
    (0x4ad80c71f0850ee8ffa6ee059540c3ac5502d167, 8610912202420933),
    (0x09cb15d83e904818ee567fe2d7f7f2f430966434, 31265210944445060)]"

definition claims_data_26 :: "(nat \<times> balance) list" where
  "claims_data_26 =
   [
    (0xa2faf19a9ad8953bc99ef0e1612848673b0a350a, 12599186691102857),
    (0x333c12be4ac9949bc7e77224d1542f5f347b15f9, 30954512932406215),
    (0x009c3cb9e9f6aeef7330d0c82232efa73b21fed8, 13564765416331335),
    (0x58701c0b2fd872376b817bbbb3521e79728dd034, 48538958414910141),
    (0x49c46597ab1949798c47638e60da49ef054866db, 3393188467897584),
    (0xd80e214d86399d966b5d0a0f647e48eb8e73a24b, 75740354079677610),
    (0xab62590244efff64e55f4dd50c833487f09d19c1, 16801652064201927),
    (0x2292d0dd9f6770d670dcdb8ed1a99a23acaa43f1, 12407680213534539),
    (0x94e2d6bd83a9d53f5c3ae7594f8e883c9c112a58, 60599157129409176),
    (0x0817a2145eebe5f6a855c2ab878b24c8e6142871, 39948714604226497),
    (0xe159279941ad081fecded7b482131913075398b0, 15851112817341432),
    (0xc4a2d017ae62d3253d1d291325d88210a1a02928, 50000000000000),
    (0x4aa7e2c2bb2c98085b8aed6848b308a3e93ea637, 15000392346452574),
    (0xd71ac7f721e1d94007dabf3b6969302200829a0f, 2243477948638609),
    (0x66815f7b049fcd9d9b0ad4fe31e14c11b0e41540, 27179948321076162),
    (0x3c50849d873cf92f04f0ee7e624b384ca4ad586f, 46063304814928169),
    (0xc4ff9f88076c5e675286b3175b11a2c585cd2e99, 37748753398961776),
    (0xe5bc64f1f3537b5a27441a4251ec6c80a82a10ee, 2214990480856386),
    (0x777bc040bae1dac45fd4a00684ab8f03d434ac3d, 1194552901707286),
    (0x34ce401afb4298a999662fe4cd54fad48b26428c, 16224476734176977),
    (0x995a59a532a1d95c5b32cab76999765a0b22dbc7, 14930732658696357),
    (0x624184afe26ddf9dae075c3fb34604d28d1d9d5f, 31189429690264950),
    (0x3691a85b2758740a4aaf49068b11757cc3e0b1fc, 7485414158507400),
    (0x392365d5954a9b8bce72cc6b55bc206120145220, 64998923052968074),
    (0x3eefe776a5e78c03bc73b2c332819d848168579b, 6685977572938143),
    (0xd7a8ca3a59d292477d3c1f6d547231c7142d1cf2, 1047994922241907),
    (0x2b407a49c00079bfb92401282dac2fa5bc534069, 27980720604926465),
    (0x06cbf471bb3204d7b79f03da7e700bd3d2452a47, 22646502746196556),
    (0xb42dcf33207a7b283e3890805555364906bae311, 8097769428026342),
    (0xf815a566e42b0d8ddd5d77f91409a7d9ceb10b92, 33868185128881814),
    (0x8df1b16368e6c81e30a90cdb5093d3e8825b0bc1, 3220062454453028),
    (0x2401270543d683c1c428426e6a40e0f1d3168bef, 14372917995789513),
    (0x389c46c3ec6106a5053740cebf5796ac9caca8c8, 14821825886924715),
    (0x780432eabda6f7db5742149d3915605f9049fe3f, 9797543132306783),
    (0xbbb7f087ed09f44476d8429cea9adad894d41455, 3254435928263183),
    (0xd41255db215c4a23918a55bd10f7bfcd34191643, 14682932853368853),
    (0x77761f1e121ff609554212aded3ca950041f7582, 10494014570707620),
    (0x620167d5d83279f6cd0940b04f5d4aced734807c, 7134309989048974),
    (0x474c84b08e35662e5460f53c1f91e2597d42aa03, 47751796017378833),
    (0x9e42fd37e21c0ed235fa31d2f49a7fbdea961f5c, 45965752799733793),
    (0x0da6a4a175795e372378f56db8bcfbb55ce9889e, 4086253445667306),
    (0x181ade4c0e35a34d78aadc4c81526d2b3e377f13, 2975577015488764),
    (0x3ed1a70913c789d94a6269b51c916ab62f3c15cb, 35598506849245811),
    (0x812a5d6b5621f07fb286bc0daeafe975c78619bc, 34459585068171722),
    (0x65279c2c209c6bd212d6e2d66ed15397eded2f18, 16162016254179429),
    (0x9969181c2d7851fffa212b77557ddcd2a669f6ae, 3910880188724626),
    (0x165755cddd70f294f9d5352114ff9bfd0c7377ea, 173782969068720807),
    (0x5fbb914225fe6929e119cec400dfa4031780c3ff, 1754782482571194),
    (0xf2c36adbcba7aae311d9e98b7b5e1dd183f103f9, 16963363920213279),
    (0xd62bd0221346f6d7631c9dbfe978cc88fad1fae0, 3537224188569196),
    (0xca99a0d5ab94226fe9e67934792b6b5c900ff37d, 8206128086423251),
    (0x958f098518caf0b721cccb07b3dea8591cc6196d, 25247543282365763),
    (0x5204717593d144436ab4d5e8570301ce302fbb5d, 40728284430752116),
    (0x8b49f2ccb8cf8a23bda84d7ce4a5e36739afcc8a, 16365706489823101),
    (0xc89f9c00c559239993845d0cbe91aab4ba7685d3, 792490652115287002),
    (0xd30391e21741c54c32987bcfca3d880e6d261cb0, 61250699026440771),
    (0x1694d569083a211514b4aaef42c756dc8fd036a9, 19518186872110348),
    (0x4aa3ef0c74b522d8c20327f8423252627801eeec, 68754170527801011),
    (0xe55c69cfd20cfa25651c72b84383de6104104eb4, 31858189005185392),
    (0x0f5c47bdeffeb8bfc5abbf8dde342cf7c1cc1f85, 2650474989882821),
    (0x825aa4fdcd2575770335d1b77901cde9b9e97caf, 48814082771178060),
    (0x8181d7c3d6fcb9b5cf04bc25b177345f23a75bb7, 16198464598545165),
    (0x344ec4de333761a449c1e371468ff671d5aae0e5, 27588607411533209),
    (0x9efcaed64763cd402d1a9d4d503374dc55a667f3, 20716604345668933),
    (0x0e22bef8343f7e20ffb0948908275969ec62dcdc, 1859830345377512),
    (0xa958598d228dd5fe7d4d895e8fc2ba6153fe3e6f, 58022425825730200),
    (0xead32ad21f0817023f8e52402805c158e2ef007a, 6008420606265859),
    (0xef6ea8ef9b73706b73944c31430673c464205ee9, 11087824258570759),
    (0x8aad23bb7e2e22506f5b1519432c5c1f7a1fbf15, 7855122797273220),
    (0x530b32f2f84ce97c030c220e61547a191716e329, 12980557654768116),
    (0x69dedb7456038123fdf10bcc9b0b64d52424b764, 28219699191822039),
    (0xce41185674dec86cf7d309f3f158c507ad8343c6, 4352495272796297),
    (0xe9eaf9fe16622a152c8fd3afb7ad0434d8ac11a3, 78169409262215133),
    (0x775a477997cd8767481a95d6e89e0e0a3b0eb643, 3100000000000000),
    (0xe72d57b1abc49686369abba97b2b8ce4d3095c13, 637721096114764755),
    (0x991e0bdc1eaaf232b18523444d59a7cfc491166b, 7735222761677529),
    (0xfcb78fa7de003d02765306a3ab878ddcda85975b, 4380010715902581),
    (0x0b20b9bd6ea6f9d75c3eb676e703056e1b7538e3, 109851684389099667),
    (0xdc9a35cde6ea42d529370ce9da3f42c28711714e, 192715059550505427),
    (0x8ca4cdb8af3bdd94b852d77f9c0575150045491b, 18707976142515332),
    (0xd0506af4fca9e78360d541bc03cb9b1ab3ab2a59, 9300747254015031),
    (0xf7c41ad406295a46cf5c1e6b9232bc3a6440ad4a, 30527608290725617),
    (0x011ec937afbd6a0cdcdbce0ec5b1c661cf1cc9ec, 86625019782009150),
    (0x7a3887607f0d115e195f30b69b3720053ef5636d, 29429689999593426),
    (0x881cd09e56d4cce5c26cbc680d8384acce985c6d, 6805263737288391),
    (0x55677a29012a21c8b3b24a62ae0aee9d1f039590, 7443794619476540),
    (0x8a747a19b9b41a3738d62a966c511389900ed06a, 38908010770000000),
    (0xa373a5e1b69a0155059791d7e23e662ac977201c, 48523339795259158),
    (0x4b15c572720263769be1b192ec83c910a3886bf7, 3154190486386904),
    (0x97ac47063ed1490578ef6452c17e0d22ac737f82, 9970915126506464),
    (0xccbeb5370d9ca93a13c80cabf8dbcc9ecee2947a, 11605114163212671),
    (0x8b9e965109c522471f27c45f1355d5edfd89177e, 13244565741259708),
    (0x09c2c71734166e2ef5bde16dd02c5d224d88c505, 27565921025394995),
    (0xc07059d489ca3213615420bc23d17d3ab72b1c6c, 10854911651282293),
    (0xff812cc30e130634fa8027e31810c8ba43b50f47, 2193037861951036),
    (0x4dbc24beb46fc22cd2322a9ff9e5a99ce0f0c3eb, 2638878454855556),
    (0x045f6357db854fc2705defabedada3ae5fff194f, 31172071649417651),
    (0xe1eab77cf7420b886d7992738f6a2a92c9ed3cb6, 1325780429306458),
    (0xf7463ad9dbf2d12ecf820574d1d7918b721e462a, 50484008809535581),
    (0x4ff344c8628990da38fc45ed1e5447f92d234f22, 6076787077451777),
    (0xa91c173412015bb9742f8c84196558765231cbe8, 82866045315203760),
    (0x6f454fa5c8c9dc56209f6f5d4c7df32c735c4946, 101063665779320751),
    (0x44a03946c8e690c6ecdb254b3744690a42e1ed17, 5241506537469531),
    (0xb38c57a70625a070eafe4628905de36d2ffdf7d1, 1257543455869120),
    (0x344f9f6441c425cf6e6469e72777d35b48a91062, 123070856440090110),
    (0x6bd6c0e39c8c30fa7732a7c58480c73c9314783d, 19938723238300743),
    (0x04c4706f1feb63c0a1f84ddda17a344defa4f858, 82831901867483094),
    (0xa126998292e3183dd6712914678262e799636348, 20680192441343505),
    (0x9224e1892fc4062f8604163b6d6a6924b8564c35, 8039325975394064),
    (0xbf17fe365b6a160b48d8b2ba76f8a55becf4c7c1, 49948333177223551),
    (0x866a396705e325b683bbed2d424ffe3e37c1a0a6, 4637416326737437),
    (0x8e8ed9aa7c01c4d98089906b39a1fc0918ba34f5, 20354219676528089),
    (0x967db9dd888ffe87480ce68d4b33301126fc783b, 34455262262731393),
    (0x0649f30c95c27a6b76db30806aa2762aa924b4fe, 9475692664556808),
    (0x5298f2941f0a5f5010deca60f52990f0b5a3de0a, 5882938979003479),
    (0x12332fe522dbd07bfc2cc65f7766945d9eb5fd34, 156536273738027096),
    (0xddf767f258adf0af89896621349cadcf8722f771, 200488741332063686),
    (0xd57722111412bf8fd260827426202a04de47899f, 49033418784005321),
    (0xaddff81c9b0b9c3a918d215eb3bbdae80676528c, 8965794772404056),
    (0xf527726378d7e10e1e322d1e22a06a8263d64544, 49188693184041970),
    (0xbc641f6c6957096857358cc70df3623715a2ae45, 28567727837836084),
    (0xa24854658a993e133c1220a19d27d43445acddd7, 10768032354813419),
    (0x55f6823de9642f47e80ed4845a55aa8430cb4ec6, 2948497619741916471),
    (0x8b36e7e37be6e10f7a24b0000b0602b575fbb54f, 14536077683775593),
    (0x096c2b6ee3588247db23258dec29ed72c66ff231, 24464511489663698),
    (0x739de9033d1db578f3ca960cc15025e8972aa8b3, 16918313355256671),
    (0x742d371a686a20ed116346e7315aee73515eadca, 8189245246197117),
    (0x0ae3d4c995ba20e6a26176dae9c483070bc8296c, 24094890094783646),
    (0x4a90f5add15147188149a5727cf39d7f71768559, 27579678397376996),
    (0xec09f7884de51e7d7620eb02c5a5d8d912db51f5, 11387642294723980),
    (0xa9ee9b9620556054d5e400d0c12ba6393efbc05e, 2950177202694603),
    (0xa788c59880f31d6a9c3511a8064286682b01756b, 135551681726673875),
    (0x8ecac3596e5af81f4dd8811f67612560252bc1ce, 134915617258444849),
    (0xf1d6f1170f7c43ec61f0afac89a17c71618594c7, 127950026463285318),
    (0x54f3f0632e179449bb3cdd1d0e09b3ebaf16d22d, 29373138420518968),
    (0xf47abeac7b251609d78e176975d800a6154af9b4, 51941350178372432),
    (0x367bc1a9d1ef225307666e330e127eaf19b2160a, 19001784282744509),
    (0x93cd4c16c5463c0d1fa0de0817666de985f3312e, 33708747848221936),
    (0x92917666b0ffbd39d4ce4fcf2df1c6c4808cfdb6, 31386850131977169),
    (0x28e451413bcc9d5a1611f94760c1512cdd84bfe8, 14786477488378991),
    (0x17001ab05c4a1bb98d84cdd15058b27cb454bbf4, 13803187729304841),
    (0x8c8482c59227fe37ab065ad8cd882e811398eadd, 19998386156812972),
    (0x6719959b0e01bb3de88571adafe640c02694f147, 13748676878748627),
    (0x435758baa74aa98d2199d3d8c34c80e4342bebdf, 15864665987094300),
    (0xfa4b85fedafc0120e39645ee57a50604f60b4140, 8313053299768258),
    (0xa67a20dfc73c86f6ba5f4438d8914e3f6780d397, 5363042843660383),
    (0x7bfbc6b0af3625203b4f404e52b713892cf0b42c, 6560584354764785),
    (0xa8bc4aa37edf027afc3ac29bb85106cec2ce9c8d, 22418057629027602),
    (0x96bcf741c8784f0523558a761438043e21bf5edf, 49393936635266242),
    (0x707e4a05b3ddc2049387bf7b7cfe82d6f09e986e, 12551275569081684)]"

definition claims_data_27 :: "(nat \<times> balance) list" where
  "claims_data_27 =
   [
    (0x34a7df36e5a098dea126072661fe09958f72f8d5, 13440527614990670),
    (0x996439f5e170e4ec4ebd398201f68d2e6396fb20, 4446670754860594),
    (0xd4c5fe9c18a3e9272702a35dd4da5f0cb7ccc62e, 151349049323750378),
    (0x949e43fc153b4b6b04c270594bf864ecd25d8c36, 15756467079729288),
    (0x3822e09aa579c509cf8dece53de60fbce41309ee, 45123174342735895),
    (0x562a6c4316478008ca76f8f7c4b364e9b4e54aeb, 16007810998815897),
    (0x556789a19e324f7b385595bf0016c2f5a041fe0f, 17450039607037492),
    (0x7a786bc576ba63fc5bf248b87763507884a83a0b, 31217397870542596),
    (0x078d011fe3182515cf3367426c59297e59469703, 27592386370729599),
    (0xefd5bc0e8448b5c786059e58fb6940c0df6462c0, 13824727889159455),
    (0xca3866beb6320301942773520d830241ab543762, 27561964654808239),
    (0xdf7495fc2eaf599a8105044d480ad5c97488a5f1, 16262856936020582),
    (0xf154f283691a3dd15a396f0e090585e85296e171, 18023911740599035),
    (0xcbd79b90a9b6a09b22d463494a474062f47cc4cf, 56302527681592444),
    (0x6516f67345e46f2c1a69d0ae8c8dcb8f245d5dae, 8982584650376129),
    (0x4202c1cfbdf5efb873f5fdbad4c9cdf45b76cc75, 139720400389215828),
    (0xf596f9420234ad8ad4486518113680fbf4054420, 12854349137609542),
    (0x945813970115558e0fba48330f7adb768ccfd556, 95787174932243188),
    (0x4613eeaa10746596db2043046d47b52f00604cf4, 44026466122663465),
    (0x8d9336f81fcd1c3512ec33ec67720acc97d09b53, 16947274988329406),
    (0x931d722cdf1d25b55d72655eea7e34667918cc40, 93221411401568500),
    (0x32e8e8b95e21ab7993214db968d14ffb9304febc, 16040088072233765),
    (0xae1e1f5a074f462596004fed5624b8f4c40cd18d, 8274397340245412),
    (0x00a1b46319be9163b8ae30dbe506235608a563dc, 325685207692315933),
    (0x04e1674a6bd75385efeaf0958f2346ff8debce6a, 174437790237419173),
    (0xdc4221be9dcd88fa62c2212af1bfb92e625aa2ce, 80584663190254583),
    (0x22797541d421c3c061b4e6474e84159363e75ee8, 9717850738946370),
    (0xe9473bcb6a38f54a0683707b88f26f88ac043bbe, 8570983061068977),
    (0x875736d184d1ffdad2bff96be0b7d6fab5973736, 4985291393210442),
    (0x782165cd7b35fe08ccd5e6140c49022185d77fd3, 5363705222821861),
    (0x8964335938d19fbf6f7d3989acb80f59f59f59d3, 5935344336167808),
    (0x64987e6ce47a887659461073e0893ad4ad7819c2, 3991688926261068),
    (0xbc99e7262738efc74c88769fc893f34cccf98b47, 19479776166146851),
    (0xc6521481b7db3a707ac846a0e6fff68e3d643c4f, 17761840463275247),
    (0x7a381bd661e5442f10de73700dcac29be4077fae, 7980702992241134),
    (0xa4c6db0a39db92b006bfb7b96617e960d80c4d22, 4613498965481606),
    (0xff1af0a53e270d9b2a5b206aa08edaeae58d3387, 4096450573250939),
    (0xc2a67b844c8f7743535a033407150e390c08abff, 5280669472639660),
    (0x92f15cbce433fdca0a87fd778e5bbbd0b3d7ee0f, 23810528688356565),
    (0x1ac7b8e0f4aaf3c13d9e5dc7ee7669defc37580d, 157078641213713035),
    (0xd3aecf9e0856822bd320873e905ae9f78a2977e7, 5947518101129138),
    (0xdc3002c1455d7241898facc4c522e14ba56d27a3, 1155291359680722021),
    (0x6c348388696571f7c7fc35346104a6ea587ef71a, 1745179162106691),
    (0x3c4a2de0412b409e62bdbe2cf3147e4916d084e7, 13410059037560212),
    (0xa7b3b7ce980b245dbf7a0c799da11d24cf3e579a, 11579880379437279),
    (0x2412b5303fc318994ddecf3a32b76a3f7747f8e9, 16650789815675270),
    (0x765eb49301d502cb077b677f42e0cdc8f9537274, 41490559581148687),
    (0xd2bade5f4ece4814f77b5dcb218fe273c4e223d9, 14678500691716971),
    (0x4c41426370b0f3091606101bdf619991f0a4c51b, 10863620550264185),
    (0xdcdb8ccbde02e50b292b283c1bbf12272861758e, 16147302669871586),
    (0xfa55de00c27cd62683aa34574e9dbe4fd332fa15, 10193629760853374),
    (0x61c92cd5bb35acfc45e12625c48e15f7970efc86, 13205212881186768),
    (0x4d8cf13aa418e969c63870c5b7bfe38f91a1f87d, 40101688197574698),
    (0x49e85648494fe05ff50b696a291cec9fd05401c1, 2516426924567583),
    (0x3288338837dc90afbb81a93e5a9c3c5688436e10, 16846721806873894),
    (0x61e0841d103d77325e7743d1ff7117efe7c2c9f6, 37517687664560638),
    (0x8f8a0f11640e63b12acc1317f3271c71631fbbe1, 6759397771372564),
    (0xc9b30b13f82ebc646e85ac9e005a73b93c9f6f6c, 19314735735348143),
    (0x226993746f13b2af6417bc2edf70f96c8f2c379a, 17761703421997203),
    (0x3b9b62d8a31ab5263c3cb78919f9594a730e2576, 6386916938612335),
    (0x978c64e04c0e4b18d0b998d75ba237ff5f9c177a, 2532692018605661),
    (0xe9061db349e0925084e99c02769a119736552ba7, 6178386823485413),
    (0x359453245edbe33d7f7cbf5723a681d6557f1c1b, 16130739771933489),
    (0x0957e08cdbbc0e99ad1b2874a88af2133b5a4d42, 812475798889887775),
    (0xd1222845bcea727c38808d685426ec1ecaaf48b2, 7161639928610866),
    (0x0b5d1a5a58ca0586cd33050dbc51927a25f32081, 202018342346459713),
    (0xa2ef23f731d07f318d3f4613737278327565568c, 5155367443453920),
    (0x84a8bfb33a2657ff62e9872305a2cd4833ab8820, 32146984588326176),
    (0x82de8dfae77b2601d7b3f95864a01e9ec50bf42c, 3802923459167281),
    (0xe531cb0eff850d43fad34642bf8b7828994767e3, 12293701757519984),
    (0xdd49a4386831edf87e3e34ee6baee4ffd0167f80, 27723622098765073),
    (0x4aec3f18c8ee06fab59f129fe253a83e79534921, 34198865339072073),
    (0x10f24fbc2a4addf445adf143beb5e4236319f50b, 14258142207223015),
    (0x2585c961df82972196023a0bd4404b66b2fc72de, 13147992117483386),
    (0xa0f0809cd5c8ceada1ed79bfe8141b5b164c02d7, 10065140115666507),
    (0xc04be3860e35d34d12995f36d41306fefdf63455, 14461752443314070),
    (0x6a0709f934304d64dda6c207326f7a401be9ee9a, 10208000000000000),
    (0x31446adc6b6f116a8361c14d8a60109878fa39cb, 8877046985417091),
    (0xad8d4346aaac2efec4d08f5d2ded139dc9591115, 12014738072982329),
    (0xe7a480f147004cc112b9761691e0f22c3ce243a9, 512753445871258933),
    (0xbf32356c1ea7a568fdd94bc2265bd046a651ed41, 53527917337338430),
    (0x4d16bd2770e94528febf85d2ec9d54902f199508, 1952525879424371),
    (0x3db9ba4395c9a4412c3b0adc9464db5f664d910d, 24180097132979355),
    (0x2eb15511994346520f18316fd115a4e17f061501, 3206910472071277),
    (0x365c9173e25bc7cfd1525e7383142c6bf63e8532, 41111880366034325),
    (0x53b653348d15effb54e8cfbf53d2987b711b331b, 2478571739590742),
    (0xf8ef2f73de4d254cab7d37e4e3f63d9919a85cc5, 174706649453550011),
    (0x3e9c2ee838072b370567efc2df27602d776b341c, 5128657448157966),
    (0x6f7bf13e057305d04abd72e637e491cc30569f43, 24088095222131639),
    (0xcbd082b658deb44b6793c50fae897688496533e4, 16176773810254101),
    (0xf1785ebcd3b403505065ad46a946def169d30aed, 8708540124150158),
    (0x6ed5c6ab89b0fbd92cc4a81ae63623aa83bec7e5, 8320128891922064),
    (0x648be78112f11f9a3d0afcf304d963b3b962bf56, 101725433063958899),
    (0x3941a2ef69c116a505646109dbb918d665c4c58d, 22303628447229902),
    (0x0e7a887ee74486d3ebfae647a9adfb3ed5270e29, 16478689380278238),
    (0x954cd09cf2868d8b1154adfd65c054706e5d5847, 16745607944795736),
    (0x45b4dd0d46f49a08a4d1941c473efa3c727e6dc7, 20213756101945845),
    (0xcca08e9c4d454751069db63d2b6aad22c48f55d4, 14279185030809944),
    (0x850bec9166fe87528064648d54568b9a13cc7fb8, 4883703285984816),
    (0x6695f50eada6069c8494d65654e52f4c8e43b0bf, 163151882514554162),
    (0xce7ce61413a1d7be3ea83af7fbc59662edb6aefe, 11017746370900177),
    (0x08a17ceea329b1e97dc0bad32f8dd44c46ffd423, 15733642053408466),
    (0x10d06df6dc1e8a9166b10522c0e8ba86965ec57c, 160797905107474838),
    (0xabfa659012b816c620cdddf70cb262ca9f29cbe8, 223647686130049196),
    (0x570eeb522cfd8064ac13d39a8231ce5803c4e28e, 15818863503959147),
    (0x9d9bb109d2fd190ce0dca0c445c881b18f2c7a27, 48914380718010531),
    (0x18f768455e7f5fb09fc491fd86bcc282bcdd5973, 79653117891477984),
    (0x78fd37f7653bd8f5d7c13978333dcd868f8804cf, 9222770169310843),
    (0x9c20f1319f36019963057b8c3e5ad388cf42a9a0, 15964044185015293),
    (0x994067c8fe8c84548c4a0c8838afa905d339851a, 42525902497373798),
    (0x7f87b62d12e54082bffc61a52f194632fd7fb7b3, 60916449164074939),
    (0xaa391b954f9b201d12e316db2f979cd7c460d0f0, 30141212728037083),
    (0x9a64a1302a5171ed4863c4c3962745e9deb0a900, 45207783478573855),
    (0x046c8e2dcc43ca92d1a1b11f23bb0fb99fc9df14, 24394232746924792),
    (0xd2174c91f66f5e949fa54b05f8a056ffc745c9db, 32529854813664724),
    (0xecfeecaf65a2494f241060a2c22815c99d5ffae5, 16405446834915256),
    (0x35d2eaf6f3a3780717a61f56d30102e929fc4362, 21408606696369116),
    (0x3433c17a157ea1eda6a5f286dee99bd1ca4ff091, 1239580695696767),
    (0x28b5800be3e6688f244fe2eaf6fbc298f8908c01, 39246803162213673),
    (0x966f6fe682c3d7d6fde575f77d27232beb871bcf, 8491977994025133),
    (0x00db9c054da9e66e34810d274f3319c217ef871f, 85190985269277467),
    (0xbf4ba0539634b1d9fa73676e87bbee674ea8ecc7, 24653786863026472),
    (0xa37f735256c8247c18415cd67da71dd10888e392, 8096700921866238),
    (0x902dce77c84e6e781a577cc93e03084be6e61cf9, 7885000000000000),
    (0xd2d184d29b8c8e646bd9a3570a7c6b0e6d88d701, 50355433684459839),
    (0xced29ba48490c51e4348e654c313ac97762beccc, 13098257018662925),
    (0xfdd4186383fafd6bd41d0c59ed84708dfde004ff, 2648940730650796),
    (0xdfbeea9ca56c75bba42b9bafad767689b9135c56, 16215913857560371),
    (0xf8aa34d345500fff8b52367ef3a534945a65d5cd, 56460218988425016),
    (0xd66aef419e23d5e67e059896befca58bd57859b6, 1607659615786399),
    (0x6e87b9580d7407644311d11e9b3914689ec6e5bb, 18216632353764725),
    (0xd7ae7f0a87780c5cf2962a6a878e0f557f56e0ba, 30978652749323909),
    (0x1dabd98e0047ef2ec1f3983b77910762d01051c0, 14507452838451718),
    (0x92c7c13672e4d83ee53d07fb651a46bc1951e6c7, 3860130761144304),
    (0x40da9490cf493685a42356ebcb7aa7bb40deea18, 15735940937996618),
    (0x01053597869b519460a2ac9bd30de44d23ba2b38, 3563882359638497),
    (0x0093e5f2a850268c0ca3093c7ea53731296487eb, 622958099062226150),
    (0x03168f12ac9b5f4c1c8eab557f5617643cdc63e3, 27272623627678907),
    (0xe83c766d06099a3bac2bcc815d839b095665b244, 15723489607533876),
    (0xb39c00f0ad385812d9053337541dd6eab58e29af, 2556711076235801038),
    (0xef528a38e3f80c2f643eb29e0bf57a45fbb610c0, 1358663473640000),
    (0x8d8e40a25bfb24aa4d89643d0f220ef13cac6526, 17056680057075015),
    (0xdb1d5d5acdd6a2233610884715440c92cb0e85ca, 9463000000000000),
    (0x8da4e44498727a66163febb5b28063a630966a87, 7446501103158532),
    (0x3893df6745fa8364886b4769fe461c672e4d6bd3, 27765812779873602),
    (0x2e7567661eeb4ee1ddd6a694d214060c43d849cc, 3872246000873439),
    (0xdf0ee2099705bf218be09db0f786ca1b8cb54a94, 4072576165371382),
    (0x4f62e05540daa84417e49e7b06be2c48482d909e, 14594038266341698),
    (0xdc67d5b1ae434e5754a3b6309f50c482adecca0a, 5229829448864968),
    (0x2484bdeb7a6f29def89a631379d528b941ce6794, 1369367073251034)]"

end
