(* ===== verification/Claims_Table_D.thy ===== *)
theory Claims_Table_D
  imports Runtime_Types
begin

text \<open>
  The rows 4201 to 5486 of \<open>src/pallets/claims/src/claims_data.rs\<close>, in blocks of 150; \<open>Claims_Table\<close>
  puts the blocks together and says how a row stands for a line of the source.
\<close>

definition claims_data_28 :: "(nat \<times> balance) list" where
  "claims_data_28 =
   [
    (0xbcdc432e0b63dadd48693047f5381abc488989c0, 3154000000000000),
    (0x427e4ef7ec9bdec63087fb0c023c115319cb427f, 9722060721247164),
    (0x4fe686b423de03d88c96e93c90fafa9567a010da, 20176215307197952),
    (0x32e49dda638696b15ea3199dbc7441d18431be46, 32387232533733035),
    (0xadaceff1e46c01588a763fcf933f5858a076030b, 3963839968722421),
    (0xdde39a0150a5fb4a92cf2936d5c5428687335a15, 3726059645250792),
    (0x7e6f711e46aa8a02980831b7efac0fac5a5317dd, 50405345288785739),
    (0xaac260d3600418e4cb03fed1e01f8aef49e08b94, 329561487623058121),
    (0x15510a9e0cfc01b620f816d398fb9289f359f2bd, 3606280658546964),
    (0x8e33c8a86a5146fb7657192c00df6e50c7316072, 1962360102418531),
    (0xdb21e1b8a67bbd0a25588005ad0a1d2714ba4fdf, 107639689307657908),
    (0x15a9db352f88464e435f72ce575bfefb313828f0, 7740650462914352),
    (0x6744f8aacfd3886685156e15d6a91bee9d70ea4e, 57189794597112303),
    (0x1a6c5fb4e3850ae7e0a9e78b45d6cc5d71710bd1, 10000000000000000),
    (0x30086c39930c0708b83e2c31ee080505d843ac8c, 17000000000000000),
    (0xdfea78f8f63f81517ebac75ce20c0102593f8a6f, 20610055718767853),
    (0x3f74f5f20a133b4e8fe8f7b3ef76cfe6e3269f13, 10000000000000000),
    (0x2a07ce9aa0a3ab2674fe08e08e65a60502300c4d, 46304379727341196),
    (0x36a36cbf4d14d820385b1e6c160633319dacb546, 8231340000000000),
    (0xd8d10abf300356c7915c8d5db33f0fbdcfd603c7, 8242880000000000),
    (0x8c898bdd72eb377f7c17497e6bdfcf6e50ba799c, 16536910000000000),
    (0xcf8329bf7738d00bb3bf752458f5b6752f6bd235, 23057691395958933),
    (0x91e16d64069d795c07ebcfbd02af9f2a896d945c, 324896923355427319),
    (0xefb5ee1ca5bcdbaad95020b7c1877a7db39382fe, 16495670000000000),
    (0x959ac217c8bbd4650b1eba5b927f329e37ffeaa9, 21833925853550348),
    (0xfe202706e36f31afbaf4b4543c2a8bba4ddb2dee, 1254825835887563067),
    (0x1d0c47e61d3d3a755f841943852a472309dff6ee, 80135871362032166),
    (0xf196a5f93e9902eedb6df7754347d4e55326bbe9, 48720914073552243),
    (0xed96eaa7d15951ab128abf8918a4d69f0eef9905, 8660647095670065),
    (0xab3454f4198940432f89872023ebbd64495293b0, 19728177746268442),
    (0xbbdaf6743d64f8a94dad7a3be733d54794ccc730, 7361013540326820),
    (0x214f029e872a59cfc223b5cc5959c96fd53cf4ba, 16613564842194588),
    (0x07037fb5c7b83d18464500d6d03992c633077cea, 16660340581855409),
    (0xe8bb7407a2a675f2a5a40e39b09c872360f3e571, 25481377472118818),
    (0x318a11fb434333de60b3585428cc888ea1e22c67, 3946535386392235),
    (0xc79d919df128d9a708b0362a7feb429b3bb0ec37, 35003487509919936),
    (0x61f9d3ba171f20a1d3ab4ec35d19427ab60ab49a, 11423037958844653),
    (0xdbb2481bba6a9e03b7b5e125dd8d9f471f83f44f, 28531301213336882),
    (0xa7d22bd87bf819c4597c2d6cd18f52c0c4a489ee, 31338140069233537),
    (0x46fa034716531f54a1bd5fb9cd9242adb27fd37c, 5342331858235931),
    (0x31d22271f26ab965f95c19f954dcf4134bfd607c, 16309445387398673),
    (0x859b35e32e45c54d5cf8e64acd6ee0e529578c33, 16910139235416407),
    (0x4129b4337d5a2f7278a02ff15bb1e4e548d8ee60, 229435403995963778),
    (0x0517c32e3f3a727100278abe8421cd1208018cf8, 8328513832828053),
    (0x0892f8fa07086b8b326cc50d6987414b59a921e0, 28946278079710292),
    (0x003b2597112328adaab0d1dfa26ebf352ca2860c, 28393358077326225),
    (0x7417fed8a599b7272db01850b2d2c44cdc7d3e88, 4225917434544352),
    (0x19c7951f1d679b8d9547e1f4c30502d7072a72c5, 125840873282048533),
    (0x4371e619e9a4a15600a09b1e17a13f0699c78838, 9078511752470924),
    (0x60d94f2c48e212f1a35e1fc7ed28e6b2cc630691, 9636302755537810),
    (0xf6f26015f0760f7a4b7f93e765bc48883daf79a5, 407217580142514541),
    (0x637f73d1021c5dcc42a0d4d64192692706582127, 13485388951053141),
    (0x174b8dbe56ea91e2a448c1cd55a7d96a9fd45c5d, 237525472235480462),
    (0x200c233de55c1e2ab271edb87e5abce150d637a0, 130632334413659633),
    (0xc9b390c17fac328f9dcd35cfb786304b446c8500, 10820353513173172),
    (0x4f5c500029e772efeb07e2041f1369d8e9600820, 57924085782388407),
    (0x473e370fe873c82cab9038b6b8ada27391782c24, 201532873707157081),
    (0x39713aa1558c48dd795b53122c8daf4489dd4475, 21048962219092418),
    (0x016b6e1a9d05ac99b8f7bb5680a20e06489d43c1, 28435284432498979),
    (0x77fb402baeb27d6a5ba82e636dcbe045b3865708, 6237718676089827),
    (0x424c0921a76e8afecb0956ed4bb0dfb945b30b69, 129484321794390265),
    (0x362738d7fd4481cc57e744a2b1c3ef2a772b8016, 5240202119492078),
    (0xd5f6d074c4a2a14df7fa8b06925f50bf447e561c, 7182500000000000),
    (0xaa987b74093a631049f4734b63d34e188c27e662, 49095437045620194),
    (0xc82fe0236e0b66e0fa1ece288e4276f9b0bb0952, 16588824254218678),
    (0xc23aa2b67b97230e169210b7af23b22e3b8d97ce, 11616169275291371),
    (0x556bc0428d14474bfd6ea346a66e7d9bc1857945, 16602427920120845),
    (0xfe69fb531698b534a2bc895940c5d37876b04db3, 16732417304571186),
    (0x4036c440e7ac10589f517e03339ac50f930218f8, 19438141869603064),
    (0xe83f16235faa296e53402296517eeacfa479fdb0, 2244149446740693),
    (0x1d7116e7839cbb1305861e98b06faa4100a34fea, 13535663944805074),
    (0xdcb7bf063d73fa67c987f459d885b3df86061548, 2482948738325214),
    (0x80440c2b29d490fae0b8e4ab09e6bc8492a285be, 8292522025835294),
    (0xea89139d7a424a46014d4a3a51504b4c93811888, 1786668417341197),
    (0x820b45a13c455bec7ef1c287ce77c474343214ff, 16234919082582877),
    (0x54b7f8fe8d3aaeeb115d2ae1ac9ea5d6b824e2dc, 9755003322173792),
    (0x08b89d9dfda473b1209f0f5e31a365fef8a25365, 21251791103125772),
    (0x3f124fdbf6429ba171080c8683db5ab10e818bda, 7885000000000000),
    (0x68320b59d83b9fe7186ed6850ffcecebb9f3efec, 14579892679018522),
    (0x167e3cf750db30be0bcea3f462d221dc8213019f, 111921476530158543),
    (0xd0abe36e36f7aadf2d0642e4dc868e0a679eb2b7, 51276691097118763),
    (0x413f9f014f62c4ad3a44bd8812d1990b2ce13fa2, 11725090630065388),
    (0x0024ec56c9ae9279ad4458e3d0dffbe2afd5f4ae, 15712239095719243),
    (0x644c23a5933e99c8e07cc392ce9e142afd808ccb, 12742372780275126),
    (0x20f965fcf307ac1edebb89bf16c319fa4a29eb5f, 26389738232457674),
    (0x3bdbc4e816d873d893909a9a3fe3759195ebe393, 17397747194197684),
    (0xdb0ed2cef8c83d6d7974855bfb33d744b74ace8c, 25618223505973789),
    (0x7e5399b7a9b6c29870e4cb919d407ac2d4cfd1bf, 16315131402830040),
    (0xfc1199a5a915a162542ca155d432955151202f0c, 49239942755416578),
    (0x49ab4c577dbe72f58e9357948a6858a65d208aaa, 16415086028807938),
    (0x9e2cecaa997354b01888cf2f43946ae446bc1c34, 191418821564213386),
    (0xf601ec0cf1320f49a653e9cd62ce51a66fe1b77e, 1516355007974243),
    (0xdca4acb26334bcb24b35a634bf7b81cfe6d03109, 16537404663224837),
    (0x267366675978218816c53804e4a0c1b13cc089ab, 80495696441078761),
    (0x93ec9a7e759b05a3c581902d53fc5a8c6a792650, 7100009055021298),
    (0x094363100ff589b142ee74c8c90340c388edecfa, 158790701931430086),
    (0x276720680d749cfc956fa7e791b4fc86e042ecfd, 96788424630829424),
    (0xa056f7cfe978ddceb9b4189ca80a354e1dd0fd54, 2430448796327991),
    (0x75db1343f179e8aa09b7ceaecc40a1baa8f49fc2, 8803116649371914),
    (0x1bb6b58d409e1dc16858bace727ba8d07526475f, 70319234605135421),
    (0x9538b89ebfd04a97113a2773656b844e367b1c7d, 57917768030536952),
    (0xe3d809058c84fd0decedb0a334124f2bd9201c15, 5882971902658071),
    (0xe5bc0291f77a4fc56f96cf3fd6494ffb1cbf2014, 126408951737463306),
    (0x1d6861d1915fec9bc26f7aa1a705a92e20ad7193, 4268905720583236),
    (0xe5ffb254312cdf584c2f4c29a786e71fcaf46d53, 10592140887009919),
    (0x8f2d02c7fa2af2d98e7df90b37b436056a2c3cfc, 80883604890376750),
    (0xedee3518c7559b6b0ffc2fbc8c113055aef5d2dc, 28405595127183310),
    (0x7a64d3372ea2c7d9ee8f691cd56881fa28353d9c, 14000000000000000),
    (0xfd74c809bcb407c2ef7dd38baabd793918425923, 16382258528818184),
    (0x459e978d5af10211181c5d8e75193170ea1ab89d, 2173740375985820),
    (0x5141aadfa0021b617b387310df717dcf9abb0fb8, 6147530681488249),
    (0xbce0d1bec3b8da0962382e4da1cbd8bb3a000e28, 111751973889636401),
    (0xa40d518c421f55f866034554f8ea70cfcf44e7ce, 15931549404275603),
    (0xaadc98efd5bc1bbe532e679336b195a28ec1aca2, 69502436578192599),
    (0x7dfc616f887218c7df9895126df3e527ccbf9282, 58397404956293048),
    (0xa89247b5e264fa73b9cdc3f624c0494b64534c59, 34164248404689633),
    (0x87f4c56fe8ce7ce613596ed6e150b5716b4c102a, 9755723648763617),
    (0x6554453eda389db9eb84637fdc6c634dbb752c44, 18105726730144418),
    (0xaf9fbcd63b1badb9101cbb49be04713f09f15dec, 84590829083197684),
    (0x12bf116b4866ebf559c391a78ece0ff44f06073f, 5312343340346540),
    (0xe740a2e455e276e709e6206f4c819d782fb25a29, 51071037717812503),
    (0x08ebc24acf55520a8567d179cd8aedb429a5159d, 82764726714234456),
    (0x5aeb7a8fc9d56f8cfd98078adc0b4923dcac3b56, 4360243096152966),
    (0xfe73ee2acbbe1b9bc4f5ee6b322ed5b7b7bacf8a, 16748420677273291),
    (0x8ba2c419e63f57e4cc3c9f92625824af8356803a, 8646952008310141),
    (0xbfbeb53513e995137afa2848de8a99c0e47ea0e4, 3573357743840851),
    (0xaa0a640938dc8b80e99958bc3dcd730142c47318, 102247032351260621),
    (0xe19a1468964f564de70f49c42e4964cc33e3ac53, 17713854213638377),
    (0x49373c9b31644bae4bb62c13e5fb8ba237b4256b, 11061713128546124),
    (0x1d3fd985f710584f606bc29bfb1e3bdb7ed82de6, 7908473238991998),
    (0xc550fffca4523f06341d5d11a02f9e7dc8cc3ab1, 10502446171338812),
    (0xa698245a5a828decb780594c1d5ee24c8b467214, 8472212756179333),
    (0x3a5b97c5a85a60dd32501f8054de57e84128dde4, 49816834763930177),
    (0x39f90a849fdb412c03c762be37e96557848b162a, 8616831440240917),
    (0x205b5a3cc04bb25f5d07b22b8a1a4575704f6af6, 16424006561519163),
    (0x0cc73c95f50fbe01f6afeac47810663433f5766d, 281780012568321718),
    (0xfe9c1de5e9a01766d5c9ce53c600db867c67f11e, 2913792161928376),
    (0x96ac830238f4909da346ddc9e1dbdc2bf8041b31, 13404525795425251),
    (0x4fecc48f1a3e992ac4963bad15a3abe08a14ac59, 142792237844146037),
    (0x5e927d6d547254dcfab48c18b2314757ab931150, 6087823585156796),
    (0xe55d5228f9cc5b5740a56923a57c456b177ddd51, 644334705707262),
    (0x35b9d617c218ff3a067094de99c93b22f63d04b6, 706082812076041),
    (0xaa809aa3ea7304d596181c762410c3c94a889cf1, 706081602466470),
    (0x684371f2eb461553b4664817c4b1fb191569b6e4, 719080249857053),
    (0x588b3592a300f9554915e51d002176e543e53923, 9199323132044738),
    (0xbd02378ef2798f3c087711edf20a1cf8e9eac3ca, 719047348079046),
    (0x24731ad877f183fbf7a401f8c8613c2a60039be6, 706046281640487),
    (0xcd2a25309a1cad20854051c34c7e1e0d4f7b8c99, 719044929197543),
    (0xf45e70de588969921f9f7a9cefd9a7e30cf7aa1f, 672569231007955),
    (0xf3f6d0aee59d93945119097696ec7b838d696416, 670293046607319)]"

definition claims_data_29 :: "(nat \<times> balance) list" where
  "claims_data_29 =
   [
    (0x10fad0e01a5c0e34f70d4a6c44fe8dbd3710f4c3, 670291837186092),
    (0x48394f944a130a86aa303f5c913edeec041a0a72, 8046919245448076),
    (0x2196c31cff0a216a4bb0aac69832b3d575c58ba5, 644263139741943),
    (0xe6562df2147cb241f80a5ac8e9a711ba75345f35, 644261930463166),
    (0x751261004fc7706b828df3b4e60efa10797cf45b, 719009894169015),
    (0xc5a6c7f042c680e3eedd0658ea70d67a4b0e6a03, 644259511922190),
    (0xd77f94f246b2817242872d225a345c4c70d09d09, 3478335074748843),
    (0x919f9325dcaf9896111444d11080de645d68db73, 644246573114279),
    (0x77c60650199d07ca6b3a90ab90aebbf75122f0cf, 644245363913270),
    (0xffa7fa47a24c49c03bb97fc253daa621b6c94d13, 644244149976208),
    (0xb69c2b724d774ba45295aa1bed29a976150218eb, 34789934878258842),
    (0x825483c3e50568dc4722627e6d390c2061e2eb52, 16497200365162353),
    (0x72eba2ba9008ae8c3868c35a02e72140407b0672, 682422911500363),
    (0x5768ee6c89daeba8bdcc9ea292521886d2cd909f, 11231888920363539),
    (0x8ffd66baeb5dec29fc1e44251dbb67d5298c453f, 640765243652768),
    (0x79e01aa66256690ac174c090d342863c72fbf55d, 696013427040503),
    (0x76268e7b124f7e1562fc3396c27894b98cb6ab47, 26652953920364150),
    (0x6b2b050f9d08b409c3d19f4cf394b9429a06f132, 689163675108999),
    (0xba21325681ffd7d623993a2a564f6390654e2948, 13566099107268295),
    (0x8e7bcbeb89023189e3b99d0f34c9bac58043ce66, 700329503991463),
    (0xae0b2edc170b970ee3e9aeb9025ab26956f39f68, 700328224600237),
    (0xdcb136df4af0ba9d4927b76aad7a71bf197ad050, 84432507150487917),
    (0x026279c987fb443967da35b82d8ef1b05ff25258, 685886133503667),
    (0x9312ce1825e070fdd04a9a71f27701758a78e997, 685884857915799),
    (0xb9e944f60d7fefd9a8f4e7c7333de4b15ad309fe, 4120686587536485),
    (0x13b2ee4b9b1242bc15b31981efb7a16323574329, 685870160086366),
    (0x8677b668c0096d845bee91be727b48b93f9c966e, 4321652181393640),
    (0x4b22ab661618de235bbcf8e8358dc4cdb9b1beae, 685602645330113),
    (0x370138bd28d27dbb0a438f553e056217835b6363, 16970249226534394),
    (0xc097236f9333f238eb9726e1407c726e22b0f2c4, 686189060433939),
    (0xf3d048b2914c66be26b901fb47b9dd1c74b69159, 680005506739881),
    (0xa7bc6b9e04b80e5d948d05bef5bea725260b039c, 1288898361788305),
    (0x7b2818ceed128dd779f5567eb39d96920c9b9244, 174470586835932667),
    (0xaafdd768fa83ef7af0e19707f2be9d1db1924766, 3663450133509021),
    (0x9f71164820780818bd95d98b265a0f261502df8c, 13971036386588988),
    (0xdb1057846f3a4c62e8f8545b1db50231028253bc, 22057060033472417),
    (0x2037255afc8effc5c321190d611938491e4cc83d, 5774201068141483),
    (0x27e70d62185a78e9811632c1ce8bfa35606538fe, 17587232364218353),
    (0x351e17de911fdb2c0fb4bd6950857e0d8e0a84be, 82966050452498792),
    (0xd7516c3266bb42c79b87e47c389e37f08fc26c79, 29434252759256262),
    (0x2d78c393caf3f1b45fcf44aeb8444db5bfcfa623, 7214342598341654),
    (0x28f26cba9ac6baea9fa3341038ac5e1d64fcf1fa, 15099294823016969),
    (0x4c4725db955e69d4284e4466eefe0a38bddf4a90, 1554382873697201),
    (0x0d4a203081651eded62ba05b49e175c48b47714b, 20307450746819658),
    (0x26bfc7857f58525c95183a20d11ce23b83762211, 3785598748986100),
    (0x7a3518fe642b11be76db809ac5df64a4ed0855ba, 39214880597374901),
    (0xa6cf399da04e528ff5997da8b8bb42e1bf36a7b9, 9830543302914344),
    (0x4d7ced07c32680f507cb763e6eafb462b416fef7, 9402538999749049),
    (0x8fc2236ac32307df8ab5116024b5c73827c37ceb, 5591128546145870),
    (0x290e22391f2cfc3a21ce2b75c77408f50b138868, 8555058399861768),
    (0x44de68871ca3dc1693cb58658813584b6db70e32, 6384904109921614),
    (0x52b5870a84402edfdb6ac24e4ddb8f8083f2edea, 16189093977065567),
    (0x0c31b6605686aa26df47eb45af0e4aa6639a5fd6, 24939679371435904),
    (0x487980156e97896ccbbfaa8957e76e02ed1855c5, 16643006201453064),
    (0x91fefef3b24fbbed50389db0b7fc7bd7f21e0c8e, 16761863567500655),
    (0xfc3628072a4566a412ea93937169dec1ac4d64de, 8444209531971330),
    (0x67f92f85e1fd52cd21fdc7a589011e61a8d23a88, 12015929345912945),
    (0x5bc124b3f28c301f497d3d44eb5c3225651143cb, 29435154849094258),
    (0x48518cf252e51872a57b872d41357c4e563b0413, 32460847519762077),
    (0xab2c57668cb7ecd1cf27f360a89516b6a9987ef5, 16787681060752050),
    (0xd74fde529a513d5e4b572d1c419d67044308118f, 82826511219647909),
    (0x238066cce6492c3ca978e2fad053b0a39274e754, 1629771628427957),
    (0xbe3fa236c2467ce30861504b5dfc13b3e358dcd0, 14980657130651346),
    (0x64cea862ccb0395f7b0f2ad5bc63b0f299a56637, 37699160383010376),
    (0xa512b9728c30a855b5bb4a8ed1fa633994600caa, 25389145598897332),
    (0xa92cd453795b42e2886c4b6a6b7538ac911a8829, 156192159190910782),
    (0x07e1468a309b15f34ebc35db738d3e99d6d51a81, 58340931811879927),
    (0x6480ea310eae4097e985355da300f8712ff5b327, 10691711423466331),
    (0x39de77e0d16d007e916a86edc71fdc451af10b74, 33066026111959437),
    (0x4f1b0edf3aed704040f5f8e6437993d5eb278c01, 19811530729595510),
    (0xc1f92c14d8a6ca7f5d8dfc3e4bbd6b5aa6783caf, 2056633193007901),
    (0xd9baa3a44ad6f1c10a619a0db3a4ca75e384d62b, 123461588665700825),
    (0x086f51fced9ff6c742d706c319112359e3658b08, 21210553735486379),
    (0x6fa98a4254c7e9ec681cceb3cb8d64a70dbea256, 23517987012241154),
    (0x356580ed0926fadb3772a99378171e719f7f55c3, 9038214447282061),
    (0xcd11afe8d677aa74ddc67b4d840c4b59a240b2d7, 3360424830130489),
    (0x320e883913fe1a156ec61d48667d76fa5bffd992, 620086027558880),
    (0xf6357dbb1be91ec480c12d0740a709f4a5a84eb4, 5688501096238928),
    (0x11292d984f5511ca77a8710d0817d69318fabc7c, 17154670246872764),
    (0x088dc94cb4c0bc85541057482fa73be125c5d611, 76925057203533697),
    (0x239a583f92587e630416035e1017447284152f35, 42566922587236285),
    (0xd5378408191913a2298ee1292eb3c1c1b3d34b2c, 9660074386309078),
    (0xd1d16d63e2ca9b2c5c955ba34ec610b7ed509268, 68206165997742217),
    (0x42afe93a50c9fba4bf55de264da7bfacdbd2ec70, 12879785116927185),
    (0x66f0b8e98047923774f722e41dffbe688c494080, 5947089435866575),
    (0x84bc9b47ac8947bc9da1e0fb7680b50ac19a7356, 22318440875482261),
    (0xef39dc68c223650c69d5c6919113dd0062b4fbee, 10020347792181127),
    (0xe8b3feb2f9361e23da109213a8ee812cdf7bc5b9, 30815305830440908),
    (0xe72bf4da69a9248dea2afe6fe9529c09b345ae95, 88364707450516724),
    (0x9866241b15c06ed46305b2fa1ef15b169aa313ca, 8721045743171043),
    (0x2b10919b3e6c3c4fdff0f5d677c3d8b40055921b, 9024514467793456),
    (0x76f53f40943b3a88d9c8f916237647172d955b7e, 15667959739839790),
    (0x52fe6e33121a5489c9831d17d00588d5284f06e1, 10795379296441204),
    (0x5a9650f4eb72717f12c1d173347c094aa129d108, 8819912035771270),
    (0x6676ae96a46458f7307e432a86a26533ee970d1d, 15614168969513210),
    (0x031049f28b2d1927eb353ba072e8c37516c64524, 3638966352024210),
    (0xcb36fd9bf9e6be4bb1af8e47dbf1f0e120f08435, 330769258152434103),
    (0x8559941d6e93712dea6600b5521e0f9e821698c3, 16774796457422232),
    (0x1dafd495694950669484b79272744dccd98be966, 8980696889610763),
    (0x5a2cf5b6061de4cd3c5936a781621fa8e4d1fdcf, 17212979305931940),
    (0xa49c960f42d77ebdba21d6c831b44728cc71e6aa, 578738166958331559),
    (0xc47398815b6f3f4f4eecfb8f38fba6bb6cca1f54, 8676806119608896),
    (0x709296bbd1feffcfef090f3d66cd336ca0505a1c, 1767434524200936),
    (0xef2382c757a0f6f69a08e02157e0e78cf7a11110, 34189707754633602),
    (0x8b470694f988acf13996371099281edfe1ea0e1a, 50634543296072977),
    (0x92bef08ba97937a996d619671ac01901635cebaf, 2384632985422256),
    (0x0b78773225fbb1d14536ba12778f1d0599ed4aec, 34080713977239909),
    (0x9bf87ed3d81b03221df7f14a270ae7e5801be058, 84349523794945783),
    (0xff244fbe261d55c591dccc24cbd7cc52d8a224b9, 5728682207313022),
    (0x812f1f434fae0346764687e6069e8176c8601991, 31269535302233932),
    (0x1fb8c7c29b27690985ffb4a207b963323d4f32b7, 81771343209220362),
    (0xaa89d361ab13cdba221d9eb31804cf2e46373305, 15822237825063539),
    (0x5f042a4c12f598f777ffdf763125326d83e808ce, 7588691575816395),
    (0x0d6a9963f7b362c3d50cfdfdc9207b4d8e766c13, 23010832240690179),
    (0xf73745d6a9224acafefc7c484b5e65e23297d4f3, 25403986302264553),
    (0x2b6501b74149cbe243bf5897ed780253791ee009, 17419057313347545),
    (0x3e1ec4d12472f7ca877fa5e922ee220f7f615990, 2855716390530507),
    (0xd205535ce3cba632ba4455c29990190a8a43bf8d, 27665172992158113),
    (0xef9c13ea6b615fa61cbdec56c7b4978b9dd8bb46, 121869345887472245),
    (0x37a7093d0f588078c3cba105b8cdcf5c38086643, 8742676118904140),
    (0x83f9f8bc0777152bfc7ef885fa631ee7a92ff3bc, 902204299323413),
    (0xa9405926aa26d16e5bfe3b24ca905d8b4d0a6cd4, 285117255528388327),
    (0xd974a0df907cfa6c9413bcc79bf6b32bce412c83, 10482507552067843),
    (0x6ce4851d62452bbb846eca2151340501b86d1e38, 84899397224468784),
    (0xb59e333d0779096d8e57138533c7e5335d458377, 23912715068268406),
    (0xcfe871a19085b18c2d57d0810a2b43f027c68deb, 11962999703948782),
    (0x7c33403b57bdc4b74ef68bc4dea5d76740bd84e5, 14079559941530676),
    (0xe8f4c5afc8582f381d2cf5b4ffc652b04177d982, 2887333518764629),
    (0x718c8e761d26514e7b1d4f989438b9cb41b9e31a, 31964278689283586),
    (0x8f9cd88407f47d5d998352184219e0b7bf7b74b7, 8503837700314845),
    (0xd97bdf7e9919eebf05b187bba8985c78bdd5c3b8, 5842979018225545),
    (0x0eeeff44e8f65db5cc841e3a3d591499b74f85e6, 15771000000000000),
    (0xdc856ebde12fa43023a87702413ff13b3520320d, 3388889856072464),
    (0x057538b942e27e83ca97f09df2218c3197f20de8, 4987755536531659),
    (0xc0d95503a3d02583bd8d4e7521f459fcd6cb6262, 8744211668246599),
    (0x81f5229fa6267163f9169da276df49e9224d1f15, 29854238107921020),
    (0x70dc393f1f90fa02e9eda1ea138a7aad1a4c3d54, 15166957855578663),
    (0x571d5050e35b3350fe374791281aa1ca9e7d16ff, 2911675047263856),
    (0xd11e3e8815ab3bc592a032bd1b56b01a89d83a66, 4112932560842200),
    (0x1658d60cbb2d04bb6ba4c15a43394f85a9a0887a, 30844838807525479),
    (0xbcc22f7d6a49df2b081df31924a668959adea52e, 2081415817063113),
    (0xb2c4d35cb20b0d6a7538da5683d03037068b26dd, 7900397147182356),
    (0xf4e934d33e0994b8b63a9339c34365cefd453790, 6425532451700564),
    (0xd3884d878aa40ee715f42fd061695cdc7d77f402, 12084109586018329),
    (0x3b5e33914100a2aa5543fd03aec6b938feba75e6, 26189326583155601),
    (0xb5ab290e152290b6bd5bdb04e23236d3f9d4aaec, 101260892938712273),
    (0xeafe686acede4d00791473eef1a9b1842d107d82, 32832930966340783),
    (0x8cbc1b6787146038db66478590bf56ea004e0723, 7997252337928726),
    (0x3aac424c9da138e76ad999239cceeef80452b82e, 8769180670276154),
    (0xde0bbdb9b1787f09f9ff0f7cd222691f434a0abf, 42131718206026316)]"

definition claims_data_30 :: "(nat \<times> balance) list" where
  "claims_data_30 =
   [
    (0x43422b2dc244b6b6224d2951d640bd3a3f346b63, 30408181606266136),
    (0xdbae4bbf2b47aaecd46ea240add300ee5543b1af, 41034820196450530),
    (0xfceebfc42775d38427c4078a9d1a8160b6ff9a2e, 18773630337809248),
    (0x312d9a7df4905434bbd5fd8fff32658fbde04ba5, 12224383301488023),
    (0xf0cc234869095e18e6cbdf858959954386b14b03, 5264652178213616),
    (0x889b683a17942d093d796c815d32c253145fe87a, 30188268201399595),
    (0x7449716c37a646f2bcc63e40327dd9ea11763f4c, 17237120424585285),
    (0x9babecb6b416fb356c93208376f3566c57c2e269, 15334264104914668),
    (0x80137cbd0e76a035a78f501fda5529856ba1fcf3, 16970039914909424),
    (0xb28e5c62659e9bac95af79b277c4ebfcb2e9f7dd, 4723925067485960),
    (0x643ec336f96482e515ed516ada53febc107526fc, 16409523521154748),
    (0x523e34d215485740a7bc604c7dc117eeca71a5c8, 61040962102129608),
    (0x9fa621bc83f503feb6a85381867a06d7261b1379, 121143354373605167),
    (0xbcd89370db524b91f910a445f5aca6acebf58420, 7230463614096738),
    (0x8953c798a6f54ea8907875c51e5d466de76a1b26, 1312358828962400778),
    (0xd7fa1265b3dfe434b3d5884de665e96ca914f1b2, 914119620992809),
    (0x2d284d86b1845d7a6ab3f761ef3cecc88a971dd0, 84199085445371684),
    (0x1e1ceff4b03ddbc543922856ad870a58e32921a7, 9234670607176144),
    (0xc16362397cd34c1a9380a3cd613f9cbbaea75bef, 3348957496879523),
    (0x387c50f4767b04e7a41f0c365b9d563ae787ec40, 822977885107318909),
    (0x0103a4966daba5a947df52b0b892d8b3fdef5a4f, 200000000027119086),
    (0x04564e004c8718289e6313b1742d2859fa3994c8, 81347067932390410),
    (0xb2dc53ca5121e427f450106526918353a2e48353, 24965185868854964),
    (0x002ee33092457900515a4249e3ec1cd2b2dc8c32, 57051589750496699),
    (0xfba875200bb004cce4d47a741f4f1b69c0f15461, 77317382089659438),
    (0xd0f2a26181bf98c6a3aa0e0e5754c9d3bcae3d33, 12583574588907939),
    (0x39d6d81e0c1ed93b0a9bb29b31240180609e9f49, 24312801340726498),
    (0x847dcfdbd8bc8a512a93fca1938ee57df8a9932a, 3927799997220049888),
    (0xd8259ad6b36d4ff52761201616aadc8c41c07326, 7006887522232947),
    (0xb1869052fe6e055b45ae79b0b59d15a14bba05fa, 36000000000000000),
    (0x996e3841361201686963684e7553d9b4f634c893, 11366394843972802),
    (0xd5d39c5d46d973c1c824877d9a583fd2e4a39c11, 36000000000000000),
    (0x0fbe38e90b42782e91de726c7d2b213c006521d3, 405145720566941679),
    (0xedef5d47b72b6199cf5dbafbcbc753d7e00205d9, 34227608240651451),
    (0x87715066daf3c2e0a05085a2f1b6087b90aeaf82, 24531472009572107),
    (0x188ada1c2362431a7a1fdc9392fa8c0d8983e3db, 7601984160906785),
    (0xc7e3720358944ad21a695a037c21ac26b80366b6, 36000000000000000),
    (0xfb4848595072930ce4a6f03c2558838bfc361171, 16633975092178908),
    (0xebf919b0dafb9ea4bf324108a142c64a69052d8f, 473584635111286029),
    (0x9844ec697c53b74362afe46524719083b56f93d4, 41541764288477167),
    (0x07b0ecea5e6187ebf264eb37d3cca3c2b526259a, 29387512383255638),
    (0xcb306220be77e99baa64fe5d4a72717b16077bf1, 6199202259466580),
    (0x3f971f1f709a3ad58b679938e637726d002406c7, 11545027564232278),
    (0x22ab49827f60acd19334e24cbb36a9d9b5d63905, 8291835347764622),
    (0xd8d3d8ab22e30c5402ab2a2e216a4a53f4e09e9e, 73603496894510769),
    (0x7c3536b7a0862c288e920dfa8a27f02032b99bd6, 27240171037304717),
    (0x849e449b67e8a58e1b267d74ad39581631d11374, 16257474934254914),
    (0xc70aa0bc5c372ca2006204c91af480dacf621bac, 39776376498787003),
    (0xd37634244b9eaa3c8501b92c9ee5ee02f39d2fb3, 16691056757289785),
    (0x7056443005620bd9bfdc294ba9dcec6d94296322, 9982874110279166),
    (0x7be25e4713044a35fedb3fffd5e62400da8a99cb, 3757170765334874),
    (0xf84dd26a280baa17a4ad3ae84eaaf4934fab34fd, 16108889554898947),
    (0xd5ba7fcfaefcb9084272c7af4f74c3b10971e144, 28582271805814011),
    (0x49798f0987673038117fd16d370e7ceeb120b8f9, 74521489017408271),
    (0x07f31beb58d538b92aba6682469751e02cbb08d9, 21583788934285773),
    (0x77b34f1f8b4b0af763028452efe8c774205c5f2e, 3946853996374744),
    (0xfc2ad7f0017ad5c4258bef521268925f90577711, 16255149650556762),
    (0xc105a696ecc97ab7d6655bf0e16d03f8ba9fb536, 157003797493158194),
    (0xe9b726d33d869ec037184c58eb211457dc31dcfc, 23832667145922338),
    (0xe73a1d0f64222e161a410a82484eeee4a4094d07, 16085181082507473),
    (0xd3a2b2db8908c902685e80e5f09b6dfa586aed3a, 31245069066032104),
    (0x642e22d043473f5ebc3bedf091bb2bca49943a6a, 13248295534884188),
    (0x882ce90065e26142b214391363166a7d470ae0cb, 28485335158673244),
    (0x92054ad5051c5b944bfca7600bfdecc6a5504264, 62191034905321988),
    (0x75b25a519dfedfb1c47b611ba2d186c67a5dd751, 17237019658939067),
    (0x73730f8abf9cf198d79e3d574933a9017fb6e5e3, 5037913519143130),
    (0x357401e7b6cce28b01d3ecd900bdf5ef168aca19, 619846136328972781),
    (0x4a6e297b23b9389380987e901481811d83e945c4, 207564989901620839),
    (0x04635cec919cca10780a8a4bc4feed4457a1c3f4, 61789323807880592),
    (0xd0f853b3c9c621c64b5b8c2067317b2afc008d03, 12010209910874987),
    (0xddf8eb9abe01c6baf5f1308a3173a69f95fa6ce2, 31079212656237686),
    (0xc34f0f4cf2ffd0f91db7dfbd81b432580019f1a8, 69498226595379136),
    (0xe0171438425e96ae5bc05640c1ed2170261a7b58, 8709930525915828),
    (0x6b23341132580fec3169022f48403664b4a17a18, 48534621500613135),
    (0x3d54bfe0aa00caaa22330f96eb31ea976ed881b2, 3475987584854209),
    (0x14fe1322209eaccafe3f7545195bd163359cdf0d, 32579086127656792),
    (0x2dab41f30a18816b778aee9277ed9059994bff9e, 18292237622462251),
    (0x53c0fa070e310ce1690b3c83b2ab7f20d74d4922, 6759435570663940),
    (0x67ae7d2503078b6a9fad5326cc071b9b59246f7a, 7867194672672339),
    (0xbeb06916e3ccd2d0d36d013f833b227d057709bc, 27935179670715181),
    (0x2aa2c037b1b68e543da36876b9aca6cf7e21fc40, 17349472747355830),
    (0xa17ebb49474c4debb99ebca5b3b7d34ad468ef13, 2679295807052510),
    (0x3c42e2d1b4f954b95fd012ad6b057d78da2dec60, 17304427677331444),
    (0x3b769067130f56c1b98e8b8a273b46a69ea2c760, 2547451352595650),
    (0xfd040bb74eb6953a3a19ff9b1f032c1beb00981f, 94432659105733114),
    (0x72a773aadc0e928c9248ae71260120e6e73bd447, 16132903502275764),
    (0x8b1ea47e37a70e7feefc6a6945a4a7272a7934db, 112647666711047591),
    (0xc38a74f654178aafda3849dbfd4ff8a5050774d6, 4456013449883957),
    (0x88dda47d3402589d9971ef8ef5af9355f1df2121, 9312514125795789),
    (0x2a2820d424ed72e9466c89e9c7737df344be75dd, 12137823255421444),
    (0x8ea1250b44435be3cd5841d2256ff3356c517fd2, 171511110668863232),
    (0x21a5805f639ea222df1900aff8aaa0530d63a05b, 28425046800522853),
    (0xaa0f04ee13166b27a89b169f519abb4bb8e1d1a6, 312627645802833109),
    (0x280aff4f29412dc8e8047a6d20d9ba5d5b810205, 17301762357745981),
    (0x9a59904dd43c42ca2340da86d1257cdaabb3bda9, 9481411299608225),
    (0x43f08ec0c0bfc1cc292383fb2103a8b3e1ba8e22, 7985078224220817),
    (0xde75f09a694e4573f2fb222579cc0a23d912cbe4, 156361644991863320),
    (0x83de6760f2c3fc77cbaeb25ad6d52198aa3790a0, 12926594387116143),
    (0xb6675da3fef6a7a7e7bb4159562dbea7a6a03e19, 2891269066058079),
    (0xa0f80bccb86638e2796819fb6c79bbf198a36148, 2577598400811125),
    (0x3f4c6f9907a834922f7a4042bd2b5c2d81e9a2ab, 18741402426374649),
    (0xdbd31fcbe67bd0416c650dd4a3139312c247369d, 73135813895186753),
    (0xd6fd3926750041866fd020e0b20c8f40b597e1cd, 2089433155105679),
    (0x78b416dffa838b89d382e49ae9ac5488ca827689, 55765420734532732),
    (0x5acc33f7e7b77b4608c39cd30e95d4568d5038dd, 54483146336827766),
    (0xf9a081366042dac2c3078a260ddfbe833573661f, 31116733046526246),
    (0x18dcd5fa9844b837d619ce21ec672e9bb8d9b511, 9342019100634922),
    (0xecdca6f9debdf211504df8777dee79e529a3a474, 6341658155328181),
    (0x9cedbb930d1276227e824b5594e18785661541a2, 820927817533131),
    (0x80a790bfbe841521735abd8e577f09f87968d144, 5999917170900047),
    (0x8f962a3a5efd612d187961d76f05acb980d3233c, 7303560762231745),
    (0xbfa9fa9fdab9a262fd219a973819c783bb391958, 3961674876080704),
    (0x71cc25e270560ab31d5d2e15e5bf896ebfc4a640, 160836102432888491),
    (0xb2d377db35a267ed1768d41018be61ca7b65e2b4, 8689214238982418),
    (0x7399df14b409227b24cd8edba72bcda1e4f7732a, 5712766819307083),
    (0xf31d0d4ec6c727527460ea6fb55c15b73756fb78, 1317218293807648),
    (0xe816c2932724655782a81009cab64bc45446afb0, 165720374782330429),
    (0x84e1939515ae254abe7d6c1c874a78597a62fe49, 7665308710600549),
    (0x492ca52057fcf4f9e11a9619dae1855aad6b1c81, 65467634968395880),
    (0x67fca6083745339cc8fb3d8bec011cc7dda13a17, 10979854798558528),
    (0x6ea496c0524732c976815c09c536c95136028350, 28791967526273709),
    (0x1f391756122c08df29a226f9c7803c3ae50544b2, 10772484271881685),
    (0xdb976f329f6d4d31f7661a2b5aa60dd24b6956f4, 12016296353408822),
    (0x9bd33297019bb2400019041555d9100fd9178668, 515828183766476593),
    (0x86e15c097e5ac39cf050d1e1b9abd0d2885a44f2, 77603656083931614),
    (0x91b71054bb6850f91d6d61241eac3c1becc4403a, 42498738236161524),
    (0xb093234d734db835ac32833b86a471244862bd6b, 24753630806326314),
    (0x3c494547d0d5ab343fcc094ff21a1ac306b19a9e, 461097270216413537),
    (0xa8a5b4e535268a91d330a1b26e11030831eed35f, 9395679869836532),
    (0xf2cf9cb8d39eeaa22fae8400c523710e3a2702cb, 29984910525851708),
    (0xa97578dd7ad20ba12d42cb4100616f7d3797a72f, 27793920577965646),
    (0xb5388a3235cd0ac7f50b25e83b85d736291df901, 93973397464644567),
    (0xf099a483ed260747d67a29157a924a3e49b6802b, 14994451811645943),
    (0x9e91a40f39e4c49305b11bf588ed738457a2cee1, 28858644349959027),
    (0x5930d7b8c425dfb3a576dc1ef72eac8bf238d257, 39057179698665829),
    (0xb473a2b4ef84613faa016093056d341841c1b89c, 53990181808876847),
    (0x189efceeb15b39ab09a28a9224b3c1fb7efe741e, 35068000000000000),
    (0xfaea3a707103562400900b0e0aebe35d9d960c59, 18192000000000000),
    (0x22a573f1155bcbd48b8f9f69bc236dfa0b8297ed, 9365026399651258),
    (0x9a24082168fc72a006249fcc3c5a35f927ccb10e, 6606529494786954),
    (0xe149dd0e0118e73c7319de81cb60d2cd9c4dbc4b, 2252587085484294),
    (0xf78cd8e33d9c5507701148b74c57594dc390b297, 73456431228435859),
    (0x474c2a4031addeac0d1dd4e4e4df77e0cbad53ff, 25169196563986154),
    (0x4ddcbc5709e55b9ae5bf1bccf3e33b561d9fd952, 7835352322150274),
    (0xf140ae354248ef23a48321496e215ff171fd34a6, 15622315429510973),
    (0xc63a7794b034471c7ea446d33bf344ab76f7c833, 44692680227186938),
    (0xde0e14e314ec13cabc21272f9dd27dec0c92b504, 311305016434634591),
    (0x90316d1650062ed0322a185d80b17ad0f6227e7d, 2952031954781723),
    (0x256df198de0eb5204c941496718e8c3f537f1ea4, 11138521183282984),
    (0x3aeb6392f86408afa6d433dca70975737c483f0d, 14892338437516013)]"

definition claims_data_31 :: "(nat \<times> balance) list" where
  "claims_data_31 =
   [
    (0x36f26e2e5bed062968c17fc770863fd740713205, 15288100140513671),
    (0x38a4e6eaff63bea0617bafb28bee8be193897122, 481516880643882320),
    (0xcb40624d1aa71918c809ea82617040b4021abb74, 4655295955444035),
    (0xc53fbb4b3314ac6136cae11fbe2667420f0f1898, 11519150731544504),
    (0xb933ad0949273d3316d103ff50cde998ed6e35a8, 15096869452662009),
    (0x87bd582fce36ed7a7fd2f901a0dd50e2f0e233b5, 17736101431375519),
    (0xba9784f77c2400bb3352fc231b6320d710725ae6, 29722503303603562),
    (0x707912e7cd61891f4165cdf89c1034f543b99c10, 262673598661026405),
    (0x16a1708187cf1717744aa1e8bdb47a93ce1d2e69, 14979763947931102),
    (0xd7267ccb1ef37d769df80856aae9914149ac087d, 73064299532981628),
    (0x1c7d965572a70238ad4badde9fbdd23f1f1a44b4, 30482562232704558),
    (0x4dc0a736d0b2ff9222fd6d347b03f0c010c5390e, 41674503322295180),
    (0xcec6ba8aa1fc9423b5a480dcc7f9352f26894aac, 2157324798415644),
    (0x8280d028d6546f737818ed9580b66afa8fde101c, 14961152163839605),
    (0x09a5531be46a79fc1d1738ea362895e1f231ff17, 10575551691899416),
    (0xc7ea72f3640343f219e78cca1166f2d907ef96fe, 150000000000000),
    (0x11fa4f109a1601bd1afdb509b3bdb1e23fd6a675, 6408712979894010),
    (0xa136a3abc184bf70de3614822b2a6e6d8df018e5, 51494926317127825),
    (0x40e830c4d5a6a99992ae26203553dfa781e5b4bb, 47005887970042664),
    (0xcd8771ae2d6cb344663b8da7253c944f0801edd8, 14922492329104648),
    (0xe266ede9308372d493d679830bdb8ed3dbd19b86, 15668491977750650),
    (0x5a86d6c0f577880a270ce795cc199582f86cbb0b, 539765444752967588),
    (0xf782f0bf9b741fde0e7c7da4f71c7e33554f8397, 11183624903956664),
    (0x735aad4b53dab69cfdd69bb3919dac08fb9b8abf, 14950145136600162),
    (0xf57a0cd7b43ea040ad52ecd9a92976ae4ece6320, 9277024366061412),
    (0x52193d821aa18c41f00e788251b1f3c32efa808d, 102977090267820013),
    (0x923418407228dac05a6fd6bd600a059c33d05edd, 29476398072293972),
    (0xbd19e46f8283a08ebed305a22812a924a0b321bf, 16695887177433129),
    (0xede57789e9f33a12449fa34f155e10c4fd9f8567, 13981841610244580),
    (0x68f8ef1792689006d7c1495ffa0c6e05f8fdf1eb, 52732805070549038),
    (0xec48794d7ad819a633471858f1ceafee1d7d1121, 148220198346725137),
    (0xc831b2d869f49a64452527fbe6a9bac595a9248b, 24312294514871583),
    (0x66238ac1cac8787f00c35cc500b1b187a8deea87, 45011332130405378),
    (0x27bc84b754b0b1a9a732b30d507dde33afb73cc8, 42542410126261037),
    (0x3e2dea91d1a67c5eac598ffc4c6676ca2c640360, 14997862302387226),
    (0x0a1f71e6f762899a37cb6264cbe7b591537a5d4b, 28726399287591659),
    (0x33b0d5f06ae3f46ee345eb0f8a16cdb25e98b92d, 22107149061495073),
    (0x46d94cc9ebee7cd16c559b18597bfb62334d17b3, 3391264802158364),
    (0x5e726dab3118fe37dfc68feae7e5f79872e9f095, 51027775613004208),
    (0xd764c62998e41c915f3a3b09cb10bd55804c8552, 8835359920194129),
    (0x838e9a728097a78188b3ef6747a5229fd17951da, 14945832022438602),
    (0x11bd774aa47cae4b99308cc6b9711791a4701f64, 15224809382670848),
    (0xeeb69fbf3f3038e9f8d7bec045b7ff719005ccb9, 292703923751959133),
    (0x2e0473e3a5687e0b992dad250da005fee6bd83d1, 3131824615264050),
    (0xcc166bfb587a958e41b800c3f874ee7f2f786569, 12997434484815632),
    (0xec4a20128beed764a08d240fe93ad0dbd18fd294, 9805809591497463),
    (0xd03dad0c3ec5f564945ba92eddc536b6b78240c0, 1052579842855192),
    (0x725cc8251bcb2eb851fa3d5cd88972ab7a08554e, 15433981773099903),
    (0x5f2941c2752b4ba3748d1c82db65f78ba57c5855, 53784418671746050),
    (0xfe754d46489151a614bb548c0395f399ac253338, 14963094804883988),
    (0x26921cb019126a14cad7b4433c4a9d8cb09bf491, 1812390711118208),
    (0x936a0553c34b90597ae300fb349e50c33f44511f, 2890176095659850),
    (0xa1114a64fad2ab7145bad473947eb3c3390ade30, 15021611047795358),
    (0xe3afc6b73b3e2eb36186f2e4bbc01b8aff5cb773, 15149697265840614),
    (0xa89009aa7ac4a27a9c463d88c6b3d7d15382b25d, 2091340242980459),
    (0x9a2f4bd5f474ae25e49fe5659153603c41b618a9, 13975075413436148),
    (0xd7fdf077f7ec8367a57616360d020c3d2fc21160, 76293611078377915),
    (0x996877fd71e61afad7e7ea3961615a126de1f9ef, 221679147826132046),
    (0xa584f712ad5ca229f0a565d59f3eb652c3d753af, 13849444334855842),
    (0xd75d3f718013c4e03e5d1fc32292ae9d8f6c6ad0, 2495354937195636),
    (0x9a06513abe6323f88135c7ce62385431dd01f7d6, 8070135217230471),
    (0xf084fe6182122e5a5ced95194cdb31c9fd384a6c, 10630563962486147),
    (0x933bc9bea8790c0513db85c90ab2aea60133cd55, 27034679645645277),
    (0x474186c406b5cab0d8a2fc2da1fbc61adb55588b, 37505163954212696),
    (0xb27c64751cdc012113021d127a604df5dc3dc845, 2827678498513295),
    (0x13534f4b45b21756b661710469099883ed9b793f, 6350018773511030),
    (0xb6e2831af922dfb15389ec5d2ee7d8d894b9bb0f, 51968434683336516),
    (0xfba289c3f89ca5e2545f701aa4eb904d1db48394, 5117220085728571),
    (0x24d598c2cfd76cf6a3084b0d52fd3081eb87ce30, 26616987387223564),
    (0x185541a045ed6fe9ff1142419b647cccbd62a04a, 15401118094596223),
    (0x4e42ce66a74578c98612bbbbf63f48828056c1e8, 2820919638755911),
    (0x99e7258538030eb46b1548c2490067c48c47ae37, 2000000000000000),
    (0x3f87cb2bce58205692d2f0b2304a5b9037c1ef76, 23608966461133808),
    (0xab509a53b8ff1fe8fcd6b1a99f5fdbd2ada27c3b, 18685759473583831),
    (0x6e625fca400d1a6fba2881816b8b3bf8ebc66659, 6349897400849222),
    (0x81cafae3398efb2a915de5ce056f8ec6dafd4e28, 14383431212638512),
    (0x35cdb56e95791feba3e20491692be657898aab74, 13739975727272494),
    (0x59040330c01112a37c7edc4f8c89d5eda7a7208f, 14557062440480735),
    (0x4e1bb7648e3dbb86f073d03b82f28eccae82b327, 15173650834923603),
    (0x2cbb1b094dafb2beb3bfaa2724587c1c7911faf5, 3503131436131983),
    (0x28057f888602daaa089b33f6491d26370a297cf5, 10035706164022579),
    (0x7fe122e35e1e63cd8acb4efac755743ee00daffa, 26493076112946038),
    (0xf6dc43ba328affec2afebda472ac6977200da957, 16087283463738834),
    (0xb9a5c45296f748a5bc1a965f4377fa75ee231995, 8347567919537488),
    (0xae9f31f3eb977f7eb889ed0c2fb136a721628ec4, 12863014526668851),
    (0x2e9b3f71a3c4b47342889451a0c262e21025c3cc, 21941864563058506),
    (0x94fe2807ce337b29ce726a4a8ccaa47ec43f6af0, 29078682574129948),
    (0x683d4b70bd44ad2459154ec02273b05b370d2dc4, 42533498364407956),
    (0x6ca96666d5cc6afd63cdd53a75e8373a5bd27591, 14550445521031342),
    (0x4a02f0fa58634269d5a12c98fd6b13213105f78e, 6380180658492098),
    (0x3662651d054d4a4309bb54590d4b8629bc30159f, 2763883306108709),
    (0xb29cc8a719333d423757fbfc1591fcf13686d8a1, 14280434960610870),
    (0x248a25df3d1f7182947b4f7d63df299b9121f858, 28264996913098747),
    (0x788875723c732d8f0326cd18c5631ec247149a98, 5911409615710877),
    (0xd3fdcf8dd2408165f121c02f9d3d8b1bd926ad71, 3481098941160680),
    (0x7001c9c592b8b6ee43c9ef2287a8b7f3346b9e2e, 2422326987373183),
    (0x4e00eb454b169d5e02962bd6c84e038f24053cc1, 7490504176628482),
    (0x4f930a15c700710dd98c827d3e32ff686f56108c, 3290098564513055),
    (0x35ef703bec08d5353464eae367b126033b605065, 2046663319269329),
    (0x0b7d15d4f9d5bf95b2db6c583e3db2d261990287, 67745998176012443),
    (0x610dc41afca9203194c03b45d887f06ff3eed9f4, 247596490260122173),
    (0x63f0d7dbc13b396501b14116253b8e292ebe8021, 744230105130117),
    (0x250629395a031094763f010098bc56a352e5cd5c, 25409993912043792),
    (0xb1ed1666cc20e232bc99c7d11a71106291653c66, 42897882073428927),
    (0x80d7ca80191bce0097f73a132c623f0b4fd26efe, 7118766397102682),
    (0x7df67073c591dfe102295a8492dde45f9b0a112f, 28956179065602000),
    (0x93b2767069da9fbef98bf715cdadacc8ae08dca6, 13101000000000000),
    (0x196a37946c3d93e9a5309f539ae28b774a32411f, 50875336953378952),
    (0xa87a902341ee4c9f31ae2ff65bdd86a419502d74, 8721477911521147),
    (0x0de6716111df03b5fef262154d4850a4f7455b3b, 15056851216971740),
    (0x5e4016d8c70c3f87f39047ec43d24b48c67769b4, 24993578930498585),
    (0x22eac4a5381adaf34b748f10a4b57d25d8981963, 78492795388224668),
    (0x4baac6507bdcb0c9d059284c539bcf35d433d22e, 77023428875014895),
    (0x93a3a85331b1fcd3e6eba583c88e6fc91a1ce5a7, 27756805264504249),
    (0x6a19891e91a3d4d690cc8f9627290d25bfd34df6, 49642026328317094),
    (0x019155c1872b3e0044178af89e1f5274d738895d, 10835857829647095),
    (0x3ebdedcbd7a6a013282a6842d638519d1df4e74b, 7817593150764179),
    (0x517303565e4a94b48095c3b0c4c63a4cca95f2bf, 7293030400661630),
    (0x49b0459da94be66c1416cdd69cc00c980e26658c, 3975912380869000),
    (0xcf093e98dabd073f722835ee3ab756e0a9b52e42, 7650385142143984),
    (0x806db6c5cbdaa7dee05c001863fae510a5fe6871, 29633744999015747),
    (0xe789992e638cf7f25cd2fc66bde2f55205d65a9c, 13965270138081189),
    (0xb8b3a71d75c851f18df5667387cfd9d09e7541e3, 26591188891861544),
    (0x99785427f334cc8b2b010ae2a9d754fd0078f150, 7380712066352444),
    (0x61d53edf32d58bdd4ff847094dd24e400feb141f, 200000000000000),
    (0x8c64e8bbc424867e3aa026054301346017ba2197, 20254125577734982),
    (0x3b4dd313a27e70a61d0b16b29c2c60faf4274687, 68130320722504812),
    (0xb242e6a249f3f63472091224bce0d23e96632c6f, 14105921862809870),
    (0xef8081f035c5dc02c06dd8c4e911c361bc2f8ca3, 4527907474851239),
    (0x75428661ad4f91f609451b72de2603d875ff1a56, 8275626347872102),
    (0x84c0190af5e489a7537e9011e8dfc38cb39cc6c6, 10972942197347265),
    (0xd76fe9f1c000a750f20c1b651d4b8c46b534c583, 17870376378116788),
    (0x65d211d46c24de440ab70fcc26227b05958ae89b, 46555947289116229),
    (0xbfd2d9d705f9bb3e7c1dafe886d8e8519de84c57, 3541151017065225),
    (0xa650fee15be3f07fd450ed3c56b8059ac03dbed8, 36016693365010927),
    (0x22ee867df1d6032d05ce4a080b080a9d8db95689, 13343314345080599),
    (0x42c456fd39c9dd948154b1fa0f11e1773ac16a7f, 7458387076178601),
    (0x4c1b730b520ccc662752ffa8b9fce34f78f95255, 6183855630358548),
    (0x48cb3fe67a68e693c4a6de195a7d3b0dba7b6a29, 50488954112426936),
    (0xb558031b5b41bae6c3eed20d7f3f95191059afe5, 29192413826951507),
    (0x8c3198dd1560a68d3d6e4c4400faceb6160c9ab7, 25103570692330157),
    (0x1672721774d77d9d75b3e20e5b42f3134551856a, 68784179761985871),
    (0x0f84fbebc227283454cddab8a27fdc15b3d6a09f, 21528684188829161),
    (0x17a5907d12a1a95ebc2aa9b73c67248f1321345d, 76751485009358463),
    (0xd5378ddf3c3740b3ad2b3f62ec8f3446b9a47746, 4218797970046021),
    (0xd72d2db358b7b40b0d5ecec311d75dfdf5cabf88, 19740023886430117),
    (0x8fe28e117f1cb662e2178069e6c17a9d9ef73135, 9309692493761931),
    (0x77f989136c95da89f70b2c5c0ed9f9b2cf63a11b, 8959070573404058),
    (0x22d652c809cb5d21d0a485ec8e09470e56637570, 13347792064743975),
    (0xc1bd28391331390c97cc9df961098c79995273ce, 26918776743362308)]"

definition claims_data_32 :: "(nat \<times> balance) list" where
  "claims_data_32 =
   [
    (0x39446c6743d9188b846813819161e9d66020a0ed, 15855407319617578),
    (0xbf19e7b473824223da60e61d4d395dbee33b0888, 5837017096496373),
    (0x07f40c9d0b187567184c48c3f5406f85e6ba40aa, 15172541203232279),
    (0x9a394789c55ab1de0a21120eee4296729b008af4, 4902232291477823),
    (0xefdc9e736bf5f3e5d76ad90b34c5ac507df0c882, 161794789510809484),
    (0x0a6cca14cc94a2c8f34eb303561dc535ee92380e, 25964974321612886),
    (0x9eca9a9524ecc05042c023918041449b2452b3e7, 6328769066785537),
    (0x70f52b922e9eabf97c8d39828a045f8f81eb467b, 14515053485779001),
    (0x6979396c4b10cae0977c088e1eeb215da7c47a1d, 308974507961777318),
    (0xa56d08a359c9aaf5e025c874b55acdf8723672d1, 16047976056673736),
    (0x94644fb9ff3f6821219c917961ccdff753709969, 13665229563799097),
    (0xfb60ea660af138e1d831a0ff11260e2bf110cb6d, 14249674732835458),
    (0x35e6555adfa59819c008c267291b98eb15df82c8, 38299998291415528),
    (0x8200f91ff7a65926c4eb0750b095e79384f66f6a, 29533933261627139),
    (0x21ab95c6079c3db7583a37048f6f866459fc66a7, 11210540621667114),
    (0x765dc1c6f388d20fa880fecfcbe6aabe1485f8ba, 125612341186100063),
    (0x86c85f4664581c7d18da18aee9581ded2f0f7c39, 28423629387731832),
    (0xe5b0e06f101155efe1db648e15c3c1161d0035df, 6443891968980807),
    (0x49fcb015c5ee730ddeaa25c43fd770326f2625d2, 10308226703745355),
    (0x0f9ff5028ef1aa963c965632f0bc113a140e63d2, 16261382862853958),
    (0x981988cf0e64b62d84a451cc3fa2f40364333b50, 68658000893382580),
    (0x1b4e082e50cd55f144ac95d30ad134b9f3594a1a, 163597503015525088),
    (0x41b216f7e211b395ef8416ea92cb8d54756b79ef, 27551085486409560),
    (0x2fea68b6083b4b215adaad7faf6ae3a696f09137, 10739321000441632),
    (0xd1818a80dac94fa1db124b9b1a1bb71dc20f228d, 68372626414591623),
    (0xecc03538d9af264725dabd36417441f7971c91f6, 21152766169870964),
    (0xa8c5156c687e7254c1dcd486f760e35bb6bf122c, 6855358640571170),
    (0x3e025504b92babf4bbbc20cbb28f2d04c1608247, 69170863501672606),
    (0x35d778ee271770f906167c87c6ec3919b1a9a729, 9382354717887295),
    (0x0281881b17b78a0164cee93530dbf5db5e5b4f38, 13290176789703183),
    (0x02b6bd2420ccadc38726bd34bb7f5c52b3f4f3ff, 17680978274424449),
    (0xfc55a72ec00ea3595ba5119882c7e7adb52985ca, 25416107462239089),
    (0xdbbb35ff8efcd8967da5dcb4df2bb5313f7040d7, 128321158358169456),
    (0xd5257a3909f522ce44f1aee6ecf52b5f99422581, 101599214852417158),
    (0x892b7e6c66e1d26833469520bd588fa0ced4e48a, 16987066847725026),
    (0xae7d283420111ab1768b62cfe8e22c4042709676, 7391949735120594),
    (0x87e6888935180a9b27a9b48b75c9b779bfec1f76, 1340513849706501377),
    (0x66943316565fe60619ef3517c9ab80072b71223b, 38951938354444017),
    (0x68ea15bdfb38e96c0236937dff5a613f0da64542, 5272259487830616),
    (0x09b4ae8ca1450df0b6fce72d1d587af03bae01ec, 4462993402373717),
    (0xc4e910e717aa8ab17095e8bb7c3f3566219954a9, 8140273275576062),
    (0xfc7753c71a5e7d2b71a73238685f8ecf3b7c17d9, 20843067001492548),
    (0x92db7e8d9b281c9470749a83eeb51de21ff6dde6, 9598300504266219),
    (0x737a3254a810443bc2c59a7dec60180c82882942, 20606145618219530),
    (0x7ae87729a49d8679f3d7fd10b00c5970397bbbb7, 53990325880588380),
    (0xb014bd30cac84ee0da4565f875affee41c801d88, 1898808545531058),
    (0x51f5e990dbbca2065bcd0b5f6fd84cea1cecd992, 10615219645919165),
    (0xb5481d6cbf55128df6177a62dbfb27b5da79f632, 7437924315326277),
    (0x69636cfd9e64c6b4d00050f5b9ed9e59fc311421, 14048572097988901),
    (0x83080b341fab2e494f0018ccf201b7ffb028ab2c, 50711347197461925),
    (0x35faedece484e6a6d37e07b949e2abe036b52bb3, 27410143380534839),
    (0x785a80a8c590527e120453210e02792e4da1dbe5, 11968962221101350),
    (0x66e3e0403efdc4928a4a5dc606692b22ddf6930a, 38432176864422724),
    (0xb23414acb48af4aa4013e0aaeefd0432c31965c6, 40837896382797593),
    (0x9ab6133b4f073dbdb99967ebace039b7362d8306, 3356994646746804),
    (0x006217c11f51611d9848d17550bc4b03fe02deb0, 3065937729968691),
    (0x873bbf13c42800aafc0b6ccc443557b8941325ff, 11545542799716492),
    (0xaafa12fda2169f708b08fc97598839427ea069d4, 10792582411293890),
    (0x6a562049957e9f4667bbe7b6fab5b65d71e988b9, 5769019691034349),
    (0x3db5743b936cb7280fdd475562b0942e31843337, 26157695339472343),
    (0x7a1585ea7db0030baf1d1ecea87eae75536b58f6, 14144061441243573),
    (0x70224088129b2c7cfc58c701c70a6d88df01a015, 2628392347970637),
    (0x79e0f5fcb6da6c40f3ff66e9b41ac5f0a5a7ea1a, 134551083628909987),
    (0xb253b4c559452070d76569840d51dfc7c3075be5, 14118457273921268),
    (0x3ae00a272c3c8381e335e59f1566114dae24ed62, 7589381379485532),
    (0x5def348505539a4291e6f0e94942ec98e3eb66f4, 84303932399126083),
    (0xf66850af4da8bf46ce6c4dc1686e135c3c78ed22, 49826340983916490),
    (0x8146ac15542b470770d49bbd3402741d6febf62f, 8430693735663294),
    (0x1f73b9aeefac0d4fa808be6f797243553d14849d, 5950419406950161),
    (0x13f1054513b270a85b84b7f3640d63c6d4a3dd57, 75552408990145389),
    (0x39424c9467848094d5afd6768b48d10172345693, 38978101337048346),
    (0x1eab0709a00abc5e0d2d47c5557946d39af0f32b, 10771352786429591),
    (0x0529235303fae45d19601e4aefeef8272239645f, 12969541339840017),
    (0xc3818f8fd6e80f8477e90073cbbb687f37f889fb, 32222555534943106),
    (0x69ae44bc92bc344d69457d0a00d396590a8b1a03, 8582157447922383),
    (0xcb30d9d51a96d10c2562f5a79b33c7d15980a567, 14583767825081147),
    (0xefc25cc802f442003282fb108bf8988a167e3b6e, 40830534673633165),
    (0x5a9ada4d2ce4e585f77974dd436cf2f72c6a7ef4, 140228034254882332),
    (0xc0220349d63349162ef27a9c68cff0e8f8a5fa46, 1339601638982509),
    (0xdeea7be92cb8a1449a2bc5bbdccdc44925f92cde, 25236810249803166),
    (0xb9c779e67e1a2f7b42eb5b6edb333b7a50858773, 500000000000000),
    (0x8b1fd8e2a49b06573c59b6da602d13fb78e31de0, 500000000000000),
    (0x49fd2a09c7c4d63aed1671fe89a919014b394c60, 11423550591389976),
    (0xeb73022473140cb8f97737acd04c9e5f0821b8b1, 14454341045731333),
    (0xfa0563b9bc96f61d79fa024a15e73e63dc411828, 222048751553746978),
    (0x44ca5fba28c94b6b23067619c052f8af9175c953, 48775283439350321),
    (0x9e4a7bf0f8fe8e73e40d8711501242766d8d752c, 2731345148838112),
    (0x62a08f0535f01623890613f6acbedf19591a9ec3, 6834508920434408),
    (0x97fe41ff09be5fc730a73c44d2fe8ba249f789b8, 21332548946180884),
    (0x47b4d3546892237c55bcf9078b10b6be5e922551, 32906016368038757),
    (0x0aaf38602f6f5778ddd5f4781592b9574d5fbb7e, 14136083659209975),
    (0xb567f578a9c124dce08a8313b92e6e5135da2fe8, 4073170066266871),
    (0x92e0b4537388a8ed0007e753d26f28094f9f62dc, 5256309050361714),
    (0xd1a59dccb20ee4750b4840eaaa2b8a3796581dcd, 65768796032924847),
    (0x6a2644ccc7486515ffd7c434793a45917a6ce255, 170415696031496522),
    (0x4733684bd1ca2661d0bdfc1fe7f887e1629f4fef, 20826652306289832),
    (0x356630b3a424ef3e0329257ac7f401a21ab9b0b1, 132481699914342557),
    (0xf7ed3244004ed18d4dd2dee47a74d5c5bf126130, 15820888982279803),
    (0x0841fbc93fa8777427374c45f54e0738ef8be340, 111918511924176289),
    (0xa2fea96a03690519493bae7e85ebf893abd8db67, 31615996975600118),
    (0x34297442954044611eb51ec1e513224a9a354ac7, 45280141060467373),
    (0x7d0e096c7cc8294c6ff344313565d1363f58b136, 26378484926409695),
    (0xb8953930e19d0004a7f25710827e8ef21964a09c, 8411026677306511),
    (0x4266f46db664cc5e4cdb965b9f374402d5a4e1de, 101694317000464349),
    (0x14f4ee68019f6ee0d3abbb56f6404c9a4671c57f, 23787345137756889),
    (0xa90988c37a31ed3e7b432a2e0b3054a7974e272f, 7157340795450083),
    (0x96c8702b3bec2033d23085357883a9fe3ee74ba7, 38829315288659437),
    (0xd2b5cc848704315502a9220aa2025b1c0789404a, 12841349446020531),
    (0x95537347963b2cf20d2073af268480112fae7ca8, 23507500654407554),
    (0x00a44a7c53f6919c8e1befa2119e72c054e7425a, 153309650591701283),
    (0x7c356d5723a70f9d37c01ec7bc62c63e64c98e53, 14082109606655224),
    (0x6cc9afbabf474f6723eddf73500210e0e42961fe, 5998645746900164),
    (0x0b991774a21dae5c6b6342f77aa8d7a92b288a6a, 15470838553546790),
    (0x3ae11db0369b33be004fa1434191ad1eb25f9557, 2760659727277691),
    (0x378feda987d7e7787cf9dd0f5cd7c2c26f51472f, 68784179761985000),
    (0x549956701a4624ee627926bdc6eee7e8af02dd6b, 10639506001356424),
    (0x093af85561f0560a98e2f1e0e05204bea2d209b6, 64388968134227872),
    (0x2ebbdf8c79d3d9653d555eeff63523ffb8080078, 124310751192070815),
    (0x16bd8b83a993c9529d96c871f94d5e1ee174f4c4, 10167762077827352),
    (0x658036854242498de344cf92bc434de5b9afdd29, 28234351612231910),
    (0x5adbbdeeecb88fbc62f29b21b1f5ba6c9ca04aa5, 7214838009321675),
    (0xc9bf31844bb2eb5639520a593b08fcf1eb73da6a, 1981522755952484),
    (0xbbce57c4604149f97a10eaa4a718bc8f88b2e2b4, 27214289159004266),
    (0xfa4ff40b0854573e9922efc26c5ab43e57db480f, 10000000000000000),
    (0xc4362381cd174daab512bf52cb64dc675671e009, 4206218830456418),
    (0xe85a04cc499d97826254d76cbb97ffc150f0a44c, 10000000000000000),
    (0xe3d05e27546a15239300ca9e49d17d676c230688, 13920806512427136),
    (0x689603288e5d27bd8ed281104bb1f71c79b14d13, 12437151170038369),
    (0x9c9cbb0ad3a241582368ba3483f44a89fe6bb9c3, 13817792781835445),
    (0xda98605b29a08e06bac2583d845d7a58873b1ed7, 7823029309888225),
    (0x9caa041550a2e141cc80a2a79584799ec8c5ea68, 8265756999650864),
    (0x629fad392bcf377efc8a6ca3549e97a399e419da, 16058381608581454),
    (0xfbc2a74f06934651a30d190c02d0aeeddc30670a, 57887202568465431),
    (0x40979d7433ec9be919c161c49098d64e06d813e1, 12000000000000000),
    (0x8584a36e5aac8097d7f3e42391ccea88044d6c4b, 11661158816165678),
    (0x94727e6cce1a30e147297c79595d5bd7672d7a18, 29511847050162336),
    (0x2e88addbe05fd79d38bfcba2d0a89b50a38b9d55, 25561208670184203),
    (0xb23c0019e9e788e9fa478bd4e8a74f07f3eca9b4, 31321748984459181),
    (0xa562a1596e54282c92ced13359e9c30a8c8a7e94, 6327790364347279),
    (0xb6c9c3026b7ddc62b68ef9579fc3430756a9c44c, 10888824851096817),
    (0xd9cfab54f1234aeea22b2818ab919866a2809c1c, 79329655292445362),
    (0x23d208c963d9945695882ba278e1769918a241fd, 10300000000000000),
    (0xd22a32c00225e01015695dd544dea23682a4091a, 8536679347567143),
    (0x6e6fc05100fb491526af1b273c59f5890ffc1ba3, 12789951777351661),
    (0x215244e6916df668d8a8ea857a409cde435ab878, 15017458303778454),
    (0x010255c022c7b3db22e7418aca9165e7cc155760, 3128831265987609),
    (0xb8638d34c22dec498c6692ec76ae989f5afc1288, 4349903618791071),
    (0x7faa8d1cb6ab8a9fc039b66fe844575557389cd4, 137450190279981284),
    (0xad16b9e45af4f1c5072daaa74dbcacf1a63a6777, 29327778127940262),
    (0x9db12e7a291bac60747fa4922e6c905cd873cb7d, 11170069306210107)]"

definition claims_data_33 :: "(nat \<times> balance) list" where
  "claims_data_33 =
   [
    (0xeab44dd5e7e1c9dbbe3eb6ebc121c3cdd0cc3579, 14832233064652047),
    (0xe6fa31aa7ebc6de1cece0a0f2a042dd94cc9e3ad, 6117610309342037),
    (0x924f92f75837b792652908819c3b8082139c88e8, 17025783806658560),
    (0x3b5f199efdd46c53a767860ec438f406695e5799, 10931194280481048),
    (0xa6b7092879673a7f4b8c8b4655f567083be56b3f, 19723337682167882),
    (0xec920601a41973a80d27bf14a7d1c969969d15ef, 3187370326734564),
    (0x806b9e450869b316d8a865801bc9d478da51ab6b, 2699876365601730),
    (0xe8b2d43eb45074b1dfac494641e15791b32d27a6, 19320619647015180),
    (0xfbd1b537c4c890472c2e6511ac6f05a67430b91b, 68158181600983872),
    (0x34f11dde65763eb10bd340df8a76ab80a48cdff8, 16623194593941113),
    (0x71a9a4a74cc6ec04e453e2db8c9b575e16bf4ab7, 62486829192346866),
    (0x076da4cde049e6f1ae07b995b100e43e45406c38, 5514239759813184),
    (0xfd7bd29e1050932829c1fc080ea42d7394c42847, 10877335508172569),
    (0xabee5597eb23afde43f0b6654cd60ab8329556c7, 122806589921138605),
    (0x3b7617514540f7968d893684d1b3fabfc6ceecdc, 48438496462026045),
    (0x10817a5e4400515e85d2e0e8c2b190116b653c4d, 9531000000000000),
    (0x4877678fcf2f064c54f2a2d2a3f326be7dc96016, 22128164842462962),
    (0x815227fa1d025ab89f36566dee4348eee3a4e8e3, 28028231883779836),
    (0x9cb8f13741527dee19c8e63ec7afc9ff58ef9876, 348864754927778321),
    (0x2bcddb9c94a3392f4a6e8229c42443c128866f75, 92290913853350772),
    (0xa0b5838653a9e5f564ca760d89b57d21c5256694, 14551546302356522),
    (0xf02de05b6c21d01f1a223a8f0fc2f032b24fc57b, 52310654418901497),
    (0x3a1a5533a52d2004d2f6150c708981d28bcd3eb3, 20558831941251637),
    (0x85c2339653a7232dbac2085318ff8d0df17d1282, 154393441528622779),
    (0xdc7f3c5fc1ce22e8d8f2c35029055bcc06ea1dfc, 12416275244412765),
    (0x39fe649694bf75ddaddde7f2629bfff2709b532d, 6743632403254506),
    (0x1d840c4dde769ca6d65ab55398d1f60277f1963d, 1764037491474083),
    (0x3d1d397acd3b0989d9e633d6dbf7e6f8f5c03a2d, 42661156490917739),
    (0x44fa7d5b20c9288651811caefd976e8dc0c26416, 2786639055542888),
    (0x82f06c4ba5e9ba5df21d26413a2d817990731515, 14828101089034443),
    (0x29ec750f3ca2ac5f875c4ab7a2fcc9f5ee7478c9, 14869418957359513),
    (0xcb7c6fa166b77dad28a82c43f9e29d8d44ef29e3, 20228302649740000),
    (0x8fe9c787995d12b6ef3a9448aa944593dac93c6c, 135666055228842391),
    (0x989f13da94458e9ce23b93fac30a1a33706968bc, 50000000000000000),
    (0x77481544f3b083f77d9d0608de93b64b22dd7f5e, 34017821877357053),
    (0xd74ac01226c02c32ba66d2929be5735f1367d648, 6621655815707231),
    (0x0611a3e88fb4387902b411ebd15cb1b5416982fa, 30142774332759408),
    (0x84de4eb6f08a305ae6f054b5e5e8750310007a13, 28541701162974628),
    (0xb7e7f835b3bdb281cddef600479f91018beb1270, 807586646861132059),
    (0x304016db3eea6acccd988037fc9734a18d9dbea1, 7367113340777517),
    (0xc1f6fd9a19e425f72b2ee6293971535e39d7e4dc, 49684030610844183),
    (0x1f8a9aa97618c77fad4be22fba26d4ea0507119c, 33632018220326118),
    (0x5f399aaf88796f51207aaae3f4c4ec9546c95517, 13801807111854553),
    (0x1e3abc249d0f31b23d8d6b64606895d76ad8fca5, 37885155797882147),
    (0x62a32ea089109e7b8f0fe29d839736ddb0c753f6, 73094531337782255),
    (0xb990b8b21cc1ec7c0704789ccd21bd516fe52ba3, 14998845896304961),
    (0xa0d1f848d57d3263058fca4dd6830821e7f790f0, 85886028228298255),
    (0xc4eaec1554038d9cbd628ca16da97268350641da, 13915838570871783),
    (0x97fc1fc5cac8367f08b3fc92187d4a898c785168, 13270135112848104),
    (0xe55ed2c7734ebb3e7e9ddaae18b1ee592a6c8a7b, 462886854586560617),
    (0xb34d352ff533fe9669dda12da8b00bab8f033033, 58266535447501336),
    (0x4bb27053ca095471f2a184c12c904896e184f74f, 7391332561168440),
    (0xa3b4817245ce62dc062672110d873f70325c26cb, 58731511457524466),
    (0x32821fa3b0da555f1a5b898c5ab16af4ccd82f8c, 231336625190961818),
    (0x98a9d8d485fef62d9a92b6ffd7220db7c85a9017, 5899371255483804),
    (0xbec351a88fa58498b86e42500dc36436db65a752, 15132915506888618),
    (0x2027112604ae49e464cc6db78b4c58c539bcff4a, 231925623012193557),
    (0x6d8b09ebcd47489c77f50599c30c6726e38aff6a, 5748211204981406),
    (0x36884cd3ff07558cd5bc4f73adc76cff4677609e, 4858840207159650),
    (0x2de8ff0749fd129da6449d869b5d741ae9748ee6, 14914243856865933),
    (0xe9328491df19d94166b5baf80fed06e6746d7280, 15530845864908942),
    (0xc0be966f1bbc14e72db9a5f17e3f6f5407d0cb60, 61575698487319328),
    (0x8982c92337c387f114dc43cc71aeeb310e5c26bb, 1775531410423387),
    (0x5edd21bd3fb958c4bebbc0b2dc3db37f035505c0, 7565153766427770),
    (0x4de65236f43f6c671096b07d040394edde828f12, 4555265779424842),
    (0xe80e7a53881e7e180b7885273590f4e8d5c87c0c, 62433830045665553),
    (0x0aca04609e28d9ebc088571134a89e5c272f1108, 143210796500776485),
    (0x64e8fd78ea7741c4a193efb221e98fcc2d1348ea, 1000000000000000),
    (0x12f8d3b452f96b154daae55d73577e9721459a76, 1000000000000000),
    (0x55412f2ad63f6fed7606e64cf0dd986a88241cf3, 1000000000000000),
    (0x616453504a7ee36f9541ffe55f00d31f5ee46704, 1000000000000000),
    (0xe2bd1fc9c11876eab9098e564f6d2e3ab09c243b, 1000000000000000),
    (0xdcfcbece2f6a38d7fc54f75c552021df67082ece, 38503553942000000),
    (0xdbd124e898839ec8c829d806c0328f069d1bb810, 500000000000000),
    (0xf3af48e6ce100172338c318caa4dd0ac649460fa, 7569699329518616),
    (0xd01130a8e4e9fee1bba2fe966a7ee6166c7ea3a7, 56540894426801010),
    (0x8860ce7e55519484eac883f3abbf8947ccf9e3c5, 1260439787030558131),
    (0x9e353fbdc3ec7290290bda31a8001cb609858adf, 71736639048321151),
    (0xb0f011fcb64df9e3ac2b3a64cbadb281362d600f, 35296668173481937),
    (0x85b2566ade4a8f7b15a09cdf7711561c4e420e71, 10002343113415235),
    (0x1aa205bbc76f7fe53501ce1e6ae551f46bf93bfa, 94703505519712844),
    (0xd3b2df96c968680ca5c5c3ca1dd66cdde591a351, 2764633123043229),
    (0x101faa2b54a7c3e74ae165f966115d96931db7e4, 15022749864905806),
    (0x46e9b39248b8edbc78cd8ee550f71875e5297319, 7538642940317936),
    (0xfc5737a0fe325d6b2e0c9dc2ac1d81f549fd662c, 259805475499109320),
    (0x3594b221e1c6248c713ad9eaae1fe6a367978851, 4289309272263900),
    (0x48fbbeab6d9ff085f9611fdcbd2835109cde6bdf, 27847298809071121),
    (0x83fab3353da89d881613d596e61c46420799ce36, 462251764227660462),
    (0xdadac68f07a1d73f388d2f50494397715409ee0c, 33221039298778307),
    (0x620cb6f64c2c66b8632c045979b28d14c5dd605e, 14022015898036423),
    (0x0bfb19be28bffffc5dc6ae771f5b253242d1771f, 3799331110914326),
    (0x382670da56abcdb1055f9343fae64a159a1b1321, 65389902536564653),
    (0x76db54f7db9a0fc37de66f67c970b4ac072646b7, 92972663668962936),
    (0x44acd0ff3be9fdfb932453c82b5df5739d28b276, 143132696836479368),
    (0xe2155b15a8a422e4ce354be0bc1284b8385399be, 20589900417428604),
    (0xda5837254053a9ce462b1570d89f855a366e0b35, 345618400217019023),
    (0x9684736aeed193da78f5068ca979b23dac7f3d5b, 3059700000000000),
    (0x3d2b0f95dbacff1d1d782074918e89e2fe184a0c, 128703406620501028),
    (0x92380a1e535c77b2bde8efc5b21f658e04416e1e, 12632531830309863),
    (0x6c2b4491ed676950abb902b1020c6d65487c5b0b, 64396368047645701),
    (0x3b1cdc976979c4383322658a1afc50f027598b94, 26299211417010993),
    (0x3d4ed774386e7e81fffb27d0ceaa554e2d529311, 16829665562664741),
    (0xabd9f6f945f51c8cdb5385a2cddc886c0c5d1cf7, 2826552137348112),
    (0x1113c54cdb2ef5b41d6f48280cea00205415e6b3, 139215779042634559),
    (0x67958494e70c77a537101ad0b35b44ad3b072dc5, 132014912987897817),
    (0xc0607575df410411a06833affc54b424a56b385d, 36727336450494849),
    (0x15427c44b1ab3e14555c4b193ffc804a451f7182, 5457067322152035),
    (0xa53a92ead40841535ff9129e0bd68e83b3e271c9, 23013265421263274),
    (0xad6ee7c40d7d80a6c404e82e77cde5c5088e98a5, 64405539199066192),
    (0x60e2a272b6233d4fe08908bfa6ea44518501732a, 49052721274654896),
    (0xacce74f9dd9f3133f160417a8b554cd3cc8a3b95, 26278019658472543),
    (0x118385b5752f7190317fd526d665db8a6242973d, 13071120137250827),
    (0x13cdf1e6f543b2a78ff2a5be9b139e3a96a4deb9, 500000000000000000),
    (0x71e738d4bcde3afc603591adcb1baca115defcc7, 3560566555273513),
    (0xcd793814531b98c3f9d60b3c18839510224d1069, 13525523658684037),
    (0x4365bbcbc6ec28e992269ccd1a5fb46bfc7bd2fc, 7382577419626867),
    (0x67c47b1af7d8b7352fde8d9b07b7e2ce0a22508c, 47274418588356941),
    (0xca6b7e28c88b30b04bf6c6ac2108c72520804fee, 13802945394767980),
    (0xdae80117fd91a7064e7e7ef3341513230c3c94e6, 20121000119702314),
    (0xa5c07b2c9d55de33d3b9d9bf1c36a8915140fd4d, 12038817529806838),
    (0x63ab0a35537834e8213072be7637258409666741, 7260257032970324),
    (0x76732bbc532308837c111aaee514837f22065ffa, 500000000000000),
    (0xf4a25ef4df76e0cab20c92464c6c43762cf50d05, 24938329119114821),
    (0x3c8691b2d91934ae0053e1c6ac95f16afabaa639, 13663916650663972),
    (0xb65b11637e00dedf0cb9744bc2114775011366e4, 6860225424973710),
    (0x6e69e29cdae9e82a9abc8a8d8b7953d8d8e4d6a5, 21281053419697851),
    (0xf4888f701bbc96c711fc8bdb307c5b482f21290d, 155498670586665087),
    (0xf11d632d9e3fc469adb3230e6cfa4a90354d2f11, 101022151389066969),
    (0xdc3b2dce95ebd1e7c18eaa37780d10d240146660, 125920921624624690),
    (0x8317e737ce3e1beb00a967748e6ac5e982d0dee3, 18960944361941113),
    (0x36e523bff03716d430d265d71b9521dce25db8be, 3878805452985394),
    (0x1c7c7b93f7d17a0faabfe6f99557c89493ccb9e4, 11198062815091517),
    (0xc31db2e710192791b65de43d4b84886a6d770322, 55070108453759102),
    (0xaca7236d6f5af4c848f8b52a4d4b7fe73f2a6273, 155151985272312918),
    (0x82646aa083bd1a83b02ecc172a169e39cb87ef9e, 61977954771095008),
    (0xe3c84c395457244d5d90da3b3cf59c268c654fce, 6644885674380015),
    (0x9df8c21e4e482bd1e4a26fb3493c365293b31a9a, 34368936327008115),
    (0xdedaa514b89fee98d5147ef963e800d4390b6384, 26480324488896923),
    (0x19bdaced45799f0a3b0c94f2f385bc4f921975c9, 48725778632580180),
    (0x987fb317888cf344da7fc3836bcf62a9f6718858, 651598069494266151),
    (0x907b9c10ce7604ac5a40f7c8e71d6538b1fd76d4, 13834139682918385),
    (0xd5400fbd57be428ae186cde13f5ce70b3199c7fb, 57190000000000000),
    (0x7e6aca05a45c39ca59d976f34e87875a2805766c, 37397684945718786),
    (0x89808c49f858b86e80b892506cf11606fb25fcdc, 1002776993134003016),
    (0xb28340110fa820b3750e43bfd821e24b1e72eec4, 10758876522944344),
    (0x811b0fbad40bf38c07dfe48687e199118815499b, 33751334973239894),
    (0x09737b691c2a04dbff7d27efdca6d57725fa0b0a, 79981000594994685),
    (0x19256dff4fb712818c693dd6b097bdcd79dc5381, 19144768559790832),
    (0x7aa69b5ee49c4d3170e037960ca6c83f61241395, 2642488650890412),
    (0xa7137da63b53138a6dcdc9d9a010f42f951f1113, 7700003116191176)]"

definition claims_data_34 :: "(nat \<times> balance) list" where
  "claims_data_34 =
   [
    (0x24fb9f6d2c72a00224ce6ebf95e007a26bea8d4c, 16572054284736062),
    (0x1d3426051b62906a30ebc852d925088e1129d959, 25983083291095169),
    (0x011596798fb59ddf7fee604a8a07097eaf341520, 4904794988206396),
    (0x64a80f83dfad7419f9217a82af37b24b46df1262, 15258281626945559),
    (0x984253cad96157b89255f4674e5362fc0feb69ee, 81685434022134380),
    (0xdc0773a69d61a2d10ad4aba7f3d8cfb250156744, 60246635786384967),
    (0xac1b80e06f970879bfb8f2b92b59442593f332b6, 17156472977189436),
    (0x4a23abf4eb73af80af932ba9abf89f4efe1b4c96, 4185529411513177),
    (0x50759c1b1a6d236c5aafb689aa8427ebe4544224, 26013796005410352),
    (0x01740c9fcff3607531b363dc940378d2a9fe837d, 23137702050307311),
    (0x06f33e10e2d04a306332dcddb82afb071d2bc51c, 37722198729685325),
    (0xac3bd1ce1f6bd693e2c87b7b015e47f0b66a07ff, 21701860364991028),
    (0x901e4b9392e37ca534ae66e851d4a17b8b067c81, 27215644718543567),
    (0x2f9389affdb2b2ca43cc72747fb789453b93a5a0, 3376936644216104),
    (0x984ea9b9d18c802019b515319444e774a8e7d658, 111245815259972659),
    (0x7f5e86ca7d5df855ebcc281fdeb39022256907bc, 13323061027591993),
    (0x056fecdcba9dd9006598446557f0bbeb92bb2cfe, 7443820633106495),
    (0x0a04907422c1c70d26df8770bff1b17743d65cf1, 13202262165599765),
    (0x3b2e08243aac72b3c77db6a6a43ebc2185deb75f, 22953661014625304),
    (0xeb3760ee877beac5852d3e514db703ae59f8b084, 25966962407772164),
    (0xe15494e529d8ce5a9b37ad51bd082a884cf3fa74, 123067702381941201),
    (0x0b1877f6810371a0b995d7c83829b0b9cf974448, 25353837205383043),
    (0xb38f4b98242e13461b2eaabc37a2faba50aa9dba, 7384949333063716),
    (0xfd867fa6fa9dea501dd21d84d218b9dfecc29678, 17211500000000000),
    (0x4a40bc93b4c8724b9ba9267587f37e6e80cdb358, 111228495997695278),
    (0xacaa6b5d4fd11a09be764a1e35397906db2cac26, 94072687122179679),
    (0x547bb6dea364ae3e1fc706f092bbc6e781b26d08, 6726708109506476),
    (0xa155f0c13156bfab50ea12ba671a0f378bbdc102, 39593786429742355),
    (0xb3aad5a4b88a8111ffd021d6d26d9464a06471af, 50000000000000000),
    (0xa284ea907e102dc60d7ab9fab58fa046565b436d, 12808304965220534),
    (0xf58465f19b14129ac0b9701358dbb3050f17e505, 2054358884232705),
    (0x7809e5ae00fb01be17d15cc484b2c89fa9f731ed, 500000000000000),
    (0xcec0fc02254026466b30fadf727b632bb5b17f6d, 13276542701923159),
    (0xde9046e9256aa08b6701eb9a729ad35097e10a37, 5536284205708098),
    (0xa4a0237be9cb23084edb9eb186aca79dad7c7e96, 8311331300131625),
    (0x8dc490643c58795e5c4dfb9b24682aa6d9dec6c0, 16361500000000000),
    (0xd1b14591d533de37d6d004ac8c32f6a9c5a09014, 5765119438010157),
    (0x8db41cafb23dd81cb624f33ff590906c77ecb8ef, 3161172004202372),
    (0xaa039ccea6f5d6a15feaed241a3f2ecaed62db10, 20000000000000000),
    (0xb5e1f96aeadd29bb2d363ecc7a0b8bfb6e9f4ebd, 125725650705304937),
    (0xadf56ed28c73aa814545938dbb46789611e343a0, 5638700995739358),
    (0x42ad79b6b9dfb804f71529fd590b2b33bbebb84e, 10280821618651431),
    (0x44df82f84c955b185bd1b55d4813217504c0ffee, 11170991926997031),
    (0xeff5b3bbc33c1c2835fcc75e77103c866ab0fc62, 15000000000000000),
    (0x93e1da1f2ac332068ab6b9f1a554f621221a82ec, 6108468169403786),
    (0xac5c9e93719dba220a8fadbf5c415a40dac5776f, 40442234528309462),
    (0xe3c12dbed8112f7c3a192df337a0b744786e294b, 15352659278949009),
    (0xf40f8cc5808a4f3f6661c8f1dfd5e0b4d1495307, 11599051676946490),
    (0x72933f1865ab7211848e09bebbf54ac93815a87b, 52719905735976749),
    (0x560c8110b2c2f85261c0f761e329235194daa6b9, 10956619394182455),
    (0x18f97f0c6497cbd4d9644ef78e90222e217ead3c, 4825314033809653),
    (0x43e7d33f026ae402a87700f314f8fd1556e3f0de, 27505844624615275),
    (0x809873497721511bdf5075d441fd755bd70d8089, 17000000000000000),
    (0xfd0cbe567f860ee35a79b72bd8850b7d9c13b568, 17475358045208726),
    (0x8078a5bdd8991767e4bcff4f0e08c550fbac2376, 1321075909319115470),
    (0x17ba0c93587be8dbbce33ea408760b5ead8fd059, 23889954962332359),
    (0x6c36a2acd3cfc6c76610f3659fd8ddea4876b4d4, 3726134266674539),
    (0xc4f91cdd498a30f8ed1dea3883cba314a7a2a022, 21726750614781091),
    (0x4b8c40a9df7ce40a9d63b660f7fe64109722490b, 68215329564664863),
    (0x8a282ed6a364e4217bdd7e1856918b80b2b764a5, 4490100000000000),
    (0x9b0e7954e36f9262dde23f46624d746be965c234, 31441036940806724),
    (0xa4d8e21f63e875c1b544d324908f5babd4d1960d, 93112984028914284),
    (0x1e1cc06e40cbd2e5373bea0bda2949a437c92041, 12032522397247570),
    (0x2669a7565899ab4bd7b7642aa2725e751de6035c, 61806125673600565),
    (0x000f4432a40560bbff1b581a8b7aded8dab80026, 6969942649741204),
    (0xd7dc9b1bc54ddb735a3823951c037a6b324c4d2d, 39564349821657403),
    (0x42a3312a9ef4ee8ddc1fb06429f7cd332fba2cf0, 39035783548865909),
    (0x5d2f29aa18aef827317c48bd2b4f05fa24880038, 24070479083634023),
    (0x8e159d960c6c724f02c899f62198f9f0d7c261f5, 28050918704985901),
    (0x30ade1d27482fe3b36421f1a80d996e4c09a920a, 16500000000000000),
    (0x19b7d13803a7db495630b1fb6396a488b065d13a, 19341182837498673),
    (0xb20c87f3ce6b8e2e2493e0fa7b1b3aee2d618153, 6987517243187357),
    (0x21339313dd4d44713fc075fc4ab8dd6b8e9724c0, 25925001112520066),
    (0x6dba3f038becc02f4fc81ef25b3059d55a28cabc, 8549737521032840),
    (0x4138574878c133d3a12009d6f54b8f26de700834, 13253851654600914),
    (0x97c2394763d61ffa46581bd68ca8385a32f71aed, 94167693570009786),
    (0xe6053414f9b27ba19f980796b574086abe5548d2, 6481983790294824),
    (0x4766b44ece0eb77db06b8f78f99a31ffa83cf60a, 5153613180831891),
    (0x2ffa2d2b6d66bb11ba332f3ab26e3ccef3b76724, 14693830258598807),
    (0xb7a0738523de5e8c2f40e5ea1009c68c25004aa7, 4463306282847827),
    (0xc6e1f6b6ef7cd7ce40e5ddc679956a202d377cf7, 10977418315767641),
    (0xf9167d935ab22cc34006c33046b87bf7e5dc8e92, 31430107102876305),
    (0x1682135756404355f58811f8e495d999ef3ca0ec, 13584360975544732),
    (0x3af30b956f1737005b6e3146dbbd35b70f30df91, 15597432368191406),
    (0x514fba61fc76d94094463969d13ed1b8706c9118, 17000000000000000),
    (0xc740d49eedce4db3db0bd17363e58ccbc2fa3f18, 13244880795615187),
    (0x919124cea4742eb8bcf28dd94129f84f72505b98, 5512515609534342),
    (0x7171341c9761a254b758dc86d2d2f7025c243a3e, 1898880959491857),
    (0x081076bc1b250650f009bf802425ec4979569a59, 17350000000000000),
    (0x14b46ced7c91bd5b57e566fe2bc0ad64a04775a4, 6776845999413460),
    (0x55eab065b4ecc768eec3907a9ba70cad135dc633, 82867196475028411),
    (0x9f1d7f9fb560c16703103b2f42384be760baf889, 16661307549446878),
    (0x288134424520caadf321ad1a7dbd4f11665ea26c, 8943988551707640),
    (0xfb7c1d49e006eaddff2385c7ef8b0c5cf49d038a, 21579018817672398),
    (0xed380970f4f0746c56c033f00507634a985ec330, 39919847787140407),
    (0x502b1ec117d6777e92c8144a6d762206346734f7, 224427788001117639),
    (0x107638bcb5b2aee58fe5d112e14aa0166ad29345, 15482334340566431),
    (0xb20ab93983e7f6e9e11f424cdeafdea7c99180c6, 8296427150484654),
    (0x69d93f3b4a25ea4dfafd782d9b4f26e9d9ade837, 76360108335084235),
    (0xa3a89931799ba449a7bd1658efd9c8662dd22bca, 7086152169340609),
    (0xe87081eb0a3cc4140798a272de655bbcc8462521, 18630290195628337),
    (0x284edac35636a72e8bb99f33b12d0fe521c7fc47, 9414308673379865),
    (0xb4d39242f35bdd370908de3ac2630db3bc4c8c64, 26392625736418169),
    (0xf8664f0c1cf0d74750d53a6b8c0fbce4582cb5af, 7077228484817838),
    (0x6f4440719569d61571f50c7e2b33b17e191b0654, 23985756168569370),
    (0x91b212c9e476f299333e1dbe510a3e518bbbd21b, 1100000000000000),
    (0x56ddae77252ae19f48882cc2153a974e39fb03ab, 4859580940735550),
    (0x360affea3c8a6d2179b025722d316298bd21cb84, 6336538557753218),
    (0x1852b09a22842fd8511b1d017ebfaa59b7d0877d, 3490746804672099),
    (0xbf46fe8f19c8dcfe54813a5f334adb22ea44255c, 13150108375710962),
    (0xa965e9251c74e1df7de39947a00bb3da393c3f8c, 64912290971424580),
    (0x9c9c02e8ca06dd83db000516187e6e96ee4e609d, 26286754762342761),
    (0x18bdd6f71341c8bc169aa734647df0638a684a0a, 28052726188195236),
    (0x81409e4c1a55c034ec86f64a75d18d911a8b0071, 23959771103007872),
    (0xc387eae2d5df14fdd68a94acb3af957be431d0d8, 39059613533271968),
    (0x5de853cb6813f9aefd25635776139d8c0aaaf77a, 65664789460598693),
    (0xf396923a852cb675aa52604ecd6489385da4b9cf, 13355050781818246),
    (0x20b2ef3736845a6b75397ebe78c88469752af4b6, 1854702572124680),
    (0x1092d7cfdb86d44efaded83102c7c746d3ad3dcd, 6980201423212406),
    (0xf22b6c344b4388dca6b311f4c876c9722a69ce3a, 26641609557111454),
    (0x1fecb2e6ed1e930879d86d4734489442f2f80952, 26310552089229520),
    (0x7d179311766e8b2d8571b4dcb00b47f5371cada1, 64778126559168911),
    (0x584fce8146c600c24e5156c7c4949cc565c00b15, 39622573375996508),
    (0x0ca0e250626602aae1fd3eae436d41bfe775a442, 64139670772476585),
    (0x8c26aadce492c21d914d4e024da03768c59124bf, 80792998814673458),
    (0xf6c81b31e909218765e1733994170a5127b31141, 6674339032567101),
    (0xa01a71bfff2d6f46be588d5e695d7b98c2cf999f, 5677345717827270),
    (0x0cc0fa29c509633f382354bc1b6538bc131bbcd6, 127868613240463226),
    (0xde272f9c3185d0f8720988b77dc38501f2cf9ff6, 13662232503550154),
    (0x7502870924e43c71bedf0093a33f4b8f98046b88, 14245923024133917),
    (0xc3685642cf9c2f622e2969895c06dff35c38ff4b, 4072480096413043),
    (0x62cfc31f574f8ec9719d719709bcce9866becacd, 7584089137298866),
    (0xdca821e335fd379432ac8ba0608052412ca99c6a, 25270926374213622),
    (0x78a18ddecda44f7d298d9b37512ed8a7f6b226c7, 65483893585225245),
    (0xdabfcc3dcac0020036ba15014ea38950e0e744fd, 76856495269124177),
    (0x107cd74419dfc9ff01975e652597c5a4b6706460, 13618540560099762),
    (0xc070b4384b472df637a389def078706905edad07, 19535000000000000),
    (0x4615bfd8ada0dec0f3a994e518703728055e072e, 11776908460304331),
    (0x72e6631adf75e813c09ecb4ec69b45f461e4fc2a, 13988943556596111),
    (0xc06ce5b9d8b762df1877621b1b3e59d9089e2dd4, 38180701948127829),
    (0x7ef34907ff0e84ed776f6c0294bb1668c0b9c8a6, 14412116292881658),
    (0xa06506edd9868e40587125c458c6ed4c0b4fed3e, 33879893607642435),
    (0xeb6b51d158a5fdf67ba74d66dfe44b396e4e227d, 14259179109318267),
    (0xccf9a2f4b558d0a23d2f678adf2de1dc52fa343e, 13586643783123680),
    (0xd23d8163a35780480852662996508689c4178192, 50347488111330016),
    (0x02970c31a80f7c4b022cd30c6f9e6c1c5b6e5ef4, 41161145358500817),
    (0xd5cbf47478516508998dad875f0cd95a5c3b572e, 30024592796439766),
    (0xb06773492ad69b23116022b25ff0fdafa58b70ec, 13254025768220675),
    (0xac5d145e99cc5a92500d9acb753a9ac28d7537cb, 6959940091985091),
    (0x82403914d311d9773c71cc33edf31dea460d0605, 98910476244231736)]"

definition claims_data_35 :: "(nat \<times> balance) list" where
  "claims_data_35 =
   [
    (0xd2c991cc5bdbb00195b8c814abc1cb195dbba910, 3516745228972301),
    (0x1121f4ca9fb820c6b6731cb15efc8f0b77b1c5f9, 7477290759452102),
    (0xd6fe21da1deed013c4722391749e545c9987e8e8, 5952759361545910),
    (0x49fac2e62a9f47d99b3a25adce12e9cf056086f9, 32499827263838564),
    (0xafcfec3e8e9add711973654198166f9256c7aab3, 15083204055969727),
    (0x09efd0d038dab6adf8436118dbd51b117b50d4f3, 161281302767005100),
    (0x593cb13b5bbcb2ba8456aa15cda4c96418373faa, 25980405933088523),
    (0xb78662d83b2337dccabb73c6e2f868e1d312dcbb, 144549267096898630),
    (0x1988c7d5957f5ad250874206e5bf92913124e5d5, 5205000000000000),
    (0x30ac10d17b1ec32c74948f3651ff4a073c782479, 11866503993473918),
    (0x5c9cd3ca797fc1cc48766235986ab7074b202962, 73778899694347837),
    (0x640c8a6fd4f4a26ddfb383b2a30bacc052da9dc7, 4864224746082854),
    (0xc9d4f265d008b0fc42829e80dcf3d5f14835d0b4, 14593060090921561),
    (0xf56036f6a5d9b9991c209dcbc9c40b2c1cd46540, 26982247151757490),
    (0x69067224dc9b06f2e28a8db9e0599e2724966b47, 5091548343599535),
    (0xb83f97e471fac857f03064c54d77b96856b79288, 19171629268108711),
    (0xc87df217f43930125cab2a808d0ac76771714fc3, 34156452881597454),
    (0x6597941ce634514ba13f04b21fe677c93a87f209, 26568407787491039),
    (0x5ed7e457a6786062466c5a2e68b073e79570c0f6, 11634391408556607),
    (0xbf7d83ae0873f147ae1432f2ebc0c116daa9c919, 13526242237308814),
    (0xb22d74a9873d98da7b5df53261f042bbd92dcac4, 2082000000000000),
    (0xe3a531713fdacc52f076bfbcf71194a9c921ff4f, 4831594600472893),
    (0x1b433368353d434cc22310fa0b3a3a2ac6f8ea99, 1238700000000000),
    (0x9eb08102c1eaae6335dc47e56ec90a0aae9849c8, 2196451283584503),
    (0x67cda0e16f96ab6ec66295159615df54d6076612, 1323832238577871),
    (0x99999100d65c816e6a7bb972a79961e0b97dc0e8, 2909084284872595),
    (0x0af90fee025ebc11b2944b748cd8c7f063d7bdef, 1708225701435337),
    (0x1451986c1adeeafa32576fd0df2d4b7941f1cbdf, 1484884363897008),
    (0x861c73fd04dcbc760ed3147c3a6ab8463a79dc8a, 1352600131454659),
    (0x2be4367a5a5afac1963a7801c946e6f6e0dea365, 1361851088031256),
    (0x2869daeb6298e2df78f7a19535d24ecc5c6f85a2, 2149432199775741),
    (0xbea4749947b782a9e9ed98230859bf9784a1eb2d, 1531552158190914),
    (0x98640a6de21f7a39a7823f21c8255162520e3b76, 1366093614785247),
    (0xb089425c9c078b70cf96cc6051850f37f86b1426, 1370851125401858),
    (0x310213d70d81f300aee4fddeb8f67fd9ef9fca50, 1371188363336119),
    (0x29d6d6d84c9662486198667b5a9fbda3e698b23f, 1362019706998387),
    (0x8920377b85f8a015bd0fa79006791537b3ea9588, 2510819854572091),
    (0xcda1f3e00cbb29b8e4dcc5c62c1840628f1d0524, 1408431683731568),
    (0xbcff81420d024627edd07ab9468aff7881805d57, 2578523258985104),
    (0x966e39e346f84ea85177aedb840c9e7b47a46626, 1277158666063908),
    (0x1b21080407c712aed1ca783873f759b14c83f332, 1224055345723424),
    (0xddc570bafd31c4a3545a3d742b9d022e78a9cb7f, 175097577498151),
    (0x1d3f704d84e1b6228b685e9eecabc043dcde9007, 1586894571007642),
    (0x1040a43093b700d9bfe90346990afaa4d1151508, 873960511322239),
    (0xe85b703f6905e4230c00c4ab54c9753c0e9e0ac7, 1518073733251991),
    (0xacc04da53c239f0fd1b7034b98ebe985609c05a1, 1385638881873478),
    (0xf014b746d7f8169f0d14886277e5dd0dd49718d8, 1130832334561154),
    (0x26af7ca751f7f572c891a0969ea8d75098d335fd, 626696948776563),
    (0x88e76ef0e8b99b2b8f215f42b1352719fa2c42f4, 1459566830068973),
    (0xb8c04c44f59cff3dddac1573c0b603158d9cfc1f, 717659308573359),
    (0xa11066df189fe861277dfdec66cfa1481cdda34b, 899192159788511),
    (0x355b8f6059f5414ab1f69fca34088c4adc554b7f, 539324614611211),
    (0x1f4c3236781107eb1f456ce25b8d35e7717e7d1c, 1166839312849085),
    (0xdf04cd17ec3b30292b5a96d481d1bbbbb24c3b00, 3391802041398373),
    (0xbf1e656074d596e65966bc2bf3af427d3cf8c9e8, 372957840071061),
    (0xa69310cf42039a2b751823cb09364536d1879e30, 2347609445870636),
    (0x92cdae68a81be72c8313dafa44679693c2db7843, 1347399764874766),
    (0x02226f548ec48106bef062cb1c53408085dc3122, 1165583184715310),
    (0x769893a94e66297943b728a52bee02afbdd5e4cb, 2953508507942903),
    (0x3ab83a7a5e56a39c94fe39b96432bcfb56f9e567, 2934059284064649),
    (0x0eab40f395678001134329bb01553fe5c405a20e, 1477291257448801),
    (0x3aac43eb0198c8018c38d4c4638a0864ef8fc768, 3275331028767702),
    (0x99fd7fd0946673edef1d6ae560269b6262c13824, 1751509822592880),
    (0x26a2ae500fba1c7dcc5a52f0f580a01e1ccd4308, 1326643861362388),
    (0x44e45c4af784da8ac5455d4148ac870ab6fc72bb, 3067996170614775),
    (0x1077c2fecff01fa36e5f69fbc4a7380561dc83d8, 2302040550840790),
    (0x5c81d10ccce8e71307afe936bf4e0bfdb784c986, 1619468301657581),
    (0x231f8f1c84d5b6aa07e763690b15d7468763e146, 1523475519782446),
    (0x5831d55448a03033cca4b5066278beb590b9000f, 1322350913072237),
    (0x89f6ecd7281a9c7e85956b555bbe4a4927e82153, 1691982255932148),
    (0xd6aa6c49cf2853da668f6dd0f114320e7227f240, 2298146967294116),
    (0xd31d65e45b8a72c522a9e1c027abdf163e203992, 1163722685405604),
    (0x49101930325d488c746296c65f60b0a0a373f6cf, 1159226507923409),
    (0x5469abff736240a0f9be50c13828964e27eee03b, 2262344187801063),
    (0xc9bd52730e2442f6389d3ad0d4ce93574a5f8dae, 1016317811920894),
    (0x85f0b64e42ea6d1a0092e530a1426a1081a60d57, 1287853105182202),
    (0xf196411e32d99e77620e5d4d88a167342b8e5493, 1461932409059362),
    (0xcc46e07fb44b0d29f19f9d8f2b13b343a273fd76, 746715881545956),
    (0x28fd24db79a0996f78730beb64043085a6bee272, 1677064417281484),
    (0xf629639a14fef9ae7862ddf903533de047a362d9, 1512671824153232),
    (0x9f9360dad9cd76a21d61de16db13800597816a86, 1474158521028190),
    (0xbf4982c52a301fc624a9138fdb0a3f29dacf0ead, 2172282346090461),
    (0x3b0c3b4b8219433dd5faaf75faa4f1b04ada0757, 846343771204075),
    (0x7aaf01f3405f670e24db57bf1e9e73ec4203cba2, 505896298347095),
    (0xa4b47d97221f828a12dbdb7dc195a4c7976d6c09, 2933682364641887),
    (0x2d53ee3e8a8b74f5b2a905426d5f11a925187cc4, 1408518882325162),
    (0x38c556deb5e0717a47ac621a5891252f50d9c87c, 1410572952006793),
    (0x3a63817848b6b7272a6a3ba9575cfd1bbd9be27e, 1086141173045230),
    (0x8e7c96bcc2d73b4baa56bbc4ebf67f87bb9476dd, 1405228098453662),
    (0x9859d12fd8b3cdfa7e7e57856b02e1ca8d592c93, 1083935118666331),
    (0x446f3c3ae7ac16db80fa60321bfe9f7efc677171, 3328952166736031),
    (0x6d91343712ea2214c7dadcf423d9a7e065b6f27f, 1062866719337118),
    (0x38e4bb80563fecf9f11904d89a0a4149db76a4c6, 164153978904516),
    (0x891fa040c6926e14b906930ccf06f945580905e4, 1039038326932833),
    (0xf76f751d9c7cd6825a3d1269f2e0f0e073d35cf7, 1024075963156931),
    (0x10b6f0bc34ad2f231c3a3938ddf3d13fc39b5efd, 1075858392709074),
    (0x6149a51a0ab0ca12786fe3af59e80c8d6e4d1247, 892187392144296),
    (0xc64c6ccc24fa1c3a12c1809fd9fe32b3b9fa0520, 2400074576500004),
    (0x92e087cc8d79b2403b0f923fd4fa0fb09aead9f7, 2536865617036222),
    (0x3dfe6524963a99d030cda681450e4792b7847163, 944118061494268),
    (0x6ed0e6178b5bad549d7348a895c04a9773435cd5, 1884988719541862),
    (0x7224b305a2949a4ec28289b7afe8c3d784f80bcf, 666804379644103),
    (0x114b32c82776a87eb85b62850eb5e7df8961b1ef, 1459943005327030),
    (0x9b58304902c0b13a900949e7da707397316e7535, 779352164708229),
    (0xaadbd59753bd39f9e92e347daf03a7a2db3c85a7, 650599562855230),
    (0xf13d9d6e5a65cd6e02974a3e66a2df7ef28b5755, 1768640966850871),
    (0xf829be3d31735e3957f7e9068573597be2298f36, 1597600255767851),
    (0x114f759c9cca9c59d97866461cd70be87e3dc007, 1144238155289567),
    (0x179644e56c7c9ce05b9e41877ca9bfb2eb5b3549, 747484999082859),
    (0x2ee3878ba9d834fc08153f363a3dcaeef96c7058, 2546262799788507),
    (0x08d054d1f5f67684fa2d710bb89435990f411339, 561709673306740),
    (0xd19eda1a6b5b2176fb3ba1a536cfaf19b4af6aed, 1543637502425822),
    (0xfe74d0db5534f082ead31bd98a1c19e6918e8113, 2824469202396534),
    (0xb6f878f298a37cf5c5b87567de6adba9c01b3ed8, 707998386247186),
    (0x9f0d44d6778835b7d57e63d6f1c03cba7ec315f8, 2723454027018037),
    (0xe0d2eeef4ea3bfa8ce4d1d82299cc3f97b4c89d2, 509166245606873),
    (0x30e7b5f2f943b040edcd137b9365fbfc111a0733, 505833263219196),
    (0xad6d126000936f88ebdcca9775512fb185c77b1a, 1112857449243441),
    (0x6a8a1a7af701809f0a3105f9b8cc83fcd0421eb0, 920355591139191),
    (0x0cbff3df2007524b8a397fe2f79a38db8a118d99, 1302768744169548),
    (0x8a976783a5f40a54fb5ca78edd9dd1fd9994e4c3, 927352315238440),
    (0x53722c89a520c69bdd31b2b99e98c192e15b3709, 1345700792834358),
    (0x828e1ae13b138959aa8b370aab42e273fc66ab7b, 1512343069696600),
    (0xf6df31bb885c251fe3fe99403115eac63bfde7b1, 1208368168340998),
    (0x21056b8ba56cbf2f6293ac3cd322041f74c9672d, 1692417975310153),
    (0x8d13043a7eae37f1011b220ea73f67f8b1af361f, 853433712876145),
    (0x9ebfdad48eca2e68a0b3e55107b6221bd82ef630, 3090559266338384),
    (0x0072117c17f9902906f3d643dd114f55c39aba97, 1713856784156280),
    (0xf16c0b25498aa6dd0352014640942fa5b9942c2a, 1320873264615730),
    (0x1b31dcede2380b73e5eb05dd2b8832d2fd24c805, 1280813609122210),
    (0x290e2442f187475a4edcfa13a2bc4e652eae18ab, 1241977841921007),
    (0xe953f509f4701f6c73ead84ccdbdd9d48ed8a21b, 723394148205973),
    (0x7922904822af2d7ae52b10d43dea3785769d15f0, 1330554357802945),
    (0x3e536024433a028f4e19ce2ab9f13653dc031386, 1524511003081375),
    (0x2fa3a6e0530428b9ca1c6c6ed59d7e1e97e5a29c, 1327799905909585),
    (0xae18331c1f200c12ff884bef2e34042fb9acfd63, 826552448245065),
    (0x6cb88f58ec7a16de7a32032bfa4427fdc59e96f6, 1383722876631705),
    (0x203df0de3294a5f904acd3135beb1ba8cf92a54c, 1167523375309976),
    (0x9686fdb8863dc699d44499df6ae57c6cc1e170d7, 1150854332841858),
    (0x7bd2954ff83a382a34c8fa375a404aa42358aaa2, 4077066032584137),
    (0xbfbe7f5a061c980019ab20f60e3506b139eba4b0, 1697307288439506),
    (0x467c7433f6312172829e4d15087c1c8b7b1b31f3, 1170876975437404),
    (0x10a07aee71e04545883d99ecbeb5518194b194eb, 1939477619217075),
    (0xa4875824062df16a8db6db477477262460a31a3c, 1965012295928405),
    (0x3eb9056d853253ee3ce29c23331e0824931d7a46, 1405079265512788),
    (0xeb43dd49ab47dceb1ac0447f9580fdf5d2b8f92b, 1112724618584183),
    (0xc41d28ce0089c9b9015d2c3672bb7486c30b77b2, 1454257039805736),
    (0x8f260fdb612cb231b5f0d3faac138f93a1a9bf84, 883907060535204),
    (0xa76483296b902d2beac706a072f467219219575b, 1442971348697504),
    (0xca1f4807e791b7ede522468ac2a6d4fb64687bdc, 379511742396817)]"

definition claims_data_36 :: "(nat \<times> balance) list" where
  "claims_data_36 =
   [
    (0xb41a2b8242f656f473f2fe9509638649c0d16b15, 1027892333049368),
    (0xd04d32bd9923dc5c979da4cfbf0b8d703b35b7d2, 1064949529097376),
    (0xdd7f2c2e28d5e491b5d9713ed1f5c16dcf495003, 1082351361077860),
    (0x0c3a7320b3706e69d0799ef58c2aa52bc51eafd2, 1179158478011545),
    (0x59c628a96d97374dbe72285cd0b7035a8d5ef1ff, 1074745415599783),
    (0xfdc4d37a46e529e7e3ffc25354d2878c82b4cbfa, 1334838894186602),
    (0x14950686d0af073448d3239adb8bb3a95de1cc0e, 781068416444873),
    (0x014edf60f8a5ac95f82cb3158b3cb50627d4ec03, 1287974255196073),
    (0x0088423d95f2ba2e9f5396c5bd8c64871e378bb5, 2255728117080417),
    (0x135c70f3086e77dbbbc5568bd3b206fbc3d4b5d4, 888887185834407),
    (0xeb220dbdd1ddbc427210483ab2f9f6396d43cda9, 2044434499685031),
    (0x877ba7559693f185abf9bd0f3bff059ba22252b8, 389412634916450),
    (0x584938629eb4a0e597c15d11d59d96317639b2a7, 973417095362640),
    (0x22ca65532f059393eb57893ee4d9b66b918dd9cc, 1426155454495480),
    (0xdbe3670b58d0bc01172ef8e4feea90845a84fee8, 1023806282245508),
    (0xb07b5a5e146abdfa84a9afe38ab8f642b8c8cc8c, 1442061208999426),
    (0x920acbb88d0c40fc800d8ae8564f75a3d3270858, 1139762967629475),
    (0x4a0eed6376bb307bf8d08243d48aa49d9e802bc4, 622638145344481),
    (0x2fa0af527f9ecba898ae9eae5349da7857efc75a, 507273769102076),
    (0x110d61e62bea29ba3d5a19f6f6a80e8c74ae4707, 931510281884347),
    (0xd817c4026500e76bec25218ebb81283c2b1f618b, 1613790121412326),
    (0x5e3aff8e9e56e4fc5b8b3c7ee117607ca069be6f, 463401035550576),
    (0x0cf1a7a326d1fab385ae21f99379ccd2b7b28e6f, 424179134416596),
    (0x6c45e9078c8e02f86ea7b569dc4729566d1478fc, 920033744281992),
    (0xe437bed0ad838d8958d589584b65cbcf7d832c23, 1147244055402478),
    (0x6c3df4b8a243b6f98602b9de222129aa85f860dc, 58548252475944),
    (0x69bc4d78761120423ee8fa204bf83a9d765b8e26, 921590773225258),
    (0x8ad7c1edb8ca0552e1345528d1d7e50162300b65, 1020244764688400),
    (0x31c0db7c95d904e9539e76d60e73a4bbf61a7742, 549252209511412),
    (0x1647811d902db3e4d6122a192aea1bfa8d9181d6, 730496806339608),
    (0xd65b42f5ca248b4f6b9ac354044bed78715b4dd7, 557046918932912),
    (0x8ebed0ff2b0232b0aedbfe6e9c0f72ac72577869, 703535500228415),
    (0xce716837e7b9469e7da0816a8a7f3e487a119186, 612402026324008),
    (0x003a96de96e0a059b4a6238b9e2af804f6b25da6, 607845077428331),
    (0x7dd8c17f7c2652f23001afa302e5c4da71745ea5, 804904705749904),
    (0x2222822d81de5b2630189ca18e0977431a951ac8, 646507970213042),
    (0xd0b6ea11fe544308b3045473ec125ad787c7da98, 2252730330113759),
    (0x6f3377622651c99a498a406f3be2c2ed41e593f1, 576292318287359),
    (0xa0286d80e5a9fcd1b435cb40a5fb29ba6ae02369, 1660212774751248),
    (0x79e83f1a8bd5abecc23198758d2d9dbcdb5e9e2b, 3085596825894509),
    (0x8aa7486d26bc9d1d24c83a02c69abb02ecbf82d7, 697127804379870),
    (0x294e624c0d3366b03041fb5fd228500814fa6f28, 1551492905045122),
    (0xa1dcfa38274ef94894bbf107bb657f6982599f44, 1772924212546510),
    (0xac0e1a6e3ea9df79bda037c7f7a75c5f56c27253, 2894952082486301),
    (0x0bfc5aa096b5cd4bb6fe86eefc99b18b9820f87d, 1071835919835603),
    (0xe61c09429481525d0caf03b6fef2a0c5db8adf71, 2498630830684107),
    (0x5a4fbbed57fd0ae3409a72999664548342cbb6f9, 3135843921093237),
    (0x013f39705c115093ccadbfbaaa83ed102bbcc2e1, 1261157986785760),
    (0xd68dd78378e1feea558f04f04cc392e7a7153d3b, 986346541244272),
    (0xe49a0068b68cb41538508a1bcc496e1ed6342a1a, 5888127953233886),
    (0xe935c1902749c7582f2a4d5a22e8194f06915255, 2443356771584195),
    (0x1e6ef9520f22d9ad4272bcdea32d8a6518d9e1af, 1098454341115661),
    (0x21c91cb247c7300c341b97d19fd324d900f1f93d, 731647897814081),
    (0x76e489641d6866a6ef022dc644f6dab87c49b88e, 3313195004413790),
    (0x48cbbfd36fdcdb24941ae4288a9071b8e0380509, 1281530064634938),
    (0xb5b1d914c7434126f98734e176d5a1e1dbe4ce27, 1408274796302129),
    (0x13fd3eb27bb25ff8c27da82efb1e81dd20bf4d4d, 1081737950489490),
    (0x89b87931dc5075a0fefc5745087ea7e1c71ce5f9, 1977286955451554),
    (0x32802f989b4348a51dd0e61d23b78be1a0543469, 729776315864189),
    (0x8f5dcf727f75b5876a59bc4ec9b6c9a52a7970c0, 1630050586400048),
    (0xe686c86a2cf340a96e087ed70e28a72025112bb4, 4080975655294439),
    (0xbbe1125d37a30d11af73c18e618dcf96e0910a67, 2264305009267797),
    (0x0230304de82e316ac309fb43b8a826ae7ffccb40, 1556143649913853),
    (0xbadae55bd07310854bb71fde52e7412357ed2703, 2232163485100716),
    (0x941863056ab255d2dc16910f1a3f9d6ce000587b, 754235398754857),
    (0x2c112977530c8a087477850b5e25e9a7c4e96e6e, 2218840449392371),
    (0x77dd6748bb7bfda0b3d70b584c5212a097bb29b6, 1142521542414170),
    (0x9a94c823c07e4971494c24fd847aace954156e22, 1428160912712158),
    (0xb3a26f9ce86cfe2ab3a17965c173dc37029867b8, 3112541300751065),
    (0x3ca5022d0cbfd9367d80c4daa80e3be3250cf357, 1278964688139815),
    (0xa23332705073ecad93d0553464132daa81a1606c, 1128990707487222),
    (0xe7d8d7e2cc897b49acad310f521872feee25322e, 895182666022973),
    (0x386768fcc67a600d743219a2fc839adb334e38c4, 3956541018797976),
    (0xe0fa8c55dd27753be81fefc954ed9e5cd5df9fe4, 1401669787370941),
    (0x70b985a651e0e55c42e87fd16f31550f08ae0016, 1218157698801342),
    (0xbcbde3c8d8aac62473212ebadc01a3f9711eaa92, 1817376278320360),
    (0x865faffd5bce7e79433214a562c4bb78686bf769, 821950489938864),
    (0x2e82c77bbb334564d59946337882bb0cec0cfe88, 1209502275350453),
    (0x4924f904c380a266ad712796fb61e53b3fa5ef77, 1464476408554201),
    (0xfceac8f15bd957043f923e564b56bf0b49921053, 1390439138186196),
    (0xb52d1d3fa331c1d568028a5438e1ea20d69442dc, 829386008567323),
    (0x8a2bf6335d11437441e08d0007681ba667553539, 5087732062633833),
    (0x9483a669f2a267ffb66497d6811331323cdb7c68, 766680501857629),
    (0x5a7fb70e55af8a6a2caed12941ab7a52ddf50ba2, 1178738834779873),
    (0xb03b5db5115ee1da2c9cd31f47a3c79ca953934f, 639878775928962),
    (0xbe0eeae94453d49de644bcd13e3dd9af5d77da60, 1298226275265302)]"

end
