(* ===== verification/Claims_Table.thy ===== *)
theory Claims_Table
  imports Claims Claims_Table_A Claims_Table_B Claims_Table_C Claims_Table_D
begin

text \<open>
  \<open>src/pallets/claims/src/claims_data.rs\<close>: the table of the Ethereum holders' balances, row by
  row and in the order of the file, in blocks of 150 rows. The source writes an address as the
  text of \<open>0x\<close> and 40 lower-case hexadecimal digits; a row holds the number these digits
  denote, written with the same digits, and \<open>address_text\<close> gives the text back, leading zeros
  included. \<open>CLAIMS_DATA\<close> is the table the migration reads.
\<close>

section \<open>Rows\<close>

definition claims_rows :: "(nat \<times> balance) list" where
  "claims_rows =
     concat
      [
       claims_data_00, claims_data_01, claims_data_02, claims_data_03, claims_data_04,
       claims_data_05, claims_data_06, claims_data_07, claims_data_08, claims_data_09,
       claims_data_10, claims_data_11, claims_data_12, claims_data_13, claims_data_14,
       claims_data_15, claims_data_16, claims_data_17, claims_data_18, claims_data_19,
       claims_data_20, claims_data_21, claims_data_22, claims_data_23, claims_data_24,
       claims_data_25, claims_data_26, claims_data_27, claims_data_28, claims_data_29,
       claims_data_30, claims_data_31, claims_data_32, claims_data_33, claims_data_34,
       claims_data_35, claims_data_36]"

section \<open>Addresses as text\<close>

text \<open>The \<open>k\<close> bytes of a number, the most significant first.\<close>

fun big_endian :: "nat \<Rightarrow> nat \<Rightarrow> bytes" where
  "big_endian 0 n = []"
| "big_endian (Suc k) n = big_endian k (n div 256) @ [of_nat (n mod 256)]"

definition address_bytes :: "nat \<Rightarrow> ethereum_address" where
  "address_bytes n = big_endian 20 n"

definition address_text :: "nat \<Rightarrow> bytes" where
  "address_text n = [48, 120] @ to_ascii_hex (address_bytes n)"

definition CLAIMS_DATA :: "(bytes \<times> balance) list" where
  "CLAIMS_DATA = map (\<lambda>(a, n). (address_text a, n)) claims_rows"

end
