(* ===== verification/Claims_Index.thy ===== *)
theory Claims_Index
  imports Claims_Table
begin

text \<open>
  A certificate that no address occurs twice in the claims table: a search tree over the binary
  digits of the addresses, the least significant first, that finds the row of each of them.
  Checking that row \<open>i\<close> is found at \<open>i\<close> takes one descent per row, and addresses that are found
  at different rows are different. The tree is no part of the program; it is cut into one
  function per value of the six lowest digits, so that a descent only unfolds what it visits.
\<close>

section \<open>The search tree\<close>

datatype 'a search_tree = Row 'a | Fork "'a search_tree" "'a search_tree"

fun descend :: "'a search_tree \<Rightarrow> num \<Rightarrow> 'a \<times> num" where
  "descend (Row x) k = (x, k)"
| "descend (Fork l r) (num.Bit0 k) = descend l k"
| "descend (Fork l r) (num.Bit1 k) = descend r k"
| "descend (Fork l r) num.One = descend l num.One"

definition find_00 :: "num \<Rightarrow> nat" where
  "find_00 k = fst (descend
     (Fork (Fork (Fork (Fork (Row 0) (Fork (Row 661) (Fork (Row 1543) (Fork (Row 21) (Fork (Row 981) (Row 1324))))))
     (Fork (Fork (Fork (Fork (Row 1521) (Row 3610)) (Fork (Row 4162) (Fork (Fork (Fork (Row 441) (Row 407)) (Row
     1717)) (Row 0)))) (Fork (Fork (Fork (Fork (Row 4254) (Row 2488)) (Row 0)) (Row 0)) (Row 2115))) (Fork (Row 5303)
     (Row 2888)))) (Fork (Fork (Fork (Fork (Row 4434) (Row 1755)) (Fork (Fork (Row 3235) (Fork (Fork (Row 545) (Row
     2057)) (Row 0))) (Row 0))) (Fork (Fork (Row 5010) (Row 610)) (Fork (Row 0) (Fork (Fork (Row 0) (Fork (Row 0)
     (Fork (Row 0) (Fork (Row 1607) (Row 3522))))) (Row 0))))) (Fork (Fork (Fork (Row 0) (Fork (Row 0) (Fork (Row 0)
     (Fork (Row 0) (Fork (Row 0) (Fork (Row 0) (Fork (Row 0) (Fork (Row 2587) (Row 1369))))))))) (Fork (Row 3654)
     (Fork (Row 1383) (Row 3027)))) (Fork (Fork (Row 0) (Fork (Row 59) (Row 253))) (Fork (Row 157) (Row 4120))))))
     (Fork (Fork (Fork (Fork (Fork (Fork (Row 0) (Fork (Fork (Row 0) (Fork (Fork (Fork (Row 2600) (Row 3766)) (Row 0))
     (Row 0))) (Row 3748))) (Fork (Row 2529) (Row 3372))) (Fork (Row 0) (Fork (Fork (Row 4070) (Row 4519)) (Row
     4580)))) (Fork (Row 5320) (Fork (Fork (Row 4612) (Row 2776)) (Row 0)))) (Fork (Fork (Row 4044) (Fork (Fork (Fork
     (Row 1053) (Row 5263)) (Row 3914)) (Fork (Row 0) (Fork (Row 1579) (Row 3101))))) (Fork (Fork (Row 4898) (Row
     5462)) (Fork (Row 3786) (Fork (Row 2446) (Fork (Row 0) (Fork (Row 0) (Fork (Row 3577) (Row 290))))))))) (Fork
     (Fork (Fork (Fork (Fork (Row 4696) (Fork (Fork (Fork (Row 4190) (Row 3077)) (Row 0)) (Row 5459))) (Fork (Fork
     (Row 3652) (Row 3562)) (Row 2578))) (Fork (Row 5172) (Row 1993))) (Fork (Fork (Fork (Fork (Row 3513) (Row 4059))
     (Row 0)) (Row 0)) (Fork (Row 5135) (Fork (Row 0) (Fork (Row 2955) (Row 2075)))))) (Fork (Fork (Fork (Row 4182)
     (Fork (Fork (Row 4200) (Fork (Row 0) (Fork (Row 597) (Fork (Fork (Row 0) (Fork (Fork (Fork (Row 3650) (Row 1851))
     (Row 0)) (Row 0))) (Row 0))))) (Row 0))) (Fork (Fork (Row 5013) (Row 1695)) (Row 0))) (Row 792))))) k)"

definition find_01 :: "num \<Rightarrow> nat" where
  "find_01 k = fst (descend
     (Fork (Fork (Fork (Fork (Fork (Fork (Row 0) (Fork (Fork (Row 2108) (Row 3360)) (Row 0))) (Fork (Row 964) (Fork
     (Fork (Fork (Fork (Row 0) (Fork (Row 4168) (Row 4419))) (Row 0)) (Row 0)) (Row 718)))) (Fork (Fork (Fork (Fork
     (Row 2346) (Row 680)) (Row 0)) (Row 1687)) (Fork (Row 918) (Row 1927)))) (Fork (Fork (Fork (Row 0) (Fork (Row
     1139) (Row 4631))) (Fork (Row 4133) (Fork (Row 3147) (Row 1299)))) (Fork (Fork (Fork (Fork (Fork (Row 2821) (Row
     1962)) (Row 0)) (Row 0)) (Fork (Row 3338) (Row 10))) (Row 4174)))) (Fork (Fork (Fork (Fork (Fork (Fork (Row 0)
     (Fork (Row 4115) (Row 472))) (Row 0)) (Row 0)) (Fork (Fork (Fork (Fork (Row 3192) (Row 3783)) (Row 2344)) (Row
     309)) (Fork (Row 0) (Fork (Row 4618) (Row 5112))))) (Fork (Fork (Row 2370) (Fork (Row 0) (Fork (Fork (Fork (Row
     4416) (Row 3606)) (Row 0)) (Row 3379)))) (Fork (Row 0) (Fork (Row 0) (Fork (Row 0) (Fork (Row 0) (Fork (Fork (Row
     0) (Fork (Row 0) (Fork (Row 0) (Fork (Row 2790) (Row 3558))))) (Row 0)))))))) (Fork (Fork (Fork (Fork (Row 0)
     (Fork (Fork (Row 2889) (Row 178)) (Row 0))) (Row 3266)) (Fork (Row 4833) (Fork (Row 2714) (Row 3446)))) (Fork
     (Fork (Fork (Row 1454) (Row 5097)) (Row 828)) (Row 0))))) (Fork (Fork (Fork (Fork (Fork (Row 5162) (Row 3045))
     (Row 3714)) (Fork (Fork (Row 0) (Fork (Row 0) (Fork (Row 1410) (Row 2217)))) (Fork (Fork (Fork (Row 2009) (Fork
     (Row 1689) (Row 2363))) (Row 3677)) (Row 0)))) (Fork (Fork (Row 5225) (Fork (Row 0) (Fork (Row 4130) (Row
     2407)))) (Fork (Row 0) (Fork (Fork (Fork (Row 2995) (Row 5070)) (Row 453)) (Fork (Row 180) (Row 3190)))))) (Fork
     (Fork (Fork (Fork (Row 1785) (Row 1530)) (Fork (Fork (Row 0) (Fork (Row 1267) (Fork (Row 0) (Fork (Fork (Row
     3842) (Row 1545)) (Row 0))))) (Fork (Row 3789) (Fork (Row 0) (Fork (Fork (Row 4746) (Row 1293)) (Row 0))))))
     (Fork (Row 582) (Fork (Fork (Row 1497) (Row 2032)) (Row 0)))) (Fork (Fork (Fork (Fork (Row 4103) (Row 2490))
     (Fork (Row 2327) (Fork (Row 3906) (Row 3210)))) (Row 0)) (Fork (Fork (Fork (Fork (Fork (Row 0) (Fork (Fork (Row
     0) (Fork (Fork (Row 0) (Fork (Row 878) (Row 4258))) (Row 0))) (Row 0))) (Row 0)) (Row 2332)) (Fork (Fork (Fork
     (Fork (Fork (Row 3859) (Row 3930)) (Row 0)) (Row 0)) (Row 0)) (Row 0))) (Fork (Row 4009) (Row 3811))))))) k)"

definition find_02 :: "num \<Rightarrow> nat" where
  "find_02 k = fst (descend
     (Fork (Fork (Fork (Fork (Fork (Fork (Fork (Row 3392) (Fork (Row 2460) (Row 746))) (Fork (Fork (Row 0) (Fork (Fork
     (Row 0) (Fork (Row 2265) (Row 539))) (Row 0))) (Row 0))) (Row 4493)) (Fork (Row 2035) (Row 3603))) (Fork (Fork
     (Fork (Fork (Fork (Row 5127) (Row 1273)) (Row 0)) (Row 0)) (Fork (Row 1972) (Fork (Fork (Row 974) (Row 100)) (Row
     2618)))) (Row 234))) (Fork (Fork (Fork (Row 4804) (Row 737)) (Fork (Fork (Fork (Row 1408) (Fork (Fork (Fork (Row
     4973) (Row 4314)) (Row 1143)) (Row 0))) (Row 0)) (Fork (Fork (Row 365) (Row 2810)) (Row 0)))) (Fork (Fork (Fork
     (Fork (Row 651) (Row 5056)) (Fork (Row 2433) (Fork (Fork (Row 1784) (Fork (Row 2051) (Row 4477))) (Row 0))))
     (Fork (Fork (Row 0) (Fork (Fork (Row 3475) (Row 1567)) (Row 3936))) (Row 4496))) (Fork (Fork (Row 1173) (Row
     3163)) (Fork (Row 2720) (Fork (Fork (Row 0) (Fork (Fork (Row 2657) (Row 4534)) (Row 0))) (Fork (Row 0) (Fork (Row
     389) (Row 3989))))))))) (Fork (Fork (Fork (Fork (Fork (Row 3046) (Row 2074)) (Fork (Fork (Fork (Row 0) (Fork
     (Fork (Row 0) (Fork (Row 2093) (Row 5223))) (Row 0))) (Row 639)) (Row 0))) (Fork (Fork (Fork (Row 0) (Fork (Row
     0) (Fork (Row 2535) (Row 1403)))) (Fork (Row 0) (Fork (Fork (Row 585) (Row 3690)) (Row 0)))) (Fork (Row 0) (Fork
     (Row 4769) (Fork (Fork (Row 0) (Fork (Fork (Fork (Row 0) (Fork (Row 0) (Fork (Row 3193) (Row 2785)))) (Row 0))
     (Row 0))) (Row 0)))))) (Fork (Fork (Fork (Row 0) (Fork (Fork (Row 0) (Fork (Fork (Fork (Row 4843) (Row 1548))
     (Row 0)) (Row 0))) (Row 3797))) (Fork (Fork (Fork (Row 4838) (Row 3439)) (Row 0)) (Fork (Row 4113) (Row 378))))
     (Fork (Row 0) (Fork (Fork (Row 730) (Row 5428)) (Row 0))))) (Fork (Fork (Fork (Fork (Fork (Row 481) (Row 2066))
     (Row 0)) (Fork (Row 3183) (Row 3418))) (Fork (Row 3287) (Fork (Row 1177) (Fork (Fork (Row 536) (Fork (Row 3123)
     (Fork (Fork (Fork (Fork (Row 1828) (Row 769)) (Row 0)) (Row 0)) (Row 0)))) (Row 0))))) (Fork (Fork (Row 4081)
     (Fork (Row 3453) (Row 2565))) (Fork (Fork (Fork (Row 649) (Row 3102)) (Row 0)) (Fork (Row 614) (Row 4298))))))) k)"

definition find_03 :: "num \<Rightarrow> nat" where
  "find_03 k = fst (descend
     (Fork (Fork (Fork (Fork (Fork (Fork (Fork (Row 1069) (Row 5402)) (Row 2669)) (Fork (Row 0) (Fork (Row 5407) (Row
     1105)))) (Fork (Fork (Row 0) (Fork (Fork (Row 0) (Fork (Row 3938) (Row 4355))) (Fork (Fork (Fork (Fork (Row 0)
     (Fork (Row 0) (Fork (Fork (Row 0) (Fork (Fork (Row 4874) (Row 1440)) (Row 0))) (Row 0)))) (Row 0)) (Row 0)) (Row
     0)))) (Row 425))) (Fork (Fork (Fork (Fork (Row 1583) (Row 626)) (Fork (Row 0) (Fork (Row 2920) (Row 3572)))) (Row
     4569)) (Fork (Fork (Row 0) (Fork (Row 4504) (Row 660))) (Fork (Fork (Row 5463) (Row 4058)) (Row 0))))) (Fork
     (Fork (Fork (Fork (Fork (Fork (Fork (Row 1875) (Fork (Row 1387) (Row 2746))) (Row 2656)) (Row 0)) (Row 0)) (Fork
     (Row 0) (Fork (Fork (Row 0) (Fork (Row 4472) (Row 2211))) (Row 0)))) (Row 1711)) (Fork (Fork (Fork (Row 0) (Fork
     (Row 107) (Row 1859))) (Fork (Fork (Fork (Fork (Row 517) (Row 4781)) (Row 0)) (Row 0)) (Row 3386))) (Fork (Fork
     (Row 3607) (Row 217)) (Fork (Row 3197) (Fork (Fork (Fork (Row 2777) (Row 803)) (Row 0)) (Row 0))))))) (Fork (Fork
     (Fork (Fork (Fork (Row 2278) (Row 5306)) (Fork (Fork (Row 0) (Fork (Row 2167) (Row 3213))) (Row 0))) (Fork (Fork
     (Row 1325) (Fork (Row 1487) (Row 602))) (Fork (Fork (Fork (Fork (Fork (Row 2577) (Row 1806)) (Row 0)) (Fork (Row
     3581) (Row 4469))) (Fork (Row 3935) (Row 3973))) (Row 3740)))) (Fork (Fork (Row 371) (Fork (Fork (Row 1166) (Row
     704)) (Row 0))) (Fork (Row 0) (Fork (Row 0) (Fork (Fork (Row 2474) (Row 3511)) (Row 4138)))))) (Fork (Fork (Fork
     (Fork (Row 0) (Fork (Row 0) (Fork (Fork (Row 4447) (Row 1724)) (Row 0)))) (Fork (Fork (Row 5370) (Row 4350)) (Row
     0))) (Fork (Fork (Fork (Row 3711) (Fork (Row 0) (Fork (Row 0) (Fork (Row 1654) (Row 1826))))) (Row 1247)) (Fork
     (Row 688) (Fork (Fork (Fork (Row 0) (Fork (Fork (Row 2827) (Row 1722)) (Row 0))) (Row 0)) (Fork (Fork (Row 4887)
     (Row 2380)) (Row 0)))))) (Fork (Fork (Fork (Row 139) (Fork (Row 0) (Fork (Row 0) (Fork (Fork (Row 1950) (Row
     4928)) (Row 684))))) (Fork (Row 4424) (Fork (Row 868) (Row 755)))) (Fork (Fork (Row 0) (Fork (Fork (Row 978) (Row
     399)) (Row 0))) (Fork (Row 3083) (Row 5266))))))) k)"

definition find_04 :: "num \<Rightarrow> nat" where
  "find_04 k = fst (descend
     (Fork (Fork (Fork (Fork (Fork (Row 0) (Fork (Row 27) (Row 2863))) (Fork (Row 0) (Fork (Fork (Row 2068) (Row
     1726)) (Fork (Fork (Row 3367) (Row 1957)) (Row 0))))) (Fork (Fork (Fork (Row 0) (Fork (Row 0) (Fork (Row 0) (Fork
     (Row 1118) (Fork (Row 0) (Fork (Row 0) (Fork (Fork (Row 1523) (Row 1820)) (Row 0)))))))) (Row 4646)) (Fork (Row
     420) (Fork (Fork (Fork (Row 0) (Fork (Row 0) (Fork (Row 5020) (Row 1485)))) (Row 0)) (Row 2674))))) (Fork (Fork
     (Fork (Fork (Row 5119) (Row 2412)) (Row 1419)) (Fork (Fork (Row 3008) (Row 3018)) (Fork (Row 2109) (Row 1874))))
     (Fork (Fork (Fork (Fork (Fork (Fork (Row 2333) (Row 176)) (Row 0)) (Row 0)) (Row 3374)) (Fork (Fork (Fork (Fork
     (Row 1822) (Row 3480)) (Row 0)) (Row 2221)) (Row 0))) (Fork (Fork (Fork (Row 5087) (Row 3159)) (Fork (Fork (Fork
     (Row 278) (Row 5207)) (Row 0)) (Row 1923))) (Row 5397))))) (Fork (Fork (Fork (Fork (Fork (Fork (Row 3013) (Fork
     (Fork (Row 965) (Row 1438)) (Row 0))) (Fork (Row 1322) (Row 2789))) (Fork (Row 71) (Row 4317))) (Fork (Fork (Fork
     (Row 0) (Fork (Row 4382) (Row 4188))) (Row 0)) (Fork (Row 1936) (Row 1677)))) (Fork (Fork (Fork (Fork (Row 4552)
     (Row 4609)) (Row 0)) (Fork (Fork (Row 4019) (Fork (Fork (Row 712) (Row 91)) (Row 0))) (Row 3020))) (Fork (Fork
     (Row 3110) (Row 30)) (Fork (Fork (Fork (Row 3698) (Row 5105)) (Row 2569)) (Row 5442))))) (Fork (Fork (Fork (Fork
     (Row 2728) (Row 5472)) (Fork (Row 4918) (Fork (Row 0) (Fork (Row 1225) (Row 5335))))) (Fork (Fork (Row 4379) (Row
     5270)) (Fork (Fork (Row 1917) (Row 3260)) (Fork (Fork (Row 4734) (Fork (Row 1063) (Row 5094))) (Row 0))))) (Fork
     (Fork (Fork (Fork (Fork (Row 871) (Row 1681)) (Row 0)) (Row 0)) (Fork (Fork (Fork (Fork (Fork (Row 2845) (Row
     2576)) (Row 4567)) (Row 0)) (Row 204)) (Fork (Row 4737) (Row 3282)))) (Fork (Row 5417) (Fork (Row 0) (Fork (Row
     0) (Fork (Fork (Row 745) (Row 467)) (Row 0))))))))) k)"

definition find_05 :: "num \<Rightarrow> nat" where
  "find_05 k = fst (descend
     (Fork (Fork (Fork (Fork (Fork (Fork (Fork (Fork (Fork (Row 537) (Row 1883)) (Row 0)) (Row 0)) (Fork (Fork (Row
     5379) (Row 777)) (Row 1566))) (Fork (Row 3285) (Row 2345))) (Fork (Fork (Fork (Row 4593) (Row 4650)) (Row 0))
     (Fork (Row 5249) (Row 3732)))) (Fork (Fork (Fork (Row 0) (Fork (Row 2763) (Fork (Fork (Fork (Row 0) (Fork (Row 0)
     (Fork (Row 0) (Fork (Row 0) (Fork (Row 2029) (Row 4228)))))) (Row 2048)) (Row 4543)))) (Fork (Fork (Fork (Row
     3992) (Fork (Row 1004) (Row 5130))) (Row 0)) (Fork (Row 5072) (Row 1185)))) (Fork (Row 4461) (Fork (Fork (Row 0)
     (Fork (Fork (Fork (Row 2725) (Row 1316)) (Row 0)) (Row 0))) (Fork (Row 2159) (Row 3371)))))) (Fork (Fork (Row
     3419) (Row 1561)) (Fork (Fork (Fork (Row 0) (Fork (Row 1615) (Row 1385))) (Row 3169)) (Fork (Row 0) (Fork (Row 0)
     (Fork (Row 1869) (Fork (Fork (Fork (Fork (Fork (Row 3959) (Row 2448)) (Row 0)) (Row 0)) (Row 873)) (Row 0))))))))
     (Fork (Fork (Fork (Fork (Fork (Row 1244) (Fork (Fork (Fork (Row 97) (Row 4714)) (Row 0)) (Row 0))) (Row 3340))
     (Fork (Row 0) (Fork (Fork (Row 1973) (Fork (Fork (Row 0) (Fork (Row 0) (Fork (Row 1670) (Row 2091)))) (Row 0)))
     (Fork (Fork (Row 542) (Row 4020)) (Fork (Row 0) (Fork (Row 0) (Fork (Row 2812) (Row 124)))))))) (Fork (Fork (Fork
     (Row 0) (Fork (Row 0) (Fork (Row 2659) (Fork (Row 0) (Fork (Row 4266) (Row 1117)))))) (Fork (Row 0) (Fork (Row 0)
     (Fork (Fork (Fork (Row 1449) (Row 3366)) (Row 0)) (Row 0))))) (Fork (Fork (Fork (Row 0) (Fork (Fork (Row 5196)
     (Row 1032)) (Row 0))) (Fork (Row 469) (Row 413))) (Fork (Row 470) (Row 3346))))) (Fork (Fork (Fork (Fork (Fork
     (Row 2502) (Row 1458)) (Row 1843)) (Fork (Row 1391) (Fork (Row 0) (Fork (Row 4136) (Row 816))))) (Fork (Fork (Row
     4247) (Fork (Row 0) (Fork (Row 2648) (Row 2703)))) (Fork (Row 2328) (Row 1422)))) (Fork (Fork (Fork (Fork (Row 0)
     (Fork (Row 1165) (Row 1960))) (Row 250)) (Fork (Fork (Row 2198) (Row 4403)) (Fork (Fork (Row 0) (Fork (Fork (Fork
     (Row 984) (Row 5054)) (Row 0)) (Row 448))) (Row 0)))) (Fork (Fork (Fork (Fork (Row 2439) (Row 5026)) (Row 0))
     (Row 0)) (Fork (Fork (Row 0) (Fork (Fork (Row 1845) (Fork (Row 640) (Row 1308))) (Fork (Row 2839) (Row 2414))))
     (Row 0))))))) k)"

definition find_06 :: "num \<Rightarrow> nat" where
  "find_06 k = fst (descend
     (Fork (Fork (Fork (Fork (Fork (Row 0) (Fork (Row 0) (Fork (Fork (Row 321) (Row 880)) (Row 3569)))) (Fork (Row 0)
     (Fork (Row 0) (Fork (Row 0) (Fork (Row 1596) (Row 1634)))))) (Fork (Fork (Row 3670) (Fork (Fork (Fork (Row 0)
     (Fork (Fork (Row 0) (Fork (Fork (Row 0) (Fork (Fork (Fork (Row 0) (Fork (Row 3551) (Row 1639))) (Row 0)) (Row
     0))) (Row 0))) (Row 0))) (Row 0)) (Row 0))) (Fork (Fork (Row 4854) (Row 2687)) (Row 0)))) (Fork (Fork (Fork (Row
     3182) (Fork (Row 2606) (Row 4101))) (Fork (Fork (Fork (Fork (Row 2660) (Row 101)) (Row 0)) (Row 5330)) (Fork (Row
     3368) (Row 3858)))) (Fork (Fork (Fork (Fork (Row 2260) (Fork (Fork (Row 5432) (Row 1467)) (Row 0))) (Fork (Row
     5316) (Row 2929))) (Fork (Fork (Row 2699) (Row 1902)) (Row 888))) (Fork (Fork (Row 5383) (Fork (Fork (Row 0)
     (Fork (Fork (Row 728) (Row 1044)) (Row 0))) (Fork (Row 4670) (Row 3763)))) (Fork (Fork (Fork (Row 3893) (Row
     3176)) (Row 2573)) (Row 1319)))))) (Fork (Fork (Fork (Fork (Row 0) (Fork (Row 0) (Fork (Row 2872) (Row 3431))))
     (Fork (Fork (Row 0) (Fork (Row 0) (Fork (Row 0) (Fork (Row 0) (Fork (Row 5394) (Row 4878)))))) (Fork (Row 132)
     (Fork (Row 0) (Fork (Row 1898) (Row 4203)))))) (Fork (Fork (Fork (Fork (Row 5317) (Row 937)) (Fork (Fork (Row
     4001) (Row 867)) (Row 0))) (Row 4218)) (Fork (Fork (Row 0) (Fork (Row 2954) (Row 4468))) (Fork (Row 4794) (Fork
     (Fork (Row 0) (Fork (Row 0) (Fork (Row 629) (Row 567)))) (Row 917)))))) (Fork (Fork (Fork (Fork (Fork (Fork (Fork
     (Fork (Row 0) (Fork (Row 658) (Row 5197))) (Row 0)) (Row 0)) (Row 0)) (Row 1691)) (Fork (Fork (Row 5342) (Fork
     (Row 0) (Fork (Row 1133) (Row 171)))) (Fork (Row 3567) (Fork (Row 1988) (Row 3683))))) (Fork (Fork (Row 0) (Fork
     (Fork (Row 3404) (Fork (Row 429) (Row 3770))) (Fork (Row 165) (Row 3676)))) (Fork (Row 4780) (Fork (Fork (Row
     4022) (Row 935)) (Row 0))))) (Fork (Fork (Fork (Row 1591) (Fork (Row 3536) (Row 152))) (Fork (Row 4853) (Row
     2180))) (Fork (Fork (Fork (Fork (Fork (Row 2442) (Row 3971)) (Row 0)) (Row 0)) (Row 186)) (Row 88)))))) k)"

definition find_07 :: "num \<Rightarrow> nat" where
  "find_07 k = fst (descend
     (Fork (Fork (Fork (Fork (Fork (Fork (Fork (Row 5357) (Row 5292)) (Fork (Row 2760) (Row 136))) (Fork (Row 78)
     (Fork (Row 3055) (Row 3806)))) (Fork (Row 2127) (Fork (Row 1017) (Fork (Row 0) (Fork (Row 0) (Fork (Fork (Row
     1122) (Row 763)) (Row 0))))))) (Fork (Fork (Row 320) (Fork (Row 235) (Fork (Fork (Row 4559) (Row 5236)) (Fork
     (Row 1039) (Row 3541))))) (Fork (Fork (Fork (Row 462) (Row 5147)) (Row 0)) (Fork (Fork (Fork (Row 5419) (Row
     2259)) (Row 0)) (Fork (Row 0) (Fork (Row 3057) (Row 2163))))))) (Fork (Fork (Fork (Fork (Fork (Fork (Fork (Row 0)
     (Fork (Row 3765) (Row 1070))) (Row 0)) (Row 0)) (Fork (Row 1407) (Fork (Fork (Row 0) (Fork (Fork (Fork (Row 3734)
     (Row 146)) (Row 0)) (Row 0))) (Row 0)))) (Fork (Fork (Row 1903) (Fork (Row 3852) (Row 807))) (Fork (Row 0) (Fork
     (Row 1582) (Row 2174))))) (Fork (Fork (Fork (Row 4749) (Row 2583)) (Fork (Fork (Row 0) (Fork (Row 0) (Fork (Row
     4193) (Row 4682)))) (Fork (Row 0) (Fork (Row 2417) (Fork (Row 3322) (Row 665)))))) (Row 4776))) (Fork (Fork (Row
     0) (Fork (Row 305) (Fork (Fork (Row 3565) (Row 440)) (Row 0)))) (Fork (Fork (Fork (Row 0) (Fork (Row 2800) (Row
     4086))) (Fork (Fork (Row 3257) (Row 246)) (Row 3191))) (Row 0))))) (Fork (Fork (Fork (Fork (Fork (Fork (Fork
     (Fork (Row 2692) (Row 2457)) (Row 0)) (Row 1327)) (Fork (Fork (Row 3571) (Row 4962)) (Fork (Fork (Row 1081) (Row
     4145)) (Row 0)))) (Fork (Fork (Row 230) (Fork (Fork (Row 0) (Fork (Row 0) (Fork (Row 0) (Fork (Row 0) (Fork (Row
     4585) (Row 3831)))))) (Row 0))) (Fork (Row 1650) (Row 5201)))) (Fork (Fork (Fork (Row 4827) (Fork (Row 5346) (Row
     1197))) (Row 3927)) (Fork (Row 638) (Row 820)))) (Fork (Fork (Fork (Fork (Fork (Row 0) (Fork (Row 0) (Fork (Row
     0) (Fork (Fork (Fork (Row 244) (Row 1630)) (Row 0)) (Row 0))))) (Row 4042)) (Row 1908)) (Row 1474)) (Fork (Fork
     (Fork (Row 0) (Fork (Fork (Row 1744) (Row 2902)) (Row 0))) (Fork (Fork (Row 4082) (Fork (Row 4366) (Row 5264)))
     (Row 2317))) (Fork (Fork (Fork (Row 0) (Fork (Row 382) (Row 274))) (Row 0)) (Fork (Fork (Fork (Row 3994) (Row
     2269)) (Row 2948)) (Row 0)))))) (Fork (Fork (Fork (Fork (Row 1204) (Row 1131)) (Fork (Fork (Row 0) (Fork (Fork
     (Fork (Row 0) (Fork (Row 0) (Fork (Fork (Row 0) (Fork (Row 4033) (Row 2793))) (Row 0)))) (Row 0)) (Row 375)))
     (Fork (Row 4171) (Row 5063)))) (Fork (Fork (Row 3400) (Fork (Fork (Fork (Row 5294) (Row 4900)) (Row 1083)) (Row
     0))) (Fork (Fork (Fork (Row 4542) (Fork (Row 5233) (Row 4183))) (Row 4963)) (Fork (Fork (Row 896) (Row 698)) (Row
     0))))) (Fork (Fork (Fork (Fork (Row 2642) (Row 1515)) (Row 0)) (Fork (Row 1520) (Fork (Row 4146) (Row 5261))))
     (Fork (Fork (Fork (Fork (Fork (Fork (Fork (Fork (Row 0) (Fork (Row 0) (Fork (Row 4219) (Row 694)))) (Row 0)) (Row
     0)) (Row 0)) (Row 0)) (Row 0)) (Fork (Row 0) (Fork (Row 3920) (Row 825)))) (Fork (Row 2270) (Row 3115))))))) k)"

definition find_08 :: "num \<Rightarrow> nat" where
  "find_08 k = fst (descend
     (Fork (Fork (Fork (Fork (Fork (Row 3628) (Row 1179)) (Fork (Fork (Row 0) (Fork (Row 3273) (Row 1404))) (Row
     2773))) (Fork (Fork (Fork (Fork (Row 1202) (Fork (Fork (Row 5016) (Fork (Row 0) (Fork (Row 0) (Fork (Row 4443)
     (Row 845))))) (Row 0))) (Row 0)) (Fork (Fork (Row 2858) (Fork (Fork (Fork (Row 5293) (Row 4131)) (Row 0)) (Row
     0))) (Fork (Fork (Row 3040) (Row 5126)) (Row 0)))) (Fork (Fork (Fork (Fork (Row 5313) (Row 1645)) (Row 0)) (Fork
     (Row 4422) (Row 276))) (Fork (Fork (Row 0) (Fork (Row 4259) (Row 3376))) (Row 600))))) (Fork (Fork (Fork (Fork
     (Row 0) (Fork (Row 4801) (Row 4273))) (Row 0)) (Fork (Fork (Fork (Row 3035) (Fork (Fork (Fork (Row 4946) (Row
     5265)) (Row 0)) (Row 0))) (Row 4406)) (Fork (Fork (Fork (Row 4926) (Row 1040)) (Fork (Row 939) (Row 1349))) (Fork
     (Row 0) (Fork (Row 786) (Fork (Fork (Row 4246) (Row 2019)) (Row 5477))))))) (Fork (Fork (Fork (Fork (Row 3320)
     (Row 1914)) (Fork (Fork (Row 2149) (Row 506)) (Fork (Fork (Row 2895) (Row 3619)) (Row 0)))) (Fork (Fork (Row 0)
     (Fork (Fork (Fork (Row 477) (Row 5286)) (Row 0)) (Row 0))) (Fork (Row 1163) (Row 4845)))) (Fork (Fork (Row 1366)
     (Fork (Fork (Row 0) (Fork (Fork (Row 2102) (Row 480)) (Row 5229))) (Row 0))) (Fork (Row 0) (Fork (Row 108) (Fork
     (Row 1606) (Fork (Fork (Row 2423) (Row 4795)) (Row 0))))))))) (Fork (Fork (Fork (Fork (Row 1926) (Fork (Row 5121)
     (Fork (Row 0) (Fork (Row 3212) (Row 2758))))) (Fork (Row 0) (Fork (Fork (Row 0) (Fork (Row 4985) (Row 1824)))
     (Row 0)))) (Fork (Fork (Fork (Row 4599) (Row 4368)) (Fork (Fork (Row 0) (Fork (Row 4271) (Row 383))) (Row 0)))
     (Fork (Fork (Fork (Row 4007) (Row 1284)) (Row 3130)) (Row 946)))) (Fork (Fork (Fork (Fork (Row 1380) (Fork (Fork
     (Row 0) (Fork (Fork (Row 196) (Row 3932)) (Row 0))) (Row 0))) (Fork (Fork (Fork (Row 0) (Fork (Row 2402) (Row
     505))) (Row 4521)) (Fork (Row 0) (Fork (Row 3854) (Row 4683))))) (Fork (Fork (Fork (Row 4812) (Row 452)) (Fork
     (Row 83) (Fork (Fork (Row 5435) (Row 360)) (Row 0)))) (Fork (Row 1283) (Row 435)))) (Fork (Fork (Fork (Row 0)
     (Fork (Fork (Fork (Row 0) (Fork (Fork (Row 5273) (Row 902)) (Row 0))) (Row 0)) (Row 0))) (Fork (Fork (Fork (Row
     0) (Fork (Row 4511) (Row 1473))) (Row 0)) (Fork (Row 3730) (Row 478)))) (Fork (Row 2843) (Row 1708)))))) k)"

definition find_09 :: "num \<Rightarrow> nat" where
  "find_09 k = fst (descend
     (Fork (Fork (Fork (Fork (Fork (Fork (Fork (Fork (Row 0) (Fork (Row 0) (Fork (Row 0) (Fork (Row 4465) (Row
     4924))))) (Row 1913)) (Row 0)) (Fork (Fork (Fork (Row 297) (Row 326)) (Row 3052)) (Fork (Row 5334) (Row 2823))))
     (Fork (Fork (Fork (Row 0) (Fork (Row 1671) (Row 5267))) (Row 0)) (Fork (Row 113) (Fork (Fork (Row 3125) (Row
     528)) (Row 0))))) (Fork (Fork (Fork (Fork (Row 0) (Fork (Row 0) (Fork (Fork (Row 4292) (Row 834)) (Row 0)))) (Row
     0)) (Fork (Fork (Fork (Fork (Fork (Fork (Fork (Fork (Fork (Row 0) (Fork (Row 0) (Fork (Row 2857) (Row 5454))))
     (Row 0)) (Row 0)) (Row 0)) (Row 0)) (Row 0)) (Row 0)) (Row 0)) (Fork (Row 412) (Fork (Row 4356) (Row 1495)))))
     (Fork (Fork (Fork (Row 273) (Row 1848)) (Fork (Row 0) (Fork (Row 753) (Row 1690)))) (Row 5371)))) (Fork (Fork
     (Fork (Fork (Row 5152) (Fork (Row 0) (Fork (Row 1862) (Row 5191)))) (Fork (Row 0) (Fork (Row 1943) (Row 2485))))
     (Fork (Fork (Row 3073) (Fork (Row 0) (Fork (Row 677) (Row 2072)))) (Fork (Fork (Row 0) (Fork (Row 4785) (Row
     4603))) (Fork (Row 2979) (Row 3122))))) (Fork (Fork (Fork (Row 0) (Fork (Row 3685) (Fork (Row 434) (Row 3602))))
     (Fork (Row 0) (Fork (Row 1129) (Row 676)))) (Fork (Fork (Row 3438) (Fork (Fork (Fork (Row 524) (Row 2314)) (Row
     0)) (Row 1577))) (Row 0))))) (Fork (Fork (Fork (Fork (Fork (Fork (Fork (Row 3482) (Row 2037)) (Fork (Row 765)
     (Row 120))) (Row 0)) (Row 1702)) (Fork (Fork (Fork (Row 0) (Fork (Row 3547) (Row 3097))) (Row 0)) (Fork (Row
     2326) (Fork (Row 2426) (Row 4617))))) (Fork (Fork (Row 1519) (Fork (Row 5358) (Fork (Row 0) (Fork (Row 1444) (Row
     1186))))) (Fork (Row 0) (Fork (Row 662) (Fork (Row 2715) (Fork (Row 4526) (Row 1074))))))) (Fork (Fork (Fork
     (Fork (Fork (Row 1672) (Row 2052)) (Fork (Row 889) (Row 4980))) (Fork (Fork (Fork (Row 2761) (Row 1739)) (Row 0))
     (Row 2500))) (Fork (Fork (Fork (Row 1176) (Row 1041)) (Fork (Row 0) (Fork (Row 3785) (Row 2856)))) (Fork (Fork
     (Row 2432) (Row 3442)) (Row 0)))) (Fork (Fork (Fork (Fork (Row 2497) (Row 5057)) (Row 0)) (Fork (Fork (Row 0)
     (Fork (Row 3405) (Row 5088))) (Row 0))) (Fork (Fork (Row 851) (Fork (Fork (Row 673) (Row 1257)) (Row 3667)))
     (Fork (Row 1073) (Row 2849))))))) k)"

definition find_10 :: "num \<Rightarrow> nat" where
  "find_10 k = fst (descend
     (Fork (Fork (Fork (Fork (Fork (Fork (Row 0) (Fork (Fork (Fork (Fork (Row 3809) (Row 2911)) (Row 0)) (Row 3865))
     (Row 0))) (Fork (Row 0) (Fork (Row 1036) (Row 2299)))) (Fork (Fork (Fork (Fork (Fork (Fork (Fork (Row 3194) (Row
     2536)) (Row 0)) (Row 0)) (Row 0)) (Fork (Row 5169) (Row 2745))) (Fork (Fork (Fork (Row 0) (Fork (Row 5212) (Row
     4198))) (Row 0)) (Row 0))) (Fork (Fork (Row 3369) (Fork (Row 4036) (Row 5177))) (Fork (Row 28) (Row 4014)))))
     (Fork (Fork (Fork (Fork (Row 1158) (Row 249)) (Fork (Row 0) (Fork (Row 2264) (Row 2119)))) (Fork (Row 3900) (Row
     1318))) (Fork (Fork (Fork (Row 0) (Fork (Row 4852) (Row 2493))) (Fork (Fork (Fork (Row 5096) (Row 2382)) (Row 0))
     (Row 0))) (Row 4932)))) (Fork (Fork (Fork (Fork (Fork (Fork (Fork (Row 2192) (Row 790)) (Row 0)) (Row 0)) (Fork
     (Row 1072) (Row 2399))) (Fork (Fork (Row 4834) (Row 2614)) (Fork (Fork (Fork (Row 0) (Fork (Row 0) (Fork (Row
     1168) (Row 3953)))) (Row 0)) (Fork (Fork (Row 0) (Fork (Row 3145) (Row 5278))) (Row 0))))) (Fork (Fork (Fork
     (Fork (Fork (Fork (Row 2030) (Row 1777)) (Row 0)) (Fork (Fork (Row 0) (Fork (Row 720) (Row 236))) (Row 0))) (Row
     0)) (Row 0)) (Fork (Row 1462) (Fork (Fork (Fork (Row 0) (Fork (Row 0) (Fork (Row 0) (Fork (Row 1229) (Row
     2470))))) (Row 0)) (Row 1887))))) (Fork (Row 1214) (Fork (Row 5193) (Fork (Row 0) (Fork (Fork (Fork (Row 1037)
     (Row 4323)) (Row 0)) (Row 511))))))) (Fork (Fork (Fork (Fork (Fork (Fork (Fork (Row 4907) (Row 4719)) (Row 3468))
     (Row 0)) (Fork (Row 2201) (Row 3449))) (Fork (Fork (Row 1986) (Row 1065)) (Fork (Fork (Row 0) (Fork (Fork (Row
     338) (Row 3195)) (Row 168))) (Fork (Row 0) (Fork (Row 3641) (Row 1378)))))) (Fork (Fork (Row 2787) (Fork (Row
     3843) (Fork (Fork (Row 474) (Fork (Row 3981) (Row 1221))) (Row 0)))) (Fork (Fork (Row 414) (Row 128)) (Fork (Row
     0) (Fork (Row 1764) (Row 5006)))))) (Fork (Fork (Fork (Row 1354) (Row 3646)) (Fork (Fork (Row 1364) (Row 341))
     (Fork (Row 3205) (Row 637)))) (Fork (Fork (Fork (Fork (Row 2453) (Fork (Fork (Row 3675) (Row 2195)) (Row 1951)))
     (Row 2469)) (Fork (Fork (Fork (Fork (Fork (Row 0) (Fork (Row 4192) (Row 4831))) (Row 0)) (Row 0)) (Row 2220))
     (Row 4026))) (Fork (Fork (Fork (Row 4345) (Row 4439)) (Row 5199)) (Fork (Fork (Fork (Row 391) (Row 1661)) (Row
     2798)) (Row 0))))))) k)"

definition find_11 :: "num \<Rightarrow> nat" where
  "find_11 k = fst (descend
     (Fork (Fork (Fork (Fork (Fork (Row 3181) (Fork (Fork (Row 0) (Fork (Row 2846) (Row 239))) (Row 1103))) (Fork
     (Fork (Row 3063) (Row 4057)) (Fork (Fork (Row 854) (Row 402)) (Row 0)))) (Fork (Fork (Fork (Fork (Row 1406) (Fork
     (Row 3819) (Row 3773))) (Fork (Fork (Row 5158) (Row 3696)) (Row 0))) (Fork (Fork (Row 0) (Fork (Row 915) (Fork
     (Row 691) (Row 4122)))) (Fork (Fork (Fork (Row 2285) (Row 3747)) (Row 0)) (Row 0)))) (Fork (Fork (Fork (Row 4204)
     (Row 812)) (Fork (Row 0) (Fork (Row 5049) (Fork (Fork (Row 1235) (Row 4671)) (Row 0))))) (Fork (Fork (Row 0)
     (Fork (Fork (Row 2172) (Row 1003)) (Row 376))) (Row 2832))))) (Fork (Fork (Fork (Fork (Fork (Fork (Fork (Row 0)
     (Fork (Row 0) (Fork (Row 476) (Row 143)))) (Row 0)) (Row 0)) (Row 4713)) (Fork (Row 4681) (Row 1610))) (Fork
     (Fork (Fork (Row 862) (Row 2440)) (Row 3750)) (Fork (Row 1231) (Row 682)))) (Fork (Fork (Fork (Fork (Fork (Row 0)
     (Fork (Row 0) (Fork (Fork (Row 3484) (Row 5420)) (Row 0)))) (Row 0)) (Fork (Row 2905) (Fork (Row 1217) (Row
     102)))) (Fork (Fork (Row 0) (Fork (Row 2394) (Row 3745))) (Row 3422))) (Fork (Fork (Fork (Row 0) (Fork (Fork
     (Fork (Row 2002) (Row 285)) (Row 0)) (Row 0))) (Row 2592)) (Row 3))))) (Fork (Fork (Fork (Fork (Row 3270) (Fork
     (Fork (Row 940) (Row 3387)) (Fork (Fork (Row 0) (Fork (Row 3136) (Row 4934))) (Row 4640)))) (Fork (Fork (Fork
     (Row 3905) (Row 3034)) (Row 0)) (Fork (Row 0) (Fork (Row 0) (Fork (Row 1897) (Row 3493)))))) (Fork (Fork (Fork
     (Fork (Row 310) (Row 4393)) (Row 5146)) (Fork (Fork (Fork (Row 3177) (Row 859)) (Row 1059)) (Row 4685))) (Fork
     (Fork (Fork (Fork (Row 2366) (Row 5300)) (Row 0)) (Row 0)) (Fork (Fork (Fork (Row 0) (Fork (Row 32) (Row 4766)))
     (Row 0)) (Fork (Row 0) (Fork (Row 0) (Fork (Row 0) (Fork (Row 9) (Row 5230))))))))) (Fork (Fork (Fork (Fork (Fork
     (Fork (Fork (Fork (Row 1723) (Row 1215)) (Row 3540)) (Row 4562)) (Row 0)) (Row 0)) (Fork (Fork (Fork (Row 0)
     (Fork (Row 0) (Fork (Row 2334) (Row 5308)))) (Row 0)) (Row 4283))) (Fork (Fork (Fork (Fork (Fork (Fork (Row 4629)
     (Row 1427)) (Row 0)) (Row 0)) (Row 133)) (Fork (Fork (Row 985) (Row 2478)) (Row 0))) (Fork (Fork (Fork (Row 291)
     (Fork (Row 5002) (Row 2472))) (Fork (Fork (Row 3416) (Row 1909)) (Row 3815))) (Row 801)))) (Fork (Fork (Fork (Row
     0) (Fork (Row 0) (Fork (Row 4550) (Row 4127)))) (Fork (Row 3942) (Row 3279))) (Fork (Fork (Fork (Row 4407) (Row
     982)) (Row 0)) (Fork (Fork (Row 910) (Row 5248)) (Row 1932))))))) k)"

definition find_12 :: "num \<Rightarrow> nat" where
  "find_12 k = fst (descend
     (Fork (Fork (Fork (Fork (Fork (Fork (Row 3802) (Fork (Row 2462) (Row 3435))) (Fork (Row 2970) (Fork (Row 2806)
     (Row 5015)))) (Fork (Fork (Row 641) (Fork (Row 5047) (Fork (Fork (Row 0) (Fork (Row 2726) (Row 928))) (Row 0))))
     (Fork (Fork (Fork (Fork (Fork (Row 0) (Fork (Row 4245) (Row 3882))) (Row 0)) (Fork (Fork (Row 0) (Fork (Fork
     (Fork (Fork (Row 2891) (Row 2421)) (Row 0)) (Row 0)) (Row 0))) (Row 0))) (Row 0)) (Row 5038)))) (Fork (Fork (Row
     1464) (Fork (Fork (Row 2770) (Row 693)) (Row 0))) (Fork (Fork (Row 3739) (Row 2178)) (Fork (Fork (Row 2362) (Row
     3539)) (Row 4288))))) (Fork (Fork (Fork (Fork (Fork (Row 0) (Fork (Fork (Row 4747) (Row 5066)) (Row 0))) (Row 0))
     (Fork (Row 482) (Fork (Fork (Fork (Row 2188) (Fork (Row 3725) (Row 5415))) (Row 4214)) (Row 0)))) (Fork (Fork
     (Fork (Row 3919) (Row 4018)) (Row 0)) (Fork (Row 4116) (Fork (Fork (Row 4286) (Row 158)) (Row 76))))) (Fork (Fork
     (Fork (Row 795) (Fork (Fork (Row 3245) (Fork (Row 3756) (Row 3777))) (Row 0))) (Fork (Fork (Fork (Row 0) (Fork
     (Row 0) (Fork (Fork (Fork (Row 2044) (Row 4768)) (Row 0)) (Row 0)))) (Row 0)) (Row 0))) (Fork (Row 3509) (Fork
     (Row 2154) (Fork (Row 5003) (Fork (Row 4384) (Fork (Fork (Row 5210) (Row 372)) (Row 0))))))))) (Fork (Fork (Fork
     (Fork (Fork (Fork (Row 2484) (Row 1341)) (Row 3694)) (Fork (Fork (Fork (Row 4939) (Row 4925)) (Fork (Row 3557)
     (Row 3410))) (Row 1367))) (Fork (Fork (Row 1181) (Row 2638)) (Row 0))) (Fork (Fork (Row 1558) (Fork (Fork (Row
     5387) (Row 3810)) (Fork (Row 5100) (Row 2876)))) (Fork (Fork (Fork (Fork (Row 0) (Fork (Row 2191) (Row 2063)))
     (Fork (Fork (Row 96) (Row 2441)) (Row 0))) (Row 0)) (Fork (Row 532) (Row 4506))))) (Fork (Fork (Fork (Fork (Row
     0) (Fork (Row 1092) (Row 89))) (Fork (Fork (Fork (Row 0) (Fork (Fork (Fork (Fork (Row 1233) (Row 3564)) (Row 0))
     (Row 0)) (Row 0))) (Row 703)) (Fork (Fork (Row 0) (Fork (Row 0) (Fork (Row 2162) (Row 4175)))) (Row 0)))) (Fork
     (Row 2679) (Fork (Fork (Fork (Row 1450) (Row 2647)) (Row 0)) (Row 0)))) (Fork (Fork (Fork (Row 811) (Fork (Row
     4195) (Fork (Fork (Row 3012) (Row 5413)) (Row 0)))) (Row 1605)) (Fork (Fork (Fork (Fork (Fork (Row 2090) (Row
     4735)) (Row 0)) (Row 387)) (Fork (Fork (Fork (Row 0) (Fork (Row 2203) (Row 1994))) (Row 2619)) (Row 0))) (Row
     1751)))))) k)"

definition find_13 :: "num \<Rightarrow> nat" where
  "find_13 k = fst (descend
     (Fork (Fork (Fork (Fork (Fork (Fork (Row 3354) (Fork (Fork (Fork (Row 0) (Fork (Row 1447) (Row 2972))) (Row 0))
     (Fork (Fork (Row 0) (Fork (Row 4089) (Row 463))) (Row 271)))) (Fork (Fork (Row 0) (Fork (Fork (Row 3261) (Row
     169)) (Row 2296))) (Fork (Row 3444) (Row 3220)))) (Fork (Fork (Fork (Row 3006) (Fork (Row 0) (Fork (Row 4482)
     (Row 3457)))) (Fork (Fork (Row 1899) (Row 269)) (Row 0))) (Fork (Row 5161) (Fork (Row 0) (Fork (Row 0) (Fork (Row
     0) (Fork (Row 2579) (Row 1484)))))))) (Fork (Fork (Fork (Row 4132) (Fork (Fork (Row 0) (Fork (Row 5076) (Row
     3829))) (Row 0))) (Row 656)) (Fork (Row 0) (Fork (Row 628) (Fork (Fork (Fork (Row 794) (Row 973)) (Row 0)) (Fork
     (Row 4575) (Row 4649))))))) (Fork (Fork (Fork (Fork (Row 4675) (Row 3712)) (Fork (Fork (Fork (Row 670) (Row
     2686)) (Row 0)) (Row 4047))) (Fork (Row 4824) (Fork (Row 0) (Fork (Fork (Row 356) (Row 3804)) (Row 0))))) (Fork
     (Fork (Fork (Fork (Row 3640) (Fork (Fork (Row 1054) (Row 4072)) (Row 1101))) (Fork (Fork (Row 3023) (Row 1153))
     (Fork (Fork (Fork (Fork (Row 2852) (Row 1014)) (Row 0)) (Row 0)) (Row 0)))) (Fork (Row 4143) (Fork (Row 0) (Fork
     (Row 824) (Row 3548))))) (Fork (Row 722) (Fork (Row 1924) (Fork (Row 1982) (Row 4467))))))) (Fork (Fork (Fork
     (Fork (Fork (Fork (Row 735) (Row 2878)) (Row 2890)) (Fork (Row 1802) (Fork (Fork (Row 4217) (Row 2468)) (Fork
     (Row 1190) (Row 4965))))) (Fork (Row 3441) (Fork (Row 58) (Fork (Row 3814) (Row 4))))) (Fork (Fork (Fork (Fork
     (Fork (Fork (Row 3357) (Row 3344)) (Row 0)) (Row 0)) (Row 0)) (Fork (Row 0) (Fork (Row 5456) (Row 5069)))) (Fork
     (Row 2084) (Row 3840)))) (Fork (Fork (Fork (Fork (Row 3380) (Row 2933)) (Row 1703)) (Fork (Fork (Fork (Row 0)
     (Fork (Row 0) (Fork (Row 0) (Fork (Row 2190) (Row 2775))))) (Fork (Fork (Row 5231) (Row 205)) (Row 0))) (Fork
     (Fork (Row 0) (Fork (Row 0) (Fork (Row 0) (Fork (Row 2568) (Row 1189))))) (Row 3498)))) (Fork (Fork (Fork (Fork
     (Row 4602) (Row 2881)) (Row 123)) (Fork (Fork (Row 0) (Fork (Row 4178) (Row 2036))) (Fork (Fork (Row 3284) (Row
     2901)) (Fork (Row 4893) (Fork (Fork (Fork (Row 0) (Fork (Fork (Row 2343) (Row 5218)) (Row 0))) (Row 0)) (Row
     0)))))) (Fork (Fork (Fork (Row 0) (Fork (Row 141) (Row 1678))) (Row 0)) (Fork (Fork (Fork (Row 3588) (Row 3460))
     (Row 3059)) (Fork (Row 0) (Fork (Row 306) (Row 3481))))))))) k)"

definition find_14 :: "num \<Rightarrow> nat" where
  "find_14 k = fst (descend
     (Fork (Fork (Fork (Fork (Fork (Fork (Row 0) (Fork (Row 0) (Fork (Row 0) (Fork (Fork (Fork (Row 4805) (Row 2678))
     (Row 0)) (Row 0))))) (Fork (Row 345) (Fork (Fork (Fork (Row 2864) (Row 5406)) (Row 0)) (Row 3821)))) (Fork (Fork
     (Row 5310) (Fork (Fork (Fork (Fork (Fork (Row 0) (Fork (Row 622) (Row 934))) (Row 0)) (Row 0)) (Row 0)) (Row 0)))
     (Fork (Row 1529) (Fork (Row 0) (Fork (Row 0) (Fork (Row 1119) (Row 3671))))))) (Fork (Fork (Fork (Fork (Row 826)
     (Row 4639)) (Fork (Row 0) (Fork (Row 1655) (Row 4661)))) (Fork (Fork (Fork (Row 0) (Fork (Row 252) (Row 3313)))
     (Row 0)) (Row 1795))) (Fork (Row 3211) (Fork (Fork (Row 3764) (Row 1460)) (Row 1493))))) (Fork (Fork (Fork (Fork
     (Row 94) (Fork (Row 231) (Row 5453))) (Fork (Row 1509) (Fork (Fork (Fork (Fork (Fork (Fork (Row 0) (Fork (Row 0)
     (Fork (Row 0) (Fork (Row 3669) (Row 4404))))) (Row 1594)) (Row 0)) (Row 0)) (Row 0)) (Row 0)))) (Fork (Fork (Row
     4154) (Row 129)) (Row 3668))) (Fork (Fork (Row 0) (Fork (Fork (Row 0) (Fork (Row 0) (Fork (Row 0) (Fork (Fork
     (Row 547) (Row 4099)) (Row 2374))))) (Fork (Row 0) (Fork (Row 3827) (Row 351))))) (Fork (Fork (Fork (Fork (Row
     3138) (Row 2353)) (Fork (Row 3124) (Row 3165))) (Row 0)) (Fork (Row 4739) (Row 3075)))))) (Fork (Fork (Fork (Fork
     (Fork (Row 0) (Fork (Row 0) (Fork (Fork (Row 2301) (Row 317)) (Fork (Fork (Row 0) (Fork (Row 1263) (Row 5141)))
     (Row 3591))))) (Row 1384)) (Fork (Fork (Fork (Row 460) (Row 1974)) (Fork (Row 4212) (Fork (Row 663) (Row 563))))
     (Row 0))) (Fork (Fork (Fork (Row 3978) (Row 53)) (Fork (Fork (Row 3415) (Fork (Row 4697) (Row 924))) (Fork (Fork
     (Row 2525) (Row 2999)) (Row 0)))) (Fork (Fork (Fork (Fork (Row 1031) (Row 914)) (Row 0)) (Row 3329)) (Row 726))))
     (Fork (Fork (Fork (Fork (Row 0) (Fork (Fork (Row 4462) (Row 2094)) (Row 0))) (Row 150)) (Fork (Fork (Row 4075)
     (Fork (Row 2247) (Row 295))) (Fork (Row 1492) (Fork (Fork (Row 0) (Fork (Fork (Fork (Row 5022) (Row 1241)) (Row
     0)) (Row 0))) (Row 0))))) (Fork (Fork (Fork (Fork (Row 4032) (Row 2532)) (Row 138)) (Row 2520)) (Fork (Fork (Fork
     (Row 1470) (Row 4799)) (Row 318)) (Fork (Fork (Row 4312) (Row 4265)) (Fork (Fork (Fork (Row 0) (Fork (Fork (Row
     0) (Fork (Fork (Row 0) (Fork (Row 5085) (Row 2621))) (Row 0))) (Row 0))) (Fork (Fork (Row 388) (Row 733)) (Row
     0))) (Row 0)))))))) k)"

definition find_15 :: "num \<Rightarrow> nat" where
  "find_15 k = fst (descend
     (Fork (Fork (Fork (Fork (Fork (Fork (Fork (Fork (Row 5318) (Row 5028)) (Row 0)) (Row 4923)) (Fork (Row 0) (Fork
     (Fork (Row 2561) (Row 3793)) (Row 0)))) (Fork (Row 3913) (Fork (Row 1525) (Fork (Row 4088) (Fork (Row 1866) (Row
     4056)))))) (Fork (Fork (Fork (Row 0) (Fork (Row 2138) (Fork (Row 0) (Fork (Row 0) (Fork (Row 2666) (Row
     1704)))))) (Fork (Row 0) (Fork (Fork (Row 0) (Fork (Row 1256) (Row 912))) (Row 0)))) (Fork (Fork (Row 1156) (Fork
     (Row 1488) (Row 4716))) (Fork (Fork (Row 3219) (Row 3447)) (Row 3363))))) (Fork (Fork (Fork (Fork (Fork (Row
     4727) (Row 961)) (Row 3111)) (Fork (Fork (Row 3648) (Row 3868)) (Row 0))) (Fork (Fork (Row 0) (Fork (Row 0) (Fork
     (Row 1128) (Row 2584)))) (Row 2833))) (Fork (Fork (Fork (Fork (Row 0) (Fork (Row 4410) (Fork (Fork (Row 589) (Row
     2355)) (Row 0)))) (Row 1309)) (Fork (Row 2801) (Fork (Row 4538) (Row 1313)))) (Row 1663)))) (Fork (Fork (Fork
     (Fork (Row 2968) (Fork (Fork (Fork (Fork (Fork (Row 442) (Row 1791)) (Row 0)) (Row 0)) (Row 4237)) (Fork (Row 0)
     (Fork (Row 2668) (Row 4083))))) (Fork (Row 4520) (Fork (Row 0) (Fork (Fork (Row 2850) (Fork (Fork (Row 0) (Fork
     (Row 0) (Fork (Row 0) (Fork (Row 3869) (Row 1534))))) (Row 2103))) (Row 337))))) (Fork (Fork (Fork (Row 579) (Row
     3996)) (Row 4023)) (Fork (Fork (Fork (Row 3653) (Row 5484)) (Row 0)) (Fork (Fork (Row 2404) (Row 5001)) (Fork
     (Row 202) (Row 5271)))))) (Fork (Fork (Fork (Fork (Row 4358) (Row 3433)) (Fork (Fork (Fork (Fork (Row 4157) (Row
     4063)) (Row 0)) (Row 1750)) (Row 0))) (Fork (Row 2869) (Fork (Row 5322) (Row 2250)))) (Fork (Fork (Row 5216)
     (Fork (Fork (Row 2357) (Row 2644)) (Fork (Row 2799) (Row 4449)))) (Fork (Fork (Row 2586) (Fork (Fork (Fork (Fork
     (Row 5351) (Row 3788)) (Row 0)) (Row 0)) (Row 4169))) (Fork (Row 1571) (Row 533))))))) k)"

definition find_16 :: "num \<Rightarrow> nat" where
  "find_16 k = fst (descend
     (Fork (Fork (Fork (Fork (Fork (Fork (Row 0) (Fork (Row 2804) (Row 5023))) (Fork (Row 0) (Fork (Row 0) (Fork (Fork
     (Fork (Row 3174) (Row 4657)) (Row 0)) (Row 0))))) (Fork (Row 0) (Fork (Row 1278) (Fork (Fork (Row 738) (Row
     4104)) (Row 0))))) (Fork (Fork (Fork (Row 4453) (Row 5250)) (Row 1210)) (Fork (Fork (Row 2882) (Row 5138)) (Fork
     (Row 0) (Fork (Row 1809) (Row 1113)))))) (Fork (Fork (Fork (Fork (Fork (Row 3585) (Row 3496)) (Row 409)) (Row 0))
     (Fork (Fork (Row 0) (Fork (Row 4392) (Row 2987))) (Fork (Fork (Row 0) (Fork (Row 2187) (Row 1789))) (Row 0))))
     (Fork (Fork (Fork (Fork (Row 226) (Row 1858)) (Fork (Fork (Fork (Row 1886) (Row 2629)) (Row 980)) (Row 4466)))
     (Fork (Fork (Row 0) (Fork (Fork (Fork (Row 0) (Fork (Row 0) (Fork (Row 0) (Fork (Row 3985) (Row 2844))))) (Row
     0)) (Row 0))) (Row 1240))) (Fork (Fork (Row 947) (Row 3470)) (Fork (Fork (Row 0) (Fork (Row 3253) (Row 4492)))
     (Row 3866)))))) (Fork (Fork (Fork (Fork (Fork (Fork (Fork (Row 331) (Row 2146)) (Row 4371)) (Row 1564)) (Fork
     (Fork (Row 0) (Fork (Row 975) (Row 369))) (Row 0))) (Fork (Fork (Row 354) (Row 5284)) (Fork (Fork (Fork (Row 0)
     (Fork (Fork (Fork (Row 0) (Fork (Row 4294) (Row 2916))) (Row 0)) (Row 1721))) (Row 0)) (Row 0)))) (Fork (Fork
     (Fork (Fork (Row 12) (Fork (Row 4339) (Row 4773))) (Row 999)) (Row 1752)) (Fork (Fork (Row 4620) (Fork (Row 0)
     (Fork (Row 0) (Fork (Fork (Fork (Row 0) (Fork (Row 0) (Fork (Row 4820) (Row 2936)))) (Row 0)) (Row 0))))) (Fork
     (Fork (Row 0) (Fork (Row 2212) (Row 3343))) (Row 0))))) (Fork (Fork (Fork (Fork (Row 214) (Row 3207)) (Fork (Row
     0) (Fork (Row 0) (Fork (Fork (Row 0) (Fork (Row 0) (Fork (Fork (Row 4412) (Row 2168)) (Row 0)))) (Row 0)))))
     (Fork (Fork (Row 2851) (Row 4709)) (Row 3079))) (Fork (Fork (Row 2637) (Fork (Row 2922) (Row 4516))) (Row
     1302))))) k)"

definition find_17 :: "num \<Rightarrow> nat" where
  "find_17 k = fst (descend
     (Fork (Fork (Fork (Fork (Fork (Row 270) (Fork (Row 0) (Fork (Fork (Fork (Fork (Row 560) (Row 1034)) (Row 0)) (Row
     835)) (Row 4531)))) (Fork (Fork (Fork (Fork (Row 2400) (Fork (Row 4394) (Row 3170))) (Row 0)) (Row 0)) (Row
     4429))) (Fork (Fork (Row 0) (Fork (Row 4606) (Row 3155))) (Fork (Fork (Fork (Row 3928) (Row 5051)) (Row 0)) (Fork
     (Fork (Row 0) (Fork (Fork (Fork (Row 191) (Row 2486)) (Row 0)) (Row 4556))) (Fork (Fork (Row 2434) (Row 5077))
     (Row 0)))))) (Fork (Fork (Fork (Fork (Row 4167) (Row 3629)) (Fork (Fork (Row 1905) (Row 4700)) (Row 0))) (Fork
     (Fork (Row 3148) (Fork (Row 0) (Fork (Row 3316) (Row 2335)))) (Fork (Row 4249) (Row 3523)))) (Fork (Fork (Fork
     (Row 0) (Fork (Row 2011) (Row 4459))) (Fork (Row 4738) (Row 458))) (Fork (Row 1600) (Fork (Row 2585) (Row
     5183)))))) (Fork (Fork (Fork (Fork (Fork (Fork (Row 2349) (Row 3743)) (Fork (Fork (Row 5035) (Fork (Row 0) (Fork
     (Fork (Row 0) (Fork (Row 3705) (Row 177))) (Row 0)))) (Row 0))) (Fork (Row 1087) (Row 25))) (Row 3180)) (Fork
     (Fork (Fork (Row 0) (Fork (Fork (Row 0) (Fork (Fork (Row 1586) (Row 1990)) (Row 0))) (Row 0))) (Fork (Fork (Fork
     (Row 0) (Fork (Fork (Row 4889) (Row 299)) (Row 0))) (Row 0)) (Fork (Row 93) (Row 4340)))) (Fork (Fork (Fork (Row
     5031) (Row 1698)) (Row 0)) (Fork (Row 4564) (Row 1995))))) (Fork (Fork (Fork (Fork (Row 0) (Fork (Row 2555) (Fork
     (Row 3845) (Fork (Row 2376) (Row 3337))))) (Fork (Fork (Row 0) (Fork (Row 699) (Row 2277))) (Row 0))) (Fork (Fork
     (Fork (Row 1651) (Row 4809)) (Row 0)) (Fork (Fork (Row 0) (Fork (Row 2735) (Row 2069))) (Row 0)))) (Fork (Row
     936) (Fork (Fork (Fork (Fork (Row 4693) (Row 2199)) (Row 0)) (Fork (Row 4213) (Fork (Fork (Fork (Row 2861) (Row
     894)) (Row 0)) (Row 0)))) (Fork (Fork (Row 833) (Row 4003)) (Row 0))))))) k)"

definition find_18 :: "num \<Rightarrow> nat" where
  "find_18 k = fst (descend
     (Fork (Fork (Fork (Fork (Fork (Fork (Fork (Row 2655) (Fork (Row 3520) (Row 991))) (Row 866)) (Fork (Fork (Row 0)
     (Fork (Row 0) (Fork (Row 2673) (Row 1077)))) (Row 2475))) (Fork (Fork (Row 2542) (Fork (Fork (Row 2197) (Row
     2695)) (Row 0))) (Fork (Fork (Fork (Row 0) (Fork (Row 0) (Fork (Fork (Row 0) (Fork (Row 1297) (Row 5274))) (Row
     0)))) (Row 0)) (Row 1471)))) (Fork (Fork (Fork (Row 783) (Row 1786)) (Fork (Fork (Row 696) (Row 1570)) (Row 0)))
     (Fork (Row 0) (Fork (Fork (Row 609) (Row 2554)) (Fork (Row 5014) (Row 1469)))))) (Fork (Fork (Fork (Fork (Fork
     (Fork (Row 1142) (Row 2786)) (Row 1967)) (Fork (Fork (Row 0) (Fork (Fork (Row 0) (Fork (Fork (Row 39) (Row 2123))
     (Row 0))) (Row 0))) (Row 0))) (Fork (Row 3672) (Row 837))) (Fork (Fork (Fork (Fork (Fork (Row 0) (Fork (Row 2193)
     (Row 60))) (Row 0)) (Row 0)) (Fork (Fork (Row 2918) (Row 5475)) (Fork (Fork (Row 0) (Fork (Row 1452) (Row 2100)))
     (Row 0)))) (Fork (Row 3512) (Fork (Row 5181) (Fork (Fork (Row 7) (Row 1201)) (Row 0)))))) (Fork (Fork (Fork (Row
     5244) (Fork (Fork (Row 2038) (Row 2062)) (Fork (Fork (Row 0) (Fork (Row 0) (Fork (Row 4846) (Row 4426)))) (Row
     5321)))) (Row 1794)) (Fork (Fork (Fork (Fork (Row 0) (Fork (Row 3061) (Row 4172))) (Row 0)) (Fork (Fork (Fork
     (Row 3929) (Row 2680)) (Row 0)) (Row 3243))) (Fork (Row 0) (Fork (Fork (Row 1394) (Row 864)) (Row 0))))))) (Fork
     (Fork (Fork (Fork (Fork (Fork (Fork (Row 925) (Row 2466)) (Row 0)) (Row 0)) (Fork (Fork (Row 1757) (Row 3430))
     (Fork (Row 1145) (Row 2003)))) (Fork (Fork (Fork (Row 0) (Fork (Row 810) (Fork (Row 3298) (Row 2099)))) (Fork
     (Fork (Row 1808) (Row 1046)) (Row 0))) (Fork (Fork (Row 727) (Fork (Row 2006) (Row 3339))) (Row 1935)))) (Fork
     (Fork (Fork (Row 0) (Fork (Fork (Fork (Fork (Fork (Row 5220) (Row 4264)) (Row 0)) (Row 0)) (Row 0)) (Row 4643)))
     (Fork (Row 4689) (Row 3891))) (Fork (Fork (Row 0) (Fork (Fork (Fork (Row 0) (Fork (Fork (Fork (Row 3307) (Row
     3483)) (Row 0)) (Row 0))) (Row 4361)) (Row 659))) (Fork (Fork (Row 5005) (Row 115)) (Row 0))))) (Fork (Fork (Fork
     (Fork (Row 0) (Fork (Row 5176) (Row 2375))) (Fork (Row 1720) (Row 721))) (Fork (Row 2456) (Fork (Fork (Row 0)
     (Fork (Row 0) (Fork (Row 3485) (Row 187)))) (Row 3331)))) (Fork (Fork (Fork (Row 84) (Row 5365)) (Fork (Fork
     (Fork (Row 0) (Fork (Row 4818) (Fork (Row 0) (Fork (Row 0) (Fork (Row 1675) (Row 2134)))))) (Row 0)) (Row 1104)))
     (Fork (Fork (Row 4819) (Fork (Fork (Row 1803) (Row 1776)) (Row 0))) (Fork (Row 5401) (Fork (Row 5403) (Row
     4590)))))))) k)"

definition find_19 :: "num \<Rightarrow> nat" where
  "find_19 k = fst (descend
     (Fork (Fork (Fork (Fork (Fork (Row 0) (Fork (Row 4408) (Fork (Row 4463) (Row 3974)))) (Fork (Fork (Row 2054)
     (Fork (Row 3456) (Row 4987))) (Row 2175))) (Fork (Fork (Fork (Fork (Row 5362) (Row 5099)) (Row 760)) (Fork (Row
     773) (Fork (Fork (Fork (Row 0) (Fork (Fork (Row 0) (Fork (Fork (Fork (Row 4927) (Row 4359)) (Row 0)) (Row 0)))
     (Row 0))) (Row 0)) (Row 0)))) (Fork (Row 3003) (Fork (Row 0) (Fork (Row 4581) (Fork (Row 4216) (Row 3941)))))))
     (Fork (Fork (Fork (Fork (Row 1710) (Fork (Row 4530) (Row 3187))) (Fork (Row 5326) (Row 5339))) (Fork (Row 0)
     (Fork (Fork (Row 0) (Fork (Row 4870) (Row 1850))) (Row 0)))) (Fork (Fork (Fork (Fork (Row 590) (Fork (Row 1963)
     (Row 4303))) (Row 0)) (Row 493)) (Fork (Fork (Fork (Fork (Row 68) (Row 4285)) (Row 0)) (Row 2024)) (Row 654)))))
     (Fork (Fork (Fork (Fork (Fork (Fork (Row 161) (Fork (Row 5479) (Row 3184))) (Row 0)) (Fork (Row 0) (Fork (Fork
     (Row 0) (Fork (Fork (Row 0) (Fork (Row 0) (Fork (Row 0) (Fork (Fork (Row 4327) (Row 559)) (Row 0))))) (Row 620)))
     (Row 0)))) (Fork (Row 5443) (Fork (Row 3351) (Fork (Fork (Row 4910) (Row 2427)) (Row 2280))))) (Fork (Fork (Fork
     (Fork (Fork (Fork (Row 5171) (Row 3639)) (Fork (Fork (Fork (Row 5319) (Row 3299)) (Row 0)) (Row 0))) (Row 90))
     (Row 4885)) (Fork (Fork (Row 3247) (Fork (Fork (Row 126) (Row 2859)) (Row 0))) (Row 4304))) (Fork (Fork (Row
     4522) (Fork (Fork (Row 0) (Fork (Row 0) (Fork (Fork (Row 0) (Fork (Row 1152) (Row 550))) (Row 0)))) (Fork (Fork
     (Row 4069) (Fork (Row 2636) (Row 1442))) (Row 1409)))) (Fork (Row 1312) (Row 15))))) (Fork (Fork (Fork (Row 0)
     (Fork (Fork (Row 122) (Fork (Row 0) (Fork (Fork (Row 3336) (Row 1472)) (Row 0)))) (Row 3069))) (Fork (Row 73)
     (Fork (Row 3703) (Fork (Fork (Row 259) (Row 791)) (Row 0))))) (Fork (Fork (Fork (Row 4532) (Row 4080)) (Fork
     (Fork (Row 3954) (Row 3808)) (Row 2595))) (Fork (Fork (Row 1889) (Fork (Row 4194) (Row 2480))) (Row 4079)))))) k)"

definition find_20 :: "num \<Rightarrow> nat" where
  "find_20 k = fst (descend
     (Fork (Fork (Fork (Fork (Fork (Fork (Fork (Row 4302) (Row 5136)) (Fork (Row 2523) (Fork (Row 1430) (Fork (Row
     3390) (Row 714))))) (Row 3173)) (Fork (Fork (Row 4331) (Fork (Fork (Row 1478) (Row 1576)) (Row 1348))) (Fork (Row
     1222) (Fork (Row 1536) (Fork (Fork (Row 0) (Fork (Row 1110) (Row 2033))) (Row 0)))))) (Fork (Fork (Fork (Row 200)
     (Row 1573)) (Fork (Fork (Fork (Fork (Fork (Row 1154) (Row 3411)) (Row 0)) (Row 0)) (Row 0)) (Row 0))) (Fork (Fork
     (Fork (Fork (Fork (Row 0) (Fork (Row 0) (Fork (Row 3647) (Row 2753)))) (Row 0)) (Row 0)) (Row 0)) (Fork (Row 0)
     (Fork (Fork (Fork (Row 1646) (Fork (Fork (Row 1170) (Row 1433)) (Row 0))) (Row 0)) (Row 4163)))))) (Fork (Fork
     (Fork (Fork (Row 2246) (Row 2358)) (Row 0)) (Fork (Fork (Fork (Row 2181) (Fork (Fork (Row 31) (Row 4695)) (Row
     0))) (Fork (Fork (Row 4196) (Row 2588)) (Fork (Row 2042) (Row 1060)))) (Fork (Row 4970) (Row 4938)))) (Fork (Row
     3024) (Fork (Fork (Fork (Fork (Row 4717) (Row 2998)) (Row 0)) (Fork (Fork (Fork (Fork (Row 0) (Fork (Row 4207)
     (Row 5050))) (Row 0)) (Row 0)) (Row 0))) (Fork (Fork (Row 4199) (Row 1291)) (Row 2593)))))) (Fork (Fork (Fork
     (Fork (Fork (Fork (Row 0) (Fork (Row 0) (Fork (Row 0) (Fork (Row 619) (Row 2572))))) (Row 1987)) (Row 0)) (Fork
     (Fork (Fork (Fork (Fork (Row 3844) (Row 3149)) (Row 0)) (Row 0)) (Fork (Row 2409) (Row 2724))) (Fork (Fork (Fork
     (Fork (Row 5204) (Fork (Row 713) (Row 3598))) (Row 3601)) (Row 0)) (Row 2284)))) (Fork (Fork (Fork (Row 0) (Fork
     (Fork (Row 591) (Row 1223)) (Row 0))) (Fork (Fork (Row 0) (Fork (Row 0) (Fork (Row 3064) (Row 2837)))) (Fork (Row
     0) (Fork (Row 0) (Fork (Row 4486) (Row 4297)))))) (Fork (Fork (Row 1841) (Fork (Fork (Row 700) (Row 3502)) (Row
     2171))) (Fork (Fork (Row 4411) (Fork (Row 3053) (Row 2930))) (Fork (Row 0) (Fork (Fork (Fork (Fork (Row 4451)
     (Row 1989)) (Row 0)) (Row 0)) (Row 1091))))))) (Fork (Fork (Fork (Row 3152) (Fork (Row 5156) (Fork (Fork (Row 0)
     (Fork (Row 0) (Fork (Fork (Row 4471) (Row 2915)) (Row 0)))) (Row 4947)))) (Fork (Row 3019) (Fork (Fork (Row 500)
     (Row 5090)) (Fork (Row 0) (Fork (Row 0) (Fork (Fork (Row 287) (Row 3131)) (Row 0))))))) (Fork (Fork (Row 4857)
     (Fork (Fork (Row 705) (Fork (Row 4147) (Row 5409))) (Row 5239))) (Fork (Fork (Fork (Row 0) (Fork (Fork (Row 4539)
     (Row 767)) (Row 1563))) (Row 0)) (Row 1617)))))) k)"

definition find_21 :: "num \<Rightarrow> nat" where
  "find_21 k = fst (descend
     (Fork (Fork (Fork (Fork (Fork (Row 4861) (Row 4301)) (Fork (Fork (Row 3525) (Fork (Row 0) (Fork (Row 4205) (Row
     4100)))) (Row 0))) (Fork (Fork (Fork (Row 4128) (Fork (Row 0) (Fork (Fork (Row 967) (Row 3206)) (Row 0)))) (Row
     4979)) (Fork (Fork (Fork (Row 0) (Fork (Fork (Row 2738) (Row 1187)) (Row 0))) (Fork (Fork (Fork (Fork (Fork (Row
     5222) (Row 2617)) (Row 0)) (Row 0)) (Fork (Row 2165) (Fork (Row 5400) (Row 1781)))) (Row 1400))) (Fork (Row 1968)
     (Fork (Row 0) (Fork (Row 4485) (Row 3968))))))) (Fork (Fork (Fork (Fork (Fork (Fork (Row 0) (Fork (Row 2322) (Row
     3222))) (Row 4688)) (Row 0)) (Fork (Row 1719) (Row 1849))) (Fork (Row 3088) (Fork (Row 2372) (Row 4438)))) (Fork
     (Fork (Fork (Row 212) (Fork (Fork (Row 0) (Fork (Row 1097) (Row 1434))) (Fork (Row 4733) (Row 1023)))) (Fork (Row
     0) (Fork (Fork (Row 110) (Row 1161)) (Row 0)))) (Fork (Fork (Fork (Row 0) (Fork (Row 5098) (Row 1067))) (Row
     5060)) (Row 0))))) (Fork (Fork (Fork (Fork (Fork (Fork (Fork (Row 0) (Fork (Row 606) (Row 3855))) (Row 0)) (Row
     4698)) (Fork (Fork (Row 211) (Fork (Fork (Row 3934) (Row 2371)) (Fork (Fork (Row 4125) (Row 2524)) (Row 0))))
     (Row 1979))) (Fork (Fork (Fork (Fork (Row 611) (Row 4894)) (Fork (Fork (Row 1088) (Fork (Fork (Row 0) (Fork (Fork
     (Fork (Row 5450) (Row 4787)) (Row 0)) (Row 0))) (Row 2096))) (Row 0))) (Row 0)) (Fork (Row 2237) (Fork (Fork (Row
     1959) (Fork (Row 0) (Fork (Fork (Row 438) (Row 3065)) (Row 0)))) (Fork (Row 0) (Fork (Fork (Row 304) (Row 566))
     (Row 0))))))) (Fork (Fork (Fork (Row 323) (Fork (Row 0) (Fork (Row 0) (Fork (Row 0) (Fork (Row 568) (Row
     3080)))))) (Fork (Row 0) (Fork (Fork (Fork (Row 0) (Fork (Row 0) (Fork (Row 0) (Fork (Row 339) (Row 4712)))))
     (Row 0)) (Row 4936)))) (Fork (Row 674) (Fork (Row 5355) (Row 2896))))) (Fork (Fork (Fork (Row 4050) (Fork (Fork
     (Row 0) (Fork (Row 3214) (Row 2206))) (Fork (Row 2196) (Row 5350)))) (Fork (Row 0) (Fork (Row 0) (Fork (Row 2598)
     (Row 3051))))) (Fork (Fork (Row 256) (Fork (Row 5258) (Fork (Row 3487) (Fork (Row 1246) (Fork (Fork (Row 2097)
     (Row 2706)) (Row 0)))))) (Fork (Fork (Row 1171) (Row 2408)) (Row 580)))))) k)"

definition find_22 :: "num \<Rightarrow> nat" where
  "find_22 k = fst (descend
     (Fork (Fork (Fork (Fork (Fork (Fork (Fork (Fork (Fork (Fork (Row 5474) (Row 4261)) (Row 3471)) (Row 4966)) (Row
     1745)) (Row 457)) (Fork (Fork (Fork (Row 0) (Fork (Row 1641) (Fork (Fork (Row 4978) (Row 4349)) (Row 0)))) (Row
     2783)) (Fork (Fork (Fork (Row 0) (Fork (Row 311) (Row 2098))) (Row 220)) (Row 3259)))) (Fork (Fork (Fork (Row
     1337) (Row 3890)) (Row 0)) (Fork (Row 3198) (Row 3277)))) (Fork (Fork (Row 0) (Fork (Row 2477) (Fork (Fork (Fork
     (Row 0) (Fork (Row 0) (Fork (Row 1673) (Row 1800)))) (Row 0)) (Row 0)))) (Fork (Fork (Row 0) (Fork (Fork (Row
     1112) (Row 2704)) (Row 2112))) (Row 0)))) (Fork (Fork (Fork (Fork (Row 1628) (Row 950)) (Fork (Row 0) (Fork (Row
     5107) (Row 2272)))) (Fork (Row 3752) (Fork (Fork (Fork (Fork (Row 417) (Row 919)) (Row 0)) (Row 2079)) (Row
     5134)))) (Fork (Fork (Row 0) (Fork (Row 2058) (Fork (Row 3321) (Row 79)))) (Fork (Row 1642) (Fork (Row 1557)
     (Fork (Row 0) (Fork (Row 1261) (Row 2943)))))))) (Fork (Fork (Fork (Fork (Row 0) (Fork (Row 832) (Fork (Row 0)
     (Fork (Row 4177) (Row 36))))) (Fork (Fork (Row 4423) (Fork (Row 1624) (Fork (Row 4779) (Row 2913)))) (Row 0)))
     (Fork (Fork (Row 0) (Fork (Row 4067) (Row 3226))) (Fork (Fork (Row 4435) (Fork (Row 2513) (Fork (Row 0) (Fork
     (Fork (Row 4322) (Row 1199)) (Row 0))))) (Fork (Row 0) (Fork (Row 0) (Fork (Row 348) (Fork (Row 4142) (Row
     3428)))))))) (Fork (Fork (Fork (Row 1512) (Fork (Fork (Row 0) (Fork (Row 0) (Fork (Row 2116) (Row 4587)))) (Row
     5227))) (Fork (Row 1432) (Fork (Fork (Fork (Row 0) (Fork (Row 0) (Fork (Row 823) (Row 1268)))) (Row 142)) (Fork
     (Fork (Row 2952) (Fork (Row 2941) (Row 1298))) (Row 0))))) (Fork (Fork (Fork (Fork (Fork (Fork (Row 5429) (Row
     1459)) (Row 0)) (Row 1372)) (Row 3796)) (Fork (Row 0) (Fork (Fork (Fork (Row 266) (Row 1317)) (Row 0)) (Row
     2836)))) (Fork (Row 4545) (Fork (Row 4710) (Row 4402))))))) k)"

definition find_23 :: "num \<Rightarrow> nat" where
  "find_23 k = fst (descend
     (Fork (Fork (Fork (Fork (Fork (Fork (Fork (Row 588) (Fork (Row 5004) (Row 1456))) (Row 0)) (Fork (Fork (Fork (Row
     248) (Row 1713)) (Row 0)) (Fork (Fork (Fork (Row 1030) (Row 2256)) (Row 0)) (Row 3157)))) (Fork (Fork (Fork (Row
     0) (Fork (Fork (Row 3880) (Row 3722)) (Row 0))) (Fork (Row 2028) (Fork (Row 595) (Fork (Fork (Row 4619) (Row
     2744)) (Row 0))))) (Fork (Fork (Row 486) (Row 3049)) (Fork (Fork (Fork (Row 1585) (Row 1359)) (Row 0)) (Row
     0))))) (Fork (Fork (Row 3746) (Fork (Fork (Row 1304) (Row 4992)) (Fork (Row 4002) (Row 1511)))) (Fork (Fork (Fork
     (Row 613) (Row 2689)) (Row 1382)) (Fork (Fork (Row 0) (Fork (Row 549) (Row 1939))) (Fork (Row 0) (Fork (Row 1270)
     (Row 4664))))))) (Fork (Fork (Fork (Row 0) (Fork (Row 267) (Fork (Row 0) (Fork (Row 444) (Row 1656))))) (Fork
     (Fork (Row 4641) (Row 5377)) (Row 2815))) (Fork (Fork (Fork (Fork (Row 4775) (Row 3631)) (Fork (Fork (Row 0)
     (Fork (Row 2207) (Row 4373))) (Row 1619))) (Row 1980)) (Fork (Fork (Fork (Row 4672) (Fork (Row 4045) (Row 2329)))
     (Row 0)) (Fork (Row 2158) (Row 1423)))))) (Fork (Fork (Fork (Fork (Row 2509) (Fork (Row 0) (Fork (Row 4783) (Row
     1321)))) (Fork (Fork (Fork (Row 645) (Row 4634)) (Row 1377)) (Fork (Row 3832) (Row 445)))) (Fork (Fork (Fork
     (Fork (Row 0) (Fork (Row 2219) (Row 741))) (Fork (Fork (Row 0) (Fork (Fork (Row 0) (Fork (Row 0) (Fork (Fork (Row
     679) (Row 4732)) (Row 0)))) (Row 0))) (Row 3778))) (Fork (Row 4913) (Fork (Row 5325) (Fork (Fork (Row 0) (Fork
     (Row 5288) (Row 4869))) (Row 0))))) (Fork (Fork (Fork (Row 2145) (Row 5469)) (Row 0)) (Fork (Fork (Fork (Row
     5332) (Row 3792)) (Row 0)) (Fork (Row 2663) (Row 2677)))))) (Fork (Fork (Fork (Fork (Fork (Fork (Row 4832) (Row
     2505)) (Row 5388)) (Row 1051)) (Fork (Row 3021) (Row 1590))) (Fork (Fork (Fork (Fork (Fork (Fork (Row 4124) (Row
     5440)) (Row 0)) (Row 0)) (Row 4425)) (Row 0)) (Fork (Row 0) (Fork (Row 0) (Fork (Fork (Row 4929) (Row 2479)) (Row
     0)))))) (Fork (Fork (Fork (Fork (Row 0) (Fork (Fork (Row 1277) (Row 1531)) (Row 856))) (Fork (Fork (Row 3311)
     (Row 3358)) (Row 0))) (Fork (Row 2014) (Fork (Row 5430) (Row 4021)))) (Fork (Fork (Fork (Row 0) (Fork (Row 2316)
     (Row 1910))) (Row 0)) (Fork (Fork (Row 2424) (Row 1224)) (Row 1252))))))) k)"

definition find_24 :: "num \<Rightarrow> nat" where
  "find_24 k = fst (descend
     (Fork (Fork (Fork (Fork (Fork (Fork (Row 3384) (Fork (Fork (Row 3443) (Row 3717)) (Row 0))) (Row 1428)) (Fork
     (Fork (Row 3074) (Fork (Row 4184) (Fork (Row 0) (Fork (Row 0) (Fork (Fork (Row 0) (Fork (Fork (Row 4573) (Row
     4935)) (Row 0))) (Row 0)))))) (Fork (Fork (Fork (Row 2086) (Row 2925)) (Row 0)) (Row 0)))) (Fork (Fork (Fork
     (Fork (Fork (Row 2308) (Row 989)) (Fork (Fork (Row 5184) (Row 2436)) (Row 848))) (Row 1856)) (Row 876)) (Fork
     (Fork (Fork (Row 1007) (Fork (Row 0) (Fork (Row 2813) (Row 4326)))) (Fork (Row 0) (Fork (Row 3718) (Row 173))))
     (Fork (Row 3749) (Fork (Row 3944) (Row 5185)))))) (Fork (Fork (Fork (Fork (Row 0) (Fork (Row 1733) (Row 4653)))
     (Fork (Fork (Fork (Fork (Row 2698) (Row 327)) (Row 0)) (Row 3355)) (Row 0))) (Fork (Fork (Row 3883) (Fork (Row 0)
     (Fork (Fork (Row 4743) (Row 5436)) (Row 0)))) (Fork (Row 0) (Fork (Row 1237) (Row 381))))) (Fork (Fork (Fork
     (Fork (Row 3062) (Row 3455)) (Fork (Row 2682) (Row 3666))) (Row 1551)) (Row 5186)))) (Fork (Fork (Fork (Fork
     (Fork (Fork (Fork (Row 3011) (Row 4457)) (Fork (Row 0) (Fork (Row 0) (Fork (Row 5359) (Row 2411))))) (Fork (Fork
     (Fork (Fork (Row 5416) (Row 5089)) (Row 0)) (Row 0)) (Fork (Row 2898) (Fork (Row 0) (Fork (Row 0) (Fork (Row
     4006) (Row 4742))))))) (Fork (Fork (Row 2868) (Fork (Fork (Row 3604) (Row 245)) (Row 0))) (Row 2877))) (Fork
     (Fork (Fork (Row 2415) (Row 4372)) (Row 3908)) (Fork (Row 5114) (Fork (Fork (Row 1211) (Row 1303)) (Row 0)))))
     (Fork (Fork (Fork (Fork (Fork (Row 3655) (Row 586)) (Row 3323)) (Row 4611)) (Fork (Row 0) (Fork (Fork (Row 0)
     (Fork (Row 2312) (Row 1819))) (Row 0)))) (Fork (Fork (Fork (Row 1554) (Row 5124)) (Row 4572)) (Row 3494)))) (Fork
     (Fork (Fork (Fork (Fork (Row 0) (Fork (Fork (Row 0) (Fork (Fork (Row 0) (Fork (Row 2816) (Row 3171))) (Row
     5214))) (Row 0))) (Fork (Row 1983) (Fork (Fork (Fork (Fork (Row 0) (Fork (Row 1370) (Row 5296))) (Row 0)) (Row
     3754)) (Row 0)))) (Row 0)) (Fork (Row 0) (Fork (Row 3517) (Fork (Row 0) (Fork (Row 0) (Fork (Fork (Row 5363) (Row
     4784)) (Row 3902))))))) (Fork (Fork (Fork (Fork (Row 0) (Fork (Fork (Fork (Fork (Row 405) (Row 3768)) (Row 0))
     (Row 0)) (Row 0))) (Row 1504)) (Fork (Row 2854) (Fork (Fork (Row 0) (Fork (Row 2924) (Row 4669))) (Row 0))))
     (Fork (Fork (Fork (Row 5315) (Row 199)) (Fork (Row 0) (Fork (Row 1079) (Row 544)))) (Row 0)))))) k)"

definition find_25 :: "num \<Rightarrow> nat" where
  "find_25 k = fst (descend
     (Fork (Fork (Fork (Fork (Fork (Row 2147) (Fork (Row 987) (Row 1550))) (Fork (Fork (Row 3146) (Fork (Row 4566)
     (Row 1604))) (Fork (Row 1688) (Fork (Row 358) (Fork (Row 0) (Fork (Row 4598) (Row 3847))))))) (Fork (Fork (Fork
     (Row 0) (Fork (Fork (Fork (Row 0) (Fork (Row 0) (Fork (Row 1195) (Row 5269)))) (Row 3278)) (Row 0))) (Fork (Row
     2518) (Fork (Row 2501) (Row 1833)))) (Fork (Fork (Fork (Row 0) (Fork (Row 3304) (Row 5033))) (Fork (Row 1665)
     (Row 347))) (Fork (Row 0) (Fork (Row 3297) (Row 1901)))))) (Fork (Fork (Fork (Row 3506) (Row 4347)) (Fork (Fork
     (Row 0) (Fork (Fork (Row 2675) (Row 5272)) (Row 0))) (Fork (Fork (Row 0) (Fork (Row 227) (Row 805))) (Row
     3916)))) (Fork (Fork (Fork (Row 0) (Fork (Row 1196) (Row 1603))) (Fork (Fork (Row 1611) (Row 118)) (Row 5369)))
     (Row 4953)))) (Fork (Fork (Fork (Fork (Fork (Row 5155) (Row 1821)) (Fork (Fork (Fork (Row 1620) (Row 1390)) (Row
     0)) (Fork (Fork (Fork (Fork (Row 4637) (Row 1265)) (Row 4315)) (Row 4338)) (Row 0)))) (Fork (Fork (Row 3697)
     (Fork (Fork (Row 455) (Row 3980)) (Row 5188))) (Fork (Row 4724) (Fork (Row 0) (Fork (Row 0) (Fork (Row 3775) (Row
     3412))))))) (Fork (Fork (Fork (Row 4380) (Fork (Row 404) (Row 5101))) (Fork (Fork (Fork (Row 4028) (Row 1736))
     (Row 0)) (Fork (Fork (Row 2796) (Row 401)) (Fork (Fork (Row 596) (Row 1772)) (Row 0))))) (Fork (Fork (Fork (Row
     3134) (Fork (Fork (Row 2396) (Row 605)) (Row 0))) (Fork (Row 77) (Row 3507))) (Row 538)))) (Fork (Fork (Fork
     (Fork (Row 2840) (Fork (Fork (Row 4554) (Row 1916)) (Row 0))) (Fork (Fork (Row 2759) (Fork (Row 0) (Fork (Row
     3478) (Row 432)))) (Row 2752))) (Fork (Fork (Fork (Row 5329) (Row 2209)) (Row 3076)) (Fork (Row 2645) (Fork (Row
     0) (Fork (Row 0) (Fork (Row 3645) (Row 2122))))))) (Fork (Fork (Fork (Row 0) (Fork (Row 1227) (Row 1658))) (Fork
     (Row 4533) (Fork (Fork (Row 0) (Fork (Row 858) (Row 2450))) (Row 0)))) (Fork (Fork (Fork (Fork (Row 0) (Fork (Row
     4097) (Row 2997))) (Row 0)) (Row 3427)) (Fork (Row 4841) (Row 933))))))) k)"

definition find_26 :: "num \<Rightarrow> nat" where
  "find_26 k = fst (descend
     (Fork (Fork (Fork (Fork (Fork (Fork (Row 0) (Fork (Row 1135) (Row 2124))) (Row 105)) (Fork (Fork (Row 0) (Fork
     (Fork (Row 4821) (Fork (Row 5449) (Row 4862))) (Row 702))) (Fork (Row 0) (Fork (Row 4454) (Row 66))))) (Fork
     (Fork (Fork (Row 3881) (Fork (Row 4942) (Row 2304))) (Fork (Row 4159) (Fork (Fork (Fork (Row 72) (Row 1126)) (Row
     2085)) (Row 0)))) (Fork (Fork (Row 4478) (Fork (Fork (Row 0) (Fork (Row 3350) (Row 1043))) (Fork (Row 2263) (Row
     5367)))) (Row 4092)))) (Fork (Fork (Fork (Fork (Row 3391) (Fork (Fork (Row 363) (Row 808)) (Row 0))) (Row 4236))
     (Fork (Fork (Row 898) (Row 5086)) (Row 4126))) (Fork (Fork (Row 0) (Fork (Fork (Row 4540) (Fork (Row 492) (Row
     2104))) (Row 0))) (Fork (Row 897) (Fork (Fork (Row 443) (Fork (Row 4094) (Row 4108))) (Row 0)))))) (Fork (Fork
     (Fork (Fork (Fork (Row 0) (Fork (Fork (Row 333) (Row 116)) (Row 0))) (Fork (Row 1775) (Row 2255))) (Fork (Fork
     (Fork (Row 4909) (Row 3702)) (Fork (Row 2258) (Row 3283))) (Fork (Fork (Row 3082) (Row 681)) (Row 657)))) (Fork
     (Fork (Fork (Row 1314) (Fork (Row 224) (Row 1015))) (Fork (Row 616) (Fork (Row 2818) (Row 1970)))) (Fork (Row
     1080) (Row 5418)))) (Fork (Fork (Fork (Fork (Row 4202) (Row 3015)) (Fork (Fork (Row 997) (Row 1805)) (Row 1477)))
     (Fork (Fork (Row 2921) (Row 3201)) (Fork (Row 316) (Row 2047)))) (Fork (Fork (Fork (Fork (Row 4997) (Row 4690))
     (Fork (Row 2879) (Fork (Row 4931) (Fork (Row 3116) (Row 3738))))) (Fork (Fork (Row 3301) (Fork (Row 0) (Fork (Row
     0) (Fork (Row 272) (Row 1198))))) (Row 0))) (Fork (Fork (Row 377) (Fork (Row 4277) (Fork (Row 734) (Row 490))))
     (Row 558)))))) k)"

definition find_27 :: "num \<Rightarrow> nat" where
  "find_27 k = fst (descend
     (Fork (Fork (Fork (Fork (Fork (Row 2210) (Fork (Fork (Row 0) (Fork (Row 766) (Fork (Row 3237) (Row 1230)))) (Row
     4112))) (Fork (Fork (Fork (Row 5381) (Fork (Fork (Row 4440) (Row 5205)) (Row 0))) (Row 0)) (Fork (Row 988) (Row
     1123)))) (Fork (Fork (Fork (Fork (Row 4797) (Fork (Row 0) (Fork (Fork (Fork (Row 3767) (Row 553)) (Row 0)) (Row
     0)))) (Fork (Fork (Row 3979) (Fork (Row 2553) (Row 2671))) (Row 4958))) (Fork (Fork (Row 4098) (Row 1954)) (Row
     3615))) (Fork (Row 4135) (Fork (Row 0) (Fork (Row 0) (Fork (Row 0) (Fork (Row 0) (Fork (Row 0) (Fork (Fork (Fork
     (Row 0) (Fork (Row 2756) (Row 3268))) (Row 0)) (Row 0)))))))))) (Fork (Fork (Fork (Fork (Row 2693) (Fork (Fork
     (Row 0) (Fork (Row 0) (Fork (Row 0) (Fork (Row 4782) (Row 33))))) (Row 0))) (Fork (Row 3007) (Fork (Row 0) (Fork
     (Row 3221) (Row 608))))) (Fork (Fork (Row 3664) (Fork (Row 2552) (Row 749))) (Fork (Row 1958) (Fork (Fork (Row
     2992) (Row 1895)) (Row 1136))))) (Fork (Fork (Row 5095) (Fork (Row 1274) (Row 1870))) (Fork (Fork (Row 2430)
     (Fork (Row 0) (Fork (Row 283) (Row 1269)))) (Row 3924))))) (Fork (Fork (Fork (Fork (Fork (Fork (Fork (Row 821)
     (Row 4591)) (Row 0)) (Row 0)) (Fork (Fork (Row 2723) (Row 4354)) (Row 3613))) (Fork (Fork (Row 2378) (Fork (Row
     3759) (Row 137))) (Row 3791))) (Fork (Fork (Row 3476) (Fork (Row 0) (Fork (Row 0) (Fork (Row 0) (Fork (Row 5046)
     (Row 3597)))))) (Fork (Row 2926) (Fork (Fork (Row 0) (Fork (Fork (Row 3976) (Row 5398)) (Row 0))) (Row 0)))))
     (Fork (Fork (Fork (Row 2292) (Fork (Row 4586) (Row 3580))) (Fork (Row 751) (Fork (Fork (Row 3904) (Row 340)) (Row
     0)))) (Fork (Fork (Row 4164) (Row 575)) (Fork (Row 4535) (Fork (Fork (Row 0) (Fork (Fork (Row 0) (Fork (Row 521)
     (Row 1421))) (Row 0))) (Row 0))))))) k)"

definition find_28 :: "num \<Rightarrow> nat" where
  "find_28 k = fst (descend
     (Fork (Fork (Fork (Fork (Fork (Fork (Fork (Row 3987) (Fork (Row 4663) (Row 1451))) (Row 0)) (Fork (Fork (Row 484)
     (Row 4137)) (Fork (Row 526) (Row 4940)))) (Fork (Fork (Row 0) (Fork (Row 1301) (Fork (Fork (Row 398) (Row 4452))
     (Row 0)))) (Row 4262))) (Fork (Fork (Fork (Row 149) (Row 3151)) (Fork (Row 5110) (Row 5302))) (Fork (Fork (Row
     491) (Fork (Row 0) (Fork (Row 1333) (Row 732)))) (Row 0)))) (Fork (Fork (Fork (Fork (Fork (Row 4902) (Fork (Fork
     (Row 1355) (Row 2406)) (Row 0))) (Fork (Fork (Fork (Row 0) (Fork (Row 232) (Row 1016))) (Row 0)) (Row 4635)))
     (Row 3682)) (Fork (Fork (Fork (Row 5384) (Fork (Row 0) (Fork (Row 0) (Fork (Row 3700) (Row 322))))) (Row 4771))
     (Fork (Row 2429) (Row 1770)))) (Fork (Fork (Fork (Fork (Row 2688) (Row 4991)) (Fork (Row 0) (Fork (Row 625) (Row
     4220)))) (Row 4307)) (Row 4381)))) (Fork (Fork (Fork (Fork (Row 793) (Fork (Row 4222) (Fork (Row 2601) (Row
     3818)))) (Fork (Row 3423) (Fork (Fork (Fork (Fork (Row 446) (Row 554)) (Row 0)) (Row 0)) (Row 1107)))) (Fork
     (Fork (Row 2150) (Fork (Row 5209) (Row 4752))) (Fork (Fork (Fork (Fork (Fork (Row 5163) (Row 1537)) (Row 3459))
     (Row 0)) (Row 0)) (Fork (Row 0) (Fork (Fork (Row 0) (Fork (Row 1011) (Row 2993))) (Row 3939)))))) (Fork (Fork
     (Fork (Fork (Fork (Row 5425) (Row 1483)) (Row 0)) (Fork (Row 4990) (Fork (Row 4964) (Fork (Row 3964) (Row
     5093))))) (Fork (Fork (Fork (Fork (Row 5480) (Fork (Row 0) (Fork (Row 4892) (Row 4275)))) (Row 4306)) (Row 1155))
     (Fork (Fork (Row 0) (Fork (Row 81) (Fork (Row 0) (Fork (Row 0) (Fork (Row 313) (Row 1526)))))) (Row 0)))) (Fork
     (Fork (Fork (Fork (Row 0) (Fork (Row 1038) (Row 3349))) (Row 392)) (Fork (Row 0) (Fork (Row 0) (Fork (Fork (Row
     1311) (Fork (Row 0) (Fork (Row 1183) (Row 1949)))) (Row 0))))) (Fork (Fork (Row 4073) (Row 5399)) (Fork (Row 0)
     (Fork (Fork (Row 3501) (Row 2540)) (Row 0)))))))) k)"

definition find_29 :: "num \<Rightarrow> nat" where
  "find_29 k = fst (descend
     (Fork (Fork (Fork (Fork (Fork (Fork (Fork (Fork (Fork (Row 2495) (Row 17)) (Row 0)) (Row 0)) (Row 0)) (Fork (Fork
     (Row 172) (Fork (Fork (Row 0) (Fork (Row 1435) (Row 977))) (Row 0))) (Row 2749))) (Fork (Fork (Row 3295) (Fork
     (Row 3546) (Row 4808))) (Fork (Fork (Row 251) (Row 92)) (Fork (Row 2454) (Fork (Row 65) (Row 2205)))))) (Fork
     (Fork (Row 0) (Fork (Fork (Fork (Fork (Row 906) (Fork (Row 0) (Fork (Row 0) (Fork (Fork (Fork (Fork (Row 0) (Fork
     (Row 312) (Row 1045))) (Row 0)) (Row 0)) (Row 0))))) (Row 0)) (Row 2994)) (Fork (Fork (Fork (Row 4444) (Row
     1612)) (Row 0)) (Row 0)))) (Fork (Fork (Row 1508) (Row 3249)) (Row 1415)))) (Fork (Fork (Fork (Fork (Fork (Fork
     (Row 0) (Fork (Row 2397) (Row 5211))) (Row 0)) (Fork (Row 0) (Fork (Row 2050) (Fork (Fork (Row 0) (Fork (Fork
     (Row 725) (Row 4309)) (Row 0))) (Row 3319))))) (Fork (Fork (Fork (Row 4868) (Fork (Row 51) (Row 2599))) (Row 0))
     (Row 0))) (Fork (Row 0) (Fork (Row 4601) (Row 2516)))) (Fork (Fork (Row 1760) (Fork (Row 4321) (Row 1219))) (Fork
     (Row 3707) (Fork (Row 0) (Fork (Fork (Row 0) (Fork (Row 0) (Fork (Row 2282) (Row 3144)))) (Row 0))))))) (Fork
     (Fork (Fork (Fork (Fork (Row 3399) (Row 5055)) (Fork (Fork (Fork (Row 0) (Fork (Row 0) (Fork (Row 2719) (Row
     1132)))) (Row 4793)) (Row 4252))) (Fork (Row 4704) (Row 3203))) (Fork (Fork (Fork (Row 2189) (Fork (Row 4765)
     (Row 497))) (Fork (Fork (Row 1839) (Fork (Row 0) (Fork (Row 2059) (Row 4365)))) (Fork (Fork (Row 499) (Row 565))
     (Row 2742)))) (Fork (Fork (Row 3288) (Row 3952)) (Fork (Fork (Row 0) (Fork (Fork (Row 1981) (Row 451)) (Row 0)))
     (Row 0))))) (Fork (Fork (Fork (Fork (Row 1572) (Row 4604)) (Fork (Fork (Fork (Fork (Fork (Row 0) (Fork (Row 3381)
     (Row 3230))) (Row 0)) (Row 0)) (Row 0)) (Row 0))) (Fork (Fork (Fork (Row 0) (Fork (Row 0) (Fork (Row 0) (Fork
     (Row 1966) (Row 2950))))) (Row 4041)) (Fork (Fork (Row 4491) (Row 5338)) (Fork (Row 1969) (Row 4676))))) (Fork
     (Fork (Row 646) (Fork (Row 4589) (Row 2071))) (Fork (Fork (Fork (Fork (Fork (Row 2506) (Row 3742)) (Row 0)) (Row
     0)) (Fork (Row 2425) (Row 2575))) (Fork (Fork (Row 0) (Fork (Row 4206) (Row 4509))) (Row 0))))))) k)"

definition find_30 :: "num \<Rightarrow> nat" where
  "find_30 k = fst (descend
     (Fork (Fork (Fork (Fork (Fork (Fork (Fork (Row 0) (Fork (Row 0) (Fork (Fork (Row 2965) (Row 1236)) (Row 0))))
     (Row 3087)) (Fork (Fork (Fork (Row 0) (Fork (Row 0) (Fork (Fork (Row 650) (Row 2510)) (Row 0)))) (Fork (Row 3755)
     (Fork (Row 2089) (Row 4636)))) (Fork (Row 1150) (Row 2076)))) (Fork (Fork (Fork (Row 1676) (Row 1262)) (Fork (Row
     456) (Row 1652))) (Fork (Row 2405) (Fork (Fork (Row 1188) (Row 5048)) (Row 2865))))) (Fork (Fork (Fork (Fork (Row
     0) (Fork (Row 0) (Fork (Row 303) (Row 4336)))) (Row 551)) (Fork (Row 855) (Row 3799))) (Fork (Fork (Fork (Row 48)
     (Row 3462)) (Row 0)) (Row 0)))) (Fork (Fork (Fork (Fork (Fork (Fork (Row 3196) (Fork (Row 3616) (Row 5008))) (Row
     4197)) (Row 3940)) (Fork (Fork (Row 0) (Fork (Row 0) (Fork (Fork (Row 3801) (Row 2635)) (Row 1999)))) (Row 929)))
     (Fork (Fork (Row 1482) (Fork (Fork (Row 0) (Fork (Row 418) (Row 3715))) (Row 4627))) (Fork (Row 223) (Fork (Row
     0) (Fork (Row 4544) (Row 1621)))))) (Fork (Fork (Row 2612) (Row 2907)) (Fork (Row 764) (Fork (Row 3362) (Fork
     (Fork (Row 2871) (Row 5084)) (Row 4576))))))) (Fork (Fork (Fork (Fork (Fork (Fork (Fork (Row 4030) (Fork (Row 0)
     (Fork (Row 5039) (Fork (Row 368) (Row 2722))))) (Row 3885)) (Row 0)) (Fork (Fork (Row 3016) (Row 2897)) (Fork
     (Row 257) (Row 2489)))) (Fork (Fork (Row 0) (Fork (Row 0) (Fork (Row 1559) (Row 1818)))) (Fork (Fork (Row 1881)
     (Row 2111)) (Row 3396)))) (Fork (Fork (Fork (Row 3874) (Row 240)) (Fork (Fork (Row 3578) (Row 2202)) (Row 0)))
     (Fork (Fork (Row 2418) (Row 886)) (Fork (Row 2318) (Fork (Row 0) (Fork (Fork (Row 655) (Row 3656)) (Row
     4984))))))) (Fork (Fork (Fork (Fork (Row 5151) (Row 104)) (Fork (Row 4405) (Row 4879))) (Fork (Fork (Fork (Row 0)
     (Fork (Row 3004) (Row 4123))) (Row 0)) (Fork (Fork (Row 0) (Fork (Fork (Fork (Row 2176) (Row 2945)) (Row 0)) (Row
     0))) (Row 3535)))) (Fork (Fork (Fork (Fork (Fork (Fork (Row 3373) (Row 1099)) (Fork (Row 0) (Fork (Row 0) (Fork
     (Fork (Fork (Row 3699) (Row 4903)) (Row 0)) (Row 0))))) (Fork (Row 757) (Row 3543))) (Row 1919)) (Fork (Fork (Row
     3445) (Fork (Row 1549) (Row 3833))) (Row 780))) (Fork (Fork (Fork (Fork (Row 1018) (Row 2101)) (Row 0)) (Row
     1280)) (Row 0)))))) k)"

definition find_31 :: "num \<Rightarrow> nat" where
  "find_31 k = fst (descend
     (Fork (Fork (Fork (Fork (Fork (Fork (Fork (Fork (Row 0) (Fork (Fork (Fork (Row 592) (Row 804)) (Row 0)) (Row 0)))
     (Row 0)) (Fork (Fork (Fork (Row 300) (Row 3389)) (Row 0)) (Row 4584))) (Fork (Fork (Row 0) (Fork (Row 4774) (Row
     2392))) (Fork (Row 540) (Fork (Row 2696) (Row 5299))))) (Fork (Fork (Fork (Row 0) (Fork (Row 2604) (Row 3162)))
     (Fork (Fork (Row 3104) (Row 4348)) (Row 956))) (Fork (Fork (Row 4605) (Row 5375)) (Row 2061)))) (Fork (Fork (Fork
     (Fork (Row 4757) (Fork (Fork (Row 3128) (Row 4701)) (Row 0))) (Fork (Row 2131) (Row 895))) (Row 0)) (Fork (Fork
     (Fork (Row 3623) (Row 42)) (Row 0)) (Fork (Fork (Row 4170) (Fork (Row 3757) (Row 5040))) (Row 1175))))) (Fork
     (Fork (Fork (Fork (Fork (Row 4792) (Fork (Fork (Fork (Row 0) (Fork (Row 487) (Row 4363))) (Row 0)) (Row 1640)))
     (Row 0)) (Fork (Row 2978) (Row 2988))) (Fork (Row 1085) (Fork (Row 1326) (Fork (Row 3103) (Row 921))))) (Fork
     (Fork (Fork (Fork (Fork (Fork (Fork (Fork (Row 3426) (Row 4279)) (Row 0)) (Row 0)) (Row 0)) (Row 0)) (Fork (Fork
     (Fork (Fork (Row 1975) (Row 4017)) (Row 0)) (Row 0)) (Row 5226))) (Fork (Fork (Fork (Row 2782) (Row 1592)) (Row
     4740)) (Row 552))) (Fork (Row 3081) (Row 885))))) (Fork (Fork (Fork (Fork (Row 3129) (Row 4872)) (Fork (Fork
     (Fork (Row 62) (Row 247)) (Row 0)) (Fork (Fork (Row 695) (Fork (Row 0) (Fork (Row 2177) (Row 3863)))) (Row 0))))
     (Fork (Fork (Row 3252) (Row 3921)) (Fork (Fork (Fork (Fork (Row 3594) (Row 1347)) (Row 4628)) (Row 4284)) (Fork
     (Fork (Row 4299) (Fork (Row 0) (Fork (Fork (Row 3488) (Row 5118)) (Row 0)))) (Fork (Fork (Fork (Fork (Row 0)
     (Fork (Row 3731) (Row 2515))) (Row 0)) (Row 0)) (Row 0)))))) (Fork (Fork (Fork (Fork (Row 0) (Fork (Row 0) (Fork
     (Row 2766) (Row 2078)))) (Fork (Row 3680) (Row 3099))) (Fork (Row 5027) (Row 4048))) (Fork (Fork (Fork (Row 1258)
     (Fork (Fork (Row 0) (Fork (Fork (Row 923) (Row 1846)) (Row 0))) (Row 0))) (Fork (Fork (Row 0) (Fork (Row 3861)
     (Row 4817))) (Fork (Row 2218) (Row 2508)))) (Fork (Fork (Row 3621) (Fork (Fork (Fork (Row 279) (Row 5277)) (Fork
     (Row 0) (Fork (Row 5036) (Row 4043)))) (Row 2041))) (Fork (Row 0) (Fork (Row 4210) (Fork (Row 2186) (Row
     2607))))))))) k)"

definition find_32 :: "num \<Rightarrow> nat" where
  "find_32 k = fst (descend
     (Fork (Fork (Fork (Fork (Fork (Fork (Row 0) (Fork (Fork (Fork (Fork (Row 4255) (Row 4117)) (Row 0)) (Row 0)) (Row
     0))) (Fork (Fork (Fork (Fork (Row 4513) (Row 4066)) (Row 0)) (Row 0)) (Fork (Row 0) (Fork (Row 0) (Fork (Row
     2700) (Row 3710)))))) (Fork (Fork (Fork (Fork (Row 678) (Row 1715)) (Row 3923)) (Row 3795)) (Row 0))) (Fork (Fork
     (Fork (Row 225) (Row 916)) (Fork (Fork (Row 5347) (Fork (Row 5102) (Row 3772))) (Row 1169))) (Fork (Fork (Row
     4674) (Row 4051)) (Row 996)))) (Fork (Fork (Fork (Fork (Row 4597) (Row 70)) (Row 667)) (Fork (Row 0) (Fork (Fork
     (Row 0) (Fork (Row 2476) (Row 3805))) (Row 636)))) (Fork (Fork (Fork (Fork (Row 0) (Fork (Row 2025) (Row 2073)))
     (Fork (Fork (Row 0) (Fork (Row 4158) (Row 844))) (Row 2140))) (Fork (Row 5113) (Row 3186))) (Fork (Fork (Fork
     (Fork (Row 5140) (Row 1922)) (Row 0)) (Fork (Row 3178) (Fork (Row 336) (Row 2118)))) (Fork (Fork (Row 1831) (Row
     4253)) (Row 0)))))) (Fork (Fork (Fork (Fork (Fork (Row 664) (Fork (Row 1203) (Fork (Row 2384) (Row 2741)))) (Fork
     (Fork (Row 5235) (Row 1001)) (Fork (Fork (Fork (Row 2652) (Row 4882)) (Row 4582)) (Row 0)))) (Fork (Fork (Row
     1912) (Fork (Row 818) (Fork (Row 5485) (Row 1361)))) (Fork (Row 5078) (Fork (Row 4242) (Row 3403))))) (Fork (Fork
     (Fork (Fork (Row 315) (Fork (Fork (Fork (Row 4706) (Row 1431)) (Row 0)) (Row 0))) (Row 0)) (Fork (Row 3895) (Fork
     (Row 1998) (Row 3729)))) (Fork (Fork (Fork (Fork (Fork (Row 4684) (Row 863)) (Row 0)) (Row 0)) (Fork (Fork (Fork
     (Row 209) (Row 5011)) (Row 0)) (Row 0))) (Fork (Fork (Fork (Row 4583) (Row 1587)) (Row 4945)) (Row 494))))) (Fork
     (Fork (Fork (Fork (Row 3534) (Row 1182)) (Fork (Row 2643) (Row 3113))) (Fork (Fork (Row 0) (Fork (Row 2805) (Fork
     (Row 0) (Fork (Row 0) (Fork (Row 1684) (Row 3949)))))) (Row 0))) (Fork (Fork (Fork (Fork (Row 4244) (Row 2961))
     (Row 0)) (Fork (Row 0) (Fork (Fork (Row 367) (Row 344)) (Row 4881)))) (Fork (Row 1782) (Fork (Row 2873) (Row
     648))))))) k)"

definition find_33 :: "num \<Rightarrow> nat" where
  "find_33 k = fst (descend
     (Fork (Fork (Fork (Fork (Fork (Fork (Fork (Fork (Row 4751) (Row 1480)) (Row 0)) (Row 0)) (Row 4848)) (Fork (Fork
     (Row 2164) (Row 3574)) (Fork (Fork (Row 0) (Fork (Row 298) (Row 1880))) (Fork (Fork (Row 1239) (Row 1992)) (Row
     0))))) (Fork (Fork (Fork (Fork (Row 4588) (Fork (Row 4680) (Row 3232))) (Fork (Fork (Row 4121) (Row 2870)) (Row
     0))) (Fork (Fork (Row 5200) (Row 958)) (Row 0))) (Fork (Fork (Fork (Row 710) (Row 5041)) (Row 0)) (Row 971))))
     (Fork (Fork (Fork (Fork (Row 3026) (Row 4741)) (Row 2231)) (Fork (Fork (Row 1351) (Row 1064)) (Fork (Row 2088)
     (Row 4989)))) (Fork (Fork (Fork (Row 0) (Fork (Fork (Row 3048) (Row 1589)) (Fork (Row 0) (Fork (Row 1907) (Row
     170))))) (Fork (Row 5295) (Fork (Fork (Row 0) (Fork (Fork (Row 0) (Fork (Row 5221) (Row 1896))) (Row 3121))) (Row
     0)))) (Fork (Fork (Row 3533) (Row 140)) (Fork (Fork (Fork (Row 1375) (Row 3086)) (Row 3246)) (Row 0)))))) (Fork
     (Fork (Fork (Fork (Fork (Row 601) (Fork (Fork (Row 1952) (Row 2049)) (Row 1457))) (Fork (Row 4524) (Row 2550)))
     (Fork (Fork (Row 564) (Row 3544)) (Fork (Row 1643) (Row 1544)))) (Fork (Fork (Row 3817) (Fork (Row 1627) (Fork
     (Row 2156) (Row 1694)))) (Fork (Fork (Row 67) (Row 1272)) (Fork (Row 2665) (Row 719))))) (Fork (Fork (Fork (Fork
     (Row 3464) (Fork (Row 1094) (Row 2571))) (Fork (Row 1915) (Fork (Fork (Row 1631) (Row 3888)) (Row 0)))) (Fork
     (Fork (Row 5447) (Fork (Row 1636) (Row 842))) (Fork (Fork (Fork (Fork (Fork (Row 4442) (Row 1164)) (Row 0)) (Row
     0)) (Row 2795)) (Fork (Row 4633) (Row 772))))) (Fork (Fork (Fork (Fork (Row 0) (Fork (Row 3388) (Row 512))) (Row
     0)) (Row 2161)) (Fork (Fork (Fork (Row 2750) (Row 4933)) (Fork (Row 0) (Fork (Row 3774) (Fork (Fork (Row 2214)
     (Fork (Row 0) (Fork (Row 0) (Fork (Row 0) (Fork (Row 0) (Fork (Row 0) (Fork (Fork (Row 4106) (Row 2842)) (Row
     0)))))))) (Row 0))))) (Row 0)))))) k)"

definition find_34 :: "num \<Rightarrow> nat" where
  "find_34 k = fst (descend
     (Fork (Fork (Fork (Fork (Fork (Fork (Fork (Fork (Row 1608) (Fork (Fork (Row 3820) (Row 5157)) (Row 0))) (Row 0))
     (Row 0)) (Row 1679)) (Fork (Row 3841) (Fork (Fork (Row 2463) (Row 1510)) (Fork (Fork (Row 4595) (Fork (Row 1381)
     (Row 5467))) (Row 0))))) (Fork (Fork (Fork (Fork (Row 3713) (Fork (Row 0) (Fork (Row 5307) (Row 4651)))) (Fork
     (Row 4577) (Fork (Row 0) (Fork (Row 0) (Fork (Row 0) (Fork (Row 1555) (Row 3377))))))) (Fork (Fork (Row 520) (Row
     3625)) (Fork (Fork (Row 4085) (Row 4866)) (Fork (Fork (Fork (Row 0) (Fork (Row 0) (Fork (Row 748) (Row 242))))
     (Row 0)) (Row 0))))) (Fork (Fork (Fork (Fork (Row 5082) (Fork (Row 0) (Fork (Fork (Row 0) (Fork (Fork (Row 4549)
     (Row 3721)) (Row 0))) (Row 2095)))) (Row 20)) (Row 3469)) (Fork (Fork (Row 3630) (Row 2342)) (Fork (Fork (Fork
     (Row 0) (Fork (Fork (Row 0) (Fork (Row 2892) (Row 3999))) (Row 0))) (Row 740)) (Row 0)))))) (Fork (Fork (Fork
     (Fork (Row 0) (Fork (Row 1098) (Row 1840))) (Fork (Fork (Row 1623) (Fork (Row 3204) (Row 1977))) (Row 4313)))
     (Fork (Fork (Row 2962) (Fork (Fork (Row 0) (Fork (Row 5389) (Row 18))) (Row 527))) (Fork (Fork (Fork (Row 2387)
     (Row 422)) (Fork (Fork (Fork (Row 357) (Row 2121)) (Row 0)) (Row 0))) (Fork (Row 0) (Fork (Fork (Row 963) (Row
     1513)) (Row 0)))))) (Fork (Fork (Fork (Fork (Row 4608) (Row 1346)) (Row 0)) (Fork (Fork (Row 5280) (Row 3709))
     (Row 0))) (Fork (Fork (Row 0) (Fork (Fork (Fork (Row 5483) (Row 5333)) (Row 0)) (Row 0))) (Fork (Fork (Fork (Row
     599) (Row 739)) (Row 3474)) (Fork (Row 0) (Fork (Fork (Fork (Row 0) (Fork (Row 2590) (Row 2737))) (Row 0)) (Row
     4281)))))))) (Fork (Fork (Fork (Fork (Row 4004) (Fork (Row 0) (Fork (Row 522) (Row 5143)))) (Fork (Fork (Fork
     (Fork (Row 1012) (Row 4484)) (Row 5103)) (Fork (Row 1790) (Row 1945))) (Fork (Row 4263) (Row 3658)))) (Fork (Fork
     (Fork (Row 0) (Fork (Fork (Row 0) (Fork (Fork (Row 5260) (Row 1213)) (Row 0))) (Row 2757))) (Fork (Row 0) (Fork
     (Fork (Row 3660) (Row 4864)) (Row 0)))) (Fork (Row 4166) (Row 4060)))) (Fork (Fork (Fork (Fork (Row 2944) (Row
     1426)) (Fork (Row 1759) (Row 4570))) (Fork (Row 1146) (Fork (Row 3614) (Fork (Row 1191) (Row 1918))))) (Fork
     (Fork (Fork (Fork (Row 1692) (Fork (Fork (Row 0) (Fork (Row 2683) (Row 2136))) (Row 0))) (Row 815)) (Row 0))
     (Fork (Fork (Row 3465) (Fork (Row 1245) (Row 395))) (Fork (Fork (Row 0) (Fork (Row 1393) (Row 2641))) (Row
     3310))))))) k)"

definition find_35 :: "num \<Rightarrow> nat" where
  "find_35 k = fst (descend
     (Fork (Fork (Fork (Fork (Fork (Row 708) (Fork (Row 4151) (Row 5424))) (Fork (Fork (Fork (Fork (Fork (Fork (Fork
     (Row 927) (Row 2293)) (Row 0)) (Row 0)) (Row 0)) (Row 0)) (Row 0)) (Fork (Fork (Row 4390) (Row 1365)) (Fork (Fork
     (Fork (Row 1683) (Row 145)) (Row 0)) (Row 2938))))) (Fork (Fork (Fork (Row 0) (Fork (Fork (Row 3835) (Row 3782))
     (Fork (Row 4308) (Row 4344)))) (Row 0)) (Fork (Row 1780) (Fork (Fork (Row 4497) (Row 385)) (Row 0))))) (Fork
     (Fork (Fork (Fork (Row 0) (Fork (Row 0) (Fork (Row 0) (Fork (Row 3600) (Row 3309))))) (Fork (Fork (Row 2784) (Row
     203)) (Row 4778))) (Fork (Row 3472) (Fork (Row 2273) (Row 960)))) (Fork (Fork (Row 3972) (Fork (Fork (Row 1120)
     (Row 1174)) (Row 0))) (Fork (Fork (Row 82) (Fork (Fork (Row 2087) (Fork (Fork (Row 4995) (Row 2672)) (Row 0)))
     (Row 4943))) (Fork (Fork (Row 4091) (Row 3333)) (Fork (Row 370) (Fork (Row 0) (Fork (Row 221) (Row 1588)))))))))
     (Fork (Fork (Fork (Fork (Fork (Row 1056) (Row 1539)) (Fork (Fork (Fork (Row 3229) (Row 3032)) (Row 0)) (Fork (Row
     0) (Fork (Row 1868) (Row 744))))) (Fork (Fork (Row 237) (Fork (Fork (Row 852) (Row 3133)) (Row 3137))) (Row 0)))
     (Fork (Fork (Fork (Fork (Row 3751) (Row 5349)) (Fork (Row 0) (Fork (Fork (Fork (Fork (Fork (Row 4761) (Row 2701))
     (Row 0)) (Row 0)) (Row 0)) (Row 0)))) (Fork (Row 0) (Fork (Row 3889) (Row 5385)))) (Fork (Fork (Fork (Row 4378)
     (Row 1425)) (Fork (Fork (Row 0) (Fork (Row 2976) (Row 4500))) (Row 0))) (Fork (Row 3025) (Row 1758))))) (Fork
     (Fork (Fork (Fork (Fork (Row 222) (Row 275)) (Fork (Row 4967) (Fork (Row 3256) (Row 3977)))) (Fork (Row 3413)
     (Row 632))) (Fork (Fork (Fork (Row 0) (Fork (Row 2664) (Row 2727))) (Row 615)) (Fork (Row 2169) (Row 5079))))
     (Fork (Fork (Fork (Fork (Row 4772) (Row 1429)) (Row 4981)) (Fork (Fork (Fork (Row 22) (Row 4565)) (Row 1344))
     (Row 941))) (Fork (Fork (Row 4187) (Fork (Row 0) (Fork (Row 0) (Fork (Row 3280) (Row 1025))))) (Fork (Fork (Fork
     (Row 1029) (Row 4119)) (Row 814)) (Row 0))))))) k)"

definition find_36 :: "num \<Rightarrow> nat" where
  "find_36 k = fst (descend
     (Fork (Fork (Fork (Fork (Fork (Fork (Row 0) (Fork (Row 0) (Fork (Row 0) (Fork (Row 5312) (Row 1218))))) (Fork
     (Row 45) (Fork (Fork (Fork (Row 3691) (Row 3409)) (Row 4256)) (Row 0)))) (Fork (Fork (Fork (Fork (Fork (Row 0)
     (Fork (Fork (Fork (Fork (Row 0) (Fork (Fork (Row 2894) (Row 5108)) (Row 0))) (Row 0)) (Row 0)) (Row 0))) (Row
     2215)) (Row 0)) (Row 1799)) (Fork (Row 0) (Fork (Row 1535) (Row 883))))) (Fork (Fork (Row 0) (Fork (Fork (Fork
     (Fork (Row 5287) (Row 4445)) (Row 0)) (Fork (Row 219) (Row 3879))) (Row 796))) (Fork (Fork (Fork (Row 1420) (Fork
     (Row 1864) (Row 2361))) (Row 2000)) (Fork (Fork (Row 5178) (Row 3227)) (Row 0))))) (Fork (Fork (Fork (Fork (Row
     0) (Fork (Row 3516) (Row 584))) (Row 355)) (Fork (Row 0) (Fork (Row 1829) (Row 4648)))) (Fork (Fork (Row 0) (Fork
     (Row 5189) (Row 2958))) (Fork (Row 3856) (Fork (Fork (Row 289) (Row 581)) (Row 901)))))) (Fork (Fork (Fork (Fork
     (Row 806) (Fork (Row 0) (Fork (Fork (Row 5202) (Row 1933)) (Row 0)))) (Fork (Fork (Row 4563) (Fork (Fork (Row 0)
     (Fork (Row 3896) (Row 397))) (Row 241))) (Fork (Row 57) (Fork (Row 1560) (Row 1058))))) (Fork (Fork (Row 3091)
     (Fork (Row 3014) (Row 3364))) (Fork (Fork (Fork (Row 3556) (Row 1295)) (Row 799)) (Fork (Fork (Row 2281) (Fork
     (Row 0) (Fork (Fork (Row 2747) (Row 3970)) (Row 0)))) (Fork (Row 0) (Fork (Row 4691) (Row 1942))))))) (Fork (Fork
     (Fork (Fork (Fork (Fork (Row 0) (Fork (Row 4325) (Row 3876))) (Row 0)) (Fork (Row 1716) (Fork (Row 1496) (Row
     3678)))) (Row 2928)) (Fork (Fork (Row 1813) (Row 784)) (Fork (Fork (Fork (Row 0) (Fork (Row 3070) (Row 5074)))
     (Row 4343)) (Row 2875)))) (Fork (Fork (Fork (Row 0) (Fork (Row 0) (Fork (Row 3589) (Row 5081)))) (Fork (Fork (Row
     5343) (Fork (Fork (Fork (Row 1206) (Row 3345)) (Row 0)) (Row 0))) (Fork (Row 0) (Fork (Fork (Row 1894) (Fork (Row
     0) (Fork (Row 4332) (Row 1884)))) (Row 0))))) (Fork (Fork (Row 4139) (Fork (Fork (Fork (Row 1249) (Row 4596))
     (Row 0)) (Row 3873))) (Fork (Fork (Row 1209) (Fork (Row 1200) (Fork (Fork (Row 2885) (Row 5032)) (Row 0)))) (Fork
     (Row 3308) (Row 5473)))))))) k)"

definition find_37 :: "num \<Rightarrow> nat" where
  "find_37 k = fst (descend
     (Fork (Fork (Fork (Fork (Fork (Row 3334) (Fork (Fork (Row 2582) (Row 3105)) (Row 2130))) (Fork (Fork (Fork (Row
     0) (Fork (Fork (Row 350) (Row 3093)) (Row 0))) (Row 0)) (Row 144))) (Fork (Fork (Fork (Row 0) (Fork (Row 2596)
     (Row 1455))) (Fork (Row 3208) (Fork (Row 0) (Fork (Fork (Row 1709) (Row 908)) (Row 523))))) (Fork (Fork (Fork
     (Row 2365) (Fork (Row 0) (Fork (Row 747) (Row 1463)))) (Fork (Fork (Row 349) (Row 3258)) (Row 0))) (Row 3458))))
     (Fork (Fork (Fork (Fork (Row 1282) (Fork (Row 0) (Fork (Fork (Fork (Row 3760) (Row 5058)) (Row 0)) (Row 1718))))
     (Fork (Row 5159) (Row 4993))) (Fork (Fork (Row 0) (Fork (Fork (Fork (Row 0) (Fork (Fork (Row 4920) (Row 2685))
     (Row 0))) (Row 0)) (Row 0))) (Fork (Row 5075) (Fork (Row 3620) (Row 5434))))) (Fork (Fork (Fork (Row 0) (Fork
     (Row 3407) (Fork (Row 2228) (Fork (Row 0) (Fork (Row 4250) (Row 1953)))))) (Fork (Row 690) (Row 3161))) (Fork
     (Fork (Fork (Fork (Row 1345) (Fork (Row 1075) (Row 475))) (Row 0)) (Fork (Fork (Fork (Fork (Row 1140) (Row 4352))
     (Row 4503)) (Row 0)) (Row 0))) (Row 0))))) (Fork (Fork (Fork (Fork (Fork (Row 4748) (Row 41)) (Fork (Row 416)
     (Fork (Row 0) (Fork (Fork (Row 2461) (Row 2110)) (Row 3038))))) (Fork (Row 1686) (Fork (Row 0) (Fork (Fork (Row
     0) (Fork (Fork (Fork (Row 0) (Fork (Row 2841) (Row 449))) (Row 0)) (Row 0))) (Row 0))))) (Fork (Fork (Row 2820)
     (Fork (Row 1208) (Row 3570))) (Fork (Fork (Fork (Fork (Row 3254) (Row 5279)) (Row 4276)) (Fork (Row 5427) (Fork
     (Row 1501) (Row 847)))) (Row 1518)))) (Fork (Fork (Fork (Fork (Fork (Fork (Row 0) (Fork (Row 0) (Fork (Row 3609)
     (Row 3962)))) (Row 979)) (Fork (Row 0) (Fork (Fork (Fork (Fork (Row 4667) (Row 3803)) (Row 0)) (Row 0)) (Row
     3436)))) (Fork (Fork (Fork (Fork (Row 4476) (Row 949)) (Row 0)) (Row 0)) (Fork (Row 900) (Row 2321)))) (Fork
     (Fork (Fork (Row 1141) (Fork (Row 471) (Row 2734))) (Fork (Fork (Row 0) (Fork (Row 0) (Fork (Row 294) (Row 0))))
     (Fork (Row 0) (Fork (Row 0) (Fork (Row 408) (Fork (Row 277) (Row 4165))))))) (Fork (Row 0) (Fork (Fork (Row 2105)
     (Row 2226)) (Row 0))))) (Fork (Fork (Row 3216) (Fork (Fork (Row 3119) (Row 3448)) (Row 0))) (Fork (Fork (Row 0)
     (Fork (Row 0) (Fork (Fork (Row 0) (Fork (Row 4863) (Row 4851))) (Row 1667)))) (Fork (Fork (Fork (Row 4141) (Row
     130)) (Row 0)) (Row 4789))))))) k)"

definition find_38 :: "num \<Rightarrow> nat" where
  "find_38 k = fst (descend
     (Fork (Fork (Fork (Fork (Fork (Fork (Fork (Row 5164) (Fork (Row 43) (Row 2967))) (Fork (Row 359) (Fork (Row 0)
     (Fork (Fork (Row 3822) (Row 3098)) (Row 0))))) (Fork (Fork (Row 1522) (Row 5283)) (Fork (Fork (Row 0) (Fork (Row
     5125) (Row 2835))) (Row 546)))) (Fork (Row 2639) (Fork (Fork (Row 5289) (Row 3172)) (Row 5426)))) (Fork (Fork
     (Row 0) (Fork (Fork (Row 4191) (Row 892)) (Fork (Fork (Row 1648) (Row 2681)) (Row 0)))) (Fork (Fork (Fork (Row 0)
     (Fork (Row 3294) (Row 4528))) (Row 4514)) (Row 0)))) (Fork (Fork (Fork (Fork (Fork (Fork (Row 2360) (Row 4010))
     (Row 0)) (Fork (Row 5240) (Row 992))) (Fork (Fork (Row 0) (Fork (Row 2455) (Row 4644))) (Fork (Row 0) (Fork (Row
     4756) (Fork (Row 61) (Row 603)))))) (Fork (Fork (Fork (Row 2613) (Row 2467)) (Fork (Row 0) (Fork (Row 882) (Row
     3325)))) (Row 0))) (Fork (Fork (Fork (Fork (Row 531) (Row 4592)) (Row 403)) (Fork (Row 0) (Fork (Row 0) (Fork
     (Fork (Row 0) (Fork (Row 5433) (Row 893))) (Row 0))))) (Fork (Row 2603) (Fork (Fork (Row 4957) (Row 2445)) (Row
     0)))))) (Fork (Fork (Fork (Fork (Fork (Fork (Row 0) (Fork (Fork (Row 0) (Fork (Row 2507) (Row 942))) (Row 0)))
     (Row 0)) (Fork (Row 770) (Fork (Row 0) (Fork (Row 0) (Fork (Fork (Row 4753) (Row 1335)) (Row 0)))))) (Fork (Row
     4488) (Fork (Fork (Row 1741) (Fork (Row 2) (Row 3838))) (Fork (Row 4369) (Row 972))))) (Fork (Fork (Fork (Row 0)
     (Fork (Fork (Row 976) (Row 4448)) (Row 2932))) (Row 0)) (Fork (Fork (Fork (Row 0) (Fork (Row 759) (Row 373)))
     (Row 195)) (Row 4383)))) (Fork (Fork (Fork (Row 0) (Fork (Fork (Row 1659) (Row 5068)) (Fork (Row 3724) (Row
     1192)))) (Fork (Fork (Row 0) (Fork (Row 0) (Fork (Fork (Row 0) (Fork (Row 4656) (Row 2233))) (Row 0)))) (Fork
     (Row 134) (Fork (Row 5009) (Fork (Fork (Row 2807) (Row 2718)) (Row 0)))))) (Fork (Fork (Fork (Row 264) (Row
     3549)) (Fork (Fork (Row 4481) (Row 4494)) (Fork (Row 4329) (Row 4842)))) (Fork (Fork (Row 0) (Fork (Row 0) (Fork
     (Fork (Fork (Row 0) (Fork (Row 1388) (Row 4346))) (Row 0)) (Row 0)))) (Fork (Row 2923) (Fork (Row 2148) (Row
     64)))))))) k)"

definition find_39 :: "num \<Rightarrow> nat" where
  "find_39 k = fst (descend
     (Fork (Fork (Fork (Fork (Fork (Row 3250) (Fork (Fork (Row 3041) (Fork (Row 0) (Fork (Fork (Row 0) (Fork (Row 495)
     (Row 1613))) (Row 0)))) (Row 0))) (Fork (Fork (Row 3085) (Fork (Row 2634) (Row 4155))) (Fork (Row 3823) (Row
     5455)))) (Fork (Fork (Row 4251) (Fork (Fork (Fork (Row 2605) (Row 3706)) (Row 3716)) (Row 1976))) (Fork (Fork
     (Fork (Row 2377) (Fork (Row 0) (Fork (Fork (Row 0) (Fork (Row 4728) (Row 4417))) (Row 2708)))) (Row 0)) (Row
     193)))) (Fork (Fork (Fork (Row 228) (Fork (Fork (Fork (Row 0) (Fork (Row 3047) (Row 2624))) (Row 3872)) (Row
     1855))) (Fork (Fork (Fork (Row 238) (Fork (Row 1296) (Row 5412))) (Fork (Fork (Row 5179) (Row 1096)) (Row 0)))
     (Fork (Fork (Row 4814) (Row 1343)) (Row 0)))) (Fork (Fork (Fork (Fork (Row 4517) (Row 1100)) (Row 3225)) (Fork
     (Fork (Fork (Row 5354) (Row 4763)) (Row 1737)) (Row 0))) (Fork (Fork (Fork (Row 5025) (Row 1330)) (Fork (Fork
     (Row 4906) (Row 4111)) (Row 0))) (Fork (Fork (Row 0) (Fork (Row 111) (Row 1632))) (Row 0)))))) (Fork (Fork (Fork
     (Fork (Fork (Row 3255) (Row 258)) (Fork (Fork (Fork (Row 2236) (Row 3289)) (Row 0)) (Row 4234))) (Fork (Fork (Row
     2702) (Fork (Fork (Row 5461) (Row 243)) (Row 166))) (Row 2581))) (Fork (Fork (Fork (Fork (Row 2499) (Row 3898))
     (Row 0)) (Fork (Fork (Fork (Row 4678) (Fork (Row 4875) (Row 5309))) (Row 0)) (Row 0))) (Fork (Row 4899) (Fork
     (Fork (Row 2279) (Row 3887)) (Row 466))))) (Fork (Fork (Fork (Fork (Row 0) (Fork (Fork (Row 0) (Fork (Row 1148)
     (Row 1172))) (Row 3292))) (Fork (Row 4093) (Row 2082))) (Fork (Fork (Row 1861) (Row 2320)) (Fork (Row 2990) (Fork
     (Fork (Row 428) (Row 860)) (Row 0))))) (Fork (Fork (Row 647) (Fork (Fork (Fork (Fork (Fork (Row 40) (Row 155))
     (Row 0)) (Row 573)) (Fork (Row 959) (Row 884))) (Row 0))) (Fork (Fork (Row 4806) (Fork (Row 3112) (Row 3851)))
     (Fork (Fork (Row 3078) (Row 4090)) (Row 56))))))) k)"

definition find_40 :: "num \<Rightarrow> nat" where
  "find_40 k = fst (descend
     (Fork (Fork (Fork (Fork (Fork (Fork (Row 0) (Fork (Row 0) (Fork (Row 4884) (Row 903)))) (Fork (Row 0) (Fork (Row
     296) (Row 1971)))) (Fork (Row 1863) (Fork (Row 0) (Fork (Fork (Fork (Fork (Row 4311) (Row 216)) (Row 4725)) (Row
     1109)) (Row 3877))))) (Fork (Fork (Fork (Row 3106) (Fork (Fork (Row 1575) (Row 3911)) (Row 0))) (Row 0)) (Fork
     (Fork (Row 1593) (Row 789)) (Fork (Row 2903) (Fork (Fork (Row 1581) (Row 5441)) (Row 0)))))) (Fork (Fork (Fork
     (Row 0) (Fork (Fork (Row 3780) (Fork (Row 1747) (Row 3114))) (Row 4908))) (Fork (Fork (Row 0) (Fork (Row 548)
     (Row 1402))) (Fork (Row 127) (Row 1194)))) (Fork (Fork (Fork (Row 4571) (Row 153)) (Fork (Fork (Row 2232) (Row
     4654)) (Row 843))) (Fork (Fork (Row 0) (Fork (Row 3361) (Row 3140))) (Fork (Fork (Row 2899) (Row 2631)) (Row
     0)))))) (Fork (Fork (Fork (Fork (Fork (Row 0) (Fork (Fork (Row 4399) (Row 2034)) (Row 0))) (Fork (Fork (Fork (Row
     0) (Fork (Row 2185) (Row 3300))) (Row 0)) (Row 5482))) (Fork (Fork (Fork (Row 1844) (Row 4432)) (Row 4930)) (Fork
     (Fork (Row 4623) (Row 2135)) (Row 3067)))) (Fork (Fork (Row 4998) (Fork (Row 5153) (Row 2567))) (Fork (Fork (Fork
     (Row 1445) (Fork (Row 1930) (Row 787))) (Row 2129)) (Fork (Row 5311) (Fork (Row 0) (Fork (Fork (Fork (Row 1090)
     (Row 4370)) (Row 0)) (Row 0))))))) (Fork (Fork (Fork (Fork (Fork (Row 5275) (Row 2307)) (Fork (Fork (Row 4952)
     (Row 5252)) (Row 0))) (Row 0)) (Fork (Row 0) (Fork (Fork (Row 346) (Row 44)) (Fork (Row 2934) (Fork (Row 4076)
     (Fork (Row 0) (Fork (Row 0) (Fork (Row 5414) (Row 3348))))))))) (Fork (Fork (Fork (Fork (Fork (Fork (Row 578)
     (Row 4720)) (Row 0)) (Row 0)) (Fork (Row 5304) (Row 280))) (Fork (Fork (Fork (Row 3231) (Row 2667)) (Row 0)) (Row
     4483))) (Fork (Fork (Row 2772) (Fork (Fork (Fork (Row 0) (Fork (Row 0) (Fork (Row 0) (Fork (Fork (Fork (Row 4000)
     (Row 4153)) (Row 0)) (Row 0))))) (Row 0)) (Row 0))) (Fork (Row 0) (Fork (Fork (Row 3324) (Fork (Row 4891) (Row
     3238))) (Row 4039)))))))) k)"

definition find_41 :: "num \<Rightarrow> nat" where
  "find_41 k = fst (descend
     (Fork (Fork (Fork (Fork (Fork (Fork (Fork (Row 0) (Fork (Row 1625) (Fork (Row 0) (Fork (Row 0) (Fork (Row 1878)
     (Row 2323)))))) (Fork (Fork (Fork (Fork (Row 1769) (Row 4415)) (Row 0)) (Row 2064)) (Row 2736))) (Fork (Fork
     (Fork (Fork (Row 2819) (Row 1618)) (Row 0)) (Row 0)) (Fork (Row 634) (Fork (Row 653) (Row 1904))))) (Fork (Fork
     (Row 1260) (Fork (Row 4788) (Fork (Fork (Fork (Row 0) (Fork (Row 3657) (Row 879))) (Row 4320)) (Row 2125))))
     (Fork (Row 723) (Fork (Fork (Fork (Fork (Row 4144) (Row 386)) (Row 0)) (Row 0)) (Row 0))))) (Fork (Fork (Row
     2039) (Fork (Fork (Row 0) (Fork (Fork (Row 2243) (Row 1792)) (Row 0))) (Fork (Row 0) (Fork (Fork (Row 1964) (Row
     4919)) (Row 2748))))) (Fork (Fork (Fork (Fork (Row 4375) (Fork (Row 0) (Fork (Row 164) (Fork (Row 3969) (Row
     839))))) (Row 0)) (Row 1931)) (Row 4828)))) (Fork (Fork (Fork (Fork (Row 3771) (Fork (Row 0) (Fork (Row 4705)
     (Row 2947)))) (Fork (Row 4840) (Fork (Fork (Fork (Row 2574) (Row 2325)) (Row 0)) (Row 1448)))) (Fork (Fork (Fork
     (Fork (Row 0) (Fork (Fork (Row 38) (Row 1243)) (Row 2709))) (Row 160)) (Fork (Fork (Row 0) (Fork (Row 1763) (Row
     4224))) (Row 0))) (Fork (Row 3956) (Row 3142)))) (Fork (Fork (Row 2971) (Fork (Row 1940) (Fork (Fork (Row 5410)
     (Row 913)) (Fork (Row 0) (Fork (Fork (Row 390) (Row 4594)) (Row 0)))))) (Fork (Fork (Fork (Fork (Fork (Row 0)
     (Fork (Fork (Row 4129) (Row 583)) (Row 0))) (Row 0)) (Row 0)) (Fork (Row 1725) (Row 3519))) (Fork (Fork (Fork
     (Row 2261) (Row 1666)) (Row 3689)) (Fork (Row 184) (Row 2152))))))) (Fork (Fork (Fork (Fork (Fork (Fork (Fork
     (Fork (Row 0) (Fork (Row 3926) (Row 3306))) (Row 0)) (Row 5064)) (Fork (Row 0) (Fork (Row 0) (Fork (Fork (Row
     2482) (Row 1127)) (Fork (Row 5431) (Row 2597)))))) (Row 5458)) (Fork (Fork (Row 4507) (Row 865)) (Fork (Row 8)
     (Fork (Fork (Fork (Row 0) (Fork (Row 3454) (Row 1944))) (Row 4658)) (Row 0))))) (Fork (Fork (Fork (Row 0) (Fork
     (Row 0) (Fork (Fork (Row 4810) (Row 3375)) (Row 0)))) (Fork (Fork (Row 4694) (Row 861)) (Fork (Row 154) (Row
     103)))) (Fork (Fork (Fork (Fork (Row 0) (Fork (Fork (Fork (Row 5438) (Row 1668)) (Row 0)) (Row 3864))) (Row
     1401)) (Row 4260)) (Fork (Fork (Row 0) (Fork (Row 1226) (Row 5476))) (Row 2227))))) (Fork (Fork (Fork (Fork (Row
     37) (Fork (Row 0) (Fork (Row 0) (Fork (Row 525) (Row 4095))))) (Row 0)) (Fork (Row 1538) (Fork (Row 3175) (Row
     3967)))) (Fork (Fork (Fork (Row 0) (Fork (Fork (Row 3701) (Row 1707)) (Fork (Row 2257) (Row 2768)))) (Fork (Row
     2986) (Fork (Fork (Row 0) (Fork (Row 0) (Fork (Row 0) (Fork (Row 2969) (Row 3892))))) (Row 0)))) (Fork (Fork
     (Fork (Row 3318) (Row 415)) (Fork (Row 887) (Row 4227))) (Fork (Row 1350) (Row 1852))))))) k)"

definition find_42 :: "num \<Rightarrow> nat" where
  "find_42 k = fst (descend
     (Fork (Fork (Fork (Fork (Fork (Row 4316) (Fork (Fork (Fork (Fork (Row 0) (Fork (Row 2521) (Row 2771))) (Row 0))
     (Row 0)) (Fork (Fork (Row 1424) (Fork (Fork (Row 5378) (Row 2809)) (Row 0))) (Row 5238)))) (Fork (Row 2266) (Fork
     (Fork (Row 3998) (Fork (Fork (Fork (Fork (Row 0) (Fork (Row 2055) (Row 4333))) (Row 0)) (Row 0)) (Row 0))) (Fork
     (Row 2862) (Row 2788))))) (Fork (Fork (Fork (Fork (Fork (Row 0) (Fork (Row 3518) (Row 904))) (Row 0)) (Row 0))
     (Fork (Row 0) (Fork (Row 2563) (Fork (Row 189) (Row 1823))))) (Fork (Fork (Fork (Row 86) (Fork (Row 4527) (Fork
     (Row 0) (Fork (Fork (Row 0) (Fork (Row 5059) (Row 4614))) (Row 0))))) (Row 0)) (Fork (Fork (Fork (Row 0) (Fork
     (Row 192) (Row 1542))) (Row 0)) (Row 2751))))) (Fork (Fork (Fork (Fork (Fork (Fork (Fork (Row 1047) (Fork (Row
     4802) (Row 2005))) (Row 1021)) (Row 0)) (Row 652)) (Fork (Row 2338) (Fork (Row 4414) (Fork (Row 3290) (Row
     2547))))) (Fork (Fork (Row 0) (Fork (Fork (Row 4289) (Row 716)) (Row 0))) (Fork (Fork (Row 4450) (Row 2389)) (Row
     0)))) (Fork (Row 0) (Fork (Fork (Row 3241) (Fork (Row 0) (Fork (Fork (Row 343) (Row 424)) (Row 0)))) (Row
     5256))))) (Fork (Fork (Fork (Fork (Row 3986) (Fork (Row 0) (Fork (Row 1920) (Row 5232)))) (Fork (Fork (Row 1857)
     (Fork (Fork (Row 4912) (Row 255)) (Fork (Row 4921) (Fork (Row 4561) (Row 3001))))) (Fork (Row 0) (Fork (Fork (Row
     4074) (Row 2866)) (Fork (Fork (Row 3317) (Row 1697)) (Row 314)))))) (Fork (Fork (Fork (Fork (Fork (Row 2027) (Row
     1854)) (Row 3267)) (Row 0)) (Row 4791)) (Fork (Row 0) (Fork (Row 461) (Fork (Fork (Row 2275) (Row 4813)) (Fork
     (Row 2914) (Row 5007))))))) (Fork (Fork (Fork (Fork (Fork (Row 2046) (Row 29)) (Row 5017)) (Fork (Fork (Row 0)
     (Fork (Row 943) (Row 182))) (Fork (Row 2963) (Row 4232)))) (Fork (Fork (Row 0) (Fork (Fork (Row 2670) (Row 3584))
     (Row 55))) (Fork (Row 3486) (Row 2530)))) (Fork (Fork (Row 281) (Row 4401)) (Fork (Row 3849) (Fork (Row 3946)
     (Row 4270))))))) k)"

definition find_43 :: "num \<Rightarrow> nat" where
  "find_43 k = fst (descend
     (Fork (Fork (Fork (Fork (Fork (Fork (Fork (Fork (Fork (Fork (Fork (Row 288) (Row 782)) (Row 4632)) (Row 0)) (Row
     0)) (Row 0)) (Row 0)) (Fork (Row 3673) (Fork (Fork (Row 1811) (Row 2651)) (Fork (Row 2291) (Row 2016))))) (Fork
     (Row 2893) (Fork (Row 4421) (Row 5439)))) (Fork (Fork (Fork (Row 2106) (Fork (Row 2956) (Fork (Row 0) (Fork (Row
     0) (Fork (Row 0) (Fork (Fork (Fork (Fork (Row 931) (Row 5395)) (Row 0)) (Row 0)) (Row 1527))))))) (Fork (Row 215)
     (Fork (Row 3505) (Row 1479)))) (Fork (Fork (Fork (Row 2473) (Row 4871)) (Row 0)) (Row 0)))) (Fork (Fork (Fork
     (Fork (Fork (Row 1788) (Row 3824)) (Fork (Row 2537) (Fork (Fork (Fork (Row 5380) (Row 2580)) (Row 0)) (Row 0))))
     (Fork (Row 2707) (Row 3790))) (Fork (Row 4600) (Fork (Row 0) (Fork (Row 99) (Row 3432))))) (Fork (Fork (Fork (Row
     0) (Fork (Fork (Row 4293) (Row 394)) (Row 0))) (Fork (Row 3884) (Row 3633))) (Fork (Fork (Fork (Row 5206) (Row
     2551)) (Row 0)) (Fork (Row 0) (Fork (Row 366) (Row 3179))))))) (Fork (Fork (Fork (Fork (Row 0) (Fork (Fork (Fork
     (Fork (Row 0) (Fork (Fork (Row 2609) (Row 2632)) (Row 0))) (Row 0)) (Fork (Row 2239) (Row 1748))) (Row 0))) (Fork
     (Fork (Fork (Fork (Row 0) (Fork (Row 0) (Fork (Row 3029) (Row 1253)))) (Row 0)) (Row 0)) (Fork (Fork (Fork (Fork
     (Row 1082) (Row 2602)) (Row 0)) (Row 3975)) (Row 1879)))) (Fork (Fork (Row 0) (Fork (Fork (Row 4328) (Fork (Row
     0) (Fork (Row 2017) (Row 4031)))) (Fork (Row 0) (Fork (Fork (Row 0) (Fork (Row 135) (Row 4915))) (Row 4626)))))
     (Fork (Fork (Row 0) (Fork (Fork (Fork (Row 2287) (Row 1649)) (Row 4956)) (Row 0))) (Row 627)))) (Fork (Fork (Fork
     (Fork (Row 0) (Fork (Fork (Row 3160) (Row 2419)) (Row 4360))) (Fork (Fork (Row 3553) (Fork (Fork (Fork (Row 3039)
     (Row 5392)) (Row 0)) (Row 0))) (Fork (Row 1893) (Fork (Row 3188) (Fork (Row 1599) (Row 4398)))))) (Fork (Fork
     (Row 1362) (Fork (Fork (Fork (Row 0) (Fork (Row 4055) (Row 3315))) (Row 0)) (Row 0))) (Fork (Row 3554) (Row
     2364)))) (Fork (Fork (Fork (Fork (Row 0) (Fork (Row 1825) (Row 4679))) (Row 3167)) (Fork (Row 0) (Fork (Row 4475)
     (Row 800)))) (Fork (Fork (Fork (Row 3995) (Row 3727)) (Row 3467)) (Fork (Fork (Row 4186) (Row 3489)) (Row
     2711))))))) k)"

definition find_44 :: "num \<Rightarrow> nat" where
  "find_44 k = fst (descend
     (Fork (Fork (Fork (Fork (Fork (Fork (Fork (Fork (Row 1050) (Fork (Fork (Row 2252) (Row 2373)) (Row 0))) (Row 0))
     (Row 0)) (Fork (Fork (Row 1436) (Fork (Row 0) (Fork (Row 4046) (Row 4118)))) (Row 0))) (Fork (Row 4826) (Fork
     (Fork (Row 5034) (Row 3421)) (Row 188)))) (Fork (Fork (Fork (Row 2512) (Fork (Fork (Row 2769) (Row 2721)) (Row
     0))) (Fork (Fork (Row 410) (Row 4886)) (Fork (Row 3560) (Fork (Row 2151) (Row 1102))))) (Fork (Fork (Row 1111)
     (Fork (Fork (Row 4431) (Row 4849)) (Fork (Row 3028) (Row 3695)))) (Row 210)))) (Fork (Fork (Fork (Fork (Row 0)
     (Fork (Fork (Row 1363) (Row 148)) (Row 0))) (Fork (Fork (Row 213) (Row 2904)) (Row 0))) (Fork (Fork (Row 3643)
     (Fork (Row 4662) (Row 3031))) (Fork (Fork (Row 3497) (Row 1248)) (Row 1089)))) (Fork (Fork (Fork (Row 853) (Fork
     (Row 0) (Fork (Row 1934) (Row 421)))) (Row 3837)) (Fork (Fork (Row 0) (Fork (Row 0) (Fork (Fork (Row 4547) (Row
     2654)) (Row 0)))) (Fork (Row 0) (Fork (Row 0) (Fork (Row 1837) (Row 3143)))))))) (Fork (Fork (Fork (Fork (Fork
     (Fork (Fork (Row 2949) (Row 5470)) (Row 0)) (Row 743)) (Fork (Fork (Row 3050) (Row 571)) (Fork (Row 69) (Fork
     (Row 3993) (Row 4982))))) (Fork (Fork (Row 5192) (Fork (Row 4711) (Fork (Row 3779) (Row 2630)))) (Fork (Row 5092)
     (Fork (Fork (Row 0) (Fork (Fork (Fork (Row 0) (Fork (Fork (Row 0) (Fork (Row 0) (Fork (Row 0) (Fork (Row 286)
     (Row 3508))))) (Row 0))) (Row 0)) (Row 0))) (Row 1266))))) (Fork (Fork (Fork (Fork (Row 3209) (Row 577)) (Row
     4027)) (Row 0)) (Fork (Fork (Fork (Fork (Row 572) (Row 576)) (Row 3234)) (Row 0)) (Fork (Row 2420) (Fork (Fork
     (Row 0) (Fork (Row 3495) (Row 4107))) (Row 0)))))) (Fork (Fork (Fork (Fork (Fork (Fork (Row 0) (Fork (Row 5182)
     (Row 2339))) (Row 5247)) (Fork (Row 330) (Row 3728))) (Fork (Row 2117) (Fork (Fork (Row 2385) (Row 2778)) (Row
     0)))) (Fork (Fork (Row 5144) (Fork (Fork (Fork (Row 2120) (Row 4456)) (Row 4495)) (Row 0))) (Fork (Row 24) (Fork
     (Fork (Row 293) (Row 3957)) (Row 0))))) (Fork (Fork (Fork (Row 4839) (Row 3982)) (Fork (Row 0) (Fork (Row 0)
     (Fork (Fork (Row 0) (Fork (Fork (Row 0) (Fork (Row 4318) (Row 683))) (Row 0))) (Row 0))))) (Fork (Fork (Fork
     (Fork (Fork (Row 513) (Row 3332)) (Row 0)) (Row 0)) (Row 0)) (Fork (Row 1978) (Fork (Fork (Row 817) (Fork (Row
     2234) (Row 4278))) (Row 0)))))))) k)"

definition find_45 :: "num \<Rightarrow> nat" where
  "find_45 k = fst (descend
     (Fork (Fork (Fork (Fork (Fork (Fork (Fork (Row 396) (Row 2001)) (Fork (Fork (Row 2558) (Row 752)) (Row 0))) (Fork
     (Fork (Row 1149) (Fork (Fork (Fork (Row 3479) (Row 1294)) (Row 0)) (Row 190))) (Row 0))) (Fork (Fork (Fork (Row
     0) (Fork (Fork (Row 1669) (Row 4034)) (Row 0))) (Fork (Row 2471) (Fork (Row 2451) (Row 4977)))) (Fork (Fork (Row
     3168) (Fork (Row 557) (Row 1328))) (Row 938)))) (Fork (Fork (Fork (Row 49) (Fork (Row 3109) (Fork (Row 0) (Fork
     (Row 4686) (Row 2018))))) (Row 5165)) (Fork (Fork (Fork (Row 630) (Row 4975)) (Fork (Row 5281) (Row 95))) (Row
     5374)))) (Fork (Fork (Fork (Row 3066) (Row 3314)) (Fork (Row 2591) (Fork (Row 1356) (Fork (Fork (Fork (Row 5331)
     (Row 2464)) (Row 0)) (Row 0))))) (Fork (Row 2347) (Fork (Fork (Fork (Fork (Fork (Row 2503) (Row 3239)) (Fork (Row
     3189) (Row 4951))) (Row 0)) (Fork (Row 1810) (Row 1281))) (Row 1965))))) (Fork (Fork (Fork (Fork (Fork (Row 3305)
     (Fork (Row 0) (Fork (Row 3352) (Row 2413)))) (Fork (Fork (Row 2065) (Row 2143)) (Fork (Row 0) (Fork (Row 3984)
     (Fork (Fork (Row 1024) (Row 534)) (Row 0)))))) (Fork (Fork (Fork (Row 0) (Fork (Row 6) (Row 3894))) (Fork (Fork
     (Fork (Row 3638) (Row 1396)) (Row 0)) (Row 0))) (Fork (Fork (Row 1010) (Row 4335)) (Fork (Row 3886) (Row
     1832))))) (Fork (Fork (Row 3951) (Fork (Fork (Row 0) (Fork (Row 0) (Fork (Fork (Fork (Row 3126) (Row 1352)) (Row
     0)) (Row 0)))) (Row 0))) (Fork (Fork (Fork (Fork (Row 5129) (Row 3983)) (Row 406)) (Row 4811)) (Fork (Row 0)
     (Fork (Row 0) (Fork (Row 233) (Row 5132))))))) (Fork (Fork (Fork (Row 4800) (Row 3529)) (Fork (Fork (Row 0) (Fork
     (Fork (Row 4140) (Row 5361)) (Row 5175))) (Fork (Row 1002) (Row 1287)))) (Fork (Fork (Fork (Fork (Row 2792) (Row
     5131)) (Fork (Row 0) (Fork (Row 2534) (Fork (Row 2860) (Row 2283))))) (Row 1565)) (Fork (Fork (Row 282) (Fork
     (Fork (Fork (Row 1638) (Row 3397)) (Row 0)) (Row 0))) (Fork (Row 4638) (Row 3107))))))) k)"

definition find_46 :: "num \<Rightarrow> nat" where
  "find_46 k = fst (descend
     (Fork (Fork (Fork (Fork (Fork (Row 4498) (Fork (Row 2989) (Row 201))) (Fork (Fork (Fork (Row 0) (Fork (Row 4762)
     (Row 5471))) (Fork (Row 0) (Fork (Row 4502) (Row 2557)))) (Fork (Fork (Row 4052) (Row 604)) (Fork (Row 0) (Fork
     (Fork (Fork (Row 0) (Fork (Row 174) (Row 4745))) (Row 0)) (Row 0)))))) (Fork (Fork (Fork (Row 4037) (Fork (Fork
     (Row 0) (Fork (Row 0) (Fork (Row 19) (Row 3737)))) (Row 3555))) (Fork (Row 4490) (Row 3248))) (Fork (Row 2974)
     (Fork (Fork (Fork (Fork (Row 5237) (Row 3096)) (Row 3679)) (Row 5246)) (Fork (Row 0) (Fork (Row 4555) (Row
     668))))))) (Fork (Fork (Fork (Fork (Row 3663) (Fork (Row 1552) (Row 436))) (Fork (Fork (Row 1498) (Fork (Row
     1360) (Row 4282))) (Fork (Row 0) (Fork (Row 1137) (Row 488))))) (Fork (Row 1836) (Fork (Row 3945) (Fork (Row 0)
     (Fork (Row 2623) (Row 4377)))))) (Fork (Fork (Fork (Row 2204) (Row 3072)) (Fork (Row 0) (Fork (Fork (Fork (Row
     5324) (Row 1657)) (Row 0)) (Row 4064)))) (Fork (Row 2900) (Fork (Row 0) (Fork (Fork (Fork (Fork (Row 0) (Fork
     (Fork (Row 761) (Row 265)) (Row 0))) (Row 2449)) (Row 0)) (Row 4084))))))) (Fork (Fork (Fork (Fork (Fork (Row
     1507) (Fork (Row 3272) (Row 4049))) (Row 2828)) (Fork (Row 0) (Fork (Fork (Row 1009) (Fork (Fork (Fork (Row 2519)
     (Fork (Fork (Row 4376) (Row 2491)) (Row 0))) (Row 0)) (Row 3244))) (Row 5465)))) (Fork (Fork (Fork (Fork (Row
     1371) (Row 334)) (Fork (Row 0) (Fork (Row 3608) (Row 1660)))) (Row 0)) (Fork (Fork (Row 0) (Fork (Row 0) (Fork
     (Row 1398) (Row 4876)))) (Row 0)))) (Fork (Fork (Fork (Fork (Fork (Row 117) (Fork (Fork (Fork (Row 3917) (Row
     1338)) (Row 0)) (Row 206))) (Row 0)) (Row 2544)) (Fork (Fork (Row 1814) (Row 3275)) (Fork (Row 4226) (Fork (Row
     0) (Fork (Fork (Fork (Row 0) (Fork (Row 0) (Fork (Row 2274) (Row 841)))) (Row 0)) (Row 0)))))) (Fork (Fork (Fork
     (Row 0) (Fork (Fork (Fork (Fork (Row 4054) (Row 4238)) (Row 0)) (Row 5104)) (Row 0))) (Fork (Row 742) (Fork (Fork
     (Row 830) (Row 4225)) (Row 1877)))) (Fork (Fork (Row 332) (Fork (Row 3092) (Row 4436))) (Fork (Row 0) (Fork (Row
     5067) (Fork (Row 75) (Row 5142))))))))) k)"

definition find_47 :: "num \<Rightarrow> nat" where
  "find_47 k = fst (descend
     (Fork (Fork (Fork (Fork (Fork (Fork (Fork (Row 2254) (Row 2319)) (Row 0)) (Fork (Fork (Fork (Row 922) (Row 3875))
     (Row 1216)) (Row 1279))) (Fork (Fork (Row 3592) (Row 1730)) (Fork (Fork (Row 1465) (Row 4867)) (Row 1888))))
     (Fork (Fork (Fork (Fork (Row 2626) (Row 4755)) (Row 0)) (Row 0)) (Fork (Row 0) (Fork (Fork (Fork (Row 4914) (Fork
     (Fork (Row 4905) (Row 4630)) (Row 0))) (Row 1929)) (Row 0))))) (Fork (Fork (Fork (Fork (Fork (Fork (Row 0) (Fork
     (Row 0) (Fork (Row 2543) (Row 1597)))) (Row 2824)) (Row 151)) (Fork (Row 0) (Fork (Row 1626) (Fork (Row 0) (Fork
     (Row 4420) (Row 3960)))))) (Fork (Fork (Fork (Row 0) (Fork (Fork (Row 0) (Fork (Fork (Row 3758) (Row 2831)) (Row
     0))) (Fork (Row 2213) (Row 2294)))) (Row 2170)) (Fork (Row 0) (Fork (Fork (Fork (Row 0) (Fork (Row 1115) (Row
     3853))) (Row 0)) (Row 0))))) (Fork (Fork (Fork (Fork (Row 5451) (Fork (Row 802) (Fork (Row 4501) (Row 5128))))
     (Fork (Fork (Row 2533) (Row 4189)) (Row 0))) (Fork (Fork (Fork (Row 159) (Row 1614)) (Fork (Row 957) (Row 5203)))
     (Row 0))) (Fork (Fork (Row 4708) (Fork (Fork (Row 0) (Fork (Row 607) (Row 4455))) (Row 0))) (Fork (Fork (Row
     1705) (Row 23)) (Row 0)))))) (Fork (Fork (Fork (Fork (Fork (Row 0) (Fork (Fork (Fork (Row 731) (Row 3504)) (Row
     3800)) (Fork (Fork (Row 0) (Fork (Fork (Row 1033) (Row 3915)) (Row 0))) (Row 0)))) (Fork (Row 1767) (Row 4777)))
     (Fork (Fork (Row 1584) (Row 4215)) (Fork (Fork (Row 872) (Row 361)) (Fork (Row 5422) (Fork (Row 0) (Fork (Fork
     (Row 3965) (Row 5421)) (Row 0))))))) (Fork (Fork (Fork (Fork (Row 0) (Fork (Row 2290) (Row 1816))) (Row 0)) (Fork
     (Fork (Fork (Row 1502) (Row 2589)) (Row 0)) (Row 0))) (Fork (Row 3491) (Fork (Fork (Row 798) (Row 5145)) (Row
     0))))) (Fork (Fork (Fork (Fork (Row 3627) (Row 5137)) (Fork (Row 2526) (Row 34))) (Fork (Row 437) (Row 3561)))
     (Fork (Fork (Fork (Row 5352) (Fork (Fork (Row 0) (Fork (Row 0) (Fork (Row 0) (Fork (Row 0) (Fork (Row 1700) (Row
     1193)))))) (Fork (Row 0) (Fork (Row 0) (Fork (Row 4822) (Row 4707)))))) (Fork (Fork (Row 3281) (Row 4955)) (Fork
     (Row 2960) (Fork (Row 0) (Fork (Fork (Row 0) (Fork (Row 2716) (Row 5276))) (Row 0)))))) (Fork (Fork (Row 0) (Fork
     (Row 3931) (Row 4518))) (Fork (Fork (Fork (Fork (Fork (Fork (Row 0) (Fork (Fork (Row 0) (Fork (Row 0) (Fork (Row
     0) (Fork (Row 831) (Row 1006))))) (Row 0))) (Row 0)) (Row 0)) (Row 0)) (Row 0)) (Row 4895))))))) k)"

definition find_48 :: "num \<Rightarrow> nat" where
  "find_48 k = fst (descend
     (Fork (Fork (Fork (Fork (Fork (Fork (Row 3850) (Row 561)) (Row 431)) (Fork (Row 2791) (Fork (Row 5376) (Fork
     (Fork (Row 4718) (Row 529)) (Fork (Fork (Row 5305) (Row 4702)) (Row 0)))))) (Fork (Fork (Fork (Fork (Fork (Row
     3154) (Fork (Row 0) (Fork (Row 4897) (Row 2808)))) (Row 0)) (Row 254)) (Row 1022)) (Fork (Fork (Fork (Row 5194)
     (Row 2615)) (Row 3626)) (Fork (Row 4230) (Row 3503))))) (Fork (Fork (Fork (Row 3910) (Fork (Row 5390) (Fork (Fork
     (Fork (Row 2825) (Row 3117)) (Row 1693)) (Row 3955)))) (Fork (Row 0) (Fork (Row 0) (Fork (Row 0) (Fork (Fork (Row
     5368) (Row 4855)) (Row 874)))))) (Fork (Fork (Fork (Fork (Row 0) (Fork (Row 1961) (Row 1306))) (Row 0)) (Fork
     (Row 2153) (Fork (Row 781) (Row 4269)))) (Fork (Fork (Row 4229) (Row 3826)) (Fork (Fork (Fork (Fork (Row 1453)
     (Row 1114)) (Row 3385)) (Row 3798)) (Row 4616)))))) (Fork (Fork (Fork (Fork (Fork (Fork (Row 3644) (Fork (Row
     1358) (Fork (Row 2754) (Row 2980)))) (Row 0)) (Fork (Row 1602) (Row 4433))) (Fork (Fork (Fork (Row 0) (Fork (Fork
     (Fork (Fork (Row 0) (Fork (Row 1892) (Row 4988))) (Row 0)) (Row 0)) (Row 0))) (Row 0)) (Row 3312))) (Fork (Fork
     (Fork (Row 1121) (Row 2137)) (Fork (Fork (Fork (Row 0) (Fork (Row 1494) (Row 26))) (Fork (Row 2183) (Row 4798)))
     (Fork (Row 0) (Fork (Row 2487) (Row 2884))))) (Fork (Fork (Fork (Row 0) (Fork (Row 0) (Fork (Fork (Row 1568) (Row
     3233)) (Row 0)))) (Row 0)) (Row 1020)))) (Fork (Fork (Fork (Fork (Fork (Row 0) (Fork (Fork (Row 4996) (Fork (Row
     46) (Row 4161))) (Row 0))) (Fork (Fork (Row 0) (Fork (Fork (Fork (Row 4211) (Row 3825)) (Row 0)) (Row 0))) (Fork
     (Fork (Row 909) (Row 2262)) (Row 0)))) (Fork (Row 0) (Fork (Fork (Row 0) (Fork (Fork (Row 5166) (Row 3402)) (Row
     3271))) (Row 0)))) (Fork (Fork (Fork (Row 0) (Fork (Row 3217) (Row 1609))) (Row 4736)) (Fork (Row 612) (Fork (Row
     1706) (Row 930))))) (Fork (Fork (Row 2496) (Fork (Fork (Row 0) (Fork (Fork (Fork (Row 5382) (Row 2662)) (Row 0))
     (Row 3394))) (Row 0))) (Fork (Fork (Fork (Row 0) (Fork (Row 697) (Row 3265))) (Fork (Row 3434) (Row 1397))) (Row
     85)))))) k)"

definition find_49 :: "num \<Rightarrow> nat" where
  "find_49 k = fst (descend
     (Fork (Fork (Fork (Fork (Fork (Fork (Row 0) (Fork (Row 1061) (Row 1134))) (Row 3341)) (Fork (Row 4024) (Row
     709))) (Fork (Fork (Fork (Fork (Row 0) (Fork (Fork (Fork (Row 2310) (Row 3515)) (Row 0)) (Row 0))) (Row 0)) (Row
     0)) (Fork (Fork (Row 0) (Fork (Fork (Fork (Row 0) (Fork (Fork (Row 685) (Row 1696)) (Row 0))) (Row 0)) (Row
     4337))) (Fork (Fork (Fork (Row 2249) (Row 3224)) (Row 3005)) (Row 1220))))) (Fork (Fork (Fork (Fork (Row 4896)
     (Row 4883)) (Row 1569)) (Fork (Fork (Row 1506) (Fork (Row 0) (Fork (Row 2092) (Fork (Fork (Fork (Fork (Row 4330)
     (Row 850)) (Row 0)) (Row 0)) (Row 0))))) (Row 504))) (Fork (Fork (Row 3723) (Fork (Row 0) (Fork (Fork (Row 0)
     (Fork (Row 2548) (Row 1891))) (Row 0)))) (Fork (Fork (Row 1290) (Fork (Row 1357) (Row 877))) (Fork (Fork (Fork
     (Row 0) (Fork (Row 0) (Fork (Fork (Fork (Row 3417) (Row 1735)) (Row 0)) (Row 5373)))) (Row 2646)) (Row 0))))))
     (Fork (Fork (Fork (Fork (Fork (Fork (Row 5213) (Fork (Row 2157) (Fork (Fork (Row 1028) (Row 2403)) (Row 2286))))
     (Fork (Fork (Row 0) (Fork (Row 3909) (Row 4770))) (Row 0))) (Fork (Fork (Row 574) (Row 35)) (Row 2983))) (Fork
     (Row 0) (Fork (Row 2141) (Row 5029)))) (Fork (Fork (Fork (Fork (Row 4062) (Fork (Fork (Row 4537) (Row 1250)) (Row
     5340))) (Fork (Fork (Row 2182) (Row 2684)) (Row 0))) (Fork (Fork (Row 4233) (Fork (Row 125) (Row 2435))) (Fork
     (Fork (Row 1379) (Row 4744)) (Row 0)))) (Fork (Row 0) (Fork (Fork (Row 0) (Fork (Row 2541) (Row 4016))) (Fork
     (Row 3398) (Fork (Fork (Row 0) (Fork (Row 635) (Row 5445))) (Row 0))))))) (Fork (Fork (Fork (Row 3089) (Fork (Row
     2356) (Fork (Row 0) (Fork (Fork (Row 4342) (Row 5117)) (Row 0))))) (Fork (Fork (Row 419) (Row 2351)) (Row 1574)))
     (Fork (Fork (Fork (Row 3293) (Fork (Row 3010) (Row 954))) (Fork (Fork (Fork (Row 3741) (Row 4061)) (Row 3769))
     (Row 3575))) (Fork (Fork (Fork (Row 3907) (Row 5437)) (Row 4541)) (Row 1796)))))) k)"

definition find_50 :: "num \<Rightarrow> nat" where
  "find_50 k = fst (descend
     (Fork (Fork (Fork (Fork (Fork (Row 1801) (Fork (Fork (Row 0) (Fork (Row 0) (Fork (Row 3286) (Row 1911)))) (Fork
     (Row 4523) (Row 2867)))) (Fork (Fork (Fork (Row 1184) (Row 846)) (Row 0)) (Fork (Row 4847) (Fork (Row 4400) (Fork
     (Row 1997) (Row 1753)))))) (Fork (Fork (Fork (Fork (Row 3044) (Fork (Row 119) (Row 4367))) (Row 2549)) (Row
     4134)) (Fork (Fork (Fork (Fork (Row 1743) (Row 926)) (Fork (Row 0) (Fork (Row 0) (Fork (Row 3605) (Row 5290)))))
     (Fork (Row 3263) (Row 2324))) (Row 0)))) (Fork (Fork (Fork (Fork (Row 106) (Row 4114)) (Fork (Fork (Fork (Fork
     (Row 3659) (Row 4621)) (Row 2483)) (Row 570)) (Row 1368))) (Fork (Fork (Row 1812) (Fork (Row 3037) (Row 1441)))
     (Fork (Row 2398) (Fork (Row 2527) (Row 2200))))) (Fork (Fork (Fork (Fork (Fork (Row 4574) (Row 2622)) (Fork (Row
     0) (Fork (Row 1461) (Row 4515)))) (Row 0)) (Fork (Fork (Row 0) (Fork (Fork (Fork (Fork (Row 3651) (Row 1259))
     (Row 0)) (Row 0)) (Row 0))) (Row 3582))) (Fork (Row 3068) (Fork (Row 5396) (Fork (Row 0) (Fork (Row 2223) (Row
     711)))))))) (Fork (Fork (Fork (Fork (Fork (Fork (Row 4209) (Row 1756)) (Fork (Row 1019) (Row 1305))) (Fork (Fork
     (Row 2802) (Fork (Row 541) (Row 121))) (Row 1439))) (Fork (Fork (Fork (Fork (Row 1835) (Row 5328)) (Row 0)) (Fork
     (Row 4351) (Row 890))) (Fork (Row 4362) (Fork (Row 1234) (Row 569))))) (Fork (Fork (Row 2276) (Fork (Fork (Fork
     (Row 0) (Fork (Row 3661) (Row 3744))) (Row 1486)) (Fork (Fork (Row 3830) (Fork (Row 0) (Fork (Row 3552) (Row
     948)))) (Row 1847)))) (Fork (Fork (Fork (Fork (Fork (Row 0) (Fork (Fork (Row 0) (Fork (Row 2007) (Row 335))) (Row
     0))) (Row 3812)) (Row 2690)) (Fork (Fork (Row 849) (Row 1541)) (Row 899))) (Fork (Fork (Fork (Row 1395) (Row
     1068)) (Row 3532)) (Fork (Row 1956) (Row 1147)))))) (Fork (Fork (Fork (Fork (Row 0) (Fork (Row 2562) (Fork (Fork
     (Fork (Fork (Row 112) (Row 666)) (Row 0)) (Row 1827)) (Row 0)))) (Fork (Fork (Fork (Row 4624) (Row 319)) (Row 0))
     (Fork (Row 3135) (Row 3925)))) (Fork (Row 0) (Fork (Fork (Fork (Row 3693) (Fork (Row 2004) (Row 3463))) (Row 0))
     (Row 364)))) (Fork (Fork (Fork (Row 2887) (Row 2570)) (Row 2834)) (Fork (Fork (Row 0) (Fork (Row 3665) (Fork (Row
     1331) (Row 1662)))) (Fork (Row 2855) (Fork (Row 1374) (Fork (Row 263) (Row 1996))))))))) k)"

definition find_51 :: "num \<Rightarrow> nat" where
  "find_51 k = fst (descend
     (Fork (Fork (Fork (Fork (Fork (Fork (Fork (Row 0) (Fork (Row 857) (Fork (Fork (Row 5000) (Row 2155)) (Row 0))))
     (Row 4645)) (Fork (Row 0) (Fork (Fork (Fork (Fork (Row 0) (Fork (Row 2739) (Row 4241))) (Row 1946)) (Row 0)) (Row
     3586)))) (Fork (Row 3612) (Fork (Fork (Row 5190) (Row 179)) (Row 0)))) (Fork (Fork (Row 0) (Fork (Row 1948) (Row
     4525))) (Fork (Row 829) (Fork (Fork (Fork (Row 5366) (Row 3108)) (Row 0)) (Fork (Row 0) (Fork (Fork (Row 827)
     (Row 2303)) (Row 3527))))))) (Fork (Fork (Fork (Fork (Row 0) (Fork (Fork (Row 0) (Fork (Row 4025) (Row 3158)))
     (Row 454))) (Fork (Row 218) (Row 411))) (Fork (Fork (Row 3150) (Fork (Row 5254) (Row 1292))) (Fork (Fork (Fork
     (Row 0) (Fork (Row 0) (Fork (Row 762) (Row 5053)))) (Row 0)) (Fork (Row 3090) (Row 4972))))) (Fork (Fork (Row
     1732) (Fork (Row 3531) (Fork (Row 4267) (Row 87)))) (Fork (Fork (Row 0) (Fork (Fork (Fork (Fork (Fork (Row 0)
     (Fork (Row 3538) (Row 2422))) (Row 0)) (Row 0)) (Row 4850)) (Row 0))) (Fork (Fork (Row 3635) (Fork (Row 4687)
     (Row 4160))) (Fork (Row 4548) (Row 2268))))))) (Fork (Fork (Fork (Row 3200) (Fork (Fork (Fork (Fork (Row 3356)
     (Fork (Row 778) (Row 5083))) (Row 0)) (Row 0)) (Fork (Fork (Row 2481) (Row 631)) (Fork (Row 3510) (Row 2381)))))
     (Fork (Fork (Fork (Row 3276) (Row 4156)) (Fork (Row 2315) (Row 501))) (Fork (Fork (Fork (Fork (Row 2712) (Row
     1516)) (Row 0)) (Fork (Row 2611) (Row 4357))) (Fork (Fork (Row 4880) (Row 4703)) (Row 1320))))) (Fork (Fork (Fork
     (Row 3223) (Fork (Fork (Row 0) (Fork (Fork (Row 0) (Fork (Row 0) (Fork (Row 5255) (Row 4464)))) (Row 0))) (Fork
     (Row 0) (Fork (Fork (Fork (Fork (Row 5019) (Row 3617)) (Row 1771)) (Row 0)) (Row 4508))))) (Fork (Fork (Row 328)
     (Row 2991)) (Row 0))) (Fork (Fork (Fork (Fork (Fork (Row 0) (Fork (Row 0) (Fork (Row 932) (Row 498)))) (Row
     5391)) (Row 2077)) (Fork (Row 0) (Fork (Row 2012) (Row 3043)))) (Fork (Fork (Row 2313) (Row 687)) (Fork (Fork
     (Fork (Row 0) (Fork (Row 0) (Fork (Row 3963) (Row 881)))) (Row 0)) (Fork (Fork (Row 2224) (Row 510)) (Row
     0)))))))) k)"

definition find_52 :: "num \<Rightarrow> nat" where
  "find_52 k = fst (descend
     (Fork (Fork (Fork (Fork (Fork (Fork (Fork (Row 2764) (Row 3903)) (Fork (Row 5174) (Row 905))) (Fork (Row 3899)
     (Fork (Row 2459) (Row 4290)))) (Fork (Fork (Row 5160) (Fork (Row 994) (Fork (Fork (Row 1867) (Row 2081)) (Row
     0)))) (Fork (Row 2043) (Fork (Row 473) (Row 2179))))) (Fork (Fork (Fork (Row 1578) (Fork (Fork (Fork (Row 1066)
     (Row 2910)) (Row 0)) (Row 1476))) (Fork (Row 3060) (Row 4015))) (Row 0))) (Fork (Fork (Fork (Fork (Fork (Fork
     (Fork (Row 0) (Fork (Row 0) (Fork (Row 3846) (Row 3036)))) (Row 0)) (Fork (Fork (Row 530) (Row 5262)) (Row 0)))
     (Row 3528)) (Fork (Fork (Fork (Row 4660) (Row 1742)) (Fork (Row 0) (Fork (Row 2498) (Row 1860)))) (Row 0))) (Fork
     (Fork (Fork (Fork (Row 0) (Fork (Row 0) (Fork (Row 0) (Fork (Row 4922) (Fork (Fork (Row 756) (Row 4613)) (Row
     0)))))) (Row 3153)) (Row 3058)) (Fork (Row 2020) (Fork (Fork (Fork (Row 0) (Fork (Fork (Fork (Fork (Fork (Row
     3958) (Row 4427)) (Row 0)) (Row 0)) (Row 0)) (Row 0))) (Row 0)) (Row 0))))) (Fork (Fork (Fork (Row 1049) (Fork
     (Fork (Row 0) (Fork (Row 4937) (Row 4760))) (Fork (Row 0) (Fork (Row 0) (Fork (Row 1130) (Row 4035)))))) (Fork
     (Fork (Row 1086) (Row 986)) (Row 0))) (Fork (Fork (Row 393) (Row 5460)) (Row 2021))))) (Fork (Fork (Fork (Fork
     (Fork (Fork (Fork (Row 2908) (Row 1106)) (Row 0)) (Fork (Fork (Row 0) (Fork (Row 1276) (Row 3688))) (Fork (Row
     2053) (Row 2023)))) (Fork (Fork (Row 4607) (Row 2341)) (Row 2080))) (Fork (Fork (Row 4096) (Row 5120)) (Row
     1288))) (Fork (Fork (Row 0) (Fork (Fork (Row 3461) (Row 838)) (Fork (Fork (Row 0) (Fork (Fork (Row 4758) (Row
     3303)) (Row 0))) (Row 2951)))) (Fork (Fork (Row 4546) (Fork (Fork (Row 4418) (Row 4726)) (Fork (Row 2208) (Row
     4652)))) (Fork (Row 1633) (Row 1151))))) (Fork (Fork (Fork (Fork (Row 0) (Fork (Row 0) (Fork (Row 0) (Fork (Row
     3687) (Row 623))))) (Fork (Row 3636) (Fork (Row 4068) (Row 1714)))) (Fork (Fork (Fork (Row 5298) (Row 3704))
     (Fork (Fork (Row 4803) (Fork (Row 1928) (Row 16))) (Row 0))) (Fork (Fork (Row 4865) (Row 4622)) (Fork (Row 0)
     (Fork (Row 5245) (Row 4877)))))) (Fork (Fork (Fork (Row 384) (Fork (Row 1271) (Row 4750))) (Fork (Fork (Row 0)
     (Fork (Fork (Fork (Row 1310) (Row 3692)) (Row 0)) (Row 0))) (Fork (Row 0) (Fork (Row 0) (Fork (Row 1664) (Row
     3429)))))) (Fork (Fork (Fork (Fork (Row 4568) (Row 3871)) (Row 0)) (Fork (Row 0) (Fork (Row 433) (Row 4040))))
     (Row 0)))))) k)"

definition find_53 :: "num \<Rightarrow> nat" where
  "find_53 k = fst (descend
     (Fork (Fork (Fork (Fork (Fork (Fork (Row 0) (Fork (Fork (Fork (Row 3595) (Fork (Row 0) (Fork (Row 3022) (Row
     1635)))) (Row 0)) (Row 0))) (Fork (Row 4446) (Row 4008))) (Fork (Fork (Fork (Row 0) (Fork (Fork (Row 0) (Fork
     (Row 0) (Fork (Row 587) (Row 4221)))) (Row 0))) (Row 3807)) (Row 0))) (Fork (Fork (Fork (Row 4796) (Fork (Row
     1323) (Row 598))) (Fork (Fork (Row 822) (Row 5353)) (Row 0))) (Fork (Fork (Row 0) (Fork (Row 5045) (Row 2705)))
     (Fork (Fork (Row 1205) (Row 2780)) (Fork (Row 4430) (Fork (Fork (Row 1125) (Row 4353)) (Row 0))))))) (Fork (Fork
     (Fork (Row 0) (Fork (Row 1232) (Row 2166))) (Fork (Row 3094) (Fork (Row 2244) (Row 2633)))) (Fork (Row 0) (Fork
     (Fork (Fork (Row 2431) (Row 4655)) (Fork (Fork (Fork (Row 5408) (Row 968)) (Row 0)) (Row 944))) (Fork (Fork (Row
     0) (Fork (Row 1315) (Row 966))) (Row 3579)))))) (Fork (Fork (Fork (Fork (Fork (Row 0) (Fork (Fork (Fork (Row 0)
     (Fork (Row 1842) (Row 2797))) (Row 0)) (Fork (Row 0) (Fork (Row 1289) (Row 3132))))) (Fork (Fork (Row 4257) (Fork
     (Row 352) (Row 1095))) (Fork (Row 4065) (Row 3437)))) (Fork (Fork (Fork (Row 2240) (Fork (Row 1984) (Row 479)))
     (Row 2546)) (Fork (Fork (Fork (Row 0) (Fork (Fork (Row 0) (Fork (Row 4666) (Row 2238))) (Row 0))) (Row 2114))
     (Fork (Row 0) (Fork (Row 3452) (Row 891)))))) (Fork (Fork (Fork (Row 0) (Fork (Fork (Row 3393) (Row 1900)) (Row
     0))) (Row 920)) (Row 4969))) (Fork (Fork (Fork (Fork (Row 2142) (Fork (Row 0) (Fork (Row 50) (Row 1729)))) (Fork
     (Row 4011) (Row 4730))) (Fork (Fork (Fork (Row 1787) (Row 1167)) (Row 4729)) (Fork (Row 1157) (Fork (Row 0) (Fork
     (Row 0) (Fork (Row 0) (Fork (Fork (Fork (Fork (Row 4409) (Row 3370)) (Row 0)) (Row 0)) (Row 0)))))))) (Fork (Fork
     (Fork (Fork (Row 5168) (Fork (Row 4029) (Row 797))) (Row 0)) (Fork (Row 3330) (Row 998))) (Fork (Fork (Row 2113)
     (Row 2173)) (Fork (Fork (Row 1774) (Row 509)) (Row 0))))))) k)"

definition find_54 :: "num \<Rightarrow> nat" where
  "find_54 k = fst (descend
     (Fork (Fork (Fork (Fork (Fork (Fork (Row 3262) (Row 2022)) (Fork (Row 0) (Fork (Fork (Row 4053) (Row 3733)) (Row
     0)))) (Fork (Fork (Row 2676) (Fork (Fork (Row 0) (Fork (Row 2912) (Row 2494))) (Fork (Row 362) (Row 2731))))
     (Fork (Row 0) (Fork (Row 5037) (Row 1207))))) (Fork (Fork (Fork (Fork (Row 2564) (Row 4901)) (Row 0)) (Fork (Row
     4557) (Fork (Fork (Fork (Row 2691) (Row 1490)) (Row 0)) (Row 0)))) (Fork (Fork (Row 0) (Fork (Row 1475) (Row
     2528))) (Fork (Fork (Row 1264) (Row 4078)) (Row 5356))))) (Fork (Fork (Fork (Row 1416) (Fork (Fork (Fork (Fork
     (Fork (Fork (Row 1876) (Row 4341)) (Row 0)) (Row 0)) (Row 0)) (Row 5217)) (Row 3997))) (Fork (Fork (Row 5106)
     (Row 1807)) (Fork (Row 4536) (Fork (Row 1779) (Row 329))))) (Fork (Fork (Fork (Row 0) (Fork (Fork (Row 4916) (Row
     5466)) (Row 4179))) (Fork (Fork (Row 1830) (Fork (Row 47) (Row 535))) (Fork (Row 2336) (Row 4038)))) (Fork (Fork
     (Row 0) (Fork (Fork (Fork (Fork (Row 962) (Row 2504)) (Row 0)) (Row 0)) (Row 0))) (Fork (Row 2040) (Row
     3017)))))) (Fork (Fork (Fork (Fork (Fork (Fork (Fork (Row 3382) (Row 1761)) (Row 671)) (Fork (Row 2248) (Row
     4968))) (Row 995)) (Fork (Fork (Fork (Row 0) (Fork (Row 3857) (Row 5043))) (Row 5018)) (Fork (Fork (Row 2610)
     (Fork (Fork (Row 4835) (Row 1300)) (Row 0))) (Row 1334)))) (Fork (Fork (Fork (Fork (Row 776) (Row 779)) (Row
     3568)) (Fork (Row 4109) (Row 5327))) (Fork (Fork (Row 5154) (Row 5282)) (Fork (Row 3828) (Fork (Row 4722) (Fork
     (Row 4836) (Row 2937))))))) (Fork (Fork (Fork (Fork (Row 5268) (Row 4860)) (Row 80)) (Fork (Fork (Row 0) (Fork
     (Row 4334) (Row 1712))) (Fork (Row 5386) (Row 1890)))) (Fork (Fork (Fork (Fork (Row 2733) (Fork (Row 4825) (Row
     3291))) (Row 4105)) (Fork (Row 2556) (Fork (Fork (Row 4764) (Row 2008)) (Row 0)))) (Fork (Fork (Fork (Row 0)
     (Fork (Fork (Row 774) (Row 4994)) (Row 0))) (Row 0)) (Fork (Row 1414) (Fork (Row 3559) (Row 5228)))))))) k)"

definition find_55 :: "num \<Rightarrow> nat" where
  "find_55 k = fst (descend
     (Fork (Fork (Fork (Fork (Fork (Row 5198) (Fork (Row 2940) (Row 4235))) (Fork (Fork (Fork (Fork (Row 0) (Fork
     (Fork (Fork (Row 0) (Fork (Fork (Fork (Row 993) (Row 1178)) (Row 0)) (Row 0))) (Row 0)) (Row 0))) (Row 0)) (Fork
     (Row 5133) (Row 268))) (Fork (Fork (Fork (Row 0) (Fork (Row 3912) (Row 4413))) (Row 0)) (Row 4721)))) (Fork (Fork
     (Fork (Fork (Row 13) (Row 4823)) (Fork (Fork (Row 0) (Fork (Row 0) (Fork (Row 98) (Row 1057)))) (Row 0))) (Fork
     (Row 0) (Fork (Fork (Row 2359) (Row 3583)) (Row 0)))) (Fork (Row 4859) (Fork (Row 0) (Fork (Fork (Row 0) (Fork
     (Row 0) (Fork (Fork (Row 0) (Fork (Row 0) (Fork (Row 3870) (Row 2216)))) (Row 0)))) (Row 3662)))))) (Fork (Fork
     (Fork (Row 465) (Fork (Row 4479) (Row 3649))) (Fork (Fork (Fork (Row 0) (Fork (Row 0) (Fork (Fork (Row 4460) (Row
     4280)) (Fork (Row 0) (Fork (Row 0) (Fork (Row 2330) (Row 1285))))))) (Fork (Row 4960) (Row 4790))) (Row 5042)))
     (Fork (Fork (Fork (Fork (Row 1798) (Row 2781)) (Row 0)) (Fork (Row 1921) (Row 1437))) (Fork (Fork (Fork (Row 0)
     (Fork (Row 1622) (Row 3100))) (Fork (Row 63) (Fork (Row 3961) (Row 4844)))) (Fork (Row 0) (Fork (Row 308) (Row
     1108))))))) (Fork (Fork (Fork (Fork (Row 1749) (Fork (Row 3218) (Row 3000))) (Fork (Fork (Fork (Fork (Row 2060)
     (Row 2996)) (Row 2658)) (Row 617)) (Row 1162))) (Fork (Fork (Row 2271) (Fork (Fork (Row 0) (Fork (Row 701) (Row
     983))) (Row 0))) (Fork (Fork (Fork (Fork (Row 4474) (Row 1937)) (Row 0)) (Row 503)) (Fork (Fork (Row 4948) (Fork
     (Fork (Row 1238) (Row 624)) (Row 14))) (Fork (Fork (Row 1035) (Row 5478)) (Row 0)))))) (Fork (Fork (Fork (Row
     2015) (Fork (Row 5195) (Fork (Row 0) (Fork (Fork (Row 5052) (Row 5344)) (Fork (Row 0) (Fork (Row 5180) (Row
     1562))))))) (Fork (Fork (Fork (Row 1598) (Fork (Row 2369) (Row 689))) (Row 0)) (Fork (Row 0) (Fork (Row 0) (Fork
     (Row 0) (Fork (Row 1307) (Row 4397))))))) (Fork (Fork (Fork (Row 3563) (Fork (Row 0) (Fork (Row 5348) (Row
     1514)))) (Fork (Fork (Row 2045) (Row 543)) (Row 2139))) (Fork (Fork (Fork (Row 2732) (Row 1768)) (Fork (Row 3988)
     (Row 3816))) (Row 2514)))))) k)"

definition find_56 :: "num \<Rightarrow> nat" where
  "find_56 k = fst (descend
     (Fork (Fork (Fork (Fork (Fork (Fork (Fork (Row 5167) (Row 3215)) (Row 4248)) (Fork (Fork (Row 3002) (Row 2939))
     (Fork (Row 4961) (Row 2874)))) (Fork (Fork (Fork (Row 0) (Fork (Row 1500) (Row 3500))) (Row 1682)) (Fork (Row 0)
     (Fork (Fork (Row 3684) (Row 496)) (Fork (Fork (Fork (Row 4473) (Row 1342)) (Row 0)) (Row 0)))))) (Fork (Fork (Row
     945) (Fork (Fork (Row 0) (Fork (Row 0) (Fork (Row 0) (Fork (Fork (Row 379) (Row 1680)) (Row 3542))))) (Row 729)))
     (Fork (Fork (Row 4699) (Row 4185)) (Row 4829)))) (Fork (Fork (Row 3530) (Fork (Fork (Row 5411) (Fork (Row 0)
     (Fork (Row 2694) (Row 2067)))) (Fork (Fork (Fork (Fork (Row 3353) (Row 3236)) (Row 2447)) (Row 0)) (Fork (Row 0)
     (Fork (Row 0) (Fork (Row 2337) (Row 1872))))))) (Fork (Fork (Fork (Row 0) (Fork (Fork (Row 4888) (Row 2779)) (Row
     0))) (Fork (Row 3274) (Row 1116))) (Fork (Row 4480) (Fork (Fork (Row 5468) (Row 2765)) (Fork (Row 4310) (Fork
     (Row 1637) (Row 4148)))))))) (Fork (Fork (Fork (Fork (Fork (Row 4917) (Fork (Row 0) (Fork (Row 0) (Fork (Row
     4944) (Row 229))))) (Row 0)) (Fork (Fork (Fork (Row 2566) (Row 185)) (Row 0)) (Fork (Fork (Fork (Row 1093) (Fork
     (Fork (Row 0) (Fork (Row 813) (Row 507))) (Row 0))) (Row 5123)) (Fork (Row 0) (Fork (Row 0) (Fork (Row 0) (Fork
     (Row 2026) (Row 1773)))))))) (Fork (Fork (Fork (Fork (Row 2649) (Row 3120)) (Row 0)) (Row 0)) (Fork (Fork (Row
     2126) (Fork (Row 788) (Row 4615))) (Fork (Row 0) (Fork (Row 261) (Row 1329)))))) (Fork (Fork (Fork (Fork (Fork
     (Row 1026) (Row 3611)) (Fork (Fork (Row 3228) (Row 758)) (Row 4268))) (Fork (Row 0) (Fork (Fork (Fork (Row 4243)
     (Row 3414)) (Row 1332)) (Row 2964)))) (Fork (Fork (Row 1159) (Row 3550)) (Fork (Row 197) (Row 3848)))) (Fork
     (Fork (Fork (Fork (Row 0) (Fork (Fork (Row 0) (Fork (Row 2395) (Row 1466))) (Row 0))) (Row 0)) (Fork (Fork (Row
     911) (Fork (Row 5364) (Row 3867))) (Fork (Row 0) (Fork (Fork (Row 3450) (Row 1766)) (Row 0))))) (Fork (Fork (Fork
     (Fork (Row 3499) (Row 2848)) (Row 2640)) (Row 0)) (Fork (Row 1532) (Row 4959))))))) k)"

definition find_57 :: "num \<Rightarrow> nat" where
  "find_57 k = fst (descend
     (Fork (Fork (Fork (Fork (Fork (Fork (Row 0) (Fork (Row 0) (Fork (Fork (Fork (Row 0) (Fork (Fork (Fork (Row 1255)
     (Row 2539)) (Row 0)) (Row 0))) (Row 3784)) (Row 0)))) (Fork (Row 1547) (Row 4816))) (Fork (Fork (Row 870) (Row
     2511)) (Fork (Fork (Fork (Row 1853) (Fork (Fork (Row 2973) (Row 5073)) (Row 0))) (Row 1418)) (Row 643)))) (Fork
     (Fork (Row 2594) (Fork (Fork (Row 1731) (Row 5481)) (Row 0))) (Fork (Fork (Fork (Row 0) (Fork (Row 5360) (Row
     11))) (Row 2230)) (Fork (Fork (Fork (Row 0) (Fork (Fork (Row 0) (Fork (Fork (Row 3166) (Row 875)) (Row 0))) (Row
     0))) (Row 1778)) (Row 0))))) (Fork (Fork (Fork (Fork (Row 3590) (Row 4858)) (Fork (Row 4458) (Row 4692))) (Fork
     (Row 207) (Fork (Fork (Row 5149) (Row 1468)) (Row 5062)))) (Fork (Fork (Fork (Fork (Row 0) (Fork (Row 2144) (Row
     3365))) (Row 2160)) (Fork (Fork (Row 4437) (Row 969)) (Row 3383))) (Fork (Row 0) (Fork (Fork (Row 4396) (Row
     2383)) (Row 3776)))))) (Fork (Fork (Fork (Fork (Fork (Fork (Fork (Row 0) (Fork (Fork (Fork (Row 0) (Fork (Row 0)
     (Fork (Row 3736) (Row 2517)))) (Row 0)) (Row 0))) (Row 0)) (Fork (Row 0) (Fork (Fork (Fork (Row 0) (Fork (Fork
     (Row 54) (Row 2416)) (Row 0))) (Row 1925)) (Fork (Fork (Fork (Row 0) (Fork (Row 1580) (Row 3813))) (Row 0)) (Row
     0))))) (Fork (Row 5259) (Fork (Fork (Row 459) (Row 4389)) (Row 0)))) (Fork (Row 0) (Fork (Fork (Row 0) (Fork (Row
     0) (Fork (Fork (Row 1783) (Row 3359)) (Row 0)))) (Row 642)))) (Fork (Fork (Row 0) (Fork (Fork (Row 0) (Fork (Row
     3622) (Row 4950))) (Row 1052))) (Fork (Fork (Fork (Row 1076) (Row 4512)) (Row 400)) (Fork (Row 2985) (Fork (Row
     1817) (Fork (Fork (Row 0) (Fork (Row 260) (Row 2107))) (Row 0))))))) (Fork (Fork (Fork (Fork (Fork (Row 198)
     (Fork (Row 3632) (Row 2331))) (Fork (Row 3642) (Row 4553))) (Fork (Row 0) (Fork (Row 2830) (Row 4173)))) (Fork
     (Fork (Row 1728) (Fork (Row 175) (Row 3202))) (Fork (Fork (Fork (Row 5253) (Row 2031)) (Row 5446)) (Fork (Row 0)
     (Fork (Row 2056) (Row 1762)))))) (Fork (Fork (Row 0) (Fork (Fork (Fork (Row 5251) (Row 5457)) (Fork (Fork (Row
     3901) (Row 775)) (Row 0))) (Row 156))) (Fork (Fork (Row 3948) (Fork (Fork (Row 3328) (Row 907)) (Row 0))) (Fork
     (Fork (Row 1947) (Row 2225)) (Row 0))))))) k)"

definition find_58 :: "num \<Rightarrow> nat" where
  "find_58 k = fst (descend
     (Fork (Fork (Fork (Fork (Fork (Fork (Fork (Fork (Fork (Row 4324) (Row 4625)) (Row 2627)) (Row 0)) (Row 0)) (Fork
     (Fork (Fork (Fork (Row 2235) (Row 109)) (Row 0)) (Row 3466)) (Row 840))) (Fork (Row 819) (Row 5219))) (Fork (Fork
     (Fork (Fork (Row 0) (Fork (Fork (Row 0) (Fork (Row 2559) (Row 5170))) (Row 0))) (Fork (Row 1765) (Fork (Fork (Row
     3095) (Row 3524)) (Row 0)))) (Fork (Row 0) (Fork (Fork (Row 3624) (Row 4560)) (Row 0)))) (Fork (Row 1389) (Fork
     (Row 562) (Row 1938))))) (Fork (Fork (Fork (Fork (Fork (Fork (Row 0) (Fork (Row 3634) (Row 4181))) (Row 1871))
     (Fork (Row 0) (Fork (Row 0) (Fork (Row 0) (Fork (Row 0) (Fork (Row 0) (Fork (Row 4815) (Row 1734)))))))) (Fork
     (Row 4231) (Row 1834))) (Fork (Fork (Row 707) (Row 3726)) (Row 0))) (Fork (Fork (Row 0) (Fork (Fork (Fork (Row 0)
     (Fork (Row 2919) (Row 2309))) (Fork (Row 4395) (Row 2628))) (Fork (Row 0) (Fork (Fork (Row 5122) (Row 3526)) (Row
     2311))))) (Fork (Fork (Fork (Row 3054) (Row 2762)) (Row 0)) (Row 0))))) (Fork (Fork (Fork (Fork (Fork (Row 3966)
     (Fork (Fork (Fork (Fork (Row 0) (Fork (Row 4489) (Row 2297))) (Row 0)) (Fork (Row 2886) (Row 4505))) (Row 1499)))
     (Fork (Row 3990) (Fork (Row 3545) (Fork (Row 2620) (Row 1212))))) (Row 0)) (Fork (Fork (Fork (Row 0) (Fork (Row
     0) (Fork (Fork (Fork (Row 785) (Row 2458)) (Row 0)) (Row 0)))) (Row 181)) (Fork (Row 1027) (Fork (Fork (Row 0)
     (Fork (Row 4110) (Row 5215))) (Fork (Row 4578) (Fork (Fork (Row 1685) (Row 2401)) (Row 0))))))) (Fork (Fork (Fork
     (Row 5024) (Fork (Fork (Row 0) (Fork (Fork (Fork (Row 5) (Row 706)) (Row 0)) (Row 0))) (Row 4295))) (Fork (Row
     4986) (Row 2838))) (Fork (Fork (Fork (Row 4391) (Fork (Fork (Row 644) (Fork (Row 2295) (Row 2906))) (Row 0)))
     (Fork (Row 4529) (Fork (Row 2222) (Row 2935)))) (Fork (Fork (Fork (Row 1528) (Row 869)) (Fork (Fork (Fork (Row 0)
     (Fork (Row 167) (Row 5405))) (Row 0)) (Row 5030))) (Fork (Row 0) (Fork (Row 4731) (Fork (Fork (Row 0) (Fork (Row
     5071) (Row 2289))) (Row 0))))))))) k)"

definition find_59 :: "num \<Rightarrow> nat" where
  "find_59 k = fst (descend
     (Fork (Fork (Fork (Fork (Fork (Fork (Fork (Fork (Row 0) (Fork (Fork (Row 1373) (Row 2942)) (Row 5323))) (Row
     2984)) (Row 4012)) (Fork (Row 5021) (Fork (Row 0) (Fork (Fork (Row 0) (Fork (Row 516) (Row 1275))) (Row 4723)))))
     (Fork (Fork (Fork (Fork (Fork (Row 1556) (Row 162)) (Row 4837)) (Row 0)) (Row 970)) (Row 955))) (Fork (Fork (Fork
     (Row 1941) (Fork (Fork (Fork (Fork (Fork (Row 464) (Row 2853)) (Row 0)) (Row 0)) (Row 0)) (Row 1699))) (Fork (Row
     2306) (Row 5448))) (Fork (Fork (Row 450) (Row 4759)) (Fork (Row 1653) (Fork (Row 1546) (Row 2616)))))) (Fork
     (Fork (Fork (Fork (Fork (Row 3477) (Fork (Fork (Row 2242) (Row 2352)) (Row 0))) (Row 3401)) (Fork (Fork (Row
     2354) (Row 4668)) (Row 5257))) (Fork (Fork (Row 5314) (Fork (Row 0) (Fork (Row 1865) (Row 2560)))) (Fork (Fork
     (Row 5012) (Row 2438)) (Row 0)))) (Fork (Fork (Row 0) (Fork (Fork (Fork (Row 3599) (Row 4180)) (Row 0)) (Row
     3566))) (Fork (Row 208) (Fork (Row 0) (Fork (Row 1793) (Fork (Row 3451) (Row 3708)))))))) (Fork (Fork (Fork (Fork
     (Fork (Row 0) (Fork (Row 5148) (Fork (Row 5464) (Row 1078)))) (Fork (Row 0) (Fork (Row 0) (Fork (Row 1228) (Row
     325))))) (Fork (Fork (Fork (Fork (Row 2661) (Fork (Row 2133) (Row 633))) (Fork (Row 2194) (Row 1740))) (Fork (Row
     4999) (Row 2730))) (Fork (Row 4807) (Fork (Row 3141) (Row 2251))))) (Fork (Fork (Fork (Row 0) (Fork (Row 1991)
     (Row 423))) (Fork (Row 4971) (Fork (Row 0) (Fork (Fork (Row 2814) (Row 3395)) (Row 0))))) (Fork (Fork (Row 1873)
     (Fork (Fork (Row 1339) (Row 5372)) (Row 3084))) (Row 2367)))) (Fork (Fork (Fork (Row 1985) (Row 2465)) (Fork
     (Fork (Fork (Row 0) (Fork (Row 3009) (Row 3637))) (Fork (Row 2847) (Fork (Row 3860) (Row 2390)))) (Row 952)))
     (Fork (Row 4873) (Fork (Fork (Row 1797) (Row 2767)) (Fork (Fork (Row 5091) (Row 2826)) (Row 3139))))))) k)"

definition find_60 :: "num \<Rightarrow> nat" where
  "find_60 k = fst (descend
     (Fork (Fork (Fork (Fork (Fork (Fork (Row 3834) (Row 1503)) (Fork (Fork (Row 302) (Fork (Fork (Row 0) (Fork (Row
     1413) (Row 342))) (Row 0))) (Row 717))) (Fork (Fork (Row 990) (Row 5393)) (Row 2794))) (Fork (Fork (Row 1601)
     (Fork (Fork (Row 0) (Fork (Fork (Row 1754) (Row 1412)) (Row 0))) (Fork (Fork (Row 426) (Row 5150)) (Row 0))))
     (Fork (Fork (Fork (Row 4610) (Row 1746)) (Row 0)) (Fork (Row 0) (Fork (Fork (Row 2443) (Row 1008)) (Row 483))))))
     (Fork (Fork (Fork (Fork (Row 0) (Fork (Fork (Row 0) (Fork (Row 724) (Row 4983))) (Row 0))) (Fork (Row 2267) (Row
     1138))) (Fork (Fork (Fork (Row 307) (Row 2452)) (Row 5173)) (Row 4071))) (Fork (Fork (Fork (Fork (Fork (Row 1144)
     (Row 593)) (Row 0)) (Fork (Row 4579) (Row 3943))) (Fork (Row 353) (Row 618))) (Fork (Fork (Fork (Row 0) (Fork
     (Fork (Row 1446) (Row 4385)) (Row 4470))) (Row 2946)) (Fork (Fork (Fork (Row 5115) (Row 514)) (Row 3030)) (Row
     3490)))))) (Fork (Fork (Fork (Fork (Fork (Fork (Fork (Row 3937) (Row 4240)) (Fork (Row 1376) (Row 2740))) (Fork
     (Fork (Fork (Row 0) (Fork (Row 0) (Fork (Row 0) (Fork (Fork (Row 5336) (Row 3302)) (Row 0))))) (Row 0)) (Row 0)))
     (Fork (Row 2953) (Row 4428))) (Fork (Row 2386) (Fork (Fork (Fork (Row 2880) (Fork (Row 3762) (Row 1533))) (Row
     0)) (Row 2966)))) (Fork (Fork (Fork (Fork (Row 3240) (Fork (Fork (Row 1815) (Row 768)) (Row 0))) (Fork (Row 3587)
     (Fork (Fork (Row 3408) (Row 3342)) (Row 0)))) (Row 4152)) (Fork (Fork (Row 4239) (Row 3573)) (Row 3185)))) (Fork
     (Fork (Fork (Fork (Row 0) (Fork (Row 0) (Fork (Row 0) (Fork (Row 0) (Fork (Fork (Row 5423) (Row 3242)) (Row
     0)))))) (Fork (Row 0) (Fork (Row 0) (Fork (Row 4558) (Row 4305))))) (Fork (Fork (Fork (Row 0) (Fork (Fork (Row 0)
     (Fork (Row 0) (Fork (Row 1160) (Row 5065)))) (Row 0))) (Fork (Row 3042) (Row 3473))) (Fork (Fork (Fork (Row 0)
     (Fork (Fork (Fork (Row 2917) (Row 4510)) (Row 0)) (Row 750))) (Row 2253)) (Row 0)))) (Fork (Fork (Row 3922) (Row
     4974)) (Fork (Fork (Fork (Fork (Fork (Row 1242) (Row 1481)) (Row 0)) (Fork (Row 0) (Fork (Row 0) (Fork (Row 2298)
     (Row 1340))))) (Row 3296)) (Fork (Fork (Row 3071) (Row 1042)) (Row 1286))))))) k)"

definition find_61 :: "num \<Rightarrow> nat" where
  "find_61 k = fst (descend
     (Fork (Fork (Fork (Fork (Fork (Fork (Row 0) (Fork (Row 4386) (Row 4005))) (Fork (Row 594) (Fork (Row 3918) (Row
     2302)))) (Fork (Fork (Fork (Fork (Fork (Row 2410) (Row 3720)) (Row 0)) (Row 1005)) (Row 3378)) (Fork (Fork (Row
     1885) (Fork (Row 4976) (Fork (Fork (Row 0) (Fork (Fork (Fork (Row 2128) (Row 3719)) (Row 0)) (Row 0))) (Row 0))))
     (Row 2822)))) (Fork (Fork (Fork (Row 0) (Fork (Fork (Row 1399) (Row 2729)) (Fork (Row 0) (Fork (Row 1804) (Row
     5452))))) (Fork (Row 2083) (Row 2713))) (Fork (Fork (Row 0) (Fork (Row 672) (Row 3199))) (Fork (Fork (Row 3681)
     (Fork (Fork (Row 5061) (Row 1674)) (Row 2982))) (Fork (Row 0) (Fork (Row 0) (Fork (Row 0) (Fork (Row 0) (Fork
     (Row 1000) (Row 380)))))))))) (Fork (Fork (Fork (Fork (Fork (Fork (Fork (Fork (Row 2959) (Row 2811)) (Row 0))
     (Row 2391)) (Row 1251)) (Fork (Row 0) (Fork (Fork (Fork (Row 0) (Fork (Fork (Row 0) (Fork (Row 0) (Fork (Row 953)
     (Row 1405)))) (Row 0))) (Row 0)) (Row 3862)))) (Row 3164)) (Fork (Row 4208) (Fork (Row 0) (Fork (Fork (Fork (Row
     0) (Fork (Row 5139) (Row 447))) (Row 0)) (Row 0))))) (Fork (Fork (Fork (Fork (Row 2393) (Row 1417)) (Row 0))
     (Fork (Fork (Row 0) (Fork (Row 1013) (Row 2379))) (Row 1838))) (Fork (Fork (Row 0) (Fork (Row 1491) (Row 2909)))
     (Fork (Row 430) (Fork (Row 2697) (Row 2428))))))) (Fork (Fork (Fork (Fork (Fork (Fork (Row 2743) (Fork (Fork (Row
     3264) (Row 3897)) (Row 0))) (Fork (Fork (Row 4659) (Row 2717)) (Fork (Row 0) (Fork (Row 0) (Fork (Row 0) (Fork
     (Row 5444) (Row 4102))))))) (Fork (Fork (Row 1738) (Row 736)) (Fork (Fork (Row 1048) (Row 1489)) (Fork (Fork
     (Fork (Row 4300) (Row 1517)) (Row 2650)) (Row 3347))))) (Fork (Fork (Fork (Row 5242) (Row 3596)) (Fork (Row 2803)
     (Row 1392))) (Fork (Row 0) (Fork (Row 0) (Fork (Row 2245) (Row 4647)))))) (Fork (Row 2444) (Fork (Fork (Fork
     (Fork (Row 5109) (Row 3787)) (Row 3950)) (Fork (Fork (Fork (Row 515) (Row 4949)) (Row 0)) (Row 0))) (Fork (Fork
     (Row 5208) (Fork (Row 2931) (Fork (Fork (Row 183) (Row 1411)) (Row 0)))) (Row 3735))))) (Fork (Fork (Fork (Row
     3576) (Fork (Fork (Fork (Row 5234) (Row 3425)) (Row 4551)) (Fork (Fork (Row 114) (Fork (Row 0) (Fork (Row 2013)
     (Row 4296)))) (Row 0)))) (Fork (Row 0) (Fork (Row 0) (Fork (Row 3781) (Fork (Row 5345) (Row 3836)))))) (Fork
     (Fork (Fork (Fork (Row 4941) (Row 3686)) (Row 0)) (Row 5297)) (Fork (Fork (Row 0) (Fork (Fork (Row 836) (Row
     2522)) (Row 0))) (Row 1062)))))) k)"

definition find_62 :: "num \<Rightarrow> nat" where
  "find_62 k = fst (descend
     (Fork (Fork (Fork (Fork (Fork (Row 0) (Fork (Row 5243) (Row 809))) (Fork (Fork (Row 0) (Fork (Row 754) (Row
     5187))) (Fork (Row 0) (Fork (Fork (Row 3127) (Row 2070)) (Row 0))))) (Fork (Fork (Fork (Row 0) (Fork (Row 0)
     (Fork (Fork (Row 3878) (Row 686)) (Row 0)))) (Fork (Row 0) (Fork (Fork (Row 3118) (Row 5241)) (Row 0)))) (Fork
     (Row 1595) (Fork (Row 52) (Row 2977))))) (Fork (Fork (Fork (Fork (Row 0) (Fork (Row 2653) (Row 5080))) (Fork
     (Fork (Row 4388) (Row 2883)) (Row 1254))) (Fork (Row 163) (Fork (Row 0) (Fork (Row 3753) (Row 555))))) (Fork
     (Fork (Fork (Fork (Fork (Row 2608) (Row 2229)) (Row 0)) (Row 5044)) (Fork (Fork (Row 4272) (Row 1505)) (Row 0)))
     (Fork (Fork (Fork (Fork (Row 2348) (Fork (Row 2957) (Row 3492))) (Row 0)) (Fork (Row 489) (Row 4077))) (Row
     2350))))) (Fork (Fork (Fork (Row 0) (Fork (Fork (Row 5337) (Fork (Fork (Fork (Row 2184) (Row 715)) (Row 262))
     (Row 0))) (Fork (Row 2437) (Fork (Row 1524) (Row 621))))) (Fork (Row 0) (Fork (Fork (Row 0) (Fork (Row 0) (Fork
     (Row 4441) (Fork (Fork (Row 0) (Fork (Row 0) (Fork (Row 556) (Row 4890)))) (Row 0))))) (Fork (Fork (Row 0) (Fork
     (Row 3991) (Fork (Row 4291) (Row 3420)))) (Row 0))))) (Fork (Fork (Fork (Row 4387) (Fork (Fork (Row 0) (Fork (Row
     3794) (Row 4013))) (Fork (Row 5116) (Row 2531)))) (Fork (Fork (Row 4223) (Fork (Row 439) (Fork (Row 3521) (Row
     2538)))) (Fork (Row 4665) (Fork (Fork (Row 0) (Fork (Row 4150) (Row 4754))) (Row 0))))) (Fork (Fork (Fork (Fork
     (Fork (Row 3269) (Row 4911)) (Row 0)) (Fork (Fork (Fork (Row 4374) (Row 2774)) (Row 0)) (Row 3326))) (Fork (Fork
     (Row 508) (Row 3327)) (Fork (Row 3618) (Fork (Row 3406) (Row 519))))) (Fork (Row 1955) (Fork (Row 0) (Fork (Row
     3033) (Row 692)))))))) k)"

definition find_63 :: "num \<Rightarrow> nat" where
  "find_63 k = fst (descend
     (Fork (Fork (Fork (Fork (Fork (Fork (Row 3593) (Fork (Row 2010) (Row 3056))) (Row 0)) (Fork (Fork (Row 5285)
     (Fork (Fork (Row 0) (Fork (Row 0) (Fork (Fork (Fork (Row 427) (Row 3440)) (Row 0)) (Row 0)))) (Row 0))) (Fork
     (Row 2545) (Row 3933)))) (Fork (Fork (Fork (Row 2388) (Fork (Row 771) (Row 4715))) (Fork (Fork (Fork (Row 4364)
     (Row 284)) (Row 0)) (Fork (Row 3537) (Fork (Row 2755) (Row 2340))))) (Fork (Fork (Row 0) (Fork (Row 4954) (Fork
     (Row 3156) (Row 324)))) (Row 4319)))) (Fork (Fork (Fork (Fork (Fork (Row 3839) (Row 4149)) (Row 0)) (Fork (Row
     5224) (Fork (Fork (Fork (Row 1553) (Row 669)) (Row 1386)) (Row 1)))) (Fork (Fork (Row 4767) (Fork (Fork (Fork
     (Fork (Row 4499) (Fork (Row 3514) (Row 4673))) (Row 0)) (Row 0)) (Row 1336))) (Row 0))) (Fork (Fork (Fork (Fork
     (Row 4677) (Row 4287)) (Row 1616)) (Row 1084)) (Fork (Fork (Row 502) (Row 1701)) (Fork (Row 3761) (Fork (Fork
     (Row 0) (Fork (Row 2300) (Row 675))) (Row 0))))))) (Fork (Fork (Fork (Fork (Row 1055) (Fork (Fork (Row 2241) (Row
     3674)) (Row 292))) (Fork (Fork (Fork (Fork (Fork (Row 2710) (Row 4201)) (Row 0)) (Row 5341)) (Fork (Row 4786)
     (Row 131))) (Fork (Row 0) (Fork (Row 0) (Fork (Fork (Row 0) (Fork (Row 374) (Row 1647))) (Row 0)))))) (Fork (Fork
     (Fork (Row 951) (Row 2975)) (Fork (Fork (Row 4904) (Row 3335)) (Fork (Fork (Row 0) (Fork (Row 2492) (Row 1353)))
     (Row 2927)))) (Fork (Fork (Fork (Fork (Row 0) (Fork (Row 2829) (Row 1727))) (Fork (Row 0) (Fork (Row 1882) (Row
     147)))) (Fork (Fork (Fork (Row 0) (Fork (Row 5301) (Row 5291))) (Row 0)) (Row 0))) (Row 1124)))) (Fork (Fork
     (Fork (Fork (Row 2132) (Fork (Row 1180) (Row 1071))) (Fork (Fork (Fork (Row 4176) (Row 2288)) (Fork (Fork (Fork
     (Row 4274) (Row 1644)) (Row 0)) (Row 0))) (Fork (Row 1629) (Row 2305)))) (Fork (Fork (Fork (Fork (Row 74) (Row
     194)) (Row 0)) (Row 1443)) (Fork (Fork (Row 0) (Fork (Fork (Row 4487) (Row 2368)) (Row 0))) (Row 0)))) (Fork
     (Fork (Fork (Fork (Row 0) (Fork (Row 0) (Fork (Row 0) (Fork (Row 0) (Fork (Fork (Row 3251) (Row 5404)) (Row
     0)))))) (Fork (Row 468) (Row 2625))) (Fork (Fork (Row 4856) (Fork (Row 0) (Fork (Row 1906) (Row 1540)))) (Row
     2981))) (Fork (Fork (Fork (Fork (Row 3947) (Row 518)) (Fork (Fork (Row 0) (Fork (Row 4642) (Row 301))) (Row
     4830))) (Row 4087)) (Fork (Fork (Fork (Row 5111) (Row 485)) (Row 0)) (Fork (Row 3424) (Row 2817)))))))) k)"

definition find_row :: "nat \<Rightarrow> nat" where
  "find_row a = (case descend
     (Fork (Fork (Fork (Fork (Fork (Fork (Row find_00) (Row find_32)) (Fork (Row find_16) (Row find_48))) (Fork (Fork
     (Row find_08) (Row find_40)) (Fork (Row find_24) (Row find_56)))) (Fork (Fork (Fork (Row find_04) (Row find_36))
     (Fork (Row find_20) (Row find_52))) (Fork (Fork (Row find_12) (Row find_44)) (Fork (Row find_28) (Row
     find_60))))) (Fork (Fork (Fork (Fork (Row find_02) (Row find_34)) (Fork (Row find_18) (Row find_50))) (Fork (Fork
     (Row find_10) (Row find_42)) (Fork (Row find_26) (Row find_58)))) (Fork (Fork (Fork (Row find_06) (Row find_38))
     (Fork (Row find_22) (Row find_54))) (Fork (Fork (Row find_14) (Row find_46)) (Fork (Row find_30) (Row
     find_62)))))) (Fork (Fork (Fork (Fork (Fork (Row find_01) (Row find_33)) (Fork (Row find_17) (Row find_49)))
     (Fork (Fork (Row find_09) (Row find_41)) (Fork (Row find_25) (Row find_57)))) (Fork (Fork (Fork (Row find_05)
     (Row find_37)) (Fork (Row find_21) (Row find_53))) (Fork (Fork (Row find_13) (Row find_45)) (Fork (Row find_29)
     (Row find_61))))) (Fork (Fork (Fork (Fork (Row find_03) (Row find_35)) (Fork (Row find_19) (Row find_51))) (Fork
     (Fork (Row find_11) (Row find_43)) (Fork (Row find_27) (Row find_59)))) (Fork (Fork (Fork (Row find_07) (Row
     find_39)) (Fork (Row find_23) (Row find_55))) (Fork (Fork (Row find_15) (Row find_47)) (Fork (Row find_31) (Row
     find_63)))))))
     (num_of_nat a) of (f, k) \<Rightarrow> f k)"

lemmas find_row_defs =
  find_row_def find_00_def find_01_def find_02_def find_03_def find_04_def find_05_def find_06_def
  find_07_def find_08_def find_09_def find_10_def find_11_def find_12_def find_13_def find_14_def
  find_15_def find_16_def find_17_def find_18_def find_19_def find_20_def find_21_def find_22_def
  find_23_def find_24_def find_25_def find_26_def find_27_def find_28_def find_29_def find_30_def
  find_31_def find_32_def find_33_def find_34_def find_35_def find_36_def find_37_def find_38_def
  find_39_def find_40_def find_41_def find_42_def find_43_def find_44_def find_45_def find_46_def
  find_47_def find_48_def find_49_def find_50_def find_51_def find_52_def find_53_def find_54_def
  find_55_def find_56_def find_57_def find_58_def find_59_def find_60_def find_61_def find_62_def
  find_63_def

section \<open>Checking the rows\<close>

text \<open>The rows from \<open>i\<close> on are found where they are; addresses fit 160 bits, balances are positive.\<close>

fun rows_from :: "nat \<Rightarrow> (nat \<times> balance) list \<Rightarrow> bool" where
  "rows_from i [] = True"
| "rows_from i ((a, n) # xs) =
     (find_row a = i \<and> a < 1461501637330902918203684832716283019655932542976 \<and> 0 < n \<and> rows_from (i + 1) xs)"

lemma rows_00: "rows_from 0 claims_data_00"
  by (simp add: claims_data_00_def find_row_defs)

lemma rows_01: "rows_from 150 claims_data_01"
  by (simp add: claims_data_01_def find_row_defs)

lemma rows_02: "rows_from 300 claims_data_02"
  by (simp add: claims_data_02_def find_row_defs)

lemma rows_03: "rows_from 450 claims_data_03"
  by (simp add: claims_data_03_def find_row_defs)

lemma rows_04: "rows_from 600 claims_data_04"
  by (simp add: claims_data_04_def find_row_defs)

lemma rows_05: "rows_from 750 claims_data_05"
  by (simp add: claims_data_05_def find_row_defs)

lemma rows_06: "rows_from 900 claims_data_06"
  by (simp add: claims_data_06_def find_row_defs)

lemma rows_07: "rows_from 1050 claims_data_07"
  by (simp add: claims_data_07_def find_row_defs)

lemma rows_08: "rows_from 1200 claims_data_08"
  by (simp add: claims_data_08_def find_row_defs)

lemma rows_09: "rows_from 1350 claims_data_09"
  by (simp add: claims_data_09_def find_row_defs)

lemma rows_10: "rows_from 1500 claims_data_10"
  by (simp add: claims_data_10_def find_row_defs)

lemma rows_11: "rows_from 1650 claims_data_11"
  by (simp add: claims_data_11_def find_row_defs)

lemma rows_12: "rows_from 1800 claims_data_12"
  by (simp add: claims_data_12_def find_row_defs)

lemma rows_13: "rows_from 1950 claims_data_13"
  by (simp add: claims_data_13_def find_row_defs)

lemma rows_14: "rows_from 2100 claims_data_14"
  by (simp add: claims_data_14_def find_row_defs)

lemma rows_15: "rows_from 2250 claims_data_15"
  by (simp add: claims_data_15_def find_row_defs)

lemma rows_16: "rows_from 2400 claims_data_16"
  by (simp add: claims_data_16_def find_row_defs)

lemma rows_17: "rows_from 2550 claims_data_17"
  by (simp add: claims_data_17_def find_row_defs)

lemma rows_18: "rows_from 2700 claims_data_18"
  by (simp add: claims_data_18_def find_row_defs)

lemma rows_19: "rows_from 2850 claims_data_19"
  by (simp add: claims_data_19_def find_row_defs)

lemma rows_20: "rows_from 3000 claims_data_20"
  by (simp add: claims_data_20_def find_row_defs)

lemma rows_21: "rows_from 3150 claims_data_21"
  by (simp add: claims_data_21_def find_row_defs)

lemma rows_22: "rows_from 3300 claims_data_22"
  by (simp add: claims_data_22_def find_row_defs)

lemma rows_23: "rows_from 3450 claims_data_23"
  by (simp add: claims_data_23_def find_row_defs)

lemma rows_24: "rows_from 3600 claims_data_24"
  by (simp add: claims_data_24_def find_row_defs)

lemma rows_25: "rows_from 3750 claims_data_25"
  by (simp add: claims_data_25_def find_row_defs)

lemma rows_26: "rows_from 3900 claims_data_26"
  by (simp add: claims_data_26_def find_row_defs)

lemma rows_27: "rows_from 4050 claims_data_27"
  by (simp add: claims_data_27_def find_row_defs)

lemma rows_28: "rows_from 4200 claims_data_28"
  by (simp add: claims_data_28_def find_row_defs)

lemma rows_29: "rows_from 4350 claims_data_29"
  by (simp add: claims_data_29_def find_row_defs)

lemma rows_30: "rows_from 4500 claims_data_30"
  by (simp add: claims_data_30_def find_row_defs)

lemma rows_31: "rows_from 4650 claims_data_31"
  by (simp add: claims_data_31_def find_row_defs)

lemma rows_32: "rows_from 4800 claims_data_32"
  by (simp add: claims_data_32_def find_row_defs)

lemma rows_33: "rows_from 4950 claims_data_33"
  by (simp add: claims_data_33_def find_row_defs)

lemma rows_34: "rows_from 5100 claims_data_34"
  by (simp add: claims_data_34_def find_row_defs)

lemma rows_35: "rows_from 5250 claims_data_35"
  by (simp add: claims_data_35_def find_row_defs)

lemma rows_36: "rows_from 5400 claims_data_36"
  by (simp add: claims_data_36_def find_row_defs)

lemma size_00: "length claims_data_00 = 150 \<and> sum_list (map snd claims_data_00) = 26072216738042443861"
  by (simp add: claims_data_00_def)

lemma size_01: "length claims_data_01 = 150 \<and> sum_list (map snd claims_data_01) = 30270374769808806413"
  by (simp add: claims_data_01_def)

lemma size_02: "length claims_data_02 = 150 \<and> sum_list (map snd claims_data_02) = 27682819386801236675"
  by (simp add: claims_data_02_def)

lemma size_03: "length claims_data_03 = 150 \<and> sum_list (map snd claims_data_03) = 21262054051843891017"
  by (simp add: claims_data_03_def)

lemma size_04: "length claims_data_04 = 150 \<and> sum_list (map snd claims_data_04) = 28854990211916558406"
  by (simp add: claims_data_04_def)

lemma size_05: "length claims_data_05 = 150 \<and> sum_list (map snd claims_data_05) = 17047147309179915952"
  by (simp add: claims_data_05_def)

lemma size_06: "length claims_data_06 = 150 \<and> sum_list (map snd claims_data_06) = 20883433290290165573"
  by (simp add: claims_data_06_def)

lemma size_07: "length claims_data_07 = 150 \<and> sum_list (map snd claims_data_07) = 15099392441441798283"
  by (simp add: claims_data_07_def)

lemma size_08: "length claims_data_08 = 150 \<and> sum_list (map snd claims_data_08) = 9561204748183588977"
  by (simp add: claims_data_08_def)

lemma size_09: "length claims_data_09 = 150 \<and> sum_list (map snd claims_data_09) = 8998618106790387642"
  by (simp add: claims_data_09_def)

lemma size_10: "length claims_data_10 = 150 \<and> sum_list (map snd claims_data_10) = 10282873824624815204"
  by (simp add: claims_data_10_def)

lemma size_11: "length claims_data_11 = 150 \<and> sum_list (map snd claims_data_11) = 7528273375318880495"
  by (simp add: claims_data_11_def)

lemma size_12: "length claims_data_12 = 150 \<and> sum_list (map snd claims_data_12) = 7513893621104628352"
  by (simp add: claims_data_12_def)

lemma size_13: "length claims_data_13 = 150 \<and> sum_list (map snd claims_data_13) = 7740301984595418781"
  by (simp add: claims_data_13_def)

lemma size_14: "length claims_data_14 = 150 \<and> sum_list (map snd claims_data_14) = 9917380308708968614"
  by (simp add: claims_data_14_def)

lemma size_15: "length claims_data_15 = 150 \<and> sum_list (map snd claims_data_15) = 10799652416427891737"
  by (simp add: claims_data_15_def)

lemma size_16: "length claims_data_16 = 150 \<and> sum_list (map snd claims_data_16) = 17733272476388033930"
  by (simp add: claims_data_16_def)

lemma size_17: "length claims_data_17 = 150 \<and> sum_list (map snd claims_data_17) = 12278988171518239154"
  by (simp add: claims_data_17_def)

lemma size_18: "length claims_data_18 = 150 \<and> sum_list (map snd claims_data_18) = 9092248243336383201"
  by (simp add: claims_data_18_def)

lemma size_19: "length claims_data_19 = 150 \<and> sum_list (map snd claims_data_19) = 22887047076861528044"
  by (simp add: claims_data_19_def)

lemma size_20: "length claims_data_20 = 150 \<and> sum_list (map snd claims_data_20) = 6567988677832556288"
  by (simp add: claims_data_20_def)

lemma size_21: "length claims_data_21 = 150 \<and> sum_list (map snd claims_data_21) = 9130253322123070799"
  by (simp add: claims_data_21_def)

lemma size_22: "length claims_data_22 = 150 \<and> sum_list (map snd claims_data_22) = 9770342042155720717"
  by (simp add: claims_data_22_def)

lemma size_23: "length claims_data_23 = 150 \<and> sum_list (map snd claims_data_23) = 7526297032317205732"
  by (simp add: claims_data_23_def)

lemma size_24: "length claims_data_24 = 150 \<and> sum_list (map snd claims_data_24) = 9068198220407542833"
  by (simp add: claims_data_24_def)

lemma size_25: "length claims_data_25 = 150 \<and> sum_list (map snd claims_data_25) = 5375161836901420701"
  by (simp add: claims_data_25_def)

lemma size_26: "length claims_data_26 = 150 \<and> sum_list (map snd claims_data_26) = 8851522867947206048"
  by (simp add: claims_data_26_def)

lemma size_27: "length claims_data_27 = 150 \<and> sum_list (map snd claims_data_27) = 10260218738725003173"
  by (simp add: claims_data_27_def)

lemma size_28: "length claims_data_28 = 150 \<and> sum_list (map snd claims_data_28) = 7322109261507047836"
  by (simp add: claims_data_28_def)

lemma size_29: "length claims_data_29 = 150 \<and> sum_list (map snd claims_data_29) = 4357851037708737068"
  by (simp add: claims_data_29_def)

lemma size_30: "length claims_data_30 = 150 \<and> sum_list (map snd claims_data_30) = 13836612096777991136"
  by (simp add: claims_data_30_def)

lemma size_31: "length claims_data_31 = 150 \<and> sum_list (map snd claims_data_31) = 5198932112987391673"
  by (simp add: claims_data_31_def)

lemma size_32: "length claims_data_32 = 150 \<and> sum_list (map snd claims_data_32) = 6464188734943149340"
  by (simp add: claims_data_32_def)

lemma size_33: "length claims_data_33 = 150 \<and> sum_list (map snd claims_data_33) = 11353975973102849811"
  by (simp add: claims_data_33_def)

lemma size_34: "length claims_data_34 = 150 \<and> sum_list (map snd claims_data_34) = 5571375108127488176"
  by (simp add: claims_data_34_def)

lemma size_35: "length claims_data_35 = 150 \<and> sum_list (map snd claims_data_35) = 840859458422672687"
  by (simp add: claims_data_35_def)

lemma size_36: "length claims_data_36 = 86 \<and> sum_list (map snd claims_data_36) = 124461453531480729"
  by (simp add: claims_data_36_def)

lemmas rows_checked =
  rows_00 rows_01 rows_02 rows_03 rows_04 rows_05 rows_06 rows_07 rows_08 rows_09 rows_10 rows_11
  rows_12 rows_13 rows_14 rows_15 rows_16 rows_17 rows_18 rows_19 rows_20 rows_21 rows_22 rows_23
  rows_24 rows_25 rows_26 rows_27 rows_28 rows_29 rows_30 rows_31 rows_32 rows_33 rows_34 rows_35
  rows_36

lemmas rows_sized =
  size_00 size_01 size_02 size_03 size_04 size_05 size_06 size_07 size_08 size_09 size_10 size_11
  size_12 size_13 size_14 size_15 size_16 size_17 size_18 size_19 size_20 size_21 size_22 size_23
  size_24 size_25 size_26 size_27 size_28 size_29 size_30 size_31 size_32 size_33 size_34 size_35
  size_36

end
