(* ===== verification/Claims_Import.thy ===== *)
theory Claims_Import
  imports Claims_Props Claims_Index
begin

text \<open>
  The import of the claims table by the runtime upgrade: the addresses of the table are pairwise
  different, the table owes a fixed sum, and the migration records exactly its rows.
\<close>

section \<open>The rows of the table\<close>

lemma rows_from_append: "rows_from i (xs @ ys) \<longleftrightarrow> rows_from i xs \<and> rows_from (i + length xs) ys"
  by (induction xs arbitrary: i) auto

lemma rows_from_found: "rows_from i xs \<Longrightarrow> map find_row (map fst xs) = [i..<i + length xs]"
proof (induction xs arbitrary: i)
  case (Cons x xs)
  obtain a n where x: "x = (a, n)" by fastforce
  with Cons.prems have "find_row a = i" "rows_from (Suc i) xs" by simp_all
  note this(1) and Cons.IH [OF this(2)]
  moreover have "[i..<i + length (x # xs)] = i # [Suc i..<Suc i + length xs]" by (simp add: upt_rec)
  ultimately show ?case unfolding x by (simp only: list.map fst_conv)
qed simp

lemma rows_from_row: "rows_from i xs \<Longrightarrow> (a, n) \<in> set xs \<Longrightarrow> a < 2 ^ 160 \<and> 0 < n"
  by (induction xs arbitrary: i) auto

lemma claims_rows_checked: "rows_from 0 claims_rows"
  by (simp add: claims_rows_def rows_from_append rows_sized rows_checked)

lemma claims_rows_length: "length claims_rows = 5486"
  by (simp add: claims_rows_def rows_sized)

lemma claims_rows_total: "sum_list (map snd claims_rows) = 443126530528702115058"
  by (simp add: claims_rows_def rows_sized)

lemma claims_rows_distinct: "distinct (map fst claims_rows)"
proof -
  have "distinct (map find_row (map fst claims_rows))"
    unfolding rows_from_found [OF claims_rows_checked] by simp
  then show ?thesis by (simp only: distinct_map)
qed

lemma claims_row_bounds: "(a, n) \<in> set claims_rows \<Longrightarrow> a < 2 ^ 160 \<and> 0 < n"
  using claims_rows_checked by (rule rows_from_row)

section \<open>Addresses\<close>

lemma length_big_endian [simp]: "length (big_endian k n) = k"
  by (induction k arbitrary: n) simp_all

lemma big_endian_inject:
  assumes "n < 256 ^ k" and "m < 256 ^ k"
  shows "big_endian k n = big_endian k m \<longleftrightarrow> n = m"
  using assms
proof (induction k arbitrary: n m)
  case (Suc k)
  have "n div 256 < 256 ^ k" "m div 256 < 256 ^ k"
    using Suc.prems by (simp_all add: less_mult_imp_div_less mult.commute)
  with Suc.IH have "big_endian k (n div 256) = big_endian k (m div 256) \<longleftrightarrow> n div 256 = m div 256" by blast
  moreover have "(of_nat (n mod 256) :: u8) = of_nat (m mod 256) \<longleftrightarrow> n mod 256 = m mod 256"
    by (simp add: word_of_nat_eq_iff take_bit_eq_mod)
  moreover have "n div 256 = m div 256 \<and> n mod 256 = m mod 256 \<longleftrightarrow> n = m" by (metis div_mult_mod_eq)
  ultimately show ?case by simp
qed simp

lemma length_address_bytes [simp]: "length (address_bytes n) = 20"
  by (simp add: address_bytes_def)

lemma address_bytes_inject:
  assumes "n < 2 ^ 160" and "m < 2 ^ 160"
  shows "address_bytes n = address_bytes m \<longleftrightarrow> n = m"
proof -
  have "(256 :: nat) ^ 20 = 2 ^ 160" by simp
  with assms show ?thesis unfolding address_bytes_def by (intro big_endian_inject) simp_all
qed

section \<open>The migration\<close>

lemma decoded_table:
  assumes "\<And>bs. length bs = 20 \<Longrightarrow> from_hex cfg (to_ascii_hex bs) = Some bs"
  shows "decoded cfg CLAIMS_DATA = map (\<lambda>(a, n). (address_bytes a, n)) claims_rows"
  using assms by (simp add: decoded_def CLAIMS_DATA_def address_text_def case_prod_unfold)

lemma distinct_table: "distinct (map fst (map (\<lambda>(a, n). (address_bytes a, n)) claims_rows))"
proof -
  have "inj_on address_bytes (set (map fst claims_rows))"
  proof (rule inj_onI)
    fix a b assume "a \<in> set (map fst claims_rows)" "b \<in> set (map fst claims_rows)"
      and eq: "address_bytes a = address_bytes b"
    then have "a < 2 ^ 160" "b < 2 ^ 160" using claims_row_bounds by auto
    with eq show "a = b" by (simp only: address_bytes_inject)
  qed
  then have "distinct (map address_bytes (map fst claims_rows))"
    using claims_rows_distinct by (simp only: distinct_map)
  then show ?thesis by (simp add: comp_def case_prod_unfold)
qed

lemma owed_map_of:
  assumes "claims s = map_of xs" and "distinct (map fst xs)"
  shows "owed s = sum_list (map snd xs) \<and> card (dom (claims s)) = length xs"
proof -
  have dom: "dom (claims s) = set (map fst xs)" using assms(1) by (simp add: dom_map_of_conv_image_fst)
  have "owed s = sum_list (map (get_claim s) (map fst xs))"
    unfolding owed_def dom by (rule sum.distinct_set_conv_list [OF assms(2)])
  also have "map (get_claim s) (map fst xs) = map snd xs"
    using assms by (auto simp: get_claim_def)
  finally show ?thesis using dom distinct_card [OF assms(2)] by simp
qed

lemma map_of_rev_distinct:
  assumes "distinct (map fst xs)"
  shows "map_of (rev xs) = map_of xs"
proof (rule map_of_eqI)
  show "\<forall>k\<in>set (map fst (rev xs)). map_of (rev xs) k = map_of xs k"
  proof (clarsimp)
    fix k v assume "(k, v) \<in> set xs"
    with assms show "map_of (rev xs) k = map_of xs k"
      by (simp add: distinct_map [of fst "rev xs"] distinct_map map_of_is_SomeI rev_map [symmetric])
  qed
qed simp

definition claims_table :: "ethereum_address \<Rightarrow> balance option" where
  "claims_table = map_of (map (\<lambda>(a, n). (address_bytes a, n)) claims_rows)"

lemma import_table:
  assumes "\<And>bs. length bs = 20 \<Longrightarrow> from_hex cfg (to_ascii_hex bs) = Some bs"
    and "claims_version s = None" and "claims s = Map.empty"
  shows "claims_on_runtime_upgrade cfg CLAIMS_DATA s =
    (Inr (2 * db_read_weight cfg + 3 * db_write_weight cfg), s\<lparr>claims := claims_table\<rparr>)"
proof -
  let ?d = "map (\<lambda>(a, n). (address_bytes a, n)) claims_rows"
  have "\<forall>(addr, n)\<in>set CLAIMS_DATA. 2 \<le> length addr \<and> (\<exists>a. from_hex cfg (drop 2 addr) = Some a \<and> length a = 20)"
    using assms(1) by (auto simp: CLAIMS_DATA_def address_text_def)
  then have "insert_claims cfg CLAIMS_DATA s = (Inr (), s\<lparr>claims := map_of (rev ?d)\<rparr>)"
    using insert_claims_decoded decoded_table [OF assms(1)] assms(3) by fastforce
  moreover have "map_of (rev ?d) = claims_table"
    unfolding claims_table_def using map_of_rev_distinct [OF distinct_table] .
  ultimately show ?thesis
    using assms(2) by (simp add: claims_on_runtime_upgrade_def import_initial_claims_def)
qed

lemma claims_table_row: "(a, n) \<in> set claims_rows \<Longrightarrow> claims_table (address_bytes a) = Some n"
  unfolding claims_table_def by (rule map_of_is_SomeI [OF distinct_table]) force

lemma claims_table_owed:
  "claims s = claims_table \<Longrightarrow> owed s = 443126530528702115058 \<and> card (dom (claims s)) = 5486"
  using owed_map_of [OF _ distinct_table, of s] claims_rows_total claims_rows_length
  by (simp add: claims_table_def comp_def case_prod_unfold)

text \<open>C31: the runtime upgrade imports the whole table exactly as it is written: it records each of
  the 5486 rows with its balance, which is positive, no row overwrites another, the sum owed
  afterwards is 443126530528702115058 of the smallest unit, and no account is touched. Once a
  version is stored a further upgrade changes nothing. The hexadecimal decoder is only assumed
  to read back the lower-case digits of 20 bytes.\<close>

theorem claims_table_imported:
  assumes "\<And>bs. length bs = 20 \<Longrightarrow> from_hex cfg (to_ascii_hex bs) = Some bs" and "claims s = Map.empty"
  shows "\<exists>w s'. claims_on_runtime_upgrade cfg CLAIMS_DATA s = (Inr w, s') \<and> claims_funds s' = claims_funds s \<and>
    (if claims_version s = None
     then (\<forall>(a, n)\<in>set claims_rows. get_claim s' (address_bytes a) = n \<and> 0 < n) \<and>
       length claims_rows = 5486 \<and> card (dom (claims s')) = 5486 \<and> owed s' = 443126530528702115058
     else s' = s)"
proof (cases "claims_version s")
  case None
  let ?s = "s\<lparr>claims := claims_table\<rparr>"
  have "\<forall>(a, n)\<in>set claims_rows. get_claim ?s (address_bytes a) = n \<and> 0 < n"
    using claims_table_row claims_row_bounds by (auto simp: get_claim_def)
  with import_table [OF assms(1) None assms(2)] claims_table_owed [of ?s] claims_rows_length None show ?thesis by simp
next
  case (Some v)
  then show ?thesis by (simp add: claims_on_runtime_upgrade_def import_initial_claims_def)
qed

theorem claims_table_imported_witness:
  "\<exists>w s'. claims_on_runtime_upgrade claims_example CLAIMS_DATA (claims_start\<lparr>claims := Map.empty\<rparr>) = (Inr w, s') \<and>
     owed s' = 443126530528702115058"
  using claims_table_imported [of claims_example "claims_start\<lparr>claims := Map.empty\<rparr>"]
  by (auto simp: claims_example_def claims_start_def unhex_to_ascii_hex)

end
