(* ===== verification/Faucet.thy ===== *)
theory Faucet
  imports Multi_Currency
begin

text \<open>
  \<open>src/pallets/faucet/src/lib.rs\<close>, the test faucet, over any multi-currency; and
  \<open>src/pallets/genesis-history/src/lib.rs\<close>, which only records the previous chain at genesis.
  The faucet mints a fixed amount of every configured currency to whoever asks, a limited
  number of times per block.
\<close>

section \<open>Storage and calls\<close>

datatype 'acc faucet_event = RampageMint 'acc asset_id balance | Mint 'acc

record ('acc, 's) faucet_state =
  faucet_funds :: 's
  minted :: u8
  mint_limit :: u8
  rampage :: bool
  mintable_currencies :: "asset_id list"
  faucet_events :: "'acc faucet_event list"

type_synonym ('acc, 's, 'a) faucet_result = "(dispatch_error + 'a) \<times> ('acc, 's) faucet_state"

record faucet_genesis =
  gen_mint_limit :: u8
  gen_rampage :: bool
  gen_mintable_currencies :: "asset_id list"

definition faucet_genesis_default :: faucet_genesis where
  "faucet_genesis_default = \<lparr>gen_mint_limit = 0, gen_rampage = False, gen_mintable_currencies = []\<rparr>"

definition faucet_genesis_build ::
  "faucet_genesis \<Rightarrow> ('acc, 's) faucet_state \<Rightarrow> ('acc, 's) faucet_state" where
  "faucet_genesis_build g s =
     s\<lparr>mint_limit := gen_mint_limit g, rampage := gen_rampage g,
       mintable_currencies := gen_mintable_currencies g\<rparr>"

definition on_funds :: "('s \<Rightarrow> 'r \<times> 's) \<Rightarrow> ('acc, 's) faucet_state \<Rightarrow> 'r \<times> ('acc, 's) faucet_state" where
  "on_funds = zoom faucet_funds (\<lambda>t s. s\<lparr>faucet_funds := t\<rparr>)"

definition faucet_on_finalize :: "('acc, 's) faucet_state \<Rightarrow> ('acc, 's) faucet_state" where
  "faucet_on_finalize s = s\<lparr>minted := 0\<rparr>"

definition rampage_mint ::
  "('o, 'src, 'acc) frame_ops \<Rightarrow> ('acc, 's) currency_ops \<Rightarrow> 'o \<Rightarrow> asset_id \<Rightarrow> balance \<Rightarrow>
   ('acc, 's) faucet_state \<Rightarrow> ('acc, 's, unit) faucet_result" where
  "rampage_mint F C orig asset amount s =
     and_then (ensure_signed F orig, s) (\<lambda>who s.
     if \<not> rampage s then (Inl (Faucet RampageMintNotAllowed), s)
     else and_then (on_funds (cur_deposit C asset who amount) s) (\<lambda>_ s.
       (Inr (), s\<lparr>faucet_events := faucet_events s @ [RampageMint who asset amount]\<rparr>)))"

fun mint_each ::
  "('acc, 's) currency_ops \<Rightarrow> 'acc \<Rightarrow> asset_id list \<Rightarrow> ('acc, 's) faucet_state \<Rightarrow> ('acc, 's, unit) faucet_result" where
  "mint_each C who [] s = (Inr (), s)"
| "mint_each C who (i # is) s =
     and_then (on_funds (cur_deposit C i who 1000000000000000) s) (\<lambda>_ s. mint_each C who is s)"

definition mint ::
  "('o, 'src, 'acc) frame_ops \<Rightarrow> ('acc, 's) currency_ops \<Rightarrow> 'o \<Rightarrow>
   ('acc, 's) faucet_state \<Rightarrow> ('acc, 's, unit) faucet_result" where
  "mint F C orig s =
     and_then (ensure_signed F orig, s) (\<lambda>who s.
     if \<not> minted s < mint_limit s then (Inl (Faucet MaximumMintLimitReached), s)
     else and_then (mint_each C who (mintable_currencies s) s) (\<lambda>_ s.
       let s = s\<lparr>minted := minted s + 1\<rparr>
       in (Inr (), s\<lparr>faucet_events := faucet_events s @ [Mint who]\<rparr>)))"

section \<open>The previous chain\<close>

record chain_history =
  genesis_hash :: bytes
  last_block_hash :: bytes

definition chain_history_default :: chain_history where
  "chain_history_default = \<lparr>genesis_hash = [], last_block_hash = []\<rparr>"

definition history_genesis_build :: "chain_history \<Rightarrow> chain_history \<Rightarrow> chain_history" where
  "history_genesis_build previous_chain stored = previous_chain"

section \<open>Runs between two finalisations\<close>

inductive faucet_step ::
  "('o, 'src, 'acc) frame_ops \<Rightarrow> ('acc, 's) currency_ops \<Rightarrow>
   ('acc, 's) faucet_state \<Rightarrow> ('acc, 's) faucet_state \<Rightarrow> bool"
  for F C where
  step_mint_call: "mint F C orig s = (r, s') \<Longrightarrow> faucet_step F C s s'"
| step_rampage: "rampage_mint F C orig asset amount s = (r, s') \<Longrightarrow> faucet_step F C s s'"

definition faucet_run ::
  "('o, 'src, 'acc) frame_ops \<Rightarrow> ('acc, 's) currency_ops \<Rightarrow>
   ('acc, 's) faucet_state \<Rightarrow> ('acc, 's) faucet_state \<Rightarrow> bool" where
  "faucet_run F C = (faucet_step F C)\<^sup>*\<^sup>*"

definition mints_logged :: "('acc, 's) faucet_state \<Rightarrow> nat" where
  "mints_logged s = length (filter (\<lambda>e. case e of Mint _ \<Rightarrow> True | RampageMint _ _ _ \<Rightarrow> False) (faucet_events s))"

section \<open>Lemmas\<close>

lemma on_funds_eq: "on_funds f s = (r, s') \<longleftrightarrow> (\<exists>t. f (faucet_funds s) = (r, t) \<and> s' = s\<lparr>faucet_funds := t\<rparr>)"
  by (simp add: on_funds_def zoom_eq)

text \<open>Outside the funds, minting the list changes nothing.\<close>

lemma mint_each_frame:
  "mint_each C who is s = (r, s') \<Longrightarrow>
   minted s' = minted s \<and> mint_limit s' = mint_limit s \<and> rampage s' = rampage s \<and>
   mintable_currencies s' = mintable_currencies s \<and> faucet_events s' = faucet_events s"
proof (induction "is" arbitrary: s)
  case (Cons i "is")
  then show ?case
    by (cases r) (fastforce simp: and_then_eq_Inr and_then_eq_Inl on_funds_eq)+
qed simp

lemma word_succ_below: "x < y \<Longrightarrow> unat (x + 1) = Suc (unat x)" for x y :: u8
  using unsigned_less [of y, where 'a = nat] by (simp add: word_less_nat_alt unat_word_ariths)

lemma faucet_step_frame:
  assumes "faucet_step F C s s'"
  shows "mint_limit s' = mint_limit s \<and>
    (unat (minted s') = unat (minted s) \<and> mints_logged s' = mints_logged s \<or>
     minted s < mint_limit s \<and> unat (minted s') = Suc (unat (minted s)) \<and> mints_logged s' = Suc (mints_logged s))"
  using assms
proof cases
  case (step_mint_call orig r)
  then show ?thesis
    by (cases r) (auto simp: mint_def Let_def and_then_eq_Inr and_then_eq_Inl mints_logged_def word_succ_below
        split: if_splits dest!: mint_each_frame)
next
  case (step_rampage orig asset amount r)
  then show ?thesis
    by (cases r) (auto simp: rampage_mint_def and_then_eq_Inr and_then_eq_Inl on_funds_eq mints_logged_def
        split: if_splits)
qed

context multi_currency
begin

lemma mint_each_exact:
  assumes "cur_inv (faucet_funds s)" and "mint_each C who is s = (Inr (), s')"
  shows "cur_inv (faucet_funds s') \<and>
    (\<forall>c a. cur_free C (faucet_funds s') c a = cur_free C (faucet_funds s) c a +
       (if a = who then count_list is c * 1000000000000000 else 0)) \<and>
    (\<forall>c. cur_issuance C (faucet_funds s') c = cur_issuance C (faucet_funds s) c +
       count_list is c * 1000000000000000)"
  using assms
proof (induction "is" arbitrary: s)
  case (Cons i "is")
  from Cons.prems(2) obtain t where t: "cur_deposit C i who 1000000000000000 (faucet_funds s) = (Inr (), t)"
    and rest: "mint_each C who is (s\<lparr>faucet_funds := t\<rparr>) = (Inr (), s')"
    by (auto simp: and_then_eq_Inr on_funds_eq)
  note D = deposit_ok [OF Cons.prems(1) t]
  then have "cur_inv (faucet_funds (s\<lparr>faucet_funds := t\<rparr>))" by simp
  from Cons.IH [OF this rest] D show ?case by (auto simp: credit_apply)
qed simp

end

section \<open>Properties\<close>

text \<open>C33: between two finalisations at most \<open>mint_limit\<close> mints succeed, whatever the calls and their
  order: the counter counts exactly the logged mints, never passes the limit, and its
  increment on \<open>u8\<close> never wraps.\<close>

theorem mint_limit_respected:
  assumes "faucet_run F C (faucet_on_finalize s) s'"
  shows "mint_limit s' = mint_limit s \<and> unat (minted s') \<le> unat (mint_limit s) \<and>
    mints_logged s' = mints_logged s + unat (minted s')"
  using assms unfolding faucet_run_def
proof (induction rule: rtranclp_induct)
  case base
  then show ?case by (simp add: faucet_on_finalize_def mints_logged_def)
next
  case (step t u)
  from faucet_step_frame [OF step.hyps(2)] step.IH show ?case by (auto simp: word_less_nat_alt)
qed

text \<open>A successful mint credits the caller with exactly the fixed amount of each listed
  currency, as often as it is listed, raises the issuances by as much, and touches no other
  account.\<close>

theorem mint_exact:
  assumes "multi_currency C cur_inv" and "cur_inv (faucet_funds s)" and "ensure_signed F orig = Inr who"
    and "mint F C orig s = (Inr (), s')"
  shows "cur_inv (faucet_funds s') \<and> minted s' = minted s + 1 \<and>
    (\<forall>c a. cur_free C (faucet_funds s') c a = cur_free C (faucet_funds s) c a +
       (if a = who then count_list (mintable_currencies s) c * 1000000000000000 else 0)) \<and>
    (\<forall>c. cur_issuance C (faucet_funds s') c = cur_issuance C (faucet_funds s) c +
       count_list (mintable_currencies s) c * 1000000000000000)"
proof -
  from assms(3,4) obtain t where t: "mint_each C who (mintable_currencies s) s = (Inr (), t)"
    and s': "s' = t\<lparr>minted := minted t + 1, faucet_events := faucet_events t @ [Mint who]\<rparr>"
    by (auto simp: mint_def Let_def and_then_eq_Inr split: if_splits)
  from multi_currency.mint_each_exact [OF assms(1,2) t] mint_each_frame [OF t] s' show ?thesis by simp
qed

definition faucet_example ::
  "(nat, asset_id \<Rightarrow> (nat, nat \<Rightarrow> account_data option) balances_state) faucet_state" where
  "faucet_example =
     \<lparr>faucet_funds = (\<lambda>_. balances_start []), minted = 0, mint_limit = 3, rampage = False,
      mintable_currencies = [1, 2, 1], faucet_events = []\<rparr>"

lemma faucet_example_inv: "balances_liquid_inv (account_map_config 0 50) (faucet_funds faucet_example)"
proof -
  have "balances_inv (account_map_config 0 50 :: (nat, nat \<Rightarrow> account_data option) balances_config) (balances_start [])"
    by (rule balances_start_inv) simp_all
  then show ?thesis
    by (simp add: faucet_example_def balances_liquid_inv_def unlocked_def balances_start_account account_default_def)
qed

lemma faucet_example_mint:
  "\<exists>s'. mint example_frame (balances_currency (account_map_config 0 50)) (Some 7) faucet_example = (Inr (), s')"
  by (simp add: mint_def faucet_example_def example_frame_def on_funds_def at_asset_def zoom_def mint_into_def
      balances_start_def deposit_consequence_def balances_eval Let_def account_map_config_def)

theorem mint_exact_witness:
  "\<exists>s'. mint example_frame (balances_currency (account_map_config 0 50)) (Some 7) faucet_example = (Inr (), s') \<and>
     free_balance (account_map_config 0 50) (faucet_funds s' 1) 7 = 2000000000000000"
proof -
  let ?C = "balances_currency (account_map_config 0 50) ::
    (nat, asset_id \<Rightarrow> (nat, nat \<Rightarrow> account_data option) balances_state) currency_ops"
  obtain s' where s': "mint example_frame ?C (Some 7) faucet_example = (Inr (), s')"
    using faucet_example_mint ..
  have signed: "ensure_signed example_frame (Some 7) = Inr 7" by (simp add: example_frame_def)
  have inv: "balances_currency_inv (account_map_config 0 50) (faucet_funds faucet_example)"
    using faucet_example_inv by (simp add: balances_liquid_inv_alt)
  from mint_exact [OF zero_map.currency_contract inv signed s']
  have "free_balance (account_map_config 0 50) (faucet_funds s' 1) 7 =
      free_balance (account_map_config 0 50) (faucet_funds faucet_example 1) 7 +
      count_list (mintable_currencies faucet_example) 1 * 1000000000000000" by simp
  then have "free_balance (account_map_config 0 50) (faucet_funds s' 1) 7 = 2000000000000000"
    by (simp add: faucet_example_def free_balance_def balances_start_account account_default_def)
  with s' show ?thesis by blast
qed

theorem mint_limit_respected_witness:
  "\<exists>s'. faucet_run example_frame (balances_currency (account_map_config 0 50)) (faucet_on_finalize faucet_example) s' \<and>
     mints_logged s' \<le> 3"
proof -
  let ?C = "balances_currency (account_map_config 0 50) ::
    (nat, asset_id \<Rightarrow> (nat, nat \<Rightarrow> account_data option) balances_state) currency_ops"
  obtain r s' where "mint example_frame ?C (Some 7) (faucet_on_finalize faucet_example) = (r, s')" by fastforce
  then have run: "faucet_run example_frame ?C (faucet_on_finalize faucet_example) s'"
    unfolding faucet_run_def by (intro r_into_rtranclp step_mint_call)
  from mint_limit_respected [OF run] run show ?thesis
    by (intro exI [of _ s']) (simp add: faucet_example_def mints_logged_def)
qed

end
