(* ===== verification/Runtime_Config.thy ===== *)
theory Runtime_Config
  imports Claims
begin

text \<open>
  The values the runtime fixes (\<open>src/runtime/src/constants.rs\<close> and the \<open>parameter_types\<close> of
  \<open>src/runtime/src/lib.rs\<close> that the modelled pallets read), its call filter, and the conversion
  of balances to votes (\<open>src/runtime/src/impls.rs\<close>).
\<close>

section \<open>Constants\<close>

definition HDX :: balance where "HDX = 1000000000000"
definition DOLLARS :: balance where "DOLLARS = HDX * 10"
definition CENTS :: balance where "CENTS = DOLLARS div 100"
definition MILLICENTS :: balance where "MILLICENTS = CENTS div 1000"
definition FORTUNE :: balance where "FORTUNE = U128_MAX"

definition MILLISECS_PER_BLOCK :: nat where "MILLISECS_PER_BLOCK = 6000"
definition SECS_PER_BLOCK :: nat where "SECS_PER_BLOCK = MILLISECS_PER_BLOCK div 1000"
definition MINUTES :: nat where "MINUTES = 60 div SECS_PER_BLOCK"
definition HOURS :: nat where "HOURS = MINUTES * 60"
definition DAYS :: nat where "DAYS = HOURS * 24"
definition SLOT_DURATION :: nat where "SLOT_DURATION = MILLISECS_PER_BLOCK"
definition EPOCH_DURATION_IN_BLOCKS :: nat where "EPOCH_DURATION_IN_BLOCKS = 4 * HOURS"

lemmas time_constants = MILLISECS_PER_BLOCK_def SECS_PER_BLOCK_def MINUTES_def HOURS_def DAYS_def SLOT_DURATION_def
  EPOCH_DURATION_IN_BLOCKS_def

text \<open>The block counts measure real time exactly: nothing is lost in the integer divisions.\<close>

lemma time_units:
  "MINUTES * MILLISECS_PER_BLOCK = 60 * 1000" "HOURS * MILLISECS_PER_BLOCK = 60 * 60 * 1000"
  "DAYS * MILLISECS_PER_BLOCK = 24 * 60 * 60 * 1000" "EPOCH_DURATION_IN_BLOCKS * MILLISECS_PER_BLOCK = 4 * 60 * 60 * 1000"
  by (simp_all add: time_constants)

section \<open>Parameters of the pallets\<close>

definition HDXAssetId :: asset_id where "HDXAssetId = CORE_ASSET_ID"
definition ExistentialDeposit_value :: balance where "ExistentialDeposit_value = 0"
definition MaxLocks_value :: nat where "MaxLocks_value = 50"
definition ExchangeFee :: fee where "ExchangeFee = fee_default"
definition MultiPaymentCurrencySetFee :: bool where "MultiPaymentCurrencySetFee = False"

definition ClaimMessagePrefix :: bytes where
  "ClaimMessagePrefix = map (\<lambda>c. of_nat (of_char c)) ''I hereby claim all my HDX tokens to wallet:''"

section \<open>The call filter\<close>

datatype runtime_call =
    Call_AuthorityDiscovery | Call_Authorship | Call_Balances | Call_Babe | Call_Claims | Call_Council | Call_Democracy
  | Call_ElectionProviderMultiPhase | Call_Elections | Call_Grandpa | Call_ImOnline | Call_RandomnessCollectiveFlip
  | Call_Scheduler | Call_Session | Call_Staking | Call_System | Call_TechnicalCommittee | Call_Timestamp | Call_Tips
  | Call_Treasury | Call_Identity | Call_Offences | Call_Utility | Call_Sudo | Call_XYK | Call_AssetRegistry
  | Call_Currencies | Call_Exchange | Call_Faucet | Call_MultiTransactionPayment | Call_Tokens

fun base_filter :: "runtime_call \<Rightarrow> bool" where
  "base_filter Call_XYK = False"
| "base_filter Call_AssetRegistry = False"
| "base_filter Call_Currencies = False"
| "base_filter Call_Exchange = False"
| "base_filter Call_Faucet = False"
| "base_filter Call_MultiTransactionPayment = False"
| "base_filter Call_Tokens = False"
| "base_filter _ = True"

section \<open>Votes\<close>

definition vote_factor :: "balance \<Rightarrow> balance" where
  "vote_factor issuance = max (issuance div U64_MAX) 1"

definition to_vote :: "balance \<Rightarrow> balance \<Rightarrow> 64 word" where
  "to_vote issuance x = of_nat (x div vote_factor issuance)"

definition from_vote :: "balance \<Rightarrow> balance \<Rightarrow> balance" where
  "from_vote issuance x = wrapping_mul x (vote_factor issuance)"

lemma vote_factor_pos: "0 < vote_factor issuance"
  by (simp add: vote_factor_def)

lemma unat_to_vote: "unat (to_vote issuance x) = x div vote_factor issuance mod 2 ^ 64"
  by (simp add: to_vote_def unat_of_nat)

text \<open>A balance is converted to votes and back with a loss below one vote, as long as it is less
  than \<open>2 ^ 64\<close> votes; the conversion back never overflows then. From that amount on the cast to
  \<open>u64\<close> drops high bits: the rounding of the factor lets balances within the issuance reach it,
  and when the issuance is \<open>2 ^ 64\<close> its sole owner has no vote at all.\<close>

theorem votes_exact:
  assumes "x \<le> U128_MAX"
  shows "(if x < 2 ^ 64 * vote_factor issuance
      then unat (to_vote issuance x) = x div vote_factor issuance \<and>
        from_vote issuance (unat (to_vote issuance x)) \<le> x \<and>
        x < from_vote issuance (unat (to_vote issuance x)) + vote_factor issuance
      else unat (to_vote issuance x) < x div vote_factor issuance) \<and>
    to_vote (2 ^ 64) (2 ^ 64) = 0"
proof -
  let ?f = "vote_factor issuance"
  have small: "x div ?f < 2 ^ 64 \<longleftrightarrow> x < 2 ^ 64 * ?f"
    using vote_factor_pos [of issuance] by (simp add: div_less_iff_less_mult)
  have le: "x div ?f * ?f \<le> x" by simp
  then have "x div ?f * ?f < Suc U128_MAX" using assms by linarith
  then have exact: "from_vote issuance (x div ?f) = x div ?f * ?f"
    by (simp add: from_vote_def wrapping_mul_def)
  have rest: "x < x div ?f * ?f + ?f"
    using dividend_less_div_times [OF vote_factor_pos, of x] by (simp add: ac_simps)
  have "unat (to_vote issuance x) = x div ?f" if "x < 2 ^ 64 * ?f"
    using that small by (simp add: unat_to_vote)
  moreover have "unat (to_vote issuance x) < x div ?f" if "\<not> x < 2 ^ 64 * ?f"
    using that small mod_less_divisor [of "2 ^ 64" "x div ?f"] by (simp add: unat_to_vote del: mod_less_divisor)
  moreover have "to_vote (2 ^ 64) (2 ^ 64) = 0"
    by (simp add: to_vote_def vote_factor_def U64_MAX_def)
  ultimately show ?thesis using exact rest le by simp
qed

theorem votes_exact_witness:
  "unat (to_vote (10 ^ 22) (10 ^ 20)) = 184501845018450184 \<and> from_vote (10 ^ 22) 184501845018450184 \<le> 10 ^ 20"
proof -
  have "vote_factor (10 ^ 22) = 542" by (simp add: vote_factor_def U64_MAX_def)
  then show ?thesis
    using votes_exact [of "10 ^ 20" "10 ^ 22"] by (auto simp: U128_MAX_def)
qed

end
