(* ===== verification/Chain_Spec.thy ===== *)
theory Chain_Spec
  imports Asset_Registry Claims_Import Faucet Runtime_Config
begin

text \<open>
  \<open>src/node/src/chain_spec.rs\<close>: the chain specifications the node can start from and the genesis
  configuration each of them gives to the pallets. Key derivation, the parsing of network
  addresses and telemetry endpoints, the reader of a JSON specification and the compiled runtime
  are outside the repository and fields of \<open>node_ops\<close>; an account is its 32 bytes. An \<open>expect\<close>
  or \<open>unwrap\<close> that fails is \<open>Spec_Panic\<close>; in the closure that builds the genesis it is the value
  of the closure. The fields the source fills with the defaults of pallets outside the
  repository (the changes trie, the treasury, the rest of staking) are left out.
\<close>

section \<open>Data\<close>

type_synonym account_id = bytes

datatype key_scheme = Sr25519 | Grandpa_Key | Babe_Key | Im_Online_Key | Authority_Discovery_Key

datatype spec_error = Spec_Error string | Spec_Panic string

datatype json = Json_Number nat | Json_String string

datatype chain_type = Development | Local | Live

datatype staker_status = Idle | Validator | Nominator "account_id list"

datatype forcing = NotForcing | ForceNew | ForceNone | ForceAlways

datatype allowed_slots = PrimarySlots | PrimaryAndSecondaryPlainSlots | PrimaryAndSecondaryVRFSlots

record session_key_set =
  key_grandpa :: bytes
  key_babe :: bytes
  key_im_online :: bytes
  key_authority_discovery :: bytes

record babe_epoch_config =
  epoch_c :: "nat \<times> nat"
  epoch_allowed_slots :: allowed_slots

record staking_genesis =
  validator_count :: u32
  minimum_validator_count :: u32
  stakers :: "(account_id \<times> account_id \<times> balance \<times> staker_status) list"
  invulnerables :: "account_id list"
  force_era :: forcing
  slash_reward_percent :: nat

record genesis_config =
  system_code :: bytes
  genesis_balances :: "(account_id \<times> balance) list"
  grandpa_authorities :: "bytes list"
  sudo_key :: account_id
  genesis_registry :: registry_genesis
  genesis_tokens :: "(account_id \<times> asset_id \<times> balance) list"
  genesis_faucet :: faucet_genesis
  babe_authorities :: "bytes list"
  babe_epoch :: "babe_epoch_config option"
  authority_discovery_keys :: "bytes list"
  im_online_keys :: "bytes list"
  session_keys_of :: "(account_id \<times> account_id \<times> session_key_set) list"
  genesis_staking :: staking_genesis
  elections_members :: "(account_id \<times> balance) list"
  council_members :: "account_id list"
  technical_members :: "account_id list"
  genesis_claims :: "(ethereum_address \<times> balance) list"
  genesis_history :: chain_history

record chain_spec =
  spec_name :: string
  spec_id :: string
  spec_type :: chain_type
  spec_genesis :: "spec_error + genesis_config"
  spec_boot_nodes :: "string list"
  spec_telemetry :: "(string \<times> nat) list option"
  spec_protocol_id :: "string option"
  spec_properties :: "(string \<rightharpoonup> json) option"

record node_ops =
  pair_public :: "key_scheme \<Rightarrow> string \<Rightarrow> bytes option"
  public_account :: "bytes \<Rightarrow> account_id"
  parse_multiaddr :: "string \<Rightarrow> string option"
  telemetry_endpoints :: "(string \<times> nat) list \<Rightarrow> (string \<times> nat) list option"
  lerna_json :: bytes
  from_json_bytes :: "bytes \<Rightarrow> spec_error + chain_spec"
  from_json_file :: "string \<Rightarrow> spec_error + chain_spec"
  WASM_BINARY :: "bytes option"

text \<open>\<open>?\<close> on a result, \<open>expect\<close> on an option, and a \<open>vec!\<close> of values each of which may fail.\<close>

definition try_with :: "'e + 'a \<Rightarrow> ('a \<Rightarrow> 'e + 'b) \<Rightarrow> 'e + 'b" where
  "try_with r k = (case r of Inl e \<Rightarrow> Inl e | Inr a \<Rightarrow> k a)"

definition expect :: "string \<Rightarrow> 'a option \<Rightarrow> spec_error + 'a" where
  "expect msg x = (case x of None \<Rightarrow> Inl (Spec_Panic msg) | Some a \<Rightarrow> Inr a)"

fun try_all :: "('e + 'a) list \<Rightarrow> 'e + 'a list" where
  "try_all [] = Inr []"
| "try_all (r # rs) = try_with r (\<lambda>a. try_with (try_all rs) (\<lambda>as. Inr (a # as)))"

text \<open>The 32 bytes of a \<open>hex!\<close> literal of 64 digits.\<close>

definition hex32 :: "nat \<Rightarrow> bytes" where
  "hex32 n = big_endian 32 n"

section \<open>Keys\<close>

definition get_from_seed :: "node_ops \<Rightarrow> key_scheme \<Rightarrow> string \<Rightarrow> spec_error + bytes" where
  "get_from_seed ops scheme seed =
     expect ''static values are valid; qed'' (pair_public ops scheme (''//'' @ seed))"

definition get_account_id_from_seed :: "node_ops \<Rightarrow> string \<Rightarrow> spec_error + account_id" where
  "get_account_id_from_seed ops seed =
     try_with (get_from_seed ops Sr25519 seed) (\<lambda>public. Inr (public_account ops public))"

type_synonym authority = "account_id \<times> account_id \<times> bytes \<times> bytes \<times> bytes \<times> bytes"

definition authority_keys_from_seed :: "node_ops \<Rightarrow> string \<Rightarrow> spec_error + authority" where
  "authority_keys_from_seed ops seed =
     try_with (get_account_id_from_seed ops (seed @ ''//stash'')) (\<lambda>stash.
     try_with (get_account_id_from_seed ops seed) (\<lambda>controller.
     try_with (get_from_seed ops Grandpa_Key seed) (\<lambda>grandpa.
     try_with (get_from_seed ops Babe_Key seed) (\<lambda>babe.
     try_with (get_from_seed ops Im_Online_Key seed) (\<lambda>im_online.
     try_with (get_from_seed ops Authority_Discovery_Key seed) (\<lambda>authority_discovery.
       Inr (stash, controller, grandpa, babe, im_online, authority_discovery)))))))"

definition session_keys :: "bytes \<Rightarrow> bytes \<Rightarrow> bytes \<Rightarrow> bytes \<Rightarrow> session_key_set" where
  "session_keys grandpa babe im_online authority_discovery =
     \<lparr>key_grandpa = grandpa, key_babe = babe, key_im_online = im_online,
      key_authority_discovery = authority_discovery\<rparr>"

section \<open>Constants\<close>

definition TELEMETRY_URLS :: "string list" where
  "TELEMETRY_URLS = [''wss://telemetry.polkadot.io/submit/'', ''wss://telemetry.hydradx.io:9000/submit/'']"

definition STASH :: balance where "STASH = 100 * HDX"

definition DEFAULT_PROTOCOL_ID :: string where "DEFAULT_PROTOCOL_ID = ''hdx''"

definition PRIMARY_PROBABILITY :: "nat \<times> nat" where "PRIMARY_PROBABILITY = (1, 4)"

definition BABE_GENESIS_EPOCH_CONFIG :: babe_epoch_config where
  "BABE_GENESIS_EPOCH_CONFIG =
     \<lparr>epoch_c = PRIMARY_PROBABILITY, epoch_allowed_slots = PrimaryAndSecondaryPlainSlots\<rparr>"

section \<open>Genesis configurations\<close>

definition create_testnet_claims :: "(ethereum_address \<times> balance) list" where
  "create_testnet_claims =
     (let claim_address_1 = (address_bytes 0x8202c0af5962b750123ce1a9b12e1c30a4973557, HDX div 1000);
          claim_address_2 = (address_bytes 0x8af7764663644989671a71abe9738a3cf295f384, HDX);
          claim_address_3 = (address_bytes 0xc19a2970a13ac19898c47d59cbd0278d428ebc7c, 1000 * HDX)
      in [claim_address_1, claim_address_2, claim_address_3])"

text \<open>What both configurations compute from the initial authorities.\<close>

definition authority_session :: "authority \<Rightarrow> account_id \<times> account_id \<times> session_key_set" where
  "authority_session x =
     (case x of (stash, controller, grandpa, babe, im_online, authority_discovery) \<Rightarrow>
        (stash, stash, session_keys grandpa babe im_online authority_discovery))"

definition authority_staker :: "authority \<Rightarrow> account_id \<times> account_id \<times> balance \<times> staker_status" where
  "authority_staker x = (fst x, fst (snd x), STASH, Validator)"

definition bytes_of_string :: "string \<Rightarrow> bytes" where
  "bytes_of_string = map (\<lambda>c. of_nat (of_char c))"

definition testnet_assets :: "(bytes \<times> asset_id) list" where
  "testnet_assets =
     [(bytes_of_string ''tKSM'', 1), (bytes_of_string ''tDOT'', 2), (bytes_of_string ''tETH'', 3),
      (bytes_of_string ''tACA'', 4), (bytes_of_string ''tEDG'', 5), (bytes_of_string ''tUSD'', 6),
      (bytes_of_string ''tPLM'', 7), (bytes_of_string ''tFIS'', 8), (bytes_of_string ''tPHA'', 9),
      (bytes_of_string ''tUSDT'', 10)]"

definition testnet_genesis ::
  "node_ops \<Rightarrow> bytes \<Rightarrow> authority list \<Rightarrow> account_id \<Rightarrow> account_id list \<Rightarrow> bool \<Rightarrow> spec_error + genesis_config" where
  "testnet_genesis ops wasm_binary initial_authorities root_key endowed_accounts enable_println =
     try_with (get_account_id_from_seed ops ''Alice'') (\<lambda>alice.
     try_with (get_account_id_from_seed ops ''Bob'') (\<lambda>bob.
     try_with (get_account_id_from_seed ops ''Eve'') (\<lambda>eve.
       Inr \<lparr>
         system_code = wasm_binary,
         genesis_balances = map (\<lambda>k. (k, 1000000 * HDX)) endowed_accounts,
         grandpa_authorities = [],
         sudo_key = root_key,
         genesis_registry =
           \<lparr>gen_core_asset_id = CORE_ASSET_ID, gen_next_asset_id = 11, gen_asset_ids = testnet_assets\<rparr>,
         genesis_tokens =
           concat (map (\<lambda>x. [(x, 1, 100000 * HDX), (x, 2, 100000 * HDX), (x, 3, 100000 * HDX)]) endowed_accounts),
         genesis_faucet = \<lparr>gen_mint_limit = 5, gen_rampage = True, gen_mintable_currencies = [0, 1, 2]\<rparr>,
         babe_authorities = [],
         babe_epoch = Some BABE_GENESIS_EPOCH_CONFIG,
         authority_discovery_keys = [],
         im_online_keys = [],
         session_keys_of = map authority_session initial_authorities,
         genesis_staking =
           \<lparr>validator_count = of_nat (length initial_authorities) * 2,
            minimum_validator_count = of_nat (length initial_authorities),
            stakers = map authority_staker initial_authorities,
            invulnerables = map fst initial_authorities,
            force_era = ForceNone, slash_reward_percent = 10\<rparr>,
         elections_members = [(alice, STASH div 2)],
         council_members = [alice],
         technical_members = [alice, bob, eve],
         genesis_claims = create_testnet_claims,
         genesis_history = chain_history_default\<rparr>)))"

definition lerna_balances :: "(account_id \<times> balance) list" where
  "lerna_balances =
     [(hex32 0x0abad795adcb5dee45d29528005b1f78d55fc170844babde88df84016c6cd14d, 1500000000 * HDX - 3 * STASH),
      (hex32 0x84d0959b84b3b12013430ea136b0c26e83412ea3bc46a8620abb8c8db7e53d0c, 300000000 * HDX),
      (hex32 0x5245cb1e9e810f66940ec82a23a485491347bdbdc2726f3e2d40d9650cbc4103, STASH),
      (hex32 0xbe72e2daa41acfd97eed4c09a086dc84b99df8e8ddddb67e90b71c36e4826378, STASH),
      (hex32 0xfa431893b2d8196ab179793714d653ce840fcac1847c1cb32522496989c0e556, STASH),
      (hex32 0x6d6f646c70792f74727372790000000000000000000000000000000000000000, 56873469471297884942)]"

definition lerna_genesis ::
  "bytes \<Rightarrow> authority list \<Rightarrow> account_id \<Rightarrow> account_id list \<Rightarrow> bool \<Rightarrow> genesis_config" where
  "lerna_genesis wasm_binary initial_authorities root_key endowed_accounts enable_println =
     \<lparr>
       system_code = wasm_binary,
       genesis_balances = lerna_balances,
       grandpa_authorities = [],
       sudo_key = root_key,
       genesis_registry = \<lparr>gen_core_asset_id = CORE_ASSET_ID, gen_next_asset_id = 1, gen_asset_ids = []\<rparr>,
       genesis_tokens = concat (map (\<lambda>_. []) endowed_accounts),
       genesis_faucet = \<lparr>gen_mint_limit = 5, gen_rampage = False, gen_mintable_currencies = []\<rparr>,
       babe_authorities = [],
       babe_epoch = Some BABE_GENESIS_EPOCH_CONFIG,
       authority_discovery_keys = [],
       im_online_keys = [],
       session_keys_of = map authority_session initial_authorities,
       genesis_staking =
         \<lparr>validator_count = 3, minimum_validator_count = 3,
          stakers = map authority_staker initial_authorities,
          invulnerables = map fst initial_authorities,
          force_era = ForceNone, slash_reward_percent = 10\<rparr>,
       elections_members = [(hex32 0x0abad795adcb5dee45d29528005b1f78d55fc170844babde88df84016c6cd14d, STASH)],
       council_members = [hex32 0x0abad795adcb5dee45d29528005b1f78d55fc170844babde88df84016c6cd14d],
       technical_members =
         [hex32 0xd6cf8789dce651cb54a4036406f4aa0c771914d345c004ad0567b814c71fb637,
          hex32 0xbc96ec00952efa8f0e3e08b36bf5096bcb877acac536e478aecb72868db5db02,
          hex32 0x2875dd47bc1bcb70e23de79e7538c312be12c716033bbae425130e46f5f2b35e,
          hex32 0x644643bf953233d08c4c9bae0acd49f3baa7658d9b342b7e6879bb149ee6e44c,
          hex32 0xccdb435892c9883656d0398b2b67023ba1e11bda0c7f213f70fdac54c6abab3f,
          hex32 0xf461c5ae6e80bf4af5b84452789c17b0b0a095a2d77c2a407978147de2d5b572],
       genesis_claims = [],
       genesis_history =
         \<lparr>genesis_hash = hex32 0x0ed32bfcab4a83517fac88f2aa7cbc2f88d3ab93be9a12b6188a036bf8a943c2,
          last_block_hash = hex32 0xf3c43294255f2d0cd8b3bc8787d18cc2adcec581f74d23df15ca75b8b77cd507\<rparr>\<rparr>"

section \<open>Chain specifications\<close>

definition chain_properties :: "string \<rightharpoonup> json" where
  "chain_properties =
     [''tokenDecimals'' \<mapsto> Json_Number 12, ''tokenSymbol'' \<mapsto> Json_String ''HDX'', ''ss58Format'' \<mapsto> Json_Number 63]"

definition treasury_account :: account_id where
  "treasury_account = hex32 0x6d6f646c70792f74727372790000000000000000000000000000000000000000"

definition seeded :: "node_ops \<Rightarrow> string list \<Rightarrow> spec_error + account_id list" where
  "seeded ops seeds = try_all (map (get_account_id_from_seed ops) seeds)"

definition development_config :: "node_ops \<Rightarrow> spec_error + chain_spec" where
  "development_config ops =
     (case WASM_BINARY ops of
        None \<Rightarrow> Inl (Spec_Error ''Development wasm binary not available'')
      | Some wasm_binary \<Rightarrow>
          Inr \<lparr>spec_name = ''HydraDX Development chain'', spec_id = ''dev'', spec_type = Development,
            spec_genesis =
              try_with (authority_keys_from_seed ops ''Alice'') (\<lambda>alice_keys.
              try_with (get_account_id_from_seed ops ''Alice'') (\<lambda>root.
              try_with (seeded ops [''Alice'', ''Bob'', ''Alice//stash'', ''Bob//stash'']) (\<lambda>endowed.
                testnet_genesis ops wasm_binary [alice_keys] root (endowed @ [treasury_account]) True))),
            spec_boot_nodes = [], spec_telemetry = None, spec_protocol_id = Some DEFAULT_PROTOCOL_ID,
            spec_properties = Some chain_properties\<rparr>)"

definition lerna_config :: "node_ops \<Rightarrow> spec_error + chain_spec" where
  "lerna_config ops = from_json_bytes ops (lerna_json ops)"

definition lerna_authorities :: "authority list" where
  "lerna_authorities =
     [(hex32 0x5245cb1e9e810f66940ec82a23a485491347bdbdc2726f3e2d40d9650cbc4103,
       hex32 0x5245cb1e9e810f66940ec82a23a485491347bdbdc2726f3e2d40d9650cbc4103,
       hex32 0x451b3e9b67ffea5e90b61e23396451a336e1449620bba3e13fbb96e187007c1a,
       hex32 0xc2af193a251dee1765136b0ae47647c110ac1225b23a157d6ef6629b1c93fe39,
       hex32 0xc2af193a251dee1765136b0ae47647c110ac1225b23a157d6ef6629b1c93fe39,
       hex32 0xc2af193a251dee1765136b0ae47647c110ac1225b23a157d6ef6629b1c93fe39),
      (hex32 0xbe72e2daa41acfd97eed4c09a086dc84b99df8e8ddddb67e90b71c36e4826378,
       hex32 0xbe72e2daa41acfd97eed4c09a086dc84b99df8e8ddddb67e90b71c36e4826378,
       hex32 0xf0a3a2eab48b0e51e8d89732d15da0164eb36951c4db3bd33879b0b343619ba7,
       hex32 0xa037c0f83b7ebea2179165f987c6094d5b39e7addc1d2e09edf4a5fa6ebcac32,
       hex32 0xa037c0f83b7ebea2179165f987c6094d5b39e7addc1d2e09edf4a5fa6ebcac32,
       hex32 0xa037c0f83b7ebea2179165f987c6094d5b39e7addc1d2e09edf4a5fa6ebcac32),
      (hex32 0xfa431893b2d8196ab179793714d653ce840fcac1847c1cb32522496989c0e556,
       hex32 0xfa431893b2d8196ab179793714d653ce840fcac1847c1cb32522496989c0e556,
       hex32 0xdab37ca3624720b03aa2fdf4f2b436041ff151f0e3975f7b9c79e52030ae781e,
       hex32 0x7a256c0498e35373006232ae18e18ec44c80c9d73aed563100fc8b7e0cf99001,
       hex32 0x7a256c0498e35373006232ae18e18ec44c80c9d73aed563100fc8b7e0cf99001,
       hex32 0x7a256c0498e35373006232ae18e18ec44c80c9d73aed563100fc8b7e0cf99001)]"

definition lerna_boot_nodes :: "string list" where
  "lerna_boot_nodes =
     [''/dns/p2p-01.snakenet.hydradx.io/tcp/40444/p2p/12D3KooWAJ8t7rsWvV7d1CRCT7afwtmBQBrRT7mMNDVCWK7n9CrD'',
      ''/dns/p2p-02.snakenet.hydradx.io/tcp/40444/p2p/12D3KooWErP8DjDoVFjsCCzvD9mFZBA6Y1VKMEBNH8vKCWDZDHz5'',
      ''/dns/p2p-03.snakenet.hydradx.io/tcp/40444/p2p/12D3KooWH9rsDFq3wo13eKR5PWCvEDieK8uUKd1C1dLQNNxeU5AU'']"

definition lerna_staging_config :: "node_ops \<Rightarrow> spec_error + chain_spec" where
  "lerna_staging_config ops =
     (case WASM_BINARY ops of
        None \<Rightarrow> Inl (Spec_Error ''Stakenet wasm binary not available'')
      | Some wasm_binary \<Rightarrow>
          try_with (try_all (map (\<lambda>a. expect ''unwrap'' (parse_multiaddr ops a)) lerna_boot_nodes)) (\<lambda>boot_nodes.
          try_with (expect ''Telemetry url is valid''
            (telemetry_endpoints ops [(TELEMETRY_URLS ! 0, 0), (TELEMETRY_URLS ! 1, 0)])) (\<lambda>telemetry.
          Inr \<lparr>spec_name = ''HydraDX Snakenet Gen2'', spec_id = ''lerna'', spec_type = Live,
            spec_genesis = Inr (lerna_genesis wasm_binary lerna_authorities
              (hex32 0x0abad795adcb5dee45d29528005b1f78d55fc170844babde88df84016c6cd14d) [] True),
            spec_boot_nodes = boot_nodes, spec_telemetry = Some telemetry,
            spec_protocol_id = Some DEFAULT_PROTOCOL_ID, spec_properties = Some chain_properties\<rparr>)))"

definition local_testnet_config :: "node_ops \<Rightarrow> spec_error + chain_spec" where
  "local_testnet_config ops =
     (case WASM_BINARY ops of
        None \<Rightarrow> Inl (Spec_Error ''Development wasm binary not available'')
      | Some wasm_binary \<Rightarrow>
          Inr \<lparr>spec_name = ''HydraDX Local Testnet'', spec_id = ''local_testnet'', spec_type = Local,
            spec_genesis =
              try_with (authority_keys_from_seed ops ''Alice'') (\<lambda>alice_keys.
              try_with (authority_keys_from_seed ops ''Bob'') (\<lambda>bob_keys.
              try_with (get_account_id_from_seed ops ''Alice'') (\<lambda>root.
              try_with (seeded ops
                [''Alice'', ''Bob'', ''Charlie'', ''Dave'', ''Eve'', ''Ferdie'', ''Alice//stash'', ''Bob//stash'',
                 ''Charlie//stash'', ''Dave//stash'', ''Eve//stash'', ''Ferdie//stash'']) (\<lambda>endowed.
                testnet_genesis ops wasm_binary [alice_keys, bob_keys] root (endowed @ [treasury_account]) True)))),
            spec_boot_nodes = [], spec_telemetry = None, spec_protocol_id = Some DEFAULT_PROTOCOL_ID,
            spec_properties = Some chain_properties\<rparr>)"

text \<open>\<open>src/node/src/command.rs\<close>: the specification named on the command line.\<close>

definition load_spec :: "node_ops \<Rightarrow> string \<Rightarrow> spec_error + chain_spec" where
  "load_spec ops path =
     (if path = ''dev'' then development_config ops
      else if path = ''lerna-staging'' then lerna_staging_config ops
      else if path = ''lerna'' then lerna_config ops
      else if path = ''local'' then local_testnet_config ops
      else from_json_file ops path)"

end
