(* ===== verification/Genesis.thy ===== *)
theory Genesis
  imports Chain_Spec
begin

text \<open>
  What the genesis configurations promise: each of them is accepted by the pallets and
  consistent (its assets are registered, its stakes and bonds are covered), and the supply of the
  launched network is a round number that the claims can never exceed.
\<close>

section \<open>Accounts\<close>

lemma hex32_inject:
  assumes "n < 2 ^ 256" and "m < 2 ^ 256"
  shows "hex32 n = hex32 m \<longleftrightarrow> n = m"
proof -
  have "(256 :: nat) ^ 32 = 2 ^ 256" by simp
  with assms show ?thesis unfolding hex32_def by (intro big_endian_inject) simp_all
qed

lemma big_endian_numeral:
  "big_endian (numeral k) n = big_endian (pred_numeral k) (n div 256) @ [of_nat (n mod 256)]"
  by (simp only: numeral_eq_Suc [of k] big_endian.simps)

text \<open>The account the sources name in hexadecimal is the one of the module identifier \<open>py/trsry\<close>.\<close>

lemma treasury_account_module:
  "treasury_account = bytes_of_string ''modl'' @ bytes_of_string ''py/trsry'' @ replicate 20 0"
proof -
  have "replicate 20 (0 :: u8) = [0, 0, 0, 0, 0, 0, 0, 0, 0, 0, 0, 0, 0, 0, 0, 0, 0, 0, 0, 0]"
    by (simp add: eval_nat_numeral)
  then show ?thesis by (simp add: treasury_account_def hex32_def bytes_of_string_def big_endian_numeral)
qed

section \<open>Consistency of a genesis configuration\<close>

text \<open>
  What the pallets' genesis builds and the first blocks rely on: no account is endowed twice and
  the issuance fits the balance type; assets are registered one to one, below the next
  identifier, and only registered ones are endowed or minted by the faucet; every stake and
  every bond of an elected member is covered by the holder's balance; the stakers are as many as
  the minimum of validators at least, no two share a stash or a controller, and each stash
  registers its session keys.
\<close>

definition covered :: "(account_id \<times> balance) list \<Rightarrow> account_id \<Rightarrow> balance \<Rightarrow> bool" where
  "covered bs who n = list_ex (\<lambda>(a, m). a = who \<and> n \<le> m) bs"

definition genesis_asset :: "genesis_config \<Rightarrow> asset_id \<Rightarrow> bool" where
  "genesis_asset g i = (i = gen_core_asset_id (genesis_registry g) \<or> i \<in> snd ` set (gen_asset_ids (genesis_registry g)))"

definition funds_consistent :: "genesis_config \<Rightarrow> bool" where
  "funds_consistent g \<longleftrightarrow>
     distinct (map fst (genesis_balances g)) \<and> sum_list (map snd (genesis_balances g)) \<le> U128_MAX \<and>
     distinct (map (\<lambda>(a, i, _). (a, i)) (genesis_tokens g)) \<and>
     list_all (\<lambda>(_, i, _). genesis_asset g i) (genesis_tokens g)"

definition assets_consistent :: "genesis_config \<Rightarrow> bool" where
  "assets_consistent g \<longleftrightarrow>
     registry_inv (registry_genesis_build (genesis_registry g)) \<and>
     list_all (genesis_asset g) (gen_mintable_currencies (genesis_faucet g))"

definition staking_consistent :: "genesis_config \<Rightarrow> bool" where
  "staking_consistent g \<longleftrightarrow>
     list_all (\<lambda>(stash, _, stake, _). covered (genesis_balances g) stash stake) (stakers (genesis_staking g)) \<and>
     distinct (map fst (stakers (genesis_staking g))) \<and> distinct (map (fst \<circ> snd) (stakers (genesis_staking g))) \<and>
     unat (minimum_validator_count (genesis_staking g)) \<le> length (stakers (genesis_staking g)) \<and>
     map fst (session_keys_of g) = map fst (stakers (genesis_staking g)) \<and>
     list_all (\<lambda>(who, bond). covered (genesis_balances g) who bond) (elections_members g)"

definition genesis_consistent :: "genesis_config \<Rightarrow> bool" where
  "genesis_consistent g \<longleftrightarrow> funds_consistent g \<and> assets_consistent g \<and> staking_consistent g"

lemmas genesis_simps = try_with_def covered_def hex32_inject HDX_def STASH_def U128_MAX_def

section \<open>The test networks\<close>

lemma genesis_asset_ids:
  "distinct (map fst xs) \<Longrightarrow>
   fold (\<lambda>(name, aid) m. m(name \<mapsto> Some aid)) xs m = (\<lambda>name. case map_of xs name of None \<Rightarrow> m name | Some i \<Rightarrow> Some (Some i))"
proof (induction xs arbitrary: m)
  case (Cons x xs)
  obtain name i where x: "x = (name, i)" by fastforce
  with Cons.prems have "map_of xs name = None" by (simp add: map_of_eq_None_iff)
  with Cons x show ?case by (auto split: option.splits)
qed simp

lemma registry_genesis_inv:
  assumes "distinct (map fst (gen_asset_ids g))" and "distinct (map snd (gen_asset_ids g))"
    and "gen_core_asset_id g < gen_next_asset_id g"
    and "list_all (\<lambda>(_, i). i < gen_next_asset_id g \<and> i \<noteq> gen_core_asset_id g) (gen_asset_ids g)"
  shows "registry_inv (registry_genesis_build g)"
proof -
  let ?m = "asset_ids (registry_genesis_build g)"
  have m: "\<exists>i. v = Some i \<and> (name, i) \<in> set (gen_asset_ids g)" if "?m name = Some v" for name v
  proof -
    have "?m name = (case map_of (gen_asset_ids g) name of None \<Rightarrow> None | Some i \<Rightarrow> Some (Some i))"
      by (simp add: registry_genesis_build_def genesis_asset_ids [OF assms(1)])
    with that show ?thesis by (cases "map_of (gen_asset_ids g) name") (auto dest: map_of_SomeD)
  qed
  have "inj_on snd (set (gen_asset_ids g))" using assms(2) by (simp add: distinct_map)
  then have "name = name'" if "?m name = Some v" "?m name' = Some v" for name name' v
    using m [OF that(1)] m [OF that(2)] inj_onD [of snd _ "(name, _)" "(name', _)"] by fastforce
  moreover have "\<exists>i. v = Some i \<and> i < gen_next_asset_id g \<and> i \<noteq> gen_core_asset_id g" if "?m name = Some v" for name v
    using m [OF that] assms(4) by (auto simp: list_all_iff)
  ultimately show ?thesis
    using assms(3) unfolding registry_inv_def by (simp add: registry_genesis_build_def)
qed

lemma endowed_tokens_distinct:
  assumes "distinct xs" and "distinct is"
  shows "distinct (concat (map (\<lambda>x. map (Pair x) is) xs))"
  using assms by (induction xs) (auto simp: distinct_map inj_on_def)

lemma covered_endowed: "x \<in> set xs \<Longrightarrow> n \<le> m \<Longrightarrow> covered (map (\<lambda>k. (k, m)) xs) x n"
  by (auto simp: covered_def list_ex_iff)

lemma testnet_assets_registered:
  "assets_consistent g" if "genesis_registry g = \<lparr>gen_core_asset_id = CORE_ASSET_ID, gen_next_asset_id = 11, gen_asset_ids = testnet_assets\<rparr>"
    and "genesis_faucet g = \<lparr>gen_mint_limit = 5, gen_rampage = True, gen_mintable_currencies = [0, 1, 2]\<rparr>"
proof -
  have "registry_inv (registry_genesis_build (genesis_registry g))"
    unfolding that by (rule registry_genesis_inv) (simp_all add: testnet_assets_def bytes_of_string_def CORE_ASSET_ID_def)
  then show ?thesis by (simp add: assets_consistent_def that genesis_asset_def CORE_ASSET_ID_def testnet_assets_def)
qed

lemma testnet_consistent:
  assumes g: "testnet_genesis ops wasm auths root endowed b = Inr g"
    and alice: "get_account_id_from_seed ops ''Alice'' = Inr alice" "alice \<in> set endowed"
    and endowed: "distinct endowed" "length endowed \<le> 1000"
    and auths: "fst ` set auths \<subseteq> set endowed" "distinct (map fst auths)" "distinct (map (fst \<circ> snd) auths)"
      "length auths < 2 ^ 32"
  shows "genesis_consistent g"
proof -
  have bal: "genesis_balances g = map (\<lambda>k. (k, 1000000 * HDX)) endowed"
    and tok: "genesis_tokens g =
      concat (map (\<lambda>x. [(x, 1, 100000 * HDX), (x, 2, 100000 * HDX), (x, 3, 100000 * HDX)]) endowed)"
    and reg: "genesis_registry g =
      \<lparr>gen_core_asset_id = CORE_ASSET_ID, gen_next_asset_id = 11, gen_asset_ids = testnet_assets\<rparr>"
    and fau: "genesis_faucet g = \<lparr>gen_mint_limit = 5, gen_rampage = True, gen_mintable_currencies = [0, 1, 2]\<rparr>"
    and ses: "session_keys_of g = map authority_session auths"
    and stk: "stakers (genesis_staking g) = map authority_staker auths"
      "minimum_validator_count (genesis_staking g) = of_nat (length auths)"
    and ele: "elections_members g = [(alice, STASH div 2)]"
    using g alice(1) by (auto simp: testnet_genesis_def try_with_def split: sum.splits)
  have "sum_list (map snd (genesis_balances g)) = length endowed * (1000000 * HDX)"
    unfolding bal by (simp add: comp_def sum_list_triv)
  also have "\<dots> \<le> 1000 * (1000000 * HDX)" using endowed(2) by (rule mult_le_mono1)
  also have "\<dots> \<le> U128_MAX" by (simp add: HDX_def U128_MAX_def)
  finally have "sum_list (map snd (genesis_balances g)) \<le> U128_MAX" .
  moreover have "map (\<lambda>(a, i, _). (a, i)) (genesis_tokens g) = concat (map (\<lambda>x. map (Pair x) [1, 2, 3]) endowed)"
    unfolding tok by (simp add: map_concat comp_def)
  moreover have "list_all (\<lambda>(_, i, _). genesis_asset g i) (genesis_tokens g)"
    unfolding tok by (auto simp: list_all_iff genesis_asset_def reg testnet_assets_def)
  ultimately have "funds_consistent g"
    using endowed(1) endowed_tokens_distinct [OF endowed(1), of "[1, 2, 3 :: asset_id]"]
    by (simp add: funds_consistent_def bal comp_def)
  moreover have "staking_consistent g"
  proof -
    have "covered (genesis_balances g) (fst x) STASH" if "x \<in> set auths" for x
      unfolding bal using auths(1) that by (intro covered_endowed) (auto simp: STASH_def HDX_def)
    moreover have "covered (genesis_balances g) alice (STASH div 2)"
      unfolding bal using alice(2) by (rule covered_endowed) (simp add: STASH_def HDX_def)
    moreover have "unat (of_nat (length auths) :: u32) = length auths" using auths(4) by (simp add: unat_of_nat)
    moreover have "fst \<circ> authority_session = fst" "fst \<circ> authority_staker = fst" "fst \<circ> snd \<circ> authority_staker = fst \<circ> snd"
      by (auto simp: authority_session_def authority_staker_def fun_eq_iff)
    ultimately show ?thesis
      using auths(2,3) unfolding staking_consistent_def ses stk ele
      by (simp add: list_all_iff authority_staker_def o_assoc)
  qed
  ultimately show ?thesis
    unfolding genesis_consistent_def using testnet_assets_registered [OF reg fau] by blast
qed

section \<open>The launched network\<close>

lemma lerna_balances_distinct: "distinct (map fst lerna_balances)"
  by (simp add: lerna_balances_def hex32_inject)

lemma lerna_balances_total: "sum_list (map snd lerna_balances) = 1856873469471297884942"
  by (simp add: lerna_balances_def HDX_def STASH_def)

lemma lerna_consistent: "genesis_consistent (lerna_genesis wasm lerna_authorities root [] b)"
proof -
  let ?g = "lerna_genesis wasm lerna_authorities root [] b"
  have "funds_consistent ?g"
    using lerna_balances_distinct lerna_balances_total
    by (simp add: funds_consistent_def lerna_genesis_def U128_MAX_def)
  moreover have "assets_consistent ?g"
    by (simp add: assets_consistent_def lerna_genesis_def registry_genesis_build_def registry_inv_def CORE_ASSET_ID_def)
  moreover have "staking_consistent ?g"
    by (simp add: staking_consistent_def lerna_genesis_def lerna_authorities_def lerna_balances_def authority_staker_def
        authority_session_def genesis_simps)
  ultimately show ?thesis by (simp add: genesis_consistent_def)
qed

lemma lerna_staging_genesis:
  assumes "lerna_staging_config ops = Inr spec"
  obtains wasm root where "spec_genesis spec = Inr (lerna_genesis wasm lerna_authorities root [] True)"
  using assms by (auto simp: lerna_staging_config_def try_with_def split: option.splits sum.splits)

lemma lerna_launch:
  fixes cfg :: "(account_id, 'st) claims_config"
  defines "bal \<equiv> claims_balances cfg"
  assumes "accepting_accounts bal" and "existential_deposit bal = ExistentialDeposit_value"
    and "\<And>bs. length bs = 20 \<Longrightarrow> from_hex cfg (to_ascii_hex bs) = Some bs"
    and "\<And>a. account bal (claims_funds s) a = account_default"
    and "claims s = Map.empty" and "claims_version s = None"
  obtains f s1 where "balances_genesis_build bal lerna_balances (claims_funds s) = (Inr (), f)"
    and "claims_on_runtime_upgrade cfg CLAIMS_DATA (s\<lparr>claims_funds := f\<rparr>) =
      (Inr (2 * db_read_weight cfg + 3 * db_write_weight cfg), s1)"
    and "claims_inv cfg s1" and "total_issuance (claims_funds s1) + owed s1 = 2300000000 * HDX"
proof -
  have stored: "stored_accounts bal" using assms(2) by (rule accepting_accounts.axioms)
  have "list_all (\<lambda>(_, n). existential_deposit bal \<le> n) lerna_balances"
    unfolding assms(3) by (simp add: ExistentialDeposit_value_def list_all_iff)
  then obtain f where f: "balances_genesis_build bal lerna_balances (claims_funds s) = (Inr (), f)"
    by (rule genesis_build_accepted [OF stored _ lerna_balances_distinct])
  have "sum_list (map snd lerna_balances) \<le> U128_MAX" unfolding lerna_balances_total by (simp add: U128_MAX_def)
  from genesis_build_balances [OF stored assms(5) this f]
  have inv: "balances_inv bal f" and iss: "total_issuance f = 1856873469471297884942"
    using lerna_balances_total by simp_all
  let ?t = "s\<lparr>claims_funds := f, claims := claims_table\<rparr>"
  have up: "claims_on_runtime_upgrade cfg CLAIMS_DATA (s\<lparr>claims_funds := f\<rparr>) =
      (Inr (2 * db_read_weight cfg + 3 * db_write_weight cfg), ?t)"
    using import_table [OF assms(4), of "s\<lparr>claims_funds := f\<rparr>"] assms(6,7) by simp
  have owed: "owed ?t = 443126530528702115058" using claims_table_owed [of ?t] by simp
  moreover have "finite (dom claims_table)" unfolding claims_table_def by (rule finite_dom_map_of)
  ultimately have "claims_inv cfg ?t"
    using inv iss by (simp add: claims_inv_def bal_def U128_MAX_def)
  moreover have "total_issuance (claims_funds ?t) + owed ?t = 2300000000 * HDX" using iss owed by (simp add: HDX_def)
  ultimately show ?thesis by (rule that [OF f up])
qed

text \<open>C1: the supply of the launched network is fixed by its genesis. The staging specification's
  balances are accepted by the balances pallet, the upgrade that follows imports the claims
  table, and from then on, whatever claims are made in whatever order, the total issuance plus
  what the claims still owe is 2300000000 HDX exactly, to the last unit.\<close>

theorem launch_supply:
  fixes cfg :: "(account_id, 'st) claims_config"
  assumes "lerna_staging_config ops = Inr spec"
    and "accepting_accounts (claims_balances cfg)"
    and "existential_deposit (claims_balances cfg) = ExistentialDeposit_value"
    and "\<And>bs. length bs = 20 \<Longrightarrow> from_hex cfg (to_ascii_hex bs) = Some bs"
    and "\<And>a. account (claims_balances cfg) (claims_funds s) a = account_default"
    and "claims s = Map.empty" and "claims_version s = None"
  shows "\<exists>g f w s1. spec_genesis spec = Inr g \<and>
    balances_genesis_build (claims_balances cfg) (genesis_balances g) (claims_funds s) = (Inr (), f) \<and>
    claims_on_runtime_upgrade cfg CLAIMS_DATA (claims_genesis_build (genesis_claims g) (s\<lparr>claims_funds := f\<rparr>)) =
      (Inr w, s1) \<and>
    (\<forall>s2. claims_reaches F cfg s1 s2 \<longrightarrow>
       balances_inv (claims_balances cfg) (claims_funds s2) \<and>
       total_issuance (claims_funds s2) + owed s2 = 2300000000 * HDX)"
proof -
  obtain wasm root where g: "spec_genesis spec = Inr (lerna_genesis wasm lerna_authorities root [] True)"
    by (rule lerna_staging_genesis [OF assms(1)])
  let ?g = "lerna_genesis wasm lerna_authorities root [] True"
  obtain f s1 where f: "balances_genesis_build (claims_balances cfg) lerna_balances (claims_funds s) = (Inr (), f)"
    and up: "claims_on_runtime_upgrade cfg CLAIMS_DATA (s\<lparr>claims_funds := f\<rparr>) =
      (Inr (2 * db_read_weight cfg + 3 * db_write_weight cfg), s1)"
    and inv: "claims_inv cfg s1" and sum: "total_issuance (claims_funds s1) + owed s1 = 2300000000 * HDX"
    by (rule lerna_launch [OF assms(2-7)])
  have "balances_inv (claims_balances cfg) (claims_funds s2) \<and>
      total_issuance (claims_funds s2) + owed s2 = 2300000000 * HDX" if "claims_reaches F cfg s1 s2" for s2
    using claims_reaches_conserves [OF assms(2) _ inv that] assms(3) sum
    by (simp add: claims_inv_def ExistentialDeposit_value_def)
  with g f up show ?thesis
    by (intro exI [of _ ?g] exI [of _ f] exI [of _ s1] exI [of _ "2 * db_read_weight cfg + 3 * db_write_weight cfg"])
      (simp add: lerna_genesis_def claims_genesis_build_def)
qed

section \<open>Every specification\<close>

definition well_known_seeds :: "string list" where
  "well_known_seeds =
     [''Alice'', ''Bob'', ''Charlie'', ''Dave'', ''Eve'', ''Ferdie'', ''Alice//stash'', ''Bob//stash'',
      ''Charlie//stash'', ''Dave//stash'', ''Eve//stash'', ''Ferdie//stash'']"

text \<open>The account of a seed whose derivation succeeds.\<close>

definition seed_account :: "node_ops \<Rightarrow> string \<Rightarrow> account_id" where
  "seed_account ops seed = public_account ops (the (pair_public ops Sr25519 (''//'' @ seed)))"

lemma derived_account:
  "pair_public ops Sr25519 (''//'' @ seed) \<noteq> None \<Longrightarrow> get_account_id_from_seed ops seed = Inr (seed_account ops seed)"
  by (auto simp: get_account_id_from_seed_def get_from_seed_def try_with_def expect_def seed_account_def)

lemma derived_accounts:
  "\<forall>seed\<in>set seeds. pair_public ops Sr25519 (''//'' @ seed) \<noteq> None \<Longrightarrow>
   seeded ops seeds = Inr (map (seed_account ops) seeds)"
  unfolding seeded_def by (induction seeds) (auto simp: derived_account try_with_def)

lemma derived_authority:
  assumes "\<forall>scheme. pair_public ops scheme (''//'' @ seed) \<noteq> None"
    and "pair_public ops Sr25519 (''//'' @ seed @ ''//stash'') \<noteq> None"
  obtains k where "authority_keys_from_seed ops seed =
    Inr (seed_account ops (seed @ ''//stash''), seed_account ops seed, k)"
proof -
  have "\<exists>k. get_from_seed ops scheme seed = Inr k" for scheme
    using spec [OF assms(1), of scheme] by (auto simp: get_from_seed_def expect_def)
  then obtain k where "get_from_seed ops scheme seed = Inr (k scheme)" for scheme by metis
  with derived_account [of ops seed] derived_account [of ops "seed @ ''//stash''"] assms show ?thesis
    by (intro that) (simp add: authority_keys_from_seed_def try_with_def)
qed

lemma testnet_genesis_built:
  assumes "\<forall>seed\<in>{''Alice'', ''Bob'', ''Eve''}. pair_public ops Sr25519 (''//'' @ seed) \<noteq> None"
  obtains g where "testnet_genesis ops wasm auths root endowed b = Inr g"
  using assms by (simp add: testnet_genesis_def try_with_def derived_account)

lemma testnet_spec_consistent:
  assumes keys: "\<forall>seed\<in>set well_known_seeds. \<forall>scheme. pair_public ops scheme (''//'' @ seed) \<noteq> None"
    and dist: "distinct (treasury_account # map (seed_account ops) well_known_seeds)"
    and seeds: "set seeds \<subseteq> set well_known_seeds" "distinct seeds" "''Alice'' \<in> set seeds"
    and auths: "map fst auths = map (\<lambda>x. seed_account ops (x @ ''//stash'')) names"
      "map (fst \<circ> snd) auths = map (seed_account ops) names"
    and names: "distinct names" "set names \<union> (\<lambda>x. x @ ''//stash'') ` set names \<subseteq> set seeds"
  obtains g where "testnet_genesis ops wasm auths root (map (seed_account ops) seeds @ [treasury_account]) b = Inr g"
    and "genesis_consistent g"
proof -
  let ?e = "map (seed_account ops) seeds @ [treasury_account]"
  have "\<forall>seed\<in>{''Alice'', ''Bob'', ''Eve''}. pair_public ops Sr25519 (''//'' @ seed) \<noteq> None"
    using keys by (simp add: well_known_seeds_def)
  then obtain g where g: "testnet_genesis ops wasm auths root ?e b = Inr g" by (rule testnet_genesis_built)
  have inj: "inj_on (seed_account ops) (set seeds)"
    using dist seeds(1) by (auto simp: distinct_map intro: inj_on_subset)
  have len: "length seeds \<le> 12"
    using card_mono [OF _ seeds(1)] distinct_card [OF seeds(2)] by (simp add: well_known_seeds_def)
  have "length names \<le> length seeds"
    using card_mono [of "set seeds" "set names"] distinct_card [OF seeds(2)] distinct_card [OF names(1)] names(2) by simp
  with len have small: "length auths < 2 ^ 32" using arg_cong [OF auths(1), of length] by simp
  have "genesis_consistent g"
  proof (rule testnet_consistent [OF g])
    show "get_account_id_from_seed ops ''Alice'' = Inr (seed_account ops ''Alice'')"
      using keys seeds(1,3) by (intro derived_account) blast
    show "seed_account ops ''Alice'' \<in> set ?e" using seeds(3) by simp
    show "distinct ?e" using dist seeds inj by (auto simp: distinct_map)
    show "length ?e \<le> 1000" using len by simp
    have "fst ` set auths = set (map fst auths)" by simp
    then show "fst ` set auths \<subseteq> set ?e" unfolding auths(1) using names(2) by auto
    have inj': "inj_on (seed_account ops) (set names \<union> (\<lambda>x. x @ ''//stash'') ` set names)"
      using inj names(2) by (rule inj_on_subset)
    show "distinct (map fst auths)" unfolding auths(1) using names(1) inj'
      by (auto simp: distinct_map inj_on_def)
    show "distinct (map (fst \<circ> snd) auths)" unfolding auths(2) using names(1) inj'
      by (auto simp: distinct_map inj_on_def)
  qed (rule small)
  with g show ?thesis by (rule that)
qed

lemma well_known_authority:
  assumes "\<forall>seed\<in>set well_known_seeds. \<forall>scheme. pair_public ops scheme (''//'' @ seed) \<noteq> None"
    and "{seed, seed @ ''//stash''} \<subseteq> set well_known_seeds"
  shows "\<exists>k. authority_keys_from_seed ops seed = Inr (seed_account ops (seed @ ''//stash''), seed_account ops seed, k)"
proof -
  have "\<forall>scheme. pair_public ops scheme (''//'' @ seed) \<noteq> None"
    and "pair_public ops Sr25519 (''//'' @ seed @ ''//stash'') \<noteq> None"
    using assms by (blast, blast)
  then show ?thesis by (rule derived_authority) blast
qed

lemma development_consistent:
  assumes keys: "\<forall>seed\<in>set well_known_seeds. \<forall>scheme. pair_public ops scheme (''//'' @ seed) \<noteq> None"
    and dist: "distinct (treasury_account # map (seed_account ops) well_known_seeds)"
    and spec: "development_config ops = Inr spec"
  shows "\<exists>g. spec_genesis spec = Inr g \<and> genesis_consistent g"
proof -
  let ?seeds = "[''Alice'', ''Bob'', ''Alice//stash'', ''Bob//stash'']"
  have sub: "set ?seeds \<subseteq> set well_known_seeds" by (simp add: well_known_seeds_def)
  obtain ka where auth: "authority_keys_from_seed ops ''Alice'' =
      Inr (seed_account ops ''Alice//stash'', seed_account ops ''Alice'', ka)"
    using well_known_authority [OF keys, of "''Alice''"] sub by auto
  have root: "get_account_id_from_seed ops ''Alice'' = Inr (seed_account ops ''Alice'')"
    using keys sub by (intro derived_account) auto
  have endowed: "seeded ops ?seeds = Inr (map (seed_account ops) ?seeds)"
    using keys sub by (intro derived_accounts) blast
  obtain wasm where "WASM_BINARY ops = Some wasm"
    using spec by (auto simp: development_config_def split: option.splits)
  moreover obtain g where "testnet_genesis ops wasm [(seed_account ops ''Alice//stash'', seed_account ops ''Alice'', ka)]
      (seed_account ops ''Alice'') (map (seed_account ops) ?seeds @ [treasury_account]) True = Inr g"
    and "genesis_consistent g"
    by (rule testnet_spec_consistent [OF keys dist sub, where names = "[''Alice'']" and
        auths = "[(seed_account ops ''Alice//stash'', seed_account ops ''Alice'', ka)]"]) simp_all
  ultimately show ?thesis
    using spec auth root endowed by (auto simp: development_config_def try_with_def)
qed

lemma local_testnet_consistent:
  assumes keys: "\<forall>seed\<in>set well_known_seeds. \<forall>scheme. pair_public ops scheme (''//'' @ seed) \<noteq> None"
    and dist: "distinct (treasury_account # map (seed_account ops) well_known_seeds)"
    and spec: "local_testnet_config ops = Inr spec"
  shows "\<exists>g. spec_genesis spec = Inr g \<and> genesis_consistent g"
proof -
  have known: "{''Alice'', ''Alice//stash'', ''Bob'', ''Bob//stash''} \<subseteq> set well_known_seeds"
    by (simp add: well_known_seeds_def)
  obtain ka kb where auth:
    "authority_keys_from_seed ops ''Alice'' = Inr (seed_account ops ''Alice//stash'', seed_account ops ''Alice'', ka)"
    "authority_keys_from_seed ops ''Bob'' = Inr (seed_account ops ''Bob//stash'', seed_account ops ''Bob'', kb)"
    using well_known_authority [OF keys, of "''Alice''"] well_known_authority [OF keys, of "''Bob''"] known by auto
  have root: "get_account_id_from_seed ops ''Alice'' = Inr (seed_account ops ''Alice'')"
    using keys known by (intro derived_account) auto
  have endowed: "seeded ops well_known_seeds = Inr (map (seed_account ops) well_known_seeds)"
    using keys by (intro derived_accounts) blast
  obtain wasm where "WASM_BINARY ops = Some wasm"
    using spec by (auto simp: local_testnet_config_def split: option.splits)
  moreover obtain g where "testnet_genesis ops wasm
      [(seed_account ops ''Alice//stash'', seed_account ops ''Alice'', ka),
       (seed_account ops ''Bob//stash'', seed_account ops ''Bob'', kb)]
      (seed_account ops ''Alice'') (map (seed_account ops) well_known_seeds @ [treasury_account]) True = Inr g"
    and "genesis_consistent g"
    by (rule testnet_spec_consistent [OF keys dist subset_refl, where names = "[''Alice'', ''Bob'']" and
        auths = "[(seed_account ops ''Alice//stash'', seed_account ops ''Alice'', ka),
          (seed_account ops ''Bob//stash'', seed_account ops ''Bob'', kb)]"])
      (simp_all add: well_known_seeds_def)
  ultimately show ?thesis
    using spec auth root endowed by (auto simp: local_testnet_config_def try_with_def simp flip: well_known_seeds_def)
qed

text \<open>C16: every specification the node builds itself starts from a consistent genesis: for the
  development chain, the local test network and the staging of the launched network, the genesis
  is built without a panic, endows no account twice, registers its assets one to one below the
  next identifier, endows and mints only registered assets, and covers every validator's stake
  and every member's bond. Assumed of the key library: the well-known seeds have keys, and
  accounts of different seeds, and that of the treasury, differ.\<close>

theorem specs_consistent:
  assumes "path \<in> {''dev'', ''local'', ''lerna-staging''}" and "load_spec ops path = Inr spec"
    and "\<forall>seed\<in>set well_known_seeds. \<forall>scheme. pair_public ops scheme (''//'' @ seed) \<noteq> None"
    and "distinct (treasury_account # map (seed_account ops) well_known_seeds)"
  shows "\<exists>g. spec_genesis spec = Inr g \<and> genesis_consistent g"
proof -
  consider "path = ''dev''" | "path = ''local''" | "path = ''lerna-staging''" using assms(1) by blast
  then show ?thesis
  proof cases
    case 1
    with assms(2) show ?thesis by (intro development_consistent [OF assms(3,4)]) (simp add: load_spec_def)
  next
    case 2
    with assms(2) show ?thesis by (intro local_testnet_consistent [OF assms(3,4)]) (simp add: load_spec_def)
  next
    case 3
    with assms(2) have "lerna_staging_config ops = Inr spec" by (simp add: load_spec_def)
    then show ?thesis using lerna_consistent by (elim lerna_staging_genesis) blast
  qed
qed

section \<open>An example\<close>

definition example_ops :: node_ops where
  "example_ops =
     \<lparr>pair_public = (\<lambda>scheme s. Some (bytes_of_string s)), public_account = id, parse_multiaddr = Some,
      telemetry_endpoints = Some, lerna_json = [], from_json_bytes = (\<lambda>_. Inl (Spec_Error ''empty'')),
      from_json_file = (\<lambda>_. Inl (Spec_Error ''no file'')), WASM_BINARY = Some [0, 97, 115, 109]\<rparr>"

definition launch_frame :: "(account_id, account_id, account_id) frame_ops" where
  "launch_frame = \<lparr>ensure_signed = Inr, ensure_root = (\<lambda>_. Inl BadOrigin), lookup_account = Inr\<rparr>"

definition launch_config :: "(account_id, account_id \<Rightarrow> account_data option) claims_config" where
  "launch_config =
     \<lparr>claims_balances = account_map_config ExistentialDeposit_value MaxLocks_value, claim_prefix = ClaimMessagePrefix,
      encode_account = id, keccak_256 = (\<lambda>bs. take 32 (bs @ replicate 32 0)),
      secp256k1_ecdsa_recover = (\<lambda>sig msg. Some sig), to_hex = to_ascii_hex, from_hex = unhex,
      db_read_weight = 25, db_write_weight = 100\<rparr>"

definition launch_state :: "(account_id, account_id \<Rightarrow> account_data option) claims_state" where
  "launch_state =
     \<lparr>claims_funds = balances_start [], claims = Map.empty, claims_version = None, claims_events = []\<rparr>"

theorem specs_consistent_witness:
  "\<exists>spec g. load_spec example_ops ''local'' = Inr spec \<and> spec_genesis spec = Inr g \<and> genesis_consistent g"
proof -
  obtain spec where spec: "load_spec example_ops ''local'' = Inr spec"
    by (simp add: load_spec_def local_testnet_config_def example_ops_def)
  have "\<forall>seed\<in>set well_known_seeds. \<forall>scheme. pair_public example_ops scheme (''//'' @ seed) \<noteq> None"
    by (simp add: example_ops_def)
  moreover have "distinct (treasury_account # map (seed_account example_ops) well_known_seeds)"
    unfolding treasury_account_module
    by (simp add: well_known_seeds_def seed_account_def example_ops_def bytes_of_string_def)
  ultimately show ?thesis using specs_consistent [OF _ spec] spec by simp
qed

theorem launch_supply_witness:
  "\<exists>spec g f w s1. lerna_staging_config example_ops = Inr spec \<and> spec_genesis spec = Inr g \<and>
     balances_genesis_build (claims_balances launch_config) (genesis_balances g) (claims_funds launch_state) = (Inr (), f) \<and>
     claims_on_runtime_upgrade launch_config CLAIMS_DATA
       (claims_genesis_build (genesis_claims g) (launch_state\<lparr>claims_funds := f\<rparr>)) = (Inr w, s1) \<and>
     total_issuance (claims_funds s1) + owed s1 = 2300000000 * HDX"
proof -
  obtain spec where spec: "lerna_staging_config example_ops = Inr spec"
    by (simp add: lerna_staging_config_def lerna_boot_nodes_def example_ops_def try_with_def expect_def)
  have store: "accepting_accounts (claims_balances launch_config)"
    unfolding launch_config_def by (simp, rule account_map.accepting_accounts_axioms)
  have start: "account (claims_balances launch_config) (claims_funds launch_state) a = account_default" for a
    by (simp add: launch_config_def launch_state_def balances_start_def account_map_account)
  have ed: "existential_deposit (claims_balances launch_config) = ExistentialDeposit_value" by (simp add: launch_config_def)
  have hex: "from_hex launch_config (to_ascii_hex bs) = Some bs" for bs
    by (simp add: launch_config_def unhex_to_ascii_hex)
  have "claims launch_state = Map.empty" "claims_version launch_state = None" by (simp_all add: launch_state_def)
  note launch_supply [OF spec store ed hex start this, where F = launch_frame]
  moreover have "claims_reaches launch_frame launch_config s1 s1" for s1 by (simp add: claims_reaches_def)
  ultimately show ?thesis using spec by blast
qed

end
