(* ===== verification/Multi_Payment.thy ===== *)
theory Multi_Payment
  imports XYK_Props
begin

text \<open>
  \<open>src/pallets/transaction-multi-payment/src/lib.rs\<close>: transaction fees in currencies other than
  the native one. Accounts choose a currency among those the authorities accept; when a fee is
  due the pallet buys the native asset for it from the market maker and the fee is withdrawn
  from the native balance. Parameters: the multi-currency, the market maker, the native
  \<open>Currency\<close> with the destructors of its imbalances, what happens to collected fees, the
  ordered set of the ORML utilities, and the weights with their conversion to a fee.
\<close>

section \<open>Configuration and storage\<close>

record 'os ordered_set_ops =
  os_new :: 'os
  os_contains :: "asset_id \<Rightarrow> 'os \<Rightarrow> bool"
  os_insert :: "asset_id \<Rightarrow> 'os \<Rightarrow> bool \<times> 'os"
  os_remove :: "asset_id \<Rightarrow> 'os \<Rightarrow> bool \<times> 'os"

record ('acc, 's) native_ops =
  nat_withdraw :: "'acc \<Rightarrow> balance \<Rightarrow> withdraw_reasons \<Rightarrow> existence_requirement \<Rightarrow> 's \<Rightarrow>
    (dispatch_error + negative_imbalance) \<times> 's"
  nat_deposit_into_existing :: "'acc \<Rightarrow> balance \<Rightarrow> 's \<Rightarrow> (dispatch_error + positive_imbalance) \<times> 's"
  nat_drop_positive :: "positive_imbalance \<Rightarrow> 's \<Rightarrow> 's"
  on_unbalanceds :: "negative_imbalance list \<Rightarrow> 's \<Rightarrow> 's"

record ('acc, 's, 'os) payment_config =
  pay_native :: "('acc, 's) native_ops"
  pay_currency :: "('acc, 's) currency_ops"
  pay_amm :: "('acc, 's) amm_ops"
  pay_set :: "'os ordered_set_ops"
  withdraw_fee_for_set_currency :: bool
  base_extrinsic :: nat
  set_currency_weight :: nat
  max_block :: nat
  weight_to_fee_calc :: "nat \<Rightarrow> balance"

datatype 'acc payment_event =
    CurrencySet 'acc asset_id
  | CurrencyAdded 'acc asset_id
  | CurrencyRemoved 'acc asset_id
  | MemberAdded 'acc
  | MemberRemoved 'acc

record ('acc, 's, 'os) payment_state =
  pay_chain :: 's
  account_currency_map :: "'acc \<Rightarrow> asset_id option option"
  accepted_currencies :: 'os
  authorities :: "'acc list"
  payment_events :: "'acc payment_event list"

type_synonym ('acc, 's, 'os, 'a) payment_result = "(dispatch_error + 'a) \<times> ('acc, 's, 'os) payment_state"

definition get_currency :: "('acc, 's, 'os) payment_state \<Rightarrow> 'acc \<Rightarrow> asset_id option" where
  "get_currency s who = (case account_currency_map s who of None \<Rightarrow> None | Some c \<Rightarrow> c)"

definition payment_deposit_event ::
  "'acc payment_event \<Rightarrow> ('acc, 's, 'os) payment_state \<Rightarrow> ('acc, 's, 'os) payment_state" where
  "payment_deposit_event ev s = s\<lparr>payment_events := payment_events s @ [ev]\<rparr>"

definition on_pay_chain ::
  "('s \<Rightarrow> 'r \<times> 's) \<Rightarrow> ('acc, 's, 'os) payment_state \<Rightarrow> 'r \<times> ('acc, 's, 'os) payment_state" where
  "on_pay_chain = zoom pay_chain (\<lambda>t s. s\<lparr>pay_chain := t\<rparr>)"

section \<open>Genesis\<close>

record ('acc, 'os) payment_genesis =
  gen_currencies :: 'os
  gen_authorities :: "'acc list"

definition payment_genesis_default :: "('acc, 's, 'os) payment_config \<Rightarrow> ('acc, 'os) payment_genesis" where
  "payment_genesis_default cfg = \<lparr>gen_currencies = os_new (pay_set cfg), gen_authorities = []\<rparr>"

definition payment_genesis_build ::
  "('acc, 'os) payment_genesis \<Rightarrow> ('acc, 's, 'os) payment_state \<Rightarrow> ('acc, 's, 'os) payment_state" where
  "payment_genesis_build g s =
     s\<lparr>authorities := gen_authorities g, accepted_currencies := gen_currencies g\<rparr>"

section \<open>Internal functions\<close>

definition weight_to_fee :: "('acc, 's, 'os) payment_config \<Rightarrow> nat \<Rightarrow> balance" where
  "weight_to_fee cfg weight = (let capped_weight = min weight (max_block cfg) in weight_to_fee_calc cfg capped_weight)"

definition swap_currency ::
  "('acc, 's, 'os) payment_config \<Rightarrow> 'acc \<Rightarrow> balance \<Rightarrow>
   ('acc, 's, 'os) payment_state \<Rightarrow> ('acc, 's, 'os, unit) payment_result" where
  "swap_currency cfg who fee s =
     (let fee_currency = (case get_currency s who of Some c \<Rightarrow> c | None \<Rightarrow> CORE_ASSET_ID)
      in if fee_currency \<noteq> CORE_ASSET_ID
         then and_then (on_pay_chain (amm_buy (pay_amm cfg) who
                          \<lparr>asset_in = fee_currency, asset_out = CORE_ASSET_ID\<rparr> fee (wrapping_mul 2 fee) False) s)
                (\<lambda>_ s. (Inr (), s))
         else (Inr (), s))"

definition add_new_member :: "'acc \<Rightarrow> ('acc, 's, 'os) payment_state \<Rightarrow> ('acc, 's, 'os) payment_state" where
  "add_new_member who s = s\<lparr>authorities := authorities s @ [who]\<rparr>"

definition withdraw_set_fee ::
  "('acc, 's, 'os) payment_config \<Rightarrow> 'acc \<Rightarrow> asset_id \<Rightarrow>
   ('acc, 's, 'os) payment_state \<Rightarrow> ('acc, 's, 'os, unit) payment_result" where
  "withdraw_set_fee cfg who currency s =
     (let base_fee = weight_to_fee cfg (base_extrinsic cfg);
          adjusted_weight_fee = weight_to_fee cfg (set_currency_weight cfg);
          fee = saturating_add base_fee adjusted_weight_fee
      in and_then (swap_currency cfg who fee s) (\<lambda>_ s.
         and_then (on_pay_chain (cur_withdraw (pay_currency cfg) currency who fee) s) (\<lambda>_ s. (Inr (), s))))"

section \<open>Calls\<close>

definition set_currency ::
  "('o, 'src, 'acc) frame_ops \<Rightarrow> ('acc, 's, 'os) payment_config \<Rightarrow> 'o \<Rightarrow> asset_id \<Rightarrow>
   ('acc, 's, 'os) payment_state \<Rightarrow> ('acc, 's, 'os, unit) payment_result" where
  "set_currency F cfg orig currency = transactional (\<lambda>s.
     and_then (ensure_signed F orig, s) (\<lambda>who s.
     if currency = CORE_ASSET_ID \<or> os_contains (pay_set cfg) currency (accepted_currencies s)
     then if cur_free (pay_currency cfg) (pay_chain s) currency who = 0
          then (Inl (MultiTransactionPayment ZeroBalance), s)
          else let s = s\<lparr>account_currency_map := (account_currency_map s)(who \<mapsto> Some currency)\<rparr> in
          and_then (if withdraw_fee_for_set_currency cfg then withdraw_set_fee cfg who currency s else (Inr (), s))
            (\<lambda>_ s. (Inr (), payment_deposit_event (CurrencySet who currency) s))
     else (Inl (MultiTransactionPayment UnsupportedCurrency), s)))"

definition add_currency ::
  "('o, 'src, 'acc) frame_ops \<Rightarrow> ('acc, 's, 'os) payment_config \<Rightarrow> 'o \<Rightarrow> asset_id \<Rightarrow>
   ('acc, 's, 'os) payment_state \<Rightarrow> ('acc, 's, 'os, unit) payment_result" where
  "add_currency F cfg orig currency s =
     and_then (ensure_signed F orig, s) (\<lambda>who s.
     if currency = CORE_ASSET_ID then (Inl (MultiTransactionPayment CoreAssetNotAllowed), s)
     else if who \<notin> set (authorities s) then (Inl (MultiTransactionPayment NotAllowed), s)
     else case os_insert (pay_set cfg) currency (accepted_currencies s) of (inserted, x) \<Rightarrow>
       let s = s\<lparr>accepted_currencies := x\<rparr> in
       if inserted then (Inr (), payment_deposit_event (CurrencyAdded who currency) s)
       else (Inl (MultiTransactionPayment AlreadyAccepted), s))"

definition remove_currency ::
  "('o, 'src, 'acc) frame_ops \<Rightarrow> ('acc, 's, 'os) payment_config \<Rightarrow> 'o \<Rightarrow> asset_id \<Rightarrow>
   ('acc, 's, 'os) payment_state \<Rightarrow> ('acc, 's, 'os, unit) payment_result" where
  "remove_currency F cfg orig currency s =
     and_then (ensure_signed F orig, s) (\<lambda>who s.
     if currency = CORE_ASSET_ID then (Inl (MultiTransactionPayment CoreAssetNotAllowed), s)
     else if who \<notin> set (authorities s) then (Inl (MultiTransactionPayment NotAllowed), s)
     else case os_remove (pay_set cfg) currency (accepted_currencies s) of (removed, x) \<Rightarrow>
       let s = s\<lparr>accepted_currencies := x\<rparr> in
       if removed then (Inr (), payment_deposit_event (CurrencyRemoved who currency) s)
       else (Inl (MultiTransactionPayment UnsupportedCurrency), s))"

definition add_member ::
  "('o, 'src, 'acc) frame_ops \<Rightarrow> 'o \<Rightarrow> 'acc \<Rightarrow>
   ('acc, 's, 'os) payment_state \<Rightarrow> ('acc, 's, 'os, unit) payment_result" where
  "add_member F orig member s =
     and_then (ensure_root F orig, s) (\<lambda>_ s.
     if member \<in> set (authorities s) then (Inl (MultiTransactionPayment AlreadyMember), s)
     else (Inr (), payment_deposit_event (MemberAdded member) (add_new_member member s)))"

definition remove_member ::
  "('o, 'src, 'acc) frame_ops \<Rightarrow> 'o \<Rightarrow> 'acc \<Rightarrow>
   ('acc, 's, 'os) payment_state \<Rightarrow> ('acc, 's, 'os, unit) payment_result" where
  "remove_member F orig member s =
     and_then (ensure_root F orig, s) (\<lambda>_ s.
     if member \<notin> set (authorities s) then (Inl (MultiTransactionPayment NotAMember), s)
     else (Inr (), payment_deposit_event (MemberRemoved member)
            (s\<lparr>authorities := filter (\<lambda>val. val \<noteq> member) (authorities s)\<rparr>)))"

section \<open>Charging fees\<close>

text \<open>\<open>TransactionValidityError::Invalid(InvalidTransaction::Payment)\<close>.\<close>

datatype validity_error = Invalid_Payment

definition withdraw_fee ::
  "('acc, 's, 'os) payment_config \<Rightarrow> 'acc \<Rightarrow> balance \<Rightarrow> balance \<Rightarrow>
   ('acc, 's, 'os) payment_state \<Rightarrow> (validity_error + negative_imbalance option) \<times> ('acc, 's, 'os) payment_state" where
  "withdraw_fee cfg who fee tip s =
     (if fee = 0 then (Inr None, s)
      else let withdraw_reason = (if tip = 0 then {TRANSACTION_PAYMENT} else {TRANSACTION_PAYMENT, TIP}) in
      case swap_currency cfg who fee s of
        (Inl _, s) \<Rightarrow> (Inl Invalid_Payment, s)
      | (Inr _, s) \<Rightarrow>
          (case on_pay_chain (nat_withdraw (pay_native cfg) who fee withdraw_reason Keep_Alive) s of
             (Inr imbalance, s) \<Rightarrow> (Inr (Some imbalance), s)
           | (Inl _, s) \<Rightarrow> (Inl Invalid_Payment, s)))"

text \<open>
  \<open>same()\<close> of the framework's \<open>SameOrOther\<close>: an empty result is the zero imbalance; the other
  side is dropped by the \<open>map_err\<close>.
\<close>

definition correct_and_deposit_fee ::
  "('acc, 's, 'os) payment_config \<Rightarrow> 'acc \<Rightarrow> balance \<Rightarrow> balance \<Rightarrow> negative_imbalance option \<Rightarrow>
   ('acc, 's, 'os) payment_state \<Rightarrow> (validity_error + unit) \<times> ('acc, 's, 'os) payment_state" where
  "correct_and_deposit_fee cfg who corrected_fee tip already_withdrawn s =
     (case already_withdrawn of
        None \<Rightarrow> (Inr (), s)
      | Some paid \<Rightarrow>
          (let refund_amount = saturating_sub (negative_peek paid) corrected_fee in
           case on_pay_chain (nat_deposit_into_existing (pay_native cfg) who refund_amount) s of (r, s) \<Rightarrow>
           let refund_imbalance = (case r of Inr x \<Rightarrow> x | Inl _ \<Rightarrow> PositiveImbalance 0) in
           case negative_offset paid refund_imbalance of
             Same_Other b \<Rightarrow> (Inl Invalid_Payment, s\<lparr>pay_chain := nat_drop_positive (pay_native cfg) b (pay_chain s)\<rparr>)
           | Same adjusted_paid \<Rightarrow>
               (let (x, y) = negative_split adjusted_paid tip
                in (Inr (), s\<lparr>pay_chain := on_unbalanceds (pay_native cfg) [x, y] (pay_chain s)\<rparr>))
           | Same_None \<Rightarrow>
               (let (x, y) = negative_split (NegativeImbalance 0) tip
                in (Inr (), s\<lparr>pay_chain := on_unbalanceds (pay_native cfg) [x, y] (pay_chain s)\<rparr>))))"

end
