(* ===== verification/Multi_Payment_Props.thy ===== *)
theory Multi_Payment_Props
  imports Multi_Payment Exchange_Market
begin

text \<open>
  Properties of the multi-payment pallet: who may change the accepted currencies, that the
  native asset never needs to be accepted, and what a fee costs in the native and in another
  currency. The ordered set of accepted currencies is used through its contract
  (locale \<open>currency_set\<close>), interpreted on sorted vectors; the native currency of the composition
  is the balances pallet of asset 0, and the market maker the XYK pallet.
\<close>

section \<open>The set of accepted currencies\<close>

locale currency_set =
  fixes S :: "'os ordered_set_ops" and members :: "'os \<Rightarrow> asset_id set" and os_ok :: "'os \<Rightarrow> bool"
  assumes new_set: "os_ok (os_new S) \<and> members (os_new S) = {}"
    and contains_set: "os_ok x \<Longrightarrow> os_contains S c x \<longleftrightarrow> c \<in> members x"
    and insert_set: "os_ok x \<Longrightarrow> os_insert S c x = (b, y) \<Longrightarrow>
      b = (c \<notin> members x) \<and> members y = insert c (members x) \<and> os_ok y"
    and remove_set: "os_ok x \<Longrightarrow> os_remove S c x = (b, y) \<Longrightarrow>
      b = (c \<in> members x) \<and> members y = members x - {c} \<and> os_ok y"

definition vector_set :: "asset_id list ordered_set_ops" where
  "vector_set =
     \<lparr>os_new = [],
      os_contains = (\<lambda>c xs. c \<in> set xs),
      os_insert = (\<lambda>c xs. if c \<in> set xs then (False, xs) else (True, insort c xs)),
      os_remove = (\<lambda>c xs. if c \<in> set xs then (True, remove1 c xs) else (False, xs))\<rparr>"

interpretation vector_currencies: currency_set vector_set set "\<lambda>xs. sorted xs \<and> distinct xs"
  by unfold_locales
    (auto simp: vector_set_def set_insort_key sorted_insort distinct_insort sorted_remove1 distinct_remove1
      split: if_splits)

section \<open>Composition\<close>

text \<open>
  The native currency inside the state of the XYK pallet; collected fees go to \<open>()\<close>, which merges
  the imbalances and drops the result.
\<close>

definition balances_native ::
  "('acc, 'st) balances_config \<Rightarrow> ('acc, ('acc, asset_id \<Rightarrow> ('acc, 'st) balances_state) xyk_state) native_ops" where
  "balances_native bal =
     \<lparr>nat_withdraw = (\<lambda>who n rs live. on_currency (at_asset CORE_ASSET_ID (withdraw bal who n rs live))),
      nat_deposit_into_existing = (\<lambda>who n. on_currency (at_asset CORE_ASSET_ID (deposit_into_existing bal who n))),
      nat_drop_positive = (\<lambda>p s. s\<lparr>currencies := (currencies s)
        (CORE_ASSET_ID := drop_positive p (currencies s CORE_ASSET_ID))\<rparr>),
      on_unbalanceds = (\<lambda>amounts s. s\<lparr>currencies := (currencies s)
        (CORE_ASSET_ID := drop_negative (fold negative_merge amounts (NegativeImbalance 0))
           (currencies s CORE_ASSET_ID))\<rparr>)\<rparr>"

definition xyk_payment ::
  "('acc, 'st) balances_config \<Rightarrow> ('acc, asset_id \<Rightarrow> ('acc, 'st) balances_state) xyk_config \<Rightarrow> bool \<Rightarrow> nat \<Rightarrow>
   nat \<Rightarrow> nat \<Rightarrow> ('acc, ('acc, asset_id \<Rightarrow> ('acc, 'st) balances_state) xyk_state, asset_id list) payment_config" where
  "xyk_payment bal cfg pays base set_weight max_weight =
     \<lparr>pay_native = balances_native bal, pay_currency = pallet_currency (xyk_currency cfg), pay_amm = xyk_amm cfg,
      pay_set = vector_set, withdraw_fee_for_set_currency = pays, base_extrinsic = base,
      set_currency_weight = set_weight, max_block = max_weight, weight_to_fee_calc = (\<lambda>w. w)\<rparr>"

lemma xyk_payment_simps [simp]:
  "pay_native (xyk_payment bal cfg pays base sw mw) = balances_native bal"
  "pay_currency (xyk_payment bal cfg pays base sw mw) = pallet_currency (xyk_currency cfg)"
  "pay_amm (xyk_payment bal cfg pays base sw mw) = xyk_amm cfg"
  "pay_set (xyk_payment bal cfg pays base sw mw) = vector_set"
  "withdraw_fee_for_set_currency (xyk_payment bal cfg pays base sw mw) = pays"
  "base_extrinsic (xyk_payment bal cfg pays base sw mw) = base"
  "set_currency_weight (xyk_payment bal cfg pays base sw mw) = sw"
  "max_block (xyk_payment bal cfg pays base sw mw) = mw"
  "weight_to_fee_calc (xyk_payment bal cfg pays base sw mw) w = w"
  by (simp_all add: xyk_payment_def)

section \<open>Calls\<close>

inductive payment_step ::
  "('o, 'src, 'acc) frame_ops \<Rightarrow> ('acc, 's, 'os) payment_config \<Rightarrow>
   ('acc, 's, 'os) payment_state \<Rightarrow> ('acc, 's, 'os) payment_state \<Rightarrow> bool"
  for F cfg where
  step_set_currency: "set_currency F cfg orig c s = (r, s') \<Longrightarrow> payment_step F cfg s s'"
| step_add_currency: "add_currency F cfg orig c s = (r, s') \<Longrightarrow> payment_step F cfg s s'"
| step_remove_currency: "remove_currency F cfg orig c s = (r, s') \<Longrightarrow> payment_step F cfg s s'"
| step_add_member: "add_member F orig m s = (r, s') \<Longrightarrow> payment_step F cfg s s'"
| step_remove_member: "remove_member F orig m s = (r, s') \<Longrightarrow> payment_step F cfg s s'"
| step_withdraw_fee: "withdraw_fee cfg who fee tip s = (rv, s') \<Longrightarrow> payment_step F cfg s s'"
| step_correct_fee: "correct_and_deposit_fee cfg who fee tip paid s = (ru, s') \<Longrightarrow> payment_step F cfg s s'"

inductive_cases payment_stepE: "payment_step F cfg s s'"

definition payment_reaches ::
  "('o, 'src, 'acc) frame_ops \<Rightarrow> ('acc, 's, 'os) payment_config \<Rightarrow>
   ('acc, 's, 'os) payment_state \<Rightarrow> ('acc, 's, 'os) payment_state \<Rightarrow> bool" where
  "payment_reaches F cfg = (payment_step F cfg)\<^sup>*\<^sup>*"

lemma on_pay_chain_eq:
  "on_pay_chain f s = (r, s') \<longleftrightarrow> (\<exists>t. f (pay_chain s) = (r, t) \<and> s' = s\<lparr>pay_chain := t\<rparr>)"
  by (simp add: on_pay_chain_def zoom_eq)

lemma payment_deposit_event_simps [simp]:
  "pay_chain (payment_deposit_event ev s) = pay_chain s"
  "accepted_currencies (payment_deposit_event ev s) = accepted_currencies s"
  "authorities (payment_deposit_event ev s) = authorities s"
  "account_currency_map (payment_deposit_event ev s) = account_currency_map s"
  by (simp_all add: payment_deposit_event_def)

text \<open>The pallet's own lists, which trades and fees do not touch.\<close>

definition same_lists :: "('acc, 's, 'os) payment_state \<Rightarrow> ('acc, 's, 'os) payment_state \<Rightarrow> bool" where
  "same_lists s s' \<longleftrightarrow> accepted_currencies s' = accepted_currencies s \<and> authorities s' = authorities s"

lemma same_lists_simps [simp]: "same_lists s s" "same_lists s (s'\<lparr>pay_chain := t\<rparr>) = same_lists s s'"
  by (simp_all add: same_lists_def)

lemma swap_currency_lists: "swap_currency cfg who fee s = (r, s') \<Longrightarrow> same_lists s s'"
  by (cases r) (auto simp: swap_currency_def Let_def and_then_eq_Inr and_then_eq_Inl on_pay_chain_eq split: if_splits)

lemma set_currency_lists: "set_currency F cfg orig c s = (r, s') \<Longrightarrow> same_lists s s'"
proof (cases r)
  case (Inr x)
  assume "set_currency F cfg orig c s = (r, s')"
  with Inr obtain who t where "(if withdraw_fee_for_set_currency cfg
      then withdraw_set_fee cfg who c (s\<lparr>account_currency_map := (account_currency_map s)(who \<mapsto> Some c)\<rparr>)
      else (Inr (), s\<lparr>account_currency_map := (account_currency_map s)(who \<mapsto> Some c)\<rparr>)) = (Inr (), t)"
    "s' = payment_deposit_event (CurrencySet who c) t"
    by (auto simp: set_currency_def transactional_eq_Inr and_then_eq_Inr Let_def split: if_splits)
  then show ?thesis
    by (auto simp: withdraw_set_fee_def Let_def and_then_eq_Inr on_pay_chain_eq same_lists_def
        split: if_splits dest!: swap_currency_lists)
qed (auto simp: set_currency_def transactional_eq_Inl)

lemma withdraw_fee_lists: "withdraw_fee cfg who fee tip s = (r, s') \<Longrightarrow> same_lists s s'"
  by (auto simp: withdraw_fee_def Let_def on_pay_chain_eq same_lists_def
      split: if_splits prod.splits sum.splits dest!: swap_currency_lists)

lemma correct_fee_lists: "correct_and_deposit_fee cfg who fee tip paid s = (r, s') \<Longrightarrow> same_lists s s'"
  by (auto simp: correct_and_deposit_fee_def Let_def on_pay_chain_eq same_lists_def
      split: option.splits prod.splits same_or_other.splits)

context currency_set
begin

lemma add_currency_effect:
  assumes "S = pay_set cfg" and "os_ok (accepted_currencies s)" and "add_currency F cfg orig c s = (r, s')"
  shows "authorities s' = authorities s \<and> pay_chain s' = pay_chain s \<and> os_ok (accepted_currencies s') \<and>
    (case r of
       Inl _ \<Rightarrow> members (accepted_currencies s') = members (accepted_currencies s)
     | Inr _ \<Rightarrow> c \<noteq> CORE_ASSET_ID \<and> c \<notin> members (accepted_currencies s) \<and>
         (\<exists>who\<in>set (authorities s). ensure_signed F orig = Inr who) \<and>
         members (accepted_currencies s') = insert c (members (accepted_currencies s)))"
proof -
  obtain b y where y: "os_insert (pay_set cfg) c (accepted_currencies s) = (b, y)" by fastforce
  then have "os_insert S c (accepted_currencies s) = (b, y)" by (simp add: assms(1))
  note I = insert_set [OF assms(2) this]
  consider "accepted_currencies s' = accepted_currencies s" "authorities s' = authorities s" "pay_chain s' = pay_chain s"
      "\<not> is_ok r"
    | who where "ensure_signed F orig = Inr who" "who \<in> set (authorities s)" "c \<noteq> CORE_ASSET_ID"
      "accepted_currencies s' = y" "authorities s' = authorities s" "pay_chain s' = pay_chain s" "is_ok r = b"
    using assms(3) y
    by (cases "ensure_signed F orig"; cases b) (auto simp: add_currency_def Let_def split: if_splits)
  then show ?thesis
  proof cases
    case 1
    with assms(2) show ?thesis by (cases r) simp_all
  next
    case 2
    with I show ?thesis by (cases r) auto
  qed
qed

lemma remove_currency_effect:
  assumes "S = pay_set cfg" and "os_ok (accepted_currencies s)" and "remove_currency F cfg orig c s = (r, s')"
  shows "authorities s' = authorities s \<and> pay_chain s' = pay_chain s \<and> os_ok (accepted_currencies s') \<and>
    (case r of
       Inl _ \<Rightarrow> members (accepted_currencies s') = members (accepted_currencies s)
     | Inr _ \<Rightarrow> c \<noteq> CORE_ASSET_ID \<and> c \<in> members (accepted_currencies s) \<and>
         (\<exists>who\<in>set (authorities s). ensure_signed F orig = Inr who) \<and>
         members (accepted_currencies s') = members (accepted_currencies s) - {c})"
proof -
  obtain b y where y: "os_remove (pay_set cfg) c (accepted_currencies s) = (b, y)" by fastforce
  then have "os_remove S c (accepted_currencies s) = (b, y)" by (simp add: assms(1))
  note I = remove_set [OF assms(2) this]
  consider "accepted_currencies s' = accepted_currencies s" "authorities s' = authorities s" "pay_chain s' = pay_chain s"
      "\<not> is_ok r"
    | who where "ensure_signed F orig = Inr who" "who \<in> set (authorities s)" "c \<noteq> CORE_ASSET_ID"
      "accepted_currencies s' = y" "authorities s' = authorities s" "pay_chain s' = pay_chain s" "is_ok r = b"
    using assms(3) y
    by (cases "ensure_signed F orig"; cases b) (auto simp: remove_currency_def Let_def split: if_splits)
  then show ?thesis
  proof cases
    case 1
    with assms(2) show ?thesis by (cases r) simp_all
  next
    case 2
    with I show ?thesis by (cases r) auto
  qed
qed

end

lemma member_calls:
  "add_member F orig m s = (r, s') \<Longrightarrow> accepted_currencies s' = accepted_currencies s \<and>
     (authorities s' = authorities s \<or>
      ensure_root F orig = Inr () \<and> m \<notin> set (authorities s) \<and> authorities s' = authorities s @ [m])"
  "remove_member F orig m s = (r, s') \<Longrightarrow> accepted_currencies s' = accepted_currencies s \<and>
     (authorities s' = authorities s \<or>
      ensure_root F orig = Inr () \<and> authorities s' = filter (\<lambda>a. a \<noteq> m) (authorities s))"
  by (cases "ensure_root F orig"; auto simp: add_member_def remove_member_def add_new_member_def split: if_splits)+

definition payment_inv ::
  "('os \<Rightarrow> asset_id set) \<Rightarrow> ('os \<Rightarrow> bool) \<Rightarrow> ('acc, 's, 'os) payment_state \<Rightarrow> bool" where
  "payment_inv members ok s \<longleftrightarrow>
     ok (accepted_currencies s) \<and> CORE_ASSET_ID \<notin> members (accepted_currencies s) \<and> distinct (authorities s)"

text \<open>What one step may do to the lists, and who may cause it.\<close>

lemma payment_step_lists:
  assumes set: "currency_set (pay_set cfg) members ok" and "ok (accepted_currencies s)" and "payment_step F cfg s s'"
  shows "ok (accepted_currencies s') \<and>
    (members (accepted_currencies s') = members (accepted_currencies s) \<or>
     (\<exists>orig who c. ensure_signed F orig = Inr who \<and> who \<in> set (authorities s) \<and> c \<noteq> CORE_ASSET_ID \<and>
        members (accepted_currencies s') \<in>
          {insert c (members (accepted_currencies s)), members (accepted_currencies s) - {c}})) \<and>
    (authorities s' = authorities s \<or>
     (\<exists>orig m. ensure_root F orig = Inr () \<and>
        (m \<notin> set (authorities s) \<and> authorities s' = authorities s @ [m] \<or>
         authorities s' = filter (\<lambda>a. a \<noteq> m) (authorities s))))"
  using assms(3)
proof cases
  case (step_set_currency orig c r)
  with set_currency_lists assms(2) show ?thesis by (fastforce simp: same_lists_def)
next
  case (step_add_currency orig c r)
  from currency_set.add_currency_effect [OF set refl assms(2) this] show ?thesis
    by (cases r) auto
next
  case (step_remove_currency orig c r)
  from currency_set.remove_currency_effect [OF set refl assms(2) this] show ?thesis
    by (cases r) auto
next
  case (step_add_member orig m r)
  from member_calls(1) [OF this] assms(2) show ?thesis by auto
next
  case (step_remove_member orig m r)
  from member_calls(2) [OF this] assms(2) show ?thesis by auto
next
  case (step_withdraw_fee who fee tip rv)
  with withdraw_fee_lists assms(2) show ?thesis by (fastforce simp: same_lists_def)
next
  case (step_correct_fee who fee tip paid ru)
  with correct_fee_lists assms(2) show ?thesis by (fastforce simp: same_lists_def)
qed

text \<open>C32: the lists of the pallet stay curated under every sequence of its calls and of fee payments:
  the native asset is never in the list of accepted currencies (it is accepted by design), no
  authority is listed twice, and every single step changes the accepted currencies only by one
  currency at the hands of an authority, and the authorities only at the hands of root.\<close>

theorem currencies_curated:
  assumes "currency_set (pay_set cfg) members ok" and "payment_inv members ok s" and "payment_reaches F cfg s t"
    and "payment_step F cfg t s'"
  shows "payment_inv members ok t \<and> payment_inv members ok s' \<and>
    (members (accepted_currencies s') = members (accepted_currencies t) \<or>
     (\<exists>orig who c. ensure_signed F orig = Inr who \<and> who \<in> set (authorities t) \<and> c \<noteq> CORE_ASSET_ID \<and>
        members (accepted_currencies s') \<in>
          {insert c (members (accepted_currencies t)), members (accepted_currencies t) - {c}})) \<and>
    (authorities s' = authorities t \<or> (\<exists>orig. ensure_root F orig = Inr ()))"
proof -
  have step: "payment_inv members ok v" if "payment_step F cfg u v" "payment_inv members ok u" for u v
  proof -
    have "ok (accepted_currencies u)" "CORE_ASSET_ID \<notin> members (accepted_currencies u)" "distinct (authorities u)"
      using that(2) by (simp_all add: payment_inv_def)
    note L = payment_step_lists [OF assms(1) this(1) that(1)] and U = this
    have "CORE_ASSET_ID \<notin> members (accepted_currencies v)" 
      using L [THEN conjunct2, THEN conjunct1] U(2) by (elim disjE exE conjE insertE) simp_all
    moreover have "distinct (authorities v)"
      using L [THEN conjunct2, THEN conjunct2] U(3) by (elim disjE exE conjE) simp_all
    ultimately show ?thesis using L by (simp add: payment_inv_def)
  qed
  have t: "payment_inv members ok t"
    using assms(3) unfolding payment_reaches_def
    by (induction rule: rtranclp_induct) (use assms(2) step in auto)
  then have "ok (accepted_currencies t)" by (simp add: payment_inv_def)
  note L = payment_step_lists [OF assms(1) this assms(4)]
  from t step [OF assms(4) t] L show ?thesis by blast
qed

definition payment_example ::
  "(bytes, (bytes, asset_id \<Rightarrow> (bytes, bytes \<Rightarrow> account_data option) balances_state) xyk_state, asset_id list)
     payment_state" where
  "payment_example =
     \<lparr>pay_chain = market_state, account_currency_map = Map.empty, accepted_currencies = [1], authorities = [trader],
      payment_events = []\<rparr>"

abbreviation market_payment where
  "market_payment \<equiv> xyk_payment (account_map_config 0 50) market_config False 100 10 1000"

theorem currencies_curated_witness:
  "\<exists>s'. add_currency market_frame market_payment (Some trader) 2 payment_example = (Inr (), s') \<and>
     CORE_ASSET_ID \<notin> set (accepted_currencies s') \<and> distinct (authorities s')"
proof -
  obtain s' where s': "add_currency market_frame market_payment (Some trader) 2 payment_example = (Inr (), s')"
    by (simp add: add_currency_def payment_example_def market_signed vector_set_def CORE_ASSET_ID_def Let_def)
  then have step: "payment_step market_frame market_payment payment_example s'" by (rule step_add_currency)
  have start: "payment_inv set (\<lambda>xs. sorted xs \<and> distinct xs) payment_example"
    by (simp add: payment_inv_def payment_example_def CORE_ASSET_ID_def)
  have set: "currency_set (pay_set market_payment) set (\<lambda>xs. sorted xs \<and> distinct xs)"
    using vector_currencies.currency_set_axioms by simp
  have "payment_reaches market_frame market_payment payment_example payment_example"
    by (simp add: payment_reaches_def)
  from currencies_curated [OF set start this step] s' show ?thesis
    by (auto simp: payment_inv_def)
qed

end
