(* ===== verification/Payment_Market.thy ===== *)
theory Payment_Market
  imports Multi_Payment_Props
begin

text \<open>
  What a transaction costs: the multi-payment pallet over the balances and XYK pallets. A fee is
  withdrawn before the transaction runs and corrected afterwards; between the two its amount is
  pending, held by no account and not yet off the issuance. An account that pays in another
  currency buys the fee from the pool first.
\<close>

section \<open>Pending fees\<close>

definition fee_pending ::
  "('acc, 'st) balances_config \<Rightarrow> balance \<Rightarrow> (asset_id \<Rightarrow> ('acc, 'st) balances_state) \<Rightarrow> bool" where
  "fee_pending bal n s \<longleftrightarrow>
     n \<le> total_issuance (s CORE_ASSET_ID) \<and> total_issuance (s CORE_ASSET_ID) \<le> U128_MAX \<and>
     balances_currency_inv bal (s(CORE_ASSET_ID := drop_negative (NegativeImbalance n) (s CORE_ASSET_ID)))"

lemma balances_native_simps [simp]:
  "nat_withdraw (balances_native bal) who n rs live = on_currency (at_asset CORE_ASSET_ID (withdraw bal who n rs live))"
  "nat_deposit_into_existing (balances_native bal) who n =
     on_currency (at_asset CORE_ASSET_ID (deposit_into_existing bal who n))"
  "on_unbalanceds (balances_native bal) amounts s = s\<lparr>currencies := (currencies s)
     (CORE_ASSET_ID := drop_negative (fold negative_merge amounts (NegativeImbalance 0)) (currencies s CORE_ASSET_ID))\<rparr>"
  by (simp_all add: balances_native_def)

lemma on_native_eq:
  "on_pay_chain (on_currency (at_asset c f)) s = (r, s') \<longleftrightarrow>
   (\<exists>t. f (currencies (pay_chain s) c) = (r, t) \<and>
      s' = s\<lparr>pay_chain := (pay_chain s)\<lparr>currencies := (currencies (pay_chain s))(c := t)\<rparr>\<rparr>)"
  by (auto simp: on_pay_chain_eq on_currency_eq at_asset_eq)

text \<open>Splitting an imbalance and merging the parts again loses nothing.\<close>

lemma split_merge:
  "n \<le> U128_MAX \<Longrightarrow> negative_split (NegativeImbalance n) tip = (x, y) \<Longrightarrow>
   fold negative_merge [x, y] (NegativeImbalance 0) = NegativeImbalance n"
  by (auto simp: Let_def wrapping_sub_def saturating_add_def min_def)

context zero_ed_accounts
begin

lemma withdraw_pending:
  assumes inv: "balances_inv cfg s" and wd: "withdraw cfg who n rs req s = (Inr imb, t)" and n: "n \<noteq> 0"
  shows "imb = NegativeImbalance n \<and> n \<le> free_balance cfg s who \<and>
    free_balance cfg t = (free_balance cfg s)(who := free_balance cfg s who - n) \<and>
    reserved_balance cfg t = reserved_balance cfg s \<and> total_issuance t = total_issuance s \<and>
    balances_inv cfg (drop_negative imb t)"
  by (rule withdraw_Inr [OF wd n])
    (use withdraw_inv [OF inv wd] zero_ed in \<open>auto simp: free_balance_def reserved_balance_def intro!: ext\<close>)

text \<open>
  The refund reaches the payer, or the payer has nothing left: then the account is gone and the
  refund is refused.
\<close>

lemma refund_pending:
  assumes inv: "balances_inv cfg (drop_negative (NegativeImbalance n) t)"
    and n: "n \<le> total_issuance t" "total_issuance t \<le> U128_MAX" "r \<le> n"
    and dep: "deposit_into_existing cfg who r t = (x, u)"
  obtains k where "x = Inr (PositiveImbalance r) \<and> k = r \<or> (\<exists>e. x = Inl e) \<and> k = 0 \<and> account cfg t who = account_default"
    and "free_balance cfg u = (free_balance cfg t)(who := free_balance cfg t who + k)"
    and "reserved_balance cfg u = reserved_balance cfg t" and "total_issuance u = total_issuance t"
    and "balances_inv cfg (drop_negative (NegativeImbalance (n - k)) u)"
proof (cases x)
  case (Inl e)
  with dep have "u = t" by (auto dest: deposit_into_existing_Inl)
  have "r \<noteq> 0" by (rule notI) (use dep Inl in \<open>simp add: deposit_into_existing_def\<close>)
  have "free (account cfg t who) + r \<le> U128_MAX"
    using balances_invD(3) [OF inv] balances_invD(4) [OF inv, of who] n by (simp add: holding_def)
  then have "store_query cfg (account_store t) who = None"
    using dep Inl \<open>r \<noteq> 0\<close> by (auto simp: deposit_into_existing_def try_bind_eq_Inl split: if_splits dest!: try_mutate_failed)
  then have "account cfg t who = account_default" by (simp add: account_def query_none)
  with that [of 0] Inl \<open>u = t\<close> inv show ?thesis by auto
next
  case (Inr p)
  have "p = PositiveImbalance r \<and> account cfg u = (account cfg t)(who := (account cfg t who)\<lparr>free := free (account cfg t who) + r\<rparr>) \<and>
     total_issuance u = total_issuance t"
  proof (cases "r = 0")
    case True
    with dep Inr show ?thesis by (auto simp: deposit_into_existing_def)
  next
    case False
    with dep Inr zero_ed show ?thesis
      by (auto simp: deposit_into_existing_def try_bind_eq_Inr elim!: try_mutate_Inr split: if_splits)
  qed
  then have p: "p = PositiveImbalance r" and iss: "total_issuance u = total_issuance t"
    and acc: "account cfg u = (account cfg t)(who := (account cfg t who)\<lparr>free := free (account cfg t who) + r\<rparr>)"
    by auto
  have "balances_inv cfg (drop_negative (NegativeImbalance (n - r)) u)"
    by (rule balances_inv_upd [OF inv, where x = who]) (use acc iss n zero_ed in \<open>auto simp: holding_def\<close>)
  with that [of r] p Inr iss balance_upd [OF acc] show ?thesis
    by (simp add: free_balance_def reserved_balance_def fun_upd_idem)
qed

end

text \<open>Buying the fee: nothing is burned, exactly the fee is bought, and the price is bounded.\<close>

context xyk_pallet
begin

lemma fee_bought:
  assumes cur: "cur_inv (currencies s)" and ok: "amm_buy (xyk_amm cfg) who as n lim False s = (Inr (), s')"
  obtains cost where "cost \<le> lim" and "cost \<le> cur_free (xyk_currency cfg) (currencies s) (asset_in as) who"
    and "cur_inv (currencies s')"
    and "cur_free (xyk_currency cfg) (currencies s') =
      moved (moved (cur_free (xyk_currency cfg) (currencies s)) (asset_out as) (get_pair_id cfg as) who n)
        (asset_in as) who (get_pair_id cfg as) cost"
    and "cur_issuance (xyk_currency cfg) (currencies s') = cur_issuance (xyk_currency cfg) (currencies s)"
proof -
  from ok obtain t where v: "validate_buy cfg who as n lim False s = Inr t" and ex: "execute_buy cfg t s = (Inr (), s')"
    by (auto simp: amm_buy_def xyk_amm_def and_then_eq_Inr)
  from v have t: "t_origin t = who" "t_assets t = as" "t_amount t = n" "t_discount t = False" "t_amount_out t \<le> lim"
    "t_amount_out t \<le> cur_free (xyk_currency cfg) (currencies s) (asset_in as) who"
    by (auto elim: validate_buy_Inr simp: xyk_free_def)
  show ?thesis
    by (rule execute_buy_ok [OF cur ex]) (rule that [of "t_amount_out t"], use t in simp_all)
qed

lemma swap_effect:
  assumes amm: "pay_amm pcfg = xyk_amm cfg" and cur: "cur_inv (currencies (pay_chain s))" and "2 * fee \<le> U128_MAX"
    and ok: "swap_currency pcfg who fee s = (Inr (), s')"
  shows "cur_inv (currencies (pay_chain s')) \<and>
    cur_issuance (xyk_currency cfg) (currencies (pay_chain s')) = cur_issuance (xyk_currency cfg) (currencies (pay_chain s)) \<and>
    (if get_currency s who \<in> {None, Some CORE_ASSET_ID} then s' = s
     else \<exists>cost \<le> 2 * fee. cost \<le> cur_free (xyk_currency cfg) (currencies (pay_chain s)) (the (get_currency s who)) who \<and>
       cur_free (xyk_currency cfg) (currencies (pay_chain s')) =
       moved (moved (cur_free (xyk_currency cfg) (currencies (pay_chain s))) CORE_ASSET_ID (get_pair_id cfg
           \<lparr>asset_in = the (get_currency s who), asset_out = CORE_ASSET_ID\<rparr>) who fee)
         (the (get_currency s who)) who (get_pair_id cfg
           \<lparr>asset_in = the (get_currency s who), asset_out = CORE_ASSET_ID\<rparr>) cost)"
proof (cases "get_currency s who \<in> {None, Some CORE_ASSET_ID}")
  case True
  with ok cur show ?thesis by (auto simp: swap_currency_def)
next
  case False
  then obtain c where c: "get_currency s who = Some c" "c \<noteq> CORE_ASSET_ID" by auto
  have "wrapping_mul 2 fee = 2 * fee" using assms(3) by (simp add: wrapping_mul_def U128_MAX_def)
  with ok c amm obtain t where t: "amm_buy (xyk_amm cfg) who \<lparr>asset_in = c, asset_out = CORE_ASSET_ID\<rparr> fee (2 * fee) False
      (pay_chain s) = (Inr (), t)" "s' = s\<lparr>pay_chain := t\<rparr>"
    by (auto simp: swap_currency_def and_then_eq_Inr on_pay_chain_eq)
  show ?thesis
    by (rule fee_bought [OF cur t(1)]) (use t(2) c False in auto)
qed

end

section \<open>Properties\<close>

text \<open>C35: before a transaction runs, exactly the fee leaves the payer. A payer of the native currency
  is debited the fee; a payer who chose another currency buys exactly the fee from the pool, for
  at most twice its amount, and is left with an unchanged native balance. No other account and no
  other asset changes, no issuance changes yet, and the fee is pending.\<close>

theorem fee_withdrawn:
  fixes s :: "('acc, ('acc, asset_id \<Rightarrow> ('acc, 'st) balances_state) xyk_state, asset_id list) payment_state"
  assumes bal: "zero_ed_accounts bal" and cur: "xyk_currency cfg = balances_currency bal"
    and inv: "balances_currency_inv bal (currencies (pay_chain s))"
    and fee: "fee \<noteq> 0" "2 * fee \<le> U128_MAX"
    and ok: "withdraw_fee (xyk_payment bal cfg pays base sw mw) who fee tip s = (Inr paid, s')"
  defines "F \<equiv> cur_free (balances_currency bal) (currencies (pay_chain s))"
    and "F' \<equiv> cur_free (balances_currency bal) (currencies (pay_chain s'))"
  shows "paid = Some (NegativeImbalance fee) \<and> fee_pending bal fee (currencies (pay_chain s')) \<and>
    cur_issuance (balances_currency bal) (currencies (pay_chain s')) =
      cur_issuance (balances_currency bal) (currencies (pay_chain s)) \<and>
    (if get_currency s who \<in> {None, Some CORE_ASSET_ID} then F' = debit F CORE_ASSET_ID who fee
     else \<exists>cost \<le> 2 * fee. cost \<le> F (the (get_currency s who)) who \<and> F' = debit (moved (moved F CORE_ASSET_ID (get_pair_id cfg
           \<lparr>asset_in = the (get_currency s who), asset_out = CORE_ASSET_ID\<rparr>) who fee)
         (the (get_currency s who)) who (get_pair_id cfg
           \<lparr>asset_in = the (get_currency s who), asset_out = CORE_ASSET_ID\<rparr>) cost) CORE_ASSET_ID who fee)"
proof -
  let ?p = "xyk_payment bal cfg pays base sw mw" and ?c = CORE_ASSET_ID
  let ?rs = "if tip = 0 then {TRANSACTION_PAYMENT} else {TRANSACTION_PAYMENT, TIP}"
  from ok fee(1) obtain s0 imb t where swap: "swap_currency ?p who fee s = (Inr (), s0)"
    and wd: "withdraw bal who fee ?rs Keep_Alive (currencies (pay_chain s0) ?c) = (Inr imb, t)"
    and s': "paid = Some imb" "currencies (pay_chain s') = (currencies (pay_chain s0))(?c := t)"
    by (auto simp: withdraw_fee_def Let_def on_native_eq split: prod.splits sum.splits if_splits)
  have pallet: "xyk_pallet cfg (balances_currency_inv bal)"
    unfolding xyk_pallet_def cur by (rule zero_ed_accounts.currency_contract [OF bal])
  note S = xyk_pallet.swap_effect [OF pallet _ inv fee(2) swap, unfolded cur, simplified]
  then have inv0: "balances_inv bal (currencies (pay_chain s0) c)" for c by (simp add: balances_currency_inv_def)
  note W = zero_ed_accounts.withdraw_pending [OF bal inv0 wd fee(1)]
  have "balances_inv bal (drop_negative (NegativeImbalance fee) t)" using W by auto
  moreover have "fee \<le> total_issuance t" "total_issuance t \<le> U128_MAX"
    using W zero_ed_accounts.holding_fits [OF bal inv0, of ?c who] by auto
  ultimately have pend: "fee_pending bal fee (currencies (pay_chain s'))"
    unfolding fee_pending_def s'(2) using inv0 by (simp add: balances_currency_inv_def del: drop_negative.simps)
  have F': "F' = debit (cur_free (balances_currency bal) (currencies (pay_chain s0))) ?c who fee"
    using W unfolding F'_def s'(2) by (simp add: debit_def fun_eq_iff)
  have iss: "cur_issuance (balances_currency bal) (currencies (pay_chain s')) =
      cur_issuance (balances_currency bal) (currencies (pay_chain s))"
    using W S unfolding s'(2) by (simp add: fun_eq_iff)
  have paid: "paid = Some (NegativeImbalance fee)" using W s'(1) by auto
  show ?thesis
  proof (cases "get_currency s who \<in> {None, Some CORE_ASSET_ID}")
    case True
    with S have "s0 = s" by auto
    with True paid pend F' iss show ?thesis unfolding F_def by simp
  next
    case False
    with S obtain cost where "cost \<le> 2 * fee" "cost \<le> F (the (get_currency s who)) who" and c: "cur_free (balances_currency bal) (currencies (pay_chain s0)) =
       moved (moved (cur_free (balances_currency bal) (currencies (pay_chain s))) ?c (get_pair_id cfg
           \<lparr>asset_in = the (get_currency s who), asset_out = ?c\<rparr>) who fee)
         (the (get_currency s who)) who (get_pair_id cfg \<lparr>asset_in = the (get_currency s who), asset_out = ?c\<rparr>) cost"
      by (auto simp: F_def)
    then have "\<exists>cost\<le>2 * fee. cost \<le> F (the (get_currency s who)) who \<and> F' = debit (moved (moved F ?c (get_pair_id cfg
           \<lparr>asset_in = the (get_currency s who), asset_out = ?c\<rparr>) who fee)
         (the (get_currency s who)) who (get_pair_id cfg \<lparr>asset_in = the (get_currency s who), asset_out = ?c\<rparr>) cost)
         ?c who fee"
      using F' unfolding F_def by (intro exI [of _ cost]) (simp only: simp_thms)
    with paid pend iss show ?thesis unfolding if_not_P [OF False] by blast
  qed
qed

text \<open>C36: after the transaction, whatever state it left with the fee still pending, the payer gets back
  exactly what exceeds the corrected fee, or nothing when the account has nothing left, and the
  issuance falls by exactly what was kept; the tip only splits the amount. The correction never
  fails, and the invariant of the currencies holds again.\<close>

theorem fee_settled:
  fixes s :: "('acc, ('acc, asset_id \<Rightarrow> ('acc, 'st) balances_state) xyk_state, asset_id list) payment_state"
  assumes bal: "zero_ed_accounts bal" and pend: "fee_pending bal n (currencies (pay_chain s))" and le: "corrected \<le> n"
    and ok: "correct_and_deposit_fee (xyk_payment bal cfg pays base sw mw) who corrected tip
      (Some (NegativeImbalance n)) s = (r, s')"
  defines "F \<equiv> cur_free (balances_currency bal) (currencies (pay_chain s))"
  shows "r = Inr () \<and> balances_currency_inv bal (currencies (pay_chain s')) \<and>
    (\<exists>kept_fee. (kept_fee = corrected \<or> kept_fee = n \<and> F CORE_ASSET_ID who = 0) \<and>
      cur_free (balances_currency bal) (currencies (pay_chain s')) = credit F CORE_ASSET_ID who (n - kept_fee) \<and>
      cur_reserved (balances_currency bal) (currencies (pay_chain s')) =
        cur_reserved (balances_currency bal) (currencies (pay_chain s)) \<and>
      total_issuance (currencies (pay_chain s') CORE_ASSET_ID) =
        total_issuance (currencies (pay_chain s) CORE_ASSET_ID) - kept_fee)"
proof -
  let ?s = "currencies (pay_chain s)" and ?c = CORE_ASSET_ID
  obtain x u where dep: "deposit_into_existing bal who (n - corrected) (?s ?c) = (x, u)" by fastforce
  have P: "balances_inv bal (drop_negative (NegativeImbalance n) (?s ?c))" "n \<le> total_issuance (?s ?c)"
    "total_issuance (?s ?c) \<le> U128_MAX"
    and rest: "\<And>c. c \<noteq> ?c \<Longrightarrow> balances_inv bal (?s c)"
    using pend unfolding fee_pending_def balances_currency_inv_def by (auto simp: fun_upd_def dest: spec split: if_splits)
  obtain k where k: "x = Inr (PositiveImbalance (n - corrected)) \<and> k = n - corrected \<or>
      (\<exists>e. x = Inl e) \<and> k = 0 \<and> account bal (?s ?c) who = account_default"
    and U: "free_balance bal u = (free_balance bal (?s ?c))(who := free_balance bal (?s ?c) who + k)"
      "reserved_balance bal u = reserved_balance bal (?s ?c)" "total_issuance u = total_issuance (?s ?c)"
      "balances_inv bal (drop_negative (NegativeImbalance (n - k)) u)"
    using zero_ed_accounts.refund_pending [OF bal P _ dep] le by (metis diff_le_self)
  have "k \<le> n" using k le by auto
  let ?t = "?s(?c := drop_negative (NegativeImbalance (n - k)) u)"
  obtain a b where ab: "negative_split (NegativeImbalance (n - k)) tip = (a, b)" by fastforce
  have merged: "fold negative_merge [a, b] (NegativeImbalance 0) = NegativeImbalance (n - k)"
    using P(2,3) by (intro split_merge [OF _ ab]) simp
  have call: "on_pay_chain (on_currency (at_asset ?c (deposit_into_existing bal who (n - corrected)))) s =
      (x, s\<lparr>pay_chain := (pay_chain s)\<lparr>currencies := ?s(?c := u)\<rparr>\<rparr>)"
    by (simp add: on_native_eq dep)
  have refund: "(case x of Inl _ \<Rightarrow> PositiveImbalance 0 | Inr y \<Rightarrow> y) = PositiveImbalance k" using k by auto
  have "negative_offset (NegativeImbalance n) (PositiveImbalance k) = (if k < n then Same (NegativeImbalance (n - k)) else Same_None)"
    using \<open>k \<le> n\<close> by (simp add: wrapping_sub_def)
  with ok call refund ab merged \<open>k \<le> n\<close> have "r = Inr () \<and> currencies (pay_chain s') = ?t"
    by (auto simp: correct_and_deposit_fee_def Let_def saturating_sub_def simp del: negative_offset.simps
        negative_split.simps fold_simps drop_negative.simps split: if_splits)
  then have s': "r = Inr ()" "currencies (pay_chain s') = ?t" by auto
  have "balances_currency_inv bal ?t"
    unfolding balances_currency_inv_def using rest U(4) by simp
  moreover have "n - k = corrected \<or> n - k = n \<and> F ?c who = 0"
    using k le by (auto simp: F_def free_balance_def account_default_def)
  moreover have "cur_free (balances_currency bal) ?t = credit F ?c who (n - (n - k))"
    using U(1) \<open>k \<le> n\<close> by (simp add: F_def credit_def fun_eq_iff free_balance_def)
  moreover have "cur_reserved (balances_currency bal) ?t = cur_reserved (balances_currency bal) ?s"
    using U(2) by (simp add: fun_eq_iff reserved_balance_def)
  moreover have "total_issuance (?t ?c) = total_issuance (?s ?c) - (n - k)"
    using U(3) by simp
  ultimately show ?thesis unfolding s' by blast
qed

text \<open>C37: where the configuration charges for \<open>set_currency\<close>, choosing a currency other than the native
  one takes the fee twice: the account buys the fee in the native asset, at a cost in its chosen
  currency, and then the same number of units of the chosen currency is burned on top. The native
  amount bought stays with the account.\<close>

theorem set_fee_taken_twice:
  fixes s :: "('acc, ('acc, asset_id \<Rightarrow> ('acc, 'st) balances_state) xyk_state, asset_id list) payment_state"
  assumes bal: "zero_ed_accounts bal" and cur: "xyk_currency cfg = balances_currency bal"
    and inv: "balances_currency_inv bal (currencies (pay_chain s))"
    and c: "c \<noteq> CORE_ASSET_ID" "who \<noteq> get_pair_id cfg \<lparr>asset_in = c, asset_out = CORE_ASSET_ID\<rparr>"
    and signed: "ensure_signed Fr orig = Inr who"
    and fee: "fee = saturating_add (min base mw) (min sw mw)" "2 * fee \<le> U128_MAX"
    and ok: "set_currency Fr (xyk_payment bal cfg True base sw mw) orig c s = (Inr (), s')"
  defines "F \<equiv> cur_free (balances_currency bal) (currencies (pay_chain s))"
    and "F' \<equiv> cur_free (balances_currency bal) (currencies (pay_chain s'))"
  shows "get_currency s' who = Some c \<and> F' CORE_ASSET_ID who = F CORE_ASSET_ID who + fee \<and>
    (\<exists>cost \<le> 2 * fee. F' c who + cost + fee = F c who) \<and>
    total_issuance (currencies (pay_chain s') c) + fee = total_issuance (currencies (pay_chain s) c)"
proof -
  let ?p = "xyk_payment bal cfg True base sw mw" and ?c = CORE_ASSET_ID
  let ?s0 = "s\<lparr>account_currency_map := (account_currency_map s)(who \<mapsto> Some c)\<rparr>"
  from ok signed obtain t where t: "withdraw_set_fee ?p who c ?s0 = (Inr (), t)"
    and s': "s' = payment_deposit_event (CurrencySet who c) t"
    by (auto simp: set_currency_def transactional_eq_Inr and_then_eq_Inr Let_def split: if_splits)
  from t obtain s1 u where swap: "swap_currency ?p who fee ?s0 = (Inr (), s1)"
    and wd: "cur_withdraw (balances_currency bal) c who fee (currencies (pay_chain s1)) = (Inr (), u)"
    and tt: "t = s1\<lparr>pay_chain := (pay_chain s1)\<lparr>currencies := u\<rparr>\<rparr>"
    by (auto simp: withdraw_set_fee_def weight_to_fee_def Let_def and_then_eq_Inr on_pay_chain_eq on_currency_eq cur fee(1)
        simp del: balances_currency_simps)
  have pallet: "xyk_pallet cfg (balances_currency_inv bal)"
    unfolding xyk_pallet_def cur by (rule zero_ed_accounts.currency_contract [OF bal])
  have got: "get_currency ?s0 who = Some c" by (simp add: get_currency_def)
  have inv0: "balances_currency_inv bal (currencies (pay_chain ?s0))" using inv by simp
  note S = xyk_pallet.swap_effect [OF pallet _ inv0 fee(2) swap, unfolded cur got]
  from S c(1) obtain cost where cost: "cost \<le> 2 * fee" "cost \<le> F c who"
    and F1: "cur_free (balances_currency bal) (currencies (pay_chain s1)) =
       moved (moved F ?c (get_pair_id cfg \<lparr>asset_in = c, asset_out = ?c\<rparr>) who fee)
         c who (get_pair_id cfg \<lparr>asset_in = c, asset_out = ?c\<rparr>) cost"
    by (auto simp: F_def)
  have inv1: "balances_currency_inv bal (currencies (pay_chain s1))"
    and iss: "cur_issuance (balances_currency bal) (currencies (pay_chain s1)) c = total_issuance (currencies (pay_chain s) c)"
    using S by auto
  from zero_ed_accounts.currency_contract [OF bal] inv1 wd
  have W: "fee \<le> cur_free (balances_currency bal) (currencies (pay_chain s1)) c who"
      "cur_free (balances_currency bal) u = debit (cur_free (balances_currency bal) (currencies (pay_chain s1))) c who fee"
      "cur_issuance (balances_currency bal) u c = cur_issuance (balances_currency bal) (currencies (pay_chain s1)) c - fee"
    by (auto dest: multi_currency.withdraw_ok simp del: balances_currency_simps)
  have u: "currencies (pay_chain s') = u" by (simp add: s' tt)
  have "F' c who = F c who - cost - fee" "F' ?c who = F ?c who + fee" "fee \<le> F c who - cost"
    using W(1,2) F1 c by (auto simp: F'_def u ledger_apply)
  moreover have "fee \<le> total_issuance (currencies (pay_chain s) c)"
    using W(1) zero_ed_accounts.holding_fits [OF bal, of "currencies (pay_chain s1) c" who] inv1 iss
    by (simp add: balances_currency_inv_def)
  moreover have "get_currency s' who = Some c"
    using swap by (auto simp: s' tt get_currency_def swap_currency_def and_then_eq_Inr on_pay_chain_eq Let_def
        payment_deposit_event_def split: if_splits)
  ultimately show ?thesis using cost W(3) iss by (auto simp: u)
qed

section \<open>An example\<close>

lemma payment_example_inv: "balances_currency_inv (account_map_config 0 50) (currencies (pay_chain payment_example))"
  using market_funds_inv by (simp add: payment_example_def market_state_def)

lemma payment_example_withdraw:
  "\<exists>paid s'. withdraw_fee market_payment trader 500 0 payment_example = (Inr paid, s')"
  by (simp add: withdraw_fee_def swap_currency_def get_currency_def payment_example_def on_pay_chain_def on_currency_def
      at_asset_def zoom_def withdraw_def market_state_def market_funds_def CORE_ASSET_ID_def Let_def balances_start_def
      ensure_can_withdraw_def purse_def trader_not_pool balances_eval account_map_config_def account_def frozen_def reasons_from_def)

theorem fee_withdrawn_witness:
  "\<exists>s'. withdraw_fee market_payment trader 500 0 payment_example = (Inr (Some (NegativeImbalance 500)), s') \<and>
     fee_pending (account_map_config 0 50) 500 (currencies (pay_chain s')) \<and>
     free_balance (account_map_config 0 50) (currencies (pay_chain s') CORE_ASSET_ID) trader = 999500"
proof -
  let ?bal = "account_map_config 0 50 :: (bytes, bytes \<Rightarrow> account_data option) balances_config"
  obtain paid s' where s': "withdraw_fee market_payment trader 500 0 payment_example = (Inr paid, s')"
    using payment_example_withdraw by blast
  have "get_currency payment_example trader = None" by (simp add: get_currency_def payment_example_def)
  moreover have "cur_free (balances_currency ?bal) (currencies (pay_chain payment_example)) CORE_ASSET_ID trader = 1000000"
    by (simp add: payment_example_def market_state_def market_frees CORE_ASSET_ID_def)
  moreover note fee_withdrawn [OF zero_map.zero_ed_accounts_axioms _ payment_example_inv _ _ s']
  ultimately have "paid = Some (NegativeImbalance 500)" "fee_pending ?bal 500 (currencies (pay_chain s'))"
    "cur_free (balances_currency ?bal) (currencies (pay_chain s')) CORE_ASSET_ID trader = 999500"
    by (simp_all add: U128_MAX_def debit_apply)
  with s' show ?thesis by auto
qed

theorem fee_settled_witness:
  "\<exists>s s'. fee_pending (account_map_config 0 50) 500 (currencies (pay_chain s)) \<and>
     correct_and_deposit_fee market_payment trader 300 10 (Some (NegativeImbalance 500)) s = (Inr (), s') \<and>
     free_balance (account_map_config 0 50) (currencies (pay_chain s') CORE_ASSET_ID) trader =
       free_balance (account_map_config 0 50) (currencies (pay_chain s) CORE_ASSET_ID) trader + 200"
proof -
  let ?bal = "account_map_config 0 50 :: (bytes, bytes \<Rightarrow> account_data option) balances_config"
  let ?cs = "market_funds(CORE_ASSET_ID := (market_funds CORE_ASSET_ID)\<lparr>total_issuance := 1000500\<rparr>)"
  let ?s = "payment_example\<lparr>pay_chain := market_state\<lparr>currencies := ?cs\<rparr>\<rparr>"
  have iss: "(market_funds 0)\<lparr>total_issuance := 1000000\<rparr> = market_funds 0"
    by (simp add: market_funds_def balances_start_def)
  have "fee_pending ?bal 500 ?cs"
    using market_funds_inv by (simp add: fee_pending_def balances_currency_inv_def U128_MAX_def saturating_sub_def
        CORE_ASSET_ID_def iss)
  then have pend: "fee_pending ?bal 500 (currencies (pay_chain ?s))" by simp
  obtain r s' where s': "correct_and_deposit_fee market_payment trader 300 10 (Some (NegativeImbalance 500)) ?s = (r, s')"
    by fastforce
  have F: "cur_free (balances_currency ?bal) (currencies (pay_chain ?s)) CORE_ASSET_ID trader = 1000000"
    using market_frees(1) by (simp add: CORE_ASSET_ID_def free_balance_def account_def)
  from fee_settled [OF zero_map.zero_ed_accounts_axioms pend _ s'] F
  have "r = Inr () \<and> cur_free (balances_currency ?bal) (currencies (pay_chain s')) =
      credit (cur_free (balances_currency ?bal) (currencies (pay_chain ?s))) CORE_ASSET_ID trader 200" by auto
  then have "r = Inr ()" "free_balance ?bal (currencies (pay_chain s') CORE_ASSET_ID) trader =
      free_balance ?bal (currencies (pay_chain ?s) CORE_ASSET_ID) trader + 200"
    by (auto simp: credit_apply dest!: fun_cong [of _ _ CORE_ASSET_ID])
  with pend s' show ?thesis by blast
qed

text \<open>A pool of asset 1 and the native asset, and a configuration that charges for \<open>set_currency\<close>.\<close>

definition fee_pool :: bytes where
  "fee_pool = get_pair_id market_config \<lparr>asset_in = 1, asset_out = CORE_ASSET_ID\<rparr>"

definition fee_funds :: "asset_id \<Rightarrow> (bytes, bytes \<Rightarrow> account_data option) balances_state" where
  "fee_funds c =
     (if c \<in> {0, 1} then balances_start [(trader, purse 1000000), (fee_pool, purse 1000000)] else balances_start [])"

definition fee_example ::
  "(bytes, (bytes, asset_id \<Rightarrow> (bytes, bytes \<Rightarrow> account_data option) balances_state) xyk_state, asset_id list)
     payment_state" where
  "fee_example = payment_example\<lparr>pay_chain := market_state\<lparr>currencies := fee_funds, share_token := [fee_pool \<mapsto> 10]\<rparr>\<rparr>"

abbreviation paid_payment where
  "paid_payment \<equiv> xyk_payment (account_map_config 0 50) market_config True 100 10 1000"

lemma fee_pool_eq: "get_pair_id market_config \<lparr>asset_in = 1, asset_out = 0\<rparr> = fee_pool"
  by (simp add: fee_pool_def CORE_ASSET_ID_def)

lemma fee_pool_distinct [simp]: "fee_pool \<noteq> trader" "trader \<noteq> fee_pool"
  by (auto simp: trader_def fee_pool_def get_pair_id_def from_assets_def Let_def)

lemma fee_funds_inv: "balances_liquid_inv (account_map_config 0 50) fee_funds"
proof -
  have "balances_inv (account_map_config 0 50) (fee_funds c)" for c
    unfolding fee_funds_def by (auto simp: U128_MAX_def intro!: balances_start_inv)
  then show ?thesis
    by (auto simp: balances_liquid_inv_def unlocked_def fee_funds_def balances_start_account purse_def account_default_def)
qed

lemma fee_funds_free:
  "c \<in> {0, 1} \<Longrightarrow> a \<in> {trader, fee_pool} \<Longrightarrow> free_balance (account_map_config 0 50) (fee_funds c) a = 1000000"
  by (auto simp: fee_funds_def free_balance_def balances_start_account purse_def)

lemma fee_market_buy:
  "\<exists>s'. amm_buy (xyk_amm market_config) trader \<lparr>asset_in = 1, asset_out = CORE_ASSET_ID\<rparr> 110 220 False
     (pay_chain fee_example) = (Inr (), s')"
proof -
  let ?as = "\<lparr>asset_in = 1, asset_out = CORE_ASSET_ID\<rparr>" and ?s = "pay_chain fee_example"
  have v: "validate_buy market_config trader ?as 110 220 False ?s =
     Inr \<lparr>t_origin = trader, t_assets = ?as, t_amount = 110, t_amount_out = 111,
          t_discount = False, t_discount_amount = 0\<rparr>"
  proof -
    have free: "xyk_free market_config ?s c a = free_balance (account_map_config 0 50) (fee_funds c) a" for c a
      by (simp add: xyk_free_def fee_example_def)
    have "calculate_fee market_config 111 = Inr 0"
      by (simp add: calculate_fee_def just_fee_default U128_MAX_def)
    moreover have "calculate_in_given_out market_config 1000000 1000000 110 = Some 111"
      by (simp add: market_config_def)
    moreover have "xyk_exists market_config ?as ?s"
      by (simp add: xyk_exists_pair fee_pool_def [symmetric] fee_example_def)
    moreover note fee_pool_eq
    ultimately show ?thesis
      by (simp add: validate_buy_def Let_def free fee_funds_free CORE_ASSET_ID_def MAX_OUT_RATIO_def
          checked_add_def U128_MAX_def)
  qed
  have "\<exists>s'. execute_buy market_config \<lparr>t_origin = trader, t_assets = ?as, t_amount = 110,
      t_amount_out = 111, t_discount = False, t_discount_amount = 0\<rparr> ?s = (Inr (), s')"
    by (rule liquid_market.buy_live [OF _ v])
      (use fee_funds_inv fee_pool_distinct in \<open>simp_all add: fee_example_def fee_pool_def\<close>)
  with v show ?thesis by (auto simp: amm_buy_def xyk_amm_def)
qed

lemma fee_example_set:
  "\<exists>s'. set_currency market_frame paid_payment (Some trader) 1 fee_example = (Inr (), s')"
proof -
  let ?s = "pay_chain fee_example" and ?as = "\<lparr>asset_in = 1, asset_out = CORE_ASSET_ID\<rparr>"
  obtain t where t: "amm_buy (xyk_amm market_config) trader ?as 110 220 False ?s = (Inr (), t)"
    using fee_market_buy by blast
  have inv: "balances_liquid_inv (account_map_config 0 50) (currencies ?s)" using fee_funds_inv by (simp add: fee_example_def)
  have free: "cur_free (balances_currency (account_map_config 0 50)) (currencies ?s) 1 trader = 1000000"
    by (simp add: fee_example_def fee_funds_free)
  have after: "balances_liquid_inv (account_map_config 0 50) (currencies t) \<and>
      110 \<le> cur_free (balances_currency (account_map_config 0 50)) (currencies t) 1 trader"
    by (rule liquid_market.fee_bought [OF inv t])
      (use free in \<open>auto simp: moved_apply CORE_ASSET_ID_def fee_pool_eq\<close>)
  obtain u where u: "cur_withdraw (balances_currency (account_map_config 0 50)) 1 trader 110 (currencies t) = (Inr (), u)"
    using liquid_currency.withdraw_live [OF zero_map.liquid_contract conjunct1 [OF after] conjunct2 [OF after]] ..
  let ?s0 = "fee_example\<lparr>account_currency_map := (account_currency_map fee_example)(trader \<mapsto> Some 1)\<rparr>"
  have "get_currency ?s0 trader = Some 1" by (simp add: get_currency_def)
  moreover have "wrapping_mul 2 110 = 220" by (simp add: wrapping_mul_def U128_MAX_def)
  moreover have "on_pay_chain (amm_buy (xyk_amm market_config) trader ?as 110 220 False) ?s0 = (Inr (), ?s0\<lparr>pay_chain := t\<rparr>)"
    using t by (simp add: on_pay_chain_eq)
  ultimately have swap: "swap_currency paid_payment trader 110 ?s0 = (Inr (), ?s0\<lparr>pay_chain := t\<rparr>)"
    by (simp add: swap_currency_def CORE_ASSET_ID_def)
  have "on_pay_chain (on_currency (cur_withdraw (balances_currency (account_map_config 0 50)) 1 trader 110)) (?s0\<lparr>pay_chain := t\<rparr>) =
      (Inr (), ?s0\<lparr>pay_chain := t\<lparr>currencies := u\<rparr>\<rparr>)"
    using u by (simp add: on_pay_chain_eq on_currency_eq del: balances_currency_simps)
  moreover have "saturating_add (min 100 1000) (min 10 1000) = 110" by (simp add: saturating_add_def U128_MAX_def)
  ultimately have fee: "withdraw_set_fee paid_payment trader 1 ?s0 = (Inr (), ?s0\<lparr>pay_chain := t\<lparr>currencies := u\<rparr>\<rparr>)"
    using swap by (simp add: withdraw_set_fee_def weight_to_fee_def del: balances_currency_simps)
  have "1 \<in> set (accepted_currencies fee_example)" by (simp add: fee_example_def payment_example_def)
  then have "os_contains vector_set 1 (accepted_currencies fee_example)" by (simp add: vector_set_def)
  with fee free show ?thesis
    by (simp add: set_currency_def transactional_def market_signed)
qed

theorem set_fee_taken_twice_witness:
  "\<exists>s'. set_currency market_frame paid_payment (Some trader) 1 fee_example = (Inr (), s') \<and>
     free_balance (account_map_config 0 50) (currencies (pay_chain s') CORE_ASSET_ID) trader = 1000110"
proof -
  let ?bal = "account_map_config 0 50 :: (bytes, bytes \<Rightarrow> account_data option) balances_config"
  obtain s' where s': "set_currency market_frame paid_payment (Some trader) 1 fee_example = (Inr (), s')"
    using fee_example_set by blast
  have inv: "balances_currency_inv ?bal (currencies (pay_chain fee_example))"
    using fee_funds_inv by (simp add: fee_example_def balances_liquid_inv_alt)
  have "free_balance ?bal (currencies (pay_chain fee_example) CORE_ASSET_ID) trader = 1000000"
    by (simp add: fee_example_def fee_funds_free CORE_ASSET_ID_def)
  then show ?thesis
    using s' set_fee_taken_twice [OF zero_map.zero_ed_accounts_axioms _ inv _ _ market_signed refl _ s']
    by (simp add: fee_pool_eq CORE_ASSET_ID_def saturating_add_def U128_MAX_def)
qed

end
