(* ===== verification/Ledger_Refinement.thy ===== *)
theory Ledger_Refinement
  imports Multi_Currency
begin

text \<open>
  The abstract specification of a multi-currency, a ledger of free and reserved amounts with the
  locked part of every account and the issuance of every asset, and the refinement of it by the
  balances pallet without an existential deposit: every operation succeeds exactly when its
  ledger operation does and has exactly its effect. Runs of operations refine runs of the ledger.
\<close>

section \<open>The ledger\<close>

record 'acc ledger_state =
  l_free :: "'acc ledger"
  l_reserved :: "'acc ledger"
  l_issuance :: "asset_id \<Rightarrow> nat"
  l_locked :: "'acc ledger"
  l_locked_all :: "'acc ledger"

datatype 'acc ledger_op =
    Op_Transfer asset_id 'acc 'acc balance
  | Op_Deposit asset_id 'acc balance
  | Op_Withdraw asset_id 'acc balance
  | Op_Reserve asset_id 'acc balance
  | Op_Unreserve asset_id 'acc balance

fun ledger_step :: "'acc ledger_op \<Rightarrow> 'acc ledger_state \<Rightarrow> bool \<times> 'acc ledger_state" where
  "ledger_step (Op_Transfer c a b n) l =
     (if a = b \<or> spendable (l_free l c a) (l_locked l c a) n then (True, l\<lparr>l_free := moved (l_free l) c a b n\<rparr>) else (False, l))"
| "ledger_step (Op_Deposit c a n) l =
     (if l_issuance l c + n \<le> U128_MAX
      then (True, l\<lparr>l_free := credit (l_free l) c a n, l_issuance := (l_issuance l)(c := l_issuance l c + n)\<rparr>)
      else (False, l))"
| "ledger_step (Op_Withdraw c a n) l =
     (if spendable (l_free l c a) (l_locked_all l c a) n
      then (True, l\<lparr>l_free := debit (l_free l) c a n, l_issuance := (l_issuance l)(c := l_issuance l c - n)\<rparr>)
      else (False, l))"
| "ledger_step (Op_Reserve c a n) l =
     (if spendable (l_free l c a) (l_locked l c a) n
      then (True, l\<lparr>l_free := debit (l_free l) c a n, l_reserved := credit (l_reserved l) c a n\<rparr>)
      else (False, l))"
| "ledger_step (Op_Unreserve c a n) l =
     (let m = min n (l_reserved l c a)
      in (True, l\<lparr>l_free := credit (l_free l) c a m, l_reserved := debit (l_reserved l) c a m\<rparr>))"

fun ledger_run :: "'acc ledger_op list \<Rightarrow> 'acc ledger_state \<Rightarrow> bool list \<times> 'acc ledger_state" where
  "ledger_run [] l = ([], l)"
| "ledger_run (x # xs) l =
     (let (ok, l) = ledger_step x l; (oks, l) = ledger_run xs l in (ok # oks, l))"

section \<open>The currency\<close>

definition ledger_of ::
  "('acc, 's) currency_ops \<Rightarrow> ('s \<Rightarrow> 'acc ledger) \<Rightarrow> ('s \<Rightarrow> 'acc ledger) \<Rightarrow> 's \<Rightarrow> 'acc ledger_state" where
  "ledger_of C lk lk_all s =
     \<lparr>l_free = cur_free C s, l_reserved = cur_reserved C s, l_issuance = cur_issuance C s,
      l_locked = lk s, l_locked_all = lk_all s\<rparr>"

definition outcome :: "('e + 'a) \<times> 's \<Rightarrow> bool \<times> 's" where
  "outcome x = (is_ok (fst x), snd x)"

fun currency_step :: "('acc, 's) currency_ops \<Rightarrow> 'acc ledger_op \<Rightarrow> 's \<Rightarrow> bool \<times> 's" where
  "currency_step C (Op_Transfer c a b n) s = outcome (cur_transfer C c a b n s)"
| "currency_step C (Op_Deposit c a n) s = outcome (cur_deposit C c a n s)"
| "currency_step C (Op_Withdraw c a n) s = outcome (cur_withdraw C c a n s)"
| "currency_step C (Op_Reserve c a n) s = outcome (cur_reserve C c a n s)"
| "currency_step C (Op_Unreserve c a n) s = (True, snd (cur_unreserve C c a n s))"

fun currency_run :: "('acc, 's) currency_ops \<Rightarrow> 'acc ledger_op list \<Rightarrow> 's \<Rightarrow> bool list \<times> 's" where
  "currency_run C [] s = ([], s)"
| "currency_run C (x # xs) s =
     (let (ok, s) = currency_step C x s; (oks, s) = currency_run C xs s in (ok # oks, s))"

locale ledger_currency = lockable_currency +
  assumes transfer_self: "\<exists>s'. cur_transfer C c a a n s = (Inr (), s')"
begin

abbreviation "books \<equiv> ledger_of C locked locked_all"

lemma books_simps [simp]:
  "l_free (books s) = cur_free C s" "l_reserved (books s) = cur_reserved C s"
  "l_issuance (books s) = cur_issuance C s" "l_locked (books s) = locked s" "l_locked_all (books s) = locked_all s"
  by (simp_all add: ledger_of_def)

text \<open>An operation that is guarded as in the ledger and fails without effect refines its step.\<close>

lemma refine_guarded:
  assumes inv: "cur_inv s" and out: "outcome y = (ok, s')"
    and good: "\<And>t. y = (Inr (), t) \<Longrightarrow> books t = l \<and> cur_inv t" and bad: "\<And>e t. y = (Inl e, t) \<Longrightarrow> t = s"
    and live: "(\<exists>t. y = (Inr (), t)) \<longleftrightarrow> P"
  shows "(ok, books s') = (if P then (True, l) else (False, books s)) \<and> cur_inv s'"
proof (cases "fst y")
  case (Inl e)
  then have y: "y = (Inl e, snd y)" by (simp add: prod_eq_iff)
  then have "snd y = s" by (rule bad)
  moreover have "\<not> P" using live y by auto
  ultimately show ?thesis using Inl out inv by (auto simp: outcome_def)
next
  case (Inr x)
  then have y: "y = (Inr (), snd y)" by (simp add: prod_eq_iff)
  then have "P" using live by blast
  with good [OF y] Inr out show ?thesis by (auto simp: outcome_def)
qed

lemma books_eq: "books t = l \<longleftrightarrow>
   cur_free C t = l_free l \<and> cur_reserved C t = l_reserved l \<and> cur_issuance C t = l_issuance l \<and>
   locked t = l_locked l \<and> locked_all t = l_locked_all l"
  by (cases l) (auto simp: ledger_of_def)

lemma step_refines:
  assumes inv: "cur_inv s" and step: "currency_step C x s = (ok, s')"
  shows "(ok, books s') = ledger_step x (books s) \<and> cur_inv s'"
proof (cases x)
  case (Op_Transfer c a b n)
  show ?thesis
    unfolding Op_Transfer ledger_step.simps books_simps
  proof (rule refine_guarded [OF inv, where y = "cur_transfer C c a b n s"])
    show "(\<exists>t. cur_transfer C c a b n s = (Inr (), t)) \<longleftrightarrow> a = b \<or> spendable (cur_free C s c a) (locked s c a) n"
      using transfer_self transfer_iff [OF inv, of a b c n] by (cases "a = b") auto
  qed (use step Op_Transfer transfer_ok [OF inv, of c a b n] transfer_err [OF inv] locks_kept [OF inv, of c a b n]
      in \<open>auto simp: books_eq\<close>)
next
  case (Op_Deposit c a n)
  show ?thesis
    unfolding Op_Deposit ledger_step.simps books_simps
    by (rule refine_guarded [OF inv, where y = "cur_deposit C c a n s"])
      (use step Op_Deposit deposit_ok [OF inv, of c a n] deposit_err [OF inv] deposit_iff [OF inv]
        locks_kept [OF inv, of c a _ n] in \<open>auto simp: books_eq\<close>)
next
  case (Op_Withdraw c a n)
  show ?thesis
    unfolding Op_Withdraw ledger_step.simps books_simps
    by (rule refine_guarded [OF inv, where y = "cur_withdraw C c a n s"])
      (use step Op_Withdraw withdraw_ok [OF inv, of c a n] withdraw_err [OF inv] withdraw_iff [OF inv]
        locks_kept [OF inv, of c a _ n] in \<open>auto simp: books_eq\<close>)
next
  case (Op_Reserve c a n)
  show ?thesis
    unfolding Op_Reserve ledger_step.simps books_simps
    by (rule refine_guarded [OF inv, where y = "cur_reserve C c a n s"])
      (use step Op_Reserve reserve_ok [OF inv, of c a n] reserve_err [OF inv] reserve_iff [OF inv]
        locks_kept [OF inv, of c a _ n] in \<open>auto simp: books_eq\<close>)
next
  case (Op_Unreserve c a n)
  obtain r t where t: "cur_unreserve C c a n s = (r, t)" by fastforce
  with unreserve_ok [OF inv t] locks_kept [OF inv, of c a _ n t r] step Op_Unreserve show ?thesis
    by (auto simp: books_eq Let_def)
qed

lemma run_refines:
  "cur_inv s \<Longrightarrow> currency_run C xs s = (oks, s') \<Longrightarrow> ledger_run xs (books s) = (oks, books s') \<and> cur_inv s'"
proof (induction xs arbitrary: s oks s')
  case (Cons x xs)
  obtain ok t where t: "currency_step C x s = (ok, t)" by fastforce
  obtain oks' u where u: "currency_run C xs t = (oks', u)" by fastforce
  have step: "ledger_step x (books s) = (ok, books t)" "cur_inv t"
    using step_refines [OF Cons.prems(1) t] by simp_all
  with Cons.IH [OF step(2) u] Cons.prems(2) t u show ?case by simp
qed simp

end

section \<open>The balances pallet refines the ledger\<close>

definition balances_ledger ::
  "('acc, 'st) balances_config \<Rightarrow> (asset_id \<Rightarrow> ('acc, 'st) balances_state) \<Rightarrow> 'acc ledger_state" where
  "balances_ledger cfg = ledger_of (balances_currency cfg) (balances_locked cfg) (balances_locked_all cfg)"

context zero_ed_accounts
begin

lemma ledger_contract:
  "ledger_currency (balances_currency cfg) (balances_currency_inv cfg) (balances_locked cfg) (balances_locked_all cfg)"
  unfolding ledger_currency_def ledger_currency_axioms_def
  by (simp add: lockable_contract at_asset_eq currency_transfer_def)

end

interpretation books: ledger_currency "balances_currency (account_map_config 0 k)"
  "balances_currency_inv (account_map_config 0 k)" "balances_locked (account_map_config 0 k)"
  "balances_locked_all (account_map_config 0 k)"
  by (rule zero_map.ledger_contract)

text \<open>C34: without an existential deposit, as the runtime sets it, one balances pallet per asset
  implements the ledger with its locks: for every sequence of transfers, deposits, withdrawals,
  reservations and releases, from any state and whatever is locked there, the pallet accepts
  exactly the operations the ledger accepts, those that leave the locked part of an account
  untouched and keep the issuance within \<open>u128\<close>, and ends in a state that represents the ledger's.\<close>

theorem balances_refine_ledger:
  assumes "zero_ed_accounts cfg" and "balances_currency_inv cfg s"
    and "currency_run (balances_currency cfg) xs s = (oks, s')"
  shows "ledger_run xs (balances_ledger cfg s) = (oks, balances_ledger cfg s') \<and> balances_currency_inv cfg s'"
  unfolding balances_ledger_def
  by (rule ledger_currency.run_refines [OF zero_ed_accounts.ledger_contract [OF assms(1)] assms(2,3)])

text \<open>Account 7 has 100 free, of which 30 are locked.\<close>

definition locked_purse :: "(nat, nat \<Rightarrow> account_data option) balances_state" where
  "locked_purse = balances_start [(7, \<lparr>free = 100, reserved = 0, misc_frozen = 30, fee_frozen = 0\<rparr>)]"

theorem balances_refine_ledger_witness:
  "\<exists>s'. currency_run (balances_currency (account_map_config 0 50))
      [Op_Reserve 1 (7::nat) 20, Op_Transfer 1 7 8 60, Op_Transfer 1 7 8 50, Op_Withdraw 1 7 5]
      (\<lambda>_. locked_purse) = ([True, False, True, False], s') \<and>
     free_balance (account_map_config 0 50) (s' 1) 8 = 50"
proof -
  let ?bal = "account_map_config 0 50 :: (nat, nat \<Rightarrow> account_data option) balances_config"
  let ?xs = "[Op_Reserve 1 (7::nat) 20, Op_Transfer 1 7 8 60, Op_Transfer 1 7 8 50, Op_Withdraw 1 7 5]"
  have "balances_inv ?bal locked_purse"
    unfolding locked_purse_def by (rule balances_start_inv) (simp_all add: holding_def U128_MAX_def)
  then have inv: "balances_currency_inv ?bal (\<lambda>_. locked_purse)" by (simp add: balances_currency_inv_def)
  obtain oks s' where s': "currency_run (balances_currency ?bal) ?xs (\<lambda>_. locked_purse) = (oks, s')" by fastforce
  have "balances_ledger ?bal (\<lambda>_. locked_purse) =
      \<lparr>l_free = \<lambda>_. (\<lambda>_. 0)(7 := 100), l_reserved = \<lambda>_ _. 0, l_issuance = \<lambda>_. 100,
       l_locked = \<lambda>_. (\<lambda>_. 0)(7 := 30), l_locked_all = \<lambda>_. (\<lambda>_. 0)(7 := 30)\<rparr>"
    by (simp add: balances_ledger_def ledger_of_def fun_eq_iff free_balance_def reserved_balance_def
        balances_locked_def balances_locked_all_def frozen_def account_map_account account_default_def
        locked_purse_def balances_start_def holding_def)
  with balances_refine_ledger [OF zero_map.zero_ed_accounts_axioms inv s']
  have "oks = [True, False, True, False]"
    and l: "balances_ledger ?bal s' =
      \<lparr>l_free = moved (debit (\<lambda>_. (\<lambda>_. 0)(7 := 100)) 1 7 20) 1 7 8 50, l_reserved = credit (\<lambda>_ _. 0) 1 7 20,
       l_issuance = \<lambda>_. 100, l_locked = \<lambda>_. (\<lambda>_. 0)(7 := 30), l_locked_all = \<lambda>_. (\<lambda>_. 0)(7 := 30)\<rparr>"
    by (auto simp: spendable_def ledger_apply)
  moreover from arg_cong [OF l, of "\<lambda>l. l_free l 1 8"] have "free_balance ?bal (s' 1) 8 = 50"
    by (simp add: balances_ledger_def ledger_of_def ledger_apply)
  ultimately show ?thesis using s' by auto
qed

end
