(* ===== verification/Primitives_Props.thy ===== *)
theory Primitives_Props
  imports Asset_Registry
begin

text \<open>
  Properties of the two components every pallet builds on: the fee arithmetic of
  \<open>src/primitives/src/lib.rs\<close> and the asset registry.
\<close>

section \<open>Fees\<close>

lemma with_fee_eq_Some:
  "with_fee n f = Some x \<longleftrightarrow>
     n * (unat (denominator f) + unat (numerator f)) \<le> U128_MAX \<and> denominator f \<noteq> 0 \<and>
     x = n * (unat (denominator f) + unat (numerator f)) div unat (denominator f)"
  by (auto simp: with_fee_def bind_eq_Some_conv unat_eq_0)

lemma without_fee_eq_Some:
  "without_fee n f = Some x \<longleftrightarrow>
     n * unat (denominator f) \<le> U128_MAX \<and> unat (denominator f) + unat (numerator f) \<noteq> 0 \<and>
     x = n * unat (denominator f) div (unat (denominator f) + unat (numerator f))"
  by (auto simp: without_fee_def bind_eq_Some_conv)

text \<open>Adding a fraction, rounded down, and taking it off again loses at most one unit.\<close>

lemma gross_net:
  fixes n d u :: nat
  assumes "0 < d"
  shows "n * (d + u) div d = n + n * u div d" and "n * (d + u) div d * d \<le> n * (d + u)"
    and "n * (d + u) div d * d div (d + u) \<le> n" and "n \<le> n * (d + u) div d * d div (d + u) + 1"
proof -
  let ?w = "n * (d + u) div d"
  show "?w = n + n * u div d" using assms by (simp add: distrib_left)
  show le: "?w * d \<le> n * (d + u)" by simp
  have "?w * d div (d + u) \<le> n * (d + u) div (d + u)" using le by (rule div_le_mono)
  with assms show "?w * d div (d + u) \<le> n" by simp
  have "n * (d + u) < ?w * d + d" using dividend_less_div_times [OF assms, of "n * (d + u)"] by (simp add: ac_simps)
  then have "n * (d + u) \<le> ?w * d + (d + u)" by simp
  then have "n * (d + u) div (d + u) \<le> (?w * d + (d + u)) div (d + u)" by (rule div_le_mono)
  moreover have "(?w * d + (d + u)) div (d + u) = ?w * d div (d + u) + 1" using assms by (subst div_add_self2) simp_all
  ultimately show "n \<le> ?w * d div (d + u) + 1" using assms by simp
qed

text \<open>The fee arithmetic is consistent. Unless a product leaves \<open>u128\<close>, an amount with its fee is the
  amount plus the fee alone, the fee is at most the amount, taking the fee off again returns the
  amount or one unit less and cannot overflow, and the discounted fee is never above the normal
  one.\<close>

theorem fee_arithmetic:
  assumes "denominator f \<noteq> 0" and "numerator f \<le> denominator f"
    and "n * (unat (denominator f) + unat (numerator f)) \<le> U128_MAX" and "n * 7 \<le> U128_MAX"
  shows "\<exists>gross fee net disc full. with_fee n f = Some gross \<and> just_fee n f = Some fee \<and> gross = n + fee \<and> fee \<le> n \<and>
    without_fee gross f = Some net \<and> net \<le> n \<and> n \<le> net + 1 \<and>
    discounted_fee n = Some disc \<and> just_fee n fee_default = Some full \<and> disc \<le> full"
proof -
  let ?d = "unat (denominator f)" and ?u = "unat (numerator f)"
  have d: "0 < ?d" using assms(1) by (simp add: unat_gt_0)
  note G = gross_net [OF d, of n ?u]
  have fee: "just_fee n f = Some (n * ?u div ?d)"
    using assms(1,3) by (simp add: just_fee_eq_Some distrib_left)
  have "with_fee n f = Some (n * (?d + ?u) div ?d)"
    using assms(1,3) by (simp add: with_fee_eq_Some)
  moreover have "without_fee (n * (?d + ?u) div ?d) f = Some (n * (?d + ?u) div ?d * ?d div (?d + ?u))"
    using d le_trans [OF G(2) assms(3)] by (simp add: without_fee_eq_Some)
  moreover have "discounted_fee n = Some (n * 7 div 10000)" "just_fee n fee_default = Some (n * 2 div 1000)"
    using assms(4) by (simp_all add: discounted_fee_def just_fee_eq_Some fee_default_def)
  moreover have "n * 7 div 10000 \<le> n * 2 div 1000" by linarith
  ultimately show ?thesis using fee just_fee_le [OF fee assms(2)] G by blast
qed

theorem fee_arithmetic_witness:
  "\<exists>gross net. with_fee 123456 fee_default = Some gross \<and> gross = 123702 \<and> without_fee gross fee_default = Some net \<and>
     net \<le> 123456 \<and> 123456 \<le> net + 1"
proof -
  have "with_fee 123456 fee_default = Some 123702"
    by (simp add: with_fee_eq_Some fee_default_def U128_MAX_def)
  then show ?thesis
    using fee_arithmetic [of fee_default 123456] by (auto simp: fee_default_def U128_MAX_def word_le_nat_alt)
qed

section \<open>Registered assets\<close>

fun register_all :: "bytes list \<Rightarrow> registry_state \<Rightarrow> (dispatch_error + asset_id) list \<times> registry_state" where
  "register_all [] s = ([], s)"
| "register_all (name # names) s =
     (let (r, s) = get_or_create_asset name s; (rs, s) = register_all names s in (r # rs, s))"

lemma register_all_inv:
  assumes "registry_inv s" and "register_all names s = (rs, s')"
  shows "registry_inv s' \<and> core_asset_id s' = core_asset_id s \<and> length rs = length names \<and>
    (\<forall>n v. asset_ids s n = Some v \<longrightarrow> asset_ids s' n = Some v) \<and>
    (\<forall>i<length names. case rs ! i of
       Inr a \<Rightarrow> asset_ids s' (names ! i) = Some (Some a)
     | Inl e \<Rightarrow> e = AssetRegistry NoIdAvailable \<and> asset_ids s (names ! i) = None)"
  using assms
proof (induction names arbitrary: s rs s')
  case (Cons name names)
  obtain r t where t: "get_or_create_asset name s = (r, t)" by fastforce
  obtain rs' where rs': "register_all names t = (rs', s')" "rs = r # rs'"
    using Cons.prems(2) t by (auto simp: Let_def split: prod.splits)
  have step: "registry_inv t \<and> core_asset_id t = core_asset_id s \<and>
      (\<forall>n v. asset_ids s n = Some v \<longrightarrow> asset_ids t n = Some v) \<and>
      (case r of Inr a \<Rightarrow> asset_ids t name = Some (Some a)
         | Inl e \<Rightarrow> e = AssetRegistry NoIdAvailable \<and> asset_ids s name = None)"
  proof (cases r)
    case (Inl e)
    with t get_or_create_asset_Inl [of name s e t] Cons.prems(1) show ?thesis by auto
  next
    case (Inr a)
    with t have ok: "get_or_create_asset name s = (Inr a, t)" by simp
    from get_or_create_asset_inv [OF Cons.prems(1) ok] get_or_create_asset_lookup [OF ok]
      get_or_create_asset_mono [OF ok] get_or_create_asset_Inr [OF ok] Inr
    show ?thesis by auto
  qed
  then have "registry_inv t" by simp
  note IH = Cons.IH [OF this rs'(1)]
  have old: "asset_ids s n = None" if "asset_ids t n = None" for n
    using step that by (cases "asset_ids s n") auto
  show ?case
    using step IH rs'(2) old by (auto simp: nth_Cons split: nat.splits sum.splits)
qed simp

text \<open>C40: over every sequence of registrations the registry names assets one to one: two names get the
  same identifier exactly when they are equal, no name gets the identifier of the core asset, a
  name keeps its identifier, and the only failure is that the identifiers are used up (the
  \<open>unwrap\<close> of a stored identifier never panics).\<close>

theorem registry_one_to_one:
  assumes "registry_inv s" and "register_all names s = (rs, s')"
  shows "length rs = length names \<and> registry_inv s' \<and>
    (\<forall>i<length names. \<forall>e. rs ! i = Inl e \<longrightarrow> e = AssetRegistry NoIdAvailable) \<and>
    (\<forall>i<length names. \<forall>a. rs ! i = Inr a \<longrightarrow> a \<noteq> core_asset_id s) \<and>
    (\<forall>i<length names. \<forall>j<length names. \<forall>a b. rs ! i = Inr a \<longrightarrow> rs ! j = Inr b \<longrightarrow>
      (a = b \<longleftrightarrow> names ! i = names ! j)) \<and>
    (\<forall>i<length names. \<forall>a. asset_ids s (names ! i) = Some (Some a) \<longrightarrow> rs ! i = Inr a)"
proof -
  note R = register_all_inv [OF assms]
  have named: "asset_ids s' (names ! i) = Some (Some a)" if "i < length names" "rs ! i = Inr a" for i a
    using R that by (auto split: sum.splits)
  have failed: "e = AssetRegistry NoIdAvailable \<and> asset_ids s (names ! i) = None" if "i < length names" "rs ! i = Inl e" for i e
    using R that by (auto split: sum.splits)
  have inv: "registry_inv s'" using R by simp
  have "a \<noteq> core_asset_id s" if "i < length names" "rs ! i = Inr a" for i a
    using registry_invD [OF inv named [OF that]] R by auto
  moreover have "a = b \<longleftrightarrow> names ! i = names ! j"
    if "i < length names" "j < length names" "rs ! i = Inr a" "rs ! j = Inr b" for i j a b
    using named [of i a] named [of j b] that registry_inv_inj [OF inv] by auto
  moreover have "rs ! i = Inr a" if "i < length names" "asset_ids s (names ! i) = Some (Some a)" for i a
  proof (cases "rs ! i")
    case (Inl e)
    with failed that show ?thesis by fastforce
  next
    case (Inr b)
    with named [OF that(1) Inr] that R show ?thesis by auto
  qed
  ultimately show ?thesis using R failed inv by blast
qed

theorem registry_one_to_one_witness:
  "\<exists>rs s'. register_all [[1], [2], [1]] (registry_genesis_build \<lparr>gen_core_asset_id = 0, gen_next_asset_id = 1,
      gen_asset_ids = []\<rparr>) = (rs, s') \<and> rs = [Inr 1, Inr 2, Inr 1] \<and> registry_inv s'"
proof -
  let ?s = "registry_genesis_build \<lparr>gen_core_asset_id = 0, gen_next_asset_id = 1, gen_asset_ids = []\<rparr>"
  have inv: "registry_inv ?s" by (simp add: registry_inv_def registry_genesis_build_def)
  obtain rs s' where run: "register_all [[1], [2], [1]] ?s = (rs, s')" by fastforce
  then have rs: "rs = [Inr 1, Inr 2, Inr 1]"
    by (auto simp: registry_genesis_build_def get_or_create_asset_def checked_add_u32_def Let_def)
  from registry_one_to_one [OF inv run] have "registry_inv s'" by simp
  with run rs show ?thesis by blast
qed

end
