(* ===== verification/Runtime_Api.thy ===== *)
theory Runtime_Api
  imports XYK_Props
begin

text \<open>
  The query for the reserves of a pool, from the runtime API (\<open>src/runtime/src/lib.rs\<close>,
  \<open>src/pallets/xyk/rpc/runtime-api/src/lib.rs\<close>) to the RPC method of the node
  (\<open>src/pallets/xyk/rpc/src/lib.rs\<close>), and the text form in which amounts travel. The client that
  runs the runtime on the state of a block is outside the repository and a parameter.
\<close>

section \<open>Amounts as text\<close>

record balance_info =
  info_amount :: balance
  info_asset :: "asset_id option"

text \<open>\<open>Display\<close> and \<open>FromStr\<close> of \<open>u128\<close>: decimal digits; an optional plus sign, then at least one digit.\<close>

definition digit_char :: "nat \<Rightarrow> char" where
  "digit_char d = char_of (48 + d)"

function u128_to_string :: "u128 \<Rightarrow> string" where
  "u128_to_string n = (if n < 10 then [digit_char n] else u128_to_string (n div 10) @ [digit_char (n mod 10)])"
  by pat_completeness auto

termination
  by (relation "measure id") auto

declare u128_to_string.simps [simp del]

definition to_digit :: "char \<Rightarrow> nat option" where
  "to_digit c = (if 48 \<le> (of_char c :: nat) \<and> (of_char c :: nat) \<le> 57 then Some (of_char c - 48) else None)"

fun parse_digits :: "u128 \<Rightarrow> string \<Rightarrow> u128 option" where
  "parse_digits acc [] = Some acc"
| "parse_digits acc (c # cs) =
     (case to_digit c of
        None \<Rightarrow> None
      | Some d \<Rightarrow>
          (case checked_mul acc 10 of
             None \<Rightarrow> None
           | Some m \<Rightarrow> (case checked_add m d of None \<Rightarrow> None | Some acc' \<Rightarrow> parse_digits acc' cs)))"

definition parse_u128 :: "string \<Rightarrow> u128 option" where
  "parse_u128 s =
     (case s of
        [] \<Rightarrow> None
      | c # cs \<Rightarrow> (if c = CHR ''+'' then (if cs = [] then None else parse_digits 0 cs) else parse_digits 0 s))"

definition serialize_as_string :: "balance \<Rightarrow> string" where
  "serialize_as_string t = u128_to_string t"

definition deserialize_from_string :: "string \<Rightarrow> string + balance" where
  "deserialize_from_string s =
     (case parse_u128 s of Some n \<Rightarrow> Inr n | None \<Rightarrow> Inl ''Parse from string failed'')"

section \<open>The runtime API and the RPC method\<close>

definition runtime_get_pool_balances ::
  "('acc, 's) xyk_config \<Rightarrow> 'acc \<Rightarrow> ('acc, 's) xyk_state \<Rightarrow> dispatch_error + balance_info list" where
  "runtime_get_pool_balances cfg pool_address s =
     (case get_pool_balances cfg pool_address s of
        None \<Rightarrow> Inl (Panic ''unwrap'')
      | Some pool_balances \<Rightarrow>
          Inr (map (\<lambda>b. \<lparr>info_amount = snd b, info_asset = Some (fst b)\<rparr>) pool_balances))"

datatype rpc_error_kind = RuntimeError

fun error_code :: "rpc_error_kind \<Rightarrow> int" where
  "error_code RuntimeError = 1"

record 'e rpc_error =
  rpc_code :: int
  rpc_message :: string
  rpc_data :: 'e

record ('h, 'acc, 'e) rpc_client =
  best_hash :: 'h
  api_get_pool_balances :: "'h \<Rightarrow> 'acc \<Rightarrow> 'e + balance_info list"

definition rpc_get_pool_balances ::
  "('h, 'acc, 'e) rpc_client \<Rightarrow> 'acc \<Rightarrow> 'h option \<Rightarrow> 'e rpc_error + balance_info list" where
  "rpc_get_pool_balances client pool_address at_block =
     (let at_hash = (case at_block of Some h \<Rightarrow> h | None \<Rightarrow> best_hash client)
      in case api_get_pool_balances client at_hash pool_address of
           Inr infos \<Rightarrow> Inr infos
         | Inl e \<Rightarrow>
             Inl \<lparr>rpc_code = error_code RuntimeError, rpc_message = ''Unable to retrieve pool balances.'', rpc_data = e\<rparr>)"

section \<open>Properties\<close>

lemma to_digit_char: "d < 10 \<Longrightarrow> to_digit (digit_char d) = Some d"
  by (simp add: to_digit_def digit_char_def)

lemma digit_char_plus: "d < 10 \<Longrightarrow> digit_char d \<noteq> CHR ''+''"
proof
  assume "d < 10" and "digit_char d = CHR ''+''"
  then have "of_char (digit_char d) = (of_char (CHR ''+'') :: nat)" by simp
  with \<open>d < 10\<close> show False by (simp add: digit_char_def)
qed

lemma parse_digits_append:
  "parse_digits acc (s @ t) = (case parse_digits acc s of None \<Rightarrow> None | Some acc' \<Rightarrow> parse_digits acc' t)"
  by (induction s arbitrary: acc) (auto split: option.splits)

lemma parse_digits_fits: "parse_digits acc s = Some n \<Longrightarrow> acc \<le> U128_MAX \<Longrightarrow> n \<le> U128_MAX"
  by (induction s arbitrary: acc) (auto simp: checked_add_def split: option.splits if_splits)

lemma parse_digits_to_string: "n \<le> U128_MAX \<Longrightarrow> parse_digits 0 (u128_to_string n) = Some n"
proof (induction n rule: u128_to_string.induct)
  case (1 n)
  show ?case
  proof (cases "n < 10")
    case True
    with 1(2) show ?thesis
      by (simp add: u128_to_string.simps [of n] to_digit_char checked_mul_def checked_add_def)
  next
    case False
    have "n div 10 * 10 \<le> U128_MAX" "n div 10 * 10 + n mod 10 = n" using 1(2) by simp_all
    with False 1 show ?thesis
      by (simp add: u128_to_string.simps [of n] parse_digits_append to_digit_char checked_mul_def checked_add_def)
  qed
qed

lemma u128_to_string_head: "\<exists>d cs. d < 10 \<and> u128_to_string n = digit_char d # cs"
proof (induction n rule: u128_to_string.induct)
  case (1 n)
  then show ?case by (cases "n < 10") (auto simp: u128_to_string.simps [of n])
qed

lemma serialize_roundtrip: "n \<le> U128_MAX \<Longrightarrow> deserialize_from_string (serialize_as_string n) = Inr n"
proof -
  assume n: "n \<le> U128_MAX"
  obtain d cs where d: "d < 10" "u128_to_string n = digit_char d # cs" using u128_to_string_head by blast
  with digit_char_plus parse_digits_to_string [OF n] have "parse_u128 (u128_to_string n) = Some n"
    by (simp add: parse_u128_def del: parse_digits.simps)
  then show ?thesis by (simp add: deserialize_from_string_def serialize_as_string_def)
qed

text \<open>C38: a client asking the node for a pool's reserves gets exactly them. If the client runs the
  runtime on the state of the block, the method answers without a panic, for the given block or
  else the best one, with one entry per asset of the pool, in order, and decoding the text of
  each amount gives the reserve back; an address that is no pool has no entries; no text decodes
  to an amount beyond the balance type.\<close>

theorem pool_query_exact:
  fixes cfg :: "('acc, 's) xyk_config"
  assumes "multi_currency (xyk_currency cfg) cur_inv" and "\<And>h. cur_inv (currencies (state_at h))"
    and "\<And>h a. api_get_pool_balances client h a = runtime_get_pool_balances cfg a (state_at h)"
  shows "(\<exists>infos. rpc_get_pool_balances client pool at_block = Inr infos \<and>
      (let s = state_at (case at_block of Some h \<Rightarrow> h | None \<Rightarrow> best_hash client);
           as = (case get_pool_assets pool s of Some as \<Rightarrow> as | None \<Rightarrow> [])
       in map info_asset infos = map Some as \<and>
          map (\<lambda>i. deserialize_from_string (serialize_as_string (info_amount i))) infos =
            map (\<lambda>a. Inr (xyk_free cfg s a pool)) as)) \<and>
    (\<forall>t n. deserialize_from_string t = Inr n \<longrightarrow> n \<le> U128_MAX)"
proof -
  define s where "s = state_at (case at_block of Some h \<Rightarrow> h | None \<Rightarrow> best_hash client)"
  let ?as = "case get_pool_assets pool s of Some as \<Rightarrow> as | None \<Rightarrow> []"
  let ?infos = "map (\<lambda>a. \<lparr>info_amount = xyk_free cfg s a pool, info_asset = Some a\<rparr>) ?as"
  have fit: "xyk_free cfg s a pool \<le> U128_MAX" for a
    using multi_currency.fits [OF assms(1), of "currencies s" a pool] assms(2) by (simp add: xyk_free_def s_def)
  have "rpc_get_pool_balances client pool at_block = Inr ?infos"
    using assms(3) by (simp add: rpc_get_pool_balances_def runtime_get_pool_balances_def get_pool_balances_def
        s_def comp_def split: option.split)
  moreover have "n \<le> U128_MAX" if "deserialize_from_string t = Inr n" for t n
    using that parse_digits_fits [of 0 _ n]
    by (auto simp: deserialize_from_string_def parse_u128_def simp del: parse_digits.simps
        split: option.splits list.splits if_splits)
  ultimately show ?thesis
    using fit unfolding s_def [symmetric] Let_def by (auto simp: comp_def serialize_roundtrip)
qed

theorem pool_query_exact_witness:
  "\<exists>infos. rpc_get_pool_balances
       \<lparr>best_hash = (7 :: nat), api_get_pool_balances = (\<lambda>h a. runtime_get_pool_balances market_config a market_state)\<rparr>
       pool_account None = Inr infos \<and>
     map info_asset infos = [Some 1, Some 2] \<and>
     map (\<lambda>i. deserialize_from_string (serialize_as_string (info_amount i))) infos = [Inr 1000000, Inr 2000000]"
proof -
  let ?client = "\<lparr>best_hash = (7 :: nat),
    api_get_pool_balances = (\<lambda>h a. runtime_get_pool_balances market_config a market_state)\<rparr>"
  have contract: "multi_currency (xyk_currency market_config) (balances_currency_inv (account_map_config 0 50))"
    by (simp add: zero_map.currency_contract)
  have inv: "balances_currency_inv (account_map_config 0 50) (currencies market_state)"
    using market_funds_inv by (simp add: market_state_def)
  have assets: "get_pool_assets pool_account market_state = Some [1, 2]"
    by (simp add: get_pool_assets_def get_pool_assets_pair_def market_state_def)
  have free: "xyk_free market_config market_state 1 pool_account = 1000000"
    "xyk_free market_config market_state 2 pool_account = 2000000"
    by (simp_all add: market_free market_frees)
  from pool_query_exact [OF contract, of "\<lambda>_. market_state" ?client pool_account None, OF inv] show ?thesis
    by (simp add: assets free Let_def)
qed

end
