(* ===== verification/Weights.thy ===== *)
theory Weights
  imports Prelude
begin

text \<open>
  The weights of the calls: \<open>src/pallets/*/src/weights.rs\<close>, each a function of the cost of a
  database read and write (\<open>T::DbWeight\<close>, or the framework's constants for \<open>()\<close>), and the
  weights the exchange pallet composes from them. A \<open>Weight\<close> is a \<open>u64\<close>, kept as a natural
  number; the methods saturate, the operators of the weight attributes wrap.
\<close>

section \<open>Weights\<close>

type_synonym weight = nat

definition weight_add :: "weight \<Rightarrow> weight \<Rightarrow> weight" where
  "weight_add a b = min (a + b) U64_MAX"

definition weight_mul :: "weight \<Rightarrow> weight \<Rightarrow> weight" where
  "weight_mul a b = min (a * b) U64_MAX"

record db_weight =
  db_read :: weight
  db_write :: weight

definition db_reads :: "db_weight \<Rightarrow> weight \<Rightarrow> weight" where
  "db_reads d n = weight_mul (db_read d) n"

definition db_writes :: "db_weight \<Rightarrow> weight \<Rightarrow> weight" where
  "db_writes d n = weight_mul (db_write d) n"

definition call_weight :: "db_weight \<Rightarrow> weight \<Rightarrow> weight \<Rightarrow> weight \<Rightarrow> weight" where
  "call_weight d base reads writes = weight_add (weight_add base (db_reads d reads)) (db_writes d writes)"

section \<open>Weights of the pallets\<close>

datatype xyk_call = W_create_pool | W_add_liquidity | W_remove_liquidity | W_sell | W_buy

fun xyk_weights :: "db_weight \<Rightarrow> xyk_call \<Rightarrow> weight" where
  "xyk_weights d W_create_pool = call_weight d 189645000 11 13"
| "xyk_weights d W_add_liquidity = call_weight d 171602000 9 8"
| "xyk_weights d W_remove_liquidity = call_weight d 170846000 8 7"
| "xyk_weights d W_sell = call_weight d 122125000 5 4"
| "xyk_weights d W_buy = call_weight d 121289000 5 4"

definition claim_weight :: "db_weight \<Rightarrow> weight" where
  "claim_weight d = call_weight d 248181000 2 2"

datatype payment_call = W_swap_currency | W_set_currency | W_add_currency | W_remove_currency | W_add_member | W_remove_member

fun payment_weights :: "db_weight \<Rightarrow> payment_call \<Rightarrow> weight" where
  "payment_weights d W_swap_currency = call_weight d 132983000 6 4"
| "payment_weights d W_set_currency = call_weight d 34622000 2 1"
| "payment_weights d W_add_currency = call_weight d 26292000 2 1"
| "payment_weights d W_remove_currency = call_weight d 26232000 2 1"
| "payment_weights d W_add_member = call_weight d 23021000 1 1"
| "payment_weights d W_remove_member = call_weight d 24963000 1 1"

datatype balances_call =
  W_transfer | W_transfer_keep_alive | W_set_balance_creating | W_set_balance_killing | W_force_transfer

fun balances_weights :: "db_weight \<Rightarrow> balances_call \<Rightarrow> weight" where
  "balances_weights d W_transfer = call_weight d 100698000 1 1"
| "balances_weights d W_transfer_keep_alive = call_weight d 69407000 1 1"
| "balances_weights d W_set_balance_creating = call_weight d 38489000 1 1"
| "balances_weights d W_set_balance_killing = call_weight d 48458000 1 1"
| "balances_weights d W_force_transfer = call_weight d 99320000 2 2"

section \<open>The exchange\<close>

datatype exchange_weight =
    W_known_overhead_for_on_finalize
  | W_sell_intention
  | W_buy_intention
  | W_on_finalize nat
  | W_on_finalize_buys_no_matches nat
  | W_on_finalize_sells_no_matches nat
  | W_sell_extrinsic
  | W_on_finalize_for_one_sell_extrinsic
  | W_buy_extrinsic
  | W_on_finalize_for_one_buy_extrinsic

definition finalize_weight :: "db_weight \<Rightarrow> weight \<Rightarrow> weight \<Rightarrow> nat \<Rightarrow> weight" where
  "finalize_weight d base per_intention t =
     weight_add (weight_add (weight_add (weight_add (weight_add base (weight_mul per_intention t))
       (db_reads d 4)) (db_reads d (weight_mul 2 t))) (db_writes d 2)) (db_writes d (weight_mul 2 t))"

fun exchange_weights :: "db_weight \<Rightarrow> exchange_weight \<Rightarrow> weight" where
  "exchange_weights d W_known_overhead_for_on_finalize = weight_add 11782000 (db_reads d 1)"
| "exchange_weights d W_sell_intention = call_weight d 109767000 6 2"
| "exchange_weights d W_buy_intention = call_weight d 112747000 6 2"
| "exchange_weights d (W_on_finalize t) = finalize_weight d 0 110967000 t"
| "exchange_weights d (W_on_finalize_buys_no_matches t) = finalize_weight d 0 125236000 t"
| "exchange_weights d (W_on_finalize_sells_no_matches t) = finalize_weight d 8528000 109453000 t"
| "exchange_weights d W_sell_extrinsic = call_weight d 121370000 5 4"
| "exchange_weights d W_on_finalize_for_one_sell_extrinsic = call_weight d 163828000 9 6"
| "exchange_weights d W_buy_extrinsic = call_weight d 120942000 5 4"
| "exchange_weights d W_on_finalize_for_one_buy_extrinsic = call_weight d 179585000 9 6"

text \<open>The weight attributes of the two calls and what the pallet returns from \<open>on_initialize\<close>.\<close>

definition weight_op :: "weight \<Rightarrow> weight \<Rightarrow> weight \<Rightarrow> weight" where
  "weight_op a b c = ((a + b) mod (U64_MAX + 1) + (U64_MAX + 1) - c) mod (U64_MAX + 1)"

definition exchange_sell_weight :: "db_weight \<Rightarrow> weight" where
  "exchange_sell_weight d =
     weight_op (exchange_weights d W_sell_intention) (exchange_weights d W_on_finalize_for_one_sell_extrinsic)
       (exchange_weights d W_known_overhead_for_on_finalize)"

definition exchange_buy_weight :: "db_weight \<Rightarrow> weight" where
  "exchange_buy_weight d =
     weight_op (exchange_weights d W_buy_intention) (exchange_weights d W_on_finalize_for_one_buy_extrinsic)
       (exchange_weights d W_known_overhead_for_on_finalize)"

definition exchange_on_initialize :: "db_weight \<Rightarrow> weight" where
  "exchange_on_initialize d = exchange_weights d W_known_overhead_for_on_finalize"

section \<open>Lemmas\<close>

text \<open>Where nothing saturates, weights are linear in the database costs.\<close>

definition modest :: "db_weight \<Rightarrow> bool" where
  "modest d \<longleftrightarrow> db_read d \<le> 10 ^ 9 \<and> db_write d \<le> 10 ^ 9"

lemma call_weight_linear:
  assumes "modest d" and "base \<le> 10 ^ 9" and "r \<le> 100" and "w \<le> 100"
  shows "call_weight d base r w = base + r * db_read d + w * db_write d"
proof -
  have "db_read d * r \<le> 10 ^ 9 * 100" "db_write d * w \<le> 10 ^ 9 * 100"
    using assms by (intro mult_le_mono; simp add: modest_def)+
  with assms(2) show ?thesis
    by (simp add: call_weight_def weight_add_def db_reads_def db_writes_def weight_mul_def U64_MAX_def)
qed

lemma weight_exact:
  "a + b \<le> U64_MAX \<Longrightarrow> weight_add a b = a + b" "a * b \<le> U64_MAX \<Longrightarrow> weight_mul a b = a * b"
  by (simp_all add: weight_add_def weight_mul_def)

lemma finalize_weight_linear:
  assumes "modest d" and "base \<le> 10 ^ 9" and "per \<le> 10 ^ 9" and "t \<le> 10 ^ 6"
  shows "finalize_weight d base per t = base + per * t + (4 + 2 * t) * db_read d + (2 + 2 * t) * db_write d"
proof -
  define p r w where "p = per * t" and "r = db_read d * (2 * t)" and "w = db_write d * (2 * t)"
  have b: "per * t \<le> 10 ^ 9 * 10 ^ 6" "db_read d * (2 * t) \<le> 10 ^ 9 * (2 * 10 ^ 6)" "db_write d * (2 * t) \<le> 10 ^ 9 * (2 * 10 ^ 6)"
    using assms by (intro mult_le_mono; simp add: modest_def)+
  have d: "db_read d \<le> 10 ^ 9" "db_write d \<le> 10 ^ 9" using assms(1) by (simp_all add: modest_def)
  have "weight_mul per t = p" "weight_mul 2 t = 2 * t" "db_reads d 4 = db_read d * 4" "db_reads d (2 * t) = r"
    "db_writes d 2 = db_write d * 2" "db_writes d (2 * t) = w"
    using b d assms(4)
    unfolding db_reads_def db_writes_def weight_mul_def p_def [symmetric] r_def [symmetric] w_def [symmetric]
    by (simp_all add: U64_MAX_def)
  then have "finalize_weight d base per t =
      weight_add (weight_add (weight_add (weight_add (weight_add base p) (db_read d * 4)) r) (db_write d * 2)) w"
    by (simp add: finalize_weight_def)
  also have "\<dots> = base + p + db_read d * 4 + r + db_write d * 2 + w"
    using b d assms(2) unfolding p_def [symmetric] r_def [symmetric] w_def [symmetric]
    by (simp add: weight_exact(1) U64_MAX_def)
  finally show ?thesis by (simp add: p_def r_def w_def algebra_simps)
qed

lemma weight_op_exact:
  "a + b \<le> U64_MAX \<Longrightarrow> c \<le> a + b \<Longrightarrow> weight_op a b c = a + b - c"
proof -
  assume a: "a + b \<le> U64_MAX" "c \<le> a + b"
  then have "a + b + (U64_MAX + 1) - c = (a + b - c) + (U64_MAX + 1)" by simp
  moreover have "a + b - c < U64_MAX + 1" using a by simp
  ultimately show ?thesis using a by (simp only: weight_op_def mod_less mod_add_self2)
qed

lemma call_weights:
  assumes "modest d"
  shows "exchange_sell_weight d = 261813000 + 14 * db_read d + 8 * db_write d"
    and "exchange_buy_weight d = 280550000 + 14 * db_read d + 8 * db_write d"
    and "exchange_on_initialize d = 11782000 + db_read d"
  using assms weight_op_exact
  by (simp_all add: exchange_sell_weight_def exchange_buy_weight_def exchange_on_initialize_def call_weight_linear
      weight_add_def db_reads_def weight_mul_def U64_MAX_def modest_def)

text \<open>What the calls of a block with at least one intention carry beyond the registration, together
  with the weight returned from \<open>on_initialize\<close>, is at least the weight of finalising that many
  intentions, matched or not.\<close>

lemma calls_cover_finalisation:
  assumes "modest d" and "0 < sells + buys" and "sells + buys \<le> 10 ^ 6"
    and "W \<in> {W_on_finalize, W_on_finalize_buys_no_matches, W_on_finalize_sells_no_matches}"
  shows "exchange_weights d (W (sells + buys)) \<le>
    sells * (exchange_sell_weight d - exchange_weights d W_sell_intention) +
    buys * (exchange_buy_weight d - exchange_weights d W_buy_intention) + exchange_on_initialize d"
proof -
  have share: "exchange_sell_weight d - exchange_weights d W_sell_intention = 152046000 + 8 * db_read d + 6 * db_write d"
    "exchange_buy_weight d - exchange_weights d W_buy_intention = 167803000 + 8 * db_read d + 6 * db_write d"
    using call_weights [OF assms(1)] assms(1) by (simp_all add: call_weight_linear)
  have one: "db_read d \<le> (sells + buys) * db_read d" "db_write d \<le> (sells + buys) * db_write d"
    using assms(2) by (simp_all add: Suc_le_eq)
  have "exchange_weights d (W (sells + buys)) \<le>
      sells * (152046000 + 8 * db_read d + 6 * db_write d) + buys * (167803000 + 8 * db_read d + 6 * db_write d) +
      (11782000 + db_read d)"
    using assms(4) one finalize_weight_linear [OF assms(1) _ _ assms(3)]
    by (auto simp: algebra_simps)
  with share call_weights(3) [OF assms(1)] show ?thesis by simp
qed

lemma intention_weight_le:
  "modest d \<Longrightarrow> exchange_weights d W_sell_intention \<le> exchange_sell_weight d"
  "modest d \<Longrightarrow> exchange_weights d W_buy_intention \<le> exchange_buy_weight d"
  by (simp_all add: call_weights call_weight_linear)

text \<open>The weights charged to the calls of a block pay for the finalisation that resolves them, and the
  subtraction in the weight of an exchange call never underflows.\<close>

theorem calls_pay_for_finalisation:
  assumes "modest d" and "0 < sells + buys" and "sells + buys \<le> 10 ^ 6"
  shows "exchange_weights d W_sell_intention \<le> exchange_sell_weight d \<and>
    exchange_weights d W_buy_intention \<le> exchange_buy_weight d \<and>
    (\<forall>W \<in> {W_on_finalize, W_on_finalize_buys_no_matches, W_on_finalize_sells_no_matches}.
       exchange_weights d (W (sells + buys)) \<le>
         sells * (exchange_sell_weight d - exchange_weights d W_sell_intention) +
         buys * (exchange_buy_weight d - exchange_weights d W_buy_intention) + exchange_on_initialize d)"
  using intention_weight_le [OF assms(1)] calls_cover_finalisation [OF assms] by blast

end
