(* ===== verification/Runtime_Params.thy ===== *)
theory Runtime_Params
  imports Runtime_Config
begin

text \<open>
  The \<open>parameter_types\<close> and origins that \<open>src/runtime/src/lib.rs\<close> gives to the staking, election
  and governance pallets, and the transactions the node signs itself. The pallets are outside
  the repository: of their origins only the rule they are configured with is modelled, and how a
  share of a collective is compared is a parameter. \<open>Perbill\<close> and the like are written as pairs
  of a numerator and a denominator.
\<close>

section \<open>Staking and elections\<close>

definition BlockHashCount :: nat where "BlockHashCount = 2400"
definition SS58Prefix :: u8 where "SS58Prefix = 63"
definition MinimumPeriod :: nat where "MinimumPeriod = SLOT_DURATION div 2"

definition SessionsPerEra :: nat where "SessionsPerEra = 6"
definition BondingDuration :: nat where "BondingDuration = 28"
definition SlashDeferDuration :: nat where "SlashDeferDuration = 28 - 1"
definition MaxNominatorRewardedPerValidator :: nat where "MaxNominatorRewardedPerValidator = 64"
definition ElectionLookahead :: nat where "ElectionLookahead = EPOCH_DURATION_IN_BLOCKS div 4"
definition MaxIterations :: nat where "MaxIterations = 10"
definition MinSolutionScoreBump :: "nat \<times> nat" where "MinSolutionScoreBump = (5, 10000)"

definition SignedPhase :: nat where "SignedPhase = EPOCH_DURATION_IN_BLOCKS div 4"
definition UnsignedPhase :: nat where "UnsignedPhase = EPOCH_DURATION_IN_BLOCKS div 4"
definition MinerMaxIterations :: nat where "MinerMaxIterations = 10"

definition EpochDuration :: nat where "EpochDuration = EPOCH_DURATION_IN_BLOCKS"
definition ExpectedBlockTime :: nat where "ExpectedBlockTime = MILLISECS_PER_BLOCK"
definition ReportLongevity :: nat where "ReportLongevity = BondingDuration * SessionsPerEra * EpochDuration"
definition EPOCH_DURATION_IN_SLOTS :: nat where
  "EPOCH_DURATION_IN_SLOTS = EPOCH_DURATION_IN_BLOCKS * MILLISECS_PER_BLOCK div SLOT_DURATION"
definition SessionDuration :: nat where "SessionDuration = EPOCH_DURATION_IN_SLOTS"

definition ImOnlineUnsignedPriority :: nat where "ImOnlineUnsignedPriority = U64_MAX"
definition StakingUnsignedPriority :: nat where "StakingUnsignedPriority = U64_MAX div 2"
definition MultiPhaseUnsignedPriority :: nat where "MultiPhaseUnsignedPriority = StakingUnsignedPriority - 1"

section \<open>Governance\<close>

definition LaunchPeriod :: nat where "LaunchPeriod = 7 * DAYS"
definition VotingPeriod :: nat where "VotingPeriod = 7 * DAYS"
definition FastTrackVotingPeriod :: nat where "FastTrackVotingPeriod = 3 * HOURS"
definition MinimumDeposit :: balance where "MinimumDeposit = 1000 * DOLLARS"
definition EnactmentPeriod :: nat where "EnactmentPeriod = 6 * DAYS"
definition CooloffPeriod :: nat where "CooloffPeriod = 7 * DAYS"
definition PreimageByteDeposit :: balance where "PreimageByteDeposit = CENTS"
definition InstantAllowed :: bool where "InstantAllowed = True"
definition MaxVotes :: nat where "MaxVotes = 30"
definition MaxProposals :: nat where "MaxProposals = 30"

definition ProposalBond :: "nat \<times> nat" where "ProposalBond = (5, 100)"
definition ProposalBondMinimum :: balance where "ProposalBondMinimum = FORTUNE"
definition SpendPeriod :: nat where "SpendPeriod = DAYS"
definition Burn :: "nat \<times> nat" where "Burn = (0, 100)"
definition TreasuryPalletId :: string where "TreasuryPalletId = ''py/trsry''"

definition DataDepositPerByte :: balance where "DataDepositPerByte = CENTS"
definition TipCountdown :: nat where "TipCountdown = 4 * HOURS"
definition TipFindersFee :: "nat \<times> nat" where "TipFindersFee = (2, 100)"
definition TipReportDepositBase :: balance where "TipReportDepositBase = 10 * DOLLARS"
definition MaximumReasonLength :: nat where "MaximumReasonLength = 1024"

definition CandidacyBond :: balance where "CandidacyBond = 5000000 * DOLLARS"
definition VotingBondBase :: balance where "VotingBondBase = CENTS"
definition VotingBondFactor :: balance where "VotingBondFactor = CENTS"
definition TermDuration :: nat where "TermDuration = 7 * DAYS"
definition DesiredMembers :: nat where "DesiredMembers = 1"
definition DesiredRunnersUp :: nat where "DesiredRunnersUp = 0"

definition CouncilMotionDuration :: nat where "CouncilMotionDuration = 5 * DAYS"
definition CouncilMaxProposals :: nat where "CouncilMaxProposals = 20"
definition CouncilMaxMembers :: nat where "CouncilMaxMembers = 1"
definition TechnicalMotionDuration :: nat where "TechnicalMotionDuration = 7 * DAYS"
definition TechnicalMaxProposals :: nat where "TechnicalMaxProposals = 20"
definition TechnicalMaxMembers :: nat where "TechnicalMaxMembers = 10"

definition BasicDeposit :: balance where "BasicDeposit = 5 * DOLLARS"
definition FieldDeposit :: balance where "FieldDeposit = DOLLARS"
definition SubAccountDeposit :: balance where "SubAccountDeposit = 5 * DOLLARS"
definition MaxSubAccounts :: nat where "MaxSubAccounts = 100"

lemmas staking_params = BlockHashCount_def SS58Prefix_def MinimumPeriod_def SessionsPerEra_def BondingDuration_def
  SlashDeferDuration_def ElectionLookahead_def SignedPhase_def UnsignedPhase_def EpochDuration_def
  ExpectedBlockTime_def ReportLongevity_def EPOCH_DURATION_IN_SLOTS_def SessionDuration_def
  ImOnlineUnsignedPriority_def StakingUnsignedPriority_def MultiPhaseUnsignedPriority_def

lemmas governance_params = LaunchPeriod_def VotingPeriod_def FastTrackVotingPeriod_def EnactmentPeriod_def
  CooloffPeriod_def ProposalBondMinimum_def SpendPeriod_def CandidacyBond_def TermDuration_def
  CouncilMotionDuration_def TechnicalMotionDuration_def

section \<open>Origins\<close>

datatype collective = CouncilCollective | TechnicalCollective

datatype origin_rule =
    EnsureRoot
  | EnsureMember collective
  | EnsureProportionAtLeast nat nat collective
  | EnsureProportionMoreThan nat nat collective
  | EnsureOneOf origin_rule origin_rule

text \<open>Root, a single member of a collective, or a motion that so many of so many members carried.\<close>

datatype governance_origin = RootOrigin | MemberOrigin collective | MembersOrigin collective nat nat

record proportion_ops =
  proportion_at_least :: "nat \<Rightarrow> nat \<Rightarrow> nat \<Rightarrow> nat \<Rightarrow> bool"
  proportion_more_than :: "nat \<Rightarrow> nat \<Rightarrow> nat \<Rightarrow> nat \<Rightarrow> bool"

fun admits :: "proportion_ops \<Rightarrow> origin_rule \<Rightarrow> governance_origin \<Rightarrow> bool" where
  "admits P EnsureRoot orig = (orig = RootOrigin)"
| "admits P (EnsureMember c) orig = (orig = MemberOrigin c)"
| "admits P (EnsureProportionAtLeast n d c) orig =
     (case orig of MembersOrigin c' yes seats \<Rightarrow> c' = c \<and> proportion_at_least P n d yes seats | _ \<Rightarrow> False)"
| "admits P (EnsureProportionMoreThan n d c) orig =
     (case orig of MembersOrigin c' yes seats \<Rightarrow> c' = c \<and> proportion_more_than P n d yes seats | _ \<Rightarrow> False)"
| "admits P (EnsureOneOf r r') orig = (admits P r orig \<or> admits P r' orig)"

definition EnsureRootOrHalfCouncil :: origin_rule where
  "EnsureRootOrHalfCouncil = EnsureOneOf EnsureRoot (EnsureProportionMoreThan 1 2 CouncilCollective)"
definition SlashCancelOrigin :: origin_rule where
  "SlashCancelOrigin = EnsureOneOf EnsureRoot (EnsureMember CouncilCollective)"
definition ExternalOrigin :: origin_rule where
  "ExternalOrigin = EnsureOneOf (EnsureProportionAtLeast 1 1 CouncilCollective) EnsureRoot"
definition ExternalMajorityOrigin :: origin_rule where
  "ExternalMajorityOrigin = EnsureOneOf (EnsureProportionAtLeast 2 3 CouncilCollective) EnsureRoot"
definition ExternalDefaultOrigin :: origin_rule where
  "ExternalDefaultOrigin = EnsureOneOf (EnsureProportionAtLeast 1 1 CouncilCollective) EnsureRoot"
definition FastTrackOrigin :: origin_rule where
  "FastTrackOrigin = EnsureOneOf (EnsureProportionAtLeast 2 3 TechnicalCollective) EnsureRoot"
definition InstantOrigin :: origin_rule where
  "InstantOrigin = EnsureOneOf (EnsureProportionAtLeast 1 1 TechnicalCollective) EnsureRoot"
definition CancellationOrigin :: origin_rule where
  "CancellationOrigin = EnsureOneOf (EnsureProportionAtLeast 2 3 CouncilCollective) EnsureRoot"
definition CancelProposalOrigin :: origin_rule where
  "CancelProposalOrigin = EnsureOneOf (EnsureProportionAtLeast 1 1 TechnicalCollective) EnsureRoot"
definition BlacklistOrigin :: origin_rule where "BlacklistOrigin = EnsureRoot"
definition VetoOrigin :: origin_rule where "VetoOrigin = EnsureMember TechnicalCollective"
definition OperationalPreimageOrigin :: origin_rule where "OperationalPreimageOrigin = EnsureMember CouncilCollective"
definition ManageOrigin :: origin_rule where
  "ManageOrigin = EnsureOneOf EnsureRoot (EnsureProportionAtLeast 1 1 CouncilCollective)"

lemmas origin_rules = EnsureRootOrHalfCouncil_def SlashCancelOrigin_def ExternalOrigin_def ExternalMajorityOrigin_def
  ExternalDefaultOrigin_def FastTrackOrigin_def InstantOrigin_def CancellationOrigin_def CancelProposalOrigin_def
  BlacklistOrigin_def VetoOrigin_def OperationalPreimageOrigin_def ManageOrigin_def

section \<open>Transactions of the node\<close>

text \<open>
  \<open>create_transaction\<close>: the mortal era, the payload and the signature come from the framework. Of
  the signed extensions those with no content are left out.
\<close>

record 'era signed_extra =
  check_era :: 'era
  check_nonce :: u32
  charge_tip :: balance

record ('call, 'pub, 'acc, 'era, 'payload, 'signature) signer_ops =
  era_mortal :: "nat \<Rightarrow> nat \<Rightarrow> 'era"
  payload_new :: "'call \<Rightarrow> 'era signed_extra \<Rightarrow> string + 'payload"
  sign_payload :: "'payload \<Rightarrow> 'pub \<Rightarrow> 'signature option"
  payload_deconstruct :: "'payload \<Rightarrow> 'call \<times> 'era signed_extra"
  unlookup :: "'acc \<Rightarrow> 'acc"

text \<open>\<open>checked_next_power_of_two\<close> on \<open>u32\<close>: the smallest power of two that is not below the number.\<close>

function power_from :: "nat \<Rightarrow> nat \<Rightarrow> nat" where
  "power_from p n = (if p < n \<and> 0 < p then power_from (2 * p) n else p)"
  by pat_completeness auto

termination
  by (relation "measure (\<lambda>(p, n). n - p)") auto

declare power_from.simps [simp del]

definition checked_next_power_of_two :: "nat \<Rightarrow> nat option" where
  "checked_next_power_of_two n = (let p = power_from 1 n in if p < 2 ^ 32 then Some p else None)"

definition era_period :: nat where
  "era_period = (case map_option (\<lambda>c. c div 2) (checked_next_power_of_two BlockHashCount) of Some p \<Rightarrow> p | None \<Rightarrow> 2)"

definition create_transaction ::
  "('call, 'pub, 'acc, 'era, 'payload, 'signature) signer_ops \<Rightarrow> nat \<Rightarrow> 'call \<Rightarrow> 'pub \<Rightarrow> 'acc \<Rightarrow> u32 \<Rightarrow>
   ('call \<times> 'acc \<times> 'signature \<times> 'era signed_extra) option" where
  "create_transaction ops block_number call public acct nonce =
     (let tip = 0;
          current_block = block_number - 1;
          era = era_mortal ops era_period current_block;
          extra = \<lparr>check_era = era, check_nonce = nonce, charge_tip = tip\<rparr>
      in case payload_new ops call extra of
           Inl _ \<Rightarrow> None
         | Inr raw_payload \<Rightarrow>
             (case sign_payload ops raw_payload public of
                None \<Rightarrow> None
              | Some signature \<Rightarrow>
                  (let address = unlookup ops acct;
                       (call, extra) = payload_deconstruct ops raw_payload
                   in Some (call, address, signature, extra))))"

section \<open>Properties\<close>

lemma era_period: "era_period = 2048"
proof -
  have "power_from 1 2400 = 4096" by (simp add: power_from.simps)
  then show ?thesis by (simp add: era_period_def checked_next_power_of_two_def BlockHashCount_def)
qed

text \<open>The schedule the runtime configures fits together. An era is exactly a day, funds stay bonded
  and reports stay admissible for exactly 28 days, slashes are applied before the bond is
  released, the two phases of an election take a quarter of a session each, blocks are expected
  as often as slots, the heartbeat, staking and election transactions are prioritised in this
  order, and the transactions of the node live for the largest power of two of blocks whose
  hashes are kept.\<close>

theorem runtime_schedule:
  "SessionsPerEra * EpochDuration = DAYS \<and> BondingDuration * (SessionsPerEra * EpochDuration) = 28 * DAYS \<and>
   ReportLongevity = 28 * DAYS \<and> SlashDeferDuration < BondingDuration \<and>
   4 * SignedPhase = EpochDuration \<and> 4 * UnsignedPhase = EpochDuration \<and> ElectionLookahead = SignedPhase \<and>
   SessionDuration = EpochDuration \<and> ExpectedBlockTime = 2 * MinimumPeriod \<and>
   MultiPhaseUnsignedPriority < StakingUnsignedPriority \<and> StakingUnsignedPriority < ImOnlineUnsignedPriority \<and>
   ReportLongevity < 2 ^ 32 \<and>
   (\<exists>k. era_period = 2 ^ k) \<and> era_period \<le> BlockHashCount \<and> BlockHashCount < 2 * era_period"
proof -
  have "era_period = 2 ^ 11" by (simp add: era_period)
  then show ?thesis
    by (intro conjI exI [of _ "11 :: nat"]) (simp_all add: staking_params time_constants U64_MAX_def)
qed

text \<open>Who may do what in the governance of the runtime. Opposed by one member, a straight majority
  of the council can neither table a motion nor approve a treasury spend, for both ask for all
  of it; a single council member can cancel a slash; two thirds of the technical committee fast
  track; root is refused only where members act alone. Assumed of the collectives: a share is
  compared by cross-multiplication.\<close>

theorem governance_origins:
  assumes "\<And>n d yes seats. proportion_at_least P n d yes seats \<longleftrightarrow> n * seats \<le> yes * d"
    and "\<And>n d yes seats. proportion_more_than P n d yes seats \<longleftrightarrow> n * seats < yes * d"
  shows "(\<forall>r\<in>{ExternalOrigin, ExternalDefaultOrigin, ManageOrigin}. \<forall>yes seats.
      admits P r (MembersOrigin CouncilCollective yes seats) \<longleftrightarrow> seats \<le> yes) \<and>
    admits P SlashCancelOrigin (MemberOrigin CouncilCollective) \<and>
    (\<forall>yes seats. admits P FastTrackOrigin (MembersOrigin TechnicalCollective yes seats) \<longleftrightarrow> 2 * seats \<le> 3 * yes) \<and>
    (\<forall>yes seats. admits P InstantOrigin (MembersOrigin TechnicalCollective yes seats) \<longrightarrow>
       admits P FastTrackOrigin (MembersOrigin TechnicalCollective yes seats)) \<and>
    (\<forall>r\<in>{EnsureRootOrHalfCouncil, SlashCancelOrigin, ExternalOrigin, ExternalMajorityOrigin, ExternalDefaultOrigin,
        FastTrackOrigin, InstantOrigin, CancellationOrigin, CancelProposalOrigin, BlacklistOrigin, ManageOrigin}.
      admits P r RootOrigin) \<and>
    \<not> admits P VetoOrigin RootOrigin \<and> \<not> admits P OperationalPreimageOrigin RootOrigin"
  using assms by (auto simp: origin_rules)

theorem governance_origins_witness:
  "\<not> admits \<lparr>proportion_at_least = (\<lambda>n d yes seats. n * seats \<le> yes * d),
       proportion_more_than = (\<lambda>n d yes seats. n * seats < yes * d)\<rparr>
     ExternalOrigin (MembersOrigin CouncilCollective 7 8)"
  using governance_origins [of "\<lparr>proportion_at_least = (\<lambda>n d yes seats. n * seats \<le> yes * d),
       proportion_more_than = (\<lambda>n d yes seats. n * seats < yes * d)\<rparr>"]
  by simp

end
