(* ===== verification/Block_Weights.thy ===== *)
theory Block_Weights
  imports Weights Runtime_Params
begin

text \<open>
  The limits of a block and the parameters of the transaction fee in \<open>src/runtime/src/lib.rs\<close>, and
  what they admit: a block filled with exchange calls can be finalised within its weight. The
  constants, the builder and the fixed-point numbers of the framework are parameters.
\<close>

section \<open>Limits of a block\<close>

datatype dispatch_class = Normal | Operational | Mandatory

record class_limits =
  base_extrinsic :: weight
  max_total :: "weight option"
  reserved_total :: "weight option"

text \<open>What the runtime takes from the framework: the builder of the limits with its methods, \<open>build\<close>
  being None where \<open>build_or_panic\<close> panics, the limits a builder and its product hold for a class,
  \<open>max_with_normal_ratio\<close>, the product of a share with a weight (at most the weight, so that what
  is reserved is positive), and three constants.\<close>

record ('b, 'w, 'len) weight_constants =
  WEIGHT_PER_SECOND :: weight
  BlockExecutionWeight :: weight
  base_weight :: weight
  share_of :: "nat \<times> nat \<Rightarrow> weight \<Rightarrow> weight"
  builder :: 'b
  with_base_block :: "weight \<Rightarrow> 'b \<Rightarrow> 'b"
  for_class :: "dispatch_class list \<Rightarrow> (class_limits \<Rightarrow> class_limits) \<Rightarrow> 'b \<Rightarrow> 'b"
  avg_block_initialization :: "nat \<times> nat \<Rightarrow> 'b \<Rightarrow> 'b"
  build :: "'b \<Rightarrow> 'w option"
  pending_limits :: "'b \<Rightarrow> dispatch_class \<Rightarrow> class_limits"
  limits_of :: "'w \<Rightarrow> dispatch_class \<Rightarrow> class_limits"
  max_with_normal_ratio :: "nat \<Rightarrow> nat \<times> nat \<Rightarrow> 'len"

text \<open>The contract of the builder: \<open>for_class\<close> changes exactly the named classes, the other methods no
  class, and what is built has the total and the base weight that were set.\<close>

definition builder_laws :: "('b, 'w, 'len) weight_constants \<Rightarrow> bool" where
  "builder_laws c \<longleftrightarrow>
     (\<forall>n b. pending_limits c (with_base_block c n b) = pending_limits c b) \<and>
     (\<forall>r b. pending_limits c (avg_block_initialization c r b) = pending_limits c b) \<and>
     (\<forall>ks f b k. pending_limits c (for_class c ks f b) k =
        (if k \<in> set ks then f (pending_limits c b k) else pending_limits c b k)) \<and>
     (\<forall>b w k. build c b = Some w \<longrightarrow> max_total (limits_of c w k) = max_total (pending_limits c b k) \<and>
        base_extrinsic (limits_of c w k) = base_extrinsic (pending_limits c b k))"

definition AVERAGE_ON_INITIALIZE_RATIO :: "nat \<times> nat" where "AVERAGE_ON_INITIALIZE_RATIO = (25, 1000)"
definition NORMAL_DISPATCH_RATIO :: "nat \<times> nat" where "NORMAL_DISPATCH_RATIO = (75, 100)"

definition MAXIMUM_BLOCK_WEIGHT :: "('b, 'w, 'len) weight_constants \<Rightarrow> weight" where
  "MAXIMUM_BLOCK_WEIGHT c = 2 * WEIGHT_PER_SECOND c"

definition BlockLength :: "('b, 'w, 'len) weight_constants \<Rightarrow> 'len" where
  "BlockLength c = max_with_normal_ratio c (5 * 1024 * 1024) NORMAL_DISPATCH_RATIO"

definition ExtrinsicPaymentExtraWeight :: "db_weight \<Rightarrow> weight" where
  "ExtrinsicPaymentExtraWeight d = payment_weights d W_swap_currency"

definition ExtrinsicBaseWeight :: "('b, 'w, 'len) weight_constants \<Rightarrow> db_weight \<Rightarrow> weight" where
  "ExtrinsicBaseWeight c d = (base_weight c + ExtrinsicPaymentExtraWeight d) mod (U64_MAX + 1)"

definition BlockWeights :: "('b, 'w, 'len) weight_constants \<Rightarrow> db_weight \<Rightarrow> dispatch_error + 'w" where
  "BlockWeights c d =
     (let b = with_base_block c (BlockExecutionWeight c) (builder c);
          b = for_class c [Normal, Operational, Mandatory] (\<lambda>weights. weights\<lparr>base_extrinsic := ExtrinsicBaseWeight c d\<rparr>) b;
          b = for_class c [Normal] (\<lambda>weights. weights\<lparr>max_total :=
                Some (share_of c NORMAL_DISPATCH_RATIO (MAXIMUM_BLOCK_WEIGHT c))\<rparr>) b;
          b = for_class c [Operational] (\<lambda>weights. weights\<lparr>max_total := Some (MAXIMUM_BLOCK_WEIGHT c), reserved_total :=
                Some (MAXIMUM_BLOCK_WEIGHT c - share_of c NORMAL_DISPATCH_RATIO (MAXIMUM_BLOCK_WEIGHT c))\<rparr>) b;
          b = avg_block_initialization c AVERAGE_ON_INITIALIZE_RATIO b
      in case build c b of Some w \<Rightarrow> Inr w | None \<Rightarrow> Inl (Panic ''Invalid BlockWeights.''))"

section \<open>Parameters of the fee\<close>

text \<open>Shares and multipliers are pairs of a numerator and a denominator.\<close>

definition TransactionByteFee :: balance where "TransactionByteFee = 1"
definition TargetBlockFullness :: "nat \<times> nat" where "TargetBlockFullness = (25, 100)"
definition AdjustmentVariable :: "nat \<times> nat" where "AdjustmentVariable = (1, 100000)"
definition MinimumMultiplier :: "nat \<times> nat" where "MinimumMultiplier = (1, 1000000000)"
definition MaxAdditionalFields :: nat where "MaxAdditionalFields = 100"
definition MaxRegistrars :: nat where "MaxRegistrars = 20"
definition ExistentialDeposits :: "asset_id \<Rightarrow> balance" where "ExistentialDeposits currency_id = 0"

section \<open>Lemmas\<close>

text \<open>The framework adds a call to a block when the limit of its class covers what the class has used.\<close>

definition exchange_calls_fit :: "db_weight \<Rightarrow> class_limits \<Rightarrow> nat \<Rightarrow> nat \<Rightarrow> bool" where
  "exchange_calls_fit d l sells buys =
     (case max_total l of
        None \<Rightarrow> True
      | Some m \<Rightarrow> sells * (exchange_sell_weight d + base_extrinsic l) + buys * (exchange_buy_weight d + base_extrinsic l) \<le> m)"

lemma normal_limits:
  assumes "builder_laws c" and "BlockWeights c d = Inr w"
  shows "base_extrinsic (limits_of c w Normal) = ExtrinsicBaseWeight c d"
    and "max_total (limits_of c w Normal) = Some (share_of c NORMAL_DISPATCH_RATIO (MAXIMUM_BLOCK_WEIGHT c))"
  using assms by (simp_all add: builder_laws_def BlockWeights_def AVERAGE_ON_INITIALIZE_RATIO_def Let_def split: option.splits)

lemma extrinsic_base_weight:
  assumes "modest d" and "base_weight c \<le> 10 ^ 15"
  shows "132983000 \<le> ExtrinsicBaseWeight c d"
proof -
  have d: "db_read d \<le> 10 ^ 9" "db_write d \<le> 10 ^ 9" using assms(1) by (simp_all add: modest_def)
  then have "ExtrinsicBaseWeight c d = base_weight c + (132983000 + 6 * db_read d + 4 * db_write d)"
    using assms by (simp add: ExtrinsicBaseWeight_def ExtrinsicPaymentExtraWeight_def call_weight_linear U64_MAX_def)
  then show ?thesis by simp
qed

lemma exchange_call_heavy:
  "modest d \<Longrightarrow> 261813000 \<le> exchange_sell_weight d" "modest d \<Longrightarrow> 261813000 \<le> exchange_buy_weight d"
  "modest d \<Longrightarrow> exchange_on_initialize d \<le> 2 * 10 ^ 9"
  by (simp_all add: call_weights modest_def)

section \<open>Properties\<close>

text \<open>C39: a block filled with exchange calls can be finalised. However many sells and buys the normal
  share of a block admits, they are fewer than 3800, and their registration together with the
  finalisation of all their intentions, matched or not, stays below that share and the weight
  announced by \<open>on_initialize\<close>, and so below the limit of the block. Assumed of the framework: the
  builder keeps its contract, a second is a trillion units of weight, three quarters of two seconds are computed exactly, and
  the base weight is at most a quadrillion units.\<close>

theorem full_block_finalises:
  assumes "modest d" and "builder_laws c" and "WEIGHT_PER_SECOND c = 10 ^ 12" and "base_weight c \<le> 10 ^ 15"
    and "share_of c (75, 100) (2 * 10 ^ 12) = 15 * 10 ^ 11"
    and "BlockWeights c d = Inr w" and "exchange_calls_fit d (limits_of c w Normal) sells buys" and "0 < sells + buys"
    and "W \<in> {W_on_finalize, W_on_finalize_buys_no_matches, W_on_finalize_sells_no_matches}"
  shows "sells + buys < 3800 \<and>
    sells * exchange_weights d W_sell_intention + buys * exchange_weights d W_buy_intention +
      exchange_weights d (W (sells + buys)) \<le> 15 * 10 ^ 11 + exchange_on_initialize d \<and>
    15 * 10 ^ 11 + exchange_on_initialize d < MAXIMUM_BLOCK_WEIGHT c"
proof -
  define base where "base = ExtrinsicBaseWeight c d"
  have fit: "sells * (exchange_sell_weight d + base) + buys * (exchange_buy_weight d + base) \<le> 15 * 10 ^ 11"
    using assms(3,5,7) normal_limits [OF assms(2,6)]
    by (simp add: exchange_calls_fit_def base_def MAXIMUM_BLOCK_WEIGHT_def NORMAL_DISPATCH_RATIO_def)
  have "394796000 \<le> exchange_sell_weight d + base" "394796000 \<le> exchange_buy_weight d + base"
    using exchange_call_heavy [OF assms(1)] extrinsic_base_weight [OF assms(1,4)] by (simp_all add: base_def)
  then have "(sells + buys) * 394796000 \<le> 15 * 10 ^ 11"
    using fit by (auto simp: add_mult_distrib intro: order_trans [OF add_mono [OF mult_le_mono2 mult_le_mono2]])
  then have few: "sells + buys < 3800" by simp
  then have few': "sells + buys \<le> 10 ^ 6" by simp
  have "sells * exchange_weights d W_sell_intention + buys * exchange_weights d W_buy_intention +
      exchange_weights d (W (sells + buys)) \<le>
      sells * exchange_sell_weight d + buys * exchange_buy_weight d + exchange_on_initialize d"
    using calls_cover_finalisation [OF assms(1,8) few' assms(9)]
      intention_weight_le(1) [OF assms(1), THEN mult_le_mono2, of sells]
      intention_weight_le(2) [OF assms(1), THEN mult_le_mono2, of buys]
    unfolding diff_mult_distrib2 by linarith
  also have "\<dots> \<le> 15 * 10 ^ 11 + exchange_on_initialize d"
    using fit by (simp add: add_mult_distrib2)
  finally show ?thesis
    using few exchange_call_heavy(3) [OF assms(1)] assms(3) by (simp add: MAXIMUM_BLOCK_WEIGHT_def)
qed

text \<open>The constants of the framework, and a block of 300 sells and 200 buys.\<close>

definition node_costs :: db_weight where
  "node_costs = \<lparr>db_read = 25000000, db_write = 100000000\<rparr>"

definition node_constants :: "(dispatch_class \<Rightarrow> class_limits, dispatch_class \<Rightarrow> class_limits, nat \<times> nat \<times> nat) weight_constants" where
  "node_constants = \<lparr>WEIGHT_PER_SECOND = 10 ^ 12, BlockExecutionWeight = 5000000000, base_weight = 125000000,
     share_of = (\<lambda>(n, d) w. w * n div d),
     builder = (\<lambda>k. \<lparr>base_extrinsic = 0, max_total = None, reserved_total = None\<rparr>),
     with_base_block = (\<lambda>_ b. b), for_class = (\<lambda>ks f b k. if k \<in> set ks then f (b k) else b k),
     avg_block_initialization = (\<lambda>_ b. b), build = Some, pending_limits = id, limits_of = id,
     max_with_normal_ratio = (\<lambda>n r. (n, r))\<rparr>"

theorem full_block_finalises_witness:
  "\<exists>w. BlockWeights node_constants node_costs = Inr w \<and> exchange_calls_fit node_costs (limits_of node_constants w Normal) 300 200 \<and>
     300 * exchange_weights node_costs W_sell_intention + 200 * exchange_weights node_costs W_buy_intention +
       exchange_weights node_costs (W_on_finalize (300 + 200)) \<le> 15 * 10 ^ 11 + exchange_on_initialize node_costs"
proof -
  have modest: "modest node_costs" by (simp add: modest_def node_costs_def)
  have laws: "builder_laws node_constants" by (simp add: builder_laws_def node_constants_def)
  have base: "ExtrinsicBaseWeight node_constants node_costs = 807983000"
    by (simp add: ExtrinsicBaseWeight_def ExtrinsicPaymentExtraWeight_def call_weight_linear [OF modest])
      (simp add: node_constants_def node_costs_def U64_MAX_def)
  have share: "share_of node_constants NORMAL_DISPATCH_RATIO (MAXIMUM_BLOCK_WEIGHT node_constants) = 15 * 10 ^ 11"
    by (simp add: node_constants_def NORMAL_DISPATCH_RATIO_def MAXIMUM_BLOCK_WEIGHT_def)
  have "\<exists>w. BlockWeights node_constants node_costs = Inr w"
    by (simp add: BlockWeights_def Let_def) (simp add: node_constants_def)
  then obtain w where w: "BlockWeights node_constants node_costs = Inr w" ..
  have fit: "exchange_calls_fit node_costs (limits_of node_constants w Normal) 300 200"
    unfolding exchange_calls_fit_def normal_limits [OF laws w]
    by (simp add: base share call_weights [OF modest]) (simp add: node_costs_def)
  have "share_of node_constants (75, 100) (2 * 10 ^ 12) = 15 * 10 ^ 11" by (simp add: node_constants_def)
  from full_block_finalises [OF modest laws _ _ this w fit, of W_on_finalize] w fit
  show ?thesis by (intro exI [of _ w]) (simp add: node_constants_def del: exchange_weights.simps)
qed

end
