(* ===== verification/Spec2Isabelle.thy ===== *)
theory Spec2Isabelle
  imports Balances_Dust Balances_Runs XYK_Discount Exchange_Overpay Exchange_Limits Exchange_Queues Genesis Payment_Market Ledger_Refinement Primitives_Props
    Runtime_Api Block_Weights
begin

text \<open>
  A verification development for the HydraDX node: the pallets of a Substrate chain with a
  constant-product market maker, an exchange that matches orders within a block, claims for
  Ethereum holders, and transaction fees in several currencies.

  \<^bold>\<open>Parts and how they interact.\<close> The runtime (\<open>src/runtime\<close>) composes the pallets. All funds live in
  a multi-currency, whose native asset (identifier 0) is the balances pallet. The XYK pallet
  keeps one pool account per unordered pair of assets and asks the asset registry for the share
  token of a pool. The exchange pallet queues intentions during a block and resolves them when
  the block is finalised, by direct trades between accounts or by trades with its market maker,
  which is the XYK pallet. The multi-payment pallet charges transaction fees and buys the native
  asset for them from the XYK pallet. The claims pallet issues native balances, the faucet mints
  test assets. The node (\<open>src/node\<close>) starts a chain from a specification, which fixes the genesis
  of every pallet, and answers queries through the runtime API.

  \<^bold>\<open>Theories.\<close>
  \<^item> \<open>Prelude\<close>, \<open>Runtime_Types\<close>: machine integers with checked, saturating and wrapping
    operations, results of fallible and of stateful calls, \<open>transactional\<close>, the error types of
    all pallets, origins, and events.
  \<^item> \<open>Primitives\<close>, \<open>Asset_Registry\<close>, \<open>Primitives_Props\<close>: \<open>src/primitives/src\<close> (constants, asset
    pairs, intentions, fee arithmetic, the \<open>AMM\<close> trait as the record \<open>amm_ops\<close> with its two
    default methods) and \<open>src/pallets/asset-registry\<close>. Fees are consistent and bounded, names
    and identifiers are one to one.
  \<^item> \<open>Balances_Base\<close>, \<open>Balances_Ops\<close>: \<open>src/pallets/balances/src/lib.rs\<close>, every function of the
    pallet over the record \<open>balances_state\<close> (account store, total issuance, locks, events).
    \<open>Balances_Laws\<close>: the effect of every operation, from the contract of the framework's account
    store (locales \<open>stored_map\<close>, \<open>stored_accounts\<close>, \<open>accepting_accounts\<close>, interpreted on the
    pallet's own map). \<open>Balances_Invariant\<close>, \<open>Balances_Props\<close>: transfers, slashes, reservations, locks
    and genesis, and what each keeps of the invariant that holdings add up to the issuance.
    \<open>Balances_Runs\<close>: the invariant over every run of operations that satisfies the explicit
    condition \<open>sound_run\<close> (room in the issuance for what is created, and with an existential
    deposit no live account set below it), and the underflow of \<open>burn_from\<close> outside of it.
    \<open>Balances_Dust\<close> (locale \<open>dust_handler\<close>): nothing is lost when the handler of dust calls the
    pallet again.
  \<^item> \<open>Multi_Currency\<close>: the operations the trading pallets call, their contract (locales
    \<open>multi_currency\<close>, \<open>lockable_currency\<close>, which says when an operation succeeds given what is
    locked, and \<open>liquid_currency\<close>, where nothing is) and its realisation by one balances pallet per
    asset. \<open>Ledger_Refinement\<close>: the abstract ledger with locks and the refinement of it by the
    balances pallet without an existential deposit.
  \<^item> \<open>XYK\<close>: \<open>src/pallets/xyk/src/lib.rs\<close>, the five calls and the \<open>AMM\<close> implementation over
    \<open>xyk_state\<close> (currencies, registry, share tokens, liquidity, pool assets). \<open>XYK_Laws\<close>,
    \<open>XYK_Invariant\<close>, \<open>XYK_Props\<close> (locales \<open>xyk_pallet\<close>, \<open>xyk_pools\<close>, \<open>xyk_lockable\<close>, \<open>xyk_liquid\<close>):
    a buy never lowers the product of the reserves, a sell only by the rounding of its price where
    the fee does not make up for it (and then it does), shares are the recorded liquidity,
    redeeming is fair, a pool lives until its whole liquidity is redeemed, and a validated trade
    executes exactly when its payments leave what is locked untouched. \<open>XYK_Discount\<close>: a discounted
    buy in the native asset costs more than its limit covers.
  \<^item> \<open>Exchange\<close>: \<open>src/pallets/exchange/src/lib.rs\<close> and \<open>direct.rs\<close>, registration, sorting and
    matching, resolution, direct trades with their preparation and revert, the finalisation hook.
    \<open>Exchange_Laws\<close>, \<open>Exchange_Direct\<close> (locales \<open>direct_trades\<close>, \<open>exchange_pallet\<close>,
    \<open>lockable_trades\<close>, \<open>liquid_trades\<close>) and \<open>Exchange_Market\<close> (the exchange over the XYK pallet): finalisation
    conserves funds, direct trades funded beyond what is locked complete exactly (\<open>Exchange_Props\<close>); the cases in which
    the code does not do what it means to (\<open>Exchange_Faults\<close>, \<open>Exchange_Overpay\<close>); what the limit
    of an intention is worth, kept by the pool apart from the burnt fee of a discount but not by a direct
    trade (\<open>Exchange_Limits\<close>); the queues over the life of the chain, as a step relation: as long as
    the counters do not wrap finalisation leaves out no intention and, where every receiver can
    be paid, does not panic (\<open>Exchange_Queues\<close>, locale \<open>paying_exchange\<close>).
  \<^item> \<open>Claims\<close>, \<open>Claims_Props\<close>: \<open>src/pallets/claims/src\<close> with the signed messages, the signed
    extension and the migration: a claim is paid once and exactly.
  \<^item> \<open>Claims_Table_A\<close> to \<open>Claims_Table_D\<close>, \<open>Claims_Table\<close>: the 5486 rows of
    \<open>src/pallets/claims/src/claims_data.rs\<close>. \<open>Claims_Index\<close>: a search tree that certifies that no
    address occurs twice, and the sum of the rows, block by block. \<open>Claims_Import\<close>: the migration
    records exactly the table.
  \<^item> \<open>Chain_Spec\<close>: \<open>src/node/src/chain_spec.rs\<close> and the choice of a specification in
    \<open>src/node/src/command.rs\<close>. \<open>Genesis\<close>: every genesis configuration is consistent and accepted by
    the pallets, and the supply of the launched network is fixed to the last unit.
  \<^item> \<open>Faucet\<close>: \<open>src/pallets/faucet\<close> and \<open>src/pallets/genesis-history\<close>.
  \<^item> \<open>Multi_Payment\<close>, \<open>Multi_Payment_Props\<close>, \<open>Payment_Market\<close>:
    \<open>src/pallets/transaction-multi-payment/src/lib.rs\<close>, its lists of currencies and authorities
    (locale \<open>currency_set\<close> for the ordered set), and what fees cost over the balances and XYK
    pallets.
  \<^item> \<open>Weights\<close>, \<open>Runtime_Config\<close>, \<open>Runtime_Params\<close>: the weight functions of the pallets, the constants,
    the call filter and the vote conversion of the runtime, the parameters and origins of its
    staking and governance pallets, and the transactions the node signs. \<open>Block_Weights\<close>: the limits
    of a block; one filled with exchange calls is finalised within its weight.
  \<^item> \<open>Runtime_Api\<close>: the query for the reserves of a pool (\<open>src/pallets/xyk/rpc\<close>, \<open>src/runtime/src/lib.rs\<close>)
    with the text form of amounts: what a client decodes is what the pool holds.

  \<^bold>\<open>State and operations.\<close> A pallet's storage is a record with one field per storage item, and the
  state of what it calls; a map with a default value is a partial function with a getter. An
  operation takes the configuration of its pallet (the associated types and constants of its
  \<open>Config\<close>) as a record and returns the result with the new state. \<open>Err\<close> keeps the writes made
  before it unless the call is \<open>#[transactional]\<close>. A failing \<open>expect\<close>, \<open>unwrap\<close> or slice is the
  error \<open>Panic\<close>. A \<open>u128\<close> is a natural number whose operations write the width out; identifiers,
  counters and bytes are words.

  \<^bold>\<open>Parameters.\<close> Code outside the repository is an argument of the definitions: the account store,
  the origins and the lookup of the framework, the ORML currencies and ordered set, the
  mathematics crate of the pools, the hashes, the signature recovery and the hexadecimal codec,
  the iteration order of storage maps, the costs of a database access, the derivation of keys
  and the parsers of the node, the comparison of shares of a collective, the signer of
  transactions, and the client that runs the runtime for a query. What a theorem relies
  on of them is a named hypothesis (\<open>constant_product\<close>, \<open>collision_free\<close>, a locale predicate), and
  its witness instantiates them with concrete functions.

  \<^bold>\<open>Loops.\<close> No definition uses fuel. Loops over vectors are structural recursions; the loop that
  collects matching intentions and the loops that write a number in decimal terminate by the
  length of the rest and by the number. Bounds occur only in the weights: database costs up to a
  millisecond and up to a million intentions keep the \<open>u64\<close> sums from saturating, and a block
  admits fewer than 3800 intentions.

  \<^bold>\<open>Not modelled.\<close> The node's services, the dispatch of its subcommands and the assembly of its RPC
  server (input and output around third-party libraries), the specification stored as JSON, the
  reward curve of the runtime, the associated types of third-party
  pallets and the macro-generated glue, benchmarks, mocks and tests. The epoch length in slots is
  computed in the source with floating-point numbers whose ratio is one; it is modelled exactly.
\<close>

end
